(* ===== verification/Std_Model.thy ===== *)
theory Std_Model
  imports Prelude
begin

text \<open>
  The part of the Rust standard library that the modelled code uses on strings and paths.

  A \<^verbatim>\<open>String\<close> is the list of its UTF-8 bytes, so \<open>length\<close> is \<^verbatim>\<open>len()\<close>. A
  \<^verbatim>\<open>PathBuf\<close> is the string of its bytes too, with the Unix reading of
  \<^verbatim>\<open>components()\<close>; two paths are equal in Rust when their components are, and they are
  ordered by their components.
\<close>

section \<open>Bytes and ASCII classes\<close>

type_synonym bytes = "u8 list"

definition is_ascii_digit :: "char \<Rightarrow> bool" where
  "is_ascii_digit c \<longleftrightarrow> CHR ''0'' \<le> c \<and> c \<le> CHR ''9''"

definition is_ascii_lower :: "char \<Rightarrow> bool" where
  "is_ascii_lower c \<longleftrightarrow> CHR ''a'' \<le> c \<and> c \<le> CHR ''z''"

definition is_ascii_upper :: "char \<Rightarrow> bool" where
  "is_ascii_upper c \<longleftrightarrow> CHR ''A'' \<le> c \<and> c \<le> CHR ''Z''"

definition is_ascii_alphabetic :: "char \<Rightarrow> bool" where
  "is_ascii_alphabetic c \<longleftrightarrow> is_ascii_lower c \<or> is_ascii_upper c"

definition is_ascii_alphanumeric :: "char \<Rightarrow> bool" where
  "is_ascii_alphanumeric c \<longleftrightarrow> is_ascii_alphabetic c \<or> is_ascii_digit c"

definition is_lower_hex :: "char \<Rightarrow> bool" where
  "is_lower_hex c \<longleftrightarrow> is_ascii_digit c \<or> (CHR ''a'' \<le> c \<and> c \<le> CHR ''f'')"

definition to_ascii_lowercase_char :: "char \<Rightarrow> char" where
  "to_ascii_lowercase_char c = (if is_ascii_upper c then char_of (of_char c + (32 :: nat)) else c)"

definition to_ascii_lowercase :: "string \<Rightarrow> string" where
  "to_ascii_lowercase s = map to_ascii_lowercase_char s"

lemma is_ascii_upper_nat: "is_ascii_upper c \<longleftrightarrow> 65 \<le> (of_char c :: nat) \<and> (of_char c :: nat) \<le> 90"
  by (simp add: is_ascii_upper_def less_eq_char_def)

lemma of_char_to_ascii_lowercase_char:
  "(of_char (to_ascii_lowercase_char c) :: nat) =
     (if is_ascii_upper c then of_char c + 32 else of_char c)"
  by (simp add: to_ascii_lowercase_char_def is_ascii_upper_nat)

lemma to_ascii_lowercase_char_idem [simp]:
  "to_ascii_lowercase_char (to_ascii_lowercase_char c) = to_ascii_lowercase_char c"
proof -
  have "\<not> is_ascii_upper (to_ascii_lowercase_char c)"
    by (auto simp: is_ascii_upper_nat of_char_to_ascii_lowercase_char)
  then show ?thesis by (simp add: to_ascii_lowercase_char_def [of "to_ascii_lowercase_char c"])
qed

lemma to_ascii_lowercase_idem [simp]:
  "to_ascii_lowercase (to_ascii_lowercase s) = to_ascii_lowercase s"
  by (simp add: to_ascii_lowercase_def)

section \<open>Hexadecimal text\<close>

text \<open>The text of a byte under the format \<^verbatim>\<open>{byte:02x}\<close>, and the test for a digest.\<close>

definition hex_digit :: "nat \<Rightarrow> char" where
  "hex_digit n = (if n < 10 then char_of (48 + n) else char_of (87 + n))"

definition hex_byte :: "u8 \<Rightarrow> string" where
  "hex_byte b = [hex_digit (unat b div 16), hex_digit (unat b mod 16)]"

definition hex_lower :: "bytes \<Rightarrow> string" where
  "hex_lower bs = concat (map hex_byte bs)"

lemma is_lower_hex_digit: "n < 16 \<Longrightarrow> is_lower_hex (hex_digit n)"
  by (auto simp: is_lower_hex_def is_ascii_digit_def hex_digit_def less_eq_char_def)

lemma length_hex_lower: "length (hex_lower bs) = 2 * length bs"
  by (induction bs) (simp_all add: hex_lower_def hex_byte_def)

lemma list_all_hex_lower: "list_all is_lower_hex (hex_lower bs)"
proof (induction bs)
  case (Cons b bs)
  have "unat b < 256" using unsigned_less [of b] by simp
  then have "unat b div 16 < 16" by simp
  with Cons show ?case by (simp add: hex_lower_def hex_byte_def is_lower_hex_digit)
qed (simp add: hex_lower_def)

section \<open>Searching and trimming\<close>

definition starts_with :: "string \<Rightarrow> string \<Rightarrow> bool" where
  "starts_with p s \<longleftrightarrow> take (length p) s = p"

definition ends_with :: "string \<Rightarrow> string \<Rightarrow> bool" where
  "ends_with p s \<longleftrightarrow> starts_with (rev p) (rev s)"

fun split_once :: "char \<Rightarrow> string \<Rightarrow> (string \<times> string) option" where
  "split_once d [] = None"
| "split_once d (c # s) =
     (if c = d then Some ([], s)
      else case split_once d s of None \<Rightarrow> None | Some (a, b) \<Rightarrow> Some (c # a, b))"

lemma split_once_Some: "split_once d s = Some (a, b) \<Longrightarrow> s = a @ d # b \<and> d \<notin> set a"
  by (induction s arbitrary: a) (auto split: if_splits option.splits)

lemma split_once_None: "split_once d s = None \<longleftrightarrow> d \<notin> set s"
  by (induction s) (auto split: option.splits)

text \<open>The UTF-8 encodings of the characters with the Unicode property White-Space.\<close>

definition white_space :: "string list" where
  "white_space = map (map char_of)
     ([[9], [10], [11], [12], [13], [32], [194, 133], [194, 160], [225, 154, 128],
       [226, 128, 128], [226, 128, 129], [226, 128, 130], [226, 128, 131], [226, 128, 132],
       [226, 128, 133], [226, 128, 134], [226, 128, 135], [226, 128, 136], [226, 128, 137],
       [226, 128, 138], [226, 128, 168], [226, 128, 169], [226, 128, 175], [226, 129, 159],
       [227, 128, 128]] :: nat list list)"

definition leading_white :: "string list \<Rightarrow> string \<Rightarrow> nat" where
  "leading_white ws s = (case find (\<lambda>w. starts_with w s) ws of None \<Rightarrow> 0 | Some w \<Rightarrow> length w)"

function trim_with :: "string list \<Rightarrow> string \<Rightarrow> string" where
  "trim_with ws s = (if leading_white ws s = 0 \<or> s = [] then s
     else trim_with ws (drop (leading_white ws s) s))"
  by pat_completeness auto
termination
  by (relation "measure (\<lambda>(ws, s). length s)") auto

declare trim_with.simps [simp del]

definition trim_start :: "string \<Rightarrow> string" where
  "trim_start s = trim_with white_space s"

definition trim_end :: "string \<Rightarrow> string" where
  "trim_end s = rev (trim_with (map rev white_space) (rev s))"

definition trim :: "string \<Rightarrow> string" where
  "trim s = trim_end (trim_start s)"

lemma trim_with_length: "length (trim_with ws s) \<le> length s"
proof (induction ws s rule: trim_with.induct)
  case (1 ws s)
  show ?case
  proof (cases "leading_white ws s = 0 \<or> s = []")
    case True
    then show ?thesis by (simp add: trim_with.simps [of ws s])
  next
    case False
    with 1 have "length (trim_with ws (drop (leading_white ws s) s)) \<le> length (drop (leading_white ws s) s)"
      by blast
    also have "\<dots> \<le> length s" by simp
    finally show ?thesis using False by (simp add: trim_with.simps [of ws s])
  qed
qed

lemma trim_length: "length (trim s) \<le> length s"
  unfolding trim_def trim_end_def trim_start_def
  by (metis length_rev order_trans trim_with_length)

text \<open>
  A control character is one of U+0000 to U+001F, U+007F, and U+0080 to U+009F, which
  UTF-8 encodes as the byte C2 and one of 80 to 9F.
\<close>

fun has_control :: "string \<Rightarrow> bool" where
  "has_control [] = False"
| "has_control (c # s) =
     ((of_char c :: nat) < 32 \<or> of_char c = (127 :: nat)
      \<or> (of_char c = (194 :: nat)
          \<and> (case s of [] \<Rightarrow> False | d # _ \<Rightarrow> 128 \<le> (of_char d :: nat) \<and> of_char d < (160 :: nat)))
      \<or> has_control s)"

fun join :: "string \<Rightarrow> string list \<Rightarrow> string" where
  "join sep [] = []"
| "join sep [s] = s"
| "join sep (s # t # ss) = s @ sep @ join sep (t # ss)"

section \<open>Paths\<close>

datatype component = RootDir | CurDir | ParentDir | Normal string

fun split_slash :: "string \<Rightarrow> string list" where
  "split_slash [] = [[]]"
| "split_slash (c # s) =
     (if c = CHR ''/'' then [] # split_slash s
      else case split_slash s of [] \<Rightarrow> [[c]] | w # ws \<Rightarrow> (c # w) # ws)"

definition is_absolute :: "string \<Rightarrow> bool" where
  "is_absolute p \<longleftrightarrow> (case p of [] \<Rightarrow> False | c # _ \<Rightarrow> c = CHR ''/'')"

definition segment_component :: "string \<Rightarrow> component option" where
  "segment_component w =
     (if w = [] \<or> w = ''.'' then None
      else if w = ''..'' then Some ParentDir
      else Some (Normal w))"

text \<open>
  Empty and dot segments are dropped, save a dot that starts a relative path.
\<close>

definition components :: "string \<Rightarrow> component list" where
  "components p =
     (if is_absolute p then RootDir # List.map_filter segment_component (split_slash p)
      else case split_slash p of
          [] \<Rightarrow> []
        | w # ws \<Rightarrow> (if w = ''.'' then [CurDir] else List.map_filter segment_component [w])
                   @ List.map_filter segment_component ws)"

definition component_str :: "component \<Rightarrow> string" where
  "component_str c =
     (case c of RootDir \<Rightarrow> ''/'' | CurDir \<Rightarrow> ''.'' | ParentDir \<Rightarrow> ''..'' | Normal w \<Rightarrow> w)"

text \<open>\<^verbatim>\<open>PathBuf::push\<close> (and \<^verbatim>\<open>Path::join\<close>) on Unix.\<close>

definition path_push :: "string \<Rightarrow> string \<Rightarrow> string" where
  "path_push p q =
     (if is_absolute q then q
      else if p = [] \<or> last p = CHR ''/'' then p @ q
      else p @ ''/'' @ q)"

definition path_eq :: "string \<Rightarrow> string \<Rightarrow> bool" where
  "path_eq p q \<longleftrightarrow> components p = components q"

definition path_starts_with :: "string \<Rightarrow> string \<Rightarrow> bool" where
  "path_starts_with p base \<longleftrightarrow> take (length (components base)) (components p) = components base"

text \<open>The key by which Rust orders paths: the components, variants in declaration order.\<close>

definition component_key :: "component \<Rightarrow> nat \<times> string" where
  "component_key c = (case c of RootDir \<Rightarrow> (1, []) | CurDir \<Rightarrow> (2, [])
     | ParentDir \<Rightarrow> (3, []) | Normal w \<Rightarrow> (4, w))"

definition path_key :: "string \<Rightarrow> (nat \<times> string) list" where
  "path_key p = map component_key (components p)"

lemma component_key_inject [simp]: "component_key c = component_key d \<longleftrightarrow> c = d"
  by (auto simp: component_key_def split: component.splits)

lemma path_key_eq: "path_key p = path_key q \<longleftrightarrow> path_eq p q"
  unfolding path_key_def path_eq_def
  by (metis component_key_inject inj_onI inj_map_eq_map)

end
