(* ===== verification/Ids.thy ===== *)
theory Ids
  imports Std_Model
begin

text \<open>
  The identifiers of \<^verbatim>\<open>hyper-term-protocol/src/ids.rs\<close>: one newtype over a UUID per kind
  of object. A UUID is its 128 bits; the derived order of the source compares the bytes
  from the most significant one, which is the order of the words. The block identifier
  is the key of the projector's ordered map and of the document's sort order.
\<close>

type_synonym uuid = "128 word"

datatype artifact_id = ArtifactId uuid
datatype block_id = BlockId uuid
datatype client_id = ClientId uuid
datatype event_id = EventId uuid
datatype interaction_id = InteractionId uuid
datatype input_lease_id = InputLeaseId uuid
datatype operation_id = OperationId uuid
datatype request_id = RequestId uuid
datatype run_id = RunId uuid
datatype sandbox_lease_id = SandboxLeaseId uuid
datatype task_id = TaskId uuid
datatype terminal_id = TerminalId uuid
datatype terminal_attachment_id = TerminalAttachmentId uuid

primrec block_uuid :: "block_id \<Rightarrow> uuid" where
  "block_uuid (BlockId u) = u"

primrec task_uuid :: "task_id \<Rightarrow> uuid" where
  "task_uuid (TaskId u) = u"

primrec operation_uuid :: "operation_id \<Rightarrow> uuid" where
  "operation_uuid (OperationId u) = u"

primrec event_uuid :: "event_id \<Rightarrow> uuid" where
  "event_uuid (EventId u) = u"

primrec terminal_uuid :: "terminal_id \<Rightarrow> uuid" where
  "terminal_uuid (TerminalId u) = u"

primrec input_lease_uuid :: "input_lease_id \<Rightarrow> uuid" where
  "input_lease_uuid (InputLeaseId u) = u"

lemma block_uuid_inject: "block_uuid a = block_uuid b \<longleftrightarrow> a = b"
  by (cases a; cases b) simp

instantiation block_id :: linorder
begin

definition less_eq_block_id :: "block_id \<Rightarrow> block_id \<Rightarrow> bool" where
  "less_eq_block_id a b \<longleftrightarrow> block_uuid a \<le> block_uuid b"

definition less_block_id :: "block_id \<Rightarrow> block_id \<Rightarrow> bool" where
  "less_block_id a b \<longleftrightarrow> block_uuid a < block_uuid b"

instance
  by standard
    (auto simp: less_eq_block_id_def less_block_id_def simp flip: block_uuid_inject)

end

end
