(* ===== verification/Protocol_Sandbox.thy ===== *)
theory Protocol_Sandbox
  imports Ids
begin

text \<open>
  The contracts of \<^verbatim>\<open>hyper-term-protocol/src/sandbox.rs\<close>: digests, the sandbox profile
  with its policies, leases and receipts. Field names carry a prefix per record.
\<close>

section \<open>Actors\<close>

datatype actor = User | Agent (actor_adapter: string) | Policy | System

section \<open>Digests\<close>

text \<open>
  Every digest type of the source is the same checked newtype over a string; here it is one
  datatype per role with the parser shared.
\<close>

datatype digest_error = InvalidSha256

definition is_sha256 :: "string \<Rightarrow> bool" where
  "is_sha256 s \<longleftrightarrow> length s = 64 \<and> list_all is_lower_hex s"

definition parse_digest :: "(string \<Rightarrow> 'd) \<Rightarrow> string \<Rightarrow> digest_error + 'd" where
  "parse_digest mk s = (if length s \<noteq> 64 \<or> \<not> list_all is_lower_hex s then Inl InvalidSha256
     else Inr (mk s))"

datatype action_digest = ActionDigest string
datatype approval_detail_digest = ApprovalDetailDigest string
datatype context_digest = ContextDigest string
datatype environment_plan_digest = EnvironmentPlanDigest string
datatype mcp_arguments_digest = McpArgumentsDigest string
datatype mcp_capabilities_digest = McpCapabilitiesDigest string
datatype mcp_catalog_digest = McpCatalogDigest string
datatype mcp_runtime_identity_digest = McpRuntimeIdentityDigest string
datatype mcp_tool_contract_digest = McpToolContractDigest string
datatype mcp_tool_result_digest = McpToolResultDigest string
datatype sandbox_profile_digest = SandboxProfileDigest string

lemma parse_digest_Inr_iff: "parse_digest mk s = Inr d \<longleftrightarrow> is_sha256 s \<and> d = mk s"
  by (auto simp: parse_digest_def is_sha256_def)

lemma is_sha256_hex_lower: "length bs = 32 \<Longrightarrow> is_sha256 (hex_lower bs)"
  by (simp add: is_sha256_def length_hex_lower list_all_hex_lower)

section \<open>Profiles\<close>

datatype sandbox_enforcement = Native | IsolatedTask

datatype sandbox_backend_kind =
    MacOsSeatbelt | LimaVm | LinuxBubblewrap | WindowsRestrictedToken | TestOnlyUnenforced

datatype sandbox_path_access = Read | Write | Deny

record sandbox_path_rule =
  spr_path :: string
  spr_access :: sandbox_path_access

record sandbox_file_system_policy =
  sfp_rules :: "sandbox_path_rule list"

datatype sandbox_network_policy =
    Offline
  | ProxyOnly (proxy_url: string) (allowed_hosts: "string list") (allowed_unix_sockets: "string list")

record sandbox_environment_policy =
  sep_clear_inherited :: bool
  sep_variables :: "(string, string) btree"

definition default_environment_policy :: sandbox_environment_policy where
  "default_environment_policy = \<lparr>sep_clear_inherited = True, sep_variables = []\<rparr>"

record sandbox_process_policy =
  spp_allow_child_processes :: bool
  spp_allow_any_executable :: bool
  spp_allowed_executables :: "string list"

record sandbox_resource_limits =
  srl_wall_time_ms :: "u64 option"
  srl_max_processes :: "u32 option"
  srl_max_output_bytes :: "u64 option"

record sandbox_platform_policy =
  spl_macos_mach_services :: "string list"

definition platform_policy_is_empty :: "sandbox_platform_policy \<Rightarrow> bool" where
  "platform_policy_is_empty p \<longleftrightarrow> spl_macos_mach_services p = []"

datatype sandbox_lifetime = OneOperation | OneTask

record sandbox_profile =
  sp_enforcement :: sandbox_enforcement
  sp_filesystem :: sandbox_file_system_policy
  sp_network :: sandbox_network_policy
  sp_environment :: sandbox_environment_policy
  sp_platform :: sandbox_platform_policy
  sp_process :: sandbox_process_policy
  sp_resources :: sandbox_resource_limits
  sp_lifetime :: sandbox_lifetime

record compiled_sandbox_profile =
  csp_backend :: sandbox_backend_kind
  csp_enforced :: bool
  csp_profile :: sandbox_profile
  csp_profile_digest :: sandbox_profile_digest
  csp_action_digest :: action_digest

section \<open>Leases and receipts\<close>

record capability_lease =
  cl_lease_id :: sandbox_lease_id
  cl_operation_id :: operation_id
  cl_operation_revision :: u64
  cl_action_digest :: action_digest
  cl_profile_digest :: sandbox_profile_digest
  cl_actor :: actor
  cl_issued_at_ms :: u64
  cl_expires_at_ms :: u64
  cl_one_use :: bool

record execution_capability_lease =
  ecl_context_digest :: context_digest
  ecl_lease :: capability_lease

datatype sandbox_outcome = Succeeded | Failed | Violated | Denied | Unknown

record sandbox_violation =
  sv_code :: string
  sv_message :: string
  sv_resource :: "string option"
  sv_occurred_at_ms :: u64

record sandbox_receipt =
  sr_backend :: sandbox_backend_kind
  sr_enforced :: bool
  sr_profile_digest :: sandbox_profile_digest
  sr_action_digest :: action_digest
  sr_started_at_ms :: u64
  sr_finished_at_ms :: u64
  sr_outcome :: sandbox_outcome
  sr_exit_code :: "u32 option"
  sr_violations :: "sandbox_violation list"

end
