(* ===== verification/Protocol_Context.thy ===== *)
theory Protocol_Context
  imports Protocol_Sandbox
begin

text \<open>
  The contracts of \<^verbatim>\<open>hyper-term-protocol/src/execution_context.rs\<close>: what an execution
  context asks for, what it resolves to, and the redacted receipt of it.
\<close>

definition EXECUTION_CONTEXT_SCHEMA_VERSION :: u16 where
  "EXECUTION_CONTEXT_SCHEMA_VERSION = 1"

datatype execution_mode = Hermetic | Project | User

datatype environment_binding_origin =
    BuiltIn | RuntimeProfile | Workspace | Invocation | Authority | CredentialBroker

text \<open>Origins are ordered as the source declares them.\<close>

primrec origin_rank :: "environment_binding_origin \<Rightarrow> nat" where
  "origin_rank BuiltIn = 0"
| "origin_rank RuntimeProfile = 1"
| "origin_rank Workspace = 2"
| "origin_rank Invocation = 3"
| "origin_rank Authority = 4"
| "origin_rank CredentialBroker = 5"

lemma origin_rank_inject: "origin_rank a = origin_rank b \<longleftrightarrow> a = b"
  by (cases a; cases b) simp_all

instantiation environment_binding_origin :: linorder
begin

definition less_eq_environment_binding_origin ::
    "environment_binding_origin \<Rightarrow> environment_binding_origin \<Rightarrow> bool" where
  "less_eq_environment_binding_origin a b \<longleftrightarrow> origin_rank a \<le> origin_rank b"

definition less_environment_binding_origin ::
    "environment_binding_origin \<Rightarrow> environment_binding_origin \<Rightarrow> bool" where
  "less_environment_binding_origin a b \<longleftrightarrow> origin_rank a < origin_rank b"

instance
  by standard
    (auto simp: less_eq_environment_binding_origin_def less_environment_binding_origin_def
      simp flip: origin_rank_inject)

end

datatype environment_class =
    RuntimeSemantic | ShellStartup | LoaderInjection | NetworkControl | AuthorityHandle
  | Credential | ToolConfiguration | Observability

datatype binding_scope = Process | ProcessTree | Operation | Task | Server

datatype binding_lifetime = Launch | Operation | Task | Server

datatype override_policy = Deny | ReplaceSameClass

datatype collision_policy = Deny | ExplicitOverride

record secret_reference =
  ref_provider_id :: string
  ref_secret_id :: string
  ref_version :: "string option"

datatype derived_binding = WorkspaceRoot | WorkingDirectory | RuntimeHome | RuntimeTemp

datatype environment_source =
    Literal string
  | HostVariable string
  | EnvFileKey (file_path: string) (file_key: string) (expected_sha256: "string option")
  | SecretReference secret_reference
  | Derived derived_binding

record environment_binding_spec =
  ebs_target_name :: string
  ebs_source :: environment_source
  ebs_class :: environment_class
  ebs_origin :: environment_binding_origin
  ebs_scope :: binding_scope
  ebs_lifetime :: binding_lifetime
  ebs_override_policy :: override_policy

record environment_plan =
  ep_bindings :: "environment_binding_spec list"
  ep_collision_policy :: collision_policy

record workspace_context_spec =
  wcs_root :: string
  wcs_working_directory :: string
  wcs_runtime_home :: string
  wcs_runtime_temp :: string

record runtime_environment_spec =
  res_path :: "string list"
  res_locale :: string
  res_timezone :: string
  res_terminal :: string

record shell_context_spec =
  scs_executable :: string
  scs_invocation :: string
  scs_startup_files :: bool
  scs_pty :: bool

record credential_requirement =
  crd_binding_id :: string
  crd_reference :: secret_reference
  crd_target_name :: string
  crd_audience :: string
  crd_scope :: binding_scope
  crd_lifetime :: binding_lifetime

record execution_context_spec =
  ecs_schema_version :: u16
  ecs_context_id :: string
  ecs_context_revision :: u64
  ecs_mode :: execution_mode
  ecs_workspace :: workspace_context_spec
  ecs_runtime :: runtime_environment_spec
  ecs_shell :: "shell_context_spec option"
  ecs_environment :: environment_plan
  ecs_credentials :: "credential_requirement list"
  ecs_sandbox :: "sandbox_profile option"

record resolved_environment_binding =
  reb_target_name :: string
  reb_class :: environment_class
  reb_origin :: environment_binding_origin
  reb_scope :: binding_scope
  reb_lifetime :: binding_lifetime
  reb_source_kind :: string

record resolved_environment_plan =
  rep_clear_inherited :: bool
  rep_variables :: "(string, string) btree"
  rep_bindings :: "resolved_environment_binding list"
  rep_digest :: environment_plan_digest

record resolved_execution_context =
  rec_schema_version :: u16
  rec_context_id :: string
  rec_context_revision :: u64
  rec_mode :: execution_mode
  rec_context_digest :: context_digest
  rec_workspace :: workspace_context_spec
  rec_runtime :: runtime_environment_spec
  rec_shell :: "shell_context_spec option"
  rec_environment :: resolved_environment_plan
  rec_credential_bindings :: "credential_requirement list"
  rec_requested_sandbox :: "sandbox_profile option"

record context_binding_receipt =
  cbr_target_name :: string
  cbr_class :: environment_class
  cbr_origin :: environment_binding_origin
  cbr_scope :: binding_scope
  cbr_lifetime :: binding_lifetime
  cbr_source_kind :: string

record context_receipt =
  crc_schema_version :: u16
  crc_context_id :: string
  crc_context_revision :: u64
  crc_mode :: execution_mode
  crc_context_digest :: context_digest
  crc_environment_digest :: environment_plan_digest
  crc_clear_inherited :: bool
  crc_bindings :: "context_binding_receipt list"
  crc_credential_bindings :: "credential_requirement list"

record agent_execution_context_receipt_set =
  aer_provider_id :: string
  aer_protocol :: string
  aer_thread_id :: string
  aer_receipts :: "context_receipt list"

end
