(* ===== verification/Protocol_Mcp.thy ===== *)
theory Protocol_Mcp
  imports Protocol_Context
begin

text \<open>
  The redacted MCP contracts of \<^verbatim>\<open>hyper-term-protocol/src/mcp.rs\<close>, the artifact metadata of
  \<^verbatim>\<open>artifact.rs\<close> that enters the journal, and the risk classes they are reviewed under.
\<close>

datatype risk_class = ReadOnly | WorkspaceWrite | ExternalEffect | Destructive

definition LOCAL_MCP_LAUNCH_SCHEMA_VERSION :: u16 where
  "LOCAL_MCP_LAUNCH_SCHEMA_VERSION = 1"

definition LOCAL_MCP_TOOL_CALL_SCHEMA_VERSION :: u16 where
  "LOCAL_MCP_TOOL_CALL_SCHEMA_VERSION = 1"

definition BROKERED_MCP_TOOL_CALL_SCHEMA_VERSION :: u16 where
  "BROKERED_MCP_TOOL_CALL_SCHEMA_VERSION = 1"

datatype local_mcp_server_lifecycle = OneTask

datatype local_mcp_credential_scope = ServerLifetime | SplitPrivilege

record local_mcp_server_launch =
  lml_schema_version :: u16
  lml_server_id :: string
  lml_executable :: string
  lml_executable_sha256 :: string
  lml_arguments_digest :: mcp_arguments_digest
  lml_argument_count :: u16
  lml_working_directory :: string
  lml_context_digest :: context_digest
  lml_sandbox_profile_digest :: sandbox_profile_digest
  lml_roots_snapshot_sha256 :: "string option"
  lml_lifecycle :: local_mcp_server_lifecycle
  lml_credential_scope :: local_mcp_credential_scope
  lml_runtime_identity_digest :: mcp_runtime_identity_digest

record local_mcp_tool_contract_receipt =
  mtc_name :: string
  mtc_input_schema_sha256 :: string
  mtc_output_schema_sha256 :: "string option"
  mtc_contract_digest :: mcp_tool_contract_digest

record local_mcp_server_runtime_receipt =
  mrr_schema_version :: u16
  mrr_launch :: local_mcp_server_launch
  mrr_negotiated_protocol_version :: string
  mrr_server_name :: string
  mrr_server_version :: string
  mrr_enforced_sandbox_profile_digest :: sandbox_profile_digest
  mrr_capabilities_digest :: mcp_capabilities_digest
  mrr_catalog_digest :: mcp_catalog_digest
  mrr_runtime_identity_digest :: mcp_runtime_identity_digest
  mrr_tools :: "local_mcp_tool_contract_receipt list"
  mrr_credential_scope :: local_mcp_credential_scope
  mrr_per_call_isolation :: bool

record local_mcp_tool_call =
  mtl_schema_version :: u16
  mtl_server_id :: string
  mtl_runtime_identity_digest :: mcp_runtime_identity_digest
  mtl_catalog_digest :: mcp_catalog_digest
  mtl_tool_name :: string
  mtl_tool_contract_digest :: mcp_tool_contract_digest
  mtl_arguments_digest :: mcp_arguments_digest

record local_mcp_tool_call_receipt =
  mtr_schema_version :: u16
  mtr_call :: local_mcp_tool_call
  mtr_succeeded :: bool
  mtr_result_digest :: mcp_tool_result_digest
  mtr_content_count :: u16
  mtr_has_structured_content :: bool

record brokered_mcp_tool_call =
  bmc_schema_version :: u16
  bmc_server_id :: string
  bmc_tool_name :: string
  bmc_canonical_arguments_preview :: string
  bmc_arguments_bytes :: u32
  bmc_arguments_truncated :: bool
  bmc_arguments_digest :: mcp_arguments_digest
  bmc_proposal_digest :: string

section \<open>Artifacts\<close>

record gen_ui_compiler_identity =
  gci_name :: string
  gci_version :: string

record accepted_gen_ui_artifact =
  aga_artifact_id :: artifact_id
  aga_source_revision :: u64
  aga_entrypoint :: string
  aga_content_digest :: string
  aga_compiler :: gen_ui_compiler_identity

end
