(* ===== verification/Domain.thy ===== *)
theory Domain
  imports Protocol_Mcp
begin

text \<open>
  The domain vocabulary of \<^verbatim>\<open>hyper-term-protocol/src/domain.rs\<close> and the approval contracts
  of \<^verbatim>\<open>approval.rs\<close>: operations, their states and actions, terminal commands, and the events
  that the journal holds. Constructor names are the source's; where two enumerations share a
  name the type qualifies it, as the source does.
\<close>

definition PROTOCOL_VERSION :: u16 where
  "PROTOCOL_VERSION = 11"

definition EVENT_SCHEMA_VERSION :: u16 where
  "EVENT_SCHEMA_VERSION = 1"

definition BLOCK_SCHEMA_VERSION :: u16 where
  "BLOCK_SCHEMA_VERSION = 3"

definition APPROVAL_DETAIL_SCHEMA_VERSION :: u16 where
  "APPROVAL_DETAIL_SCHEMA_VERSION = 1"

section \<open>Terminals\<close>

record terminal_size =
  ts_cols :: u16
  ts_rows :: u16
  ts_pixel_width :: u16
  ts_pixel_height :: u16

definition validate_terminal_size :: "terminal_size \<Rightarrow> string + unit" where
  "validate_terminal_size s =
     (if ts_cols s = 0 \<or> ts_rows s = 0
      then Inl ''terminal rows and columns must be non-zero''
      else if ts_cols s > 1000 \<or> ts_rows s > 1000
      then Inl ''terminal dimensions exceed the supported bound''
      else Inr ())"

definition default_terminal_size :: terminal_size where
  "default_terminal_size =
     \<lparr>ts_cols = 120, ts_rows = 36, ts_pixel_width = 0, ts_pixel_height = 0\<rparr>"

record terminal_command =
  tc_program :: string
  tc_args :: "string list"
  tc_cwd :: "string option"
  tc_env :: "(string, string) btree"

definition display_text :: "terminal_command \<Rightarrow> string" where
  "display_text c = join '' '' (tc_program c # tc_args c)"

section \<open>Operations\<close>

datatype message_role = User | Agent | System | Thought

datatype operation_kind =
    Shell | FileEdit | AgentTool | McpServerLaunch | McpTool | ComputerUse | ArtifactBuild
  | Other string

datatype operation_action =
    Shell terminal_command
  | McpServerLaunch local_mcp_server_launch
  | McpToolCall local_mcp_tool_call
  | BrokeredMcpToolCall brokered_mcp_tool_call
  | Opaque string string

datatype operation_state =
    Proposed | PolicyCheck | WaitingHuman | Authorized | Dispatching | Succeeded | Failed
  | Violated | Cancelled | UnknownExecution

datatype operation_outcome = Succeeded | Failed | UnknownExecution

definition outcome_succeeded :: "operation_outcome \<Rightarrow> bool" where
  "outcome_succeeded x \<longleftrightarrow> x = operation_outcome.Succeeded"

definition is_terminal :: "operation_state \<Rightarrow> bool" where
  "is_terminal s \<longleftrightarrow> (case s of
       operation_state.Succeeded \<Rightarrow> True
     | operation_state.Failed \<Rightarrow> True
     | operation_state.Violated \<Rightarrow> True
     | operation_state.Cancelled \<Rightarrow> True
     | _ \<Rightarrow> False)"

datatype permission_decision = AllowOnce | AllowAlways | RejectOnce | RejectAlways | Cancelled

record operation_completion =
  oc_executor :: string
  oc_succeeded :: bool
  oc_outcome :: "operation_outcome option"
  oc_summary :: string
  oc_result_digest :: "string option"

section \<open>Approval details\<close>

datatype approval_action_detail =
    Shell (* program *) string (* argv *) "string list" (* cwd *) "string option"
      (* environment_keys *) "string list"
  | McpServerLaunch (* server_id *) string (* executable *) string (* executable_sha256 *) string
      (* argument_count *) u16 (* arguments_digest *) mcp_arguments_digest
      (* working_directory *) string (* sandbox_profile_digest *) sandbox_profile_digest
  | McpTool (* server_id *) string (* tool_name *) string
      (* runtime_identity_digest *) mcp_runtime_identity_digest
      (* catalog_digest *) mcp_catalog_digest
      (* tool_contract_digest *) mcp_tool_contract_digest
      (* arguments_digest *) mcp_arguments_digest
  | BrokeredMcpTool (* server_id *) string (* tool_name *) string
      (* canonical_arguments_preview *) string (* arguments_bytes *) u32
      (* arguments_truncated *) bool (* arguments_digest *) mcp_arguments_digest
      (* proposal_digest *) string
  | Opaque (* kind *) string (* payload_digest *) string

record approval_detail =
  ad_schema_version :: u16
  ad_operation_id :: operation_id
  ad_operation_revision :: u64
  ad_action_digest :: action_digest
  ad_action :: approval_action_detail
  ad_risk :: risk_class
  ad_effective_capabilities :: "string list"
  ad_opaque_effect :: bool

record bound_approval_detail =
  bad_detail :: approval_detail
  bad_detail_digest :: approval_detail_digest

section \<open>Agent projections\<close>

datatype agent_tool_kind =
    Read | Edit | Delete | Move | Search | Execute | Think | Fetch | SwitchMode | Other

datatype agent_tool_status = Pending | InProgress | Completed | Failed

datatype agent_media_kind = Image | Audio

datatype agent_tool_content =
    Text string
  | Diff (* path *) string (* patch *) string (* added_lines *) u32 (* removed_lines *) u32
  | Terminal (* terminal_id *) string
  | Media agent_media_kind (* mime_type *) string (* uri *) "string option"
      (* encoded_bytes *) u64
  | Resource (* name *) string (* uri *) string (* mime_type *) "string option"
      (* text *) "string option" (* byte_count *) "u64 option"

record agent_tool_location =
  atl_path :: string
  atl_line :: "u32 option"

record agent_tool_call =
  atc_tool_call_id :: string
  atc_title :: string
  atc_kind :: agent_tool_kind
  atc_status :: agent_tool_status
  atc_content :: "agent_tool_content list"
  atc_locations :: "agent_tool_location list"
  atc_raw_input :: "string option"
  atc_raw_output :: "string option"

datatype agent_plan_priority = High | Medium | Low

datatype agent_plan_status = Pending | InProgress | Completed

record agent_plan_entry =
  ape_content :: string
  ape_priority :: agent_plan_priority
  ape_status :: agent_plan_status

section \<open>Events\<close>

datatype domain_event =
    TaskCreated (* title *) string
  | MessageAppended block_id message_role (* external_message_id *) "string option"
      (* text *) string
  | OperationProposed (* revision *) u64 operation_kind operation_action (* summary *) string
      risk_class (* required_capabilities *) "string list"
  | OperationStateChanged (* revision *) u64 (* from *) operation_state (* to *) operation_state
      actor (* reason *) "string option"
  | PermissionRequested (* operation_revision *) u64 (* approval *) "bound_approval_detail option"
      (* prompt *) string (* options *) "permission_decision list"
  | PermissionDecided (* operation_revision *) u64 permission_decision actor
  | OperationReceipt (* operation_revision *) u64 (* executor *) string (* succeeded *) bool
      (* outcome *) "operation_outcome option" (* summary *) string
      (* result_digest *) "string option"
  | ArtifactAccepted accepted_gen_ui_artifact
  | SandboxProfileCompiled (* operation_revision *) u64 compiled_sandbox_profile
  | OperationExecutionContextCompiled (* operation_revision *) u64 context_receipt
  | SandboxLeaseIssued (* operation_revision *) u64 sandbox_lease_id (* expires_at_ms *) u64
      sandbox_profile_digest action_digest
  | SandboxReceiptRecorded (* operation_revision *) u64 sandbox_receipt
  | SandboxViolationObserved (* operation_revision *) u64 sandbox_violation
  | TerminalOpened terminal_id terminal_command terminal_size
  | TerminalOutputObserved terminal_id (* stream_sequence *) u64 (* byte_count *) u64
  | TerminalResized terminal_id (* generation *) u64 terminal_size
  | TerminalExited terminal_id (* exit_code *) "u32 option"
  | ReviewReady (* summary *) string
  | Diagnostic (* code *) string (* message *) string
  | AgentToolCallUpdated (* turn_id *) string agent_tool_call
  | AgentPlanUpdated (* turn_id *) string (* entries *) "agent_plan_entry list"
  | AgentExecutionContextRecorded agent_execution_context_receipt_set
  | LocalMcpServerRuntimeRecorded local_mcp_server_runtime_receipt
  | LocalMcpToolCallRecorded local_mcp_tool_call_receipt

record event_envelope =
  ev_schema_version :: u16
  ev_sequence :: u64
  ev_event_id :: event_id
  ev_recorded_at_ms :: u64
  ev_task_id :: task_id
  ev_run_id :: "run_id option"
  ev_operation_id :: "operation_id option"
  ev_causation_id :: "event_id option"
  ev_correlation_id :: "event_id option"
  ev_payload :: domain_event

definition validate_event :: "event_envelope \<Rightarrow> string + unit" where
  "validate_event e =
     (if ev_schema_version e \<noteq> EVENT_SCHEMA_VERSION
      then Inl ''unsupported event schema version''
      else if ev_sequence e = 0 then Inl ''event sequence must start at one''
      else Inr ())"

record new_event =
  ne_task_id :: task_id
  ne_run_id :: "run_id option"
  ne_operation_id :: "operation_id option"
  ne_causation_id :: "event_id option"
  ne_correlation_id :: "event_id option"
  ne_payload :: domain_event

end
