(* ===== verification/Block.thy ===== *)
theory Block
  imports Domain
begin

text \<open>
  The render contracts of \<^verbatim>\<open>hyper-term-protocol/src/block.rs\<close>: blocks, the document that
  lists them, and the patches that carry a client from one revision to the next.
\<close>

datatype block_kind =
    Task | Message | Operation | Approval | Receipt | Artifact | Terminal | Review | Diagnostic
  | AgentToolCall | AgentPlan

datatype render_slot = SessionHeader | Timeline | Attention | Inspector

datatype trust_class = TrustedChrome | UntrustedContent | TrustedWorkbench | IsolatedArtifact

datatype block_lifecycle =
    Draft | Queued | Running | Waiting | Succeeded | Failed | Cancelled | UnknownExecution

text \<open>\<open>NoAttention\<close> is the source's \<^verbatim>\<open>AttentionState::None\<close>.\<close>

datatype attention_state = NoAttention | WaitingInput | WaitingApproval | Failed | ReviewReady

record block_action =
  ba_action_id :: string
  ba_expected_block_revision :: u64
  ba_risk :: risk_class
  ba_required_capabilities :: "string list"

datatype block_payload =
    Task (* title *) string
  | Message message_role (* text *) string (* external_message_id *) "string option"
  | Operation operation_id operation_kind (* summary *) string risk_class
      (* required_capabilities *) "string list" operation_state
  | Approval operation_id (* operation_revision *) u64 (* approval *) "bound_approval_detail option"
      (* prompt *) string (* options *) "permission_decision list"
      (* decision *) "permission_decision option"
  | OperationReceipt operation_id (* operation_revision *) u64 (* executor *) string
      (* succeeded *) bool (* outcome *) "operation_outcome option" (* summary *) string
      (* result_digest *) "string option"
  | Artifact accepted_gen_ui_artifact
  | Terminal terminal_id (* command *) string terminal_size (* resize_generation *) u64
      (* stream_sequence *) u64 (* byte_count *) u64 (* exit_code *) "u32 option"
  | Review (* summary *) string
  | Diagnostic (* code *) string (* message *) string
  | AgentToolCall (* turn_id *) string agent_tool_call
  | AgentPlan (* turn_id *) string (* entries *) "agent_plan_entry list"

record block_envelope =
  be_schema_version :: u16
  be_block_id :: block_id
  be_block_revision :: u64
  be_document_revision :: u64
  be_parent_block_id :: "block_id option"
  be_order_key :: u64
  be_task_id :: task_id
  be_kind :: block_kind
  be_render_slot :: render_slot
  be_trust_class :: trust_class
  be_lifecycle :: block_lifecycle
  be_attention :: attention_state
  be_payload :: block_payload
  be_actions :: "block_action list"

definition new_block ::
    "block_id \<Rightarrow> task_id \<Rightarrow> block_kind \<Rightarrow> u64 \<Rightarrow> block_payload \<Rightarrow> block_envelope" where
  "new_block bid tid kind order_key payload =
     \<lparr>be_schema_version = BLOCK_SCHEMA_VERSION,
      be_block_id = bid,
      be_block_revision = 1,
      be_document_revision = 0,
      be_parent_block_id = None,
      be_order_key = order_key,
      be_task_id = tid,
      be_kind = kind,
      be_render_slot = Timeline,
      be_trust_class = UntrustedContent,
      be_lifecycle = Draft,
      be_attention = NoAttention,
      be_payload = payload,
      be_actions = []\<rparr>"

record block_document =
  bd_schema_version :: u16
  bd_task_id :: task_id
  bd_revision :: u64
  bd_semantic_digest :: string
  bd_blocks :: "block_envelope list"

datatype block_operation =
    Upsert block_envelope
  | AppendContent block_id (* expected_previous_revision *) u64 (* block_revision *) u64
      (* text *) string
  | Remove block_id

record block_patch =
  bp_stream_sequence :: u64
  bp_base_revision :: u64
  bp_target_revision :: u64
  bp_operations :: "block_operation list"

lemma new_block_simps [simp]:
  "be_schema_version (new_block b t k ok p) = BLOCK_SCHEMA_VERSION"
  "be_block_id (new_block b t k ok p) = b"
  "be_block_revision (new_block b t k ok p) = 1"
  "be_document_revision (new_block b t k ok p) = 0"
  "be_parent_block_id (new_block b t k ok p) = None"
  "be_order_key (new_block b t k ok p) = ok"
  "be_task_id (new_block b t k ok p) = t"
  "be_kind (new_block b t k ok p) = k"
  "be_render_slot (new_block b t k ok p) = Timeline"
  "be_trust_class (new_block b t k ok p) = UntrustedContent"
  "be_lifecycle (new_block b t k ok p) = Draft"
  "be_attention (new_block b t k ok p) = NoAttention"
  "be_payload (new_block b t k ok p) = p"
  "be_actions (new_block b t k ok p) = []"
  by (simp_all add: new_block_def)

end
