(* ===== verification/Operation_Reducer.thy ===== *)
theory Operation_Reducer
  imports Block
begin

text \<open>
  The operation reducer of \<^verbatim>\<open>hyper-term-core/src/operation.rs\<close>: the records of the operations
  an authority knows, folded from the journal's events. \<open>apply_operation\<close> is
  \<^verbatim>\<open>OperationReducer::apply\<close>, one definition per match arm. Every check of the source
  precedes the mutation, so an error leaves the map as it was and the result is either an
  error or the new map. Revisions are 64-bit words and \<open>+\<close> wraps, as in a release build.
\<close>

record operation_record =
  op_task_id :: task_id
  op_operation_id :: operation_id
  op_revision :: u64
  op_kind :: operation_kind
  op_action :: operation_action
  op_summary :: string
  op_risk :: risk_class
  op_required_capabilities :: "string list"
  op_state :: operation_state
  op_permission_decision :: "permission_decision option"

type_synonym operation_reducer = "operation_id \<rightharpoonup> operation_record"

datatype operation_error =
    MissingOperationId
  | AlreadyExists operation_id
  | NotFound operation_id
  | InvalidInitialRevision u64
  | StaleRevision u64 u64
  | StateMismatch operation_state operation_state
  | InvalidTransition operation_state operation_state
  | PermissionOutsideWaitingState operation_state
  | PermissionAlreadyDecided operation_id

fun valid_transition :: "operation_state \<Rightarrow> operation_state \<Rightarrow> bool" where
  "valid_transition Proposed PolicyCheck = True"
| "valid_transition PolicyCheck WaitingHuman = True"
| "valid_transition PolicyCheck Authorized = True"
| "valid_transition PolicyCheck operation_state.Failed = True"
| "valid_transition PolicyCheck operation_state.Cancelled = True"
| "valid_transition WaitingHuman Authorized = True"
| "valid_transition WaitingHuman operation_state.Cancelled = True"
| "valid_transition Authorized Dispatching = True"
| "valid_transition Authorized operation_state.Failed = True"
| "valid_transition Authorized operation_state.Cancelled = True"
| "valid_transition Dispatching operation_state.Succeeded = True"
| "valid_transition Dispatching operation_state.Failed = True"
| "valid_transition Dispatching operation_state.Violated = True"
| "valid_transition Dispatching operation_state.Cancelled = True"
| "valid_transition Dispatching operation_state.UnknownExecution = True"
| "valid_transition operation_state.UnknownExecution operation_state.Succeeded = True"
| "valid_transition operation_state.UnknownExecution operation_state.Failed = True"
| "valid_transition operation_state.UnknownExecution operation_state.Violated = True"
| "valid_transition operation_state.UnknownExecution operation_state.Cancelled = True"
| "valid_transition _ _ = False"

definition record_for_event ::
    "operation_reducer \<Rightarrow> event_envelope \<Rightarrow> operation_error + operation_record" where
  "record_for_event m e =
     and_then (ok_or (ev_operation_id e) MissingOperationId) (\<lambda>oid.
       ok_or (m oid) (NotFound oid))"

definition apply_proposed ::
    "operation_reducer \<Rightarrow> event_envelope \<Rightarrow> u64 \<Rightarrow> operation_kind \<Rightarrow> operation_action \<Rightarrow> string
      \<Rightarrow> risk_class \<Rightarrow> string list \<Rightarrow> operation_error + operation_reducer" where
  "apply_proposed m e revision kind action summary risk caps =
     and_then (ok_or (ev_operation_id e) MissingOperationId) (\<lambda>oid.
       if revision \<noteq> 1 then Inl (InvalidInitialRevision revision)
       else if m oid \<noteq> None then Inl (AlreadyExists oid)
       else Inr (m(oid \<mapsto>
         \<lparr>op_task_id = ev_task_id e,
          op_operation_id = oid,
          op_revision = revision,
          op_kind = kind,
          op_action = action,
          op_summary = summary,
          op_risk = risk,
          op_required_capabilities = caps,
          op_state = Proposed,
          op_permission_decision = None\<rparr>)))"

definition apply_state_changed ::
    "operation_reducer \<Rightarrow> event_envelope \<Rightarrow> u64 \<Rightarrow> operation_state \<Rightarrow> operation_state
      \<Rightarrow> operation_error + operation_reducer" where
  "apply_state_changed m e revision from to =
     and_then (ok_or (ev_operation_id e) MissingOperationId) (\<lambda>oid.
     and_then (ok_or (m oid) (NotFound oid)) (\<lambda>r.
       let expected_revision = op_revision r + 1 in
       if revision \<noteq> expected_revision then Inl (StaleRevision expected_revision revision)
       else if op_state r \<noteq> from then Inl (StateMismatch (op_state r) from)
       else if \<not> valid_transition from to then Inl (InvalidTransition from to)
       else Inr (m(oid \<mapsto> r\<lparr>op_revision := revision, op_state := to\<rparr>))))"

definition apply_permission_requested ::
    "operation_reducer \<Rightarrow> event_envelope \<Rightarrow> u64 \<Rightarrow> operation_error + operation_reducer" where
  "apply_permission_requested m e operation_revision =
     and_then (record_for_event m e) (\<lambda>r.
       if op_state r \<noteq> WaitingHuman then Inl (PermissionOutsideWaitingState (op_state r))
       else if op_revision r \<noteq> operation_revision
       then Inl (StaleRevision (op_revision r) operation_revision)
       else Inr m)"

definition apply_permission_decided ::
    "operation_reducer \<Rightarrow> event_envelope \<Rightarrow> u64 \<Rightarrow> permission_decision
      \<Rightarrow> operation_error + operation_reducer" where
  "apply_permission_decided m e operation_revision decision =
     and_then (ok_or (ev_operation_id e) MissingOperationId) (\<lambda>oid.
     and_then (ok_or (m oid) (NotFound oid)) (\<lambda>r.
       if op_state r \<noteq> WaitingHuman then Inl (PermissionOutsideWaitingState (op_state r))
       else if op_revision r \<noteq> operation_revision
       then Inl (StaleRevision (op_revision r) operation_revision)
       else if op_permission_decision r \<noteq> None then Inl (PermissionAlreadyDecided oid)
       else Inr (m(oid \<mapsto> r\<lparr>op_permission_decision := Some decision\<rparr>))))"

definition apply_operation ::
    "operation_reducer \<Rightarrow> event_envelope \<Rightarrow> operation_error + operation_reducer" where
  "apply_operation m e =
     (case ev_payload e of
        OperationProposed revision kind action summary risk caps \<Rightarrow>
          apply_proposed m e revision kind action summary risk caps
      | OperationStateChanged revision from to _ _ \<Rightarrow> apply_state_changed m e revision from to
      | PermissionRequested revision _ _ _ \<Rightarrow> apply_permission_requested m e revision
      | PermissionDecided revision decision _ \<Rightarrow> apply_permission_decided m e revision decision
      | _ \<Rightarrow> Inr m)"

definition get_operation :: "operation_reducer \<Rightarrow> operation_id \<Rightarrow> operation_record option" where
  "get_operation m oid = m oid"

section \<open>What one event can do\<close>

lemmas apply_operation_defs =
  apply_operation_def apply_proposed_def apply_state_changed_def apply_permission_requested_def
  apply_permission_decided_def record_for_event_def Let_def

text \<open>
  A successful event does one of four things: it adds a fresh record, moves one record along
  a valid transition with the next revision, sets the decision of one undecided waiting
  record, or leaves the map alone.
\<close>

inductive operation_step :: "operation_reducer \<Rightarrow> operation_reducer \<Rightarrow> bool" where
  propose: "m oid = None \<Longrightarrow> op_operation_id r = oid \<Longrightarrow> op_revision r = 1 \<Longrightarrow> op_state r = Proposed \<Longrightarrow>
     op_permission_decision r = None \<Longrightarrow> operation_step m (m(oid \<mapsto> r))"
| transition: "m oid = Some r \<Longrightarrow> valid_transition (op_state r) to \<Longrightarrow>
     operation_step m (m(oid \<mapsto> r\<lparr>op_revision := op_revision r + 1, op_state := to\<rparr>))"
| decide: "m oid = Some r \<Longrightarrow> op_state r = WaitingHuman \<Longrightarrow> op_permission_decision r = None \<Longrightarrow>
     operation_step m (m(oid \<mapsto> r\<lparr>op_permission_decision := Some d\<rparr>))"
| stay: "operation_step m m"

lemma apply_operation_step: "apply_operation m e = Inr m' \<Longrightarrow> operation_step m m'"
  by (cases "ev_payload e")
    (auto simp: apply_operation_defs result_simps intro: operation_step.intros split: if_splits)

lemma valid_transition_terminal: "is_terminal s \<Longrightarrow> \<not> valid_transition s t"
  by (cases s; cases t) (simp_all add: is_terminal_def)

text \<open>
  The identity of an operation: what was proposed, and so reviewed, under its identifier.
\<close>

definition same_identity :: "operation_record \<Rightarrow> operation_record \<Rightarrow> bool" where
  "same_identity r s \<longleftrightarrow> op_task_id r = op_task_id s \<and> op_operation_id r = op_operation_id s
     \<and> op_kind r = op_kind s \<and> op_action r = op_action s \<and> op_summary r = op_summary s
     \<and> op_risk r = op_risk s \<and> op_required_capabilities r = op_required_capabilities s"

text \<open>
  What is never undone: a record stays, with its identity; a decision stays; a terminal
  record does not change at all.
\<close>

definition record_below :: "operation_record \<Rightarrow> operation_record \<Rightarrow> bool" where
  "record_below r s \<longleftrightarrow> same_identity r s
     \<and> (op_permission_decision r \<noteq> None \<longrightarrow> op_permission_decision s = op_permission_decision r)
     \<and> (is_terminal (op_state r) \<longrightarrow> s = r)"

definition reducer_below :: "operation_reducer \<Rightarrow> operation_reducer \<Rightarrow> bool" where
  "reducer_below m m' \<longleftrightarrow> (\<forall>oid r. m oid = Some r \<longrightarrow> (\<exists>s. m' oid = Some s \<and> record_below r s))"

text \<open>
  The invariant of the map: keys are the identifiers of the records, and a record that has
  not passed the human gate has no decision.
\<close>

definition record_ok :: "operation_record \<Rightarrow> bool" where
  "record_ok r \<longleftrightarrow> (op_state r = Proposed \<or> op_state r = PolicyCheck \<longrightarrow> op_permission_decision r = None)"

definition reducer_inv :: "operation_reducer \<Rightarrow> bool" where
  "reducer_inv m \<longleftrightarrow> (\<forall>oid r. m oid = Some r \<longrightarrow> op_operation_id r = oid \<and> record_ok r)"

lemma reducer_inv_empty: "reducer_inv Map.empty"
  by (simp add: reducer_inv_def)

lemma valid_transition_to_early: "valid_transition s t \<Longrightarrow> t \<noteq> Proposed \<and> (t = PolicyCheck \<longrightarrow> s = Proposed)"
  by (cases s; cases t) simp_all

lemma operation_step_inv: "operation_step m m' \<Longrightarrow> reducer_inv m \<Longrightarrow> reducer_inv m'"
  by (induction rule: operation_step.induct)
    (auto simp: reducer_inv_def record_ok_def dest: valid_transition_to_early)

lemma record_below_refl: "record_below r r"
  by (simp add: record_below_def same_identity_def)

lemma record_below_trans: "record_below r s \<Longrightarrow> record_below s t \<Longrightarrow> record_below r t"
  by (auto simp: record_below_def same_identity_def)

lemma reducer_below_refl: "reducer_below m m"
  by (simp add: reducer_below_def record_below_refl)

lemma reducer_below_trans: "reducer_below m n \<Longrightarrow> reducer_below n k \<Longrightarrow> reducer_below m k"
  unfolding reducer_below_def by (meson record_below_trans)

lemma operation_step_below: "operation_step m m' \<Longrightarrow> reducer_below m m'"
proof (induction rule: operation_step.induct)
  case (transition m oid r to)
  then show ?case
    using valid_transition_terminal record_below_refl
    by (fastforce simp: reducer_below_def record_below_def same_identity_def)
qed (auto simp: reducer_below_def record_below_def same_identity_def is_terminal_def)

interpretation reducer: monotone_machine apply_operation reducer_inv reducer_below
proof unfold_locales
  fix m n k :: operation_reducer and e
  show "reducer_inv m \<Longrightarrow> apply_operation m e = Inr n \<Longrightarrow> reducer_inv n"
    by (blast intro: operation_step_inv apply_operation_step)
  show "reducer_inv m \<Longrightarrow> apply_operation m e = Inr n \<Longrightarrow> reducer_below m n"
    by (blast intro: operation_step_below apply_operation_step)
  show "reducer_below m m" by (rule reducer_below_refl)
  show "reducer_below m n \<Longrightarrow> reducer_below n k \<Longrightarrow> reducer_below m k"
    by (rule reducer_below_trans)
qed

section \<open>The reducer against the history\<close>

text \<open>
  The specification: the pairs of states that the events claim for one operation, in order,
  and the walks of the state machine.
\<close>

definition state_change_of :: "operation_id \<Rightarrow> event_envelope \<Rightarrow> (operation_state \<times> operation_state) option" where
  "state_change_of oid e = (case ev_payload e of
       OperationStateChanged _ from to _ _ \<Rightarrow>
         (if ev_operation_id e = Some oid then Some (from, to) else None)
     | _ \<Rightarrow> None)"

definition state_changes :: "operation_id \<Rightarrow> event_envelope list \<Rightarrow> (operation_state \<times> operation_state) list" where
  "state_changes oid es = List.map_filter (state_change_of oid) es"

fun follows :: "operation_state \<Rightarrow> (operation_state \<times> operation_state) list \<Rightarrow> operation_state \<Rightarrow> bool" where
  "follows s [] t \<longleftrightarrow> s = t"
| "follows s ((f, u) # ps) t \<longleftrightarrow> f = s \<and> valid_transition s u \<and> follows u ps t"

primrec state_rank :: "operation_state \<Rightarrow> nat" where
  "state_rank Proposed = 0"
| "state_rank PolicyCheck = 1"
| "state_rank WaitingHuman = 2"
| "state_rank Authorized = 3"
| "state_rank Dispatching = 4"
| "state_rank operation_state.UnknownExecution = 5"
| "state_rank operation_state.Succeeded = 6"
| "state_rank operation_state.Failed = 6"
| "state_rank operation_state.Violated = 6"
| "state_rank operation_state.Cancelled = 6"

lemma state_rank_le: "state_rank s \<le> 6"
  by (cases s) simp_all

lemma valid_transition_rank: "valid_transition s t \<Longrightarrow> state_rank s < state_rank t"
  by (cases s; cases t) simp_all

lemma follows_rank: "follows s ps t \<Longrightarrow> state_rank s + length ps \<le> state_rank t"
  by (induction s ps t rule: follows.induct) (auto dest!: valid_transition_rank)

lemma follows_snoc:
  "follows s (ps @ [(f, u)]) t \<longleftrightarrow> u = t \<and> follows s ps f \<and> valid_transition f u"
  by (induction s ps f rule: follows.induct) auto

lemma follows_authorized:
  "follows s ps t \<Longrightarrow> state_rank s < 3 \<Longrightarrow> t \<in> {Dispatching, operation_state.UnknownExecution,
     operation_state.Succeeded, operation_state.Violated} \<Longrightarrow> \<exists>p \<in> set ps. snd p = Authorized"
proof (induction s ps t rule: follows.induct)
  case (2 s f u ps t)
  show ?case
  proof (cases "u = Authorized")
    case False
    from "2.prems" have "valid_transition s u" "follows u ps t" by auto
    moreover from this False "2.prems" have "state_rank u < 3 \<or> t = u \<and> state_rank u = 6"
      using follows_rank [of u ps t] state_rank_le [of t] by (cases s; cases u; cases ps) auto
    ultimately show ?thesis using "2.IH" "2.prems" by (cases s; cases u) auto
  qed auto
qed auto

lemma state_changes_snoc:
  "state_changes oid (es @ [e]) = state_changes oid es @ (case state_change_of oid e of None \<Rightarrow> [] | Some p \<Rightarrow> [p])"
  by (simp add: state_changes_def map_filter_def split: option.splits)

definition history_ok :: "operation_reducer \<Rightarrow> event_envelope list \<Rightarrow> bool" where
  "history_ok m es \<longleftrightarrow> (\<forall>oid. case m oid of
       None \<Rightarrow> state_changes oid es = []
     | Some r \<Rightarrow> follows Proposed (state_changes oid es) (op_state r)
                 \<and> op_revision r = of_nat (Suc (length (state_changes oid es))))"

lemma history_ok_step:
  assumes "history_ok m es" and "apply_operation m e = Inr m'"
  shows "history_ok m' (es @ [e])"
proof -
  have "case m' oid of None \<Rightarrow> state_changes oid (es @ [e]) = []
     | Some r \<Rightarrow> follows Proposed (state_changes oid (es @ [e])) (op_state r)
                 \<and> op_revision r = of_nat (Suc (length (state_changes oid (es @ [e]))))" for oid
    using assms(1) [unfolded history_ok_def, rule_format, of oid] assms(2)
    by (cases "ev_payload e")
      (auto simp: apply_operation_defs result_simps state_changes_snoc state_change_of_def
        follows_snoc split: if_splits option.splits)
  then show ?thesis by (simp add: history_ok_def)
qed

lemma history_ok_run: "try_fold apply_operation Map.empty es = Inr m \<Longrightarrow> history_ok m es"
proof (induction es arbitrary: m rule: rev_induct)
  case Nil
  then have "m = Map.empty" by simp
  then show ?case by (simp add: history_ok_def state_changes_def map_filter_def)
next
  case (snoc e es)
  then show ?case by (auto simp: try_fold_snoc_Inr intro: history_ok_step)
qed

lemma history_of_record:
  assumes "try_fold apply_operation Map.empty es = Inr m" and "m oid = Some r"
  shows "follows Proposed (state_changes oid es) (op_state r)"
    and "op_revision r = of_nat (Suc (length (state_changes oid es)))"
    and "length (state_changes oid es) \<le> 6"
proof -
  from history_ok_run [OF assms(1), unfolded history_ok_def, rule_format, of oid] assms(2)
  have ok: "follows Proposed (state_changes oid es) (op_state r)
     \<and> op_revision r = of_nat (Suc (length (state_changes oid es)))"
    by simp
  then show f: "follows Proposed (state_changes oid es) (op_state r)" by blast
  from ok show "op_revision r = of_nat (Suc (length (state_changes oid es)))" by blast
  show "length (state_changes oid es) \<le> 6"
    using follows_rank [OF f] state_rank_le [of "op_state r"] by simp
qed

lemma unat_of_small_nat: "n < 2 ^ 64 \<Longrightarrow> unat (of_nat n :: u64) = n"
  by (simp add: unat_of_nat take_bit_nat_eq_self)

section \<open>A concrete run\<close>

text \<open>
  One shell operation from its proposal to its dispatch, and the record it leaves; the
  witnesses of this theory evaluate it.
\<close>

definition sample_event :: "u64 \<Rightarrow> operation_id option \<Rightarrow> domain_event \<Rightarrow> event_envelope" where
  "sample_event n oid p =
     \<lparr>ev_schema_version = EVENT_SCHEMA_VERSION, ev_sequence = n, ev_event_id = EventId (ucast n),
      ev_recorded_at_ms = n, ev_task_id = TaskId 1, ev_run_id = None, ev_operation_id = oid,
      ev_causation_id = None, ev_correlation_id = None, ev_payload = p\<rparr>"

definition sample_command :: terminal_command where
  "sample_command = \<lparr>tc_program = ''/bin/ls'', tc_args = [], tc_cwd = Some ''/w'', tc_env = []\<rparr>"

definition sample_operation :: operation_id where
  "sample_operation = OperationId 7"

definition sample_proposal :: event_envelope where
  "sample_proposal = sample_event 1 (Some sample_operation)
     (OperationProposed 1 operation_kind.Shell (operation_action.Shell sample_command) ''ls''
        risk_class.ReadOnly [])"

definition sample_change :: "u64 \<Rightarrow> u64 \<Rightarrow> operation_state \<Rightarrow> operation_state \<Rightarrow> event_envelope" where
  "sample_change n r f t = sample_event n (Some sample_operation)
     (OperationStateChanged r f t actor.System None)"

definition sample_decision :: event_envelope where
  "sample_decision = sample_event 4 (Some sample_operation) (PermissionDecided 3 AllowOnce actor.User)"

definition sample_waiting :: "event_envelope list" where
  "sample_waiting = [sample_proposal, sample_change 2 2 Proposed PolicyCheck,
     sample_change 3 3 PolicyCheck WaitingHuman, sample_decision]"

definition sample_run :: "event_envelope list" where
  "sample_run = sample_waiting @ [sample_change 5 4 WaitingHuman Authorized,
     sample_change 6 5 Authorized Dispatching]"

definition sample_record :: "operation_state \<Rightarrow> u64 \<Rightarrow> permission_decision option \<Rightarrow> operation_record" where
  "sample_record st r d =
     \<lparr>op_task_id = TaskId 1, op_operation_id = sample_operation, op_revision = r,
      op_kind = operation_kind.Shell, op_action = operation_action.Shell sample_command,
      op_summary = ''ls'', op_risk = risk_class.ReadOnly, op_required_capabilities = [],
      op_state = st, op_permission_decision = d\<rparr>"

lemmas sample_defs =
  sample_event_def sample_operation_def sample_proposal_def sample_change_def sample_decision_def
  sample_waiting_def sample_run_def sample_record_def

lemma sample_waiting_run:
  "try_fold apply_operation Map.empty sample_waiting =
     Inr [sample_operation \<mapsto> sample_record WaitingHuman 3 (Some AllowOnce)]"
  by (simp add: sample_defs apply_operation_defs)

lemma sample_run_run:
  "try_fold apply_operation Map.empty sample_run =
     Inr [sample_operation \<mapsto> sample_record Dispatching 5 (Some AllowOnce)]"
  unfolding sample_run_def try_fold_append sample_waiting_run
  by (simp add: sample_defs apply_operation_defs)

section \<open>Properties\<close>

text \<open>
  C17. After any run of the reducer from the empty map, the state of an operation is the end of
  a walk of the documented state machine whose steps are exactly the state changes the journal
  holds for it; its revision counts them, and since no walk has more than six steps the
  revision is at most 7 and the 64-bit addition never wraps.
\<close>

theorem operation_follows_state_machine:
  assumes "try_fold apply_operation Map.empty es = Inr m" and "m oid = Some r"
  shows "follows Proposed (state_changes oid es) (op_state r)
    \<and> unat (op_revision r) = Suc (length (state_changes oid es))
    \<and> unat (op_revision r) \<le> 7"
proof -
  note h = history_of_record [OF assms]
  have "unat (op_revision r) = Suc (length (state_changes oid es))"
    unfolding h(2) using h(3) by (intro unat_of_small_nat) simp
  with h show ?thesis by simp
qed

theorem operation_follows_state_machine_witness:
  "follows Proposed (state_changes sample_operation sample_run) Dispatching
    \<and> unat (5 :: u64) = Suc (length (state_changes sample_operation sample_run))
    \<and> unat (5 :: u64) \<le> 7"
  using operation_follows_state_machine
    [OF sample_run_run, of sample_operation "sample_record Dispatching 5 (Some AllowOnce)"]
  by (simp add: sample_record_def)

text \<open>
  C8. No operation is ever dispatching, succeeded, violated or of unknown execution unless
  the journal holds an event of that same operation that moved it to Authorized.
\<close>

theorem execution_requires_authorization:
  assumes "try_fold apply_operation Map.empty es = Inr m" and "m oid = Some r"
    and "op_state r \<in> {Dispatching, operation_state.UnknownExecution, operation_state.Succeeded,
      operation_state.Violated}"
  shows "\<exists>e \<in> set es. ev_operation_id e = Some oid
    \<and> (\<exists>rv from a w. ev_payload e = OperationStateChanged rv from Authorized a w)"
proof -
  from follows_authorized [OF history_of_record(1) [OF assms(1,2)] _ assms(3)]
  obtain p where "p \<in> set (state_changes oid es)" "snd p = Authorized" by auto
  then obtain e where "e \<in> set es" "state_change_of oid e = Some p"
    by (auto simp: state_changes_def map_filter_def)
  with \<open>snd p = Authorized\<close> show ?thesis
    by (auto simp: state_change_of_def split: domain_event.splits if_splits)
qed

theorem execution_requires_authorization_witness:
  "\<exists>e \<in> set sample_run. ev_operation_id e = Some sample_operation
    \<and> (\<exists>rv from a w. ev_payload e = OperationStateChanged rv from Authorized a w)"
  by (rule execution_requires_authorization
      [OF sample_run_run, of _ "sample_record Dispatching 5 (Some AllowOnce)"])
    (simp_all add: sample_record_def)

text \<open>
  C18. What a human reviewed is what stays: along any run of events, the task, kind, action,
  summary, risk and capabilities of an operation never change, a recorded permission decision
  is never replaced or lost, and an operation in a terminal state never changes at all.
\<close>

theorem reviewed_operation_is_stable:
  assumes "reducer_inv m" and "try_fold apply_operation m es = Inr m'" and "m oid = Some r"
  shows "\<exists>s. m' oid = Some s \<and> same_identity r s
    \<and> (op_permission_decision r \<noteq> None \<longrightarrow> op_permission_decision s = op_permission_decision r)
    \<and> (is_terminal (op_state r) \<longrightarrow> s = r)"
  using reducer.run_below [OF assms(1,2)] assms(3)
  by (auto simp: reducer_below_def record_below_def)

lemma sample_waiting_inv:
  "reducer_inv [sample_operation \<mapsto> sample_record WaitingHuman 3 (Some AllowOnce)]"
  by (rule reducer.run_inv [OF reducer_inv_empty sample_waiting_run])

lemma sample_dispatch_run:
  "try_fold apply_operation [sample_operation \<mapsto> sample_record WaitingHuman 3 (Some AllowOnce)]
     [sample_change 5 4 WaitingHuman Authorized, sample_change 6 5 Authorized Dispatching] =
     Inr [sample_operation \<mapsto> sample_record Dispatching 5 (Some AllowOnce)]"
  using sample_run_run [unfolded sample_run_def try_fold_append sample_waiting_run] by simp

theorem reviewed_operation_is_stable_witness:
  "\<exists>s. [sample_operation \<mapsto> sample_record Dispatching 5 (Some AllowOnce)] sample_operation = Some s
    \<and> op_permission_decision s = Some AllowOnce"
  using reviewed_operation_is_stable [OF sample_waiting_inv sample_dispatch_run, of sample_operation]
  by (auto simp: sample_record_def)

text \<open>
  A state change is accepted exactly when it names a known operation, carries that
  operation's next revision, starts from its current state and is one of the transitions of the
  table; the new map then differs in that record's revision and state only.
\<close>

lemma state_change_accepted_iff:
  assumes "ev_payload e = OperationStateChanged rv from to a w"
  shows "apply_operation m e = Inr m' \<longleftrightarrow>
    (\<exists>oid r. ev_operation_id e = Some oid \<and> m oid = Some r \<and> rv = op_revision r + 1
       \<and> op_state r = from \<and> valid_transition from to
       \<and> m' = m(oid \<mapsto> r\<lparr>op_revision := rv, op_state := to\<rparr>))"
  using assms by (auto simp: apply_operation_defs result_simps split: if_splits)

text \<open>
  A permission is decided at most once: whatever events follow an accepted decision, every
  further decision event for that operation is refused.
\<close>

lemma permission_decided_at_most_once:
  assumes "reducer_inv m" and "m oid = Some r" and "op_permission_decision r \<noteq> None"
    and "try_fold apply_operation m es = Inr m'"
    and "ev_payload e = PermissionDecided rv d a" and "ev_operation_id e = Some oid"
  shows "\<exists>err. apply_operation m' e = Inl err"
proof -
  from reducer.run_below [OF assms(1,4)] assms(2)
  obtain s where "m' oid = Some s" "record_below r s"
    unfolding reducer_below_def by blast
  with assms(3,5,6) show ?thesis by (auto simp: record_below_def apply_operation_defs)
qed

end
