(* ===== verification/Projector.thy ===== *)
theory Projector
  imports Operation_Reducer
begin

text \<open>
  The block projector of \<^verbatim>\<open>hyper-term-core/src/projector.rs\<close>: it folds the events of one task
  into the blocks a renderer shows, and answers each event with the patch that carries a
  client's document forward. \<open>project_event\<close> is \<^verbatim>\<open>BlockProjector::apply\<close>, one definition per
  match arm; \<open>snapshot\<close> and \<open>apply_patch\<close> are the two ways a client gets a document.

  Code outside the repository is a parameter: the UUID crate (\<open>uuid_crate\<close>: the OID
  namespace, version-5 hashing and the text form) and the digest of a document
  (\<open>digest_crate\<close>: serde's encoding of the digest input, which can fail, and SHA-256).
\<close>

section \<open>State and errors\<close>

record uuid_crate =
  namespace_oid :: uuid
  new_v5 :: "uuid \<Rightarrow> string \<Rightarrow> uuid"
  uuid_text :: "uuid \<Rightarrow> string"

record digest_input =
  di_schema_version :: u16
  di_task_id :: task_id
  di_revision :: u64
  di_blocks :: "block_envelope list"

record digest_crate =
  to_json :: "digest_input \<Rightarrow> bytes option"
  sha256 :: "bytes \<Rightarrow> bytes"

record block_projector =
  bj_task_id :: task_id
  bj_revision :: u64
  bj_blocks :: "(block_id, block_envelope) btree"

datatype projector_error =
    WrongTask task_id task_id
  | StaleEvent u64 u64
  | MissingOperationId
  | MissingBlock block_id
  | BlockKindMismatch block_id
  | StaleTerminalSequence u64 u64
  | StaleResizeGeneration u64 u64
  | PatchBaseMismatch u64 u64
  | BlockRevisionMismatch u64 u64
  | Serialization

definition new_projector :: "task_id \<Rightarrow> block_projector" where
  "new_projector tid = \<lparr>bj_task_id = tid, bj_revision = 0, bj_blocks = []\<rparr>"

section \<open>Helpers\<close>

definition stable_block_id :: "uuid_crate \<Rightarrow> string \<Rightarrow> string \<Rightarrow> block_id" where
  "stable_block_id U scope identity =
     BlockId (new_v5 U (namespace_oid U) (''hyper-term:'' @ scope @ '':'' @ identity))"

definition lifecycle_for_operation :: "operation_state \<Rightarrow> block_lifecycle" where
  "lifecycle_for_operation s = (case s of
      Proposed \<Rightarrow> Queued
    | PolicyCheck \<Rightarrow> Queued
    | WaitingHuman \<Rightarrow> Waiting
    | Authorized \<Rightarrow> Running
    | Dispatching \<Rightarrow> Running
    | operation_state.Succeeded \<Rightarrow> block_lifecycle.Succeeded
    | operation_state.Failed \<Rightarrow> block_lifecycle.Failed
    | operation_state.Violated \<Rightarrow> block_lifecycle.Failed
    | operation_state.Cancelled \<Rightarrow> block_lifecycle.Cancelled
    | operation_state.UnknownExecution \<Rightarrow> block_lifecycle.UnknownExecution)"

definition attention_for_operation :: "operation_state \<Rightarrow> attention_state" where
  "attention_for_operation s = (case s of
      WaitingHuman \<Rightarrow> WaitingApproval
    | operation_state.Failed \<Rightarrow> attention_state.Failed
    | operation_state.Violated \<Rightarrow> attention_state.Failed
    | operation_state.UnknownExecution \<Rightarrow> attention_state.Failed
    | _ \<Rightarrow> NoAttention)"

definition permission_action_id :: "permission_decision \<Rightarrow> string" where
  "permission_action_id d = (case d of
      AllowOnce \<Rightarrow> ''allow_once''
    | AllowAlways \<Rightarrow> ''allow_always''
    | RejectOnce \<Rightarrow> ''reject_once''
    | RejectAlways \<Rightarrow> ''reject_always''
    | permission_decision.Cancelled \<Rightarrow> ''cancel'')"

definition upsert ::
    "block_projector \<Rightarrow> block_envelope \<Rightarrow> u64 \<Rightarrow> projector_error + (block_projector \<times> block_operation)" where
  "upsert p block document_revision =
     and_then
       (case bt_get (bj_blocks p) (be_block_id block) of
          None \<Rightarrow> Inr block
        | Some existing \<Rightarrow>
            (if be_kind existing \<noteq> be_kind block then Inl (BlockKindMismatch (be_block_id block))
             else Inr (block\<lparr>be_block_revision := be_block_revision existing + 1,
                             be_order_key := be_order_key existing\<rparr>)))
       (\<lambda>block. let block = block\<lparr>be_document_revision := document_revision\<rparr> in
          Inr (p\<lparr>bj_blocks := bt_insert (be_block_id block) block (bj_blocks p)\<rparr>, Upsert block))"

text \<open>The common tail of the arms: one upsert, one patch operation.\<close>

definition upsert_one ::
    "block_projector \<Rightarrow> block_envelope \<Rightarrow> u64 \<Rightarrow> projector_error + (block_projector \<times> block_operation list)" where
  "upsert_one p block seq = and_then (upsert p block seq) (\<lambda>(p', op). Inr (p', [op]))"

definition find_block :: "block_projector \<Rightarrow> block_id \<Rightarrow> projector_error + block_envelope" where
  "find_block p bid = ok_or (bt_get (bj_blocks p) bid) (MissingBlock bid)"

section \<open>The arms of the projection\<close>

type_synonym projection = "projector_error + (block_projector \<times> block_operation list)"

definition project_task_created :: "uuid_crate \<Rightarrow> block_projector \<Rightarrow> u64 \<Rightarrow> string \<Rightarrow> projection" where
  "project_task_created U p seq title =
     (let block_id = stable_block_id U ''task'' (uuid_text U (task_uuid (bj_task_id p)));
          block = new_block block_id (bj_task_id p) block_kind.Task seq (block_payload.Task title);
          block = block\<lparr>be_render_slot := SessionHeader, be_trust_class := TrustedChrome,
                        be_lifecycle := Running\<rparr>
      in upsert_one p block seq)"

definition project_message_appended ::
    "block_projector \<Rightarrow> u64 \<Rightarrow> block_id \<Rightarrow> message_role \<Rightarrow> string option \<Rightarrow> string \<Rightarrow> projection" where
  "project_message_appended p seq block_id role external_message_id text =
     (case bt_get (bj_blocks p) block_id of
        Some block \<Rightarrow>
          (case be_payload block of
             Message existing_role existing_text existing_external \<Rightarrow>
               (if existing_role = role \<and> existing_external = external_message_id
                then let previous_revision = be_block_revision block;
                         block' = block\<lparr>
                           be_payload := Message existing_role (existing_text @ text) existing_external,
                           be_block_revision := previous_revision + 1,
                           be_document_revision := seq\<rparr>
                     in Inr (p\<lparr>bj_blocks := bt_insert block_id block' (bj_blocks p)\<rparr>,
                             [AppendContent block_id previous_revision (previous_revision + 1) text])
                else Inl (BlockKindMismatch block_id))
           | _ \<Rightarrow> Inl (BlockKindMismatch block_id))
      | None \<Rightarrow>
          upsert_one p
            (new_block block_id (bj_task_id p) block_kind.Message seq
               (Message role text external_message_id)) seq)"

definition project_operation_proposed ::
    "uuid_crate \<Rightarrow> block_projector \<Rightarrow> u64 \<Rightarrow> operation_id option \<Rightarrow> operation_kind \<Rightarrow> string \<Rightarrow> risk_class
      \<Rightarrow> string list \<Rightarrow> projection" where
  "project_operation_proposed U p seq oid kind summary risk caps =
     and_then (ok_or oid MissingOperationId) (\<lambda>oid.
       let block_id = stable_block_id U ''operation'' (uuid_text U (operation_uuid oid));
           block = new_block block_id (bj_task_id p) block_kind.Operation seq
             (block_payload.Operation oid kind summary risk caps Proposed);
           block = block\<lparr>be_trust_class := TrustedChrome, be_lifecycle := Queued\<rparr>
       in upsert_one p block seq)"

definition project_operation_state_changed ::
    "uuid_crate \<Rightarrow> block_projector \<Rightarrow> u64 \<Rightarrow> operation_id option \<Rightarrow> operation_state \<Rightarrow> projection" where
  "project_operation_state_changed U p seq oid to =
     and_then (ok_or oid MissingOperationId) (\<lambda>oid.
       let block_id = stable_block_id U ''operation'' (uuid_text U (operation_uuid oid)) in
       and_then (find_block p block_id) (\<lambda>block.
         case be_payload block of
           block_payload.Operation i k s r c _ \<Rightarrow>
             upsert_one p
               (block\<lparr>be_payload := block_payload.Operation i k s r c to,
                      be_lifecycle := lifecycle_for_operation to,
                      be_attention := attention_for_operation to\<rparr>) seq
         | _ \<Rightarrow> Inl (BlockKindMismatch block_id)))"

definition project_permission_requested ::
    "uuid_crate \<Rightarrow> block_projector \<Rightarrow> u64 \<Rightarrow> operation_id option \<Rightarrow> u64 \<Rightarrow> bound_approval_detail option
      \<Rightarrow> string \<Rightarrow> permission_decision list \<Rightarrow> projection" where
  "project_permission_requested U p seq oid operation_revision approval prompt options =
     and_then (ok_or oid MissingOperationId) (\<lambda>oid.
       let block_id = stable_block_id U ''approval'' (uuid_text U (operation_uuid oid));
           block = new_block block_id (bj_task_id p) block_kind.Approval seq
             (block_payload.Approval oid operation_revision approval prompt options None);
           block = block\<lparr>be_render_slot := Attention, be_trust_class := TrustedChrome,
                         be_lifecycle := Waiting, be_attention := WaitingApproval\<rparr>;
           block = block\<lparr>be_actions := map (\<lambda>option.
             \<lparr>ba_action_id = permission_action_id option,
              ba_expected_block_revision = be_block_revision block,
              ba_risk = ExternalEffect,
              ba_required_capabilities = []\<rparr>) options\<rparr>
       in upsert_one p block seq)"

definition decision_lifecycle :: "permission_decision \<Rightarrow> block_lifecycle" where
  "decision_lifecycle d = (case d of
      AllowOnce \<Rightarrow> block_lifecycle.Succeeded
    | AllowAlways \<Rightarrow> block_lifecycle.Succeeded
    | RejectOnce \<Rightarrow> block_lifecycle.Cancelled
    | RejectAlways \<Rightarrow> block_lifecycle.Cancelled
    | permission_decision.Cancelled \<Rightarrow> block_lifecycle.Cancelled)"

definition project_permission_decided ::
    "uuid_crate \<Rightarrow> block_projector \<Rightarrow> u64 \<Rightarrow> operation_id option \<Rightarrow> permission_decision \<Rightarrow> projection" where
  "project_permission_decided U p seq oid decision =
     and_then (ok_or oid MissingOperationId) (\<lambda>oid.
       let block_id = stable_block_id U ''approval'' (uuid_text U (operation_uuid oid)) in
       and_then (find_block p block_id) (\<lambda>block.
         case be_payload block of
           block_payload.Approval i r a pr op _ \<Rightarrow>
             upsert_one p
               (block\<lparr>be_payload := block_payload.Approval i r a pr op (Some decision),
                      be_lifecycle := decision_lifecycle decision,
                      be_attention := NoAttention,
                      be_actions := []\<rparr>) seq
         | _ \<Rightarrow> Inl (BlockKindMismatch block_id)))"

definition project_operation_receipt ::
    "uuid_crate \<Rightarrow> block_projector \<Rightarrow> u64 \<Rightarrow> operation_id option \<Rightarrow> u64 \<Rightarrow> string \<Rightarrow> bool
      \<Rightarrow> operation_outcome option \<Rightarrow> string \<Rightarrow> string option \<Rightarrow> projection" where
  "project_operation_receipt U p seq oid operation_revision executor succeeded outcome summary digest =
     (let outcome = (case outcome of Some x \<Rightarrow> x
            | None \<Rightarrow> if succeeded then operation_outcome.Succeeded else operation_outcome.Failed) in
      and_then (ok_or oid MissingOperationId) (\<lambda>oid.
       let block_id = stable_block_id U ''receipt'' (uuid_text U (operation_uuid oid));
           block = new_block block_id (bj_task_id p) block_kind.Receipt seq
             (block_payload.OperationReceipt oid operation_revision executor
                (outcome_succeeded outcome) (Some outcome) summary digest);
           block = block\<lparr>be_trust_class := TrustedChrome,
             be_lifecycle := (case outcome of
                operation_outcome.Succeeded \<Rightarrow> block_lifecycle.Succeeded
              | operation_outcome.Failed \<Rightarrow> block_lifecycle.Failed
              | operation_outcome.UnknownExecution \<Rightarrow> block_lifecycle.UnknownExecution),
             be_attention := (case outcome of
                operation_outcome.Succeeded \<Rightarrow> NoAttention
              | _ \<Rightarrow> attention_state.Failed)\<rparr>
       in upsert_one p block seq))"

definition project_artifact_accepted ::
    "uuid_crate \<Rightarrow> block_projector \<Rightarrow> u64 \<Rightarrow> accepted_gen_ui_artifact \<Rightarrow> projection" where
  "project_artifact_accepted U p seq artifact =
     (let block_id = stable_block_id U ''artifact'' (uuid_text U (task_uuid (bj_task_id p)));
          block = new_block block_id (bj_task_id p) block_kind.Artifact seq
            (block_payload.Artifact artifact);
          block = block\<lparr>be_render_slot := Inspector, be_trust_class := IsolatedArtifact,
                        be_lifecycle := block_lifecycle.Succeeded\<rparr>
      in upsert_one p block seq)"

definition project_terminal_opened ::
    "uuid_crate \<Rightarrow> block_projector \<Rightarrow> u64 \<Rightarrow> terminal_id \<Rightarrow> terminal_command \<Rightarrow> terminal_size \<Rightarrow> projection" where
  "project_terminal_opened U p seq tid command dims =
     (let block_id = stable_block_id U ''terminal'' (uuid_text U (terminal_uuid tid));
          block = new_block block_id (bj_task_id p) block_kind.Terminal seq
            (block_payload.Terminal tid (display_text command) dims 0 0 0 None);
          block = block\<lparr>be_trust_class := TrustedChrome, be_lifecycle := Running\<rparr>
      in upsert_one p block seq)"

definition project_terminal_output ::
    "uuid_crate \<Rightarrow> block_projector \<Rightarrow> u64 \<Rightarrow> terminal_id \<Rightarrow> u64 \<Rightarrow> u64 \<Rightarrow> projection" where
  "project_terminal_output U p seq tid stream_sequence byte_count =
     (let block_id = stable_block_id U ''terminal'' (uuid_text U (terminal_uuid tid)) in
      and_then (find_block p block_id) (\<lambda>block.
        case be_payload block of
          block_payload.Terminal i cmd dims generation existing_sequence existing_bytes ex \<Rightarrow>
            (if stream_sequence \<le> existing_sequence
             then Inl (StaleTerminalSequence existing_sequence stream_sequence)
             else upsert_one p
               (block\<lparr>be_payload := block_payload.Terminal i cmd dims generation stream_sequence
                        (saturating_add existing_bytes byte_count) ex\<rparr>) seq)
        | _ \<Rightarrow> Inl (BlockKindMismatch block_id)))"

definition project_terminal_resized ::
    "uuid_crate \<Rightarrow> block_projector \<Rightarrow> u64 \<Rightarrow> terminal_id \<Rightarrow> u64 \<Rightarrow> terminal_size \<Rightarrow> projection" where
  "project_terminal_resized U p seq tid generation dims =
     (let block_id = stable_block_id U ''terminal'' (uuid_text U (terminal_uuid tid)) in
      and_then (find_block p block_id) (\<lambda>block.
        case be_payload block of
          block_payload.Terminal i cmd _ existing_generation ss bc ex \<Rightarrow>
            (if generation \<le> existing_generation
             then Inl (StaleResizeGeneration existing_generation generation)
             else upsert_one p
               (block\<lparr>be_payload := block_payload.Terminal i cmd dims generation ss bc ex\<rparr>) seq)
        | _ \<Rightarrow> Inl (BlockKindMismatch block_id)))"

definition project_terminal_exited ::
    "uuid_crate \<Rightarrow> block_projector \<Rightarrow> u64 \<Rightarrow> terminal_id \<Rightarrow> u32 option \<Rightarrow> projection" where
  "project_terminal_exited U p seq tid exit_code =
     (let block_id = stable_block_id U ''terminal'' (uuid_text U (terminal_uuid tid)) in
      and_then (find_block p block_id) (\<lambda>block.
        case be_payload block of
          block_payload.Terminal i cmd dims generation ss bc _ \<Rightarrow>
            upsert_one p
              (block\<lparr>be_payload := block_payload.Terminal i cmd dims generation ss bc exit_code,
                     be_lifecycle := (if exit_code = Some 0 then block_lifecycle.Succeeded
                                      else block_lifecycle.Failed),
                     be_attention := (if exit_code = Some 0 then NoAttention
                                      else attention_state.Failed)\<rparr>) seq
        | _ \<Rightarrow> Inl (BlockKindMismatch block_id)))"

definition project_review_ready :: "uuid_crate \<Rightarrow> block_projector \<Rightarrow> u64 \<Rightarrow> string \<Rightarrow> projection" where
  "project_review_ready U p seq summary =
     (let block_id = stable_block_id U ''review'' (uuid_text U (task_uuid (bj_task_id p)));
          block = new_block block_id (bj_task_id p) block_kind.Review seq
            (block_payload.Review summary);
          block = block\<lparr>be_render_slot := Attention, be_trust_class := TrustedChrome,
                        be_lifecycle := block_lifecycle.Succeeded,
                        be_attention := attention_state.ReviewReady\<rparr>
      in upsert_one p block seq)"

definition project_diagnostic ::
    "uuid_crate \<Rightarrow> block_projector \<Rightarrow> u64 \<Rightarrow> event_id \<Rightarrow> string \<Rightarrow> string \<Rightarrow> projection" where
  "project_diagnostic U p seq eid code message =
     (let block_id = stable_block_id U ''diagnostic'' (uuid_text U (event_uuid eid));
          block = new_block block_id (bj_task_id p) block_kind.Diagnostic seq
            (block_payload.Diagnostic code message);
          block = block\<lparr>be_lifecycle := block_lifecycle.Failed,
                        be_attention := attention_state.Failed\<rparr>
      in upsert_one p block seq)"

definition project_agent_tool_call ::
    "uuid_crate \<Rightarrow> block_projector \<Rightarrow> u64 \<Rightarrow> string \<Rightarrow> agent_tool_call \<Rightarrow> projection" where
  "project_agent_tool_call U p seq turn_id call =
     (let block_id = stable_block_id U ''agent-tool-call''
            (turn_id @ '':'' @ atc_tool_call_id call);
          block = new_block block_id (bj_task_id p) block_kind.AgentToolCall seq
            (block_payload.AgentToolCall turn_id call);
          block = block\<lparr>
            be_lifecycle := (case atc_status call of
               agent_tool_status.Pending \<Rightarrow> Queued
             | agent_tool_status.InProgress \<Rightarrow> Running
             | agent_tool_status.Completed \<Rightarrow> block_lifecycle.Succeeded
             | agent_tool_status.Failed \<Rightarrow> block_lifecycle.Failed),
            be_attention := (if atc_status call = agent_tool_status.Failed
                             then attention_state.Failed else NoAttention)\<rparr>
      in upsert_one p block seq)"

definition project_agent_plan ::
    "uuid_crate \<Rightarrow> block_projector \<Rightarrow> u64 \<Rightarrow> string \<Rightarrow> agent_plan_entry list \<Rightarrow> projection" where
  "project_agent_plan U p seq turn_id entries =
     (let block_id = stable_block_id U ''agent-plan'' turn_id;
          block = new_block block_id (bj_task_id p) block_kind.AgentPlan seq
            (block_payload.AgentPlan turn_id entries);
          block = block\<lparr>be_lifecycle :=
            (if list_all (\<lambda>entry. ape_status entry = agent_plan_status.Completed) entries
             then block_lifecycle.Succeeded else Running)\<rparr>
      in upsert_one p block seq)"

definition project_payload :: "uuid_crate \<Rightarrow> block_projector \<Rightarrow> event_envelope \<Rightarrow> projection" where
  "project_payload U p e =
     (let seq = ev_sequence e; oid = ev_operation_id e in
      case ev_payload e of
        TaskCreated title \<Rightarrow> project_task_created U p seq title
      | MessageAppended bid role ext text \<Rightarrow> project_message_appended p seq bid role ext text
      | OperationProposed _ kind _ summary risk caps \<Rightarrow>
          project_operation_proposed U p seq oid kind summary risk caps
      | OperationStateChanged _ _ to _ _ \<Rightarrow> project_operation_state_changed U p seq oid to
      | PermissionRequested rv approval prompt options \<Rightarrow>
          project_permission_requested U p seq oid rv approval prompt options
      | PermissionDecided _ decision _ \<Rightarrow> project_permission_decided U p seq oid decision
      | domain_event.OperationReceipt rv executor succeeded outcome summary digest \<Rightarrow>
          project_operation_receipt U p seq oid rv executor succeeded outcome summary digest
      | ArtifactAccepted artifact \<Rightarrow> project_artifact_accepted U p seq artifact
      | SandboxProfileCompiled _ _ \<Rightarrow> Inr (p, [])
      | OperationExecutionContextCompiled _ _ \<Rightarrow> Inr (p, [])
      | SandboxLeaseIssued _ _ _ _ _ \<Rightarrow> Inr (p, [])
      | SandboxReceiptRecorded _ _ \<Rightarrow> Inr (p, [])
      | SandboxViolationObserved _ _ \<Rightarrow> Inr (p, [])
      | AgentExecutionContextRecorded _ \<Rightarrow> Inr (p, [])
      | LocalMcpServerRuntimeRecorded _ \<Rightarrow> Inr (p, [])
      | LocalMcpToolCallRecorded _ \<Rightarrow> Inr (p, [])
      | TerminalOpened tid command dims \<Rightarrow> project_terminal_opened U p seq tid command dims
      | TerminalOutputObserved tid ss bc \<Rightarrow> project_terminal_output U p seq tid ss bc
      | TerminalResized tid generation dims \<Rightarrow> project_terminal_resized U p seq tid generation dims
      | TerminalExited tid exit_code \<Rightarrow> project_terminal_exited U p seq tid exit_code
      | domain_event.ReviewReady summary \<Rightarrow> project_review_ready U p seq summary
      | domain_event.Diagnostic code message \<Rightarrow>
          project_diagnostic U p seq (ev_event_id e) code message
      | AgentToolCallUpdated turn_id call \<Rightarrow> project_agent_tool_call U p seq turn_id call
      | AgentPlanUpdated turn_id entries \<Rightarrow> project_agent_plan U p seq turn_id entries)"

definition project_event ::
    "uuid_crate \<Rightarrow> block_projector \<Rightarrow> event_envelope \<Rightarrow> projector_error + (block_projector \<times> block_patch)" where
  "project_event U p e =
     (if ev_task_id e \<noteq> bj_task_id p then Inl (WrongTask (bj_task_id p) (ev_task_id e))
      else if ev_sequence e \<le> bj_revision p then Inl (StaleEvent (bj_revision p) (ev_sequence e))
      else and_then (project_payload U p e) (\<lambda>(p', operations).
        Inr (p'\<lparr>bj_revision := ev_sequence e\<rparr>,
             \<lparr>bp_stream_sequence = ev_sequence e,
              bp_base_revision = bj_revision p,
              bp_target_revision = ev_sequence e,
              bp_operations = operations\<rparr>)))"

definition project_step :: "uuid_crate \<Rightarrow> block_projector \<Rightarrow> event_envelope \<Rightarrow> projector_error + block_projector" where
  "project_step U p e = and_then (project_event U p e) (\<lambda>(p', _). Inr p')"

definition replay :: "uuid_crate \<Rightarrow> task_id \<Rightarrow> event_envelope list \<Rightarrow> projector_error + block_projector" where
  "replay U tid es = try_fold (project_step U) (new_projector tid) (filter (\<lambda>e. ev_task_id e = tid) es)"

section \<open>Documents\<close>

definition document_digest ::
    "digest_crate \<Rightarrow> task_id \<Rightarrow> u64 \<Rightarrow> block_envelope list \<Rightarrow> projector_error + string" where
  "document_digest D tid revision blocks =
     and_then (ok_or (to_json D \<lparr>di_schema_version = BLOCK_SCHEMA_VERSION, di_task_id = tid,
                                 di_revision = revision, di_blocks = blocks\<rparr>) Serialization)
       (\<lambda>bytes. Inr (hex_lower (sha256 D bytes)))"

definition block_sort_key :: "block_envelope \<Rightarrow> u64 \<times> block_id" where
  "block_sort_key b = (be_order_key b, be_block_id b)"

definition block_values :: "block_projector \<Rightarrow> block_envelope list" where
  "block_values p = map snd (bj_blocks p)"

definition snapshot :: "digest_crate \<Rightarrow> block_projector \<Rightarrow> projector_error + block_document" where
  "snapshot D p =
     (let blocks = sort_key block_sort_key (block_values p) in
      and_then (document_digest D (bj_task_id p) (bj_revision p) blocks) (\<lambda>digest.
        Inr \<lparr>bd_schema_version = BLOCK_SCHEMA_VERSION,
             bd_task_id = bj_task_id p,
             bd_revision = bj_revision p,
             bd_semantic_digest = digest,
             bd_blocks = blocks\<rparr>))"

text \<open>The last of the elements with the greatest key, as \<^verbatim>\<open>max_by_key\<close> returns it.\<close>

fun max_by_key :: "('a \<Rightarrow> 'k::linorder) \<Rightarrow> 'a list \<Rightarrow> 'a option" where
  "max_by_key f [] = None"
| "max_by_key f (x # xs) = (case max_by_key f xs of
       None \<Rightarrow> Some x
     | Some y \<Rightarrow> if f x \<le> f y then Some y else Some x)"

definition waiting_approval :: "block_envelope \<Rightarrow> (u64 \<times> operation_id) option" where
  "waiting_approval b = (case be_payload b of
       block_payload.Approval oid _ _ _ _ None \<Rightarrow> Some (be_document_revision b, oid)
     | _ \<Rightarrow> None)"

definition latest_waiting_operation_id :: "block_projector \<Rightarrow> operation_id option" where
  "latest_waiting_operation_id p =
     map_option snd (max_by_key fst (List.map_filter waiting_approval (block_values p)))"

fun update_first :: "('a \<Rightarrow> bool) \<Rightarrow> ('a \<Rightarrow> 'a) \<Rightarrow> 'a list \<Rightarrow> 'a list" where
  "update_first P f [] = []"
| "update_first P f (x # xs) = (if P x then f x # xs else x # update_first P f xs)"

definition apply_block_operation ::
    "u64 \<Rightarrow> block_envelope list \<Rightarrow> block_operation \<Rightarrow> projector_error + block_envelope list" where
  "apply_block_operation target blocks operation = (case operation of
       Upsert block \<Rightarrow>
         (case find (\<lambda>existing. be_block_id existing = be_block_id block) blocks of
            Some existing \<Rightarrow>
              (if be_kind existing \<noteq> be_kind block then Inl (BlockKindMismatch (be_block_id block))
               else Inr (update_first (\<lambda>b. be_block_id b = be_block_id block) (\<lambda>_. block) blocks))
          | None \<Rightarrow> Inr (blocks @ [block]))
     | AppendContent bid expected_previous_revision revision text \<Rightarrow>
         and_then (ok_or (find (\<lambda>b. be_block_id b = bid) blocks) (MissingBlock bid)) (\<lambda>block.
           if be_block_revision block \<noteq> expected_previous_revision
           then Inl (BlockRevisionMismatch (be_block_revision block) expected_previous_revision)
           else case be_payload block of
             Message role existing ext \<Rightarrow>
               Inr (update_first (\<lambda>b. be_block_id b = bid)
                 (\<lambda>b. b\<lparr>be_payload := Message role (existing @ text) ext,
                        be_block_revision := revision,
                        be_document_revision := target\<rparr>) blocks)
           | _ \<Rightarrow> Inl (BlockKindMismatch bid))
     | Remove bid \<Rightarrow> Inr (filter (\<lambda>b. be_block_id b \<noteq> bid) blocks))"

text \<open>
  The loop over the operations works on the document in place, so what came before a failing
  operation stays: the blocks are returned with the error.
\<close>

fun apply_block_operations ::
    "u64 \<Rightarrow> block_envelope list \<Rightarrow> block_operation list \<Rightarrow> (projector_error + unit) \<times> block_envelope list" where
  "apply_block_operations target blocks [] = (Inr (), blocks)"
| "apply_block_operations target blocks (op # ops) =
     (case apply_block_operation target blocks op of
        Inl e \<Rightarrow> (Inl e, blocks)
      | Inr blocks' \<Rightarrow> apply_block_operations target blocks' ops)"

definition apply_patch ::
    "digest_crate \<Rightarrow> block_document \<Rightarrow> block_patch \<Rightarrow> (projector_error + unit) \<times> block_document" where
  "apply_patch D document patch =
     (if bd_revision document \<noteq> bp_base_revision patch
      then (Inl (PatchBaseMismatch (bd_revision document) (bp_base_revision patch)), document)
      else case apply_block_operations (bp_target_revision patch) (bd_blocks document) (bp_operations patch) of
        (Inl e, blocks) \<Rightarrow> (Inl e, document\<lparr>bd_blocks := blocks\<rparr>)
      | (Inr (), blocks) \<Rightarrow>
          (let document = document\<lparr>bd_blocks := sort_key block_sort_key blocks,
                                   bd_revision := bp_target_revision patch\<rparr> in
           case document_digest D (bd_task_id document) (bd_revision document) (bd_blocks document) of
             Inl e \<Rightarrow> (Inl e, document)
           | Inr digest \<Rightarrow> (Inr (), document\<lparr>bd_semantic_digest := digest\<rparr>)))"

end
