(* ===== verification/Projector_Refinement.thy ===== *)
theory Projector_Refinement
  imports Projector
begin

text \<open>
  What the projector promises: its invariant, and the refinement that makes incremental
  rendering sound. A client that starts from a snapshot and applies the patch of every further
  event holds exactly the document a fresh snapshot would give it.
\<close>

section \<open>The invariant\<close>

primrec payload_kind :: "block_payload \<Rightarrow> block_kind" where
  "payload_kind (block_payload.Task _) = block_kind.Task"
| "payload_kind (block_payload.Message _ _ _) = block_kind.Message"
| "payload_kind (block_payload.Operation _ _ _ _ _ _) = block_kind.Operation"
| "payload_kind (block_payload.Approval _ _ _ _ _ _) = block_kind.Approval"
| "payload_kind (block_payload.OperationReceipt _ _ _ _ _ _ _) = block_kind.Receipt"
| "payload_kind (block_payload.Artifact _) = block_kind.Artifact"
| "payload_kind (block_payload.Terminal _ _ _ _ _ _ _) = block_kind.Terminal"
| "payload_kind (block_payload.Review _) = block_kind.Review"
| "payload_kind (block_payload.Diagnostic _ _) = block_kind.Diagnostic"
| "payload_kind (block_payload.AgentToolCall _ _) = block_kind.AgentToolCall"
| "payload_kind (block_payload.AgentPlan _ _) = block_kind.AgentPlan"

definition trust_of_kind :: "block_kind \<Rightarrow> trust_class" where
  "trust_of_kind k = (case k of
      block_kind.Artifact \<Rightarrow> IsolatedArtifact
    | block_kind.Message \<Rightarrow> UntrustedContent
    | block_kind.Diagnostic \<Rightarrow> UntrustedContent
    | block_kind.AgentToolCall \<Rightarrow> UntrustedContent
    | block_kind.AgentPlan \<Rightarrow> UntrustedContent
    | _ \<Rightarrow> TrustedChrome)"

definition slot_of_kind :: "block_kind \<Rightarrow> render_slot" where
  "slot_of_kind k = (case k of
      block_kind.Task \<Rightarrow> SessionHeader
    | block_kind.Approval \<Rightarrow> Attention
    | block_kind.Review \<Rightarrow> Attention
    | block_kind.Artifact \<Rightarrow> Inspector
    | _ \<Rightarrow> Timeline)"

definition presentation_ok :: "block_envelope \<Rightarrow> bool" where
  "presentation_ok b \<longleftrightarrow> be_kind b = payload_kind (be_payload b)
     \<and> be_trust_class b = trust_of_kind (be_kind b)
     \<and> be_render_slot b = slot_of_kind (be_kind b)
     \<and> (be_actions b \<noteq> [] \<longrightarrow> waiting_approval b \<noteq> None)"

definition block_ok :: "task_id \<Rightarrow> u64 \<Rightarrow> block_envelope \<Rightarrow> bool" where
  "block_ok tid rv b \<longleftrightarrow> be_task_id b = tid \<and> be_order_key b \<le> rv \<and> presentation_ok b"

definition projector_inv :: "block_projector \<Rightarrow> bool" where
  "projector_inv p \<longleftrightarrow> bt_wf (bj_blocks p)
     \<and> (\<forall>k b. bt_get (bj_blocks p) k = Some b \<longrightarrow>
          be_block_id b = k \<and> block_ok (bj_task_id p) (bj_revision p) b)
     \<and> (\<forall>k b k' b'. bt_get (bj_blocks p) k = Some b \<longrightarrow> bt_get (bj_blocks p) k' = Some b' \<longrightarrow>
          be_order_key b = be_order_key b' \<longrightarrow> k = k')"

lemma projector_invD:
  assumes "projector_inv p"
  shows "bt_wf (bj_blocks p)"
    and "bt_get (bj_blocks p) k = Some b \<Longrightarrow> be_block_id b = k"
    and "bt_get (bj_blocks p) k = Some b \<Longrightarrow> be_task_id b = bj_task_id p"
    and "bt_get (bj_blocks p) k = Some b \<Longrightarrow> be_order_key b \<le> bj_revision p"
    and "bt_get (bj_blocks p) k = Some b \<Longrightarrow> presentation_ok b"
    and "bt_get (bj_blocks p) k = Some b \<Longrightarrow> bt_get (bj_blocks p) k' = Some b' \<Longrightarrow>
           be_order_key b = be_order_key b' \<Longrightarrow> k = k'"
  using assms unfolding projector_inv_def block_ok_def by blast+

lemma projector_inv_new: "projector_inv (new_projector tid)"
  by (simp add: projector_inv_def new_projector_def)

section \<open>The shape of every arm\<close>

text \<open>
  An arm does one of three things: nothing, one upsert of a well presented block, or one
  append to a message block.
\<close>

inductive projection_shape ::
    "block_projector \<Rightarrow> u64 \<Rightarrow> block_projector \<Rightarrow> block_operation list \<Rightarrow> bool"
  for p :: block_projector and seq :: u64 where
  nothing: "projection_shape p seq p []"
| upserted: "upsert p b seq = Inr (p', op) \<Longrightarrow> presentation_ok b \<Longrightarrow> be_task_id b = bj_task_id p \<Longrightarrow>
     (bt_get (bj_blocks p) (be_block_id b) = None \<Longrightarrow> be_order_key b = seq) \<Longrightarrow>
     projection_shape p seq p' [op]"
| appended: "bt_get (bj_blocks p) bid = Some b \<Longrightarrow> be_payload b = Message role t ext \<Longrightarrow>
     projection_shape p seq
       (p\<lparr>bj_blocks := bt_insert bid (b\<lparr>be_payload := Message role (t @ text) ext,
            be_block_revision := be_block_revision b + 1, be_document_revision := seq\<rparr>) (bj_blocks p)\<rparr>)
       [AppendContent bid (be_block_revision b) (be_block_revision b + 1) text]"

lemma upsert_one_shape:
  assumes "upsert_one p b seq = Inr (p', ops)" "presentation_ok b" "be_task_id b = bj_task_id p"
    and "bt_get (bj_blocks p) (be_block_id b) = None \<Longrightarrow> be_order_key b = seq"
  shows "projection_shape p seq p' ops"
  using assms by (auto simp: upsert_one_def result_simps intro: projection_shape.upserted)

lemma upsert_new_shape:
  assumes "upsert_one p b seq = Inr (p', ops)" "presentation_ok b" "be_task_id b = bj_task_id p"
    and "be_order_key b = seq"
  shows "projection_shape p seq p' ops"
  using assms by (auto intro: upsert_one_shape)

text \<open>A block found in the map, with only payload, lifecycle, attention or actions replaced.\<close>

lemma upsert_found_shape:
  assumes "upsert_one p b seq = Inr (p', ops)" "projector_inv p"
    and "bt_get (bj_blocks p) k = Some old" "presentation_ok b"
    and "be_task_id b = be_task_id old" "be_block_id b = be_block_id old"
  shows "projection_shape p seq p' ops"
  using assms projector_invD(2,3) [OF assms(2,3)] by (auto intro: upsert_one_shape)

named_theorems arm_shapes \<open>the shape of each arm of the projection\<close>

lemmas presentation_defs =
  presentation_ok_def trust_of_kind_def slot_of_kind_def waiting_approval_def

lemma task_created_shape [arm_shapes]:
  "project_task_created U p seq t = Inr (p', ops) \<Longrightarrow> projection_shape p seq p' ops"
  unfolding project_task_created_def Let_def
  by (erule upsert_new_shape) (simp_all add: presentation_defs)

lemma message_appended_shape [arm_shapes]:
  "project_message_appended p seq bid role ext text = Inr (p', ops) \<Longrightarrow> projection_shape p seq p' ops"
  unfolding project_message_appended_def Let_def
  by (auto simp: presentation_defs intro: projection_shape.appended upsert_new_shape
      split: option.splits block_payload.splits if_splits)

lemma operation_proposed_shape [arm_shapes]:
  "project_operation_proposed U p seq oid k s r c = Inr (p', ops) \<Longrightarrow> projection_shape p seq p' ops"
  unfolding project_operation_proposed_def Let_def
  by (auto simp: result_simps presentation_defs elim!: upsert_new_shape)

lemma permission_requested_shape [arm_shapes]:
  "project_permission_requested U p seq oid rv a pr os = Inr (p', ops) \<Longrightarrow> projection_shape p seq p' ops"
  unfolding project_permission_requested_def Let_def
  by (auto simp: result_simps presentation_defs elim!: upsert_new_shape)

lemma operation_receipt_shape [arm_shapes]:
  "project_operation_receipt U p seq oid rv ex su out sm dg = Inr (p', ops) \<Longrightarrow> projection_shape p seq p' ops"
  unfolding project_operation_receipt_def Let_def
  by (auto simp: result_simps presentation_defs elim!: upsert_new_shape)

lemma artifact_accepted_shape [arm_shapes]:
  "project_artifact_accepted U p seq a = Inr (p', ops) \<Longrightarrow> projection_shape p seq p' ops"
  unfolding project_artifact_accepted_def Let_def
  by (erule upsert_new_shape) (simp_all add: presentation_defs)

lemma terminal_opened_shape [arm_shapes]:
  "project_terminal_opened U p seq tid c s = Inr (p', ops) \<Longrightarrow> projection_shape p seq p' ops"
  unfolding project_terminal_opened_def Let_def
  by (erule upsert_new_shape) (simp_all add: presentation_defs)

lemma review_ready_shape [arm_shapes]:
  "project_review_ready U p seq s = Inr (p', ops) \<Longrightarrow> projection_shape p seq p' ops"
  unfolding project_review_ready_def Let_def
  by (erule upsert_new_shape) (simp_all add: presentation_defs)

lemma diagnostic_shape [arm_shapes]:
  "project_diagnostic U p seq eid c m = Inr (p', ops) \<Longrightarrow> projection_shape p seq p' ops"
  unfolding project_diagnostic_def Let_def
  by (erule upsert_new_shape) (simp_all add: presentation_defs)

lemma agent_tool_call_shape [arm_shapes]:
  "project_agent_tool_call U p seq t c = Inr (p', ops) \<Longrightarrow> projection_shape p seq p' ops"
  unfolding project_agent_tool_call_def Let_def
  by (erule upsert_new_shape) (simp_all add: presentation_defs)

lemma agent_plan_shape [arm_shapes]:
  "project_agent_plan U p seq t es = Inr (p', ops) \<Longrightarrow> projection_shape p seq p' ops"
  unfolding project_agent_plan_def Let_def
  by (erule upsert_new_shape) (simp_all add: presentation_defs)

text \<open>
  The arms that update a block: the found block keeps its kind, trust and slot, and its
  payload stays of its kind.
\<close>

lemma found_block_shape:
  assumes "find_block p k = Inr old" "projector_inv p" "upsert_one p b seq = Inr (p', ops)"
    and "be_block_id b = be_block_id old" "be_task_id b = be_task_id old"
    and "be_kind b = be_kind old" "be_trust_class b = be_trust_class old"
    and "be_render_slot b = be_render_slot old"
    and "payload_kind (be_payload b) = payload_kind (be_payload old)"
    and "be_actions b \<noteq> [] \<Longrightarrow> be_actions old \<noteq> [] \<and> waiting_approval old = None"
  shows "projection_shape p seq p' ops"
proof -
  from assms(1) have old: "bt_get (bj_blocks p) k = Some old"
    by (simp add: find_block_def result_simps)
  from projector_invD(5) [OF assms(2) old] have "presentation_ok old" .
  with assms have "presentation_ok b" by (auto simp: presentation_ok_def)
  with assms old show ?thesis by (blast intro: upsert_found_shape)
qed

lemma operation_state_changed_shape [arm_shapes]:
  assumes "project_operation_state_changed U p seq oid to = Inr (p', ops)" "projector_inv p"
  shows "projection_shape p seq p' ops"
proof -
  from assms(1) obtain k old where f: "find_block p k = Inr old"
    and body: "(case be_payload old of
           block_payload.Operation i k s r c _ \<Rightarrow>
             upsert_one p
               (old\<lparr>be_payload := block_payload.Operation i k s r c to,
                      be_lifecycle := lifecycle_for_operation to,
                      be_attention := attention_for_operation to\<rparr>) seq
         | _ \<Rightarrow> Inl (BlockKindMismatch k)) = Inr (p', ops)"
    by (auto simp: project_operation_state_changed_def Let_def result_simps)
  show ?thesis using body projector_invD(5) [OF assms(2), of k old] f
    by (cases "be_payload old")
      (auto intro!: found_block_shape [OF f assms(2)] simp: presentation_defs find_block_def result_simps)
qed

lemma permission_decided_shape [arm_shapes]:
  assumes "project_permission_decided U p seq oid d = Inr (p', ops)" "projector_inv p"
  shows "projection_shape p seq p' ops"
proof -
  from assms(1) obtain k old where f: "find_block p k = Inr old"
    and body: "(case be_payload old of
           block_payload.Approval i r a pr op _ \<Rightarrow>
             upsert_one p
               (old\<lparr>be_payload := block_payload.Approval i r a pr op (Some d),
                      be_lifecycle := decision_lifecycle d, be_attention := NoAttention,
                      be_actions := []\<rparr>) seq
         | _ \<Rightarrow> Inl (BlockKindMismatch k)) = Inr (p', ops)"
    by (auto simp: project_permission_decided_def Let_def result_simps)
  then show ?thesis
    by (cases "be_payload old") (auto intro!: found_block_shape [OF f assms(2)])
qed

lemma terminal_output_shape [arm_shapes]:
  assumes "project_terminal_output U p seq tid ss bc = Inr (p', ops)" "projector_inv p"
  shows "projection_shape p seq p' ops"
proof -
  from assms(1) obtain k old where f: "find_block p k = Inr old"
    and body: "(case be_payload old of
          block_payload.Terminal i cmd sz g es eb ex \<Rightarrow>
            (if ss \<le> es then Inl (StaleTerminalSequence es ss)
             else upsert_one p (old\<lparr>be_payload := block_payload.Terminal i cmd sz g ss
                        (saturating_add eb bc) ex\<rparr>) seq)
        | _ \<Rightarrow> Inl (BlockKindMismatch k)) = Inr (p', ops)"
    by (auto simp: project_terminal_output_def Let_def result_simps)
  show ?thesis using body projector_invD(5) [OF assms(2), of k old] f
    by (cases "be_payload old")
      (auto intro!: found_block_shape [OF f assms(2)] simp: presentation_defs find_block_def result_simps
        split: if_splits)
qed

lemma terminal_resized_shape [arm_shapes]:
  assumes "project_terminal_resized U p seq tid g sz = Inr (p', ops)" "projector_inv p"
  shows "projection_shape p seq p' ops"
proof -
  from assms(1) obtain k old where f: "find_block p k = Inr old"
    and body: "(case be_payload old of
          block_payload.Terminal i cmd _ eg ss bc ex \<Rightarrow>
            (if g \<le> eg then Inl (StaleResizeGeneration eg g)
             else upsert_one p (old\<lparr>be_payload := block_payload.Terminal i cmd sz g ss bc ex\<rparr>) seq)
        | _ \<Rightarrow> Inl (BlockKindMismatch k)) = Inr (p', ops)"
    by (auto simp: project_terminal_resized_def Let_def result_simps)
  show ?thesis using body projector_invD(5) [OF assms(2), of k old] f
    by (cases "be_payload old")
      (auto intro!: found_block_shape [OF f assms(2)] simp: presentation_defs find_block_def result_simps
        split: if_splits)
qed

lemma terminal_exited_shape [arm_shapes]:
  assumes "project_terminal_exited U p seq tid x = Inr (p', ops)" "projector_inv p"
  shows "projection_shape p seq p' ops"
proof -
  from assms(1) obtain k old where f: "find_block p k = Inr old"
    and body: "(case be_payload old of
          block_payload.Terminal i cmd sz g ss bc _ \<Rightarrow>
            upsert_one p
              (old\<lparr>be_payload := block_payload.Terminal i cmd sz g ss bc x,
                     be_lifecycle := (if x = Some 0 then block_lifecycle.Succeeded
                                      else block_lifecycle.Failed),
                     be_attention := (if x = Some 0 then NoAttention
                                      else attention_state.Failed)\<rparr>) seq
        | _ \<Rightarrow> Inl (BlockKindMismatch k)) = Inr (p', ops)"
    by (auto simp: project_terminal_exited_def Let_def result_simps)
  show ?thesis using body projector_invD(5) [OF assms(2), of k old] f
    by (cases "be_payload old")
      (auto intro!: found_block_shape [OF f assms(2)] simp: presentation_defs find_block_def result_simps)
qed

lemma project_payload_shape:
  assumes "project_payload U p e = Inr (p', ops)" "projector_inv p"
  shows "projection_shape p (ev_sequence e) p' ops"
  using assms by (cases "ev_payload e")
    (auto simp: project_payload_def Let_def intro: arm_shapes projection_shape.nothing)

section \<open>Preservation\<close>

lemma upsert_effect:
  assumes "upsert p b seq = Inr (p', op)"
  obtains b' where "op = Upsert b'" "be_block_id b' = be_block_id b"
    "p' = p\<lparr>bj_blocks := bt_insert (be_block_id b) b' (bj_blocks p)\<rparr>"
    "be_task_id b' = be_task_id b" "presentation_ok b' = presentation_ok b"
    "be_kind b' = be_kind b"
    "bt_get (bj_blocks p) (be_block_id b) = None \<Longrightarrow> be_order_key b' = be_order_key b"
    "\<And>old. bt_get (bj_blocks p) (be_block_id b) = Some old \<Longrightarrow>
       be_kind old = be_kind b \<and> be_order_key b' = be_order_key old"
  using assms
  by (cases "bt_get (bj_blocks p) (be_block_id b)")
    (auto simp: upsert_def Let_def presentation_ok_def waiting_approval_def
      split: if_splits block_payload.splits option.splits)

lemma bt_get_insert: "bt_get (bt_insert k v m) j = (if j = k then Some v else bt_get m j)"
  by (simp add: map_of_bt_insert)

text \<open>
  Putting a block in the map keeps the invariant when it has its key, task and presentation,
  and either inherits the order key of the block it replaces or takes the event's sequence
  number, which is greater than all the others.
\<close>

lemma projector_inv_put:
  assumes inv: "projector_inv p" and seq: "bj_revision p < seq"
    and b: "be_block_id b = k" "be_task_id b = bj_task_id p" "presentation_ok b"
    and new: "bt_get (bj_blocks p) k = None \<Longrightarrow> be_order_key b = seq"
    and old: "\<And>x. bt_get (bj_blocks p) k = Some x \<Longrightarrow> be_order_key b = be_order_key x"
  shows "projector_inv (p\<lparr>bj_blocks := bt_insert k b (bj_blocks p), bj_revision := seq\<rparr>)"
proof -
  note I = projector_invD [OF inv]
  have le: "be_order_key x \<le> seq" if "bt_get (bj_blocks p) j = Some x" for j x
    using I(4) [OF that] seq by simp
  have neq: "be_order_key x \<noteq> seq" if "bt_get (bj_blocks p) j = Some x" for j x
    using I(4) [OF that] seq by auto
  have ord: "be_order_key b \<le> seq" using new old le by (cases "bt_get (bj_blocks p) k") auto
  have uniq: "j = k" if "bt_get (bj_blocks p) j = Some x" "be_order_key x = be_order_key b" for j x
    using that new old neq I(6) by (cases "bt_get (bj_blocks p) k") auto
  show ?thesis
    unfolding projector_inv_def block_ok_def
    using I(1-5) b le ord uniq I(6) bt_wf_insert [OF I(1)]
    by (auto simp: bt_get_insert split: if_splits)
qed

lemma projection_shape_inv:
  assumes "projection_shape p seq p' ops" and inv: "projector_inv p" and seq: "bj_revision p < seq"
  shows "projector_inv (p'\<lparr>bj_revision := seq\<rparr>)"
  using assms(1)
proof (induction rule: projection_shape.induct)
  case nothing
  have le: "x \<le> seq" if "x \<le> bj_revision p" for x using that seq by simp
  from inv show ?case by (auto simp: projector_inv_def block_ok_def intro: le)
next
  case (upserted b p' op)
  from upserted(1) show ?case
  proof (rule upsert_effect)
    fix b' assume b': "be_block_id b' = be_block_id b"
      "p' = p\<lparr>bj_blocks := bt_insert (be_block_id b) b' (bj_blocks p)\<rparr>"
      "be_task_id b' = be_task_id b" "presentation_ok b' = presentation_ok b"
      "bt_get (bj_blocks p) (be_block_id b) = None \<Longrightarrow> be_order_key b' = be_order_key b"
      "\<And>old. bt_get (bj_blocks p) (be_block_id b) = Some old \<Longrightarrow>
         be_kind old = be_kind b \<and> be_order_key b' = be_order_key old"
    have "projector_inv (p\<lparr>bj_blocks := bt_insert (be_block_id b) b' (bj_blocks p), bj_revision := seq\<rparr>)"
      by (rule projector_inv_put [OF inv seq]) (use b' upserted in auto)
    with b'(2) show ?thesis by simp
  qed
next
  case (appended bid b role t ext u)
  note I = projector_invD [OF inv]
  from I(5) [OF appended(1)] appended(2)
  have "presentation_ok (b\<lparr>be_payload := Message role (t @ u) ext,
      be_block_revision := be_block_revision b + 1, be_document_revision := seq\<rparr>)"
    by (auto simp: presentation_defs)
  with appended I(2,3) [OF appended(1)] show ?case
    using projector_inv_put [OF inv seq, where k = bid and
        b = "b\<lparr>be_payload := Message role (t @ u) ext,
          be_block_revision := be_block_revision b + 1, be_document_revision := seq\<rparr>"]
    by simp
qed

lemma project_event_parts:
  assumes "project_event U p e = Inr (p', patch)"
  obtains q ops where "project_payload U p e = Inr (q, ops)" "p' = q\<lparr>bj_revision := ev_sequence e\<rparr>"
    "ev_task_id e = bj_task_id p" "bj_revision p < ev_sequence e"
    "patch = \<lparr>bp_stream_sequence = ev_sequence e, bp_base_revision = bj_revision p,
       bp_target_revision = ev_sequence e, bp_operations = ops\<rparr>"
  using assms by (auto simp: project_event_def result_simps not_le split: if_splits)

lemma projection_shape_fields:
  "projection_shape p seq p' ops \<Longrightarrow> bj_task_id p' = bj_task_id p \<and> bj_revision p' = bj_revision p"
  by (induction rule: projection_shape.induct) (auto elim!: upsert_effect)

lemma project_event_inv:
  assumes "project_event U p e = Inr (p', patch)" and "projector_inv p"
  shows "projector_inv p'" and "bj_task_id p' = bj_task_id p" and "bj_revision p < bj_revision p'"
    and "bj_revision p' = ev_sequence e"
proof -
  from project_event_parts [OF assms(1)] obtain q ops where
    q: "project_payload U p e = Inr (q, ops)" "p' = q\<lparr>bj_revision := ev_sequence e\<rparr>"
    "bj_revision p < ev_sequence e" .
  from project_payload_shape [OF q(1) assms(2)]
  have shape: "projection_shape p (ev_sequence e) q ops" .
  show "projector_inv p'"
    using projection_shape_inv [OF shape assms(2) q(3)] q(2) by simp
  show "bj_task_id p' = bj_task_id p" "bj_revision p < bj_revision p'" "bj_revision p' = ev_sequence e"
    using projection_shape_fields [OF shape] q(2,3) by simp_all
qed

lemma project_step_Inr_iff:
  "project_step U p e = Inr p' \<longleftrightarrow> (\<exists>patch. project_event U p e = Inr (p', patch))"
  by (auto simp: project_step_def result_simps)

definition projector_below :: "block_projector \<Rightarrow> block_projector \<Rightarrow> bool" where
  "projector_below p q \<longleftrightarrow> bj_task_id p = bj_task_id q \<and> bj_revision p \<le> bj_revision q"

interpretation projector: monotone_machine "project_step U" projector_inv projector_below
proof unfold_locales
  fix p q r :: block_projector and e
  show "projector_inv p \<Longrightarrow> project_step U p e = Inr q \<Longrightarrow> projector_inv q"
    by (auto simp: project_step_def result_simps intro: project_event_inv)
  show "projector_inv p \<Longrightarrow> project_step U p e = Inr q \<Longrightarrow> projector_below p q"
    by (auto simp: project_step_def result_simps projector_below_def dest: project_event_inv)
  show "projector_below p p" by (simp add: projector_below_def)
  show "projector_below p q \<Longrightarrow> projector_below q r \<Longrightarrow> projector_below p r"
    by (auto simp: projector_below_def)
qed

lemma replay_inv: "replay U tid es = Inr p \<Longrightarrow> projector_inv p \<and> bj_task_id p = tid"
  unfolding replay_def
  using projector.run_inv [OF projector_inv_new] projector.run_below [OF projector_inv_new]
  by (fastforce simp: projector_below_def new_projector_def)

section \<open>Patches refine the projection\<close>

text \<open>
  Two block lists are the same document when they hold the same blocks, each once: a client
  and the projector sort them with the same key, which is injective because a block id occurs
  once.
\<close>

lemma block_values_set:
  "projector_inv p \<Longrightarrow> b \<in> set (block_values p) \<longleftrightarrow> bt_get (bj_blocks p) (be_block_id b) = Some b"
  using bt.entries_get [of "bj_blocks p"] projector_invD(1,2) [of p]
  by (force simp: block_values_def image_iff)

lemma block_values_ids:
  assumes "projector_inv p"
  shows "map be_block_id (block_values p) = map fst (bj_blocks p)"
  using bt.entries_get [of "bj_blocks p"] projector_invD(1,2) [OF assms]
  by (auto simp: block_values_def)

lemma block_values_distinct:
  "projector_inv p \<Longrightarrow> distinct (map be_block_id (block_values p))"
  by (simp add: block_values_ids bt.entries_distinct [OF projector_invD(1)])

lemma distinct_sort_key_of_ids:
  "distinct (map be_block_id bs) \<Longrightarrow> distinct (map block_sort_key bs)"
  by (simp add: distinct_map inj_on_def block_sort_key_def)

definition same_blocks :: "block_envelope list \<Rightarrow> block_projector \<Rightarrow> bool" where
  "same_blocks bs p \<longleftrightarrow> distinct (map be_block_id bs)
     \<and> (\<forall>b. b \<in> set bs \<longleftrightarrow> bt_get (bj_blocks p) (be_block_id b) = Some b)"

lemma same_blocks_sorted:
  assumes "same_blocks bs p" "projector_inv p"
  shows "sort_key block_sort_key bs = sort_key block_sort_key (block_values p)"
  using assms block_values_set [OF assms(2)] block_values_distinct [OF assms(2)]
  by (intro sort_key_unique distinct_sort_key_of_ids) (auto simp: same_blocks_def)

lemma same_blocks_snapshot:
  "projector_inv p \<Longrightarrow> same_blocks (sort_key block_sort_key (block_values p)) p"
  using block_values_distinct [of p] by (simp add: same_blocks_def block_values_set distinct_map)

lemma same_blocks_find:
  assumes "same_blocks bs p"
    and "\<And>j b. bt_get (bj_blocks p) j = Some b \<Longrightarrow> be_block_id b = j"
  shows "find (\<lambda>b. be_block_id b = k) bs = bt_get (bj_blocks p) k"
proof (cases "find (\<lambda>b. be_block_id b = k) bs")
  case None
  then have none: "be_block_id b \<noteq> k" if "b \<in> set bs" for b
    using that by (auto simp: find_None_iff)
  have "bt_get (bj_blocks p) k = None"
  proof (rule ccontr)
    assume "bt_get (bj_blocks p) k \<noteq> None"
    then obtain b where b: "bt_get (bj_blocks p) k = Some b" by blast
    with assms(2) [OF b] assms(1) have "b \<in> set bs" by (simp add: same_blocks_def)
    with none assms(2) [OF b] show False by blast
  qed
  with None show ?thesis by simp
next
  case (Some b)
  then have "b \<in> set bs" "be_block_id b = k" by (auto simp: find_Some_iff)
  with assms(1) Some show ?thesis by (auto simp: same_blocks_def)
qed

text \<open>Replacing in place the block that has a given id.\<close>

lemma update_first_ids:
  "(\<And>b. be_block_id b = k \<Longrightarrow> be_block_id (f b) = k) \<Longrightarrow>
     map be_block_id (update_first (\<lambda>b. be_block_id b = k) f bs) = map be_block_id bs"
  by (induction bs) auto

lemma update_first_absent: "(\<And>b. b \<in> set bs \<Longrightarrow> \<not> P b) \<Longrightarrow> update_first P f bs = bs"
  by (induction bs) auto

lemma update_first_set:
  "distinct (map be_block_id bs) \<Longrightarrow>
     set (update_first (\<lambda>b. be_block_id b = k) f bs) =
       {b \<in> set bs. be_block_id b \<noteq> k} \<union> f ` {b \<in> set bs. be_block_id b = k}"
  by (induction bs) (auto simp: update_first_absent image_iff)

lemma same_blocks_update:
  assumes "same_blocks bs p" and found: "bt_get (bj_blocks p) k = Some old"
    and ids: "\<And>j b. bt_get (bj_blocks p) j = Some b \<Longrightarrow> be_block_id b = j"
    and f: "\<And>b. be_block_id b = k \<Longrightarrow> be_block_id (f b) = k"
  shows "same_blocks (update_first (\<lambda>b. be_block_id b = k) f bs)
           (p\<lparr>bj_blocks := bt_insert k (f old) (bj_blocks p)\<rparr>)"
  using assms(1) found ids [OF found] f
  by (auto simp: same_blocks_def update_first_ids update_first_set bt_get_insert)

lemma same_blocks_append:
  assumes "same_blocks bs p" and "bt_get (bj_blocks p) (be_block_id b) = None"
  shows "same_blocks (bs @ [b]) (p\<lparr>bj_blocks := bt_insert (be_block_id b) b (bj_blocks p)\<rparr>)"
  using assms by (auto simp: same_blocks_def bt_get_insert)

text \<open>One operation of a patch does to the client's list what the arm did to the map.\<close>

lemma shape_refined:
  assumes "projection_shape p seq p' ops" and inv: "projector_inv p" and bs: "same_blocks bs p"
  shows "\<exists>bs'. apply_block_operations seq bs ops = (Inr (), bs') \<and> same_blocks bs' p'"
  using assms(1)
proof (induction rule: projection_shape.induct)
  case nothing
  with bs show ?case by simp
next
  case (upserted b p' op)
  have found: "find (\<lambda>x. be_block_id x = be_block_id b) bs = bt_get (bj_blocks p) (be_block_id b)"
    by (rule same_blocks_find [OF bs projector_invD(2) [OF inv]])
  from upserted(1) show ?case
  proof (rule upsert_effect)
    fix b' assume b': "op = Upsert b'" "be_block_id b' = be_block_id b"
      "p' = p\<lparr>bj_blocks := bt_insert (be_block_id b) b' (bj_blocks p)\<rparr>" "be_kind b' = be_kind b"
      "\<And>old. bt_get (bj_blocks p) (be_block_id b) = Some old \<Longrightarrow>
         be_kind old = be_kind b \<and> be_order_key b' = be_order_key old"
    show ?thesis
    proof (cases "bt_get (bj_blocks p) (be_block_id b)")
      case None
      with same_blocks_append [OF bs, of b'] b' found show ?thesis
        by (simp add: apply_block_operation_def)
    next
      case (Some old)
      with same_blocks_update [OF bs Some projector_invD(2) [OF inv], of "\<lambda>_. b'"] b' found
      show ?thesis by (simp add: apply_block_operation_def)
    qed
  qed
next
  case (appended bid b role t ext u)
  have found: "find (\<lambda>x. be_block_id x = bid) bs = Some b"
    using same_blocks_find [OF bs projector_invD(2) [OF inv]] appended(1) by simp
  from same_blocks_update [OF bs appended(1) projector_invD(2) [OF inv],
      where f = "\<lambda>x. x\<lparr>be_payload := Message role (t @ u) ext,
        be_block_revision := be_block_revision b + 1, be_document_revision := seq\<rparr>"]
  show ?case using found appended(2) by (simp add: apply_block_operation_def)
qed

lemma same_blocks_revision: "same_blocks bs (p\<lparr>bj_revision := r\<rparr>) = same_blocks bs p"
  by (simp add: same_blocks_def)

lemma snapshot_fields:
  "snapshot D p = Inr d \<longleftrightarrow> (\<exists>g. document_digest D (bj_task_id p) (bj_revision p)
        (sort_key block_sort_key (block_values p)) = Inr g
     \<and> d = \<lparr>bd_schema_version = BLOCK_SCHEMA_VERSION, bd_task_id = bj_task_id p,
            bd_revision = bj_revision p, bd_semantic_digest = g,
            bd_blocks = sort_key block_sort_key (block_values p)\<rparr>)"
  by (auto simp: snapshot_def Let_def result_simps)

lemma patch_step:
  assumes ev: "project_event U p e = Inr (p', patch)" and inv: "projector_inv p"
    and d: "snapshot D p = Inr d" and d': "snapshot D p' = Inr d'"
  shows "apply_patch D d patch = (Inr (), d')"
proof -
  from project_event_parts [OF ev] obtain q ops where
    q: "project_payload U p e = Inr (q, ops)" "p' = q\<lparr>bj_revision := ev_sequence e\<rparr>"
    "patch = \<lparr>bp_stream_sequence = ev_sequence e, bp_base_revision = bj_revision p,
       bp_target_revision = ev_sequence e, bp_operations = ops\<rparr>" .
  note inv' = project_event_inv [OF ev inv]
  from shape_refined [OF project_payload_shape [OF q(1) inv] inv same_blocks_snapshot [OF inv]]
  obtain bs where bs: "apply_block_operations (ev_sequence e)
      (sort_key block_sort_key (block_values p)) ops = (Inr (), bs)" "same_blocks bs q" by blast
  from bs(2) q(2) have "same_blocks bs p'" by (simp add: same_blocks_revision)
  then have blocks: "sort_key block_sort_key bs = sort_key block_sort_key (block_values p')"
    using inv'(1) by (rule same_blocks_sorted)
  from d' obtain g' where g': "document_digest D (bj_task_id p') (bj_revision p')
      (sort_key block_sort_key (block_values p')) = Inr g'"
    "d' = \<lparr>bd_schema_version = BLOCK_SCHEMA_VERSION, bd_task_id = bj_task_id p',
       bd_revision = bj_revision p', bd_semantic_digest = g',
       bd_blocks = sort_key block_sort_key (block_values p')\<rparr>"
    unfolding snapshot_fields by blast
  from d obtain g where d: "d = \<lparr>bd_schema_version = BLOCK_SCHEMA_VERSION, bd_task_id = bj_task_id p,
       bd_revision = bj_revision p, bd_semantic_digest = g,
       bd_blocks = sort_key block_sort_key (block_values p)\<rparr>"
    unfolding snapshot_fields by blast
  note g = g'(1) [unfolded inv'(2,4)]
  show ?thesis
    unfolding g'(2) d apply_patch_def q(3)
    by (simp add: bs(1) blocks g inv'(2,4) Let_def split: unit.splits)
qed

section \<open>Clients\<close>

text \<open>
  A client follows a task: the daemon projects every event and sends the patch, the client
  applies it to its document and stops at the first error.
\<close>

fun follow ::
    "uuid_crate \<Rightarrow> digest_crate \<Rightarrow> block_projector \<Rightarrow> block_document \<Rightarrow> event_envelope list
      \<Rightarrow> projector_error + (block_projector \<times> block_document)" where
  "follow U D p d [] = Inr (p, d)"
| "follow U D p d (e # es) =
     and_then (project_event U p e) (\<lambda>(p', patch).
       case apply_patch D d patch of
         (Inl err, _) \<Rightarrow> Inl err
       | (Inr (), d') \<Rightarrow> follow U D p' d' es)"

lemma snapshot_total: "(\<And>i. to_json D i \<noteq> None) \<Longrightarrow> \<exists>d. snapshot D p = Inr d"
  by (auto simp: snapshot_def document_digest_def Let_def ok_or_def split: option.splits)

lemma follow_snapshot:
  assumes total: "\<And>i. to_json D i \<noteq> None"
  shows "projector_inv p \<Longrightarrow> snapshot D p = Inr d \<Longrightarrow> try_fold (project_step U) p es = Inr q \<Longrightarrow>
    \<exists>d'. follow U D p d es = Inr (q, d') \<and> snapshot D q = Inr d'"
proof (induction es arbitrary: p d)
  case (Cons e es)
  from Cons.prems(3) obtain p' patch where step: "project_event U p e = Inr (p', patch)"
    and rest: "try_fold (project_step U) p' es = Inr q"
    by (auto simp: project_step_Inr_iff result_simps)
  from snapshot_total [OF total] obtain d' where d': "snapshot D p' = Inr d'" by blast
  from patch_step [OF step Cons.prems(1,2) d'] have "apply_patch D d patch = (Inr (), d')" .
  with step show ?case
    using Cons.IH [OF project_event_inv(1) [OF step Cons.prems(1)] d' rest] by (simp split: unit.splits)
qed simp

text \<open>The events a projector accepts come in strictly increasing order, all of its task.\<close>

lemma run_ordered:
  "projector_inv p \<Longrightarrow> try_fold (project_step U) p es = Inr q \<Longrightarrow>
     sorted_wrt (<) (bj_revision p # map ev_sequence es) \<and> (\<forall>e \<in> set es. ev_task_id e = bj_task_id p)
     \<and> bj_revision q = last (bj_revision p # map ev_sequence es)"
proof (induction es arbitrary: p)
  case (Cons e es)
  from Cons.prems(2) obtain p' patch where step: "project_event U p e = Inr (p', patch)"
    and rest: "try_fold (project_step U) p' es = Inr q"
    by (auto simp: project_step_Inr_iff result_simps)
  note inv' = project_event_inv [OF step Cons.prems(1)]
  from project_event_parts [OF step] have "ev_task_id e = bj_task_id p" .
  with Cons.IH [OF inv'(1) rest] inv'(2-4) show ?case by (auto intro: order.strict_trans)
qed simp

section \<open>The newest waiting approval\<close>

lemma max_by_key_spec:
  "max_by_key f xs = None \<longleftrightarrow> xs = []"
  "max_by_key f xs = Some x \<Longrightarrow> x \<in> set xs \<and> (\<forall>y \<in> set xs. f y \<le> f x)"
proof (induction xs arbitrary: x)
  case (Cons y ys)
  { case 1 then show ?case by (simp split: option.splits) }
  { case 2 then show ?case
      using Cons.IH by (fastforce split: option.splits if_splits) }
qed simp_all

lemma set_map_filter: "set (List.map_filter f xs) = {y. \<exists>x \<in> set xs. f x = Some y}"
  by (force simp: map_filter_def)

lemma waiting_approval_revision: "waiting_approval b = Some v \<Longrightarrow> fst v = be_document_revision b"
  by (auto simp: waiting_approval_def split: block_payload.splits option.splits)

lemma order_keys_distinct:
  assumes "projector_inv p"
  shows "distinct (map be_order_key (block_values p))"
proof -
  have "b = c" if "b \<in> set (block_values p)" "c \<in> set (block_values p)"
    "be_order_key b = be_order_key c" for b c
  proof -
    from that(1,2) have b: "bt_get (bj_blocks p) (be_block_id b) = Some b"
      and c: "bt_get (bj_blocks p) (be_block_id c) = Some c"
      by (simp_all add: block_values_set [OF assms])
    from projector_invD(6) [OF assms b c that(3)] b c show ?thesis by (metis option.inject)
  qed
  then have "inj_on be_order_key (set (block_values p))" by (rule inj_onI)
  with block_values_distinct [OF assms] show ?thesis unfolding distinct_map by blast
qed

lemma sorted_order_keys: "sorted (map be_order_key (sort_key block_sort_key bs))"
proof -
  have "sorted (map block_sort_key (sort_key block_sort_key bs))" by simp
  then show ?thesis
    unfolding sorted_map by (rule sorted_wrt_mono_rel [rotated]) (auto simp: block_sort_key_def)
qed

section \<open>Sample values\<close>

text \<open>Concrete parameters: a version-5 hash by length, a one-byte digest per block.\<close>

definition sample_uuid_crate :: uuid_crate where
  "sample_uuid_crate = \<lparr>namespace_oid = 7, new_v5 = (\<lambda>n s. n + of_nat (length s)),
     uuid_text = (\<lambda>_. ''u'')\<rparr>"

definition sample_digest_crate :: digest_crate where
  "sample_digest_crate = \<lparr>to_json = (\<lambda>i. Some (map (\<lambda>_. 1) (di_blocks i))), sha256 = (\<lambda>b. b)\<rparr>"

definition sample_request :: event_envelope where
  "sample_request = sample_event 2 (Some sample_operation)
     (PermissionRequested 3 None ''run?'' [AllowOnce, RejectOnce])"

definition sample_chat :: "u64 \<Rightarrow> string \<Rightarrow> event_envelope" where
  "sample_chat n t = sample_event n None (MessageAppended (BlockId 3) message_role.Agent None t)"

definition sample_stream :: "event_envelope list" where
  "sample_stream = [sample_chat 1 ''hel'', sample_request, sample_chat 3 ''lo'']"

lemmas sample_projection_defs =
  sample_stream_def sample_chat_def sample_request_def sample_event_def sample_operation_def
  sample_uuid_crate_def sample_digest_crate_def

lemmas projection_defs =
  project_step_def project_event_def project_payload_def project_message_appended_def
  project_permission_requested_def upsert_one_def upsert_def new_block_def stable_block_id_def

definition sample_message :: block_envelope where
  "sample_message = (new_block (BlockId 3) (TaskId 1) block_kind.Message 1
     (Message message_role.Agent ''hello'' None))\<lparr>be_block_revision := 2, be_document_revision := 3\<rparr>"

definition sample_approval :: block_envelope where
  "sample_approval = (new_block (BlockId 28) (TaskId 1) block_kind.Approval 2
     (block_payload.Approval sample_operation 3 None ''run?'' [AllowOnce, RejectOnce] None))
     \<lparr>be_document_revision := 2, be_render_slot := Attention, be_trust_class := TrustedChrome,
      be_lifecycle := Waiting, be_attention := WaitingApproval,
      be_actions := [\<lparr>ba_action_id = ''allow_once'', ba_expected_block_revision = 1,
          ba_risk = ExternalEffect, ba_required_capabilities = []\<rparr>,
        \<lparr>ba_action_id = ''reject_once'', ba_expected_block_revision = 1,
          ba_risk = ExternalEffect, ba_required_capabilities = []\<rparr>]\<rparr>"

definition sample_projection :: block_projector where
  "sample_projection = \<lparr>bj_task_id = TaskId 1, bj_revision = 3,
     bj_blocks = [(BlockId 3, sample_message), (BlockId 28, sample_approval)]\<rparr>"

lemma sample_stream_run:
  "try_fold (project_step sample_uuid_crate) (new_projector (TaskId 1)) sample_stream
     = Inr sample_projection"
  by (simp add: sample_projection_defs projection_defs new_projector_def sample_projection_def
      sample_message_def sample_approval_def permission_action_id_def less_block_id_def Let_def word_le_nat_alt)

lemma sample_replay: "replay sample_uuid_crate (TaskId 1) sample_stream = Inr sample_projection"
  using sample_stream_run by (simp add: replay_def sample_projection_defs)

section \<open>Properties\<close>

text \<open>
  C9. Incremental rendering is sound: a client that takes a snapshot after any replay and then
  applies the patch of every further accepted event never meets an error and holds, after the
  last event, exactly the document a fresh snapshot gives. The premise on \<open>to_json\<close> is serde's
  documented behaviour on a value without maps of foreign keys: encoding succeeds.
\<close>

theorem patches_refine_snapshots:
  assumes "\<And>i. to_json D i \<noteq> None" and "replay U tid es = Inr p" and "snapshot D p = Inr d"
    and "try_fold (project_step U) p fs = Inr q"
  shows "\<exists>d'. follow U D p d fs = Inr (q, d') \<and> snapshot D q = Inr d'"
  using follow_snapshot [OF assms(1) _ assms(3,4)] replay_inv [OF assms(2)] by blast

theorem patches_refine_snapshots_witness:
  "\<exists>d d'. snapshot sample_digest_crate (new_projector (TaskId 1)) = Inr d
    \<and> follow sample_uuid_crate sample_digest_crate (new_projector (TaskId 1)) d sample_stream
        = Inr (sample_projection, d')
    \<and> snapshot sample_digest_crate sample_projection = Inr d'"
proof -
  have total: "\<And>i. to_json sample_digest_crate i \<noteq> None" by (simp add: sample_digest_crate_def)
  have start: "replay sample_uuid_crate (TaskId 1) [] = Inr (new_projector (TaskId 1))"
    by (simp add: replay_def)
  from snapshot_total [OF total] obtain d where d: "snapshot sample_digest_crate (new_projector (TaskId 1)) = Inr d" ..
  from patches_refine_snapshots [OF total start d sample_stream_run] d show ?thesis by blast
qed

text \<open>
  What a snapshot shows is what its kind allows, whatever the events said: block ids are
  unique and blocks come in strictly increasing order of the event that created them; a block
  is trusted chrome only when the daemon made it (task, operation, approval, receipt, terminal,
  review), an artifact is always isolated, agent output is always untrusted; and only an
  approval still waiting for its decision offers actions.
\<close>

lemma snapshot_presentation:
  assumes "replay U tid es = Inr p" and "snapshot D p = Inr d"
  shows "distinct (map be_block_id (bd_blocks d)) \<and> sorted_wrt (<) (map be_order_key (bd_blocks d))
    \<and> (\<forall>b \<in> set (bd_blocks d). be_task_id b = tid \<and> be_kind b = payload_kind (be_payload b)
       \<and> be_trust_class b = trust_of_kind (be_kind b) \<and> be_render_slot b = slot_of_kind (be_kind b)
       \<and> (be_actions b \<noteq> [] \<longrightarrow> waiting_approval b \<noteq> None))"
proof -
  from replay_inv [OF assms(1)] have inv: "projector_inv p" and tid: "bj_task_id p = tid" by auto
  from assms(2) have d: "bd_blocks d = sort_key block_sort_key (block_values p)"
    by (auto simp: snapshot_fields)
  have "distinct (map be_order_key (block_values p))" by (rule order_keys_distinct [OF inv])
  moreover have "sorted (map be_order_key (sort_key block_sort_key (block_values p)))"
    by (rule sorted_order_keys)
  ultimately have "sorted_wrt (<) (map be_order_key (bd_blocks d))"
    unfolding d strict_sorted_iff by (simp add: distinct_map)
  moreover have "distinct (map be_block_id (bd_blocks d))"
    using block_values_distinct [OF inv] by (simp add: d distinct_map)
  moreover have "be_task_id b = tid \<and> presentation_ok b" if "b \<in> set (bd_blocks d)" for b
    using that block_values_set [OF inv] projector_invD(3,5) [OF inv] tid by (simp add: d)
  ultimately show ?thesis by (simp add: presentation_ok_def)
qed

text \<open>
  A projector consumes one task's events in order and never twice: in any accepted run from
  a replayed state the sequence numbers increase strictly from the projector's revision, every
  event is of its task, and the new revision is the last event's sequence number.
\<close>

lemma projection_consumes_in_order:
  assumes "replay U tid es = Inr p" and "try_fold (project_step U) p fs = Inr q"
  shows "sorted_wrt (<) (bj_revision p # map ev_sequence fs) \<and> (\<forall>e \<in> set fs. ev_task_id e = tid)
    \<and> bj_revision q = last (bj_revision p # map ev_sequence fs)"
  using run_ordered [OF _ assms(2)] replay_inv [OF assms(1)] by blast

text \<open>
  The operation that the attention surface jumps to is the approval touched last: the
  function gives none exactly when no approval is undecided, and otherwise the operation of an
  undecided approval whose document revision no other undecided approval exceeds.
\<close>

lemma latest_waiting_is_newest:
  "case latest_waiting_operation_id p of
     None \<Rightarrow> (\<forall>b \<in> set (block_values p). waiting_approval b = None)
   | Some oid \<Rightarrow> (\<exists>b \<in> set (block_values p). waiting_approval b = Some (be_document_revision b, oid)
       \<and> (\<forall>c \<in> set (block_values p). waiting_approval c \<noteq> None \<longrightarrow>
            be_document_revision c \<le> be_document_revision b))"
proof (cases "max_by_key fst (List.map_filter waiting_approval (block_values p))")
  case None
  then show ?thesis
    by (auto simp: latest_waiting_operation_id_def max_by_key_spec(1) map_filter_def filter_empty_conv
        simp del: split_paired_All not_None_eq)
next
  case (Some w)
  note spec = max_by_key_spec(2) [OF this, unfolded set_map_filter]
  from spec obtain b where b: "b \<in> set (block_values p)" "waiting_approval b = Some w" by blast
  have "be_document_revision c \<le> be_document_revision b"
    if "c \<in> set (block_values p)" "waiting_approval c = Some v" for c v
  proof -
    from spec that have "fst v \<le> fst w" by blast
    then show ?thesis
      using waiting_approval_revision [OF that(2)] waiting_approval_revision [OF b(2)] by simp
  qed
  moreover have "latest_waiting_operation_id p = Some (snd w)"
    using Some by (simp add: latest_waiting_operation_id_def)
  moreover have "waiting_approval b = Some (be_document_revision b, snd w)"
    using waiting_approval_revision [OF b(2)] b(2) by (cases w) simp
  ultimately show ?thesis using b(1) by (auto simp del: split_paired_All)
qed

end
