(* ===== verification/Journal.thy ===== *)
theory Journal
  imports Domain
begin

text \<open>
  The append-only journal of \<^verbatim>\<open>hyper-term-core/src/journal.rs\<close>. The file is the list of its
  bytes. Every write and the sync can fail, so an append takes their outcomes as an argument: a
  failed write leaves a prefix of its bytes in the file. serde's encoding of an event is the
  parameter \<open>event_codec\<close>; the clock and the fresh event id are arguments too.
\<close>

section \<open>State and errors\<close>

datatype io_error = NotFound | UnexpectedEof | OtherIo nat

datatype file_type = RegularFile | Directory | Symlink | OtherFile

datatype json_error = JsonError nat

datatype journal_error =
    Io io_error
  | UnsafePath string
  | Json json_error
  | InvalidEvent string
  | EventTooLarge nat
  | BlankLine
  | TornTail
  | SequenceGap (* expected *) u64 (* actual *) u64
  | ClockBeforeUnixEpoch
  | TimestampOverflow

record event_codec =
  to_vec :: "event_envelope \<Rightarrow> json_error + bytes"
  from_slice :: "bytes \<Rightarrow> json_error + event_envelope"

datatype write_result = WriteOk | WriteFailed (* bytes written *) nat io_error

record append_io =
  io_line :: write_result
  io_newline :: write_result
  io_sync :: "io_error option"

record jsonl_journal =
  jl_path :: string
  jl_file :: bytes
  jl_events :: "event_envelope list"

definition MAX_EVENT_LINE_BYTES :: nat where
  "MAX_EVENT_LINE_BYTES = 1024 * 1024"

definition newline :: u8 where
  "newline = 10"

section \<open>Operations\<close>

definition last_sequence :: "jsonl_journal \<Rightarrow> u64" where
  "last_sequence j = (if jl_events j = [] then 0 else ev_sequence (last (jl_events j)))"

definition read_after :: "jsonl_journal \<Rightarrow> u64 \<Rightarrow> event_envelope list" where
  "read_after j s = filter (\<lambda>e. ev_sequence e > s) (jl_events j)"

text \<open>\<open>clock\<close> is the time since the epoch in milliseconds, none before the epoch.\<close>

definition prepare ::
    "nat option \<Rightarrow> event_id \<Rightarrow> jsonl_journal \<Rightarrow> new_event \<Rightarrow> journal_error + event_envelope" where
  "prepare clock fresh j event =
     (let sequence = last_sequence j + 1 in
      and_then (ok_or clock ClockBeforeUnixEpoch) (\<lambda>millis.
      and_then (if millis < 2 ^ 64 then Inr (of_nat millis) else Inl TimestampOverflow) (\<lambda>recorded_at_ms.
        Inr \<lparr>ev_schema_version = EVENT_SCHEMA_VERSION,
             ev_sequence = sequence,
             ev_event_id = fresh,
             ev_recorded_at_ms = recorded_at_ms,
             ev_task_id = ne_task_id event,
             ev_run_id = ne_run_id event,
             ev_operation_id = ne_operation_id event,
             ev_causation_id = ne_causation_id event,
             ev_correlation_id = ne_correlation_id event,
             ev_payload = ne_payload event\<rparr>)))"

text \<open>\<^verbatim>\<open>write_all\<close> on a file opened for appending.\<close>

definition write_all :: "write_result \<Rightarrow> bytes \<Rightarrow> bytes \<Rightarrow> (journal_error + unit) \<times> bytes" where
  "write_all outcome data file = (case outcome of
       WriteOk \<Rightarrow> (Inr (), file @ data)
     | WriteFailed n e \<Rightarrow> (Inl (Io e), file @ take n data))"

definition append_envelope ::
    "event_codec \<Rightarrow> append_io \<Rightarrow> jsonl_journal \<Rightarrow> event_envelope
      \<Rightarrow> (journal_error + event_envelope) \<times> jsonl_journal" where
  "append_envelope C io j envelope =
     (case validate_event envelope of
        Inl why \<Rightarrow> (Inl (InvalidEvent why), j)
      | Inr _ \<Rightarrow>
     (let expected = last_sequence j + 1 in
      if ev_sequence envelope \<noteq> expected
      then (Inl (SequenceGap expected (ev_sequence envelope)), j)
      else case to_vec C envelope of
        Inl e \<Rightarrow> (Inl (Json e), j)
      | Inr encoded \<Rightarrow>
          (if length encoded > MAX_EVENT_LINE_BYTES
           then (Inl (EventTooLarge (length encoded)), j)
           else case write_all (io_line io) encoded (jl_file j) of
             (Inl e, file) \<Rightarrow> (Inl e, j\<lparr>jl_file := file\<rparr>)
           | (Inr _, file) \<Rightarrow>
          (case write_all (io_newline io) [newline] file of
             (Inl e, file) \<Rightarrow> (Inl e, j\<lparr>jl_file := file\<rparr>)
           | (Inr _, file) \<Rightarrow>
          (case io_sync io of
             Some e \<Rightarrow> (Inl (Io e), j\<lparr>jl_file := file\<rparr>)
           | None \<Rightarrow> (Inr envelope, j\<lparr>jl_file := file, jl_events := jl_events j @ [envelope]\<rparr>))))))"

definition append_event ::
    "event_codec \<Rightarrow> append_io \<Rightarrow> nat option \<Rightarrow> event_id \<Rightarrow> jsonl_journal \<Rightarrow> new_event
      \<Rightarrow> (journal_error + event_envelope) \<times> jsonl_journal" where
  "append_event C io clock fresh j event =
     (case prepare clock fresh j event of
        Inl e \<Rightarrow> (Inl e, j)
      | Inr envelope \<Rightarrow> append_envelope C io j envelope)"

text \<open>
  \<^verbatim>\<open>open_private_journal\<close> with what the file system answers: the metadata of the path without
  following links, the type of the opened file, and the result of the mode change.
\<close>

definition open_private_journal ::
    "string \<Rightarrow> io_error + file_type \<Rightarrow> io_error + (io_error + file_type) \<Rightarrow> io_error option
      \<Rightarrow> journal_error + unit" where
  "open_private_journal path link_metadata opened set_permissions =
     and_then (case link_metadata of
        Inr t \<Rightarrow> if t = Symlink \<or> t \<noteq> RegularFile then Inl (UnsafePath path) else Inr ()
      | Inl NotFound \<Rightarrow> Inr ()
      | Inl e \<Rightarrow> Inl (Io e)) (\<lambda>_.
     and_then (map_err Io opened) (\<lambda>file_metadata.
     and_then (map_err Io file_metadata) (\<lambda>t.
       if t \<noteq> RegularFile then Inl (UnsafePath path)
       else case set_permissions of Some e \<Rightarrow> Inl (Io e) | None \<Rightarrow> Inr ())))"

text \<open>\<^verbatim>\<open>read_until\<close>: the bytes up to and with the delimiter, or all that is left.\<close>

fun read_until :: "u8 \<Rightarrow> bytes \<Rightarrow> bytes \<times> bytes" where
  "read_until d [] = ([], [])"
| "read_until d (b # bs) =
     (if b = d then ([b], bs) else let (line, rest) = read_until d bs in (b # line, rest))"

lemma read_until_append: "read_until d bs = (line, rest) \<Longrightarrow> bs = line @ rest"
  by (induction bs arbitrary: line rest) (auto split: if_splits prod.splits)

function read_loop ::
    "event_codec \<Rightarrow> u64 \<Rightarrow> event_envelope list \<Rightarrow> bytes \<Rightarrow> journal_error + event_envelope list" where
  "read_loop C expected_sequence events input =
     (let (line, rest) = read_until newline input in
      if line = [] then Inr events
      else if length line > MAX_EVENT_LINE_BYTES + 1 then Inl (EventTooLarge (length line))
      else if last line \<noteq> newline then Inl TornTail
      else let line = butlast line in
      if line = [] then Inl BlankLine
      else and_then (map_err Json (from_slice C line)) (\<lambda>event.
           and_then (map_err InvalidEvent (validate_event event)) (\<lambda>_.
           if ev_sequence event \<noteq> expected_sequence
           then Inl (SequenceGap expected_sequence (ev_sequence event))
           else read_loop C (expected_sequence + 1) (events @ [event]) rest)))"
  by pat_completeness auto
termination
  by (relation "measure (\<lambda>(_, _, _, input). length input)") (auto dest!: read_until_append [OF sym])

declare read_loop.simps [simp del]

definition read_existing :: "event_codec \<Rightarrow> bytes \<Rightarrow> journal_error + event_envelope list" where
  "read_existing C file = read_loop C 1 [] file"

text \<open>What the file system answers while a journal is opened.\<close>

record open_io =
  oi_create_parent :: "io_error option"
  oi_link_metadata :: "io_error + file_type"
  oi_opened :: "io_error + (io_error + file_type)"
  oi_set_permissions :: "io_error option"
  oi_clone_seek :: "io_error option"

definition open_journal ::
    "event_codec \<Rightarrow> open_io \<Rightarrow> string \<Rightarrow> bytes \<Rightarrow> journal_error + jsonl_journal" where
  "open_journal C io path file =
     (case oi_create_parent io of Some e \<Rightarrow> Inl (Io e) | None \<Rightarrow>
      and_then (open_private_journal path (oi_link_metadata io) (oi_opened io) (oi_set_permissions io)) (\<lambda>_.
      case oi_clone_seek io of Some e \<Rightarrow> Inl (Io e) | None \<Rightarrow>
      and_then (read_existing C file) (\<lambda>events.
        Inr \<lparr>jl_path = path, jl_file = file, jl_events = events\<rparr>)))"

section \<open>The trait\<close>

text \<open>A run of appends: the acknowledged events, and the journal after it.\<close>

primrec acked_run ::
    "('x \<Rightarrow> 's \<Rightarrow> ('e + event_envelope) \<times> 's) \<Rightarrow> 's \<Rightarrow> 'x list \<Rightarrow> event_envelope list \<times> 's" where
  "acked_run app s [] = ([], s)"
| "acked_run app s (x # xs) = (let (r, t) = app x s; (acked, u) = acked_run app t xs in
     (case r of Inl _ \<Rightarrow> acked | Inr e \<Rightarrow> e # acked, u))"

text \<open>
  \<^verbatim>\<open>EventJournal\<close>: what a client that polls with a cursor relies on. A successful append is
  seen after every older cursor, at the end; a failed one is not seen.
\<close>

locale event_journal =
  fixes append :: "'x \<Rightarrow> 's \<Rightarrow> ('e + event_envelope) \<times> 's"
    and read_after :: "'s \<Rightarrow> u64 \<Rightarrow> event_envelope list"
    and last_sequence :: "'s \<Rightarrow> u64"
    and inv :: "'s \<Rightarrow> bool"
  assumes append_inv: "inv s \<Longrightarrow> inv (snd (append x s))"
    and append_ok: "inv s \<Longrightarrow> append x s = (Inr e, t) \<Longrightarrow> c \<le> last_sequence s \<Longrightarrow>
       read_after t c = read_after s c @ [e] \<and> last_sequence s \<le> last_sequence t"
    and append_error: "append x s = (Inl err, t) \<Longrightarrow>
       read_after t = read_after s \<and> last_sequence t = last_sequence s"
    and read_last: "inv s \<Longrightarrow> read_after s (last_sequence s) = []"
begin

lemma run_read_after:
  "inv s \<Longrightarrow> acked_run append s xs = (acked, t) \<Longrightarrow> c \<le> last_sequence s \<Longrightarrow>
     read_after t c = read_after s c @ acked \<and> last_sequence s \<le> last_sequence t \<and> inv t"
proof (induction xs arbitrary: s acked c)
  case (Cons x xs)
  obtain r u where u: "append x s = (r, u)" by fastforce
  obtain acked' where rest: "acked_run append u xs = (acked', t)" using Cons.prems(2) u by (auto split: prod.splits)
  have "inv u" using append_inv [OF Cons.prems(1), of x] u by simp
  from Cons.IH [OF this rest] Cons.prems u rest show ?case
    using append_ok [OF Cons.prems(1), of x _ u c] append_error [of x s _ u]
    by (cases r) (auto intro: order.trans)
qed simp

lemma poll:
  "inv s \<Longrightarrow> acked_run append s xs = (acked, t) \<Longrightarrow> read_after t (last_sequence s) = acked"
  using run_read_after [of s xs acked t "last_sequence s"] read_last [of s] by simp

end

section \<open>Contiguity\<close>

text \<open>
  The events of a journal are numbered from 1. The last number cannot wrap: the event after
  number \<open>2 ^ 64 - 1\<close> would have number 0, which validation refuses.
\<close>

definition contiguous :: "event_envelope list \<Rightarrow> bool" where
  "contiguous es \<longleftrightarrow> length es < 2 ^ 64 \<and> (\<forall>i < length es. ev_sequence (es ! i) = of_nat (Suc i))"

lemma contiguous_Nil [simp]: "contiguous []"
  by (simp add: contiguous_def)

lemma validate_nonzero: "validate_event e = Inr () \<Longrightarrow> ev_sequence e \<noteq> 0"
  by (auto simp: validate_event_def split: if_splits)

lemma contiguous_snoc:
  assumes "contiguous es" "ev_sequence e = of_nat (Suc (length es))" "validate_event e = Inr ()"
  shows "contiguous (es @ [e])"
proof -
  have "of_nat (Suc (length es)) \<noteq> (0 :: u64)" using validate_nonzero [OF assms(3)] assms(2) by simp
  then have "Suc (length es) \<noteq> 2 ^ 64" by (auto simp: of_nat_eq_0_iff)
  with assms(1,2) show ?thesis by (auto simp: contiguous_def nth_append less_Suc_eq)
qed

lemma unat_sequence:
  assumes "contiguous es" and "i < length es"
  shows "unat (ev_sequence (es ! i)) = Suc i"
proof -
  from assms have "Suc i < 2 ^ 64" and "ev_sequence (es ! i) = of_nat (Suc i)"
    by (simp_all add: contiguous_def)
  then show ?thesis by (simp add: unat_of_nat take_bit_nat_eq_self del: of_nat_Suc)
qed

lemma last_sequence_eq: "contiguous (jl_events j) \<Longrightarrow> last_sequence j = of_nat (length (jl_events j))"
  by (auto simp: last_sequence_def contiguous_def last_conv_nth simp del: of_nat_Suc)

lemma unat_last_sequence:
  "contiguous (jl_events j) \<Longrightarrow> unat (last_sequence j) = length (jl_events j)"
  by (auto simp: last_sequence_eq contiguous_def unat_of_nat take_bit_nat_eq_self)

text \<open>A cursor is a position in the list of events.\<close>

lemma filter_nth_suffix:
  assumes "\<And>i. i < length xs \<Longrightarrow> P (xs ! i) \<longleftrightarrow> n \<le> i"
  shows "filter P xs = drop n xs"
proof -
  have "filter P (take n xs) = []" using assms by (auto simp: filter_empty_conv in_set_conv_nth)
  moreover have "filter P (drop n xs) = drop n xs"
    using assms by (auto simp: filter_id_conv in_set_conv_nth)
  ultimately show ?thesis using filter_append [of P "take n xs" "drop n xs"] by simp
qed

lemma read_after_drop:
  "contiguous (jl_events j) \<Longrightarrow> read_after j c = drop (unat c) (jl_events j)"
  unfolding read_after_def
  by (rule filter_nth_suffix) (auto simp: word_less_nat_alt unat_sequence)

section \<open>Appends\<close>

definition encoded_line :: "event_codec \<Rightarrow> event_envelope \<Rightarrow> bytes" where
  "encoded_line C e = (case to_vec C e of Inr bs \<Rightarrow> bs @ [newline] | Inl _ \<Rightarrow> [])"

text \<open>An event that passed every check of an append, and its bytes.\<close>

definition appendable :: "event_codec \<Rightarrow> jsonl_journal \<Rightarrow> event_envelope \<Rightarrow> bytes \<Rightarrow> bool" where
  "appendable C j e bs \<longleftrightarrow> validate_event e = Inr () \<and> ev_sequence e = last_sequence j + 1
     \<and> to_vec C e = Inr bs \<and> length bs \<le> MAX_EVENT_LINE_BYTES"

lemmas append_splits = sum.splits if_splits write_result.splits option.splits prod.splits

lemma append_envelope_ok:
  assumes "append_envelope C io j e = (Inr e', j')"
  shows "e' = e" and "\<exists>bs. appendable C j e bs"
    and "j' = j\<lparr>jl_file := jl_file j @ encoded_line C e, jl_events := jl_events j @ [e]\<rparr>"
  using assms by (auto simp: append_envelope_def Let_def write_all_def encoded_line_def
      appendable_def split: append_splits)

lemma append_envelope_error:
  "append_envelope C io j e = (Inl err, j') \<Longrightarrow> jl_events j' = jl_events j"
  by (auto simp: append_envelope_def Let_def split: append_splits)

lemma append_event_ok:
  assumes "append_event C io clock fresh j x = (Inr e, j')"
  shows "\<exists>bs. appendable C j e bs"
    and "j' = j\<lparr>jl_file := jl_file j @ encoded_line C e, jl_events := jl_events j @ [e]\<rparr>"
  using assms append_envelope_ok [of C io j] by (fastforce simp: append_event_def split: sum.splits)+

lemma append_event_error:
  "append_event C io clock fresh j x = (Inl err, j') \<Longrightarrow> jl_events j' = jl_events j"
  using append_envelope_error by (fastforce simp: append_event_def split: sum.splits)

lemma append_contiguous:
  assumes "contiguous (jl_events j)" "append_event C io clock fresh j x = (Inr e, j')"
  shows "contiguous (jl_events j')"
  using append_event_ok [OF assms(2)] contiguous_snoc [OF assms(1), of e] last_sequence_eq [OF assms(1)]
  by (auto simp: appendable_def)

lemma read_after_append:
  assumes "contiguous (jl_events j)" "append_event C io clock fresh j x = (Inr e, j')"
    and "c \<le> last_sequence j"
  shows "read_after j' c = read_after j c @ [e] \<and> last_sequence j \<le> last_sequence j'"
proof -
  from assms(3) have "unat c \<le> length (jl_events j)"
    using unat_last_sequence [OF assms(1)] by (simp add: word_le_nat_alt)
  moreover have "jl_events j' = jl_events j @ [e]" using append_event_ok [OF assms(2)] by simp
  ultimately show ?thesis
    using read_after_drop [OF assms(1)] read_after_drop [OF append_contiguous [OF assms(1,2)]]
      unat_last_sequence [OF assms(1)] unat_last_sequence [OF append_contiguous [OF assms(1,2)]]
    by (simp add: word_le_nat_alt)
qed

text \<open>The JSONL journal implements the trait, whatever the disk does at each append.\<close>

type_synonym append_input = "append_io \<times> nat option \<times> event_id \<times> new_event"

definition append_with ::
    "event_codec \<Rightarrow> append_input \<Rightarrow> jsonl_journal \<Rightarrow> (journal_error + event_envelope) \<times> jsonl_journal" where
  "append_with C = (\<lambda>(io, clock, fresh, x) j. append_event C io clock fresh j x)"

interpretation jsonl: event_journal "append_with C" read_after last_sequence
  "\<lambda>j. contiguous (jl_events j)"
proof unfold_locales
  fix j t :: jsonl_journal and i :: append_input and e :: event_envelope and c err
  obtain io clock fresh x where i: "i = (io, clock, fresh, x)" by (cases i)
  show "contiguous (jl_events j) \<Longrightarrow> contiguous (jl_events (snd (append_with C i j)))"
    using append_contiguous [of j C io clock fresh x] append_event_error [of C io clock fresh j x]
    by (cases "append_event C io clock fresh j x"; cases "fst (append_event C io clock fresh j x)")
      (auto simp: append_with_def i)
  show "contiguous (jl_events j) \<Longrightarrow> append_with C i j = (Inr e, t) \<Longrightarrow> c \<le> last_sequence j \<Longrightarrow>
      read_after t c = read_after j c @ [e] \<and> last_sequence j \<le> last_sequence t"
    using read_after_append [of j C io clock fresh x e t c] by (simp add: append_with_def i)
  show "append_with C i j = (Inl err, t) \<Longrightarrow> read_after t = read_after j \<and> last_sequence t = last_sequence j"
    using append_event_error [of C io clock fresh j x err t]
    by (auto simp: append_with_def i read_after_def last_sequence_def fun_eq_iff)
  show "contiguous (jl_events j) \<Longrightarrow> read_after j (last_sequence j) = []"
    by (simp add: read_after_drop unat_last_sequence)
qed

section \<open>Reopening\<close>

text \<open>What serde documents of a compact encoding: it decodes back, and has no raw newline.\<close>

definition codec_ok :: "event_codec \<Rightarrow> bool" where
  "codec_ok C \<longleftrightarrow> (\<forall>e bs. to_vec C e = Inr bs \<longrightarrow>
     from_slice C bs = Inr e \<and> newline \<notin> set bs \<and> bs \<noteq> [])"

lemma codec_okD:
  assumes "codec_ok C" "to_vec C e = Inr bs"
  shows "from_slice C bs = Inr e" "newline \<notin> set bs" "bs \<noteq> []"
  using assms by (auto simp: codec_ok_def)

lemma read_until_line: "d \<notin> set bs \<Longrightarrow> read_until d (bs @ d # rest) = (bs @ [d], rest)"
  by (induction bs) auto

lemma read_until_no_delimiter: "d \<notin> set bs \<Longrightarrow> read_until d bs = (bs, [])"
  by (induction bs) auto

lemma read_loop_end: "read_loop C n acc [] = Inr acc"
  by (subst read_loop.simps) simp

lemma read_loop_line:
  assumes "codec_ok C" "to_vec C e = Inr bs" "length bs \<le> MAX_EVENT_LINE_BYTES"
    and "validate_event e = Inr ()"
  shows "read_loop C n acc (encoded_line C e @ rest) =
    (if ev_sequence e \<noteq> n then Inl (SequenceGap n (ev_sequence e)) else read_loop C (n + 1) (acc @ [e]) rest)"
proof -
  note c = codec_okD [OF assms(1,2)]
  show ?thesis
    using assms c read_until_line [OF c(2), of rest]
    by (subst read_loop.simps) (simp add: encoded_line_def)
qed

text \<open>A tail without a newline is torn; it cannot be longer than a line may be.\<close>

lemma read_loop_torn:
  assumes "newline \<notin> set bs" "bs \<noteq> []" "length bs \<le> MAX_EVENT_LINE_BYTES"
  shows "read_loop C n acc bs = Inl TornTail"
proof -
  have "last bs \<noteq> newline" using last_in_set [OF assms(2)] assms(1) by metis
  with assms read_until_no_delimiter [OF assms(1)] show ?thesis
    by (subst read_loop.simps) simp
qed

text \<open>
  A journal is clean when reading its file from the start goes through exactly its events, with
  whatever is appended to the file still to be read.
\<close>

definition journal_clean :: "event_codec \<Rightarrow> jsonl_journal \<Rightarrow> bool" where
  "journal_clean C j \<longleftrightarrow> contiguous (jl_events j)
     \<and> (\<forall>rest. read_existing C (jl_file j @ rest) = read_loop C (last_sequence j + 1) (jl_events j) rest)"

lemma clean_contiguous: "journal_clean C j \<Longrightarrow> contiguous (jl_events j)"
  by (simp add: journal_clean_def)

lemma clean_read: "journal_clean C j \<Longrightarrow>
    read_existing C (jl_file j @ rest) = read_loop C (last_sequence j + 1) (jl_events j) rest"
  by (simp add: journal_clean_def)

lemma read_existing_clean: "journal_clean C j \<Longrightarrow> read_existing C (jl_file j) = Inr (jl_events j)"
  using clean_read [of C j "[]"] by (simp add: read_loop_end)

lemma last_sequence_snoc: "last_sequence (j\<lparr>jl_events := es @ [e]\<rparr>) = ev_sequence e"
  by (simp add: last_sequence_def)

lemma appended_clean:
  assumes "codec_ok C" "journal_clean C j" "appendable C j e bs"
  shows "journal_clean C (j\<lparr>jl_file := jl_file j @ encoded_line C e, jl_events := jl_events j @ [e]\<rparr>)"
proof -
  note c = clean_contiguous [OF assms(2)]
  have "contiguous (jl_events j @ [e])"
    using assms(3) last_sequence_eq [OF c] by (intro contiguous_snoc [OF c]) (auto simp: appendable_def)
  moreover have "read_loop C (last_sequence j + 1) (jl_events j) (encoded_line C e @ rest) =
      read_loop C (ev_sequence e + 1) (jl_events j @ [e]) rest" for rest
    using read_loop_line [OF assms(1)] assms(3) by (auto simp: appendable_def)
  ultimately show ?thesis
    using clean_read [OF assms(2)] by (simp add: journal_clean_def last_sequence_def)
qed

text \<open>A disk that does what it is asked.\<close>

definition io_good :: "append_io \<Rightarrow> bool" where
  "io_good io \<longleftrightarrow> io_line io = WriteOk \<and> io_newline io = WriteOk \<and> io_sync io = None"

lemma append_good_error:
  "io_good io \<Longrightarrow> append_event C io clock fresh j x = (Inl e, j') \<Longrightarrow> j' = j"
  by (auto simp: append_event_def append_envelope_def Let_def write_all_def io_good_def
        split: sum.splits if_splits)

lemma run_good_clean:
  assumes "codec_ok C"
  shows "journal_clean C j \<Longrightarrow> \<forall>i \<in> set xs. io_good (fst i) \<Longrightarrow>
    acked_run (append_with C) j xs = (acked, j') \<Longrightarrow>
    journal_clean C j' \<and> jl_events j' = jl_events j @ acked \<and> jl_path j' = jl_path j"
proof (induction xs arbitrary: j acked)
  case (Cons i xs)
  obtain io clock fresh x where i: "i = (io, clock, fresh, x)" by (cases i)
  obtain r u where u: "append_event C io clock fresh j x = (r, u)" by fastforce
  obtain acked' where rest: "acked_run (append_with C) u xs = (acked', j')"
    using Cons.prems(3) u by (auto simp: append_with_def i split: prod.splits)
  show ?case
  proof (cases r)
    case (Inl e)
    with u append_good_error [of io C clock fresh j x e u] Cons.prems i have "u = j" by simp
    with Inl u rest Cons show ?thesis by (simp add: append_with_def i)
  next
    case (Inr e)
    note ok = append_event_ok [OF u [unfolded Inr]]
    with appended_clean [OF assms Cons.prems(1)] have "journal_clean C u" by blast
    from Cons.IH [OF this _ rest] Cons.prems ok(2) Inr u rest show ?thesis
      by (simp add: append_with_def i)
  qed
qed simp

section \<open>Crashes\<close>

text \<open>What a failed append leaves in the file.\<close>

lemma failed_append_file:
  assumes "append_envelope C io j e = (Inl err, j')"
  shows "j' = j \<or> (\<exists>bs n. appendable C j e bs \<and> j' = j\<lparr>jl_file := jl_file j @ take n (bs @ [newline])\<rparr>)"
proof -
  have "j' = j \<or> (\<exists>bs. appendable C j e bs \<and>
      ((\<exists>n. j' = j\<lparr>jl_file := jl_file j @ take n bs\<rparr>)
       \<or> (\<exists>n. j' = j\<lparr>jl_file := jl_file j @ bs @ take n [newline]\<rparr>)
       \<or> j' = j\<lparr>jl_file := jl_file j @ bs @ [newline]\<rparr>))"
    using assms
    by (auto simp: append_envelope_def appendable_def Let_def write_all_def not_less split: append_splits)
  moreover have "take n bs = take (min n (length bs)) (bs @ [newline])" for n and bs :: bytes
    by (simp add: min_def)
  moreover have "bs @ take n [newline] = take (length bs + n) (bs @ [newline])" for n and bs :: bytes
    by simp
  moreover have "bs @ [newline] = take (Suc (length bs)) (bs @ [newline])" for bs :: bytes
    by simp
  ultimately show ?thesis by metis
qed

lemma reopen_after_failure:
  assumes C: "codec_ok C" and clean: "journal_clean C j" and well: "appendable C j e bs"
  shows "read_existing C (jl_file j @ take n (bs @ [newline]))
    \<in> {Inr (jl_events j), Inr (jl_events j @ [e]), Inl TornTail}"
proof -
  from well have bs: "to_vec C e = Inr bs" "length bs \<le> MAX_EVENT_LINE_BYTES"
    by (simp_all add: appendable_def)
  note c = codec_okD [OF C bs(1)]
  consider "n = 0" | "0 < n" "n \<le> length bs" | "length bs < n" by linarith
  then show ?thesis
  proof cases
    case 1
    then show ?thesis using read_existing_clean [OF clean] by simp
  next
    case 2
    have "newline \<notin> set (take n bs)" using c(2) by (meson in_set_takeD)
    with 2 bs(2) c(3) read_loop_torn [of "take n bs"] clean_read [OF clean] show ?thesis by simp
  next
    case 3
    from read_existing_clean [OF appended_clean [OF C clean well]] 3 bs show ?thesis
      by (simp add: encoded_line_def)
  qed
qed

section \<open>What opening accepts\<close>

lemma read_until_extend:
  "read_until d bs = (line, r) \<Longrightarrow> line \<noteq> [] \<Longrightarrow> last line = d \<Longrightarrow>
     read_until d (bs @ rest) = (line, r @ rest)"
  by (induction bs arbitrary: line r) (auto split: if_splits prod.splits)

lemma read_until_Nil: "read_until d bs = ([], r) \<longleftrightarrow> bs = [] \<and> r = []"
  by (cases bs) (auto split: prod.splits)

lemma read_loop_extend:
  "read_loop C n acc input = Inr es \<Longrightarrow> contiguous acc \<Longrightarrow> n = of_nat (Suc (length acc)) \<Longrightarrow>
     contiguous es \<and> read_loop C n acc (input @ rest) = read_loop C (of_nat (Suc (length es))) es rest"
proof (induction C n acc input rule: read_loop.induct)
  case (1 C n acc input)
  obtain line r where line: "read_until newline input = (line, r)" by fastforce
  show ?case
  proof (cases "line = []")
    case True
    with line have "input = []" by (simp add: read_until_Nil)
    with 1(2-4) show ?thesis by (simp add: read_loop_end)
  next
    case False
    from 1(2) line False obtain e where e: "length line \<le> MAX_EVENT_LINE_BYTES + 1" "last line = newline"
      "butlast line \<noteq> []" "from_slice C (butlast line) = Inr e" "validate_event e = Inr ()"
      "ev_sequence e = n" "read_loop C (n + 1) (acc @ [e]) r = Inr es"
      by (subst (asm) read_loop.simps) (auto simp: Let_def result_simps split: if_splits)
    note ext = read_until_extend [OF line False e(2)]
    have acc: "contiguous (acc @ [e])" using contiguous_snoc [OF 1(3) _ e(5)] e(6) 1(4) by simp
    have n: "n + 1 = of_nat (Suc (length (acc @ [e])))" using 1(4) by simp
    from 1(1) [OF refl line [symmetric] False _ _ refl e(3) _ e(7) acc n] e False
    have IH: "contiguous es \<and> read_loop C (n + 1) (acc @ [e]) (r @ rest) =
        read_loop C (of_nat (Suc (length es))) es rest" by simp
    have "read_loop C n acc (input @ rest) = read_loop C (n + 1) (acc @ [e]) (r @ rest)"
      using e False by (subst read_loop.simps) (simp add: ext)
    with IH show ?thesis by simp
  qed
qed

lemma read_existing_journal_clean:
  assumes "read_existing C bs = Inr es"
  shows "journal_clean C \<lparr>jl_path = path, jl_file = bs, jl_events = es\<rparr>"
proof -
  have "contiguous es \<and> read_existing C (bs @ rest) = read_loop C (of_nat (Suc (length es))) es rest" for rest
    using read_loop_extend [of C 1 "[]" bs es rest] assms by (simp add: read_existing_def)
  then show ?thesis
    using last_sequence_eq [of "\<lparr>jl_path = path, jl_file = bs, jl_events = es\<rparr>"]
    by (simp add: journal_clean_def add.commute)
qed

lemma opened_clean: "open_journal C io path bs = Inr j \<Longrightarrow> journal_clean C j \<and> jl_path j = path"
  using read_existing_journal_clean [of C bs]
  by (auto simp: open_journal_def result_simps split: option.splits)

lemma reopen_clean:
  "open_journal C io path bs = Inr j \<Longrightarrow> journal_clean C k \<Longrightarrow> jl_path k = path \<Longrightarrow>
     open_journal C io path (jl_file k) = Inr k"
  using read_existing_clean [of C k] by (auto simp: open_journal_def result_simps split: option.splits)

section \<open>Concrete values\<close>

definition sample_new :: new_event where
  "sample_new = \<lparr>ne_task_id = TaskId 1, ne_run_id = None, ne_operation_id = None,
     ne_causation_id = None, ne_correlation_id = None, ne_payload = TaskCreated ''t''\<rparr>"

definition sample_envelope :: "u64 \<Rightarrow> event_envelope" where
  "sample_envelope n = \<lparr>ev_schema_version = EVENT_SCHEMA_VERSION, ev_sequence = n,
     ev_event_id = EventId 9, ev_recorded_at_ms = 5, ev_task_id = TaskId 1, ev_run_id = None,
     ev_operation_id = None, ev_causation_id = None, ev_correlation_id = None,
     ev_payload = TaskCreated ''t''\<rparr>"

text \<open>A codec that knows two events.\<close>

definition sample_codec :: event_codec where
  "sample_codec = \<lparr>
     to_vec = (\<lambda>e. if e = sample_envelope 1 then Inr [1] else if e = sample_envelope 2 then Inr [2]
                   else Inl (JsonError 0)),
     from_slice = (\<lambda>bs. if bs = [1] then Inr (sample_envelope 1)
                   else if bs = [2] then Inr (sample_envelope 2) else Inl (JsonError 0))\<rparr>"

definition sample_open :: open_io where
  "sample_open = \<lparr>oi_create_parent = None, oi_link_metadata = Inl NotFound,
     oi_opened = Inr (Inr RegularFile), oi_set_permissions = None, oi_clone_seek = None\<rparr>"

definition good_io :: append_io where
  "good_io = \<lparr>io_line = WriteOk, io_newline = WriteOk, io_sync = None\<rparr>"

definition unsynced_io :: append_io where
  "unsynced_io = \<lparr>io_line = WriteOk, io_newline = WriteOk, io_sync = Some (OtherIo 5)\<rparr>"

definition sample_journal :: "bytes \<Rightarrow> event_envelope list \<Rightarrow> jsonl_journal" where
  "sample_journal bs es = \<lparr>jl_path = ''j'', jl_file = bs, jl_events = es\<rparr>"

lemmas sample_journal_defs = sample_new_def sample_envelope_def sample_codec_def good_io_def
  unsynced_io_def sample_journal_def append_event_def append_envelope_def prepare_def
  last_sequence_def validate_event_def EVENT_SCHEMA_VERSION_def MAX_EVENT_LINE_BYTES_def
  write_all_def newline_def

lemma sample_codec_ok: "codec_ok sample_codec"
  by (auto simp: codec_ok_def sample_codec_def newline_def split: if_splits)

lemma sample_opens: "open_journal sample_codec sample_open ''j'' [] = Inr (sample_journal [] [])"
  by (simp add: open_journal_def sample_open_def open_private_journal_def read_existing_def
      read_loop_end sample_journal_def)

lemma sample_first:
  "append_event sample_codec good_io (Some 5) (EventId 9) (sample_journal [] []) sample_new
     = (Inr (sample_envelope 1), sample_journal [1, 10] [sample_envelope 1])"
  by (simp add: sample_journal_defs)

lemma sample_appends:
  "acked_run (append_with sample_codec) (sample_journal [] []) [(good_io, Some 5, EventId 9, sample_new)]
     = ([sample_envelope 1], sample_journal [1, 10] [sample_envelope 1])"
  by (simp add: append_with_def sample_first)

section \<open>Properties\<close>

text \<open>
  C7. Acknowledged events survive a restart: after any run of appends on a disk that works,
  accepted or refused, opening the file again gives the same journal, whose events are the old
  ones and then exactly the acknowledged ones, in order. \<open>codec_ok\<close> is serde's documented round
  trip.
\<close>

theorem acknowledged_events_survive_restart:
  assumes "codec_ok C" and "open_journal C io path bs = Inr j"
    and "\<forall>i \<in> set xs. io_good (fst i)" and "acked_run (append_with C) j xs = (acked, k)"
  shows "open_journal C io path (jl_file k) = Inr k \<and> jl_events k = jl_events j @ acked"
  using run_good_clean [OF assms(1) _ assms(3,4)] opened_clean [OF assms(2)] reopen_clean [OF assms(2)]
  by auto

theorem acknowledged_events_survive_restart_witness:
  "open_journal sample_codec sample_open ''j'' [1, 10] = Inr (sample_journal [1, 10] [sample_envelope 1])"
  using acknowledged_events_survive_restart [OF sample_codec_ok sample_opens _ sample_appends]
  by (simp add: io_good_def good_io_def) (simp add: sample_journal_def)

text \<open>
  Whatever the disk does, a client that polls a journal it saw opened reads, from the last
  sequence number it knew, exactly the events acknowledged since then, in order; a cursor is a
  position: \<open>read_after\<close> drops as many events as its number says.
\<close>

lemma polling_reads_acknowledged_events:
  assumes "open_journal C io path bs = Inr j" and "acked_run (append_with C) j xs = (acked, k)"
  shows "read_after k (last_sequence j) = acked \<and> read_after k c = drop (unat c) (jl_events k)"
proof -
  from opened_clean [OF assms(1)] have c: "contiguous (jl_events j)" by (simp add: journal_clean_def)
  with jsonl.run_read_after [OF c assms(2) order.refl] jsonl.poll [OF c assms(2)] show ?thesis
    by (simp add: read_after_drop)
qed

text \<open>
  C34. A crash during an append loses nothing that was acknowledged: if the append of an opened
  journal fails at any byte of any write, reopening the file gives the acknowledged events, or
  those and the event being appended, or the refusal of a torn tail.
\<close>

theorem failed_append_keeps_acknowledged_events:
  assumes "codec_ok C" and "open_journal C io path bs = Inr j"
    and "append_event C aio clock fresh j x = (Inl err, k)"
  shows "read_existing C (jl_file k) = Inr (jl_events j) \<or> read_existing C (jl_file k) = Inl TornTail
    \<or> (\<exists>e. prepare clock fresh j x = Inr e \<and> read_existing C (jl_file k) = Inr (jl_events j @ [e]))"
proof -
  from opened_clean [OF assms(2)] have clean: "journal_clean C j" by simp
  show ?thesis
  proof (cases "prepare clock fresh j x")
    case (Inl e)
    with assms(3) read_existing_clean [OF clean] show ?thesis by (auto simp: append_event_def)
  next
    case (Inr e)
    with assms(3) have "append_envelope C aio j e = (Inl err, k)" by (simp add: append_event_def)
    from failed_append_file [OF this] show ?thesis
    proof (elim disjE exE conjE)
      assume "k = j"
      with read_existing_clean [OF clean] show ?thesis by simp
    next
      fix ebs n assume "appendable C j e ebs" "k = j\<lparr>jl_file := jl_file j @ take n (ebs @ [newline])\<rparr>"
      with reopen_after_failure [OF assms(1) clean, of e ebs n] Inr show ?thesis by fastforce
    qed
  qed
qed

theorem failed_append_keeps_acknowledged_events_witness:
  "\<exists>r. read_existing sample_codec [1, 10] = r \<and> (r = Inr [] \<or> r = Inl TornTail \<or> r = Inr [sample_envelope 1])"
proof -
  have "append_event sample_codec unsynced_io (Some 5) (EventId 9) (sample_journal [] []) sample_new
     = (Inl (Io (OtherIo 5)), sample_journal [1, 10] [])"
    by (simp add: sample_journal_defs)
  from failed_append_keeps_acknowledged_events [OF sample_codec_ok sample_opens this]
  show ?thesis by (auto simp: sample_journal_defs)
qed

text \<open>
  C35. A journal does not recover from a failed sync while it stays open: the bytes of the
  refused event are in the file but not in memory, so the next append reuses its sequence number,
  is acknowledged, and the file cannot be opened again.
\<close>

theorem failed_sync_poisons_the_file:
  assumes "codec_ok C" and "open_journal C io path bs = Inr j"
    and "append_event C aio clock fresh j x = (Inl err, k)"
    and "io_line aio = WriteOk" and "io_newline aio = WriteOk" and "io_sync aio = Some e1"
    and "err = Io e1" and "append_event C aio' clock' fresh' k y = (Inr e2, k')"
  shows "read_existing C (jl_file k') = Inl (SequenceGap (last_sequence j + 2) (last_sequence j + 1))"
proof -
  from opened_clean [OF assms(2)] have clean: "journal_clean C j" by simp
  obtain e where e: "append_envelope C aio j e = (Inl err, k)"
    using assms(3,7) by (auto simp: append_event_def prepare_def Let_def result_simps split: sum.splits if_splits)
  then obtain ebs where ap: "appendable C j e ebs" and k: "k = j\<lparr>jl_file := jl_file j @ encoded_line C e\<rparr>"
    using assms(4-7) by (auto simp: append_envelope_def appendable_def encoded_line_def Let_def
        write_all_def not_less split: append_splits)
  from append_event_ok [OF assms(8)] obtain bs2 where ap2: "appendable C k e2 bs2"
    and k': "jl_file k' = jl_file k @ encoded_line C e2" by auto
  have same: "last_sequence k = last_sequence j" by (simp add: k last_sequence_def)
  have "read_existing C (jl_file k') =
      read_loop C (last_sequence j + 1) (jl_events j) (encoded_line C e @ encoded_line C e2 @ [])"
    using clean_read [OF clean] by (simp add: k k')
  also have "\<dots> = read_loop C (last_sequence j + 2) (jl_events j @ [e]) (encoded_line C e2 @ [])"
    using ap by (subst read_loop_line [OF assms(1)]) (auto simp: appendable_def add.commute)
  also have "\<dots> = Inl (SequenceGap (last_sequence j + 2) (last_sequence j + 1))"
    using ap2 same by (subst read_loop_line [OF assms(1)]) (auto simp: appendable_def)
  finally show ?thesis .
qed

theorem failed_sync_poisons_the_file_witness:
  "read_existing sample_codec [1, 10, 1, 10] = Inl (SequenceGap 2 1)"
proof -
  have 1: "append_event sample_codec unsynced_io (Some 5) (EventId 9) (sample_journal [] []) sample_new
     = (Inl (Io (OtherIo 5)), sample_journal [1, 10] [])"
    and 2: "append_event sample_codec good_io (Some 5) (EventId 9) (sample_journal [1, 10] []) sample_new
     = (Inr (sample_envelope 1), sample_journal [1, 10, 1, 10] [sample_envelope 1])"
    by (simp_all add: sample_journal_defs)
  from failed_sync_poisons_the_file [OF sample_codec_ok sample_opens 1 _ _ _ _ 2]
  show ?thesis by (simp add: sample_journal_defs)
qed

end
