(* ===== verification/Sandbox.thy ===== *)
theory Sandbox
  imports Domain
begin

text \<open>
  The sandbox contract of \<^verbatim>\<open>hyper-term-core/src/sandbox.rs\<close>: canonical profiles and
  commands and their digests. serde's encodings and SHA-256 are the parameter \<open>sandbox_crate\<close>.
  A program is a string, so the source's \<^verbatim>\<open>NonUtf8Executable\<close> cannot occur here.
\<close>

section \<open>Requests and errors\<close>

datatype sandbox_error =
    RelativePath string
  | ParentTraversal string
  | NonUtf8Executable
  | NulArgument
  | InheritedEnvironmentNotCleared
  | InvalidEnvironmentName string
  | InvalidEnvironmentValue string
  | ZeroResourceLimit
  | AnyExecutableRequiresChildProcesses
  | EmptyProxyUrl
  | InvalidAllowedHost string
  | InvalidMacOsMachService string
  | SerializationError
  | DigestError string
  | BackendError string

record sandbox_compile_request =
  scr_operation_id :: operation_id
  scr_operation_revision :: u64
  scr_actor :: actor
  scr_command :: terminal_command
  scr_profile :: sandbox_profile

record sandbox_launch_plan =
  slp_command :: terminal_command
  slp_compiled :: compiled_sandbox_profile
  slp_clear_environment :: bool

record sandbox_crate =
  profile_json :: "sandbox_profile \<Rightarrow> bytes option"
  command_json :: "terminal_command \<Rightarrow> bytes option"
  sandbox_sha256 :: "bytes \<Rightarrow> bytes"

section \<open>Paths\<close>

definition normalize_absolute_path :: "string \<Rightarrow> sandbox_error + string" where
  "normalize_absolute_path path =
     (if \<not> is_absolute path then Inl (RelativePath path)
      else try_fold (\<lambda>normalized c. case c of
            RootDir \<Rightarrow> Inr (path_push normalized (component_str c))
          | Normal _ \<Rightarrow> Inr (path_push normalized (component_str c))
          | CurDir \<Rightarrow> Inr normalized
          | ParentDir \<Rightarrow> Inl (ParentTraversal path)) [] (components path))"

definition stricter_access ::
    "sandbox_path_access \<Rightarrow> sandbox_path_access \<Rightarrow> sandbox_path_access" where
  "stricter_access left right =
     (if left = sandbox_path_access.Deny \<or> right = sandbox_path_access.Deny then sandbox_path_access.Deny
      else if left = Write \<or> right = Write then Write
      else sandbox_path_access.Read)"

text \<open>The element that equals the last one kept is dropped.\<close>

fun dedup_by :: "('a \<Rightarrow> 'a \<Rightarrow> bool) \<Rightarrow> 'a list \<Rightarrow> 'a list" where
  "dedup_by eq (x # y # zs) = (if eq x y then dedup_by eq (x # zs) else x # dedup_by eq (y # zs))"
| "dedup_by eq xs = xs"

definition sort_paths :: "string list \<Rightarrow> string list" where
  "sort_paths ps = dedup_by path_eq (sort_key path_key ps)"

definition sort_strings :: "string list \<Rightarrow> string list" where
  "sort_strings ss = dedup_by (=) (sort ss)"

section \<open>Canonical profiles\<close>

definition nul :: char where
  "nul = char_of (0 :: nat)"

definition check_environment :: "(string, string) btree \<Rightarrow> sandbox_error + unit" where
  "check_environment env = try_fold (\<lambda>_ (name, value).
     if name = [] \<or> CHR ''='' \<in> set name \<or> nul \<in> set name then Inl (InvalidEnvironmentName name)
     else if nul \<in> set value then Inl (InvalidEnvironmentValue name)
     else Inr ()) () env"

text \<open>
  The map from normalized paths to access: the key is the path's order key, the value the path
  and its access.
\<close>

type_synonym rule_map = "((nat \<times> string) list, string \<times> sandbox_path_access) btree"

definition add_rule :: "rule_map \<Rightarrow> sandbox_path_rule \<Rightarrow> sandbox_error + rule_map" where
  "add_rule rules rule =
     and_then (normalize_absolute_path (spr_path rule)) (\<lambda>path.
       Inr (case bt_get rules (path_key path) of
          None \<Rightarrow> bt_insert (path_key path) (path, spr_access rule) rules
        | Some (existing_path, existing) \<Rightarrow>
            bt_insert (path_key path) (existing_path, stricter_access existing (spr_access rule)) rules))"

definition canonical_rules :: "sandbox_path_rule list \<Rightarrow> sandbox_error + sandbox_path_rule list" where
  "canonical_rules rules =
     and_then (try_fold add_rule [] rules) (\<lambda>m.
       Inr (map (\<lambda>(_, path, access). \<lparr>spr_path = path, spr_access = access\<rparr>) m))"

definition mach_service_char :: "char \<Rightarrow> bool" where
  "mach_service_char c \<longleftrightarrow> is_ascii_alphanumeric c \<or> c \<in> {CHR ''.'', CHR ''-'', CHR ''_''}"

definition check_mach_services :: "string list \<Rightarrow> sandbox_error + unit" where
  "check_mach_services services = try_fold (\<lambda>_ service.
     if service = [] \<or> length service > 128 \<or> \<not> list_all mach_service_char service
     then Inl (InvalidMacOsMachService service) else Inr ()) () services"

definition canonical_host :: "string \<Rightarrow> sandbox_error + string" where
  "canonical_host host =
     (let host = to_ascii_lowercase (trim host) in
      if host = [] \<or> CHR ''/'' \<in> set host \<or> nul \<in> set host then Inl (InvalidAllowedHost host)
      else Inr host)"

definition canonical_network :: "sandbox_network_policy \<Rightarrow> sandbox_error + sandbox_network_policy" where
  "canonical_network network = (case network of
       Offline \<Rightarrow> Inr Offline
     | ProxyOnly url hosts sockets \<Rightarrow>
         (if trim url = [] then Inl EmptyProxyUrl
          else and_then (try_map canonical_host hosts) (\<lambda>hosts.
               and_then (try_map normalize_absolute_path sockets) (\<lambda>sockets.
                 Inr (ProxyOnly url (sort_strings hosts) (sort_paths sockets))))))"

definition canonicalize_sandbox_profile :: "sandbox_profile \<Rightarrow> sandbox_error + sandbox_profile" where
  "canonicalize_sandbox_profile p =
     (if \<not> sep_clear_inherited (sp_environment p) then Inl InheritedEnvironmentNotCleared
      else and_then (check_environment (sep_variables (sp_environment p))) (\<lambda>_.
      if srl_wall_time_ms (sp_resources p) = Some 0 \<or> srl_max_processes (sp_resources p) = Some 0
         \<or> srl_max_output_bytes (sp_resources p) = Some 0 then Inl ZeroResourceLimit
      else if spp_allow_any_executable (sp_process p) \<and> \<not> spp_allow_child_processes (sp_process p)
      then Inl AnyExecutableRequiresChildProcesses
      else and_then (canonical_rules (sfp_rules (sp_filesystem p))) (\<lambda>rules.
           and_then (try_map normalize_absolute_path (spp_allowed_executables (sp_process p))) (\<lambda>executables.
           and_then (check_mach_services (spl_macos_mach_services (sp_platform p))) (\<lambda>_.
           and_then (canonical_network (sp_network p)) (\<lambda>network.
             Inr (p\<lparr>sp_filesystem := \<lparr>sfp_rules = rules\<rparr>,
                    sp_process := (sp_process p)\<lparr>spp_allowed_executables := sort_paths executables\<rparr>,
                    sp_platform := \<lparr>spl_macos_mach_services =
                       sort_strings (spl_macos_mach_services (sp_platform p))\<rparr>,
                    sp_network := network\<rparr>)))))))"

definition canonicalize_terminal_command :: "terminal_command \<Rightarrow> sandbox_error + terminal_command" where
  "canonicalize_terminal_command c =
     and_then (normalize_absolute_path (tc_program c)) (\<lambda>program.
     and_then (case tc_cwd c of None \<Rightarrow> Inr None
               | Some cwd \<Rightarrow> and_then (normalize_absolute_path cwd) (\<lambda>cwd. Inr (Some cwd))) (\<lambda>cwd.
     and_then (check_environment (tc_env c)) (\<lambda>_.
     if list_ex (\<lambda>argument. nul \<in> set argument) (tc_args c) then Inl NulArgument
     else Inr (c\<lparr>tc_program := program, tc_cwd := cwd\<rparr>))))"

section \<open>Digests\<close>

definition digest_error_text :: "digest_error \<Rightarrow> string" where
  "digest_error_text e =
     (case e of InvalidSha256 \<Rightarrow>
        ''a SHA-256 digest must contain exactly 64 lowercase hexadecimal characters'')"

definition sha256_json :: "sandbox_crate \<Rightarrow> bytes option \<Rightarrow> sandbox_error + string" where
  "sha256_json S encoded =
     and_then (ok_or encoded SerializationError) (\<lambda>bytes. Inr (hex_lower (sandbox_sha256 S bytes)))"

definition sandbox_profile_digest ::
    "sandbox_crate \<Rightarrow> sandbox_profile \<Rightarrow> sandbox_error + sandbox_profile_digest" where
  "sandbox_profile_digest S p =
     and_then (canonicalize_sandbox_profile p) (\<lambda>canonical.
     and_then (sha256_json S (profile_json S canonical)) (\<lambda>digest.
       map_err (\<lambda>e. DigestError (digest_error_text e)) (parse_digest SandboxProfileDigest digest)))"

definition terminal_action_digest :: "sandbox_crate \<Rightarrow> terminal_command \<Rightarrow> sandbox_error + action_digest" where
  "terminal_action_digest S c =
     and_then (canonicalize_terminal_command c) (\<lambda>canonical.
     and_then (sha256_json S (command_json S canonical)) (\<lambda>digest.
       map_err (\<lambda>e. DigestError (digest_error_text e)) (parse_digest ActionDigest digest)))"

text \<open>The launcher for tests, which says that it enforces nothing.\<close>

definition test_only_compile ::
    "sandbox_crate \<Rightarrow> sandbox_compile_request \<Rightarrow> sandbox_error + sandbox_launch_plan" where
  "test_only_compile S request =
     and_then (canonicalize_sandbox_profile (scr_profile request)) (\<lambda>profile.
     and_then (canonicalize_terminal_command (scr_command request)) (\<lambda>command.
     and_then (sandbox_profile_digest S profile) (\<lambda>profile_digest.
     and_then (terminal_action_digest S command) (\<lambda>action_digest.
       Inr \<lparr>slp_command = command,
            slp_compiled = \<lparr>csp_backend = TestOnlyUnenforced, csp_enforced = False,
              csp_profile = profile, csp_profile_digest = profile_digest,
              csp_action_digest = action_digest\<rparr>,
            slp_clear_environment = True\<rparr>))))"

section \<open>Normal paths\<close>

text \<open>A segment of a normal path, and the path of a list of segments.\<close>

definition segment_ok :: "string \<Rightarrow> bool" where
  "segment_ok w \<longleftrightarrow> w \<noteq> [] \<and> w \<noteq> ''.'' \<and> w \<noteq> ''..'' \<and> CHR ''/'' \<notin> set w"

definition path_of :: "string list \<Rightarrow> string" where
  "path_of ws = CHR ''/'' # join ''/'' ws"

lemma split_slash_ne: "split_slash s \<noteq> []"
  by (induction s) (auto split: list.splits)

lemma split_slash_no_slash: "w \<in> set (split_slash s) \<Longrightarrow> CHR ''/'' \<notin> set w"
proof (induction s arbitrary: w)
  case (Cons c s)
  then show ?case by (auto split: list.splits if_splits)
qed simp

lemma split_slash_segment: "CHR ''/'' \<notin> set w \<Longrightarrow> split_slash w = [w]"
  by (induction w) auto

lemma split_slash_join: "CHR ''/'' \<notin> set w \<Longrightarrow> split_slash (w @ CHR ''/'' # s) = w # split_slash s"
  by (induction w) auto

lemma split_slash_path:
  "ws \<noteq> [] \<Longrightarrow> list_all segment_ok ws \<Longrightarrow> split_slash (join ''/'' ws) = ws"
proof (induction ws rule: induct_list012)
  case (3 u v ws)
  then show ?case by (simp add: segment_ok_def split_slash_join)
qed (simp_all add: segment_ok_def split_slash_segment)

lemma segment_component_ok: "segment_ok w \<Longrightarrow> segment_component w = Some (Normal w)"
  by (simp add: segment_ok_def segment_component_def)

lemma map_filter_segments:
  "list_all segment_ok ws \<Longrightarrow> List.map_filter segment_component ws = map Normal ws"
  by (induction ws) (simp_all add: map_filter_simps segment_component_ok)

lemma components_path_of: "list_all segment_ok ws \<Longrightarrow> components (path_of ws) = RootDir # map Normal ws"
  by (cases "ws = []")
    (simp_all add: components_def path_of_def is_absolute_def map_filter_simps segment_component_def
      split_slash_path map_filter_segments)

lemma segment_Normal: "CHR ''/'' \<notin> set w \<Longrightarrow> segment_component w = Some (Normal v) \<Longrightarrow> v = w \<and> segment_ok w"
  by (auto simp: segment_component_def segment_ok_def split: if_splits)

lemma path_push_segment:
  "list_all segment_ok ws \<Longrightarrow> segment_ok w \<Longrightarrow> path_push (path_of ws) w = path_of (ws @ [w])"
proof (cases ws rule: rev_cases)
  case Nil
  assume "segment_ok w"
  with Nil show ?thesis
    by (cases w) (auto simp: path_push_def path_of_def is_absolute_def segment_ok_def)
next
  case (snoc us u)
  assume ok: "list_all segment_ok ws" "segment_ok w"
  have j: "join ''/'' (xs @ [x]) = (if xs = [] then x else join ''/'' xs @ ''/'' @ x)" for xs x
    by (induction xs rule: induct_list012) auto
  from ok snoc have u: "u \<noteq> []" "CHR ''/'' \<notin> set u" by (auto simp: segment_ok_def)
  then have "last u \<noteq> CHR ''/''" by (metis last_in_set)
  with ok(2) snoc u show ?thesis
    using j [of "us @ [u]" w] j [of us u]
    by (cases w) (auto simp: path_push_def path_of_def is_absolute_def segment_ok_def)
qed

text \<open>The loop of \<open>normalize_absolute_path\<close>.\<close>

abbreviation push_component :: "string \<Rightarrow> string \<Rightarrow> component \<Rightarrow> sandbox_error + string" where
  "push_component path normalized c \<equiv> (case c of
            RootDir \<Rightarrow> Inr (path_push normalized (component_str c))
          | Normal _ \<Rightarrow> Inr (path_push normalized (component_str c))
          | CurDir \<Rightarrow> Inr normalized
          | ParentDir \<Rightarrow> Inl (ParentTraversal path))"

lemma push_segments:
  "list_all segment_ok us \<Longrightarrow> list_all segment_ok ws \<Longrightarrow>
     try_fold (push_component p) (path_of us) (map Normal ws) = Inr (path_of (us @ ws))"
  by (induction ws arbitrary: us) (simp_all add: component_str_def path_push_segment)

lemma push_ParentDir: "ParentDir \<in> set cs \<Longrightarrow> \<exists>e. try_fold (push_component p) q cs = Inl e"
proof (induction cs arbitrary: q)
  case (Cons c cs)
  then show ?case by (cases c) auto
qed simp

lemma list_of_images: "\<forall>c \<in> set cs. \<exists>w. c = f w \<and> P w \<Longrightarrow> \<exists>ws. list_all P ws \<and> cs = map f ws"
proof (induction cs)
  case (Cons c cs)
  then obtain w ws where "c = f w" "P w" "list_all P ws" "cs = map f ws" by auto
  then show ?case by (intro exI [of _ "w # ws"]) simp
qed simp

lemma absolute_components:
  assumes "is_absolute p"
  obtains "ParentDir \<in> set (components p)"
  | ws where "list_all segment_ok ws" "components p = RootDir # map Normal ws"
proof -
  let ?cs = "List.map_filter segment_component (split_slash p)"
  have cs: "components p = RootDir # ?cs" using assms by (simp add: components_def)
  have seg: "c = ParentDir \<or> (\<exists>w. c = Normal w \<and> segment_ok w)" if "c \<in> set ?cs" for c
    using that split_slash_no_slash [of _ p]
    by (auto simp: map_filter_def segment_component_def segment_ok_def split: if_splits)
  show thesis
  proof (cases "ParentDir \<in> set ?cs")
    case True
    with that(1) cs show thesis by simp
  next
    case False
    with seg have "\<forall>c \<in> set ?cs. \<exists>w. c = Normal w \<and> segment_ok w" by blast
    from list_of_images [OF this] obtain ws where "list_all segment_ok ws" "?cs = map Normal ws" by blast
    with that(2) cs show thesis by simp
  qed
qed

text \<open>Normalization keeps the components and gives every path that has them the same text.\<close>

lemma normalize_Inr_iff:
  "normalize_absolute_path p = Inr q \<longleftrightarrow> is_absolute p
     \<and> (\<exists>ws. list_all segment_ok ws \<and> components p = RootDir # map Normal ws \<and> q = path_of ws)"
proof (cases "is_absolute p")
  case True
  have root: "path_push [] (component_str RootDir) = path_of []"
    by (simp add: path_push_def component_str_def path_of_def is_absolute_def)
  from True show ?thesis
  proof (rule absolute_components)
    assume "ParentDir \<in> set (components p)"
    with push_ParentDir [OF this, of p "[]"] True show ?thesis
      by (auto simp: normalize_absolute_path_def)
  next
    fix ws assume ws: "list_all segment_ok ws" "components p = RootDir # map Normal ws"
    have "inj Normal" by (simp add: inj_def)
    with True ws push_segments [of "[]" ws p] root show ?thesis
      by (auto simp: normalize_absolute_path_def inj_map_eq_map)
  qed
qed (simp add: normalize_absolute_path_def)

lemma normalize_components: "normalize_absolute_path p = Inr q \<Longrightarrow> components q = components p"
  by (auto simp: normalize_Inr_iff components_path_of)

lemma normalize_idem: "normalize_absolute_path p = Inr q \<Longrightarrow> normalize_absolute_path q = Inr q"
  by (auto simp: normalize_Inr_iff components_path_of) (simp add: path_of_def is_absolute_def)

lemma normalize_path_eq:
  "normalize_absolute_path p = Inr q \<Longrightarrow> normalize_absolute_path p' = Inr q' \<Longrightarrow>
     q = q' \<longleftrightarrow> path_eq p p'"
  by (auto simp: normalize_Inr_iff path_eq_def inj_map_eq_map inj_def dest: arg_cong [of _ _ components]
      simp: components_path_of)

text \<open>
  A path in normal form, by its characters: a slash, then nothing, or segments with one slash
  between two of them, none empty, none a single dot or a double one.
\<close>

definition path_normal :: "string \<Rightarrow> bool" where
  "path_normal q \<longleftrightarrow> (case q of [] \<Rightarrow> False
     | c # s \<Rightarrow> c = CHR ''/'' \<and> (s = [] \<or> list_all segment_ok (split_slash s)))"

lemma join_split_slash: "join ''/'' (split_slash s) = s"
proof (induction s)
  case (Cons c s)
  have j: "join ''/'' ((c # w) # ws) = c # join ''/'' (w # ws)" for w ws
    by (cases ws) simp_all
  have "join ''/'' ([] # split_slash s) = CHR ''/'' # join ''/'' (split_slash s)"
    using split_slash_ne [of s] by (cases "split_slash s") simp_all
  with Cons j split_slash_ne [of s] show ?case by (cases "split_slash s") auto
qed simp

lemma path_normal_iff: "path_normal q \<longleftrightarrow> (\<exists>ws. list_all segment_ok ws \<and> q = path_of ws)"
proof
  assume "path_normal q"
  then obtain s where s: "q = CHR ''/'' # s" "s = [] \<or> list_all segment_ok (split_slash s)"
    by (cases q) (simp_all add: path_normal_def)
  from s(2) show "\<exists>ws. list_all segment_ok ws \<and> q = path_of ws"
  proof
    assume "s = []"
    with s(1) show ?thesis by (intro exI [of _ "[]"]) (simp add: path_of_def)
  next
    assume "list_all segment_ok (split_slash s)"
    with s(1) show ?thesis by (intro exI [of _ "split_slash s"]) (simp add: path_of_def join_split_slash)
  qed
next
  assume "\<exists>ws. list_all segment_ok ws \<and> q = path_of ws"
  then obtain ws where ws: "list_all segment_ok ws" "q = path_of ws" by blast
  then show "path_normal q"
    using split_slash_path [of ws] by (cases "ws = []") (simp_all add: path_normal_def path_of_def)
qed

text \<open>The normal paths are the results of normalization, and it leaves them as they are.\<close>

lemma path_normal_fixed: "path_normal q \<longleftrightarrow> normalize_absolute_path q = Inr q"
proof -
  have "is_absolute (path_of ws)" for ws by (simp add: path_of_def is_absolute_def)
  then show ?thesis unfolding path_normal_iff normalize_Inr_iff by (auto simp: components_path_of)
qed

lemma normalize_normal: "normalize_absolute_path p = Inr q \<Longrightarrow> path_normal q"
  by (simp add: path_normal_fixed normalize_idem)

lemma normal_path_eq: "path_normal p \<Longrightarrow> path_normal q \<Longrightarrow> path_eq p q \<longleftrightarrow> p = q"
  unfolding path_normal_fixed by (metis normalize_path_eq)

lemma normal_path_key: "path_normal p \<Longrightarrow> path_normal q \<Longrightarrow> path_key p = path_key q \<longleftrightarrow> p = q"
  by (simp add: path_key_eq normal_path_eq)

section \<open>Sorted lists without duplicates\<close>

definition sort_dedup :: "('a \<Rightarrow> 'k::linorder) \<Rightarrow> 'a list \<Rightarrow> 'a list" where
  "sort_dedup f xs = dedup_by (\<lambda>x y. f x = f y) (sort_key f xs)"

lemma sort_strings_dedup: "sort_strings ss = sort_dedup (\<lambda>s. s) ss"
  by (simp add: sort_strings_def sort_dedup_def)

lemma sort_paths_dedup: "sort_paths ps = sort_dedup path_key ps"
  by (simp add: sort_paths_def sort_dedup_def path_key_eq)

lemma dedup_subset: "set (dedup_by eq xs) \<subseteq> set xs"
  by (induction eq xs rule: dedup_by.induct) auto

lemma dedup_keys: "f ` set (dedup_by (\<lambda>x y. f x = f y) xs) = f ` set xs"
  by (induction "\<lambda>x y. f x = f y" xs rule: dedup_by.induct) (auto simp: insert_absorb)

lemma dedup_hd: "sorted (map f (x # xs)) \<Longrightarrow> y \<in> set (dedup_by eq (x # xs)) \<Longrightarrow> f x \<le> f y"
  using dedup_subset [of eq "x # xs"] by auto

lemma dedup_strict: "sorted (map f xs) \<Longrightarrow> sorted_wrt (<) (map f (dedup_by (\<lambda>x y. f x = f y) xs))"
proof (induction "\<lambda>x y. f x = f y" xs rule: dedup_by.induct)
  case (1 x y zs)
  show ?case
  proof (cases "f x = f y")
    case True
    with 1 show ?thesis by simp
  next
    case False
    with 1(3) have "f x < f y" by (auto intro: order.not_eq_order_implies_strict)
    moreover have "f y \<le> f z" if "z \<in> set (dedup_by (\<lambda>x y. f x = f y) (y # zs))" for z
      using dedup_hd [where f = f, OF _ that] 1(3) by simp
    ultimately show ?thesis using 1 False by (fastforce intro: order.strict_trans2)
  qed
qed auto

lemma sort_dedup_strict: "sorted_wrt (<) (map f (sort_dedup f xs))"
  unfolding sort_dedup_def by (rule dedup_strict) simp

lemma set_sort_dedup:
  assumes "inj_on f (set xs)"
  shows "set (sort_dedup f xs) = set xs"
proof -
  have sub: "set (sort_dedup f xs) \<subseteq> set xs"
    unfolding sort_dedup_def using dedup_subset by fastforce
  have "f ` set (sort_dedup f xs) = f ` set xs" by (simp add: sort_dedup_def dedup_keys)
  with sub assms show ?thesis by (meson inj_on_image_eq_iff order_refl)
qed

lemma sort_dedup_unique:
  assumes "inj_on f (set xs)" "set xs = set ys"
  shows "sort_dedup f xs = sort_dedup f ys"
proof (rule map_inj_on)
  have s: "set (sort_dedup f xs) = set xs" "set (sort_dedup f ys) = set xs"
    using assms set_sort_dedup by metis+
  then show "inj_on f (set (sort_dedup f xs) \<union> set (sort_dedup f ys))" using assms(1) by simp
  show "map f (sort_dedup f xs) = map f (sort_dedup f ys)"
    using sort_dedup_strict [of f xs] sort_dedup_strict [of f ys] s
    unfolding strict_sorted_iff by (intro sorted_distinct_set_unique) simp_all
qed

lemma sort_dedup_idem: "inj_on f (set xs) \<Longrightarrow> sort_dedup f (sort_dedup f xs) = sort_dedup f xs"
  using sort_dedup_unique [of f "sort_dedup f xs" xs] by (simp add: set_sort_dedup)

lemma inj_path_key: "(\<And>p. p \<in> set ps \<Longrightarrow> path_normal p) \<Longrightarrow> inj_on path_key (set ps)"
  by (auto simp: inj_on_def normal_path_key)

section \<open>Rules\<close>

text \<open>What is asked for a path: the accesses of the rules that name it, and their strictest.\<close>

definition accesses :: "sandbox_path_rule list \<Rightarrow> string \<Rightarrow> sandbox_path_access set" where
  "accesses rules q = spr_access ` {r \<in> set rules. normalize_absolute_path (spr_path r) = Inr q}"

definition strictest :: "sandbox_path_access set \<Rightarrow> sandbox_path_access option" where
  "strictest A = (if A = {} then None
     else if sandbox_path_access.Deny \<in> A then Some sandbox_path_access.Deny
     else if Write \<in> A then Some Write else Some sandbox_path_access.Read)"

lemma strictest_None: "strictest A = None \<longleftrightarrow> A = {}"
  by (simp add: strictest_def)

lemma strictest_insert:
  "strictest (insert a A) = Some (case strictest A of None \<Rightarrow> a | Some b \<Rightarrow> stricter_access b a)"
  by (cases a) (auto simp: strictest_def stricter_access_def)

lemma strictest_single [simp]: "strictest {a} = Some a"
  by (cases a) (auto simp: strictest_def)

lemma accesses_snoc:
  "accesses (rs @ [r]) q =
     (if normalize_absolute_path (spr_path r) = Inr q then insert (spr_access r) (accesses rs q)
      else accesses rs q)"
  by (auto simp: accesses_def)

lemma accesses_normal: "accesses rs q \<noteq> {} \<Longrightarrow> path_normal q"
  by (auto simp: accesses_def normalize_normal)

definition rules_of :: "rule_map \<Rightarrow> sandbox_path_rule list \<Rightarrow> bool" where
  "rules_of m rs \<longleftrightarrow> bt_wf m
     \<and> (\<forall>q. path_normal q \<longrightarrow> bt_get m (path_key q) = map_option (Pair q) (strictest (accesses rs q)))
     \<and> (\<forall>k v. bt_get m k = Some v \<longrightarrow> (\<exists>q. path_normal q \<and> k = path_key q))"

lemma rules_ofD:
  assumes "rules_of m rs"
  shows "bt_wf m"
    and "path_normal q \<Longrightarrow> bt_get m (path_key q) = map_option (Pair q) (strictest (accesses rs q))"
    and "bt_get m k = Some v \<Longrightarrow> \<exists>q. path_normal q \<and> k = path_key q"
  using assms unfolding rules_of_def by blast+

lemma rules_of_entry:
  assumes "rules_of m rs"
  shows "bt_get m k = Some (p, a) \<longleftrightarrow> k = path_key p \<and> strictest (accesses rs p) = Some a"
proof
  assume "bt_get m k = Some (p, a)"
  moreover with rules_ofD(3) [OF assms] obtain q where "path_normal q" "k = path_key q" by blast
  ultimately show "k = path_key p \<and> strictest (accesses rs p) = Some a"
    using rules_ofD(2) [OF assms, of q] by auto
next
  assume r: "k = path_key p \<and> strictest (accesses rs p) = Some a"
  then have "accesses rs p \<noteq> {}" using strictest_None [of "accesses rs p"] by auto
  then have "path_normal p" by (rule accesses_normal)
  with r rules_ofD(2) [OF assms] show "bt_get m k = Some (p, a)" by simp
qed

lemma add_rule_of:
  assumes "rules_of m rs" "add_rule m r = Inr m'"
  shows "rules_of m' (rs @ [r])"
proof -
  from assms(2) obtain q where q: "normalize_absolute_path (spr_path r) = Inr q"
    by (auto simp: add_rule_def result_simps)
  let ?a = "case strictest (accesses rs q) of None \<Rightarrow> spr_access r | Some b \<Rightarrow> stricter_access b (spr_access r)"
  note nq = normalize_normal [OF q]
  have m': "m' = bt_insert (path_key q) (q, ?a) m"
    using assms(2) rules_ofD(2) [OF assms(1) nq] q by (auto simp: add_rule_def split: option.splits)
  show ?thesis
    unfolding rules_of_def
  proof (intro conjI allI impI)
    show "bt_wf m'" using rules_ofD(1) [OF assms(1)] by (simp add: m' bt_wf_insert)
  next
    fix p assume "path_normal p"
    then show "bt_get m' (path_key p) = map_option (Pair p) (strictest (accesses (rs @ [r]) p))"
      using rules_ofD(2) [OF assms(1)] nq q
      by (auto simp: m' map_of_bt_insert normal_path_key accesses_snoc strictest_insert)
  next
    fix k v assume "bt_get m' k = Some v"
    then show "\<exists>q. path_normal q \<and> k = path_key q"
      using rules_ofD(3) [OF assms(1), of k v] nq by (auto simp: m' map_of_bt_insert split: if_splits)
  qed
qed

lemma add_rules_of: "try_fold add_rule [] rs = Inr m \<Longrightarrow> rules_of m rs"
proof (induction rs arbitrary: m rule: rev_induct)
  case Nil
  then show ?case by (simp add: rules_of_def accesses_def strictest_def)
next
  case (snoc r rs)
  then show ?case by (auto simp: try_fold_snoc_Inr intro: add_rule_of)
qed

lemma add_rules_ok:
  "(\<exists>m'. try_fold add_rule m rs = Inr m') \<longleftrightarrow> (\<forall>r \<in> set rs. is_ok (normalize_absolute_path (spr_path r)))"
proof (induction rs arbitrary: m)
  case (Cons r rs)
  then show ?case
    by (cases "normalize_absolute_path (spr_path r)") (auto simp: add_rule_def)
qed simp

lemma canonical_rules_spec:
  assumes "canonical_rules rs = Inr cs"
  shows "sorted_wrt (<) (map (\<lambda>r. path_key (spr_path r)) cs)"
    and "r \<in> set cs \<longleftrightarrow> strictest (accesses rs (spr_path r)) = Some (spr_access r)"
proof -
  from assms obtain m where m: "try_fold add_rule [] rs = Inr m"
    and cs: "cs = map (\<lambda>(_, path, access). \<lparr>spr_path = path, spr_access = access\<rparr>) m"
    by (auto simp: canonical_rules_def result_simps)
  note rules = add_rules_of [OF m]
  note wf = rules_ofD(1) [OF rules] and get = rules_of_entry [OF rules]
  have key: "k = path_key p" if "(k, p, a) \<in> set m" for k p a
    using that get bt.entries_get [OF wf] by blast
  then have "map (\<lambda>r. path_key (spr_path r)) cs = map fst m" by (force simp: cs)
  with wf show "sorted_wrt (<) (map (\<lambda>r. path_key (spr_path r)) cs)" by (simp add: bt_wf_def)
  have "r \<in> set cs \<longleftrightarrow> (\<exists>k. (k, spr_path r, spr_access r) \<in> set m)"
    by (cases r) (force simp: cs)
  then show "r \<in> set cs \<longleftrightarrow> strictest (accesses rs (spr_path r)) = Some (spr_access r)"
    using get bt.entries_get [OF wf] by metis
qed

lemma strict_keys_unique:
  fixes f :: "'a \<Rightarrow> 'k::linorder"
  assumes "sorted_wrt (<) (map f xs)" "sorted_wrt (<) (map f ys)" "set xs = set ys"
  shows "xs = ys"
proof (rule map_inj_on)
  show "map f xs = map f ys"
    by (rule sorted_distinct_set_unique) (use assms in \<open>simp_all add: strict_sorted_iff\<close>)
  show "inj_on f (set xs \<union> set ys)"
    using assms by (simp add: strict_sorted_iff distinct_map)
qed

lemma canonical_rules_unique:
  assumes "canonical_rules rs = Inr cs" "canonical_rules rs' = Inr cs'" "accesses rs = accesses rs'"
  shows "cs = cs'"
  using canonical_rules_spec [OF assms(1)] canonical_rules_spec [OF assms(2)] assms(3)
  by (intro strict_keys_unique [of "\<lambda>r. path_key (spr_path r)"]) auto

lemma canonical_rules_ok:
  "(\<exists>cs. canonical_rules rs = Inr cs) \<longleftrightarrow> (\<forall>r \<in> set rs. is_ok (normalize_absolute_path (spr_path r)))"
  by (simp add: canonical_rules_def result_simps add_rules_ok)

lemma canonical_rules_idem:
  assumes "canonical_rules rs = Inr cs"
  shows "canonical_rules cs = Inr cs"
proof -
  note spec = canonical_rules_spec [OF assms]
  have normal: "path_normal (spr_path r)" if "r \<in> set cs" for r
    using that spec(2) [of r] accesses_normal strictest_None by (metis option.distinct(1))
  then obtain cs' where cs': "canonical_rules cs = Inr cs'"
    using canonical_rules_ok [of cs] by (auto simp: path_normal_fixed)
  have "strictest (accesses cs q) = strictest (accesses rs q)" for q
  proof -
    have "a \<in> accesses cs q \<longleftrightarrow> (\<exists>r \<in> set cs. spr_path r = q \<and> spr_access r = a)" for a
      unfolding accesses_def using normal by (auto simp: path_normal_fixed image_iff)
    also have "\<dots> a \<longleftrightarrow> \<lparr>spr_path = q, spr_access = a\<rparr> \<in> set cs" for a
      by (metis sandbox_path_rule.select_convs sandbox_path_rule.surjective unit.exhaust)
    finally have "accesses cs q = {a. \<lparr>spr_path = q, spr_access = a\<rparr> \<in> set cs}" by blast
    also have "\<dots> = {a. strictest (accesses rs q) = Some a}" using spec(2) by simp
    finally show ?thesis
      by (cases "strictest (accesses rs q)") (simp_all add: strictest_None)
  qed
  with spec canonical_rules_spec [OF cs'] have "cs' = cs"
    by (intro strict_keys_unique [of "\<lambda>r. path_key (spr_path r)"]) auto
  with cs' show ?thesis by simp
qed

section \<open>Trimming\<close>

text \<open>Trimming and lowering a host twice is doing it once: lowering does not touch white space.\<close>

definition no_letters :: "string \<Rightarrow> bool" where
  "no_letters w \<longleftrightarrow> w \<noteq> [] \<and> list_all (\<lambda>c. \<not> is_ascii_alphabetic c) w"

lemma white_space_no_letters: "list_all no_letters white_space" "list_all no_letters (map rev white_space)"
  by (simp_all add: white_space_def no_letters_def is_ascii_alphabetic_def is_ascii_lower_def
      is_ascii_upper_def less_eq_char_def)

lemma lower_upper_char: "is_ascii_upper c \<Longrightarrow> is_ascii_lower (to_ascii_lowercase_char c)"
  by (simp add: is_ascii_lower_def is_ascii_upper_nat less_eq_char_def of_char_to_ascii_lowercase_char)

lemma lower_eq_no_letters:
  "list_all (\<lambda>c. \<not> is_ascii_alphabetic c) w \<Longrightarrow> map to_ascii_lowercase_char s = w \<longleftrightarrow> s = w"
proof (induction s arbitrary: w)
  case (Cons c s)
  have "to_ascii_lowercase_char c = d \<longleftrightarrow> c = d" if "\<not> is_ascii_alphabetic d" for d
    using that lower_upper_char [of c]
    by (auto simp: is_ascii_alphabetic_def to_ascii_lowercase_char_def split: if_splits)
  with Cons show ?case by (cases w) auto
qed simp

lemma starts_with_lower: "no_letters w \<Longrightarrow> starts_with w (to_ascii_lowercase s) \<longleftrightarrow> starts_with w s"
  by (simp add: starts_with_def to_ascii_lowercase_def no_letters_def take_map lower_eq_no_letters)

lemma leading_white_lower:
  "list_all no_letters ws \<Longrightarrow> leading_white ws (to_ascii_lowercase s) = leading_white ws s"
  unfolding leading_white_def
  by (induction ws) (auto simp: starts_with_lower)

lemma lower_drop: "to_ascii_lowercase (drop n s) = drop n (to_ascii_lowercase s)"
  by (simp add: to_ascii_lowercase_def drop_map)

lemma lower_Nil: "to_ascii_lowercase s = [] \<longleftrightarrow> s = []"
  by (simp add: to_ascii_lowercase_def)

lemma trim_with_lower:
  "list_all no_letters ws \<Longrightarrow> trim_with ws (to_ascii_lowercase s) = to_ascii_lowercase (trim_with ws s)"
proof (induction ws s rule: trim_with.induct)
  case (1 ws s)
  then show ?case
    using leading_white_lower [OF 1(2), of s]
    by (cases "leading_white ws s = 0 \<or> s = []")
      (auto simp: trim_with.simps [of ws s] trim_with.simps [of ws "to_ascii_lowercase s"]
        lower_Nil simp flip: lower_drop)
qed

lemma trim_lower: "trim (to_ascii_lowercase s) = to_ascii_lowercase (trim s)"
  using trim_with_lower [OF white_space_no_letters(1), of s]
    trim_with_lower [OF white_space_no_letters(2), of "rev (trim_with white_space s)"]
  by (simp add: trim_def trim_end_def trim_start_def to_ascii_lowercase_def rev_map)

lemma leading_white_0:
  "list_all no_letters ws \<Longrightarrow> leading_white ws s = 0 \<longleftrightarrow> (\<forall>w \<in> set ws. \<not> starts_with w s)"
  unfolding leading_white_def by (induction ws) (auto simp: no_letters_def)

lemma trim_with_fixed: "leading_white ws s = 0 \<Longrightarrow> trim_with ws s = s"
  by (simp add: trim_with.simps)

lemma trim_with_done: "list_all no_letters ws \<Longrightarrow> leading_white ws (trim_with ws s) = 0"
proof (induction ws s rule: trim_with.induct)
  case (1 ws s)
  have "leading_white ws [] = 0"
    using 1(2) by (auto simp: leading_white_0 starts_with_def no_letters_def list_all_iff)
  with 1 show ?case
    by (cases "leading_white ws s = 0 \<or> s = []") (auto simp: trim_with.simps [of ws s])
qed

lemma trim_with_suffix: "\<exists>k. trim_with ws s = drop k s"
proof (induction ws s rule: trim_with.induct)
  case (1 ws s)
  show ?case
  proof (cases "leading_white ws s = 0 \<or> s = []")
    case True
    then have "trim_with ws s = drop 0 s" by (simp add: trim_with.simps [of ws s])
    then show ?thesis by blast
  next
    case False
    with 1 obtain k where "trim_with ws (drop (leading_white ws s) s) = drop k (drop (leading_white ws s) s)"
      by blast
    with False show ?thesis by (auto simp: trim_with.simps [of ws s])
  qed
qed

lemma leading_white_take:
  assumes "list_all no_letters ws" "leading_white ws s = 0"
  shows "leading_white ws (take k s) = 0"
proof -
  have "starts_with w s" if "starts_with w (take k s)" for w
    using that by (auto simp: starts_with_def min_def split: if_splits)
  with assms show ?thesis by (auto simp: leading_white_0)
qed

lemma trim_idem [simp]: "trim (trim s) = trim s"
proof -
  let ?t = "trim_with white_space s"
  from trim_with_suffix obtain k where k: "trim_with (map rev white_space) (rev ?t) = drop k (rev ?t)" by blast
  then have "trim s = take (length ?t - k) ?t"
    by (simp add: trim_def trim_end_def trim_start_def drop_rev)
  with leading_white_take trim_with_done [OF white_space_no_letters(1), of s] white_space_no_letters(1)
  have start: "trim_start (trim s) = trim s" by (simp add: trim_start_def trim_with_fixed)
  have "trim_end (trim s) = trim s"
    using trim_with_done [OF white_space_no_letters(2)]
    by (simp add: trim_def trim_end_def trim_with_fixed)
  with start show ?thesis by (simp add: trim_def [of "trim s"])
qed

text \<open>A string between two graphic characters has nothing to trim.\<close>

definition graphic :: "char \<Rightarrow> bool" where
  "graphic c \<longleftrightarrow> 33 \<le> (of_char c :: nat) \<and> (of_char c :: nat) < 127"

lemma digit_graphic: "is_ascii_digit c \<Longrightarrow> graphic c"
  by (simp add: graphic_def is_ascii_digit_def less_eq_char_def)

lemma white_space_not_graphic:
  "list_all (\<lambda>w. \<not> graphic (hd w)) white_space" "list_all (\<lambda>w. \<not> graphic (hd w)) (map rev white_space)"
  by (simp_all add: white_space_def graphic_def)

lemma leading_white_graphic:
  assumes "list_all no_letters ws" and "list_all (\<lambda>w. \<not> graphic (hd w)) ws" and "graphic c"
  shows "leading_white ws (c # s) = 0"
  unfolding leading_white_0 [OF assms(1)]
proof
  fix w assume w: "w \<in> set ws"
  with assms(1,2) have w: "w \<noteq> []" "\<not> graphic (hd w)" by (simp_all add: list_all_iff no_letters_def)
  with assms(3) show "\<not> starts_with w (c # s)" by (cases w) (auto simp: starts_with_def)
qed

lemma trim_graphic:
  assumes "s \<noteq> []" and "graphic (hd s)" and "graphic (last s)"
  shows "trim s = s"
proof -
  obtain c r where c: "s = c # r" using assms(1) by (cases s) simp_all
  obtain q d where d: "s = q @ [d]" using assms(1) rev_exhaust by blast
  have "trim_with white_space s = s"
    using assms(2) c leading_white_graphic [OF white_space_no_letters(1) white_space_not_graphic(1), of c r]
    by (simp add: trim_with_fixed)
  moreover have "trim_with (map rev white_space) (rev s) = rev s"
    using assms(3) d leading_white_graphic [OF white_space_no_letters(2) white_space_not_graphic(2), of d "rev q"]
    by (simp add: trim_with_fixed)
  ultimately show ?thesis by (simp add: trim_def trim_end_def trim_start_def)
qed

lemma canonical_host_idem: "canonical_host h = Inr g \<Longrightarrow> canonical_host g = Inr g"
  by (auto simp: canonical_host_def Let_def trim_lower split: if_splits)

section \<open>Canonical profiles are canonical\<close>

lemma try_fold_check:
  "try_fold (\<lambda>_ x. if P x then Inl (e x) else Inr ()) () xs = Inr u \<longleftrightarrow> (\<forall>x \<in> set xs. \<not> P x)"
  by (induction xs) auto

lemma check_mach_services_Inr:
  "check_mach_services ss = Inr u \<longleftrightarrow>
     (\<forall>s \<in> set ss. s \<noteq> [] \<and> length s \<le> 128 \<and> list_all mach_service_char s)"
  unfolding check_mach_services_def try_fold_check by (auto simp: not_less)

lemma check_environment_Inr:
  "check_environment env = Inr u \<longleftrightarrow>
     (\<forall>(name, value) \<in> set env. name \<noteq> [] \<and> CHR ''='' \<notin> set name \<and> nul \<notin> set name \<and> nul \<notin> set value)"
  unfolding check_environment_def
  by (induction env) (auto split: if_splits)

lemma try_map_normalize:
  assumes "try_map normalize_absolute_path ps = Inr qs"
  shows "q \<in> set qs \<Longrightarrow> path_normal q" and "inj_on path_key (set qs)"
proof -
  show n: "q \<in> set qs \<Longrightarrow> path_normal q" for q
    using try_map_set [OF assms] normalize_normal by blast
  then show "inj_on path_key (set qs)" by (rule inj_path_key)
qed

lemma sort_paths_normalized:
  assumes "try_map normalize_absolute_path ps = Inr qs"
  shows "try_map normalize_absolute_path (sort_paths qs) = Inr (sort_paths qs)"
    and "sort_paths (sort_paths qs) = sort_paths qs" and "set (sort_paths qs) = set qs"
proof -
  note t = try_map_normalize [OF assms]
  show s: "set (sort_paths qs) = set qs"
    unfolding sort_paths_dedup by (rule set_sort_dedup [OF t(2)])
  show "sort_paths (sort_paths qs) = sort_paths qs"
    unfolding sort_paths_dedup by (rule sort_dedup_idem [OF t(2)])
  show "try_map normalize_absolute_path (sort_paths qs) = Inr (sort_paths qs)"
    using t(1) s by (intro try_map_id) (auto simp: path_normal_fixed)
qed

lemma set_sort_strings [simp]: "set (sort_strings ss) = set ss"
  unfolding sort_strings_dedup by (rule set_sort_dedup) simp

lemma sort_strings_idem [simp]: "sort_strings (sort_strings ss) = sort_strings ss"
  unfolding sort_strings_dedup by (rule sort_dedup_idem) simp

lemma canonical_network_idem:
  assumes "canonical_network n = Inr m"
  shows "canonical_network m = Inr m"
proof (cases n)
  case Offline
  with assms show ?thesis by (auto simp: canonical_network_def)
next
  case (ProxyOnly url hosts sockets)
  with assms obtain hs ss where h: "try_map canonical_host hosts = Inr hs"
    and s: "try_map normalize_absolute_path sockets = Inr ss"
    and m: "m = ProxyOnly url (sort_strings hs) (sort_paths ss)" "trim url \<noteq> []"
    by (auto simp: canonical_network_def result_simps split: if_splits)
  have "try_map canonical_host (sort_strings hs) = Inr (sort_strings hs)"
    using try_map_set [OF h] canonical_host_idem by (intro try_map_id) auto
  with m sort_paths_normalized [OF s] show ?thesis by (simp add: canonical_network_def)
qed

text \<open>The parts of a canonical profile.\<close>

lemma canonicalize_parts:
  assumes "canonicalize_sandbox_profile p = Inr c"
  obtains rules es network where
    "sep_clear_inherited (sp_environment p)" "check_environment (sep_variables (sp_environment p)) = Inr ()"
    "srl_wall_time_ms (sp_resources p) \<noteq> Some 0" "srl_max_processes (sp_resources p) \<noteq> Some 0"
    "srl_max_output_bytes (sp_resources p) \<noteq> Some 0"
    "spp_allow_any_executable (sp_process p) \<Longrightarrow> spp_allow_child_processes (sp_process p)"
    "canonical_rules (sfp_rules (sp_filesystem p)) = Inr rules"
    "try_map normalize_absolute_path (spp_allowed_executables (sp_process p)) = Inr es"
    "check_mach_services (spl_macos_mach_services (sp_platform p)) = Inr ()"
    "canonical_network (sp_network p) = Inr network"
    "c = p\<lparr>sp_filesystem := \<lparr>sfp_rules = rules\<rparr>,
           sp_process := (sp_process p)\<lparr>spp_allowed_executables := sort_paths es\<rparr>,
           sp_platform := \<lparr>spl_macos_mach_services = sort_strings (spl_macos_mach_services (sp_platform p))\<rparr>,
           sp_network := network\<rparr>"
  using assms by (auto simp: canonicalize_sandbox_profile_def result_simps split: if_splits)

lemma canonicalize_idem:
  assumes "canonicalize_sandbox_profile p = Inr c"
  shows "canonicalize_sandbox_profile c = Inr c"
  using assms
proof (rule canonicalize_parts)
  fix rules es network
  assume p: "sep_clear_inherited (sp_environment p)" "check_environment (sep_variables (sp_environment p)) = Inr ()"
    "srl_wall_time_ms (sp_resources p) \<noteq> Some 0" "srl_max_processes (sp_resources p) \<noteq> Some 0"
    "srl_max_output_bytes (sp_resources p) \<noteq> Some 0"
    "spp_allow_any_executable (sp_process p) \<Longrightarrow> spp_allow_child_processes (sp_process p)"
    and r: "canonical_rules (sfp_rules (sp_filesystem p)) = Inr rules"
    and es: "try_map normalize_absolute_path (spp_allowed_executables (sp_process p)) = Inr es"
    and ms: "check_mach_services (spl_macos_mach_services (sp_platform p)) = Inr ()"
    and n: "canonical_network (sp_network p) = Inr network"
    and c: "c = p\<lparr>sp_filesystem := \<lparr>sfp_rules = rules\<rparr>,
           sp_process := (sp_process p)\<lparr>spp_allowed_executables := sort_paths es\<rparr>,
           sp_platform := \<lparr>spl_macos_mach_services = sort_strings (spl_macos_mach_services (sp_platform p))\<rparr>,
           sp_network := network\<rparr>"
  have "check_mach_services (sort_strings (spl_macos_mach_services (sp_platform p))) = Inr ()"
    using ms by (simp add: check_mach_services_Inr)
  with p c canonical_rules_idem [OF r] sort_paths_normalized [OF es] canonical_network_idem [OF n]
  show ?thesis by (simp add: canonicalize_sandbox_profile_def)
qed

lemma normalize_list_cong:
  assumes "set ps = set ps'" "try_map normalize_absolute_path ps = Inr qs"
    "try_map normalize_absolute_path ps' = Inr qs'"
  shows "sort_paths qs = sort_paths qs'"
proof -
  have "set qs = {q. \<exists>p \<in> set ps. normalize_absolute_path p = Inr q}" if
    "try_map normalize_absolute_path ps = Inr qs" for ps qs
    using that by (induction ps arbitrary: qs) (auto simp: result_simps)
  with assms have "set qs = set qs'" by simp
  then show ?thesis
    unfolding sort_paths_dedup using try_map_normalize(2) [OF assms(2)] by (intro sort_dedup_unique)
qed

text \<open>Two profiles that say the same in another order, or twice.\<close>

definition same_network :: "sandbox_network_policy \<Rightarrow> sandbox_network_policy \<Rightarrow> bool" where
  "same_network m n \<longleftrightarrow> (case (m, n) of
     (ProxyOnly u h s, ProxyOnly u' h' s') \<Rightarrow> u = u' \<and> set h = set h' \<and> set s = set s'
   | _ \<Rightarrow> m = n)"

definition same_profile :: "sandbox_profile \<Rightarrow> sandbox_profile \<Rightarrow> bool" where
  "same_profile p p' \<longleftrightarrow> sp_enforcement p = sp_enforcement p' \<and> sp_environment p = sp_environment p'
     \<and> sp_resources p = sp_resources p' \<and> sp_lifetime p = sp_lifetime p'
     \<and> spp_allow_child_processes (sp_process p) = spp_allow_child_processes (sp_process p')
     \<and> spp_allow_any_executable (sp_process p) = spp_allow_any_executable (sp_process p')
     \<and> set (spp_allowed_executables (sp_process p)) = set (spp_allowed_executables (sp_process p'))
     \<and> set (sfp_rules (sp_filesystem p)) = set (sfp_rules (sp_filesystem p'))
     \<and> set (spl_macos_mach_services (sp_platform p)) = set (spl_macos_mach_services (sp_platform p'))
     \<and> same_network (sp_network p) (sp_network p')"

lemma canonical_network_cong:
  assumes "same_network m n" "canonical_network m = Inr m'" "canonical_network n = Inr n'"
  shows "m' = n'"
proof (cases m)
  case Offline
  with assms show ?thesis by (auto simp: same_network_def split: sandbox_network_policy.splits)
next
  case (ProxyOnly url hosts sockets)
  with assms(1) obtain hosts' sockets' where n: "n = ProxyOnly url hosts' sockets'"
    "set hosts = set hosts'" "set sockets = set sockets'"
    by (auto simp: same_network_def split: sandbox_network_policy.splits)
  from assms(2,3) ProxyOnly n obtain hs ss hs' ss' where
    h: "try_map canonical_host hosts = Inr hs" "try_map canonical_host hosts' = Inr hs'"
    and s: "try_map normalize_absolute_path sockets = Inr ss" "try_map normalize_absolute_path sockets' = Inr ss'"
    and eq: "m' = ProxyOnly url (sort_strings hs) (sort_paths ss)" "n' = ProxyOnly url (sort_strings hs') (sort_paths ss')"
    by (auto simp: canonical_network_def result_simps split: if_splits)
  have "set hs = {g. \<exists>h \<in> set hosts. canonical_host h = Inr g}" if
    "try_map canonical_host hosts = Inr hs" for hosts hs
    using that by (induction hosts arbitrary: hs) (auto simp: result_simps)
  with h n have "set hs = set hs'" by simp
  then have "sort_strings hs = sort_strings hs'"
    unfolding sort_strings_dedup by (intro sort_dedup_unique) simp_all
  with eq normalize_list_cong [OF n(3) s] show ?thesis by simp
qed

lemma try_map_ok_set:
  "set xs = set ys \<Longrightarrow> (\<exists>r. try_map f xs = Inr r) \<longleftrightarrow> (\<exists>r. try_map f ys = Inr r)"
proof -
  have "(\<exists>r. try_map f zs = Inr r) \<longleftrightarrow> (\<forall>z \<in> set zs. \<exists>r. f z = Inr r)" for zs
    by (induction zs) (auto simp: result_simps)
  then show "set xs = set ys \<Longrightarrow> ?thesis" by simp
qed

lemma accesses_set: "set rs = set rs' \<Longrightarrow> accesses rs = accesses rs'"
  by (simp add: accesses_def fun_eq_iff)

lemma canonical_network_ok:
  assumes "same_network m n" "canonical_network m = Inr m'"
  shows "\<exists>n'. canonical_network n = Inr n'"
proof (cases m)
  case Offline
  with assms show ?thesis by (auto simp: same_network_def split: sandbox_network_policy.splits)
next
  case (ProxyOnly url hosts sockets)
  with assms(1) obtain hosts' sockets' where n: "n = ProxyOnly url hosts' sockets'"
    "set hosts = set hosts'" "set sockets = set sockets'"
    by (auto simp: same_network_def split: sandbox_network_policy.splits)
  from try_map_ok_set [OF n(2), of canonical_host] try_map_ok_set [OF n(3), of normalize_absolute_path]
    assms(2) ProxyOnly n(1)
  show ?thesis by (auto simp: canonical_network_def result_simps split: if_splits)
qed

lemma canonicalize_cong:
  assumes "same_profile p p'" and "canonicalize_sandbox_profile p = Inr c"
  shows "canonicalize_sandbox_profile p' = Inr c"
  using assms(2)
proof (rule canonicalize_parts)
  fix rules es network
  assume p: "sep_clear_inherited (sp_environment p)" "check_environment (sep_variables (sp_environment p)) = Inr ()"
    "srl_wall_time_ms (sp_resources p) \<noteq> Some 0" "srl_max_processes (sp_resources p) \<noteq> Some 0"
    "srl_max_output_bytes (sp_resources p) \<noteq> Some 0"
    "spp_allow_any_executable (sp_process p) \<Longrightarrow> spp_allow_child_processes (sp_process p)"
    and r: "canonical_rules (sfp_rules (sp_filesystem p)) = Inr rules"
    and es: "try_map normalize_absolute_path (spp_allowed_executables (sp_process p)) = Inr es"
    and ms: "check_mach_services (spl_macos_mach_services (sp_platform p)) = Inr ()"
    and n: "canonical_network (sp_network p) = Inr network"
    and c: "c = p\<lparr>sp_filesystem := \<lparr>sfp_rules = rules\<rparr>,
           sp_process := (sp_process p)\<lparr>spp_allowed_executables := sort_paths es\<rparr>,
           sp_platform := \<lparr>spl_macos_mach_services = sort_strings (spl_macos_mach_services (sp_platform p))\<rparr>,
           sp_network := network\<rparr>"
  note same = assms(1) [unfolded same_profile_def]
  have "is_ok (normalize_absolute_path (spr_path r))" if "r \<in> set (sfp_rules (sp_filesystem p'))" for r
    using that r same canonical_rules_ok [of "sfp_rules (sp_filesystem p)"] by simp
  then obtain rules' where r': "canonical_rules (sfp_rules (sp_filesystem p')) = Inr rules'"
    using canonical_rules_ok [of "sfp_rules (sp_filesystem p')"] by blast
  have "rules' = rules"
    using canonical_rules_unique [OF r' r] accesses_set same by metis
  obtain es' where es': "try_map normalize_absolute_path (spp_allowed_executables (sp_process p')) = Inr es'"
    using try_map_ok_set [of "spp_allowed_executables (sp_process p)"] same es by blast
  have "sort_paths es' = sort_paths es" using normalize_list_cong [OF _ es' es] same by simp
  have "sort_strings (spl_macos_mach_services (sp_platform p')) =
      sort_strings (spl_macos_mach_services (sp_platform p))"
    unfolding sort_strings_dedup using same by (intro sort_dedup_unique) simp_all
  obtain network' where n': "canonical_network (sp_network p') = Inr network'"
    using canonical_network_ok [OF _ n] same by blast
  have "network' = network" using canonical_network_cong [OF _ n n'] same by simp
  have "check_mach_services (spl_macos_mach_services (sp_platform p')) = Inr ()"
    using ms same by (simp add: check_mach_services_Inr)
  moreover have "(sp_process p')\<lparr>spp_allowed_executables := xs\<rparr> = (sp_process p)\<lparr>spp_allowed_executables := xs\<rparr>" for xs
    using same by (cases "sp_process p"; cases "sp_process p'") simp
  moreover have "p'\<lparr>sp_filesystem := a, sp_process := b, sp_platform := d, sp_network := e\<rparr> =
      p\<lparr>sp_filesystem := a, sp_process := b, sp_platform := d, sp_network := e\<rparr>" for a b d e
    using same by (cases p; cases p') simp
  ultimately show ?thesis
    using p c r' es' n' \<open>rules' = rules\<close> \<open>sort_paths es' = sort_paths es\<close> \<open>network' = network\<close>
      \<open>sort_strings _ = sort_strings _\<close> same
    by (simp add: canonicalize_sandbox_profile_def)
qed

section \<open>Concrete values\<close>

definition sample_profile :: "sandbox_path_rule list \<Rightarrow> sandbox_profile" where
  "sample_profile rules = \<lparr>sp_enforcement = Native, sp_filesystem = \<lparr>sfp_rules = rules\<rparr>,
     sp_network = Offline, sp_environment = default_environment_policy,
     sp_platform = \<lparr>spl_macos_mach_services = []\<rparr>,
     sp_process = \<lparr>spp_allow_child_processes = False, spp_allow_any_executable = False,
       spp_allowed_executables = []\<rparr>,
     sp_resources = \<lparr>srl_wall_time_ms = None, srl_max_processes = None, srl_max_output_bytes = None\<rparr>,
     sp_lifetime = OneOperation\<rparr>"

definition sample_rules :: "sandbox_path_rule list" where
  "sample_rules = [\<lparr>spr_path = ''/w/./a'', spr_access = Write\<rparr>, \<lparr>spr_path = ''/u'', spr_access = sandbox_path_access.Read\<rparr>,
     \<lparr>spr_path = ''/w//a'', spr_access = sandbox_path_access.Deny\<rparr>]"

definition sample_canonical :: "sandbox_path_rule list" where
  "sample_canonical = [\<lparr>spr_path = ''/u'', spr_access = sandbox_path_access.Read\<rparr>, \<lparr>spr_path = ''/w/a'', spr_access = sandbox_path_access.Deny\<rparr>]"

lemma sample_canonicalizes:
  "canonicalize_sandbox_profile (sample_profile sample_rules) = Inr (sample_profile sample_canonical)"
  by (simp add: canonicalize_sandbox_profile_def sample_profile_def default_environment_policy_def
      check_environment_def canonical_rules_def add_rule_def sample_rules_def sample_canonical_def
      normalize_absolute_path_def components_def is_absolute_def map_filter_simps segment_component_def
      path_push_def component_str_def path_key_def component_key_def stricter_access_def
      check_mach_services_def canonical_network_def sort_paths_def sort_strings_def)

definition sample_sandbox_crate :: sandbox_crate where
  "sample_sandbox_crate = \<lparr>profile_json = (\<lambda>p. Some (map (\<lambda>_. 1) (sfp_rules (sp_filesystem p)))),
     command_json = (\<lambda>c. Some (map (\<lambda>_. 2) (tc_args c))),
     sandbox_sha256 = (\<lambda>bs. replicate 32 (of_nat (length bs)))\<rparr>"

definition sample_digest :: sandbox_profile_digest where
  "sample_digest = SandboxProfileDigest (hex_lower (replicate 32 2))"

lemma sample_profile_digest:
  "sandbox_profile_digest sample_sandbox_crate (sample_profile sample_rules) = Inr sample_digest"
proof -
  have "sandbox_sha256 sample_sandbox_crate [1, 1] = replicate 32 2"
    by (simp add: sample_sandbox_crate_def)
  moreover have "profile_json sample_sandbox_crate (sample_profile sample_canonical) = Some [1, 1]"
    by (simp add: sample_sandbox_crate_def sample_profile_def sample_canonical_def)
  ultimately show ?thesis
    using is_sha256_hex_lower [of "replicate 32 2"]
    by (simp add: sandbox_profile_digest_def sample_canonicalizes sha256_json_def
        parse_digest_Inr_iff sample_digest_def result_simps)
qed

section \<open>Properties\<close>

text \<open>
  A canonical profile is a fixed point: canonicalizing it again changes nothing, so the
  digest of the canonical profile is the digest of the profile it came from, which is what the
  receipts and leases of a compiled plan compare.
\<close>

lemma canonical_profile_is_fixed_point:
  assumes "canonicalize_sandbox_profile p = Inr c"
  shows "canonicalize_sandbox_profile c = Inr c
    \<and> sandbox_profile_digest S c = sandbox_profile_digest S p"
  using canonicalize_idem [OF assms] assms by (simp add: sandbox_profile_digest_def)

text \<open>
  C26. The digest of a profile is the digest of what it grants: two profiles that list the same
  rules, executables, services, hosts and sockets, in any order and any number of times, have
  the same canonical profile and the same digest, so a reviewed digest stays valid.
\<close>

theorem profile_digest_ignores_order:
  assumes "same_profile p p'" and "sandbox_profile_digest S p = Inr d"
  shows "sandbox_profile_digest S p' = Inr d"
  using assms(2) canonicalize_cong [OF assms(1)]
  by (auto simp: sandbox_profile_digest_def result_simps)

theorem profile_digest_ignores_order_witness:
  "sandbox_profile_digest sample_sandbox_crate (sample_profile (rev sample_rules @ sample_rules)) = Inr sample_digest"
proof (rule profile_digest_ignores_order [OF _ sample_profile_digest])
  show "same_profile (sample_profile sample_rules) (sample_profile (rev sample_rules @ sample_rules))"
    by (auto simp: same_profile_def sample_profile_def same_network_def)
qed

text \<open>
  Deny wins: in a canonical profile every path has one rule, the paths are sorted, and the
  access of a path is the strictest of all the accesses the original rules gave to that path
  under any spelling; a path without a rule has none.
\<close>

lemma strictest_access_wins:
  assumes "canonicalize_sandbox_profile p = Inr c"
  shows "sorted_wrt (<) (map (\<lambda>r. path_key (spr_path r)) (sfp_rules (sp_filesystem c)))
    \<and> (\<lparr>spr_path = q, spr_access = a\<rparr> \<in> set (sfp_rules (sp_filesystem c)) \<longleftrightarrow>
         strictest (accesses (sfp_rules (sp_filesystem p)) q) = Some a)"
  using assms by (rule canonicalize_parts) (use canonical_rules_spec in \<open>fastforce\<close>)

text \<open>What a host in a canonical profile looks like, and what a variable of the environment.\<close>

lemma canonical_host_Inr:
  assumes "canonical_host h = Inr g"
  shows "g \<noteq> [] \<and> CHR ''/'' \<notin> set g \<and> nul \<notin> set g \<and> to_ascii_lowercase g = g"
  using assms by (auto simp: canonical_host_def Let_def split: if_splits)

lemma canonical_rules_paths:
  assumes "canonical_rules rs = Inr cs"
  shows "(\<forall>r \<in> set cs. path_normal (spr_path r)) \<and> components ` spr_path ` set cs = components ` spr_path ` set rs"
proof -
  note spec = canonical_rules_spec(2) [OF assms]
  have named: "\<exists>r' \<in> set rs. normalize_absolute_path (spr_path r') = Inr (spr_path r)" if "r \<in> set cs" for r
    using that spec [of r] strictest_None [of "accesses rs (spr_path r)"] by (auto simp: accesses_def)
  have kept: "\<exists>r' \<in> set cs. normalize_absolute_path (spr_path r) = Inr (spr_path r')" if r: "r \<in> set rs" for r
  proof -
    obtain q where q: "normalize_absolute_path (spr_path r) = Inr q"
      using assms canonical_rules_ok [of rs] r by (cases "normalize_absolute_path (spr_path r)") fastforce+
    with r have "accesses rs q \<noteq> {}" by (auto simp: accesses_def)
    then obtain a where "strictest (accesses rs q) = Some a"
      using strictest_None [of "accesses rs q"] by (cases "strictest (accesses rs q)") simp_all
    with spec [of "\<lparr>spr_path = q, spr_access = a\<rparr>"] q show ?thesis by force
  qed
  have "components (spr_path r) \<in> components ` spr_path ` set rs" if "r \<in> set cs" for r
    using named [OF that] normalize_components by (metis imageI)
  moreover have "components (spr_path r) \<in> components ` spr_path ` set cs" if "r \<in> set rs" for r
    using kept [OF that] normalize_components by (metis imageI)
  ultimately show ?thesis using named normalize_normal by blast
qed

lemma sorted_paths_kept:
  assumes "try_map normalize_absolute_path ps = Inr qs"
  shows "(\<forall>q \<in> set (sort_paths qs). path_normal q) \<and> components ` set (sort_paths qs) = components ` set ps"
proof -
  have c: "map components qs = map components ps"
    using assms by (induction ps arbitrary: qs) (auto simp: result_simps normalize_components)
  have "components ` set qs = components ` set ps"
    using arg_cong [OF c, of set] by simp
  with sort_paths_normalized(3) [OF assms] try_map_normalize(1) [OF assms] show ?thesis by simp
qed

definition mach_service_alphabet :: string where
  "mach_service_alphabet = ''ABCDEFGHIJKLMNOPQRSTUVWXYZabcdefghijklmnopqrstuvwxyz0123456789.-_''"

lemma alphabet_codes:
  "mach_service_alphabet = map (char_of :: nat \<Rightarrow> char) ([65 ..< 91] @ [97 ..< 123] @ [48 ..< 58] @ [46, 45, 95])"
  by (simp add: mach_service_alphabet_def upt_conv_Cons char_of_def bit_iff_odd)

lemma mach_service_char_alphabet: "mach_service_char c \<Longrightarrow> c \<in> set mach_service_alphabet"
proof -
  assume "mach_service_char c"
  then have "(of_char c :: nat) \<in> set ([65 ..< 91] @ [97 ..< 123] @ [48 ..< 58] @ [46, 45, 95])"
    unfolding set_append set_upt
    by (auto simp: mach_service_char_def is_ascii_alphanumeric_def is_ascii_alphabetic_def is_ascii_lower_def
        is_ascii_upper_def is_ascii_digit_def less_eq_char_def)
  then have "char_of (of_char c :: nat) \<in> set mach_service_alphabet"
    unfolding alphabet_codes set_map by (rule imageI)
  then show ?thesis by simp
qed

text \<open>
  C38. What a canonical profile can hold: the inherited environment is cleared, no variable
  has an empty name or an equals sign in it, and nothing in the environment has a NUL; every
  path of a rule, an executable or an allowed socket is a slash and then segments between
  single slashes, none of them empty, a dot or a double dot, and these paths name the places
  that the given profile names, component by component; a Mach service has one to 128
  characters, all of them letters, digits, dots, dashes or underscores (so none can close a
  string of a Seatbelt profile); an allowed host is not empty and has no slash and no NUL; any
  executable at all is allowed only where child processes are; and no resource limit is zero.
\<close>

theorem canonical_profile_is_safe:
  assumes "canonicalize_sandbox_profile p = Inr c"
  shows "sep_clear_inherited (sp_environment c)
    \<and> (\<forall>(name, value) \<in> set (sep_variables (sp_environment c)).
         name \<noteq> [] \<and> CHR ''='' \<notin> set name \<and> nul \<notin> set name \<and> nul \<notin> set value)
    \<and> (\<forall>r \<in> set (sfp_rules (sp_filesystem c)). path_normal (spr_path r))
    \<and> components ` spr_path ` set (sfp_rules (sp_filesystem c)) =
        components ` spr_path ` set (sfp_rules (sp_filesystem p))
    \<and> (\<forall>e \<in> set (spp_allowed_executables (sp_process c)). path_normal e)
    \<and> components ` set (spp_allowed_executables (sp_process c)) =
        components ` set (spp_allowed_executables (sp_process p))
    \<and> (\<forall>url hosts sockets. sp_network c = ProxyOnly url hosts sockets \<longrightarrow>
         (\<exists>hosts' sockets'. sp_network p = ProxyOnly url hosts' sockets'
            \<and> components ` set sockets = components ` set sockets')
         \<and> (\<forall>s \<in> set sockets. path_normal s)
         \<and> (\<forall>h \<in> set hosts. h \<noteq> [] \<and> CHR ''/'' \<notin> set h \<and> nul \<notin> set h))
    \<and> (\<forall>s \<in> set (spl_macos_mach_services (sp_platform c)).
         0 < length s \<and> length s \<le> 128 \<and> set s \<subseteq> set mach_service_alphabet)
    \<and> (spp_allow_any_executable (sp_process c) \<longrightarrow> spp_allow_child_processes (sp_process c))
    \<and> srl_wall_time_ms (sp_resources c) \<noteq> Some 0 \<and> srl_max_processes (sp_resources c) \<noteq> Some 0
    \<and> srl_max_output_bytes (sp_resources c) \<noteq> Some 0"
proof -
  have network: "\<forall>url hosts sockets. m = ProxyOnly url hosts sockets \<longrightarrow>
         (\<exists>hosts' sockets'. n = ProxyOnly url hosts' sockets'
            \<and> components ` set sockets = components ` set sockets')
         \<and> (\<forall>s \<in> set sockets. path_normal s)
         \<and> (\<forall>h \<in> set hosts. h \<noteq> [] \<and> CHR ''/'' \<notin> set h \<and> nul \<notin> set h)"
    if m: "canonical_network n = Inr m" for n m
  proof (cases n)
    case Offline
    with m show ?thesis by (simp add: canonical_network_def)
  next
    case (ProxyOnly url hosts sockets)
    with m obtain hs ss where h: "try_map canonical_host hosts = Inr hs"
      and s: "try_map normalize_absolute_path sockets = Inr ss"
      and eq: "m = ProxyOnly url (sort_strings hs) (sort_paths ss)"
      by (auto simp: canonical_network_def result_simps split: if_splits)
    have "\<forall>g \<in> set hs. g \<noteq> [] \<and> CHR ''/'' \<notin> set g \<and> nul \<notin> set g"
      using try_map_set [OF h] canonical_host_Inr by blast
    with sorted_paths_kept [OF s] ProxyOnly eq show ?thesis by simp
  qed
  have services: "set s \<subseteq> set mach_service_alphabet" if "list_all mach_service_char s" for s
    using that mach_service_char_alphabet by (auto simp: list_all_iff)
  from assms show ?thesis
  proof (rule canonicalize_parts, goal_cases)
    case (1 rules es network)
    then show ?case
      using canonical_rules_paths [OF 1(7)] sorted_paths_kept [OF 1(8)] network [OF 1(10)] services
      by (simp add: check_environment_Inr check_mach_services_Inr)
  qed
qed

theorem canonical_profile_is_safe_witness:
  "list_all (\<lambda>r. path_normal (spr_path r)) sample_canonical \<and> \<not> path_normal ''/w/../u''
     \<and> components ` spr_path ` set sample_canonical = components ` spr_path ` set sample_rules"
  using canonical_profile_is_safe [OF sample_canonicalizes]
  by (simp add: sample_profile_def list_all_iff path_normal_def segment_ok_def)

end
