(* ===== verification/Terminal.thy ===== *)
theory Terminal
  imports Sandbox
begin

text \<open>
  Terminal sessions of \<^verbatim>\<open>hyper-term-core/src/terminal.rs\<close>: the PTY reader's coalescing
  loop, the replay buffer that every client subscribes to, input and resize sequencing, and the
  command builders of the three ways to spawn.

  The PTY, the process and the bounded channel of a subscriber are outside: a read, a write, a
  resize, a kill and a \<^verbatim>\<open>try_send\<close> have their result as an argument. A lock is poisoned
  only by a panic inside it, and no modelled step panics. A \<^verbatim>\<open>usize\<close> is a nat.
\<close>

section \<open>State, events and errors\<close>

definition READER_CHUNK_BYTES :: nat where
  "READER_CHUNK_BYTES = 16 * 1024"

definition SUBSCRIBER_QUEUE_CHUNKS :: nat where
  "SUBSCRIBER_QUEUE_CHUNKS = 256"

record terminal_chunk =
  tch_terminal_id :: terminal_id
  tch_sequence :: u64
  tch_bytes :: bytes

record terminal_exit =
  te_exit_code :: "u32 option"
  te_signal :: "string option"

datatype terminal_event = Output terminal_chunk | Exited terminal_exit | Fault string

record terminal_snapshot =
  tsn_terminal_id :: terminal_id
  tsn_base_sequence :: u64
  tsn_next_sequence :: u64
  tsn_total_bytes :: u64
  tsn_tail :: bytes
  tsn_exit :: "terminal_exit option"

datatype terminal_replay = Chunks "terminal_chunk list" | SnapshotRequired terminal_snapshot

text \<open>A subscriber is the handle of its channel.\<close>

type_synonym sender = nat

record terminal_subscription =
  tsu_replay :: terminal_replay
  tsu_receiver :: sender
  tsu_exit :: "terminal_exit option"

record terminal_config =
  tcf_replay_bytes :: nat
  tcf_transcript_tail_bytes :: nat

definition default_terminal_config :: terminal_config where
  "default_terminal_config =
     \<lparr>tcf_replay_bytes = 4 * 1024 * 1024, tcf_transcript_tail_bytes = 512 * 1024\<rparr>"

record replay_state =
  rs_next_sequence :: u64
  rs_total_bytes :: u64
  rs_chunks :: "terminal_chunk list"
  rs_replay_size :: nat
  rs_transcript_tail :: bytes
  rs_subscribers :: "sender list"
  rs_exit :: "terminal_exit option"

record replay_buffer =
  rb_terminal_id :: terminal_id
  rb_replay_bytes :: nat
  rb_transcript_tail_bytes :: nat
  rb_state :: replay_state

datatype pty_error = PtyError string

datatype terminal_error =
    TerminalIo pty_error
  | Pty pty_error
  | EmptyProgram
  | UnenforcedSandboxPlan
  | SandboxEnvironmentNotCleared
  | ShellPathNotAbsolute string
  | ShellNotExecutable string
  | WorkingDirectoryNotAbsolute string
  | InvalidWorkingDirectory string
  | InvalidSize string
  | TerminalNotFound terminal_id
  | InputTooLarge nat
  | StaleInputSequence (* current *) u64 (* actual *) u64
  | StaleResize (* current *) u64 (* actual *) u64
  | LockPoisoned

section \<open>The replay buffer\<close>

definition new_replay_buffer :: "terminal_id \<Rightarrow> nat \<Rightarrow> nat \<Rightarrow> replay_buffer" where
  "new_replay_buffer tid replay_bytes transcript_tail_bytes =
     \<lparr>rb_terminal_id = tid,
      rb_replay_bytes = max replay_bytes 1,
      rb_transcript_tail_bytes = max transcript_tail_bytes 1,
      rb_state = \<lparr>rs_next_sequence = 1, rs_total_bytes = 0, rs_chunks = [], rs_replay_size = 0,
        rs_transcript_tail = [], rs_subscribers = [], rs_exit = None\<rparr>\<rparr>"

definition append_transcript_tail :: "bytes \<Rightarrow> bytes \<Rightarrow> nat \<Rightarrow> bytes" where
  "append_transcript_tail tail bytes limit =
     (if length bytes \<ge> limit then drop (length bytes - limit) bytes
      else let overflow = (length tail + length bytes) - limit in
           (if overflow > 0 then drop overflow tail else tail) @ bytes)"

text \<open>The loop that evicts chunks from the front, but never the last one.\<close>

fun evict_chunks :: "nat \<Rightarrow> terminal_chunk list \<Rightarrow> nat \<Rightarrow> terminal_chunk list \<times> nat" where
  "evict_chunks limit (c # d # cs) replay_size =
     (if replay_size > limit then evict_chunks limit (d # cs) (replay_size - length (tch_bytes c))
      else (c # d # cs, replay_size))"
| "evict_chunks limit cs replay_size = (cs, replay_size)"

text \<open>A sender whose queue is full or whose receiver is gone is dropped.\<close>

datatype send_result = Sent | Full | Disconnected

definition publish :: "(sender \<Rightarrow> send_result) \<Rightarrow> sender list \<Rightarrow> sender list" where
  "publish try_send subscribers =
     filter (\<lambda>s. case try_send s of Sent \<Rightarrow> True | Full \<Rightarrow> False | Disconnected \<Rightarrow> False) subscribers"

text \<open>A publication: the new buffer, and the event its subscribers are sent, if there is one.\<close>

definition publish_output ::
    "(sender \<Rightarrow> send_result) \<Rightarrow> replay_buffer \<Rightarrow> bytes \<Rightarrow> replay_buffer \<times> terminal_event option" where
  "publish_output try_send b bytes =
     (let state = rb_state b;
          chunk = \<lparr>tch_terminal_id = rb_terminal_id b, tch_sequence = rs_next_sequence state,
                   tch_bytes = bytes\<rparr>;
          (chunks, replay_size) = evict_chunks (rb_replay_bytes b) (rs_chunks state @ [chunk])
             (rs_replay_size state + length bytes)
      in (b\<lparr>rb_state := state\<lparr>
            rs_next_sequence := rs_next_sequence state + 1,
            rs_total_bytes := saturating_add (rs_total_bytes state) (of_nat (length bytes)),
            rs_chunks := chunks,
            rs_replay_size := replay_size,
            rs_transcript_tail := append_transcript_tail (rs_transcript_tail state) bytes
               (rb_transcript_tail_bytes b),
            rs_subscribers := publish try_send (rs_subscribers state)\<rparr>\<rparr>, Some (Output chunk)))"

definition publish_exit ::
    "(sender \<Rightarrow> send_result) \<Rightarrow> replay_buffer \<Rightarrow> terminal_exit \<Rightarrow> replay_buffer \<times> terminal_event option" where
  "publish_exit try_send b ex =
     (let state = rb_state b in
      if rs_exit state \<noteq> None then (b, None)
      else (b\<lparr>rb_state := state\<lparr>rs_exit := Some ex,
              rs_subscribers := publish try_send (rs_subscribers state)\<rparr>\<rparr>, Some (Exited ex)))"

definition publish_fault ::
    "(sender \<Rightarrow> send_result) \<Rightarrow> replay_buffer \<Rightarrow> string \<Rightarrow> replay_buffer \<times> terminal_event option" where
  "publish_fault try_send b message =
     (let state = rb_state b in
      (b\<lparr>rb_state := state\<lparr>rs_subscribers := publish try_send (rs_subscribers state)\<rparr>\<rparr>,
       Some (Fault message)))"

definition earliest_sequence :: "replay_state \<Rightarrow> u64" where
  "earliest_sequence state = (case rs_chunks state of [] \<Rightarrow> rs_next_sequence state | c # _ \<Rightarrow> tch_sequence c)"

definition snapshot_from_state :: "terminal_id \<Rightarrow> replay_state \<Rightarrow> terminal_snapshot" where
  "snapshot_from_state tid state =
     \<lparr>tsn_terminal_id = tid,
      tsn_base_sequence = earliest_sequence state,
      tsn_next_sequence = rs_next_sequence state,
      tsn_total_bytes = rs_total_bytes state,
      tsn_tail = rs_transcript_tail state,
      tsn_exit = rs_exit state\<rparr>"

definition terminal_snapshot_of :: "replay_buffer \<Rightarrow> terminal_snapshot" where
  "terminal_snapshot_of b = snapshot_from_state (rb_terminal_id b) (rb_state b)"

text \<open>\<open>channel\<close> is the fresh channel of the new subscriber.\<close>

definition subscribe :: "sender \<Rightarrow> replay_buffer \<Rightarrow> u64 \<Rightarrow> replay_buffer \<times> terminal_subscription" where
  "subscribe channel b after_sequence =
     (let state = rb_state b;
          replay = (if after_sequence < saturating_sub (earliest_sequence state) 1
             then SnapshotRequired (snapshot_from_state (rb_terminal_id b) state)
             else Chunks (filter (\<lambda>c. tch_sequence c > after_sequence) (rs_chunks state)));
          ex = rs_exit state
      in (if ex = None then b\<lparr>rb_state := state\<lparr>rs_subscribers := rs_subscribers state @ [channel]\<rparr>\<rparr> else b,
          \<lparr>tsu_replay = replay, tsu_receiver = channel, tsu_exit = ex\<rparr>))"

section \<open>The reader thread\<close>

text \<open>
  One read of the PTY. \<open>pending\<close> is whether the poll after it saw more output at once.
\<close>

datatype read_result = ReadBytes bytes (* pending *) bool | ReadEof | Interrupted | ReadError string

text \<open>What the thread publishes for a sequence of reads; the loop ends at end of file or error.\<close>

datatype publication = PublishOutput bytes | PublishFault string

definition flush_buffer :: "bytes \<Rightarrow> publication list" where
  "flush_buffer buffered = (if length buffered > 0 then [PublishOutput buffered] else [])"

fun reader_loop :: "bytes \<Rightarrow> read_result list \<Rightarrow> publication list" where
  "reader_loop buffered [] = []"
| "reader_loop buffered (ReadEof # _) = flush_buffer buffered"
| "reader_loop buffered (ReadBytes bs pending # reads) =
     (let buffered = buffered @ bs;
          can_coalesce = length buffered < READER_CHUNK_BYTES \<and> pending
      in if length buffered = READER_CHUNK_BYTES \<or> \<not> can_coalesce
         then PublishOutput buffered # reader_loop [] reads
         else reader_loop buffered reads)"
| "reader_loop buffered (Interrupted # reads) = reader_loop buffered reads"
| "reader_loop buffered (ReadError e # _) =
     flush_buffer buffered @ [PublishFault (''PTY read failed: '' @ e)]"

text \<open>What the waiter thread publishes once the reader is joined.\<close>

datatype wait_result = WaitOk u32 "string option" | WaitError string

definition waiter_exit :: "wait_result \<Rightarrow> string option \<times> terminal_exit" where
  "waiter_exit status = (case status of
       WaitOk code signal \<Rightarrow> (None, \<lparr>te_exit_code = Some code, te_signal = signal\<rparr>)
     | WaitError e \<Rightarrow> (Some (''PTY wait failed: '' @ e), \<lparr>te_exit_code = None, te_signal = None\<rparr>))"

section \<open>Sessions\<close>

record terminal_session =
  tss_id :: terminal_id
  tss_process_id :: "u32 option"
  tss_last_input_sequence :: u64
  tss_resize_generation :: u64
  tss_replay :: replay_buffer

definition write_input ::
    "(pty_error + unit) \<Rightarrow> terminal_session \<Rightarrow> u64 \<Rightarrow> bytes \<Rightarrow> terminal_error + terminal_session" where
  "write_input written s input_sequence bytes =
     (if length bytes > READER_CHUNK_BYTES then Inl (InputTooLarge (length bytes))
      else if input_sequence \<le> tss_last_input_sequence s
      then Inl (StaleInputSequence (tss_last_input_sequence s) input_sequence)
      else and_then (map_err TerminalIo written) (\<lambda>_.
        Inr (s\<lparr>tss_last_input_sequence := input_sequence\<rparr>)))"

definition resize_terminal ::
    "(pty_error + unit) \<Rightarrow> terminal_session \<Rightarrow> u64 \<Rightarrow> terminal_size \<Rightarrow> terminal_error + terminal_session" where
  "resize_terminal resized s generation dims =
     and_then (map_err InvalidSize (validate_terminal_size dims)) (\<lambda>_.
     if generation \<le> tss_resize_generation s
     then Inl (StaleResize (tss_resize_generation s) generation)
     else and_then (map_err Pty resized) (\<lambda>_.
       Inr (s\<lparr>tss_resize_generation := generation\<rparr>)))"

definition close_terminal :: "(pty_error + unit) \<Rightarrow> terminal_session \<Rightarrow> terminal_error + unit" where
  "close_terminal killed s =
     (if tsn_exit (terminal_snapshot_of (tss_replay s)) \<noteq> None then Inr ()
      else map_err TerminalIo killed)"

section \<open>Spawning\<close>

text \<open>
  The calls made on the library's \<^verbatim>\<open>CommandBuilder\<close>, in order: the program it is made
  for (none is the default shell), and what is set on it.
\<close>

datatype builder_call =
    BuilderArgs "string list" | BuilderCwd string | BuilderEnvClear | BuilderEnv string string

record command_builder =
  cb_program :: "string option"
  cb_calls :: "builder_call list"

definition builder_env :: "(string, string) btree \<Rightarrow> builder_call list" where
  "builder_env env = map (\<lambda>(key, value). BuilderEnv key value) env"

definition builder_cwd :: "string option \<Rightarrow> builder_call list" where
  "builder_cwd cwd = (case cwd of None \<Rightarrow> [] | Some c \<Rightarrow> [BuilderCwd c])"

definition spawn_command :: "terminal_command \<Rightarrow> terminal_size \<Rightarrow> terminal_error + command_builder" where
  "spawn_command c dims =
     and_then (map_err InvalidSize (validate_terminal_size dims)) (\<lambda>_.
     if trim (tc_program c) = [] then Inl EmptyProgram
     else Inr \<lparr>cb_program = Some (tc_program c),
               cb_calls = [BuilderArgs (tc_args c)] @ builder_cwd (tc_cwd c) @ builder_env (tc_env c)\<rparr>)"

definition spawn_sandboxed :: "sandbox_launch_plan \<Rightarrow> terminal_size \<Rightarrow> terminal_error + command_builder" where
  "spawn_sandboxed plan dims =
     (if \<not> csp_enforced (slp_compiled plan) \<or> csp_backend (slp_compiled plan) = TestOnlyUnenforced
      then Inl UnenforcedSandboxPlan
      else if \<not> slp_clear_environment plan then Inl SandboxEnvironmentNotCleared
      else and_then (map_err InvalidSize (validate_terminal_size dims)) (\<lambda>_.
      if trim (tc_program (slp_command plan)) = [] then Inl EmptyProgram
      else Inr \<lparr>cb_program = Some (tc_program (slp_command plan)),
        cb_calls = [BuilderArgs (tc_args (slp_command plan)), BuilderEnvClear]
          @ builder_cwd (tc_cwd (slp_command plan)) @ builder_env (tc_env (slp_command plan))\<rparr>))"

record user_shell_config =
  usc_shell :: "string option"
  usc_cwd :: "string option"
  usc_environment :: "(string, string) btree"

record user_shell_profile =
  usp_program :: string
  usp_cwd :: "string option"
  usp_login :: bool

text \<open>
  The file system and the library's default shell, as the profile sees them: whether a path is
  a directory, the metadata of a program (is it a file, its mode bits), and the shell that the
  builder resolves from its environment.
\<close>

record shell_host =
  sh_is_dir :: "string \<Rightarrow> bool"
  sh_metadata :: "string \<Rightarrow> (bool \<times> u32) option"
  sh_get_shell :: "builder_call list \<Rightarrow> string"
  sh_package_version :: string

definition validate_working_directory :: "shell_host \<Rightarrow> string option \<Rightarrow> terminal_error + unit" where
  "validate_working_directory H cwd = (case cwd of None \<Rightarrow> Inr ()
     | Some cwd \<Rightarrow>
         (if \<not> is_absolute cwd then Inl (WorkingDirectoryNotAbsolute cwd)
          else if \<not> sh_is_dir H cwd then Inl (InvalidWorkingDirectory cwd)
          else Inr ()))"

definition is_executable :: "u32 \<Rightarrow> bool" where
  "is_executable mode \<longleftrightarrow> and mode 73 \<noteq> 0"

definition validate_shell_program :: "shell_host \<Rightarrow> string \<Rightarrow> terminal_error + unit" where
  "validate_shell_program H program =
     (if \<not> is_absolute program then Inl (ShellPathNotAbsolute program)
      else and_then (ok_or (sh_metadata H program) (ShellNotExecutable program)) (\<lambda>(is_file, mode).
        if \<not> is_file \<or> \<not> is_executable mode then Inl (ShellNotExecutable program)
        else Inr ()))"

definition file_name :: "string \<Rightarrow> string option" where
  "file_name p = (case rev (components p) of Normal w # _ \<Rightarrow> Some w | _ \<Rightarrow> None)"

definition login_arguments :: "string \<Rightarrow> string list" where
  "login_arguments program = (case file_name program of
       None \<Rightarrow> []
     | Some name \<Rightarrow>
         (if name = ''fish'' then [''--login'']
          else if name \<in> {''zsh'', ''bash'', ''sh'', ''dash'', ''ksh'', ''mksh'', ''csh'', ''tcsh''}
          then [''-l'']
          else []))"

definition apply_user_environment ::
    "shell_host \<Rightarrow> user_shell_config \<Rightarrow> string option \<Rightarrow> builder_call list" where
  "apply_user_environment H config explicit_program =
     builder_env (usc_environment config)
     @ (case explicit_program of None \<Rightarrow> [] | Some program \<Rightarrow> [BuilderEnv ''SHELL'' program])
     @ [BuilderEnv ''TERM'' ''xterm-256color'', BuilderEnv ''COLORTERM'' ''truecolor'',
        BuilderEnv ''TERM_PROGRAM'' ''HyperTerm'',
        BuilderEnv ''TERM_PROGRAM_VERSION'' (sh_package_version H), BuilderEnv ''HYPER_TERM'' ''1'']"

definition resolved_profile :: "shell_host \<Rightarrow> user_shell_config \<Rightarrow> terminal_error + user_shell_profile" where
  "resolved_profile H config =
     and_then (validate_working_directory H (usc_cwd config)) (\<lambda>_.
     and_then (case usc_shell config of
         Some program \<Rightarrow> and_then (validate_shell_program H program) (\<lambda>_. Inr program)
       | None \<Rightarrow> (let program = sh_get_shell H (apply_user_environment H config None) in
           and_then (validate_shell_program H program) (\<lambda>_. Inr program))) (\<lambda>program.
     let login = (usc_shell config = None \<or> login_arguments program \<noteq> []) in
       Inr \<lparr>usp_program = program, usp_cwd = usc_cwd config, usp_login = login\<rparr>))"

definition spawn_user_shell ::
    "shell_host \<Rightarrow> user_shell_config \<Rightarrow> terminal_size \<Rightarrow> terminal_error + command_builder" where
  "spawn_user_shell H config dims =
     and_then (resolved_profile H config) (\<lambda>profile.
     let start = (if usc_shell config \<noteq> None
           then \<lparr>cb_program = Some (usp_program profile),
                 cb_calls = [BuilderArgs (login_arguments (usp_program profile))]\<rparr>
           else \<lparr>cb_program = None, cb_calls = []\<rparr>) in
     and_then (map_err InvalidSize (validate_terminal_size dims)) (\<lambda>_.
       Inr (start\<lparr>cb_calls := cb_calls start @ builder_cwd (usp_cwd profile)
         @ apply_user_environment H config (Some (usp_program profile))\<rparr>)))"

text \<open>The session that a started process gets, and the supervisor's table of sessions.\<close>

definition new_terminal_session ::
    "terminal_id \<Rightarrow> u32 option \<Rightarrow> terminal_config \<Rightarrow> terminal_session" where
  "new_terminal_session tid process_id config =
     \<lparr>tss_id = tid, tss_process_id = process_id, tss_last_input_sequence = 0,
      tss_resize_generation = 0,
      tss_replay = new_replay_buffer tid (tcf_replay_bytes config) (tcf_transcript_tail_bytes config)\<rparr>"

type_synonym supervisor = "terminal_id \<rightharpoonup> terminal_session"

definition supervisor_get :: "supervisor \<Rightarrow> terminal_id \<Rightarrow> terminal_error + terminal_session" where
  "supervisor_get sessions tid = ok_or (sessions tid) (TerminalNotFound tid)"

definition supervisor_close ::
    "(pty_error + unit) \<Rightarrow> supervisor \<Rightarrow> terminal_id \<Rightarrow> terminal_error + unit" where
  "supervisor_close killed sessions tid =
     and_then (supervisor_get sessions tid) (close_terminal killed)"

end
