(* ===== verification/Terminal_Replay.thy ===== *)
theory Terminal_Replay
  imports Terminal
begin

text \<open>
  What the replay buffer promises: its state as a function of the outputs published so far, the
  guarantee a subscriber has that replay and live events join without a gap or a repetition, the
  reader loop that loses no byte, and the sequencing of input.
\<close>

section \<open>The transcript tail\<close>

definition last_n :: "nat \<Rightarrow> 'a list \<Rightarrow> 'a list" where
  "last_n n xs = drop (length xs - n) xs"

lemma length_last_n: "length (last_n n xs) = min n (length xs)"
  by (simp add: last_n_def)

lemma append_transcript_tail_last_n:
  "append_transcript_tail (last_n n xs) ys n = last_n n (xs @ ys)"
proof (cases "n \<le> length ys")
  case True
  then show ?thesis by (simp add: append_transcript_tail_def last_n_def)
next
  case False
  then have "append_transcript_tail (last_n n xs) ys n = drop (length xs + length ys - n) xs @ ys"
    by (cases "n \<le> length xs") (auto simp: append_transcript_tail_def Let_def last_n_def ac_simps)
  also have "\<dots> = last_n n (xs @ ys)" using False by (simp add: last_n_def)
  finally show ?thesis .
qed

section \<open>The buffer as a function of the outputs\<close>

definition bytes_of :: "bytes list \<Rightarrow> nat" where
  "bytes_of outs = sum_list (map length outs)"

lemma bytes_of_simps [simp]:
  "bytes_of [] = 0" "bytes_of (x # xs) = length x + bytes_of xs"
  "bytes_of (xs @ ys) = bytes_of xs + bytes_of ys"
  by (simp_all add: bytes_of_def)

lemma bytes_of_drop_mono: "m \<le> n \<Longrightarrow> bytes_of (drop n xs) \<le> bytes_of (drop m xs)"
proof -
  assume "m \<le> n"
  then have "drop m xs = take (n - m) (drop m xs) @ drop n xs"
    by (metis append_take_drop_id drop_drop le_add_diff_inverse2)
  then show ?thesis by (metis bytes_of_simps(3) le_add2)
qed

text \<open>The chunks of a list of outputs, the first of them with the given number.\<close>

fun number_chunks :: "terminal_id \<Rightarrow> nat \<Rightarrow> bytes list \<Rightarrow> terminal_chunk list" where
  "number_chunks tid n [] = []"
| "number_chunks tid n (b # bs) =
     \<lparr>tch_terminal_id = tid, tch_sequence = of_nat n, tch_bytes = b\<rparr> # number_chunks tid (Suc n) bs"

lemma length_number_chunks [simp]: "length (number_chunks tid n bs) = length bs"
  by (induction bs arbitrary: n) simp_all

lemma number_chunks_append:
  "number_chunks tid n (bs @ cs) = number_chunks tid n bs @ number_chunks tid (n + length bs) cs"
  by (induction bs arbitrary: n) simp_all

lemma drop_number_chunks: "drop k (number_chunks tid n bs) = number_chunks tid (n + k) (drop k bs)"
proof (induction bs arbitrary: n k)
  case (Cons b bs)
  then show ?case by (cases k) simp_all
qed simp

lemma map_bytes_number_chunks [simp]: "map tch_bytes (number_chunks tid n bs) = bs"
  by (induction bs arbitrary: n) simp_all

lemma nth_number_chunks:
  "i < length bs \<Longrightarrow> number_chunks tid n bs ! i =
     \<lparr>tch_terminal_id = tid, tch_sequence = of_nat (n + i), tch_bytes = bs ! i\<rparr>"
  by (induction bs arbitrary: n i) (auto simp: nth_Cons split: nat.splits)

text \<open>
  What a buffer holds after the outputs \<open>outs\<close>, of which the first \<open>k\<close> chunks have been
  evicted: no more than needed to respect the limit, and never the last one.
\<close>

definition buffer_holds :: "replay_buffer \<Rightarrow> bytes list \<Rightarrow> nat \<Rightarrow> bool" where
  "buffer_holds b outs k \<longleftrightarrow>
     (let state = rb_state b in
      0 < rb_replay_bytes b \<and> 0 < rb_transcript_tail_bytes b
      \<and> rs_next_sequence state = of_nat (Suc (length outs))
      \<and> unat (rs_total_bytes state) = min (bytes_of outs) (2 ^ 64 - 1)
      \<and> k \<le> length outs \<and> (outs \<noteq> [] \<longrightarrow> k < length outs)
      \<and> rs_chunks state = drop k (number_chunks (rb_terminal_id b) 1 outs)
      \<and> rs_replay_size state = bytes_of (drop k outs)
      \<and> (rs_replay_size state \<le> rb_replay_bytes b \<or> Suc k = length outs)
      \<and> (0 < k \<longrightarrow> rb_replay_bytes b < bytes_of (drop (k - 1) outs))
      \<and> rs_transcript_tail state = last_n (rb_transcript_tail_bytes b) (concat outs))"

lemma new_buffer_holds: "buffer_holds (new_replay_buffer tid r t) [] 0"
  by (simp add: buffer_holds_def new_replay_buffer_def last_n_def Let_def max_def)

lemma evict_chunks_drop:
  "cs \<noteq> [] \<Longrightarrow> \<exists>k < length cs. evict_chunks limit cs (bytes_of (map tch_bytes cs))
       = (drop k cs, bytes_of (map tch_bytes (drop k cs)))
     \<and> (bytes_of (map tch_bytes (drop k cs)) \<le> limit \<or> Suc k = length cs)
     \<and> (0 < k \<longrightarrow> limit < bytes_of (map tch_bytes (drop (k - 1) cs)))"
proof (induction cs rule: induct_list012)
  case (3 c d cs)
  show ?case
  proof (cases "limit < bytes_of (map tch_bytes (c # d # cs))")
    case True
    from 3(2) obtain k where k: "k < length (d # cs)"
      "evict_chunks limit (d # cs) (bytes_of (map tch_bytes (d # cs)))
         = (drop k (d # cs), bytes_of (map tch_bytes (drop k (d # cs))))"
      "bytes_of (map tch_bytes (drop k (d # cs))) \<le> limit \<or> Suc k = length (d # cs)"
      "0 < k \<longrightarrow> limit < bytes_of (map tch_bytes (drop (k - 1) (d # cs)))" by auto
    with True show ?thesis by (intro exI [of _ "Suc k"]) (cases k, auto)
  qed (intro exI [of _ 0], auto)
qed auto

lemma unat_of_nat_saturating:
  assumes "unat (t :: u64) = min n (2 ^ 64 - 1)" and "m < 2 ^ 64"
  shows "unat (saturating_add t (of_nat m)) = min (n + m) (2 ^ 64 - 1)"
  using assms by (simp add: unat_saturating_add unat_of_nat take_bit_nat_eq_self)

lemma map_bytes_drop [simp]: "map tch_bytes (drop j (number_chunks tid n outs)) = drop j outs"
  by (simp add: drop_map [symmetric])

lemma evict_numbered:
  assumes "k < length outs"
  shows "\<exists>k'. k \<le> k' \<and> k' < length outs
    \<and> evict_chunks limit (drop k (number_chunks tid n outs)) (bytes_of (drop k outs))
        = (drop k' (number_chunks tid n outs), bytes_of (drop k' outs))
    \<and> (bytes_of (drop k' outs) \<le> limit \<or> Suc k' = length outs)
    \<and> (k < k' \<longrightarrow> limit < bytes_of (drop (k' - 1) outs))"
proof -
  have ne: "drop k (number_chunks tid n outs) \<noteq> []" using assms by simp
  from evict_chunks_drop [OF ne, of limit] obtain j where j: "j < length outs - k"
    "evict_chunks limit (drop k (number_chunks tid n outs)) (bytes_of (drop k outs))
        = (drop (j + k) (number_chunks tid n outs), bytes_of (drop (j + k) outs))"
    "bytes_of (drop (j + k) outs) \<le> limit \<or> Suc j = length outs - k"
    "0 < j \<longrightarrow> limit < bytes_of (drop (j - 1 + k) outs)"
    by (simp only: map_bytes_drop drop_drop length_drop length_number_chunks) blast
  then show ?thesis by (intro exI [of _ "j + k"]) auto
qed

lemma publish_output_holds:
  assumes b: "buffer_holds b outs k" and small: "length bytes < 2 ^ 64"
  shows "\<exists>k'. buffer_holds (fst (publish_output ts b bytes)) (outs @ [bytes]) k' \<and> k \<le> k'"
proof -
  let ?n = "number_chunks (rb_terminal_id b) 1 (outs @ [bytes])"
  note B = b [unfolded buffer_holds_def Let_def]
  have chunks: "rs_chunks (rb_state b) @ [\<lparr>tch_terminal_id = rb_terminal_id b,
      tch_sequence = rs_next_sequence (rb_state b), tch_bytes = bytes\<rparr>] = drop k ?n"
    and bsize: "rs_replay_size (rb_state b) + length bytes = bytes_of (drop k (outs @ [bytes]))"
    using B by (simp_all add: number_chunks_append)
  from B have "k < length (outs @ [bytes])" by simp
  from evict_numbered [OF this] obtain k' where k': "k \<le> k'" "k' < length (outs @ [bytes])"
    "evict_chunks (rb_replay_bytes b) (drop k ?n) (bytes_of (drop k (outs @ [bytes])))
        = (drop k' ?n, bytes_of (drop k' (outs @ [bytes])))"
    "bytes_of (drop k' (outs @ [bytes])) \<le> rb_replay_bytes b \<or> Suc k' = length (outs @ [bytes])"
    "k < k' \<longrightarrow> rb_replay_bytes b < bytes_of (drop (k' - 1) (outs @ [bytes]))" by blast
  have need: "rb_replay_bytes b < bytes_of (drop (k' - 1) (outs @ [bytes]))" if "0 < k'"
  proof (cases "k < k'")
    case False
    with k'(1) that B have "rb_replay_bytes b < bytes_of (drop (k' - 1) outs)" "k' - 1 \<le> length outs" by auto
    then show ?thesis by simp
  qed (use k'(5) in simp)
  have total: "unat (saturating_add (rs_total_bytes (rb_state b)) (of_nat (length bytes))) =
      min (bytes_of (outs @ [bytes])) (2 ^ 64 - 1)"
    using unat_of_nat_saturating [OF _ small] B by simp
  have tail: "append_transcript_tail (rs_transcript_tail (rb_state b)) bytes (rb_transcript_tail_bytes b)
      = last_n (rb_transcript_tail_bytes b) (concat (outs @ [bytes]))"
    using B by (simp add: append_transcript_tail_last_n)
  have "fst (publish_output ts b bytes) = b\<lparr>rb_state := (rb_state b)\<lparr>
      rs_next_sequence := rs_next_sequence (rb_state b) + 1,
      rs_total_bytes := saturating_add (rs_total_bytes (rb_state b)) (of_nat (length bytes)),
      rs_chunks := drop k' ?n, rs_replay_size := bytes_of (drop k' (outs @ [bytes])),
      rs_transcript_tail := last_n (rb_transcript_tail_bytes b) (concat (outs @ [bytes])),
      rs_subscribers := publish ts (rs_subscribers (rb_state b))\<rparr>\<rparr>"
    unfolding publish_output_def Let_def chunks bsize k'(3) tail by simp
  moreover have "buffer_holds \<dots> (outs @ [bytes]) k'"
    unfolding buffer_holds_def Let_def
    using B k' need total by (simp del: concat_append)
  ultimately show ?thesis using k'(1) by metis
qed

section \<open>Subscriptions\<close>

text \<open>What the buffer answers depends on the cursor and on how many chunks are gone.\<close>

lemma buffer_holdsD:
  assumes "buffer_holds b outs k"
  shows "rs_next_sequence (rb_state b) = of_nat (Suc (length outs))"
    and "rs_chunks (rb_state b) = drop k (number_chunks (rb_terminal_id b) 1 outs)"
    and "k \<le> length outs" and "outs \<noteq> [] \<Longrightarrow> k < length outs"
    and "rs_transcript_tail (rb_state b) = last_n (rb_transcript_tail_bytes b) (concat outs)"
    and "0 < k \<Longrightarrow> rb_replay_bytes b < bytes_of (drop (k - 1) outs)"
  using assms unfolding buffer_holds_def Let_def by blast+

lemma unat_small: "n < 2 ^ 64 \<Longrightarrow> unat (of_nat n :: u64) = n"
  by (simp add: unat_of_nat take_bit_nat_eq_self)

lemma earliest_sequence_eq:
  assumes "buffer_holds b outs k"
  shows "earliest_sequence (rb_state b) = of_nat (Suc k)"
proof (cases "outs = []")
  case True
  with buffer_holdsD(1-3) [OF assms] show ?thesis by (simp add: earliest_sequence_def)
next
  case False
  from buffer_holdsD(4) [OF assms False] have "drop k outs = outs ! k # drop (Suc k) outs"
    by (simp add: Cons_nth_drop_Suc)
  with buffer_holdsD(2) [OF assms] show ?thesis
    by (simp add: earliest_sequence_def drop_number_chunks)
qed

lemma filter_number_chunks:
  "n + length outs \<le> 2 ^ 64 \<Longrightarrow> filter (\<lambda>ch. c < tch_sequence ch) (number_chunks tid n outs)
     = drop (Suc (unat c) - n) (number_chunks tid n outs)"
proof (induction outs arbitrary: n)
  case (Cons x outs)
  then have "unat (of_nat n :: u64) = n" by (intro unat_small) simp
  then have lt: "c < of_nat n \<longleftrightarrow> unat c < n" by (simp add: word_less_nat_alt)
  from Cons have IH: "filter (\<lambda>ch. c < tch_sequence ch) (number_chunks tid (Suc n) outs)
     = drop (Suc (unat c) - Suc n) (number_chunks tid (Suc n) outs)" by simp
  show ?case
  proof (cases "unat c < n")
    case True
    with IH lt show ?thesis by simp
  next
    case False
    then have "Suc (unat c) - n = Suc (Suc (unat c) - Suc n)" by simp
    with IH lt False show ?thesis by simp
  qed
qed simp

lemma subscribe_replay:
  assumes b: "buffer_holds b outs k" and small: "length outs < 2 ^ 64 - 1"
  shows "tsu_replay (snd (subscribe i b c)) =
    (if unat c < k then SnapshotRequired (terminal_snapshot_of b)
     else Chunks (drop (unat c) (number_chunks (rb_terminal_id b) 1 outs)))"
proof -
  have k: "k \<le> length outs" by (rule buffer_holdsD(3) [OF b])
  have "unat (saturating_sub (earliest_sequence (rb_state b)) 1) = k"
    using k small unat_small [of "Suc k"]
    by (simp add: earliest_sequence_eq [OF b] unat_saturating_sub)
  then have lt: "c < saturating_sub (earliest_sequence (rb_state b)) 1 \<longleftrightarrow> unat c < k"
    by (simp add: word_less_nat_alt)
  have "filter (\<lambda>ch. c < tch_sequence ch) (rs_chunks (rb_state b)) =
      drop (unat c - k) (drop k (number_chunks (rb_terminal_id b) 1 outs))"
    unfolding buffer_holdsD(2) [OF b] drop_number_chunks
    using filter_number_chunks [of "1 + k" "drop k outs" c] small k
    by (simp add: drop_number_chunks)
  then show ?thesis
    by (auto simp: subscribe_def Let_def lt terminal_snapshot_of_def not_less)
qed

text \<open>A cursor whose bytes still fit in the replay limit is never answered with a snapshot.\<close>

lemma retained:
  assumes "buffer_holds b outs k" "bytes_of (drop c outs) \<le> rb_replay_bytes b"
  shows "k \<le> c"
proof (rule ccontr)
  assume "\<not> k \<le> c"
  then have "0 < k" "c \<le> k - 1" by auto
  from buffer_holdsD(6) [OF assms(1) this(1)] bytes_of_drop_mono [OF this(2), of outs] assms(2)
  show False by simp
qed

section \<open>Live events\<close>

text \<open>
  The calls on a buffer, each with what \<^verbatim>\<open>try_send\<close> answers for every sender. A run yields
  the events published, and the deliveries: who was sent which event.
\<close>

datatype buffer_call =
    CallOutput bytes
  | CallExit terminal_exit
  | CallFault string
  | CallSubscribe sender u64

definition buffer_step ::
    "replay_buffer \<Rightarrow> (sender \<Rightarrow> send_result) \<Rightarrow> buffer_call \<Rightarrow> replay_buffer \<times> terminal_event option" where
  "buffer_step b ts call = (case call of
       CallOutput bytes \<Rightarrow> publish_output ts b bytes
     | CallExit ex \<Rightarrow> publish_exit ts b ex
     | CallFault m \<Rightarrow> publish_fault ts b m
     | CallSubscribe i c \<Rightarrow> (fst (subscribe i b c), None))"

primrec buffer_run ::
    "replay_buffer \<Rightarrow> ((sender \<Rightarrow> send_result) \<times> buffer_call) list
      \<Rightarrow> terminal_event list \<times> (sender \<times> terminal_event) list \<times> replay_buffer" where
  "buffer_run b [] = ([], [], b)"
| "buffer_run b (x # xs) =
     (let (b', e) = buffer_step b (fst x) (snd x); (es, ds, b'') = buffer_run b' xs in
      (case e of None \<Rightarrow> (es, ds, b'')
       | Some e \<Rightarrow> (e # es, map (\<lambda>i. (i, e)) (rs_subscribers (rb_state b')) @ ds, b'')))"

definition received :: "sender \<Rightarrow> (sender \<times> terminal_event) list \<Rightarrow> terminal_event list" where
  "received i ds = map snd (filter (\<lambda>d. fst d = i) ds)"

definition no_resubscribe :: "sender \<Rightarrow> ((sender \<Rightarrow> send_result) \<times> buffer_call) list \<Rightarrow> bool" where
  "no_resubscribe i xs \<longleftrightarrow> (\<forall>x \<in> set xs. \<forall>c. snd x \<noteq> CallSubscribe i c)"

definition output_bytes :: "terminal_event list \<Rightarrow> bytes list" where
  "output_bytes es = List.map_filter (\<lambda>e. case e of Output c \<Rightarrow> Some (tch_bytes c) | _ \<Rightarrow> None) es"

text \<open>How often a sender is in the list of subscribers.\<close>

definition subscriptions :: "sender \<Rightarrow> replay_buffer \<Rightarrow> nat" where
  "subscriptions i b = count_list (rs_subscribers (rb_state b)) i"

lemma subscriptions_publish:
  "count_list (publish ts subs) i = (if ts i = Sent then count_list subs i else 0)"
  by (induction subs) (auto simp: publish_def split: send_result.splits)

lemma received_step: "received i (map (\<lambda>j. (j, e)) subs) = replicate (count_list subs i) e"
  by (induction subs) (auto simp: received_def)

lemma received_append: "received i (ds @ ds') = received i ds @ received i ds'"
  by (simp add: received_def)

text \<open>A step keeps a subscription or ends it; it only ends by missing an event.\<close>

lemma buffer_step_subscriptions:
  assumes "\<And>c. call \<noteq> CallSubscribe i c" and "buffer_step b ts call = (b', e)"
  shows "subscriptions i b' = subscriptions i b \<or> subscriptions i b' = 0 \<and> e \<noteq> None"
  using assms(2) assms(1) [THEN notE]
  by (cases call; cases "ts i = Sent")
    (auto simp: subscriptions_def buffer_step_def publish_output_def publish_exit_def publish_fault_def
      subscribe_def Let_def subscriptions_publish split: prod.splits if_splits)

lemma not_subscribed:
  "subscriptions i b = 0 \<Longrightarrow> no_resubscribe i xs \<Longrightarrow> buffer_run b xs = (es, ds, b') \<Longrightarrow>
     received i ds = [] \<and> subscriptions i b' = 0"
proof (induction xs arbitrary: b es ds)
  case (Cons x xs)
  obtain b1 e where step: "buffer_step b (fst x) (snd x) = (b1, e)" by fastforce
  obtain es' ds' where rest: "buffer_run b1 xs = (es', ds', b')"
    using Cons.prems(3) step by (auto split: prod.splits option.splits)
  have "subscriptions i b1 = 0"
    using buffer_step_subscriptions [OF _ step, of i] Cons.prems(1,2) by (auto simp: no_resubscribe_def)
  moreover from Cons.IH [OF this _ rest] Cons.prems(2)
  have "received i ds' = [] \<and> subscriptions i b' = 0" by (simp add: no_resubscribe_def)
  ultimately show ?case using Cons.prems(3) step rest
    by (cases e) (auto simp: received_append received_step subscriptions_def)
qed (simp add: received_def)

lemma subscriber_prefix:
  "subscriptions i b = 1 \<Longrightarrow> no_resubscribe i xs \<Longrightarrow> buffer_run b xs = (es, ds, b') \<Longrightarrow>
     \<exists>m. received i ds = take m es \<and> (subscriptions i b' = 0 \<or> received i ds = es \<and> subscriptions i b' = 1)"
proof (induction xs arbitrary: b es ds)
  case (Cons x xs)
  obtain b1 e where step: "buffer_step b (fst x) (snd x) = (b1, e)" by fastforce
  obtain es' ds' where rest: "buffer_run b1 xs = (es', ds', b')"
    using Cons.prems(3) step by (auto split: prod.splits option.splits)
  have nores: "no_resubscribe i xs" using Cons.prems(2) by (simp add: no_resubscribe_def)
  from buffer_step_subscriptions [OF _ step, of i] Cons.prems(1,2)
  consider "subscriptions i b1 = 1" | "subscriptions i b1 = 0" "e \<noteq> None"
    by (auto simp: no_resubscribe_def)
  then show ?case
  proof cases
    case 1
    from Cons.IH [OF this nores rest] obtain m where m: "received i ds' = take m es'"
      "subscriptions i b' = 0 \<or> received i ds' = es' \<and> subscriptions i b' = 1" by blast
    show ?thesis
    proof (cases e)
      case None
      with m Cons.prems(3) step rest show ?thesis by auto
    next
      case (Some v)
      with m 1 Cons.prems(3) step rest show ?thesis
        by (intro exI [of _ "Suc m"]) (auto simp: received_append received_step subscriptions_def)
    qed
  next
    case 2
    with not_subscribed [OF 2(1) nores rest] Cons.prems(3) step rest show ?thesis
      by (intro exI [of _ 0]) (auto simp: received_append received_step subscriptions_def)
  qed
qed (simp add: received_def)

text \<open>The outputs published are those of the calls, in order.\<close>

definition call_outputs :: "((sender \<Rightarrow> send_result) \<times> buffer_call) list \<Rightarrow> bytes list" where
  "call_outputs xs = List.map_filter (\<lambda>x. case snd x of CallOutput bs \<Rightarrow> Some bs | _ \<Rightarrow> None) xs"

lemma buffer_run_outputs: "buffer_run b xs = (es, ds, b') \<Longrightarrow> output_bytes es = call_outputs xs"
proof (induction xs arbitrary: b es ds)
  case (Cons x xs)
  obtain b1 e where step: "buffer_step b (fst x) (snd x) = (b1, e)" by fastforce
  obtain es' ds' where rest: "buffer_run b1 xs = (es', ds', b')"
    using Cons.prems step by (auto split: prod.splits option.splits)
  from step Cons.prems Cons.IH [OF rest] rest show ?case
    by (cases "snd x")
      (auto simp: output_bytes_def call_outputs_def map_filter_simps buffer_step_def publish_output_def
        publish_exit_def publish_fault_def Let_def split: prod.splits if_splits option.splits)
qed (simp add: output_bytes_def call_outputs_def map_filter_simps)

lemma output_bytes_take: "\<exists>n. output_bytes (take m es) = take n (output_bytes es)"
proof -
  have "output_bytes es = output_bytes (take m es) @ output_bytes (drop m es)"
    unfolding output_bytes_def map_filter_def
    by (metis append_take_drop_id filter_append map_append)
  then show ?thesis by (metis append_eq_conv_conj)
qed

lemma buffer_step_holds:
  assumes "buffer_holds b outs k" and "buffer_step b ts call = (b', e)"
    and "\<And>bs. call = CallOutput bs \<Longrightarrow> length bs < 2 ^ 64"
  shows "\<exists>k'. buffer_holds b' (outs @ call_outputs [(ts, call)]) k' \<and> k \<le> k'"
proof (cases call)
  case (CallOutput bs)
  with publish_output_holds [OF assms(1) assms(3) [OF CallOutput], of ts] assms(2) show ?thesis
    by (simp add: buffer_step_def call_outputs_def map_filter_simps)
next
  case (CallExit ex)
  with assms(1,2) show ?thesis
    by (intro exI [of _ k])
      (auto simp: buffer_step_def publish_exit_def buffer_holds_def Let_def call_outputs_def map_filter_simps split: if_splits)
next
  case (CallFault m)
  with assms(1,2) show ?thesis
    by (intro exI [of _ k])
      (auto simp: buffer_step_def publish_fault_def buffer_holds_def Let_def call_outputs_def map_filter_simps)
next
  case (CallSubscribe i c)
  with assms(1,2) show ?thesis
    by (intro exI [of _ k])
      (auto simp: buffer_step_def subscribe_def buffer_holds_def Let_def call_outputs_def map_filter_simps)
qed

lemma call_outputs_Cons: "call_outputs (x # xs) = call_outputs [x] @ call_outputs xs"
  by (simp add: call_outputs_def map_filter_simps split: option.splits)

lemma buffer_run_holds:
  "buffer_holds b outs k \<Longrightarrow> buffer_run b xs = (es, ds, b') \<Longrightarrow>
     (\<And>bs. bs \<in> set (call_outputs xs) \<Longrightarrow> length bs < 2 ^ 64) \<Longrightarrow>
     \<exists>k'. buffer_holds b' (outs @ call_outputs xs) k' \<and> k \<le> k'"
proof (induction xs arbitrary: b outs k es ds)
  case Nil
  then show ?case by (auto simp: call_outputs_def map_filter_simps)
next
  case (Cons x xs)
  obtain b1 e where step: "buffer_step b (fst x) (snd x) = (b1, e)" by fastforce
  obtain es' ds' where rest: "buffer_run b1 xs = (es', ds', b')"
    using Cons.prems(2) step by (auto split: prod.splits option.splits)
  have outs: "call_outputs (x # xs) = call_outputs [x] @ call_outputs xs" by (rule call_outputs_Cons)
  have "length bs < 2 ^ 64" if "snd x = CallOutput bs" for bs
    using Cons.prems(3) [of bs] that by (simp add: outs) (simp add: call_outputs_def map_filter_simps)
  with buffer_step_holds [OF Cons.prems(1) step] obtain k1 where
    k1: "buffer_holds b1 (outs @ call_outputs [x]) k1" "k \<le> k1" by auto
  from Cons.IH [OF k1(1) rest] Cons.prems(3) outs obtain k2 where
    "buffer_holds b' ((outs @ call_outputs [x]) @ call_outputs xs) k2" "k1 \<le> k2" by auto
  with k1(2) outs show ?case by auto
qed

section \<open>The reader loop\<close>

text \<open>The bytes read before the stream ends, and the bytes published.\<close>

fun read_bytes :: "read_result list \<Rightarrow> bytes" where
  "read_bytes [] = []"
| "read_bytes (ReadBytes bs _ # reads) = bs @ read_bytes reads"
| "read_bytes (Interrupted # reads) = read_bytes reads"
| "read_bytes (_ # _) = []"

text \<open>A stream that ends, each read of which has at least a byte and fits in the buffer.\<close>

fun stream_ends :: "nat \<Rightarrow> read_result list \<Rightarrow> bool" where
  "stream_ends n [] = False"
| "stream_ends n (ReadBytes bs pending # reads) =
     (bs \<noteq> [] \<and> n + length bs \<le> READER_CHUNK_BYTES
      \<and> stream_ends (if n + length bs < READER_CHUNK_BYTES \<and> pending then n + length bs else 0) reads)"
| "stream_ends n (Interrupted # reads) = stream_ends n reads"
| "stream_ends n (_ # _) = True"

definition published_outputs :: "publication list \<Rightarrow> bytes list" where
  "published_outputs ps = List.map_filter (\<lambda>p. case p of PublishOutput bs \<Rightarrow> Some bs | _ \<Rightarrow> None) ps"

lemma published_outputs_simps [simp]:
  "published_outputs [] = []"
  "published_outputs (PublishOutput bs # ps) = bs # published_outputs ps"
  "published_outputs (PublishFault m # ps) = published_outputs ps"
  "published_outputs (ps @ qs) = published_outputs ps @ published_outputs qs"
  by (simp_all add: published_outputs_def map_filter_simps) (simp add: map_filter_def)

lemma reader_loop_outputs:
  "stream_ends (length buffered) reads \<Longrightarrow>
     concat (published_outputs (reader_loop buffered reads)) = buffered @ read_bytes reads"
  by (induction buffered reads rule: reader_loop.induct)
    (auto simp: flush_buffer_def Let_def split: if_splits)

lemma reader_loop_bounded:
  "stream_ends (length buffered) reads \<Longrightarrow> length buffered < READER_CHUNK_BYTES \<Longrightarrow>
     bs \<in> set (published_outputs (reader_loop buffered reads)) \<Longrightarrow>
     0 < length bs \<and> length bs \<le> READER_CHUNK_BYTES"
proof (induction buffered reads rule: reader_loop.induct)
  case (3 buffered bs' pending reads)
  have pos: "0 < READER_CHUNK_BYTES" by (simp add: READER_CHUNK_BYTES_def)
  show ?case
  proof (cases "length (buffered @ bs') = READER_CHUNK_BYTES
      \<or> \<not> (length (buffered @ bs') < READER_CHUNK_BYTES \<and> pending)")
    case True
    with 3(3) have "stream_ends (length ([] :: bytes)) reads" by auto
    with 3(1) [OF refl refl True] 3(3,5) True pos show ?thesis by (auto simp: Let_def)
  next
    case False
    with 3(2) [OF refl refl False] 3(3,5) show ?thesis by (auto simp: Let_def)
  qed
qed (auto simp: flush_buffer_def split: if_splits)

section \<open>Input\<close>

text \<open>A run of writes; a refused one leaves the session as it is. The accepted numbers.\<close>

primrec input_run ::
    "terminal_session \<Rightarrow> ((pty_error + unit) \<times> u64 \<times> bytes) list \<Rightarrow> u64 list \<times> terminal_session" where
  "input_run s [] = ([], s)"
| "input_run s (x # xs) = (case x of (written, n, bytes) \<Rightarrow>
     (case write_input written s n bytes of
        Inl _ \<Rightarrow> input_run s xs
      | Inr s' \<Rightarrow> (let (ns, s'') = input_run s' xs in (n # ns, s''))))"

lemma write_input_Inr_iff:
  "write_input written s n bytes = Inr s' \<longleftrightarrow> length bytes \<le> READER_CHUNK_BYTES
     \<and> tss_last_input_sequence s < n \<and> written = Inr () \<and> s' = s\<lparr>tss_last_input_sequence := n\<rparr>"
  by (auto simp: write_input_def result_simps if_Inl_Inr_iff not_less not_le)

lemma input_run_increasing:
  "input_run s xs = (ns, s') \<Longrightarrow> sorted_wrt (<) (tss_last_input_sequence s # ns)
     \<and> tss_last_input_sequence s' = last (tss_last_input_sequence s # ns)"
proof (induction xs arbitrary: s ns)
  case (Cons x xs)
  obtain written n bytes where x: "x = (written, n, bytes)" by (cases x)
  show ?case
  proof (cases "write_input written s n bytes")
    case (Inl e)
    with Cons x show ?thesis by simp
  next
    case (Inr s1)
    obtain ns' where rest: "input_run s1 xs = (ns', s')" "ns = n # ns'"
      using Cons.prems Inr x by (auto split: prod.splits)
    from Inr have "tss_last_input_sequence s < n" "tss_last_input_sequence s1 = n"
      by (auto simp: write_input_Inr_iff)
    with Cons.IH [OF rest(1)] rest(2) show ?thesis by (auto intro: order.strict_trans)
  qed
qed simp

section \<open>Concrete values\<close>

definition sent_all :: "sender \<Rightarrow> send_result" where
  "sent_all = (\<lambda>_. Sent)"

definition sample_outputs :: "((sender \<Rightarrow> send_result) \<times> buffer_call) list" where
  "sample_outputs = [(sent_all, CallOutput [1, 2]), (sent_all, CallOutput [3])]"

definition sample_buffer :: replay_buffer where
  "sample_buffer = \<lparr>rb_terminal_id = TerminalId 1, rb_replay_bytes = 2, rb_transcript_tail_bytes = 2,
     rb_state = \<lparr>rs_next_sequence = 3, rs_total_bytes = 3,
       rs_chunks = [\<lparr>tch_terminal_id = TerminalId 1, tch_sequence = 2, tch_bytes = [3]\<rparr>],
       rs_replay_size = 1, rs_transcript_tail = [2, 3], rs_subscribers = [], rs_exit = None\<rparr>\<rparr>"

lemmas buffer_defs = buffer_step_def publish_output_def publish_exit_def publish_fault_def subscribe_def
  new_replay_buffer_def append_transcript_tail_def publish_def earliest_sequence_def

lemma sample_buffer_run:
  "buffer_run (new_replay_buffer (TerminalId 1) 2 2) sample_outputs =
     ([Output \<lparr>tch_terminal_id = TerminalId 1, tch_sequence = 1, tch_bytes = [1, 2]\<rparr>,
       Output \<lparr>tch_terminal_id = TerminalId 1, tch_sequence = 2, tch_bytes = [3]\<rparr>], [], sample_buffer)"
  by (simp add: sample_outputs_def sent_all_def buffer_defs sample_buffer_def saturating_add_def Let_def)

lemma sample_call_outputs: "call_outputs sample_outputs = [[1, 2], [3]]"
  by (simp add: sample_outputs_def call_outputs_def map_filter_simps)

lemma sample_small:
  "\<forall>bs \<in> set (call_outputs sample_outputs). length bs < 2 ^ 64"
  "length (call_outputs sample_outputs) < 2 ^ 64 - 1"
  by (simp_all add: sample_call_outputs)

section \<open>Properties\<close>

text \<open>
  A snapshot is a function of what the terminal has written: after any sequence of
  outputs, exits, faults and subscriptions, its tail is the last bytes of the whole stream, as
  many as the limit allows, its byte count the stream's length (saturated), and its next
  sequence number one more than the number of outputs.
\<close>

lemma snapshot_is_tail_of_stream:
  assumes "buffer_run (new_replay_buffer tid r t) xs = (es, ds, b)"
    and "\<forall>bs \<in> set (call_outputs xs). length bs < 2 ^ 64"
  shows "tsn_tail (terminal_snapshot_of b) = last_n (rb_transcript_tail_bytes b) (concat (call_outputs xs))
    \<and> unat (tsn_total_bytes (terminal_snapshot_of b)) = min (bytes_of (call_outputs xs)) (2 ^ 64 - 1)
    \<and> tsn_next_sequence (terminal_snapshot_of b) = of_nat (Suc (length (call_outputs xs)))"
  using buffer_run_holds [OF new_buffer_holds assms(1)] assms(2)
  by (auto simp: terminal_snapshot_of_def snapshot_from_state_def buffer_holds_def Let_def)

text \<open>
  A subscriber that comes with a cursor gets either exactly the outputs after it, or a
  snapshot because some of them are gone; it never gets a snapshot while the bytes after its
  cursor fit in the replay limit.
\<close>

lemma subscription_replays_from_cursor:
  assumes "buffer_run (new_replay_buffer tid r t) xs = (es, ds, b)"
    and "\<forall>bs \<in> set (call_outputs xs). length bs < 2 ^ 64"
    and "length (call_outputs xs) < 2 ^ 64 - 1"
  shows "case tsu_replay (snd (subscribe i b c)) of
      Chunks chs \<Rightarrow> map tch_bytes chs = drop (unat c) (call_outputs xs)
    | SnapshotRequired s \<Rightarrow> s = terminal_snapshot_of b
        \<and> rb_replay_bytes b < bytes_of (drop (unat c) (call_outputs xs))"
proof -
  from buffer_run_holds [OF new_buffer_holds assms(1)] assms(2)
  obtain k where k: "buffer_holds b (call_outputs xs) k" by auto
  from subscribe_replay [OF k assms(3), of i c] retained [OF k, of "unat c"] show ?thesis
    by (auto simp: not_le [symmetric])
qed

text \<open>
  C19. Replay and live events join without a gap or a repetition: what a subscriber has been
  given, the chunks of its replay and then the outputs delivered to it, is always a prefix of
  the outputs after its cursor; it is all of them as long as the subscriber was not dropped.
\<close>

theorem replay_then_live_is_gapless:
  assumes "buffer_run (new_replay_buffer tid r t) xs = (es, ds, b)"
    and "\<forall>bs \<in> set (call_outputs xs). length bs < 2 ^ 64"
    and "length (call_outputs xs) < 2 ^ 64 - 1" and "unat c \<le> length (call_outputs xs)"
    and "rs_exit (rb_state b) = None" and "i \<notin> set (rs_subscribers (rb_state b))"
    and "subscribe i b c = (b1, sub)" and "tsu_replay sub = Chunks chs"
    and "buffer_run b1 ys = (es', ds', b')" and "no_resubscribe i ys"
  shows "\<exists>m. map tch_bytes chs @ output_bytes (received i ds')
        = take m (drop (unat c) (call_outputs xs @ call_outputs ys))
    \<and> (i \<in> set (rs_subscribers (rb_state b')) \<longrightarrow>
         map tch_bytes chs @ output_bytes (received i ds') = drop (unat c) (call_outputs xs @ call_outputs ys))"
proof -
  from buffer_run_holds [OF new_buffer_holds assms(1)] assms(2)
  obtain k where k: "buffer_holds b (call_outputs xs) k" by auto
  from subscribe_replay [OF k assms(3), of i c] assms(7,8)
  have chs: "map tch_bytes chs = drop (unat c) (call_outputs xs)" by (auto split: if_splits)
  from assms(5-7) have "subscriptions i b1 = 1"
    by (auto simp: subscribe_def Let_def subscriptions_def count_list_0_iff)
  from subscriber_prefix [OF this assms(10,9)] obtain m where m: "received i ds' = take m es'"
    "subscriptions i b' = 0 \<or> received i ds' = es'" by blast
  from output_bytes_take [of m es'] buffer_run_outputs [OF assms(9)]
  obtain n where n: "output_bytes (received i ds') = take n (call_outputs ys)" unfolding m(1) by auto
  have "map tch_bytes chs @ take n (call_outputs ys) =
      take (length (call_outputs xs) - unat c + n) (drop (unat c) (call_outputs xs @ call_outputs ys))"
    using assms(4) by (simp add: chs)
  moreover have "i \<in> set (rs_subscribers (rb_state b')) \<Longrightarrow> output_bytes (received i ds') = call_outputs ys"
    using m(2) buffer_run_outputs [OF assms(9)] by (auto simp: subscriptions_def count_list_0_iff)
  ultimately have "map tch_bytes chs @ output_bytes (received i ds')
      = take (length (call_outputs xs) - unat c + n) (drop (unat c) (call_outputs xs @ call_outputs ys))"
    "i \<in> set (rs_subscribers (rb_state b')) \<Longrightarrow>
       map tch_bytes chs @ output_bytes (received i ds') = drop (unat c) (call_outputs xs @ call_outputs ys)"
    using n chs assms(4) by simp_all
  then show ?thesis by blast
qed

lemma sample_subscribed:
  "subscribe 9 sample_buffer 1 = (sample_buffer\<lparr>rb_state := (rb_state sample_buffer)\<lparr>rs_subscribers := [9]\<rparr>\<rparr>,
     \<lparr>tsu_replay = Chunks [\<lparr>tch_terminal_id = TerminalId 1, tch_sequence = 2, tch_bytes = [3]\<rparr>],
      tsu_receiver = 9, tsu_exit = None\<rparr>)"
  by (simp add: subscribe_def sample_buffer_def earliest_sequence_def saturating_sub_def word_le_nat_alt
      word_less_nat_alt Let_def)

theorem replay_then_live_is_gapless_witness:
  "\<exists>ds. [[3]] @ output_bytes (received 9 ds) = drop 1 ([[1, 2], [3]] @ [[4]])"
proof -
  obtain es' ds' b' where run: "buffer_run (sample_buffer\<lparr>rb_state := (rb_state sample_buffer)\<lparr>rs_subscribers := [9]\<rparr>\<rparr>)
      [(sent_all, CallOutput [4])] = (es', ds', b')" by (metis prod_cases3)
  then have "9 \<in> set (rs_subscribers (rb_state b'))"
    by (auto simp: buffer_defs sample_buffer_def sent_all_def Let_def)
  moreover have "unat (1 :: u64) \<le> length (call_outputs sample_outputs)" "rs_exit (rb_state sample_buffer) = None"
    "9 \<notin> set (rs_subscribers (rb_state sample_buffer))"
    "no_resubscribe 9 [(sent_all, CallOutput [4])]"
    by (simp_all add: sample_call_outputs sample_buffer_def no_resubscribe_def)
  moreover have "call_outputs [(sent_all, CallOutput [4])] = [[4]]"
    by (simp add: call_outputs_def map_filter_simps)
  ultimately show ?thesis
    using replay_then_live_is_gapless [OF sample_buffer_run sample_small _ _ _ sample_subscribed _ run]
    by (auto simp: sample_call_outputs)
qed

text \<open>
  The reader thread loses, repeats and reorders nothing: whatever the reads and the polls
  between them answer, the chunks it publishes are together exactly the bytes read until end of
  file or an error, and each of them has at least one byte and at most the reader's chunk size.
\<close>

lemma reader_publishes_every_byte:
  assumes "stream_ends 0 reads"
  shows "concat (published_outputs (reader_loop [] reads)) = read_bytes reads
    \<and> (\<forall>bs \<in> set (published_outputs (reader_loop [] reads)).
         0 < length bs \<and> length bs \<le> READER_CHUNK_BYTES)"
  using reader_loop_outputs [of "[]" reads] reader_loop_bounded [of "[]" reads] assms
  by (simp add: READER_CHUNK_BYTES_def)

text \<open>
  Input is accepted in order and never twice: over any sequence of writes, accepted,
  refused or failed, the sequence numbers of the accepted ones increase strictly from the
  session's, which ends as the last of them.
\<close>

lemma input_accepted_in_order:
  assumes "input_run s xs = (ns, s')"
  shows "sorted_wrt (<) (tss_last_input_sequence s # ns)
    \<and> tss_last_input_sequence s' = last (tss_last_input_sequence s # ns)"
  by (rule input_run_increasing [OF assms])

end
