(* ===== verification/Canonical_Json.thy ===== *)
theory Canonical_Json
  imports Std_Model "HOL-Library.Multiset"
begin

text \<open>
  JSON values and the canonical encoding of \<^verbatim>\<open>hyper-term-protocol/src/mcp.rs\<close> under which the
  arguments of a brokered tool call are digested and compared.
\<close>

text \<open>
  \<^verbatim>\<open>serde_json::Value\<close>. A number is one of the three forms the library keeps; an object is
  the list of its entries in the order the map iterates, with distinct keys.
\<close>

datatype json_number = PosInt u64 | NegInt (* i64 *) "64 word" | Float (* bits *) u64

datatype json =
    JNull
  | JBool bool
  | JNumber json_number
  | JString string
  | JArray "json list"
  | JObject "(string \<times> json) list"

fun canonical_mcp_json_value :: "json \<Rightarrow> json" where
  "canonical_mcp_json_value (JArray items) = JArray (map canonical_mcp_json_value items)"
| "canonical_mcp_json_value (JObject entries) =
     JObject (sort_key (\<lambda>e. map (of_char :: char \<Rightarrow> nat) (fst e))
       (map (\<lambda>(key, v). (key, canonical_mcp_json_value v)) entries))"
| "canonical_mcp_json_value scalar = scalar"

text \<open>Equality of JSON values up to the order of the entries of objects, at any depth.\<close>

inductive same_json :: "json \<Rightarrow> json \<Rightarrow> bool" where
  same_scalar: "same_json v v"
| same_array: "list_all2 same_json xs ys \<Longrightarrow> same_json (JArray xs) (JArray ys)"
| same_object: "\<lbrakk>list_all2 (rel_prod (=) same_json) xs zs; mset zs = mset ys\<rbrakk>
    \<Longrightarrow> same_json (JObject xs) (JObject ys)"
monos list.rel_mono prod.rel_mono

fun json_wf :: "json \<Rightarrow> bool" where
  "json_wf (JArray items) = (\<forall>v \<in> set items. json_wf v)"
| "json_wf (JObject entries) =
     (distinct (map fst entries) \<and> (\<forall>e \<in> set entries. json_wf (snd e)))"
| "json_wf _ = True"

abbreviation entry_key :: "string \<times> json \<Rightarrow> nat list" where
  "entry_key e \<equiv> map (of_char :: char \<Rightarrow> nat) (fst e)"

abbreviation canonical_entry :: "string \<times> json \<Rightarrow> string \<times> json" where
  "canonical_entry \<equiv> \<lambda>(key, v). (key, canonical_mcp_json_value v)"

lemma entry_key_inj: "distinct (map fst es) \<Longrightarrow> inj_on entry_key (set es)"
  by (auto simp: inj_on_def distinct_map dest: map_injective [rotated] intro: prod_eqI)

lemma canonical_same:
  "same_json v w \<Longrightarrow> json_wf v \<Longrightarrow> canonical_mcp_json_value v = canonical_mcp_json_value w"
proof (induction rule: same_json.induct)
  case (same_array xs ys)
  then have "list_all2 (\<lambda>x y. canonical_mcp_json_value x = canonical_mcp_json_value y) xs ys"
    by (auto simp: list_all2_conv_all_nth)
  then show ?case
    by (simp add: list_all2_conv_all_nth list_eq_iff_nth_eq)
next
  case (same_object xs zs ys)
  have wf: "distinct (map fst xs)" "\<forall>e \<in> set xs. json_wf (snd e)"
    using same_object.prems by auto
  have zip: "length xs = length zs" "\<forall>i < length xs. fst (xs ! i) = fst (zs ! i)
      \<and> (json_wf (snd (xs ! i)) \<longrightarrow> canonical_mcp_json_value (snd (xs ! i)) = canonical_mcp_json_value (snd (zs ! i)))"
    using same_object.IH by (auto simp: list_all2_conv_all_nth rel_prod_sel)
  have keys: "map fst xs = map fst zs"
    using zip by (auto simp: list_eq_iff_nth_eq)
  have "map canonical_entry xs = map canonical_entry zs"
    using zip wf(2) by (auto simp: list_eq_iff_nth_eq case_prod_beta)
  moreover have "mset (map canonical_entry zs) = mset (map canonical_entry ys)"
    using same_object.hyps by simp
  moreover have "distinct (map fst (map canonical_entry zs))"
    using wf(1) keys by (simp add: case_prod_beta comp_def)
  ultimately show ?case
    using sort_key_eq_sort_key [OF _ entry_key_inj] by simp
qed simp

lemma canonical_wf: "json_wf v \<Longrightarrow> json_wf (canonical_mcp_json_value v)"
proof (induction v rule: canonical_mcp_json_value.induct)
  case (2 entries)
  have "mset (map fst (sort_key entry_key (map canonical_entry entries))) = mset (map fst entries)"
    by (simp only: mset_map mset_sort) (simp add: multiset.map_comp comp_def case_prod_beta)
  then have "distinct (map fst (sort_key entry_key (map canonical_entry entries)))"
    using 2 by (metis json_wf.simps(2) mset_eq_imp_distinct_iff)
  moreover have "\<forall>e \<in> set (map canonical_entry entries). json_wf (snd e)"
    using 2 by auto
  ultimately show ?case by simp
qed auto

lemma canonical_is_same: "same_json v (canonical_mcp_json_value v)"
proof (induction v rule: canonical_mcp_json_value.induct)
  case (1 items)
  then show ?case
    by (auto intro!: same_array simp: list_all2_conv_all_nth)
next
  case (2 entries)
  then have "list_all2 (rel_prod (=) same_json) entries (map canonical_entry entries)"
    by (auto simp: list_all2_conv_all_nth rel_prod_sel case_prod_beta)
      (metis nth_mem prod.collapse)
  then show ?case by (auto intro: same_object)
qed (auto intro: same_scalar)

section \<open>Properties\<close>

text \<open>
  The canonical form of JSON arguments does not depend on the order in which a parser or an
  adapter kept the entries of any object, at any depth; it holds the same entries, and it is a
  fixed point, so a digest over it identifies the arguments and not their spelling.
\<close>

lemma canonical_json_ignores_order:
  assumes "json_wf v" and "same_json v w"
  shows "canonical_mcp_json_value v = canonical_mcp_json_value w
    \<and> same_json v (canonical_mcp_json_value v)
    \<and> canonical_mcp_json_value (canonical_mcp_json_value v) = canonical_mcp_json_value v"
  using canonical_same [OF assms(2,1)] canonical_is_same [of v]
    canonical_same [OF canonical_is_same assms(1)] by metis

end
