(* ===== verification/Wire.thy ===== *)
theory Wire
  imports Block Journal Terminal_Replay Canonical_Json
begin

text \<open>
  The local control protocol of \<^verbatim>\<open>hyper-term-protocol/src/wire.rs\<close>: control requests and
  responses, the terminal frames, the frame header, and the two functions that write a frame to
  a stream and read one back. serde's encoding of a
  control message is the parameter \<open>wire_codec\<close>. A reader is the list of the bytes that will
  arrive before the end of the stream.
\<close>

section \<open>Messages\<close>

record gen_ui_compile_diagnostic =
  gcd_severity :: string
  gcd_text :: string
  gcd_file :: "string option"
  gcd_line :: "u64 option"
  gcd_column :: "u64 option"

record gen_ui_artifact_candidate =
  gac_schema_version :: u16
  gac_source_revision :: u64
  gac_entrypoint :: string
  gac_source_files :: "(string, string) btree"
  gac_bundle :: string
  gac_css :: string
  gac_source_map :: string
  gac_content_digest :: string
  gac_compiler :: gen_ui_compiler_identity
  gac_diagnostics :: "gen_ui_compile_diagnostic list"

record brokered_mcp_tool_execution =
  bme_text :: string
  bme_structured_content :: "json option"
  bme_is_error :: bool
  bme_outcome :: operation_outcome

datatype control_request =
    Hello client_id (* protocol_version *) u16
  | CreateTask (* title *) string
  | ProposeOperation task_id operation_kind operation_action (* summary *) string risk_class
      (* required_capabilities *) "string list"
  | ProposeBrokeredMcpTool task_id (* tool_name *) string (* arguments *) json
  | RunAuthorizedBrokeredMcpTool task_id operation_id (* expected_revision *) u64
      (* tool_name *) string (* proposal_digest *) string (* arguments *) json
  | DecidePermission task_id operation_id (* expected_revision *) u64 approval_detail_digest
      permission_decision
  | BeginOperation task_id operation_id (* expected_revision *) u64
  | ExecuteBrokeredMcpTool task_id operation_id (* expected_revision *) u64
      (* tool_name *) string (* proposal_digest *) string (* arguments *) json
  | CompleteOperation task_id operation_id (* expected_revision *) u64 operation_completion
  | AcceptGenUiArtifact task_id operation_id (* expected_revision *) u64 gen_ui_artifact_candidate
  | DispatchTerminal task_id operation_id (* expected_revision *) u64 terminal_size
  | OpenUserShell (* cwd *) "string option" terminal_size
  | SubscribeTerminal terminal_id (* after_sequence *) u64
  | ResizeTerminal terminal_id (* generation *) u64 terminal_size
  | CloseTerminal terminal_id
  | AcquireInputLease terminal_id client_id
  | ReleaseInputLease terminal_id input_lease_id
  | GetBlockSnapshot task_id

record control_request_envelope =
  cre_request_id :: request_id
  cre_request :: control_request

datatype control_response =
    Welcome (* protocol_version *) u16 (* daemon_instance *) uuid
  | TaskCreated task_id
  | OperationUpdated operation_id (* revision *) u64 operation_state
  | GenUiArtifactAccepted accepted_gen_ui_artifact
  | BrokeredMcpToolExecuted brokered_mcp_tool_execution
  | TerminalCreated terminal_id
  | TerminalSubscribed terminal_id (* after_sequence *) u64
  | InputLeaseGranted terminal_id input_lease_id (* generation *) u64
  | TerminalExited terminal_id (* exit_code *) "u32 option"
  | Event event_envelope
  | BlockSnapshot block_document
  | BlockPatch block_patch
  | Ack
  | Error (* code *) string (* message *) string

record control_response_envelope =
  cpe_request_id :: "request_id option"
  cpe_response :: control_response

record terminal_data_frame =
  tdf_terminal_id :: terminal_id
  tdf_sequence :: u64
  tdf_bytes :: bytes

record terminal_input_frame =
  tif_terminal_id :: terminal_id
  tif_lease_id :: input_lease_id
  tif_sequence :: u64
  tif_bytes :: bytes

record terminal_snapshot_frame =
  tsf_terminal_id :: terminal_id
  tsf_base_sequence :: u64
  tsf_next_sequence :: u64
  tsf_total_bytes :: u64
  tsf_bytes :: bytes

datatype wire_frame =
    Request control_request_envelope
  | Response control_response_envelope
  | TerminalInput terminal_input_frame
  | TerminalOutput terminal_data_frame
  | TerminalSnapshot terminal_snapshot_frame

datatype wire_error =
    WireIo io_error
  | InvalidMagic
  | UnsupportedVersion u16
  | UnknownFrameKind u8
  | FrameTooLarge (* actual *) nat (* maximum *) nat
  | TruncatedTerminalFrame
  | WireJson json_error
  | InvalidControlShape string

text \<open>The message serde tags with its direction, and serde's two functions on it.\<close>

datatype control_wire =
    RequestWire control_request_envelope
  | ResponseWire control_response_envelope

record wire_codec =
  control_to_vec :: "control_wire \<Rightarrow> json_error + bytes"
  control_from_slice :: "bytes \<Rightarrow> json_error + control_wire"

section \<open>Byte order\<close>

text \<open>\<^verbatim>\<open>to_be_bytes\<close> and \<^verbatim>\<open>from_be_bytes\<close> on \<open>n\<close> bytes.\<close>

primrec be_bytes :: "nat \<Rightarrow> nat \<Rightarrow> bytes" where
  "be_bytes 0 x = []"
| "be_bytes (Suc n) x = be_bytes n (x div 256) @ [of_nat (x mod 256)]"

definition be_value :: "bytes \<Rightarrow> nat" where
  "be_value bs = foldl (\<lambda>acc b. acc * 256 + unat b) 0 bs"

definition u16_be :: "u16 \<Rightarrow> bytes" where "u16_be w = be_bytes 2 (unat w)"

definition u32_be :: "u32 \<Rightarrow> bytes" where "u32_be w = be_bytes 4 (unat w)"

definition u64_be :: "u64 \<Rightarrow> bytes" where "u64_be w = be_bytes 8 (unat w)"

definition uuid_bytes :: "uuid \<Rightarrow> bytes" where "uuid_bytes w = be_bytes 16 (unat w)"

text \<open>The bytes from \<open>i\<close> to \<open>i + n\<close>.\<close>

definition slice :: "nat \<Rightarrow> nat \<Rightarrow> bytes \<Rightarrow> bytes" where
  "slice i n bs = take n (drop i bs)"

lemma be_bytes_length [simp]: "length (be_bytes n x) = n"
  by (induction n arbitrary: x) auto

lemma be_value_snoc [simp]: "be_value (bs @ [b]) = be_value bs * 256 + unat b"
  by (simp add: be_value_def)

lemma be_value_Nil [simp]: "be_value [] = 0"
  by (simp add: be_value_def)

lemma be_value_bytes: "be_value (be_bytes n x) = x mod 256 ^ n"
proof (induction n arbitrary: x)
  case (Suc n)
  have "unat (of_nat (x mod 256) :: u8) = x mod 256"
    by (simp add: unat_of_nat)
  then show ?case
    using Suc by (simp add: mod_mult2_eq mult.commute add.commute)
qed simp

lemma be_value_less: "be_value bs < 256 ^ length bs"
proof (induction bs rule: rev_induct)
  case (snoc b bs)
  have "unat b < 256" using unsigned_less [of b] by simp
  with snoc show ?case by simp
qed simp

lemma be_bytes_value: "be_bytes (length bs) (be_value bs) = bs"
proof (induction bs rule: rev_induct)
  case (snoc b bs)
  have "unat b < 256" using unsigned_less [of b] by simp
  then have "(be_value bs * 256 + unat b) div 256 = be_value bs"
    and "(be_value bs * 256 + unat b) mod 256 = unat b" by simp_all
  with snoc show ?case by simp
qed simp

lemma unat_less: "unat (w :: 'a::len word) < 2 ^ LENGTH('a)"
  by (rule unsigned_less)

named_theorems be_words

lemma of_be_u16 [be_words]: "of_nat (be_value (u16_be w)) = w"
  using unat_less [of w] by (simp add: u16_be_def be_value_bytes)

lemma of_be_u32 [be_words]: "be_value (u32_be w) = unat w"
  using unat_less [of w] by (simp add: u32_be_def be_value_bytes)

lemma of_be_u64 [be_words]: "of_nat (be_value (u64_be w)) = w"
  using unat_less [of w] by (simp add: u64_be_def be_value_bytes)

lemma of_be_uuid [be_words]: "of_nat (be_value (uuid_bytes w)) = w"
  using unat_less [of w] by (simp add: uuid_bytes_def be_value_bytes)

lemma word_be_lengths [simp]:
  "length (u16_be w) = 2" "length (u32_be x) = 4" "length (u64_be y) = 8" "length (uuid_bytes z) = 16"
  by (simp_all add: u16_be_def u32_be_def u64_be_def uuid_bytes_def)

lemma be_u16_of: "length bs = 2 \<Longrightarrow> u16_be (of_nat (be_value bs)) = bs"
  using be_value_less [of bs] be_bytes_value [of bs] by (simp add: u16_be_def unat_of_nat)

lemma be_u32_of: "length bs = 4 \<Longrightarrow> u32_be (of_nat (be_value bs)) = bs"
  using be_value_less [of bs] be_bytes_value [of bs] by (simp add: u32_be_def unat_of_nat)

lemma be_u64_of: "length bs = 8 \<Longrightarrow> u64_be (of_nat (be_value bs)) = bs"
  using be_value_less [of bs] be_bytes_value [of bs] by (simp add: u64_be_def unat_of_nat)

lemma be_uuid_of: "length bs = 16 \<Longrightarrow> uuid_bytes (of_nat (be_value bs)) = bs"
  using be_value_less [of bs] be_bytes_value [of bs] by (simp add: uuid_bytes_def unat_of_nat)

section \<open>Terminal payloads\<close>

definition encode_terminal_data :: "terminal_data_frame \<Rightarrow> bytes" where
  "encode_terminal_data f =
     uuid_bytes (terminal_uuid (tdf_terminal_id f)) @ u64_be (tdf_sequence f) @ tdf_bytes f"

definition encode_terminal_input :: "terminal_input_frame \<Rightarrow> bytes" where
  "encode_terminal_input f =
     uuid_bytes (terminal_uuid (tif_terminal_id f)) @ uuid_bytes (input_lease_uuid (tif_lease_id f))
       @ u64_be (tif_sequence f) @ tif_bytes f"

definition encode_terminal_snapshot :: "terminal_snapshot_frame \<Rightarrow> bytes" where
  "encode_terminal_snapshot f =
     uuid_bytes (terminal_uuid (tsf_terminal_id f)) @ u64_be (tsf_base_sequence f)
       @ u64_be (tsf_next_sequence f) @ u64_be (tsf_total_bytes f) @ tsf_bytes f"

text \<open>
  \<^verbatim>\<open>Uuid::from_slice\<close> fails on a slice that has not 16 bytes, which the callers never give it:
  the text of that error is never seen.
\<close>

definition uuid_from_slice :: "bytes \<Rightarrow> string + uuid" where
  "uuid_from_slice bs = (if length bs = 16 then Inr (of_nat (be_value bs)) else Inl ''invalid length'')"

definition frame_uuid :: "bytes \<Rightarrow> wire_error + uuid" where
  "frame_uuid bs = map_err InvalidControlShape (uuid_from_slice bs)"

definition decode_terminal_input :: "bytes \<Rightarrow> wire_error + terminal_input_frame" where
  "decode_terminal_input payload =
     (if length payload < 40 then Inl TruncatedTerminalFrame
      else and_then (frame_uuid (slice 0 16 payload)) (\<lambda>tid.
           and_then (frame_uuid (slice 16 16 payload)) (\<lambda>lease.
             Inr \<lparr>tif_terminal_id = TerminalId tid, tif_lease_id = InputLeaseId lease,
                  tif_sequence = of_nat (be_value (slice 32 8 payload)), tif_bytes = drop 40 payload\<rparr>)))"

definition decode_terminal_data :: "bytes \<Rightarrow> wire_error + terminal_data_frame" where
  "decode_terminal_data payload =
     (if length payload < 24 then Inl TruncatedTerminalFrame
      else and_then (frame_uuid (slice 0 16 payload)) (\<lambda>tid.
             Inr \<lparr>tdf_terminal_id = TerminalId tid,
                  tdf_sequence = of_nat (be_value (slice 16 8 payload)), tdf_bytes = drop 24 payload\<rparr>))"

definition decode_terminal_snapshot :: "bytes \<Rightarrow> wire_error + terminal_snapshot_frame" where
  "decode_terminal_snapshot payload =
     (if length payload < 40 then Inl TruncatedTerminalFrame
      else and_then (frame_uuid (slice 0 16 payload)) (\<lambda>tid.
             Inr \<lparr>tsf_terminal_id = TerminalId tid,
                  tsf_base_sequence = of_nat (be_value (slice 16 8 payload)),
                  tsf_next_sequence = of_nat (be_value (slice 24 8 payload)),
                  tsf_total_bytes = of_nat (be_value (slice 32 8 payload)),
                  tsf_bytes = drop 40 payload\<rparr>))"

section \<open>Frames\<close>

datatype frame_kind = ControlKind | TerminalInputKind | TerminalOutputKind | TerminalSnapshotKind

primrec frame_kind_code :: "frame_kind \<Rightarrow> u8" where
  "frame_kind_code ControlKind = 1"
| "frame_kind_code TerminalInputKind = 16"
| "frame_kind_code TerminalOutputKind = 17"
| "frame_kind_code TerminalSnapshotKind = 18"

definition frame_kind_of :: "u8 \<Rightarrow> wire_error + frame_kind" where
  "frame_kind_of v =
     (if v = 1 then Inr ControlKind
      else if v = 16 then Inr TerminalInputKind
      else if v = 17 then Inr TerminalOutputKind
      else if v = 18 then Inr TerminalSnapshotKind
      else Inl (UnknownFrameKind v))"

definition WIRE_MAGIC :: bytes where
  "WIRE_MAGIC = map of_char ''HTRM''"

definition WIRE_HEADER_LEN :: nat where
  "WIRE_HEADER_LEN = 12"

definition MAX_CONTROL_FRAME_BYTES :: nat where
  "MAX_CONTROL_FRAME_BYTES = 3 * 1024 * 1024"

definition MAX_TERMINAL_FRAME_BYTES :: nat where
  "MAX_TERMINAL_FRAME_BYTES = 256 * 1024"

definition maximum_of :: "frame_kind \<Rightarrow> nat" where
  "maximum_of kind = (if kind = ControlKind then MAX_CONTROL_FRAME_BYTES else MAX_TERMINAL_FRAME_BYTES)"

definition frame_payload :: "wire_codec \<Rightarrow> wire_frame \<Rightarrow> wire_error + (frame_kind \<times> bytes)" where
  "frame_payload W frame = (case frame of
       Request request \<Rightarrow>
         and_then (map_err WireJson (control_to_vec W (RequestWire request))) (\<lambda>bs. Inr (ControlKind, bs))
     | Response response \<Rightarrow>
         and_then (map_err WireJson (control_to_vec W (ResponseWire response))) (\<lambda>bs. Inr (ControlKind, bs))
     | TerminalInput f \<Rightarrow> Inr (TerminalInputKind, encode_terminal_input f)
     | TerminalOutput f \<Rightarrow> Inr (TerminalOutputKind, encode_terminal_data f)
     | TerminalSnapshot f \<Rightarrow> Inr (TerminalSnapshotKind, encode_terminal_snapshot f))"

definition frame_header :: "frame_kind \<Rightarrow> bytes \<Rightarrow> bytes" where
  "frame_header kind payload =
     WIRE_MAGIC @ u16_be PROTOCOL_VERSION @ [frame_kind_code kind, 0] @ u32_be (of_nat (length payload))"

text \<open>What is checked before anything is written.\<close>

definition frame_parts :: "wire_codec \<Rightarrow> wire_frame \<Rightarrow> wire_error + (bytes \<times> bytes)" where
  "frame_parts W frame =
     and_then (frame_payload W frame) (\<lambda>(kind, payload).
       if length payload > maximum_of kind
       then Inl (FrameTooLarge (length payload) (maximum_of kind))
       else Inr (frame_header kind payload, payload))"

text \<open>The outcomes of the writes and the flush; the result goes with the bytes the stream took.\<close>

record frame_io =
  fio_header :: write_result
  fio_payload :: write_result
  fio_flush :: "io_error option"

definition write_part :: "write_result \<Rightarrow> bytes \<Rightarrow> bytes \<Rightarrow> (wire_error + unit) \<times> bytes" where
  "write_part w data stream = (case w of
       WriteOk \<Rightarrow> (Inr (), stream @ data)
     | WriteFailed n e \<Rightarrow> (Inl (WireIo e), stream @ take n data))"

definition write_frame :: "wire_codec \<Rightarrow> frame_io \<Rightarrow> bytes \<Rightarrow> wire_frame \<Rightarrow> (wire_error + unit) \<times> bytes" where
  "write_frame W io stream frame = (case frame_parts W frame of
       Inl e \<Rightarrow> (Inl e, stream)
     | Inr (header, payload) \<Rightarrow>
         (case write_part (fio_header io) header stream of
            (Inl e, stream) \<Rightarrow> (Inl e, stream)
          | (Inr _, stream) \<Rightarrow>
         (case write_part (fio_payload io) payload stream of
            (Inl e, stream) \<Rightarrow> (Inl e, stream)
          | (Inr _, stream) \<Rightarrow>
         (case fio_flush io of
            Some e \<Rightarrow> (Inl (WireIo e), stream)
          | None \<Rightarrow> (Inr (), stream)))))"

definition read_exact :: "nat \<Rightarrow> bytes \<Rightarrow> (wire_error + bytes) \<times> bytes" where
  "read_exact n stream =
     (if n \<le> length stream then (Inr (take n stream), drop n stream)
      else (Inl (WireIo UnexpectedEof), []))"

definition check_header :: "bytes \<Rightarrow> wire_error + (frame_kind \<times> nat)" where
  "check_header header =
     (if take 4 header \<noteq> WIRE_MAGIC then Inl InvalidMagic
      else let version = of_nat (be_value (slice 4 2 header)) in
      if version \<noteq> PROTOCOL_VERSION then Inl (UnsupportedVersion version)
      else and_then (frame_kind_of (header ! 6)) (\<lambda>kind.
        let declared = be_value (slice 8 4 header) in
        if declared > maximum_of kind then Inl (FrameTooLarge declared (maximum_of kind))
        else Inr (kind, declared)))"

definition decode_payload :: "wire_codec \<Rightarrow> frame_kind \<Rightarrow> bytes \<Rightarrow> wire_error + wire_frame" where
  "decode_payload W kind payload = (case kind of
       ControlKind \<Rightarrow>
         and_then (map_err WireJson (control_from_slice W payload)) (\<lambda>c. case c of
             RequestWire r \<Rightarrow> Inr (Request r)
           | ResponseWire r \<Rightarrow> Inr (Response r))
     | TerminalInputKind \<Rightarrow> and_then (decode_terminal_input payload) (\<lambda>f. Inr (TerminalInput f))
     | TerminalOutputKind \<Rightarrow> and_then (decode_terminal_data payload) (\<lambda>f. Inr (TerminalOutput f))
     | TerminalSnapshotKind \<Rightarrow> and_then (decode_terminal_snapshot payload) (\<lambda>f. Inr (TerminalSnapshot f)))"

definition read_frame :: "wire_codec \<Rightarrow> bytes \<Rightarrow> (wire_error + wire_frame) \<times> bytes" where
  "read_frame W stream = (case read_exact WIRE_HEADER_LEN stream of
       (Inl e, stream) \<Rightarrow> (Inl e, stream)
     | (Inr header, stream) \<Rightarrow>
         (case check_header header of
            Inl e \<Rightarrow> (Inl e, stream)
          | Inr (kind, declared) \<Rightarrow>
              (case read_exact declared stream of
                 (Inl e, stream) \<Rightarrow> (Inl e, stream)
               | (Inr payload, stream) \<Rightarrow> (decode_payload W kind payload, stream))))"

section \<open>Round trips\<close>

lemma slice_append [simp]:
  "slice 0 n (a @ b) = (if n \<le> length a then take n a else a @ take (n - length a) b)"
  "length a \<le> i \<Longrightarrow> slice i n (a @ b) = slice (i - length a) n b"
  by (simp_all add: slice_def)

lemma slice_length: "i + n \<le> length bs \<Longrightarrow> length (slice i n bs) = n"
  by (simp add: slice_def)

lemma frame_uuid_16: "length bs = 16 \<Longrightarrow> frame_uuid bs = Inr (of_nat (be_value bs))"
  by (simp add: frame_uuid_def uuid_from_slice_def)

lemma terminal_id_uuid [simp]: "TerminalId (terminal_uuid t) = t"
  by (cases t) simp

lemma input_lease_id_uuid [simp]: "InputLeaseId (input_lease_uuid t) = t"
  by (cases t) simp

lemma decode_encode_data [simp]: "decode_terminal_data (encode_terminal_data f) = Inr f"
  by (simp add: decode_terminal_data_def encode_terminal_data_def frame_uuid_16 be_words)

lemma decode_encode_input [simp]: "decode_terminal_input (encode_terminal_input f) = Inr f"
  by (simp add: decode_terminal_input_def encode_terminal_input_def frame_uuid_16 be_words)

lemma decode_encode_snapshot [simp]: "decode_terminal_snapshot (encode_terminal_snapshot f) = Inr f"
  by (simp add: decode_terminal_snapshot_def encode_terminal_snapshot_def frame_uuid_16 be_words)

lemma encoded_lengths [simp]:
  "length (encode_terminal_data d) = 24 + length (tdf_bytes d)"
  "length (encode_terminal_input i) = 40 + length (tif_bytes i)"
  "length (encode_terminal_snapshot s) = 40 + length (tsf_bytes s)"
  by (simp_all add: encode_terminal_data_def encode_terminal_input_def encode_terminal_snapshot_def)

lemma frame_kind_of_code [simp]: "frame_kind_of (frame_kind_code k) = Inr k"
  by (cases k) (simp_all add: frame_kind_of_def)

lemma maximum_small: "maximum_of k < 2 ^ 32"
  by (simp add: maximum_of_def MAX_CONTROL_FRAME_BYTES_def MAX_TERMINAL_FRAME_BYTES_def)

lemma frame_header_length [simp]: "length (frame_header k p) = WIRE_HEADER_LEN"
  by (simp add: frame_header_def WIRE_MAGIC_def WIRE_HEADER_LEN_def)

lemma check_frame_header:
  assumes "length payload \<le> maximum_of k"
  shows "check_header (frame_header k payload) = Inr (k, length payload)"
proof -
  have "unat (of_nat (length payload) :: u32) = length payload"
    using assms maximum_small [of k] by (simp add: unat_of_nat)
  then show ?thesis
    using assms
    by (simp add: check_header_def frame_header_def WIRE_MAGIC_def be_words nth_append slice_def)
qed

text \<open>A frame whose control message serde reads back as it wrote it; the binary frames always.\<close>

definition frame_codes :: "wire_codec \<Rightarrow> wire_frame \<Rightarrow> bool" where
  "frame_codes W frame = (case frame of
       Request r \<Rightarrow> (\<forall>bs. control_to_vec W (RequestWire r) = Inr bs \<longrightarrow> control_from_slice W bs = Inr (RequestWire r))
     | Response r \<Rightarrow> (\<forall>bs. control_to_vec W (ResponseWire r) = Inr bs \<longrightarrow> control_from_slice W bs = Inr (ResponseWire r))
     | _ \<Rightarrow> True)"

lemma decode_frame_payload:
  assumes "frame_codes W frame" and "frame_payload W frame = Inr (kind, payload)"
  shows "decode_payload W kind payload = Inr frame"
  using assms
  by (auto simp: frame_payload_def decode_payload_def frame_codes_def and_then_def map_err_def
      split: wire_frame.splits sum.splits)

lemma frame_parts_Inr:
  assumes "frame_parts W frame = Inr (header, payload)"
  obtains kind where "frame_payload W frame = Inr (kind, payload)" and "length payload \<le> maximum_of kind"
    and "header = frame_header kind payload"
  using assms by (auto simp: frame_parts_def and_then_def split: sum.splits if_splits)

lemma read_frame_parts:
  assumes "frame_codes W frame" and "frame_parts W frame = Inr (header, payload)"
  shows "read_frame W (header @ payload @ rest) = (Inr frame, rest)"
proof -
  obtain kind where "frame_payload W frame = Inr (kind, payload)" and "length payload \<le> maximum_of kind"
    and "header = frame_header kind payload"
    using frame_parts_Inr [OF assms(2)] by blast
  with assms(1) show ?thesis
    by (simp add: read_frame_def read_exact_def check_frame_header decode_frame_payload)
qed

section \<open>Streams of frames\<close>

text \<open>
  What a reader needs of a framing: a frame that was written is read back from the front of the
  stream, and nothing after it is touched.
\<close>

locale framing =
  fixes put :: "'f \<Rightarrow> 'e + bytes" and get :: "bytes \<Rightarrow> ('e + 'f) \<times> bytes" and codes :: "'f \<Rightarrow> bool"
  assumes get_put: "\<lbrakk>codes f; put f = Inr bs\<rbrakk> \<Longrightarrow> get (bs @ rest) = (Inr f, rest)"
begin

primrec get_many :: "nat \<Rightarrow> bytes \<Rightarrow> ('e + 'f list) \<times> bytes" where
  "get_many 0 s = (Inr [], s)"
| "get_many (Suc n) s = (case get s of
       (Inl e, s) \<Rightarrow> (Inl e, s)
     | (Inr f, s) \<Rightarrow> (case get_many n s of
           (Inl e, s) \<Rightarrow> (Inl e, s)
         | (Inr fs, s) \<Rightarrow> (Inr (f # fs), s)))"

lemma get_many_stream:
  assumes "\<forall>f \<in> set fs. codes f" and "list_all2 (\<lambda>f bs. put f = Inr bs) fs bss"
  shows "get_many (length fs) (concat bss @ rest) = (Inr fs, rest)"
  using assms(2,1)
proof (induction fs bss rule: list_all2_induct)
  case (Cons f fs bs bss)
  then show ?case using get_put [of f bs "concat bss @ rest"] by simp
qed simp

end

definition frame_bytes :: "wire_codec \<Rightarrow> wire_frame \<Rightarrow> wire_error + bytes" where
  "frame_bytes W frame = and_then (frame_parts W frame) (\<lambda>(header, payload). Inr (header @ payload))"

interpretation wire: framing "frame_bytes W" "read_frame W" "frame_codes W" for W
proof
  fix f bs rest
  assume codes: "frame_codes W f" and put: "frame_bytes W f = Inr bs"
  from put obtain h p where "frame_parts W f = Inr (h, p)" and "bs = h @ p"
    by (auto simp: frame_bytes_def and_then_def split: sum.splits)
  with codes show "read_frame W (bs @ rest) = (Inr f, rest)"
    by (simp add: read_frame_parts)
qed

text \<open>
  A connection writes its frames in turn. A frame that is refused before anything is written
  leaves the stream as it was; after an I/O error nothing more is written.
\<close>

fun write_frames :: "wire_codec \<Rightarrow> bytes \<Rightarrow> (frame_io \<times> wire_frame) list \<Rightarrow> wire_frame list \<times> bytes" where
  "write_frames W stream [] = ([], stream)"
| "write_frames W stream ((io, frame) # xs) = (case write_frame W io stream frame of
       (Inr _, stream) \<Rightarrow> (let (sent, stream) = write_frames W stream xs in (frame # sent, stream))
     | (Inl (WireIo _), stream) \<Rightarrow> ([], stream)
     | (Inl _, stream) \<Rightarrow> write_frames W stream xs)"

lemma take_min_length: "take (min n (length xs)) xs = take n xs"
  by (simp add: min_def)

lemma write_frame_cases:
  assumes "write_frame W io stream frame = (r, stream')"
  obtains (refused) e where "r = Inl e" and "frame_parts W frame = Inl e" and "stream' = stream"
  | (sent) bs where "r = Inr ()" and "frame_bytes W frame = Inr bs" and "stream' = stream @ bs"
  | (broken) e h p n where "r = Inl (WireIo e)" and "frame_parts W frame = Inr (h, p)"
      and "stream' = stream @ take n (h @ p)"
proof (cases "frame_parts W frame")
  case (Inl e)
  with assms refused show ?thesis by (auto simp: write_frame_def)
next
  case (Inr hp)
  obtain h p where hp: "hp = (h, p)" by (cases hp)
  show ?thesis
  proof (cases "fio_header io")
    case (WriteFailed n e)
    then show ?thesis using assms Inr hp broken [of e h p "min n (length h)"]
      by (simp add: write_frame_def write_part_def take_min_length)
  next
    case WriteOk
    note header = this
    show ?thesis
    proof (cases "fio_payload io")
      case (WriteFailed n e)
      then show ?thesis using assms Inr hp header broken [of e h p "length h + n"]
        by (simp add: write_frame_def write_part_def)
    next
      case WriteOk
      then show ?thesis
        using assms Inr hp header sent [of "h @ p"] broken [of _ h p "length (h @ p)"]
        by (auto simp: write_frame_def write_part_def frame_bytes_def split: option.splits)
    qed
  qed
qed

lemma frame_parts_not_io: "frame_parts W frame \<noteq> Inl (WireIo e)"
  by (auto simp: frame_parts_def frame_payload_def and_then_def map_err_def
      split: wire_frame.splits sum.splits)

lemma read_torn_frame:
  assumes "frame_parts W frame = Inr (h, p)" and "n < length (h @ p)"
  shows "read_frame W (take n (h @ p)) = (Inl (WireIo UnexpectedEof), [])"
proof -
  obtain kind where kind: "length p \<le> maximum_of kind" "h = frame_header kind p"
    using frame_parts_Inr [OF assms(1)] by blast
  show ?thesis
  proof (cases "n < length h")
    case True
    then show ?thesis using kind by (simp add: read_frame_def read_exact_def)
  next
    case False
    then have "take n (h @ p) = h @ take (n - length h) p" by simp
    then show ?thesis using kind assms(2) False
      by (auto simp: read_frame_def read_exact_def check_frame_header)
  qed
qed

lemma read_broken_frame:
  assumes "frame_codes W frame" and "frame_parts W frame = Inr (h, p)"
  shows "read_frame W (take n (h @ p)) \<in> {(Inl (WireIo UnexpectedEof), []), (Inr frame, [])}"
  using read_torn_frame [OF assms(2), of n] read_frame_parts [OF assms, of "[]"]
  by (cases "n < length (h @ p)") simp_all

lemma read_empty: "read_frame W [] = (Inl (WireIo UnexpectedEof), [])"
  by (simp add: read_frame_def read_exact_def WIRE_HEADER_LEN_def)

lemma write_frames_stream:
  assumes "\<forall>f \<in> set (map snd xs). frame_codes W f" and "write_frames W stream xs = (sent, stream')"
  shows "\<exists>bss tail. stream' = stream @ concat bss @ tail \<and> list_all2 (\<lambda>f bs. frame_bytes W f = Inr bs) sent bss
    \<and> read_frame W tail \<in> {(Inl (WireIo UnexpectedEof), [])} \<union> (\<lambda>f. (Inr f, [])) ` set (map snd xs)"
  using assms
proof (induction xs arbitrary: stream sent)
  case Nil
  then have "stream' = stream @ concat [] @ []" and "list_all2 (\<lambda>f bs. frame_bytes W f = Inr bs) sent []"
    by simp_all
  then show ?case using read_empty by blast
next
  case (Cons x xs)
  obtain io frame where x: "x = (io, frame)" by (cases x)
  obtain r s1 where w: "write_frame W io stream frame = (r, s1)" by (cases "write_frame W io stream frame")
  have codes: "frame_codes W frame" "\<forall>f \<in> set (map snd xs). frame_codes W f" using Cons.prems(1) x by simp_all
  from w show ?case
  proof (cases rule: write_frame_cases)
    case (refused e)
    then have "write_frames W stream xs = (sent, stream')"
      using Cons.prems(2) x w frame_parts_not_io [of W frame] by (auto split: wire_error.splits)
    from Cons.IH [OF codes(2) this] x show ?thesis by auto
  next
    case (sent bs)
    obtain sent' where rest: "write_frames W s1 xs = (sent', stream')" "sent = frame # sent'"
      using Cons.prems(2) x w sent by (auto split: prod.splits)
    obtain bss tail where tail: "stream' = s1 @ concat bss @ tail"
      "list_all2 (\<lambda>f bs. frame_bytes W f = Inr bs) sent' bss"
      "read_frame W tail \<in> {(Inl (WireIo UnexpectedEof), [])} \<union> (\<lambda>f. (Inr f, [])) ` set (map snd xs)"
      using Cons.IH [OF codes(2) rest(1)] by blast
    have "stream' = stream @ concat (bs # bss) @ tail"
      and "list_all2 (\<lambda>f bs. frame_bytes W f = Inr bs) (frame # sent') (bs # bss)"
      using tail sent by simp_all
    then show ?thesis using tail(3) rest(2) x by (intro exI [of _ "bs # bss"] exI [of _ tail]) auto
  next
    case (broken e h p n)
    then have stop: "sent = []" "stream' = stream @ concat [] @ take n (h @ p)"
      using Cons.prems(2) x w by simp_all
    have "read_frame W (take n (h @ p)) \<in> {(Inl (WireIo UnexpectedEof), []), (Inr frame, [])}"
      using broken codes(1) by (intro read_broken_frame) auto
    then show ?thesis using stop x by (intro exI [of _ "[]"] exI [of _ "take n (h @ p)"]) auto
  qed
qed

lemma write_frames_sent: "write_frames W stream xs = (sent, stream') \<Longrightarrow> set sent \<subseteq> set (map snd xs)"
  by (induction W stream xs arbitrary: sent rule: write_frames.induct)
    (fastforce split: prod.splits sum.splits wire_error.splits)+









section \<open>Samples\<close>

text \<open>A codec for two messages, one byte each.\<close>

definition sample_hello :: wire_frame where
  "sample_hello = Request \<lparr>cre_request_id = RequestId 1, cre_request = Hello (ClientId 2) PROTOCOL_VERSION\<rparr>"

definition sample_ack :: wire_frame where
  "sample_ack = Response \<lparr>cpe_request_id = Some (RequestId 1), cpe_response = Ack\<rparr>"

definition sample_output :: wire_frame where
  "sample_output = TerminalOutput \<lparr>tdf_terminal_id = TerminalId 3, tdf_sequence = 1, tdf_bytes = [104, 105]\<rparr>"

definition sample_wire_codec :: wire_codec where
  "sample_wire_codec =
     \<lparr>control_to_vec = (\<lambda>c.
        if c = RequestWire \<lparr>cre_request_id = RequestId 1, cre_request = Hello (ClientId 2) PROTOCOL_VERSION\<rparr>
        then Inr [1]
        else if c = ResponseWire \<lparr>cpe_request_id = Some (RequestId 1), cpe_response = Ack\<rparr> then Inr [2]
        else Inl (JsonError 0)),
      control_from_slice = (\<lambda>bs.
        if bs = [1]
        then Inr (RequestWire \<lparr>cre_request_id = RequestId 1, cre_request = Hello (ClientId 2) PROTOCOL_VERSION\<rparr>)
        else if bs = [2] then Inr (ResponseWire \<lparr>cpe_request_id = Some (RequestId 1), cpe_response = Ack\<rparr>)
        else Inl (JsonError 0))\<rparr>"

lemma sample_frame_codes: "frame_codes sample_wire_codec frame"
  by (auto simp: frame_codes_def sample_wire_codec_def split: wire_frame.split)

definition good_frame_io :: frame_io where
  "good_frame_io = \<lparr>fio_header = WriteOk, fio_payload = WriteOk, fio_flush = None\<rparr>"

definition torn_frame_io :: frame_io where
  "torn_frame_io = \<lparr>fio_header = WriteOk, fio_payload = WriteFailed 20 (OtherIo 32), fio_flush = None\<rparr>"

lemma sample_parts:
  "frame_parts sample_wire_codec sample_hello = Inr (frame_header ControlKind [1], [1])"
  "frame_parts sample_wire_codec sample_output = Inr (frame_header TerminalOutputKind
     (uuid_bytes 3 @ u64_be 1 @ [104, 105]), uuid_bytes 3 @ u64_be 1 @ [104, 105])"
  by (simp_all add: frame_parts_def frame_payload_def sample_hello_def sample_output_def
      sample_wire_codec_def maximum_of_def MAX_CONTROL_FRAME_BYTES_def MAX_TERMINAL_FRAME_BYTES_def
      encode_terminal_data_def)

lemma sample_written:
  "write_frames sample_wire_codec [] [(good_frame_io, sample_hello), (torn_frame_io, sample_output)]
     = ([sample_hello], frame_header ControlKind [1] @ [1] @ frame_header TerminalOutputKind
          (uuid_bytes 3 @ u64_be 1 @ [104, 105]) @ uuid_bytes 3 @ take 4 (u64_be 1))"
  by (simp add: write_frame_def sample_parts write_part_def good_frame_io_def torn_frame_io_def)

section \<open>Properties\<close>

text \<open>
  C20. Frames arrive whole and in order: whatever writes fail, the stream a connection leaves
  behind is read back as exactly the frames that were sent, and what follows them is the end of
  the stream or, when only the flush failed, one whole frame more; a torn frame is never taken
  for another one. The hypothesis is about the control messages that are written: serde reads
  what it wrote of each of them back as that message. The terminal frames need none.
\<close>

theorem frames_arrive_in_order:
  assumes "\<forall>f \<in> set (map snd xs). frame_codes W f" and "write_frames W [] xs = (sent, stream)"
  shows "\<exists>tail. wire.get_many W (length sent) stream = (Inr sent, tail)
    \<and> (read_frame W tail = (Inl (WireIo UnexpectedEof), [])
       \<or> (\<exists>f \<in> set (map snd xs). read_frame W tail = (Inr f, [])))"
proof -
  obtain bss tail where bss: "stream = concat bss @ tail"
    and sent: "list_all2 (\<lambda>f bs. frame_bytes W f = Inr bs) sent bss"
    and tail: "read_frame W tail \<in> {(Inl (WireIo UnexpectedEof), [])} \<union> (\<lambda>f. (Inr f, [])) ` set (map snd xs)"
    using write_frames_stream [OF assms] by auto
  have "\<forall>f \<in> set sent. frame_codes W f"
    using assms(1) write_frames_sent [OF assms(2)] by blast
  then have "wire.get_many W (length sent) stream = (Inr sent, tail)"
    using wire.get_many_stream sent bss by metis
  with tail show ?thesis by auto
qed

theorem frames_arrive_in_order_witness:
  "\<exists>tail. wire.get_many sample_wire_codec 1 (frame_header ControlKind [1] @ [1] @
       frame_header TerminalOutputKind (uuid_bytes 3 @ u64_be 1 @ [104, 105]) @ uuid_bytes 3 @
       take 4 (u64_be 1)) = (Inr [sample_hello], tail)"
  using frames_arrive_in_order [OF _ sample_written] sample_frame_codes by auto



end
