(* ===== verification/Terminal_Web.thy ===== *)
theory Terminal_Web
  imports Wire
begin

text \<open>
  The browser's terminal protocol of \<^verbatim>\<open>hyper-term-protocol/src/terminal_web.rs\<close>: the control
  messages, the binary frames and their strict decoder; and how the two gateways turn the events
  of a terminal into frames (\<^verbatim>\<open>spawn_terminal_forwarder\<close> of \<^verbatim>\<open>unix_server.rs\<close>,
  \<^verbatim>\<open>send_replay\<close> of \<^verbatim>\<open>web_gateway.rs\<close>).
\<close>

section \<open>Messages\<close>

definition WEB_MAGIC :: bytes where
  "WEB_MAGIC = map of_char ''HTWS''"

definition WEB_HEADER_LEN :: nat where
  "WEB_HEADER_LEN = 36"

definition TERMINAL_WEB_PROTOCOL_VERSION :: u16 where
  "TERMINAL_WEB_PROTOCOL_VERSION = 3"

definition MAX_TERMINAL_WEB_PAYLOAD_BYTES :: nat where
  "MAX_TERMINAL_WEB_PAYLOAD_BYTES = 256 * 1024"

definition MAX_TERMINAL_TITLE_BYTES :: nat where
  "MAX_TERMINAL_TITLE_BYTES = 256"

definition MAX_TERMINAL_CWD_BYTES :: nat where
  "MAX_TERMINAL_CWD_BYTES = 512"

datatype terminal_web_client_control =
    WebHello (* protocol_version *) u16 (* session_id *) u16 "terminal_attachment_id option"
      (* after_sequence *) u64 terminal_size (* cwd *) "string option"
  | WebResize (* generation *) u64 terminal_size
  | WebMetadata (* revision *) u64 (* title *) "string option" (* cwd *) "string option"
  | WebClose

datatype terminal_web_server_control =
    WebReady (* protocol_version *) u16 terminal_attachment_id terminal_id
      (* next_input_sequence *) u64 (* resize_generation *) u64 (* metadata_revision *) u64
  | WebExited (* exit_code *) "u32 option" (* signal *) "string option"
  | WebError (* code *) string (* message *) string

datatype terminal_web_binary_frame =
    WebInput (* sequence *) u64 bytes
  | WebOutput (* sequence *) u64 bytes
  | WebSnapshot (* base_sequence *) u64 (* next_sequence *) u64 (* total_bytes *) u64 bytes

datatype binary_kind = InputKind | OutputKind | SnapshotKind

datatype terminal_web_error =
    TruncatedFrame
  | WebInvalidMagic
  | WebUnsupportedVersion u16
  | WebUnknownFrameKind u8
  | UnsupportedFlags u8
  | PayloadTooLarge (* actual *) nat (* maximum *) nat
  | PayloadLengthMismatch (* declared *) nat (* actual *) nat
  | UnexpectedMetadata string

section \<open>The codec\<close>

primrec binary_kind_code :: "binary_kind \<Rightarrow> u8" where
  "binary_kind_code InputKind = 1"
| "binary_kind_code OutputKind = 2"
| "binary_kind_code SnapshotKind = 3"

definition binary_kind_of :: "u8 \<Rightarrow> terminal_web_error + binary_kind" where
  "binary_kind_of v =
     (if v = 1 then Inr InputKind
      else if v = 2 then Inr OutputKind
      else if v = 3 then Inr SnapshotKind
      else Inl (WebUnknownFrameKind v))"

definition encode_terminal_web_binary :: "terminal_web_binary_frame \<Rightarrow> terminal_web_error + bytes" where
  "encode_terminal_web_binary frame =
     (let (kind, primary, secondary, total_bytes, bytes) = (case frame of
            WebInput sequence bytes \<Rightarrow> (InputKind, sequence, 0, 0, bytes)
          | WebOutput sequence bytes \<Rightarrow> (OutputKind, sequence, 0, 0, bytes)
          | WebSnapshot base_sequence next_sequence total_bytes bytes \<Rightarrow>
              (SnapshotKind, base_sequence, next_sequence, total_bytes, bytes))
      in if length bytes > MAX_TERMINAL_WEB_PAYLOAD_BYTES
         then Inl (PayloadTooLarge (length bytes) MAX_TERMINAL_WEB_PAYLOAD_BYTES)
         else Inr (WEB_MAGIC @ u16_be TERMINAL_WEB_PROTOCOL_VERSION @ [binary_kind_code kind, 0]
                @ u64_be primary @ u64_be secondary @ u64_be total_bytes
                @ u32_be (of_nat (length bytes)) @ bytes))"

definition read_u64 :: "bytes \<Rightarrow> nat \<Rightarrow> u64" where
  "read_u64 bytes offset = of_nat (be_value (slice offset 8 bytes))"

definition require_unused_metadata :: "string \<Rightarrow> u64 \<Rightarrow> u64 \<Rightarrow> terminal_web_error + unit" where
  "require_unused_metadata kind secondary total_bytes =
     (if secondary = 0 \<and> total_bytes = 0 then Inr () else Inl (UnexpectedMetadata kind))"

definition decode_terminal_web_binary :: "bytes \<Rightarrow> terminal_web_error + terminal_web_binary_frame" where
  "decode_terminal_web_binary bytes =
     (if length bytes < WEB_HEADER_LEN then Inl TruncatedFrame
      else if take 4 bytes \<noteq> WEB_MAGIC then Inl WebInvalidMagic
      else let version = of_nat (be_value (slice 4 2 bytes)) in
      if version \<noteq> TERMINAL_WEB_PROTOCOL_VERSION then Inl (WebUnsupportedVersion version)
      else and_then (binary_kind_of (bytes ! 6)) (\<lambda>kind.
      if bytes ! 7 \<noteq> 0 then Inl (UnsupportedFlags (bytes ! 7))
      else let primary = read_u64 bytes 8;
               secondary = read_u64 bytes 16;
               total_bytes = read_u64 bytes 24;
               declared = be_value (slice 32 4 bytes) in
      if declared > MAX_TERMINAL_WEB_PAYLOAD_BYTES
      then Inl (PayloadTooLarge declared MAX_TERMINAL_WEB_PAYLOAD_BYTES)
      else let payload = drop WEB_HEADER_LEN bytes in
      if declared \<noteq> length payload then Inl (PayloadLengthMismatch declared (length payload))
      else case kind of
          InputKind \<Rightarrow> and_then (require_unused_metadata ''input'' secondary total_bytes)
            (\<lambda>_. Inr (WebInput primary payload))
        | OutputKind \<Rightarrow> and_then (require_unused_metadata ''output'' secondary total_bytes)
            (\<lambda>_. Inr (WebOutput primary payload))
        | SnapshotKind \<Rightarrow> Inr (WebSnapshot primary secondary total_bytes payload)))"

lemma binary_kind_of_code [simp]: "binary_kind_of (binary_kind_code k) = Inr k"
  by (cases k) (simp_all add: binary_kind_of_def)

lemma binary_kind_code_of: "binary_kind_of v = Inr k \<Longrightarrow> binary_kind_code k = v"
  by (auto simp: binary_kind_of_def split: if_splits)

text \<open>A message with any header fields.\<close>

definition web_message :: "u16 \<Rightarrow> u8 \<Rightarrow> u8 \<Rightarrow> u64 \<Rightarrow> u64 \<Rightarrow> u64 \<Rightarrow> u32 \<Rightarrow> bytes \<Rightarrow> bytes" where
  "web_message v k f p q r n payload =
     WEB_MAGIC @ u16_be v @ [k, f] @ u64_be p @ u64_be q @ u64_be r @ u32_be n @ payload"

lemma web_message_fields [simp]:
  "length (web_message v k f p q r n payload) = WEB_HEADER_LEN + length payload"
  "take 4 (web_message v k f p q r n payload) = WEB_MAGIC"
  "of_nat (be_value (slice 4 2 (web_message v k f p q r n payload))) = v"
  "web_message v k f p q r n payload ! 6 = k"
  "web_message v k f p q r n payload ! 7 = f"
  "read_u64 (web_message v k f p q r n payload) 8 = p"
  "read_u64 (web_message v k f p q r n payload) 16 = q"
  "read_u64 (web_message v k f p q r n payload) 24 = r"
  "be_value (slice 32 4 (web_message v k f p q r n payload)) = unat n"
  "drop WEB_HEADER_LEN (web_message v k f p q r n payload) = payload"
  by (simp_all add: web_message_def WEB_MAGIC_def WEB_HEADER_LEN_def read_u64_def nth_append
      slice_def be_words)

lemma drop_slice: "drop i bs = slice i n bs @ drop (i + n) bs"
  unfolding slice_def by (metis add.commute append_take_drop_id drop_drop)

lemma slice_two: "8 \<le> length bs \<Longrightarrow> slice 6 2 bs = [bs ! 6, bs ! 7]"
  by (simp add: slice_def take_Suc_conv_app_nth numeral_2_eq_2)

lemma web_message_of:
  assumes "WEB_HEADER_LEN \<le> length bs" and "take 4 bs = WEB_MAGIC"
  shows "bs = web_message (of_nat (be_value (slice 4 2 bs))) (bs ! 6) (bs ! 7) (read_u64 bs 8)
      (read_u64 bs 16) (read_u64 bs 24) (of_nat (be_value (slice 32 4 bs))) (drop WEB_HEADER_LEN bs)"
proof -
  have len: "36 \<le> length bs" using assms(1) by (simp add: WEB_HEADER_LEN_def)
  have "bs = take 4 bs @ drop 4 bs" by simp
  also have "drop 4 bs = slice 4 2 bs @ slice 6 2 bs @ slice 8 8 bs @ slice 16 8 bs @ slice 24 8 bs
      @ slice 32 4 bs @ drop 36 bs"
    using drop_slice [of 4 bs 2] drop_slice [of 6 bs 2] drop_slice [of 8 bs 8] drop_slice [of 16 bs 8]
      drop_slice [of 24 bs 8] drop_slice [of 32 bs 4] by simp
  finally show ?thesis
    using assms(2) len
    by (simp add: web_message_def read_u64_def be_u16_of be_u32_of be_u64_of slice_length slice_two
        WEB_HEADER_LEN_def)
qed

lemma encode_web_message:
  "encode_terminal_web_binary (WebInput s b) = (if length b > MAX_TERMINAL_WEB_PAYLOAD_BYTES
     then Inl (PayloadTooLarge (length b) MAX_TERMINAL_WEB_PAYLOAD_BYTES)
     else Inr (web_message TERMINAL_WEB_PROTOCOL_VERSION 1 0 s 0 0 (of_nat (length b)) b))"
  "encode_terminal_web_binary (WebOutput s b) = (if length b > MAX_TERMINAL_WEB_PAYLOAD_BYTES
     then Inl (PayloadTooLarge (length b) MAX_TERMINAL_WEB_PAYLOAD_BYTES)
     else Inr (web_message TERMINAL_WEB_PROTOCOL_VERSION 2 0 s 0 0 (of_nat (length b)) b))"
  "encode_terminal_web_binary (WebSnapshot s n t b) = (if length b > MAX_TERMINAL_WEB_PAYLOAD_BYTES
     then Inl (PayloadTooLarge (length b) MAX_TERMINAL_WEB_PAYLOAD_BYTES)
     else Inr (web_message TERMINAL_WEB_PROTOCOL_VERSION 3 0 s n t (of_nat (length b)) b))"
  by (simp_all add: encode_terminal_web_binary_def web_message_def)

lemma decode_encode_web:
  assumes "encode_terminal_web_binary f = Inr bs"
  shows "decode_terminal_web_binary bs = Inr f"
proof -
  have small: "length b \<le> MAX_TERMINAL_WEB_PAYLOAD_BYTES \<Longrightarrow> unat (of_nat (length b) :: u32) = length b"
    for b :: bytes by (simp add: MAX_TERMINAL_WEB_PAYLOAD_BYTES_def unat_of_nat)
  show ?thesis
    using assms
    by (cases f)
      (auto simp: encode_web_message decode_terminal_web_binary_def require_unused_metadata_def small
        Let_def and_then_def binary_kind_of_def split: if_splits)
qed

lemma encode_decode_web:
  assumes "decode_terminal_web_binary bs = Inr f"
  shows "encode_terminal_web_binary f = Inr bs"
proof -
  have len: "WEB_HEADER_LEN \<le> length bs" and magic: "take 4 bs = WEB_MAGIC"
    and version: "of_nat (be_value (slice 4 2 bs)) = TERMINAL_WEB_PROTOCOL_VERSION"
    and flags: "bs ! 7 = 0"
    and declared: "be_value (slice 32 4 bs) = length (drop WEB_HEADER_LEN bs)"
      "length (drop WEB_HEADER_LEN bs) \<le> MAX_TERMINAL_WEB_PAYLOAD_BYTES"
    using assms
    by (auto simp: decode_terminal_web_binary_def and_then_def Let_def not_less
        split: if_splits sum.splits)
  have bs: "web_message TERMINAL_WEB_PROTOCOL_VERSION k 0 (read_u64 bs 8) q r
      (of_nat (length (drop WEB_HEADER_LEN bs))) (drop WEB_HEADER_LEN bs) = bs"
    if "bs ! 6 = k" and "read_u64 bs 16 = q" and "read_u64 bs 24 = r" for k q r
    using web_message_of [OF len magic] that unfolding version flags declared(1) by metis
  obtain kind where kind: "binary_kind_of (bs ! 6) = Inr kind" "binary_kind_code kind = bs ! 6"
    using assms binary_kind_code_of
    by (auto simp: decode_terminal_web_binary_def and_then_def Let_def split: if_splits sum.splits)
  show ?thesis
    using assms len magic version flags declared kind
    by (subst (asm) decode_terminal_web_binary_def, cases kind)
      (auto simp: Let_def and_then_def require_unused_metadata_def encode_web_message
        intro!: bs simp del: length_drop split: if_splits)
qed

section \<open>The gateways\<close>

text \<open>
  The thread that forwards a terminal to a control connection: the replay, then the exit if the
  terminal has exited already, else the events received from the subscription until it ends. It
  stops at the first frame that cannot be sent; \<open>ok\<close> says whether a frame can. The value is the
  frames that were sent.
\<close>

definition snapshot_frame :: "terminal_id \<Rightarrow> terminal_snapshot \<Rightarrow> wire_frame" where
  "snapshot_frame tid s = TerminalSnapshot
     \<lparr>tsf_terminal_id = tid, tsf_base_sequence = tsn_base_sequence s, tsf_next_sequence = tsn_next_sequence s,
      tsf_total_bytes = tsn_total_bytes s, tsf_bytes = tsn_tail s\<rparr>"

definition output_frame :: "terminal_id \<Rightarrow> terminal_chunk \<Rightarrow> wire_frame" where
  "output_frame tid c = TerminalOutput
     \<lparr>tdf_terminal_id = tid, tdf_sequence = tch_sequence c, tdf_bytes = tch_bytes c\<rparr>"

definition exited_frame :: "terminal_id \<Rightarrow> terminal_exit \<Rightarrow> wire_frame" where
  "exited_frame tid ex = Response
     \<lparr>cpe_request_id = None, cpe_response = control_response.TerminalExited tid (te_exit_code ex)\<rparr>"

definition fault_frame :: "string \<Rightarrow> wire_frame" where
  "fault_frame message = Response \<lparr>cpe_request_id = None, cpe_response = Error ''terminal_fault'' message\<rparr>"

fun forward_all :: "(wire_frame \<Rightarrow> bool) \<Rightarrow> wire_frame list \<Rightarrow> wire_frame list \<times> bool" where
  "forward_all ok [] = ([], True)"
| "forward_all ok (f # fs) =
     (if ok f then let (sent, good) = forward_all ok fs in (f # sent, good) else ([], False))"

fun forward_live :: "(wire_frame \<Rightarrow> bool) \<Rightarrow> terminal_id \<Rightarrow> terminal_event list \<Rightarrow> wire_frame list" where
  "forward_live ok tid [] = []"
| "forward_live ok tid (Output c # evs) =
     (if ok (output_frame tid c) then output_frame tid c # forward_live ok tid evs else [])"
| "forward_live ok tid (Exited ex # evs) = (if ok (exited_frame tid ex) then [exited_frame tid ex] else [])"
| "forward_live ok tid (Fault m # evs) =
     (if ok (fault_frame m) then fault_frame m # forward_live ok tid evs else [])"

definition replay_frames :: "terminal_id \<Rightarrow> terminal_replay \<Rightarrow> wire_frame list" where
  "replay_frames tid r = (case r of
       Chunks chunks \<Rightarrow> map (output_frame tid) chunks
     | SnapshotRequired s \<Rightarrow> [snapshot_frame tid s])"

definition forward_terminal ::
    "(wire_frame \<Rightarrow> bool) \<Rightarrow> terminal_id \<Rightarrow> terminal_subscription \<Rightarrow> terminal_event list \<Rightarrow> wire_frame list" where
  "forward_terminal ok tid sub evs =
     (let (sent, good) = forward_all ok (replay_frames tid (tsu_replay sub)) in
      if \<not> good then sent
      else case tsu_exit sub of
          Some ex \<Rightarrow> sent @ fst (forward_all ok [exited_frame tid ex])
        | None \<Rightarrow> sent @ forward_live ok tid evs)"

text \<open>
  The browser's replay. An encoding error is a panic at \<^verbatim>\<open>expect\<close>; \<open>ok\<close> says whether the
  socket takes a message.
\<close>

datatype replay_outcome = ReplaySent | SocketFailed | Panicked

fun send_web_frames :: "(bytes \<Rightarrow> bool) \<Rightarrow> terminal_web_binary_frame list \<Rightarrow> bytes list \<times> replay_outcome" where
  "send_web_frames ok [] = ([], ReplaySent)"
| "send_web_frames ok (f # fs) = (case encode_terminal_web_binary f of
       Inl _ \<Rightarrow> ([], Panicked)
     | Inr bs \<Rightarrow> (if ok bs then let (sent, res) = send_web_frames ok fs in (bs # sent, res)
                  else ([], SocketFailed)))"

definition send_replay :: "(bytes \<Rightarrow> bool) \<Rightarrow> terminal_replay \<Rightarrow> bytes list \<times> replay_outcome" where
  "send_replay ok r = (case r of
       Chunks chunks \<Rightarrow> send_web_frames ok (map (\<lambda>c. WebOutput (tch_sequence c) (tch_bytes c)) chunks)
     | SnapshotRequired s \<Rightarrow> send_web_frames ok
         [WebSnapshot (tsn_base_sequence s) (tsn_next_sequence s) (tsn_total_bytes s) (tsn_tail s)])"

text \<open>
  The pump of a browser connection: what each poll of the subscription gives, and what is put
  on the outbound queue. \<open>ok\<close> says whether the queue takes a message.
\<close>

datatype pump_poll = PumpCancelled | PumpTimeout | PumpDisconnected | PumpEvent terminal_event

datatype outbound = OutBinary bytes | OutControl terminal_web_server_control | OutEnd

fun output_pump :: "(outbound \<Rightarrow> bool) \<Rightarrow> pump_poll list \<Rightarrow> outbound list \<times> replay_outcome" where
  "output_pump ok [] = ([], ReplaySent)"
| "output_pump ok (PumpCancelled # _) = ([], ReplaySent)"
| "output_pump ok (PumpTimeout # polls) = output_pump ok polls"
| "output_pump ok (PumpDisconnected # _) = ([], ReplaySent)"
| "output_pump ok (PumpEvent (Output c) # polls) =
     (case encode_terminal_web_binary (WebOutput (tch_sequence c) (tch_bytes c)) of
        Inl _ \<Rightarrow> ([], Panicked)
      | Inr bs \<Rightarrow> (if ok (OutBinary bs)
                   then let (sent, res) = output_pump ok polls in (OutBinary bs # sent, res)
                   else ([], SocketFailed)))"
| "output_pump ok (PumpEvent (Exited ex) # _) =
     (filter ok [OutControl (WebExited (te_exit_code ex) (te_signal ex)), OutEnd], ReplaySent)"
| "output_pump ok (PumpEvent (Fault m) # polls) =
     (let (sent, res) = output_pump ok polls in
      (filter ok [OutControl (WebError ''terminal_fault'' m)] @ sent, res))"

lemma buffer_run_config:
  "buffer_run b xs = (es, ds, b') \<Longrightarrow>
    rb_replay_bytes b' = rb_replay_bytes b \<and> rb_transcript_tail_bytes b' = rb_transcript_tail_bytes b"
proof (induction xs arbitrary: b es ds)
  case (Cons x xs)
  obtain b1 e where "buffer_step b (fst x) (snd x) = (b1, e)" by fastforce
  moreover from this have "rb_replay_bytes b1 = rb_replay_bytes b"
    and "rb_transcript_tail_bytes b1 = rb_transcript_tail_bytes b"
    by (auto simp: buffer_defs Let_def split: buffer_call.splits prod.splits if_splits)
  ultimately show ?case
    using Cons by (auto split: prod.splits option.splits)
qed simp

lemma small_chunk_fits: "length bs \<le> READER_CHUNK_BYTES \<Longrightarrow> \<not> MAX_TERMINAL_WEB_PAYLOAD_BYTES < length bs"
  by (simp add: READER_CHUNK_BYTES_def MAX_TERMINAL_WEB_PAYLOAD_BYTES_def)

lemma send_small_frames:
  "\<forall>c \<in> set cs. length (tch_bytes c) \<le> READER_CHUNK_BYTES \<Longrightarrow>
    snd (send_web_frames ok (map (\<lambda>c. WebOutput (tch_sequence c) (tch_bytes c)) cs)) \<noteq> Panicked"
  by (induction cs) (auto simp: encode_web_message small_chunk_fits split: prod.splits)

lemma pump_small_events:
  "\<forall>p \<in> set polls. \<forall>c. p = PumpEvent (Output c) \<longrightarrow> length (tch_bytes c) \<le> READER_CHUNK_BYTES \<Longrightarrow>
    snd (output_pump ok polls) \<noteq> Panicked"
  by (induction ok polls rule: output_pump.induct)
    (auto simp: encode_web_message small_chunk_fits split: prod.splits)

text \<open>Under the default configuration a snapshot that a cursor needs has a full tail.\<close>

lemma default_snapshot_tail:
  assumes "buffer_run (new_replay_buffer tid (tcf_replay_bytes default_terminal_config)
      (tcf_transcript_tail_bytes default_terminal_config)) xs = (es, ds, b)"
    and "\<forall>bs \<in> set (call_outputs xs). length bs < 2 ^ 64"
    and "length (call_outputs xs) < 2 ^ 64 - 1"
    and "tsu_replay (snd (subscribe i b c)) = SnapshotRequired s"
  shows "length (tsn_tail s) = 512 * 1024"
proof -
  obtain k where k: "buffer_holds b (call_outputs xs) k"
    using buffer_run_holds [OF new_buffer_holds assms(1)] assms(2) by auto
  from subscribe_replay [OF k assms(3), of i c] assms(4)
  have lost: "unat c < k" and s: "s = terminal_snapshot_of b"
    by (auto split: if_splits)
  have limits: "rb_replay_bytes b = 4 * 1024 * 1024" "rb_transcript_tail_bytes b = 512 * 1024"
    using buffer_run_config [OF assms(1)]
    by (simp_all add: new_replay_buffer_def default_terminal_config_def)
  have "rb_replay_bytes b < bytes_of (call_outputs xs)"
    using retained [OF k, of 0] lost by (auto simp flip: not_le)
  moreover have "tsn_tail s = last_n (rb_transcript_tail_bytes b) (concat (call_outputs xs))"
    using k s by (auto simp: buffer_holds_def terminal_snapshot_of_def snapshot_from_state_def Let_def)
  ultimately show ?thesis
    using limits by (simp add: last_n_def bytes_of_def length_concat)
qed

section \<open>Samples\<close>

definition sample_flood :: "((sender \<Rightarrow> send_result) \<times> buffer_call) list" where
  "sample_flood = [(sent_all, CallOutput (replicate 5000000 0)), (sent_all, CallOutput [1])]"

lemma sample_flood_outputs:
  "\<forall>bs \<in> set (call_outputs sample_flood). length bs < 2 ^ 64"
  "length (call_outputs sample_flood) < 2 ^ 64 - 1"
  by (simp_all add: sample_flood_def call_outputs_def map_filter_simps)

lemma sample_flood_subscription:
  assumes "buffer_run (new_replay_buffer (TerminalId 1) (tcf_replay_bytes default_terminal_config)
      (tcf_transcript_tail_bytes default_terminal_config)) sample_flood = (es, ds, b)"
  shows "tsu_replay (snd (subscribe 9 b 0)) = SnapshotRequired (terminal_snapshot_of b)"
  using assms
  by (auto simp: sample_flood_def buffer_defs default_terminal_config_def Let_def saturating_sub_def
      word_le_nat_alt terminal_snapshot_of_def)

section \<open>Properties\<close>

text \<open>
  C29. The binary protocol of the browser has one spelling: a message decodes to a frame exactly
  when the frame encodes to that message, so every flag, unused field and length is checked and
  nothing a decoder accepts differs from what an encoder would have sent.
\<close>

theorem web_codec_is_a_bijection:
  "decode_terminal_web_binary bs = Inr f \<longleftrightarrow> encode_terminal_web_binary f = Inr bs"
  using decode_encode_web encode_decode_web by blast

text \<open>
  Live output always fits: the chunks the reader thread publishes have at most its chunk
  size, and with such chunks neither the replay nor the pump of a browser connection panics, and
  a control connection can encode every one of them.
\<close>

lemma pty_output_always_fits:
  assumes "\<forall>c \<in> set cs. length (tch_bytes c) \<le> READER_CHUNK_BYTES"
    and "\<forall>p \<in> set polls. \<forall>c. p = PumpEvent (Output c) \<longrightarrow> length (tch_bytes c) \<le> READER_CHUNK_BYTES"
  shows "snd (send_replay ok (Chunks cs)) \<noteq> Panicked \<and> snd (output_pump ok' polls) \<noteq> Panicked
    \<and> (\<forall>c \<in> set cs. \<exists>bs. frame_bytes W (output_frame tid c) = Inr bs)"
  using send_small_frames [OF assms(1)] pump_small_events [OF assms(2)] assms(1)
  by (auto simp: send_replay_def frame_bytes_def frame_parts_def frame_payload_def output_frame_def
      maximum_of_def MAX_TERMINAL_FRAME_BYTES_def READER_CHUNK_BYTES_def and_then_def)

text \<open>
  C36. Under the default configuration no snapshot ever arrives: whenever a reconnecting client's
  cursor needs one, its tail has 512 KiB and no gateway can send it. The control connection's
  thread ends with nothing sent, and the browser connection panics at the \<^verbatim>\<open>expect\<close> that says
  the tail is bounded below the limit.
\<close>

theorem default_snapshot_never_arrives:
  assumes "buffer_run (new_replay_buffer tid (tcf_replay_bytes default_terminal_config)
      (tcf_transcript_tail_bytes default_terminal_config)) xs = (es, ds, b)"
    and "\<forall>bs \<in> set (call_outputs xs). length bs < 2 ^ 64"
    and "length (call_outputs xs) < 2 ^ 64 - 1"
    and "tsu_replay (snd (subscribe i b c)) = SnapshotRequired s"
  shows "send_replay ok (tsu_replay (snd (subscribe i b c))) = ([], Panicked)
    \<and> forward_terminal (\<lambda>f. is_ok (frame_bytes W f)) tid (snd (subscribe i b c)) evs = []"
  using default_snapshot_tail [OF assms] assms(4)
  by (simp add: send_replay_def encode_web_message MAX_TERMINAL_WEB_PAYLOAD_BYTES_def
      forward_terminal_def replay_frames_def frame_bytes_def frame_parts_def frame_payload_def
      snapshot_frame_def maximum_of_def MAX_TERMINAL_FRAME_BYTES_def is_ok_def)

theorem default_snapshot_never_arrives_witness:
  "\<exists>es ds b. buffer_run (new_replay_buffer (TerminalId 1) (tcf_replay_bytes default_terminal_config)
      (tcf_transcript_tail_bytes default_terminal_config)) sample_flood = (es, ds, b)
    \<and> send_replay (\<lambda>_. True) (tsu_replay (snd (subscribe 9 b 0))) = ([], Panicked)"
proof -
  obtain es ds b where run: "buffer_run (new_replay_buffer (TerminalId 1) (tcf_replay_bytes default_terminal_config)
      (tcf_transcript_tail_bytes default_terminal_config)) sample_flood = (es, ds, b)"
    by (metis prod_cases3)
  from default_snapshot_never_arrives [OF run sample_flood_outputs sample_flood_subscription [OF run]] run
  show ?thesis by blast
qed

end
