(* ===== verification/Lease_Ledger.thy ===== *)
theory Lease_Ledger
  imports Sandbox
begin

text \<open>
  The ledger of one-use capability leases in \<^verbatim>\<open>hyper-term-core/src/sandbox.rs\<close>
  (\<open>CapabilityLeaseLedger\<close>), and what it promises over whole sequences of calls: a lease is
  consumed at most once, within its lifetime, and by what it was issued for.
\<close>

section \<open>State and errors\<close>

record sandbox_lease_expectation =
  sle_operation_id :: operation_id
  sle_operation_revision :: u64
  sle_context_digest :: context_digest
  sle_action_digest :: action_digest
  sle_profile_digest :: sandbox_profile_digest
  sle_actor :: actor

record lease_entry =
  le_lease :: execution_capability_lease
  le_consumed_at_ms :: "u64 option"

type_synonym lease_ledger = "sandbox_lease_id \<rightharpoonup> lease_entry"

datatype sandbox_lease_error =
    ZeroRevision
  | InvalidLifetime
  | ReusableLeaseForbidden
  | AlreadyExists sandbox_lease_id
  | NotFound sandbox_lease_id
  | AlreadyConsumed sandbox_lease_id
  | NotYetValid
  | Expired
  | OperationMismatch
  | RevisionMismatch (* expected *) u64 (* actual *) u64
  | ActionDigestMismatch
  | ContextDigestMismatch
  | ProfileDigestMismatch
  | ActorMismatch

section \<open>Operations\<close>

definition issue_lease ::
    "lease_ledger \<Rightarrow> execution_capability_lease \<Rightarrow> sandbox_lease_error + lease_ledger" where
  "issue_lease leases lease =
     (let capability = ecl_lease lease in
      if cl_operation_revision capability = 0 then Inl ZeroRevision
      else if cl_expires_at_ms capability \<le> cl_issued_at_ms capability then Inl InvalidLifetime
      else if \<not> cl_one_use capability then Inl ReusableLeaseForbidden
      else if leases (cl_lease_id capability) \<noteq> None then Inl (AlreadyExists (cl_lease_id capability))
      else Inr (leases(cl_lease_id capability \<mapsto> \<lparr>le_lease = lease, le_consumed_at_ms = None\<rparr>)))"

definition consume_lease ::
    "lease_ledger \<Rightarrow> sandbox_lease_id \<Rightarrow> sandbox_lease_expectation \<Rightarrow> u64
      \<Rightarrow> sandbox_lease_error + (lease_ledger \<times> execution_capability_lease)" where
  "consume_lease leases lease_id expected now_ms =
     and_then (ok_or (leases lease_id) (NotFound lease_id)) (\<lambda>entry.
       let capability = ecl_lease (le_lease entry) in
       if le_consumed_at_ms entry \<noteq> None then Inl (AlreadyConsumed lease_id)
       else if now_ms < cl_issued_at_ms capability then Inl NotYetValid
       else if now_ms \<ge> cl_expires_at_ms capability then Inl Expired
       else if cl_operation_id capability \<noteq> sle_operation_id expected then Inl OperationMismatch
       else if cl_operation_revision capability \<noteq> sle_operation_revision expected
       then Inl (RevisionMismatch (cl_operation_revision capability) (sle_operation_revision expected))
       else if ecl_context_digest (le_lease entry) \<noteq> sle_context_digest expected
       then Inl ContextDigestMismatch
       else if cl_action_digest capability \<noteq> sle_action_digest expected then Inl ActionDigestMismatch
       else if cl_profile_digest capability \<noteq> sle_profile_digest expected then Inl ProfileDigestMismatch
       else if cl_actor capability \<noteq> sle_actor expected then Inl ActorMismatch
       else Inr (leases(lease_id \<mapsto> entry\<lparr>le_consumed_at_ms := Some now_ms\<rparr>), le_lease entry))"

definition is_consumed :: "lease_ledger \<Rightarrow> sandbox_lease_id \<Rightarrow> bool option" where
  "is_consumed leases lease_id = map_option (\<lambda>entry. le_consumed_at_ms entry \<noteq> None) (leases lease_id)"

section \<open>What a lease binds\<close>

text \<open>The request a lease was issued for, at a time within its lifetime.\<close>

definition lease_covers ::
    "execution_capability_lease \<Rightarrow> sandbox_lease_expectation \<Rightarrow> u64 \<Rightarrow> bool" where
  "lease_covers lease expected now \<longleftrightarrow>
     cl_issued_at_ms (ecl_lease lease) \<le> now \<and> now < cl_expires_at_ms (ecl_lease lease)
     \<and> expected = \<lparr>sle_operation_id = cl_operation_id (ecl_lease lease),
          sle_operation_revision = cl_operation_revision (ecl_lease lease),
          sle_context_digest = ecl_context_digest lease,
          sle_action_digest = cl_action_digest (ecl_lease lease),
          sle_profile_digest = cl_profile_digest (ecl_lease lease),
          sle_actor = cl_actor (ecl_lease lease)\<rparr>"

definition lease_valid :: "execution_capability_lease \<Rightarrow> bool" where
  "lease_valid lease \<longleftrightarrow> cl_operation_revision (ecl_lease lease) \<noteq> 0
     \<and> cl_issued_at_ms (ecl_lease lease) < cl_expires_at_ms (ecl_lease lease)
     \<and> cl_one_use (ecl_lease lease)"

lemma consume_Inr_iff:
  "consume_lease l i x now = Inr (l', lease) \<longleftrightarrow>
     (\<exists>entry. l i = Some entry \<and> le_consumed_at_ms entry = None \<and> lease = le_lease entry
        \<and> lease_covers lease x now \<and> l' = l(i \<mapsto> entry\<lparr>le_consumed_at_ms := Some now\<rparr>))"
proof (cases "l i")
  case (Some entry)
  then show ?thesis
    by (cases x) (auto simp: consume_lease_def Let_def if_Inl_Inr_iff lease_covers_def not_le not_less
        simp del: not_None_eq)
qed (simp add: consume_lease_def)

lemma issue_Inr_iff:
  "issue_lease l lease = Inr l' \<longleftrightarrow> lease_valid lease \<and> l (cl_lease_id (ecl_lease lease)) = None
     \<and> l' = l(cl_lease_id (ecl_lease lease) \<mapsto> \<lparr>le_lease = lease, le_consumed_at_ms = None\<rparr>)"
  by (auto simp: issue_lease_def Let_def lease_valid_def not_le split: if_splits)

section \<open>Sequences of calls\<close>

text \<open>
  The daemon's calls on one ledger. A refused call leaves it as it is; the log of a run lists
  the accepted calls.
\<close>

datatype ledger_call =
    IssueCall execution_capability_lease
  | ConsumeCall sandbox_lease_id sandbox_lease_expectation u64

definition ledger_call_step :: "lease_ledger \<Rightarrow> ledger_call \<Rightarrow> sandbox_lease_error + lease_ledger" where
  "ledger_call_step l c = (case c of
       IssueCall lease \<Rightarrow> issue_lease l lease
     | ConsumeCall i x now \<Rightarrow> and_then (consume_lease l i x now) (\<lambda>(l', _). Inr l'))"

primrec ledger_run :: "lease_ledger \<Rightarrow> ledger_call list \<Rightarrow> ledger_call list \<times> lease_ledger" where
  "ledger_run l [] = ([], l)"
| "ledger_run l (c # cs) =
     (case ledger_call_step l c of
        Inl _ \<Rightarrow> ledger_run l cs
      | Inr l' \<Rightarrow> (let (log, l'') = ledger_run l' cs in (c # log, l'')))"

definition consumptions :: "sandbox_lease_id \<Rightarrow> ledger_call list \<Rightarrow> ledger_call list" where
  "consumptions i log = filter (\<lambda>c. case c of ConsumeCall j _ _ \<Rightarrow> j = i | _ \<Rightarrow> False) log"

text \<open>The order of two ledgers: entries stay, a consumed one never opens again.\<close>

definition ledger_below :: "lease_ledger \<Rightarrow> lease_ledger \<Rightarrow> bool" where
  "ledger_below l m \<longleftrightarrow> (\<forall>i entry. l i = Some entry \<longrightarrow>
     (\<exists>entry'. m i = Some entry' \<and> le_lease entry' = le_lease entry
        \<and> (le_consumed_at_ms entry \<noteq> None \<longrightarrow> entry' = entry)))"

text \<open>Every entry is a valid lease under its own id.\<close>

definition ledger_inv :: "lease_ledger \<Rightarrow> bool" where
  "ledger_inv l \<longleftrightarrow> (\<forall>i entry. l i = Some entry \<longrightarrow>
     cl_lease_id (ecl_lease (le_lease entry)) = i \<and> lease_valid (le_lease entry)
     \<and> (\<forall>t. le_consumed_at_ms entry = Some t \<longrightarrow>
          cl_issued_at_ms (ecl_lease (le_lease entry)) \<le> t \<and> t < cl_expires_at_ms (ecl_lease (le_lease entry))))"

interpretation ledger: monotone_machine ledger_call_step ledger_inv ledger_below
proof unfold_locales
  fix l m n :: lease_ledger and c
  show "ledger_inv l \<Longrightarrow> ledger_call_step l c = Inr m \<Longrightarrow> ledger_inv m"
    by (cases c)
      (auto simp: ledger_call_step_def issue_Inr_iff consume_Inr_iff result_simps ledger_inv_def lease_covers_def
        split: if_splits)
  show "ledger_inv l \<Longrightarrow> ledger_call_step l c = Inr m \<Longrightarrow> ledger_below l m"
    by (cases c)
      (auto simp: ledger_call_step_def issue_Inr_iff consume_Inr_iff result_simps ledger_below_def)
  show "ledger_below l l" by (auto simp: ledger_below_def)
  show "ledger_below l m \<Longrightarrow> ledger_below m n \<Longrightarrow> ledger_below l n"
    unfolding ledger_below_def by metis
qed

text \<open>The log of a run is a run without refusals, so whatever holds for runs holds for it.\<close>

lemma ledger_run_log: "ledger_run l cs = (log, l') \<Longrightarrow> try_fold ledger_call_step l log = Inr l'"
  by (induction cs arbitrary: l log) (auto split: sum.splits prod.splits)

lemma no_second_consumption:
  assumes "ledger_inv l" "l i = Some entry" "le_consumed_at_ms entry \<noteq> None"
  shows "try_fold ledger_call_step l log = Inr l' \<Longrightarrow> consumptions i log = []"
  using assms
proof (induction log arbitrary: l entry)
  case (Cons c log)
  from Cons.prems(1) obtain m where step: "ledger_call_step l c = Inr m"
    and rest: "try_fold ledger_call_step m log = Inr l'" by (auto simp: result_simps)
  from ledger.step_below [OF Cons.prems(2) step] Cons.prems(3,4) have "m i = Some entry"
    unfolding ledger_below_def by blast
  with Cons.IH [OF rest ledger.step_inv [OF Cons.prems(2) step]] Cons.prems(4)
  have "consumptions i log = []" by blast
  moreover have "\<not> (\<exists>x now. c = ConsumeCall i x now)"
    using step Cons.prems(3,4) by (auto simp: ledger_call_step_def consume_Inr_iff result_simps)
  ultimately show ?case by (auto simp: consumptions_def split: ledger_call.splits)
qed (simp add: consumptions_def)

lemma one_consumption:
  "ledger_inv l \<Longrightarrow> try_fold ledger_call_step l log = Inr l' \<Longrightarrow> length (consumptions i log) \<le> 1"
proof (induction log arbitrary: l)
  case (Cons c log)
  from Cons.prems(2) obtain m where step: "ledger_call_step l c = Inr m"
    and rest: "try_fold ledger_call_step m log = Inr l'" by (auto simp: result_simps)
  note inv = ledger.step_inv [OF Cons.prems(1) step]
  show ?case
  proof (cases "\<exists>x now. c = ConsumeCall i x now")
    case True
    with step obtain entry where "m i = Some entry" "le_consumed_at_ms entry \<noteq> None"
      by (auto simp: ledger_call_step_def consume_Inr_iff result_simps)
    from no_second_consumption [OF inv this rest] show ?thesis
      by (simp add: consumptions_def)
  next
    case False
    with Cons.IH [OF inv rest] show ?thesis
      by (auto simp: consumptions_def split: ledger_call.splits)
  qed
qed (simp add: consumptions_def)

text \<open>A lease in the ledger was issued.\<close>

lemma issued_in_log:
  "try_fold ledger_call_step l log = Inr l' \<Longrightarrow> l' i = Some entry \<Longrightarrow>
     (\<exists>old. l i = Some old \<and> le_lease old = le_lease entry) \<or> IssueCall (le_lease entry) \<in> set log"
proof (induction log arbitrary: l)
  case (Cons c log)
  from Cons.prems(1) obtain m where step: "ledger_call_step l c = Inr m"
    and rest: "try_fold ledger_call_step m log = Inr l'" by (auto simp: result_simps)
  from Cons.IH [OF rest Cons.prems(2)] step show ?case
    by (cases c)
      (auto simp: ledger_call_step_def issue_Inr_iff consume_Inr_iff result_simps split: if_splits)
qed auto

lemma ledger_inv_empty: "ledger_inv Map.empty"
  by (simp add: ledger_inv_def)

section \<open>Concrete values\<close>

definition sample_lease :: execution_capability_lease where
  "sample_lease = \<lparr>ecl_context_digest = ContextDigest ''c'', ecl_lease =
     \<lparr>cl_lease_id = SandboxLeaseId 1, cl_operation_id = OperationId 2, cl_operation_revision = 4,
      cl_action_digest = ActionDigest ''a'', cl_profile_digest = SandboxProfileDigest ''p'',
      cl_actor = actor.User, cl_issued_at_ms = 100, cl_expires_at_ms = 200, cl_one_use = True\<rparr>\<rparr>"

definition sample_expectation :: sandbox_lease_expectation where
  "sample_expectation = \<lparr>sle_operation_id = OperationId 2, sle_operation_revision = 4,
     sle_context_digest = ContextDigest ''c'', sle_action_digest = ActionDigest ''a'',
     sle_profile_digest = SandboxProfileDigest ''p'', sle_actor = actor.User\<rparr>"

definition sample_calls :: "ledger_call list" where
  "sample_calls = [IssueCall sample_lease, ConsumeCall (SandboxLeaseId 1) sample_expectation 250,
     ConsumeCall (SandboxLeaseId 1) sample_expectation 150,
     ConsumeCall (SandboxLeaseId 1) sample_expectation 151]"

definition sample_log :: "ledger_call list" where
  "sample_log = [IssueCall sample_lease, ConsumeCall (SandboxLeaseId 1) sample_expectation 150]"

definition sample_ledger :: lease_ledger where
  "sample_ledger = [SandboxLeaseId 1 \<mapsto> \<lparr>le_lease = sample_lease, le_consumed_at_ms = Some 150\<rparr>]"

lemma sample_ledger_run: "ledger_run Map.empty sample_calls = (sample_log, sample_ledger)"
  by (simp add: sample_calls_def sample_log_def sample_ledger_def ledger_call_step_def issue_lease_def
      consume_lease_def sample_lease_def sample_expectation_def Let_def word_le_nat_alt)

section \<open>Properties\<close>

text \<open>
  C6. A lease is consumed at most once: however the calls on the ledger are ordered, repeated
  or refused, at most one consumption of a lease id succeeds.
\<close>

theorem lease_consumed_at_most_once:
  assumes "ledger_run Map.empty cs = (log, l)"
  shows "length (consumptions i log) \<le> 1"
  by (rule one_consumption [OF ledger_inv_empty ledger_run_log [OF assms]])

theorem lease_consumed_at_most_once_witness: "length (consumptions (SandboxLeaseId 1) sample_log) \<le> 1"
  by (rule lease_consumed_at_most_once [OF sample_ledger_run])

text \<open>
  Every successful consumption was issued for: before it, the ledger accepted a lease of
  that id with a non-zero revision, a non-empty lifetime and one use; the consumption came
  within that lifetime and named the same operation, revision, context, action, profile and
  actor.
\<close>

lemma consumption_was_issued:
  assumes "ledger_run Map.empty cs = (before @ ConsumeCall i x now # after, l)"
  shows "\<exists>lease. IssueCall lease \<in> set before \<and> cl_lease_id (ecl_lease lease) = i
    \<and> lease_valid lease \<and> lease_covers lease x now"
proof -
  from ledger_run_log [OF assms] obtain m m' where
    m: "try_fold ledger_call_step Map.empty before = Inr m"
    and step: "ledger_call_step m (ConsumeCall i x now) = Inr m'"
    by (auto simp: try_fold_append result_simps)
  from step obtain entry where e: "m i = Some entry" "lease_covers (le_lease entry) x now"
    by (auto simp: ledger_call_step_def consume_Inr_iff result_simps)
  from issued_in_log [OF m e(1)] have "IssueCall (le_lease entry) \<in> set before" by simp
  with e ledger.run_inv [OF ledger_inv_empty m] show ?thesis unfolding ledger_inv_def by blast
qed

end
