(* ===== verification/Exec_Context.thy ===== *)
theory Exec_Context
  imports Lease_Ledger
begin

text \<open>
  The execution-context compiler of \<^verbatim>\<open>hyper-term-core/src/execution_context.rs\<close>: how the
  metadata a caller asks for becomes one closed environment, its digest and receipt, and one
  operation-scoped launch with its lease. serde and SHA-256 are the parameter \<open>context_crate\<close>;
  the sandbox backend, a trait object in the source, is a function argument. Paths are strings,
  so \<^verbatim>\<open>NonUtf8Path\<close> cannot occur.
\<close>

section \<open>Requests and errors\<close>

definition MAX_CONTEXT_ID_BYTES :: nat where "MAX_CONTEXT_ID_BYTES = 128"

definition MAX_ENVIRONMENT_BINDINGS :: nat where "MAX_ENVIRONMENT_BINDINGS = 128"

definition MAX_ENVIRONMENT_BYTES :: nat where "MAX_ENVIRONMENT_BYTES = 256 * 1024"

definition MAX_ENV_FILE_BYTES :: nat where "MAX_ENV_FILE_BYTES = 1024 * 1024"

definition RESERVED_ENVIRONMENT_NAMES :: "string list" where
  "RESERVED_ENVIRONMENT_NAMES =
     [''HTTP_PROXY'', ''HTTPS_PROXY'', ''NO_PROXY'', ''HYPER_OPERATION_ID'', ''HYPER_CONTEXT_DIGEST'',
      ''HYPER_CONTROL_FD'', ''HYPER_CREDENTIAL_SOCKET'']"

text \<open>The map of environment files is keyed by the order key of a path.\<close>

record execution_context_inputs =
  eci_allow_user_mode :: bool
  eci_host_environment :: "(string, string) btree"
  eci_environment_files :: "((nat \<times> string) list, bytes) btree"

definition default_context_inputs :: execution_context_inputs where
  "default_context_inputs =
     \<lparr>eci_allow_user_mode = False, eci_host_environment = [], eci_environment_files = []\<rparr>"

record execution_authorization_request =
  ear_operation_id :: operation_id
  ear_operation_revision :: u64
  ear_actor :: actor
  ear_context :: execution_context_spec
  ear_command :: terminal_command
  ear_lease_id :: sandbox_lease_id
  ear_issued_at_ms :: u64
  ear_expires_at_ms :: u64

record authorized_execution_plan =
  aep_context :: resolved_execution_context
  aep_context_receipt :: context_receipt
  aep_sandbox :: sandbox_launch_plan
  aep_capability_lease :: execution_capability_lease

record compiled_binding =
  cb_value :: "string option"
  cb_metadata :: resolved_environment_binding
  cb_override_policy :: override_policy

datatype execution_context_error =
    UnsupportedSchema u16
  | ZeroRevision
  | InvalidContextId
  | UserModeDenied
  | TooManyBindings
  | EnvironmentTooLarge
  | PathMustBeAbsolute string
  | PathEscapesRoot string
  | NonUtf8Path
  | WorkingDirectoryOutsideWorkspace
  | EmptyRuntimePath
  | InvalidRuntimePath
  | InvalidRuntimeValue string
  | InvalidShellInvocation
  | StartupFilesDenied
  | SandboxRequired
  | InvalidEnvironmentName string
  | EnvironmentClassMismatch string (* expected *) environment_class (* actual *) environment_class
  | ReservedEnvironmentName string
  | WorkspaceBindingOutsideProject
  | WorkspaceAuthorityBinding string
  | CodeInjectionBinding string
  | NetworkBindingRequiresAuthority string
  | AuthorityHandleRequiresBroker string
  | CredentialLiteral string
  | SecretReferenceRequiresCredential string
  | HostVariableDenied string
  | MissingHostVariable string
  | NulEnvironmentValue string
  | EnvironmentCollision string
  | EnvironmentFileOutsideWorkspace string
  | EnvironmentFileMissing string
  | EnvironmentFileTooLarge string
  | EnvironmentFileNotUtf8 string
  | InvalidEnvironmentFileDigest
  | EnvironmentFileDigestMismatch (* expected *) string (* actual *) string
  | MalformedEnvironmentFile nat
  | UnsupportedEnvironmentFileSyntax nat
  | DuplicateEnvironmentFileKey string
  | EnvironmentFileKeyMissing string
  | InvalidCredentialRequirement
  | DuplicateCredentialBinding string
  | ContextSandbox sandbox_error
  | ContextDigestError digest_error
  | ContextJson

datatype execution_authorization_error =
    InvalidLeaseLifetime
  | AuthorizationUserModeDenied
  | CredentialsNotMaterialized
  | ShellRequired
  | ShellExecutableMismatch
  | WorkingDirectoryMismatch
  | EnvironmentNotInContext string
  | CompiledEnvironmentMismatch
  | AuthorizationSandboxRequired
  | Context execution_context_error
  | AuthorizationSandbox sandbox_error

text \<open>
  serde's JSON of the two digest inputs and of a binding source (\<^verbatim>\<open>unwrap_or_default\<close> of
  which is the sort key), and SHA-256.
\<close>

record context_crate =
  environment_json :: "bool \<Rightarrow> (string, string) btree \<Rightarrow> resolved_environment_binding list \<Rightarrow> bytes option"
  context_json :: "execution_context_spec \<Rightarrow> environment_plan_digest \<Rightarrow> bytes option"
  source_json :: "environment_source \<Rightarrow> string option"
  context_sha256 :: "bytes \<Rightarrow> bytes"

section \<open>Names\<close>

definition classify_environment_name :: "string \<Rightarrow> environment_class" where
  "classify_environment_name name =
     (if name \<in> {''PATH'', ''HOME'', ''TMPDIR'', ''LANG'', ''LC_ALL'', ''TZ'', ''TERM'', ''COLORTERM''}
      then RuntimeSemantic
      else if name \<in> {''BASH_ENV'', ''ENV'', ''ZDOTDIR''} then ShellStartup
      else if name \<in> {''NODE_OPTIONS'', ''PYTHONPATH'', ''RUBYOPT'', ''PERL5OPT'', ''LD_PRELOAD''}
      then LoaderInjection
      else if name \<in> {''HTTP_PROXY'', ''HTTPS_PROXY'', ''ALL_PROXY'', ''NO_PROXY'', ''WS_PROXY'',
                      ''WSS_PROXY'', ''SSL_CERT_FILE'', ''SSL_CERT_DIR''}
      then NetworkControl
      else if name \<in> {''SSH_AUTH_SOCK'', ''GPG_AGENT_INFO'', ''DOCKER_HOST'', ''KUBECONFIG''}
      then AuthorityHandle
      else if name \<in> {''TRACEPARENT'', ''TRACESTATE''} then Observability
      else if starts_with ''DYLD_'' name then LoaderInjection
      else if starts_with ''OTEL_'' name then Observability
      else if ends_with ''_TOKEN'' name \<or> ends_with ''_API_KEY'' name \<or> ends_with ''_SECRET'' name
              \<or> ends_with ''_PASSWORD'' name
      then Credential
      else ToolConfiguration)"

definition validate_environment_name :: "string \<Rightarrow> execution_context_error + unit" where
  "validate_environment_name name = (case name of
       [] \<Rightarrow> Inl (InvalidEnvironmentName name)
     | first # rest \<Rightarrow>
         (if \<not> (is_ascii_alphabetic first \<or> first = CHR ''_'')
             \<or> \<not> list_all (\<lambda>c. is_ascii_alphanumeric c \<or> c = CHR ''_'') rest
          then Inl (InvalidEnvironmentName name) else Inr ()))"

text \<open>
  Unlike the profile's paths, a context path may go up: a parent segment pops, and it is an
  error only at the root. The stack of segments stands for the \<^verbatim>\<open>PathBuf\<close>, innermost first.
\<close>

definition normalize_context_path :: "string \<Rightarrow> execution_context_error + string" where
  "normalize_context_path path =
     (if \<not> is_absolute path then Inl (PathMustBeAbsolute path)
      else and_then (try_fold (\<lambda>segments c. case c of
            RootDir \<Rightarrow> Inr segments
          | CurDir \<Rightarrow> Inr segments
          | ParentDir \<Rightarrow> (case segments of [] \<Rightarrow> Inl (PathEscapesRoot path) | _ # rest \<Rightarrow> Inr rest)
          | Normal w \<Rightarrow> Inr (w # segments)) [] (components path))
        (\<lambda>segments. Inr (foldl path_push ''/'' (rev segments))))"

section \<open>Environment files\<close>

text \<open>UTF-8 validity, as \<^verbatim>\<open>std::str::from_utf8\<close> decides it.\<close>

definition utf8_tail :: "u8 \<Rightarrow> bool" where
  "utf8_tail b \<longleftrightarrow> 0x80 \<le> b \<and> b \<le> 0xBF"

fun valid_utf8 :: "bytes \<Rightarrow> bool" where
  "valid_utf8 [] = True"
| "valid_utf8 (b # bs) =
     (if b < 0x80 then valid_utf8 bs
      else if 0xC2 \<le> b \<and> b \<le> 0xDF
      then (case bs of c # cs \<Rightarrow> utf8_tail c \<and> valid_utf8 cs | _ \<Rightarrow> False)
      else if 0xE0 \<le> b \<and> b \<le> 0xEF
      then (case bs of c # d # cs \<Rightarrow>
              utf8_tail c \<and> (b = 0xE0 \<longrightarrow> 0xA0 \<le> c) \<and> (b = 0xED \<longrightarrow> c \<le> 0x9F)
              \<and> utf8_tail d \<and> valid_utf8 cs | _ \<Rightarrow> False)
      else if 0xF0 \<le> b \<and> b \<le> 0xF4
      then (case bs of c # d # e # cs \<Rightarrow>
              utf8_tail c \<and> (b = 0xF0 \<longrightarrow> 0x90 \<le> c) \<and> (b = 0xF4 \<longrightarrow> c \<le> 0x8F)
              \<and> utf8_tail d \<and> utf8_tail e \<and> valid_utf8 cs | _ \<Rightarrow> False)
      else False)"

definition from_utf8 :: "bytes \<Rightarrow> string option" where
  "from_utf8 bs = (if valid_utf8 bs then Some (map (\<lambda>b. char_of (unat b)) bs) else None)"

text \<open>\<^verbatim>\<open>str::lines\<close>: split at newlines, drop a carriage return before one, no last empty line.\<close>

definition strip_cr :: "string \<Rightarrow> string" where
  "strip_cr s = (if s \<noteq> [] \<and> last s = char_of (13 :: nat) then butlast s else s)"

fun text_lines :: "string \<Rightarrow> string \<Rightarrow> string list" where
  "text_lines current [] = (if current = [] then [] else [rev current])"
| "text_lines current (c # cs) =
     (if c = char_of (10 :: nat) then strip_cr (rev current) # text_lines [] cs
      else text_lines (c # current) cs)"

definition parse_env_file_scalar :: "string \<Rightarrow> nat \<Rightarrow> execution_context_error + string" where
  "parse_env_file_scalar v line =
     (if nul \<in> set v then Inl (MalformedEnvironmentFile line)
      else case v of
          [] \<Rightarrow> Inr []
        | quote # _ \<Rightarrow>
            (if quote \<noteq> CHR 0x27 \<and> quote \<noteq> CHR 0x22
             then (if trim v \<noteq> v \<or> CHR 0x5C \<in> set v then Inl (UnsupportedEnvironmentFileSyntax line)
                   else Inr v)
             else if length v < 2 \<or> last v \<noteq> quote then Inl (MalformedEnvironmentFile line)
             else let inner = butlast (tl v) in
               (if quote \<in> set inner \<or> CHR 0x5C \<in> set inner
                then Inl (UnsupportedEnvironmentFileSyntax line) else Inr inner)))"

fun parse_env_lines ::
    "(string, string) btree \<Rightarrow> nat \<Rightarrow> string list \<Rightarrow> execution_context_error + (string, string) btree" where
  "parse_env_lines values index [] = Inr values"
| "parse_env_lines values index (raw_line # rest) =
     (let line = trim raw_line in
      if line = [] \<or> starts_with ''#'' line then parse_env_lines values (Suc index) rest
      else if starts_with ''export '' line then Inl (UnsupportedEnvironmentFileSyntax (index + 1))
      else case split_once CHR ''='' line of
          None \<Rightarrow> Inl (MalformedEnvironmentFile (index + 1))
        | Some (name, raw_value) \<Rightarrow>
            and_then (map_err (\<lambda>_. MalformedEnvironmentFile (index + 1)) (validate_environment_name name)) (\<lambda>_.
            if bt_get values name \<noteq> None then Inl (DuplicateEnvironmentFileKey name)
            else and_then (parse_env_file_scalar raw_value (index + 1)) (\<lambda>v.
              parse_env_lines (bt_insert name v values) (Suc index) rest)))"

definition parse_env_file_value :: "string \<Rightarrow> string \<Rightarrow> execution_context_error + string" where
  "parse_env_file_value contents requested_key =
     and_then (parse_env_lines [] 0 (text_lines [] contents)) (\<lambda>values.
       ok_or (bt_get values requested_key) (EnvironmentFileKeyMissing requested_key))"

definition resolve_env_file ::
    "context_crate \<Rightarrow> execution_context_spec \<Rightarrow> execution_context_inputs \<Rightarrow> string \<Rightarrow> string \<Rightarrow> string option
      \<Rightarrow> execution_context_error + string" where
  "resolve_env_file C spec inputs path key expected_digest =
     and_then (validate_environment_name key) (\<lambda>_.
     and_then (if is_absolute path then normalize_context_path path
               else normalize_context_path (path_push (wcs_root (ecs_workspace spec)) path)) (\<lambda>path.
     if \<not> path_starts_with path (wcs_root (ecs_workspace spec))
     then Inl (EnvironmentFileOutsideWorkspace path)
     else and_then (ok_or (bt_get (eci_environment_files inputs) (path_key path)) (EnvironmentFileMissing path)) (\<lambda>bytes.
     if length bytes > MAX_ENV_FILE_BYTES then Inl (EnvironmentFileTooLarge path)
     else and_then (case expected_digest of
          None \<Rightarrow> Inr ()
        | Some expected \<Rightarrow>
            (if \<not> is_sha256 expected then Inl InvalidEnvironmentFileDigest
             else let actual = hex_lower (context_sha256 C bytes) in
               if actual \<noteq> expected then Inl (EnvironmentFileDigestMismatch expected actual) else Inr ())) (\<lambda>_.
     and_then (ok_or (from_utf8 bytes) (EnvironmentFileNotUtf8 path)) (\<lambda>text.
       parse_env_file_value text key)))))"

section \<open>The canonical spec\<close>

definition context_id_char :: "char \<Rightarrow> bool" where
  "context_id_char c \<longleftrightarrow> is_ascii_alphanumeric c \<or> c \<in> {CHR ''-'', CHR ''_'', CHR ''.'', CHR '':''}"

definition push_runtime_path :: "string list \<Rightarrow> string \<Rightarrow> execution_context_error + string list" where
  "push_runtime_path kept path =
     and_then (normalize_context_path path) (\<lambda>path.
       Inr (if list_ex (path_eq path) kept then kept else kept @ [path]))"

definition check_runtime_values :: "runtime_environment_spec \<Rightarrow> execution_context_error + unit" where
  "check_runtime_values r = try_fold (\<lambda>_ (name, v).
     if v = [] \<or> nul \<in> set v then Inl (InvalidRuntimeValue name) else Inr ()) ()
     [(''locale'', res_locale r), (''timezone'', res_timezone r), (''terminal'', res_terminal r)]"

definition canonical_workspace :: "workspace_context_spec \<Rightarrow> execution_context_error + workspace_context_spec" where
  "canonical_workspace w =
     and_then (normalize_context_path (wcs_root w)) (\<lambda>root.
     and_then (normalize_context_path (wcs_working_directory w)) (\<lambda>working_directory.
     and_then (normalize_context_path (wcs_runtime_home w)) (\<lambda>runtime_home.
     and_then (normalize_context_path (wcs_runtime_temp w)) (\<lambda>runtime_temp.
     if \<not> path_starts_with working_directory root then Inl WorkingDirectoryOutsideWorkspace
     else Inr \<lparr>wcs_root = root, wcs_working_directory = working_directory,
               wcs_runtime_home = runtime_home, wcs_runtime_temp = runtime_temp\<rparr>))))"

definition canonical_shell ::
    "execution_mode \<Rightarrow> shell_context_spec option \<Rightarrow> execution_context_error + shell_context_spec option" where
  "canonical_shell mode shell = (case shell of
       None \<Rightarrow> Inr None
     | Some sh \<Rightarrow>
         and_then (normalize_context_path (scs_executable sh)) (\<lambda>executable.
         if scs_invocation sh = [] \<or> nul \<in> set (scs_invocation sh) then Inl InvalidShellInvocation
         else if mode \<noteq> execution_mode.User \<and> scs_startup_files sh then Inl StartupFilesDenied
         else Inr (Some (sh\<lparr>scs_executable := executable\<rparr>))))"

definition canonicalize_spec ::
    "execution_context_spec \<Rightarrow> bool \<Rightarrow> execution_context_error + execution_context_spec" where
  "canonicalize_spec spec allow_user_mode =
     (if ecs_schema_version spec \<noteq> EXECUTION_CONTEXT_SCHEMA_VERSION
      then Inl (UnsupportedSchema (ecs_schema_version spec))
      else if ecs_context_revision spec = 0 then Inl ZeroRevision
      else if ecs_context_id spec = [] \<or> length (ecs_context_id spec) > MAX_CONTEXT_ID_BYTES
              \<or> \<not> list_all context_id_char (ecs_context_id spec)
      then Inl InvalidContextId
      else if ecs_mode spec = execution_mode.User \<and> \<not> allow_user_mode then Inl UserModeDenied
      else if length (ep_bindings (ecs_environment spec)) > MAX_ENVIRONMENT_BINDINGS
      then Inl TooManyBindings
      else and_then (canonical_workspace (ecs_workspace spec)) (\<lambda>workspace.
           and_then (try_fold push_runtime_path [] (res_path (ecs_runtime spec))) (\<lambda>path.
      if path = [] then Inl EmptyRuntimePath
      else and_then (check_runtime_values (ecs_runtime spec)) (\<lambda>_.
           and_then (canonical_shell (ecs_mode spec) (ecs_shell spec)) (\<lambda>shell.
      if ecs_mode spec \<noteq> execution_mode.User \<and> ecs_sandbox spec = None then Inl SandboxRequired
      else Inr (spec\<lparr>ecs_workspace := workspace,
                     ecs_runtime := (ecs_runtime spec)\<lparr>res_path := path\<rparr>,
                     ecs_shell := shell,
                     ecs_credentials := sort_key (\<lambda>c. (crd_binding_id c, crd_target_name c))
                       (ecs_credentials spec)\<rparr>))))))"

section \<open>Bindings\<close>

text \<open>\<^verbatim>\<open>std::env::join_paths\<close> on Unix: a path with a colon cannot be joined.\<close>

definition join_paths :: "string list \<Rightarrow> string option" where
  "join_paths ps = (if list_ex (\<lambda>p. CHR '':'' \<in> set p) ps then None else Some (join '':'' ps))"

definition runtime_binding :: "string \<times> string \<Rightarrow> compiled_binding" where
  "runtime_binding nv =
     \<lparr>cb_value = Some (snd nv),
      cb_metadata = \<lparr>reb_target_name = fst nv, reb_class = RuntimeSemantic, reb_origin = RuntimeProfile,
        reb_scope = ProcessTree, reb_lifetime = binding_lifetime.Task, reb_source_kind = ''runtime_profile''\<rparr>,
      cb_override_policy = override_policy.Deny\<rparr>"

definition runtime_bindings :: "execution_context_spec \<Rightarrow> execution_context_error + compiled_binding list" where
  "runtime_bindings spec =
     and_then (ok_or (join_paths (res_path (ecs_runtime spec))) InvalidRuntimePath) (\<lambda>path.
       Inr (map runtime_binding
         [(''PATH'', path),
          (''HOME'', wcs_runtime_home (ecs_workspace spec)),
          (''TMPDIR'', wcs_runtime_temp (ecs_workspace spec)),
          (''LANG'', res_locale (ecs_runtime spec)),
          (''TZ'', res_timezone (ecs_runtime spec)),
          (''TERM'', res_terminal (ecs_runtime spec))]))"

definition validate_binding ::
    "execution_context_spec \<Rightarrow> environment_binding_spec \<Rightarrow> execution_context_error + unit" where
  "validate_binding spec b =
     (let name = ebs_target_name b; inferred = classify_environment_name name in
      and_then (validate_environment_name name) (\<lambda>_.
      if inferred \<noteq> ToolConfiguration \<and> inferred \<noteq> ebs_class b
      then Inl (EnvironmentClassMismatch name inferred (ebs_class b))
      else if name \<in> set RESERVED_ENVIRONMENT_NAMES \<and> ebs_origin b \<noteq> Authority
              \<and> ebs_origin b \<noteq> CredentialBroker
      then Inl (ReservedEnvironmentName name)
      else if ebs_origin b = Workspace \<and> ecs_mode spec \<noteq> Project then Inl WorkspaceBindingOutsideProject
      else if ebs_origin b = Workspace \<and> ebs_class b \<notin> {ToolConfiguration, Observability}
      then Inl (WorkspaceAuthorityBinding name)
      else if ecs_mode spec \<noteq> execution_mode.User \<and> ebs_class b \<in> {ShellStartup, LoaderInjection}
      then Inl (CodeInjectionBinding name)
      else if ebs_class b = NetworkControl \<and> ebs_origin b \<noteq> Authority
      then Inl (NetworkBindingRequiresAuthority name)
      else if ebs_class b = AuthorityHandle \<and> ebs_origin b \<notin> {Authority, CredentialBroker}
      then Inl (AuthorityHandleRequiresBroker name)
      else case ebs_source b of
          Literal _ \<Rightarrow> (if ebs_class b = Credential then Inl (CredentialLiteral name) else Inr ())
        | SecretReference _ \<Rightarrow>
            (if ebs_class b = Credential then Inr () else Inl (SecretReferenceRequiresCredential name))
        | HostVariable _ \<Rightarrow>
            (if ecs_mode spec \<noteq> execution_mode.User then Inl (HostVariableDenied name) else Inr ())
        | _ \<Rightarrow> Inr ()))"

definition checked_value :: "environment_binding_spec \<Rightarrow> string \<Rightarrow> execution_context_error + string option" where
  "checked_value b v =
     (if nul \<in> set v then Inl (NulEnvironmentValue (ebs_target_name b)) else Inr (Some v))"

definition resolve_binding_value ::
    "context_crate \<Rightarrow> execution_context_spec \<Rightarrow> environment_binding_spec \<Rightarrow> execution_context_inputs
      \<Rightarrow> execution_context_error + string option" where
  "resolve_binding_value C spec b inputs = (case ebs_source b of
       Literal v \<Rightarrow> checked_value b v
     | HostVariable name \<Rightarrow>
         and_then (validate_environment_name name) (\<lambda>_.
         and_then (ok_or (bt_get (eci_host_environment inputs) name) (MissingHostVariable name)) (checked_value b))
     | EnvFileKey path key expected \<Rightarrow>
         and_then (resolve_env_file C spec inputs path key expected) (checked_value b)
     | SecretReference _ \<Rightarrow> Inr None
     | Derived d \<Rightarrow> checked_value b (case d of
           WorkspaceRoot \<Rightarrow> wcs_root (ecs_workspace spec)
         | WorkingDirectory \<Rightarrow> wcs_working_directory (ecs_workspace spec)
         | RuntimeHome \<Rightarrow> wcs_runtime_home (ecs_workspace spec)
         | RuntimeTemp \<Rightarrow> wcs_runtime_temp (ecs_workspace spec)))"

definition source_kind :: "environment_source \<Rightarrow> string" where
  "source_kind src = (case src of
       Literal _ \<Rightarrow> ''literal''
     | HostVariable _ \<Rightarrow> ''host_variable''
     | EnvFileKey _ _ _ \<Rightarrow> ''env_file_key''
     | SecretReference _ \<Rightarrow> ''secret_reference''
     | Derived _ \<Rightarrow> ''derived'')"

definition source_sort_key :: "context_crate \<Rightarrow> environment_source \<Rightarrow> string" where
  "source_sort_key C src = (case source_json C src of None \<Rightarrow> [] | Some s \<Rightarrow> s)"

type_synonym binding_map = "(string, compiled_binding) btree"

definition insert_binding ::
    "binding_map \<Rightarrow> compiled_binding \<Rightarrow> collision_policy \<Rightarrow> execution_context_error + binding_map" where
  "insert_binding compiled b policy =
     (let name = reb_target_name (cb_metadata b) in
      case bt_get compiled name of
        None \<Rightarrow> Inr (bt_insert name b compiled)
      | Some existing \<Rightarrow>
          (if policy = ExplicitOverride \<and> cb_override_policy b = ReplaceSameClass
              \<and> reb_class (cb_metadata existing) = reb_class (cb_metadata b)
              \<and> reb_origin (cb_metadata existing) < reb_origin (cb_metadata b)
           then Inr (bt_insert name b compiled) else Inl (EnvironmentCollision name)))"

definition compile_binding ::
    "environment_binding_spec \<Rightarrow> string option \<Rightarrow> compiled_binding" where
  "compile_binding b v =
     \<lparr>cb_value = v,
      cb_metadata = \<lparr>reb_target_name = ebs_target_name b, reb_class = ebs_class b,
        reb_origin = ebs_origin b, reb_scope = ebs_scope b, reb_lifetime = ebs_lifetime b,
        reb_source_kind = source_kind (ebs_source b)\<rparr>,
      cb_override_policy = ebs_override_policy b\<rparr>"

definition add_binding ::
    "context_crate \<Rightarrow> execution_context_spec \<Rightarrow> execution_context_inputs \<Rightarrow> binding_map
      \<Rightarrow> environment_binding_spec \<Rightarrow> execution_context_error + binding_map" where
  "add_binding C spec inputs compiled b =
     and_then (validate_binding spec b) (\<lambda>_.
     and_then (resolve_binding_value C spec b inputs) (\<lambda>v.
       insert_binding compiled (compile_binding b v) (ep_collision_policy (ecs_environment spec))))"

definition check_credential ::
    "string list \<Rightarrow> credential_requirement \<Rightarrow> execution_context_error + string list" where
  "check_credential ids c =
     (if crd_binding_id c = [] \<or> crd_target_name c = [] \<or> crd_audience c = []
         \<or> ref_provider_id (crd_reference c) = [] \<or> ref_secret_id (crd_reference c) = []
      then Inl InvalidCredentialRequirement
      else if crd_binding_id c \<in> set ids then Inl (DuplicateCredentialBinding (crd_binding_id c))
      else Inr (crd_binding_id c # ids))"

definition validate_credentials :: "credential_requirement list \<Rightarrow> execution_context_error + unit" where
  "validate_credentials cs = and_then (try_fold check_credential [] cs) (\<lambda>_. Inr ())"

section \<open>Compilation\<close>

definition digest_environment ::
    "context_crate \<Rightarrow> bool \<Rightarrow> (string, string) btree \<Rightarrow> resolved_environment_binding list
      \<Rightarrow> execution_context_error + environment_plan_digest" where
  "digest_environment C clear_inherited variables bindings =
     and_then (ok_or (environment_json C clear_inherited variables bindings) ContextJson) (\<lambda>bytes.
       map_err ContextDigestError (parse_digest EnvironmentPlanDigest (hex_lower (context_sha256 C bytes))))"

definition digest_context ::
    "context_crate \<Rightarrow> execution_context_spec \<Rightarrow> environment_plan_digest \<Rightarrow> execution_context_error + context_digest" where
  "digest_context C spec environment_digest =
     and_then (ok_or (context_json C spec environment_digest) ContextJson) (\<lambda>bytes.
       map_err ContextDigestError (parse_digest ContextDigest (hex_lower (context_sha256 C bytes))))"

definition binding_key :: "context_crate \<Rightarrow> environment_binding_spec \<Rightarrow> environment_binding_origin \<times> string \<times> string" where
  "binding_key C b = (ebs_origin b, ebs_target_name b, source_sort_key C (ebs_source b))"

definition environment_variables :: "binding_map \<Rightarrow> (string, string) btree" where
  "environment_variables compiled =
     List.map_filter (\<lambda>(name, b). map_option (\<lambda>v. (name, v)) (cb_value b)) compiled"

definition environment_bytes :: "(string, string) btree \<Rightarrow> nat" where
  "environment_bytes variables = sum_list (map (\<lambda>(name, v). length name + length v) variables)"

text \<open>The loop over the bindings, runtime bindings first.\<close>

definition compile_bindings ::
    "context_crate \<Rightarrow> execution_context_spec \<Rightarrow> execution_context_inputs \<Rightarrow> execution_context_error + binding_map" where
  "compile_bindings C canonical inputs =
     and_then (runtime_bindings canonical) (\<lambda>runtime.
     and_then (try_fold (\<lambda>m b. insert_binding m b ExplicitOverride) [] runtime) (\<lambda>compiled.
       try_fold (add_binding C canonical inputs) compiled (ep_bindings (ecs_environment canonical))))"

definition resolved_sandbox ::
    "bool \<Rightarrow> (string, string) btree \<Rightarrow> sandbox_profile option \<Rightarrow> execution_context_error + sandbox_profile option" where
  "resolved_sandbox clear_inherited variables sandbox = (case sandbox of
       None \<Rightarrow> Inr None
     | Some p \<Rightarrow> and_then (map_err ContextSandbox (canonicalize_sandbox_profile
           (p\<lparr>sp_environment := \<lparr>sep_clear_inherited = clear_inherited, sep_variables = variables\<rparr>\<rparr>)))
         (\<lambda>p. Inr (Some p)))"

definition binding_receipt :: "resolved_environment_binding \<Rightarrow> context_binding_receipt" where
  "binding_receipt b =
     \<lparr>cbr_target_name = reb_target_name b, cbr_class = reb_class b, cbr_origin = reb_origin b,
      cbr_scope = reb_scope b, cbr_lifetime = reb_lifetime b, cbr_source_kind = reb_source_kind b\<rparr>"

definition compile_execution_context ::
    "context_crate \<Rightarrow> execution_context_spec \<Rightarrow> execution_context_inputs
      \<Rightarrow> execution_context_error + (resolved_execution_context \<times> context_receipt)" where
  "compile_execution_context C spec inputs =
     and_then (canonicalize_spec spec (eci_allow_user_mode inputs)) (\<lambda>canonical0.
     let canonical = canonical0\<lparr>ecs_environment := (ecs_environment canonical0)\<lparr>ep_bindings :=
           sort_key (binding_key C) (ep_bindings (ecs_environment canonical0))\<rparr>\<rparr> in
     and_then (compile_bindings C canonical inputs) (\<lambda>compiled.
     and_then (validate_credentials (ecs_credentials canonical)) (\<lambda>_.
     let variables = environment_variables compiled in
     if environment_bytes variables > MAX_ENVIRONMENT_BYTES then Inl EnvironmentTooLarge
     else let metadata = map (\<lambda>(_, b). cb_metadata b) compiled;
              clear_inherited = (ecs_mode canonical \<noteq> execution_mode.User) in
     and_then (digest_environment C clear_inherited variables metadata) (\<lambda>environment_digest.
     and_then (resolved_sandbox clear_inherited variables (ecs_sandbox canonical)) (\<lambda>sandbox.
     let canonical = canonical\<lparr>ecs_sandbox := sandbox\<rparr> in
     and_then (digest_context C canonical environment_digest) (\<lambda>digest.
       Inr (\<lparr>rec_schema_version = ecs_schema_version canonical,
             rec_context_id = ecs_context_id canonical,
             rec_context_revision = ecs_context_revision canonical,
             rec_mode = ecs_mode canonical,
             rec_context_digest = digest,
             rec_workspace = ecs_workspace canonical,
             rec_runtime = ecs_runtime canonical,
             rec_shell = ecs_shell canonical,
             rec_environment = \<lparr>rep_clear_inherited = clear_inherited, rep_variables = variables,
               rep_bindings = metadata, rep_digest = environment_digest\<rparr>,
             rec_credential_bindings = ecs_credentials canonical,
             rec_requested_sandbox = ecs_sandbox canonical\<rparr>,
            \<lparr>crc_schema_version = EXECUTION_CONTEXT_SCHEMA_VERSION,
             crc_context_id = ecs_context_id canonical,
             crc_context_revision = ecs_context_revision canonical,
             crc_mode = ecs_mode canonical,
             crc_context_digest = digest,
             crc_environment_digest = environment_digest,
             crc_clear_inherited = clear_inherited,
             crc_bindings = map binding_receipt metadata,
             crc_credential_bindings = ecs_credentials canonical\<rparr>)))))))"

text \<open>The first variable of the command that the context does not have with that value.\<close>

definition check_command_environment ::
    "(string, string) btree \<Rightarrow> (string, string) btree \<Rightarrow> execution_authorization_error + unit" where
  "check_command_environment variables env = try_fold (\<lambda>_ (name, v).
     if bt_get variables name \<noteq> Some v then Inl (EnvironmentNotInContext name) else Inr ()) () env"

definition compile_authorized_execution_plan ::
    "context_crate \<Rightarrow> execution_authorization_request \<Rightarrow> execution_context_inputs
      \<Rightarrow> (sandbox_compile_request \<Rightarrow> sandbox_error + sandbox_launch_plan)
      \<Rightarrow> execution_authorization_error + authorized_execution_plan" where
  "compile_authorized_execution_plan C request inputs launcher =
     (if ear_expires_at_ms request \<le> ear_issued_at_ms request then Inl InvalidLeaseLifetime
      else and_then (map_err Context (compile_execution_context C (ear_context request) inputs))
        (\<lambda>(context, receipt).
      if rec_mode context = execution_mode.User then Inl AuthorizationUserModeDenied
      else if rec_credential_bindings context \<noteq> [] then Inl CredentialsNotMaterialized
      else and_then (ok_or (rec_shell context) ShellRequired) (\<lambda>shell.
           and_then (map_err AuthorizationSandbox (canonicalize_terminal_command (ear_command request))) (\<lambda>command.
      if \<not> path_eq (tc_program command) (scs_executable shell) then Inl ShellExecutableMismatch
      else if \<not> (case tc_cwd command of None \<Rightarrow> False
                | Some cwd \<Rightarrow> path_eq cwd (wcs_working_directory (rec_workspace context)))
      then Inl WorkingDirectoryMismatch
      else let variables = rep_variables (rec_environment context) in
           and_then (check_command_environment variables (tc_env command)) (\<lambda>_.
           and_then (ok_or (rec_requested_sandbox context) AuthorizationSandboxRequired) (\<lambda>profile.
           and_then (map_err AuthorizationSandbox (launcher
             \<lparr>scr_operation_id = ear_operation_id request,
              scr_operation_revision = ear_operation_revision request,
              scr_actor = ear_actor request,
              scr_command = command\<lparr>tc_env := variables\<rparr>,
              scr_profile = profile\<rparr>)) (\<lambda>sandbox.
      let environment = sp_environment (csp_profile (slp_compiled sandbox)) in
      if sep_clear_inherited environment \<noteq> rep_clear_inherited (rec_environment context)
         \<or> sep_variables environment \<noteq> variables
      then Inl CompiledEnvironmentMismatch
      else Inr
        \<lparr>aep_context = context,
         aep_context_receipt = receipt,
         aep_sandbox = sandbox,
         aep_capability_lease =
           \<lparr>ecl_context_digest = rec_context_digest context,
            ecl_lease =
              \<lparr>cl_lease_id = ear_lease_id request,
               cl_operation_id = ear_operation_id request,
               cl_operation_revision = ear_operation_revision request,
               cl_action_digest = csp_action_digest (slp_compiled sandbox),
               cl_profile_digest = csp_profile_digest (slp_compiled sandbox),
               cl_actor = ear_actor request,
               cl_issued_at_ms = ear_issued_at_ms request,
               cl_expires_at_ms = ear_expires_at_ms request,
               cl_one_use = True\<rparr>\<rparr>\<rparr>)))))))"

end
