(* ===== verification/Exec_Context_Safety.thy ===== *)
theory Exec_Context_Safety
  imports Exec_Context
begin

text \<open>
  What the execution-context compiler guarantees: the environment of a context is closed and
  each variable of it has a permitted origin, nothing of the host's environment reaches a
  context outside user mode, and an authorized plan carries a lease that the ledger takes once.
\<close>

section \<open>Where variables come from\<close>

definition runtime_names :: "string set" where
  "runtime_names = {''PATH'', ''HOME'', ''TMPDIR'', ''LANG'', ''TZ'', ''TERM''}"

definition binding_ok ::
    "context_crate \<Rightarrow> execution_context_spec \<Rightarrow> execution_context_inputs \<Rightarrow> environment_binding_spec set
      \<Rightarrow> string \<Rightarrow> string option \<Rightarrow> bool" where
  "binding_ok C spec inputs bs name v \<longleftrightarrow> name \<in> runtime_names \<or>
     (\<exists>b \<in> bs. ebs_target_name b = name \<and> validate_binding spec b = Inr ()
        \<and> resolve_binding_value C spec b inputs = Inr v)"

definition bindings_ok ::
    "context_crate \<Rightarrow> execution_context_spec \<Rightarrow> execution_context_inputs \<Rightarrow> environment_binding_spec set
      \<Rightarrow> binding_map \<Rightarrow> bool" where
  "bindings_ok C spec inputs bs m \<longleftrightarrow> bt_wf m
     \<and> (\<forall>(name, cb) \<in> set m. binding_ok C spec inputs bs name (cb_value cb))"

lemma insert_binding_ok:
  assumes "bindings_ok C spec inputs bs m" and "insert_binding m cb policy = Inr m'"
    and "binding_ok C spec inputs bs (reb_target_name (cb_metadata cb)) (cb_value cb)"
  shows "bindings_ok C spec inputs bs m'"
proof -
  have m': "m' = bt_insert (reb_target_name (cb_metadata cb)) cb m"
    using assms(2) by (auto simp: insert_binding_def Let_def split: option.splits if_splits)
  have wf: "bt_wf m" using assms(1) by (simp add: bindings_ok_def)
  then show ?thesis
    using assms(1,3) by (auto simp: m' bindings_ok_def bt_wf_insert bt.entries_insert)
qed

lemma add_binding_ok:
  assumes "bindings_ok C spec inputs bs m" and "add_binding C spec inputs m b = Inr m'" and "b \<in> bs"
  shows "bindings_ok C spec inputs bs m'"
proof -
  obtain v where "validate_binding spec b = Inr ()" and "resolve_binding_value C spec b inputs = Inr v"
    and ins: "insert_binding m (compile_binding b v) (ep_collision_policy (ecs_environment spec)) = Inr m'"
    using assms(2) by (auto simp: add_binding_def result_simps)
  then have "binding_ok C spec inputs bs (reb_target_name (cb_metadata (compile_binding b v)))
      (cb_value (compile_binding b v))"
    using assms(3) by (auto simp: binding_ok_def compile_binding_def)
  with insert_binding_ok [OF assms(1) ins] show ?thesis by blast
qed

lemma fold_bindings_ok:
  "\<lbrakk>bindings_ok C spec inputs bs m; try_fold (add_binding C spec inputs) m xs = Inr m'; set xs \<subseteq> bs\<rbrakk>
    \<Longrightarrow> bindings_ok C spec inputs bs m'"
  by (induction xs arbitrary: m) (auto simp: result_simps intro: add_binding_ok)

lemma fold_runtime_ok:
  "\<lbrakk>bindings_ok C spec inputs bs m; try_fold (\<lambda>m b. insert_binding m b policy) m xs = Inr m';
    \<forall>x \<in> set xs. reb_target_name (cb_metadata x) \<in> runtime_names\<rbrakk>
    \<Longrightarrow> bindings_ok C spec inputs bs m'"
proof (induction xs arbitrary: m)
  case (Cons x xs)
  then obtain m1 where m1: "insert_binding m x policy = Inr m1"
    and rest: "try_fold (\<lambda>m b. insert_binding m b policy) m1 xs = Inr m'"
    by (auto simp: result_simps)
  have "bindings_ok C spec inputs bs m1"
    using Cons.prems by (intro insert_binding_ok [OF Cons.prems(1) m1]) (simp add: binding_ok_def)
  with Cons rest show ?case by simp
qed simp

lemma compile_bindings_ok:
  assumes "compile_bindings C spec inputs = Inr m"
  shows "bindings_ok C spec inputs (set (ep_bindings (ecs_environment spec))) m"
proof -
  obtain runtime m0 where r: "runtime_bindings spec = Inr runtime"
    and m0: "try_fold (\<lambda>m b. insert_binding m b ExplicitOverride) [] runtime = Inr m0"
    and m: "try_fold (add_binding C spec inputs) m0 (ep_bindings (ecs_environment spec)) = Inr m"
    using assms by (auto simp: compile_bindings_def result_simps)
  have "\<forall>x \<in> set runtime. reb_target_name (cb_metadata x) \<in> runtime_names"
    using r by (auto simp: runtime_bindings_def result_simps runtime_binding_def runtime_names_def)
  then have "bindings_ok C spec inputs (set (ep_bindings (ecs_environment spec))) m0"
    using fold_runtime_ok [OF _ m0] by (simp add: bindings_ok_def)
  then show ?thesis using fold_bindings_ok [OF _ m] by simp
qed

text \<open>What a validated binding may be, outside user mode.\<close>

definition binding_permitted :: "environment_binding_spec \<Rightarrow> string option \<Rightarrow> bool" where
  "binding_permitted b v \<longleftrightarrow>
     (let c = classify_environment_name (ebs_target_name b) in
      c \<notin> {ShellStartup, LoaderInjection}
      \<and> (c = NetworkControl \<longrightarrow> ebs_origin b = Authority)
      \<and> (c = AuthorityHandle \<longrightarrow> ebs_origin b \<in> {Authority, CredentialBroker})
      \<and> (case ebs_source b of
           Literal l \<Rightarrow> c \<noteq> Credential \<and> v = Some l
         | HostVariable _ \<Rightarrow> False
         | SecretReference _ \<Rightarrow> v = None
         | _ \<Rightarrow> True))"

lemma validate_binding_Inr:
  assumes "validate_binding spec b = Inr ()"
  shows "classify_environment_name (ebs_target_name b) \<in> {ToolConfiguration, ebs_class b}"
    and "ecs_mode spec = execution_mode.User \<or> ebs_class b \<notin> {ShellStartup, LoaderInjection}"
    and "ebs_class b = NetworkControl \<Longrightarrow> ebs_origin b = Authority"
    and "ebs_class b = AuthorityHandle \<Longrightarrow> ebs_origin b \<in> {Authority, CredentialBroker}"
    and "ebs_source b = Literal l \<Longrightarrow> ebs_class b \<noteq> Credential"
    and "ebs_source b = HostVariable h \<Longrightarrow> ecs_mode spec = execution_mode.User"
  using assms unfolding validate_binding_def Let_def and_then_Inr_iff if_Inl_Inr_iff
  by (simp_all split: if_splits)

lemma resolve_binding_Inr:
  assumes "resolve_binding_value C spec b inputs = Inr v"
  shows "ebs_source b = Literal l \<Longrightarrow> v = Some l" and "ebs_source b = SecretReference r \<Longrightarrow> v = None"
  using assms by (auto simp: resolve_binding_value_def checked_value_def split: if_splits)

lemma validated_permitted:
  assumes "validate_binding spec b = Inr ()" and "ecs_mode spec \<noteq> execution_mode.User"
    and "resolve_binding_value C spec b inputs = Inr v"
  shows "binding_permitted b v"
  unfolding binding_permitted_def Let_def
  using validate_binding_Inr [OF assms(1)] resolve_binding_Inr [OF assms(3)] assms(2)
  by (intro conjI; cases "ebs_source b") auto

lemma runtime_names_class: "name \<in> runtime_names \<Longrightarrow> classify_environment_name name = RuntimeSemantic"
  by (simp only: runtime_names_def insert_iff empty_iff, elim disjE)
    (simp_all add: classify_environment_name_def)

section \<open>The host environment\<close>

lemma resolve_env_file_host:
  "resolve_env_file C spec (inputs\<lparr>eci_host_environment := h\<rparr>) path key d = resolve_env_file C spec inputs path key d"
  by (simp add: resolve_env_file_def cong: if_cong)

lemma add_binding_host:
  assumes "ecs_mode spec \<noteq> execution_mode.User"
  shows "add_binding C spec (inputs\<lparr>eci_host_environment := h\<rparr>) = add_binding C spec inputs"
proof (intro ext)
  fix m b
  have "validate_binding spec b = Inr () \<Longrightarrow>
      resolve_binding_value C spec b (inputs\<lparr>eci_host_environment := h\<rparr>) = resolve_binding_value C spec b inputs"
    using assms validate_binding_Inr(6) [of spec b]
    by (cases "ebs_source b") (auto simp: resolve_binding_value_def resolve_env_file_host)
  then show "add_binding C spec (inputs\<lparr>eci_host_environment := h\<rparr>) m b = add_binding C spec inputs m b"
    by (cases "validate_binding spec b") (simp_all add: add_binding_def)
qed

lemma canonicalize_spec_mode: "canonicalize_spec spec allow = Inr c \<Longrightarrow> ecs_mode c = ecs_mode spec"
  by (auto simp: canonicalize_spec_def result_simps split: if_splits)

lemma canonicalize_spec_environment:
  "canonicalize_spec spec allow = Inr c \<Longrightarrow> ecs_environment c = ecs_environment spec"
  by (auto simp: canonicalize_spec_def result_simps split: if_splits)

section \<open>Compiled contexts\<close>

lemma compile_context_parts:
  assumes "compile_execution_context C spec inputs = Inr (ctx, receipt)"
  obtains canonical compiled where
    "ecs_mode canonical = ecs_mode spec"
    and "set (ep_bindings (ecs_environment canonical)) = set (ep_bindings (ecs_environment spec))"
    and "compile_bindings C canonical inputs = Inr compiled"
    and "rep_variables (rec_environment ctx) = environment_variables compiled"
    and "rec_mode ctx = ecs_mode spec"
    and "rep_clear_inherited (rec_environment ctx) = (ecs_mode spec \<noteq> execution_mode.User)"
    and "crc_context_digest receipt = rec_context_digest ctx"
    and "environment_bytes (environment_variables compiled) \<le> MAX_ENVIRONMENT_BYTES"
proof -
  obtain c0 where c0: "canonicalize_spec spec (eci_allow_user_mode inputs) = Inr c0"
    using assms by (auto simp: compile_execution_context_def result_simps)
  define canonical where "canonical = c0\<lparr>ecs_environment := (ecs_environment c0)\<lparr>ep_bindings :=
           sort_key (binding_key C) (ep_bindings (ecs_environment c0))\<rparr>\<rparr>"
  obtain compiled where compiled: "compile_bindings C canonical inputs = Inr compiled"
    using assms c0 by (auto simp: compile_execution_context_def result_simps canonical_def Let_def)
  show ?thesis
    using assms c0 compiled canonicalize_spec_mode [OF c0] canonicalize_spec_environment [OF c0]
    by (intro that [of canonical compiled])
      (auto simp: compile_execution_context_def result_simps canonical_def Let_def not_less
        split: if_splits)
qed

lemma environment_variables_in:
  "(name, v) \<in> set (environment_variables m) \<longleftrightarrow> (\<exists>cb. (name, cb) \<in> set m \<and> cb_value cb = Some v)"
  by (force simp: environment_variables_def List.map_filter_def)

lemma compile_bindings_host:
  assumes "ecs_mode spec \<noteq> execution_mode.User"
  shows "compile_bindings C spec (inputs\<lparr>eci_host_environment := h\<rparr>) = compile_bindings C spec inputs"
  by (simp add: compile_bindings_def add_binding_host [OF assms])

text \<open>The parts of an authorized plan.\<close>

lemma authorized_plan_parts:
  assumes "compile_authorized_execution_plan C request inputs launcher = Inr plan"
  shows "ear_issued_at_ms request < ear_expires_at_ms request
    \<and> compile_execution_context C (ear_context request) inputs = Inr (aep_context plan, aep_context_receipt plan)
    \<and> rec_mode (aep_context plan) \<noteq> execution_mode.User
    \<and> sep_clear_inherited (sp_environment (csp_profile (slp_compiled (aep_sandbox plan)))) =
        rep_clear_inherited (rec_environment (aep_context plan))
    \<and> sep_variables (sp_environment (csp_profile (slp_compiled (aep_sandbox plan)))) =
        rep_variables (rec_environment (aep_context plan))
    \<and> aep_capability_lease plan = \<lparr>ecl_context_digest = rec_context_digest (aep_context plan),
        ecl_lease = \<lparr>cl_lease_id = ear_lease_id request, cl_operation_id = ear_operation_id request,
          cl_operation_revision = ear_operation_revision request,
          cl_action_digest = csp_action_digest (slp_compiled (aep_sandbox plan)),
          cl_profile_digest = csp_profile_digest (slp_compiled (aep_sandbox plan)),
          cl_actor = ear_actor request, cl_issued_at_ms = ear_issued_at_ms request,
          cl_expires_at_ms = ear_expires_at_ms request, cl_one_use = True\<rparr>\<rparr>"
  using assms unfolding compile_authorized_execution_plan_def
  by (clarsimp simp: result_simps Let_def not_le split: prod.splits if_splits)

section \<open>Samples\<close>

definition sample_context_crate :: context_crate where
  "sample_context_crate =
     \<lparr>environment_json = (\<lambda>_ _ _. Some []), context_json = (\<lambda>_ _. Some []),
      source_json = (\<lambda>_. Some []), context_sha256 = (\<lambda>_. replicate 32 0)\<rparr>"

definition sample_binding :: environment_binding_spec where
  "sample_binding =
     \<lparr>ebs_target_name = ''RUST_LOG'', ebs_source = Literal ''debug'', ebs_class = ToolConfiguration,
      ebs_origin = Invocation, ebs_scope = ProcessTree, ebs_lifetime = binding_lifetime.Operation,
      ebs_override_policy = ReplaceSameClass\<rparr>"

definition sample_context_spec :: execution_context_spec where
  "sample_context_spec =
     \<lparr>ecs_schema_version = 1, ecs_context_id = ''operation:1'', ecs_context_revision = 4,
      ecs_mode = Hermetic,
      ecs_workspace = \<lparr>wcs_root = ''/w'', wcs_working_directory = ''/w'', wcs_runtime_home = ''/t'',
        wcs_runtime_temp = ''/t''\<rparr>,
      ecs_runtime = \<lparr>res_path = [''/bin''], res_locale = ''C'', res_timezone = ''UTC'', res_terminal = ''xterm''\<rparr>,
      ecs_shell = Some \<lparr>scs_executable = ''/bin/ls'', scs_invocation = ''pty'', scs_startup_files = False,
        scs_pty = True\<rparr>,
      ecs_environment = \<lparr>ep_bindings = [sample_binding], ep_collision_policy = ExplicitOverride\<rparr>,
      ecs_credentials = [],
      ecs_sandbox = Some (sample_profile sample_rules)\<rparr>"

lemmas context_defs = canonicalize_spec_def canonical_workspace_def canonical_shell_def
  check_runtime_values_def push_runtime_path_def normalize_context_path_def context_id_char_def
  MAX_CONTEXT_ID_BYTES_def MAX_ENVIRONMENT_BINDINGS_def EXECUTION_CONTEXT_SCHEMA_VERSION_def

lemmas path_defs = is_absolute_def components_def segment_component_def path_push_def path_eq_def
  path_starts_with_def component_str_def

lemma nul_iff: "nul = c \<longleftrightarrow> (of_char c :: nat) = 0"
  by (auto simp: nul_def) (metis char_of_char)

lemma sample_canonical_spec: "canonicalize_spec sample_context_spec False = Inr sample_context_spec"
  by (simp add: sample_context_spec_def context_defs path_defs map_filter_simps is_ascii_alphanumeric_def
      is_ascii_alphabetic_def is_ascii_digit_def is_ascii_lower_def is_ascii_upper_def nul_iff)

lemmas ascii_defs = is_ascii_alphanumeric_def is_ascii_alphabetic_def is_ascii_digit_def
  is_ascii_lower_def is_ascii_upper_def

lemma sample_binding_valid: "validate_binding sample_context_spec sample_binding = Inr ()"
  by (simp add: validate_binding_def sample_context_spec_def sample_binding_def ascii_defs
      validate_environment_name_def classify_environment_name_def starts_with_def ends_with_def
      RESERVED_ENVIRONMENT_NAMES_def Let_def)

lemma sample_binding_value:
  "resolve_binding_value C spec sample_binding inputs = Inr (Some ''debug'')"
  by (simp add: resolve_binding_value_def checked_value_def sample_binding_def nul_iff)

lemma sample_bindings_compile:
  "\<exists>m. compile_bindings sample_context_crate sample_context_spec default_context_inputs = Inr m
     \<and> environment_variables m = [(''HOME'', ''/t''), (''LANG'', ''C''), (''PATH'', ''/bin''),
         (''RUST_LOG'', ''debug''), (''TERM'', ''xterm''), (''TMPDIR'', ''/t''), (''TZ'', ''UTC'')]"
proof -
  have "ep_bindings (ecs_environment sample_context_spec) = [sample_binding]"
    by (simp add: sample_context_spec_def)
  then show ?thesis
    by (simp add: compile_bindings_def add_binding_def sample_binding_valid sample_binding_value)
      (simp add: runtime_bindings_def join_paths_def sample_context_spec_def runtime_binding_def
        insert_binding_def compile_binding_def sample_binding_def environment_variables_def
        map_filter_simps Let_def)
qed

definition sample_variables :: "(string, string) btree" where
  "sample_variables = [(''HOME'', ''/t''), (''LANG'', ''C''), (''PATH'', ''/bin''),
     (''RUST_LOG'', ''debug''), (''TERM'', ''xterm''), (''TMPDIR'', ''/t''), (''TZ'', ''UTC'')]"

definition sample_resolved_profile :: sandbox_profile where
  "sample_resolved_profile = (sample_profile sample_canonical)\<lparr>sp_environment :=
     \<lparr>sep_clear_inherited = True, sep_variables = sample_variables\<rparr>\<rparr>"

lemma sample_resolved_sandbox:
  "resolved_sandbox True sample_variables (Some (sample_profile sample_rules)) = Inr (Some sample_resolved_profile)"
proof -
  have "check_environment sample_variables = Inr ()"
    by (simp add: check_environment_def sample_variables_def nul_iff)
  then show ?thesis
    by (simp add: resolved_sandbox_def canonicalize_sandbox_profile_def sample_profile_def
      sample_resolved_profile_def canonical_rules_def add_rule_def sample_rules_def sample_canonical_def
      normalize_absolute_path_def path_defs map_filter_simps path_key_def component_key_def stricter_access_def
      check_mach_services_def canonical_network_def sort_paths_def sort_strings_def)
qed

lemma sample_context_compiles:
  "\<exists>ctx receipt. compile_execution_context sample_context_crate sample_context_spec default_context_inputs
      = Inr (ctx, receipt) \<and> rep_variables (rec_environment ctx) = sample_variables
    \<and> rep_clear_inherited (rec_environment ctx) \<and> rec_mode ctx = Hermetic
    \<and> rec_credential_bindings ctx = [] \<and> rec_shell ctx = ecs_shell sample_context_spec
    \<and> rec_workspace ctx = ecs_workspace sample_context_spec
    \<and> rec_requested_sandbox ctx = Some sample_resolved_profile"
proof -
  obtain m where m: "compile_bindings sample_context_crate sample_context_spec default_context_inputs = Inr m"
    "environment_variables m = sample_variables"
    using sample_bindings_compile by (auto simp: sample_variables_def)
  have sorted: "sample_context_spec\<lparr>ecs_environment := (ecs_environment sample_context_spec)\<lparr>ep_bindings :=
      sort_key (binding_key sample_context_crate) (ep_bindings (ecs_environment sample_context_spec))\<rparr>\<rparr>
      = sample_context_spec"
    by (simp add: sample_context_spec_def)
  have digest: "parse_digest mk (hex_lower (replicate 32 0)) = Inr (mk (hex_lower (replicate 32 0)))" for mk
    using is_sha256_hex_lower [of "replicate 32 0"] by (simp add: parse_digest_Inr_iff)
  have crate: "environment_json sample_context_crate b v l = Some []"
    "context_json sample_context_crate spec d = Some []"
    "context_sha256 sample_context_crate bs = replicate 32 0" for b v l spec d bs
    by (simp_all add: sample_context_crate_def)
  have user: "eci_allow_user_mode default_context_inputs = False"
    by (simp add: default_context_inputs_def)
  have parts: "ecs_mode sample_context_spec = Hermetic" "ecs_credentials sample_context_spec = []"
    "ecs_sandbox sample_context_spec = Some (sample_profile sample_rules)"
    by (simp_all add: sample_context_spec_def)
  have size: "environment_bytes sample_variables = 54"
    by (simp add: environment_bytes_def sample_variables_def)
  show ?thesis
    unfolding compile_execution_context_def user sample_canonical_spec and_then_simps Let_def sorted
    by (simp add: m parts size validate_credentials_def MAX_ENVIRONMENT_BYTES_def digest_environment_def
        sample_resolved_sandbox digest_context_def digest crate)
qed

text \<open>A backend that compiles to what it was asked for, with fixed digests.\<close>

definition sample_launcher :: "sandbox_compile_request \<Rightarrow> sandbox_error + sandbox_launch_plan" where
  "sample_launcher request = Inr
     \<lparr>slp_command = scr_command request,
      slp_compiled = \<lparr>csp_backend = MacOsSeatbelt, csp_enforced = True, csp_profile = scr_profile request,
        csp_profile_digest = sample_digest, csp_action_digest = ActionDigest ''a''\<rparr>,
      slp_clear_environment = True\<rparr>"

definition sample_authorization :: execution_authorization_request where
  "sample_authorization =
     \<lparr>ear_operation_id = OperationId 1, ear_operation_revision = 4, ear_actor = actor.System,
      ear_context = sample_context_spec,
      ear_command = \<lparr>tc_program = ''/bin/ls'', tc_args = [''-l''], tc_cwd = Some ''/w'',
        tc_env = [(''RUST_LOG'', ''debug'')]\<rparr>,
      ear_lease_id = SandboxLeaseId 7, ear_issued_at_ms = 100, ear_expires_at_ms = 400\<rparr>"

lemma sample_command: "canonicalize_terminal_command (ear_command sample_authorization) = Inr (ear_command sample_authorization)"
  by (simp add: canonicalize_terminal_command_def sample_authorization_def normalize_absolute_path_def path_defs
      map_filter_simps check_environment_def nul_iff)

lemma sample_command_environment:
  "check_command_environment sample_variables (tc_env (ear_command sample_authorization)) = Inr ()"
  by (simp add: check_command_environment_def sample_variables_def sample_authorization_def)

lemma sample_plan_compiles:
  "\<exists>plan. compile_authorized_execution_plan sample_context_crate sample_authorization default_context_inputs
      sample_launcher = Inr plan"
proof -
  obtain ctx receipt where ctx: "compile_execution_context sample_context_crate sample_context_spec
      default_context_inputs = Inr (ctx, receipt)"
    "rep_variables (rec_environment ctx) = sample_variables" "rep_clear_inherited (rec_environment ctx)"
    "rec_mode ctx = Hermetic" "rec_credential_bindings ctx = []" "rec_shell ctx = ecs_shell sample_context_spec"
    "rec_workspace ctx = ecs_workspace sample_context_spec"
    "rec_requested_sandbox ctx = Some sample_resolved_profile"
    using sample_context_compiles by blast
  have request: "ear_context sample_authorization = sample_context_spec"
    "ear_issued_at_ms sample_authorization < ear_expires_at_ms sample_authorization"
    by (simp_all add: sample_authorization_def)
  have paths: "\<exists>shell. ecs_shell sample_context_spec = Some shell \<and>
      path_eq (tc_program (ear_command sample_authorization)) (scs_executable shell)"
    "tc_cwd (ear_command sample_authorization) = Some (wcs_working_directory (ecs_workspace sample_context_spec))"
    by (simp_all add: sample_context_spec_def sample_authorization_def path_defs)
  have env: "sp_environment sample_resolved_profile = \<lparr>sep_clear_inherited = True, sep_variables = sample_variables\<rparr>"
    by (simp add: sample_resolved_profile_def)
  show ?thesis
    using paths request
    by (auto simp: compile_authorized_execution_plan_def ctx sample_command sample_command_environment
        sample_launcher_def env Let_def path_eq_def not_le)
qed

section \<open>Properties\<close>

text \<open>
  Outside user mode a context does not depend on the daemon's own environment: the result,
  error or not, is the same whatever variables the host process has.
\<close>

lemma context_ignores_host_environment:
  assumes "ecs_mode spec \<noteq> execution_mode.User"
  shows "compile_execution_context C spec (inputs\<lparr>eci_host_environment := h\<rparr>)
    = compile_execution_context C spec inputs"
proof -
  let ?sorted = "\<lambda>c. c\<lparr>ecs_environment := (ecs_environment c)\<lparr>ep_bindings :=
      sort_key (binding_key C) (ep_bindings (ecs_environment c))\<rparr>\<rparr>"
  show ?thesis
  proof (cases "canonicalize_spec spec (eci_allow_user_mode inputs)")
    case (Inr c)
    then have "ecs_mode (?sorted c) \<noteq> execution_mode.User"
      using assms canonicalize_spec_mode [OF Inr] by simp
    then have "compile_bindings C (?sorted c) (inputs\<lparr>eci_host_environment := h\<rparr>) = compile_bindings C (?sorted c) inputs"
      by (rule compile_bindings_host)
    with Inr show ?thesis by (simp add: compile_execution_context_def Let_def)
  qed (simp add: compile_execution_context_def)
qed

text \<open>
  C15. The environment of a context is closed and its variables are permitted: outside user mode
  it is cleared, it fits its byte budget, and every variable is one of the six of the runtime
  profile or comes from a binding of the spec; then it never loads code into a shell or a
  process, a network variable was bound by the authority, a handle of authority by the authority
  or a broker, a credential never from a literal, and nothing from the host or a secret store.
\<close>

theorem context_environment_is_closed:
  assumes "compile_execution_context C spec inputs = Inr (ctx, receipt)"
    and "ecs_mode spec \<noteq> execution_mode.User"
  shows "rep_clear_inherited (rec_environment ctx)
    \<and> environment_bytes (rep_variables (rec_environment ctx)) \<le> MAX_ENVIRONMENT_BYTES
    \<and> (\<forall>(name, v) \<in> set (rep_variables (rec_environment ctx)).
        classify_environment_name name \<notin> {ShellStartup, LoaderInjection}
        \<and> (name \<in> runtime_names
           \<or> (\<exists>b \<in> set (ep_bindings (ecs_environment spec)).
                ebs_target_name b = name \<and> binding_permitted b (Some v))))"
proof -
  obtain canonical m where mode: "ecs_mode canonical = ecs_mode spec"
    and bs: "set (ep_bindings (ecs_environment canonical)) = set (ep_bindings (ecs_environment spec))"
    and m: "compile_bindings C canonical inputs = Inr m"
    and vars: "rep_variables (rec_environment ctx) = environment_variables m"
    and clear: "rep_clear_inherited (rec_environment ctx) = (ecs_mode spec \<noteq> execution_mode.User)"
    and size: "environment_bytes (environment_variables m) \<le> MAX_ENVIRONMENT_BYTES"
    using compile_context_parts [OF assms(1)] by metis
  have "classify_environment_name name \<notin> {ShellStartup, LoaderInjection}
      \<and> (name \<in> runtime_names \<or> (\<exists>b \<in> set (ep_bindings (ecs_environment spec)).
           ebs_target_name b = name \<and> binding_permitted b (Some v)))"
    if "(name, v) \<in> set (environment_variables m)" for name v
  proof -
    have "binding_ok C canonical inputs (set (ep_bindings (ecs_environment spec))) name (Some v)"
      using that compile_bindings_ok [OF m] bs unfolding environment_variables_in bindings_ok_def by fastforce
    then show ?thesis
      using assms(2) mode validated_permitted [of canonical _ C inputs] runtime_names_class [of name]
      unfolding binding_ok_def binding_permitted_def Let_def by fastforce
  qed
  with vars clear size assms(2) show ?thesis by auto
qed

theorem context_environment_is_closed_witness:
  "\<exists>ctx receipt. compile_execution_context sample_context_crate sample_context_spec default_context_inputs
      = Inr (ctx, receipt) \<and> rep_clear_inherited (rec_environment ctx)"
  using sample_context_compiles context_environment_is_closed [of sample_context_crate sample_context_spec]
  by (fastforce simp: sample_context_spec_def)

text \<open>
  C16. An authorized plan is what was authorized: it clears the environment, the profile the
  backend compiled has exactly the context's variables, and its lease names the request's
  operation, revision and actor and the compiled digests; a ledger without that id accepts it,
  one consumption that expects the same within its lifetime succeeds, and no second one does.
\<close>

theorem authorized_plan_has_one_use_lease:
  assumes "compile_authorized_execution_plan C request inputs launcher = Inr plan"
    and "ear_operation_revision request \<noteq> 0" and "ledger (ear_lease_id request) = None"
    and "ear_issued_at_ms request \<le> now" and "now < ear_expires_at_ms request"
  shows "sep_clear_inherited (sp_environment (csp_profile (slp_compiled (aep_sandbox plan))))
    \<and> sep_variables (sp_environment (csp_profile (slp_compiled (aep_sandbox plan)))) =
        rep_variables (rec_environment (aep_context plan))
    \<and> (\<exists>l. issue_lease ledger (aep_capability_lease plan) = Inr l
       \<and> (let x = \<lparr>sle_operation_id = ear_operation_id request,
              sle_operation_revision = ear_operation_revision request,
              sle_context_digest = rec_context_digest (aep_context plan),
              sle_action_digest = csp_action_digest (slp_compiled (aep_sandbox plan)),
              sle_profile_digest = csp_profile_digest (slp_compiled (aep_sandbox plan)),
              sle_actor = ear_actor request\<rparr>
          in \<exists>l'. consume_lease l (ear_lease_id request) x now = Inr (l', aep_capability_lease plan)
             \<and> consume_lease l' (ear_lease_id request) y now' = Inl (AlreadyConsumed (ear_lease_id request))))"
proof -
  note parts = authorized_plan_parts [OF assms(1)]
  have clear: "rep_clear_inherited (rec_environment (aep_context plan))"
    using compile_context_parts [of C "ear_context request" inputs] parts by metis
  show ?thesis
    using parts clear assms(2-5)
    by (simp add: issue_lease_def consume_lease_def Let_def not_le not_less)
qed

theorem authorized_plan_has_one_use_lease_witness:
  "\<exists>plan l. compile_authorized_execution_plan sample_context_crate sample_authorization default_context_inputs
      sample_launcher = Inr plan
    \<and> sep_clear_inherited (sp_environment (csp_profile (slp_compiled (aep_sandbox plan))))
    \<and> issue_lease Map.empty (aep_capability_lease plan) = Inr l"
proof -
  obtain plan where plan: "compile_authorized_execution_plan sample_context_crate sample_authorization
      default_context_inputs sample_launcher = Inr plan"
    using sample_plan_compiles by blast
  have "ear_operation_revision sample_authorization \<noteq> 0" "ear_issued_at_ms sample_authorization \<le> 200"
    "200 < ear_expires_at_ms sample_authorization"
    by (simp_all add: sample_authorization_def)
  from authorized_plan_has_one_use_lease [OF plan this(1) _ this(2,3), of Map.empty] plan
  show ?thesis by auto
qed

end
