(* ===== verification/Step.thy ===== *)
theory Step
  imports Prelude
begin

text \<open>
  Operations on a state, in the order the code runs them. An operation that returns an error
  keeps the effects it had before, as a method behind \<^verbatim>\<open>&self\<close> does. Every combinator
  stands for one construct of the source: \<open>bind_step\<close> for a statement with a question mark,
  \<open>attempt_step\<close> for a result that is matched on or thrown away, \<open>each_step\<close> for a loop
  whose body can fail.

  What holds of a whole operation follows from its parts: the locale at the end proves this once
  for any preorder between the states before and after.
\<close>

type_synonym ('s, 'e, 'a) step = "'s \<Rightarrow> ('e + 'a) \<times> 's"

definition return_step :: "'a \<Rightarrow> ('s, 'e, 'a) step" where
  "return_step a s = (Inr a, s)"

definition fail_step :: "'e \<Rightarrow> ('s, 'e, 'a) step" where
  "fail_step e s = (Inl e, s)"

definition lift_step :: "'e + 'a \<Rightarrow> ('s, 'e, 'a) step" where
  "lift_step r s = (r, s)"

definition read_step :: "('s \<Rightarrow> 'a) \<Rightarrow> ('s, 'e, 'a) step" where
  "read_step f s = (Inr (f s), s)"

definition update_step :: "('s \<Rightarrow> 's) \<Rightarrow> ('s, 'e, unit) step" where
  "update_step f s = (Inr (), f s)"

definition bind_step :: "('s, 'e, 'a) step \<Rightarrow> ('a \<Rightarrow> ('s, 'e, 'b) step) \<Rightarrow> ('s, 'e, 'b) step" where
  "bind_step m k s = (case m s of (Inl e, t) \<Rightarrow> (Inl e, t) | (Inr a, t) \<Rightarrow> k a t)"

definition then_step :: "('s, 'e, 'a) step \<Rightarrow> ('s, 'e, 'b) step \<Rightarrow> ('s, 'e, 'b) step" where
  "then_step m k = bind_step m (\<lambda>_. k)"

definition attempt_step :: "('s, 'e, 'a) step \<Rightarrow> ('s, 'f, 'e + 'a) step" where
  "attempt_step m s = (case m s of (r, t) \<Rightarrow> (Inr r, t))"

definition when_step :: "bool \<Rightarrow> ('s, 'e, unit) step \<Rightarrow> ('s, 'e, unit) step" where
  "when_step b m = (if b then m else return_step ())"

text \<open>A check that returns early with an error.\<close>

definition guard_step :: "bool \<Rightarrow> 'e \<Rightarrow> ('s, 'e, unit) step" where
  "guard_step b e = (if b then return_step () else fail_step e)"

primrec each_step :: "('x \<Rightarrow> ('s, 'e, unit) step) \<Rightarrow> 'x list \<Rightarrow> ('s, 'e, unit) step" where
  "each_step f [] = return_step ()"
| "each_step f (x # xs) = then_step (f x) (each_step f xs)"

text \<open>The same for an error handler: when the operation fails, clean up, and fail still.\<close>

definition on_error_step :: "('s, 'e, 'a) step \<Rightarrow> ('e \<Rightarrow> ('s, 'e, unit) step) \<Rightarrow> ('s, 'e, 'a) step" where
  "on_error_step m h = bind_step (attempt_step m) (\<lambda>r. case r of
       Inl e \<Rightarrow> then_step (h e) (fail_step e)
     | Inr a \<Rightarrow> return_step a)"

named_theorems step_simps \<open>running an operation\<close>

lemma step_runs [step_simps]:
  "return_step a s = (Inr a, s)" "fail_step e s = (Inl e, s)" "lift_step r s = (r, s)"
  "read_step f s = (Inr (f s), s)" "update_step u s = (Inr (), u s)"
  by (simp_all add: return_step_def fail_step_def lift_step_def read_step_def update_step_def)

lemma bind_step_run [step_simps]:
  "m s = (Inl e, t) \<Longrightarrow> bind_step m k s = (Inl e, t)"
  "m s = (Inr a, t) \<Longrightarrow> bind_step m k s = k a t"
  by (simp_all add: bind_step_def)

lemma bind_step_simps [step_simps]:
  "bind_step (return_step a) k = k a" "bind_step (fail_step e) k = fail_step e"
  "bind_step (lift_step (Inr a)) k = k a" "bind_step (lift_step (Inl e)) k = fail_step e"
  "bind_step (read_step f) k s = k (f s) s" "bind_step (update_step u) k' s = k' () (u s)"
  by (simp_all add: bind_step_def step_runs fun_eq_iff)

lemma guard_step_simps [step_simps]: "guard_step True e = return_step ()" "guard_step False e = fail_step e"
  by (simp_all add: guard_step_def)

lemma bind_step_Inr:
  "bind_step m k s = (Inr b, u) \<longleftrightarrow> (\<exists>a t. m s = (Inr a, t) \<and> k a t = (Inr b, u))"
  by (auto simp: bind_step_def split: prod.splits sum.splits)

lemma then_step_Inr:
  "then_step m k s = (Inr b, u) \<longleftrightarrow> (\<exists>a t. m s = (Inr a, t) \<and> k t = (Inr b, u))"
  by (auto simp: then_step_def bind_step_Inr)

lemma step_Inr:
  "return_step a s = (Inr b, u) \<longleftrightarrow> b = a \<and> u = s"
  "fail_step e s = (Inr b, u) \<longleftrightarrow> False"
  "lift_step r s = (Inr b, u) \<longleftrightarrow> r = Inr b \<and> u = s"
  "read_step f s = (Inr c, u) \<longleftrightarrow> c = f s \<and> u = s"
  "update_step g s = (Inr d, u) \<longleftrightarrow> u = g s"
  "guard_step p e s = (Inr d, u) \<longleftrightarrow> p \<and> u = s"
  "when_step p m s = (Inr d, u) \<longleftrightarrow> (if p then m s = (Inr d, u) else u = s)"
  by (auto simp: step_runs guard_step_def when_step_def)

lemma on_error_step_Inr: "on_error_step m h s = (Inr a, t) \<longleftrightarrow> m s = (Inr a, t)"
  by (auto simp: on_error_step_def bind_step_def attempt_step_def then_step_def step_runs
      split: prod.splits sum.splits)

lemmas succeeds = bind_step_Inr then_step_Inr step_Inr on_error_step_Inr

section \<open>What every part keeps\<close>

text \<open>
  A preorder between the state before and after. An operation obeys it when all of its parts
  do, whether it succeeds or not.
\<close>

definition obeys :: "('s \<Rightarrow> 's \<Rightarrow> bool) \<Rightarrow> ('s, 'e, 'a) step \<Rightarrow> bool" where
  "obeys R m \<longleftrightarrow> (\<forall>s. R s (snd (m s)))"

lemma obeysD: "obeys R m \<Longrightarrow> m s = (r, t) \<Longrightarrow> R s t"
  by (metis obeys_def snd_conv)

lemma obeysI: "(\<And>s r t. m s = (r, t) \<Longrightarrow> R s t) \<Longrightarrow> obeys R m"
  by (auto simp: obeys_def) (metis prod.collapse)

locale step_preorder =
  fixes R :: "'s \<Rightarrow> 's \<Rightarrow> bool"
  assumes refl: "R s s"
    and trans: "R s t \<Longrightarrow> R t u \<Longrightarrow> R s u"
begin

lemma obeys_pure:
  "obeys R (return_step a)" "obeys R (fail_step e)" "obeys R (lift_step r)"
  "obeys R (read_step f)" "obeys R (guard_step b e)"
  by (auto simp: obeys_def step_runs guard_step_def refl)

lemma obeys_update: "(\<And>s. R s (u s)) \<Longrightarrow> obeys R (update_step u)"
  by (simp add: obeys_def step_runs)

lemma obeys_bind:
  assumes "obeys R m" and "\<And>a. obeys R (k a)"
  shows "obeys R (bind_step m k)"
proof (rule obeysI)
  fix s r u
  assume run: "bind_step m k s = (r, u)"
  obtain r' t where t: "m s = (r', t)" by fastforce
  have "R s t" using assms(1) t by (rule obeysD)
  then show "R s u"
    using run t trans obeysD [OF assms(2)] by (cases r') (auto simp: bind_step_def)
qed

lemma obeys_then: "obeys R m \<Longrightarrow> obeys R k \<Longrightarrow> obeys R (then_step m k)"
  by (simp add: then_step_def obeys_bind)

lemma obeys_attempt: "obeys R m \<Longrightarrow> obeys R (attempt_step m)"
  by (auto simp: obeys_def attempt_step_def split: prod.splits) (metis snd_conv)

lemma obeys_when: "obeys R m \<Longrightarrow> obeys R (when_step b m)"
  by (simp add: when_step_def obeys_pure)

lemma obeys_on_error: "obeys R m \<Longrightarrow> (\<And>e. obeys R (h e)) \<Longrightarrow> obeys R (on_error_step m h)"
  by (auto simp: on_error_step_def intro!: obeys_bind obeys_attempt obeys_then obeys_pure split: sum.split)

lemma obeys_each: "(\<And>x. obeys R (f x)) \<Longrightarrow> obeys R (each_step f xs)"
  by (induction xs) (auto intro: obeys_pure obeys_then)

lemmas obeys_parts = obeys_pure obeys_bind obeys_then obeys_attempt obeys_when obeys_on_error obeys_each

end

section \<open>Triples\<close>

text \<open>
  Before and after: from a state with \<open>P\<close> the operation ends with its value and state in
  \<open>Q\<close>, or with its error and state in \<open>E\<close>.
\<close>

definition triple ::
    "('s \<Rightarrow> bool) \<Rightarrow> ('s, 'e, 'a) step \<Rightarrow> ('a \<Rightarrow> 's \<Rightarrow> bool) \<Rightarrow> ('e \<Rightarrow> 's \<Rightarrow> bool) \<Rightarrow> bool" where
  "triple P m Q E \<longleftrightarrow> (\<forall>s. P s \<longrightarrow> (case m s of (Inl e, t) \<Rightarrow> E e t | (Inr a, t) \<Rightarrow> Q a t))"

lemma tripleI:
  assumes "\<And>s a t. P s \<Longrightarrow> m s = (Inr a, t) \<Longrightarrow> Q a t" and "\<And>s e t. P s \<Longrightarrow> m s = (Inl e, t) \<Longrightarrow> E e t"
  shows "triple P m Q E"
  using assms by (auto simp: triple_def split: prod.split sum.split)

lemma triple_Inr: "triple P m Q E \<Longrightarrow> P s \<Longrightarrow> m s = (Inr a, t) \<Longrightarrow> Q a t"
  by (force simp: triple_def)

lemma triple_Inl: "triple P m Q E \<Longrightarrow> P s \<Longrightarrow> m s = (Inl e, t) \<Longrightarrow> E e t"
  by (force simp: triple_def)

lemma triple_pre: "triple P' m Q E \<Longrightarrow> (\<And>s. P s \<Longrightarrow> P' s) \<Longrightarrow> triple P m Q E"
  by (auto simp: triple_def)

lemma triple_post:
  assumes "triple P m Q' E'" and "\<And>a s. Q' a s \<Longrightarrow> Q a s" and "\<And>e s. E' e s \<Longrightarrow> E e s"
  shows "triple P m Q E"
  using assms by (intro tripleI) (blast dest: triple_Inr triple_Inl)+

lemma triple_return: "triple (Q a) (return_step a) Q E"
  by (simp add: triple_def step_runs)

lemma triple_fail: "triple (E e) (fail_step e) Q E"
  by (simp add: triple_def step_runs)

lemma triple_lift: "triple (\<lambda>s. (\<forall>a. r = Inr a \<longrightarrow> Q a s) \<and> (\<forall>e. r = Inl e \<longrightarrow> E e s)) (lift_step r) Q E"
  by (auto simp: triple_def step_runs split: sum.split)

lemma triple_read: "triple (\<lambda>s. Q (f s) s) (read_step f) Q E"
  by (simp add: triple_def step_runs)

lemma triple_update: "triple (\<lambda>s. Q () (u s)) (update_step u) Q E"
  by (simp add: triple_def step_runs)

lemma triple_guard: "triple (\<lambda>s. if b then Q () s else E e s) (guard_step b e) Q E"
  by (simp add: triple_def guard_step_def step_runs)

lemma triple_bind:
  assumes "\<And>a. triple (R a) (k a) Q E" and "triple P m R E"
  shows "triple P (bind_step m k) Q E"
proof (rule tripleI)
  fix s b u
  assume "P s" "bind_step m k s = (Inr b, u)"
  then show "Q b u" using assms by (auto simp: bind_step_Inr dest: triple_Inr)
next
  fix s e u
  assume P: "P s" and run: "bind_step m k s = (Inl e, u)"
  obtain r t where t: "m s = (r, t)" by fastforce
  show "E e u"
  proof (cases r)
    case (Inl e')
    then show ?thesis using P run t triple_Inl [OF assms(2) P] by (simp add: bind_step_def)
  next
    case (Inr a)
    then show ?thesis
      using run t triple_Inl [OF assms(1) [of a]] triple_Inr [OF assms(2) P] by (simp add: bind_step_def)
  qed
qed

lemma triple_then: "triple R k Q E \<Longrightarrow> triple P m (\<lambda>_. R) E \<Longrightarrow> triple P (then_step m k) Q E"
  unfolding then_step_def by (rule triple_bind)

lemma triple_attempt: "triple P m (\<lambda>a. Q (Inr a)) (\<lambda>e. Q (Inl e)) \<Longrightarrow> triple P (attempt_step m) Q E"
  by (auto simp: triple_def attempt_step_def split: prod.splits sum.splits) (metis sum.exhaust)

lemma triple_when: "(b \<Longrightarrow> triple P m (\<lambda>_. Q ()) E) \<Longrightarrow> (\<And>s. \<not> b \<Longrightarrow> P s \<Longrightarrow> Q () s) \<Longrightarrow> triple P (when_step b m) Q E"
  by (auto simp: when_step_def triple_def step_runs split: prod.splits sum.splits)

lemma triple_obeys: "obeys R m \<Longrightarrow> (\<And>s t. P s \<Longrightarrow> R s t \<Longrightarrow> P t) \<Longrightarrow> triple P m (\<lambda>_. P) (\<lambda>_. P)"
  by (intro tripleI) (blast dest: obeysD)+

end
