(* ===== verification/Daemon_Types.thy ===== *)
theory Daemon_Types
  imports Step Projector_Refinement Wire Exec_Context
begin

text \<open>
  The vocabulary of \<^verbatim>\<open>hyper-term-daemon/src/lib.rs\<close>: its error type with the code a client
  sees, and the contexts the daemon keeps for terminals, sandboxes and input leases. The errors
  of the isolated-task runner are those of \<^verbatim>\<open>hyper-term-sandbox\<close>.
\<close>

section \<open>Constants\<close>

definition OBSERVATION_BATCH_BYTES :: u64 where
  "OBSERVATION_BATCH_BYTES = 64 * 1024"

definition SANDBOX_LEASE_TTL_MS :: u64 where
  "SANDBOX_LEASE_TTL_MS = 5 * 60 * 1000"

definition MAX_GENUI_ARTIFACT_HISTORY :: nat where
  "MAX_GENUI_ARTIFACT_HISTORY = 64"

definition ISOLATED_TASK_CAPABILITY :: string where
  "ISOLATED_TASK_CAPABILITY = ''sandbox.isolated_task''"

definition ISOLATED_TASK_WALL_TIME_MS :: u64 where
  "ISOLATED_TASK_WALL_TIME_MS = 10 * 60 * 1000"

definition ISOLATED_TASK_MAX_PROCESSES :: u32 where
  "ISOLATED_TASK_MAX_PROCESSES = 256"

definition ISOLATED_TASK_MAX_OUTPUT_BYTES :: u64 where
  "ISOLATED_TASK_MAX_OUTPUT_BYTES = 2 * 1024 * 1024"

section \<open>Errors\<close>

datatype (plugins only: size) isolated_worktree_error =
    GitExecutableNotFile string
  | InvalidGitExecutable string io_error
  | GitUnavailable
  | GitFailed (* status *) "int option" (* stderr *) string
  | GitOutputTooLarge
  | InvalidTaskId
  | NestedRoots
  | InsecureStateRoot string
  | EnvironmentAlreadyExists string
  | InvalidRevision
  | UnsupportedTreeEntry string
  | UnsafeSourcePath string
  | UnsafeSymlink string
  | TooManyFiles
  | SourceFileTooLarge string
  | SourceTooLarge
  | WorktreeNotClean
  | TooManyChangedFiles
  | ChangedResultTooLarge
  | UnsupportedChange string
  | UnsafeCleanup string
  | ManifestMismatch
  | InvalidManifest json_error
  | WorktreeIo io_error

datatype (plugins only: size) lima_runner_error =
    LimaUnavailable
  | InvalidExecutable string io_error
  | ExecutableNotFile string
  | VersionProbeFailed
  | InvalidConfig string
  | InvalidCommand
  | ImageTooLarge
  | ImageDigestMismatch
  | InvalidReceipt
  | InsecureLimaHome string
  | ControlFailed (* command *) string (* status *) "int option" (* stderr *) string
  | OutputTooLarge
  | ReaderFailed
  | InvalidClock
  | Worktree isolated_worktree_error
  | LimaJson json_error
  | LimaIo io_error

text \<open>
  \<^verbatim>\<open>DaemonError\<close>. Where a constructor of another type has the name already, the daemon's
  has the prefix \<open>Daemon\<close>.
\<close>

datatype (plugins only: size) daemon_error =
    DaemonIo io_error
  | DaemonJournal journal_error
  | DaemonOperation operation_error
  | DaemonProjector projector_error
  | DaemonTerminal terminal_error
  | DaemonSandbox sandbox_error
  | ExecutionAuthorization execution_authorization_error
  | SandboxLease sandbox_lease_error
  | Wire wire_error
  | ArtifactStore string
  | DaemonLockPoisoned
  | StateDirectoryInUse string
  | InvalidStateLock string
  | EmptyTaskTitle
  | EmptyMessage
  | MessageTooLarge nat
  | ExternalMessageIdTooLarge
  | InvalidAgentProjection string
  | TaskNotFound task_id
  | DuplicateTask task_id
  | JournalEventBeforeTask task_id
  | OperationNotFound operation_id
  | OperationTaskMismatch (* expected *) task_id (* actual *) task_id
  | StaleOperationRevision (* expected *) u64 (* actual *) u64
  | OperationNotWaiting operation_state
  | InvalidApprovalDetail
  | ApprovalDetailMismatch
  | OperationNotAuthorized operation_state
  | OperationNotDispatching operation_state
  | GenericDispatchRequiresOpaqueAction
  | ArtifactAcceptanceRequiresGenUiCompile
  | ArtifactNotActive artifact_id
  | ArtifactNotInHistory artifact_id
  | ArtifactBaseNotCurrent artifact_id (* source_revision *) u64
  | InvalidBoundedText (* label *) string (* maximum *) nat
  | InvalidResultDigest
  | InconsistentOperationOutcome
  | ActionKindMismatch
  | UnsafeOperationEnvironment string
  | InvalidMcpServerLaunch
  | InvalidLocalMcpRuntimeReceipt
  | InvalidLocalMcpToolCall
  | InvalidLocalMcpToolCallReceipt
  | BrokeredMcpRuntime string
  | BrokeredMcpRuntimeAlreadyRegistered task_id
  | BrokeredMcpRuntimeMissing task_id
  | InvalidBrokeredMcpDigest
  | BrokeredMcpArgumentsTooLarge nat
  | BrokeredMcpBindingMismatch
  | BrokeredMcpReplayMismatch
  | InvalidAgentCapabilityPolicy
  | LocalMcpRuntimeNotRecorded
  | UnsupportedTerminalAction
  | SandboxWorkingDirectoryRequired
  | InvalidSandboxWorkingDirectory (* path *) string (* message *) string
  | WorkspaceInsideDaemonState
  | UnenforcedSandboxBackend
  | IsolatedTaskCapabilityRequired
  | IsolatedRunnerPolicyMismatch
  | IsolatedTaskRequiresVmDispatch
  | IsolatedResultAlreadyExists operation_id
  | IsolatedResultMissing operation_id
  | IsolatedResultHasPendingAcceptance operation_id
  | InvalidIsolatedResultStore
  | InvalidIsolatedResultPath
  | IsolatedResultDigestMismatch
  | UnsupportedIsolatedAcceptance
  | IsolatedAcceptanceMissing operation_id
  | IsolatedAcceptanceAlreadyExists operation_id
  | InvalidIsolatedAcceptanceStore
  | IsolatedAcceptanceMismatch
  | SandboxAuthorizationMissing operation_id
  | SandboxAuthorizationAlreadyExists operation_id
  | DaemonClockBeforeUnixEpoch
  | ClockOutOfRange
  | TerminalContextMissing terminal_id
  | InputLeaseHeld terminal_id
  | InputLeaseMissing terminal_id
  | InputLeaseMismatch terminal_id
  | ClientIdentityMismatch
  | HelloRequired
  | DuplicateHello
  | UnsafeSocketPath string
  | SocketInUse string
  | IsolatedWorktree isolated_worktree_error
  | LimaRunner lima_runner_error
  | WorkspaceApply string

text \<open>\<^verbatim>\<open>DaemonError::code\<close>: the stable code of the error that a client is sent.\<close>

definition daemon_error_code :: "daemon_error \<Rightarrow> string" where
  "daemon_error_code e = (case e of
       TaskNotFound _ \<Rightarrow> ''task_not_found''
     | OperationNotFound _ \<Rightarrow> ''operation_not_found''
     | OperationTaskMismatch _ _ \<Rightarrow> ''operation_task_mismatch''
     | StaleOperationRevision _ _ \<Rightarrow> ''stale_operation_revision''
     | OperationNotWaiting _ \<Rightarrow> ''operation_not_waiting''
     | OperationNotAuthorized _ \<Rightarrow> ''operation_not_authorized''
     | OperationNotDispatching _ \<Rightarrow> ''operation_not_dispatching''
     | ActionKindMismatch \<Rightarrow> ''unsupported_action''
     | InvalidMcpServerLaunch \<Rightarrow> ''unsupported_action''
     | InvalidLocalMcpToolCall \<Rightarrow> ''unsupported_action''
     | UnsupportedTerminalAction \<Rightarrow> ''unsupported_action''
     | GenericDispatchRequiresOpaqueAction \<Rightarrow> ''unsupported_action''
     | ArtifactAcceptanceRequiresGenUiCompile \<Rightarrow> ''unsupported_action''
     | ArtifactNotActive _ \<Rightarrow> ''artifact_not_active''
     | ArtifactNotInHistory _ \<Rightarrow> ''artifact_not_in_history''
     | ArtifactBaseNotCurrent _ _ \<Rightarrow> ''artifact_base_not_current''
     | ArtifactStore _ \<Rightarrow> ''artifact_error''
     | SandboxWorkingDirectoryRequired \<Rightarrow> ''invalid_sandbox_workspace''
     | InvalidSandboxWorkingDirectory _ _ \<Rightarrow> ''invalid_sandbox_workspace''
     | WorkspaceInsideDaemonState \<Rightarrow> ''invalid_sandbox_workspace''
     | SandboxAuthorizationMissing _ \<Rightarrow> ''sandbox_error''
     | SandboxAuthorizationAlreadyExists _ \<Rightarrow> ''sandbox_error''
     | UnenforcedSandboxBackend \<Rightarrow> ''sandbox_error''
     | IsolatedTaskCapabilityRequired \<Rightarrow> ''sandbox_error''
     | IsolatedRunnerPolicyMismatch \<Rightarrow> ''sandbox_error''
     | IsolatedTaskRequiresVmDispatch \<Rightarrow> ''sandbox_error''
     | IsolatedResultAlreadyExists _ \<Rightarrow> ''sandbox_error''
     | IsolatedResultMissing _ \<Rightarrow> ''sandbox_error''
     | IsolatedResultHasPendingAcceptance _ \<Rightarrow> ''sandbox_error''
     | InvalidIsolatedResultStore \<Rightarrow> ''sandbox_error''
     | InvalidIsolatedResultPath \<Rightarrow> ''sandbox_error''
     | IsolatedResultDigestMismatch \<Rightarrow> ''sandbox_error''
     | UnsupportedIsolatedAcceptance \<Rightarrow> ''sandbox_error''
     | IsolatedAcceptanceMissing _ \<Rightarrow> ''sandbox_error''
     | IsolatedAcceptanceAlreadyExists _ \<Rightarrow> ''sandbox_error''
     | InvalidIsolatedAcceptanceStore \<Rightarrow> ''sandbox_error''
     | IsolatedAcceptanceMismatch \<Rightarrow> ''sandbox_error''
     | IsolatedWorktree _ \<Rightarrow> ''sandbox_error''
     | LimaRunner _ \<Rightarrow> ''sandbox_error''
     | WorkspaceApply _ \<Rightarrow> ''sandbox_error''
     | DaemonSandbox _ \<Rightarrow> ''sandbox_error''
     | SandboxLease _ \<Rightarrow> ''sandbox_error''
     | InvalidBoundedText _ _ \<Rightarrow> ''invalid_request''
     | InvalidResultDigest \<Rightarrow> ''invalid_request''
     | InconsistentOperationOutcome \<Rightarrow> ''invalid_request''
     | InvalidBrokeredMcpDigest \<Rightarrow> ''invalid_request''
     | BrokeredMcpArgumentsTooLarge _ \<Rightarrow> ''invalid_request''
     | BrokeredMcpBindingMismatch \<Rightarrow> ''invalid_request''
     | BrokeredMcpReplayMismatch \<Rightarrow> ''invalid_request''
     | InvalidAgentCapabilityPolicy \<Rightarrow> ''invalid_request''
     | InvalidLocalMcpRuntimeReceipt \<Rightarrow> ''invalid_request''
     | InvalidLocalMcpToolCallReceipt \<Rightarrow> ''invalid_request''
     | LocalMcpRuntimeNotRecorded \<Rightarrow> ''invalid_request''
     | UnsafeOperationEnvironment _ \<Rightarrow> ''invalid_request''
     | EmptyMessage \<Rightarrow> ''invalid_request''
     | MessageTooLarge _ \<Rightarrow> ''invalid_request''
     | ExternalMessageIdTooLarge \<Rightarrow> ''invalid_request''
     | InvalidAgentProjection _ \<Rightarrow> ''invalid_request''
     | InputLeaseHeld _ \<Rightarrow> ''input_lease_held''
     | InputLeaseMissing _ \<Rightarrow> ''input_lease_mismatch''
     | InputLeaseMismatch _ \<Rightarrow> ''input_lease_mismatch''
     | ClientIdentityMismatch \<Rightarrow> ''client_identity_mismatch''
     | HelloRequired \<Rightarrow> ''protocol_error''
     | DuplicateHello \<Rightarrow> ''protocol_error''
     | UnsafeSocketPath _ \<Rightarrow> ''socket_error''
     | SocketInUse _ \<Rightarrow> ''socket_error''
     | _ \<Rightarrow> ''daemon_error'')"

section \<open>State of the daemon\<close>

record operation_terminal_context =
  otc_task_id :: task_id
  otc_operation_id :: operation_id

datatype terminal_context = OperationContext operation_terminal_context | UserShell

record authorized_sandbox =
  as_lease_id :: sandbox_lease_id
  as_context_digest :: context_digest
  as_plan :: sandbox_launch_plan
  as_scratch_directory :: string

record prepared_sandbox =
  ps_authorized :: authorized_sandbox
  ps_lease :: execution_capability_lease
  ps_context_receipt :: context_receipt

record sandbox_execution_context =
  sec_compiled :: compiled_sandbox_profile
  sec_started_at_ms :: u64
  sec_scratch_directory :: string

record input_lease =
  il_lease_id :: input_lease_id
  il_client_id :: client_id
  il_generation :: u64

record gen_ui_artifact_history_entry =
  ghe_event_sequence :: u64
  ghe_recorded_at_ms :: u64
  ghe_operation_id :: "operation_id option"
  ghe_artifact :: accepted_gen_ui_artifact

record authority_state =
  au_journal :: jsonl_journal
  au_operations :: operation_reducer
  au_projectors :: "task_id \<rightharpoonup> block_projector"

text \<open>
  \<^verbatim>\<open>DaemonInner\<close>, save the parts that have their own components: the stores of isolated
  results, of artifacts and of brokered runtimes. \<open>dm_tick\<close> counts what the daemon asked of
  the world, the clock say: it selects the answer. The last four fields are what it did to the
  world: the responses and patches it broadcast, the processes it started (for an operation or
  for the user), and the scratch directories it removed.
\<close>

record daemon_state =
  dm_authority :: authority_state
  dm_terminals :: supervisor
  dm_terminal_contexts :: "terminal_id \<rightharpoonup> terminal_context"
  dm_input_leases :: "terminal_id \<rightharpoonup> input_lease"
  dm_lease_generations :: "terminal_id \<rightharpoonup> u64"
  dm_cancelled_terminals :: "terminal_id set"
  dm_control_subscribers :: "sender list"
  dm_block_subscribers :: "sender list"
  dm_sandbox_leases :: lease_ledger
  dm_authorized_sandboxes :: "operation_id \<rightharpoonup> authorized_sandbox"
  dm_sandbox_executions :: "terminal_id \<rightharpoonup> sandbox_execution_context"
  dm_state_directory :: string
  dm_isolated_results_root :: string
  dm_scratch_root :: string
  dm_tick :: nat
  dm_control_log :: "control_response list"
  dm_patch_log :: "(task_id \<times> block_patch) list"
  dm_processes :: "(operation_id option \<times> command_builder) list"
  dm_removed_directories :: "string list"

end
