(* ===== verification/Authority.thy ===== *)
theory Authority
  imports Daemon_Types
begin

text \<open>
  The authority of \<^verbatim>\<open>hyper-term-daemon\<close>: the journal, the operation reducer and the
  projectors behind one lock. \<open>record_authority\<close> is the critical section of
  \<^verbatim>\<open>DaemonState::record\<close> in \<^verbatim>\<open>daemon_terminal.rs\<close>, the only code that changes them;
  \<open>load_authority\<close> is the loop of \<^verbatim>\<open>DaemonState::open\<close> in \<^verbatim>\<open>lib.rs\<close> that rebuilds
  them after a restart.
\<close>

section \<open>Operations\<close>

fun is_task_created :: "domain_event \<Rightarrow> bool" where
  "is_task_created (domain_event.TaskCreated _) = True"
| "is_task_created _ = False"

text \<open>One event on both reducers; a task without a projector gets a new one.\<close>

definition apply_event ::
    "uuid_crate \<Rightarrow> operation_reducer \<Rightarrow> (task_id \<rightharpoonup> block_projector) \<Rightarrow> event_envelope
      \<Rightarrow> daemon_error + (operation_reducer \<times> (task_id \<rightharpoonup> block_projector) \<times> block_patch)" where
  "apply_event U operations projectors e =
     and_then (map_err DaemonOperation (apply_operation operations e)) (\<lambda>operations.
     let projector = (case projectors (ev_task_id e) of
           None \<Rightarrow> new_projector (ev_task_id e) | Some p \<Rightarrow> p) in
     and_then (map_err DaemonProjector (project_event U projector e)) (\<lambda>(projector, patch).
       Inr (operations, projectors(ev_task_id e \<mapsto> projector), patch)))"

definition check_task :: "authority_state \<Rightarrow> new_event \<Rightarrow> daemon_error + unit" where
  "check_task a event =
     (let creating_task = is_task_created (ne_payload event);
          known = au_projectors a (ne_task_id event) \<noteq> None
      in if creating_task \<and> known then Inl (DuplicateTask (ne_task_id event))
         else if \<not> creating_task \<and> \<not> known then Inl (TaskNotFound (ne_task_id event))
         else Inr ())"

text \<open>What the world answers to one record: the clock, a fresh event id, and the disk.\<close>

record record_input =
  ri_clock :: "nat option"
  ri_fresh :: event_id
  ri_io :: append_io

definition record_authority ::
    "event_codec \<Rightarrow> uuid_crate \<Rightarrow> record_input \<Rightarrow> new_event
      \<Rightarrow> (authority_state, daemon_error, event_envelope \<times> block_patch) step" where
  "record_authority C U input event a =
     (case and_then (check_task a event) (\<lambda>_.
           and_then (map_err DaemonJournal (prepare (ri_clock input) (ri_fresh input) (au_journal a) event)) (\<lambda>envelope.
           and_then (apply_event U (au_operations a) (au_projectors a) envelope) (\<lambda>applied.
             Inr (envelope, applied)))) of
        Inl e \<Rightarrow> (Inl e, a)
      | Inr (envelope, next_operations, next_projectors, patch) \<Rightarrow>
          (case append_envelope C (ri_io input) (au_journal a) envelope of
             (Inl e, journal) \<Rightarrow> (Inl (DaemonJournal e), a\<lparr>au_journal := journal\<rparr>)
           | (Inr _, journal) \<Rightarrow>
               (Inr (envelope, patch),
                a\<lparr>au_journal := journal, au_operations := next_operations,
                  au_projectors := next_projectors\<rparr>)))"

text \<open>
  The loop at the start: \<open>read_artifact\<close> is the artifact store's answer for an artifact that
  the journal names.
\<close>

type_synonym authority_view = "task_id set \<times> operation_reducer \<times> (task_id \<rightharpoonup> block_projector)"

definition load_task :: "task_id set \<Rightarrow> event_envelope \<Rightarrow> daemon_error + task_id set" where
  "load_task created_tasks e =
     (if is_task_created (ev_payload e)
      then if ev_task_id e \<in> created_tasks then Inl (DuplicateTask (ev_task_id e))
           else Inr (insert (ev_task_id e) created_tasks)
      else if ev_task_id e \<notin> created_tasks then Inl (JournalEventBeforeTask (ev_task_id e))
      else Inr created_tasks)"

definition check_artifact ::
    "(accepted_gen_ui_artifact \<Rightarrow> daemon_error + unit) \<Rightarrow> event_envelope \<Rightarrow> daemon_error + unit" where
  "check_artifact read_artifact e = (case ev_payload e of
       ArtifactAccepted artifact \<Rightarrow> read_artifact artifact | _ \<Rightarrow> Inr ())"

definition load_event ::
    "uuid_crate \<Rightarrow> (accepted_gen_ui_artifact \<Rightarrow> daemon_error + unit) \<Rightarrow> authority_view \<Rightarrow> event_envelope
      \<Rightarrow> daemon_error + authority_view" where
  "load_event U read_artifact view e = (case view of (created_tasks, operations, projectors) \<Rightarrow>
     and_then (load_task created_tasks e) (\<lambda>created_tasks.
     and_then (apply_event U operations projectors e) (\<lambda>(operations, projectors, _).
     and_then (check_artifact read_artifact e) (\<lambda>_.
       Inr (created_tasks, operations, projectors)))))"

definition load_authority ::
    "uuid_crate \<Rightarrow> (accepted_gen_ui_artifact \<Rightarrow> daemon_error + unit) \<Rightarrow> jsonl_journal
      \<Rightarrow> daemon_error + authority_state" where
  "load_authority U read_artifact journal =
     and_then (try_fold (load_event U read_artifact) ({}, Map.empty, Map.empty) (jl_events journal))
       (\<lambda>(_, operations, projectors).
         Inr \<lparr>au_journal = journal, au_operations = operations, au_projectors = projectors\<rparr>)"

definition open_authority ::
    "event_codec \<Rightarrow> uuid_crate \<Rightarrow> (accepted_gen_ui_artifact \<Rightarrow> daemon_error + unit) \<Rightarrow> open_io
      \<Rightarrow> string \<Rightarrow> bytes \<Rightarrow> daemon_error + authority_state" where
  "open_authority C U read_artifact io path file =
     and_then (map_err DaemonJournal (open_journal C io path file)) (load_authority U read_artifact)"

section \<open>Event sourcing\<close>

text \<open>
  A live state beside its log: every commit leaves both alone, or appends one event whose effect
  on the state is what folding the log would do. The live state is then the fold of the log,
  whatever was committed or refused.
\<close>

locale event_sourced =
  fixes fold_event :: "'v \<Rightarrow> 'e \<Rightarrow> 'x + 'v"
    and commit :: "'i \<Rightarrow> 'a \<Rightarrow> 'r \<times> 'a"
    and log_of :: "'a \<Rightarrow> 'e list"
    and view :: "'a \<Rightarrow> 'v"
  assumes commit_logs: "commit i a = (r, b) \<Longrightarrow> (log_of b = log_of a \<and> view b = view a)
      \<or> (\<exists>e. log_of b = log_of a @ [e] \<and> fold_event (view a) e = Inr (view b))"
begin

lemma commits_fold:
  assumes "try_fold fold_event v (log_of a) = Inr (view a)"
  shows "try_fold fold_event v (log_of (fold (\<lambda>i s. snd (commit i s)) xs a))
     = Inr (view (fold (\<lambda>i s. snd (commit i s)) xs a))"
  using assms
proof (induction xs arbitrary: a)
  case (Cons i xs)
  obtain r b where b: "commit i a = (r, b)" by fastforce
  have "try_fold fold_event v (log_of b) = Inr (view b)"
    using commit_logs [OF b] Cons.prems by (auto simp: try_fold_snoc_Inr)
  from Cons.IH [OF this] show ?case by (simp add: b)
qed simp

lemma commits_extend: "\<exists>es. log_of (fold (\<lambda>i s. snd (commit i s)) xs a) = log_of a @ es"
proof (induction xs arbitrary: a)
  case (Cons i xs)
  obtain r b where b: "commit i a = (r, b)" by fastforce
  then obtain es where "log_of b = log_of a @ es" using commit_logs [OF b] by auto
  with Cons.IH [of b] show ?case by (auto simp: b)
qed simp

end

definition record_step ::
    "event_codec \<Rightarrow> uuid_crate \<Rightarrow> record_input \<times> new_event \<Rightarrow> authority_state
      \<Rightarrow> (daemon_error + event_envelope \<times> block_patch) \<times> authority_state" where
  "record_step C U = (\<lambda>(input, event). record_authority C U input event)"

definition authority_view_of :: "authority_state \<Rightarrow> authority_view" where
  "authority_view_of a = (dom (au_projectors a), au_operations a, au_projectors a)"

lemma record_authority_error:
  "record_authority C U input event a = (Inl e, b) \<Longrightarrow>
     jl_events (au_journal b) = jl_events (au_journal a)
     \<and> au_operations b = au_operations a \<and> au_projectors b = au_projectors a"
  using append_envelope_error [of C "ri_io input" "au_journal a"]
  by (auto simp: record_authority_def split: sum.splits prod.splits)

lemma record_authority_ok:
  assumes "record_authority C U input event a = (Inr (envelope, patch), b)"
  shows "check_task a event = Inr ()"
    and "prepare (ri_clock input) (ri_fresh input) (au_journal a) event = Inr envelope"
    and "apply_event U (au_operations a) (au_projectors a) envelope
       = Inr (au_operations b, au_projectors b, patch)"
    and "append_envelope C (ri_io input) (au_journal a) envelope = (Inr envelope, au_journal b)"
  using assms append_envelope_ok(1) [of C "ri_io input" "au_journal a"]
  by (auto simp: record_authority_def result_simps split: sum.splits prod.splits)

lemma prepare_fields:
  "prepare clock fresh j event = Inr e \<Longrightarrow> ev_task_id e = ne_task_id event
     \<and> ev_operation_id e = ne_operation_id event \<and> ev_payload e = ne_payload event"
  by (auto simp: prepare_def Let_def result_simps split: if_splits)

lemma apply_event_dom:
  "apply_event U ops projectors e = Inr (ops', projectors', patch) \<Longrightarrow>
     dom projectors' = insert (ev_task_id e) (dom projectors)"
  by (auto simp: apply_event_def Let_def result_simps)

lemma check_artifact_none [simp]: "check_artifact (\<lambda>_. Inr ()) e = Inr ()"
  by (simp add: check_artifact_def split: domain_event.split)

interpretation authority: event_sourced "load_event U (\<lambda>_. Inr ())" "record_step C U"
  "\<lambda>a. jl_events (au_journal a)" authority_view_of
proof
  fix i a r b
  assume run: "record_step C U i a = (r, b)"
  obtain input event where i: "i = (input, event)" by (cases i)
  show "(jl_events (au_journal b) = jl_events (au_journal a) \<and> authority_view_of b = authority_view_of a)
    \<or> (\<exists>e. jl_events (au_journal b) = jl_events (au_journal a) @ [e]
         \<and> load_event U (\<lambda>_. Inr ()) (authority_view_of a) e = Inr (authority_view_of b))"
  proof (cases r)
    case (Inl e)
    then show ?thesis
      using record_authority_error [of C U input event a e b] run
      by (simp add: record_step_def i authority_view_of_def)
  next
    case (Inr x)
    obtain e patch where x: "x = (e, patch)" by (cases x)
    have ok: "record_authority C U input event a = (Inr (e, patch), b)"
      using run Inr by (simp add: record_step_def i x)
    note parts = record_authority_ok [OF ok]
    have "jl_events (au_journal b) = jl_events (au_journal a) @ [e]"
      using append_envelope_ok(3) [OF parts(4)] by simp
    moreover have "load_task (dom (au_projectors a)) e = Inr (dom (au_projectors b))"
      using parts(1) prepare_fields [OF parts(2)] apply_event_dom [OF parts(3)]
      by (auto simp: load_task_def check_task_def Let_def dom_def split: if_splits)
    ultimately show ?thesis
      using parts(3) by (auto simp: load_event_def authority_view_of_def check_artifact_none)
  qed
qed

text \<open>Artifacts that are read without error do not change what is loaded.\<close>

lemma load_event_artifacts:
  "check_artifact read_artifact e = Inr () \<Longrightarrow> load_event U read_artifact v e = load_event U (\<lambda>_. Inr ()) v e"
  by (simp add: load_event_def)

lemma load_events_artifacts:
  assumes "\<forall>e \<in> set es. check_artifact read_artifact e = Inr ()"
  shows "try_fold (load_event U read_artifact) v es = try_fold (load_event U (\<lambda>_. Inr ())) v es"
  using assms
proof (induction es arbitrary: v)
  case (Cons e es)
  then show ?case by (simp add: load_event_artifacts [of read_artifact e] and_then_def split: sum.split)
qed simp

lemma load_event_without:
  "load_event U read_artifact v e = Inr w \<Longrightarrow> load_event U (\<lambda>_. Inr ()) v e = Inr w"
  by (cases v) (auto simp: load_event_def result_simps)

lemma load_events_without:
  "try_fold (load_event U read_artifact) v es = Inr w \<Longrightarrow> try_fold (load_event U (\<lambda>_. Inr ())) v es = Inr w"
proof (induction es arbitrary: v)
  case (Cons e es)
  then show ?case using load_event_without [of U read_artifact v e] by (auto simp: result_simps)
qed simp

text \<open>Records on a disk that does what it is asked keep the file and the memory in step.\<close>

lemma append_envelope_good_error:
  "io_good io \<Longrightarrow> append_envelope C io j envelope = (Inl e, j') \<Longrightarrow> j' = j"
  by (auto simp: append_envelope_def Let_def write_all_def io_good_def split: sum.splits if_splits)

lemma record_good_clean:
  assumes C: "codec_ok C" and clean: "journal_clean C (au_journal a)" and good: "io_good (ri_io input)"
    and run: "record_authority C U input event a = (r, b)"
  shows "journal_clean C (au_journal b) \<and> jl_path (au_journal b) = jl_path (au_journal a)"
proof (cases r)
  case (Inl e)
  then have "au_journal b = au_journal a"
    using run append_envelope_good_error [OF good, of C "au_journal a"]
    by (auto simp: record_authority_def split: sum.splits prod.splits)
  with clean show ?thesis by simp
next
  case (Inr x)
  obtain envelope patch where "x = (envelope, patch)" by (cases x)
  with run Inr have "record_authority C U input event a = (Inr (envelope, patch), b)" by simp
  note appended = append_envelope_ok [OF record_authority_ok(4) [OF this]]
  from appended(2) obtain bs where "appendable C (au_journal a) envelope bs" ..
  from appended_clean [OF C clean this] appended(3) show ?thesis by simp
qed

abbreviation records :: "event_codec \<Rightarrow> uuid_crate \<Rightarrow> (record_input \<times> new_event) list
    \<Rightarrow> authority_state \<Rightarrow> authority_state" where
  "records C U xs a \<equiv> fold (\<lambda>i s. snd (record_step C U i s)) xs a"

lemma records_good_clean:
  assumes "codec_ok C"
  shows "journal_clean C (au_journal a) \<Longrightarrow> \<forall>i \<in> set xs. io_good (ri_io (fst i)) \<Longrightarrow>
    journal_clean C (au_journal (records C U xs a))
    \<and> jl_path (au_journal (records C U xs a)) = jl_path (au_journal a)"
proof (induction xs arbitrary: a)
  case (Cons i xs)
  obtain input event where i: "i = (input, event)" by (cases i)
  obtain r b where b: "record_authority C U input event a = (r, b)" by fastforce
  from record_good_clean [OF assms Cons.prems(1) _ b] Cons.prems(2) i
  have "journal_clean C (au_journal b)" "jl_path (au_journal b) = jl_path (au_journal a)" by auto
  with Cons.IH [of b] Cons.prems(2) b show ?case by (simp add: record_step_def i)
qed simp

definition authority_ok :: "uuid_crate \<Rightarrow> authority_state \<Rightarrow> bool" where
  "authority_ok U a \<longleftrightarrow> try_fold (load_event U (\<lambda>_. Inr ())) ({}, Map.empty, Map.empty)
     (jl_events (au_journal a)) = Inr (authority_view_of a)"

lemma load_event_created:
  "load_event U read_artifact (dom projectors, ops, projectors) e = Inr (created, ops', projectors') \<Longrightarrow>
     created = dom projectors'"
proof -
  assume "load_event U read_artifact (dom projectors, ops, projectors) e = Inr (created, ops', projectors')"
  then obtain patch where task: "load_task (dom projectors) e = Inr created"
    and "apply_event U ops projectors e = Inr (ops', projectors', patch)"
    by (auto simp: load_event_def result_simps)
  from apply_event_dom [OF this(2)] have "dom projectors' = insert (ev_task_id e) (dom projectors)" .
  moreover from task have "created = insert (ev_task_id e) (dom projectors)"
    by (auto simp: load_task_def insert_absorb simp del: domIff split: if_splits)
  ultimately show ?thesis by simp
qed

lemma load_events_created:
  "try_fold (load_event U read_artifact) (dom projectors, ops, projectors) es = Inr (created, ops', projectors') \<Longrightarrow>
     created = dom projectors'"
proof (induction es arbitrary: projectors ops)
  case (Cons e es)
  then obtain c o' p' where "load_event U read_artifact (dom projectors, ops, projectors) e = Inr (c, o', p')"
    "try_fold (load_event U read_artifact) (c, o', p') es = Inr (created, ops', projectors')"
    by (auto simp: result_simps)
  with load_event_created [of U read_artifact projectors ops e c o' p'] Cons.IH [of p' o'] show ?case by simp
qed simp

lemma load_authority_ok:
  assumes "load_authority U read_artifact journal = Inr a"
  shows "authority_ok U a" and "au_journal a = journal"
proof -
  obtain c where c: "try_fold (load_event U read_artifact) ({}, Map.empty, Map.empty) (jl_events journal)
      = Inr (c, au_operations a, au_projectors a)" and j: "au_journal a = journal"
    using assms by (auto simp: load_authority_def result_simps)
  then show "authority_ok U a"
    using load_events_without [OF c] load_events_created [of U read_artifact Map.empty Map.empty] 
    by (simp add: authority_ok_def authority_view_of_def)
  from j show "au_journal a = journal" .
qed

lemma authority_ok_load:
  assumes "authority_ok U a"
    and "\<forall>e \<in> set (jl_events (au_journal a)). check_artifact read_artifact e = Inr ()"
  shows "load_authority U read_artifact (au_journal a) = Inr a"
  using assms load_events_artifacts [OF assms(2)]
  by (simp add: authority_ok_def authority_view_of_def load_authority_def)

lemma authority_ok_records: "authority_ok U a \<Longrightarrow> authority_ok U (records C U xs a)"
  unfolding authority_ok_def by (rule authority.commits_fold)

section \<open>A concrete record\<close>

definition sample_record_step :: "record_input \<times> new_event" where
  "sample_record_step = (\<lparr>ri_clock = Some 5, ri_fresh = EventId 9, ri_io = good_io\<rparr>, sample_new)"

definition sample_authority :: authority_state where
  "sample_authority = \<lparr>au_journal = sample_journal [] [], au_operations = Map.empty,
     au_projectors = Map.empty\<rparr>"

lemma sample_authority_opens:
  "open_authority sample_codec sample_uuid_crate (\<lambda>_. Inr ()) sample_open ''j'' [] = Inr sample_authority"
  by (simp add: open_authority_def sample_opens load_authority_def sample_journal_def sample_authority_def)

lemma sample_prepare: "prepare (Some 5) (EventId 9) (sample_journal [] []) sample_new = Inr (sample_envelope 1)"
  by (simp add: sample_journal_defs)

lemma sample_append:
  "append_envelope sample_codec good_io (sample_journal [] []) (sample_envelope 1)
     = (Inr (sample_envelope 1), sample_journal [1, 10] [sample_envelope 1])"
  by (simp add: sample_journal_defs)

lemma sample_project:
  "\<exists>p patch. project_event sample_uuid_crate (new_projector (TaskId 1)) (sample_envelope 1) = Inr (p, patch)"
  by (simp add: project_event_def project_payload_def project_task_created_def upsert_one_def upsert_def
      new_projector_def sample_envelope_def Let_def)

lemma sample_recorded:
  "\<exists>p. records sample_codec sample_uuid_crate [sample_record_step] sample_authority =
     \<lparr>au_journal = sample_journal [1, 10] [sample_envelope 1], au_operations = Map.empty,
      au_projectors = [TaskId 1 \<mapsto> p]\<rparr>"
proof -
  obtain p patch where p: "project_event sample_uuid_crate (new_projector (TaskId 1)) (sample_envelope 1) = Inr (p, patch)"
    using sample_project by blast
  have check: "check_task sample_authority sample_new = Inr ()"
    by (simp add: check_task_def sample_authority_def sample_new_def)
  have apply_sample: "apply_event sample_uuid_crate Map.empty Map.empty (sample_envelope 1)
      = Inr (Map.empty, [TaskId 1 \<mapsto> p], patch)"
    using p by (simp add: apply_event_def apply_operation_def sample_envelope_def Let_def)
  show ?thesis
    using check apply_sample sample_prepare sample_append
    by (intro exI [of _ p]) (simp add: record_step_def sample_record_step_def record_authority_def sample_authority_def)
qed

section \<open>Properties\<close>

text \<open>
  C10. A restart rebuilds the authority: after any run of records on a disk that works, accepted or
  refused, opening the file again gives the same journal, operations and projectors that the
  daemon had in memory, as long as the artifact store still answers for the accepted artifacts.
\<close>

theorem restart_rebuilds_authority:
  assumes "codec_ok C" and "open_authority C U read_artifact io path file = Inr a"
    and "\<forall>i \<in> set xs. io_good (ri_io (fst i))" and "records C U xs a = b"
    and "\<forall>e \<in> set (jl_events (au_journal b)). check_artifact read_artifact e = Inr ()"
  shows "open_authority C U read_artifact io path (jl_file (au_journal b)) = Inr b"
proof -
  obtain j where j: "open_journal C io path file = Inr j" "load_authority U read_artifact j = Inr a"
    using assms(2) by (auto simp: open_authority_def result_simps)
  note a = load_authority_ok [OF j(2)]
  from records_good_clean [OF assms(1), of a xs] opened_clean [OF j(1)] assms(3,4) a(2)
  have "journal_clean C (au_journal b)" "jl_path (au_journal b) = path" by auto
  from reopen_clean [OF j(1) this] have "open_journal C io path (jl_file (au_journal b)) = Inr (au_journal b)" .
  moreover have "load_authority U read_artifact (au_journal b) = Inr b"
    using authority_ok_load [OF _ assms(5)] authority_ok_records [OF a(1), of C xs] assms(4) by simp
  ultimately show ?thesis by (simp add: open_authority_def)
qed

theorem restart_rebuilds_authority_witness:
  "\<exists>b. open_authority sample_codec sample_uuid_crate (\<lambda>_. Inr ()) sample_open ''j'' [1, 10] = Inr b
     \<and> au_projectors b (TaskId 1) \<noteq> None"
proof -
  obtain p where b: "records sample_codec sample_uuid_crate [sample_record_step] sample_authority =
     \<lparr>au_journal = sample_journal [1, 10] [sample_envelope 1], au_operations = Map.empty,
      au_projectors = [TaskId 1 \<mapsto> p]\<rparr>"
    using sample_recorded by blast
  have io: "\<forall>i \<in> set [sample_record_step]. io_good (ri_io (fst i))"
    by (simp add: sample_record_step_def io_good_def good_io_def)
  from restart_rebuilds_authority [OF sample_codec_ok sample_authority_opens io b]
  show ?thesis by (simp add: sample_journal_def)
qed

end
