(* ===== verification/Mcp_Server.thy ===== *)
theory Mcp_Server
  imports Step Journal Canonical_Json "HOL-Library.AList"
begin

text \<open>
  The agent-mode MCP server of \<^verbatim>\<open>hyper-term-drivers/src/mcp.rs\<close>: the JSON-RPC session of an
  agent, whose tool calls become proposals that the permission broker must authorize before an
  executor sees them, and the argument checks that the daemon shares. \<open>receive\<close> is the message
  handler; \<open>authorize_tool\<close>, \<open>complete_tool\<close> and \<open>fail_tool\<close> are the
  broker's side.

  The hash map of pending calls is an association list. The objects of a \<^verbatim>\<open>json!\<close> literal
  have their entries in the order of the source. serde's encoder and sha2 are parameters.
\<close>

section \<open>JSON access\<close>

fun json_get :: "string \<Rightarrow> json \<Rightarrow> json option" where
  "json_get key (JObject entries) = map_of entries key"
| "json_get key _ = None"

fun as_str :: "json \<Rightarrow> string option" where
  "as_str (JString s) = Some s"
| "as_str _ = None"

fun as_object :: "json \<Rightarrow> (string \<times> json) list option" where
  "as_object (JObject entries) = Some entries"
| "as_object _ = None"

fun is_u64 :: "json \<Rightarrow> bool" where
  "is_u64 (JNumber (PosInt _)) = True"
| "is_u64 _ = False"

fun is_boolean :: "json \<Rightarrow> bool" where
  "is_boolean (JBool _) = True"
| "is_boolean _ = False"

definition is_object :: "json \<Rightarrow> bool" where
  "is_object v \<longleftrightarrow> as_object v \<noteq> None"

definition and_maybe :: "'a option \<Rightarrow> ('a \<Rightarrow> 'b option) \<Rightarrow> 'b option" where
  "and_maybe x f = (case x of None \<Rightarrow> None | Some a \<Rightarrow> f a)"

section \<open>State\<close>

definition MCP_PROTOCOL_VERSION :: string where
  "MCP_PROTOCOL_VERSION = ''2025-11-25''"

definition MAX_MCP_FRAME_BYTES :: nat where
  "MAX_MCP_FRAME_BYTES = 2 * 1024 * 1024"

definition MAX_MCP_ARGUMENT_BYTES :: nat where
  "MAX_MCP_ARGUMENT_BYTES = 1024 * 1024"

definition MAX_MCP_RESULT_BYTES :: nat where
  "MAX_MCP_RESULT_BYTES = 1024 * 1024"

definition MAX_PENDING_TOOL_CALLS :: nat where
  "MAX_PENDING_TOOL_CALLS = 128"

datatype external_request_id = String string | Signed (* i64 *) "64 word" | Unsigned u64

datatype structured_agent_protocol = Acp | CodexAppServerV2 | ClaudeStreamJson | Mcp20251125

datatype agent_effect_kind = EffectShell | WorkspaceEdit | Tool | EffectComputerUse | EffectOpaque

record agent_effect_proposal =
  aep_driver_id :: uuid
  aep_protocol :: structured_agent_protocol
  aep_request_id :: external_request_id
  aep_method :: string
  aep_kind :: agent_effect_kind
  aep_summary :: string
  aep_required_capabilities :: "string list"
  aep_payload_sha256 :: string
  aep_thread_id :: "string option"
  aep_turn_id :: "string option"
  aep_item_id :: "string option"

record agent_effect_authorization =
  aea_operation_id :: operation_id
  aea_operation_revision :: u64
  aea_proposal_sha256 :: string
  aea_decision :: permission_decision

datatype mcp_lifecycle = New | Initializing | Ready

datatype mcp_tool_class = GenUiCompile | DenoLspQuery | DiffReview

record mcp_tool_call =
  mt_request_id :: external_request_id
  mt_class :: mcp_tool_class
  mt_name :: string
  mt_arguments :: json
  mt_proposal :: agent_effect_proposal

datatype mcp_server_action = Response json | ToolProposed mcp_tool_call

record mcp_tool_result =
  mres_text :: string
  mres_structured_content :: "json option"
  mres_is_error :: bool

datatype mcp_authorization_outcome = CallAuthorized mcp_tool_call | CallRejected json

record pending_tool_call =
  ptc_call :: mcp_tool_call
  ptc_authorized :: bool

record mcp_agent_server =
  ms_driver_id :: uuid
  ms_lifecycle :: mcp_lifecycle
  ms_enabled_tools :: "mcp_tool_class list"
  ms_pending :: "(external_request_id \<times> pending_tool_call) list"

record tool_profile_record =
  tp_class :: mcp_tool_class
  tp_summary :: string
  tp_required_capabilities :: "string list"

datatype mcp_server_error =
    McpJson json_error
  | McpFrameTooLarge (* label *) string (* actual *) nat (* maximum *) nat
  | PendingOverflow
  | DuplicateRequestId
  | UnknownToolCall
  | AlreadyAuthorized
  | ToolCallNotAuthorized
  | InvalidAuthorization string
  | ResultTooLarge
  | InvalidResult string

text \<open>The libraries: serde's compact encoder, the text of its errors, sha2, the crate's version.\<close>

record mcp_crate =
  value_to_vec :: "json \<Rightarrow> json_error + bytes"
  json_error_text :: "json_error \<Rightarrow> string"
  decimal_text :: "nat \<Rightarrow> string"
  mcp_sha256 :: "bytes \<Rightarrow> bytes"
  mcp_package_version :: string

section \<open>Messages\<close>

definition ensure_size :: "mcp_crate \<Rightarrow> json \<Rightarrow> nat \<Rightarrow> string \<Rightarrow> mcp_server_error + unit" where
  "ensure_size C v maximum label =
     and_then (map_err McpJson (value_to_vec C v)) (\<lambda>bytes.
       if length bytes > maximum then Inl (McpFrameTooLarge label (length bytes) maximum) else Inr ())"

fun rpc_id :: "json option \<Rightarrow> external_request_id option" where
  "rpc_id (Some (JString s)) = (if length s \<le> 512 then Some (String s) else None)"
| "rpc_id (Some (JNumber (PosInt n))) =
     (if unat n < 2 ^ 63 then Some (Signed n) else Some (Unsigned n))"
| "rpc_id (Some (JNumber (NegInt i))) = Some (Signed i)"
| "rpc_id _ = None"

fun rpc_id_value :: "external_request_id \<Rightarrow> json" where
  "rpc_id_value (String s) = JString s"
| "rpc_id_value (Signed i) = JNumber (if 0 \<le>s i then PosInt i else NegInt i)"
| "rpc_id_value (Unsigned n) = JNumber (PosInt n)"

definition rpc_result :: "external_request_id \<Rightarrow> json \<Rightarrow> json" where
  "rpc_result rid result =
     JObject [(''jsonrpc'', JString ''2.0''), (''id'', rpc_id_value rid), (''result'', result)]"

definition rpc_error :: "external_request_id \<Rightarrow> int \<Rightarrow> string \<Rightarrow> json" where
  "rpc_error rid code message =
     JObject [(''jsonrpc'', JString ''2.0''), (''id'', rpc_id_value rid),
       (''error'', JObject [(''code'', JNumber ((if code < 0 then NegInt else PosInt) (word_of_int code))), (''message'', JString message)])]"

definition not_ready :: "external_request_id \<Rightarrow> mcp_server_action" where
  "not_ready rid = Response (rpc_error rid (- 32002) ''MCP session has not completed initialization'')"

definition sha256_value :: "mcp_crate \<Rightarrow> json \<Rightarrow> mcp_server_error + string" where
  "sha256_value C v =
     and_then (map_err McpJson (value_to_vec C (canonical_mcp_json_value v))) (\<lambda>bytes.
       Inr (hex_lower (mcp_sha256 C bytes)))"

definition validate_tool_result :: "mcp_crate \<Rightarrow> mcp_tool_result \<Rightarrow> mcp_server_error + unit" where
  "validate_tool_result C result =
     (if length (mres_text result) > MAX_MCP_RESULT_BYTES then Inl ResultTooLarge
      else case mres_structured_content result of
        None \<Rightarrow> Inr ()
      | Some v \<Rightarrow>
          if \<not> is_object v then Inl (InvalidResult ''structured content must be a JSON object'')
          else ensure_size C v MAX_MCP_RESULT_BYTES ''structured tool result'')"

definition tool_result ::
    "mcp_crate \<Rightarrow> external_request_id \<Rightarrow> mcp_tool_result \<Rightarrow> mcp_server_error + json" where
  "tool_result C rid result =
     and_then (validate_tool_result C result) (\<lambda>_.
       Inr (rpc_result rid (JObject
         ([(''content'', JArray [JObject [(''type'', JString ''text''), (''text'', JString (mres_text result))]]),
           (''isError'', JBool (mres_is_error result))]
          @ (case mres_structured_content result of
               None \<Rightarrow> [] | Some v \<Rightarrow> [(''structuredContent'', v)])))))"

section \<open>The catalog and its arguments\<close>

definition tool_profile :: "string \<Rightarrow> tool_profile_record option" where
  "tool_profile name =
     (if name = ''hyper_term.genui.compile'' then Some
        \<lparr>tp_class = GenUiCompile,
         tp_summary = ''Compile a bounded GenUI artifact with the supervised Deno runtime'',
         tp_required_capabilities = [''artifact_build'', ''deno_runtime'']\<rparr>
      else if name = ''hyper_term.lsp.query'' then Some
        \<lparr>tp_class = DenoLspQuery,
         tp_summary = ''Query the supervised Deno LSP against a workspace snapshot'',
         tp_required_capabilities = [''workspace_snapshot_read'', ''deno_lsp'']\<rparr>
      else if name = ''hyper_term.diff.review'' then Some
        \<lparr>tp_class = DiffReview,
         tp_summary = ''Build a read-only diff review artifact from bounded input'',
         tp_required_capabilities = [''diff_review'']\<rparr>
      else None)"

definition required_bounded_string ::
    "mcp_crate \<Rightarrow> (string \<times> json) list \<Rightarrow> string \<Rightarrow> nat \<Rightarrow> string + string" where
  "required_bounded_string C object key maximum =
     and_then (ok_or (and_maybe (map_of object key) as_str) (key @ '' must be a string'')) (\<lambda>v.
       if length v > maximum then Inl (key @ '' exceeds the '' @ decimal_text C maximum @ ''-byte bound'')
       else Inr v)"

definition optional_bounded_string ::
    "mcp_crate \<Rightarrow> (string \<times> json) list \<Rightarrow> string \<Rightarrow> nat \<Rightarrow> string + unit" where
  "optional_bounded_string C object key maximum = (case map_of object key of
       None \<Rightarrow> Inr ()
     | Some v \<Rightarrow>
         and_then (ok_or (as_str v) (key @ '' must be a string'')) (\<lambda>v.
           if length v > maximum then Inl (key @ '' exceeds the '' @ decimal_text C maximum @ ''-byte bound'')
           else Inr ()))"

definition reject_extra :: "(string \<times> json) list \<Rightarrow> string list \<Rightarrow> string + unit" where
  "reject_extra object allowed = (case find (\<lambda>key. key \<notin> set allowed) (map fst object) of
       Some key \<Rightarrow> Inl (''unknown tool argument: '' @ key)
     | None \<Rightarrow> Inr ())"

definition strip_slash :: "string \<Rightarrow> string" where
  "strip_slash s = (if starts_with ''/'' s then tl s else s)"

fun contains_dots :: "string \<Rightarrow> bool" where
  "contains_dots (c # d # s) = (c = CHR ''.'' \<and> d = CHR ''.'' \<or> contains_dots (d # s))"
| "contains_dots _ = False"

definition check_entry :: "(string \<times> json) list \<Rightarrow> string + unit" where
  "check_entry object = (case and_maybe (map_of object ''entry'') as_str of
       None \<Rightarrow> Inr ()
     | Some entry \<Rightarrow>
         (let normalized = strip_slash entry in
          if char_of (92 :: nat) \<in> set entry \<or> contains_dots entry \<or> normalized = []
             \<or> \<not> list_ex (\<lambda>extension. ends_with extension normalized) [''.tsx'', ''.ts'', ''.jsx'', ''.js'']
          then Inl ''entry must be a bounded virtual TS/JS module path''
          else Inr ()))"

definition LSP_ALLOWED_METHODS :: "string list" where
  "LSP_ALLOWED_METHODS =
     [''textDocument/hover'', ''textDocument/completion'', ''textDocument/definition'',
      ''textDocument/references'', ''textDocument/documentSymbol'', ''textDocument/formatting'']"

definition check_position :: "(string \<times> json) list \<Rightarrow> string + unit" where
  "check_position object = (case map_of object ''position'' of
       None \<Rightarrow> Inr ()
     | Some position \<Rightarrow>
         and_then (ok_or (as_object position) ''LSP position must be an object'') (\<lambda>position.
         and_then (try_fold (\<lambda>_ key.
             if (case map_of position key of None \<Rightarrow> False | Some v \<Rightarrow> is_u64 v) then Inr ()
             else Inl (''LSP position '' @ key @ '' must be a non-negative integer''))
             () [''line'', ''character'']) (\<lambda>_.
           reject_extra position [''line'', ''character''])))"

definition validate_arguments :: "mcp_crate \<Rightarrow> mcp_tool_class \<Rightarrow> json \<Rightarrow> string + unit" where
  "validate_arguments C cls arguments =
     and_then (map_err (json_error_text C) (value_to_vec C arguments)) (\<lambda>bytes.
     if length bytes > MAX_MCP_ARGUMENT_BYTES
     then Inl (''tool arguments exceed the '' @ decimal_text C MAX_MCP_ARGUMENT_BYTES @ ''-byte bound'')
     else and_then (ok_or (as_object arguments) ''tool arguments must be an object'') (\<lambda>object.
     case cls of
       GenUiCompile \<Rightarrow>
         and_then (required_bounded_string C object ''source'' 262144) (\<lambda>_.
         and_then (optional_bounded_string C object ''entry'' 256) (\<lambda>_.
         and_then (check_entry object) (\<lambda>_.
           reject_extra object [''source'', ''entry''])))
     | DenoLspQuery \<Rightarrow>
         and_then (required_bounded_string C object ''method'' 64) (\<lambda>method.
         if method \<notin> set LSP_ALLOWED_METHODS
         then Inl ''LSP method is not in the read-only query allowlist''
         else and_then (required_bounded_string C object ''documentPath'' 4096) (\<lambda>_.
         if method \<in> {''textDocument/hover'', ''textDocument/completion'', ''textDocument/definition'',
               ''textDocument/references''} \<and> map_of object ''position'' = None
         then Inl (method @ '' requires a position'')
         else and_then (check_position object) (\<lambda>_.
         if (case map_of object ''includeDeclaration'' of None \<Rightarrow> False | Some v \<Rightarrow> \<not> is_boolean v)
         then Inl ''includeDeclaration must be a boolean''
         else reject_extra object [''method'', ''documentPath'', ''position'', ''includeDeclaration''])))
     | DiffReview \<Rightarrow>
         and_then (required_bounded_string C object ''before'' 524288) (\<lambda>_.
         and_then (required_bounded_string C object ''after'' 524288) (\<lambda>_.
         and_then (optional_bounded_string C object ''language'' 64) (\<lambda>_.
           reject_extra object [''before'', ''after'', ''language''])))))"

definition validate_brokered_mcp_tool :: "mcp_crate \<Rightarrow> string \<Rightarrow> json \<Rightarrow> string + mcp_tool_class" where
  "validate_brokered_mcp_tool C name arguments =
     and_then (ok_or (tool_profile name) ''unknown Hyper Term tool'') (\<lambda>profile.
     and_then (validate_arguments C (tp_class profile) arguments) (\<lambda>_.
       Inr (tp_class profile)))"

text \<open>The schemas of the catalog, as \<^verbatim>\<open>tools/list\<close> gives them.\<close>

definition json_string_schema :: "nat \<Rightarrow> json" where
  "json_string_schema maximum =
     JObject [(''type'', JString ''string''), (''maxLength'', JNumber (PosInt (of_nat maximum)))]"

definition described :: "json \<Rightarrow> string \<Rightarrow> json" where
  "described schema text = (case schema of
       JObject entries \<Rightarrow> JObject (entries @ [(''description'', JString text)]) | v \<Rightarrow> v)"

definition object_schema :: "(string \<times> json) list \<Rightarrow> string list \<Rightarrow> json" where
  "object_schema properties required =
     JObject [(''type'', JString ''object''), (''properties'', JObject properties),
       (''required'', JArray (map JString required)), (''additionalProperties'', JBool False)]"

definition tool_definition :: "string \<Rightarrow> string \<Rightarrow> string \<Rightarrow> json \<Rightarrow> json" where
  "tool_definition name title description schema =
     JObject [(''name'', JString name), (''title'', JString title), (''description'', JString description),
       (''inputSchema'', schema), (''execution'', JObject [(''taskSupport'', JString ''forbidden'')])]"

definition position_schema :: json where
  "position_schema = object_schema
     [(''line'', JObject [(''type'', JString ''integer''), (''minimum'', JNumber (PosInt 0))]),
      (''character'', JObject [(''type'', JString ''integer''), (''minimum'', JNumber (PosInt 0))])]
     [''line'', ''character'']"

definition tool_catalog :: "(mcp_tool_class \<times> json) list" where
  "tool_catalog =
     [(GenUiCompile, tool_definition ''hyper_term.genui.compile'' ''Compile GenUI''
         ''Propose compilation of bounded React/TypeScript source in Hyper Term's supervised Deno runtime. This tool cannot run shell commands or write workspace files.''
         (object_schema
           [(''source'', json_string_schema 262144),
            (''entry'', described (json_string_schema 256) ''Optional virtual TS/JS module path; defaults to /App.tsx'')]
           [''source''])),
      (DenoLspQuery, tool_definition ''hyper_term.lsp.query'' ''Query Deno LSP''
         ''Propose a bounded, allowlisted Deno LSP query against an authority-created workspace snapshot.''
         (object_schema
           [(''method'', JObject [(''type'', JString ''string''), (''enum'', JArray (map JString LSP_ALLOWED_METHODS))]),
            (''documentPath'', described (json_string_schema 4096)
               ''UTF-8 path relative to the authority-created workspace snapshot''),
            (''position'', position_schema),
            (''includeDeclaration'', JObject [(''type'', JString ''boolean'')])]
           [''method'', ''documentPath''])),
      (DiffReview, tool_definition ''hyper_term.diff.review'' ''Build Diff Review''
         ''Propose a read-only diff artifact from two bounded text revisions. This tool does not read or modify files.''
         (object_schema
           [(''before'', json_string_schema 524288), (''after'', json_string_schema 524288),
            (''language'', json_string_schema 64)]
           [''before'', ''after'']))]"

definition tool_definitions :: "mcp_tool_class list \<Rightarrow> json list" where
  "tool_definitions enabled =
     List.map_filter (\<lambda>(cls, definition). if cls \<in> set enabled then Some definition else None) tool_catalog"

section \<open>The session\<close>

type_synonym 'a mcp_step = "(mcp_agent_server, mcp_server_error, 'a) step"

definition with_tools :: "uuid \<Rightarrow> mcp_tool_class list \<Rightarrow> mcp_agent_server" where
  "with_tools driver_id tools =
     \<lparr>ms_driver_id = driver_id, ms_lifecycle = New,
      ms_enabled_tools = fold (\<lambda>tool enabled. if tool \<in> set enabled then enabled else enabled @ [tool]) tools [],
      ms_pending = []\<rparr>"

definition new_mcp_server :: "uuid \<Rightarrow> mcp_agent_server" where
  "new_mcp_server driver_id = with_tools driver_id [GenUiCompile, DenoLspQuery, DiffReview]"

definition respond :: "json \<Rightarrow> mcp_server_action option mcp_step" where
  "respond v = return_step (Some (Response v))"

definition initialize_session ::
    "mcp_crate \<Rightarrow> external_request_id option \<Rightarrow> json option \<Rightarrow> mcp_server_action option mcp_step" where
  "initialize_session C request params = (case request of
       None \<Rightarrow> return_step None
     | Some rid \<Rightarrow> bind_step (read_step ms_lifecycle) (\<lambda>lifecycle.
         if lifecycle \<noteq> New then respond (rpc_error rid (- 32600) ''MCP session is already initialized'')
         else if and_maybe (and_maybe params (json_get ''protocolVersion'')) as_str = None
         then respond (rpc_error rid (- 32602) ''initialize requires protocolVersion'')
         else then_step (update_step (\<lambda>s. s\<lparr>ms_lifecycle := Initializing\<rparr>))
           (respond (rpc_result rid (JObject
             [(''protocolVersion'', JString MCP_PROTOCOL_VERSION),
              (''capabilities'', JObject [(''tools'', JObject [(''listChanged'', JBool False)])]),
              (''serverInfo'', JObject
                [(''name'', JString ''hyper-term''), (''title'', JString ''Hyper Term Agent Tools''),
                 (''version'', JString (mcp_package_version C)),
                 (''description'', JString ''Brokered GenUI, Deno LSP, and diff proposals for Agent mode'')]),
              (''instructions'', JString ''All tool calls are proposals. Hyper Term executes them only after Rust-owned policy and permission checks.'')])))))"

definition mark_initialized :: "external_request_id option \<Rightarrow> mcp_server_action option mcp_step" where
  "mark_initialized request = (case request of
       Some rid \<Rightarrow> respond (rpc_error rid (- 32600) ''notifications/initialized must be a notification'')
     | None \<Rightarrow> bind_step (read_step ms_lifecycle) (\<lambda>lifecycle.
         if lifecycle \<noteq> Initializing then return_step None
         else then_step (update_step (\<lambda>s. s\<lparr>ms_lifecycle := Ready\<rparr>)) (return_step None)))"

definition list_tools ::
    "external_request_id option \<Rightarrow> json option \<Rightarrow> mcp_server_action option mcp_step" where
  "list_tools request params = (case request of
       None \<Rightarrow> return_step None
     | Some rid \<Rightarrow> bind_step (read_step (\<lambda>s. s)) (\<lambda>s.
         if ms_lifecycle s \<noteq> Ready then return_step (Some (not_ready rid))
         else if (case and_maybe params (json_get ''cursor'') of None \<Rightarrow> False | Some c \<Rightarrow> c \<noteq> JNull)
         then respond (rpc_error rid (- 32602) ''this bounded catalog has no additional pages'')
         else respond (rpc_result rid (JObject [(''tools'', JArray (tool_definitions (ms_enabled_tools s)))]))))"

definition effect_proposal ::
    "uuid \<Rightarrow> external_request_id \<Rightarrow> string \<Rightarrow> tool_profile_record \<Rightarrow> string \<Rightarrow> agent_effect_proposal" where
  "effect_proposal driver_id rid name profile payload_sha256 =
     \<lparr>aep_driver_id = driver_id, aep_protocol = Mcp20251125, aep_request_id = rid,
      aep_method = ''tools/call:'' @ name, aep_kind = Tool, aep_summary = tp_summary profile,
      aep_required_capabilities = tp_required_capabilities profile,
      aep_payload_sha256 = payload_sha256, aep_thread_id = None, aep_turn_id = None, aep_item_id = None\<rparr>"

definition call_payload :: "string \<Rightarrow> json \<Rightarrow> json" where
  "call_payload name arguments = JObject [(''name'', JString name), (''arguments'', arguments)]"

text \<open>The last part of \<^verbatim>\<open>call_tool\<close>: a call that passed its checks becomes pending.\<close>

definition propose_call ::
    "mcp_crate \<Rightarrow> external_request_id \<Rightarrow> string \<Rightarrow> tool_profile_record \<Rightarrow> json \<Rightarrow> mcp_server_action option mcp_step" where
  "propose_call C rid name profile arguments =
     bind_step (read_step (\<lambda>s. s)) (\<lambda>s.
     then_step (guard_step (length (ms_pending s) \<noteq> MAX_PENDING_TOOL_CALLS) PendingOverflow)
     (then_step (guard_step (map_of (ms_pending s) rid = None) DuplicateRequestId)
     (bind_step (lift_step (sha256_value C (call_payload name arguments))) (\<lambda>payload_sha256.
       let call = \<lparr>mt_request_id = rid, mt_class = tp_class profile, mt_name = name,
                   mt_arguments = arguments,
                   mt_proposal = effect_proposal (ms_driver_id s) rid name profile payload_sha256\<rparr>
       in then_step (update_step (\<lambda>s. s\<lparr>ms_pending :=
              AList.update rid \<lparr>ptc_call = call, ptc_authorized = False\<rparr> (ms_pending s)\<rparr>))
            (return_step (Some (ToolProposed call)))))))"

definition call_tool ::
    "mcp_crate \<Rightarrow> external_request_id option \<Rightarrow> json option \<Rightarrow> mcp_server_action option mcp_step" where
  "call_tool C request params = (case request of
       None \<Rightarrow> return_step None
     | Some rid \<Rightarrow> bind_step (read_step (\<lambda>s. s)) (\<lambda>s.
     if ms_lifecycle s \<noteq> Ready then return_step (Some (not_ready rid))
     else case params of
       None \<Rightarrow> respond (rpc_error rid (- 32602) ''tools/call requires params'')
     | Some params \<Rightarrow> (case and_maybe (json_get ''name'' params) as_str of
       None \<Rightarrow> respond (rpc_error rid (- 32602) ''tools/call requires a tool name'')
     | Some name \<Rightarrow> (case tool_profile name of
       None \<Rightarrow> respond (rpc_error rid (- 32602) ''unknown Hyper Term tool'')
     | Some profile \<Rightarrow>
         if tp_class profile \<notin> set (ms_enabled_tools s)
         then respond (rpc_error rid (- 32602) ''tool is not enabled for this Agent session'')
         else let arguments = (case json_get ''arguments'' params of None \<Rightarrow> JObject [] | Some v \<Rightarrow> v) in
         if \<not> is_object arguments
         then respond (rpc_error rid (- 32602) ''tool arguments must be an object'')
         else case validate_arguments C (tp_class profile) arguments of
           Inl error \<Rightarrow> bind_step (lift_step (tool_result C rid
               \<lparr>mres_text = error, mres_structured_content = None, mres_is_error = True\<rparr>)) respond
         | Inr _ \<Rightarrow> propose_call C rid name profile arguments))))"

definition empty_inventory ::
    "external_request_id option \<Rightarrow> string \<Rightarrow> mcp_server_action option mcp_step" where
  "empty_inventory request field = (case request of
       None \<Rightarrow> return_step None
     | Some rid \<Rightarrow> bind_step (read_step ms_lifecycle) (\<lambda>lifecycle.
         if lifecycle \<noteq> Ready then return_step (Some (not_ready rid))
         else respond (rpc_result rid (JObject [(field, JArray [])]))))"

definition refuse_message ::
    "external_request_id option \<Rightarrow> int \<Rightarrow> string \<Rightarrow> mcp_server_action option mcp_step" where
  "refuse_message request code message =
     return_step (map_option (\<lambda>rid. Response (rpc_error rid code message)) request)"

definition receive_message :: "mcp_crate \<Rightarrow> json \<Rightarrow> mcp_server_action option mcp_step" where
  "receive_message C message =
     then_step (lift_step (ensure_size C message MAX_MCP_FRAME_BYTES ''MCP frame''))
     (let rid = rpc_id (json_get ''id'' message); params = json_get ''params'' message in
      if json_get ''jsonrpc'' message \<noteq> Some (JString ''2.0'')
      then refuse_message rid (- 32600) ''JSON-RPC version must be 2.0''
      else case and_maybe (json_get ''method'' message) as_str of
        None \<Rightarrow> refuse_message rid (- 32600) ''request method is missing''
      | Some method \<Rightarrow>
          if method = ''initialize'' then initialize_session C rid params
          else if method = ''notifications/initialized'' then mark_initialized rid
          else if method = ''ping''
          then return_step (map_option (\<lambda>rid. Response (rpc_result rid (JObject []))) rid)
          else if method = ''tools/list'' then list_tools rid params
          else if method = ''tools/call'' then call_tool C rid params
          else if method = ''resources/list'' then empty_inventory rid ''resources''
          else if method = ''resources/templates/list'' then empty_inventory rid ''resourceTemplates''
          else refuse_message rid (- 32601) ''method not found'')"

definition pending_calls :: "mcp_agent_server \<Rightarrow> mcp_tool_call list" where
  "pending_calls s = map (ptc_call \<circ> snd) (ms_pending s)"

definition authorize_tool ::
    "mcp_crate \<Rightarrow> external_request_id \<Rightarrow> agent_effect_authorization \<Rightarrow> mcp_authorization_outcome mcp_step" where
  "authorize_tool C request_id authorization =
     then_step (guard_step (aea_operation_revision authorization \<noteq> 0)
       (InvalidAuthorization ''operation revision must be positive''))
     (bind_step (read_step ms_pending) (\<lambda>pendings.
      bind_step (lift_step (ok_or (map_of pendings request_id) UnknownToolCall)) (\<lambda>pending.
      then_step (guard_step
          (aea_proposal_sha256 authorization = aep_payload_sha256 (mt_proposal (ptc_call pending)))
          (InvalidAuthorization ''proposal digest does not match the pending tool call''))
      (let rejected = (\<lambda>reason. then_step
             (update_step (\<lambda>s. s\<lparr>ms_pending := AList.delete request_id (ms_pending s)\<rparr>))
             (bind_step (lift_step (tool_result C (mt_request_id (ptc_call pending))
                \<lparr>mres_text = reason, mres_structured_content = None, mres_is_error = True\<rparr>))
              (\<lambda>v. return_step (CallRejected v))))
       in case aea_decision authorization of
            AllowOnce \<Rightarrow>
              then_step (guard_step (\<not> ptc_authorized pending) AlreadyAuthorized)
              (then_step (update_step (\<lambda>s. s\<lparr>ms_pending :=
                  AList.update request_id (pending\<lparr>ptc_authorized := True\<rparr>) (ms_pending s)\<rparr>))
               (return_step (CallAuthorized (ptc_call pending))))
          | RejectOnce \<Rightarrow> rejected ''tool call was rejected by the permission broker''
          | Cancelled \<Rightarrow> rejected ''tool call was cancelled''
          | AllowAlways \<Rightarrow> fail_step (InvalidAuthorization
              ''persistent policy decisions are not wire-level authorizations'')
          | RejectAlways \<Rightarrow> fail_step (InvalidAuthorization
              ''persistent policy decisions are not wire-level authorizations'')))))"

definition complete_tool :: "mcp_crate \<Rightarrow> external_request_id \<Rightarrow> mcp_tool_result \<Rightarrow> json mcp_step" where
  "complete_tool C request_id result =
     bind_step (read_step ms_pending) (\<lambda>pendings.
     bind_step (lift_step (ok_or (map_of pendings request_id) UnknownToolCall)) (\<lambda>pending.
     then_step (guard_step (ptc_authorized pending) ToolCallNotAuthorized)
     (then_step (lift_step (validate_tool_result C result))
     (then_step (update_step (\<lambda>s. s\<lparr>ms_pending := AList.delete request_id (ms_pending s)\<rparr>))
       (lift_step (tool_result C (mt_request_id (ptc_call pending)) result))))))"

definition fail_tool :: "mcp_crate \<Rightarrow> external_request_id \<Rightarrow> string \<Rightarrow> json mcp_step" where
  "fail_tool C request_id message =
     bind_step (read_step ms_pending) (\<lambda>pendings.
     bind_step (lift_step (ok_or (map_of pendings request_id) UnknownToolCall)) (\<lambda>pending.
     then_step (update_step (\<lambda>s. s\<lparr>ms_pending := AList.delete request_id (ms_pending s)\<rparr>))
       (lift_step (tool_result C (mt_request_id (ptc_call pending))
          \<lparr>mres_text = message, mres_structured_content = None, mres_is_error = True\<rparr>))))"

end
