(* ===== verification/Daemon_Validation.thy ===== *)
theory Daemon_Validation
  imports Daemon_Types Mcp_Server
begin

text \<open>
  The checks of \<^verbatim>\<open>hyper-term-daemon/src/daemon_validation.rs\<close> and the approval details of
  \<^verbatim>\<open>approval_detail.rs\<close>: what an operation must look like before it is proposed, what of it a
  person is shown, and what an agent may report. serde's encoders and sha2 are a parameter, and so
  is what the file system says of a path.
\<close>

section \<open>Parameters\<close>

record host_files =
  hf_canonicalize :: "string \<Rightarrow> io_error + string"
  hf_is_file :: "string \<Rightarrow> bool"
  hf_is_dir :: "string \<Rightarrow> bool"
  hf_exists :: "string \<Rightarrow> bool"

record mcp_tool_contract_identity =
  tci_planned_runtime_identity :: string
  tci_name :: string
  tci_input_schema_sha256 :: string
  tci_output_schema_sha256 :: "string option"

record negotiated_mcp_runtime_identity =
  nri_planned_runtime_identity :: string
  nri_negotiated_protocol_version :: string
  nri_server_name :: string
  nri_server_version :: string
  nri_enforced_sandbox_profile_digest :: string
  nri_capabilities_digest :: string
  nri_catalog_digest :: string

record daemon_codec =
  dc_tool_call_receipt :: "local_mcp_tool_call_receipt \<Rightarrow> json_error + bytes"
  dc_runtime_receipt :: "local_mcp_server_runtime_receipt \<Rightarrow> json_error + bytes"
  dc_contract_identity :: "mcp_tool_contract_identity \<Rightarrow> json_error + bytes"
  dc_tools :: "local_mcp_tool_contract_receipt list \<Rightarrow> json_error + bytes"
  dc_runtime_identity :: "negotiated_mcp_runtime_identity \<Rightarrow> json_error + bytes"
  dc_agent_tool_call :: "agent_tool_call \<Rightarrow> json_error + bytes"
  dc_context_receipts :: "context_receipt list \<Rightarrow> json_error + bytes"
  dc_action :: "operation_action \<Rightarrow> json_error + bytes"
  dc_detail :: "approval_detail \<Rightarrow> json_error + bytes"
  dc_pretty :: "json \<Rightarrow> json_error + string"
  dc_mcp :: mcp_crate

definition daemon_sha256 :: "daemon_codec \<Rightarrow> bytes \<Rightarrow> string" where
  "daemon_sha256 D bs = hex_lower (mcp_sha256 (dc_mcp D) bs)"

definition daemon_json_text :: "daemon_codec \<Rightarrow> json_error \<Rightarrow> string" where
  "daemon_json_text D = json_error_text (dc_mcp D)"

primrec runtime_identity_text :: "mcp_runtime_identity_digest \<Rightarrow> string" where
  "runtime_identity_text (McpRuntimeIdentityDigest s) = s"

primrec tool_contract_text :: "mcp_tool_contract_digest \<Rightarrow> string" where
  "tool_contract_text (McpToolContractDigest s) = s"

primrec catalog_text :: "mcp_catalog_digest \<Rightarrow> string" where
  "catalog_text (McpCatalogDigest s) = s"

primrec capabilities_text :: "mcp_capabilities_digest \<Rightarrow> string" where
  "capabilities_text (McpCapabilitiesDigest s) = s"

primrec profile_digest_text :: "sandbox_profile_digest \<Rightarrow> string" where
  "profile_digest_text (SandboxProfileDigest s) = s"

section \<open>Local MCP servers and calls\<close>

definition server_id_char :: "char \<Rightarrow> bool" where
  "server_id_char c \<longleftrightarrow> is_ascii_alphanumeric c \<or> c \<in> {CHR ''-'', CHR ''_''}"

definition valid_server_id :: "string \<Rightarrow> bool" where
  "valid_server_id s \<longleftrightarrow> s \<noteq> [] \<and> length s \<le> 64 \<and> list_all server_id_char s"

definition valid_mcp_receipt_text :: "string \<Rightarrow> nat \<Rightarrow> bool" where
  "valid_mcp_receipt_text v maximum \<longleftrightarrow> v \<noteq> [] \<and> length v \<le> maximum \<and> \<not> has_control v"

definition validate_local_mcp_tool_call :: "local_mcp_tool_call \<Rightarrow> daemon_error + unit" where
  "validate_local_mcp_tool_call call =
     (if mtl_schema_version call \<noteq> LOCAL_MCP_TOOL_CALL_SCHEMA_VERSION
         \<or> \<not> valid_server_id (mtl_server_id call)
         \<or> \<not> valid_mcp_receipt_text (mtl_tool_name call) 256
      then Inl InvalidLocalMcpToolCall else Inr ())"

definition validate_local_mcp_tool_call_receipt ::
    "daemon_codec \<Rightarrow> local_mcp_tool_call_receipt \<Rightarrow> daemon_error + unit" where
  "validate_local_mcp_tool_call_receipt D receipt =
     and_then (map_err (\<lambda>_. InvalidLocalMcpToolCallReceipt)
       (validate_local_mcp_tool_call (mtr_call receipt))) (\<lambda>_.
     if mtr_schema_version receipt \<noteq> LOCAL_MCP_TOOL_CALL_SCHEMA_VERSION
     then Inl InvalidLocalMcpToolCallReceipt
     else and_then (map_err (\<lambda>_. InvalidLocalMcpToolCallReceipt) (dc_tool_call_receipt D receipt)) (\<lambda>encoded.
       if length encoded > 16 * 1024 then Inl InvalidLocalMcpToolCallReceipt else Inr ()))"

definition validate_mcp_server_launch ::
    "host_files \<Rightarrow> local_mcp_server_launch \<Rightarrow> daemon_error + unit" where
  "validate_mcp_server_launch F launch =
     (if lml_schema_version launch \<noteq> LOCAL_MCP_LAUNCH_SCHEMA_VERSION
         \<or> \<not> valid_server_id (lml_server_id launch)
         \<or> lml_argument_count launch > 64
         \<or> \<not> is_absolute (lml_executable launch)
         \<or> \<not> is_absolute (lml_working_directory launch)
         \<or> \<not> is_sha256 (lml_executable_sha256 launch)
         \<or> (case lml_roots_snapshot_sha256 launch of None \<Rightarrow> False | Some d \<Rightarrow> \<not> is_sha256 d)
      then Inl InvalidMcpServerLaunch
      else and_then (map_err (\<lambda>_. InvalidMcpServerLaunch) (hf_canonicalize F (lml_executable launch))) (\<lambda>executable.
           and_then (map_err (\<lambda>_. InvalidMcpServerLaunch) (hf_canonicalize F (lml_working_directory launch)))
             (\<lambda>working_directory.
      if \<not> path_eq executable (lml_executable launch) \<or> \<not> hf_is_file F executable
         \<or> \<not> path_eq working_directory (lml_working_directory launch) \<or> \<not> hf_is_dir F working_directory
      then Inl InvalidMcpServerLaunch else Inr ())))"

definition mcp_receipt_sha256 :: "daemon_codec \<Rightarrow> json_error + bytes \<Rightarrow> daemon_error + string" where
  "mcp_receipt_sha256 D encoded =
     and_then (map_err (\<lambda>_. InvalidLocalMcpRuntimeReceipt) encoded) (\<lambda>bytes. Inr (daemon_sha256 D bytes))"

text \<open>One tool of a receipt; the names increase, in the order of their bytes.\<close>

definition check_receipt_tool ::
    "daemon_codec \<Rightarrow> local_mcp_server_launch \<Rightarrow> string option \<Rightarrow> local_mcp_tool_contract_receipt
      \<Rightarrow> daemon_error + string option" where
  "check_receipt_tool D launch previous_name tool =
     (if \<not> valid_mcp_receipt_text (mtc_name tool) 256
         \<or> (case previous_name of None \<Rightarrow> False | Some previous \<Rightarrow> previous \<ge> mtc_name tool)
         \<or> \<not> is_sha256 (mtc_input_schema_sha256 tool)
         \<or> (case mtc_output_schema_sha256 tool of None \<Rightarrow> False | Some d \<Rightarrow> \<not> is_sha256 d)
      then Inl InvalidLocalMcpRuntimeReceipt
      else and_then (mcp_receipt_sha256 D (dc_contract_identity D
        \<lparr>tci_planned_runtime_identity = runtime_identity_text (lml_runtime_identity_digest launch),
         tci_name = mtc_name tool,
         tci_input_schema_sha256 = mtc_input_schema_sha256 tool,
         tci_output_schema_sha256 = mtc_output_schema_sha256 tool\<rparr>)) (\<lambda>expected_contract.
      if tool_contract_text (mtc_contract_digest tool) \<noteq> expected_contract
      then Inl InvalidLocalMcpRuntimeReceipt else Inr (Some (mtc_name tool))))"

definition validate_local_mcp_runtime_receipt ::
    "daemon_codec \<Rightarrow> host_files \<Rightarrow> local_mcp_server_runtime_receipt \<Rightarrow> daemon_error + unit" where
  "validate_local_mcp_runtime_receipt D F receipt =
     and_then (map_err (\<lambda>_. InvalidLocalMcpRuntimeReceipt)
       (validate_mcp_server_launch F (mrr_launch receipt))) (\<lambda>_.
     if mrr_schema_version receipt \<noteq> LOCAL_MCP_LAUNCH_SCHEMA_VERSION
        \<or> \<not> valid_mcp_receipt_text (mrr_negotiated_protocol_version receipt) 128
        \<or> \<not> valid_mcp_receipt_text (mrr_server_name receipt) 256
        \<or> \<not> valid_mcp_receipt_text (mrr_server_version receipt) 128
        \<or> mrr_enforced_sandbox_profile_digest receipt \<noteq> lml_sandbox_profile_digest (mrr_launch receipt)
        \<or> mrr_credential_scope receipt \<noteq> lml_credential_scope (mrr_launch receipt)
        \<or> mrr_per_call_isolation receipt
        \<or> length (mrr_tools receipt) > 256
     then Inl InvalidLocalMcpRuntimeReceipt
     else and_then (try_fold (check_receipt_tool D (mrr_launch receipt)) None (mrr_tools receipt)) (\<lambda>_.
     and_then (mcp_receipt_sha256 D (dc_tools D (mrr_tools receipt))) (\<lambda>expected_catalog.
     if catalog_text (mrr_catalog_digest receipt) \<noteq> expected_catalog
     then Inl InvalidLocalMcpRuntimeReceipt
     else and_then (mcp_receipt_sha256 D (dc_runtime_identity D
        \<lparr>nri_planned_runtime_identity = runtime_identity_text (lml_runtime_identity_digest (mrr_launch receipt)),
         nri_negotiated_protocol_version = mrr_negotiated_protocol_version receipt,
         nri_server_name = mrr_server_name receipt,
         nri_server_version = mrr_server_version receipt,
         nri_enforced_sandbox_profile_digest = profile_digest_text (mrr_enforced_sandbox_profile_digest receipt),
         nri_capabilities_digest = capabilities_text (mrr_capabilities_digest receipt),
         nri_catalog_digest = catalog_text (mrr_catalog_digest receipt)\<rparr>)) (\<lambda>expected_runtime.
     if runtime_identity_text (mrr_runtime_identity_digest receipt) \<noteq> expected_runtime
     then Inl InvalidLocalMcpRuntimeReceipt
     else and_then (map_err (\<lambda>_. InvalidLocalMcpRuntimeReceipt) (dc_runtime_receipt D receipt)) (\<lambda>encoded.
       if length encoded > 512 * 1024 then Inl InvalidLocalMcpRuntimeReceipt else Inr ())))))"

section \<open>Agent projections\<close>

definition validate_agent_tool_call :: "daemon_codec \<Rightarrow> agent_tool_call \<Rightarrow> daemon_error + unit" where
  "validate_agent_tool_call D call =
     (if atc_tool_call_id call = [] \<or> length (atc_tool_call_id call) > 4096
         \<or> atc_title call = [] \<or> length (atc_title call) > 16 * 1024
         \<or> length (atc_content call) > 128 \<or> length (atc_locations call) > 128
      then Inl (InvalidAgentProjection ''Agent tool call identity, title, or collection count is invalid'')
      else and_then (map_err (\<lambda>e. InvalidAgentProjection (daemon_json_text D e)) (dc_agent_tool_call D call)) (\<lambda>encoded.
        if length encoded > 512 * 1024
        then Inl (InvalidAgentProjection ''Agent tool call exceeds the 512 KiB journal bound'')
        else Inr ()))"

definition provider_char :: "char \<Rightarrow> bool" where
  "provider_char c \<longleftrightarrow> is_ascii_alphanumeric c \<or> c \<in> {CHR ''-'', CHR ''_''}"

definition protocol_char :: "char \<Rightarrow> bool" where
  "protocol_char c \<longleftrightarrow> is_ascii_alphanumeric c \<or> c \<in> {CHR ''-'', CHR ''_'', CHR ''.''}"

definition bounded_credential :: "credential_requirement \<Rightarrow> bool" where
  "bounded_credential c \<longleftrightarrow>
     crd_binding_id c \<noteq> [] \<and> length (crd_binding_id c) \<le> 128
     \<and> ref_provider_id (crd_reference c) \<noteq> [] \<and> length (ref_provider_id (crd_reference c)) \<le> 128
     \<and> ref_secret_id (crd_reference c) \<noteq> [] \<and> length (ref_secret_id (crd_reference c)) \<le> 256
     \<and> crd_target_name c \<noteq> [] \<and> length (crd_target_name c) \<le> 128
     \<and> crd_audience c \<noteq> [] \<and> length (crd_audience c) \<le> 2048 \<and> \<not> has_control (crd_audience c)"

definition check_context_receipt :: "string set \<Rightarrow> context_receipt \<Rightarrow> daemon_error + string set" where
  "check_context_receipt context_ids receipt =
     (if crc_schema_version receipt \<noteq> EXECUTION_CONTEXT_SCHEMA_VERSION
         \<or> crc_context_id receipt = [] \<or> length (crc_context_id receipt) > 128
         \<or> crc_context_id receipt \<in> context_ids
         \<or> length (crc_bindings receipt) > 128
         \<or> length (crc_credential_bindings receipt) > 32
         \<or> list_ex (\<lambda>c. \<not> bounded_credential c) (crc_credential_bindings receipt)
      then Inl (InvalidAgentProjection ''Agent execution-context receipt is invalid or unbounded'')
      else Inr (insert (crc_context_id receipt) context_ids))"

definition validate_agent_execution_context ::
    "daemon_codec \<Rightarrow> string \<Rightarrow> string \<Rightarrow> string \<Rightarrow> context_receipt list \<Rightarrow> daemon_error + unit" where
  "validate_agent_execution_context D provider_id protocol thread_id receipts =
     (if provider_id = [] \<or> length provider_id > 64 \<or> \<not> list_all provider_char provider_id
         \<or> protocol = [] \<or> length protocol > 64 \<or> \<not> list_all protocol_char protocol
         \<or> thread_id = [] \<or> length thread_id > 4096 \<or> has_control thread_id
         \<or> receipts = [] \<or> length receipts > 4
      then Inl (InvalidAgentProjection ''Agent execution-context identity or receipt count is invalid'')
      else and_then (try_fold check_context_receipt {} receipts) (\<lambda>_.
      and_then (map_err (\<lambda>e. InvalidAgentProjection (daemon_json_text D e)) (dc_context_receipts D receipts)) (\<lambda>encoded.
        if length encoded > 256 * 1024
        then Inl (InvalidAgentProjection ''Agent execution-context receipts exceed the 256 KiB journal bound'')
        else Inr ())))"

section \<open>Operations\<close>

definition validate_operation_scope :: "operation_record \<Rightarrow> task_id \<Rightarrow> u64 \<Rightarrow> daemon_error + unit" where
  "validate_operation_scope r task_id expected_revision =
     (if op_task_id r \<noteq> task_id then Inl (OperationTaskMismatch (op_task_id r) task_id)
      else if op_revision r \<noteq> expected_revision
      then Inl (StaleOperationRevision (op_revision r) expected_revision)
      else Inr ())"

definition bounded_nonempty :: "string \<Rightarrow> nat \<Rightarrow> string \<Rightarrow> daemon_error + string" where
  "bounded_nonempty v maximum label =
     (let v = trim v in
      if v = [] \<or> length v > maximum then Inl (InvalidBoundedText label maximum) else Inr v)"

definition validate_operation_environment :: "terminal_command \<Rightarrow> daemon_error + unit" where
  "validate_operation_environment c = try_fold (\<lambda>_ (name, _).
     if classify_environment_name name
        \<in> {Credential, ShellStartup, LoaderInjection, NetworkControl, AuthorityHandle}
     then Inl (UnsafeOperationEnvironment name) else Inr ()) () (tc_env c)"

definition MAX_ARGUMENT_PREVIEW_BYTES :: nat where
  "MAX_ARGUMENT_PREVIEW_BYTES = 192"

definition validate_brokered_mcp_tool_call :: "brokered_mcp_tool_call \<Rightarrow> daemon_error + unit" where
  "validate_brokered_mcp_tool_call call =
     (if bmc_schema_version call \<noteq> BROKERED_MCP_TOOL_CALL_SCHEMA_VERSION
         \<or> bmc_server_id call \<noteq> ''hyper-term''
         \<or> bmc_tool_name call \<notin> {''hyper_term.diff.review'', ''hyper_term.lsp.query'', ''hyper_term.genui.compile''}
         \<or> bmc_canonical_arguments_preview call = []
         \<or> length (bmc_canonical_arguments_preview call) > MAX_ARGUMENT_PREVIEW_BYTES + 4
         \<or> bmc_arguments_bytes call = 0
         \<or> \<not> is_sha256 (bmc_proposal_digest call)
      then Inl BrokeredMcpBindingMismatch else Inr ())"

definition validate_action_kind ::
    "host_files \<Rightarrow> operation_kind \<Rightarrow> operation_action \<Rightarrow> daemon_error + unit" where
  "validate_action_kind F kind action = (case (kind, action) of
       (operation_kind.Shell, operation_action.Shell command) \<Rightarrow> validate_operation_environment command
     | (operation_kind.McpServerLaunch, operation_action.McpServerLaunch launch) \<Rightarrow>
         validate_mcp_server_launch F launch
     | (operation_kind.McpTool, operation_action.McpToolCall call) \<Rightarrow> validate_local_mcp_tool_call call
     | (operation_kind.McpTool, operation_action.BrokeredMcpToolCall call) \<Rightarrow>
         validate_brokered_mcp_tool_call call
     | (operation_kind.McpTool, operation_action.Opaque _ _) \<Rightarrow> Inr ()
     | (operation_kind.FileEdit, operation_action.Opaque _ _) \<Rightarrow> Inr ()
     | (operation_kind.AgentTool, operation_action.Opaque _ _) \<Rightarrow> Inr ()
     | (operation_kind.ComputerUse, operation_action.Opaque _ _) \<Rightarrow> Inr ()
     | (operation_kind.ArtifactBuild, operation_action.Opaque _ _) \<Rightarrow> Inr ()
     | (operation_kind.Other _, operation_action.Opaque _ _) \<Rightarrow> Inr ()
     | _ \<Rightarrow> Inl ActionKindMismatch)"

section \<open>Approval details\<close>

definition REDACTED :: string where
  "REDACTED = ''<redacted>''"

definition sensitive_flag :: "string \<Rightarrow> bool" where
  "sensitive_flag v \<longleftrightarrow>
     map (\<lambda>c. if c = CHR ''_'' then CHR ''-'' else c) (to_ascii_lowercase (dropWhile (\<lambda>c. c = CHR ''-'') v))
     \<in> {''token'', ''access-token'', ''api-key'', ''password'', ''passwd'', ''secret'', ''authorization'',
        ''credential''}"

fun redact_arguments :: "bool \<Rightarrow> string list \<Rightarrow> string list" where
  "redact_arguments redact_next [] = []"
| "redact_arguments redact_next (argument # rest) =
     (if redact_next then REDACTED # redact_arguments False rest
      else case split_once (CHR ''='') argument of
        Some (flag, v) \<Rightarrow>
          if sensitive_flag flag then (flag @ ''='' @ REDACTED) # redact_arguments False rest
          else argument # redact_arguments (sensitive_flag argument) rest
      | None \<Rightarrow> argument # redact_arguments (sensitive_flag argument) rest)"

definition redact_command_arguments :: "string list \<Rightarrow> string list" where
  "redact_command_arguments arguments = redact_arguments False arguments"

definition digest_value :: "daemon_codec \<Rightarrow> json_error + bytes \<Rightarrow> daemon_error + string" where
  "digest_value D encoded =
     and_then (map_err (\<lambda>_. InvalidApprovalDetail) encoded) (\<lambda>bytes. Inr (daemon_sha256 D bytes))"

definition approval_action :: "operation_action \<Rightarrow> approval_action_detail" where
  "approval_action action = (case action of
       operation_action.Shell command \<Rightarrow>
         approval_action_detail.Shell (tc_program command) (redact_command_arguments (tc_args command))
           (tc_cwd command) (map fst (tc_env command))
     | operation_action.McpServerLaunch l \<Rightarrow>
         approval_action_detail.McpServerLaunch (lml_server_id l) (lml_executable l) (lml_executable_sha256 l)
           (lml_argument_count l) (lml_arguments_digest l) (lml_working_directory l) (lml_sandbox_profile_digest l)
     | operation_action.McpToolCall c \<Rightarrow>
         approval_action_detail.McpTool (mtl_server_id c) (mtl_tool_name c) (mtl_runtime_identity_digest c)
           (mtl_catalog_digest c) (mtl_tool_contract_digest c) (mtl_arguments_digest c)
     | operation_action.BrokeredMcpToolCall c \<Rightarrow>
         approval_action_detail.BrokeredMcpTool (bmc_server_id c) (bmc_tool_name c)
           (bmc_canonical_arguments_preview c) (bmc_arguments_bytes c) (bmc_arguments_truncated c)
           (bmc_arguments_digest c) (bmc_proposal_digest c)
     | operation_action.Opaque kind payload_digest \<Rightarrow> approval_action_detail.Opaque kind payload_digest)"

definition opaque_effect :: "operation_action \<Rightarrow> bool" where
  "opaque_effect action = (case action of
       operation_action.Opaque kind _ \<Rightarrow>
         kind \<notin> {''hyper_term.workspace.apply'', ''hyper_term.tier2.accept'', ''hyper_term.genui.compile''}
     | _ \<Rightarrow> False)"

definition approval_detail_of :: "operation_record \<Rightarrow> action_digest \<Rightarrow> approval_detail" where
  "approval_detail_of r action_digest =
     \<lparr>ad_schema_version = APPROVAL_DETAIL_SCHEMA_VERSION,
      ad_operation_id = op_operation_id r,
      ad_operation_revision = op_revision r,
      ad_action_digest = action_digest,
      ad_action = approval_action (op_action r),
      ad_risk = op_risk r,
      ad_effective_capabilities = op_required_capabilities r,
      ad_opaque_effect = opaque_effect (op_action r)\<rparr>"

definition bound_approval_detail_of :: "daemon_codec \<Rightarrow> operation_record \<Rightarrow> daemon_error + bound_approval_detail" where
  "bound_approval_detail_of D r =
     and_then (digest_value D (dc_action D (op_action r))) (\<lambda>action_digest.
     and_then (map_err (\<lambda>_. InvalidApprovalDetail) (parse_digest ActionDigest action_digest)) (\<lambda>action_digest.
     let detail = approval_detail_of r action_digest in
     and_then (digest_value D (dc_detail D detail)) (\<lambda>detail_digest.
     and_then (map_err (\<lambda>_. InvalidApprovalDetail) (parse_digest ApprovalDetailDigest detail_digest)) (\<lambda>detail_digest.
       Inr \<lparr>bad_detail = detail, bad_detail_digest = detail_digest\<rparr>))))"

text \<open>\<^verbatim>\<open>is_char_boundary\<close>: a byte that does not continue a UTF-8 sequence.\<close>

definition is_char_boundary :: "string \<Rightarrow> nat \<Rightarrow> bool" where
  "is_char_boundary s i \<longleftrightarrow> i = 0 \<or> i = length s
     \<or> (i < length s \<and> ((of_char (s ! i) :: nat) < 128 \<or> (of_char (s ! i) :: nat) \<ge> 192))"

fun preview_boundary :: "string \<Rightarrow> nat \<Rightarrow> nat" where
  "preview_boundary s 0 = 0"
| "preview_boundary s (Suc i) = (if is_char_boundary s (Suc i) then Suc i else preview_boundary s i)"

text \<open>A newline and the UTF-8 encoding of the ellipsis.\<close>

definition ellipsis :: string where
  "ellipsis = map char_of [10, 226, 128, 166 :: nat]"

definition bounded_arguments_preview ::
    "daemon_codec \<Rightarrow> json \<Rightarrow> daemon_error + (string \<times> u32 \<times> bool)" where
  "bounded_arguments_preview D arguments =
     and_then (map_err (\<lambda>_. InvalidApprovalDetail) (value_to_vec (dc_mcp D) arguments)) (\<lambda>compact.
     if length compact \<ge> 2 ^ 32 then Inl InvalidApprovalDetail
     else let arguments_bytes = of_nat (length compact) in
     and_then (map_err (\<lambda>_. InvalidApprovalDetail) (dc_pretty D arguments)) (\<lambda>preview.
     if length preview \<le> MAX_ARGUMENT_PREVIEW_BYTES then Inr (preview, arguments_bytes, False)
     else Inr (take (preview_boundary preview MAX_ARGUMENT_PREVIEW_BYTES) preview @ ellipsis, arguments_bytes, True)))"

text \<open>The brokered call that \<^verbatim>\<open>propose_brokered_mcp_tool\<close> proposes, and its terms.\<close>

definition brokered_terms :: "mcp_tool_class \<Rightarrow> string \<times> string list" where
  "brokered_terms cls = (case cls of
       GenUiCompile \<Rightarrow> (''Compile a bounded GenUI artifact with the supervised Deno runtime'',
         [''artifact_build'', ''deno_runtime''])
     | DenoLspQuery \<Rightarrow> (''Query the supervised Deno LSP against a workspace snapshot'',
         [''workspace_snapshot_read'', ''deno_lsp''])
     | DiffReview \<Rightarrow> (''Build a read-only diff review artifact from bounded input'', [''diff_review'']))"

definition brokered_call ::
    "daemon_codec \<Rightarrow> string \<Rightarrow> json \<Rightarrow> daemon_error + (brokered_mcp_tool_call \<times> string \<times> string list)" where
  "brokered_call D tool_name arguments =
     and_then (map_err (\<lambda>_. BrokeredMcpBindingMismatch)
       (validate_brokered_mcp_tool (dc_mcp D) tool_name arguments)) (\<lambda>cls.
     and_then (bounded_arguments_preview D arguments) (\<lambda>(preview, arguments_bytes, arguments_truncated).
     and_then (map_err (\<lambda>e. BrokeredMcpRuntime (daemon_json_text D e))
       (value_to_vec (dc_mcp D) (canonical_mcp_json_value arguments))) (\<lambda>encoded_arguments.
     and_then (map_err (\<lambda>_. BrokeredMcpBindingMismatch)
       (parse_digest McpArgumentsDigest (daemon_sha256 D encoded_arguments))) (\<lambda>arguments_digest.
     and_then (map_err (\<lambda>e. BrokeredMcpRuntime (daemon_json_text D e))
       (value_to_vec (dc_mcp D) (canonical_mcp_json_value (call_payload tool_name arguments)))) (\<lambda>proposal.
     let (summary, required_capabilities) = brokered_terms cls in
       Inr (\<lparr>bmc_schema_version = BROKERED_MCP_TOOL_CALL_SCHEMA_VERSION,
             bmc_server_id = ''hyper-term'',
             bmc_tool_name = tool_name,
             bmc_canonical_arguments_preview = preview,
             bmc_arguments_bytes = arguments_bytes,
             bmc_arguments_truncated = arguments_truncated,
             bmc_arguments_digest = arguments_digest,
             bmc_proposal_digest = daemon_sha256 D proposal\<rparr>, summary, required_capabilities))))))"

section \<open>The context of an operation\<close>

definition operation_binding :: "string \<times> string \<Rightarrow> environment_binding_spec" where
  "operation_binding nv =
     \<lparr>ebs_target_name = fst nv, ebs_source = Literal (snd nv),
      ebs_class = classify_environment_name (fst nv), ebs_origin = Invocation, ebs_scope = ProcessTree,
      ebs_lifetime = binding_lifetime.Operation, ebs_override_policy = ReplaceSameClass\<rparr>"

definition operation_execution_context_spec ::
    "uuid_crate \<Rightarrow> operation_id \<Rightarrow> u64 \<Rightarrow> terminal_command \<Rightarrow> string \<Rightarrow> string \<Rightarrow> sandbox_profile
      \<Rightarrow> execution_context_spec" where
  "operation_execution_context_spec U oid operation_revision command workspace runtime_root sandbox =
     \<lparr>ecs_schema_version = EXECUTION_CONTEXT_SCHEMA_VERSION,
      ecs_context_id = ''operation:'' @ uuid_text U (operation_uuid oid),
      ecs_context_revision = operation_revision,
      ecs_mode = Hermetic,
      ecs_workspace = \<lparr>wcs_root = workspace, wcs_working_directory = workspace,
        wcs_runtime_home = runtime_root, wcs_runtime_temp = runtime_root\<rparr>,
      ecs_runtime = \<lparr>res_path = [''/usr/bin'', ''/bin'', ''/usr/sbin'', ''/sbin''], res_locale = ''C.UTF-8'',
        res_timezone = ''UTC'', res_terminal = ''xterm-256color''\<rparr>,
      ecs_shell = Some \<lparr>scs_executable = tc_program command, scs_invocation = ''pty_command'',
        scs_startup_files = False, scs_pty = True\<rparr>,
      ecs_environment = \<lparr>ep_bindings = map operation_binding (tc_env command),
        ep_collision_policy = ExplicitOverride\<rparr>,
      ecs_credentials = [],
      ecs_sandbox = Some sandbox\<rparr>"

end
