(* ===== verification/Launchers.thy ===== *)
theory Launchers
  imports Sandbox
begin

text \<open>
  The launcher of isolated tasks, \<open>LimaIsolatedTaskLauncher\<close> of
  \<^verbatim>\<open>hyper-term-sandbox/src/lima.rs\<close>: it compiles a plan that the runner executes in a
  virtual machine. \<^verbatim>\<open>serde_json\<close> and \<^verbatim>\<open>sha2\<close> are the parameter \<open>sandbox_crate\<close>.
\<close>

definition lima_compile ::
    "sandbox_crate \<Rightarrow> sandbox_compile_request \<Rightarrow> sandbox_error + sandbox_launch_plan" where
  "lima_compile S request =
     and_then (canonicalize_sandbox_profile (scr_profile request)) (\<lambda>profile.
     if sp_enforcement profile \<noteq> IsolatedTask \<or> sp_network profile \<noteq> Offline
        \<or> sp_lifetime profile \<noteq> OneOperation
     then Inl (BackendError ''Lima requires isolated_task, offline, one_operation'')
     else and_then (canonicalize_terminal_command (scr_command request)) (\<lambda>command.
     and_then (sandbox_profile_digest S profile) (\<lambda>profile_digest.
     and_then (terminal_action_digest S command) (\<lambda>action_digest.
       Inr \<lparr>slp_command = command,
            slp_compiled = \<lparr>csp_backend = LimaVm, csp_enforced = True, csp_profile = profile,
              csp_profile_digest = profile_digest, csp_action_digest = action_digest\<rparr>,
            slp_clear_environment = True\<rparr>))))"

lemma lima_compile_plan:
  assumes "lima_compile S request = Inr plan"
  shows "canonicalize_terminal_command (scr_command request) = Inr (slp_command plan)"
    and "csp_enforced (slp_compiled plan)" and "csp_backend (slp_compiled plan) = LimaVm"
    and "slp_clear_environment plan"
  using assms by (auto simp: lima_compile_def and_then_Inr_iff if_Inl_Inr_iff)

end
