(* ===== verification/Daemon_Core.thy ===== *)
theory Daemon_Core
  imports Authority Daemon_Validation Launchers
begin

text \<open>
  The operations of \<^verbatim>\<open>DaemonState\<close> that every other one is made of: \<open>record_event\<close>,
  \<open>transition\<close>, the broadcasts and the queries of \<^verbatim>\<open>daemon_terminal.rs\<close>, and the
  operations of \<^verbatim>\<open>lib.rs\<close> on tasks, messages and the reports of agents.

  The world is the parameter \<open>daemon_env\<close>: the libraries, and for each question that is asked
  while the daemon runs the answer it gets, selected by the tick at which it is asked. A lock is
  poisoned only by a panic inside it, and no modelled step panics.
\<close>

section \<open>The world\<close>

record daemon_env =
  de_events :: event_codec
  de_uuids :: uuid_crate
  de_digests :: digest_crate
  de_json :: daemon_codec
  de_contexts :: context_crate
  de_sandbox :: sandbox_crate
  de_io_text :: "io_error \<Rightarrow> string"
  de_terminal_text :: "terminal_error \<Rightarrow> string"
  de_clock :: "nat \<Rightarrow> nat option"
  de_fresh :: "nat \<Rightarrow> uuid"
  de_append :: "nat \<Rightarrow> append_io"
  de_send :: "nat \<Rightarrow> sender \<Rightarrow> send_result"
  de_files :: "nat \<Rightarrow> host_files"
  de_private_directory :: "nat \<Rightarrow> string \<Rightarrow> io_error + unit"
  de_launcher :: "nat \<Rightarrow> sandbox_compile_request \<Rightarrow> sandbox_error + sandbox_launch_plan"
  de_spawned :: "nat \<Rightarrow> command_builder \<Rightarrow> terminal_error + (terminal_id \<times> u32 option)"
  de_thread :: "nat \<Rightarrow> io_error option"
  de_pty :: "nat \<Rightarrow> pty_error + unit"
  de_shell_host :: "nat \<Rightarrow> shell_host"
  de_user_shell :: "nat \<Rightarrow> user_shell_config"
  de_persist :: "nat \<Rightarrow> gen_ui_artifact_candidate \<Rightarrow> string + accepted_gen_ui_artifact"
  de_record_order :: "nat \<Rightarrow> operation_id \<Rightarrow> nat"

type_synonym 'a daemon_step = "(daemon_state, daemon_error, 'a) step"

definition ask :: "(nat \<Rightarrow> 'a) \<Rightarrow> (daemon_state, 'e, 'a) step" where
  "ask answer s = (Inr (answer (dm_tick s)), s\<lparr>dm_tick := dm_tick s + 1\<rparr>)"

definition in_authority :: "(authority_state, daemon_error, 'a) step \<Rightarrow> 'a daemon_step" where
  "in_authority m s = (case m (dm_authority s) of (r, a) \<Rightarrow> (r, s\<lparr>dm_authority := a\<rparr>))"

text \<open>A result that is thrown away, and \<^verbatim>\<open>unwrap_or\<close>.\<close>

definition ignore_step :: "'a daemon_step \<Rightarrow> (daemon_state, 'e, unit) step" where
  "ignore_step m = then_step (attempt_step m) (return_step ())"

definition unwrap_or_step :: "'a daemon_step \<Rightarrow> 'a \<Rightarrow> (daemon_state, 'e, 'a) step" where
  "unwrap_or_step m fallback =
     bind_step (attempt_step m) (\<lambda>r. return_step (case r of Inl _ \<Rightarrow> fallback | Inr a \<Rightarrow> a))"

definition now_ms :: "daemon_env \<Rightarrow> u64 daemon_step" where
  "now_ms E = bind_step (ask (de_clock E)) (\<lambda>clock. case clock of
       None \<Rightarrow> fail_step DaemonClockBeforeUnixEpoch
     | Some millis \<Rightarrow> if millis < 2 ^ 64 then return_step (of_nat millis) else fail_step ClockOutOfRange)"

definition cleanup_scratch_directory :: "string \<Rightarrow> unit daemon_step" where
  "cleanup_scratch_directory path =
     update_step (\<lambda>s. s\<lparr>dm_removed_directories := dm_removed_directories s @ [path]\<rparr>)"

section \<open>Recording\<close>

definition broadcast :: "daemon_env \<Rightarrow> control_response \<Rightarrow> unit daemon_step" where
  "broadcast E response = bind_step (ask (de_send E)) (\<lambda>try_send.
     update_step (\<lambda>s. s\<lparr>dm_control_subscribers := publish try_send (dm_control_subscribers s),
                        dm_control_log := dm_control_log s @ [response]\<rparr>))"

definition broadcast_block_patch :: "daemon_env \<Rightarrow> task_id \<Rightarrow> block_patch \<Rightarrow> unit daemon_step" where
  "broadcast_block_patch E tid patch = bind_step (ask (de_send E)) (\<lambda>try_send.
     update_step (\<lambda>s. s\<lparr>dm_block_subscribers := publish try_send (dm_block_subscribers s),
                        dm_patch_log := dm_patch_log s @ [(tid, patch)]\<rparr>))"

definition record_input_of :: "daemon_env \<Rightarrow> nat \<Rightarrow> record_input" where
  "record_input_of E n = \<lparr>ri_clock = de_clock E n, ri_fresh = EventId (de_fresh E n), ri_io = de_append E n\<rparr>"

definition record_event :: "daemon_env \<Rightarrow> new_event \<Rightarrow> unit daemon_step" where
  "record_event E event =
     bind_step (ask (record_input_of E)) (\<lambda>input.
     bind_step (in_authority (record_authority (de_events E) (de_uuids E) input event)) (\<lambda>(envelope, patch).
     then_step (broadcast E (Event envelope))
     (then_step (broadcast E (BlockPatch patch))
       (broadcast_block_patch E (ev_task_id envelope) patch))))"

definition find_operation :: "operation_id \<Rightarrow> operation_record daemon_step" where
  "find_operation oid = bind_step (read_step (\<lambda>s. au_operations (dm_authority s) oid)) (\<lambda>r.
     lift_step (ok_or r (OperationNotFound oid)))"

definition task_event :: "task_id \<Rightarrow> domain_event \<Rightarrow> new_event" where
  "task_event tid payload =
     \<lparr>ne_task_id = tid, ne_run_id = None, ne_operation_id = None, ne_causation_id = None,
      ne_correlation_id = None, ne_payload = payload\<rparr>"

definition operation_event :: "task_id \<Rightarrow> operation_id \<Rightarrow> domain_event \<Rightarrow> new_event" where
  "operation_event tid oid payload = (task_event tid payload)\<lparr>ne_operation_id := Some oid\<rparr>"

definition caused_by :: "event_id \<Rightarrow> event_id \<Rightarrow> new_event \<Rightarrow> new_event" where
  "caused_by cause correlation event =
     event\<lparr>ne_causation_id := Some cause, ne_correlation_id := Some correlation\<rparr>"

definition transition ::
    "daemon_env \<Rightarrow> task_id \<Rightarrow> operation_id \<Rightarrow> u64 \<Rightarrow> operation_state \<Rightarrow> actor \<Rightarrow> string option
      \<Rightarrow> operation_record daemon_step" where
  "transition E tid oid expected_revision to actor reason =
     bind_step (find_operation oid) (\<lambda>r.
     then_step (lift_step (validate_operation_scope r tid expected_revision))
     (then_step (record_event E (operation_event tid oid
         (OperationStateChanged (expected_revision + 1) (op_state r) to actor reason)))
       (find_operation oid)))"

definition require_task :: "task_id \<Rightarrow> unit daemon_step" where
  "require_task tid = bind_step (read_step (\<lambda>s. au_projectors (dm_authority s) tid)) (\<lambda>p.
     guard_step (p \<noteq> None) (TaskNotFound tid))"

section \<open>Queries\<close>

text \<open>The records of the reducer's hash map, in the order that the keys hash to.\<close>

definition operation_records :: "(operation_id \<Rightarrow> nat) \<Rightarrow> operation_reducer \<Rightarrow> operation_record list" where
  "operation_records order m = map (\<lambda>oid. the (m oid))
     (sort_key order (map OperationId (sorted_list_of_set (operation_uuid ` dom m))))"

lemma operation_uuid_inverse: "OperationId (operation_uuid x) = x"
  by (cases x) simp

lemma set_operation_records:
  assumes "finite (dom m)"
  shows "set (operation_records order m) = ran m"
proof -
  have "OperationId ` operation_uuid ` dom m = dom m"
    by (simp add: image_image operation_uuid_inverse)
  then have "set (operation_records order m) = (\<lambda>oid. the (m oid)) ` dom m"
    using assms by (simp add: operation_records_def)
  then show ?thesis by (force simp: ran_def)
qed

abbreviation journal_events :: "daemon_state \<Rightarrow> event_envelope list" where
  "journal_events s \<equiv> jl_events (au_journal (dm_authority s))"

definition find_projector :: "task_id \<Rightarrow> block_projector daemon_step" where
  "find_projector tid = bind_step (read_step (\<lambda>s. au_projectors (dm_authority s) tid)) (\<lambda>p.
     lift_step (ok_or p (TaskNotFound tid)))"

definition block_snapshot :: "daemon_env \<Rightarrow> task_id \<Rightarrow> block_document daemon_step" where
  "block_snapshot E tid = bind_step (find_projector tid) (\<lambda>p.
     lift_step (map_err DaemonProjector (snapshot (de_digests E) p)))"

definition block_revision :: "task_id \<Rightarrow> u64 daemon_step" where
  "block_revision tid = bind_step (find_projector tid) (\<lambda>p. return_step (bj_revision p))"

definition pending_operation_id :: "task_id \<Rightarrow> operation_id option daemon_step" where
  "pending_operation_id tid = bind_step (find_projector tid) (\<lambda>p.
     return_step (latest_waiting_operation_id p))"

definition subscribe_control :: "sender \<Rightarrow> unit daemon_step" where
  "subscribe_control channel =
     update_step (\<lambda>s. s\<lparr>dm_control_subscribers := dm_control_subscribers s @ [channel]\<rparr>)"

definition subscribe_block_patches :: "sender \<Rightarrow> unit daemon_step" where
  "subscribe_block_patches channel =
     update_step (\<lambda>s. s\<lparr>dm_block_subscribers := dm_block_subscribers s @ [channel]\<rparr>)"

text \<open>The newest event of a task with a payload of one kind.\<close>

definition latest_event :: "(event_envelope \<Rightarrow> bool) \<Rightarrow> event_envelope list \<Rightarrow> event_envelope option" where
  "latest_event P events = find P (rev events)"

fun is_agent_context :: "domain_event \<Rightarrow> bool" where
  "is_agent_context (AgentExecutionContextRecorded _) = True"
| "is_agent_context _ = False"

fun is_mcp_runtime :: "domain_event \<Rightarrow> bool" where
  "is_mcp_runtime (LocalMcpServerRuntimeRecorded _) = True"
| "is_mcp_runtime _ = False"

fun is_mcp_tool_call :: "domain_event \<Rightarrow> bool" where
  "is_mcp_tool_call (LocalMcpToolCallRecorded _) = True"
| "is_mcp_tool_call _ = False"

fun is_proposal :: "domain_event \<Rightarrow> bool" where
  "is_proposal (OperationProposed _ _ _ _ _ _) = True"
| "is_proposal _ = False"

definition agent_execution_context_event :: "task_id \<Rightarrow> event_envelope option daemon_step" where
  "agent_execution_context_event tid = then_step (require_task tid)
     (read_step (\<lambda>s. latest_event (\<lambda>e. ev_task_id e = tid \<and> is_agent_context (ev_payload e)) (journal_events s)))"

definition operation_event_query ::
    "(domain_event \<Rightarrow> bool) \<Rightarrow> task_id \<Rightarrow> operation_id \<Rightarrow> event_envelope option daemon_step" where
  "operation_event_query P tid oid = bind_step (find_operation oid) (\<lambda>r.
     then_step (guard_step (op_task_id r = tid) (OperationTaskMismatch (op_task_id r) tid))
     (read_step (\<lambda>s. latest_event
        (\<lambda>e. ev_task_id e = tid \<and> ev_operation_id e = Some oid \<and> P (ev_payload e)) (journal_events s))))"

definition local_mcp_server_runtime_event :: "task_id \<Rightarrow> operation_id \<Rightarrow> event_envelope option daemon_step" where
  "local_mcp_server_runtime_event = operation_event_query is_mcp_runtime"

definition local_mcp_tool_call_event :: "task_id \<Rightarrow> operation_id \<Rightarrow> event_envelope option daemon_step" where
  "local_mcp_tool_call_event = operation_event_query is_mcp_tool_call"

section \<open>Tasks, messages and the reports of agents\<close>

definition create_task :: "daemon_env \<Rightarrow> string \<Rightarrow> task_id daemon_step" where
  "create_task E title =
     (let title = trim title in
      then_step (guard_step (title \<noteq> []) EmptyTaskTitle)
      (bind_step (ask (\<lambda>n. TaskId (de_fresh E n))) (\<lambda>tid.
       then_step (record_event E (task_event tid (domain_event.TaskCreated title))) (return_step tid))))"

definition append_message ::
    "daemon_env \<Rightarrow> task_id \<Rightarrow> block_id \<Rightarrow> message_role \<Rightarrow> string option \<Rightarrow> string \<Rightarrow> unit daemon_step" where
  "append_message E tid bid role external_message_id body =
     then_step (require_task tid)
     (then_step (guard_step (body \<noteq> []) EmptyMessage)
     (then_step (guard_step (length body \<le> 64 * 1024) (MessageTooLarge (length body)))
     (then_step (guard_step (case external_message_id of None \<Rightarrow> True | Some v \<Rightarrow> length v \<le> 4096)
        ExternalMessageIdTooLarge)
       (record_event E (task_event tid (MessageAppended bid role external_message_id body))))))"

definition record_agent_execution_context ::
    "daemon_env \<Rightarrow> task_id \<Rightarrow> string \<Rightarrow> string \<Rightarrow> string \<Rightarrow> context_receipt list \<Rightarrow> unit daemon_step" where
  "record_agent_execution_context E tid provider_id protocol thread_id receipts =
     then_step (require_task tid)
     (then_step (lift_step (validate_agent_execution_context (de_json E) provider_id protocol thread_id receipts))
     (bind_step (read_step (\<lambda>s. find (\<lambda>e. ev_task_id e = tid \<and> is_task_created (ev_payload e)) (journal_events s)))
       (\<lambda>created.
      bind_step (lift_step (ok_or created (TaskNotFound tid))) (\<lambda>created.
        record_event E (caused_by (ev_event_id created) (ev_event_id created) (task_event tid
          (AgentExecutionContextRecorded
            \<lparr>aer_provider_id = provider_id, aer_protocol = protocol, aer_thread_id = thread_id,
             aer_receipts = receipts\<rparr>)))))))"

definition dispatching_operation ::
    "task_id \<Rightarrow> operation_id \<Rightarrow> u64 \<Rightarrow> operation_record daemon_step" where
  "dispatching_operation tid oid expected_revision =
     bind_step (find_operation oid) (\<lambda>r.
     then_step (lift_step (validate_operation_scope r tid expected_revision))
     (then_step (guard_step (op_state r = Dispatching) (OperationNotDispatching (op_state r)))
       (return_step r)))"

definition find_proposal :: "task_id \<Rightarrow> operation_id \<Rightarrow> event_envelope list \<Rightarrow> event_envelope option" where
  "find_proposal tid oid events =
     find (\<lambda>e. ev_task_id e = tid \<and> ev_operation_id e = Some oid \<and> is_proposal (ev_payload e)) events"

definition record_local_mcp_server_runtime ::
    "daemon_env \<Rightarrow> task_id \<Rightarrow> operation_id \<Rightarrow> u64 \<Rightarrow> local_mcp_server_runtime_receipt \<Rightarrow> unit daemon_step" where
  "record_local_mcp_server_runtime E tid oid expected_revision receipt =
     bind_step (dispatching_operation tid oid expected_revision) (\<lambda>r.
     case op_action r of
       operation_action.McpServerLaunch launch \<Rightarrow>
         then_step (guard_step (op_kind r = operation_kind.McpServerLaunch \<and> mrr_launch receipt = launch)
           InvalidLocalMcpRuntimeReceipt)
         (bind_step (ask (de_files E)) (\<lambda>files.
          then_step (lift_step (validate_local_mcp_runtime_receipt (de_json E) files receipt))
          (bind_step (read_step journal_events) (\<lambda>events.
           then_step (guard_step (\<not> list_ex (\<lambda>e. ev_task_id e = tid \<and> ev_operation_id e = Some oid
               \<and> is_mcp_runtime (ev_payload e)) events) InvalidLocalMcpRuntimeReceipt)
           (bind_step (lift_step (ok_or (find_proposal tid oid events) (OperationNotFound oid))) (\<lambda>proposal.
             record_event E (caused_by (ev_event_id proposal) (ev_event_id proposal)
               (operation_event tid oid (LocalMcpServerRuntimeRecorded receipt)))))))))
     | _ \<Rightarrow> fail_step InvalidLocalMcpRuntimeReceipt)"

text \<open>The newest recorded runtime that offers the called tool under the called contract.\<close>

definition runtime_offers :: "task_id \<Rightarrow> local_mcp_tool_call \<Rightarrow> event_envelope \<Rightarrow> bool" where
  "runtime_offers tid call e = (case ev_payload e of
       LocalMcpServerRuntimeRecorded runtime \<Rightarrow>
         ev_task_id e = tid
         \<and> lml_server_id (mrr_launch runtime) = mtl_server_id call
         \<and> mrr_runtime_identity_digest runtime = mtl_runtime_identity_digest call
         \<and> mrr_catalog_digest runtime = mtl_catalog_digest call
         \<and> list_ex (\<lambda>tool. mtc_name tool = mtl_tool_name call
              \<and> mtc_contract_digest tool = mtl_tool_contract_digest call) (mrr_tools runtime)
     | _ \<Rightarrow> False)"

definition record_local_mcp_tool_call ::
    "daemon_env \<Rightarrow> task_id \<Rightarrow> operation_id \<Rightarrow> u64 \<Rightarrow> local_mcp_tool_call_receipt \<Rightarrow> unit daemon_step" where
  "record_local_mcp_tool_call E tid oid expected_revision receipt =
     bind_step (dispatching_operation tid oid expected_revision) (\<lambda>r.
     case op_action r of
       operation_action.McpToolCall call \<Rightarrow>
         then_step (guard_step (op_kind r = operation_kind.McpTool \<and> mtr_call receipt = call)
           InvalidLocalMcpToolCallReceipt)
         (then_step (lift_step (validate_local_mcp_tool_call_receipt (de_json E) receipt))
         (bind_step (read_step journal_events) (\<lambda>events.
          then_step (guard_step (\<not> list_ex (\<lambda>e. ev_task_id e = tid \<and> ev_operation_id e = Some oid
              \<and> is_mcp_tool_call (ev_payload e)) events) InvalidLocalMcpToolCallReceipt)
          (bind_step (lift_step (ok_or (find_proposal tid oid events) (OperationNotFound oid))) (\<lambda>proposal.
           bind_step (lift_step (ok_or (latest_event (runtime_offers tid call) events) LocalMcpRuntimeNotRecorded))
             (\<lambda>runtime.
             record_event E (caused_by (ev_event_id proposal) (ev_event_id runtime)
               (operation_event tid oid (LocalMcpToolCallRecorded receipt)))))))))
     | _ \<Rightarrow> fail_step InvalidLocalMcpToolCallReceipt)"

definition update_agent_tool_call :: "daemon_env \<Rightarrow> task_id \<Rightarrow> string \<Rightarrow> agent_tool_call \<Rightarrow> unit daemon_step" where
  "update_agent_tool_call E tid turn_id call =
     then_step (require_task tid)
     (then_step (guard_step (turn_id \<noteq> [] \<and> length turn_id \<le> 4096)
        (InvalidAgentProjection ''Agent turn id is empty or too large''))
     (then_step (lift_step (validate_agent_tool_call (de_json E) call))
       (record_event E (task_event tid (AgentToolCallUpdated turn_id call)))))"

definition update_agent_plan ::
    "daemon_env \<Rightarrow> task_id \<Rightarrow> string \<Rightarrow> agent_plan_entry list \<Rightarrow> unit daemon_step" where
  "update_agent_plan E tid turn_id entries =
     then_step (require_task tid)
     (then_step (guard_step (turn_id \<noteq> [] \<and> length turn_id \<le> 4096 \<and> length entries \<le> 128)
        (InvalidAgentProjection ''Agent plan identity or entry count is invalid''))
     (then_step (guard_step (\<not> list_ex (\<lambda>e. ape_content e = [] \<or> length (ape_content e) > 16 * 1024) entries)
        (InvalidAgentProjection ''Agent plan entry is empty or too large''))
       (record_event E (task_event tid (AgentPlanUpdated turn_id entries)))))"

end
