(* ===== verification/Daemon_Operations.thy ===== *)
theory Daemon_Operations
  imports Daemon_Core
begin

text \<open>
  The life of an operation up to its execution, in \<^verbatim>\<open>hyper-term-daemon/src/lib.rs\<close>: the
  proposal, the decision of a person, the sandbox that the decision prepares and activates, the
  dispatch and completion of brokered operations, and the artifacts that a GenUI build leaves.
  The methods of \<^verbatim>\<open>approval_detail.rs\<close> on the daemon are here too.
\<close>

section \<open>Proposals\<close>

definition propose_operation ::
    "daemon_env \<Rightarrow> task_id \<Rightarrow> operation_kind \<Rightarrow> operation_action \<Rightarrow> string \<Rightarrow> risk_class \<Rightarrow> string list
      \<Rightarrow> operation_record daemon_step" where
  "propose_operation E tid kind action summary risk required_capabilities =
     then_step (require_task tid)
     (bind_step (ask (de_files E)) (\<lambda>files.
      then_step (lift_step (validate_action_kind files kind action))
      (bind_step (ask (\<lambda>n. OperationId (de_fresh E n))) (\<lambda>oid.
       then_step (record_event E (operation_event tid oid
           (OperationProposed 1 kind action summary risk required_capabilities)))
       (then_step (transition E tid oid 1 PolicyCheck actor.Policy
           (Some ''operation entered the permission policy pipeline''))
       (bind_step (transition E tid oid 2 WaitingHuman actor.Policy
           (Some ''M1 requires explicit human approval for every effect'')) (\<lambda>waiting.
        bind_step (lift_step (bound_approval_detail_of (de_json E) waiting)) (\<lambda>approval.
        then_step (record_event E (operation_event tid oid
            (PermissionRequested (op_revision waiting) (Some approval) ''Allow this exact operation once?''
               [AllowOnce, RejectOnce, permission_decision.Cancelled])))
          (return_step waiting)))))))))"

definition propose_brokered_mcp_tool ::
    "daemon_env \<Rightarrow> task_id \<Rightarrow> string \<Rightarrow> json \<Rightarrow> operation_record daemon_step" where
  "propose_brokered_mcp_tool E tid tool_name canonical_arguments =
     bind_step (lift_step (brokered_call (de_json E) tool_name canonical_arguments))
       (\<lambda>(call, summary, required_capabilities).
       propose_operation E tid operation_kind.McpTool (operation_action.BrokeredMcpToolCall call) summary
         ReadOnly required_capabilities)"

definition approval_detail_query :: "daemon_env \<Rightarrow> operation_id \<Rightarrow> bound_approval_detail daemon_step" where
  "approval_detail_query E oid =
     bind_step (find_operation oid) (\<lambda>r. lift_step (bound_approval_detail_of (de_json E) r))"

section \<open>The sandbox of an operation\<close>

definition isolated_operation :: "operation_record \<Rightarrow> bool" where
  "isolated_operation r \<longleftrightarrow> ISOLATED_TASK_CAPABILITY \<in> set (op_required_capabilities r)"

definition operation_sandbox_rules ::
    "host_files \<Rightarrow> risk_class \<Rightarrow> string \<Rightarrow> string \<Rightarrow> string \<Rightarrow> sandbox_path_rule list" where
  "operation_sandbox_rules files risk workspace state_directory scratch_directory =
     map (\<lambda>path. \<lparr>spr_path = path, spr_access = sandbox_path_access.Read\<rparr>)
       (filter (hf_exists files) [''/System'', ''/usr'', ''/bin'', ''/sbin'', ''/Library''])
     @ [\<lparr>spr_path = workspace,
         spr_access = (if risk = ReadOnly then sandbox_path_access.Read else sandbox_path_access.Write)\<rparr>]
     @ map (\<lambda>metadata. \<lparr>spr_path = path_push workspace metadata, spr_access = sandbox_path_access.Read\<rparr>)
         [''.git'', ''.hg'', ''.svn'', ''.jj'']
     @ [\<lparr>spr_path = state_directory, spr_access = sandbox_path_access.Deny\<rparr>,
        \<lparr>spr_path = scratch_directory, spr_access = sandbox_path_access.Write\<rparr>]"

definition operation_sandbox_profile :: "bool \<Rightarrow> sandbox_path_rule list \<Rightarrow> sandbox_profile" where
  "operation_sandbox_profile isolated_task rules =
     \<lparr>sp_enforcement = (if isolated_task then IsolatedTask else Native),
      sp_filesystem = \<lparr>sfp_rules = rules\<rparr>,
      sp_network = Offline,
      sp_environment = default_environment_policy,
      sp_platform = \<lparr>spl_macos_mach_services = []\<rparr>,
      sp_process = \<lparr>spp_allow_child_processes = True, spp_allow_any_executable = True,
        spp_allowed_executables = []\<rparr>,
      sp_resources = (if isolated_task
        then \<lparr>srl_wall_time_ms = Some ISOLATED_TASK_WALL_TIME_MS,
              srl_max_processes = Some ISOLATED_TASK_MAX_PROCESSES,
              srl_max_output_bytes = Some ISOLATED_TASK_MAX_OUTPUT_BYTES\<rparr>
        else \<lparr>srl_wall_time_ms = None, srl_max_processes = None, srl_max_output_bytes = None\<rparr>),
      sp_lifetime = OneOperation\<rparr>"

definition authorization_request ::
    "daemon_env \<Rightarrow> operation_record \<Rightarrow> u64 \<Rightarrow> terminal_command \<Rightarrow> string \<Rightarrow> string \<Rightarrow> sandbox_profile
      \<Rightarrow> sandbox_lease_id \<Rightarrow> u64 \<Rightarrow> execution_authorization_request" where
  "authorization_request E r authorized_revision command workspace scratch_directory profile lease_id issued_at_ms =
     (let normalized_command = command\<lparr>tc_cwd := Some workspace\<rparr> in
      \<lparr>ear_operation_id = op_operation_id r,
       ear_operation_revision = authorized_revision,
       ear_actor = actor.System,
       ear_context = operation_execution_context_spec (de_uuids E) (op_operation_id r) authorized_revision
         normalized_command workspace scratch_directory profile,
       ear_command = normalized_command,
       ear_lease_id = lease_id,
       ear_issued_at_ms = issued_at_ms,
       ear_expires_at_ms = saturating_add issued_at_ms SANDBOX_LEASE_TTL_MS\<rparr>)"

definition prepared_of :: "authorized_execution_plan \<Rightarrow> string \<Rightarrow> prepared_sandbox" where
  "prepared_of authorization scratch_directory =
     (let lease = aep_capability_lease authorization in
      \<lparr>ps_authorized =
         \<lparr>as_lease_id = cl_lease_id (ecl_lease lease), as_context_digest = ecl_context_digest lease,
          as_plan = aep_sandbox authorization, as_scratch_directory = scratch_directory\<rparr>,
       ps_lease = lease,
       ps_context_receipt = aep_context_receipt authorization\<rparr>)"

definition enforced_plan :: "sandbox_launch_plan \<Rightarrow> bool" where
  "enforced_plan plan \<longleftrightarrow>
     csp_enforced (slp_compiled plan) \<and> csp_backend (slp_compiled plan) \<noteq> TestOnlyUnenforced"

definition authorize_sandbox ::
    "daemon_env \<Rightarrow> operation_record \<Rightarrow> u64 \<Rightarrow> terminal_command \<Rightarrow> string \<Rightarrow> string \<Rightarrow> prepared_sandbox daemon_step" where
  "authorize_sandbox E r authorized_revision command workspace scratch_directory =
     bind_step (ask (de_files E)) (\<lambda>files.
     bind_step (read_step dm_state_directory) (\<lambda>state_directory.
     bind_step (now_ms E) (\<lambda>issued_at_ms.
     bind_step (ask (\<lambda>n. SandboxLeaseId (de_fresh E n))) (\<lambda>lease_id.
     bind_step (ask (de_launcher E)) (\<lambda>launcher.
     let isolated_task = isolated_operation r;
         profile = operation_sandbox_profile isolated_task
           (operation_sandbox_rules files (op_risk r) workspace state_directory scratch_directory)
     in bind_step (lift_step (map_err ExecutionAuthorization (compile_authorized_execution_plan (de_contexts E)
          (authorization_request E r authorized_revision command workspace scratch_directory profile lease_id
             issued_at_ms)
          default_context_inputs (if isolated_task then lima_compile (de_sandbox E) else launcher)))) (\<lambda>authorization.
        then_step (guard_step (enforced_plan (aep_sandbox authorization)) UnenforcedSandboxBackend)
          (return_step (prepared_of authorization scratch_directory))))))))"

definition prepare_authorized_sandbox ::
    "daemon_env \<Rightarrow> operation_record \<Rightarrow> u64 \<Rightarrow> prepared_sandbox daemon_step" where
  "prepare_authorized_sandbox E r authorized_revision =
     (case op_action r of
        operation_action.Shell command \<Rightarrow>
          bind_step (lift_step (ok_or (tc_cwd command) SandboxWorkingDirectoryRequired)) (\<lambda>cwd.
          bind_step (ask (de_files E)) (\<lambda>files.
          bind_step (lift_step (map_err (\<lambda>e. InvalidSandboxWorkingDirectory cwd (de_io_text E e))
            (hf_canonicalize files cwd))) (\<lambda>workspace.
          bind_step (ask (de_files E)) (\<lambda>files.
          then_step (guard_step (hf_is_dir files workspace)
            (InvalidSandboxWorkingDirectory workspace ''not a directory''))
          (bind_step (read_step dm_state_directory) (\<lambda>state_directory.
           then_step (guard_step (\<not> path_starts_with workspace state_directory) WorkspaceInsideDaemonState)
           (bind_step (read_step (if isolated_operation r then dm_isolated_results_root else dm_scratch_root))
             (\<lambda>root.
            let path = path_push root (uuid_text (de_uuids E) (operation_uuid (op_operation_id r))) in
            bind_step (ask (\<lambda>n. de_private_directory E n path)) (\<lambda>created.
            then_step (lift_step (map_err DaemonIo created))
            (bind_step (ask (de_files E)) (\<lambda>files.
             bind_step (lift_step (map_err DaemonIo (hf_canonicalize files path))) (\<lambda>scratch_directory.
             on_error_step (authorize_sandbox E r authorized_revision command workspace scratch_directory)
               (\<lambda>_. cleanup_scratch_directory scratch_directory)))))))))))))
      | _ \<Rightarrow> fail_step UnsupportedTerminalAction)"

definition issue_prepared :: "execution_capability_lease \<Rightarrow> unit daemon_step" where
  "issue_prepared lease =
     bind_step (read_step dm_sandbox_leases) (\<lambda>leases.
     bind_step (lift_step (map_err SandboxLease (issue_lease leases lease))) (\<lambda>leases.
       update_step (\<lambda>s. s\<lparr>dm_sandbox_leases := leases\<rparr>)))"

definition store_authorized :: "operation_id \<Rightarrow> authorized_sandbox \<Rightarrow> unit daemon_step" where
  "store_authorized oid authorized =
     bind_step (read_step dm_authorized_sandboxes) (\<lambda>authorizations.
     then_step (guard_step (authorizations oid = None) (SandboxAuthorizationAlreadyExists oid))
       (update_step (\<lambda>s. s\<lparr>dm_authorized_sandboxes := authorizations(oid \<mapsto> authorized)\<rparr>)))"

definition activate_authorized_sandbox ::
    "daemon_env \<Rightarrow> task_id \<Rightarrow> u64 \<Rightarrow> prepared_sandbox \<Rightarrow> unit daemon_step" where
  "activate_authorized_sandbox E tid operation_revision prepared =
     (let lease = ecl_lease (ps_lease prepared); oid = cl_operation_id lease in
      on_error_step
        (then_step (record_event E (operation_event tid oid
           (OperationExecutionContextCompiled operation_revision (ps_context_receipt prepared))))
        (then_step (record_event E (operation_event tid oid
           (SandboxProfileCompiled operation_revision (slp_compiled (as_plan (ps_authorized prepared))))))
        (then_step (record_event E (operation_event tid oid
           (SandboxLeaseIssued operation_revision (cl_lease_id lease) (cl_expires_at_ms lease)
              (cl_profile_digest lease) (cl_action_digest lease))))
        (then_step (issue_prepared (ps_lease prepared))
          (store_authorized oid (ps_authorized prepared))))))
        (\<lambda>_. cleanup_scratch_directory (as_scratch_directory (ps_authorized prepared))))"

section \<open>Decisions\<close>

definition decision_text :: "permission_decision \<Rightarrow> string" where
  "decision_text decision = (case decision of
       AllowOnce \<Rightarrow> ''AllowOnce'' | AllowAlways \<Rightarrow> ''AllowAlways'' | RejectOnce \<Rightarrow> ''RejectOnce''
     | RejectAlways \<Rightarrow> ''RejectAlways'' | permission_decision.Cancelled \<Rightarrow> ''Cancelled'')"

definition allows :: "permission_decision \<Rightarrow> bool" where
  "allows decision \<longleftrightarrow> decision \<in> {AllowOnce, AllowAlways}"

definition is_shell :: "operation_action \<Rightarrow> bool" where
  "is_shell action = (case action of operation_action.Shell _ \<Rightarrow> True | _ \<Rightarrow> False)"

definition decide_permission ::
    "daemon_env \<Rightarrow> task_id \<Rightarrow> operation_id \<Rightarrow> u64 \<Rightarrow> permission_decision \<Rightarrow> operation_record daemon_step" where
  "decide_permission E tid oid expected_revision decision =
     bind_step (find_operation oid) (\<lambda>r.
     then_step (lift_step (validate_operation_scope r tid expected_revision))
     (then_step (guard_step (op_state r = WaitingHuman) (OperationNotWaiting (op_state r)))
     (bind_step (if allows decision \<and> is_shell (op_action r)
         then bind_step (prepare_authorized_sandbox E r (expected_revision + 1)) (\<lambda>p. return_step (Some p))
         else return_step None) (\<lambda>prepared_sandbox.
      then_step (record_event E (operation_event tid oid
         (PermissionDecided expected_revision decision actor.User)))
      (bind_step (transition E tid oid expected_revision
          (if allows decision then Authorized else operation_state.Cancelled) actor.User
          (Some (''permission decision: '' @ decision_text decision))) (\<lambda>updated.
       then_step (case prepared_sandbox of
           None \<Rightarrow> return_step ()
         | Some prepared \<Rightarrow> activate_authorized_sandbox E tid (op_revision updated) prepared)
         (find_operation oid)))))))"

definition decide_permission_bound ::
    "daemon_env \<Rightarrow> task_id \<Rightarrow> operation_id \<Rightarrow> u64 \<Rightarrow> approval_detail_digest \<Rightarrow> permission_decision
      \<Rightarrow> operation_record daemon_step" where
  "decide_permission_bound E tid oid expected_revision expected_detail_digest decision =
     bind_step (find_operation oid) (\<lambda>r.
     then_step (lift_step (validate_operation_scope r tid expected_revision))
     (bind_step (lift_step (bound_approval_detail_of (de_json E) r)) (\<lambda>current.
      then_step (guard_step (bad_detail_digest current = expected_detail_digest) ApprovalDetailMismatch)
        (decide_permission E tid oid expected_revision decision))))"

section \<open>Brokered operations\<close>

definition begin_operation ::
    "daemon_env \<Rightarrow> task_id \<Rightarrow> operation_id \<Rightarrow> u64 \<Rightarrow> operation_record daemon_step" where
  "begin_operation E tid oid expected_revision =
     bind_step (find_operation oid) (\<lambda>r.
     then_step (lift_step (validate_operation_scope r tid expected_revision))
     (then_step (guard_step (\<not> is_shell (op_action r)) GenericDispatchRequiresOpaqueAction)
     (then_step (guard_step (op_state r = Authorized) (OperationNotAuthorized (op_state r)))
       (transition E tid oid expected_revision Dispatching actor.System
          (Some ''brokered executor accepted the authorized operation'')))))"

definition completion_outcome :: "operation_completion \<Rightarrow> operation_outcome" where
  "completion_outcome completion = (case oc_outcome completion of
       Some outcome \<Rightarrow> outcome
     | None \<Rightarrow> if oc_succeeded completion then operation_outcome.Succeeded else operation_outcome.Failed)"

definition outcome_state :: "operation_outcome \<Rightarrow> operation_state" where
  "outcome_state outcome = (case outcome of
       operation_outcome.Succeeded \<Rightarrow> operation_state.Succeeded
     | operation_outcome.Failed \<Rightarrow> operation_state.Failed
     | operation_outcome.UnknownExecution \<Rightarrow> operation_state.UnknownExecution)"

definition complete_operation ::
    "daemon_env \<Rightarrow> task_id \<Rightarrow> operation_id \<Rightarrow> u64 \<Rightarrow> operation_completion \<Rightarrow> operation_record daemon_step" where
  "complete_operation E tid oid expected_revision completion =
     bind_step (find_operation oid) (\<lambda>r.
     then_step (lift_step (validate_operation_scope r tid expected_revision))
     (then_step (guard_step (\<not> is_shell (op_action r)) GenericDispatchRequiresOpaqueAction)
     (let outcome = completion_outcome completion;
          target_state = outcome_state outcome;
          resolves_unknown = (op_state r = operation_state.UnknownExecution
             \<and> target_state \<noteq> operation_state.UnknownExecution)
      in then_step (guard_step (\<not> (oc_outcome completion \<noteq> None \<and> oc_succeeded completion \<noteq> outcome_succeeded outcome))
           InconsistentOperationOutcome)
         (then_step (guard_step (op_state r = Dispatching \<or> resolves_unknown) (OperationNotDispatching (op_state r)))
         (bind_step (lift_step (bounded_nonempty (oc_executor completion) 256 ''executor'')) (\<lambda>executor.
          bind_step (lift_step (bounded_nonempty (oc_summary completion) (16 * 1024) ''operation receipt summary''))
            (\<lambda>summary.
          then_step (guard_step (\<not> (case oc_result_digest completion of None \<Rightarrow> False | Some d \<Rightarrow> \<not> is_sha256 d))
            InvalidResultDigest)
          (then_step (record_event E (operation_event tid oid
              (domain_event.OperationReceipt expected_revision executor (outcome_succeeded outcome) (Some outcome) summary
                 (oc_result_digest completion))))
            (transition E tid oid expected_revision target_state actor.System (Some summary))))))))))"

section \<open>GenUI artifacts\<close>

definition accepted_artifact :: "task_id \<Rightarrow> event_envelope \<Rightarrow> accepted_gen_ui_artifact option" where
  "accepted_artifact tid e = (if ev_task_id e \<noteq> tid then None
     else case ev_payload e of ArtifactAccepted artifact \<Rightarrow> Some artifact | _ \<Rightarrow> None)"

definition active_genui_artifact :: "task_id \<Rightarrow> accepted_gen_ui_artifact option daemon_step" where
  "active_genui_artifact tid = then_step (require_task tid)
     (read_step (\<lambda>s. case List.map_filter (accepted_artifact tid) (rev (journal_events s)) of
         [] \<Rightarrow> None | artifact # _ \<Rightarrow> Some artifact))"

definition builds_genui :: "operation_record \<Rightarrow> bool" where
  "builds_genui r \<longleftrightarrow> op_kind r = operation_kind.McpTool \<and> (case op_action r of
       operation_action.BrokeredMcpToolCall call \<Rightarrow> bmc_tool_name call = ''hyper_term.genui.compile''
     | operation_action.Opaque kind _ \<Rightarrow> kind = ''hyper_term.genui.compile''
     | _ \<Rightarrow> False)"

definition check_base :: "task_id \<Rightarrow> (artifact_id \<times> u64) option \<Rightarrow> unit daemon_step" where
  "check_base tid required_base = (case required_base of
       None \<Rightarrow> return_step ()
     | Some (artifact_id, source_revision) \<Rightarrow>
         bind_step (active_genui_artifact tid) (\<lambda>active.
           guard_step (case active of None \<Rightarrow> False
               | Some artifact \<Rightarrow> aga_artifact_id artifact = artifact_id
                   \<and> aga_source_revision artifact = source_revision)
             (ArtifactBaseNotCurrent artifact_id source_revision)))"

definition accept_genui_artifact_inner ::
    "daemon_env \<Rightarrow> task_id \<Rightarrow> operation_id \<Rightarrow> u64 \<Rightarrow> (artifact_id \<times> u64) option \<Rightarrow> gen_ui_artifact_candidate
      \<Rightarrow> accepted_gen_ui_artifact daemon_step" where
  "accept_genui_artifact_inner E tid oid expected_revision required_base candidate =
     bind_step (find_operation oid) (\<lambda>r.
     then_step (lift_step (validate_operation_scope r tid expected_revision))
     (then_step (guard_step (op_state r = Dispatching) (OperationNotDispatching (op_state r)))
     (then_step (guard_step (builds_genui r) ArtifactAcceptanceRequiresGenUiCompile)
     (then_step (check_base tid required_base)
     (bind_step (ask (\<lambda>n. de_persist E n candidate)) (\<lambda>persisted.
      bind_step (lift_step (map_err ArtifactStore persisted)) (\<lambda>accepted.
      then_step (record_event E (operation_event tid oid (ArtifactAccepted accepted)))
        (return_step accepted))))))))"

definition accept_genui_artifact ::
    "daemon_env \<Rightarrow> task_id \<Rightarrow> operation_id \<Rightarrow> u64 \<Rightarrow> gen_ui_artifact_candidate
      \<Rightarrow> accepted_gen_ui_artifact daemon_step" where
  "accept_genui_artifact E tid oid expected_revision candidate =
     accept_genui_artifact_inner E tid oid expected_revision None candidate"

definition accept_genui_artifact_from_base ::
    "daemon_env \<Rightarrow> task_id \<Rightarrow> operation_id \<Rightarrow> u64 \<Rightarrow> artifact_id \<Rightarrow> u64 \<Rightarrow> gen_ui_artifact_candidate
      \<Rightarrow> accepted_gen_ui_artifact daemon_step" where
  "accept_genui_artifact_from_base E tid oid expected_revision base_artifact_id base_source_revision candidate =
     accept_genui_artifact_inner E tid oid expected_revision (Some (base_artifact_id, base_source_revision)) candidate"

text \<open>\<open>read_artifact\<close> is what the artifact store answers.\<close>

definition read_active_genui_artifact ::
    "(accepted_gen_ui_artifact \<Rightarrow> daemon_error + 'a) \<Rightarrow> task_id \<Rightarrow> artifact_id \<Rightarrow> 'a daemon_step" where
  "read_active_genui_artifact read_artifact tid artifact_id =
     bind_step (active_genui_artifact tid) (\<lambda>active.
     bind_step (lift_step (case active of
         Some artifact \<Rightarrow> if aga_artifact_id artifact = artifact_id then Inr artifact
           else Inl (ArtifactNotActive artifact_id)
       | None \<Rightarrow> Inl (ArtifactNotActive artifact_id))) (\<lambda>accepted.
       lift_step (read_artifact accepted)))"

definition history_entry :: "task_id \<Rightarrow> event_envelope \<Rightarrow> gen_ui_artifact_history_entry option" where
  "history_entry tid e = map_option (\<lambda>artifact.
     \<lparr>ghe_event_sequence = ev_sequence e, ghe_recorded_at_ms = ev_recorded_at_ms e,
      ghe_operation_id = ev_operation_id e, ghe_artifact = artifact\<rparr>) (accepted_artifact tid e)"

definition genui_artifact_history ::
    "task_id \<Rightarrow> artifact_id \<Rightarrow> gen_ui_artifact_history_entry list daemon_step" where
  "genui_artifact_history tid expected_active =
     then_step (require_task tid)
     (bind_step (read_step (\<lambda>s. take MAX_GENUI_ARTIFACT_HISTORY
         (List.map_filter (history_entry tid) (rev (journal_events s))))) (\<lambda>entries.
      then_step (guard_step (case entries of [] \<Rightarrow> False
          | e # _ \<Rightarrow> aga_artifact_id (ghe_artifact e) = expected_active) (ArtifactNotActive expected_active))
        (return_step entries)))"

text \<open>
  The loop of \<open>read_genui_artifact_revision\<close> over the events, the newest first: the active
  artifact is the first seen, and the wanted one is overwritten until the loop breaks.
\<close>

fun find_revision ::
    "task_id \<Rightarrow> artifact_id \<Rightarrow> artifact_id option \<Rightarrow> accepted_gen_ui_artifact option \<Rightarrow> event_envelope list
      \<Rightarrow> artifact_id option \<times> accepted_gen_ui_artifact option" where
  "find_revision tid wanted active accepted [] = (active, accepted)"
| "find_revision tid wanted active accepted (e # es) =
     (case accepted_artifact tid e of
        None \<Rightarrow> find_revision tid wanted active accepted es
      | Some artifact \<Rightarrow>
          let active = (if active = None then Some (aga_artifact_id artifact) else active);
              accepted = (if aga_artifact_id artifact = wanted then Some artifact else accepted)
          in if active \<noteq> None \<and> accepted \<noteq> None then (active, accepted)
             else find_revision tid wanted active accepted es)"

definition read_genui_artifact_revision ::
    "(accepted_gen_ui_artifact \<Rightarrow> daemon_error + 'a) \<Rightarrow> task_id \<Rightarrow> artifact_id \<Rightarrow> artifact_id \<Rightarrow> 'a daemon_step" where
  "read_genui_artifact_revision read_artifact tid expected_active artifact_id =
     then_step (require_task tid)
     (bind_step (read_step (\<lambda>s. find_revision tid artifact_id None None (rev (journal_events s))))
       (\<lambda>(active, accepted).
      then_step (guard_step (active = Some expected_active) (ArtifactNotActive expected_active))
      (bind_step (lift_step (ok_or accepted (ArtifactNotInHistory artifact_id))) (\<lambda>accepted.
         lift_step (read_artifact accepted)))))"

end
