(* ===== verification/Daemon_Terminal.thy ===== *)
theory Daemon_Terminal
  imports Daemon_Operations
begin

text \<open>
  Execution in \<^verbatim>\<open>hyper-term-daemon/src/daemon_terminal.rs\<close>: the dispatch of an authorized
  command to a sandboxed terminal, the monitor thread that follows it to its end, the user's own
  shell, the input leases, and what is reconciled when the daemon opens its state again.

  A method runs from its first lock to its last without another in between; between the methods,
  and between the steps of the monitor thread, anything may happen. What a monitor thread reads
  from its channel is the argument \<open>events\<close>: the list ends where the channel does.
\<close>

section \<open>Sessions\<close>

abbreviation record_operation_event :: "daemon_env \<Rightarrow> task_id \<Rightarrow> operation_id \<Rightarrow> domain_event \<Rightarrow> unit daemon_step" where
  "record_operation_event E tid oid payload \<equiv> record_event E (operation_event tid oid payload)"

definition set_context :: "terminal_id \<Rightarrow> terminal_context option \<Rightarrow> (daemon_state, 'e, unit) step" where
  "set_context terminal c =
     update_step (\<lambda>s. s\<lparr>dm_terminal_contexts := (dm_terminal_contexts s)(terminal := c)\<rparr>)"

definition set_execution :: "terminal_id \<Rightarrow> sandbox_execution_context option \<Rightarrow> (daemon_state, 'e, unit) step" where
  "set_execution terminal x =
     update_step (\<lambda>s. s\<lparr>dm_sandbox_executions := (dm_sandbox_executions s)(terminal := x)\<rparr>)"

definition update_input_leases ::
    "((terminal_id \<rightharpoonup> input_lease) \<Rightarrow> (terminal_id \<rightharpoonup> input_lease)) \<Rightarrow> (daemon_state, 'e, unit) step" where
  "update_input_leases f = update_step (\<lambda>s. s\<lparr>dm_input_leases := f (dm_input_leases s)\<rparr>)"

definition set_session :: "terminal_session \<Rightarrow> (daemon_state, 'e, unit) step" where
  "set_session session =
     update_step (\<lambda>s. s\<lparr>dm_terminals := (dm_terminals s)(tss_id session \<mapsto> session)\<rparr>)"

text \<open>
  The supervisor starts the process of a builder, and keeps its session. The process is written
  down with the operation it is for.
\<close>

definition start_session ::
    "daemon_env \<Rightarrow> operation_id option \<Rightarrow> terminal_error + command_builder
      \<Rightarrow> (daemon_state, terminal_error, terminal_id) step" where
  "start_session E owner builder =
     bind_step (lift_step builder) (\<lambda>builder.
     bind_step (ask (\<lambda>n. de_spawned E n builder)) (\<lambda>spawned.
     bind_step (lift_step spawned) (\<lambda>(terminal, process_id).
     then_step (set_session (new_terminal_session terminal process_id default_terminal_config))
     (then_step (update_step (\<lambda>s. s\<lparr>dm_processes := dm_processes s @ [(owner, builder)]\<rparr>))
       (return_step terminal)))))"

definition find_session :: "terminal_id \<Rightarrow> terminal_session daemon_step" where
  "find_session terminal = bind_step (read_step dm_terminals) (\<lambda>sessions.
     lift_step (map_err DaemonTerminal (supervisor_get sessions terminal)))"

definition subscribe_session :: "terminal_id \<Rightarrow> u64 \<Rightarrow> terminal_subscription daemon_step" where
  "subscribe_session terminal after_sequence =
     bind_step (find_session terminal) (\<lambda>session.
     bind_step (ask (\<lambda>n. n)) (\<lambda>channel.
     let (b, subscription) = subscribe channel (tss_replay session) after_sequence in
       then_step (set_session (session\<lparr>tss_replay := b\<rparr>)) (return_step subscription)))"

definition kill_session :: "daemon_env \<Rightarrow> terminal_id \<Rightarrow> unit daemon_step" where
  "kill_session E terminal = bind_step (ask (de_pty E)) (\<lambda>killed.
     bind_step (read_step dm_terminals) (\<lambda>sessions.
       lift_step (map_err DaemonTerminal (supervisor_close killed sessions terminal))))"

definition find_context :: "terminal_id \<Rightarrow> terminal_context daemon_step" where
  "find_context terminal = bind_step (read_step (\<lambda>s. dm_terminal_contexts s terminal)) (\<lambda>c.
     lift_step (ok_or c (TerminalContextMissing terminal)))"

section \<open>Receipts\<close>

definition backend_text :: "sandbox_backend_kind \<Rightarrow> string" where
  "backend_text backend = (case backend of
       MacOsSeatbelt \<Rightarrow> ''MacOsSeatbelt'' | LimaVm \<Rightarrow> ''LimaVm'' | LinuxBubblewrap \<Rightarrow> ''LinuxBubblewrap''
     | WindowsRestrictedToken \<Rightarrow> ''WindowsRestrictedToken'' | TestOnlyUnenforced \<Rightarrow> ''TestOnlyUnenforced'')"

definition sandbox_outcome_text :: "sandbox_outcome \<Rightarrow> string" where
  "sandbox_outcome_text outcome = (case outcome of
       sandbox_outcome.Succeeded \<Rightarrow> ''Succeeded'' | sandbox_outcome.Failed \<Rightarrow> ''Failed''
     | sandbox_outcome.Violated \<Rightarrow> ''Violated'' | sandbox_outcome.Denied \<Rightarrow> ''Denied''
     | sandbox_outcome.Unknown \<Rightarrow> ''Unknown'')"

definition receipt_outcome :: "sandbox_outcome \<Rightarrow> operation_outcome" where
  "receipt_outcome outcome = (case outcome of
       sandbox_outcome.Succeeded \<Rightarrow> operation_outcome.Succeeded
     | sandbox_outcome.Unknown \<Rightarrow> operation_outcome.UnknownExecution
     | sandbox_outcome.Failed \<Rightarrow> operation_outcome.Failed
     | sandbox_outcome.Violated \<Rightarrow> operation_outcome.Failed
     | sandbox_outcome.Denied \<Rightarrow> operation_outcome.Failed)"

definition record_sandbox_receipt ::
    "daemon_env \<Rightarrow> task_id \<Rightarrow> operation_id \<Rightarrow> u64 \<Rightarrow> compiled_sandbox_profile \<Rightarrow> u64 \<Rightarrow> u64 \<Rightarrow> sandbox_outcome
      \<Rightarrow> u32 option \<Rightarrow> unit daemon_step" where
  "record_sandbox_receipt E tid oid operation_revision compiled started_at_ms finished_at_ms outcome exit_code =
     then_step (record_operation_event E tid oid (SandboxReceiptRecorded operation_revision
       \<lparr>sr_backend = csp_backend compiled, sr_enforced = csp_enforced compiled,
        sr_profile_digest = csp_profile_digest compiled, sr_action_digest = csp_action_digest compiled,
        sr_started_at_ms = started_at_ms, sr_finished_at_ms = finished_at_ms, sr_outcome = outcome,
        sr_exit_code = exit_code, sr_violations = []\<rparr>))
     (record_operation_event E tid oid (domain_event.OperationReceipt operation_revision
        (''sandbox::'' @ backend_text (csp_backend compiled)) (outcome = sandbox_outcome.Succeeded)
        (Some (receipt_outcome outcome))
        (''Agent command finished in an enforced '' @ backend_text (csp_backend compiled)
          @ '' sandbox with outcome '' @ sandbox_outcome_text outcome) None))"

section \<open>Dispatch\<close>

definition lease_expectation :: "operation_record \<Rightarrow> authorized_sandbox \<Rightarrow> sandbox_lease_expectation" where
  "lease_expectation r authorized =
     \<lparr>sle_operation_id = op_operation_id r,
      sle_operation_revision = op_revision r,
      sle_context_digest = as_context_digest authorized,
      sle_action_digest = csp_action_digest (slp_compiled (as_plan authorized)),
      sle_profile_digest = csp_profile_digest (slp_compiled (as_plan authorized)),
      sle_actor = actor.System\<rparr>"

definition consume_authorized_sandbox :: "daemon_env \<Rightarrow> operation_record \<Rightarrow> authorized_sandbox daemon_step" where
  "consume_authorized_sandbox E r =
     bind_step (read_step (\<lambda>s. dm_authorized_sandboxes s (op_operation_id r))) (\<lambda>found.
     bind_step (lift_step (ok_or found (SandboxAuthorizationMissing (op_operation_id r)))) (\<lambda>authorized.
     bind_step (now_ms E) (\<lambda>now.
     bind_step (read_step dm_sandbox_leases) (\<lambda>leases.
     bind_step (lift_step (map_err SandboxLease
         (consume_lease leases (as_lease_id authorized) (lease_expectation r authorized) now))) (\<lambda>(leases, _).
     then_step (update_step (\<lambda>s. s\<lparr>dm_sandbox_leases := leases\<rparr>))
     (then_step (update_step (\<lambda>s. s\<lparr>dm_authorized_sandboxes :=
         (dm_authorized_sandboxes s)(op_operation_id r := None)\<rparr>))
       (return_step authorized)))))))"

text \<open>
  What follows a dispatch that failed after the lease was consumed: a receipt, the state
  \<open>Failed\<close>, and the scratch directory is removed, whatever of it the journal takes.
\<close>

definition abandon_dispatch ::
    "daemon_env \<Rightarrow> task_id \<Rightarrow> operation_id \<Rightarrow> u64 \<Rightarrow> authorized_sandbox \<Rightarrow> u64 \<Rightarrow> sandbox_outcome \<Rightarrow> string
      \<Rightarrow> unit daemon_step" where
  "abandon_dispatch E tid oid revision authorized started_at_ms outcome reason =
     bind_step (unwrap_or_step (now_ms E) started_at_ms) (\<lambda>finished_at_ms.
     then_step (ignore_step (record_sandbox_receipt E tid oid revision (slp_compiled (as_plan authorized))
       started_at_ms finished_at_ms outcome None))
     (then_step (ignore_step (transition E tid oid revision operation_state.Failed actor.System (Some reason)))
       (cleanup_scratch_directory (as_scratch_directory authorized))))"

definition forget_terminal :: "terminal_id \<Rightarrow> (daemon_state, 'e, unit) step" where
  "forget_terminal terminal = then_step (set_context terminal None) (set_execution terminal None)"

definition start_authorized ::
    "daemon_env \<Rightarrow> task_id \<Rightarrow> operation_id \<Rightarrow> u64 \<Rightarrow> authorized_sandbox \<Rightarrow> u64 \<Rightarrow> terminal_size
      \<Rightarrow> terminal_id daemon_step" where
  "start_authorized E tid oid revision authorized started_at_ms dims =
     bind_step (attempt_step (start_session E (Some oid) (spawn_sandboxed (as_plan authorized) dims))) (\<lambda>r. case r of
       Inl error \<Rightarrow>
         then_step (abandon_dispatch E tid oid revision authorized started_at_ms Denied
             (''PTY spawn failed: '' @ de_terminal_text E error))
           (fail_step (DaemonTerminal error))
     | Inr terminal \<Rightarrow> return_step terminal)"

definition dispatch_terminal ::
    "daemon_env \<Rightarrow> task_id \<Rightarrow> operation_id \<Rightarrow> u64 \<Rightarrow> terminal_size
      \<Rightarrow> (terminal_id \<times> terminal_subscription) daemon_step" where
  "dispatch_terminal E tid oid expected_revision dims =
     bind_step (find_operation oid) (\<lambda>r.
     then_step (lift_step (validate_operation_scope r tid expected_revision))
     (then_step (guard_step (op_state r = Authorized) (OperationNotAuthorized (op_state r)))
     (bind_step (lift_step (case op_action r of
         operation_action.Shell command \<Rightarrow> Inr command | _ \<Rightarrow> Inl UnsupportedTerminalAction)) (\<lambda>command.
      then_step (guard_step (\<not> isolated_operation r) IsolatedTaskRequiresVmDispatch)
      (bind_step (consume_authorized_sandbox E r) (\<lambda>authorized.
       bind_step (now_ms E) (\<lambda>started_at_ms.
       then_step (on_error_step (transition E tid oid expected_revision Dispatching actor.System
           (Some ''sandbox lease consumed before PTY spawn''))
           (\<lambda>_. cleanup_scratch_directory (as_scratch_directory authorized)))
       (bind_step (start_authorized E tid oid (expected_revision + 1) authorized started_at_ms dims) (\<lambda>terminal.
        bind_step (subscribe_session terminal 0) (\<lambda>subscription.
        then_step (set_context terminal (Some (OperationContext \<lparr>otc_task_id = tid, otc_operation_id = oid\<rparr>)))
        (then_step (set_execution terminal (Some
           \<lparr>sec_compiled = slp_compiled (as_plan authorized), sec_started_at_ms = started_at_ms,
            sec_scratch_directory = as_scratch_directory authorized\<rparr>))
        (then_step (on_error_step
            (record_operation_event E tid oid (domain_event.TerminalOpened terminal command dims))
            (\<lambda>_. then_step (ignore_step (kill_session E terminal))
              (then_step (forget_terminal terminal)
                (abandon_dispatch E tid oid (expected_revision + 1) authorized started_at_ms Unknown
                   ''terminal-open event could not be journaled''))))
        (bind_step (ask (de_thread E)) (\<lambda>thread.
         then_step (on_error_step
            (lift_step (case thread of None \<Rightarrow> Inr () | Some e \<Rightarrow> Inl (DaemonIo e)))
            (\<lambda>_. then_step (ignore_step (kill_session E terminal))
              (then_step (forget_terminal terminal)
              (then_step (ignore_step (record_operation_event E tid oid (domain_event.TerminalExited terminal None)))
                (abandon_dispatch E tid oid (expected_revision + 1) authorized started_at_ms Unknown
                   ''terminal monitor thread could not start'')))))
           (return_step (terminal, subscription))))))))))))))))"

section \<open>The user's shell, and its terminal\<close>

text \<open>\<^verbatim>\<open>UserShellConfig::default()\<close> is the answer \<open>de_user_shell\<close>: it reads the environment.\<close>

definition open_user_shell ::
    "daemon_env \<Rightarrow> string option \<Rightarrow> terminal_size \<Rightarrow> (terminal_id \<times> terminal_subscription) daemon_step" where
  "open_user_shell E cwd dims =
     bind_step (ask (de_user_shell E)) (\<lambda>defaults.
     bind_step (ask (de_shell_host E)) (\<lambda>H.
     bind_step (attempt_step (start_session E None (spawn_user_shell H (defaults\<lparr>usc_cwd := cwd\<rparr>) dims))) (\<lambda>started.
     bind_step (lift_step (map_err DaemonTerminal started)) (\<lambda>terminal.
     bind_step (subscribe_session terminal 0) (\<lambda>subscription.
     then_step (set_context terminal (Some UserShell))
     (bind_step (ask (de_thread E)) (\<lambda>thread.
      then_step (on_error_step
          (lift_step (case thread of None \<Rightarrow> Inr () | Some e \<Rightarrow> Inl (DaemonIo e)))
          (\<lambda>_. then_step (ignore_step (kill_session E terminal)) (set_context terminal None)))
        (return_step (terminal, subscription)))))))))"

definition resize_terminal_step :: "daemon_env \<Rightarrow> terminal_id \<Rightarrow> u64 \<Rightarrow> terminal_size \<Rightarrow> unit daemon_step" where
  "resize_terminal_step E terminal generation dims =
     bind_step (find_session terminal) (\<lambda>session.
     bind_step (ask (de_pty E)) (\<lambda>resized.
     bind_step (lift_step (map_err DaemonTerminal (resize_terminal resized session generation dims))) (\<lambda>session.
     then_step (set_session session)
     (bind_step (find_context terminal) (\<lambda>c. case c of
        OperationContext c \<Rightarrow>
          record_operation_event E (otc_task_id c) (otc_operation_id c) (domain_event.TerminalResized terminal generation dims)
      | UserShell \<Rightarrow> return_step ())))))"

definition close_terminal_step :: "daemon_env \<Rightarrow> terminal_id \<Rightarrow> unit daemon_step" where
  "close_terminal_step E terminal =
     bind_step (find_session terminal) (\<lambda>session.
     if tsn_exit (terminal_snapshot_of (tss_replay session)) \<noteq> None then return_step ()
     else then_step (update_step (\<lambda>s. s\<lparr>dm_cancelled_terminals := insert terminal (dm_cancelled_terminals s)\<rparr>))
       (bind_step (ask (de_pty E)) (\<lambda>killed.
         lift_step (map_err DaemonTerminal (close_terminal killed session)))))"

section \<open>Input leases\<close>

definition acquire_input_lease ::
    "daemon_env \<Rightarrow> terminal_id \<Rightarrow> client_id \<Rightarrow> (input_lease_id \<times> u64) daemon_step" where
  "acquire_input_lease E terminal client =
     then_step (find_session terminal)
     (bind_step (read_step dm_input_leases) (\<lambda>leases. case leases terminal of
        Some existing \<Rightarrow>
          if il_client_id existing = client
          then return_step (il_lease_id existing, il_generation existing)
          else fail_step (InputLeaseHeld terminal)
      | None \<Rightarrow>
          bind_step (read_step (\<lambda>s. case dm_lease_generations s terminal of None \<Rightarrow> 0 | Some g \<Rightarrow> g)) (\<lambda>before.
          let generation = before + 1 in
          then_step (update_step (\<lambda>s. s\<lparr>dm_lease_generations :=
             (dm_lease_generations s)(terminal \<mapsto> generation)\<rparr>))
          (bind_step (ask (\<lambda>n. InputLeaseId (de_fresh E n))) (\<lambda>lease_id.
           then_step (update_input_leases (\<lambda>leases. leases(terminal \<mapsto>
               \<lparr>il_lease_id = lease_id, il_client_id = client, il_generation = generation\<rparr>)))
             (return_step (lease_id, generation)))))))"

definition held_lease ::
    "(terminal_id \<rightharpoonup> input_lease) \<Rightarrow> terminal_id \<Rightarrow> input_lease_id \<Rightarrow> client_id \<Rightarrow> unit daemon_step" where
  "held_lease leases terminal lease_id client =
     bind_step (lift_step (ok_or (leases terminal) (InputLeaseMissing terminal))) (\<lambda>existing.
       guard_step (\<not> (il_lease_id existing \<noteq> lease_id \<or> il_client_id existing \<noteq> client))
         (InputLeaseMismatch terminal))"

definition release_input_lease :: "terminal_id \<Rightarrow> input_lease_id \<Rightarrow> client_id \<Rightarrow> unit daemon_step" where
  "release_input_lease terminal lease_id client =
     bind_step (read_step dm_input_leases) (\<lambda>leases.
     then_step (held_lease leases terminal lease_id client)
       (update_input_leases (\<lambda>leases. leases(terminal := None))))"

definition write_terminal_input :: "daemon_env \<Rightarrow> client_id \<Rightarrow> terminal_input_frame \<Rightarrow> unit daemon_step" where
  "write_terminal_input E client frame =
     bind_step (read_step dm_input_leases) (\<lambda>leases.
     then_step (held_lease leases (tif_terminal_id frame) (tif_lease_id frame) client)
     (bind_step (find_session (tif_terminal_id frame)) (\<lambda>session.
      bind_step (ask (de_pty E)) (\<lambda>written.
      bind_step (lift_step (map_err DaemonTerminal
          (write_input written session (tif_sequence frame) (tif_bytes frame)))) set_session))))"

definition release_client :: "client_id \<Rightarrow> unit daemon_step" where
  "release_client client = update_input_leases (\<lambda>leases terminal. case leases terminal of
       Some lease \<Rightarrow> if il_client_id lease \<noteq> client then Some lease else None
     | None \<Rightarrow> None)"

section \<open>The monitor of a terminal\<close>

record output_observation =
  oo_last_sequence :: u64
  oo_pending_bytes :: u64
  oo_recorded_bytes :: u64

definition default_observation :: output_observation where
  "default_observation = \<lparr>oo_last_sequence = 0, oo_pending_bytes = 0, oo_recorded_bytes = 0\<rparr>"

definition observe :: "u64 \<Rightarrow> u64 \<Rightarrow> output_observation \<Rightarrow> output_observation" where
  "observe sequence byte_count x =
     (if sequence \<le> oo_last_sequence x then x
      else x\<lparr>oo_last_sequence := sequence, oo_pending_bytes := saturating_add (oo_pending_bytes x) byte_count\<rparr>)"

definition observe_snapshot :: "terminal_snapshot \<Rightarrow> output_observation \<Rightarrow> output_observation" where
  "observe_snapshot snap x =
     (let accounted = saturating_add (oo_recorded_bytes x) (oo_pending_bytes x) in
      x\<lparr>oo_last_sequence := max (oo_last_sequence x) (saturating_sub (tsn_next_sequence snap) 1),
        oo_pending_bytes := saturating_add (oo_pending_bytes x)
          (saturating_sub (tsn_total_bytes snap) accounted)\<rparr>)"

definition flush_observation ::
    "daemon_env \<Rightarrow> operation_terminal_context \<Rightarrow> terminal_id \<Rightarrow> bool \<Rightarrow> output_observation
      \<Rightarrow> output_observation daemon_step" where
  "flush_observation E c terminal force x =
     (if oo_pending_bytes x = 0 \<or> (\<not> force \<and> oo_pending_bytes x < OBSERVATION_BATCH_BYTES)
      then return_step x
      else bind_step (attempt_step (record_operation_event E (otc_task_id c) (otc_operation_id c)
          (TerminalOutputObserved terminal (oo_last_sequence x) (oo_pending_bytes x)))) (\<lambda>recorded.
        return_step (case recorded of
            Inl _ \<Rightarrow> x
          | Inr _ \<Rightarrow> x\<lparr>oo_pending_bytes := 0,
                oo_recorded_bytes := saturating_add (oo_recorded_bytes x) (oo_pending_bytes x)\<rparr>)))"

definition transition_current ::
    "daemon_env \<Rightarrow> operation_terminal_context \<Rightarrow> operation_state \<Rightarrow> string \<Rightarrow> unit daemon_step" where
  "transition_current E c target reason =
     bind_step (find_operation (otc_operation_id c)) (\<lambda>r.
     if op_state r \<noteq> Dispatching then return_step ()
     else then_step (transition E (otc_task_id c) (otc_operation_id c) (op_revision r) target actor.System
         (Some reason)) (return_step ()))"

definition exit_state :: "bool \<Rightarrow> u32 option \<Rightarrow> operation_state" where
  "exit_state cancelled exit_code =
     (if cancelled then operation_state.Cancelled
      else if exit_code = Some 0 then operation_state.Succeeded else operation_state.Failed)"

definition exit_outcome :: "bool \<Rightarrow> u32 option \<Rightarrow> sandbox_outcome" where
  "exit_outcome cancelled exit_code =
     (if cancelled then sandbox_outcome.Failed
      else if exit_code = Some 0 then sandbox_outcome.Succeeded else sandbox_outcome.Failed)"

definition finalize_operation ::
    "daemon_env \<Rightarrow> operation_terminal_context \<Rightarrow> terminal_id \<Rightarrow> u32 option \<Rightarrow> bool
      \<Rightarrow> sandbox_execution_context option \<Rightarrow> unit daemon_step" where
  "finalize_operation E c terminal exit_code cancelled execution =
     then_step (ignore_step (record_operation_event E (otc_task_id c) (otc_operation_id c)
       (domain_event.TerminalExited terminal exit_code)))
     (then_step (case execution of None \<Rightarrow> return_step ()
       | Some execution \<Rightarrow>
           bind_step (unwrap_or_step (bind_step (find_operation (otc_operation_id c))
               (\<lambda>r. return_step (op_revision r))) 0) (\<lambda>operation_revision.
           when_step (operation_revision \<noteq> 0)
             (bind_step (unwrap_or_step (now_ms E) (sec_started_at_ms execution)) (\<lambda>finished_at_ms.
              ignore_step (record_sandbox_receipt E (otc_task_id c) (otc_operation_id c) operation_revision
                (sec_compiled execution) (sec_started_at_ms execution) finished_at_ms
                (exit_outcome cancelled exit_code) exit_code)))))
       (ignore_step (transition_current E c (exit_state cancelled exit_code) ''PTY exited'')))"

definition finalize_terminal ::
    "daemon_env \<Rightarrow> terminal_context \<Rightarrow> terminal_id \<Rightarrow> u32 option \<Rightarrow> unit daemon_step" where
  "finalize_terminal E c terminal exit_code =
     bind_step (read_step (\<lambda>s. terminal \<in> dm_cancelled_terminals s)) (\<lambda>cancelled.
     then_step (update_step (\<lambda>s. s\<lparr>dm_cancelled_terminals := dm_cancelled_terminals s - {terminal}\<rparr>))
     (bind_step (read_step (\<lambda>s. dm_sandbox_executions s terminal)) (\<lambda>execution.
      then_step (set_execution terminal None)
      (then_step (case c of
          OperationContext c \<Rightarrow> finalize_operation E c terminal exit_code cancelled execution
        | UserShell \<Rightarrow> return_step ())
      (then_step (set_context terminal None)
      (then_step (update_input_leases (\<lambda>leases. leases(terminal := None)))
        (case execution of None \<Rightarrow> return_step ()
         | Some execution \<Rightarrow> cleanup_scratch_directory (sec_scratch_directory execution))))))))"

definition operation_context :: "terminal_context \<Rightarrow> operation_terminal_context option" where
  "operation_context c = (case c of OperationContext c \<Rightarrow> Some c | UserShell \<Rightarrow> None)"

text \<open>A step of the observation, only for the terminal of an operation.\<close>

definition observed ::
    "daemon_env \<Rightarrow> terminal_context \<Rightarrow> terminal_id \<Rightarrow> (output_observation \<Rightarrow> output_observation) \<Rightarrow> bool
      \<Rightarrow> output_observation \<Rightarrow> output_observation daemon_step" where
  "observed E c terminal f force x = (case operation_context c of
       None \<Rightarrow> return_step x
     | Some c \<Rightarrow> flush_observation E c terminal force (f x))"

definition observe_chunk :: "terminal_chunk \<Rightarrow> output_observation \<Rightarrow> output_observation" where
  "observe_chunk chunk = observe (tch_sequence chunk) (of_nat (length (tch_bytes chunk)))"

primrec monitor_replay ::
    "daemon_env \<Rightarrow> terminal_context \<Rightarrow> terminal_id \<Rightarrow> terminal_chunk list \<Rightarrow> output_observation
      \<Rightarrow> output_observation daemon_step" where
  "monitor_replay E c terminal [] x = return_step x"
| "monitor_replay E c terminal (chunk # chunks) x =
     bind_step (observed E c terminal (observe_chunk chunk) False x) (monitor_replay E c terminal chunks)"

fun monitor_events ::
    "daemon_env \<Rightarrow> terminal_context \<Rightarrow> terminal_id \<Rightarrow> terminal_snapshot \<Rightarrow> terminal_event list \<Rightarrow> output_observation
      \<Rightarrow> unit daemon_step" where
  "monitor_events E c terminal snap (Output chunk # events) x =
     bind_step (observed E c terminal (observe_chunk chunk) False x) (monitor_events E c terminal snap events)"
| "monitor_events E c terminal snap (Exited ex # _) x =
     then_step (observed E c terminal (\<lambda>x. x) True x) (finalize_terminal E c terminal (te_exit_code ex))"
| "monitor_events E c terminal snap (Fault message # events) x =
     then_step (case operation_context c of None \<Rightarrow> return_step ()
       | Some c \<Rightarrow> ignore_step (record_operation_event E (otc_task_id c) (otc_operation_id c)
           (domain_event.Diagnostic ''pty_read_fault'' message)))
       (monitor_events E c terminal snap events x)"
| "monitor_events E c terminal snap [] x =
     then_step (observed E c terminal (observe_snapshot snap) True x)
       (case tsn_exit snap of
          Some ex \<Rightarrow> finalize_terminal E c terminal (te_exit_code ex)
        | None \<Rightarrow> (case operation_context c of None \<Rightarrow> return_step ()
            | Some c \<Rightarrow> ignore_step (transition_current E c operation_state.UnknownExecution
                ''terminal monitor fell behind the bounded channel'')))"

text \<open>\<open>snap\<close> is the session's snapshot when its channel is gone.\<close>

definition monitor_terminal ::
    "daemon_env \<Rightarrow> terminal_id \<Rightarrow> terminal_subscription \<Rightarrow> terminal_event list \<Rightarrow> terminal_snapshot
      \<Rightarrow> unit daemon_step" where
  "monitor_terminal E terminal subscription events snap =
     bind_step (attempt_step (find_context terminal)) (\<lambda>found. case found of
       Inl _ \<Rightarrow> return_step ()
     | Inr c \<Rightarrow>
         bind_step (case tsu_replay subscription of
             Chunks chunks \<Rightarrow> monitor_replay E c terminal chunks default_observation
           | SnapshotRequired before \<Rightarrow> observed E c terminal (observe_snapshot before) True default_observation) (\<lambda>x.
         case tsu_exit subscription of
           Some ex \<Rightarrow> then_step (observed E c terminal (\<lambda>x. x) True x)
             (finalize_terminal E c terminal (te_exit_code ex))
         | None \<Rightarrow> monitor_events E c terminal snap events x))"

section \<open>After a restart\<close>

definition reconcile ::
    "daemon_env \<Rightarrow> (operation_record \<Rightarrow> bool) \<Rightarrow> operation_state \<Rightarrow> string \<Rightarrow> unit daemon_step" where
  "reconcile E interrupted target reason =
     bind_step (ask (de_record_order E)) (\<lambda>order.
     bind_step (read_step (\<lambda>s. filter interrupted (operation_records order (au_operations (dm_authority s))))) (\<lambda>found.
       each_step (\<lambda>r. then_step (transition E (op_task_id r) (op_operation_id r) (op_revision r) target
           actor.System (Some reason)) (return_step ())) found))"

definition reconcile_interrupted_dispatches :: "daemon_env \<Rightarrow> unit daemon_step" where
  "reconcile_interrupted_dispatches E =
     reconcile E (\<lambda>r. op_state r = Dispatching) operation_state.UnknownExecution
       ''daemon restarted without a reattachable PTY receipt''"

definition reconcile_unrecoverable_sandbox_authorizations :: "daemon_env \<Rightarrow> unit daemon_step" where
  "reconcile_unrecoverable_sandbox_authorizations E =
     reconcile E (\<lambda>r. op_state r = Authorized \<and> is_shell (op_action r)) operation_state.Failed
       ''daemon restart invalidated the in-memory one-use sandbox lease''"

definition new_daemon :: "authority_state \<Rightarrow> string \<Rightarrow> string \<Rightarrow> string \<Rightarrow> daemon_state" where
  "new_daemon authority state_directory isolated_results_root scratch_root =
     \<lparr>dm_authority = authority, dm_terminals = Map.empty, dm_terminal_contexts = Map.empty,
      dm_input_leases = Map.empty, dm_lease_generations = Map.empty, dm_cancelled_terminals = {},
      dm_control_subscribers = [], dm_block_subscribers = [], dm_sandbox_leases = Map.empty,
      dm_authorized_sandboxes = Map.empty, dm_sandbox_executions = Map.empty,
      dm_state_directory = state_directory, dm_isolated_results_root = isolated_results_root,
      dm_scratch_root = scratch_root, dm_tick = 0, dm_control_log = [], dm_patch_log = [],
      dm_processes = [], dm_removed_directories = []\<rparr>"

text \<open>
  Opening: \<open>prepared\<close> is what the directories, the lock of the state root, the artifact
  store and the worktree manager answer before the journal is read, and \<open>recovered\<close> what
  the recovery of isolated results and the scratch directory do after it.
\<close>

definition open_daemon ::
    "daemon_env \<Rightarrow> daemon_error + unit \<Rightarrow> (accepted_gen_ui_artifact \<Rightarrow> daemon_error + unit)
      \<Rightarrow> (operation_reducer \<Rightarrow> daemon_error + unit) \<Rightarrow> open_io \<Rightarrow> string \<Rightarrow> string \<Rightarrow> bytes \<Rightarrow> daemon_error + daemon_state" where
  "open_daemon E prepared read_artifact recovered io state_directory scratch_root file =
     and_then prepared (\<lambda>_.
     and_then (open_authority (de_events E) (de_uuids E) read_artifact io
       (path_push state_directory ''events.jsonl'') file) (\<lambda>authority.
     and_then (recovered (au_operations authority)) (\<lambda>_.
     case then_step (reconcile_interrupted_dispatches E) (reconcile_unrecoverable_sandbox_authorizations E)
         (new_daemon authority state_directory (path_push state_directory ''isolated-results'') scratch_root) of
       (Inl e, _) \<Rightarrow> Inl e
     | (Inr _, s) \<Rightarrow> Inr s)))"

end
