(* ===== verification/Daemon_Frame.thy ===== *)
theory Daemon_Frame
  imports Daemon_Terminal
begin

text \<open>
  The methods of the daemon as moves between its states, and what a relation between two states
  must allow so that every method obeys it: one record in the authority, and any update beside
  it. The locales prove this once, method by method; each promise of the daemon is a relation
  that interprets them.
\<close>

section \<open>Case distinctions in an operation\<close>

lemma obeys_cases:
  "(\<And>x y. obeys R (f x y)) \<Longrightarrow> obeys R (case_prod f p)"
  "obeys R m \<Longrightarrow> (\<And>x. obeys R (g x)) \<Longrightarrow> obeys R (case_option m g z)"
  "(\<And>x. obeys R (h x)) \<Longrightarrow> (\<And>y. obeys R (k y)) \<Longrightarrow> obeys R (case_sum h k w)"
  "obeys R m \<Longrightarrow> obeys R n \<Longrightarrow> obeys R (if b then m else n)"
  "(\<And>a. obeys R (l a)) \<Longrightarrow> obeys R (Let a l)"
  by (auto split: prod.split option.split sum.split)

lemma obeys_weaken: "obeys R m \<Longrightarrow> (\<And>s t. R s t \<Longrightarrow> R' s t) \<Longrightarrow> obeys R' m"
  by (simp add: obeys_def)

lemma obeys_action:
  assumes "\<And>c. obeys R (f c)" "\<And>l. obeys R (g l)" "\<And>c. obeys R (h c)" "\<And>c. obeys R (k c)"
    "\<And>x y. obeys R (m x y)"
  shows "obeys R (case_operation_action f g h k m action)"
  using assms by (cases action) auto

lemma obeys_context:
  "(\<And>c. obeys R (f c)) \<Longrightarrow> obeys R g \<Longrightarrow> obeys R (case_terminal_context f g c)"
  by (cases c) auto

section \<open>The moves\<close>

inductive daemon_move :: "daemon_env \<Rightarrow> daemon_state \<Rightarrow> daemon_state \<Rightarrow> bool" for E where
  create_task: "create_task E title s = (r, t) \<Longrightarrow> daemon_move E s t"
| append_message: "append_message E tid bid role external body s = (r, t) \<Longrightarrow> daemon_move E s t"
| agent_context: "record_agent_execution_context E tid provider protocol thread receipts s = (r, t) \<Longrightarrow> daemon_move E s t"
| mcp_runtime: "record_local_mcp_server_runtime E tid oid revision runtime s = (r, t) \<Longrightarrow> daemon_move E s t"
| mcp_tool_call: "record_local_mcp_tool_call E tid oid revision call_receipt s = (r, t) \<Longrightarrow> daemon_move E s t"
| agent_tool_call: "update_agent_tool_call E tid turn call s = (r, t) \<Longrightarrow> daemon_move E s t"
| agent_plan: "update_agent_plan E tid turn entries s = (r, t) \<Longrightarrow> daemon_move E s t"
| propose: "propose_operation E tid kind action summary risk caps s = (r, t) \<Longrightarrow> daemon_move E s t"
| propose_brokered: "propose_brokered_mcp_tool E tid tool arguments s = (r, t) \<Longrightarrow> daemon_move E s t"
| decide: "decide_permission E tid oid revision decision s = (r, t) \<Longrightarrow> daemon_move E s t"
| decide_bound: "decide_permission_bound E tid oid revision digest decision s = (r, t) \<Longrightarrow> daemon_move E s t"
| begin_brokered: "begin_operation E tid oid revision s = (r, t) \<Longrightarrow> daemon_move E s t"
| complete_brokered: "complete_operation E tid oid revision completion s = (r, t) \<Longrightarrow> daemon_move E s t"
| accept_artifact: "accept_genui_artifact_inner E tid oid revision base candidate s = (r, t) \<Longrightarrow> daemon_move E s t"
| dispatch: "dispatch_terminal E tid oid revision dims s = (r, t) \<Longrightarrow> daemon_move E s t"
| user_shell: "open_user_shell E cwd dims s = (r, t) \<Longrightarrow> daemon_move E s t"
| subscribe_terminal: "subscribe_session terminal after_sequence s = (r, t) \<Longrightarrow> daemon_move E s t"
| resize: "resize_terminal_step E terminal generation dims s = (r, t) \<Longrightarrow> daemon_move E s t"
| close_terminal: "close_terminal_step E terminal s = (r, t) \<Longrightarrow> daemon_move E s t"
| acquire: "acquire_input_lease E terminal client s = (r, t) \<Longrightarrow> daemon_move E s t"
| release: "release_input_lease terminal lease_id client s = (r, t) \<Longrightarrow> daemon_move E s t"
| write_input: "write_terminal_input E client frame s = (r, t) \<Longrightarrow> daemon_move E s t"
| client_gone: "release_client client s = (r, t) \<Longrightarrow> daemon_move E s t"
| monitor_flush: "flush_observation E c terminal force x s = (r, t) \<Longrightarrow> daemon_move E s t"
| monitor_lost: "transition_current E c target reason s = (r, t) \<Longrightarrow> daemon_move E s t"
| monitor_exit: "finalize_terminal E tc terminal exit_code s = (r, t) \<Longrightarrow> daemon_move E s t"
| monitor_all: "monitor_terminal E terminal subscription events snap s = (r, t) \<Longrightarrow> daemon_move E s t"
| subscribe_control: "subscribe_control channel s = (r, t) \<Longrightarrow> daemon_move E s t"
| subscribe_blocks: "subscribe_block_patches channel s = (r, t) \<Longrightarrow> daemon_move E s t"

section \<open>Updates beside the authority\<close>

text \<open>The processes that were started for operations.\<close>

definition operation_processes :: "daemon_state \<Rightarrow> (operation_id option \<times> command_builder) list" where
  "operation_processes s = filter (\<lambda>p. fst p \<noteq> None) (dm_processes s)"

text \<open>
  An update beside keeps the authority, the processes of operations and the generations of the
  input leases, and it authorizes nothing and leases nothing.
\<close>

definition aside :: "(daemon_state \<Rightarrow> daemon_state) \<Rightarrow> bool" where
  "aside u \<longleftrightarrow> (\<forall>s. dm_authority (u s) = dm_authority s
     \<and> dm_authorized_sandboxes (u s) \<subseteq>\<^sub>m dm_authorized_sandboxes s
     \<and> operation_processes (u s) = operation_processes s
     \<and> dm_state_directory (u s) = dm_state_directory s
     \<and> dm_input_leases (u s) \<subseteq>\<^sub>m dm_input_leases s
     \<and> dm_lease_generations (u s) = dm_lease_generations s)"

lemma asides:
  "aside (\<lambda>s. s\<lparr>dm_terminal_contexts := f s\<rparr>)" "aside (\<lambda>s. s\<lparr>dm_sandbox_executions := g s\<rparr>)"
  "aside (\<lambda>s. s\<lparr>dm_terminals := k s\<rparr>)" "aside (\<lambda>s. s\<lparr>dm_cancelled_terminals := l s\<rparr>)"
  "aside (\<lambda>s. s\<lparr>dm_sandbox_leases := q s\<rparr>)" "aside (\<lambda>s. s\<lparr>dm_tick := n s\<rparr>)"
  "aside (\<lambda>s. s\<lparr>dm_control_subscribers := v s\<rparr>)" "aside (\<lambda>s. s\<lparr>dm_block_subscribers := w s\<rparr>)"
  "aside (\<lambda>s. s\<lparr>dm_control_subscribers := v s, dm_control_log := x s\<rparr>)"
  "aside (\<lambda>s. s\<lparr>dm_block_subscribers := w s, dm_patch_log := y s\<rparr>)"
  "aside (\<lambda>s. s\<lparr>dm_removed_directories := z s\<rparr>)"
  "aside (\<lambda>s. s\<lparr>dm_authorized_sandboxes := (dm_authorized_sandboxes s)(oid := None)\<rparr>)"
  "aside (\<lambda>s. s\<lparr>dm_processes := dm_processes s @ [(None, builder)]\<rparr>)"
  by (auto simp: aside_def operation_processes_def map_le_def)

lemma dropped_leases: "(\<And>m. f m \<subseteq>\<^sub>m m) \<Longrightarrow> aside (\<lambda>s. s\<lparr>dm_input_leases := f (dm_input_leases s)\<rparr>)"
  by (simp add: aside_def operation_processes_def)

lemma lease_drops:
  "m(terminal := None) \<subseteq>\<^sub>m m"
  "(\<lambda>terminal. case m terminal of Some lease \<Rightarrow> if P lease then Some lease else None | None \<Rightarrow> None) \<subseteq>\<^sub>m m"
  by (auto simp: map_le_def split: option.splits if_splits)

text \<open>A daemon that opened: what reconciliation started from.\<close>

lemma open_daemon_parts:
  assumes "open_daemon E prepared read_artifact recovered io dir scratch file = Inr s"
  shows "\<exists>a u. open_authority (de_events E) (de_uuids E) read_artifact io (path_push dir ''events.jsonl'') file = Inr a
    \<and> reconcile_interrupted_dispatches E (new_daemon a dir (path_push dir ''isolated-results'') scratch) = (Inr (), u)
    \<and> reconcile_unrecoverable_sandbox_authorizations E u = (Inr (), s)"
proof -
  have case_ok: "(case m x of (Inl e, _) \<Rightarrow> Inl e | (Inr _, v) \<Rightarrow> Inr v) = Inr w \<longleftrightarrow> m x = (Inr (), w)"
    for m :: "unit daemon_step" and x w
    by (cases "m x") (auto split: sum.splits)
  from assms show ?thesis
    by (auto simp: open_daemon_def result_simps case_ok then_step_Inr)
qed

locale daemon_frame = step_preorder R for R :: "daemon_state \<Rightarrow> daemon_state \<Rightarrow> bool" +
  assumes beside: "aside u \<Longrightarrow> R s (u s)"
    and authority: "record_authority C U input event (dm_authority s) = (r, b) \<Longrightarrow> R s (s\<lparr>dm_authority := b\<rparr>)"
begin

lemma keep_update: "aside u \<Longrightarrow> obeys R (update_step u)"
  by (rule obeys_update) (rule beside)

lemma keep_ask: "obeys R (ask f)"
  using beside [OF asides(6) [of "\<lambda>s. dm_tick s + 1"]] by (simp add: obeys_def ask_def)

lemma keep_authority: "obeys R (in_authority (record_authority C U input event))"
  by (rule obeysI) (auto simp: in_authority_def split: prod.splits dest: authority)

lemma keep_ignore: "obeys R m \<Longrightarrow> obeys R (ignore_step m)"
  unfolding ignore_step_def by (intro obeys_parts)

lemma keep_unwrap_or: "obeys R m \<Longrightarrow> obeys R (unwrap_or_step m a)"
  unfolding unwrap_or_step_def by (intro obeys_parts)

lemmas keep_parts = obeys_parts obeys_cases keep_ask keep_ignore keep_unwrap_or

lemma keep_now_ms: "obeys R (now_ms E)"
  unfolding now_ms_def by (intro keep_parts)

lemma keep_cleanup: "obeys R (cleanup_scratch_directory p)"
  unfolding cleanup_scratch_directory_def by (intro keep_update asides)

lemma keep_broadcast: "obeys R (broadcast E x)" "obeys R (broadcast_block_patch E tid patch)"
  unfolding broadcast_def broadcast_block_patch_def
  by (intro keep_parts keep_update asides)+

lemma keep_record: "obeys R (record_event E event)"
  unfolding record_event_def by (intro keep_parts keep_authority keep_broadcast)

lemma keep_find_operation: "obeys R (find_operation oid)"
  unfolding find_operation_def by (intro keep_parts)

lemma keep_transition: "obeys R (transition E tid oid revision to actor reason)"
  unfolding transition_def by (intro keep_parts keep_record keep_find_operation)

lemma keep_require_task: "obeys R (require_task tid)"
  unfolding require_task_def by (intro keep_parts)

lemmas keep_basics = keep_parts keep_now_ms keep_cleanup keep_record keep_find_operation
  keep_transition keep_require_task

lemma keep_sets:
  "obeys R (set_context terminal c)" "obeys R (set_execution terminal x)"
  "obeys R (set_session session)"
  unfolding set_context_def set_execution_def set_session_def
  by (intro keep_update asides)+

lemma keep_finds:
  "obeys R (find_session terminal)" "obeys R (find_context terminal)"
  "obeys R (dispatching_operation tid oid revision)" "obeys R (kill_session E terminal)"
  "obeys R (held_lease leases terminal lease_id client)" "obeys R (active_genui_artifact tid)"
  unfolding find_session_def find_context_def dispatching_operation_def kill_session_def held_lease_def
    active_genui_artifact_def
  by (intro keep_basics)+

lemma keep_subscribe: "obeys R (subscribe_session terminal after_sequence)"
  unfolding subscribe_session_def by (intro keep_basics keep_finds keep_sets)

lemma keep_receipt: "obeys R (record_sandbox_receipt E tid oid revision compiled started finished outcome code)"
  unfolding record_sandbox_receipt_def by (intro keep_basics)

lemma keep_abandon: "obeys R (abandon_dispatch E tid oid revision authorized started outcome reason)"
  unfolding abandon_dispatch_def by (intro keep_basics keep_receipt)

lemma keep_forget: "obeys R (forget_terminal terminal)"
  unfolding forget_terminal_def by (intro keep_basics keep_sets)

lemma keep_start_user: "obeys R (start_session E None builder)"
  unfolding start_session_def by (intro keep_basics keep_sets keep_update asides)

lemma keep_drops: "(\<And>m. f m \<subseteq>\<^sub>m m) \<Longrightarrow> obeys R (update_input_leases f)"
  unfolding update_input_leases_def by (intro keep_update dropped_leases)

lemmas keep_more = keep_basics keep_sets keep_finds keep_subscribe keep_receipt keep_abandon
  keep_forget keep_start_user

lemma keep_flush: "obeys R (flush_observation E c terminal force x)"
  unfolding flush_observation_def by (intro keep_more)

lemma keep_current: "obeys R (transition_current E c target reason)"
  unfolding transition_current_def by (intro keep_more)

lemma keep_finalize: "obeys R (finalize_terminal E tc terminal exit_code)"
proof -
  have "obeys R (finalize_operation E c terminal exit_code cancelled execution)" for c cancelled execution
    unfolding finalize_operation_def by (intro keep_more keep_current)
  then show ?thesis
    unfolding finalize_terminal_def
    by (cases tc; simp; intro keep_more keep_update asides keep_drops lease_drops) assumption?
qed

lemma keep_observed: "obeys R (observed E c terminal f force x)"
  unfolding observed_def by (intro keep_more keep_flush)

lemma keep_replay: "obeys R (monitor_replay E c terminal chunks x)"
  by (induction chunks arbitrary: x) (auto intro: keep_parts keep_observed)

lemma keep_events: "obeys R (monitor_events E c terminal snap events x)"
  by (induction E c terminal snap events x rule: monitor_events.induct)
    (simp_all; intro keep_more keep_observed keep_finalize keep_current; assumption)+

lemma keep_monitor: "obeys R (monitor_terminal E terminal subscription events snap)"
  unfolding monitor_terminal_def
  by (cases "tsu_replay subscription"; simp; intro keep_more keep_observed keep_finalize keep_replay keep_events)

lemma keep_propose: "obeys R (propose_operation E tid kind action summary risk caps)"
  unfolding propose_operation_def by (intro keep_more)

lemma keep_check_base: "obeys R (check_base tid base)"
  unfolding check_base_def by (intro keep_more)

lemma keep_methods:
  "obeys R (create_task E title)"
  "obeys R (append_message E tid bid role external body)"
  "obeys R (record_agent_execution_context E tid provider protocol thread receipts)"
  "obeys R (record_local_mcp_server_runtime E tid oid revision runtime)"
  "obeys R (record_local_mcp_tool_call E tid oid revision call_receipt)"
  "obeys R (update_agent_tool_call E tid turn call)"
  "obeys R (update_agent_plan E tid turn entries)"
  "obeys R (propose_brokered_mcp_tool E tid tool arguments)"
  "obeys R (begin_operation E tid oid revision)"
  "obeys R (complete_operation E tid oid revision completion)"
  "obeys R (accept_genui_artifact_inner E tid oid revision base candidate)"
  "obeys R (open_user_shell E cwd dims)"
  "obeys R (resize_terminal_step E terminal generation dims)"
  "obeys R (close_terminal_step E terminal)"
  "obeys R (release_input_lease terminal lease_id client)"
  "obeys R (write_terminal_input E client frame)"
  "obeys R (release_client client)"
  "obeys R (subscribe_control channel)"
  "obeys R (subscribe_block_patches channel)"
  unfolding create_task_def append_message_def record_agent_execution_context_def
    record_local_mcp_server_runtime_def record_local_mcp_tool_call_def update_agent_tool_call_def
    update_agent_plan_def propose_brokered_mcp_tool_def begin_operation_def complete_operation_def
    accept_genui_artifact_inner_def open_user_shell_def resize_terminal_step_def close_terminal_step_def
    release_input_lease_def write_terminal_input_def release_client_def
    subscribe_control_def subscribe_block_patches_def
  by (intro keep_more keep_propose keep_check_base keep_update asides keep_drops lease_drops obeys_action obeys_context)+

lemma keep_authorize: "obeys R (authorize_sandbox E r revision command workspace scratch)"
  unfolding authorize_sandbox_def by (intro keep_basics)

lemma keep_prepare: "obeys R (prepare_authorized_sandbox E r revision)"
  unfolding prepare_authorized_sandbox_def by (intro keep_basics obeys_action keep_authorize)

lemma keep_issue: "obeys R (issue_prepared lease)"
  unfolding issue_prepared_def by (intro keep_basics keep_update asides)

lemma keep_consume: "obeys R (consume_authorized_sandbox E r)"
  unfolding consume_authorized_sandbox_def by (intro keep_basics keep_update asides)

lemmas keep_all = keep_methods keep_propose keep_subscribe keep_flush keep_current keep_finalize keep_monitor

lemma keep_reconcile: "obeys R (reconcile E interrupted target reason)"
  unfolding reconcile_def by (intro keep_more)

lemma keep_open:
  assumes "open_daemon E prepared read_artifact recovered io dir scratch file = Inr s"
  shows "\<exists>a. open_authority (de_events E) (de_uuids E) read_artifact io (path_push dir ''events.jsonl'') file = Inr a
    \<and> R (new_daemon a dir (path_push dir ''isolated-results'') scratch) s"
  using open_daemon_parts [OF assms] obeysD [OF keep_reconcile]
  unfolding reconcile_interrupted_dispatches_def reconcile_unrecoverable_sandbox_authorizations_def
  by (blast intro: trans)

text \<open>Every move but the decisions and the dispatch is made of these.\<close>

lemma keep_move:
  assumes "daemon_move E s t" and "\<And>terminal client. obeys R (acquire_input_lease E terminal client)"
  shows "R s t \<or> (\<exists>tid oid revision decision r. decide_permission E tid oid revision decision s = (r, t))
    \<or> (\<exists>tid oid revision digest decision r. decide_permission_bound E tid oid revision digest decision s = (r, t))
    \<or> (\<exists>tid oid revision dims r. dispatch_terminal E tid oid revision dims s = (r, t))"
  using assms(1)
  by (cases rule: daemon_move.cases)
    ((rule disjI1, erule obeysD [rotated], rule keep_all assms(2)) | blast)+

end

text \<open>A relation that also allows what a decision and a dispatch change.\<close>

locale daemon_total = daemon_frame R for R +
  assumes grant: "R s (s\<lparr>dm_authorized_sandboxes := m\<rparr>)"
    and start: "R s (s\<lparr>dm_processes := ps\<rparr>)"
    and acquire: "obeys R (acquire_input_lease E terminal client)"
begin

lemma keep_store: "obeys R (store_authorized oid authorized)"
  unfolding store_authorized_def by (intro keep_more obeys_update grant)

lemma keep_activate: "obeys R (activate_authorized_sandbox E tid revision prepared)"
  unfolding activate_authorized_sandbox_def by (intro keep_more keep_issue keep_store)

lemma keep_decide: "obeys R (decide_permission E tid oid revision decision)"
  unfolding decide_permission_def by (intro keep_more keep_prepare keep_activate)

lemma keep_decide_bound: "obeys R (decide_permission_bound E tid oid revision digest decision)"
  unfolding decide_permission_bound_def by (intro keep_more keep_decide)

lemma keep_start: "obeys R (start_session E owner builder)"
  unfolding start_session_def by (intro keep_more obeys_update start)

lemma keep_dispatch: "obeys R (dispatch_terminal E tid oid revision dims)"
  unfolding dispatch_terminal_def start_authorized_def by (intro keep_more keep_start keep_consume)

lemma keep_moves: "daemon_move E s t \<Longrightarrow> R s t"
  by (drule keep_move [OF _ acquire], elim disjE exE, assumption)
    (erule obeysD [rotated], rule keep_decide keep_decide_bound keep_dispatch)+

lemma keep_run: "(daemon_move E)\<^sup>*\<^sup>* s t \<Longrightarrow> R s t"
  by (induction rule: rtranclp_induct) (blast intro: refl trans keep_moves)+

end

end
