(* ===== verification/Daemon_Safety.thy ===== *)
theory Daemon_Safety
  imports Daemon_Frame Exec_Context_Safety
begin

text \<open>
  What the daemon promises of its processes over any sequence of its methods: a process of an
  operation starts only after a person allowed it, once, in a sandbox, as it was proposed.

  Most moves are quiet: they extend the journal and move operations forward, and start nothing.
  The decision and the dispatch are not; triples over their parts show that they keep the
  invariant.
\<close>

section \<open>Operations move forward\<close>

definition operations_later :: "operation_reducer \<Rightarrow> operation_reducer \<Rightarrow> bool" where
  "operations_later m m' \<longleftrightarrow> (\<forall>oid r. m oid = Some r \<longrightarrow> (\<exists>r'. m' oid = Some r' \<and> same_identity r r'
     \<and> state_rank (op_state r) \<le> state_rank (op_state r')))"

lemma operations_later_refl: "operations_later m m"
  by (simp add: operations_later_def same_identity_def)

lemma same_identity_trans: "same_identity r s \<Longrightarrow> same_identity s t \<Longrightarrow> same_identity r t"
  by (simp add: same_identity_def)

lemma operations_later_trans: "operations_later m n \<Longrightarrow> operations_later n k \<Longrightarrow> operations_later m k"
  unfolding operations_later_def by (meson same_identity_trans order_trans)

lemma operation_step_later: "operation_step m m' \<Longrightarrow> operations_later m m'"
proof (induction rule: operation_step.induct)
  case (transition m oid r to)
  then show ?case
    using valid_transition_rank [of "op_state r" to] by (auto simp: operations_later_def same_identity_def)
qed (auto simp: operations_later_def same_identity_def)

lemma operation_step_finite: "operation_step m m' \<Longrightarrow> finite (dom m) \<Longrightarrow> finite (dom m')"
  by (induction rule: operation_step.induct) auto

section \<open>What every method keeps\<close>

abbreviation operations_of :: "daemon_state \<Rightarrow> operation_reducer" where
  "operations_of s \<equiv> au_operations (dm_authority s)"

definition grows :: "daemon_state \<Rightarrow> daemon_state \<Rightarrow> bool" where
  "grows s t \<longleftrightarrow> (\<exists>es. journal_events t = journal_events s @ es)
     \<and> operations_later (operations_of s) (operations_of t)
     \<and> (reducer_inv (operations_of s) \<longrightarrow> reducer_inv (operations_of t))
     \<and> (finite (dom (operations_of s)) \<longrightarrow> finite (dom (operations_of t)))
     \<and> dm_state_directory t = dm_state_directory s"

lemma grows_refl: "grows s s"
  by (simp add: grows_def operations_later_refl)

lemma grows_trans: "grows s t \<Longrightarrow> grows t u \<Longrightarrow> grows s u"
  by (auto simp: grows_def intro: operations_later_trans)

lemma record_authority_grows:
  assumes "record_authority C U input event a = (r, b)"
  shows "(\<exists>es. jl_events (au_journal b) = jl_events (au_journal a) @ es)
    \<and> operation_step (au_operations a) (au_operations b)"
proof (cases r)
  case (Inl e)
  then show ?thesis
    using record_authority_error [of C U input event a e b] assms by (simp add: operation_step.stay)
next
  case (Inr x)
  obtain e patch where "x = (e, patch)" by (cases x)
  with assms Inr have ok: "record_authority C U input event a = (Inr (e, patch), b)" by simp
  from record_authority_ok(3) [OF ok] have "apply_operation (au_operations a) e = Inr (au_operations b)"
    by (auto simp: apply_event_def result_simps Let_def)
  then show ?thesis
    using append_envelope_ok(3) [OF record_authority_ok(4) [OF ok]] apply_operation_step by auto
qed

lemma grows_authority:
  "record_authority C U input event (dm_authority s) = (r, b) \<Longrightarrow> grows s (s\<lparr>dm_authority := b\<rparr>)"
  using record_authority_grows [of C U input event "dm_authority s" r b]
  by (auto simp: grows_def intro: operation_step_later operation_step_inv operation_step_finite)

lemma grows_frame: "daemon_frame grows"
proof
  show "aside u \<Longrightarrow> grows s (u s)" for u s
    by (simp add: aside_def grows_def operations_later_refl)
qed (blast intro: grows_refl grows_trans grows_authority)+

interpretation grows: daemon_frame grows by (rule grows_frame)

text \<open>A new lease is the only thing that an acquisition adds.\<close>

lemma acquire_parts:
  assumes "step_preorder R" and "\<And>s n. R s (s\<lparr>dm_tick := n\<rparr>)"
    and "\<And>s m. R s (s\<lparr>dm_lease_generations := m\<rparr>)" and "\<And>s m. R s (s\<lparr>dm_input_leases := m\<rparr>)"
  shows "obeys R (acquire_input_lease E terminal client)"
proof -
  have "obeys R (find_session terminal)"
    unfolding find_session_def by (intro step_preorder.obeys_parts [OF assms(1)])
  moreover have "obeys R (ask f)" for f
    by (simp add: obeys_def ask_def assms(2))
  moreover have "obeys R (update_input_leases f)" for f
    by (simp add: obeys_def update_input_leases_def step_runs assms(4))
  ultimately show ?thesis
    unfolding acquire_input_lease_def
    by (intro step_preorder.obeys_parts [OF assms(1)] obeys_cases step_preorder.obeys_update [OF assms(1)] assms(3))
qed

interpretation grows: daemon_total grows
proof
  show "obeys grows (acquire_input_lease E terminal client)" for E terminal client
    by (rule acquire_parts [OF grows.step_preorder_axioms]) (simp_all add: grows_def operations_later_refl)
qed (simp_all add: grows_def operations_later_refl)

section \<open>Quiet moves\<close>

definition quiet :: "daemon_state \<Rightarrow> daemon_state \<Rightarrow> bool" where
  "quiet s t \<longleftrightarrow> grows s t \<and> dm_authorized_sandboxes t \<subseteq>\<^sub>m dm_authorized_sandboxes s
     \<and> operation_processes t = operation_processes s"

interpretation quiet: daemon_frame quiet
proof
  show "quiet s s" for s by (simp add: quiet_def grows_refl)
  show "quiet s t \<Longrightarrow> quiet t u \<Longrightarrow> quiet s u" for s t u
    by (auto simp: quiet_def intro: grows_trans map_le_trans)
  show "aside u \<Longrightarrow> quiet s (u s)" for u s
    using grows.beside [of u s] by (simp add: aside_def quiet_def)
  show "record_authority C U input event (dm_authority s) = (r, b) \<Longrightarrow> quiet s (s\<lparr>dm_authority := b\<rparr>)"
    for C U input event s r b
    using grows_authority [of C U input event s r b] by (simp add: quiet_def operation_processes_def)
qed

lemma quiet_acquire: "obeys quiet (acquire_input_lease E terminal client)"
  by (rule acquire_parts [OF quiet.step_preorder_axioms])
    (simp_all add: quiet_def grows_def operations_later_refl operation_processes_def)

section \<open>What an authorized plan runs\<close>

text \<open>The launcher's request behind an authorized plan, and the profile that it compiles.\<close>

lemma authorized_launch:
  assumes "compile_authorized_execution_plan C request inputs launcher = Inr plan"
  shows "\<exists>command profile. canonicalize_terminal_command (ear_command request) = Inr command
    \<and> rec_requested_sandbox (aep_context plan) = Some profile
    \<and> launcher \<lparr>scr_operation_id = ear_operation_id request,
         scr_operation_revision = ear_operation_revision request, scr_actor = ear_actor request,
         scr_command = command\<lparr>tc_env := rep_variables (rec_environment (aep_context plan))\<rparr>,
         scr_profile = profile\<rparr> = Inr (aep_sandbox plan)"
  using assms unfolding compile_authorized_execution_plan_def
  by (clarsimp simp: result_simps Let_def not_le split: prod.splits if_splits)

lemma requested_sandbox:
  assumes "compile_execution_context C spec inputs = Inr (ctx, receipt)"
    and "rec_requested_sandbox ctx = Some profile" and "ecs_sandbox spec = Some p"
  shows "\<exists>env. canonicalize_sandbox_profile (p\<lparr>sp_environment := env\<rparr>) = Inr profile"
proof -
  obtain canonical where canonical: "canonicalize_spec spec (eci_allow_user_mode inputs) = Inr canonical"
    using assms(1) unfolding compile_execution_context_def by (auto simp: and_then_Inr_iff)
  then have "ecs_sandbox canonical = Some p"
    using assms(3) by (auto simp: canonicalize_spec_def and_then_Inr_iff if_Inl_Inr_iff)
  then show ?thesis
    using assms(1,2) canonical unfolding compile_execution_context_def
    by (auto simp: result_simps Let_def resolved_sandbox_def split: if_splits)
qed

text \<open>
  The plan of an operation, for a daemon with the state directory \<open>D\<close>: one of its launchers made
  it, it is enforced, and what the launcher was asked to run is the command that was proposed, in a
  profile with the rules of the operation's risk.
\<close>

definition plan_for :: "daemon_env \<Rightarrow> string \<Rightarrow> operation_record \<Rightarrow> sandbox_launch_plan \<Rightarrow> bool" where
  "plan_for E D r plan \<longleftrightarrow> (\<exists>command launcher request files workspace scratch env.
     op_action r = operation_action.Shell command
     \<and> launcher \<in> insert (lima_compile (de_sandbox E)) (range (de_launcher E))
     \<and> launcher request = Inr plan \<and> enforced_plan plan
     \<and> scr_operation_id request = op_operation_id r
     \<and> normalize_absolute_path (tc_program command) = Inr (tc_program (scr_command request))
     \<and> tc_args (scr_command request) = tc_args command
     \<and> canonicalize_sandbox_profile ((operation_sandbox_profile (isolated_operation r)
          (operation_sandbox_rules files (op_risk r) workspace D scratch))\<lparr>sp_environment := env\<rparr>)
        = Inr (scr_profile request))"

lemma plan_for_identity: "same_identity r r' \<Longrightarrow> plan_for E D r plan \<Longrightarrow> plan_for E D r' plan"
  by (simp add: plan_for_def same_identity_def isolated_operation_def)

lemma ask_Inr: "ask f s = (Inr a, t) \<longleftrightarrow> a = f (dm_tick s) \<and> t = s\<lparr>dm_tick := dm_tick s + 1\<rparr>"
  by (auto simp: ask_def)

lemma now_ms_keeps: "now_ms E s = (r, t) \<Longrightarrow> dm_state_directory t = dm_state_directory s"
  using obeysD [OF quiet.keep_now_ms] by (auto simp: quiet_def grows_def)

lemma authorize_sandbox_plan:
  assumes "authorize_sandbox E r revision command workspace scratch s = (Inr p, t)"
    and "op_action r = operation_action.Shell command"
  shows "plan_for E (dm_state_directory s) r (as_plan (ps_authorized p))
    \<and> cl_operation_id (ecl_lease (ps_lease p)) = op_operation_id r"
proof -
  obtain files profile lease_id issued launcher authorization where
    made: "compile_authorized_execution_plan (de_contexts E)
      (authorization_request E r revision command workspace scratch profile lease_id issued)
      default_context_inputs (if isolated_operation r then lima_compile (de_sandbox E) else de_launcher E launcher)
      = Inr authorization"
    and profile: "profile = operation_sandbox_profile (isolated_operation r)
      (operation_sandbox_rules files (op_risk r) workspace (dm_state_directory s) scratch)"
    and enforced: "enforced_plan (aep_sandbox authorization)" and p: "p = prepared_of authorization scratch"
    using assms(1) unfolding authorize_sandbox_def
    by (auto simp: succeeds ask_Inr Let_def result_simps dest!: now_ms_keeps)
  let ?request = "authorization_request E r revision command workspace scratch profile lease_id issued"
  let ?launcher = "if isolated_operation r then lima_compile (de_sandbox E) else de_launcher E launcher"
  from authorized_launch [OF made] obtain c pr where
    c: "canonicalize_terminal_command (ear_command ?request) = Inr c"
    and pr: "rec_requested_sandbox (aep_context authorization) = Some pr"
    and run: "?launcher \<lparr>scr_operation_id = ear_operation_id ?request,
         scr_operation_revision = ear_operation_revision ?request, scr_actor = ear_actor ?request,
         scr_command = c\<lparr>tc_env := rep_variables (rec_environment (aep_context authorization))\<rparr>,
         scr_profile = pr\<rparr> = Inr (aep_sandbox authorization)"
    by blast
  let ?asked = "\<lparr>scr_operation_id = ear_operation_id ?request,
     scr_operation_revision = ear_operation_revision ?request, scr_actor = ear_actor ?request,
     scr_command = c\<lparr>tc_env := rep_variables (rec_environment (aep_context authorization))\<rparr>,
     scr_profile = pr\<rparr>"
  from authorized_plan_parts [OF made] have
    context_of: "compile_execution_context (de_contexts E) (ear_context ?request) default_context_inputs =
      Inr (aep_context authorization, aep_context_receipt authorization)"
    and lease: "cl_operation_id (ecl_lease (aep_capability_lease authorization)) = op_operation_id r"
    by (simp_all add: authorization_request_def Let_def)
  have "ecs_sandbox (ear_context ?request) = Some profile"
    by (simp add: authorization_request_def operation_execution_context_spec_def Let_def)
  from requested_sandbox [OF context_of pr this] obtain env where
    env: "canonicalize_sandbox_profile (profile\<lparr>sp_environment := env\<rparr>) = Inr pr" ..
  have same: "normalize_absolute_path (tc_program command) = Inr (tc_program c)" "tc_args c = tc_args command"
    using c by (auto simp: canonicalize_terminal_command_def authorization_request_def Let_def result_simps
        split: if_splits option.splits)
  have member: "?launcher \<in> insert (lima_compile (de_sandbox E)) (range (de_launcher E))" by simp
  have "plan_for E (dm_state_directory s) r (aep_sandbox authorization)"
    unfolding plan_for_def
    by (rule exI [of _ command], rule exI [of _ ?launcher], rule exI [of _ ?asked], rule exI [of _ files],
        rule exI [of _ workspace], rule exI [of _ scratch], rule exI [of _ env],
        use assms(2) run member enforced env same in \<open>simp add: profile authorization_request_def Let_def\<close>)
  then show ?thesis using lease by (simp add: p prepared_of_def Let_def)
qed

lemma prepared_plan:
  assumes "prepare_authorized_sandbox E r revision s = (Inr p, t)"
  shows "plan_for E (dm_state_directory s) r (as_plan (ps_authorized p))
    \<and> cl_operation_id (ecl_lease (ps_lease p)) = op_operation_id r"
proof -
  obtain command where command: "op_action r = operation_action.Shell command"
    using assms by (auto simp: prepare_authorized_sandbox_def succeeds split: operation_action.splits)
  from assms obtain u workspace scratch where
    "authorize_sandbox E r revision command workspace scratch u = (Inr p, t)"
    and "dm_state_directory u = dm_state_directory s"
    by (auto simp: prepare_authorized_sandbox_def command succeeds ask_Inr Let_def)
  with authorize_sandbox_plan [OF _ command] show ?thesis by fastforce
qed

section \<open>The invariant\<close>

definition user_allowed :: "operation_id \<Rightarrow> event_envelope list \<Rightarrow> bool" where
  "user_allowed oid es \<longleftrightarrow> (\<exists>e \<in> set es. ev_operation_id e = Some oid
     \<and> (\<exists>revision decision. ev_payload e = PermissionDecided revision decision actor.User \<and> allows decision))"

definition granted :: "daemon_env \<Rightarrow> daemon_state \<Rightarrow> operation_id \<Rightarrow> sandbox_launch_plan \<Rightarrow> bool" where
  "granted E s oid plan \<longleftrightarrow> user_allowed oid (journal_events s)
     \<and> (\<exists>r. operations_of s oid = Some r \<and> plan_for E (dm_state_directory s) r plan)"

definition started :: "daemon_state \<Rightarrow> operation_id \<Rightarrow> bool" where
  "started s oid \<longleftrightarrow> (\<exists>r. operations_of s oid = Some r \<and> 4 \<le> state_rank (op_state r))"

definition process_ok :: "daemon_env \<Rightarrow> daemon_state \<Rightarrow> operation_id option \<times> command_builder \<Rightarrow> bool" where
  "process_ok E s p \<longleftrightarrow> (\<exists>oid plan dims. fst p = Some oid \<and> granted E s oid plan
     \<and> spawn_sandboxed plan dims = Inr (snd p) \<and> started s oid)"

definition daemon_inv :: "daemon_env \<Rightarrow> daemon_state \<Rightarrow> bool" where
  "daemon_inv E s \<longleftrightarrow> reducer_inv (operations_of s)
     \<and> (\<forall>oid a. dm_authorized_sandboxes s oid = Some a \<longrightarrow> granted E s oid (as_plan a))
     \<and> list_all (process_ok E s) (operation_processes s)
     \<and> distinct (map fst (operation_processes s))"

lemma user_allowed_append: "user_allowed oid es \<Longrightarrow> user_allowed oid (es @ fs)"
  by (auto simp: user_allowed_def)

lemma granted_quiet: "granted E s oid plan \<Longrightarrow> grows s t \<Longrightarrow> granted E t oid plan"
  unfolding granted_def grows_def operations_later_def
  by (metis plan_for_identity user_allowed_append)

lemma started_quiet: "started s oid \<Longrightarrow> grows s t \<Longrightarrow> started t oid"
  unfolding started_def grows_def operations_later_def by (metis order_trans)

lemma process_ok_quiet: "process_ok E s p \<Longrightarrow> grows s t \<Longrightarrow> process_ok E t p"
  unfolding process_ok_def by (metis granted_quiet started_quiet)

lemma daemon_inv_quiet:
  assumes "daemon_inv E s" and "quiet s t"
  shows "daemon_inv E t"
proof -
  from assms(2) have g: "grows s t" and sub: "dm_authorized_sandboxes t \<subseteq>\<^sub>m dm_authorized_sandboxes s"
    and same: "operation_processes t = operation_processes s"
    by (simp_all add: quiet_def)
  have "granted E t oid (as_plan a)" if "dm_authorized_sandboxes t oid = Some a" for oid a
  proof -
    from sub that have "dm_authorized_sandboxes s oid = Some a" by (force simp: map_le_def)
    with assms(1) granted_quiet [OF _ g] show ?thesis by (simp add: daemon_inv_def)
  qed
  moreover have "reducer_inv (operations_of t)"
    using g assms(1) by (simp add: grows_def daemon_inv_def)
  moreover have "list_all (process_ok E t) (operation_processes t)"
    using assms(1) process_ok_quiet [OF _ g] by (auto simp: daemon_inv_def same list_all_iff)
  ultimately show ?thesis using assms(1) by (simp add: daemon_inv_def same)
qed

text \<open>An assertion that quiet steps keep.\<close>

definition steady :: "(daemon_state \<Rightarrow> bool) \<Rightarrow> bool" where
  "steady P \<longleftrightarrow> (\<forall>s t. P s \<longrightarrow> quiet s t \<longrightarrow> P t)"

lemma triple_quiet: "obeys quiet m \<Longrightarrow> steady P \<Longrightarrow> triple P m (\<lambda>_. P) (\<lambda>_. P)"
  by (rule triple_obeys [of quiet]) (auto simp: steady_def)

lemma triple_quiet_post:
  "obeys quiet m \<Longrightarrow> steady P \<Longrightarrow> (\<And>s. P s \<Longrightarrow> I s) \<Longrightarrow> triple P m (\<lambda>_. P) (\<lambda>_. I)"
  by (rule triple_post [OF triple_quiet])

lemma triple_quiet_last:
  "obeys quiet m \<Longrightarrow> steady P \<Longrightarrow> (\<And>s. P s \<Longrightarrow> I s) \<Longrightarrow> triple P m (\<lambda>_. I) (\<lambda>_. I)"
  by (rule triple_post [OF triple_quiet])

lemma triple_on_error:
  assumes "triple P m Q E'" and "\<And>e. triple (E' e) (h e) (\<lambda>_. I) (\<lambda>_. I)"
  shows "triple P (on_error_step m h) Q (\<lambda>_. I)"
  unfolding on_error_step_def
proof (rule triple_bind)
  show "triple P (attempt_step m) (\<lambda>r. case r of Inl e \<Rightarrow> E' e | Inr a \<Rightarrow> Q a) (\<lambda>_. I)"
    by (rule triple_attempt) (simp add: assms(1))
  show "triple (case r of Inl e \<Rightarrow> E' e | Inr a \<Rightarrow> Q a)
      (case r of Inl e \<Rightarrow> then_step (h e) (fail_step e) | Inr a \<Rightarrow> return_step a) Q (\<lambda>_. I)" for r
  proof (cases r)
    case (Inl e)
    have "triple (E' e) (then_step (h e) (fail_step e)) Q (\<lambda>_. I)"
      by (rule triple_then [OF triple_fail assms(2)])
    then show ?thesis by (simp add: Inl)
  qed (simp add: triple_return)
qed

lemma steady_inv: "steady (daemon_inv E)"
  by (auto simp: steady_def intro: daemon_inv_quiet)

lemma steady_conj: "steady P \<Longrightarrow> steady Q \<Longrightarrow> steady (\<lambda>s. P s \<and> Q s)"
  by (auto simp: steady_def)

lemma steady_grows: "(\<And>s t. P s \<Longrightarrow> grows s t \<Longrightarrow> P t) \<Longrightarrow> steady P"
  by (auto simp: steady_def quiet_def)

section \<open>The decision\<close>

lemma record_event_logged:
  assumes "record_event E event s = (Inr (), t)"
  shows "\<exists>e b patch. record_authority (de_events E) (de_uuids E) (record_input_of E (dm_tick s)) event (dm_authority s)
      = (Inr (e, patch), b) \<and> dm_authority t = b"
  using assms
  by (auto simp: record_event_def succeeds ask_Inr in_authority_def broadcast_def broadcast_block_patch_def
      split: prod.splits)

lemma record_operation_event_parts:
  assumes "record_event E (operation_event tid oid payload) s = (Inr (), t)"
  shows "\<exists>e. e \<in> set (journal_events t) \<and> ev_operation_id e = Some oid \<and> ev_payload e = payload
    \<and> apply_operation (operations_of s) e = Inr (operations_of t)"
proof -
  from record_event_logged [OF assms] obtain e b patch where
    ok: "record_authority (de_events E) (de_uuids E) (record_input_of E (dm_tick s))
      (operation_event tid oid payload) (dm_authority s) = (Inr (e, patch), b)" and b: "dm_authority t = b"
    by blast
  have "ev_operation_id e = Some oid \<and> ev_payload e = payload"
    using prepare_fields [OF record_authority_ok(2) [OF ok]] by (simp add: operation_event_def task_event_def)
  moreover have "e \<in> set (jl_events (au_journal b))"
    using append_envelope_ok(3) [OF record_authority_ok(4) [OF ok]] by simp
  moreover have "apply_operation (operations_of s) e = Inr (au_operations b)"
    using record_authority_ok(3) [OF ok] by (auto simp: apply_event_def result_simps Let_def)
  ultimately show ?thesis using b by blast
qed

lemma find_operation_Inr: "find_operation oid s = (Inr r, t) \<longleftrightarrow> operations_of s oid = Some r \<and> t = s"
  by (auto simp: find_operation_def succeeds result_simps)

lemma state_changed_to:
  "apply_operation m e = Inr m' \<Longrightarrow> ev_payload e = OperationStateChanged revision from to actor reason \<Longrightarrow>
     ev_operation_id e = Some oid \<Longrightarrow> m' oid = Some r \<Longrightarrow> op_state r = to"
  by (auto simp: apply_operation_defs result_simps split: if_splits)

lemma transition_state:
  assumes "transition E tid oid revision to actor reason s = (Inr r, t)"
  shows "operations_of t oid = Some r \<and> op_state r = to"
proof -
  obtain r0 :: operation_record where "record_event E (operation_event tid oid
      (OperationStateChanged (revision + 1) (op_state r0) to actor reason)) s = (Inr (), t)"
    and r: "operations_of t oid = Some r"
    using assms by (auto simp: transition_def succeeds find_operation_Inr)
  from record_operation_event_parts [OF this(1)] r state_changed_to show ?thesis by blast
qed

text \<open>The operation that is decided is the one that was found, and it was found as its key says.\<close>

definition known :: "daemon_env \<Rightarrow> operation_id \<Rightarrow> operation_record \<Rightarrow> daemon_state \<Rightarrow> bool" where
  "known E oid r s \<longleftrightarrow> daemon_inv E s \<and> op_operation_id r = oid
     \<and> (\<exists>r'. operations_of s oid = Some r' \<and> same_identity r r')"

definition decided_with ::
    "daemon_env \<Rightarrow> operation_id \<Rightarrow> operation_record \<Rightarrow> prepared_sandbox \<Rightarrow> daemon_state \<Rightarrow> bool" where
  "decided_with E oid r p s \<longleftrightarrow> known E oid r s
     \<and> plan_for E (dm_state_directory s) r (as_plan (ps_authorized p))
     \<and> cl_operation_id (ecl_lease (ps_lease p)) = oid"

lemma steady_known: "steady (known E oid r)"
  unfolding steady_def
proof (intro allI impI)
  fix s t assume known: "known E oid r s" and quiet: "quiet s t"
  from known obtain r' where "operations_of s oid = Some r'" and same: "same_identity r r'"
    by (auto simp: known_def)
  with quiet obtain r'' where "operations_of t oid = Some r''" "same_identity r' r''"
    unfolding quiet_def grows_def operations_later_def by blast
  with known same_identity_trans [OF same] daemon_inv_quiet [OF _ quiet] show "known E oid r t"
    by (simp add: known_def)
qed

lemma steady_decided_with: "steady (decided_with E oid r p)"
  using steady_known [of E oid r] by (auto simp: decided_with_def steady_def quiet_def grows_def)

lemma steady_user_allowed: "steady (\<lambda>s. user_allowed oid (journal_events s))"
  by (auto simp: steady_def quiet_def grows_def user_allowed_append)

lemma decided_granted:
  "decided_with E oid r p s \<Longrightarrow> user_allowed oid (journal_events s) \<Longrightarrow> granted E s oid (as_plan (ps_authorized p))"
  by (auto simp: decided_with_def known_def granted_def intro: plan_for_identity)

lemma store_authorized_inv:
  "triple (\<lambda>s. decided_with E oid r p s \<and> user_allowed oid (journal_events s))
     (store_authorized oid (ps_authorized p)) (\<lambda>_. daemon_inv E) (\<lambda>_. daemon_inv E)"
proof (rule tripleI)
  fix s a t
  assume pre: "decided_with E oid r p s \<and> user_allowed oid (journal_events s)"
    and run: "store_authorized oid (ps_authorized p) s = (Inr a, t)"
  then have t: "t = s\<lparr>dm_authorized_sandboxes := (dm_authorized_sandboxes s)(oid \<mapsto> ps_authorized p)\<rparr>"
    by (auto simp: store_authorized_def succeeds)
  have "daemon_inv E s" using pre by (simp add: decided_with_def known_def)
  with decided_granted [of E oid r p s] pre show "daemon_inv E t"
    by (simp add: t daemon_inv_def granted_def process_ok_def started_def operation_processes_def list_all_iff)
next
  fix s e t
  assume "decided_with E oid r p s \<and> user_allowed oid (journal_events s)"
    and "store_authorized oid (ps_authorized p) s = (Inl e, t)"
  then show "daemon_inv E t"
    by (auto simp: store_authorized_def bind_step_def then_step_def step_runs guard_step_def
        decided_with_def known_def split: if_splits)
qed

lemma activate_inv:
  "triple (\<lambda>s. decided_with E oid r p s \<and> user_allowed oid (journal_events s))
     (activate_authorized_sandbox E tid revision p) (\<lambda>_. daemon_inv E) (\<lambda>_. daemon_inv E)"
proof -
  let ?P = "\<lambda>s. decided_with E oid r p s \<and> user_allowed oid (journal_events s)"
  let ?rec = "\<lambda>payload. record_event E (operation_event tid oid payload)"
  have steady: "steady ?P" by (intro steady_conj steady_decided_with steady_user_allowed)
  have I: "\<And>s. ?P s \<Longrightarrow> daemon_inv E s" by (simp add: decided_with_def known_def)
  note quiet = triple_quiet_post [OF _ steady I]
  have "triple ?P (then_step (?rec a) (then_step (?rec b) (then_step (?rec c)
      (then_step (issue_prepared (ps_lease p)) (store_authorized oid (ps_authorized p))))))
      (\<lambda>_. daemon_inv E) (\<lambda>_. daemon_inv E)" for a b c
    by (intro triple_then [OF _ quiet] quiet.keep_record quiet.keep_issue store_authorized_inv)
  then have "triple ?P (on_error_step (then_step (?rec a) (then_step (?rec b) (then_step (?rec c)
      (then_step (issue_prepared (ps_lease p)) (store_authorized oid (ps_authorized p))))))
      (\<lambda>_. cleanup_scratch_directory path)) (\<lambda>_. daemon_inv E) (\<lambda>_. daemon_inv E)" for a b c path
    by (rule triple_on_error) (rule triple_quiet [OF quiet.keep_cleanup steady_inv])
  then show ?thesis
    unfolding activate_authorized_sandbox_def Let_def
    by (auto simp: triple_def decided_with_def)
qed

text \<open>The prefix of the decision: what is found is known, and the decision itself is in the journal.\<close>

lemma triple_lift_same: "triple P (lift_step r) (\<lambda>_. P) (\<lambda>_. P)"
  by (rule triple_pre [OF triple_lift]) simp

lemma triple_guard_same: "(\<And>s. P s \<Longrightarrow> I s) \<Longrightarrow> triple P (guard_step b e) (\<lambda>_ s. P s \<and> b) (\<lambda>_. I)"
  by (rule triple_pre [OF triple_guard]) auto

lemma find_known:
  "triple (daemon_inv E) (find_operation oid) (\<lambda>r s. known E oid r s \<and> operations_of s oid = Some r) (\<lambda>_. daemon_inv E)"
proof (rule tripleI)
  fix s r t
  assume "daemon_inv E s" and "find_operation oid s = (Inr r, t)"
  then show "known E oid r t \<and> operations_of t oid = Some r"
    by (auto simp: find_operation_Inr known_def daemon_inv_def reducer_inv_def same_identity_def)
next
  fix s e t
  assume "daemon_inv E s" and "find_operation oid s = (Inl e, t)"
  then show "daemon_inv E t" using daemon_inv_quiet [OF _ obeysD [OF quiet.keep_find_operation]] by blast
qed

lemma record_decision:
  assumes "steady P" and "\<And>s. P s \<Longrightarrow> daemon_inv E s"
  shows "triple P (record_event E (operation_event tid oid (PermissionDecided revision decision actor.User)))
     (\<lambda>_ s. P s \<and> (allows decision \<longrightarrow> user_allowed oid (journal_events s))) (\<lambda>_. daemon_inv E)"
proof (rule tripleI)
  fix s a t
  assume P: "P s" and run: "record_event E (operation_event tid oid (PermissionDecided revision decision actor.User)) s
    = (Inr a, t)"
  have "P t" using P assms(1) obeysD [OF quiet.keep_record run] by (auto simp: steady_def)
  moreover have "allows decision \<longrightarrow> user_allowed oid (journal_events t)"
    using record_operation_event_parts [of E tid oid "PermissionDecided revision decision actor.User" s t] run
    by (simp add: user_allowed_def) blast
  ultimately show "P t \<and> (allows decision \<longrightarrow> user_allowed oid (journal_events t))" ..
next
  fix s e t
  assume P: "P s" and run: "record_event E (operation_event tid oid (PermissionDecided revision decision actor.User)) s
    = (Inl e, t)"
  then show "daemon_inv E t" using assms daemon_inv_quiet [OF _ obeysD [OF quiet.keep_record run]] by blast
qed

definition decided_if ::
    "daemon_env \<Rightarrow> operation_id \<Rightarrow> operation_record \<Rightarrow> permission_decision \<Rightarrow> prepared_sandbox option \<Rightarrow> daemon_state \<Rightarrow> bool" where
  "decided_if E oid r decision prepared s \<longleftrightarrow> known E oid r s
     \<and> (case prepared of None \<Rightarrow> True | Some p \<Rightarrow> allows decision \<and> decided_with E oid r p s)"

lemma steady_decided_if: "steady (decided_if E oid r decision prepared)"
  using steady_known [of E oid r] steady_decided_with [of E oid r]
  by (auto simp: decided_if_def steady_def split: option.splits)

lemma decided_if_inv: "decided_if E oid r decision prepared s \<Longrightarrow> daemon_inv E s"
  by (simp add: decided_if_def known_def)

lemma prepare_decided:
  "triple (known E oid r) (if allows decision \<and> is_shell (op_action r)
       then bind_step (prepare_authorized_sandbox E r revision) (\<lambda>p. return_step (Some p)) else return_step None)
     (\<lambda>p. decided_if E oid r decision p) (\<lambda>_. daemon_inv E)"
proof (cases "allows decision \<and> is_shell (op_action r)")
  case True
  have "triple (known E oid r) (bind_step (prepare_authorized_sandbox E r revision) (\<lambda>p. return_step (Some p)))
     (\<lambda>p. decided_if E oid r decision p) (\<lambda>_. daemon_inv E)"
  proof (rule triple_bind [OF triple_return], rule tripleI)
    fix s p t
    assume pre: "known E oid r s" and run: "prepare_authorized_sandbox E r revision s = (Inr p, t)"
    have q: "quiet s t" using obeysD [OF quiet.keep_prepare run] .
    with pre steady_known [of E oid r] have "known E oid r t" by (auto simp: steady_def)
    moreover have "dm_state_directory t = dm_state_directory s" using q by (simp add: quiet_def grows_def)
    ultimately show "decided_if E oid r decision (Some p) t"
      using prepared_plan [OF run] True by (simp add: decided_if_def decided_with_def known_def)
  next
    fix s e t
    assume "known E oid r s" and run: "prepare_authorized_sandbox E r revision s = (Inl e, t)"
    then show "daemon_inv E t" using daemon_inv_quiet [OF _ obeysD [OF quiet.keep_prepare run]] by (simp add: known_def)
  qed
  then show ?thesis using True by simp
next
  case False
  have "triple (known E oid r) (return_step None) (\<lambda>p. decided_if E oid r decision p) (\<lambda>_. daemon_inv E)"
    by (rule triple_pre [OF triple_return]) (simp add: decided_if_def)
  then show ?thesis by (simp only: if_not_P [OF False])
qed

lemma decide_inv: "triple (daemon_inv E) (decide_permission E tid oid revision decision)
    (\<lambda>_. daemon_inv E) (\<lambda>_. daemon_inv E)"
  unfolding decide_permission_def
proof (rule triple_bind [OF _ triple_post [OF find_known]])
  fix r
  let ?K = "known E oid r"
  let ?D = "decided_if E oid r decision"
  let ?A = "\<lambda>p s. ?D p s \<and> (allows decision \<longrightarrow> user_allowed oid (journal_events s))"
  have KI: "\<And>s. ?K s \<Longrightarrow> daemon_inv E s" by (simp add: known_def)
  have steadyA: "steady (?A p)" for p
    using steady_decided_if [of E oid r decision p] steady_user_allowed [of oid] by (auto simp: steady_def)
  have AI: "\<And>s. ?A p s \<Longrightarrow> daemon_inv E s" for p by (auto dest: decided_if_inv)
  have activate: "triple (?A p) (case p of None \<Rightarrow> return_step ()
      | Some prepared \<Rightarrow> activate_authorized_sandbox E tid rv prepared) (\<lambda>_. daemon_inv E) (\<lambda>_. daemon_inv E)" for p rv
  proof (cases p)
    case None
    have "triple (?A None) (return_step ()) (\<lambda>_. daemon_inv E) (\<lambda>_. daemon_inv E)"
      by (rule triple_pre [OF triple_return]) (auto dest: decided_if_inv)
    then show ?thesis by (simp add: None)
  next
    case (Some q)
    have "triple (?A (Some q)) (activate_authorized_sandbox E tid rv q) (\<lambda>_. daemon_inv E) (\<lambda>_. daemon_inv E)"
      by (rule triple_pre [OF activate_inv [of E oid r]]) (auto simp: decided_if_def)
    then show ?thesis by (simp add: Some)
  qed
  show "triple ?K (then_step (lift_step (validate_operation_scope r tid revision))
     (then_step (guard_step (op_state r = WaitingHuman) (OperationNotWaiting (op_state r)))
     (bind_step (if allows decision \<and> is_shell (op_action r)
         then bind_step (prepare_authorized_sandbox E r (revision + 1)) (\<lambda>p. return_step (Some p))
         else return_step None) (\<lambda>prepared_sandbox.
      then_step (record_event E (operation_event tid oid (PermissionDecided revision decision actor.User)))
      (bind_step (transition E tid oid revision
          (if allows decision then Authorized else operation_state.Cancelled) actor.User
          (Some (''permission decision: '' @ decision_text decision))) (\<lambda>updated.
       then_step (case prepared_sandbox of
           None \<Rightarrow> return_step ()
         | Some prepared \<Rightarrow> activate_authorized_sandbox E tid (op_revision updated) prepared)
         (find_operation oid))))))) (\<lambda>_. daemon_inv E) (\<lambda>_. daemon_inv E)"
    by (intro triple_then [OF _ triple_quiet_post [OF quiet.obeys_pure(3) steady_known KI]]
        triple_then [OF _ triple_quiet_post [OF quiet.obeys_pure(5) steady_known KI]]
        triple_bind [OF _ prepare_decided] triple_then [OF _ record_decision [OF steady_decided_if decided_if_inv]]
        triple_bind [OF _ triple_quiet_post [OF quiet.keep_transition steadyA AI]]
        triple_then [OF triple_quiet [OF quiet.keep_find_operation steady_inv] activate])
qed auto

lemma decide_bound_inv: "triple (daemon_inv E) (decide_permission_bound E tid oid revision digest decision)
    (\<lambda>_. daemon_inv E) (\<lambda>_. daemon_inv E)"
  unfolding decide_permission_bound_def
  by (intro triple_bind [OF _ triple_quiet [OF quiet.keep_find_operation steady_inv]]
      triple_then [OF _ triple_quiet [OF quiet.obeys_pure(3) steady_inv]]
      triple_bind [OF _ triple_quiet [OF quiet.obeys_pure(3) steady_inv]]
      triple_then [OF decide_inv triple_quiet [OF quiet.obeys_pure(5) steady_inv]])

section \<open>The dispatch\<close>

text \<open>A plan whose authorization was taken, for an operation that has no process yet.\<close>

definition ready :: "daemon_env \<Rightarrow> operation_id \<Rightarrow> authorized_sandbox \<Rightarrow> daemon_state \<Rightarrow> bool" where
  "ready E oid authorized s \<longleftrightarrow> daemon_inv E s \<and> granted E s oid (as_plan authorized)
     \<and> Some oid \<notin> fst ` set (operation_processes s)"

lemma steady_ready: "steady (ready E oid authorized)"
  using steady_inv [of E] granted_quiet [of E _ oid "as_plan authorized"]
  by (auto simp: ready_def steady_def quiet_def)

lemma steady_started: "steady (\<lambda>s. started s oid)"
  by (rule steady_grows) (rule started_quiet)

lemma ready_inv: "ready E oid authorized s \<Longrightarrow> daemon_inv E s"
  by (simp add: ready_def)

lemma no_process_before_dispatch:
  assumes "daemon_inv E s" and "operations_of s oid = Some r" and "op_state r = Authorized"
  shows "Some oid \<notin> fst ` set (operation_processes s)"
proof
  assume "Some oid \<in> fst ` set (operation_processes s)"
  then obtain p where "p \<in> set (operation_processes s)" "fst p = Some oid" by auto
  with assms(1) have "started s oid" by (auto simp: daemon_inv_def list_all_iff process_ok_def)
  with assms(2,3) show False by (simp add: started_def)
qed

lemma consume_ready:
  "triple (\<lambda>s. daemon_inv E s \<and> operations_of s oid = Some r \<and> op_state r = Authorized)
     (consume_authorized_sandbox E r) (\<lambda>authorized. ready E oid authorized) (\<lambda>_. daemon_inv E)"
proof (rule tripleI)
  fix s authorized t
  assume pre: "daemon_inv E s \<and> operations_of s oid = Some r \<and> op_state r = Authorized"
    and run: "consume_authorized_sandbox E r s = (Inr authorized, t)"
  have q: "quiet s t" using obeysD [OF quiet.keep_consume run] .
  have "op_operation_id r = oid" using pre by (simp add: daemon_inv_def reducer_inv_def)
  with run have "dm_authorized_sandboxes s oid = Some authorized"
    by (auto simp: consume_authorized_sandbox_def succeeds result_simps split: option.splits prod.splits)
  with pre have "granted E s oid (as_plan authorized)" by (simp add: daemon_inv_def)
  with q have "granted E t oid (as_plan authorized)" by (auto simp: quiet_def intro: granted_quiet)
  moreover have "Some oid \<notin> fst ` set (operation_processes t)"
    using no_process_before_dispatch [of E s oid r] pre q by (simp add: quiet_def)
  ultimately show "ready E oid authorized t" using daemon_inv_quiet [OF _ q] pre by (simp add: ready_def)
next
  fix s e t
  assume "daemon_inv E s \<and> operations_of s oid = Some r \<and> op_state r = Authorized"
    and run: "consume_authorized_sandbox E r s = (Inl e, t)"
  then show "daemon_inv E t" using daemon_inv_quiet [OF _ obeysD [OF quiet.keep_consume run]] by blast
qed

lemma transition_started:
  assumes "steady P" and "\<And>s. P s \<Longrightarrow> I s" and "4 \<le> state_rank to"
  shows "triple P (transition E tid oid revision to actor reason) (\<lambda>_ s. P s \<and> started s oid) (\<lambda>_. P)"
proof (rule tripleI)
  fix s r t
  assume "P s" and run: "transition E tid oid revision to actor reason s = (Inr r, t)"
  with assms(1) obeysD [OF quiet.keep_transition run] have "P t" by (auto simp: steady_def)
  with transition_state [OF run] assms(3) show "P t \<and> started t oid" by (simp add: started_def)
next
  fix s e t
  assume "P s" and run: "transition E tid oid revision to actor reason s = (Inl e, t)"
  with assms(1) obeysD [OF quiet.keep_transition run] show "P t" by (auto simp: steady_def)
qed

lemma start_session_inv:
  "triple (\<lambda>s. ready E oid authorized s \<and> started s oid)
     (start_session E (Some oid) (spawn_sandboxed (as_plan authorized) dims)) (\<lambda>_. daemon_inv E) (\<lambda>_. daemon_inv E)"
proof (cases "spawn_sandboxed (as_plan authorized) dims")
  case (Inl e)
  then show ?thesis by (simp add: triple_def start_session_def step_simps ready_def)
next
  case (Inr builder)
  let ?P = "\<lambda>s. ready E oid authorized s \<and> started s oid"
  have P: "steady ?P" by (intro steady_conj steady_ready steady_started)
  have PI: "\<And>s. ?P s \<Longrightarrow> daemon_inv E s" by (simp add: ready_def)
  have add: "triple ?P (update_step (\<lambda>s. s\<lparr>dm_processes := dm_processes s @ [(Some oid, builder)]\<rparr>))
      (\<lambda>_. daemon_inv E) (\<lambda>_. daemon_inv E)"
  proof (rule triple_pre [OF triple_update])
    fix s
    assume pre: "?P s"
    let ?t = "s\<lparr>dm_processes := dm_processes s @ [(Some oid, builder)]\<rparr>"
    have "process_ok E s (Some oid, builder)" using pre Inr by (auto simp: process_ok_def ready_def)
    moreover have "operation_processes ?t = operation_processes s @ [(Some oid, builder)]"
      by (simp add: operation_processes_def)
    moreover have "process_ok E ?t = process_ok E s" "granted E ?t = granted E s"
      by (simp_all add: process_ok_def granted_def started_def fun_eq_iff)
    ultimately show "daemon_inv E ?t" using pre by (simp add: daemon_inv_def ready_def)
  qed
  have "triple ?P (start_session E (Some oid) (Inr builder)) (\<lambda>_. daemon_inv E) (\<lambda>_. daemon_inv E)"
    unfolding start_session_def bind_step_simps
    by (intro triple_bind [OF _ triple_quiet_post [OF quiet.keep_ask P PI]]
        triple_bind [OF _ triple_quiet_post [OF quiet.obeys_pure(3) P PI]])
      (auto intro!: triple_then [OF _ triple_quiet_post [OF quiet.keep_sets(3) P PI]]
        triple_then [OF triple_quiet [OF quiet.obeys_pure(1) steady_inv] add] split: prod.split)
  then show ?thesis by (simp add: Inr)
qed

lemma start_authorized_inv:
  "triple (\<lambda>s. ready E oid authorized s \<and> started s oid)
     (start_authorized E tid oid revision authorized started_at dims) (\<lambda>_. daemon_inv E) (\<lambda>_. daemon_inv E)"
  unfolding start_authorized_def
proof (rule triple_bind)
  show "triple (\<lambda>s. ready E oid authorized s \<and> started s oid)
     (attempt_step (start_session E (Some oid) (spawn_sandboxed (as_plan authorized) dims)))
     (\<lambda>_. daemon_inv E) (\<lambda>_. daemon_inv E)"
    by (rule triple_attempt) (rule start_session_inv)
  show "triple (daemon_inv E) (case r of
       Inl error \<Rightarrow>
         then_step (abandon_dispatch E tid oid revision authorized started_at Denied
             (''PTY spawn failed: '' @ de_terminal_text E error))
           (fail_step (DaemonTerminal error))
     | Inr terminal \<Rightarrow> return_step terminal) (\<lambda>_. daemon_inv E) (\<lambda>_. daemon_inv E)" for r
    by (intro triple_quiet steady_inv obeys_cases quiet.keep_more)
qed

text \<open>A check that leaves the state alone.\<close>

lemma triple_check:
  assumes "obeys (=) m" and "\<And>s. P s \<Longrightarrow> I s" and "\<And>a s t. m s = (Inr a, t) \<Longrightarrow> c" and "\<And>a. c \<Longrightarrow> triple P (k a) Q (\<lambda>_. I)"
  shows "triple P (bind_step m k) Q (\<lambda>_. I)"
proof (rule triple_bind)
  show "triple P m (\<lambda>_ s. P s \<and> c) (\<lambda>_. I)"
    using assms(1-3) by (intro tripleI) (auto dest: obeysD)
  show "triple (\<lambda>s. P s \<and> c) (k a) Q (\<lambda>_. I)" for a
    using assms(4) by (cases c) (auto simp: triple_def)
qed

interpretation unchanged: step_preorder "(=)"
  by unfold_locales auto

lemma dispatch_inv: "triple (daemon_inv E) (dispatch_terminal E tid oid revision dims)
    (\<lambda>_. daemon_inv E) (\<lambda>_. daemon_inv E)"
proof -
  let ?I = "\<lambda>_. daemon_inv E"
  let ?F = "\<lambda>r s. daemon_inv E s \<and> operations_of s oid = Some r"
  have run: "triple (\<lambda>s. ready E oid authorized s \<and> started s oid)
      (bind_step (start_authorized E tid oid rv authorized at dims) k) ?I ?I"
    if "\<And>t. obeys quiet (k t)" for authorized rv at k
    by (rule triple_bind [OF triple_quiet [OF that steady_inv] start_authorized_inv])
  have move: "triple (ready E oid authorized) (then_step (on_error_step (transition E tid oid revision Dispatching
      actor.System reason) (\<lambda>_. cleanup_scratch_directory path)) m) ?I ?I"
    if "triple (\<lambda>s. ready E oid authorized s \<and> started s oid) m ?I ?I" for authorized reason path m
    by (rule triple_then [OF that triple_on_error [OF transition_started [OF steady_ready ready_inv]]])
      (auto intro: triple_quiet_last [OF quiet.keep_cleanup steady_ready ready_inv])
  have clock: "triple (ready E oid authorized) (bind_step (now_ms E) k) ?I ?I"
    if "\<And>at. triple (ready E oid authorized) (k at) ?I ?I" for authorized k
    by (rule triple_bind [OF that triple_quiet_post [OF quiet.keep_now_ms steady_ready ready_inv]])
  have consume: "triple (?F r) (bind_step (consume_authorized_sandbox E r) k) ?I ?I"
    if "op_state r = Authorized" and "\<And>authorized. triple (ready E oid authorized) (k authorized) ?I ?I" for r k
    using that(1) by (intro triple_bind [OF that(2) triple_pre [OF consume_ready]]) auto
  have find: "triple (daemon_inv E) (find_operation oid) ?F ?I"
    by (rule triple_post [OF find_known]) (auto simp: known_def)
  note check = triple_check [OF unchanged.obeys_pure(3)] triple_check [OF unchanged.obeys_pure(5)]
  show ?thesis
    unfolding dispatch_terminal_def then_step_def [of "lift_step _"] then_step_def [of "guard_step _ _"]
    by (rule triple_bind [OF _ find], rule check(1) [where c = True], simp_all,
        rule_tac c = "op_state a = Authorized" in check(2), simp_all add: step_Inr, rule check(1) [where c = True],
        simp_all, rule check(2) [where c = True], simp_all, rule consume, simp_all, rule clock, rule move, rule run)
      (intro quiet.keep_more)
qed

section \<open>Runs\<close>

lemma triple_always: "triple P m (\<lambda>_. I) (\<lambda>_. I) \<Longrightarrow> P s \<Longrightarrow> m s = (r, t) \<Longrightarrow> I t"
  by (cases r) (auto dest: triple_Inr triple_Inl)

lemma daemon_inv_move:
  assumes "daemon_move E s t" and "daemon_inv E s"
  shows "daemon_inv E t"
  using quiet.keep_move [OF assms(1) quiet_acquire] assms(2)
  by (elim disjE exE) (blast intro: daemon_inv_quiet triple_always [OF decide_inv] triple_always [OF decide_bound_inv]
      triple_always [OF dispatch_inv])+

lemma daemon_inv_run: "(daemon_move E)\<^sup>*\<^sup>* s t \<Longrightarrow> daemon_inv E s \<Longrightarrow> daemon_inv E t"
  by (induction rule: rtranclp_induct) (auto intro: daemon_inv_move)

lemma load_events_reducer:
  "try_fold (load_event U read_artifact) (c, m, p) es = Inr (c', m', p') \<Longrightarrow> reducer_inv m \<Longrightarrow> finite (dom m) \<Longrightarrow>
     reducer_inv m' \<and> finite (dom m')"
proof (induction es arbitrary: c m p)
  case (Cons e es)
  then obtain c1 m1 p1 where step: "load_event U read_artifact (c, m, p) e = Inr (c1, m1, p1)"
    and rest: "try_fold (load_event U read_artifact) (c1, m1, p1) es = Inr (c', m', p')"
    by (auto simp: result_simps)
  from step have "apply_operation m e = Inr m1"
    by (auto simp: load_event_def apply_event_def Let_def result_simps)
  with Cons.prems(2,3) have "reducer_inv m1" "finite (dom m1)"
    by (blast intro: operation_step_inv operation_step_finite apply_operation_step)+
  with Cons.IH [OF rest] show ?case .
qed simp

lemma open_authority_reducer:
  "open_authority C U read_artifact io path file = Inr a \<Longrightarrow>
     reducer_inv (au_operations a) \<and> finite (dom (au_operations a))"
  using load_events_reducer [of U read_artifact "{}" Map.empty Map.empty] reducer_inv_empty
  by (auto simp: open_authority_def load_authority_def result_simps)

text \<open>What opens is quiet since its journal was read.\<close>

lemma open_daemon_quiet:
  assumes "open_daemon E prepared read_artifact recovered io dir scratch file = Inr s"
  shows "\<exists>a. reducer_inv (au_operations a) \<and> quiet (new_daemon a dir (path_push dir ''isolated-results'') scratch) s"
  using quiet.keep_open [OF assms] open_authority_reducer by blast

lemma open_daemon_inv:
  assumes "open_daemon E prepared read_artifact recovered io dir scratch file = Inr s"
  shows "daemon_inv E s"
proof -
  from open_daemon_quiet [OF assms] obtain a where a: "reducer_inv (au_operations a)"
    "quiet (new_daemon a dir (path_push dir ''isolated-results'') scratch) s" by blast
  then show ?thesis
    using daemon_inv_quiet [OF _ a(2)] by (simp add: daemon_inv_def new_daemon_def operation_processes_def)
qed

section \<open>Reconciliation\<close>

text \<open>An operation that was interrupted, and has been settled.\<close>

definition settled :: "operation_state \<Rightarrow> operation_record \<Rightarrow> operation_record" where
  "settled target r = r\<lparr>op_revision := op_revision r + 1, op_state := target\<rparr>"

lemma transition_settles:
  assumes "transition E tid oid revision to actor reason s = (Inr r', t)" and "operations_of s oid = Some r"
  shows "operations_of t = (operations_of s)(oid \<mapsto> settled to r)"
proof -
  have changed: "apply_operation m e = Inr m' \<Longrightarrow> ev_operation_id e = Some oid \<Longrightarrow> m oid = Some r \<Longrightarrow>
      ev_payload e = OperationStateChanged n before to actor reason \<Longrightarrow> m' = m(oid \<mapsto> settled to r)" for m m' e n before
    by (auto simp: apply_operation_defs settled_def result_simps split: if_splits)
  obtain r0 :: operation_record where "record_event E (operation_event tid oid
      (OperationStateChanged (revision + 1) (op_state r0) to actor reason)) s = (Inr (), t)"
    using assms(1) by (auto simp: transition_def succeeds find_operation_Inr)
  from record_operation_event_parts [OF this] changed assms(2) show ?thesis by blast
qed

lemma settle_each:
  assumes "each_step (\<lambda>r. then_step (transition E (op_task_id r) (op_operation_id r) (op_revision r) target
      actor.System reason) (return_step ())) rs s = (Inr (), t)"
    and "distinct (map op_operation_id rs)" and "\<forall>r \<in> set rs. operations_of s (op_operation_id r) = Some r"
  shows "(\<forall>oid. oid \<notin> op_operation_id ` set rs \<longrightarrow> operations_of t oid = operations_of s oid)
    \<and> (\<forall>r \<in> set rs. operations_of t (op_operation_id r) = Some (settled target r))"
  using assms
proof (induction rs arbitrary: s)
  case (Cons r rs)
  then obtain r' u where step: "transition E (op_task_id r) (op_operation_id r) (op_revision r) target
      actor.System reason s = (Inr r', u)" and rest: "each_step (\<lambda>r. then_step (transition E (op_task_id r)
      (op_operation_id r) (op_revision r) target actor.System reason) (return_step ())) rs u = (Inr (), t)"
    by (auto simp: succeeds)
  have u: "operations_of u = (operations_of s)(op_operation_id r \<mapsto> settled target r)"
    using transition_settles [OF step] Cons.prems(3) by simp
  have fresh: "op_operation_id r \<notin> op_operation_id ` set rs" "distinct (map op_operation_id rs)"
    using Cons.prems(2) by auto
  have "operations_of u (op_operation_id q) = Some q" if "q \<in> set rs" for q
  proof -
    have "op_operation_id q \<noteq> op_operation_id r" using that fresh(1) by (metis imageI)
    moreover have "operations_of s (op_operation_id q) = Some q" using that Cons.prems(3) by simp
    ultimately show ?thesis by (simp add: u)
  qed
  then have "\<forall>q \<in> set rs. operations_of u (op_operation_id q) = Some q" by blast
  note IH = Cons.IH [OF rest fresh(2) this]
  have "operations_of t (op_operation_id r) = Some (settled target r)"
    using IH fresh(1) u by simp
  moreover have "operations_of t oid = operations_of s oid" if "oid \<notin> op_operation_id ` set (r # rs)" for oid
    using IH that u by simp
  ultimately show ?case using IH by simp
qed (simp add: succeeds)

lemma distinct_operation_records:
  assumes "reducer_inv m" and "finite (dom m)"
  shows "distinct (map op_operation_id (operation_records order m))"
proof -
  let ?ids = "sort_key order (map OperationId (sorted_list_of_set (operation_uuid ` dom m)))"
  have "set ?ids = dom m" using assms(2) by (simp add: image_image operation_uuid_inverse)
  then have "map op_operation_id (operation_records order m) = ?ids"
    using assms(1) by (auto simp: operation_records_def reducer_inv_def intro!: map_idI)
  then show ?thesis by (simp add: distinct_map inj_on_def)
qed

text \<open>Reconciliation settles what was interrupted, and changes nothing else.\<close>

lemma reconcile_settles:
  assumes "reconcile E interrupted target reason s = (Inr (), t)"
    and inv: "reducer_inv (operations_of s)" and fin: "finite (dom (operations_of s))"
  shows "operations_of t oid = map_option (\<lambda>r. if interrupted r then settled target r else r) (operations_of s oid)"
proof -
  obtain n u where each: "each_step (\<lambda>r. then_step (transition E (op_task_id r) (op_operation_id r) (op_revision r) target
      actor.System (Some reason)) (return_step ()))
      (filter interrupted (operation_records (de_record_order E n) (operations_of s))) u = (Inr (), t)"
    and u: "operations_of u = operations_of s"
    using assms(1) by (auto simp: reconcile_def succeeds ask_Inr)
  have records: "set (operation_records (de_record_order E n) (operations_of s)) = ran (operations_of s)"
    by (rule set_operation_records [OF fin])
  have self: "operations_of s (op_operation_id r) = Some r" if "r \<in> ran (operations_of s)" for r
    using that inv by (auto simp: ran_def reducer_inv_def)
  have "distinct (map op_operation_id (filter interrupted (operation_records (de_record_order E n) (operations_of s))))"
    by (rule distinct_map_filter [OF distinct_operation_records [OF inv fin]])
  from settle_each [OF each this] have
    rest: "\<And>oid. oid \<notin> op_operation_id ` {r \<in> ran (operations_of s). interrupted r} \<Longrightarrow> operations_of t oid = operations_of s oid"
    and moved: "\<And>r. r \<in> ran (operations_of s) \<Longrightarrow> interrupted r \<Longrightarrow> operations_of t (op_operation_id r) = Some (settled target r)"
    using self by (simp_all add: records u)
  show ?thesis
  proof (cases "operations_of s oid")
    case (Some r)
    then have r: "r \<in> ran (operations_of s)" "op_operation_id r = oid" using inv by (auto simp: ran_def reducer_inv_def)
    show ?thesis
    proof (cases "interrupted r")
      case True
      with moved [OF r(1)] r(2) Some show ?thesis by simp
    next
      case False
      then have "oid \<notin> op_operation_id ` {r \<in> ran (operations_of s). interrupted r}" using self Some by auto
      with rest Some False show ?thesis by simp
    qed
  next
    case None
    then have "oid \<notin> op_operation_id ` {r \<in> ran (operations_of s). interrupted r}" using self by auto
    with rest None show ?thesis by simp
  qed
qed

text \<open>What a restart makes of an operation that the journal left in some state.\<close>

definition after_restart :: "operation_record \<Rightarrow> operation_record" where
  "after_restart r =
     (if op_state r = Dispatching then settled operation_state.UnknownExecution r
      else if op_state r = Authorized \<and> is_shell (op_action r) then settled operation_state.Failed r else r)"

lemma open_settles:
  assumes "open_daemon E prepared read_artifact recovered io dir scratch file = Inr s"
  shows "\<exists>a. open_authority (de_events E) (de_uuids E) read_artifact io (path_push dir ''events.jsonl'') file = Inr a
    \<and> operations_of s = (\<lambda>oid. map_option after_restart (au_operations a oid))"
proof -
  from open_daemon_parts [OF assms(1)] obtain a u where
    a: "open_authority (de_events E) (de_uuids E) read_artifact io (path_push dir ''events.jsonl'') file = Inr a"
    and first: "reconcile E (\<lambda>r. op_state r = Dispatching) operation_state.UnknownExecution
      ''daemon restarted without a reattachable PTY receipt''
      (new_daemon a dir (path_push dir ''isolated-results'') scratch) = (Inr (), u)"
    and second: "reconcile E (\<lambda>r. op_state r = Authorized \<and> is_shell (op_action r)) operation_state.Failed
      ''daemon restart invalidated the in-memory one-use sandbox lease'' u = (Inr (), s)"
    by (auto simp: reconcile_interrupted_dispatches_def reconcile_unrecoverable_sandbox_authorizations_def)
  let ?s = "new_daemon a dir (path_push dir ''isolated-results'') scratch"
  have inv: "reducer_inv (operations_of ?s)" "finite (dom (operations_of ?s))"
    using open_authority_reducer [OF a] by (simp_all add: new_daemon_def)
  then have later: "reducer_inv (operations_of u)" "finite (dom (operations_of u))"
    using obeysD [OF grows.keep_reconcile first] by (simp_all add: grows_def)
  have "operations_of s oid = map_option after_restart (au_operations a oid)" for oid
    using reconcile_settles [OF second later, of oid] reconcile_settles [OF first inv, of oid]
    by (cases "au_operations a oid") (auto simp: new_daemon_def after_restart_def settled_def)
  with a show ?thesis by blast
qed

end
