(* ===== verification/Daemon_Run.thy ===== *)
theory Daemon_Run
  imports Daemon_Safety
begin

text \<open>
  A world in which the daemon runs, and one whole run in it: from an empty journal to a process
  in a sandbox. The events of the run are not computed; what each record does to the operation
  and to the blocks of its task is enough.
\<close>

section \<open>Records that succeed\<close>

text \<open>The disk, the clock and the encoder do what they are asked.\<close>

definition world_ok :: "daemon_env \<Rightarrow> bool" where
  "world_ok E \<longleftrightarrow> (\<forall>n. io_good (de_append E n)) \<and> (\<forall>n. \<exists>t. de_clock E n = Some t \<and> t < 2 ^ 64)
     \<and> (\<forall>e. \<exists>bs. to_vec (de_events E) e = Inr bs \<and> length bs \<le> MAX_EVENT_LINE_BYTES)"

definition same_besides :: "daemon_state \<Rightarrow> daemon_state \<Rightarrow> bool" where
  "same_besides s t \<longleftrightarrow> dm_terminals t = dm_terminals s \<and> dm_terminal_contexts t = dm_terminal_contexts s
     \<and> dm_input_leases t = dm_input_leases s \<and> dm_lease_generations t = dm_lease_generations s
     \<and> dm_sandbox_leases t = dm_sandbox_leases s \<and> dm_authorized_sandboxes t = dm_authorized_sandboxes s
     \<and> dm_state_directory t = dm_state_directory s \<and> dm_scratch_root t = dm_scratch_root s
     \<and> dm_processes t = dm_processes s"

lemma same_besides_refl: "same_besides s s"
  by (simp add: same_besides_def)

lemma same_besides_trans: "same_besides s t \<Longrightarrow> same_besides t u \<Longrightarrow> same_besides s u"
  by (simp add: same_besides_def)

abbreviation last_of :: "daemon_state \<Rightarrow> u64" where
  "last_of s \<equiv> last_sequence (au_journal (dm_authority s))"

abbreviation projectors_of :: "daemon_state \<Rightarrow> (task_id \<rightharpoonup> block_projector)" where
  "projectors_of s \<equiv> au_projectors (dm_authority s)"

text \<open>What both reducers make of an event that the daemon would record next.\<close>

definition accepts ::
    "daemon_env \<Rightarrow> daemon_state \<Rightarrow> new_event \<Rightarrow> (operation_reducer \<Rightarrow> (task_id \<rightharpoonup> block_projector) \<Rightarrow> bool) \<Rightarrow> bool" where
  "accepts E s event Q \<longleftrightarrow> check_task (dm_authority s) event = Inr () \<and> last_of s + 1 \<noteq> 0
     \<and> (\<forall>e. ev_sequence e = last_of s + 1 \<and> ev_task_id e = ne_task_id event
          \<and> ev_operation_id e = ne_operation_id event \<and> ev_payload e = ne_payload event \<longrightarrow>
          (\<exists>m P patch. apply_event (de_uuids E) (operations_of s) (projectors_of s) e = Inr (m, P, patch) \<and> Q m P))"

lemma append_succeeds:
  assumes "io_good io" and "appendable C j e bs"
  shows "append_envelope C io j e = (Inr e, j\<lparr>jl_file := jl_file j @ bs @ [newline], jl_events := jl_events j @ [e]\<rparr>)"
  using assms by (simp add: append_envelope_def appendable_def io_good_def write_all_def)

lemma record_succeeds:
  assumes world: "world_ok E" and ok: "accepts E s event Q"
  shows "\<exists>t. record_event E event s = (Inr (), t) \<and> Q (operations_of t) (projectors_of t)
    \<and> last_of t = last_of s + 1 \<and> same_besides s t"
proof -
  let ?a = "dm_authority s" and ?n = "dm_tick s"
  obtain t where "de_clock E ?n = Some t" "t < 2 ^ 64" using world unfolding world_ok_def by blast
  then obtain e where e: "prepare (de_clock E ?n) (EventId (de_fresh E ?n)) (au_journal ?a) event = Inr e"
    by (simp add: prepare_def Let_def)
  then have fields: "ev_sequence e = last_of s + 1" "ev_schema_version e = EVENT_SCHEMA_VERSION"
    by (auto simp: prepare_def Let_def result_simps split: if_splits)
  from e prepare_fields [OF e] fields ok obtain m P patch where
    applied: "apply_event (de_uuids E) (au_operations ?a) (au_projectors ?a) e = Inr (m, P, patch)" and Q: "Q m P"
    by (auto simp: accepts_def)
  obtain bs where bs: "to_vec (de_events E) e = Inr bs" "length bs \<le> MAX_EVENT_LINE_BYTES"
    using world unfolding world_ok_def by blast
  have "appendable (de_events E) (au_journal ?a) e bs"
    using bs fields ok by (simp add: appendable_def validate_event_def accepts_def)
  moreover have "io_good (de_append E ?n)" using world by (simp add: world_ok_def)
  ultimately have appended: "append_envelope (de_events E) (de_append E ?n) (au_journal ?a) e = (Inr e,
      (au_journal ?a)\<lparr>jl_file := jl_file (au_journal ?a) @ bs @ [newline],
        jl_events := jl_events (au_journal ?a) @ [e]\<rparr>)"
    by (intro append_succeeds)
  have "check_task ?a event = Inr ()" using ok by (simp add: accepts_def)
  then have "record_authority (de_events E) (de_uuids E) (record_input_of E ?n) event ?a = (Inr (e, patch),
      ?a\<lparr>au_journal := (au_journal ?a)\<lparr>jl_file := jl_file (au_journal ?a) @ bs @ [newline],
        jl_events := jl_events (au_journal ?a) @ [e]\<rparr>, au_operations := m, au_projectors := P\<rparr>)"
    using e applied appended by (simp add: record_authority_def record_input_of_def)
  then show ?thesis
    using fields Q by (simp add: record_event_def succeeds ask_Inr in_authority_def broadcast_def
        broadcast_block_patch_def bind_step_def then_step_def ask_def update_step_def same_besides_def last_sequence_def)
qed

section \<open>A world\<close>

text \<open>A version-5 hash that keeps the scopes apart, and a clock that stands still.\<close>

definition run_uuids :: uuid_crate where
  "run_uuids = \<lparr>namespace_oid = 0, new_v5 = (\<lambda>_ s. of_nat (of_char (s ! 13))), uuid_text = (\<lambda>_. ''u'')\<rparr>"

definition run_json :: daemon_codec where
  "run_json = \<lparr>dc_tool_call_receipt = (\<lambda>_. Inr []), dc_runtime_receipt = (\<lambda>_. Inr []),
     dc_contract_identity = (\<lambda>_. Inr []), dc_tools = (\<lambda>_. Inr []), dc_runtime_identity = (\<lambda>_. Inr []),
     dc_agent_tool_call = (\<lambda>_. Inr []), dc_context_receipts = (\<lambda>_. Inr []), dc_action = (\<lambda>_. Inr []),
     dc_detail = (\<lambda>_. Inr []), dc_pretty = (\<lambda>_. Inr []),
     dc_mcp = \<lparr>value_to_vec = (\<lambda>_. Inr []), json_error_text = (\<lambda>_. []), decimal_text = (\<lambda>_. []),
       mcp_sha256 = (\<lambda>_. replicate 32 0), mcp_package_version = []\<rparr>\<rparr>"

definition run_files :: host_files where
  "run_files = \<lparr>hf_canonicalize = Inr, hf_is_file = (\<lambda>_. True), hf_is_dir = (\<lambda>_. True), hf_exists = (\<lambda>_. False)\<rparr>"

definition run_shell_host :: shell_host where
  "run_shell_host = \<lparr>sh_is_dir = (\<lambda>_. True), sh_metadata = (\<lambda>_. Some (True, 73)), sh_get_shell = (\<lambda>_. ''/bin/sh''),
     sh_package_version = ''1''\<rparr>"

text \<open>A journal that stopped while its one operation was dispatching, an event a line.\<close>

definition run_command :: terminal_command where
  "run_command = \<lparr>tc_program = ''/bin/ls'', tc_args = [''-l''], tc_cwd = Some ''/w'', tc_env = []\<rparr>"

definition run_event :: "u64 \<Rightarrow> domain_event \<Rightarrow> event_envelope" where
  "run_event n payload = (sample_envelope n)\<lparr>ev_operation_id := Some (OperationId 1), ev_payload := payload\<rparr>"

definition run_history :: "event_envelope list" where
  "run_history = [run_event 1 (domain_event.TaskCreated ''t''),
     run_event 2 (OperationProposed 1 operation_kind.Shell (operation_action.Shell run_command) ''ls'' ReadOnly []),
     run_event 3 (OperationStateChanged 2 Proposed PolicyCheck actor.Policy None),
     run_event 4 (OperationStateChanged 3 PolicyCheck Authorized actor.Policy None),
     run_event 5 (OperationStateChanged 4 Authorized Dispatching actor.System None)]"

definition run_codec :: event_codec where
  "run_codec = \<lparr>to_vec = (\<lambda>_. Inr [1]), from_slice = (\<lambda>bs. case bs of
     [k] \<Rightarrow> if 1 \<le> k \<and> k \<le> 5 then Inr (run_history ! (unat k - 1)) else Inl (JsonError 0)
   | _ \<Rightarrow> Inl (JsonError 0))\<rparr>"

definition run_world :: daemon_env where
  "run_world = \<lparr>de_events = run_codec,
     de_uuids = run_uuids, de_digests = sample_digest_crate, de_json = run_json,
     de_contexts = sample_context_crate, de_sandbox = sample_sandbox_crate,
     de_io_text = (\<lambda>_. []), de_terminal_text = (\<lambda>_. []), de_clock = (\<lambda>_. Some 100), de_fresh = (\<lambda>_. 1),
     de_append = (\<lambda>_. good_io), de_send = (\<lambda>_ _. Sent), de_files = (\<lambda>_. run_files),
     de_private_directory = (\<lambda>_ _. Inr ()), de_launcher = (\<lambda>_. sample_launcher),
     de_spawned = (\<lambda>_ _. Inr (TerminalId 1, None)), de_thread = (\<lambda>_. None), de_pty = (\<lambda>_. Inr ()),
     de_shell_host = (\<lambda>_. run_shell_host),
     de_user_shell = (\<lambda>_. \<lparr>usc_shell = None, usc_cwd = None, usc_environment = []\<rparr>),
     de_persist = (\<lambda>_ _. Inl []), de_record_order = (\<lambda>_ _. 0)\<rparr>"

lemma run_world_ok: "world_ok run_world"
  by (simp add: world_ok_def run_world_def run_codec_def io_good_def good_io_def MAX_EVENT_LINE_BYTES_def)

definition run_opened :: daemon_state where
  "run_opened = new_daemon \<lparr>au_journal = \<lparr>jl_path = ''/d/events.jsonl'', jl_file = [], jl_events = []\<rparr>,
     au_operations = Map.empty, au_projectors = Map.empty\<rparr> ''/d'' ''/d/isolated-results'' ''/s''"

lemma run_reconciles:
  "operations_of s = Map.empty \<Longrightarrow>
     reconcile run_world interrupted target reason s = (Inr (), s\<lparr>dm_tick := dm_tick s + 1\<rparr>)"
  by (simp add: reconcile_def operation_records_def bind_step_def ask_def read_step_def return_step_def)

lemma run_opens:
  "open_daemon run_world (Inr ()) (\<lambda>_. Inr ()) (\<lambda>_. Inr ()) sample_open ''/d'' ''/s'' [] = Inr (run_opened\<lparr>dm_tick := 2\<rparr>)"
proof -
  have paths: "path_push ''/d'' ''events.jsonl'' = ''/d/events.jsonl''"
    "path_push ''/d'' ''isolated-results'' = ''/d/isolated-results''"
    by (simp_all add: path_push_def is_absolute_def)
  have "open_authority (de_events run_world) (de_uuids run_world) (\<lambda>_. Inr ()) sample_open ''/d/events.jsonl'' []
     = Inr \<lparr>au_journal = \<lparr>jl_path = ''/d/events.jsonl'', jl_file = [], jl_events = []\<rparr>,
         au_operations = Map.empty, au_projectors = Map.empty\<rparr>"
    by (simp add: open_authority_def open_journal_def sample_open_def open_private_journal_def read_existing_def
        read_loop_end load_authority_def)
  then show ?thesis
    by (simp add: open_daemon_def paths then_step_def bind_step_def reconcile_interrupted_dispatches_def
        reconcile_unrecoverable_sandbox_authorizations_def run_reconciles run_opened_def new_daemon_def)
qed

section \<open>The blocks of the run\<close>

definition run_block :: "uuid \<Rightarrow> block_id" where
  "run_block u = BlockId u"

lemma run_block_ids:
  "stable_block_id run_uuids ''task'' x = run_block 115"
  "stable_block_id run_uuids ''operation'' x = run_block 101"
  "stable_block_id run_uuids ''approval'' x = run_block 112"
  "stable_block_id run_uuids ''terminal'' x = run_block 114"
  by (simp_all add: stable_block_id_def run_uuids_def run_block_def)

text \<open>
  The projector after \<open>n\<close> events: no terminal yet, and the blocks of the operation and of its
  approval, once there are some, have the payloads of their kinds.
\<close>

definition run_blocks :: "u64 \<Rightarrow> bool \<Rightarrow> bool \<Rightarrow> block_projector \<Rightarrow> bool" where
  "run_blocks n operation approval p \<longleftrightarrow> bj_task_id p = TaskId 1 \<and> bj_revision p = n
     \<and> bt_get (bj_blocks p) (run_block 114) = None
     \<and> (if operation then \<exists>b i k s r c st. bt_get (bj_blocks p) (run_block 101) = Some b
          \<and> be_block_id b = run_block 101 \<and> be_payload b = block_payload.Operation i k s r c st
        else bt_get (bj_blocks p) (run_block 101) = None)
     \<and> (if approval then \<exists>b i r a q opts d. bt_get (bj_blocks p) (run_block 112) = Some b
          \<and> be_block_id b = run_block 112 \<and> be_payload b = block_payload.Approval i r a q opts d
        else bt_get (bj_blocks p) (run_block 112) = None)"

lemmas run_project_defs = project_event_def project_payload_def project_task_created_def
  project_operation_proposed_def project_operation_state_changed_def project_permission_requested_def
  project_permission_decided_def project_terminal_opened_def upsert_one_def upsert_def find_block_def
  run_block_ids map_of_bt_insert Let_def

text \<open>Every kind of event of the run is projected.\<close>

lemma run_projects:
  assumes "run_blocks n operation approval p" and "ev_task_id e = TaskId 1" and "ev_operation_id e = Some (OperationId 1)"
    and "ev_sequence e = n + 1" and "n < n + 1"
  shows "ev_payload e = OperationProposed 1 kind action summary risk caps \<Longrightarrow> \<not> operation \<Longrightarrow>
      \<exists>p' patch. project_event run_uuids p e = Inr (p', patch) \<and> run_blocks (n + 1) True approval p'"
    and "ev_payload e = OperationStateChanged revision before to who reason \<Longrightarrow> operation \<Longrightarrow>
      \<exists>p' patch. project_event run_uuids p e = Inr (p', patch) \<and> run_blocks (n + 1) True approval p'"
    and "ev_payload e = PermissionRequested revision detail prompt options \<Longrightarrow> \<not> approval \<Longrightarrow>
      \<exists>p' patch. project_event run_uuids p e = Inr (p', patch) \<and> run_blocks (n + 1) operation True p'"
    and "ev_payload e = PermissionDecided revision decision who \<Longrightarrow> approval \<Longrightarrow>
      \<exists>p' patch. project_event run_uuids p e = Inr (p', patch) \<and> run_blocks (n + 1) operation True p'"
    and "ev_payload e = OperationExecutionContextCompiled revision receipt
        \<or> ev_payload e = SandboxProfileCompiled revision compiled
        \<or> ev_payload e = SandboxLeaseIssued revision lease expires profile_digest digest \<Longrightarrow>
      \<exists>p' patch. project_event run_uuids p e = Inr (p', patch) \<and> run_blocks (n + 1) operation approval p'"
    and "ev_payload e = domain_event.TerminalOpened terminal command dims \<Longrightarrow>
      \<exists>p' patch. project_event run_uuids p e = Inr (p', patch)"
  using assms by (auto simp: run_project_defs run_blocks_def not_le run_block_def split: if_splits)

section \<open>The steps of the run\<close>

definition run_operation :: "operation_state \<Rightarrow> u64 \<Rightarrow> permission_decision option \<Rightarrow> operation_record" where
  "run_operation st revision decision =
     \<lparr>op_task_id = TaskId 1, op_operation_id = OperationId 1, op_revision = revision,
      op_kind = operation_kind.Shell, op_action = operation_action.Shell run_command,
      op_summary = ''ls'', op_risk = risk_class.ReadOnly, op_required_capabilities = [],
      op_state = st, op_permission_decision = decision\<rparr>"

text \<open>The daemon after \<open>n\<close> events of the run, with its operation, if it is proposed.\<close>

definition run_at :: "u64 \<Rightarrow> operation_record option \<Rightarrow> bool \<Rightarrow> daemon_state \<Rightarrow> bool" where
  "run_at n r approval s \<longleftrightarrow> operations_of s = (case r of None \<Rightarrow> Map.empty | Some r \<Rightarrow> [OperationId 1 \<mapsto> r])
     \<and> (\<exists>p. projectors_of s = [TaskId 1 \<mapsto> p] \<and> run_blocks n (r \<noteq> None) approval p) \<and> last_of s = n"

lemma run_uuids_of: "de_uuids run_world = run_uuids"
  by (simp add: run_world_def)

lemma run_records:
  assumes at: "run_at n r approval s" and n: "n < n + 1" and payload: "\<not> is_task_created payload"
    and step: "\<And>e p. ev_sequence e = n + 1 \<Longrightarrow> ev_task_id e = TaskId 1 \<Longrightarrow> ev_operation_id e = Some (OperationId 1) \<Longrightarrow>
      ev_payload e = payload \<Longrightarrow> run_blocks n (r \<noteq> None) approval p \<Longrightarrow>
      apply_operation (operations_of s) e = Inr m \<and> (\<exists>p' patch. project_event run_uuids p e = Inr (p', patch) \<and> Q p')"
  shows "\<exists>t p'. record_event run_world (operation_event (TaskId 1) (OperationId 1) payload) s = (Inr (), t)
    \<and> operations_of t = m \<and> projectors_of t = [TaskId 1 \<mapsto> p'] \<and> Q p' \<and> last_of t = n + 1 \<and> same_besides s t"
proof -
  obtain p where p: "projectors_of s = [TaskId 1 \<mapsto> p]" "run_blocks n (r \<noteq> None) approval p" "last_of s = n"
    using at by (auto simp: run_at_def)
  have "n + 1 \<noteq> 0" using n by auto
  moreover have "\<exists>m' P patch. apply_event run_uuids (operations_of s) (projectors_of s) e = Inr (m', P, patch)
      \<and> m' = m \<and> (\<exists>p'. P = [TaskId 1 \<mapsto> p'] \<and> Q p')"
    if "ev_sequence e = n + 1" "ev_task_id e = TaskId 1" "ev_operation_id e = Some (OperationId 1)" "ev_payload e = payload"
    for e
    using step [OF that p(2)] p(1) that(2) by (auto simp: apply_event_def)
  ultimately have "accepts run_world s (operation_event (TaskId 1) (OperationId 1) payload)
      (\<lambda>m' P. m' = m \<and> (\<exists>p'. P = [TaskId 1 \<mapsto> p'] \<and> Q p'))"
    using p payload
    by (simp add: accepts_def run_uuids_of operation_event_def task_event_def check_task_def)
  from record_succeeds [OF run_world_ok this] p(3) show ?thesis by auto
qed

lemma run_transitions:
  assumes at: "run_at n (Some r) approval s" and n: "n < n + 1" and task: "op_task_id r = TaskId 1"
    and valid: "valid_transition (op_state r) to" and revision: "op_revision r = revision"
  shows "\<exists>t. transition run_world (TaskId 1) (OperationId 1) revision to who reason s =
      (Inr (r\<lparr>op_revision := revision + 1, op_state := to\<rparr>), t)
    \<and> run_at (n + 1) (Some (r\<lparr>op_revision := revision + 1, op_state := to\<rparr>)) approval t \<and> same_besides s t"
proof -
  have ops: "operations_of s = [OperationId 1 \<mapsto> r]" using at by (simp add: run_at_def)
  have "\<exists>t p'. record_event run_world (operation_event (TaskId 1) (OperationId 1)
      (OperationStateChanged (revision + 1) (op_state r) to who reason)) s = (Inr (), t)
    \<and> operations_of t = [OperationId 1 \<mapsto> r\<lparr>op_revision := revision + 1, op_state := to\<rparr>]
    \<and> projectors_of t = [TaskId 1 \<mapsto> p'] \<and> run_blocks (n + 1) True approval p' \<and> last_of t = n + 1 \<and> same_besides s t"
    using run_projects(2) [OF _ _ _ _ n] valid revision
    by (intro run_records [OF at n]) (auto simp: ops apply_operation_defs result_simps)
  then show ?thesis
    using task revision
    by (auto simp: transition_def then_step_def bind_step_def find_operation_def read_step_def lift_step_def ops
        validate_operation_scope_def run_at_def)
qed

lemma run_creates:
  "\<exists>t. create_task run_world ''t'' (run_opened\<lparr>dm_tick := 2\<rparr>) = (Inr (TaskId 1), t) \<and> run_at 1 None False t
    \<and> same_besides run_opened t"
proof -
  let ?s = "run_opened\<lparr>dm_tick := 3\<rparr>"
  have s: "operations_of ?s = Map.empty" "projectors_of ?s = Map.empty" "last_of ?s = 0"
    by (simp_all add: run_opened_def new_daemon_def last_sequence_def)
  have project: "\<exists>p patch. project_event run_uuids (new_projector (TaskId 1)) e = Inr (p, patch) \<and> run_blocks 1 False False p"
    if "ev_sequence e = 1" "ev_task_id e = TaskId 1" "ev_payload e = domain_event.TaskCreated ''t''" for e
    using that by (simp add: run_project_defs new_projector_def run_blocks_def run_block_def)
  have applied: "\<exists>m P patch. apply_event run_uuids Map.empty Map.empty e = Inr (m, P, patch) \<and> m = Map.empty
      \<and> (\<exists>p. P = [TaskId 1 \<mapsto> p] \<and> run_blocks 1 False False p)"
    if "ev_sequence e = 1" "ev_task_id e = TaskId 1" "ev_payload e = domain_event.TaskCreated ''t''" for e
    using project [OF that] that by (auto simp: apply_event_def apply_operation_def)
  have "accepts run_world ?s (task_event (TaskId 1) (domain_event.TaskCreated ''t''))
     (\<lambda>m P. m = Map.empty \<and> (\<exists>p. P = [TaskId 1 \<mapsto> p] \<and> run_blocks 1 False False p))"
    using applied by (simp add: accepts_def s [simplified] run_uuids_of task_event_def check_task_def Let_def)
  from record_succeeds [OF run_world_ok this] obtain t p where
    run: "record_event run_world (task_event (TaskId 1) (domain_event.TaskCreated ''t'')) ?s = (Inr (), t)"
    and t: "operations_of t = Map.empty" "projectors_of t = [TaskId 1 \<mapsto> p]" "run_blocks 1 False False p"
      "last_of t = last_of ?s + 1" "same_besides ?s t"
    by blast
  have "trim ''t'' = ''t''" by (rule trim_graphic) (simp_all add: graphic_def)
  moreover have "de_fresh run_world k = 1" for k by (simp add: run_world_def)
  ultimately have "create_task run_world ''t'' (run_opened\<lparr>dm_tick := 2\<rparr>) = (Inr (TaskId 1), t)"
    using run by (simp add: create_task_def Let_def guard_step_def then_step_def bind_step_def ask_def return_step_def)
  then show ?thesis using t s(3) by (auto simp: run_at_def same_besides_def)
qed

lemma run_detail: "\<exists>a. bound_approval_detail_of run_json r = Inr a"
proof -
  have "is_sha256 (hex_lower (replicate 32 0))" by (rule is_sha256_hex_lower) simp
  then show ?thesis
    by (simp add: bound_approval_detail_of_def digest_value_def daemon_sha256_def run_json_def Let_def
        parse_digest_def is_sha256_def)
qed

section \<open>The sandbox of the run\<close>

text \<open>The rules of the operation, and the same in the order of a canonical profile.\<close>

definition run_rules :: "sandbox_path_rule list" where
  "run_rules = operation_sandbox_rules run_files risk_class.ReadOnly ''/w'' ''/d'' ''/s/u''"

definition run_canonical :: "sandbox_path_rule list" where
  "run_canonical = \<lparr>spr_path = ''/d'', spr_access = sandbox_path_access.Deny\<rparr>
     # \<lparr>spr_path = ''/s/u'', spr_access = sandbox_path_access.Write\<rparr>
     # map (\<lambda>path. \<lparr>spr_path = path, spr_access = sandbox_path_access.Read\<rparr>)
         [''/w'', ''/w/.git'', ''/w/.hg'', ''/w/.jj'', ''/w/.svn'']"

definition run_variables :: "(string, string) btree" where
  "run_variables = [(''HOME'', ''/s/u''), (''LANG'', ''C.UTF-8''), (''PATH'', ''/usr/bin:/bin:/usr/sbin:/sbin''),
     (''TERM'', ''xterm-256color''), (''TMPDIR'', ''/s/u''), (''TZ'', ''UTC'')]"

definition run_profile :: sandbox_profile where
  "run_profile = (operation_sandbox_profile False run_canonical)\<lparr>sp_environment :=
     \<lparr>sep_clear_inherited = True, sep_variables = run_variables\<rparr>\<rparr>"

definition run_request :: execution_authorization_request where
  "run_request = authorization_request run_world (run_operation WaitingHuman 3 None) 4 run_command ''/w'' ''/s/u''
     (operation_sandbox_profile False run_rules) (SandboxLeaseId 1) 100"

lemma run_rules_canonical: "canonical_rules run_rules = Inr run_canonical"
  by (simp add: run_rules_def run_canonical_def operation_sandbox_rules_def run_files_def canonical_rules_def
      add_rule_def normalize_absolute_path_def path_defs map_filter_simps path_key_def component_key_def
      stricter_access_def)

lemma run_sandbox:
  "resolved_sandbox True run_variables (Some (operation_sandbox_profile False run_rules)) = Inr (Some run_profile)"
proof -
  have "check_environment run_variables = Inr ()"
    by (simp add: check_environment_def run_variables_def nul_iff)
  then show ?thesis
    by (simp add: resolved_sandbox_def canonicalize_sandbox_profile_def operation_sandbox_profile_def run_profile_def
        run_rules_canonical check_mach_services_def canonical_network_def sort_paths_def sort_strings_def)
qed

lemma run_spec:
  "ear_context run_request = operation_execution_context_spec run_uuids (OperationId 1) 4
     (run_command\<lparr>tc_cwd := Some ''/w''\<rparr>) ''/w'' ''/s/u'' (operation_sandbox_profile False run_rules)"
  by (simp add: run_request_def authorization_request_def Let_def run_operation_def run_world_def)

lemma run_spec_canonical: "canonicalize_spec (ear_context run_request) False = Inr (ear_context run_request)"
  unfolding run_spec
  by (simp add: operation_execution_context_spec_def run_command_def run_uuids_def context_defs path_defs
      map_filter_simps ascii_defs nul_iff)

lemma run_bindings:
  "\<exists>m. compile_bindings sample_context_crate (ear_context run_request) default_context_inputs = Inr m
    \<and> environment_variables m = run_variables"
  unfolding run_spec
  by (simp add: compile_bindings_def operation_execution_context_spec_def run_command_def runtime_bindings_def
      join_paths_def runtime_binding_def insert_binding_def compile_binding_def environment_variables_def
      map_filter_simps Let_def run_variables_def)


lemma run_context_compiles:
  "\<exists>ctx receipt. compile_execution_context sample_context_crate (ear_context run_request) default_context_inputs
      = Inr (ctx, receipt) \<and> rep_variables (rec_environment ctx) = run_variables
    \<and> rep_clear_inherited (rec_environment ctx) \<and> rec_mode ctx = Hermetic
    \<and> rec_credential_bindings ctx = [] \<and> rec_shell ctx = ecs_shell (ear_context run_request)
    \<and> rec_workspace ctx = ecs_workspace (ear_context run_request)
    \<and> rec_requested_sandbox ctx = Some run_profile"
proof -
  obtain m where m: "compile_bindings sample_context_crate (ear_context run_request) default_context_inputs = Inr m"
    "environment_variables m = run_variables"
    using run_bindings by blast
  have parts: "ecs_mode (ear_context run_request) = Hermetic" "ecs_credentials (ear_context run_request) = []"
    "ecs_sandbox (ear_context run_request) = Some (operation_sandbox_profile False run_rules)"
    "ep_bindings (ecs_environment (ear_context run_request)) = []"
    by (simp_all add: run_spec operation_execution_context_spec_def run_command_def)
  have sorted: "(ear_context run_request)\<lparr>ecs_environment := (ecs_environment (ear_context run_request))\<lparr>ep_bindings :=
      sort_key (binding_key sample_context_crate) (ep_bindings (ecs_environment (ear_context run_request)))\<rparr>\<rparr>
      = ear_context run_request"
    by (simp add: parts)
  have digest: "parse_digest mk (hex_lower (replicate 32 0)) = Inr (mk (hex_lower (replicate 32 0)))" for mk
    using is_sha256_hex_lower [of "replicate 32 0"] by (simp add: parse_digest_Inr_iff)
  have crate: "environment_json sample_context_crate b v l = Some []"
    "context_json sample_context_crate spec d = Some []"
    "context_sha256 sample_context_crate bs = replicate 32 0" for b v l spec d bs
    by (simp_all add: sample_context_crate_def)
  have user: "eci_allow_user_mode default_context_inputs = False"
    by (simp add: default_context_inputs_def)
  have size: "environment_bytes run_variables \<le> MAX_ENVIRONMENT_BYTES"
    by (simp add: environment_bytes_def run_variables_def MAX_ENVIRONMENT_BYTES_def)
  show ?thesis
    unfolding compile_execution_context_def user run_spec_canonical and_then_simps Let_def sorted
    using size
    by (simp add: m parts validate_credentials_def digest_environment_def not_le [symmetric]
        run_sandbox digest_context_def digest crate)
qed

lemma run_normalized:
  "ear_command run_request = run_command" "canonicalize_terminal_command run_command = Inr run_command"
  by (simp_all add: run_request_def authorization_request_def Let_def run_command_def canonicalize_terminal_command_def
      normalize_absolute_path_def path_defs map_filter_simps check_environment_def nul_iff)

definition run_plan :: "authorized_execution_plan \<Rightarrow> bool" where
  "run_plan plan \<longleftrightarrow> enforced_plan (aep_sandbox plan)
     \<and> slp_clear_environment (aep_sandbox plan)
     \<and> slp_command (aep_sandbox plan) = run_command\<lparr>tc_env := run_variables\<rparr>
     \<and> ecl_lease (aep_capability_lease plan) = \<lparr>cl_lease_id = SandboxLeaseId 1, cl_operation_id = OperationId 1,
          cl_operation_revision = 4,
          cl_action_digest = csp_action_digest (slp_compiled (aep_sandbox plan)),
          cl_profile_digest = csp_profile_digest (slp_compiled (aep_sandbox plan)),
          cl_actor = actor.System, cl_issued_at_ms = 100,
          cl_expires_at_ms = saturating_add 100 SANDBOX_LEASE_TTL_MS, cl_one_use = True\<rparr>"

lemma run_lifetime: "(100 :: u64) < saturating_add 100 SANDBOX_LEASE_TTL_MS"
  by (simp add: saturating_add_def SANDBOX_LEASE_TTL_MS_def)

lemma run_plan_compiles:
  "\<exists>plan. compile_authorized_execution_plan sample_context_crate run_request default_context_inputs
      sample_launcher = Inr plan \<and> run_plan plan"
proof -
  obtain ctx receipt where ctx: "compile_execution_context sample_context_crate (ear_context run_request)
      default_context_inputs = Inr (ctx, receipt)" "rep_variables (rec_environment ctx) = run_variables"
    "rep_clear_inherited (rec_environment ctx)" "rec_mode ctx = Hermetic" "rec_credential_bindings ctx = []"
    "rec_shell ctx = ecs_shell (ear_context run_request)" "rec_workspace ctx = ecs_workspace (ear_context run_request)"
    "rec_requested_sandbox ctx = Some run_profile"
    using run_context_compiles by blast
  have request: "ear_operation_id run_request = OperationId 1" "ear_operation_revision run_request = 4"
    "ear_actor run_request = actor.System" "ear_lease_id run_request = SandboxLeaseId 1"
    "ear_issued_at_ms run_request = 100" "ear_expires_at_ms run_request = saturating_add 100 SANDBOX_LEASE_TTL_MS"
    by (simp_all add: run_request_def authorization_request_def Let_def run_operation_def)
  have paths: "\<exists>shell. ecs_shell (ear_context run_request) = Some shell \<and>
      path_eq (tc_program run_command) (scs_executable shell)"
    "\<exists>cwd. tc_cwd run_command = Some cwd \<and> path_eq cwd (wcs_working_directory (ecs_workspace (ear_context run_request)))"
    by (simp_all add: run_spec operation_execution_context_spec_def run_command_def path_defs)
  have env: "sp_environment run_profile = \<lparr>sep_clear_inherited = True, sep_variables = run_variables\<rparr>"
    by (simp add: run_profile_def)
  have command: "check_command_environment run_variables (tc_env run_command) = Inr ()"
    by (simp add: check_command_environment_def run_command_def)
  obtain plan where plan: "compile_authorized_execution_plan sample_context_crate run_request default_context_inputs
      sample_launcher = Inr plan" "enforced_plan (aep_sandbox plan)"
      "slp_clear_environment (aep_sandbox plan)" "slp_command (aep_sandbox plan) = run_command\<lparr>tc_env := run_variables\<rparr>"
    using paths request run_lifetime
    by (auto simp: compile_authorized_execution_plan_def ctx run_normalized command
        sample_launcher_def env Let_def not_le enforced_plan_def)
  moreover have "ecl_lease (aep_capability_lease plan) = \<lparr>cl_lease_id = SandboxLeaseId 1,
      cl_operation_id = OperationId 1, cl_operation_revision = 4,
      cl_action_digest = csp_action_digest (slp_compiled (aep_sandbox plan)),
      cl_profile_digest = csp_profile_digest (slp_compiled (aep_sandbox plan)), cl_actor = actor.System,
      cl_issued_at_ms = 100, cl_expires_at_ms = saturating_add 100 SANDBOX_LEASE_TTL_MS, cl_one_use = True\<rparr>"
    using authorized_plan_parts [OF plan(1)] request by simp
  ultimately show ?thesis unfolding run_plan_def by blast
qed

lemma run_answers:
  "de_files run_world n = run_files" "hf_canonicalize run_files p = Inr p" "hf_is_dir run_files p"
  "de_clock run_world n = Some 100" "de_fresh run_world n = 1" "de_private_directory run_world n p = Inr ()"
  "de_launcher run_world n = sample_launcher" "de_contexts run_world = sample_context_crate"
  "uuid_text (de_uuids run_world) u = ''u''" "de_json run_world = run_json"
  by (simp_all add: run_world_def run_files_def run_uuids_def)

lemmas run_step_simps = bind_step_def then_step_def lift_step_def ask_def read_step_def guard_step_def
  return_step_def update_step_def on_error_step_def now_ms_def run_answers

lemma run_authorizes:
  assumes "dm_state_directory s = ''/d''"
  shows "\<exists>plan. authorize_sandbox run_world (run_operation WaitingHuman 3 None) 4 run_command ''/w'' ''/s/u'' s =
      (Inr (prepared_of plan ''/s/u''), s\<lparr>dm_tick := dm_tick s + 4\<rparr>) \<and> run_plan plan"
proof -
  obtain plan where plan: "compile_authorized_execution_plan sample_context_crate run_request default_context_inputs
      sample_launcher = Inr plan" "run_plan plan"
    using run_plan_compiles by blast
  have "\<not> isolated_operation (run_operation WaitingHuman 3 None)" "op_risk (run_operation WaitingHuman 3 None) = ReadOnly"
    by (simp_all add: isolated_operation_def run_operation_def)
  then show ?thesis
    using plan assms
    by (intro exI [of _ plan]) (simp add: authorize_sandbox_def run_step_simps Let_def run_request_def run_rules_def
        run_plan_def)
qed

lemma run_prepares:
  assumes "dm_state_directory s = ''/d''" and "dm_scratch_root s = ''/s''"
  shows "\<exists>plan k. prepare_authorized_sandbox run_world (run_operation WaitingHuman 3 None) 4 s =
      (Inr (prepared_of plan ''/s/u''), s\<lparr>dm_tick := k\<rparr>) \<and> run_plan plan"
proof -
  have path: "path_push ''/s'' ''u'' = ''/s/u''" "\<not> path_starts_with ''/w'' ''/d''"
    by (simp_all add: path_defs)
  have r: "op_action (run_operation WaitingHuman 3 None) = operation_action.Shell run_command"
    "\<not> isolated_operation (run_operation WaitingHuman 3 None)" "tc_cwd run_command = Some ''/w''"
    by (simp_all add: isolated_operation_def run_operation_def run_command_def)
  obtain plan where "authorize_sandbox run_world (run_operation WaitingHuman 3 None) 4 run_command ''/w'' ''/s/u''
      (s\<lparr>dm_tick := dm_tick s + 4\<rparr>) = (Inr (prepared_of plan ''/s/u''), s\<lparr>dm_tick := dm_tick s + 8\<rparr>)" "run_plan plan"
    using run_authorizes [of "s\<lparr>dm_tick := dm_tick s + 4\<rparr>"] assms by auto
  then show ?thesis
    using assms by (auto simp: prepare_authorized_sandbox_def r succeeds ask_Inr run_answers path numeral_eq_Suc)
qed

section \<open>The run\<close>

lemma run_proposed:
  assumes at: "run_at n None False s" and n: "n < n + 1"
  shows "\<exists>t. record_event run_world (operation_event (TaskId 1) (OperationId 1)
      (OperationProposed 1 operation_kind.Shell (operation_action.Shell run_command) ''ls'' ReadOnly [])) s = (Inr (), t)
    \<and> run_at (n + 1) (Some (run_operation Proposed 1 None)) False t \<and> same_besides s t"
proof -
  have ops: "operations_of s = Map.empty" using at by (simp add: run_at_def)
  show ?thesis
    using run_records [OF at n, of "OperationProposed 1 operation_kind.Shell (operation_action.Shell run_command) ''ls''
        ReadOnly []" "[OperationId 1 \<mapsto> run_operation Proposed 1 None]" "run_blocks (n + 1) True False"]
      run_projects(1) [OF _ _ _ _ n, of False False]
    by (auto simp: ops apply_operation_defs result_simps run_at_def run_operation_def)
qed

lemma run_requested:
  assumes at: "run_at n (Some (run_operation WaitingHuman 3 None)) False s" and n: "n < n + 1"
  shows "\<exists>t. record_event run_world (operation_event (TaskId 1) (OperationId 1)
      (PermissionRequested 3 detail prompt options)) s = (Inr (), t)
    \<and> run_at (n + 1) (Some (run_operation WaitingHuman 3 None)) True t \<and> same_besides s t"
proof -
  have ops: "operations_of s = [OperationId 1 \<mapsto> run_operation WaitingHuman 3 None]" using at by (simp add: run_at_def)
  show ?thesis
    using run_records [OF at n, of "PermissionRequested 3 detail prompt options" "operations_of s"
        "run_blocks (n + 1) True True"] run_projects(3) [OF _ _ _ _ n, of True False]
    by (auto simp: ops apply_operation_defs result_simps run_at_def run_operation_def)
qed

lemma run_decided:
  assumes at: "run_at n (Some (run_operation WaitingHuman 3 None)) True s" and n: "n < n + 1"
  shows "\<exists>t. record_event run_world (operation_event (TaskId 1) (OperationId 1)
      (PermissionDecided 3 AllowOnce actor.User)) s = (Inr (), t)
    \<and> run_at (n + 1) (Some (run_operation WaitingHuman 3 (Some AllowOnce))) True t \<and> same_besides s t"
proof -
  have ops: "operations_of s = [OperationId 1 \<mapsto> run_operation WaitingHuman 3 None]" using at by (simp add: run_at_def)
  show ?thesis
    using run_records [OF at n, of "PermissionDecided 3 AllowOnce actor.User"
        "[OperationId 1 \<mapsto> run_operation WaitingHuman 3 (Some AllowOnce)]"
        "run_blocks (n + 1) True True"] run_projects(4) [OF _ _ _ _ n, of True True]
    by (auto simp: ops apply_operation_defs result_simps run_at_def run_operation_def)
qed

text \<open>The events of an activation change neither the operations nor the blocks.\<close>

lemma run_noted:
  assumes at: "run_at n (Some r) True s" and n: "n < n + 1"
    and payload: "payload = OperationExecutionContextCompiled revision receipt
      \<or> payload = SandboxProfileCompiled revision compiled
      \<or> payload = SandboxLeaseIssued revision lease expires profile_digest digest"
  shows "\<exists>t. record_event run_world (operation_event (TaskId 1) (OperationId 1) payload) s = (Inr (), t)
    \<and> run_at (n + 1) (Some r) True t \<and> same_besides s t"
proof -
  have ops: "operations_of s = [OperationId 1 \<mapsto> r]" using at by (simp add: run_at_def)
  have "\<exists>t p'. record_event run_world (operation_event (TaskId 1) (OperationId 1) payload) s = (Inr (), t)
    \<and> operations_of t = operations_of s \<and> projectors_of t = [TaskId 1 \<mapsto> p'] \<and> run_blocks (n + 1) True True p'
    \<and> last_of t = n + 1 \<and> same_besides s t"
    using run_projects(5) [OF _ _ _ _ n, of True True] payload
    by (intro run_records [OF at n]) (auto simp: apply_operation_defs)
  then show ?thesis using ops by (auto simp: run_at_def)
qed

lemma run_opened_terminal:
  assumes at: "run_at n (Some r) True s" and n: "n < n + 1"
  shows "\<exists>t. record_event run_world (operation_event (TaskId 1) (OperationId 1)
      (domain_event.TerminalOpened terminal command dims)) s = (Inr (), t) \<and> same_besides s t"
proof -
  have ops: "operations_of s = [OperationId 1 \<mapsto> r]" using at by (simp add: run_at_def)
  show ?thesis
    using run_records [OF at n, of "domain_event.TerminalOpened terminal command dims" "operations_of s" "\<lambda>_. True"]
      run_projects(6) [OF _ _ _ _ n, of True True]
    by (auto simp: ops apply_operation_defs)
qed

lemma run_updates:
  "(run_operation st revision decision)\<lparr>op_revision := revision', op_state := st'\<rparr> = run_operation st' revision' decision"
  by (simp add: run_operation_def)

lemma run_fields:
  "op_revision (run_operation st revision decision) = revision" "op_state (run_operation st revision decision) = st"
  "op_task_id (run_operation st revision decision) = TaskId 1"
  "op_operation_id (run_operation st revision decision) = OperationId 1"
  "op_action (run_operation st revision decision) = operation_action.Shell run_command"
  "\<not> isolated_operation (run_operation st revision decision)"
  by (simp_all add: run_operation_def isolated_operation_def)

lemma run_at_aside [simp]:
  "run_at n r approval (s\<lparr>dm_tick := k\<rparr>) = run_at n r approval s"
  "same_besides s (t\<lparr>dm_tick := k\<rparr>) = same_besides s t" "same_besides (s\<lparr>dm_tick := k\<rparr>) t = same_besides s t"
  by (simp_all add: run_at_def same_besides_def)

lemma run_transits:
  assumes "run_at n (Some (run_operation st revision decision)) approval s" and "n < n + 1" and "valid_transition st to"
  shows "\<exists>t. transition run_world (TaskId 1) (OperationId 1) revision to who reason s =
      (Inr (run_operation to (revision + 1) decision), t)
    \<and> run_at (n + 1) (Some (run_operation to (revision + 1) decision)) approval t \<and> same_besides s t"
  using run_transitions [OF assms(1,2), of to revision who reason] assms(3)
  by (simp add: run_updates) (simp add: run_operation_def)

lemma run_proposes:
  assumes at: "run_at 1 None False s"
  shows "\<exists>t. propose_operation run_world (TaskId 1) operation_kind.Shell (operation_action.Shell run_command) ''ls''
      ReadOnly [] s = (Inr (run_operation WaitingHuman 3 None), t)
    \<and> run_at 5 (Some (run_operation WaitingHuman 3 None)) True t \<and> same_besides s t"
proof -
  have task: "projectors_of s (TaskId 1) \<noteq> None" using at by (auto simp: run_at_def)
  have kind: "validate_action_kind run_files operation_kind.Shell (operation_action.Shell run_command) = Inr ()"
    by (simp add: validate_action_kind_def validate_operation_environment_def run_command_def)
  let ?s = "s\<lparr>dm_tick := dm_tick s + 2\<rparr>"
  from run_proposed [of 1 ?s] at obtain t1 where
    t1: "record_event run_world (operation_event (TaskId 1) (OperationId 1) (OperationProposed 1 operation_kind.Shell
        (operation_action.Shell run_command) ''ls'' ReadOnly [])) ?s = (Inr (), t1)"
      "run_at 2 (Some (run_operation Proposed 1 None)) False t1" "same_besides s t1" by auto
  from run_transits [OF t1(2), of PolicyCheck] obtain t2 where
    t2: "transition run_world (TaskId 1) (OperationId 1) 1 PolicyCheck actor.Policy
        (Some ''operation entered the permission policy pipeline'') t1 = (Inr (run_operation PolicyCheck 2 None), t2)"
      "run_at 3 (Some (run_operation PolicyCheck 2 None)) False t2" "same_besides t1 t2" by fastforce
  from run_transits [OF t2(2), of WaitingHuman] obtain t3 where
    t3: "transition run_world (TaskId 1) (OperationId 1) 2 WaitingHuman actor.Policy
        (Some ''M1 requires explicit human approval for every effect'') t2 = (Inr (run_operation WaitingHuman 3 None), t3)"
      "run_at 4 (Some (run_operation WaitingHuman 3 None)) False t3" "same_besides t2 t3" by fastforce
  obtain a where a: "bound_approval_detail_of run_json (run_operation WaitingHuman 3 None) = Inr a"
    using run_detail by blast
  from run_requested [OF t3(2)] obtain t4 where
    t4: "record_event run_world (operation_event (TaskId 1) (OperationId 1)
        (PermissionRequested 3 (Some a) ''Allow this exact operation once?''
          [AllowOnce, RejectOnce, permission_decision.Cancelled])) t3 = (Inr (), t4)"
      "run_at 5 (Some (run_operation WaitingHuman 3 None)) True t4" "same_besides t3 t4" by fastforce
  have "propose_operation run_world (TaskId 1) operation_kind.Shell (operation_action.Shell run_command) ''ls''
      ReadOnly [] s = (Inr (run_operation WaitingHuman 3 None), t4)"
    using t1(1) t2(1) t3(1) t4(1) task kind a
    by (simp add: propose_operation_def require_task_def run_step_simps run_fields)
  then show ?thesis using t1(3) t2(3) t3(3) t4(2,3) by (blast intro: same_besides_trans)
qed

definition run_lease_ledger :: "authorized_execution_plan \<Rightarrow> lease_ledger" where
  "run_lease_ledger plan = [SandboxLeaseId 1 \<mapsto> \<lparr>le_lease = aep_capability_lease plan, le_consumed_at_ms = None\<rparr>]"

lemma run_issues: "run_plan plan \<Longrightarrow> issue_lease Map.empty (aep_capability_lease plan) = Inr (run_lease_ledger plan)"
  using run_lifetime by (simp add: run_plan_def issue_lease_def Let_def run_lease_ledger_def not_le)

lemma run_notes:
  assumes "run_at n (Some r) True s" and "n < n + 1" and "n + 1 = m"
  shows "\<exists>t. record_event run_world (operation_event (TaskId 1) (OperationId 1)
      (OperationExecutionContextCompiled revision receipt)) s = (Inr (), t) \<and> run_at m (Some r) True t \<and> same_besides s t"
    and "\<exists>t. record_event run_world (operation_event (TaskId 1) (OperationId 1)
      (SandboxProfileCompiled revision compiled)) s = (Inr (), t) \<and> run_at m (Some r) True t \<and> same_besides s t"
    and "\<exists>t. record_event run_world (operation_event (TaskId 1) (OperationId 1)
      (SandboxLeaseIssued revision lease expires profile_digest digest)) s = (Inr (), t)
      \<and> run_at m (Some r) True t \<and> same_besides s t"
  using run_noted [OF assms(1,2) disjI1 [OF refl]] run_noted [OF assms(1,2) disjI2 [OF disjI1 [OF refl]]]
    run_noted [OF assms(1,2) disjI2 [OF disjI2 [OF refl]]]
  unfolding assms(3) by this+

lemma run_activates:
  assumes plan: "run_plan plan" and at: "run_at 7 (Some r) True s"
    and empty: "dm_sandbox_leases s = Map.empty" "dm_authorized_sandboxes s = Map.empty"
  shows "\<exists>t. activate_authorized_sandbox run_world (TaskId 1) revision (prepared_of plan ''/s/u'') s = (Inr (), t)
    \<and> run_at 10 (Some r) True t \<and> dm_sandbox_leases t = run_lease_ledger plan
    \<and> dm_authorized_sandboxes t = [OperationId 1 \<mapsto> ps_authorized (prepared_of plan ''/s/u'')]
    \<and> dm_processes t = dm_processes s"
proof -
  let ?p = "prepared_of plan ''/s/u''"
  let ?lease = "ecl_lease (ps_lease ?p)"
  have ids: "cl_operation_id ?lease = OperationId 1" "ps_lease ?p = aep_capability_lease plan"
    using plan by (simp_all add: run_plan_def prepared_of_def Let_def)
  obtain t1 where
    t1: "record_event run_world (operation_event (TaskId 1) (OperationId 1)
        (OperationExecutionContextCompiled revision (ps_context_receipt ?p))) s = (Inr (), t1)"
      "run_at 8 (Some r) True t1" "same_besides s t1"
    using run_notes(1) [OF at, where m = 8 and revision = revision and receipt = "ps_context_receipt ?p"] by auto
  obtain t2 where
    t2: "record_event run_world (operation_event (TaskId 1) (OperationId 1)
        (SandboxProfileCompiled revision (slp_compiled (as_plan (ps_authorized ?p))))) t1 = (Inr (), t2)"
      "run_at 9 (Some r) True t2" "same_besides t1 t2"
    using run_notes(2) [OF t1(2), where m = 9 and revision = revision
      and compiled = "slp_compiled (as_plan (ps_authorized ?p))"] by auto
  obtain t3 where
    t3: "record_event run_world (operation_event (TaskId 1) (OperationId 1)
        (SandboxLeaseIssued revision (cl_lease_id ?lease) (cl_expires_at_ms ?lease) (cl_profile_digest ?lease)
           (cl_action_digest ?lease))) t2 = (Inr (), t3)"
      "run_at 10 (Some r) True t3" "same_besides t2 t3"
    using run_notes(3) [OF t2(2), where m = 10 and revision = revision and lease = "cl_lease_id ?lease"
      and expires = "cl_expires_at_ms ?lease" and profile_digest = "cl_profile_digest ?lease"
      and digest = "cl_action_digest ?lease"] by auto
  have same: "same_besides s t3" using t1(3) t2(3) t3(3) by (blast intro: same_besides_trans)
  then have leases: "dm_sandbox_leases t3 = Map.empty" "dm_authorized_sandboxes t3 = Map.empty"
    "dm_processes t3 = dm_processes s"
    using empty by (simp_all add: same_besides_def)
  let ?t = "t3\<lparr>dm_sandbox_leases := run_lease_ledger plan,
      dm_authorized_sandboxes := [OperationId 1 \<mapsto> ps_authorized ?p]\<rparr>"
  have "activate_authorized_sandbox run_world (TaskId 1) revision ?p s = (Inr (), ?t)"
    using t1(1) t2(1) t3(1) leases run_issues [OF plan] ids
    by (simp add: activate_authorized_sandbox_def Let_def succeeds issue_prepared_def store_authorized_def)
  moreover have "run_at 10 (Some r) True ?t" using t3(2) by (simp add: run_at_def)
  ultimately show ?thesis using leases(3) by (intro exI [of _ ?t]) simp
qed

lemma run_decides:
  assumes at: "run_at 5 (Some (run_operation WaitingHuman 3 None)) True s"
    and empty: "dm_sandbox_leases s = Map.empty" "dm_authorized_sandboxes s = Map.empty"
    and dirs: "dm_state_directory s = ''/d''" "dm_scratch_root s = ''/s''"
  shows "\<exists>t plan. decide_permission run_world (TaskId 1) (OperationId 1) 3 AllowOnce s =
      (Inr (run_operation Authorized 4 (Some AllowOnce)), t) \<and> run_plan plan
    \<and> run_at 10 (Some (run_operation Authorized 4 (Some AllowOnce))) True t
    \<and> dm_sandbox_leases t = run_lease_ledger plan
    \<and> dm_authorized_sandboxes t = [OperationId 1 \<mapsto> ps_authorized (prepared_of plan ''/s/u'')]
    \<and> dm_processes t = dm_processes s"
proof -
  obtain plan k where plan: "prepare_authorized_sandbox run_world (run_operation WaitingHuman 3 None) 4 s =
      (Inr (prepared_of plan ''/s/u''), s\<lparr>dm_tick := k\<rparr>)" "run_plan plan"
    using run_prepares [OF dirs] by blast
  let ?s = "s\<lparr>dm_tick := k\<rparr>"
  from run_decided [of 5 ?s] at obtain t1 where
    t1: "record_event run_world (operation_event (TaskId 1) (OperationId 1)
        (PermissionDecided 3 AllowOnce actor.User)) ?s = (Inr (), t1)"
      "run_at 6 (Some (run_operation WaitingHuman 3 (Some AllowOnce))) True t1" "same_besides s t1" by auto
  from run_transits [OF t1(2), of Authorized] obtain t2 where
    t2: "transition run_world (TaskId 1) (OperationId 1) 3 Authorized actor.User
        (Some (''permission decision: '' @ decision_text AllowOnce)) t1
        = (Inr (run_operation Authorized 4 (Some AllowOnce)), t2)"
      "run_at 7 (Some (run_operation Authorized 4 (Some AllowOnce))) True t2" "same_besides t1 t2" by fastforce
  have same: "same_besides s t2" using t1(3) t2(3) by (blast intro: same_besides_trans)
  then have leases: "dm_sandbox_leases t2 = Map.empty" "dm_authorized_sandboxes t2 = Map.empty"
    "dm_processes t2 = dm_processes s"
    using empty by (simp_all add: same_besides_def)
  from run_activates [OF plan(2) t2(2) leases(1,2)] obtain t3 where
    t3: "activate_authorized_sandbox run_world (TaskId 1) 4 (prepared_of plan ''/s/u'') t2 = (Inr (), t3)"
      "run_at 10 (Some (run_operation Authorized 4 (Some AllowOnce))) True t3"
      "dm_sandbox_leases t3 = run_lease_ledger plan"
      "dm_authorized_sandboxes t3 = [OperationId 1 \<mapsto> ps_authorized (prepared_of plan ''/s/u'')]"
      "dm_processes t3 = dm_processes t2" by blast
  have "operations_of s = [OperationId 1 \<mapsto> run_operation WaitingHuman 3 None]"
    "operations_of t3 = [OperationId 1 \<mapsto> run_operation Authorized 4 (Some AllowOnce)]"
    using at t3(2) by (simp_all add: run_at_def)
  then have "decide_permission run_world (TaskId 1) (OperationId 1) 3 AllowOnce s =
      (Inr (run_operation Authorized 4 (Some AllowOnce)), t3)"
    using plan(1) t1(1) t2(1) t3(1)
    by (simp add: decide_permission_def find_operation_def succeeds run_fields validate_operation_scope_def
        allows_def is_shell_def)
  then show ?thesis using plan(2) t3 leases(3) by auto
qed

lemma run_consumes:
  assumes plan: "run_plan plan" and s: "dm_sandbox_leases s = run_lease_ledger plan"
    "dm_authorized_sandboxes s = [OperationId 1 \<mapsto> ps_authorized (prepared_of plan ''/s/u'')]"
  shows "\<exists>t. consume_authorized_sandbox run_world (run_operation Authorized 4 (Some AllowOnce)) s =
      (Inr (ps_authorized (prepared_of plan ''/s/u'')), t)
    \<and> dm_authority t = dm_authority s \<and> dm_processes t = dm_processes s"
proof -
  let ?a = "ps_authorized (prepared_of plan ''/s/u'')"
  have "\<exists>l c. consume_lease (run_lease_ledger plan) (as_lease_id ?a)
      (lease_expectation (run_operation Authorized 4 (Some AllowOnce)) ?a) 100 = Inr (l, c)"
    using plan run_lifetime
    by (simp add: run_plan_def consume_lease_def run_lease_ledger_def prepared_of_def Let_def lease_expectation_def
        run_fields not_le)
  then show ?thesis
    using s by (auto simp: consume_authorized_sandbox_def succeeds ask_Inr now_ms_def run_answers run_fields)
qed

lemma run_spawns:
  assumes "run_plan plan"
  shows "\<exists>builder. spawn_sandboxed (aep_sandbox plan) default_terminal_size = Inr builder"
proof -
  have "trim ''/bin/ls'' = ''/bin/ls''" by (rule trim_graphic) (simp_all add: graphic_def)
  then have "trim (tc_program run_command) \<noteq> []" by (simp add: run_command_def)
  then show ?thesis
    using assms
    by (simp add: run_plan_def spawn_sandboxed_def enforced_plan_def validate_terminal_size_def
        default_terminal_size_def)
qed

lemma run_starts:
  "\<exists>t. start_session run_world owner (Inr b) s = (Inr (TerminalId 1), t) \<and> dm_authority t = dm_authority s
    \<and> dm_processes t = dm_processes s @ [(owner, b)] \<and> dm_terminals t (TerminalId 1) \<noteq> None
    \<and> dm_input_leases t = dm_input_leases s"
  by (simp add: start_session_def succeeds ask_Inr set_session_def run_world_def new_terminal_session_def)

lemma run_subscribes:
  assumes "dm_terminals s (TerminalId 1) \<noteq> None"
  shows "\<exists>t x. subscribe_session (TerminalId 1) 0 s = (Inr x, t) \<and> dm_authority t = dm_authority s
    \<and> dm_processes t = dm_processes s \<and> dm_terminals t (TerminalId 1) \<noteq> None
    \<and> dm_input_leases t = dm_input_leases s"
proof -
  obtain y where y: "dm_terminals s (TerminalId 1) = Some y" using assms by auto
  obtain b x where "subscribe (dm_tick s) (tss_replay y) 0 = (b, x)" by fastforce
  then show ?thesis
    by (simp add: subscribe_session_def succeeds find_session_def supervisor_get_def ask_Inr set_session_def y)
qed

lemma run_dispatches:
  assumes at: "run_at 10 (Some (run_operation Authorized 4 (Some AllowOnce))) True s" and plan: "run_plan plan"
    and s: "dm_sandbox_leases s = run_lease_ledger plan"
      "dm_authorized_sandboxes s = [OperationId 1 \<mapsto> ps_authorized (prepared_of plan ''/s/u'')]"
  shows "\<exists>t r builder. dispatch_terminal run_world (TaskId 1) (OperationId 1) 4 default_terminal_size s = (Inr r, t)
    \<and> dm_processes t = dm_processes s @ [(Some (OperationId 1), builder)]"
proof -
  let ?a = "ps_authorized (prepared_of plan ''/s/u'')"
  have ops: "operations_of s = [OperationId 1 \<mapsto> run_operation Authorized 4 (Some AllowOnce)]"
    using at by (simp add: run_at_def)
  obtain t1 where t1: "consume_authorized_sandbox run_world (run_operation Authorized 4 (Some AllowOnce)) s = (Inr ?a, t1)"
    "dm_authority t1 = dm_authority s" "dm_processes t1 = dm_processes s"
    using run_consumes [OF plan s] by blast
  let ?t1 = "t1\<lparr>dm_tick := dm_tick t1 + 1\<rparr>"
  have "run_at 10 (Some (run_operation Authorized 4 (Some AllowOnce))) True ?t1"
    using at t1(2) by (simp add: run_at_def)
  from run_transits [OF this, of Dispatching actor.System "Some ''sandbox lease consumed before PTY spawn''"]
  obtain t2 where t2: "transition run_world (TaskId 1) (OperationId 1) 4 Dispatching actor.System
        (Some ''sandbox lease consumed before PTY spawn'') ?t1
        = (Inr (run_operation Dispatching 5 (Some AllowOnce)), t2)"
      "run_at 11 (Some (run_operation Dispatching 5 (Some AllowOnce))) True t2" "same_besides ?t1 t2" by auto
  obtain builder where builder: "spawn_sandboxed (as_plan ?a) default_terminal_size = Inr builder"
    using run_spawns [OF plan] by (auto simp: prepared_of_def Let_def)
  obtain t3 where t3: "start_session run_world (Some (OperationId 1)) (Inr builder) t2 = (Inr (TerminalId 1), t3)"
    "dm_authority t3 = dm_authority t2" "dm_processes t3 = dm_processes t2 @ [(Some (OperationId 1), builder)]"
    "dm_terminals t3 (TerminalId 1) \<noteq> None"
    using run_starts by blast
  obtain t4 x where t4: "subscribe_session (TerminalId 1) 0 t3 = (Inr x, t4)" "dm_authority t4 = dm_authority t3"
    "dm_processes t4 = dm_processes t3"
    using run_subscribes [OF t3(4)] by blast
  let ?t4 = "t4\<lparr>dm_terminal_contexts := (dm_terminal_contexts t4)(TerminalId 1 \<mapsto>
        OperationContext \<lparr>otc_task_id = TaskId 1, otc_operation_id = OperationId 1\<rparr>),
      dm_sandbox_executions := (dm_sandbox_executions t4)(TerminalId 1 \<mapsto>
        \<lparr>sec_compiled = slp_compiled (as_plan ?a), sec_started_at_ms = 100,
         sec_scratch_directory = as_scratch_directory ?a\<rparr>)\<rparr>"
  have "run_at 11 (Some (run_operation Dispatching 5 (Some AllowOnce))) True ?t4"
    using t2(2) t3(2) t4(2) by (simp add: run_at_def)
  from run_opened_terminal [OF this, of "TerminalId 1" run_command default_terminal_size] obtain t5 where
    t5: "record_event run_world (operation_event (TaskId 1) (OperationId 1)
        (domain_event.TerminalOpened (TerminalId 1) run_command default_terminal_size)) ?t4 = (Inr (), t5)"
      "same_besides ?t4 t5" by auto
  have started: "start_authorized run_world (TaskId 1) (OperationId 1) 5 ?a 100 default_terminal_size t2
      = (Inr (TerminalId 1), t3)"
    using t3(1) builder by (simp add: start_authorized_def succeeds attempt_step_def)
  have "dispatch_terminal run_world (TaskId 1) (OperationId 1) 4 default_terminal_size s =
      (Inr (TerminalId 1, x), t5\<lparr>dm_tick := dm_tick t5 + 1\<rparr>)"
    using t1(1) t2(1) started t4(1) t5(1)
    by (simp add: dispatch_terminal_def find_operation_def succeeds ops run_fields validate_operation_scope_def
        now_ms_def ask_Inr run_answers set_context_def set_execution_def) (simp add: run_world_def)
  moreover have "dm_processes t5 = dm_processes s @ [(Some (OperationId 1), builder)]"
    using t1(3) t2(3) t3(3) t4(3) t5(2) by (simp add: same_besides_def)
  ultimately show ?thesis by auto
qed

text \<open>The run: a task, a command for it, the permission, and the process.\<close>

lemma run_reaches:
  "\<exists>s0 s builder. open_daemon run_world (Inr ()) (\<lambda>_. Inr ()) (\<lambda>_. Inr ()) sample_open ''/d'' ''/s'' [] = Inr s0
    \<and> (daemon_move run_world)\<^sup>*\<^sup>* s0 s \<and> dm_processes s = [(Some (OperationId 1), builder)]"
proof -
  let ?s0 = "run_opened\<lparr>dm_tick := 2\<rparr>"
  have opened: "dm_sandbox_leases run_opened = Map.empty" "dm_authorized_sandboxes run_opened = Map.empty"
    "dm_state_directory run_opened = ''/d''" "dm_scratch_root run_opened = ''/s''" "dm_processes run_opened = []"
    by (simp_all add: run_opened_def new_daemon_def)
  obtain s1 where s1: "create_task run_world ''t'' ?s0 = (Inr (TaskId 1), s1)" "run_at 1 None False s1"
    "same_besides run_opened s1"
    using run_creates by blast
  obtain s2 where s2: "propose_operation run_world (TaskId 1) operation_kind.Shell (operation_action.Shell run_command)
      ''ls'' ReadOnly [] s1 = (Inr (run_operation WaitingHuman 3 None), s2)"
    "run_at 5 (Some (run_operation WaitingHuman 3 None)) True s2" "same_besides s1 s2"
    using run_proposes [OF s1(2)] by blast
  have s2_rest: "dm_sandbox_leases s2 = Map.empty" "dm_authorized_sandboxes s2 = Map.empty"
    "dm_state_directory s2 = ''/d''" "dm_scratch_root s2 = ''/s''" "dm_processes s2 = []"
    using s1(3) s2(3) opened by (simp_all add: same_besides_def)
  obtain s3 plan r3 where s3: "decide_permission run_world (TaskId 1) (OperationId 1) 3 AllowOnce s2 = (Inr r3, s3)"
    "run_plan plan" "run_at 10 (Some (run_operation Authorized 4 (Some AllowOnce))) True s3"
    "dm_sandbox_leases s3 = run_lease_ledger plan"
    "dm_authorized_sandboxes s3 = [OperationId 1 \<mapsto> ps_authorized (prepared_of plan ''/s/u'')]"
    "dm_processes s3 = []"
    using run_decides [OF s2(2) s2_rest(1-4)] s2_rest(5) by auto
  obtain s4 r4 builder where s4: "dispatch_terminal run_world (TaskId 1) (OperationId 1) 4 default_terminal_size s3
      = (Inr r4, s4)" "dm_processes s4 = [(Some (OperationId 1), builder)]"
    using run_dispatches [OF s3(3,2,4,5)] s3(6) by auto
  have "daemon_move run_world ?s0 s1" "daemon_move run_world s1 s2" "daemon_move run_world s2 s3"
    "daemon_move run_world s3 s4"
    using daemon_move.create_task [OF s1(1)] daemon_move.propose [OF s2(1)] daemon_move.decide [OF s3(1)]
      daemon_move.dispatch [OF s4(1)] by blast+
  then have "(daemon_move run_world)\<^sup>*\<^sup>* ?s0 s4" by (meson converse_rtranclp_into_rtranclp rtranclp.rtrancl_refl)
  with run_opens s4(2) show ?thesis by blast
qed


section \<open>A restart\<close>

lemma run_reads_line:
  assumes "k \<noteq> 10" and "from_slice run_codec [k] = Inr e" and "ev_sequence e = n" and "validate_event e = Inr ()"
  shows "read_loop run_codec n acc (k # 10 # rest) = read_loop run_codec (n + 1) (acc @ [e]) rest"
  using assms by (subst read_loop.simps) (simp add: MAX_EVENT_LINE_BYTES_def newline_def)

lemma run_event_fields:
  "ev_sequence (run_event n p) = n" "n \<noteq> 0 \<Longrightarrow> validate_event (run_event n p) = Inr ()"
  "ev_task_id (run_event n p) = TaskId 1" "ev_operation_id (run_event n p) = Some (OperationId 1)"
  "ev_payload (run_event n p) = p"
  by (simp_all add: run_event_def sample_envelope_def validate_event_def)

lemma run_history_reads: "read_existing run_codec [1, 10, 2, 10, 3, 10, 4, 10, 5, 10] = Inr run_history"
proof -
  have lines: "from_slice run_codec [1] = Inr (run_history ! 0)" "from_slice run_codec [2] = Inr (run_history ! 1)"
    "from_slice run_codec [3] = Inr (run_history ! 2)" "from_slice run_codec [4] = Inr (run_history ! 3)"
    "from_slice run_codec [5] = Inr (run_history ! 4)"
    by (simp_all add: run_codec_def run_history_def)
  show ?thesis
    unfolding read_existing_def
    by (simp add: run_reads_line [OF _ lines(1)] run_reads_line [OF _ lines(2)] run_reads_line [OF _ lines(3)]
        run_reads_line [OF _ lines(4)] run_reads_line [OF _ lines(5)] run_history_def run_event_fields
        read_loop_end)
qed

lemma run_loads:
  "\<exists>p. try_fold (load_event run_uuids (\<lambda>_. Inr ())) ({}, Map.empty, Map.empty) run_history
      = Inr ({TaskId 1}, [OperationId 1 \<mapsto> run_operation Dispatching 4 None], [TaskId 1 \<mapsto> p]) \<and> run_blocks 5 True False p"
proof -
  let ?load = "load_event run_uuids (\<lambda>_. Inr ())"
  have project: "\<exists>p patch. project_event run_uuids (new_projector (TaskId 1)) (run_history ! 0) = Inr (p, patch)
      \<and> run_blocks 1 False False p"
    by (simp add: run_history_def run_event_def sample_envelope_def run_project_defs new_projector_def run_blocks_def
        run_block_def)
  then obtain p1 where p1: "run_blocks 1 False False p1"
    "?load ({}, Map.empty, Map.empty) (run_history ! 0) = Inr ({TaskId 1}, Map.empty, [TaskId 1 \<mapsto> p1])"
    by (auto simp: load_event_def load_task_def check_artifact_def apply_event_def apply_operation_def run_history_def
        run_event_fields)
  obtain p2 where p2: "run_blocks 2 True False p2" "?load ({TaskId 1}, Map.empty, [TaskId 1 \<mapsto> p1]) (run_history ! 1)
      = Inr ({TaskId 1}, [OperationId 1 \<mapsto> run_operation Proposed 1 None], [TaskId 1 \<mapsto> p2])"
    using run_projects(1) [OF p1(1), of "run_history ! 1"]
    by (auto simp: load_event_def load_task_def check_artifact_def apply_event_def apply_operation_defs run_history_def
        run_event_fields run_operation_def)
  obtain p3 where p3: "run_blocks 3 True False p3" "?load ({TaskId 1}, [OperationId 1 \<mapsto> run_operation Proposed 1 None],
      [TaskId 1 \<mapsto> p2]) (run_history ! 2)
      = Inr ({TaskId 1}, [OperationId 1 \<mapsto> run_operation PolicyCheck 2 None], [TaskId 1 \<mapsto> p3])"
    using run_projects(2) [OF p2(1), of "run_history ! 2"]
    by (auto simp: load_event_def load_task_def check_artifact_def apply_event_def apply_operation_defs run_history_def
        run_event_fields run_operation_def)
  obtain p4 where p4: "run_blocks 4 True False p4" "?load ({TaskId 1}, [OperationId 1 \<mapsto> run_operation PolicyCheck 2 None],
      [TaskId 1 \<mapsto> p3]) (run_history ! 3)
      = Inr ({TaskId 1}, [OperationId 1 \<mapsto> run_operation Authorized 3 None], [TaskId 1 \<mapsto> p4])"
    using run_projects(2) [OF p3(1), of "run_history ! 3"]
    by (auto simp: load_event_def load_task_def check_artifact_def apply_event_def apply_operation_defs run_history_def
        run_event_fields run_operation_def)
  obtain p5 where p5: "run_blocks 5 True False p5" "?load ({TaskId 1}, [OperationId 1 \<mapsto> run_operation Authorized 3 None],
      [TaskId 1 \<mapsto> p4]) (run_history ! 4)
      = Inr ({TaskId 1}, [OperationId 1 \<mapsto> run_operation Dispatching 4 None], [TaskId 1 \<mapsto> p5])"
    using run_projects(2) [OF p4(1), of "run_history ! 4"]
    by (auto simp: load_event_def load_task_def check_artifact_def apply_event_def apply_operation_defs run_history_def
        run_event_fields run_operation_def)
  have events: "run_history = [run_history ! 0, run_history ! 1, run_history ! 2, run_history ! 3, run_history ! 4]"
    by (simp add: run_history_def)
  show ?thesis by (subst events) (simp only: try_fold.simps p1(2) p2(2) p3(2) p4(2) p5 and_then_simps, blast intro: p5(1))
qed

lemma run_one_record: "operation_records order [OperationId 1 \<mapsto> r] = [r]"
  by (simp add: operation_records_def)

lemma run_restarts:
  "\<exists>s. open_daemon run_world (Inr ()) (\<lambda>_. Inr ()) (\<lambda>_. Inr ()) sample_open ''/d'' ''/s'' [1, 10, 2, 10, 3, 10, 4, 10, 5, 10]
      = Inr s \<and> operations_of s (OperationId 1) = Some (run_operation operation_state.UnknownExecution 5 None)"
proof -
  let ?r = "run_operation Dispatching 4 None" and ?r' = "run_operation operation_state.UnknownExecution 5 None"
  let ?file = "[1, 10, 2, 10, 3, 10, 4, 10, 5, 10] :: bytes"
  let ?j = "\<lparr>jl_path = ''/d/events.jsonl'', jl_file = ?file, jl_events = run_history\<rparr>"
  have paths: "path_push ''/d'' ''events.jsonl'' = ''/d/events.jsonl''"
    by (simp add: path_push_def is_absolute_def)
  obtain p where p: "try_fold (load_event run_uuids (\<lambda>_. Inr ())) ({}, Map.empty, Map.empty) run_history
      = Inr ({TaskId 1}, [OperationId 1 \<mapsto> ?r], [TaskId 1 \<mapsto> p])" "run_blocks 5 True False p"
    using run_loads by blast
  let ?a = "\<lparr>au_journal = ?j, au_operations = [OperationId 1 \<mapsto> ?r], au_projectors = [TaskId 1 \<mapsto> p]\<rparr>"
  have authority: "open_authority run_codec run_uuids (\<lambda>_. Inr ()) sample_open ''/d/events.jsonl'' ?file = Inr ?a"
    using p(1) run_history_reads
    by (simp add: open_authority_def open_journal_def sample_open_def open_private_journal_def load_authority_def)
  let ?s = "(new_daemon ?a ''/d'' (path_push ''/d'' ''isolated-results'') ''/s'')\<lparr>dm_tick := 1\<rparr>"
  have "run_at 5 (Some ?r) False ?s"
    using p(2) by (auto simp: run_at_def new_daemon_def last_sequence_def run_history_def run_event_fields)
  from run_transits [OF this, of operation_state.UnknownExecution actor.System
      "Some ''daemon restarted without a reattachable PTY receipt''"] obtain t where
    t: "transition run_world (TaskId 1) (OperationId 1) 4 operation_state.UnknownExecution actor.System
        (Some ''daemon restarted without a reattachable PTY receipt'') ?s = (Inr ?r', t)" "run_at 6 (Some ?r') False t"
    by auto
  have ops: "operations_of t = [OperationId 1 \<mapsto> ?r']" using t(2) by (simp add: run_at_def)
  have world: "de_events run_world = run_codec" "de_uuids run_world = run_uuids" by (simp_all add: run_world_def)
  have first: "reconcile_interrupted_dispatches run_world (new_daemon ?a ''/d'' (path_push ''/d'' ''isolated-results'') ''/s'')
      = (Inr (), t)"
    using t(1)
    by (simp add: reconcile_interrupted_dispatches_def reconcile_def succeeds ask_Inr run_one_record run_fields)
      (simp add: new_daemon_def run_one_record run_fields succeeds)
  have second: "reconcile_unrecoverable_sandbox_authorizations run_world t = (Inr (), t\<lparr>dm_tick := dm_tick t + 1\<rparr>)"
    by (simp add: reconcile_unrecoverable_sandbox_authorizations_def reconcile_def succeeds ask_Inr ops run_one_record
        run_fields)
  have "open_daemon run_world (Inr ()) (\<lambda>_. Inr ()) (\<lambda>_. Inr ()) sample_open ''/d'' ''/s'' ?file = Inr (t\<lparr>dm_tick := dm_tick t + 1\<rparr>)"
    by (simp add: open_daemon_def world paths authority then_step_def bind_step_def first second)
  then show ?thesis using ops by auto
qed

end
