(* ===== verification/Daemon_Properties.thy ===== *)
theory Daemon_Properties
  imports Daemon_Run
begin

text \<open>
  What the daemon promises over every sequence of its methods: whose processes run, what a
  restart leaves, and who may type into a terminal.
\<close>

section \<open>Input leases\<close>

text \<open>The lease of a terminal is of its current generation.\<close>

definition leases_ok :: "daemon_state \<Rightarrow> bool" where
  "leases_ok s \<longleftrightarrow> (\<forall>terminal l. dm_input_leases s terminal = Some l \<longrightarrow>
     dm_lease_generations s terminal = Some (il_generation l))"

definition keeps_leases :: "daemon_state \<Rightarrow> daemon_state \<Rightarrow> bool" where
  "keeps_leases s t \<longleftrightarrow> (leases_ok s \<longrightarrow> leases_ok t)"

lemma keeps_leases_acquire: "obeys keeps_leases (acquire_input_lease E terminal client)"
  by (auto simp: obeys_def keeps_leases_def leases_ok_def acquire_input_lease_def then_step_def bind_step_def
      find_session_def read_step_def lift_step_def return_step_def fail_step_def update_step_def
      update_input_leases_def ask_def Let_def split: option.splits sum.splits if_splits)

interpretation leased: daemon_total keeps_leases
proof
  show "keeps_leases s s" for s by (simp add: keeps_leases_def)
  show "keeps_leases s t \<Longrightarrow> keeps_leases t u \<Longrightarrow> keeps_leases s u" for s t u by (simp add: keeps_leases_def)
  show "aside u \<Longrightarrow> keeps_leases s (u s)" for u s
    by (auto simp: aside_def keeps_leases_def leases_ok_def map_le_def) (metis domI)
qed (simp_all add: keeps_leases_acquire, simp_all add: keeps_leases_def leases_ok_def)

lemma open_leases_ok:
  assumes "open_daemon E prepared read_artifact recovered io dir scratch file = Inr s"
  shows "leases_ok s"
  using leased.keep_open [OF assms] by (auto simp: keeps_leases_def leases_ok_def new_daemon_def)

lemma run_leases_ok:
  assumes "open_daemon E prepared read_artifact recovered io dir scratch file = Inr s0" and "(daemon_move E)\<^sup>*\<^sup>* s0 s"
  shows "leases_ok s"
  using leased.keep_run [OF assms(2)] open_leases_ok [OF assms(1)] by (simp add: keeps_leases_def)

lemma release_client_run:
  "release_client client s = (Inr (), s\<lparr>dm_input_leases := \<lambda>terminal. case dm_input_leases s terminal of
     Some lease \<Rightarrow> if il_client_id lease \<noteq> client then Some lease else None | None \<Rightarrow> None\<rparr>)"
  by (simp add: release_client_def update_input_leases_def update_step_def)

lemma acquire_run:
  assumes "dm_terminals s terminal \<noteq> None"
  shows "acquire_input_lease E terminal client s = (case dm_input_leases s terminal of
     Some l \<Rightarrow> if il_client_id l = client then (Inr (il_lease_id l, il_generation l), s)
       else (Inl (InputLeaseHeld terminal), s)
   | None \<Rightarrow> (let g = (case dm_lease_generations s terminal of None \<Rightarrow> 0 | Some g \<Rightarrow> g) + 1;
         i = InputLeaseId (de_fresh E (dm_tick s)) in
       (Inr (i, g), s\<lparr>dm_tick := dm_tick s + 1, dm_lease_generations := (dm_lease_generations s)(terminal \<mapsto> g),
          dm_input_leases := (dm_input_leases s)(terminal \<mapsto>
            \<lparr>il_lease_id = i, il_client_id = client, il_generation = g\<rparr>)\<rparr>)))"
  using assms
  by (auto simp: acquire_input_lease_def find_session_def supervisor_get_def run_step_simps update_input_leases_def
      fail_step_def Let_def split: option.splits)

lemma filter_key_once:
  "distinct (map f xs) \<Longrightarrow> k \<in> f ` set xs \<Longrightarrow> length (filter (\<lambda>x. f x = k) xs) = 1"
proof (induction xs)
  case (Cons x xs)
  then have "f x = k \<Longrightarrow> filter (\<lambda>x. f x = k) xs = []" by (auto simp: filter_empty_conv image_iff)
  with Cons show ?case by auto
qed simp

section \<open>Properties\<close>

text \<open>
  C1. A process of the daemon was allowed by the user. After any sequence of the daemon's
  methods, interleaved in any way with the steps of its monitor threads, a process that runs for
  an operation runs for one that is in the reducer, whose permission a user decision in the
  journal allowed; its command line is the operation's own, wrapped by a backend that enforces
  the operation's sandbox profile; and no operation ever has a second process.
\<close>

theorem processes_are_user_allowed:
  assumes "open_daemon E prepared read_artifact recovered io dir scratch file = Inr s0"
    and "(daemon_move E)\<^sup>*\<^sup>* s0 s" and "(Some oid, builder) \<in> set (dm_processes s)"
  shows "user_allowed oid (journal_events s)
    \<and> (\<exists>r plan dims. operations_of s oid = Some r \<and> 4 \<le> state_rank (op_state r)
        \<and> plan_for E (dm_state_directory s) r plan \<and> spawn_sandboxed plan dims = Inr builder)
    \<and> length (filter (\<lambda>p. fst p = Some oid) (dm_processes s)) = 1"
proof -
  have inv: "daemon_inv E s" using daemon_inv_run [OF assms(2)] open_daemon_inv [OF assms(1)] by blast
  have owned: "(Some oid, builder) \<in> set (operation_processes s)" using assms(3) by (simp add: operation_processes_def)
  then have "process_ok E s (Some oid, builder)" using inv by (auto simp: daemon_inv_def list_all_iff)
  then obtain plan dims r r' where p: "user_allowed oid (journal_events s)" "operations_of s oid = Some r"
    "plan_for E (dm_state_directory s) r plan" "spawn_sandboxed plan dims = Inr builder" "4 \<le> state_rank (op_state r)"
    by (auto simp: process_ok_def granted_def started_def)
  have "filter (\<lambda>p. fst p = Some oid) (dm_processes s) = filter (\<lambda>p. fst p = Some oid) (operation_processes s)"
    by (auto simp: operation_processes_def intro!: filter_cong)
  moreover have "length (filter (\<lambda>p. fst p = Some oid) (operation_processes s)) = 1"
    using inv image_eqI [OF _ owned, of "Some oid" fst] by (intro filter_key_once) (simp_all add: daemon_inv_def)
  ultimately show ?thesis using p by auto
qed

theorem processes_are_user_allowed_witness:
  "\<exists>s0 s builder. (daemon_move run_world)\<^sup>*\<^sup>* s0 s \<and> (Some (OperationId 1), builder) \<in> set (dm_processes s)
    \<and> user_allowed (OperationId 1) (journal_events s)"
proof -
  obtain s0 s builder where
    s: "open_daemon run_world (Inr ()) (\<lambda>_. Inr ()) (\<lambda>_. Inr ()) sample_open ''/d'' ''/s'' [] = Inr s0"
    "(daemon_move run_world)\<^sup>*\<^sup>* s0 s" "dm_processes s = [(Some (OperationId 1), builder)]"
    using run_reaches by blast
  have owned: "(Some (OperationId 1), builder) \<in> set (dm_processes s)" using s(3) by simp
  from processes_are_user_allowed [OF s(1,2) owned] s(2) owned show ?thesis by blast
qed

text \<open>
  C25. A restart settles what was interrupted, and changes nothing else. When the daemon has
  opened its state, its operations are exactly those that the journal leads to, but that each
  that was dispatching is an unknown execution, and each command that was authorized has failed,
  at the next revision; so none is left in either state. No process and no sandbox
  authorization is left from before.
\<close>

theorem restart_settles:
  assumes "open_daemon E prepared read_artifact recovered io dir scratch file = Inr s"
  shows "(\<exists>a. open_authority (de_events E) (de_uuids E) read_artifact io (path_push dir ''events.jsonl'') file = Inr a
      \<and> operations_of s = (\<lambda>oid. map_option after_restart (au_operations a oid)))
    \<and> (\<forall>oid. \<not> (case operations_of s oid of None \<Rightarrow> False | Some r \<Rightarrow>
        op_state r = Dispatching \<or> op_state r = Authorized \<and> is_shell (op_action r)))
    \<and> operation_processes s = [] \<and> dm_authorized_sandboxes s = Map.empty"
proof -
  from open_settles [OF assms] obtain a where
    a: "open_authority (de_events E) (de_uuids E) read_artifact io (path_push dir ''events.jsonl'') file = Inr a"
    "operations_of s = (\<lambda>oid. map_option after_restart (au_operations a oid))" by blast
  have "\<not> (case operations_of s oid of None \<Rightarrow> False | Some r \<Rightarrow>
      op_state r = Dispatching \<or> op_state r = Authorized \<and> is_shell (op_action r))" for oid
    by (cases "au_operations a oid") (simp_all add: a(2) after_restart_def settled_def)
  moreover from open_daemon_quiet [OF assms] have "operation_processes s = []" "dm_authorized_sandboxes s = Map.empty"
    by (auto simp: quiet_def new_daemon_def operation_processes_def map_le_def domIff fun_eq_iff)
  ultimately show ?thesis using a by blast
qed

text \<open>
  C24. The keyboard of a terminal is held by one client at a time, and it can be taken over. In
  every state the daemon reaches, while a client holds the input lease of a terminal, the client
  gets the same lease again, every other client is refused it, and a frame that does not carry
  the lease and its client is refused; a refusal changes nothing. When the holder is gone, the
  next client that asks gets a lease of the following generation.
\<close>

theorem input_lease_is_exclusive:
  assumes "open_daemon E prepared read_artifact recovered io dir scratch file = Inr s0" and "(daemon_move E)\<^sup>*\<^sup>* s0 s"
    and "dm_terminals s terminal \<noteq> None" and "dm_input_leases s terminal = Some l"
  shows "acquire_input_lease E terminal (il_client_id l) s = (Inr (il_lease_id l, il_generation l), s)
    \<and> (\<forall>client. client = il_client_id l \<or>
        acquire_input_lease E terminal client s = (Inl (InputLeaseHeld terminal), s))
    \<and> (\<forall>client frame. tif_terminal_id frame \<noteq> terminal \<or>
        (tif_lease_id frame = il_lease_id l \<and> client = il_client_id l) \<or>
        write_terminal_input E client frame s = (Inl (InputLeaseMismatch terminal), s))
    \<and> (\<exists>t. release_client (il_client_id l) s = (Inr (), t)
        \<and> (\<forall>client. \<exists>i u. acquire_input_lease E terminal client t = (Inr (i, il_generation l + 1), u)
            \<and> dm_input_leases u terminal = Some \<lparr>il_lease_id = i, il_client_id = client,
                il_generation = il_generation l + 1\<rparr>))"
proof -
  have generation: "dm_lease_generations s terminal = Some (il_generation l)"
    using run_leases_ok [OF assms(1,2)] assms(4) by (simp add: leases_ok_def)
  have "write_terminal_input E client frame s = (Inl (InputLeaseMismatch terminal), s)"
    if "tif_terminal_id frame = terminal" "\<not> (tif_lease_id frame = il_lease_id l \<and> client = il_client_id l)" for client frame
    using that assms(4) by (auto simp: write_terminal_input_def held_lease_def run_step_simps fail_step_def)
  then show ?thesis
    using assms(3,4) generation by (auto simp: acquire_run release_client_run Let_def)
qed


section \<open>Witnesses\<close>

text \<open>The user's own shell, and a client that types into it.\<close>

lemma run_user_shell:
  "\<exists>x t. open_user_shell run_world (Some ''/w'') default_terminal_size s = (Inr x, t)
    \<and> dm_terminals t (TerminalId 1) \<noteq> None \<and> dm_input_leases t = dm_input_leases s"
proof -
  have "\<exists>b. spawn_user_shell run_shell_host \<lparr>usc_shell = None, usc_cwd = Some ''/w'', usc_environment = []\<rparr>
      default_terminal_size = Inr b"
    by (simp add: spawn_user_shell_def resolved_profile_def validate_terminal_size_def default_terminal_size_def Let_def
        validate_working_directory_def validate_shell_program_def run_shell_host_def is_absolute_def is_executable_def)
  then obtain b where b: "spawn_user_shell run_shell_host \<lparr>usc_shell = None, usc_cwd = Some ''/w'', usc_environment = []\<rparr>
      default_terminal_size = Inr b" by blast
  let ?s = "s\<lparr>dm_tick := dm_tick s + 2\<rparr>"
  obtain t where t: "start_session run_world None (Inr b) ?s = (Inr (TerminalId 1), t)"
    "dm_terminals t (TerminalId 1) \<noteq> None" "dm_input_leases t = dm_input_leases s"
    using run_starts [of None b ?s] by auto
  obtain u x where "subscribe_session (TerminalId 1) 0 t = (Inr x, u)" "dm_terminals u (TerminalId 1) \<noteq> None"
    "dm_input_leases u = dm_input_leases t"
    using run_subscribes [OF t(2)] by blast
  moreover have "de_user_shell run_world n = \<lparr>usc_shell = None, usc_cwd = None, usc_environment = []\<rparr>"
    "de_shell_host run_world n = run_shell_host" "de_thread run_world n = None" for n
    by (simp_all add: run_world_def)
  ultimately show ?thesis
    using t b by (simp add: open_user_shell_def succeeds ask_Inr attempt_step_def set_context_def)
qed

lemma run_types:
  "\<exists>s l. (daemon_move run_world)\<^sup>*\<^sup>* (run_opened\<lparr>dm_tick := 2\<rparr>) s \<and> dm_terminals s (TerminalId 1) \<noteq> None
    \<and> dm_input_leases s (TerminalId 1) = Some l \<and> il_client_id l = ClientId 7"
proof -
  obtain x t where t: "open_user_shell run_world (Some ''/w'') default_terminal_size (run_opened\<lparr>dm_tick := 2\<rparr>) = (Inr x, t)"
    "dm_terminals t (TerminalId 1) \<noteq> None" "dm_input_leases t (TerminalId 1) = None"
    using run_user_shell [of "run_opened\<lparr>dm_tick := 2\<rparr>"] by (auto simp: run_opened_def new_daemon_def)
  obtain r u where u: "acquire_input_lease run_world (TerminalId 1) (ClientId 7) t = (r, u)" by fastforce
  have "daemon_move run_world (run_opened\<lparr>dm_tick := 2\<rparr>) t" "daemon_move run_world t u"
    using daemon_move.user_shell [OF t(1)] daemon_move.acquire [OF u] by blast+
  then have "(daemon_move run_world)\<^sup>*\<^sup>* (run_opened\<lparr>dm_tick := 2\<rparr>) u"
    by (meson converse_rtranclp_into_rtranclp rtranclp.rtrancl_refl)
  moreover have "dm_terminals u (TerminalId 1) \<noteq> None"
    "\<exists>l. dm_input_leases u (TerminalId 1) = Some l \<and> il_client_id l = ClientId 7"
    using u t(2,3) by (auto simp: acquire_run Let_def)
  ultimately show ?thesis by blast
qed

theorem restart_settles_witness:
  "\<exists>s. open_daemon run_world (Inr ()) (\<lambda>_. Inr ()) (\<lambda>_. Inr ()) sample_open ''/d'' ''/s'' [1, 10, 2, 10, 3, 10, 4, 10, 5, 10] = Inr s
    \<and> operations_of s (OperationId 1) = Some (run_operation operation_state.UnknownExecution 5 None)
    \<and> operation_processes s = []"
proof -
  obtain s where s: "open_daemon run_world (Inr ()) (\<lambda>_. Inr ()) (\<lambda>_. Inr ()) sample_open ''/d'' ''/s''
      [1, 10, 2, 10, 3, 10, 4, 10, 5, 10] = Inr s"
    "operations_of s (OperationId 1) = Some (run_operation operation_state.UnknownExecution 5 None)"
    using run_restarts by blast
  with restart_settles [OF s(1)] show ?thesis by blast
qed

theorem input_lease_is_exclusive_witness:
  "\<exists>s. acquire_input_lease run_world (TerminalId 1) (ClientId 8) s = (Inl (InputLeaseHeld (TerminalId 1)), s)"
proof -
  obtain s l where s: "(daemon_move run_world)\<^sup>*\<^sup>* (run_opened\<lparr>dm_tick := 2\<rparr>) s"
    "dm_terminals s (TerminalId 1) \<noteq> None" "dm_input_leases s (TerminalId 1) = Some l" "il_client_id l = ClientId 7"
    using run_types by blast
  have "ClientId 8 \<noteq> il_client_id l" using s(4) by simp
  with input_lease_is_exclusive [OF run_opens s(1-3)] show ?thesis by blast
qed

end
