(* ===== verification/Decimal.thy ===== *)
theory Decimal
  imports Std_Model
begin

text \<open>
  Decimal text of the standard library: what \<^verbatim>\<open>{}\<close> prints for an unsigned integer and what
  \<^verbatim>\<open>str::parse\<close> reads, which is one or more digits after an optional plus sign and a value
  within the width of the type.
\<close>

definition digit_char :: "nat \<Rightarrow> char" where
  "digit_char n = char_of (48 + n)"

fun decimal :: "nat \<Rightarrow> string" where
  "decimal n = (if n < 10 then [digit_char n] else decimal (n div 10) @ [digit_char (n mod 10)])"

declare decimal.simps [simp del]

definition digit_value :: "char \<Rightarrow> nat" where
  "digit_value c = of_char c - 48"

definition number_value :: "string \<Rightarrow> nat" where
  "number_value s = foldl (\<lambda>n c. 10 * n + digit_value c) 0 s"

definition parse_unsigned :: "string \<Rightarrow> 'a::len word option" where
  "parse_unsigned s =
     (let digits = (case s of [] \<Rightarrow> [] | c # ds \<Rightarrow> if c = CHR ''+'' then ds else s) in
      if digits = [] \<or> \<not> list_all is_ascii_digit digits \<or> number_value digits \<ge> 2 ^ LENGTH('a)
      then None else Some (of_nat (number_value digits)))"

lemma of_char_digit: "n < 10 \<Longrightarrow> (of_char (digit_char n) :: nat) = 48 + n"
  by (simp add: digit_char_def)

lemma digit_char_digit: "n < 10 \<Longrightarrow> is_ascii_digit (digit_char n)"
  by (simp add: is_ascii_digit_def less_eq_char_def of_char_digit)

lemma digit_value_char: "n < 10 \<Longrightarrow> digit_value (digit_char n) = n"
  by (simp add: digit_value_def of_char_digit)

lemma decimal_digits: "list_all is_ascii_digit (decimal n)"
proof (induction n rule: decimal.induct)
  case (1 n)
  then show ?case by (subst decimal.simps) (simp add: digit_char_digit)
qed

lemma decimal_ne: "decimal n \<noteq> []"
  by (subst decimal.simps) simp

lemma number_value_snoc: "number_value (s @ [c]) = 10 * number_value s + digit_value c"
  by (simp add: number_value_def)

lemma number_value_decimal: "number_value (decimal n) = n"
proof (induction n rule: decimal.induct)
  case (1 n)
  show ?case
  proof (cases "n < 10")
    case True
    then show ?thesis by (subst decimal.simps) (simp add: number_value_def digit_value_char)
  next
    case False
    with 1 show ?thesis by (subst decimal.simps) (simp add: number_value_snoc digit_value_char)
  qed
qed

lemma decimal_inject [simp]: "decimal m = decimal n \<longleftrightarrow> m = n"
  by (metis number_value_decimal)

lemma digit_not_plus: "is_ascii_digit c \<Longrightarrow> c \<noteq> CHR ''+''"
  by (auto simp: is_ascii_digit_def less_eq_char_def)

lemma parse_decimal:
  assumes "n < 2 ^ LENGTH('a)"
  shows "parse_unsigned (decimal n) = Some (of_nat n :: 'a::len word)"
proof -
  obtain c cs where d: "decimal n = c # cs" using decimal_ne by (cases "decimal n") auto
  with decimal_digits [of n] have digits: "is_ascii_digit c" "list_all is_ascii_digit cs" by simp_all
  from d have "number_value (c # cs) = n" using number_value_decimal by metis
  with d digits assms show ?thesis by (simp add: parse_unsigned_def digit_not_plus Let_def)
qed

lemma parse_unsigned_Some:
  "parse_unsigned s = Some (w :: 'a::len word) \<longleftrightarrow>
     (\<exists>sign ds. s = sign @ ds \<and> sign \<in> {[], ''+''} \<and> ds \<noteq> [] \<and> list_all is_ascii_digit ds
        \<and> number_value ds < 2 ^ LENGTH('a) \<and> unat w = number_value ds)"
proof -
  define ok where "ok ds \<longleftrightarrow> ds \<noteq> [] \<and> list_all is_ascii_digit ds \<and> number_value ds < 2 ^ LENGTH('a)
    \<and> unat w = number_value ds" for ds
  have read: "(if ds = [] \<or> \<not> list_all is_ascii_digit ds \<or> number_value ds \<ge> 2 ^ LENGTH('a)
      then None else Some (of_nat (number_value ds))) = Some w \<longleftrightarrow> ok ds" for ds
    by (auto simp: ok_def unat_of_nat take_bit_nat_eq_self) (metis of_nat_unat ucast_id)
  have plus: "\<not> is_ascii_digit CHR ''+''" using digit_not_plus by blast
  have "(\<exists>sign ds. s = sign @ ds \<and> sign \<in> {[], ''+''} \<and> ok ds)
      \<longleftrightarrow> ok s \<or> (\<exists>ds. s = CHR ''+'' # ds \<and> ok ds)"
    by (auto intro: exI [of _ "''+''"])
  moreover have "parse_unsigned s = Some w \<longleftrightarrow>
      ok (case s of [] \<Rightarrow> [] | c # ds \<Rightarrow> if c = CHR ''+'' then ds else s)"
    unfolding parse_unsigned_def Let_def by (rule read)
  moreover have "\<not> ok (CHR ''+'' # ds)" "\<not> ok []" for ds using plus by (simp_all add: ok_def)
  ultimately have "parse_unsigned s = Some w \<longleftrightarrow>
      (\<exists>sign ds. s = sign @ ds \<and> sign \<in> {[], ''+''} \<and> ok ds)"
    by (cases s) auto
  then show ?thesis by (simp only: ok_def)
qed

end
