(* ===== verification/Seatbelt.thy ===== *)
theory Seatbelt
  imports Sandbox Terminal Journal Decimal
begin

text \<open>
  The launcher of native operations on macOS, \<open>MacOsSeatbeltLauncher\<close> of
  \<^verbatim>\<open>hyper-term-sandbox/src/macos.rs\<close>: it resolves the paths of a profile on the host,
  writes the policy text for \<^verbatim>\<open>sandbox-exec\<close> and builds the command that runs under it.
  The file system and the two policy texts that the build includes are the parameter
  \<open>seatbelt_host\<close>; one compilation reads the file system in one state. Paths are strings, so
  the source's lossy conversion of a path is the path itself.
\<close>

section \<open>The host\<close>

record seatbelt_host =
  sbh_macos :: bool
  sbh_canonicalize :: "string \<Rightarrow> io_error + string"
  sbh_is_file :: "string \<Rightarrow> io_error + bool"
  sbh_is_dir :: "string \<Rightarrow> bool"
  sbh_io_text :: "io_error \<Rightarrow> string"
  sbh_base_policy :: string
  sbh_network_support_policy :: string

definition MACOS_SEATBELT_EXECUTABLE :: string where
  "MACOS_SEATBELT_EXECUTABLE = ''/usr/bin/sandbox-exec''"

record seatbelt_policy_artifact =
  spa_policy :: string
  spa_definitions :: "(string, string) btree"

record seatbelt_compilation =
  sbc_launch_plan :: sandbox_launch_plan
  sbc_artifact :: seatbelt_policy_artifact

section \<open>The network endpoint\<close>

definition strip_prefix :: "string \<Rightarrow> string \<Rightarrow> string option" where
  "strip_prefix p s = (if starts_with p s then Some (drop (length p) s) else None)"

definition strip_suffix :: "string \<Rightarrow> string \<Rightarrow> string option" where
  "strip_suffix p s = (if ends_with p s then Some (take (length s - length p) s) else None)"

text \<open>Some character is white space: the encoding of one starts somewhere.\<close>

fun has_white :: "string \<Rightarrow> bool" where
  "has_white [] = False"
| "has_white (c # s) = (leading_white white_space (c # s) \<noteq> 0 \<or> has_white s)"

definition proxy_loopback_port :: "sandbox_network_policy \<Rightarrow> sandbox_error + u16 option" where
  "proxy_loopback_port network = (case network of
       Offline \<Rightarrow> Inr None
     | ProxyOnly url _ _ \<Rightarrow>
         and_then (ok_or (strip_prefix ''http://'' url) (BackendError
           ''Seatbelt proxy-only networking requires an HTTP loopback endpoint'')) (\<lambda>authority.
         let authority = (case strip_suffix ''/'' authority of None \<Rightarrow> authority | Some a \<Rightarrow> a) in
         if authority = [] \<or> list_ex (\<lambda>c. c \<in> set ''/?#@'') authority \<or> has_white authority
         then Inl (BackendError
           ''Seatbelt proxy endpoint must not contain credentials, paths, queries, or fragments'')
         else and_then (ok_or (split_once CHR '':'' authority) (BackendError
           ''Seatbelt proxy endpoint requires an explicit port'')) (\<lambda>(host, port).
         if host \<noteq> ''127.0.0.1'' \<or> CHR '':'' \<in> set port
         then Inl (BackendError ''Seatbelt proxy endpoint must use the IPv4 loopback address'')
         else (case parse_unsigned port of
             None \<Rightarrow> Inl (BackendError ''Seatbelt proxy endpoint has an invalid port'')
           | Some port \<Rightarrow>
               if port = 0 then Inl (BackendError ''Seatbelt proxy endpoint has an invalid port'')
               else Inr (Some port)))))"

definition validate_network_policy :: "sandbox_network_policy \<Rightarrow> sandbox_error + unit" where
  "validate_network_policy network =
     (if (case network of ProxyOnly _ hosts _ \<Rightarrow> hosts = [] | Offline \<Rightarrow> False)
      then Inl (BackendError ''Seatbelt proxy-only networking requires an explicit host allowlist'')
      else and_then (proxy_loopback_port network) (\<lambda>_. Inr ()))"

definition validate_supported_contract :: "sandbox_profile \<Rightarrow> sandbox_error + unit" where
  "validate_supported_contract profile =
     (if sp_enforcement profile \<noteq> Native
      then Inl (BackendError ''Seatbelt implements native operation isolation, not isolated tasks'')
      else and_then (validate_network_policy (sp_network profile)) (\<lambda>_.
      if sp_lifetime profile \<notin> {sandbox_lifetime.OneOperation, sandbox_lifetime.OneTask}
      then Inl (BackendError ''Seatbelt does not support the requested sandbox lifetime'')
      else if srl_wall_time_ms (sp_resources profile) \<noteq> None
           \<or> srl_max_processes (sp_resources profile) \<noteq> None
           \<or> srl_max_output_bytes (sp_resources profile) \<noteq> None
      then Inl (BackendError ''Seatbelt cannot enforce the requested resource limits'')
      else Inr ()))"

section \<open>Resolving paths on the host\<close>

definition ensure_seatbelt_executable :: "seatbelt_host \<Rightarrow> sandbox_error + unit" where
  "ensure_seatbelt_executable H =
     (case sbh_is_file H MACOS_SEATBELT_EXECUTABLE of
        Inl e \<Rightarrow> Inl (BackendError (''Seatbelt executable is unavailable: '' @ sbh_io_text H e))
      | Inr is_file \<Rightarrow>
          if \<not> is_file
          then Inl (BackendError ''the pinned Seatbelt executable is not a regular file'')
          else Inr ())"

definition resolve_existing_executable :: "seatbelt_host \<Rightarrow> string \<Rightarrow> sandbox_error + string" where
  "resolve_existing_executable H path =
     and_then (map_err (\<lambda>e. BackendError
         (''sandbox executable '' @ path @ '' is unavailable: '' @ sbh_io_text H e))
       (sbh_canonicalize H path)) (\<lambda>resolved.
     and_then (map_err (\<lambda>e. BackendError
         (''cannot inspect sandbox executable '' @ resolved @ '': '' @ sbh_io_text H e))
       (sbh_is_file H resolved)) (\<lambda>is_file.
     if \<not> is_file
     then Inl (BackendError (''sandbox executable '' @ resolved @ '' is not a regular file''))
     else Inr resolved))"

text \<open>\<^verbatim>\<open>Path::parent\<close>: the shortest prefix that has all components but the last.\<close>

definition path_parent :: "string \<Rightarrow> string option" where
  "path_parent p = (case rev (components p) of
       [] \<Rightarrow> None
     | RootDir # _ \<Rightarrow> None
     | _ # cs \<Rightarrow> List.find (\<lambda>q. components q = rev cs) (map (\<lambda>n. take n p) [0..<Suc (length p)]))"

lemma path_parent_shorter: "path_parent p = Some q \<Longrightarrow> length (components q) < length (components p)"
  by (auto simp: path_parent_def find_Some_iff split: list.splits component.splits
      dest!: arg_cong [of "rev (components p)" _ length])

text \<open>The loop of \<open>resolve_path_for_seatbelt\<close>: the names passed on the way up wait in a list.\<close>

function resolve_ancestor ::
    "seatbelt_host \<Rightarrow> string \<Rightarrow> string \<Rightarrow> string list \<Rightarrow> sandbox_error + string" where
  "resolve_ancestor H path ancestor suffix =
     (case file_name ancestor of
        None \<Rightarrow> Inl (BackendError (''sandbox path '' @ path @ '' has no existing ancestor''))
      | Some name \<Rightarrow>
          (case path_parent ancestor of
             None \<Rightarrow> Inl (BackendError (''sandbox path '' @ path @ '' has no existing ancestor''))
           | Some parent \<Rightarrow>
               (case sbh_canonicalize H parent of
                  Inr resolved \<Rightarrow> Inr (foldl path_push resolved (rev (suffix @ [name])))
                | Inl _ \<Rightarrow> resolve_ancestor H path parent (suffix @ [name]))))"
  by pat_completeness auto
termination
  by (relation "measure (\<lambda>(_, _, ancestor, _). length (components ancestor))")
    (auto simp: path_parent_shorter)

declare resolve_ancestor.simps [simp del]

definition resolve_path_for_seatbelt :: "seatbelt_host \<Rightarrow> string \<Rightarrow> sandbox_error + string" where
  "resolve_path_for_seatbelt H path =
     (case sbh_canonicalize H path of
        Inr resolved \<Rightarrow> Inr resolved
      | Inl _ \<Rightarrow> resolve_ancestor H path path [])"

section \<open>The resolved profile and command\<close>

definition add_resolved_rule ::
    "seatbelt_host \<Rightarrow> rule_map \<Rightarrow> sandbox_path_rule \<Rightarrow> sandbox_error + rule_map" where
  "add_resolved_rule H rules rule =
     and_then (resolve_path_for_seatbelt H (spr_path rule)) (\<lambda>path.
       Inr (case bt_get rules (path_key path) of
          None \<Rightarrow> bt_insert (path_key path) (path, spr_access rule) rules
        | Some (existing_path, current) \<Rightarrow>
            bt_insert (path_key path) (existing_path, stricter_access current (spr_access rule)) rules))"

definition resolve_profile_for_seatbelt ::
    "seatbelt_host \<Rightarrow> sandbox_profile \<Rightarrow> sandbox_error + sandbox_profile" where
  "resolve_profile_for_seatbelt H profile =
     and_then (canonicalize_sandbox_profile profile) (\<lambda>profile.
     and_then (try_fold (add_resolved_rule H) [] (sfp_rules (sp_filesystem profile))) (\<lambda>rules.
     and_then (try_map (resolve_existing_executable H)
       (spp_allowed_executables (sp_process profile))) (\<lambda>executables.
     and_then (case sp_network profile of
         Offline \<Rightarrow> Inr Offline
       | ProxyOnly url hosts sockets \<Rightarrow>
           and_then (try_map (resolve_path_for_seatbelt H) sockets) (\<lambda>sockets.
             Inr (ProxyOnly url hosts (sort_paths sockets)))) (\<lambda>network.
       Inr (profile\<lparr>
         sp_filesystem := \<lparr>sfp_rules =
           map (\<lambda>(_, path, access). \<lparr>spr_path = path, spr_access = access\<rparr>) rules\<rparr>,
         sp_process := (sp_process profile)\<lparr>spp_allowed_executables := sort_paths executables\<rparr>,
         sp_network := network\<rparr>)))))"

definition resolve_command_for_seatbelt ::
    "seatbelt_host \<Rightarrow> terminal_command \<Rightarrow> sandbox_error + terminal_command" where
  "resolve_command_for_seatbelt H command =
     and_then (canonicalize_terminal_command command) (\<lambda>command.
     and_then (resolve_existing_executable H (tc_program command)) (\<lambda>program.
     and_then (ok_or (tc_cwd command)
       (BackendError ''sandboxed commands require an explicit working directory'')) (\<lambda>cwd.
     and_then (map_err (\<lambda>e. BackendError
         (''sandbox working directory '' @ cwd @ '' is unavailable: '' @ sbh_io_text H e))
       (sbh_canonicalize H cwd)) (\<lambda>resolved.
     if \<not> sbh_is_dir H resolved
     then Inl (BackendError (''sandbox working directory '' @ resolved @ '' is not a directory''))
     else Inr (command\<lparr>tc_program := program, tc_cwd := Some resolved\<rparr>)))))"

definition add_platform_exec_variants ::
    "seatbelt_host \<Rightarrow> terminal_command \<Rightarrow> sandbox_profile \<Rightarrow> sandbox_error + sandbox_profile" where
  "add_platform_exec_variants H command profile =
     (if tc_program command = ''/bin/sh''
      then and_then (resolve_existing_executable H ''/bin/bash'') (\<lambda>bash.
        Inr (profile\<lparr>sp_process := (sp_process profile)\<lparr>spp_allowed_executables :=
          sort_paths (spp_allowed_executables (sp_process profile) @ [bash])\<rparr>\<rparr>))
      else Inr profile)"

definition merged_environment ::
    "sandbox_profile \<Rightarrow> terminal_command \<Rightarrow> sandbox_error + (string, string) btree" where
  "merged_environment profile command = try_fold (\<lambda>environment (key, value).
     case bt_get environment key of
       Some profile_value \<Rightarrow>
         if profile_value \<noteq> value then Inl (BackendError
           (''command environment conflicts with sandbox-owned variable '' @ key))
         else Inr (bt_insert key value environment)
     | None \<Rightarrow> Inr (bt_insert key value environment))
     (sep_variables (sp_environment profile)) (tc_env command)"

section \<open>The policy text\<close>

definition policy_newline :: string where
  "policy_newline = [CHR 0x0A]"

definition executable_key :: "nat \<Rightarrow> string" where
  "executable_key index = ''EXECUTABLE_'' @ decimal index"

definition socket_key :: "nat \<Rightarrow> string" where
  "socket_key index = ''UNIX_SOCKET_'' @ decimal index"

definition rule_key :: "nat \<Rightarrow> string" where
  "rule_key index = ''PATH_'' @ decimal index"

definition executable_text :: "string \<Rightarrow> string" where
  \<open>executable_text key = ''(allow process-exec (literal (param "'' @ key @ ''")))'' @ policy_newline\<close>

definition mach_service_text :: "string \<Rightarrow> string" where
  \<open>mach_service_text service = ''(allow mach-lookup (global-name "'' @ service @ ''"))'' @ policy_newline\<close>

definition proxy_text :: "seatbelt_host \<Rightarrow> u16 \<Rightarrow> string" where
  \<open>proxy_text H port = policy_newline @ ''; exact Rust-owned proxy endpoint'' @ policy_newline
     @ ''(allow network-outbound (remote ip "localhost:'' @ decimal (unat port) @ ''"))'' @ policy_newline
     @ sbh_network_support_policy H\<close>

definition socket_text :: "string \<Rightarrow> string" where
  \<open>socket_text key = ''(allow network-outbound (remote unix-socket (subpath (param "'' @ key @ ''"))))'' @ policy_newline\<close>

definition rule_filter :: "string \<Rightarrow> string" where
  \<open>rule_filter key = ''(require-any (literal (param "'' @ key @ ''")) (subpath (param "'' @ key @ ''")))''\<close>

definition rule_text :: "string \<Rightarrow> sandbox_path_access \<Rightarrow> string" where
  \<open>rule_text key access =
     ''(allow file-read-metadata file-test-existence (path-ancestors (param "'' @ key @ ''")))'' @ policy_newline
     @ (case access of
          sandbox_path_access.Read \<Rightarrow>
            ''(allow file-read* '' @ rule_filter key @ '')'' @ policy_newline
            @ ''(deny file-write* '' @ rule_filter key @ '')'' @ policy_newline
        | sandbox_path_access.Write \<Rightarrow>
            ''(allow file-read* file-write* '' @ rule_filter key @ '')'' @ policy_newline
        | sandbox_path_access.Deny \<Rightarrow>
            ''(deny file-read* '' @ rule_filter key @ '')'' @ policy_newline
            @ ''(deny file-write* '' @ rule_filter key @ '')'' @ policy_newline)\<close>

text \<open>A list inserted into the definitions under the keys of its indices.\<close>

definition define_all ::
    "(nat \<Rightarrow> string) \<Rightarrow> string list \<Rightarrow> (string, string) btree \<Rightarrow> (string, string) btree" where
  "define_all key paths definitions =
     foldl (\<lambda>m (i, path). bt_insert (key i) path m) definitions (List.enumerate 0 paths)"

text \<open>The executables that the policy binds one by one: those of the profile and the program.\<close>

definition bound_executables :: "sandbox_profile \<Rightarrow> terminal_command \<Rightarrow> string list" where
  "bound_executables profile command =
     (if spp_allow_any_executable (sp_process profile) then []
      else sort_paths (spp_allowed_executables (sp_process profile) @ [tc_program command]))"

definition bound_sockets :: "sandbox_profile \<Rightarrow> string list" where
  "bound_sockets profile = (case sp_network profile of ProxyOnly _ _ sockets \<Rightarrow> sockets | Offline \<Rightarrow> [])"

definition policy_text ::
    "seatbelt_host \<Rightarrow> sandbox_profile \<Rightarrow> terminal_command \<Rightarrow> u16 option \<Rightarrow> string" where
  "policy_text H profile command port =
     (let executables = bound_executables profile command;
          services = spl_macos_mach_services (sp_platform profile);
          sockets = bound_sockets profile;
          rules = sfp_rules (sp_filesystem profile) in
      sbh_base_policy H
        @ policy_newline @ ''; operation-bound executable policy'' @ policy_newline
        @ (if spp_allow_any_executable (sp_process profile)
           then ''(allow process-exec)'' @ policy_newline
           else concat (map (\<lambda>(i, _). executable_text (executable_key i)) (List.enumerate 0 executables)))
        @ (if spp_allow_child_processes (sp_process profile) then ''(allow process-fork)'' @ policy_newline else [])
        @ (if services = [] then []
           else policy_newline @ ''; exact provider-scoped macOS services'' @ policy_newline
             @ concat (map mach_service_text services))
        @ (case port of None \<Rightarrow> [] | Some port \<Rightarrow> proxy_text H port)
        @ (if sockets = [] then [] else ''(allow system-socket (socket-domain AF_UNIX))'' @ policy_newline)
        @ concat (map (\<lambda>(i, _). socket_text (socket_key i)) (List.enumerate 0 sockets))
        @ policy_newline @ ''; canonical filesystem policy'' @ policy_newline
        @ concat (map (\<lambda>(i, rule). rule_text (rule_key i) (spr_access rule)) (List.enumerate 0 rules)))"

definition policy_definitions ::
    "sandbox_profile \<Rightarrow> terminal_command \<Rightarrow> (string, string) btree" where
  "policy_definitions profile command =
     define_all rule_key (map spr_path (sfp_rules (sp_filesystem profile)))
       (define_all socket_key (bound_sockets profile)
         (define_all executable_key (bound_executables profile command) []))"

definition compile_policy ::
    "seatbelt_host \<Rightarrow> sandbox_profile \<Rightarrow> terminal_command \<Rightarrow> sandbox_error + seatbelt_policy_artifact" where
  "compile_policy H profile command =
     and_then (proxy_loopback_port (sp_network profile)) (\<lambda>port.
     if nul \<in> set (policy_text H profile command port)
     then Inl (BackendError ''compiled Seatbelt policy contains NUL'')
     else Inr \<lparr>spa_policy = policy_text H profile command port,
               spa_definitions = policy_definitions profile command\<rparr>)"

section \<open>The launch plan\<close>

definition seatbelt_arguments :: "seatbelt_policy_artifact \<Rightarrow> terminal_command \<Rightarrow> string list" where
  "seatbelt_arguments artifact command =
     [''-p'', spa_policy artifact]
     @ map (\<lambda>(key, value). ''-D'' @ key @ ''='' @ value) (spa_definitions artifact)
     @ [''--'', tc_program command] @ tc_args command"

definition compile_macos ::
    "seatbelt_host \<Rightarrow> sandbox_crate \<Rightarrow> sandbox_compile_request \<Rightarrow> sandbox_error + seatbelt_compilation" where
  "compile_macos H S request =
     (if scr_operation_revision request = 0
      then Inl (BackendError ''operation revision must be non-zero'')
      else and_then (validate_supported_contract (scr_profile request)) (\<lambda>_.
      and_then (ensure_seatbelt_executable H) (\<lambda>_.
      and_then (resolve_command_for_seatbelt H (scr_command request)) (\<lambda>command.
      and_then (resolve_profile_for_seatbelt H (scr_profile request)) (\<lambda>profile.
      and_then (add_platform_exec_variants H command profile) (\<lambda>profile.
      and_then (compile_policy H profile command) (\<lambda>artifact.
      and_then (sandbox_profile_digest S profile) (\<lambda>profile_digest.
      and_then (terminal_action_digest S command) (\<lambda>action_digest.
      and_then (merged_environment profile command) (\<lambda>environment.
        Inr \<lparr>sbc_launch_plan =
               \<lparr>slp_command = \<lparr>tc_program = MACOS_SEATBELT_EXECUTABLE,
                   tc_args = seatbelt_arguments artifact command,
                   tc_cwd = tc_cwd command, tc_env = environment\<rparr>,
                slp_compiled = \<lparr>csp_backend = MacOsSeatbelt, csp_enforced = True,
                   csp_profile = profile, csp_profile_digest = profile_digest,
                   csp_action_digest = action_digest\<rparr>,
                slp_clear_environment = True\<rparr>,
             sbc_artifact = artifact\<rparr>))))))))))"

definition compile_inspectable ::
    "seatbelt_host \<Rightarrow> sandbox_crate \<Rightarrow> sandbox_compile_request \<Rightarrow> sandbox_error + seatbelt_compilation" where
  "compile_inspectable H S request =
     (if sbh_macos H then compile_macos H S request
      else Inl (BackendError ''macOS Seatbelt is unavailable on this platform''))"

definition seatbelt_compile ::
    "seatbelt_host \<Rightarrow> sandbox_crate \<Rightarrow> sandbox_compile_request \<Rightarrow> sandbox_error + sandbox_launch_plan" where
  "seatbelt_compile H S request =
     and_then (compile_inspectable H S request) (\<lambda>compilation. Inr (sbc_launch_plan compilation))"

end
