(* ===== verification/Seatbelt_Safety.thy ===== *)
theory Seatbelt_Safety
  imports Seatbelt
begin

text \<open>
  What a compiled Seatbelt policy says. \<^verbatim>\<open>sandbox-exec\<close> itself is not modelled: the lemmas are
  about the text the launcher gives it and the parameters it binds, about the order of the
  clauses in the text, the resolution of paths and the command that is started.
\<close>

section \<open>The clauses of the file policy\<close>

datatype file_class = FileReadMetadata | FileTestExistence | FileRead | FileWrite

datatype file_filter = LiteralOrSubpath string | PathAncestors string

datatype file_clause = is_Allow: Allow (classes: "file_class list") (clause_filter: file_filter)
  | Deny (classes: "file_class list") (clause_filter: file_filter)

definition class_text :: "file_class \<Rightarrow> string" where
  "class_text c = (case c of FileReadMetadata \<Rightarrow> ''file-read-metadata''
     | FileTestExistence \<Rightarrow> ''file-test-existence''
     | FileRead \<Rightarrow> ''file-read*'' | FileWrite \<Rightarrow> ''file-write*'')"

definition filter_text :: "file_filter \<Rightarrow> string" where
  \<open>filter_text f = (case f of LiteralOrSubpath key \<Rightarrow>
       ''(require-any (literal (param "'' @ key @ ''")) (subpath (param "'' @ key @ ''")))''
     | PathAncestors key \<Rightarrow> ''(path-ancestors (param "'' @ key @ ''"))'')\<close>

definition clause_text :: "file_clause \<Rightarrow> string" where
  "clause_text c = (case c of Allow _ _ \<Rightarrow> ''(allow '' | Deny _ _ \<Rightarrow> ''(deny '')
     @ join '' '' (map class_text (classes c)) @ '' '' @ filter_text (clause_filter c) @ '')'' @ policy_newline"

definition rule_clauses :: "string \<Rightarrow> sandbox_path_access \<Rightarrow> file_clause list" where
  "rule_clauses key access =
     Allow [FileReadMetadata, FileTestExistence] (PathAncestors key)
     # (case access of
          sandbox_path_access.Read \<Rightarrow>
            [Allow [FileRead] (LiteralOrSubpath key), Deny [FileWrite] (LiteralOrSubpath key)]
        | sandbox_path_access.Write \<Rightarrow> [Allow [FileRead, FileWrite] (LiteralOrSubpath key)]
        | sandbox_path_access.Deny \<Rightarrow>
            [Deny [FileRead] (LiteralOrSubpath key), Deny [FileWrite] (LiteralOrSubpath key)])"

lemma rule_text_clauses: "rule_text key access = concat (map clause_text (rule_clauses key access))"
  by (cases access)
    (simp_all add: rule_text_def rule_clauses_def clause_text_def class_text_def filter_text_def rule_filter_def)

definition file_clauses :: "sandbox_path_rule list \<Rightarrow> file_clause list" where
  "file_clauses rules =
     concat (map (\<lambda>(i, rule). rule_clauses (rule_key i) (spr_access rule)) (List.enumerate 0 rules))"

lemma file_clauses_text:
  "concat (map (\<lambda>(i, rule). rule_text (rule_key i) (spr_access rule)) (List.enumerate 0 rules))
     = concat (map clause_text (file_clauses rules))"
proof -
  have "concat (map (\<lambda>(i, rule). rule_text (rule_key i) (spr_access rule)) irs) =
      concat (map clause_text (concat (map (\<lambda>(i, rule). rule_clauses (rule_key i) (spr_access rule)) irs)))" for irs
    by (induction irs) (auto simp: rule_text_clauses)
  then show ?thesis by (simp add: file_clauses_def)
qed

section \<open>The order of the clauses\<close>

text \<open>
  A clause speaks of an operation on a path as a rule: it names the operation, and its parameter
  is bound to the path or to one above it. (The clauses for the ancestors of a rule's path name
  the tests of metadata and existence only.)
\<close>

definition speaks_of :: "(string, string) btree \<Rightarrow> file_class \<Rightarrow> string \<Rightarrow> file_clause \<Rightarrow> bool" where
  "speaks_of definitions access path c \<longleftrightarrow> access \<in> set (classes c) \<and> (case clause_filter c of
       LiteralOrSubpath key \<Rightarrow>
         (case bt_get definitions key of None \<Rightarrow> False | Some q \<Rightarrow> path_starts_with path q)
     | PathAncestors key \<Rightarrow> False)"

definition last_clause ::
    "(string, string) btree \<Rightarrow> file_clause list \<Rightarrow> file_class \<Rightarrow> string \<Rightarrow> file_clause option" where
  "last_clause definitions clauses access path =
     List.find (speaks_of definitions access path) (rev clauses)"

text \<open>The meaning of a rule: whether it permits reading or writing.\<close>

definition permits :: "sandbox_path_access \<Rightarrow> file_class \<Rightarrow> bool" where
  "permits rule_access access = (case rule_access of
       sandbox_path_access.Write \<Rightarrow> True
     | sandbox_path_access.Read \<Rightarrow> access = FileRead
     | sandbox_path_access.Deny \<Rightarrow> False)"

definition covers :: "sandbox_path_rule \<Rightarrow> string \<Rightarrow> bool" where
  "covers rule path \<longleftrightarrow> path_starts_with path (spr_path rule)"

text \<open>The clause of a rule for an operation.\<close>

definition rule_clause :: "string \<Rightarrow> sandbox_path_access \<Rightarrow> file_class \<Rightarrow> file_clause" where
  "rule_clause key rule_access access = (case rule_access of
       sandbox_path_access.Write \<Rightarrow> Allow [FileRead, FileWrite] (LiteralOrSubpath key)
     | sandbox_path_access.Read \<Rightarrow>
         if access = FileRead then Allow [FileRead] (LiteralOrSubpath key)
         else Deny [FileWrite] (LiteralOrSubpath key)
     | sandbox_path_access.Deny \<Rightarrow> Deny [access] (LiteralOrSubpath key))"

lemma find_append: "List.find P (xs @ ys) = (case List.find P xs of None \<Rightarrow> List.find P ys | Some x \<Rightarrow> Some x)"
  by (induction xs) auto

lemma last_clause_append:
  "last_clause definitions (cs @ ds) access path =
     (case last_clause definitions ds access path of None \<Rightarrow> last_clause definitions cs access path | Some c \<Rightarrow> Some c)"
  by (simp add: last_clause_def find_append split: option.split)

lemma rule_last_clause:
  assumes "bt_get definitions (rule_key i) = Some (spr_path rule)" "access \<in> {FileRead, FileWrite}"
  shows "last_clause definitions (rule_clauses (rule_key i) (spr_access rule)) access path
    = (if covers rule path then Some (rule_clause (rule_key i) (spr_access rule) access) else None)"
  using assms
  by (cases "spr_access rule")
    (auto simp: rule_clauses_def last_clause_def speaks_of_def covers_def rule_clause_def)

lemma rule_clause_permits:
  "access \<in> {FileRead, FileWrite} \<Longrightarrow> is_Allow (rule_clause key rule_access access) \<longleftrightarrow> permits rule_access access"
  "clause_filter (rule_clause key rule_access access) = LiteralOrSubpath key"
  by (auto simp: rule_clause_def permits_def split: sandbox_path_access.splits)

lemma ancestor_clauses:
  "c \<in> set (file_clauses rules) \<Longrightarrow> clause_filter c = PathAncestors key \<Longrightarrow>
     c = Allow [FileReadMetadata, FileTestExistence] (PathAncestors key)"
proof -
  have rule: "c = Allow [FileReadMetadata, FileTestExistence] (PathAncestors key)"
    if "c \<in> set (rule_clauses k access)" "clause_filter c = PathAncestors key" for k access
    using that by (cases access) (auto simp: rule_clauses_def)
  show "c \<in> set (file_clauses rules) \<Longrightarrow> clause_filter c = PathAncestors key \<Longrightarrow> ?thesis"
    using rule by (auto simp: file_clauses_def)
qed

lemma enumerate_snoc: "List.enumerate n (xs @ [x]) = List.enumerate n xs @ [(n + length xs, x)]"
  by (induction xs arbitrary: n) auto

lemma define_all_snoc:
  "define_all key (ps @ [p]) m = bt_insert (key (length ps)) p (define_all key ps m)"
  by (simp add: define_all_def enumerate_snoc)

lemma define_all_get:
  "inj key \<Longrightarrow> i < length ps \<Longrightarrow> bt_get (define_all key ps m) (key i) = Some (ps ! i)"
proof (induction ps rule: rev_induct)
  case (snoc p ps)
  then show ?case by (auto simp: define_all_snoc map_of_bt_insert nth_append inj_eq less_Suc_eq)
qed simp

lemma inj_rule_key: "inj rule_key" and inj_executable_key: "inj executable_key"
  by (simp_all add: inj_def rule_key_def executable_key_def)

text \<open>The last clause that speaks of a path is the one of the last rule that covers it.\<close>

lemma file_clauses_snoc:
  "file_clauses (rs @ [r]) = file_clauses rs @ rule_clauses (rule_key (length rs)) (spr_access r)"
  by (simp add: file_clauses_def enumerate_snoc)

lemma last_rule_clause:
  assumes "\<And>i. i < length rules \<Longrightarrow> bt_get definitions (rule_key i) = Some (spr_path (rules ! i))"
    and "access \<in> {FileRead, FileWrite}"
  shows "last_clause definitions (file_clauses rules) access path =
    (case rev (filter (\<lambda>(i, r). covers r path) (List.enumerate 0 rules)) of
       [] \<Rightarrow> None | (i, r) # _ \<Rightarrow> Some (rule_clause (rule_key i) (spr_access r) access))"
  using assms(1)
proof (induction rules rule: rev_induct)
  case (snoc r rs)
  have "bt_get definitions (rule_key i) = Some (spr_path (rs ! i))" if "i < length rs" for i
    using snoc.prems [of i] that by (simp add: nth_append)
  note IH = snoc.IH [OF this]
  have "bt_get definitions (rule_key (length rs)) = Some (spr_path r)"
    using snoc.prems [of "length rs"] by simp
  then show ?case
    using rule_last_clause [OF _ assms(2), of definitions "length rs" r] IH
    by (simp add: last_clause_append file_clauses_snoc enumerate_snoc)
qed (simp add: last_clause_def file_clauses_def)

lemma prefix_less_eq: "take (length xs) ys = xs \<Longrightarrow> xs \<le> (ys :: 'a::linorder list)"
proof (induction xs arbitrary: ys)
  case (Cons x xs)
  then show ?case by (cases ys) auto
qed simp

lemma covering_keys:
  assumes "covers r path" "covers r' path"
    and "length (components (spr_path r')) \<le> length (components (spr_path r))"
  shows "path_key (spr_path r') \<le> path_key (spr_path r)"
proof (rule prefix_less_eq)
  let ?c = "components (spr_path r)" and ?c' = "components (spr_path r')"
  have "take (length ?c') ?c = take (length ?c') (take (length ?c) (components path))"
    using assms(1) by (simp add: covers_def path_starts_with_def)
  also have "\<dots> = take (length ?c') (components path)" using assms(3) by (simp add: min_def)
  also have "\<dots> = ?c'" using assms(2) by (simp add: covers_def path_starts_with_def)
  finally show "take (length (path_key (spr_path r'))) (path_key (spr_path r)) = path_key (spr_path r')"
    by (simp add: path_key_def take_map)
qed

lemma deepest_is_last:
  assumes sorted: "sorted_wrt (<) (map (\<lambda>r. path_key (spr_path r)) rules)"
    and r: "r \<in> set rules" "covers r path"
    and deepest: "\<And>r'. r' \<in> set rules \<Longrightarrow> covers r' path \<Longrightarrow>
      length (components (spr_path r')) \<le> length (components (spr_path r))"
  shows "\<exists>rs. rev (filter (\<lambda>r. covers r path) rules) = r # rs"
proof (cases "rev (filter (\<lambda>r. covers r path) rules)")
  case Nil
  with r show ?thesis by (auto simp: filter_empty_conv)
next
  case (Cons l ls)
  then have f: "filter (\<lambda>r. covers r path) rules = rev ls @ [l]" by (metis rev.simps(2) rev_rev_ident)
  have mem: "x \<in> set rules \<and> covers x path \<longleftrightarrow> x \<in> set (rev ls @ [l])" for x
    unfolding f [symmetric] by simp
  from mem [of l] have l: "l \<in> set rules" "covers l path" by simp_all
  show ?thesis
  proof (cases "l = r")
    case False
    have "sorted_wrt (\<lambda>a b. path_key (spr_path a) < path_key (spr_path b)) (rev ls @ [l])"
      unfolding f [symmetric] using sorted by (simp add: sorted_wrt_map sorted_wrt_filter)
    moreover have "r \<in> set (rev ls)" using r mem [of r] False by simp
    ultimately have "path_key (spr_path r) < path_key (spr_path l)" by (simp add: sorted_wrt_append)
    with covering_keys [OF r(2) l(2) deepest [OF l]] show ?thesis by simp
  qed (use Cons in simp)
qed

lemma filter_enumerate: "map snd (filter (\<lambda>(i, r). P r) (List.enumerate n rules)) = filter P rules"
  by (induction rules arbitrary: n) auto

lemma deepest_clause:
  assumes bound: "\<And>i. i < length rules \<Longrightarrow> bt_get definitions (rule_key i) = Some (spr_path (rules ! i))"
    and access: "access \<in> {FileRead, FileWrite}"
    and sorted: "sorted_wrt (<) (map (\<lambda>r. path_key (spr_path r)) rules)"
    and r: "r \<in> set rules" "covers r path"
    and deepest: "\<And>r'. r' \<in> set rules \<Longrightarrow> covers r' path \<Longrightarrow>
      length (components (spr_path r')) \<le> length (components (spr_path r))"
  shows "\<exists>i < length rules. rules ! i = r
    \<and> last_clause definitions (file_clauses rules) access path = Some (rule_clause (rule_key i) (spr_access r) access)"
proof -
  let ?covering = "filter (\<lambda>(i, r). covers r path) (List.enumerate 0 rules)"
  obtain rs where "rev (filter (\<lambda>r. covers r path) rules) = r # rs"
    using deepest_is_last [OF sorted r deepest] by blast
  then have snd: "map snd (rev ?covering) = r # rs"
    by (simp add: rev_map [symmetric] filter_enumerate)
  then obtain i irs where irs: "rev ?covering = (i, r) # irs" by (cases "rev ?covering") auto
  have "(i, r) \<in> set (rev ?covering)" unfolding irs by simp
  then have "(i, r) \<in> set (List.enumerate 0 rules)" by simp
  then have "i < length rules" "rules ! i = r" by (auto simp: in_set_enumerate_eq)
  with last_rule_clause [OF bound access, of path] irs show ?thesis by auto
qed

lemma no_clause:
  assumes "\<And>i. i < length rules \<Longrightarrow> bt_get definitions (rule_key i) = Some (spr_path (rules ! i))"
    and "access \<in> {FileRead, FileWrite}" and "\<forall>r \<in> set rules. \<not> covers r path"
  shows "last_clause definitions (file_clauses rules) access path = None"
proof -
  have "filter (\<lambda>(i, r). covers r path) (List.enumerate 0 rules) = []"
    using assms(3) by (auto simp: filter_empty_conv in_set_enumerate_eq)
  with last_rule_clause [OF assms(1,2), of path] show ?thesis by simp
qed

section \<open>Resolving a path\<close>

lemma sum_map_filter:
  "list_all (\<lambda>w. segment_component w \<noteq> None \<longrightarrow> segment_component w = Some (Normal w)) vs \<Longrightarrow>
   List.map_filter segment_component vs = map Normal ws \<Longrightarrow>
     sum_list (map (\<lambda>w. Suc (length w)) ws) \<le> sum_list (map (\<lambda>w. Suc (length w)) vs)"
proof (induction vs arbitrary: ws)
  case (Cons v vs)
  show ?case
  proof (cases "segment_component v")
    case None
    with Cons.IH [of ws] Cons.prems show ?thesis by (simp add: map_filter_simps)
  next
    case (Some c)
    with Cons.prems obtain us where "ws = v # us" "List.map_filter segment_component vs = map Normal us"
      by (cases ws) (auto simp: map_filter_simps)
    with Cons.IH [of us] Cons.prems show ?thesis by simp
  qed
qed (simp add: map_filter_simps)

lemma length_split_slash: "Suc (length s) = sum_list (map (\<lambda>w. Suc (length w)) (split_slash s))"
  by (induction s) (auto split: list.splits)

lemma length_join: "ws \<noteq> [] \<Longrightarrow> Suc (length (join ''/'' ws)) = sum_list (map (\<lambda>w. Suc (length w)) ws)"
  by (induction ws rule: induct_list012) auto

text \<open>No shorter text has the components of a normal path.\<close>

lemma path_of_shortest:
  assumes "components p = RootDir # map Normal ws"
  shows "length (path_of ws) \<le> length p"
proof -
  have p: "is_absolute p"
  proof (rule ccontr)
    have seg: "segment_component w \<noteq> Some RootDir" for w by (simp add: segment_component_def)
    then have root: "RootDir \<notin> set (List.map_filter segment_component vs)" for vs
      by (induction vs) (auto simp: map_filter_simps split: option.splits)
    assume "\<not> is_absolute p"
    then have "RootDir \<notin> set (components p)" 
      using root seg by (auto simp: components_def split: list.splits option.splits)
    with assms show False by simp
  qed
  then obtain t where t: "p = CHR ''/'' # t" by (cases p) (auto simp: is_absolute_def)
  with assms p have m: "List.map_filter segment_component (split_slash t) = map Normal ws"
    by (simp add: components_def map_filter_simps segment_component_def)
  show ?thesis
  proof (cases "ws = []")
    case True
    then show ?thesis by (simp add: path_of_def t)
  next
    case False
    have "sum_list (map (\<lambda>w. Suc (length w)) ws) \<le> sum_list (map (\<lambda>w. Suc (length w)) (split_slash t))"
    proof (rule sum_map_filter [OF _ m])
      have "segment_component w \<noteq> Some ParentDir" if "w \<in> set (split_slash t)" for w
      proof
        assume "segment_component w = Some ParentDir"
        with that have "ParentDir \<in> set (List.map_filter segment_component (split_slash t))"
          by (force simp: map_filter_def)
        then show False by (auto simp: m)
      qed
      then show "list_all (\<lambda>w. segment_component w \<noteq> None \<longrightarrow> segment_component w = Some (Normal w)) (split_slash t)"
        unfolding list_all_iff by (auto simp: segment_component_def split: if_splits) (force split: if_splits)
    qed
    with length_join [OF False] length_split_slash [of t] show ?thesis by (simp add: path_of_def t)
  qed
qed

lemma path_of_snoc: "path_of (ws @ [w]) = path_of ws @ (if ws = [] then w else CHR ''/'' # w)"
proof -
  have "join ''/'' (xs @ [x]) = (if xs = [] then x else join ''/'' xs @ ''/'' @ x)" for xs x
    by (induction xs rule: induct_list012) auto
  then show ?thesis by (simp add: path_of_def)
qed

lemma path_parent_of:
  assumes "list_all segment_ok (ws @ [w])"
  shows "path_parent (path_of (ws @ [w])) = Some (path_of ws)"
proof -
  let ?p = "path_of (ws @ [w])" and ?n = "length (path_of ws)"
  have ws: "components (path_of ws) = RootDir # map Normal ws" using assms by (simp add: components_path_of)
  have take: "take ?n ?p = path_of ws" and n: "?n \<le> length ?p" by (simp_all add: path_of_snoc)
  have "List.find (\<lambda>q. components q = RootDir # map Normal ws) (map (\<lambda>n. take n ?p) [0..<Suc (length ?p)])
      = Some (path_of ws)"
    unfolding find_Some_iff
  proof (intro exI conjI allI impI)
    show "?n < length (map (\<lambda>n. take n ?p) [0..<Suc (length ?p)])" using n by simp
    then show "path_of ws = map (\<lambda>n. take n ?p) [0..<Suc (length ?p)] ! ?n"
      using take by (simp del: upt_Suc)
    then show "components (map (\<lambda>n. take n ?p) [0..<Suc (length ?p)] ! ?n) = RootDir # map Normal ws"
      using ws by simp
    fix j assume j: "j < ?n"
    then have "map (\<lambda>n. take n ?p) [0..<Suc (length ?p)] ! j = take j ?p" using n by (simp del: upt_Suc)
    moreover have "components (take j ?p) \<noteq> RootDir # map Normal ws"
      using path_of_shortest [of "take j ?p" ws] j by auto
    ultimately show "\<not> components (map (\<lambda>n. take n ?p) [0..<Suc (length ?p)] ! j) = RootDir # map Normal ws"
      by simp
  qed
  moreover have "rev (components ?p) = Normal w # rev (RootDir # map Normal ws)"
    using assms by (simp add: components_path_of)
  ultimately show ?thesis by (simp add: path_parent_def)
qed

lemma file_name_of: "list_all segment_ok (ws @ [w]) \<Longrightarrow> file_name (path_of (ws @ [w])) = Some w"
  by (simp add: file_name_def components_path_of)

text \<open>The deepest existing ancestor at or above a path, with the names below it.\<close>

definition resolves_at :: "seatbelt_host \<Rightarrow> string list \<Rightarrow> nat \<Rightarrow> string \<Rightarrow> bool" where
  "resolves_at H ws k r \<longleftrightarrow> k \<le> length ws \<and> sbh_canonicalize H (path_of (take k ws)) = Inr r
     \<and> (\<forall>j. k < j \<and> j \<le> length ws \<longrightarrow> \<not> is_ok (sbh_canonicalize H (path_of (take j ws))))"

lemma resolves_at_snoc:
  "\<not> is_ok (sbh_canonicalize H (path_of (ws @ [w]))) \<Longrightarrow>
     resolves_at H (ws @ [w]) k r \<longleftrightarrow> resolves_at H ws k r"
  by (auto simp: resolves_at_def le_Suc_eq)

lemma resolves_at_self:
  assumes "sbh_canonicalize H (path_of ws) = Inr r'"
  shows "resolves_at H ws k r \<longleftrightarrow> k = length ws \<and> r = r'"
proof
  assume at: "resolves_at H ws k r"
  have "k = length ws"
  proof (rule ccontr)
    assume "k \<noteq> length ws"
    with at assms show False by (auto simp: resolves_at_def dest!: spec [of _ "length ws"])
  qed
  with at assms show "k = length ws \<and> r = r'" by (simp add: resolves_at_def)
qed (use assms in \<open>simp add: resolves_at_def\<close>)

lemma resolve_ancestor_Inr:
  "list_all segment_ok ws \<Longrightarrow> \<not> is_ok (sbh_canonicalize H (path_of ws)) \<Longrightarrow>
     resolve_ancestor H path (path_of ws) suffix = Inr q \<longleftrightarrow>
       (\<exists>k r. resolves_at H ws k r \<and> q = foldl path_push r (drop k ws @ rev suffix))"
proof (induction ws arbitrary: suffix rule: rev_induct)
  case Nil
  then show ?case
    by (subst resolve_ancestor.simps)
      (auto simp: file_name_def components_path_of [of "[]", simplified] resolves_at_def)
next
  case (snoc w ws)
  have step: "resolve_ancestor H path (path_of (ws @ [w])) suffix =
      (case sbh_canonicalize H (path_of ws) of
         Inr resolved \<Rightarrow> Inr (foldl path_push resolved (rev (suffix @ [w])))
       | Inl _ \<Rightarrow> resolve_ancestor H path (path_of ws) (suffix @ [w]))"
    by (subst resolve_ancestor.simps) (simp add: file_name_of snoc.prems path_parent_of del: list_all_append)
  note at = resolves_at_snoc [OF snoc.prems(2)]
  have le: "resolves_at H ws k r \<Longrightarrow> k \<le> length ws" for k r by (simp add: resolves_at_def)
  show ?case
  proof (cases "sbh_canonicalize H (path_of ws)")
    case (Inl e)
    then have "\<not> is_ok (sbh_canonicalize H (path_of ws))" by simp
    moreover have "list_all segment_ok ws" using snoc.prems(1) by simp
    ultimately have "resolve_ancestor H path (path_of ws) (suffix @ [w]) = Inr q \<longleftrightarrow>
        (\<exists>k r. resolves_at H ws k r \<and> q = foldl path_push r (drop k ws @ w # rev suffix))"
      using snoc.IH [of "suffix @ [w]"] by simp
    moreover have "drop k (ws @ [w]) = drop k ws @ [w]" if "resolves_at H ws k r" for k r
      using le [OF that] by simp
    ultimately show ?thesis using Inl step at by (auto simp del: foldl_append) fastforce+
  next
    case (Inr r)
    then show ?thesis by (auto simp: step at resolves_at_self)
  qed
qed

lemma resolve_path_Inr:
  assumes "list_all segment_ok ws"
  shows "resolve_path_for_seatbelt H (path_of ws) = Inr q \<longleftrightarrow>
    (\<exists>k r. resolves_at H ws k r \<and> q = foldl path_push r (drop k ws))"
proof (cases "sbh_canonicalize H (path_of ws)")
  case (Inl e)
  then have "\<not> is_ok (sbh_canonicalize H (path_of ws))" by simp
  from resolve_ancestor_Inr [OF assms this, of _ "[]"] Inl show ?thesis
    by (simp add: resolve_path_for_seatbelt_def)
next
  case (Inr r)
  then show ?thesis by (auto simp: resolve_path_for_seatbelt_def resolves_at_self)
qed

section \<open>The resolved rules\<close>

definition resolved_accesses ::
    "seatbelt_host \<Rightarrow> sandbox_path_rule list \<Rightarrow> string \<Rightarrow> sandbox_path_access set" where
  "resolved_accesses H rules q =
     spr_access ` {r \<in> set rules. \<exists>p. resolve_path_for_seatbelt H (spr_path r) = Inr p \<and> path_eq p q}"

lemma resolved_accesses_snoc:
  "resolve_path_for_seatbelt H (spr_path r) = Inr p \<Longrightarrow>
     resolved_accesses H (rs @ [r]) q =
       (if path_eq p q then insert (spr_access r) (resolved_accesses H rs q) else resolved_accesses H rs q)"
  by (auto simp: resolved_accesses_def)

definition resolved_map :: "seatbelt_host \<Rightarrow> sandbox_path_rule list \<Rightarrow> rule_map \<Rightarrow> bool" where
  "resolved_map H rules m \<longleftrightarrow> bt_wf m
     \<and> (\<forall>k p a. bt_get m k = Some (p, a) \<longrightarrow> k = path_key p)
     \<and> (\<forall>q. map_option snd (bt_get m (path_key q)) = strictest (resolved_accesses H rules q))
     \<and> (\<forall>r \<in> set rules. is_ok (resolve_path_for_seatbelt H (spr_path r)))"

lemma resolved_map_step:
  assumes "resolved_map H rs m" "add_resolved_rule H m r = Inr m'"
  shows "resolved_map H (rs @ [r]) m'"
proof -
  from assms(2) obtain p where p: "resolve_path_for_seatbelt H (spr_path r) = Inr p"
    by (auto simp: add_resolved_rule_def result_simps)
  from assms(1) have wf: "bt_wf m" and keys: "\<And>k p a. bt_get m k = Some (p, a) \<Longrightarrow> k = path_key p"
    and get: "\<And>q. map_option snd (bt_get m (path_key q)) = strictest (resolved_accesses H rs q)"
    and ok: "\<And>r. r \<in> set rs \<Longrightarrow> is_ok (resolve_path_for_seatbelt H (spr_path r))"
    by (simp_all add: resolved_map_def)
  obtain p' a where m': "m' = bt_insert (path_key p) (p', a) m" and key: "path_key p' = path_key p"
    and a: "strictest (insert (spr_access r) (resolved_accesses H rs p)) = Some a"
  proof (cases "bt_get m (path_key p)")
    case None
    with assms(2) p get [of p] that [of p "spr_access r"] show thesis
      by (simp add: add_resolved_rule_def strictest_insert)
  next
    case (Some e)
    obtain p0 b where e: "e = (p0, b)" by (cases e)
    with Some keys have "path_key p0 = path_key p" by metis
    moreover from Some e get [of p] have "strictest (resolved_accesses H rs p) = Some b" by simp
    ultimately show thesis
      using Some e assms(2) p that [of p0 "stricter_access b (spr_access r)"]
      by (simp add: add_resolved_rule_def strictest_insert)
  qed
  show ?thesis
    unfolding resolved_map_def
  proof (intro conjI allI ballI impI)
    show "bt_wf m'" using wf by (simp add: m' bt_wf_insert)
    show "k = path_key q" if "bt_get m' k = Some (q, b)" for k q b
      using that keys key by (auto simp: m' map_of_bt_insert split: if_splits)
    show "map_option snd (bt_get m' (path_key q)) = strictest (resolved_accesses H (rs @ [r]) q)" for q
    proof (cases "path_key q = path_key p")
      case True
      then have same: "path_eq x p \<longleftrightarrow> path_eq x q" for x
        unfolding path_key_eq [symmetric] by auto
      then have "resolved_accesses H rs p = resolved_accesses H rs q" by (simp add: resolved_accesses_def)
      with a True show ?thesis
        by (simp add: m' map_of_bt_insert resolved_accesses_snoc [OF p] flip: path_key_eq)
    next
      case False
      with get [of q] show ?thesis
        by (simp add: m' map_of_bt_insert resolved_accesses_snoc [OF p] flip: path_key_eq)
    qed
    show "is_ok (resolve_path_for_seatbelt H (spr_path r'))" if "r' \<in> set (rs @ [r])" for r'
      using that ok p by auto
  qed
qed

lemma resolved_map_run: "try_fold (add_resolved_rule H) [] rs = Inr m \<Longrightarrow> resolved_map H rs m"
proof (induction rs arbitrary: m rule: rev_induct)
  case Nil
  then show ?case by (simp add: resolved_map_def resolved_accesses_def strictest_def)
next
  case (snoc r rs)
  then show ?case by (auto simp: try_fold_snoc_Inr intro: resolved_map_step)
qed

definition rule_list :: "rule_map \<Rightarrow> sandbox_path_rule list" where
  "rule_list m = map (\<lambda>(_, path, access). \<lparr>spr_path = path, spr_access = access\<rparr>) m"

lemma rule_list_sorted:
  assumes "resolved_map H rs m"
  shows "sorted_wrt (<) (map (\<lambda>r. path_key (spr_path r)) (rule_list m))"
proof -
  have "k = path_key p" if "(k, p, a) \<in> set m" for k p a
  proof -
    have "bt_get m k = Some (p, a)"
      using assms that bt.entries_get [of m k "(p, a)"] by (simp add: resolved_map_def)
    with assms show ?thesis unfolding resolved_map_def by blast
  qed
  then have "map (\<lambda>r. path_key (spr_path r)) (rule_list m) = map fst m" by (force simp: rule_list_def)
  with assms show ?thesis by (simp add: resolved_map_def bt_wf_def)
qed

lemma rule_list_access:
  assumes "resolved_map H rs m" "r \<in> set (rule_list m)"
  shows "strictest (resolved_accesses H rs (spr_path r)) = Some (spr_access r)"
proof -
  from assms(2) obtain k where k: "(k, spr_path r, spr_access r) \<in> set m" by (auto simp: rule_list_def)
  then have "bt_get m k = Some (spr_path r, spr_access r)"
    using assms(1) bt.entries_get [of m k "(spr_path r, spr_access r)"] by (simp add: resolved_map_def)
  moreover with assms(1) have "k = path_key (spr_path r)" unfolding resolved_map_def by blast
  ultimately have "map_option snd (bt_get m (path_key (spr_path r))) = Some (spr_access r)" by simp
  with assms(1) show ?thesis unfolding resolved_map_def by metis
qed

lemma rule_list_resolved:
  assumes "resolved_map H rs m" "r \<in> set rs"
  shows "\<exists>q. resolve_path_for_seatbelt H (spr_path r) = Inr q \<and> (\<exists>r' \<in> set (rule_list m). path_eq (spr_path r') q)"
proof -
  from assms obtain q where q: "resolve_path_for_seatbelt H (spr_path r) = Inr q"
    by (auto simp: resolved_map_def is_ok_iff)
  with assms(2) have "resolved_accesses H rs q \<noteq> {}" by (auto simp: resolved_accesses_def path_eq_def)
  then have "strictest (resolved_accesses H rs q) \<noteq> None" by (simp add: strictest_None)
  then have "map_option snd (bt_get m (path_key q)) \<noteq> None" using assms(1) unfolding resolved_map_def by metis
  then obtain p a where get: "bt_get m (path_key q) = Some (p, a)" by auto
  with assms(1) have "path_key q = path_key p" unfolding resolved_map_def by blast
  moreover have "\<lparr>spr_path = p, spr_access = a\<rparr> \<in> set (rule_list m)"
    using bt_get_Some_in [OF get] by (force simp: rule_list_def)
  ultimately show ?thesis using q by (force simp: path_key_eq [symmetric])
qed

section \<open>The parts of a compilation\<close>

lemma compile_parts:
  assumes "compile_inspectable H S request = Inr c"
  obtains canonical command rules where
    "canonicalize_sandbox_profile (scr_profile request) = Inr canonical"
    "resolve_command_for_seatbelt H (scr_command request) = Inr command"
    "resolved_map H (sfp_rules (sp_filesystem canonical)) rules"
    "sfp_rules (sp_filesystem (csp_profile (slp_compiled (sbc_launch_plan c)))) = rule_list rules"
    "compile_policy H (csp_profile (slp_compiled (sbc_launch_plan c))) command = Inr (sbc_artifact c)"
    "terminal_action_digest S command = Inr (csp_action_digest (slp_compiled (sbc_launch_plan c)))"
    "sandbox_profile_digest S (csp_profile (slp_compiled (sbc_launch_plan c))) = Inr (csp_profile_digest (slp_compiled (sbc_launch_plan c)))"
    "merged_environment (csp_profile (slp_compiled (sbc_launch_plan c))) command = Inr (tc_env (slp_command (sbc_launch_plan c)))"
    "slp_command (sbc_launch_plan c) = \<lparr>tc_program = MACOS_SEATBELT_EXECUTABLE,
       tc_args = seatbelt_arguments (sbc_artifact c) command, tc_cwd = tc_cwd command,
       tc_env = tc_env (slp_command (sbc_launch_plan c))\<rparr>"
    "slp_clear_environment (sbc_launch_plan c)" "csp_enforced (slp_compiled (sbc_launch_plan c))"
proof -
  from assms have macos: "compile_macos H S request = Inr c"
    by (simp add: compile_inspectable_def split: if_splits)
  then obtain command resolved profile artifact profile_digest action_digest environment where
      command: "resolve_command_for_seatbelt H (scr_command request) = Inr command"
    and resolved: "resolve_profile_for_seatbelt H (scr_profile request) = Inr resolved"
    and profile: "add_platform_exec_variants H command resolved = Inr profile"
    and artifact: "compile_policy H profile command = Inr artifact"
    and digests: "sandbox_profile_digest S profile = Inr profile_digest"
      "terminal_action_digest S command = Inr action_digest"
    and environment: "merged_environment profile command = Inr environment"
    and c: "c = \<lparr>sbc_launch_plan =
               \<lparr>slp_command = \<lparr>tc_program = MACOS_SEATBELT_EXECUTABLE,
                   tc_args = seatbelt_arguments artifact command,
                   tc_cwd = tc_cwd command, tc_env = environment\<rparr>,
                slp_compiled = \<lparr>csp_backend = MacOsSeatbelt, csp_enforced = True,
                   csp_profile = profile, csp_profile_digest = profile_digest,
                   csp_action_digest = action_digest\<rparr>,
                slp_clear_environment = True\<rparr>,
             sbc_artifact = artifact\<rparr>"
    unfolding compile_macos_def and_then_Inr_iff if_Inl_Inr_iff sum.inject
    by (elim conjE exE) (rule that; (assumption | erule sym))
  obtain canonical rules where canonical: "canonicalize_sandbox_profile (scr_profile request) = Inr canonical"
    and rules: "try_fold (add_resolved_rule H) [] (sfp_rules (sp_filesystem canonical)) = Inr rules"
    and "sfp_rules (sp_filesystem resolved) = rule_list rules"
    using resolved unfolding resolve_profile_for_seatbelt_def and_then_Inr_iff rule_list_def by auto
  then have same: "sfp_rules (sp_filesystem profile) = rule_list rules"
    using profile by (auto simp: add_platform_exec_variants_def and_then_Inr_iff split: if_splits)
  show thesis
    by (rule that [OF canonical command resolved_map_run [OF rules]])
      (use same artifact digests environment in \<open>simp_all add: c\<close>)
qed

lemma compile_policy_parts:
  assumes "compile_policy H profile command = Inr artifact"
  shows "\<exists>before. spa_policy artifact = before @ concat (map clause_text (file_clauses (sfp_rules (sp_filesystem profile))))"
    and "i < length (sfp_rules (sp_filesystem profile)) \<Longrightarrow>
      bt_get (spa_definitions artifact) (rule_key i) = Some (spr_path (sfp_rules (sp_filesystem profile) ! i))"
    and "i < length (bound_executables profile command) \<Longrightarrow>
      bt_get (spa_definitions artifact) (executable_key i) = Some (bound_executables profile command ! i)"
proof -
  let ?rules = "sfp_rules (sp_filesystem profile)"
  from assms have defs: "spa_definitions artifact = define_all rule_key (map spr_path ?rules)
      (define_all socket_key (bound_sockets profile)
        (define_all executable_key (bound_executables profile command) []))"
    unfolding compile_policy_def and_then_Inr_iff if_Inl_Inr_iff by (auto simp: policy_definitions_def)
  obtain port where "spa_policy artifact = policy_text H profile command port"
    using assms unfolding compile_policy_def and_then_Inr_iff if_Inl_Inr_iff by auto
  then show "\<exists>before. spa_policy artifact = before @ concat (map clause_text (file_clauses ?rules))"
    by (simp only: policy_text_def Let_def file_clauses_text append_assoc [symmetric]) blast
  show "bt_get (spa_definitions artifact) (rule_key i) = Some (spr_path (?rules ! i))" if "i < length ?rules"
    using that defs by (simp add: define_all_get inj_rule_key)
  have other: "bt_get (define_all key ps m) k = bt_get m k" if "\<And>i. key i \<noteq> k" for key ps m k
    using that by (induction ps rule: rev_induct)
      (simp add: define_all_def, simp add: define_all_snoc map_of_bt_insert not_sym [OF that])
  have different: "rule_key j \<noteq> executable_key i" "socket_key j \<noteq> executable_key i" for i j
    by (simp_all add: rule_key_def socket_key_def executable_key_def)
  show "bt_get (spa_definitions artifact) (executable_key i) = Some (bound_executables profile command ! i)"
    if "i < length (bound_executables profile command)"
    using that
    by (simp add: defs other different define_all_get inj_executable_key)
qed

lemma merged_environment_run:
  assumes "merged_environment profile command = Inr environment"
  shows "(k, v) \<in> set (tc_env command) \<Longrightarrow> bt_get environment k = Some v"
    and "bt_get (sep_variables (sp_environment profile)) k = Some v \<Longrightarrow> bt_get environment k = Some v"
    and "bt_get environment k = Some v \<Longrightarrow>
      (k, v) \<in> set (tc_env command) \<or> bt_get (sep_variables (sp_environment profile)) k = Some v"
proof -
  let ?step = "\<lambda>environment (key, value). case bt_get environment key of
       Some profile_value \<Rightarrow>
         if profile_value \<noteq> value then Inl (BackendError
           (''command environment conflicts with sandbox-owned variable '' @ key))
         else Inr (bt_insert key value environment)
     | None \<Rightarrow> Inr (bt_insert key value environment)"
  have "(\<forall>k v. (k, v) \<in> set kvs \<longrightarrow> bt_get m' k = Some v) \<and> (\<forall>k v. bt_get m k = Some v \<longrightarrow> bt_get m' k = Some v)
      \<and> (\<forall>k v. bt_get m' k = Some v \<longrightarrow> (k, v) \<in> set kvs \<or> bt_get m k = Some v)"
    if "try_fold ?step m kvs = Inr m'" for m m' kvs
    using that
  proof (induction kvs arbitrary: m)
    case (Cons kv kvs)
    obtain k v where kv: "kv = (k, v)" by (cases kv)
    from Cons.prems kv have old: "bt_get m k \<in> {None, Some v}"
      and rest: "try_fold ?step (bt_insert k v m) kvs = Inr m'"
      by (auto simp: and_then_Inr_iff split: option.splits if_splits)
    have new: "bt_get (bt_insert k v m) k' = (if k' = k then Some v else bt_get m k')" for k'
      by (simp add: map_of_bt_insert)
    note IH = Cons.IH [OF rest]
    have v: "bt_get m' k = Some v" using IH new [of k] by auto
    have kept: "bt_get m' k' = Some v'" if "bt_get m k' = Some v'" for k' v'
      using IH new [of k'] old that by (cases "k' = k") auto
    have origin: "(k', v') \<in> set (kv # kvs) \<or> bt_get m k' = Some v'" if "bt_get m' k' = Some v'" for k' v'
    proof (cases "k' = k")
      case False
      from IH that have "(k', v') \<in> set kvs \<or> bt_get (bt_insert k v m) k' = Some v'" by blast
      with new [of k'] False show ?thesis by auto
    qed (use v kv that in auto)
    from v kept origin IH kv show ?case by auto
  qed simp
  note run = this [OF assms [unfolded merged_environment_def]]
  show "(k, v) \<in> set (tc_env command) \<Longrightarrow> bt_get environment k = Some v"
    and "bt_get (sep_variables (sp_environment profile)) k = Some v \<Longrightarrow> bt_get environment k = Some v"
    and "bt_get environment k = Some v \<Longrightarrow>
      (k, v) \<in> set (tc_env command) \<or> bt_get (sep_variables (sp_environment profile)) k = Some v"
    using run by blast+
qed

section \<open>The proxy endpoint\<close>

lemma has_white_graphic: "list_all graphic s \<Longrightarrow> \<not> has_white s"
  by (induction s) (simp_all add: leading_white_graphic [OF white_space_no_letters(1) white_space_not_graphic(1)])

lemma starts_with_append: "starts_with p (p @ s)"
  by (simp add: starts_with_def)

lemma strip_prefix_Some: "strip_prefix p s = Some t \<longleftrightarrow> s = p @ t"
proof -
  have "s = p @ drop (length p) s" if "take (length p) s = p" using that append_take_drop_id by metis
  then show ?thesis by (auto simp: strip_prefix_def starts_with_def)
qed

lemma ends_with_char: "ends_with [c] s \<longleftrightarrow> s \<noteq> [] \<and> last s = c"
  by (cases s rule: rev_cases) (simp_all add: ends_with_def starts_with_def)

lemma without_slash:
  "(case strip_suffix ''/'' s of None \<Rightarrow> s | Some a \<Rightarrow> a) = (if s \<noteq> [] \<and> last s = CHR ''/'' then butlast s else s)"
  by (simp add: strip_suffix_def ends_with_char butlast_conv_take)

definition loopback_authority :: string where
  "loopback_authority = ''127.0.0.1:''"

lemma split_once_append: "d \<notin> set a \<Longrightarrow> split_once d (a @ d # b) = Some (a, b)"
  by (induction a) auto

lemma loopback_split: "split_once CHR '':'' (loopback_authority @ p) = Some (''127.0.0.1'', p)"
  by (simp add: loopback_authority_def)

lemma authority_clean:
  assumes "sign \<in> {[], ''+''}" "list_all is_ascii_digit ds"
  shows "\<not> list_ex (\<lambda>c. c \<in> set ''/?#@'') (loopback_authority @ sign @ ds)"
    and "\<not> has_white (loopback_authority @ sign @ ds)" and "CHR '':'' \<notin> set (sign @ ds)"
    and "loopback_authority @ sign @ ds \<noteq> []"
proof -
  have digit: "c \<notin> {CHR ''/'', CHR ''?'', CHR ''#'', CHR ''@'', CHR '':''}" if "is_ascii_digit c" for c
    using that by (auto simp: is_ascii_digit_def less_eq_char_def)
  have ds: "c \<notin> {CHR ''/'', CHR ''?'', CHR ''#'', CHR ''@'', CHR '':''}" if "c \<in> set ds" for c
    using digit assms(2) that by (auto simp: list_all_iff)
  with assms(1) show "\<not> list_ex (\<lambda>c. c \<in> set ''/?#@'') (loopback_authority @ sign @ ds)"
    by (auto simp: loopback_authority_def list_ex_iff)
  from ds assms(1) show "CHR '':'' \<notin> set (sign @ ds)" by auto
  have "list_all graphic ds" using assms(2) digit_graphic by (auto simp: list_all_iff)
  with assms(1) have "list_all graphic (loopback_authority @ sign @ ds)"
    by (auto simp: loopback_authority_def graphic_def)
  then show "\<not> has_white (loopback_authority @ sign @ ds)" by (rule has_white_graphic)
  show "loopback_authority @ sign @ ds \<noteq> []" by (simp add: loopback_authority_def)
qed

text \<open>The endpoint after the scheme and a final slash.\<close>

definition authority_port :: "string \<Rightarrow> sandbox_error + u16 option" where
  "authority_port authority =
     (if authority = [] \<or> list_ex (\<lambda>c. c \<in> set ''/?#@'') authority \<or> has_white authority
      then Inl (BackendError
        ''Seatbelt proxy endpoint must not contain credentials, paths, queries, or fragments'')
      else and_then (ok_or (split_once CHR '':'' authority) (BackendError
        ''Seatbelt proxy endpoint requires an explicit port'')) (\<lambda>(host, port).
      if host \<noteq> ''127.0.0.1'' \<or> CHR '':'' \<in> set port
      then Inl (BackendError ''Seatbelt proxy endpoint must use the IPv4 loopback address'')
      else (case parse_unsigned port of
          None \<Rightarrow> Inl (BackendError ''Seatbelt proxy endpoint has an invalid port'')
        | Some port \<Rightarrow>
            if port = 0 then Inl (BackendError ''Seatbelt proxy endpoint has an invalid port'')
            else Inr (Some port))))"

definition port_text :: "string \<Rightarrow> u16 \<Rightarrow> bool" where
  "port_text p port \<longleftrightarrow> (\<exists>sign ds. p = sign @ ds \<and> sign \<in> {[], ''+''} \<and> ds \<noteq> []
     \<and> list_all is_ascii_digit ds \<and> number_value ds < 2 ^ 16 \<and> unat port = number_value ds \<and> port \<noteq> 0)"

lemma authority_port_Inr:
  "authority_port a = Inr (Some port) \<longleftrightarrow> (\<exists>p. a = loopback_authority @ p \<and> port_text p port)"
proof
  assume ok: "authority_port a = Inr (Some port)"
  then obtain host p where split: "split_once CHR '':'' a = Some (host, p)"
    unfolding authority_port_def if_Inl_Inr_iff and_then_Inr_iff ok_or_Inr_iff by auto
  have "host = ''127.0.0.1''" "parse_unsigned p = Some port" "port \<noteq> 0"
    using ok split unfolding authority_port_def if_Inl_Inr_iff and_then_Inr_iff ok_or_Inr_iff
    by (auto split: option.splits if_splits)
  moreover have "a = host @ CHR '':'' # p" using split_once_Some [OF split] by simp
  ultimately show "\<exists>p. a = loopback_authority @ p \<and> port_text p port"
    unfolding parse_unsigned_Some port_text_def loopback_authority_def by simp
next
  assume "\<exists>p. a = loopback_authority @ p \<and> port_text p port"
  then obtain sign ds where a: "a = loopback_authority @ sign @ ds" and sign: "sign \<in> {[], ''+''}"
    and ds: "ds \<noteq> []" "list_all is_ascii_digit ds" "number_value ds < 2 ^ 16" "unat port = number_value ds"
      "port \<noteq> 0"
    by (auto simp: port_text_def)
  have "parse_unsigned (sign @ ds) = Some port"
    unfolding parse_unsigned_Some using sign ds by (intro exI [of _ sign] exI [of _ ds]) simp
  with ds(5) authority_clean [OF sign ds(2)] show "authority_port a = Inr (Some port)"
    by (simp add: authority_port_def a loopback_split)
qed

lemma proxy_port_authority:
  "proxy_loopback_port (ProxyOnly url hosts sockets) =
     and_then (ok_or (strip_prefix ''http://'' url) (BackendError
       ''Seatbelt proxy-only networking requires an HTTP loopback endpoint'')) (\<lambda>a.
     authority_port (if a \<noteq> [] \<and> last a = CHR ''/'' then butlast a else a))"
  by (simp only: proxy_loopback_port_def sandbox_network_policy.case without_slash Let_def authority_port_def)

lemma port_text_last: "port_text p port \<Longrightarrow> p \<noteq> [] \<and> last p \<noteq> CHR ''/''"
proof -
  assume "port_text p port"
  then obtain sign ds where p: "p = sign @ ds" "ds \<noteq> []" "list_all is_ascii_digit ds"
    by (auto simp: port_text_def)
  then have "is_ascii_digit (last ds)" by (simp add: list_all_iff)
  then have "last ds \<noteq> CHR ''/''" by (auto simp: is_ascii_digit_def less_eq_char_def)
  with p show ?thesis by simp
qed

section \<open>A compilation\<close>

text \<open>
  On the sample host \<^verbatim>\<open>/u\<close> is a link to \<^verbatim>\<open>/v\<close>, and nothing below either exists.
\<close>

definition sample_host :: seatbelt_host where
  "sample_host = \<lparr>sbh_macos = True,
     sbh_canonicalize = (\<lambda>p. if p = ''/u'' then Inr ''/v'' else if p \<in> {''/v'', ''/b''} then Inr p else Inl NotFound),
     sbh_is_file = (\<lambda>_. Inr True), sbh_is_dir = (\<lambda>_. True), sbh_io_text = (\<lambda>_. ''gone''),
     sbh_base_policy = ''(version 1)'', sbh_network_support_policy = []\<rparr>"

definition linked_rules :: "sandbox_path_rule list" where
  "linked_rules = [\<lparr>spr_path = ''/u'', spr_access = Write\<rparr>,
     \<lparr>spr_path = ''/u/n'', spr_access = sandbox_path_access.Deny\<rparr>,
     \<lparr>spr_path = ''/v'', spr_access = sandbox_path_access.Read\<rparr>]"

definition unlinked_rules :: "sandbox_path_rule list" where
  "unlinked_rules = [\<lparr>spr_path = ''/v'', spr_access = Write\<rparr>,
     \<lparr>spr_path = ''/v/n'', spr_access = sandbox_path_access.Deny\<rparr>]"

definition sandboxed_command :: terminal_command where
  "sandboxed_command = \<lparr>tc_program = ''/b'', tc_args = [''x''], tc_cwd = Some ''/u'', tc_env = [(''A'', ''1'')]\<rparr>"

definition seatbelt_request :: sandbox_compile_request where
  "seatbelt_request = \<lparr>scr_operation_id = OperationId 1, scr_operation_revision = 2, scr_actor = actor.User,
     scr_command = sandboxed_command, scr_profile = sample_profile linked_rules\<rparr>"

definition unlinked_command :: terminal_command where
  "unlinked_command = sandboxed_command\<lparr>tc_cwd := Some ''/v''\<rparr>"

lemmas path_evaluation = normalize_absolute_path_def components_def is_absolute_def map_filter_simps
  segment_component_def path_push_def component_str_def

lemma linked_canonical:
  "canonicalize_sandbox_profile (sample_profile linked_rules) = Inr (sample_profile linked_rules)"
  by (simp add: canonicalize_sandbox_profile_def sample_profile_def default_environment_policy_def
      check_environment_def canonical_rules_def add_rule_def linked_rules_def path_evaluation
      path_key_def component_key_def stricter_access_def check_mach_services_def canonical_network_def
      sort_paths_def sort_strings_def)

lemma nul_char: "nul = c \<longleftrightarrow> (of_char c :: nat) = 0"
  by (auto simp: nul_def) (metis char_of_char)

lemma sandboxed_canonical:
  "canonicalize_terminal_command sandboxed_command = Inr sandboxed_command"
  "canonicalize_terminal_command unlinked_command = Inr unlinked_command"
  by (simp_all add: canonicalize_terminal_command_def sandboxed_command_def unlinked_command_def path_evaluation
      check_environment_def nul_char)

lemma sample_resolves:
  "resolve_path_for_seatbelt sample_host ''/u'' = Inr ''/v''"
  "resolve_path_for_seatbelt sample_host ''/v'' = Inr ''/v''"
  "resolve_path_for_seatbelt sample_host ''/u/n'' = Inr ''/v/n''"
proof -
  show "resolve_path_for_seatbelt sample_host ''/u'' = Inr ''/v''"
    "resolve_path_for_seatbelt sample_host ''/v'' = Inr ''/v''"
    by (simp_all add: resolve_path_for_seatbelt_def sample_host_def)
  have path: "path_of [''u'', ''n''] = ''/u/n''" by (simp add: path_of_def)
  have "resolves_at sample_host [''u'', ''n''] 1 ''/v''"
    by (auto simp: resolves_at_def sample_host_def path_of_def le_Suc_eq)
  with resolve_path_Inr [of "[''u'', ''n'']" sample_host "''/v/n''"]
  show "resolve_path_for_seatbelt sample_host ''/u/n'' = Inr ''/v/n''"
    unfolding path
    by (auto simp: segment_ok_def path_push_def is_absolute_def intro!: exI [of _ "Suc 0"] exI [of _ "''/v''"])
qed

lemma sample_profile_resolves:
  "resolve_profile_for_seatbelt sample_host (sample_profile linked_rules) = Inr (sample_profile unlinked_rules)"
proof -
  have "try_fold (add_resolved_rule sample_host) [] linked_rules = Inr
      [(path_key ''/v'', ''/v'', Write), (path_key ''/v/n'', ''/v/n'', sandbox_path_access.Deny)]"
    by (simp add: linked_rules_def add_resolved_rule_def sample_resolves path_key_def components_def
        is_absolute_def map_filter_simps segment_component_def component_key_def stricter_access_def)
  moreover have "sfp_rules (sp_filesystem (sample_profile linked_rules)) = linked_rules"
    "spp_allowed_executables (sp_process (sample_profile linked_rules)) = []"
    "sp_network (sample_profile linked_rules) = Offline"
    by (simp_all add: sample_profile_def)
  ultimately show ?thesis
    by (simp add: resolve_profile_for_seatbelt_def linked_canonical)
      (simp add: sample_profile_def unlinked_rules_def sort_paths_def)
qed

lemma sample_command_resolves: "resolve_command_for_seatbelt sample_host sandboxed_command = Inr unlinked_command"
  unfolding resolve_command_for_seatbelt_def sandboxed_canonical
  by (simp add: resolve_existing_executable_def sample_host_def sandboxed_command_def unlinked_command_def)

lemma no_nul_texts:
  "nul \<notin> set policy_newline" "nul \<in> set (executable_text key) \<longleftrightarrow> nul \<in> set key"
  "nul \<in> set (rule_text key access) \<longleftrightarrow> nul \<in> set key"
  by (auto simp: policy_newline_def executable_text_def rule_text_def rule_filter_def nul_char
      split: sandbox_path_access.splits)

lemma no_nul_decimal: "nul \<notin> set (decimal n)"
proof
  assume "nul \<in> set (decimal n)"
  then have "is_ascii_digit nul" using decimal_digits [of n] by (simp add: list_all_iff)
  then show False by (simp add: is_ascii_digit_def less_eq_char_def nul_def)
qed

definition sample_artifact :: seatbelt_policy_artifact where
  "sample_artifact = \<lparr>spa_policy = policy_text sample_host (sample_profile unlinked_rules) unlinked_command None,
     spa_definitions = policy_definitions (sample_profile unlinked_rules) unlinked_command\<rparr>"

lemma sample_policy_compiles:
  "compile_policy sample_host (sample_profile unlinked_rules) unlinked_command = Inr sample_artifact"
proof -
  have "nul \<notin> set (policy_text sample_host (sample_profile unlinked_rules) unlinked_command None)"
    by (simp add: policy_text_def Let_def sample_profile_def unlinked_rules_def bound_executables_def
        sort_paths_def bound_sockets_def no_nul_texts no_nul_decimal executable_key_def rule_key_def)
      (simp add: nul_char sample_host_def)
  then show ?thesis
    by (simp add: compile_policy_def sample_artifact_def)
      (simp add: sample_profile_def proxy_loopback_port_def)
qed

lemma unlinked_canonical:
  "canonicalize_sandbox_profile (sample_profile unlinked_rules) = Inr (sample_profile unlinked_rules)"
  by (simp add: canonicalize_sandbox_profile_def sample_profile_def default_environment_policy_def
      check_environment_def canonical_rules_def add_rule_def unlinked_rules_def path_evaluation
      path_key_def component_key_def stricter_access_def check_mach_services_def canonical_network_def
      sort_paths_def sort_strings_def)

lemma sample_crate_digest:
  "sha256_json sample_sandbox_crate (Some bs) = Inr (hex_lower (replicate 32 (of_nat (length bs))))"
  "parse_digest mk (hex_lower (replicate 32 b)) = Inr (mk (hex_lower (replicate 32 b)))"
  using is_sha256_hex_lower [of "replicate 32 b"]
  by (simp_all add: sha256_json_def sample_sandbox_crate_def parse_digest_Inr_iff)

definition sample_compilation :: seatbelt_compilation where
  "sample_compilation = \<lparr>sbc_launch_plan =
     \<lparr>slp_command = \<lparr>tc_program = MACOS_SEATBELT_EXECUTABLE,
        tc_args = seatbelt_arguments sample_artifact unlinked_command,
        tc_cwd = Some ''/v'', tc_env = [(''A'', ''1'')]\<rparr>,
      slp_compiled = \<lparr>csp_backend = MacOsSeatbelt, csp_enforced = True,
        csp_profile = sample_profile unlinked_rules,
        csp_profile_digest = SandboxProfileDigest (hex_lower (replicate 32 2)),
        csp_action_digest = ActionDigest (hex_lower (replicate 32 1))\<rparr>,
      slp_clear_environment = True\<rparr>,
     sbc_artifact = sample_artifact\<rparr>"

lemma sample_compiles:
  "compile_inspectable sample_host sample_sandbox_crate seatbelt_request = Inr sample_compilation"
proof -
  have "validate_supported_contract (sample_profile linked_rules) = Inr ()"
    by (simp add: validate_supported_contract_def sample_profile_def validate_network_policy_def
        proxy_loopback_port_def)
  moreover have "ensure_seatbelt_executable sample_host = Inr ()"
    by (simp add: ensure_seatbelt_executable_def sample_host_def)
  moreover have "add_platform_exec_variants sample_host unlinked_command (sample_profile unlinked_rules)
      = Inr (sample_profile unlinked_rules)"
    by (simp add: add_platform_exec_variants_def unlinked_command_def sandboxed_command_def)
  moreover have "sandbox_profile_digest sample_sandbox_crate (sample_profile unlinked_rules)
      = Inr (SandboxProfileDigest (hex_lower (replicate 32 2)))"
  proof -
    have "profile_json sample_sandbox_crate (sample_profile unlinked_rules) = Some [1, 1]"
      by (simp add: sample_sandbox_crate_def sample_profile_def unlinked_rules_def)
    then show ?thesis by (simp add: sandbox_profile_digest_def unlinked_canonical sample_crate_digest)
  qed
  moreover have "terminal_action_digest sample_sandbox_crate unlinked_command
      = Inr (ActionDigest (hex_lower (replicate 32 1)))"
  proof -
    have "command_json sample_sandbox_crate unlinked_command = Some [2]"
      by (simp add: sample_sandbox_crate_def unlinked_command_def sandboxed_command_def)
    then show ?thesis by (simp add: terminal_action_digest_def sandboxed_canonical sample_crate_digest)
  qed
  moreover have "merged_environment (sample_profile unlinked_rules) unlinked_command = Inr [(''A'', ''1'')]"
    by (simp add: merged_environment_def sample_profile_def default_environment_policy_def
        unlinked_command_def sandboxed_command_def)
  moreover have "sbh_macos sample_host" "tc_cwd unlinked_command = Some ''/v''"
    by (simp_all add: sample_host_def unlinked_command_def)
  ultimately show ?thesis
    by (simp add: compile_inspectable_def compile_macos_def seatbelt_request_def sample_profile_resolves
        sample_command_resolves sample_policy_compiles sample_compilation_def)
qed

section \<open>Properties\<close>

text \<open>
  C12. The policy text ends with the clauses of the compiled profile's rules, their parameters
  bound to the paths of the rules, and they are in such an order that the deepest rule has the
  last word: among the clauses on reading (or on writing) whose parameter is a path or one above
  it, the last in the text is that of the deepest rule that covers the path, and it allows
  exactly when this rule does; where no rule covers the path, no clause speaks of it. Besides
  these the rules write only clauses for the ancestors of their paths, which allow the tests of
  metadata and existence, below a denied place too. What \<^verbatim>\<open>sandbox-exec\<close> makes of the text is
  not part of the statement.
\<close>

theorem deepest_rule_is_last:
  assumes "compile_inspectable H S request = Inr c" and "access \<in> {FileRead, FileWrite}"
  shows "let rules = sfp_rules (sp_filesystem (csp_profile (slp_compiled (sbc_launch_plan c))));
      definitions = spa_definitions (sbc_artifact c) in
    (\<exists>before. spa_policy (sbc_artifact c) = before @ concat (map clause_text (file_clauses rules)))
    \<and> (\<forall>i < length rules. bt_get definitions (rule_key i) = Some (spr_path (rules ! i)))
    \<and> ((\<forall>r \<in> set rules. \<not> covers r path) \<longrightarrow> last_clause definitions (file_clauses rules) access path = None)
    \<and> (\<forall>r \<in> set rules. covers r path \<and> (\<forall>r' \<in> set rules. covers r' path \<longrightarrow>
          length (components (spr_path r')) \<le> length (components (spr_path r)))
        \<longrightarrow> (\<exists>i c. i < length rules \<and> rules ! i = r
              \<and> last_clause definitions (file_clauses rules) access path = Some c
              \<and> clause_filter c = LiteralOrSubpath (rule_key i) \<and> (is_Allow c \<longleftrightarrow> permits (spr_access r) access)))
    \<and> (\<forall>c \<in> set (file_clauses rules). \<forall>key. clause_filter c = PathAncestors key \<longrightarrow>
          c = Allow [FileReadMetadata, FileTestExistence] (PathAncestors key))"
proof -
  let ?rules = "sfp_rules (sp_filesystem (csp_profile (slp_compiled (sbc_launch_plan c))))"
  from assms(1) obtain canonical :: sandbox_profile and command m where m: "resolved_map H (sfp_rules (sp_filesystem canonical)) m"
    and rules: "?rules = rule_list m"
    and policy: "compile_policy H (csp_profile (slp_compiled (sbc_launch_plan c))) command = Inr (sbc_artifact c)"
    by (rule compile_parts) (rule that)
  note parts = compile_policy_parts [OF policy]
  have sorted: "sorted_wrt (<) (map (\<lambda>r. path_key (spr_path r)) ?rules)"
    unfolding rules by (rule rule_list_sorted [OF m])
  note deepest = deepest_clause [OF parts(2) assms(2) sorted, of _ path]
  show ?thesis
    unfolding Let_def
  proof (intro conjI ballI impI allI, goal_cases)
    case (4 r)
    then obtain i where "i < length ?rules" "?rules ! i = r"
      "last_clause (spa_definitions (sbc_artifact c)) (file_clauses ?rules) access path
         = Some (rule_clause (rule_key i) (spr_access r) access)"
      using deepest [of r] by blast
    then show ?case using rule_clause_permits assms(2) by blast
  qed (use parts(1,2) no_clause [OF parts(2) assms(2)] ancestor_clauses in auto)
qed

theorem deepest_rule_is_last_witness:
  "\<exists>c d. last_clause (spa_definitions (sbc_artifact sample_compilation)) (file_clauses unlinked_rules)
     FileWrite ''/v/n/k'' = Some c \<and> \<not> is_Allow c
   \<and> last_clause (spa_definitions (sbc_artifact sample_compilation)) (file_clauses unlinked_rules)
     FileWrite ''/v/m'' = Some d \<and> is_Allow d"
proof -
  have rules: "sfp_rules (sp_filesystem (csp_profile (slp_compiled (sbc_launch_plan sample_compilation)))) = unlinked_rules"
    by (simp add: sample_compilation_def sample_profile_def)
  note comps = unlinked_rules_def covers_def path_starts_with_def components_def is_absolute_def
    map_filter_simps segment_component_def permits_def
  have "\<exists>c. last_clause (spa_definitions (sbc_artifact sample_compilation)) (file_clauses unlinked_rules)
      FileWrite ''/v/n/k'' = Some c \<and> \<not> is_Allow c"
    using deepest_rule_is_last [OF sample_compiles, of FileWrite "''/v/n/k''", unfolded Let_def rules]
    by (auto simp: comps)
  moreover have "\<exists>d. last_clause (spa_definitions (sbc_artifact sample_compilation)) (file_clauses unlinked_rules)
      FileWrite ''/v/m'' = Some d \<and> is_Allow d"
    using deepest_rule_is_last [OF sample_compiles, of FileWrite "''/v/m''", unfolded Let_def rules]
    by (auto simp: comps)
  ultimately show ?thesis by blast
qed

text \<open>
  C27. The rules of a compiled profile are those of the request with every path resolved on the
  host: each requested rule has a compiled rule at the place its path leads to, and a compiled
  rule has the strictest access of all rules that lead to its path, so a link cannot give a
  denied place a weaker rule.
\<close>

theorem resolved_rules_are_strictest:
  assumes "compile_inspectable H S request = Inr c"
    and "canonicalize_sandbox_profile (scr_profile request) = Inr canonical"
  shows "let requested = sfp_rules (sp_filesystem canonical);
      compiled = sfp_rules (sp_filesystem (csp_profile (slp_compiled (sbc_launch_plan c)))) in
    (\<forall>r \<in> set requested. \<exists>q. resolve_path_for_seatbelt H (spr_path r) = Inr q
       \<and> (\<exists>r' \<in> set compiled. path_eq (spr_path r') q))
    \<and> (\<forall>r' \<in> set compiled. strictest (spr_access ` {r \<in> set requested.
         \<exists>q. resolve_path_for_seatbelt H (spr_path r) = Inr q \<and> path_eq q (spr_path r')})
       = Some (spr_access r'))"
proof -
  from assms(1) obtain m where m: "resolved_map H (sfp_rules (sp_filesystem canonical)) m"
    and rules: "sfp_rules (sp_filesystem (csp_profile (slp_compiled (sbc_launch_plan c)))) = rule_list m"
    by (rule compile_parts) (use assms(2) that in simp)
  show ?thesis
    unfolding Let_def rules using rule_list_resolved [OF m] rule_list_access [OF m]
    by (auto simp: resolved_accesses_def)
qed

theorem resolved_rules_are_strictest_witness:
  "strictest {Write, sandbox_path_access.Read} = Some Write
   \<and> list_all (\<lambda>r'. strictest (spr_access ` {r \<in> set linked_rules.
        \<exists>q. resolve_path_for_seatbelt sample_host (spr_path r) = Inr q \<and> path_eq q (spr_path r')})
      = Some (spr_access r')) unlinked_rules"
proof -
  have "sfp_rules (sp_filesystem (sample_profile rules)) = rules" for rules by (simp add: sample_profile_def)
  moreover have "canonicalize_sandbox_profile (scr_profile seatbelt_request) = Inr (sample_profile linked_rules)"
    by (simp add: seatbelt_request_def linked_canonical)
  moreover have "csp_profile (slp_compiled (sbc_launch_plan sample_compilation)) = sample_profile unlinked_rules"
    by (simp add: sample_compilation_def)
  ultimately show ?thesis
    using resolved_rules_are_strictest [OF sample_compiles, of "sample_profile linked_rules"]
    unfolding Let_def by (simp add: strictest_def list_all_iff)
qed

text \<open>
  C28. The command a plan starts is the approved one under the policy, and no other: the
  arguments are the policy, one definition per bound parameter and, after the separator, the
  program and arguments of the resolved command whose digest the plan carries; its executable
  is bound unless the profile allows any; and the cleared environment gets exactly the
  variables of the command and of the profile, which never disagree.
\<close>

theorem seatbelt_runs_the_digested_command:
  assumes "compile_inspectable H S request = Inr c"
  shows "\<exists>command. resolve_command_for_seatbelt H (scr_command request) = Inr command
    \<and> terminal_action_digest S command = Inr (csp_action_digest (slp_compiled (sbc_launch_plan c)))
    \<and> slp_clear_environment (sbc_launch_plan c)
    \<and> tc_program (slp_command (sbc_launch_plan c)) = MACOS_SEATBELT_EXECUTABLE
    \<and> tc_cwd (slp_command (sbc_launch_plan c)) = tc_cwd command
    \<and> tc_args (slp_command (sbc_launch_plan c)) =
        [''-p'', spa_policy (sbc_artifact c)]
        @ map (\<lambda>(key, value). ''-D'' @ key @ ''='' @ value) (spa_definitions (sbc_artifact c))
        @ [''--'', tc_program command] @ tc_args command
    \<and> (spp_allow_any_executable (sp_process (csp_profile (slp_compiled (sbc_launch_plan c))))
       \<or> (\<exists>i p. bt_get (spa_definitions (sbc_artifact c)) (executable_key i) = Some p
            \<and> path_eq p (tc_program command)))
    \<and> (\<forall>k v. bt_get (tc_env (slp_command (sbc_launch_plan c))) k = Some v \<longleftrightarrow>
         (k, v) \<in> set (tc_env command)
         \<or> bt_get (sep_variables (sp_environment (csp_profile (slp_compiled (sbc_launch_plan c))))) k = Some v)"
proof -
  let ?profile = "csp_profile (slp_compiled (sbc_launch_plan c))"
  from assms obtain command where
      command: "resolve_command_for_seatbelt H (scr_command request) = Inr command"
    and policy: "compile_policy H ?profile command = Inr (sbc_artifact c)"
    and digest: "terminal_action_digest S command = Inr (csp_action_digest (slp_compiled (sbc_launch_plan c)))"
    and environment: "merged_environment ?profile command = Inr (tc_env (slp_command (sbc_launch_plan c)))"
    and plan: "slp_command (sbc_launch_plan c) = \<lparr>tc_program = MACOS_SEATBELT_EXECUTABLE,
       tc_args = seatbelt_arguments (sbc_artifact c) command, tc_cwd = tc_cwd command,
       tc_env = tc_env (slp_command (sbc_launch_plan c))\<rparr>"
    and clear: "slp_clear_environment (sbc_launch_plan c)"
    by (rule compile_parts) (rule that)
  have bound: "\<exists>i p. bt_get (spa_definitions (sbc_artifact c)) (executable_key i) = Some p
      \<and> path_eq p (tc_program command)" if "\<not> spp_allow_any_executable (sp_process ?profile)"
  proof -
    let ?ps = "spp_allowed_executables (sp_process ?profile) @ [tc_program command]"
    have "path_key ` set (sort_paths ?ps) = path_key ` set ?ps"
      by (simp add: sort_paths_dedup sort_dedup_def dedup_keys)
    then have "path_key (tc_program command) \<in> path_key ` set (sort_paths ?ps)" by simp
    then obtain i where i: "i < length (sort_paths ?ps)" "path_key (sort_paths ?ps ! i) = path_key (tc_program command)"
      by (auto simp: in_set_conv_nth)
    have "bound_executables ?profile command = sort_paths ?ps" using that by (simp add: bound_executables_def)
    with compile_policy_parts(3) [OF policy, of i] i show ?thesis by (auto simp: path_key_eq)
  qed
  have same: "tc_program (slp_command (sbc_launch_plan c)) = MACOS_SEATBELT_EXECUTABLE"
    "tc_cwd (slp_command (sbc_launch_plan c)) = tc_cwd command"
    "tc_args (slp_command (sbc_launch_plan c)) = seatbelt_arguments (sbc_artifact c) command"
    by (subst plan, simp)+
  have variables: "bt_get (tc_env (slp_command (sbc_launch_plan c))) k = Some v \<longleftrightarrow>
      (k, v) \<in> set (tc_env command) \<or> bt_get (sep_variables (sp_environment ?profile)) k = Some v" for k v
    using merged_environment_run [OF environment] by blast
  show ?thesis
    by (rule exI [of _ command], intro conjI allI)
      (use command digest clear same bound in \<open>simp_all add: variables seatbelt_arguments_def\<close>, blast)
qed

theorem seatbelt_runs_the_digested_command_witness:
  "\<exists>before. tc_args (slp_command (sbc_launch_plan sample_compilation)) = before @ [''--'', ''/b'', ''x'']"
proof -
  have "scr_command seatbelt_request = sandboxed_command" by (simp add: seatbelt_request_def)
  with seatbelt_runs_the_digested_command [OF sample_compiles]
  have "tc_args (slp_command (sbc_launch_plan sample_compilation)) =
      [''-p'', spa_policy (sbc_artifact sample_compilation)]
      @ map (\<lambda>(key, value). ''-D'' @ key @ ''='' @ value) (spa_definitions (sbc_artifact sample_compilation))
      @ [''--'', tc_program unlinked_command] @ tc_args unlinked_command"
    by (simp add: sample_command_resolves)
  then show ?thesis by (simp add: unlinked_command_def sandboxed_command_def)
qed

lemma loopback_port_iff:
  "proxy_loopback_port (ProxyOnly url hosts sockets) = Inr (Some port) \<longleftrightarrow>
      (\<exists>p slash. url = ''http://'' @ loopback_authority @ p @ slash \<and> slash \<in> {[], ''/''} \<and> port_text p port)"
proof
  assume "proxy_loopback_port (ProxyOnly url hosts sockets) = Inr (Some port)"
  then obtain a where a: "url = ''http://'' @ a"
    and "authority_port (if a \<noteq> [] \<and> last a = CHR ''/'' then butlast a else a) = Inr (Some port)"
    unfolding proxy_port_authority and_then_Inr_iff ok_or_Inr_iff strip_prefix_Some by auto
  then obtain p where p: "(if a \<noteq> [] \<and> last a = CHR ''/'' then butlast a else a) = loopback_authority @ p"
    and port: "port_text p port"
    unfolding authority_port_Inr by blast
  show "\<exists>p slash. url = ''http://'' @ loopback_authority @ p @ slash \<and> slash \<in> {[], ''/''} \<and> port_text p port"
  proof (cases "a \<noteq> [] \<and> last a = CHR ''/''")
    case True
    with p have "a = (loopback_authority @ p) @ ''/''" using append_butlast_last_id [of a] by simp
    with a port show ?thesis by (intro exI [of _ p] exI [of _ "''/''"]) simp
  next
    case False
    with p have "a = loopback_authority @ p" by auto
    with a port show ?thesis by (intro exI [of _ p] exI [of _ "[]"]) simp
  qed
next
  assume "\<exists>p slash. url = ''http://'' @ loopback_authority @ p @ slash \<and> slash \<in> {[], ''/''} \<and> port_text p port"
  then obtain p slash where url: "url = ''http://'' @ loopback_authority @ p @ slash"
    and slash: "slash \<in> {[], ''/''}" and port: "port_text p port" by blast
  let ?a = "loopback_authority @ p @ slash"
  have "(if ?a \<noteq> [] \<and> last ?a = CHR ''/'' then butlast ?a else ?a) = loopback_authority @ p"
    using slash port_text_last [OF port] by (auto simp: butlast_append)
  moreover have "authority_port (loopback_authority @ p) = Inr (Some port)"
    unfolding authority_port_Inr using port by blast
  ultimately show "proxy_loopback_port (ProxyOnly url hosts sockets) = Inr (Some port)"
    unfolding proxy_port_authority and_then_Inr_iff ok_or_Inr_iff strip_prefix_Some
    using url by (intro exI [of _ ?a]) simp
qed

lemma port_text_parts:
  "(\<exists>p slash. url = ''http://'' @ loopback_authority @ p @ slash \<and> slash \<in> {[], ''/''} \<and> port_text p port)
    \<longleftrightarrow> (\<exists>sign ds slash. url = ''http://'' @ loopback_authority @ sign @ ds @ slash
      \<and> sign \<in> {[], ''+''} \<and> slash \<in> {[], ''/''} \<and> ds \<noteq> [] \<and> list_all is_ascii_digit ds
      \<and> number_value ds < 2 ^ 16 \<and> unat port = number_value ds \<and> port \<noteq> 0)" (is "?l \<longleftrightarrow> ?r")
proof
  assume ?l
  then obtain p slash sign ds where "url = ''http://'' @ loopback_authority @ p @ slash"
    "slash \<in> {[], ''/''}" "p = sign @ ds" "sign \<in> {[], ''+''}" "ds \<noteq> []" "list_all is_ascii_digit ds"
    "number_value ds < 2 ^ 16" "unat port = number_value ds" "port \<noteq> 0"
    unfolding port_text_def by blast
  then show ?r by (intro exI [of _ sign] exI [of _ ds] exI [of _ slash]) simp
next
  assume ?r
  then obtain sign ds slash where "url = ''http://'' @ loopback_authority @ sign @ ds @ slash"
    and r: "sign \<in> {[], ''+''}" "slash \<in> {[], ''/''}" "ds \<noteq> []" "list_all is_ascii_digit ds"
    "number_value ds < 2 ^ 16" "unat port = number_value ds" "port \<noteq> 0" by blast
  moreover from r have "port_text (sign @ ds) port" unfolding port_text_def by blast
  ultimately show ?l by (intro exI [of _ "sign @ ds"] exI [of _ slash]) simp
qed

text \<open>
  The only network endpoint a policy opens is a port of the IPv4 loopback address: the
  compiler takes a proxy URL exactly when it is \<^verbatim>\<open>http://127.0.0.1:\<close> with a decimal port
  between 1 and 65535 (a plus sign before it is read as \<^verbatim>\<open>str::parse\<close> does) and at most one
  final slash, and the port it opens is that port.
\<close>

lemma proxy_endpoint_is_loopback:
  "proxy_loopback_port (ProxyOnly url hosts sockets) = Inr (Some port) \<longleftrightarrow>
     (\<exists>sign ds slash. url = ''http://127.0.0.1:'' @ sign @ ds @ slash \<and> sign \<in> {[], ''+''}
        \<and> slash \<in> {[], ''/''} \<and> ds \<noteq> [] \<and> list_all is_ascii_digit ds
        \<and> number_value ds < 2 ^ 16 \<and> unat port = number_value ds \<and> port \<noteq> 0)"
proof -
  have url: "''http://127.0.0.1:'' @ t = ''http://'' @ loopback_authority @ t" for t
    by (simp add: loopback_authority_def)
  show ?thesis unfolding url loopback_port_iff port_text_parts by (rule refl)
qed

text \<open>
  C33. The loop that resolves a path ends, and gives the deepest ancestor of the path that the
  host resolves with the names below it appended in their order; it fails exactly when not even
  the root resolves.
\<close>

theorem resolution_reaches_the_deepest_ancestor:
  assumes "list_all segment_ok ws"
  shows "(\<forall>q. resolve_path_for_seatbelt H (path_of ws) = Inr q \<longleftrightarrow>
      (\<exists>k r. k \<le> length ws \<and> sbh_canonicalize H (path_of (take k ws)) = Inr r
         \<and> (\<forall>j. k < j \<and> j \<le> length ws \<longrightarrow> \<not> is_ok (sbh_canonicalize H (path_of (take j ws))))
         \<and> q = foldl path_push r (drop k ws)))
    \<and> ((\<exists>e. resolve_path_for_seatbelt H (path_of ws) = Inl e) \<longleftrightarrow>
       (\<forall>k \<le> length ws. \<not> is_ok (sbh_canonicalize H (path_of (take k ws)))))"
proof -
  note success = resolve_path_Inr [OF assms, of H]
  have some: "(\<exists>q. resolve_path_for_seatbelt H (path_of ws) = Inr q) \<longleftrightarrow> (\<exists>k r. resolves_at H ws k r)"
    using success by blast
  have "(\<exists>k r. resolves_at H ws k r) \<longleftrightarrow> (\<exists>k \<le> length ws. is_ok (sbh_canonicalize H (path_of (take k ws))))"
  proof
    assume "\<exists>k \<le> length ws. is_ok (sbh_canonicalize H (path_of (take k ws)))"
    then obtain k where "k \<le> length ws" "is_ok (sbh_canonicalize H (path_of (take k ws)))"
      and "\<And>j. j \<le> length ws \<Longrightarrow> is_ok (sbh_canonicalize H (path_of (take j ws))) \<Longrightarrow> j \<le> k"
      using GreatestI_ex_nat [of "\<lambda>k. k \<le> length ws \<and> is_ok (sbh_canonicalize H (path_of (take k ws)))" "length ws"]
        Greatest_le_nat [of "\<lambda>k. k \<le> length ws \<and> is_ok (sbh_canonicalize H (path_of (take k ws)))" _ "length ws"]
      by blast
    then show "\<exists>k r. resolves_at H ws k r"
      unfolding resolves_at_def is_ok_iff by (metis not_le)
  qed (auto simp: resolves_at_def)
  then have "(\<exists>e. resolve_path_for_seatbelt H (path_of ws) = Inl e) \<longleftrightarrow>
      (\<forall>k \<le> length ws. \<not> is_ok (sbh_canonicalize H (path_of (take k ws))))"
    using some by (cases "resolve_path_for_seatbelt H (path_of ws)") auto
  then show ?thesis using success by (auto simp: resolves_at_def)
qed

theorem resolution_reaches_the_deepest_ancestor_witness:
  "\<exists>r. sbh_canonicalize sample_host (path_of [''u'']) = Inr r \<and> ''/v/n'' = foldl path_push r [''n'']"
proof -
  have "resolve_path_for_seatbelt sample_host (path_of [''u'', ''n'']) = Inr ''/v/n''"
    using sample_resolves(3) by (simp add: path_of_def)
  moreover have "list_all segment_ok [''u'', ''n'']" by (simp add: segment_ok_def)
  ultimately obtain k r where k: "k \<le> length [''u'', ''n'']"
    and r: "sbh_canonicalize sample_host (path_of (take k [''u'', ''n''])) = Inr r"
      "''/v/n'' = foldl path_push r (drop k [''u'', ''n''])"
    using resolution_reaches_the_deepest_ancestor [of "[''u'', ''n'']" sample_host] by blast
  from k have "k = 0 \<or> k = 1 \<or> k = 2" by auto
  with r show ?thesis by (auto simp: sample_host_def path_of_def)
qed

end
