(* ===== verification/Mcp_Safety.thy ===== *)
theory Mcp_Safety
  imports Mcp_Server
begin

text \<open>
  What the MCP server promises the permission broker: an executor sees only calls that were
  proposed and then authorized, each for the exact bytes that were proposed.
\<close>

section \<open>Sessions as sequences of calls\<close>

datatype mcp_event =
    Receive json
  | Authorize external_request_id agent_effect_authorization
  | Complete external_request_id mcp_tool_result
  | Fail external_request_id string

datatype mcp_output =
    Answered "mcp_server_action option"
  | Decided mcp_authorization_outcome
  | Replied json

definition mcp_call :: "mcp_crate \<Rightarrow> mcp_event \<Rightarrow> mcp_output mcp_step" where
  "mcp_call C e = (case e of
       Receive m \<Rightarrow> bind_step (receive_message C m) (\<lambda>a. return_step (Answered a))
     | Authorize rid a \<Rightarrow> bind_step (authorize_tool C rid a) (\<lambda>x. return_step (Decided x))
     | Complete rid r \<Rightarrow> bind_step (complete_tool C rid r) (\<lambda>v. return_step (Replied v))
     | Fail rid m \<Rightarrow> bind_step (fail_tool C rid m) (\<lambda>v. return_step (Replied v)))"

type_synonym mcp_history = "(mcp_event \<times> (mcp_server_error + mcp_output)) list"

primrec mcp_run ::
    "mcp_crate \<Rightarrow> mcp_agent_server \<Rightarrow> mcp_event list \<Rightarrow> mcp_history \<times> mcp_agent_server" where
  "mcp_run C s [] = ([], s)"
| "mcp_run C s (e # es) = (let (r, t) = mcp_call C e s; (h, u) = mcp_run C t es in ((e, r) # h, u))"

lemma mcp_run_snoc:
  "mcp_run C s (es @ [e]) = (let (h, t) = mcp_run C s es; (r, u) = mcp_call C e t in (h @ [(e, r)], u))"
  by (induction es arbitrary: s) (auto split: prod.splits)

section \<open>One call\<close>

text \<open>A message leaves the pending calls alone, or adds one call that passed every check.\<close>

definition proposable :: "mcp_crate \<Rightarrow> mcp_agent_server \<Rightarrow> mcp_tool_call \<Rightarrow> bool" where
  "proposable C s call \<longleftrightarrow>
     (\<exists>profile. tool_profile (mt_name call) = Some profile \<and> mt_class call = tp_class profile)
     \<and> mt_class call \<in> set (ms_enabled_tools s)
     \<and> validate_arguments C (mt_class call) (mt_arguments call) = Inr ()
     \<and> sha256_value C (call_payload (mt_name call) (mt_arguments call))
         = Inr (aep_payload_sha256 (mt_proposal call))"

definition only_lifecycle :: "mcp_agent_server \<Rightarrow> mcp_agent_server \<Rightarrow> bool" where
  "only_lifecycle s t \<longleftrightarrow> ms_pending t = ms_pending s \<and> ms_enabled_tools t = ms_enabled_tools s"

interpretation lifecycle: step_preorder only_lifecycle
  by unfold_locales (auto simp: only_lifecycle_def)

lemma lifecycle_update: "obeys only_lifecycle (update_step (ms_lifecycle_update f))"
  by (rule lifecycle.obeys_update) (simp add: only_lifecycle_def)

lemma quiet_handlers:
  "obeys only_lifecycle (initialize_session C request params)"
  "obeys only_lifecycle (mark_initialized request)"
  "obeys only_lifecycle (list_tools request params)"
  "obeys only_lifecycle (empty_inventory request field)"
  "obeys only_lifecycle (refuse_message request code message)"
  unfolding initialize_session_def mark_initialized_def list_tools_def empty_inventory_def
    refuse_message_def respond_def
  by (auto intro!: lifecycle.obeys_parts lifecycle_update split: option.split)

lemma quiet_outputs:
  "initialize_session C request params s \<noteq> (Inr (Some (ToolProposed call)), t)"
  "mark_initialized request s \<noteq> (Inr (Some (ToolProposed call)), t)"
  "list_tools request params s \<noteq> (Inr (Some (ToolProposed call)), t)"
  "empty_inventory request field s \<noteq> (Inr (Some (ToolProposed call)), t)"
  "refuse_message request code message s \<noteq> (Inr (Some (ToolProposed call)), t)"
  unfolding initialize_session_def mark_initialized_def list_tools_def empty_inventory_def
    refuse_message_def respond_def not_ready_def
  by (cases request; auto simp: succeeds split: option.splits if_splits)+

definition added :: "mcp_agent_server \<Rightarrow> mcp_tool_call \<Rightarrow> mcp_agent_server" where
  "added s call = s\<lparr>ms_pending :=
     AList.update (mt_request_id call) \<lparr>ptc_call = call, ptc_authorized = False\<rparr> (ms_pending s)\<rparr>"

text \<open>The pending call of an identifier.\<close>

definition pending_at :: "mcp_agent_server \<Rightarrow> external_request_id \<Rightarrow> pending_tool_call option" where
  "pending_at s rid = map_of (ms_pending s) rid"

definition proposed_now :: "mcp_crate \<Rightarrow> mcp_agent_server \<Rightarrow> mcp_tool_call \<Rightarrow> mcp_agent_server \<Rightarrow> bool" where
  "proposed_now C s call t \<longleftrightarrow> proposable C s call \<and> pending_at s (mt_request_id call) = None
     \<and> length (ms_pending s) \<noteq> MAX_PENDING_TOOL_CALLS \<and> t = added s call"

definition message_effect ::
    "mcp_crate \<Rightarrow> mcp_agent_server \<Rightarrow> mcp_server_error + mcp_server_action option \<Rightarrow> mcp_agent_server \<Rightarrow> bool" where
  "message_effect C s r t \<longleftrightarrow> (case r of
       Inr (Some (ToolProposed call)) \<Rightarrow> proposed_now C s call t
     | _ \<Rightarrow> only_lifecycle s t)"

lemma message_effect_same: "(\<And>call. r \<noteq> Inr (Some (ToolProposed call))) \<Longrightarrow> message_effect C s r s"
  by (auto simp: message_effect_def only_lifecycle_def split: sum.split option.split mcp_server_action.split)

lemma propose_call_effect:
  assumes "propose_call C rid name profile arguments s = (r, t)"
    and "tool_profile name = Some profile" and "tp_class profile \<in> set (ms_enabled_tools s)"
    and "validate_arguments C (tp_class profile) arguments = Inr ()"
  shows "message_effect C s r t"
  using assms unfolding propose_call_def
  by (auto simp: step_simps guard_step_def then_step_def bind_step_def Let_def proposed_now_def
      pending_at_def proposable_def added_def effect_proposal_def message_effect_def only_lifecycle_def
      split: sum.splits if_splits)

lemma call_tool_effect:
  assumes "call_tool C request params s = (r, t)"
  shows "message_effect C s r t"
  using assms propose_call_effect [of C _ _ _ _ s r t] unfolding call_tool_def
  by (auto simp: step_simps respond_def not_ready_def bind_step_def Let_def intro!: message_effect_same
      split: option.splits sum.splits if_splits)

lemma quiet_effect:
  assumes "obeys only_lifecycle h" and "\<And>call. h s \<noteq> (Inr (Some (ToolProposed call)), t)" and "h s = (r, t)"
  shows "message_effect C s r t"
  using assms(2,3) obeysD [OF assms(1,3)]
  by (auto simp: message_effect_def split: sum.split option.split mcp_server_action.split)

lemmas handler_effects = quiet_effect [OF quiet_handlers(1) quiet_outputs(1)]
  quiet_effect [OF quiet_handlers(2) quiet_outputs(2)] quiet_effect [OF quiet_handlers(3) quiet_outputs(3)]
  quiet_effect [OF quiet_handlers(4) quiet_outputs(4)] quiet_effect [OF quiet_handlers(5) quiet_outputs(5)]
  call_tool_effect

lemma receive_effect:
  assumes "receive_message C m s = (r, t)"
  shows "message_effect C s r t"
proof (cases "ensure_size C m MAX_MCP_FRAME_BYTES ''MCP frame''")
  case (Inl e)
  then show ?thesis
    using assms by (auto simp: receive_message_def then_step_def step_simps intro!: message_effect_same)
next
  case (Inr u)
  then show ?thesis
    using assms
    by (auto simp: receive_message_def then_step_def step_simps Let_def intro: message_effect_same handler_effects
        split: option.splits if_splits)
qed

definition removed :: "mcp_agent_server \<Rightarrow> external_request_id \<Rightarrow> mcp_agent_server" where
  "removed s rid = s\<lparr>ms_pending := AList.delete rid (ms_pending s)\<rparr>"

definition granted :: "mcp_agent_server \<Rightarrow> external_request_id \<Rightarrow> pending_tool_call \<Rightarrow> mcp_agent_server" where
  "granted s rid p = s\<lparr>ms_pending := AList.update rid (p\<lparr>ptc_authorized := True\<rparr>) (ms_pending s)\<rparr>"

text \<open>An authorization is exact: a positive, single decision on the digest of these very bytes.\<close>

definition exact_grant :: "agent_effect_authorization \<Rightarrow> mcp_tool_call \<Rightarrow> bool" where
  "exact_grant a call \<longleftrightarrow> aea_decision a = AllowOnce \<and> aea_operation_revision a \<noteq> 0
     \<and> aea_proposal_sha256 a = aep_payload_sha256 (mt_proposal call)"

lemma authorize_effect:
  assumes "authorize_tool C rid a s = (r, t)"
  shows "(\<exists>p. pending_at s rid = Some p \<and> \<not> ptc_authorized p \<and> exact_grant a (ptc_call p)
       \<and> r = Inr (CallAuthorized (ptc_call p)) \<and> t = granted s rid p)
     \<or> (\<forall>call. r \<noteq> Inr (CallAuthorized call)) \<and> (t = s \<or> t = removed s rid)"
  using assms
  by (auto simp: authorize_tool_def step_simps then_step_def bind_step_def guard_step_def Let_def
      pending_at_def exact_grant_def granted_def removed_def ok_or_def split: sum.splits if_splits option.splits
      permission_decision.splits)

lemma complete_effect:
  assumes "complete_tool C rid result s = (r, t)"
  shows "(\<exists>p. pending_at s rid = Some p \<and> ptc_authorized p \<and> is_ok r \<and> t = removed s rid)
     \<or> \<not> is_ok r \<and> t = s"
  using assms
  by (auto simp: complete_tool_def step_simps then_step_def bind_step_def guard_step_def Let_def
      pending_at_def removed_def ok_or_def tool_result_def split: sum.splits if_splits option.splits)

lemma fail_effect: "fail_tool C rid message s = (r, t) \<Longrightarrow> t = s \<or> t = removed s rid"
  by (auto simp: fail_tool_def step_simps then_step_def bind_step_def guard_step_def Let_def
      removed_def ok_or_def split: sum.splits if_splits option.splits)

text \<open>
  A failure text above the result bound: the call is dropped from the pending calls before the
  reply is built, so the request of the client is never answered.
\<close>

lemma oversized_failure_is_never_answered:
  assumes "map_of (ms_pending s) rid = Some p" and "length message > MAX_MCP_RESULT_BYTES"
  shows "fail_tool C rid message s = (Inl ResultTooLarge, removed s rid)
    \<and> complete_tool C rid result (removed s rid) = (Inl UnknownToolCall, removed s rid)"
  using assms
  by (simp add: fail_tool_def complete_tool_def step_simps then_step_def bind_step_def removed_def
      tool_result_def validate_tool_result_def delete_conv')

section \<open>The invariant\<close>

definition proposes :: "external_request_id \<Rightarrow> mcp_event \<times> (mcp_server_error + mcp_output) \<Rightarrow> bool" where
  "proposes rid x \<longleftrightarrow> (case snd x of
       Inr (Answered (Some (ToolProposed call))) \<Rightarrow> mt_request_id call = rid | _ \<Rightarrow> False)"

definition authorizes :: "external_request_id \<Rightarrow> mcp_event \<times> (mcp_server_error + mcp_output) \<Rightarrow> bool" where
  "authorizes rid x \<longleftrightarrow> (case x of
       (Authorize i _, Inr (Decided (CallAuthorized _))) \<Rightarrow> i = rid | _ \<Rightarrow> False)"

definition completes :: "external_request_id \<Rightarrow> mcp_event \<times> (mcp_server_error + mcp_output) \<Rightarrow> bool" where
  "completes rid x \<longleftrightarrow> (case x of (Complete i _, Inr _) \<Rightarrow> i = rid | _ \<Rightarrow> False)"

definition occurrences :: "('x \<Rightarrow> bool) \<Rightarrow> 'x list \<Rightarrow> nat" where
  "occurrences P h = length (filter P h)"

lemma occurrences_snoc [simp]: "occurrences P (h @ [x]) = occurrences P h + (if P x then 1 else 0)" "occurrences P [] = 0"
  by (simp_all add: occurrences_def)

definition slot :: "mcp_agent_server \<Rightarrow> external_request_id \<Rightarrow> bool \<Rightarrow> nat" where
  "slot s rid authorized = (case pending_at s rid of
       Some p \<Rightarrow> if ptc_authorized p = authorized then 1 else 0 | None \<Rightarrow> 0)"

definition pending_ok :: "mcp_crate \<Rightarrow> mcp_agent_server \<Rightarrow> bool" where
  "pending_ok C s \<longleftrightarrow> distinct (map fst (ms_pending s)) \<and> length (ms_pending s) \<le> MAX_PENDING_TOOL_CALLS
     \<and> (\<forall>rid p. pending_at s rid = Some p \<longrightarrow>
          mt_request_id (ptc_call p) = rid \<and> proposable C s (ptc_call p))"

definition grant_ok :: "mcp_crate \<Rightarrow> mcp_agent_server \<Rightarrow> mcp_event \<times> (mcp_server_error + mcp_output) \<Rightarrow> bool" where
  "grant_ok C s x \<longleftrightarrow> (case x of
       (Authorize rid a, Inr (Decided (CallAuthorized call))) \<Rightarrow>
         mt_request_id call = rid \<and> exact_grant a call \<and> proposable C s call
     | _ \<Rightarrow> True)"

definition session_ok :: "mcp_crate \<Rightarrow> mcp_history \<Rightarrow> mcp_agent_server \<Rightarrow> bool" where
  "session_ok C h s \<longleftrightarrow> pending_ok C s \<and> list_all (grant_ok C s) h
     \<and> (\<forall>rid. occurrences (completes rid) h + slot s rid True \<le> occurrences (authorizes rid) h
          \<and> occurrences (authorizes rid) h + slot s rid False \<le> occurrences (proposes rid) h)"

lemma proposable_tools: "ms_enabled_tools t = ms_enabled_tools s \<Longrightarrow> proposable C t = proposable C s"
  by (simp add: proposable_def fun_eq_iff)

lemma grant_tools: "ms_enabled_tools t = ms_enabled_tools s \<Longrightarrow> grant_ok C t = grant_ok C s"
  unfolding grant_ok_def by (simp only: proposable_tools [of t s])

lemma tools_same [simp]:
  "ms_enabled_tools (removed s rid) = ms_enabled_tools s"
  "ms_enabled_tools (granted s rid p) = ms_enabled_tools s"
  "ms_enabled_tools (added s call) = ms_enabled_tools s"
  by (simp_all add: removed_def granted_def added_def)

lemma pending_at_simps:
  "pending_at (removed s rid) i = (if i = rid then None else pending_at s i)"
  "pending_at (granted s rid p) i = (if i = rid then Some (p\<lparr>ptc_authorized := True\<rparr>) else pending_at s i)"
  "pending_at (added s call) i = (if i = mt_request_id call
     then Some \<lparr>ptc_call = call, ptc_authorized = False\<rparr> else pending_at s i)"
  by (simp_all add: pending_at_def removed_def granted_def added_def delete_conv' update_conv')

lemma slot_simps:
  "slot (removed s rid) i b = (if i = rid then 0 else slot s i b)"
  "slot (granted s rid p) i b = (if i = rid then if b then 1 else 0 else slot s i b)"
  "slot (added s call) i b = (if i = mt_request_id call then if b then 0 else 1 else slot s i b)"
  by (simp_all add: slot_def pending_at_simps)

lemma pending_ok_removed: "pending_ok C s \<Longrightarrow> pending_ok C (removed s rid)"
  using length_delete_le [of rid "ms_pending s"] distinct_delete [of "ms_pending s" rid]
  by (auto simp: pending_ok_def proposable_tools [of "removed s rid" s] pending_at_simps split: if_splits)
    (simp_all add: removed_def)

lemma pending_ok_granted:
  assumes "pending_ok C s" and "pending_at s rid = Some p"
  shows "pending_ok C (granted s rid p)"
proof -
  have "rid \<in> set (map fst (ms_pending s))" using assms(2)
    by (auto simp: pending_at_def dest: map_of_SomeD intro: rev_image_eqI)
  then have "map fst (AList.update rid q (ms_pending s)) = map fst (ms_pending s)" for q
    by (simp add: update_keys)
  then have "map fst (ms_pending (granted s rid p)) = map fst (ms_pending s)" by (simp add: granted_def)
  moreover from this have "length (ms_pending (granted s rid p)) = length (ms_pending s)"
    by (metis length_map)
  ultimately show ?thesis
    using assms
    by (auto simp: pending_ok_def proposable_tools [of "granted s rid p" s] pending_at_simps split: if_splits)
qed

lemma pending_ok_added:
  assumes "pending_ok C s" and "proposed_now C s call t"
  shows "pending_ok C t"
proof -
  let ?i = "mt_request_id call"
  from assms(2) have t: "t = added s call" and "pending_at s ?i = None"
    and free: "length (ms_pending s) \<noteq> MAX_PENDING_TOOL_CALLS" and p: "proposable C s call"
    by (auto simp: proposed_now_def)
  then have new: "?i \<notin> set (map fst (ms_pending s))" by (simp add: pending_at_def map_of_eq_None_iff)
  then have keys: "map fst (ms_pending t) = map fst (ms_pending s) @ [?i]"
    by (simp add: t added_def update_keys)
  moreover from this have "length (ms_pending t) = Suc (length (ms_pending s))"
    by (metis length_append_singleton length_map)
  ultimately show ?thesis
    using assms(1) new free p
    by (auto simp: pending_ok_def t proposable_tools [of "added s call" s] pending_at_simps split: if_splits)
qed

lemma pending_ok_lifecycle: "pending_ok C s \<Longrightarrow> only_lifecycle s t \<Longrightarrow> pending_ok C t"
  by (simp add: pending_ok_def only_lifecycle_def pending_at_def proposable_tools [of t s])

lemma session_ok_extend:
  assumes "session_ok C h s" and "ms_enabled_tools t = ms_enabled_tools s" and "pending_ok C t"
    and "grant_ok C s x"
    and "\<And>rid. (if completes rid x then 1 else 0) + slot t rid True
       \<le> (if authorizes rid x then 1 else 0) + slot s rid True"
    and "\<And>rid. (if authorizes rid x then 1 else 0) + slot t rid False
       \<le> (if proposes rid x then 1 else 0) + slot s rid False"
  shows "session_ok C (h @ [x]) t"
proof -
  have counts: "occurrences (completes rid) h + slot s rid True \<le> occurrences (authorizes rid) h"
    "occurrences (authorizes rid) h + slot s rid False \<le> occurrences (proposes rid) h" for rid
    using assms(1) by (auto simp: session_ok_def)
  have "occurrences (completes rid) (h @ [x]) + slot t rid True \<le> occurrences (authorizes rid) (h @ [x])
      \<and> occurrences (authorizes rid) (h @ [x]) + slot t rid False \<le> occurrences (proposes rid) (h @ [x])" for rid
    using assms(5,6) [of rid] counts [of rid] unfolding occurrences_snoc by linarith
  then show ?thesis
    using assms(1-4) by (simp add: session_ok_def grant_tools [of t s])
qed

lemmas event_tests = proposes_def authorizes_def completes_def grant_ok_def

lemma slot_lifecycle: "only_lifecycle s t \<Longrightarrow> slot t = slot s"
  by (simp add: slot_def pending_at_def only_lifecycle_def fun_eq_iff)

lemma session_ok_quiet:
  assumes "session_ok C h s" and "only_lifecycle s t"
    and "\<And>rid. \<not> completes rid x \<and> \<not> authorizes rid x" and "grant_ok C s x"
  shows "session_ok C (h @ [x]) t"
  using assms by (intro session_ok_extend [OF assms(1)])
    (auto simp: slot_lifecycle [of s t] session_ok_def only_lifecycle_def intro: pending_ok_lifecycle)

lemma session_ok_removed:
  assumes "session_ok C h s" and "t = s \<or> t = removed s rid"
    and "\<And>i. \<not> authorizes i x" and "\<And>i. completes i x \<Longrightarrow> i = rid \<and> t = removed s rid \<and> slot s rid True = 1"
    and "grant_ok C s x"
  shows "session_ok C (h @ [x]) t"
proof (rule session_ok_extend [OF assms(1)])
  show "pending_ok C t" using assms(1,2) by (auto simp: session_ok_def intro: pending_ok_removed)
  show "(if completes i x then 1 else 0) + slot t i True \<le> (if authorizes i x then 1 else 0) + slot s i True" for i
    using assms(2) assms(3) [of i] assms(4) [of i] by (cases "completes i x") (auto simp: slot_simps)
qed (use assms in \<open>auto simp: slot_simps\<close>)

lemma session_ok_step:
  assumes ok: "session_ok C h s" and run: "mcp_call C e s = (r, t)"
  shows "session_ok C (h @ [(e, r)]) t"
proof (cases e)
  case (Receive m)
  obtain r' where r': "receive_message C m s = (r', t)" "r = map_sum (\<lambda>e. e) Answered r'"
    using run Receive by (auto simp: mcp_call_def bind_step_def step_simps split: prod.splits sum.splits)
  show ?thesis
  proof (cases "\<exists>call. r' = Inr (Some (ToolProposed call))")
    case True
    then obtain call where call: "r' = Inr (Some (ToolProposed call))" "proposed_now C s call t"
      using receive_effect [OF r'(1)] by (auto simp: message_effect_def)
    then have "t = added s call" "pending_at s (mt_request_id call) = None"
      by (auto simp: proposed_now_def)
    moreover have "pending_ok C t" using ok call by (auto simp: session_ok_def intro: pending_ok_added)
    ultimately show ?thesis
      using call r' Receive by (intro session_ok_extend [OF ok]) (auto simp: event_tests slot_def pending_at_simps)
  next
    case False
    then have "only_lifecycle s t"
      using receive_effect [OF r'(1)] by (auto simp: message_effect_def split: sum.splits option.splits mcp_server_action.splits)
    then show ?thesis
      using Receive by (intro session_ok_quiet [OF ok]) (auto simp: event_tests)
  qed
next
  case (Authorize rid a)
  obtain r' where r': "authorize_tool C rid a s = (r', t)" "r = map_sum (\<lambda>e. e) Decided r'"
    using run Authorize by (auto simp: mcp_call_def bind_step_def step_simps split: prod.splits sum.splits)
  show ?thesis
  proof (cases "\<exists>call. r' = Inr (CallAuthorized call)")
    case True
    then obtain p where p: "pending_at s rid = Some p" "\<not> ptc_authorized p" "exact_grant a (ptc_call p)"
      "r' = Inr (CallAuthorized (ptc_call p))" "t = granted s rid p"
      using authorize_effect [OF r'(1)] by blast
    moreover have "mt_request_id (ptc_call p) = rid" "proposable C s (ptc_call p)"
      using ok p by (auto simp: session_ok_def pending_ok_def)
    moreover have "pending_ok C t" using ok p by (auto simp: session_ok_def intro: pending_ok_granted)
    ultimately show ?thesis
      using r' Authorize by (intro session_ok_extend [OF ok]) (auto simp: event_tests slot_def pending_at_simps)
  next
    case False
    then have "t = s \<or> t = removed s rid" using authorize_effect [OF r'(1)] by blast
    then show ?thesis
      using False r' Authorize
      by (intro session_ok_removed [OF ok, of _ rid])
        (cases r'; auto simp: event_tests split: mcp_authorization_outcome.splits)+
  qed
next
  case (Complete rid result)
  obtain r' where r': "complete_tool C rid result s = (r', t)" "r = map_sum (\<lambda>e. e) Replied r'"
    using run Complete by (auto simp: mcp_call_def bind_step_def step_simps split: prod.splits sum.splits)
  show ?thesis
    using complete_effect [OF r'(1)] r'(2) Complete
    by (intro session_ok_removed [OF ok, of _ rid]) (auto simp: event_tests slot_def is_ok_def split: sum.splits)
next
  case (Fail rid message)
  then show ?thesis
    using run fail_effect [of C rid message s _ t]
    by (intro session_ok_removed [OF ok, of _ rid])
      (auto simp: event_tests mcp_call_def bind_step_def step_simps split: prod.splits sum.splits)
qed

lemma session_ok_run: "session_ok C h s \<Longrightarrow> mcp_run C s es = (h', t) \<Longrightarrow> session_ok C (h @ h') t"
proof (induction es arbitrary: h s h')
  case (Cons e es)
  obtain r u where u: "mcp_call C e s = (r, u)" by fastforce
  obtain h'' where rest: "mcp_run C u es = (h'', t)" using Cons.prems(2) u by (auto split: prod.splits)
  from Cons.IH [OF session_ok_step [OF Cons.prems(1) u] rest] Cons.prems(2) u rest show ?case by simp
qed simp

lemma session_ok_new: "session_ok C [] (with_tools d tools)"
  by (simp add: session_ok_def pending_ok_def with_tools_def pending_at_def slot_def)

section \<open>Properties\<close>

text \<open>
  C14. No executor runs a tool that was not authorized: in every session, after any messages and
  decisions, an identifier has at most as many results as authorizations and at most as many
  authorizations as proposals; every authorization was a positive single decision on the digest
  of the very call it releases, whose tool is enabled and whose arguments passed every check.
\<close>

theorem tool_results_are_authorized:
  assumes "mcp_run C (with_tools d tools) es = (h, s)"
  shows "occurrences (completes rid) h \<le> occurrences (authorizes rid) h
    \<and> occurrences (authorizes rid) h \<le> occurrences (proposes rid) h
    \<and> length (ms_pending s) \<le> MAX_PENDING_TOOL_CALLS
    \<and> (\<forall>a call. (Authorize rid a, Inr (Decided (CallAuthorized call))) \<in> set h \<longrightarrow>
         mt_request_id call = rid \<and> aea_decision a = AllowOnce \<and> aea_operation_revision a \<noteq> 0
         \<and> sha256_value C (call_payload (mt_name call) (mt_arguments call)) = Inr (aea_proposal_sha256 a)
         \<and> mt_class call \<in> set (ms_enabled_tools s)
         \<and> validate_arguments C (mt_class call) (mt_arguments call) = Inr ())"
proof -
  have ok: "session_ok C h s"
    using session_ok_run [OF session_ok_new assms] by simp
  then have "occurrences (completes rid) h \<le> occurrences (authorizes rid) h"
    and "occurrences (authorizes rid) h \<le> occurrences (proposes rid) h"
    by (auto simp: session_ok_def dest: add_leD1)
  moreover have "mt_request_id call = rid \<and> exact_grant a call \<and> proposable C s call"
    if "(Authorize rid a, Inr (Decided (CallAuthorized call))) \<in> set h" for a call
    using ok that by (auto simp: session_ok_def list_all_iff grant_ok_def dest!: bspec)
  moreover have "length (ms_pending s) \<le> MAX_PENDING_TOOL_CALLS"
    using ok by (simp add: session_ok_def pending_ok_def)
  ultimately show ?thesis unfolding exact_grant_def proposable_def by metis
qed

definition sample_mcp_crate :: mcp_crate where
  "sample_mcp_crate = \<lparr>value_to_vec = (\<lambda>_. Inr []), json_error_text = (\<lambda>_. []), decimal_text = (\<lambda>_. []),
     mcp_sha256 = (\<lambda>_. replicate 32 0), mcp_package_version = ''1''\<rparr>"

definition sample_mcp_request :: "string \<Rightarrow> json \<Rightarrow> json" where
  "sample_mcp_request method params =
     JObject [(''jsonrpc'', JString ''2.0''), (''id'', JString ''7''), (''method'', JString method), (''params'', params)]"

definition sample_mcp_grant :: agent_effect_authorization where
  "sample_mcp_grant = \<lparr>aea_operation_id = OperationId 1, aea_operation_revision = 4,
     aea_proposal_sha256 = hex_lower (replicate 32 0), aea_decision = AllowOnce\<rparr>"

definition sample_mcp_session :: "mcp_event list" where
  "sample_mcp_session =
     [Receive (sample_mcp_request ''initialize'' (JObject [(''protocolVersion'', JString ''1'')])),
      Receive (JObject [(''jsonrpc'', JString ''2.0''), (''method'', JString ''notifications/initialized'')]),
      Receive (sample_mcp_request ''tools/call'' (JObject [(''name'', JString ''hyper_term.diff.review''),
        (''arguments'', JObject [(''before'', JString ''a''), (''after'', JString ''b'')])])),
      Authorize (String ''7'') sample_mcp_grant,
      Complete (String ''7'') \<lparr>mres_text = ''done'', mres_structured_content = None, mres_is_error = False\<rparr>]"

lemmas mcp_evaluation = mcp_call_def receive_message_def initialize_session_def mark_initialized_def
  call_tool_def propose_call_def authorize_tool_def complete_tool_def respond_def ensure_size_def
  sha256_value_def validate_arguments_def required_bounded_string_def optional_bounded_string_def
  reject_extra_def tool_profile_def effect_proposal_def tool_result_def validate_tool_result_def
  and_maybe_def is_object_def step_simps then_step_def bind_step_def guard_step_def Let_def
  sample_mcp_crate_def sample_mcp_request_def sample_mcp_grant_def MAX_MCP_FRAME_BYTES_def
  MAX_MCP_ARGUMENT_BYTES_def MAX_MCP_RESULT_BYTES_def MAX_PENDING_TOOL_CALLS_def

lemma sample_mcp_completes:
  "occurrences (completes (String ''7'')) (fst (mcp_run sample_mcp_crate (with_tools 0 [DiffReview]) sample_mcp_session)) = 1"
  by (simp add: sample_mcp_session_def with_tools_def mcp_evaluation)
    (simp add: occurrences_def completes_def)

theorem tool_results_are_authorized_witness:
  "1 \<le> occurrences (authorizes (String ''7''))
     (fst (mcp_run sample_mcp_crate (with_tools 0 [DiffReview]) sample_mcp_session))"
proof -
  obtain h s where run: "mcp_run sample_mcp_crate (with_tools 0 [DiffReview]) sample_mcp_session = (h, s)"
    by fastforce
  from tool_results_are_authorized [OF run, of "String ''7''"] sample_mcp_completes run
  show ?thesis by simp
qed

end
