(* ===== verification/Driver_Codec.thy ===== *)
theory Driver_Codec
  imports Sandbox Journal Canonical_Json Decimal
begin

text \<open>
  The framing of driver messages, \<^verbatim>\<open>hyper-term-drivers/src/codec.rs\<close>: one JSON value per line,
  or a payload after a Content-Length header. A reader is the list of the bytes that arrive
  before the end of the stream; serde's encoder and decoder are the parameter
  \<open>value_codec\<close>. A bound is a \<^verbatim>\<open>usize\<close>, written as a number below 2^64 whose sums wrap.
\<close>

section \<open>Frames and errors\<close>

datatype driver_error =
    DriverIo io_error
  | DriverJson json_error
  | InvalidFrame string
  | DriverFrameTooLarge (* size *) nat (* maximum *) nat

record value_codec =
  vc_to_vec :: "json \<Rightarrow> json_error + bytes"
  vc_from_slice :: "bytes \<Rightarrow> json_error + json"

datatype driver_framing = ContentLength | JsonLines

record decoded_driver_frame =
  ddf_payload :: json
  ddf_payload_bytes :: nat

definition MAX_HEADER_BYTES :: nat where
  "MAX_HEADER_BYTES = 8 * 1024"

section \<open>UTF-8\<close>

definition continuation :: "u8 \<Rightarrow> bool" where
  "continuation b \<longleftrightarrow> 0x80 \<le> b \<and> b \<le> 0xBF"

text \<open>The test of \<^verbatim>\<open>str::from_utf8\<close>.\<close>

function valid_utf8 :: "bytes \<Rightarrow> bool" where
  "valid_utf8 bs = (case bs of
       [] \<Rightarrow> True
     | a # r \<Rightarrow>
         if a < 0x80 then valid_utf8 r
         else if 0xC2 \<le> a \<and> a \<le> 0xDF then
           (case r of b # r \<Rightarrow> continuation b \<and> valid_utf8 r | _ \<Rightarrow> False)
         else if 0xE0 \<le> a \<and> a \<le> 0xEF then
           (case r of b # c # r \<Rightarrow>
              continuation b \<and> (a = 0xE0 \<longrightarrow> 0xA0 \<le> b) \<and> (a = 0xED \<longrightarrow> b \<le> 0x9F)
              \<and> continuation c \<and> valid_utf8 r | _ \<Rightarrow> False)
         else if 0xF0 \<le> a \<and> a \<le> 0xF4 then
           (case r of b # c # d # r \<Rightarrow>
              continuation b \<and> (a = 0xF0 \<longrightarrow> 0x90 \<le> b) \<and> (a = 0xF4 \<longrightarrow> b \<le> 0x8F)
              \<and> continuation c \<and> continuation d \<and> valid_utf8 r | _ \<Rightarrow> False)
         else False)"
  by pat_completeness auto
termination
  by (relation "measure length") auto

declare valid_utf8.simps [simp del]

definition string_of_bytes :: "bytes \<Rightarrow> string" where
  "string_of_bytes bs = map (\<lambda>b. char_of (unat b)) bs"

definition bytes_of_string :: "string \<Rightarrow> bytes" where
  "bytes_of_string s = map (\<lambda>c. of_nat (of_char c)) s"

lemma string_of_bytes_of: "string_of_bytes (bytes_of_string s) = s"
proof -
  have "(of_char c :: nat) < 256" for c :: char
    by simp
  then have "char_of (unat (of_nat (of_char c) :: u8)) = c" for c :: char
    by (simp add: unat_of_nat take_bit_eq_mod)
  then show ?thesis by (simp add: string_of_bytes_def bytes_of_string_def comp_def)
qed

lemma string_of_bytes_append: "string_of_bytes (a @ b) = string_of_bytes a @ string_of_bytes b"
  by (simp add: string_of_bytes_def)

section \<open>Writing\<close>

definition line_feed :: u8 where "line_feed = 10"

definition carriage_return :: u8 where "carriage_return = 13"

text \<open>The bytes that a write puts on the stream, when the value can be written.\<close>

definition encode_frame :: "value_codec \<Rightarrow> driver_framing \<Rightarrow> json \<Rightarrow> nat \<Rightarrow> driver_error + bytes" where
  "encode_frame C framing v max_bytes =
     and_then (map_err DriverJson (vc_to_vec C v)) (\<lambda>payload.
     if length payload > max_bytes then Inl (DriverFrameTooLarge (length payload) max_bytes)
     else Inr (case framing of
         ContentLength \<Rightarrow>
           bytes_of_string (''Content-Length: '' @ decimal (length payload))
           @ [carriage_return, line_feed, carriage_return, line_feed] @ payload
       | JsonLines \<Rightarrow> payload @ [line_feed]))"

section \<open>Reading\<close>

text \<open>
  A sum of two \<^verbatim>\<open>usize\<close>, 64 bits wide: the release profile has no overflow checks, so it wraps.
\<close>

definition usize_add :: "nat \<Rightarrow> nat \<Rightarrow> nat" where
  "usize_add a b = (a + b) mod 2 ^ 64"

lemma usize_add_small [simp]: "a + b < 2 ^ 64 \<Longrightarrow> usize_add a b = a + b"
  by (simp add: usize_add_def)

lemma usize_add_le: "usize_add a b \<le> a + b"
  by (simp add: usize_add_def)

text \<open>\<^verbatim>\<open>read_until\<close> on a reader limited to \<open>n\<close> bytes: the bytes read, and the rest.\<close>

fun read_until_feed :: "nat \<Rightarrow> bytes \<Rightarrow> bytes \<times> bytes" where
  "read_until_feed 0 bs = ([], bs)"
| "read_until_feed (Suc n) [] = ([], [])"
| "read_until_feed (Suc n) (b # bs) =
     (if b = line_feed then ([b], bs) else case read_until_feed n bs of (line, rest) \<Rightarrow> (b # line, rest))"

definition read_bounded_line :: "nat \<Rightarrow> bytes \<Rightarrow> driver_error + (bytes \<times> bytes)" where
  "read_bounded_line limit reader = (case read_until_feed (usize_add limit 1) reader of (line, rest) \<Rightarrow>
     if length line > limit then Inl (InvalidFrame ''protocol line exceeds the configured bound'')
     else Inr (line, rest))"

definition parse_header :: "bytes \<Rightarrow> nat option \<Rightarrow> driver_error + nat option" where
  "parse_header line content_length =
     (if \<not> valid_utf8 line then Inl (InvalidFrame ''header is not UTF-8'')
      else and_then (ok_or (split_once CHR '':'' (trim_end (string_of_bytes line)))
        (InvalidFrame ''malformed content-length header'')) (\<lambda>(name, v).
      if to_ascii_lowercase name = ''content-length''
      then if content_length \<noteq> None then Inl (InvalidFrame ''duplicate content-length header'')
           else and_then (ok_or (parse_unsigned (trim v)) (InvalidFrame ''invalid content-length value''))
             (\<lambda>n :: u64. Inr (Some (unat n)))
      else Inr content_length))"

lemma read_until_length: "read_until_feed n bs = (line, rest) \<Longrightarrow> bs = line @ rest"
  by (induction n bs arbitrary: line rule: read_until_feed.induct) (auto split: if_splits prod.splits)

text \<open>
  The header loop: the lines up to a blank one. \<open>None\<close> is the end of the stream before the
  first header byte.
\<close>

function read_headers ::
    "nat \<Rightarrow> nat option \<Rightarrow> bytes \<Rightarrow> driver_error + (nat option \<times> bytes) option" where
  "read_headers header_bytes content_length reader =
     (case read_bounded_line MAX_HEADER_BYTES reader of
        Inl e \<Rightarrow> Inl e
      | Inr (line, rest) \<Rightarrow>
          if line = [] then
            (if header_bytes = 0 then Inr None
             else Inl (InvalidFrame ''content-length header ended before its blank line''))
          else if usize_add header_bytes (length line) > MAX_HEADER_BYTES
          then Inl (InvalidFrame ''content-length headers exceed the configured bound'')
          else if line = [line_feed] \<or> line = [carriage_return, line_feed]
          then Inr (Some (content_length, rest))
          else (case parse_header line content_length of
              Inl e \<Rightarrow> Inl e
            | Inr content_length \<Rightarrow> read_headers (usize_add header_bytes (length line)) content_length rest))"
  by pat_completeness auto
termination
proof (relation "measure (\<lambda>(_, _, reader). length reader)", goal_cases)
  case (2 header_bytes content_length reader p line rest)
  then have "reader = line @ rest"
    by (auto simp: read_bounded_line_def split: prod.splits if_splits dest: read_until_length)
  with 2 show ?case by (cases line) auto
qed simp

declare read_headers.simps [simp del]

definition read_content_length ::
    "value_codec \<Rightarrow> nat \<Rightarrow> bytes \<Rightarrow> driver_error + (decoded_driver_frame \<times> bytes) option" where
  "read_content_length C max_bytes reader =
     and_then (read_headers 0 None reader) (\<lambda>headers. case headers of
       None \<Rightarrow> Inr None
     | Some (content_length, rest) \<Rightarrow>
         and_then (ok_or content_length (InvalidFrame ''missing content-length header'')) (\<lambda>len.
         if len > max_bytes then Inl (DriverFrameTooLarge len max_bytes)
         else if length rest < len then Inl (DriverIo UnexpectedEof)
         else and_then (map_err DriverJson (vc_from_slice C (take len rest))) (\<lambda>payload.
           Inr (Some (\<lparr>ddf_payload = payload, ddf_payload_bytes = len\<rparr>, drop len rest)))))"

definition pop_last :: "u8 \<Rightarrow> bytes \<Rightarrow> bytes" where
  "pop_last b line = (if line \<noteq> [] \<and> last line = b then butlast line else line)"

definition read_json_line ::
    "value_codec \<Rightarrow> nat \<Rightarrow> bytes \<Rightarrow> driver_error + (decoded_driver_frame \<times> bytes) option" where
  "read_json_line C max_bytes reader =
     and_then (read_bounded_line (usize_add max_bytes 2) reader) (\<lambda>(line, rest).
     if line = [] then Inr None
     else let line = pop_last carriage_return (pop_last line_feed line) in
       if length line > max_bytes then Inl (DriverFrameTooLarge (length line) max_bytes)
       else if line = [] then Inl (InvalidFrame ''empty JSON line'')
       else and_then (map_err DriverJson (vc_from_slice C line)) (\<lambda>payload.
         Inr (Some (\<lparr>ddf_payload = payload, ddf_payload_bytes = length line\<rparr>, rest))))"

definition read_sized ::
    "value_codec \<Rightarrow> driver_framing \<Rightarrow> nat \<Rightarrow> bytes \<Rightarrow> driver_error + (decoded_driver_frame \<times> bytes) option" where
  "read_sized C framing max_bytes reader = (case framing of
       ContentLength \<Rightarrow> read_content_length C max_bytes reader
     | JsonLines \<Rightarrow> read_json_line C max_bytes reader)"

definition read_driver_frame ::
    "value_codec \<Rightarrow> driver_framing \<Rightarrow> nat \<Rightarrow> bytes \<Rightarrow> driver_error + (json \<times> bytes) option" where
  "read_driver_frame C framing max_bytes reader =
     and_then (read_sized C framing max_bytes reader) (\<lambda>frame.
       Inr (map_option (\<lambda>(frame, rest). (ddf_payload frame, rest)) frame))"

section \<open>Reading what was written\<close>

text \<open>
  A value whose compact text serde reads back as this value: its text is not empty, and the
  line feeds and carriage returns of its strings are escaped in it. It is true of every value
  without floating-point numbers that is nested less than 128 levels deep.
\<close>

definition reads_back :: "value_codec \<Rightarrow> json \<Rightarrow> bool" where
  "reads_back C v \<longleftrightarrow> (case vc_to_vec C v of
       Inl _ \<Rightarrow> True
     | Inr bs \<Rightarrow> vc_from_slice C bs = Inr v \<and> bs \<noteq> [] \<and> line_feed \<notin> set bs \<and> carriage_return \<notin> set bs)"

lemma read_feed_line:
  "line_feed \<notin> set bs \<Longrightarrow> length bs < n \<Longrightarrow> read_until_feed n (bs @ line_feed # rest) = (bs @ [line_feed], rest)"
proof (induction bs arbitrary: n)
  case Nil
  then show ?case by (cases n) simp_all
next
  case (Cons b bs)
  then show ?case by (cases n) auto
qed

lemma read_bounded_whole_line:
  "line_feed \<notin> set bs \<Longrightarrow> length bs < limit \<Longrightarrow> limit + 1 < 2 ^ 64 \<Longrightarrow>
     read_bounded_line limit (bs @ line_feed # rest) = Inr (bs @ [line_feed], rest)"
  by (simp add: read_bounded_line_def read_feed_line)

lemma decimal_length: "n < 10 ^ k \<Longrightarrow> 0 < k \<Longrightarrow> length (decimal n) \<le> k"
proof (induction n arbitrary: k rule: decimal.induct)
  case (1 n)
  show ?case
  proof (cases "n < 10")
    case True
    with 1 show ?thesis by (subst decimal.simps) simp
  next
    case False
    with 1(2) obtain j where k: "k = Suc j" "0 < j" by (cases k; cases "k = 1") auto
    with 1(2) have "n div 10 < 10 ^ j" by (simp add: div_less_iff_less_mult mult.commute)
    with 1(1) False k have "length (decimal (n div 10)) \<le> j" by blast
    with False k show ?thesis by (subst decimal.simps) simp
  qed
qed

definition length_header :: "nat \<Rightarrow> bytes" where
  "length_header n = bytes_of_string (''Content-Length: '' @ decimal n) @ [carriage_return]"

lemma valid_utf8_ascii: "list_all (\<lambda>b. b < 0x80) bs \<Longrightarrow> valid_utf8 bs"
  by (induction bs) (subst valid_utf8.simps, simp)+

lemma digit_byte:
  assumes "is_ascii_digit c"
  shows "(of_nat (of_char c) :: u8) < 0x80" "(of_nat (of_char c) :: u8) \<noteq> line_feed"
proof -
  have n: "48 \<le> (of_char c :: nat)" "(of_char c :: nat) \<le> 57"
    using assms by (auto simp: is_ascii_digit_def less_eq_char_def)
  then have "unat (of_nat (of_char c) :: u8) = of_char c" by (simp add: unat_of_nat take_bit_eq_mod)
  note u = this
  with n show "(of_nat (of_char c) :: u8) < 0x80" by (simp add: word_less_nat_alt)
  show "(of_nat (of_char c) :: u8) \<noteq> line_feed"
  proof
    assume "(of_nat (of_char c) :: u8) = line_feed"
    then have "unat (of_nat (of_char c) :: u8) = 10" by (simp add: line_feed_def)
    with u n show False by simp
  qed
qed

lemma length_header_line:
  "list_all (\<lambda>b. b < 0x80) (length_header n)" "line_feed \<notin> set (length_header n)"
proof -
  have d: "(of_nat (of_char c) :: u8) < 0x80 \<and> (of_nat (of_char c) :: u8) \<noteq> line_feed" if "c \<in> set (decimal n)" for c
    using that decimal_digits [of n] digit_byte by (auto simp: list_all_iff)
  then have "\<forall>b \<in> set (bytes_of_string (decimal n)). b < 0x80 \<and> b \<noteq> line_feed"
    by (auto simp: bytes_of_string_def)
  moreover have "length_header n = bytes_of_string ''Content-Length: '' @ bytes_of_string (decimal n) @ [carriage_return]"
    by (simp add: length_header_def bytes_of_string_def)
  moreover have "\<forall>b \<in> set (bytes_of_string ''Content-Length: ''). b < 0x80 \<and> b \<noteq> line_feed"
    by (simp add: bytes_of_string_def line_feed_def)
  ultimately show "list_all (\<lambda>b. b < 0x80) (length_header n)" "line_feed \<notin> set (length_header n)"
    by (auto simp: list_all_iff carriage_return_def line_feed_def)
qed

lemma decimal_ends: "graphic (hd (decimal n))" "graphic (last (decimal n))"
  using decimal_digits [of n] decimal_ne [of n] by (auto simp: list_all_iff digit_graphic)

lemma char_is: "c = char_of n \<longleftrightarrow> (of_char c :: nat) = n mod 256"
  by (metis char_of_char of_char_of)

lemma leading_white_one:
  "leading_white (map rev white_space) (CHR 0x0A # s) = 1"
  "leading_white (map rev white_space) (CHR 0x0D # s) = 1"
  "leading_white white_space (CHR '' '' # s) = 1"
  by (simp_all add: leading_white_def white_space_def starts_with_def char_is)

lemma trim_end_crlf:
  assumes "s \<noteq> []" "graphic (last s)"
  shows "trim_end (s @ [CHR 0x0D, CHR 0x0A]) = s"
proof -
  obtain q d where s: "s = q @ [d]" using assms(1) rev_exhaust by blast
  have "trim_with (map rev white_space) (rev s) = rev s"
    using assms(2) s leading_white_graphic [OF white_space_no_letters(2) white_space_not_graphic(2), of d "rev q"]
    by (simp add: trim_with_fixed)
  then show ?thesis
    by (simp add: trim_end_def trim_with.simps [of _ "CHR 0x0A # _"] trim_with.simps [of _ "CHR 0x0D # _"]
        leading_white_one)
qed

lemma trim_space: "s \<noteq> [] \<Longrightarrow> graphic (hd s) \<Longrightarrow> graphic (last s) \<Longrightarrow> trim (CHR '' '' # s) = s"
  using trim_graphic [of s]
  by (simp add: trim_def trim_start_def trim_with.simps [of _ "CHR '' '' # _"] leading_white_one)

lemma parse_length_header:
  assumes "n < 2 ^ 64"
  shows "parse_header (length_header n @ [line_feed]) None = Inr (Some n)"
proof -
  have ascii: "list_all (\<lambda>b. b < 0x80) (length_header n @ [line_feed])"
    using length_header_line(1) by (simp add: line_feed_def)
  have "string_of_bytes (length_header n @ [line_feed]) = (''Content-Length: '' @ decimal n) @ [CHR 0x0D, CHR 0x0A]"
    unfolding length_header_def string_of_bytes_append string_of_bytes_of append_assoc
    by (simp add: string_of_bytes_def carriage_return_def line_feed_def eq_commute [of "char_of _"] char_is)
  moreover have "graphic (last (''Content-Length: '' @ decimal n))"
    using decimal_ends(2) decimal_ne by simp
  ultimately have "trim_end (string_of_bytes (length_header n @ [line_feed])) = ''Content-Length: '' @ decimal n"
    using trim_end_crlf [of "''Content-Length: '' @ decimal n"] by simp
  moreover have "split_once CHR '':'' (''Content-Length: '' @ decimal n) = Some (''Content-Length'', CHR '' '' # decimal n)"
    by simp
  moreover have "trim (CHR '' '' # decimal n) = decimal n"
    using trim_space decimal_ends decimal_ne by blast
  moreover have "parse_unsigned (decimal n) = Some (of_nat n :: u64)" using parse_decimal [where 'a = 64] assms by simp
  moreover have "to_ascii_lowercase ''Content-Length'' = ''content-length''"
    by (simp add: to_ascii_lowercase_def to_ascii_lowercase_char_def is_ascii_upper_nat
        eq_commute [of "char_of _"] char_is)
  moreover have "unat (of_nat n :: u64) = n" using assms by (simp add: unat_of_nat take_bit_nat_eq_self)
  ultimately show ?thesis using valid_utf8_ascii [OF ascii] by (simp add: parse_header_def)
qed

lemma read_written_headers:
  assumes "n < 2 ^ 64"
  shows "read_headers 0 None (length_header n @ line_feed # carriage_return # line_feed # rest) = Inr (Some (Some n, rest))"
proof -
  have "n < 10 ^ 20" using assms by simp
  then have "length (decimal n) \<le> 20" by (intro decimal_length) simp_all
  then have len: "length (length_header n) < 100" by (simp add: length_header_def bytes_of_string_def)
  have ne: "length_header n \<noteq> []" "length_header n \<noteq> [carriage_return]"
    by (simp_all add: length_header_def bytes_of_string_def)
  have first: "read_bounded_line MAX_HEADER_BYTES (length_header n @ line_feed # r) = Inr (length_header n @ [line_feed], r)" for r
    using len length_header_line(2) by (intro read_bounded_whole_line) (simp_all add: MAX_HEADER_BYTES_def)
  have "read_bounded_line MAX_HEADER_BYTES ([carriage_return] @ line_feed # rest) = Inr ([carriage_return] @ [line_feed], rest)"
    by (intro read_bounded_whole_line) (simp_all add: MAX_HEADER_BYTES_def line_feed_def carriage_return_def)
  then have "read_headers k c (carriage_return # line_feed # rest) = Inr (Some (c, rest))" if "k < 200" for k c
    using that by (subst read_headers.simps) (simp add: MAX_HEADER_BYTES_def)
  moreover have "length (length_header n @ [line_feed]) < 200" using len by simp
  ultimately show ?thesis
    using ne len first [of "carriage_return # line_feed # rest"] parse_length_header [OF assms]
    by (subst read_headers.simps) (simp add: MAX_HEADER_BYTES_def append_eq_Cons_conv)
qed

lemma read_encoded:
  assumes "reads_back C v" "encode_frame C framing v max_bytes = Inr bs" "max_bytes < 2 ^ 63"
  shows "read_driver_frame C framing max_bytes (bs @ rest) = Inr (Some (v, rest))"
proof -
  from assms(2) obtain payload where p: "vc_to_vec C v = Inr payload" "length payload \<le> max_bytes"
    and bs: "bs = (case framing of
         ContentLength \<Rightarrow>
           bytes_of_string (''Content-Length: '' @ decimal (length payload))
           @ [carriage_return, line_feed, carriage_return, line_feed] @ payload
       | JsonLines \<Rightarrow> payload @ [line_feed])"
    by (auto simp: encode_frame_def result_simps if_Inl_Inr_iff)
  from assms(1) p(1) have ok: "vc_from_slice C payload = Inr v" "payload \<noteq> []" "line_feed \<notin> set payload"
      "carriage_return \<notin> set payload"
    by (simp_all add: reads_back_def)
  show ?thesis
  proof (cases framing)
    case ContentLength
    have len: "length payload < 2 ^ 64" using p(2) assms(3) by simp
    have "bs @ rest = length_header (length payload) @ line_feed # carriage_return # line_feed # payload @ rest"
      using ContentLength by (simp add: bs length_header_def)
    with ok p(2) read_written_headers [OF len, of "payload @ rest"] ContentLength show ?thesis
      by (simp add: read_driver_frame_def read_sized_def read_content_length_def)
  next
    case JsonLines
    have add: "usize_add max_bytes 2 = max_bytes + 2" using assms(3) by simp
    have "read_bounded_line (max_bytes + 2) (payload @ line_feed # rest) = Inr (payload @ [line_feed], rest)"
      using p(2) ok(3) assms(3) by (intro read_bounded_whole_line) simp_all
    moreover have "last payload \<noteq> carriage_return" using ok(2,4) by (metis last_in_set)
    ultimately show ?thesis
      using JsonLines ok p(2) add
      by (simp add: bs read_driver_frame_def read_sized_def read_json_line_def pop_last_def)
  qed
qed

text \<open>The reader of a stream takes one frame after the other.\<close>

fun read_driver_frames ::
    "value_codec \<Rightarrow> driver_framing \<Rightarrow> nat \<Rightarrow> nat \<Rightarrow> bytes \<Rightarrow> driver_error + (json list \<times> bytes)" where
  "read_driver_frames C framing max_bytes 0 reader = Inr ([], reader)"
| "read_driver_frames C framing max_bytes (Suc n) reader =
     and_then (read_driver_frame C framing max_bytes reader) (\<lambda>frame. case frame of
       None \<Rightarrow> Inr ([], reader)
     | Some (v, rest) \<Rightarrow>
         and_then (read_driver_frames C framing max_bytes n rest) (\<lambda>(vs, rest). Inr (v # vs, rest)))"

lemma read_until_nothing [simp]: "read_until_feed n [] = ([], [])"
  by (cases n) simp_all

lemma read_nothing: "read_driver_frame C framing max_bytes [] = Inr None"
  by (cases framing)
    (simp_all add: read_driver_frame_def read_sized_def read_content_length_def read_json_line_def
      read_headers.simps read_bounded_line_def MAX_HEADER_BYTES_def)

lemma read_frames_written:
  "\<forall>v \<in> set vs. reads_back C v \<Longrightarrow> max_bytes < 2 ^ 63 \<Longrightarrow> try_map (\<lambda>v. encode_frame C framing v max_bytes) vs = Inr bss \<Longrightarrow>
     read_driver_frames C framing max_bytes (length vs) (concat bss @ rest) = Inr (vs, rest)"
proof (induction vs arbitrary: bss)
  case (Cons v vs)
  then obtain bs bss' where "encode_frame C framing v max_bytes = Inr bs" "bss = bs # bss'"
    "try_map (\<lambda>v. encode_frame C framing v max_bytes) vs = Inr bss'"
    by (auto simp: result_simps)
  with Cons read_encoded [of C v framing max_bytes bs "concat bss' @ rest"] show ?case by simp
qed simp

section \<open>Bounds\<close>

lemma read_until_max: "read_until_feed n bs = (line, rest) \<Longrightarrow> length line \<le> n"
  by (induction n bs arbitrary: line rule: read_until_feed.induct) (auto split: if_splits prod.splits)

lemma read_bounded_parts: "read_bounded_line limit bs = Inr (line, rest) \<Longrightarrow> bs = line @ rest \<and> length line \<le> limit"
  by (auto simp: read_bounded_line_def split: prod.splits if_splits dest: read_until_length)

lemma read_headers_parts:
  "read_headers k c bs = Inr (Some (c', rest)) \<Longrightarrow> k \<le> MAX_HEADER_BYTES \<Longrightarrow>
     \<exists>header. bs = header @ rest \<and> k + length header \<le> MAX_HEADER_BYTES"
proof (induction k c bs arbitrary: c' rule: read_headers.induct)
  case (1 k c bs)
  obtain line r where line: "read_bounded_line MAX_HEADER_BYTES bs = Inr (line, r)"
    using 1(2) by (subst (asm) read_headers.simps) (auto split: sum.splits)
  note parts = read_bounded_parts [OF line]
  have add: "usize_add k (length line) = k + length line"
    using parts 1(3) by (intro usize_add_small) (simp add: MAX_HEADER_BYTES_def)
  from 1(2) line add have ne: "line \<noteq> []" and len: "k + length line \<le> MAX_HEADER_BYTES"
    by (subst (asm) read_headers.simps, auto split: if_splits)+
  show ?case
  proof (cases "line = [line_feed] \<or> line = [carriage_return, line_feed]")
    case True
    with 1(2) line ne len add have "rest = r" by (subst (asm) read_headers.simps) (auto split: if_splits)
    with parts len show ?thesis by blast
  next
    case False
    with 1(2) line ne len add obtain c1 where c1: "parse_header line c = Inr c1"
      and next1: "read_headers (k + length line) c1 r = Inr (Some (c', rest))"
      by (subst (asm) read_headers.simps) (auto split: if_splits sum.splits)
    from 1(1) [OF line refl ne _ False c1] next1 len add obtain header where
      "r = header @ rest" "k + length line + length header \<le> MAX_HEADER_BYTES" by auto
    with parts show ?thesis by (intro exI [of _ "line @ header"]) simp
  qed
qed

lemma read_sized_parts:
  assumes "read_sized C framing max_bytes bs = Inr (Some (frame, rest))"
  shows "ddf_payload_bytes frame \<le> max_bytes"
    and "\<exists>used. bs = used @ rest \<and> length used \<le> max_bytes + MAX_HEADER_BYTES"
proof -
  have "ddf_payload_bytes frame \<le> max_bytes \<and> (\<exists>used. bs = used @ rest \<and> length used \<le> max_bytes + MAX_HEADER_BYTES)"
  proof (cases framing)
    case ContentLength
    with assms obtain len r where h: "read_headers 0 None bs = Inr (Some (Some len, r))"
      and len: "len \<le> max_bytes" "len \<le> length r" "rest = drop len r" "ddf_payload_bytes frame = len"
      by (auto simp: read_sized_def read_content_length_def result_simps if_Inl_Inr_iff split: option.splits)
    from read_headers_parts [OF h] obtain header where "bs = header @ r" "length header \<le> MAX_HEADER_BYTES" by auto
    with len show ?thesis by (intro conjI exI [of _ "header @ take len r"]) auto
  next
    case JsonLines
    with assms obtain line where line: "read_bounded_line (usize_add max_bytes 2) bs = Inr (line, rest)"
      and len: "ddf_payload_bytes frame = length (pop_last carriage_return (pop_last line_feed line))"
        "length (pop_last carriage_return (pop_last line_feed line)) \<le> max_bytes"
      by (auto simp: read_sized_def read_json_line_def result_simps if_Inl_Inr_iff Let_def split: if_splits)
    from read_bounded_parts [OF line] len usize_add_le [of max_bytes 2] show ?thesis
      by (intro conjI exI [of _ line]) (auto simp: MAX_HEADER_BYTES_def)
  qed
  then show "ddf_payload_bytes frame \<le> max_bytes"
    and "\<exists>used. bs = used @ rest \<and> length used \<le> max_bytes + MAX_HEADER_BYTES" by auto
qed

section \<open>Properties\<close>

definition sample_value_codec :: value_codec where
  "sample_value_codec = \<lparr>vc_to_vec = (\<lambda>v. case v of JBool True \<Rightarrow> Inr [116] | JNull \<Rightarrow> Inr [110] | _ \<Rightarrow> Inl (JsonError 0)),
     vc_from_slice = (\<lambda>bs. if bs = [116] then Inr (JBool True) else if bs = [110] then Inr JNull else Inl (JsonError 1))\<rparr>"

text \<open>
  C30. Driver frames round trip: whatever values are written one after the other, under either
  framing and any frame bound a buffer can have (less than 2^63 bytes, so that no sum of
  \<^verbatim>\<open>usize\<close> wraps), reading the stream gives exactly these values in order and leaves what
  follows untouched; the end of the stream between two frames is not an error; and under every
  bound, wrapped sums included, no frame that is read takes more than its bound and a bounded
  header from the stream. The hypothesis about serde is about the values that are written.
\<close>

theorem driver_frames_round_trip:
  assumes "\<forall>v \<in> set vs. reads_back C v" and "max_bytes < 2 ^ 63"
    and "try_map (\<lambda>v. encode_frame C framing v max_bytes) vs = Inr bss"
  shows "read_driver_frames C framing max_bytes (length vs) (concat bss @ rest) = Inr (vs, rest)
    \<and> read_driver_frame C framing max_bytes [] = Inr None
    \<and> (\<forall>bs frame left bound. read_sized C framing bound bs = Inr (Some (frame, left)) \<longrightarrow>
         ddf_payload_bytes frame \<le> bound
         \<and> (\<exists>used. bs = used @ left \<and> length used \<le> bound + MAX_HEADER_BYTES))"
  using read_frames_written [OF assms] read_nothing read_sized_parts by blast

theorem driver_frames_round_trip_witness:
  "\<exists>bss. try_map (\<lambda>v. encode_frame sample_value_codec ContentLength v 4) [JNull, JBool True] = Inr bss
     \<and> read_driver_frames sample_value_codec ContentLength 4 2 (concat bss @ [7]) = Inr ([JNull, JBool True], [7])"
proof -
  have codec: "\<forall>v \<in> set [JNull, JBool True]. reads_back sample_value_codec v"
    by (simp add: reads_back_def sample_value_codec_def line_feed_def carriage_return_def)
  obtain bss where bss: "try_map (\<lambda>v. encode_frame sample_value_codec ContentLength v 4) [JNull, JBool True] = Inr bss"
    by (auto simp: encode_frame_def sample_value_codec_def)
  have "(4 :: nat) < 2 ^ 63" "length [JNull, JBool True] = 2" by simp_all
  with driver_frames_round_trip [OF codec _ bss, of "[7]"] bss show ?thesis by metis
qed

end
