(* ===== verification/Mcp_Gateway.thy ===== *)
theory Mcp_Gateway
  imports Mcp_Safety Wire Driver_Codec
begin

text \<open>
  The MCP gateway of \<^verbatim>\<open>hyper-term-daemon/src/mcp_gateway.rs\<close> (\<open>McpGateway\<close>): the process
  between an agent's MCP session and the control socket of the daemon. A tool call becomes a
  proposal to the daemon; the events that the daemon broadcasts about it authorize or cancel it;
  an authorized call is run by the daemon and its result is the answer of the call.

  The answers of the daemon and the results of writing to the agent are parameters, selected by
  the number of exchanges and writes before. Requests are kept with their answers in the state, as the
  sequence of what the daemon was asked.
\<close>

section \<open>State\<close>

datatype control_client_error =
    ClientIo io_error | ClientWire wire_error | HandshakeRejected control_response
  | UnexpectedHandshake wire_frame | ClientTimeout | ClientDisconnected | ClientPendingOverflow
  | InvalidTimeout

datatype mcp_gateway_error =
    GatewayIo io_error
  | GatewayControl control_client_error
  | GatewayDriver driver_error
  | GatewayMcp mcp_server_error
  | GatewayInput string
  | GatewayAuthorityObserver string
  | AgentModeRequired
  | SocketMustBeAbsolute
  | DenoPathsMustBeAbsolute
  | InvalidDenoManifest
  | AuthorityRejected (* code *) string (* message *) string
  | UnexpectedAuthorityResponse control_response
  | UnknownOperation operation_id
  | UnexpectedOperationRevision (* expected *) u64 (* actual *) u64
  | AuthorizedOperationWasRejected
  | CancelledOperationWasAuthorized
  | TaskMissing

record mcp_stdio_config =
  msc_socket :: string
  msc_task_id :: "task_id option"
  msc_deno_lsp_enabled :: bool
  msc_deno_genui_enabled :: bool

definition new_stdio_config :: "string \<Rightarrow> bool \<Rightarrow> mcp_gateway_error + mcp_stdio_config" where
  "new_stdio_config socket agent_mode =
     (if \<not> agent_mode then Inl AgentModeRequired
      else if \<not> is_absolute socket then Inl SocketMustBeAbsolute
      else Inr \<lparr>msc_socket = socket, msc_task_id = None, msc_deno_lsp_enabled = False,
                msc_deno_genui_enabled = False\<rparr>)"

record pending_authority_call =
  pac_request_id :: external_request_id
  pac_proposal_digest :: string
  pac_waiting_revision :: u64
  pac_decision :: "permission_decision option"

text \<open>A request to the daemon and what came back.\<close>

type_synonym exchange = "control_request \<times> (mcp_gateway_error + control_response)"

record mcp_gateway =
  gw_server :: mcp_agent_server
  gw_task :: "task_id option"
  gw_pending :: "operation_id \<Rightarrow> pending_authority_call option"
  gw_output :: bytes
  gw_exchanges :: "exchange list"
  gw_writes :: nat

record gateway_env =
  ge_mcp :: mcp_crate
  ge_values :: value_codec
  ge_ask :: "nat \<Rightarrow> control_request \<Rightarrow> control_client_error + control_response"
  ge_write :: "nat \<Rightarrow> write_result"
  ge_error_text :: "mcp_gateway_error \<Rightarrow> string"
  ge_debug :: "control_response \<Rightarrow> string"

type_synonym 'a gateway_step = "(mcp_gateway, mcp_gateway_error, 'a) step"

definition new_gateway :: "uuid \<Rightarrow> mcp_stdio_config \<Rightarrow> mcp_gateway" where
  "new_gateway driver_id config =
     \<lparr>gw_server = with_tools driver_id ([DiffReview]
        @ (if msc_deno_lsp_enabled config then [DenoLspQuery] else [])
        @ (if msc_deno_genui_enabled config then [GenUiCompile] else [])),
      gw_task = msc_task_id config, gw_pending = Map.empty, gw_output = [], gw_exchanges = [],
      gw_writes = 0\<rparr>"

definition in_server :: "'a mcp_step \<Rightarrow> 'a gateway_step" where
  "in_server m g = (case m (gw_server g) of (r, s) \<Rightarrow> (map_err GatewayMcp r, g\<lparr>gw_server := s\<rparr>))"

section \<open>The two ends\<close>

definition authority_answer ::
    "gateway_env \<Rightarrow> nat \<Rightarrow> control_request \<Rightarrow> mcp_gateway_error + control_response" where
  "authority_answer E n request =
     and_then (map_err GatewayControl (ge_ask E n request)) (\<lambda>response. case response of
       Error code message \<Rightarrow> Inl (AuthorityRejected code message)
     | response \<Rightarrow> Inr response)"

definition authority_request :: "gateway_env \<Rightarrow> control_request \<Rightarrow> control_response gateway_step" where
  "authority_request E request g =
     (let answer = authority_answer E (length (gw_exchanges g)) request in
      (answer, g\<lparr>gw_exchanges := gw_exchanges g @ [(request, answer)]\<rparr>))"

definition write_response :: "gateway_env \<Rightarrow> json \<Rightarrow> unit gateway_step" where
  "write_response E response =
     bind_step (lift_step (map_err GatewayDriver
       (encode_frame (ge_values E) JsonLines response MAX_MCP_FRAME_BYTES))) (\<lambda>bytes.
     bind_step (read_step (\<lambda>g. ge_write E (gw_writes g))) (\<lambda>written.
     then_step (update_step (\<lambda>g. g\<lparr>gw_writes := gw_writes g + 1,
         gw_output := gw_output g @ (case written of WriteOk \<Rightarrow> bytes | WriteFailed n _ \<Rightarrow> take n bytes)\<rparr>))
       (case written of WriteOk \<Rightarrow> return_step () | WriteFailed _ e \<Rightarrow> fail_step (GatewayDriver (DriverIo e)))))"

section \<open>Handlers\<close>

definition gateway_task :: "gateway_env \<Rightarrow> task_id gateway_step" where
  "gateway_task E = bind_step (read_step gw_task) (\<lambda>known. case known of
       Some tid \<Rightarrow> return_step tid
     | None \<Rightarrow>
         bind_step (authority_request E (CreateTask ''Agent MCP tools'')) (\<lambda>response.
         case response of
           TaskCreated tid \<Rightarrow> then_step (update_step (\<lambda>g. g\<lparr>gw_task := Some tid\<rparr>)) (return_step tid)
         | Error code message \<Rightarrow> fail_step (AuthorityRejected code message)
         | response \<Rightarrow> fail_step (UnexpectedAuthorityResponse response)))"

definition answer_failed_tool ::
    "gateway_env \<Rightarrow> external_request_id \<Rightarrow> string \<Rightarrow> unit gateway_step" where
  "answer_failed_tool E request_id message =
     bind_step (in_server (fail_tool (ge_mcp E) request_id message)) (write_response E)"

text \<open>The last part of \<^verbatim>\<open>propose_tool\<close>: what the daemon says to the proposal.\<close>

definition proposal_answered ::
    "gateway_env \<Rightarrow> mcp_tool_call \<Rightarrow> mcp_gateway_error + control_response \<Rightarrow> unit gateway_step" where
  "proposal_answered E call answer = (case answer of
       Inl e \<Rightarrow> answer_failed_tool E (mt_request_id call) (''permission broker failed: '' @ ge_error_text E e)
     | Inr (OperationUpdated oid revision WaitingHuman) \<Rightarrow>
         update_step (\<lambda>g. g\<lparr>gw_pending := (gw_pending g)(oid \<mapsto>
           \<lparr>pac_request_id = mt_request_id call,
            pac_proposal_digest = aep_payload_sha256 (mt_proposal call),
            pac_waiting_revision = revision, pac_decision = None\<rparr>)\<rparr>)
     | Inr (Error code message) \<Rightarrow>
         answer_failed_tool E (mt_request_id call)
           (''permission broker rejected the proposal ('' @ code @ ''): '' @ message)
     | Inr response \<Rightarrow>
         answer_failed_tool E (mt_request_id call)
           (''permission broker returned an unexpected response: '' @ ge_debug E response))"

definition propose_tool :: "gateway_env \<Rightarrow> mcp_tool_call \<Rightarrow> unit gateway_step" where
  "propose_tool E call =
     bind_step (gateway_task E) (\<lambda>tid.
     bind_step (attempt_step (authority_request E
        (ProposeBrokeredMcpTool tid (mt_name call) (mt_arguments call))))
       (proposal_answered E call))"

definition receive_mcp :: "gateway_env \<Rightarrow> json \<Rightarrow> unit gateway_step" where
  "receive_mcp E message =
     bind_step (in_server (receive_message (ge_mcp E) message)) (\<lambda>action. case action of
       Some (mcp_server_action.Response response) \<Rightarrow> write_response E response
     | Some (ToolProposed call) \<Rightarrow> propose_tool E call
     | None \<Rightarrow> return_step ())"

definition forget_operation :: "operation_id \<Rightarrow> unit gateway_step" where
  "forget_operation oid = update_step (\<lambda>g. g\<lparr>gw_pending := (gw_pending g)(oid := None)\<rparr>)"

definition fail_authorized_call ::
    "gateway_env \<Rightarrow> operation_id \<Rightarrow> external_request_id \<Rightarrow> string \<Rightarrow> unit gateway_step" where
  "fail_authorized_call E oid request_id message =
     bind_step (in_server (complete_tool (ge_mcp E) request_id
       \<lparr>mres_text = message, mres_structured_content = None, mres_is_error = True\<rparr>)) (\<lambda>response.
     then_step (forget_operation oid) (write_response E response))"

definition find_pending :: "operation_id \<Rightarrow> pending_authority_call gateway_step" where
  "find_pending oid = bind_step (read_step (\<lambda>g. gw_pending g oid)) (\<lambda>p.
     lift_step (ok_or p (UnknownOperation oid)))"

text \<open>The last part of \<^verbatim>\<open>execute_authorized\<close>: the daemon runs the call.\<close>

definition run_authorized ::
    "gateway_env \<Rightarrow> operation_id \<Rightarrow> u64 \<Rightarrow> external_request_id \<Rightarrow> mcp_tool_call \<Rightarrow> unit gateway_step" where
  "run_authorized E oid authorized_revision request_id call =
     bind_step (read_step gw_task) (\<lambda>known.
     bind_step (lift_step (ok_or known TaskMissing)) (\<lambda>tid.
     bind_step (authority_request E (RunAuthorizedBrokeredMcpTool tid oid authorized_revision (mt_name call)
         (aep_payload_sha256 (mt_proposal call)) (mt_arguments call))) (\<lambda>response.
     case response of
       BrokeredMcpToolExecuted execution \<Rightarrow>
         bind_step (in_server (complete_tool (ge_mcp E) request_id
           \<lparr>mres_text = bme_text execution, mres_structured_content = bme_structured_content execution,
            mres_is_error = bme_is_error execution\<rparr>)) (\<lambda>reply.
         then_step (forget_operation oid) (write_response E reply))
     | Error code message \<Rightarrow>
         fail_authorized_call E oid request_id
           (''Rust authority could not run the tool ('' @ code @ ''): '' @ message)
     | response \<Rightarrow>
         fail_authorized_call E oid request_id
           (''Rust authority returned an unexpected response: '' @ ge_debug E response))))"

definition execute_authorized :: "gateway_env \<Rightarrow> operation_id \<Rightarrow> u64 \<Rightarrow> unit gateway_step" where
  "execute_authorized E oid authorized_revision =
     bind_step (find_pending oid) (\<lambda>pending.
     then_step (guard_step (pac_waiting_revision pending + 1 = authorized_revision)
       (UnexpectedOperationRevision (pac_waiting_revision pending + 1) authorized_revision))
     (bind_step (in_server (authorize_tool (ge_mcp E) (pac_request_id pending)
        \<lparr>aea_operation_id = oid, aea_operation_revision = authorized_revision,
         aea_proposal_sha256 = pac_proposal_digest pending,
         aea_decision = (case pac_decision pending of None \<Rightarrow> AllowOnce | Some d \<Rightarrow> d)\<rparr>)) (\<lambda>outcome.
      case outcome of
        CallRejected _ \<Rightarrow> fail_step AuthorizedOperationWasRejected
      | CallAuthorized call \<Rightarrow> run_authorized E oid authorized_revision (pac_request_id pending) call)))"

definition reject_cancelled :: "gateway_env \<Rightarrow> operation_id \<Rightarrow> unit gateway_step" where
  "reject_cancelled E oid =
     bind_step (find_pending oid) (\<lambda>pending.
     then_step (forget_operation oid)
     (bind_step (in_server (authorize_tool (ge_mcp E) (pac_request_id pending)
        \<lparr>aea_operation_id = oid, aea_operation_revision = pac_waiting_revision pending,
         aea_proposal_sha256 = pac_proposal_digest pending,
         aea_decision = (case pac_decision pending of None \<Rightarrow> permission_decision.Cancelled | Some d \<Rightarrow> d)\<rparr>))
      (\<lambda>outcome. case outcome of
        CallAuthorized _ \<Rightarrow> fail_step CancelledOperationWasAuthorized
      | CallRejected response \<Rightarrow> write_response E response)))"

definition note_decision :: "operation_id \<Rightarrow> permission_decision \<Rightarrow> unit gateway_step" where
  "note_decision oid decision = update_step (\<lambda>g. g\<lparr>gw_pending := (gw_pending g)(oid :=
     map_option (pac_decision_update (\<lambda>_. Some decision)) (gw_pending g oid))\<rparr>)"

definition receive_authority :: "gateway_env \<Rightarrow> control_response \<Rightarrow> unit gateway_step" where
  "receive_authority E response = (case response of
       Event event \<Rightarrow>
         (case ev_operation_id event of
            None \<Rightarrow> return_step ()
          | Some oid \<Rightarrow> bind_step (read_step gw_pending) (\<lambda>pending.
              if pending oid = None then return_step ()
              else case ev_payload event of
                  PermissionDecided _ decision _ \<Rightarrow> note_decision oid decision
                | OperationStateChanged revision _ to _ _ \<Rightarrow>
                    if to = Authorized then execute_authorized E oid revision
                    else if to = operation_state.Cancelled then reject_cancelled E oid
                    else return_step ()
                | _ \<Rightarrow> return_step ()))
     | _ \<Rightarrow> return_step ())"

section \<open>The loop\<close>

text \<open>What the channels of the reader and the observer deliver, in the order they are selected.\<close>

datatype gateway_event =
    InputMessage json | InputClosed | InputFailed string | InputDisconnected
  | AuthorityResponse control_response | AuthorityFailed string | AuthorityDisconnected

definition gateway_event_step :: "gateway_env \<Rightarrow> gateway_event \<Rightarrow> bool gateway_step" where
  "gateway_event_step E event = (case event of
       InputMessage message \<Rightarrow> then_step (receive_mcp E message) (return_step True)
     | InputClosed \<Rightarrow> return_step False
     | InputDisconnected \<Rightarrow> return_step False
     | InputFailed message \<Rightarrow> fail_step (GatewayInput message)
     | AuthorityResponse response \<Rightarrow> then_step (receive_authority E response) (return_step True)
     | AuthorityFailed message \<Rightarrow> fail_step (GatewayAuthorityObserver message)
     | AuthorityDisconnected \<Rightarrow> fail_step (GatewayAuthorityObserver ''authority observer disconnected''))"

text \<open>The loop over the events; \<open>None\<close> is a loop that waits for the next one.\<close>

fun run_mcp_stdio ::
    "gateway_env \<Rightarrow> gateway_event list \<Rightarrow> mcp_gateway \<Rightarrow> (mcp_gateway_error + unit) option \<times> mcp_gateway" where
  "run_mcp_stdio E [] g = (None, g)"
| "run_mcp_stdio E (event # events) g = (case gateway_event_step E event g of
       (Inl e, g') \<Rightarrow> (Some (Inl e), g')
     | (Inr True, g') \<Rightarrow> run_mcp_stdio E events g'
     | (Inr False, g') \<Rightarrow> (Some (Inr ()), g'))"

end
