(* ===== verification/Mcp_Gateway_Safety.thy ===== *)
theory Mcp_Gateway_Safety
  imports Mcp_Gateway
begin

text \<open>
  What the MCP gateway asks the daemon to run: only calls that it proposed, with the very name and
  arguments, at the revision after the one the daemon put before the user, and each proposal at
  most once. The lemmas follow the books of the gateway (its pending calls, those of its session
  and the exchanges with the daemon) through every handler.
\<close>

section \<open>The books\<close>

fun proposed_as :: "operation_id \<Rightarrow> exchange \<Rightarrow> bool" where
  "proposed_as oid (ProposeBrokeredMcpTool _ _ _, Inr (OperationUpdated o' _ WaitingHuman)) = (o' = oid)"
| "proposed_as oid _ = False"

fun runs_as :: "operation_id \<Rightarrow> exchange \<Rightarrow> bool" where
  "runs_as oid (RunAuthorizedBrokeredMcpTool _ o' _ _ _ _, _) = (o' = oid)"
| "runs_as oid _ = False"

definition proposals_of :: "operation_id \<Rightarrow> exchange list \<Rightarrow> nat" where
  "proposals_of oid ex = length (filter (proposed_as oid) ex)"

definition runs_of :: "operation_id \<Rightarrow> exchange list \<Rightarrow> nat" where
  "runs_of oid ex = length (filter (runs_as oid) ex)"

text \<open>A request is in order after the exchanges before it.\<close>

fun request_ok :: "exchange list \<Rightarrow> exchange \<Rightarrow> bool" where
  "request_ok before (RunAuthorizedBrokeredMcpTool tid oid revision name _ arguments, _) =
     (\<exists>w. revision = w + 1
        \<and> (ProposeBrokeredMcpTool tid name arguments, Inr (OperationUpdated oid w WaitingHuman)) \<in> set before)"
| "request_ok before _ = True"

definition exchanges_ok :: "exchange list \<Rightarrow> bool" where
  "exchanges_ok ex \<longleftrightarrow> (\<forall>i < length ex. request_ok (take i ex) (ex ! i))
     \<and> (\<forall>oid. runs_of oid ex \<le> proposals_of oid ex)"

definition proposed_tasks :: "exchange list \<Rightarrow> task_id set" where
  "proposed_tasks ex = {tid. \<exists>name arguments r. (ProposeBrokeredMcpTool tid name arguments, r) \<in> set ex}"

text \<open>A pending call of the gateway belongs to a call of its session and to its proposal.\<close>

definition linked :: "mcp_agent_server \<Rightarrow> task_id option \<Rightarrow> exchange list \<Rightarrow> operation_id \<Rightarrow> pending_authority_call \<Rightarrow> bool" where
  "linked s task ex oid p \<longleftrightarrow> (\<exists>q tid. pending_at s (pac_request_id p) = Some q \<and> task = Some tid
     \<and> (ProposeBrokeredMcpTool tid (mt_name (ptc_call q)) (mt_arguments (ptc_call q)),
        Inr (OperationUpdated oid (pac_waiting_revision p) WaitingHuman)) \<in> set ex)"

definition counted :: "(operation_id \<Rightarrow> pending_authority_call option) \<Rightarrow> exchange list \<Rightarrow> operation_id \<Rightarrow> bool" where
  "counted pending ex oid \<longleftrightarrow> runs_of oid ex + (if pending oid = None then 0 else 1) \<le> proposals_of oid ex"

definition books :: "mcp_agent_server \<Rightarrow> task_id option \<Rightarrow> (operation_id \<Rightarrow> pending_authority_call option)
    \<Rightarrow> exchange list \<Rightarrow> bool" where
  "books s task pending ex \<longleftrightarrow>
     (\<forall>oid p. pending oid = Some p \<longrightarrow> linked s task ex oid p)
     \<and> (\<forall>oid oid' p p'. pending oid = Some p \<and> pending oid' = Some p' \<and> pac_request_id p = pac_request_id p'
          \<longrightarrow> oid = oid')
     \<and> (\<forall>i < length ex. request_ok (take i ex) (ex ! i))
     \<and> (\<forall>tid \<in> proposed_tasks ex. task = Some tid)
     \<and> (\<forall>oid. counted pending ex oid)"

definition books_ok :: "mcp_gateway \<Rightarrow> bool" where
  "books_ok g \<longleftrightarrow> books (gw_server g) (gw_task g) (gw_pending g) (gw_exchanges g)"

definition closed_ok :: "'e \<Rightarrow> mcp_gateway \<Rightarrow> bool" where
  "closed_ok e g \<longleftrightarrow> exchanges_ok (gw_exchanges g)"

text \<open>The session holds a call that the gateway has not proposed yet.\<close>

definition unproposed :: "(operation_id \<Rightarrow> pending_authority_call option) \<Rightarrow> external_request_id \<Rightarrow> bool" where
  "unproposed pending rid \<longleftrightarrow> (\<forall>oid p. pending oid = Some p \<longrightarrow> pac_request_id p \<noteq> rid)"

definition open_ok :: "mcp_tool_call \<Rightarrow> mcp_gateway \<Rightarrow> bool" where
  "open_ok call g \<longleftrightarrow> books_ok g \<and> unproposed (gw_pending g) (mt_request_id call)
     \<and> (\<exists>q. pending_at (gw_server g) (mt_request_id call) = Some q \<and> ptc_call q = call)"

lemma books_exchanges: "books s task pending ex \<Longrightarrow> exchanges_ok ex"
  unfolding books_def exchanges_ok_def counted_def by (meson add_leD1)

lemma books_closed: "books_ok g \<Longrightarrow> closed_ok e g"
  unfolding books_ok_def closed_ok_def by (rule books_exchanges)

lemma open_closed: "open_ok call g \<Longrightarrow> closed_ok e g"
  by (simp add: open_ok_def books_closed)

lemma proposals_snoc: "proposals_of oid (ex @ [x]) = proposals_of oid ex + (if proposed_as oid x then 1 else 0)"
  by (simp add: proposals_of_def)

lemma runs_snoc: "runs_of oid (ex @ [x]) = runs_of oid ex + (if runs_as oid x then 1 else 0)"
  by (simp add: runs_of_def)

lemma requests_snoc:
  "(\<forall>i < length (ex @ [x]). request_ok (take i (ex @ [x])) ((ex @ [x]) ! i))
     \<longleftrightarrow> (\<forall>i < length ex. request_ok (take i ex) (ex ! i)) \<and> request_ok ex x"
  by (auto simp: less_Suc_eq nth_append)

lemma proposed_tasks_snoc:
  "proposed_tasks (ex @ [x]) = proposed_tasks ex
     \<union> (case fst x of ProposeBrokeredMcpTool tid _ _ \<Rightarrow> {tid} | _ \<Rightarrow> {})"
  by (cases x) (auto simp: proposed_tasks_def split: control_request.splits)

lemma linked_more: "linked s task ex oid p \<Longrightarrow> linked s task (ex @ [x]) oid p"
  by (auto simp: linked_def)

lemma linked_server:
  assumes "linked s task ex oid p"
    and "map_option ptc_call (pending_at t (pac_request_id p)) = map_option ptc_call (pending_at s (pac_request_id p))"
  shows "linked t task ex oid p"
  using assms by (auto simp: linked_def)

lemma counted_exchange: "counted pending ex oid \<Longrightarrow> \<not> runs_as oid x \<Longrightarrow> counted pending (ex @ [x]) oid"
  by (auto simp: counted_def runs_snoc proposals_snoc)

lemma counted_forget: "counted pending ex oid \<Longrightarrow> counted (pending(o' := None)) ex oid"
  by (auto simp: counted_def)

text \<open>An exchange that neither runs a call nor proposes one for another task keeps the books.\<close>

lemma books_exchange:
  assumes "books s task pending ex" and "request_ok ex x" and "\<And>oid. \<not> runs_as oid x"
    and "\<And>tid. tid \<in> proposed_tasks [x] \<Longrightarrow> task = Some tid"
  shows "books s task pending (ex @ [x])"
proof -
  have "proposed_tasks (ex @ [x]) = proposed_tasks ex \<union> proposed_tasks [x]"
    by (auto simp: proposed_tasks_def)
  then show ?thesis
    using assms unfolding books_def requests_snoc by (auto intro: linked_more counted_exchange)
qed

lemma books_server:
  assumes "books s task pending ex"
    and "\<And>oid p. pending oid = Some p \<Longrightarrow>
      map_option ptc_call (pending_at t (pac_request_id p)) = map_option ptc_call (pending_at s (pac_request_id p))"
  shows "books t task pending ex"
  using assms unfolding books_def by (metis linked_server)

lemma books_forget:
  assumes "books s task pending ex"
  shows "books s task (pending(oid := None)) ex"
  using assms unfolding books_def by (auto intro: counted_forget)

lemma books_task: "books s None pending ex \<Longrightarrow> books s (Some tid) pending ex"
  by (auto simp: books_def linked_def)

section \<open>Writing and asking\<close>

definition same_books :: "mcp_gateway \<Rightarrow> mcp_gateway \<Rightarrow> bool" where
  "same_books g h \<longleftrightarrow> gw_server h = gw_server g \<and> gw_task h = gw_task g
     \<and> gw_pending h = gw_pending g \<and> gw_exchanges h = gw_exchanges g"

interpretation same: step_preorder same_books
  by unfold_locales (auto simp: same_books_def)

lemma same_write: "obeys same_books (write_response E v)"
  unfolding write_response_def
  by (auto intro!: same.obeys_parts same.obeys_update split: write_result.split simp: same_books_def)

lemma books_same: "same_books g h \<Longrightarrow> books_ok g \<Longrightarrow> books_ok h"
  by (simp add: same_books_def books_ok_def)

lemma write_books: "triple books_ok (write_response E v) (\<lambda>_. books_ok) closed_ok"
  by (rule triple_post [OF triple_obeys [OF same_write]]) (auto intro: books_same books_closed)

lemma authority_request_run:
  "authority_request E q g = (authority_answer E (length (gw_exchanges g)) q,
     g\<lparr>gw_exchanges := gw_exchanges g @ [(q, authority_answer E (length (gw_exchanges g)) q)]\<rparr>)"
  by (simp add: authority_request_def Let_def)

lemma in_server_run: "in_server m g = (r, h) \<longleftrightarrow> (\<exists>r' s. m (gw_server g) = (r', s) \<and> r = map_err GatewayMcp r'
    \<and> h = g\<lparr>gw_server := s\<rparr>)"
  by (auto simp: in_server_def split: prod.splits)

section \<open>The session\<close>

lemma pending_at_effects:
  "pending_at (removed s rid) rid' = (if rid' = rid then None else pending_at s rid')"
  "pending_at (granted s rid p) rid' = (if rid' = rid then Some (p\<lparr>ptc_authorized := True\<rparr>) else pending_at s rid')"
  "pending_at (added s call) rid' =
     (if rid' = mt_request_id call then Some \<lparr>ptc_call = call, ptc_authorized = False\<rparr> else pending_at s rid')"
  by (auto simp: pending_at_def removed_def granted_def added_def delete_conv' update_conv')

lemma pending_at_lifecycle: "only_lifecycle s t \<Longrightarrow> pending_at t = pending_at s"
  by (auto simp: only_lifecycle_def pending_at_def fun_eq_iff)

lemma books_removed:
  "books s task pending ex \<Longrightarrow> unproposed pending rid \<Longrightarrow> books (removed s rid) task pending ex"
  by (erule books_server) (auto simp: pending_at_effects unproposed_def)

lemma books_granted:
  "books s task pending ex \<Longrightarrow> pending_at s rid = Some p \<Longrightarrow> books (granted s rid p) task pending ex"
  by (erule books_server) (auto simp: pending_at_effects)

lemma forgotten_unproposed:
  "books s task pending ex \<Longrightarrow> pending oid = Some p \<Longrightarrow> unproposed (pending(oid := None)) (pac_request_id p)"
  unfolding books_def unproposed_def by (metis fun_upd_apply option.distinct(1))

definition session_received :: "mcp_server_action option \<Rightarrow> mcp_gateway \<Rightarrow> bool" where
  "session_received action g \<longleftrightarrow> (case action of Some (ToolProposed call) \<Rightarrow> open_ok call g | _ \<Rightarrow> books_ok g)"

lemma session_received_simps:
  "session_received None = books_ok" "session_received (Some (mcp_server_action.Response v)) = books_ok"
  "session_received (Some (ToolProposed call)) = open_ok call"
  by (simp_all add: fun_eq_iff session_received_def)

lemma receive_books: "triple books_ok (in_server (receive_message C message)) session_received closed_ok"
proof (rule tripleI)
  fix g action h
  assume g: "books_ok g" and run: "in_server (receive_message C message) g = (Inr action, h)"
  from run obtain s where s: "receive_message C message (gw_server g) = (Inr action, s)" "h = g\<lparr>gw_server := s\<rparr>"
    by (auto simp: in_server_run result_simps eq_commute [of "Inr _"])
  from receive_effect [OF s(1)] have effect: "message_effect C (gw_server g) (Inr action) s" .
  show "session_received action h"
  proof (cases "\<exists>call. action = Some (ToolProposed call)")
    case True
    then obtain call where action: "action = Some (ToolProposed call)" ..
    with effect have new: "pending_at (gw_server g) (mt_request_id call) = None" and t: "s = added (gw_server g) call"
      by (auto simp: message_effect_def proposed_now_def)
    have fresh: "unproposed (gw_pending g) (mt_request_id call)"
      unfolding unproposed_def
    proof (intro allI impI notI)
      fix oid p assume p: "gw_pending g oid = Some p" "pac_request_id p = mt_request_id call"
      with g have "linked (gw_server g) (gw_task g) (gw_exchanges g) oid p"
        unfolding books_ok_def books_def by blast
      with p(2) new show False by (simp add: linked_def)
    qed
    have "books s (gw_task g) (gw_pending g) (gw_exchanges g)"
      using g unfolding books_ok_def
      by (rule books_server) (use fresh in \<open>auto simp: t pending_at_effects unproposed_def\<close>)
    with fresh show ?thesis
      by (simp add: session_received_def action open_ok_def books_ok_def s(2)) (simp add: t pending_at_effects)
  next
    case False
    with effect have "only_lifecycle (gw_server g) s"
      by (auto simp: message_effect_def split: option.splits mcp_server_action.splits)
    then have same: "pending_at s = pending_at (gw_server g)" by (rule pending_at_lifecycle)
    from g have "books (gw_server g) (gw_task g) (gw_pending g) (gw_exchanges g)" by (simp add: books_ok_def)
    then have "books s (gw_task g) (gw_pending g) (gw_exchanges g)" by (rule books_server) (simp add: same)
    with False show ?thesis
      by (auto simp: session_received_def books_ok_def s(2) split: option.splits mcp_server_action.splits)
  qed
next
  fix g e h
  assume g: "books_ok g" and run: "in_server (receive_message C message) g = (Inl e, h)"
  then show "closed_ok e h"
    using books_closed [OF g] by (auto simp: in_server_run closed_ok_def)
qed

lemma in_server_closed:
  assumes "\<And>a g h. P g \<Longrightarrow> in_server m g = (Inr a, h) \<Longrightarrow> Q a h" and "\<And>g. P g \<Longrightarrow> exchanges_ok (gw_exchanges g)"
  shows "triple P (in_server m) Q closed_ok"
  by (rule tripleI) (use assms in \<open>auto simp: in_server_run closed_ok_def\<close>)

lemma fail_books: "triple (open_ok call) (in_server (fail_tool C (mt_request_id call) message)) (\<lambda>_. books_ok) closed_ok"
proof (rule in_server_closed)
  fix v g h
  assume g: "open_ok call g" and run: "in_server (fail_tool C (mt_request_id call) message) g = (Inr v, h)"
  then obtain s where "fail_tool C (mt_request_id call) message (gw_server g) = (Inr v, s)" "h = g\<lparr>gw_server := s\<rparr>"
    by (auto simp: in_server_run result_simps eq_commute [of "Inr _"])
  with fail_effect [of C "mt_request_id call" message "gw_server g" "Inr v" s] g show "books_ok h"
    by (auto simp: open_ok_def books_ok_def intro: books_removed)
qed (auto simp: open_ok_def books_ok_def intro: books_exchanges)

section \<open>Proposing\<close>

lemma open_exchange:
  assumes "open_ok call g" and "request_ok (gw_exchanges g) x" and "\<And>oid. \<not> runs_as oid x"
    and "\<And>tid. tid \<in> proposed_tasks [x] \<Longrightarrow> gw_task g = Some tid"
  shows "open_ok call (g\<lparr>gw_exchanges := gw_exchanges g @ [x]\<rparr>)"
  using assms books_exchange [OF _ assms(2-4)] by (simp add: open_ok_def books_ok_def)

lemma task_books: "triple (open_ok call) (gateway_task E) (\<lambda>tid g. open_ok call g \<and> gw_task g = Some tid) closed_ok"
proof (rule tripleI)
  fix g tid h
  assume g: "open_ok call g" and run: "gateway_task E g = (Inr tid, h)"
  show "open_ok call h \<and> gw_task h = Some tid"
  proof (cases "gw_task g")
    case (Some t)
    with g run show ?thesis by (simp add: gateway_task_def step_simps)
  next
    case None
    let ?x = "(CreateTask ''Agent MCP tools'', authority_answer E (length (gw_exchanges g)) (CreateTask ''Agent MCP tools''))"
    let ?g = "g\<lparr>gw_exchanges := gw_exchanges g @ [?x]\<rparr>"
    have h: "h = ?g\<lparr>gw_task := Some tid\<rparr>"
      using run None
      by (auto simp: gateway_task_def step_simps authority_request_run bind_step_def then_step_def
          split: sum.splits control_response.splits)
    have "open_ok call ?g" using g by (rule open_exchange) (auto simp: proposed_tasks_def)
    with None h show ?thesis using books_task by (auto simp: open_ok_def books_ok_def)
  qed
next
  fix g e h
  assume g: "open_ok call g" and run: "gateway_task E g = (Inl e, h)"
  let ?x = "(CreateTask ''Agent MCP tools'', authority_answer E (length (gw_exchanges g)) (CreateTask ''Agent MCP tools''))"
  have "open_ok call (g\<lparr>gw_exchanges := gw_exchanges g @ [?x]\<rparr>)"
    using g by (rule open_exchange) (auto simp: proposed_tasks_def)
  moreover have "h = g\<lparr>gw_exchanges := gw_exchanges g @ [?x]\<rparr>"
    using run
    by (auto simp: gateway_task_def step_simps authority_request_run bind_step_def then_step_def
        split: sum.splits control_response.splits option.splits)
  ultimately show "closed_ok e h" by (auto intro: open_closed)
qed

lemma answer_failed_books: "triple (open_ok call) (answer_failed_tool E (mt_request_id call) message) (\<lambda>_. books_ok) closed_ok"
  unfolding answer_failed_tool_def by (rule triple_bind [OF write_books fail_books])

definition proposal_pending :: "mcp_tool_call \<Rightarrow> u64 \<Rightarrow> pending_authority_call" where
  "proposal_pending call revision = \<lparr>pac_request_id = mt_request_id call,
     pac_proposal_digest = aep_payload_sha256 (mt_proposal call),
     pac_waiting_revision = revision, pac_decision = None\<rparr>"

lemma books_propose:
  assumes "open_ok call g" and "gw_task g = Some tid"
  shows "books (gw_server g) (gw_task g) ((gw_pending g)(oid \<mapsto> proposal_pending call revision))
    (gw_exchanges g @ [(ProposeBrokeredMcpTool tid (mt_name call) (mt_arguments call),
       Inr (OperationUpdated oid revision WaitingHuman))])"
    (is "books _ _ ?pending (?ex @ [?x])")
  unfolding books_def
proof (intro conjI allI impI ballI)
  from assms(1) have books: "books (gw_server g) (gw_task g) (gw_pending g) ?ex"
    and fresh: "unproposed (gw_pending g) (mt_request_id call)" by (simp_all add: open_ok_def books_ok_def)
  from assms(1) obtain q where q: "pending_at (gw_server g) (mt_request_id call) = Some q" "ptc_call q = call"
    by (auto simp: open_ok_def)
  show "linked (gw_server g) (gw_task g) (?ex @ [?x]) o' p" if "?pending o' = Some p" for o' p
  proof (cases "o' = oid")
    case True
    with that q assms(2) show ?thesis by (auto simp: linked_def proposal_pending_def)
  next
    case False
    with that books show ?thesis by (auto simp: books_def intro: linked_more)
  qed
  show "o1 = o2" if "?pending o1 = Some p1 \<and> ?pending o2 = Some p2 \<and> pac_request_id p1 = pac_request_id p2" for o1 o2 p1 p2
    using that books fresh unfolding books_def unproposed_def proposal_pending_def
    by (auto split: if_splits) metis+
  show "request_ok (take i (?ex @ [?x])) ((?ex @ [?x]) ! i)" if "i < length (?ex @ [?x])" for i
  proof -
    have "\<forall>i < length (?ex @ [?x]). request_ok (take i (?ex @ [?x])) ((?ex @ [?x]) ! i)"
      unfolding requests_snoc using books by (simp add: books_def)
    with that show ?thesis by blast
  qed
  show "gw_task g = Some t" if "t \<in> proposed_tasks (?ex @ [?x])" for t
    using that books assms(2) by (auto simp: books_def proposed_tasks_snoc)
  show "counted ?pending (?ex @ [?x]) o'" for o'
  proof -
    have "counted (gw_pending g) ?ex o'" using books by (simp add: books_def)
    then show ?thesis by (auto simp: counted_def runs_snoc proposals_snoc split: if_splits)
  qed
qed

lemma answered_failing:
  assumes "\<And>oid revision. answer \<noteq> Inr (OperationUpdated oid revision WaitingHuman)"
  shows "\<exists>message. proposal_answered E call answer = answer_failed_tool E (mt_request_id call) message"
  using assms by (auto simp: proposal_answered_def split: sum.splits control_response.splits operation_state.splits)

lemma propose_books: "triple (open_ok call) (propose_tool E call) (\<lambda>_. books_ok) closed_ok"
  unfolding propose_tool_def
proof (rule triple_bind [OF _ task_books])
  fix tid
  let ?q = "ProposeBrokeredMcpTool tid (mt_name call) (mt_arguments call)"
  let ?ask = "bind_step (attempt_step (authority_request E ?q)) (proposal_answered E call)"
  have run: "?ask g = proposal_answered E call (authority_answer E (length (gw_exchanges g)) ?q)
      (g\<lparr>gw_exchanges := gw_exchanges g @ [(?q, authority_answer E (length (gw_exchanges g)) ?q)]\<rparr>)" for g
    by (simp add: bind_step_def attempt_step_def authority_request_run)
  show "triple (\<lambda>g. open_ok call g \<and> gw_task g = Some tid) ?ask (\<lambda>_. books_ok) closed_ok"
    unfolding triple_def run
  proof (intro allI impI)
    fix g assume g: "open_ok call g \<and> gw_task g = Some tid"
    let ?a = "authority_answer E (length (gw_exchanges g)) ?q"
    let ?g = "g\<lparr>gw_exchanges := gw_exchanges g @ [(?q, ?a)]\<rparr>"
    show "case proposal_answered E call ?a ?g of (Inl e, t) \<Rightarrow> closed_ok e t | (Inr a, t) \<Rightarrow> books_ok t"
    proof (cases "\<exists>oid revision. ?a = Inr (OperationUpdated oid revision WaitingHuman)")
      case True
      then obtain oid revision where a: "?a = Inr (OperationUpdated oid revision WaitingHuman)" by blast
      with books_propose [of call g tid oid revision] g show ?thesis
        by (simp add: proposal_answered_def step_simps proposal_pending_def books_ok_def)
    next
      case False
      then obtain message where m: "proposal_answered E call ?a = answer_failed_tool E (mt_request_id call) message"
        using answered_failing [of ?a] by blast
      have "open_ok call ?g" using g by (intro open_exchange) (auto simp: proposed_tasks_def)
      from answer_failed_books [unfolded triple_def, rule_format, OF this] show ?thesis unfolding m .
    qed
  qed
qed

lemma receive_mcp_books: "triple books_ok (receive_mcp E message) (\<lambda>_. books_ok) closed_ok"
  unfolding receive_mcp_def
proof (rule triple_bind [OF _ receive_books], goal_cases)
  case (1 action)
  show ?case
  proof (cases action)
    case None
    show ?thesis unfolding None option.case session_received_simps by (rule triple_return)
  next
    case (Some a)
    show ?thesis
      unfolding Some option.case
      by (cases a)
        (simp_all only: mcp_server_action.case session_received_simps write_books propose_books)
  qed
qed

section \<open>Running and rejecting\<close>

text \<open>The call of an operation that the session just authorized.\<close>

definition running :: "operation_id \<Rightarrow> pending_authority_call \<Rightarrow> mcp_tool_call \<Rightarrow> mcp_gateway \<Rightarrow> bool" where
  "running oid p call g \<longleftrightarrow> books_ok g \<and> gw_pending g oid = Some p
     \<and> (\<exists>q. pending_at (gw_server g) (pac_request_id p) = Some q \<and> ptc_call q = call)"

text \<open>After the daemon was asked to run it, the call is no longer counted as pending.\<close>

definition settled_books :: "operation_id \<Rightarrow> external_request_id \<Rightarrow> mcp_gateway \<Rightarrow> bool" where
  "settled_books oid rid g \<longleftrightarrow>
     books (gw_server g) (gw_task g) ((gw_pending g)(oid := None)) (gw_exchanges g)
     \<and> unproposed ((gw_pending g)(oid := None)) rid"

lemma settled_closed: "settled_books oid rid g \<Longrightarrow> exchanges_ok (gw_exchanges g)"
  by (auto simp: settled_books_def intro: books_exchanges)

lemma running_asked:
  assumes "running oid p call g" and "gw_task g = Some tid"
  shows "settled_books oid (pac_request_id p) (g\<lparr>gw_exchanges := gw_exchanges g @
    [(RunAuthorizedBrokeredMcpTool tid oid (pac_waiting_revision p + 1) (mt_name call) digest (mt_arguments call), answer)]\<rparr>)"
    (is "settled_books _ _ (g\<lparr>gw_exchanges := ?ex @ [?x]\<rparr>)")
proof -
  from assms(1) have books: "books (gw_server g) (gw_task g) (gw_pending g) ?ex" and p: "gw_pending g oid = Some p"
    by (simp_all add: running_def books_ok_def)
  from assms(1) obtain q where q: "pending_at (gw_server g) (pac_request_id p) = Some q" "ptc_call q = call"
    by (auto simp: running_def)
  from books p have "linked (gw_server g) (gw_task g) ?ex oid p" unfolding books_def by blast
  with q assms(2) have "request_ok ?ex ?x" by (auto simp: linked_def)
  moreover have "counted ((gw_pending g)(oid := None)) (?ex @ [?x]) o'" for o'
    using books p unfolding books_def counted_def
    by (cases "o' = oid") (auto simp: runs_snoc proposals_snoc dest!: spec [of _ o'])
  ultimately have "books (gw_server g) (gw_task g) ((gw_pending g)(oid := None)) (?ex @ [?x])"
    using books_forget [OF books, of oid] unfolding books_def requests_snoc
    by (auto simp: proposed_tasks_snoc intro: linked_more)
  then show ?thesis
    using forgotten_unproposed [OF books p] by (simp add: settled_books_def)
qed

lemma settled_complete:
  "triple (settled_books oid rid) (in_server (complete_tool C rid result)) (\<lambda>_. settled_books oid rid) closed_ok"
proof (rule in_server_closed)
  fix v g h
  assume g: "settled_books oid rid g" and "in_server (complete_tool C rid result) g = (Inr v, h)"
  then obtain s where "complete_tool C rid result (gw_server g) = (Inr v, s)" and h: "h = g\<lparr>gw_server := s\<rparr>"
    by (auto simp: in_server_run result_simps eq_commute [of "Inr _"])
  then have "s = removed (gw_server g) rid" using complete_effect by fastforce
  with g h show "settled_books oid rid h" by (auto simp: settled_books_def intro: books_removed)
qed (rule settled_closed)

lemma forget_settled: "triple (settled_books oid rid) (forget_operation oid) (\<lambda>_. books_ok) closed_ok"
  by (simp add: triple_def forget_operation_def step_runs settled_books_def books_ok_def)

lemma settled_reply:
  "triple (settled_books oid rid) (bind_step (in_server (complete_tool C rid result)) (\<lambda>reply.
     then_step (forget_operation oid) (write_response E reply))) (\<lambda>_. books_ok) closed_ok"
  by (rule triple_bind [OF triple_then [OF write_books forget_settled] settled_complete])

lemma run_books:
  "triple (running oid p call) (run_authorized E oid (pac_waiting_revision p + 1) (pac_request_id p) call)
     (\<lambda>_. books_ok) closed_ok"
  unfolding triple_def
proof (intro allI impI)
  fix g assume g: "running oid p call g"
  have closed: "exchanges_ok (gw_exchanges g)" using g by (auto simp: running_def books_ok_def intro: books_exchanges)
  let ?m = "run_authorized E oid (pac_waiting_revision p + 1) (pac_request_id p) call"
  show "case ?m g of (Inl e, t) \<Rightarrow> closed_ok e t | (Inr a, t) \<Rightarrow> books_ok t"
  proof (cases "gw_task g")
    case None
    with closed show ?thesis by (simp add: run_authorized_def step_simps closed_ok_def)
  next
    case (Some tid)
    let ?q = "RunAuthorizedBrokeredMcpTool tid oid (pac_waiting_revision p + 1) (mt_name call)
        (aep_payload_sha256 (mt_proposal call)) (mt_arguments call)"
    let ?a = "authority_answer E (length (gw_exchanges g)) ?q"
    let ?g = "g\<lparr>gw_exchanges := gw_exchanges g @ [(?q, ?a)]\<rparr>"
    have asked: "settled_books oid (pac_request_id p) ?g" using g Some by (rule running_asked)
    show ?thesis
    proof (cases ?a)
      case (Inl e)
      with Some settled_closed [OF asked] show ?thesis
        by (simp add: run_authorized_def step_simps bind_step_def authority_request_run closed_ok_def)
    next
      case (Inr response)
      have "\<exists>result. ?m g = bind_step (in_server (complete_tool (ge_mcp E) (pac_request_id p) result)) (\<lambda>reply.
          then_step (forget_operation oid) (write_response E reply)) ?g"
        using Some Inr
        by (cases response)
          (auto simp: run_authorized_def step_simps bind_step_def [of "authority_request _ _"] authority_request_run
            fail_authorized_call_def)
      then obtain result where reply: "?m g = bind_step (in_server (complete_tool (ge_mcp E) (pac_request_id p) result)) (\<lambda>reply.
          then_step (forget_operation oid) (write_response E reply)) ?g" ..
      from settled_reply [unfolded triple_def, rule_format, OF asked] show ?thesis unfolding reply .
    qed
  qed
qed

lemma find_books: "triple books_ok (find_pending oid) (\<lambda>p g. books_ok g \<and> gw_pending g oid = Some p) closed_ok"
  by (rule tripleI) (auto simp: find_pending_def bind_step_def step_runs ok_or_def books_closed split: option.splits)

lemma authorize_books:
  "triple (\<lambda>g. books_ok g \<and> gw_pending g oid = Some p) (in_server (authorize_tool C (pac_request_id p) a))
     (\<lambda>outcome. case outcome of CallAuthorized call \<Rightarrow> running oid p call | CallRejected _ \<Rightarrow> \<lambda>g. exchanges_ok (gw_exchanges g))
     closed_ok"
proof (rule in_server_closed)
  fix outcome g h
  assume g: "books_ok g \<and> gw_pending g oid = Some p"
    and "in_server (authorize_tool C (pac_request_id p) a) g = (Inr outcome, h)"
  then obtain s where run: "authorize_tool C (pac_request_id p) a (gw_server g) = (Inr outcome, s)"
    and h: "h = g\<lparr>gw_server := s\<rparr>"
    by (auto simp: in_server_run result_simps eq_commute [of "Inr _"])
  show "(case outcome of CallAuthorized call \<Rightarrow> running oid p call | CallRejected _ \<Rightarrow> \<lambda>g. exchanges_ok (gw_exchanges g)) h"
  proof (cases outcome)
    case (CallAuthorized call)
    with authorize_effect [OF run] obtain q where q: "pending_at (gw_server g) (pac_request_id p) = Some q"
      "call = ptc_call q" "s = granted (gw_server g) (pac_request_id p) q" by auto
    with g books_granted [of "gw_server g"] have "books s (gw_task g) (gw_pending g) (gw_exchanges g)"
      by (simp add: books_ok_def)
    with g q show ?thesis
      by (simp add: CallAuthorized running_def books_ok_def h) (simp add: pending_at_effects)
  next
    case (CallRejected v)
    with g h show ?thesis by (auto simp: books_ok_def intro: books_exchanges)
  qed
qed (auto simp: books_ok_def intro: books_exchanges)

lemma execute_books: "triple books_ok (execute_authorized E oid revision) (\<lambda>_. books_ok) closed_ok"
  unfolding execute_authorized_def
proof (rule triple_bind [OF _ find_books], goal_cases)
  case (1 p)
  show ?case
  proof (cases "pac_waiting_revision p + 1 = revision")
    case False
    then show ?thesis
      by (auto simp: triple_def then_step_def step_simps intro: books_closed)
  next
    case True
    have rest: "triple ((case outcome of CallAuthorized call \<Rightarrow> running oid p call
        | CallRejected _ \<Rightarrow> \<lambda>g. exchanges_ok (gw_exchanges g)))
      (case outcome of CallRejected _ \<Rightarrow> fail_step AuthorizedOperationWasRejected
      | CallAuthorized call \<Rightarrow> run_authorized E oid revision (pac_request_id p) call) (\<lambda>_. books_ok) closed_ok" for outcome
      using run_books [of oid p _ E] True
      by (cases outcome) (simp_all add: triple_def step_runs closed_ok_def)
    show ?thesis
      using triple_bind [OF rest authorize_books] True by (simp add: then_step_def step_simps)
  qed
qed

lemma reject_books: "triple books_ok (reject_cancelled E oid) (\<lambda>_. books_ok) closed_ok"
  unfolding reject_cancelled_def
proof (rule triple_bind [OF _ find_books], goal_cases)
  case (1 p)
  let ?P = "\<lambda>g. books_ok g \<and> unproposed (gw_pending g) (pac_request_id p)"
  have forget: "triple (\<lambda>g. books_ok g \<and> gw_pending g oid = Some p) (forget_operation oid) (\<lambda>_. ?P) closed_ok"
    by (auto simp: triple_def forget_operation_def step_runs books_ok_def
        intro: books_forget forgotten_unproposed)
  let ?Q = "\<lambda>outcome. case outcome of CallRejected _ \<Rightarrow> books_ok | CallAuthorized _ \<Rightarrow> \<lambda>g. exchanges_ok (gw_exchanges g)"
  have authorize: "triple ?P (in_server (authorize_tool C (pac_request_id p) a)) ?Q closed_ok" for C a
  proof (rule in_server_closed)
    fix outcome g h
    assume g: "?P g" and "in_server (authorize_tool C (pac_request_id p) a) g = (Inr outcome, h)"
    then obtain s where run: "authorize_tool C (pac_request_id p) a (gw_server g) = (Inr outcome, s)"
      and h: "h = g\<lparr>gw_server := s\<rparr>"
      by (auto simp: in_server_run result_simps eq_commute [of "Inr _"])
    show "?Q outcome h"
    proof (cases outcome)
      case (CallAuthorized call)
      with g h show ?thesis by (auto simp: books_ok_def intro: books_exchanges)
    next
      case (CallRejected v)
      with authorize_effect [OF run] have "s = gw_server g \<or> s = removed (gw_server g) (pac_request_id p)" by auto
      with g h CallRejected show ?thesis by (auto simp: books_ok_def intro: books_removed)
    qed
  qed (auto simp: books_ok_def intro: books_exchanges)
  have rest: "triple (?Q outcome) (case outcome of
        CallAuthorized _ \<Rightarrow> fail_step CancelledOperationWasAuthorized
      | CallRejected response \<Rightarrow> write_response E response) (\<lambda>_. books_ok) closed_ok" for outcome
    by (cases outcome) (simp_all add: write_books, simp add: triple_def step_runs closed_ok_def)
  show ?case by (rule triple_then [OF triple_bind [OF rest authorize] forget])
qed

lemma books_pending:
  assumes "books s task pending ex"
    and "\<And>oid p'. pending' oid = Some p' \<Longrightarrow> \<exists>p. pending oid = Some p
      \<and> pac_request_id p = pac_request_id p' \<and> pac_waiting_revision p = pac_waiting_revision p'"
  shows "books s task pending' ex"
  unfolding books_def
proof (intro conjI allI impI)
  from assms(1) have b: "\<And>oid p. pending oid = Some p \<Longrightarrow> linked s task ex oid p"
    "\<And>o1 o2 p1 p2. pending o1 = Some p1 \<Longrightarrow> pending o2 = Some p2 \<Longrightarrow> pac_request_id p1 = pac_request_id p2 \<Longrightarrow> o1 = o2"
    "\<And>oid. counted pending ex oid"
    unfolding books_def by blast+
  show "linked s task ex oid p'" if "pending' oid = Some p'" for oid p'
  proof -
    from assms(2) [OF that] obtain p where "pending oid = Some p" and
      same: "pac_request_id p = pac_request_id p'" "pac_waiting_revision p = pac_waiting_revision p'" by blast
    with b(1) have "linked s task ex oid p" by blast
    then show ?thesis unfolding linked_def same .
  qed
  show "o1 = o2" if "pending' o1 = Some p1 \<and> pending' o2 = Some p2 \<and> pac_request_id p1 = pac_request_id p2" for o1 o2 p1 p2
  proof -
    from that have p: "pending' o1 = Some p1" "pending' o2 = Some p2" and same: "pac_request_id p1 = pac_request_id p2"
      by blast+
    from assms(2) [OF p(1)] obtain q1 where q1: "pending o1 = Some q1" "pac_request_id q1 = pac_request_id p1" by blast
    from assms(2) [OF p(2)] obtain q2 where q2: "pending o2 = Some q2" "pac_request_id q2 = pac_request_id p2" by blast
    show ?thesis using b(2) [OF q1(1) q2(1)] q1(2) q2(2) same by simp
  qed
  show "counted pending' ex oid" for oid
    using b(3) [of oid] assms(2) [of oid] by (cases "pending' oid") (auto simp: counted_def split: if_splits)
qed (use assms(1) in \<open>auto simp: books_def\<close>)

lemma note_books: "triple books_ok (note_decision oid decision) (\<lambda>_. books_ok) closed_ok"
  by (auto simp: triple_def note_decision_def step_runs books_ok_def elim!: books_pending split: if_splits)

lemma return_books: "triple books_ok (return_step a) (\<lambda>_. books_ok) closed_ok"
  by (rule triple_return)

lemma receive_authority_books: "triple books_ok (receive_authority E response) (\<lambda>_. books_ok) closed_ok"
proof (cases "\<exists>event oid. response = Event event \<and> ev_operation_id event = Some oid")
  case False
  then have "receive_authority E response = return_step ()"
    by (auto simp: receive_authority_def split: control_response.splits option.splits)
  then show ?thesis by (simp add: return_books)
next
  case True
  then obtain event oid where e: "response = Event event" "ev_operation_id event = Some oid" by blast
  let ?handler = "case ev_payload event of
                  PermissionDecided _ decision _ \<Rightarrow> note_decision oid decision
                | OperationStateChanged revision _ to _ _ \<Rightarrow>
                    if to = Authorized then execute_authorized E oid revision
                    else if to = operation_state.Cancelled then reject_cancelled E oid
                    else return_step ()
                | _ \<Rightarrow> return_step ()"
  have handler: "triple books_ok ?handler (\<lambda>_. books_ok) closed_ok"
    by (cases "ev_payload event") (simp_all add: return_books note_books execute_books reject_books)
  show ?thesis
    unfolding triple_def
  proof (intro allI impI)
    fix g assume g: "books_ok g"
    have "receive_authority E response g = (if gw_pending g oid = None then (Inr (), g) else ?handler g)"
      by (simp add: receive_authority_def e step_simps)
    with g handler [unfolded triple_def, rule_format, OF g]
    show "case receive_authority E response g of (Inl e, t) \<Rightarrow> closed_ok e t | (Inr a, t) \<Rightarrow> books_ok t"
      by simp
  qed
qed

lemma event_books: "triple books_ok (gateway_event_step E event) (\<lambda>_. books_ok) closed_ok"
proof -
  have more: "triple books_ok (then_step m (return_step True)) (\<lambda>_. books_ok) closed_ok"
    if "triple books_ok m (\<lambda>_. books_ok) closed_ok" for m :: "unit gateway_step"
    by (rule triple_then [OF triple_return that])
  have fail: "triple books_ok (fail_step e) (\<lambda>_. books_ok) closed_ok" for e :: mcp_gateway_error
    by (auto simp: triple_def step_runs intro: books_closed)
  show ?thesis
    by (cases event)
      (simp_all add: gateway_event_step_def return_books more receive_mcp_books receive_authority_books fail)
qed

lemma run_books_closed: "run_mcp_stdio E events g = (r, h) \<Longrightarrow> books_ok g \<Longrightarrow> exchanges_ok (gw_exchanges h)"
proof (induction E events g rule: run_mcp_stdio.induct)
  case (1 E g)
  then show ?case by (auto simp: books_ok_def intro: books_exchanges)
next
  case (2 E event events g)
  obtain r' g' where step: "gateway_event_step E event g = (r', g')" by fastforce
  note books = event_books [of E event]
  show ?case
  proof (cases r')
    case (Inl e)
    with 2 step triple_Inl [OF books] show ?thesis by (auto simp: closed_ok_def)
  next
    case (Inr b)
    with step triple_Inr [OF books] 2(3) have ok: "books_ok g'" by blast
    with 2 step Inr show ?thesis by (cases b) (auto simp: books_ok_def intro: books_exchanges)
  qed
qed

lemma new_books: "books_ok (new_gateway driver_id config)"
  by (simp add: books_ok_def books_def new_gateway_def proposed_tasks_def counted_def runs_of_def)

section \<open>Stopping\<close>

text \<open>A call that waits for its decision, in the gateway and in its session.\<close>

definition awaiting :: "mcp_gateway \<Rightarrow> operation_id \<Rightarrow> pending_authority_call \<Rightarrow> pending_tool_call \<Rightarrow> bool" where
  "awaiting g oid p q \<longleftrightarrow> gw_pending g oid = Some p \<and> pac_waiting_revision p \<noteq> 0 \<and> pac_waiting_revision p + 1 \<noteq> 0
     \<and> pending_at (gw_server g) (pac_request_id p) = Some q \<and> \<not> ptc_authorized q
     \<and> aep_payload_sha256 (mt_proposal (ptc_call q)) = pac_proposal_digest p"

lemma persistent_refused:
  assumes "pending_at s rid = Some q" "aea_operation_revision a \<noteq> 0"
    "aea_proposal_sha256 a = aep_payload_sha256 (mt_proposal (ptc_call q))" "aea_decision a \<in> {AllowAlways, RejectAlways}"
  shows "authorize_tool C rid a s = (Inl (InvalidAuthorization
    ''persistent policy decisions are not wire-level authorizations''), s)"
  using assms by (auto simp: authorize_tool_def then_step_def step_simps guard_step_def pending_at_def Let_def)

lemma grant_accepted:
  assumes "pending_at s rid = Some q" "aea_operation_revision a \<noteq> 0" "\<not> ptc_authorized q"
    "aea_proposal_sha256 a = aep_payload_sha256 (mt_proposal (ptc_call q))" "aea_decision a = AllowOnce"
  shows "authorize_tool C rid a s = (Inr (CallAuthorized (ptc_call q)), granted s rid q)"
  using assms
  by (simp add: authorize_tool_def then_step_def step_simps guard_step_def pending_at_def Let_def granted_def)

definition decided_event :: "event_envelope \<Rightarrow> operation_id \<Rightarrow> permission_decision \<Rightarrow> bool" where
  "decided_event e oid d \<longleftrightarrow> ev_operation_id e = Some oid
     \<and> (\<exists>revision actor. ev_payload e = PermissionDecided revision d actor)"

definition moved_event :: "event_envelope \<Rightarrow> operation_id \<Rightarrow> u64 \<Rightarrow> operation_state \<Rightarrow> bool" where
  "moved_event e oid revision to \<longleftrightarrow> ev_operation_id e = Some oid
     \<and> (\<exists>earlier actor reason. ev_payload e = OperationStateChanged revision earlier to actor reason)"

lemma decided_run:
  assumes "decided_event e oid d" "gw_pending g oid = Some p"
  shows "gateway_event_step E (AuthorityResponse (Event e)) g
    = (Inr True, g\<lparr>gw_pending := (gw_pending g)(oid \<mapsto> p\<lparr>pac_decision := Some d\<rparr>)\<rparr>)"
  using assms
  by (auto simp: decided_event_def gateway_event_step_def receive_authority_def note_decision_def
      then_step_def step_simps bind_step_def step_runs)

lemma moved_run:
  assumes "moved_event e oid revision to" "gw_pending g oid = Some p" "to \<in> {Authorized, operation_state.Cancelled}"
  shows "gateway_event_step E (AuthorityResponse (Event e)) g
    = then_step (if to = Authorized then execute_authorized E oid revision else reject_cancelled E oid)
        (return_step True) g"
  using assms
  by (auto simp: moved_event_def gateway_event_step_def receive_authority_def then_step_def step_simps bind_step_def
      step_runs)

lemma execute_persistent:
  assumes "awaiting g oid p q" "d \<in> {AllowAlways, RejectAlways}"
  defines "h \<equiv> g\<lparr>gw_pending := (gw_pending g)(oid \<mapsto> p\<lparr>pac_decision := Some d\<rparr>)\<rparr>"
  shows "execute_authorized E oid (pac_waiting_revision p + 1) h = (Inl (GatewayMcp (InvalidAuthorization
      ''persistent policy decisions are not wire-level authorizations'')), h)"
    and "reject_cancelled E oid h = (Inl (GatewayMcp (InvalidAuthorization
      ''persistent policy decisions are not wire-level authorizations'')),
      h\<lparr>gw_pending := (gw_pending h)(oid := None)\<rparr>)"
  using assms(1,2)
  by (simp_all add: awaiting_def h_def execute_authorized_def reject_cancelled_def find_pending_def forget_operation_def
      bind_step_def then_step_def step_runs guard_step_def in_server_def persistent_refused)

lemma execute_refused:
  assumes "awaiting g oid p q" "gw_task g = Some tid" "pac_decision p \<in> {None, Some AllowOnce}"
    and "authority_answer E (length (gw_exchanges g)) (RunAuthorizedBrokeredMcpTool tid oid (pac_waiting_revision p + 1)
      (mt_name (ptc_call q)) (aep_payload_sha256 (mt_proposal (ptc_call q))) (mt_arguments (ptc_call q))) = Inl e"
  shows "\<exists>h. execute_authorized E oid (pac_waiting_revision p + 1) g = (Inl e, h) \<and> gw_output h = gw_output g
    \<and> (\<exists>q'. pending_at (gw_server h) (pac_request_id p) = Some q')"
proof -
  let ?a = "\<lparr>aea_operation_id = oid, aea_operation_revision = pac_waiting_revision p + 1,
         aea_proposal_sha256 = pac_proposal_digest p,
         aea_decision = (case pac_decision p of None \<Rightarrow> AllowOnce | Some d \<Rightarrow> d)\<rparr>"
  have "authorize_tool (ge_mcp E) (pac_request_id p) ?a (gw_server g)
      = (Inr (CallAuthorized (ptc_call q)), granted (gw_server g) (pac_request_id p) q)"
    using assms(1,3) by (intro grant_accepted) (auto simp: awaiting_def)
  then show ?thesis
    using assms
    by (auto simp: awaiting_def execute_authorized_def find_pending_def bind_step_def then_step_def step_runs
        guard_step_def in_server_def run_authorized_def authority_request_run pending_at_effects)
qed

section \<open>A session\<close>

definition gateway_env_sample :: "control_response \<Rightarrow> gateway_env" where
  "gateway_env_sample last_answer = \<lparr>ge_mcp = sample_mcp_crate,
     ge_values = \<lparr>vc_to_vec = (\<lambda>_. Inr [1]), vc_from_slice = (\<lambda>_. Inr JNull)\<rparr>,
     ge_ask = (\<lambda>n _. if n = 0 then Inr (TaskCreated (TaskId 5))
        else if n = 1 then Inr (OperationUpdated (OperationId 1) 3 WaitingHuman)
        else Inr last_answer),
     ge_write = (\<lambda>_. WriteOk), ge_error_text = (\<lambda>_. []), ge_debug = (\<lambda>_. [])\<rparr>"

definition executed_answer :: control_response where
  "executed_answer = BrokeredMcpToolExecuted \<lparr>bme_text = ''ok'', bme_structured_content = None, bme_is_error = False,
     bme_outcome = operation_outcome.Succeeded\<rparr>"

definition gateway_sample :: mcp_gateway where
  "gateway_sample = new_gateway 0 \<lparr>msc_socket = ''/s'', msc_task_id = None, msc_deno_lsp_enabled = False,
     msc_deno_genui_enabled = False\<rparr>"

definition gateway_event_sample :: "domain_event \<Rightarrow> gateway_event" where
  "gateway_event_sample payload = AuthorityResponse (Event
     \<lparr>ev_schema_version = EVENT_SCHEMA_VERSION, ev_sequence = 1, ev_event_id = EventId 1, ev_recorded_at_ms = 0,
      ev_task_id = TaskId 5, ev_run_id = None, ev_operation_id = Some (OperationId 1), ev_causation_id = None,
      ev_correlation_id = None, ev_payload = payload\<rparr>)"

definition proposing_inputs :: "gateway_event list" where
  "proposing_inputs =
     [InputMessage (sample_mcp_request ''initialize'' (JObject [(''protocolVersion'', JString ''1'')])),
      InputMessage (JObject [(''jsonrpc'', JString ''2.0''), (''method'', JString ''notifications/initialized'')]),
      InputMessage (sample_mcp_request ''tools/call'' (JObject [(''name'', JString ''hyper_term.diff.review''),
        (''arguments'', JObject [(''before'', JString ''a''), (''after'', JString ''b'')])]))]"

lemmas gateway_evaluation = gateway_event_step_def receive_mcp_def in_server_def propose_tool_def gateway_task_def
  authority_request_run authority_answer_def proposal_answered_def write_response_def encode_frame_def
  attempt_step_def

lemma sample_proposes:
  "\<exists>g p q. run_mcp_stdio (gateway_env_sample a) proposing_inputs gateway_sample = (None, g)
     \<and> awaiting g (OperationId 1) p q \<and> pac_waiting_revision p = 3 \<and> pac_decision p = None \<and> gw_task g = Some (TaskId 5)
     \<and> length (gw_exchanges g) = 2"
  unfolding proposing_inputs_def gateway_sample_def
  by (simp add: new_gateway_def with_tools_def gateway_evaluation mcp_evaluation gateway_env_sample_def awaiting_def
      pending_at_def)

lemma sample_runs:
  "\<exists>g. run_mcp_stdio (gateway_env_sample executed_answer) (proposing_inputs
       @ [gateway_event_sample (OperationStateChanged 4 WaitingHuman Authorized actor.User None)]) gateway_sample = (None, g)
     \<and> runs_of (OperationId 1) (gw_exchanges g) = 1"
  unfolding proposing_inputs_def gateway_sample_def gateway_event_sample_def
  by (simp add: new_gateway_def with_tools_def gateway_evaluation mcp_evaluation gateway_env_sample_def
      receive_authority_def executed_answer_def execute_authorized_def find_pending_def run_authorized_def forget_operation_def runs_of_def)

section \<open>Properties\<close>

text \<open>
  C21. Whatever the agent sends and the daemon answers, in any order, the gateway asks the daemon
  to run a tool only after proposing exactly this call: the request names the task, the tool and
  the arguments of a proposal that the daemon put before the user, one revision later, and no
  proposal is run twice.
\<close>

theorem gateway_runs_only_its_proposals:
  assumes "run_mcp_stdio E events (new_gateway driver_id config) = (r, g)"
  shows "(\<forall>i < length (gw_exchanges g). \<forall>tid oid revision name digest arguments answer.
      gw_exchanges g ! i = (RunAuthorizedBrokeredMcpTool tid oid revision name digest arguments, answer) \<longrightarrow>
      (\<exists>j < i. \<exists>w. gw_exchanges g ! j = (ProposeBrokeredMcpTool tid name arguments,
           Inr (OperationUpdated oid w WaitingHuman)) \<and> revision = w + 1))
    \<and> (\<forall>oid. runs_of oid (gw_exchanges g) \<le> proposals_of oid (gw_exchanges g))"
proof -
  have ok: "exchanges_ok (gw_exchanges g)" using run_books_closed [OF assms new_books] .
  have "\<exists>j < i. \<exists>w. gw_exchanges g ! j = (ProposeBrokeredMcpTool tid name arguments,
      Inr (OperationUpdated oid w WaitingHuman)) \<and> revision = w + 1"
    if i: "i < length (gw_exchanges g)"
      and run: "gw_exchanges g ! i = (RunAuthorizedBrokeredMcpTool tid oid revision name digest arguments, answer)"
    for i tid oid revision name digest arguments answer
  proof -
    have "request_ok (take i (gw_exchanges g)) (gw_exchanges g ! i)" using ok i by (simp add: exchanges_ok_def)
    then obtain w where "revision = w + 1" "(ProposeBrokeredMcpTool tid name arguments,
        Inr (OperationUpdated oid w WaitingHuman)) \<in> set (take i (gw_exchanges g))"
      by (auto simp: run)
    with i show ?thesis by (auto simp: in_set_conv_nth)
  qed
  with ok show ?thesis unfolding exchanges_ok_def by blast
qed

theorem gateway_runs_only_its_proposals_witness:
  "1 \<le> proposals_of (OperationId 1) (gw_exchanges (snd (run_mcp_stdio (gateway_env_sample executed_answer) (proposing_inputs
     @ [gateway_event_sample (OperationStateChanged 4 WaitingHuman Authorized actor.User None)]) gateway_sample)))"
proof -
  from sample_runs obtain g where run: "run_mcp_stdio (gateway_env_sample executed_answer) (proposing_inputs
       @ [gateway_event_sample (OperationStateChanged 4 WaitingHuman Authorized actor.User None)]) gateway_sample = (None, g)"
    and one: "runs_of (OperationId 1) (gw_exchanges g) = 1" by blast
  from gateway_runs_only_its_proposals [OF run [unfolded gateway_sample_def]]
  have "runs_of (OperationId 1) (gw_exchanges g) \<le> proposals_of (OperationId 1) (gw_exchanges g)" by blast
  with run one show ?thesis by simp
qed

text \<open>
  C37. The gateway stops, with the call of the agent unanswered, in two cases its handlers mean to
  survive. When the user decides with a persistent permission, which the daemon takes for an
  approval or a rejection but the session refuses as an authorization, the loop ends at the
  event that authorizes or cancels the operation, whatever the daemon would answer: it is not
  asked to run the tool, and nothing is written to the agent. And when the daemon refuses to run
  a call that is authorized for once, the loop ends too, because \<open>authority_request\<close> turns the
  refusal into an error before the branch that would answer the agent.
\<close>

theorem gateway_stops_without_answering:
  assumes "awaiting g oid p q" and "d \<in> {AllowAlways, RejectAlways}" and "decided_event e1 oid d"
    and "moved_event e2 oid (pac_waiting_revision p + 1) Authorized"
    and "moved_event e3 oid (pac_waiting_revision p + 1) operation_state.Cancelled"
  shows "(\<forall>e \<in> {e2, e3}. \<exists>h. run_mcp_stdio E
        (AuthorityResponse (Event e1) # AuthorityResponse (Event e) # events) g
      = (Some (Inl (GatewayMcp (InvalidAuthorization
          ''persistent policy decisions are not wire-level authorizations''))), h)
      \<and> gw_output h = gw_output g \<and> gw_exchanges h = gw_exchanges g
      \<and> pending_at (gw_server h) (pac_request_id p) = Some q)
    \<and> (\<forall>tid code message. gw_task g = Some tid \<and> pac_decision p \<in> {None, Some AllowOnce}
        \<and> ge_ask E (length (gw_exchanges g)) (RunAuthorizedBrokeredMcpTool tid oid (pac_waiting_revision p + 1)
            (mt_name (ptc_call q)) (aep_payload_sha256 (mt_proposal (ptc_call q))) (mt_arguments (ptc_call q)))
          = Inr (Error code message) \<longrightarrow>
        (\<exists>h. run_mcp_stdio E (AuthorityResponse (Event e2) # events) g
          = (Some (Inl (AuthorityRejected code message)), h)
          \<and> gw_output h = gw_output g \<and> pending_at (gw_server h) (pac_request_id p) \<noteq> None))"
proof (intro conjI allI impI)
  from assms(1) have p: "gw_pending g oid = Some p" and q: "pending_at (gw_server g) (pac_request_id p) = Some q"
    by (simp_all add: awaiting_def)
  let ?h = "g\<lparr>gw_pending := (gw_pending g)(oid \<mapsto> p\<lparr>pac_decision := Some d\<rparr>)\<rparr>"
  have h: "gw_pending ?h oid = Some (p\<lparr>pac_decision := Some d\<rparr>)" by simp
  note run = decided_run [OF assms(3) p, of E]
  note moved = moved_run [OF assms(4) h, of E] moved_run [OF assms(5) h, of E]
  show "\<forall>e \<in> {e2, e3}. \<exists>h. run_mcp_stdio E
        (AuthorityResponse (Event e1) # AuthorityResponse (Event e) # events) g
      = (Some (Inl (GatewayMcp (InvalidAuthorization
          ''persistent policy decisions are not wire-level authorizations''))), h)
      \<and> gw_output h = gw_output g \<and> gw_exchanges h = gw_exchanges g
      \<and> pending_at (gw_server h) (pac_request_id p) = Some q"
    using q by (simp add: run moved then_step_def bind_step_def execute_persistent [OF assms(1,2)])
  fix tid code message
  assume once: "gw_task g = Some tid \<and> pac_decision p \<in> {None, Some AllowOnce}
        \<and> ge_ask E (length (gw_exchanges g)) (RunAuthorizedBrokeredMcpTool tid oid (pac_waiting_revision p + 1)
            (mt_name (ptc_call q)) (aep_payload_sha256 (mt_proposal (ptc_call q))) (mt_arguments (ptc_call q)))
          = Inr (Error code message)"
  then have refused: "authority_answer E (length (gw_exchanges g)) (RunAuthorizedBrokeredMcpTool tid oid
      (pac_waiting_revision p + 1) (mt_name (ptc_call q)) (aep_payload_sha256 (mt_proposal (ptc_call q)))
      (mt_arguments (ptc_call q))) = Inl (AuthorityRejected code message)"
    by (simp add: authority_answer_def)
  obtain k where "execute_authorized E oid (pac_waiting_revision p + 1) g = (Inl (AuthorityRejected code message), k)"
    "gw_output k = gw_output g" "\<exists>q'. pending_at (gw_server k) (pac_request_id p) = Some q'"
    using execute_refused [OF assms(1) _ _ refused] once by blast
  then show "\<exists>h. run_mcp_stdio E (AuthorityResponse (Event e2) # events) g
      = (Some (Inl (AuthorityRejected code message)), h)
      \<and> gw_output h = gw_output g \<and> pending_at (gw_server h) (pac_request_id p) \<noteq> None"
    using moved_run [OF assms(4) p, of E] by (simp add: then_step_def bind_step_def)
qed

text \<open>Here the daemon would run the call.\<close>

theorem gateway_stops_without_answering_witness:
  "\<exists>g e1 e2 h. run_mcp_stdio (gateway_env_sample executed_answer) [AuthorityResponse (Event e1),
       AuthorityResponse (Event e2)] g = (Some (Inl (GatewayMcp (InvalidAuthorization
          ''persistent policy decisions are not wire-level authorizations''))), h)
     \<and> gw_output h = gw_output g"
proof -
  let ?E = "gateway_env_sample executed_answer"
  from sample_proposes obtain g p q where g: "awaiting g (OperationId 1) p q" "pac_waiting_revision p = 3" by blast
  define e where "e payload = (case gateway_event_sample payload of AuthorityResponse (Event e) \<Rightarrow> e)" for payload
  have e: "ev_operation_id (e payload) = Some (OperationId 1)" "ev_payload (e payload) = payload" for payload
    by (simp_all add: e_def gateway_event_sample_def)
  have "decided_event (e (PermissionDecided 3 AllowAlways actor.User)) (OperationId 1) AllowAlways"
    by (simp add: decided_event_def e)
  moreover have "moved_event (e (OperationStateChanged 4 WaitingHuman to actor.User None)) (OperationId 1)
      (pac_waiting_revision p + 1) to" for to
    using g(2) by (simp add: moved_event_def e)
  ultimately show ?thesis
    using gateway_stops_without_answering [OF g(1), of AllowAlways "e (PermissionDecided 3 AllowAlways actor.User)"
        "e (OperationStateChanged 4 WaitingHuman Authorized actor.User None)"
        "e (OperationStateChanged 4 WaitingHuman operation_state.Cancelled actor.User None)" ?E "[]"]
    by blast
qed

end
