(* ===== verification/Diff_Review.thy ===== *)
theory Diff_Review
  imports Mcp_Server Decimal
begin

text \<open>
  The diff tool of \<^verbatim>\<open>hyper-term-daemon/src/mcp_gateway.rs\<close>, which the daemon runs itself: it
  answers with one hunk that holds every changed line, between the lines both texts start
  with and those both end with.
\<close>

section \<open>Results of a tool\<close>

definition tool_failure :: "string \<Rightarrow> mcp_tool_result" where
  "tool_failure message = \<lparr>mres_text = message, mres_structured_content = None, mres_is_error = True\<rparr>"

definition tool_success :: "string \<Rightarrow> json option \<Rightarrow> mcp_tool_result" where
  "tool_success message structured =
     \<lparr>mres_text = message, mres_structured_content = structured, mres_is_error = False\<rparr>"

section \<open>The diff tool\<close>

definition MAX_DIFF_OUTPUT_BYTES :: nat where
  "MAX_DIFF_OUTPUT_BYTES = 800 * 1024"

text \<open>\<^verbatim>\<open>str::lines\<close>: the pieces up to each line feed, without it and a return before it.\<close>

definition feed :: char where "feed = CHR 0x0A"

fun split_inclusive :: "string \<Rightarrow> string list" where
  "split_inclusive [] = []"
| "split_inclusive (c # s) =
     (if c = feed then [c] # split_inclusive s
      else case split_inclusive s of [] \<Rightarrow> [[c]] | w # ws \<Rightarrow> (c # w) # ws)"

definition line_content :: "string \<Rightarrow> string" where
  "line_content w = (if w \<noteq> [] \<and> last w = feed
     then let w = butlast w in if w \<noteq> [] \<and> last w = CHR 0x0D then butlast w else w
     else w)"

definition str_lines :: "string \<Rightarrow> string list" where
  "str_lines s = map line_content (split_inclusive s)"

fun common_prefix :: "'a list \<Rightarrow> 'a list \<Rightarrow> nat" where
  "common_prefix (x # xs) (y # ys) = (if x = y then Suc (common_prefix xs ys) else 0)"
| "common_prefix _ _ = 0"

text \<open>The lines before the change, those it removes and those it adds.\<close>

definition diff_parts :: "string list \<Rightarrow> string list \<Rightarrow> nat \<times> string list \<times> string list" where
  "diff_parts before after =
     (let prefix = common_prefix before after;
          suffix = common_prefix (rev (drop prefix before)) (rev (drop prefix after));
          before_end = length before - suffix;
          after_end = length after - suffix in
      (prefix, drop prefix (take before_end before), drop prefix (take after_end after)))"

definition diff_text :: "nat \<Rightarrow> string list \<Rightarrow> string list \<Rightarrow> string" where
  "diff_text prefix dropped inserted =
     ''--- before'' @ [feed] @ ''+++ after'' @ [feed]
     @ ''@@ -'' @ decimal (prefix + 1) @ '','' @ decimal (length dropped)
     @ '' +'' @ decimal (prefix + 1) @ '','' @ decimal (length inserted) @ '' @@'' @ [feed]
     @ concat (map (\<lambda>line. ''-'' @ line @ [feed]) dropped)
     @ concat (map (\<lambda>line. ''+'' @ line @ [feed]) inserted)"

definition json_count :: "nat \<Rightarrow> json" where
  "json_count n = JNumber (PosInt (of_nat n))"

definition json_text :: "json option \<Rightarrow> string" where
  "json_text v = (case and_maybe v as_str of None \<Rightarrow> [] | Some s \<Rightarrow> s)"

definition diff_review :: "json \<Rightarrow> mcp_tool_result" where
  "diff_review arguments =
     (let before = json_text (json_get ''before'' arguments); after = json_text (json_get ''after'' arguments) in
      if before = after
      then tool_success ''No changes.'' (Some (JObject
        [(''changed'', JBool False), (''beforeLines'', json_count (length (str_lines before))),
         (''afterLines'', json_count (length (str_lines after))), (''unifiedDiff'', JString [])]))
      else let before_lines = str_lines before; after_lines = str_lines after;
               (prefix, dropped, inserted) = diff_parts before_lines after_lines;
               unified = diff_text prefix dropped inserted in
        if length unified > MAX_DIFF_OUTPUT_BYTES
        then tool_failure (''diff output exceeds the '' @ decimal MAX_DIFF_OUTPUT_BYTES @ ''-byte result bound'')
        else tool_success unified (Some (JObject
          [(''changed'', JBool True), (''beforeLines'', json_count (length before_lines)),
           (''afterLines'', json_count (length after_lines)), (''removedLines'', json_count (length dropped)),
           (''addedLines'', json_count (length inserted)), (''unifiedDiff'', JString unified)])))"

section \<open>The hunk of a diff\<close>

lemma common_prefix_take: "take (common_prefix xs ys) xs = take (common_prefix xs ys) ys"
  by (induction xs ys rule: common_prefix.induct) auto

lemma common_prefix_le: "common_prefix xs ys \<le> length xs" "common_prefix xs ys \<le> length ys"
  by (induction xs ys rule: common_prefix.induct) auto

lemma common_prefix_split:
  obtains p us vs where "xs = p @ us" "ys = p @ vs" "length p = common_prefix xs ys"
    "us \<noteq> [] \<longrightarrow> vs \<noteq> [] \<longrightarrow> hd us \<noteq> hd vs"
proof
  let ?n = "common_prefix xs ys"
  show "xs = take ?n xs @ drop ?n xs" by simp
  show "ys = take ?n xs @ drop ?n ys" by (metis append_take_drop_id common_prefix_take)
  show "length (take ?n xs) = ?n" by (simp add: common_prefix_le)
  show "drop ?n xs \<noteq> [] \<longrightarrow> drop ?n ys \<noteq> [] \<longrightarrow> hd (drop ?n xs) \<noteq> hd (drop ?n ys)"
    by (induction xs ys rule: common_prefix.induct) (auto split: if_splits)
qed

text \<open>The change is what is left between the longest common start and the longest common end.\<close>

lemma diff_parts_sound:
  assumes "diff_parts before after = (n, dropped, inserted)"
  obtains p s where "before = p @ dropped @ s" "after = p @ inserted @ s" "n = length p"
    "dropped \<noteq> [] \<longrightarrow> inserted \<noteq> [] \<longrightarrow> hd dropped \<noteq> hd inserted \<and> last dropped \<noteq> last inserted"
proof -
  obtain p us vs where p: "before = p @ us" "after = p @ vs" "length p = common_prefix before after"
    and first: "us \<noteq> [] \<longrightarrow> vs \<noteq> [] \<longrightarrow> hd us \<noteq> hd vs"
    by (rule common_prefix_split [of before after])
  obtain q us' vs' where q: "rev us = q @ us'" "rev vs = q @ vs'" "length q = common_prefix (rev us) (rev vs)"
    and final: "us' \<noteq> [] \<longrightarrow> vs' \<noteq> [] \<longrightarrow> hd us' \<noteq> hd vs'"
    by (rule common_prefix_split [of "rev us" "rev vs"])
  have us: "us = rev us' @ rev q" "vs = rev vs' @ rev q"
    using q(1,2) by (metis rev_append rev_rev_ident)+
  have parts: "n = length p" "dropped = rev us'" "inserted = rev vs'"
    using assms p q us by (auto simp: diff_parts_def Let_def)
  show thesis
  proof (rule that [of p "rev q"])
    show "dropped \<noteq> [] \<longrightarrow> inserted \<noteq> [] \<longrightarrow> hd dropped \<noteq> hd inserted \<and> last dropped \<noteq> last inserted"
      using first final us parts by (auto simp: last_rev)
  qed (use p us parts in auto)
qed

text \<open>
  C32. The diff tool is exact. When it answers with a diff, the lines of the two texts are the same
  before and after one hunk; the text of the answer is that hunk, with the line at which it starts,
  the lines it removes and the lines it adds; and the hunk is as small as it can be: where it
  removes and adds lines, the first and the last of them differ.
\<close>

theorem diff_review_is_exact:
  assumes "json_get ''before'' arguments = Some (JString before)"
    and "json_get ''after'' arguments = Some (JString after)"
    and "before \<noteq> after" and "\<not> mres_is_error (diff_review arguments)"
  shows "\<exists>p dropped inserted s.
      str_lines before = p @ dropped @ s \<and> str_lines after = p @ inserted @ s
      \<and> mres_text (diff_review arguments) = diff_text (length p) dropped inserted
      \<and> length (mres_text (diff_review arguments)) \<le> MAX_DIFF_OUTPUT_BYTES
      \<and> (dropped \<noteq> [] \<longrightarrow> inserted \<noteq> [] \<longrightarrow>
           hd dropped \<noteq> hd inserted \<and> last dropped \<noteq> last inserted)"
proof -
  obtain n dropped inserted where parts: "diff_parts (str_lines before) (str_lines after) = (n, dropped, inserted)"
    by (metis prod_cases3)
  then obtain p s where p: "str_lines before = p @ dropped @ s" "str_lines after = p @ inserted @ s" "n = length p"
    "dropped \<noteq> [] \<longrightarrow> inserted \<noteq> [] \<longrightarrow> hd dropped \<noteq> hd inserted \<and> last dropped \<noteq> last inserted"
    by (rule diff_parts_sound)
  have "mres_text (diff_review arguments) = diff_text n dropped inserted
     \<and> length (diff_text n dropped inserted) \<le> MAX_DIFF_OUTPUT_BYTES"
    using assms parts
    by (simp add: diff_review_def json_text_def and_maybe_def Let_def tool_success_def tool_failure_def
        split: if_splits)
  with p show ?thesis by metis
qed

theorem diff_review_is_exact_witness:
  "let arguments = JObject [(''before'', JString [CHR ''a'', feed, CHR ''b'']), (''after'', JString [CHR ''a'', feed, CHR ''c''])] in
   \<exists>p dropped inserted s.
      str_lines [CHR ''a'', feed, CHR ''b''] = p @ dropped @ s \<and> str_lines [CHR ''a'', feed, CHR ''c''] = p @ inserted @ s
      \<and> mres_text (diff_review arguments) = diff_text (length p) dropped inserted"
proof -
  let ?arguments = "JObject [(''before'', JString [CHR ''a'', feed, CHR ''b'']), (''after'', JString [CHR ''a'', feed, CHR ''c''])]"
  have lines: "str_lines [CHR ''a'', feed, CHR ''b''] = [''a'', ''b'']" "str_lines [CHR ''a'', feed, CHR ''c''] = [''a'', ''c'']"
    by (simp_all add: str_lines_def line_content_def feed_def)
  have "\<not> mres_is_error (diff_review ?arguments)"
    by (simp add: diff_review_def json_text_def and_maybe_def Let_def lines diff_parts_def diff_text_def
        tool_success_def MAX_DIFF_OUTPUT_BYTES_def decimal.simps)
  then show ?thesis
    using diff_review_is_exact [of ?arguments "[CHR ''a'', feed, CHR ''b'']" "[CHR ''a'', feed, CHR ''c'']"]
    unfolding Let_def by (simp only: json_get.simps) auto
qed

end
