(* ===== verification/Brokered_Executor.thy ===== *)
theory Brokered_Executor
  imports Mcp_Gateway Diff_Review
begin

text \<open>
  The executor of brokered tools, \<open>BrokeredMcpExecutor\<close> of
  \<^verbatim>\<open>hyper-term-daemon/src/mcp_gateway.rs\<close>: which of the three tools runs, when a Deno process
  is started and dropped, what is asked of it, and how its end becomes an outcome. The Deno processes and
  the file system are the parameter \<open>deno_host\<close>; a tick counts what was asked of them and selects
  the answer. Errors of the parts are the texts that the source makes of them. Strings are UTF-8, so
  the source's conversions of paths always succeed.
\<close>

section \<open>Configuration\<close>

record deno_mcp_executor_config =
  dmc_executable :: string
  dmc_executable_sha256 :: string
  dmc_runtime_version :: string
  dmc_workspace_snapshot :: string
  dmc_cache_directory :: string
  dmc_scratch_directory :: string

record deno_gen_ui_mcp_executor_config =
  dgc_executable :: string
  dgc_executable_sha256 :: string
  dgc_runtime_version :: string
  dgc_compiler_script :: string
  dgc_compiler_script_sha256 :: string
  dgc_compiler_wasm :: string
  dgc_compiler_wasm_sha256 :: string
  dgc_compiler_version :: string
  dgc_cache_directory :: string
  dgc_scratch_directory :: string

record brokered_mcp_runtime_config =
  brc_deno_lsp :: "deno_mcp_executor_config option"
  brc_deno_genui :: "deno_gen_ui_mcp_executor_config option"

text \<open>The states of a driver process, as \<^verbatim>\<open>hyper-term-drivers/src/process.rs\<close> has them.\<close>

datatype driver_state =
  DriverStarting | DriverReady | DriverBusy | DriverWaiting | DriverClosing | DriverClosed | DriverFailed
  | DriverUnknownExecution

definition is_terminal_driver :: "driver_state \<Rightarrow> bool" where
  "is_terminal_driver s \<longleftrightarrow> s \<in> {DriverClosed, DriverFailed, DriverUnknownExecution}"

text \<open>
  Deno processes are known by handles. \<open>dh_launch_lsp\<close> is the launch of a client with its
  initialization, at the canonical snapshot; \<open>dh_notify\<close> and \<open>dh_request\<close> are what a call on a
  client comes to. The client itself is modelled in \<open>Deno_Lsp\<close>.
\<close>

record genui_compile_request =
  gcr_source_revision :: u64
  gcr_entrypoint :: string
  gcr_files :: "(string \<times> string) list"

record compiled_artifact =
  cpa_source_revision :: u64
  cpa_compiler_name :: string
  cpa_compiler_version :: string
  cpa_content_digest :: string

record deno_host =
  dh_canonicalize :: "nat \<Rightarrow> string \<Rightarrow> string + string"
  dh_is_file :: "nat \<Rightarrow> string \<Rightarrow> bool"
  dh_length :: "nat \<Rightarrow> string \<Rightarrow> string + u64"
  dh_read :: "nat \<Rightarrow> string \<Rightarrow> string + string"
  dh_launch_lsp :: "nat \<Rightarrow> deno_mcp_executor_config \<Rightarrow> string \<Rightarrow> string + nat"
  dh_notify :: "nat \<Rightarrow> nat \<Rightarrow> string + unit"
  dh_request :: "nat \<Rightarrow> nat \<Rightarrow> string + json"
  dh_launch_genui :: "nat \<Rightarrow> deno_gen_ui_mcp_executor_config \<Rightarrow> string + nat"
  dh_compile :: "nat \<Rightarrow> nat \<Rightarrow> genui_compile_request \<Rightarrow> string + compiled_artifact"
  dh_state :: "nat \<Rightarrow> nat \<Rightarrow> driver_state option"
  dh_artifact_json :: "compiled_artifact \<Rightarrow> string + (string \<times> json) list"
  dh_pretty :: "json \<Rightarrow> string + string"

record deno_lsp_executor =
  dle_client :: nat
  dle_workspace_snapshot :: string
  dle_opened_documents :: "(string \<times> 32 word) list"

record deno_gen_ui_executor =
  dge_compiler :: nat
  dge_next_source_revision :: u64

text \<open>
  The last three fields are what the executor asked: how often the host, the calls of \<^verbatim>\<open>notify\<close>
  and \<^verbatim>\<open>request\<close> on the client of a language server (its handle, the method and the parameters),
  and the compilations (a compiler's handle and the revision of the source). The messages that
  the client exchanges with the server for such a call, and its handshake, are the subject of
  \<open>Deno_Lsp\<close>.
\<close>

record brokered_mcp_executor =
  bx_deno_lsp_config :: "deno_mcp_executor_config option"
  bx_deno_lsp :: "deno_lsp_executor option"
  bx_deno_genui_config :: "deno_gen_ui_mcp_executor_config option"
  bx_deno_genui :: "deno_gen_ui_executor option"
  bx_tick :: nat
  bx_sent :: "(nat \<times> string \<times> json) list"
  bx_compiled :: "(nat \<times> u64) list"

type_synonym 'a executor_step = "(brokered_mcp_executor, string, 'a) step"

definition ask_host :: "(nat \<Rightarrow> 'a) \<Rightarrow> (brokered_mcp_executor, 'e, 'a) step" where
  "ask_host answer s = (Inr (answer (bx_tick s)), s\<lparr>bx_tick := bx_tick s + 1\<rparr>)"

definition try_host :: "(nat \<Rightarrow> string + 'a) \<Rightarrow> 'a executor_step" where
  "try_host answer = bind_step (ask_host answer) lift_step"

definition new_executor :: "brokered_mcp_runtime_config \<Rightarrow> mcp_gateway_error + brokered_mcp_executor" where
  "new_executor config =
     and_then (case brc_deno_lsp config of
         None \<Rightarrow> Inr ()
       | Some c \<Rightarrow>
           if \<not> is_absolute (dmc_executable c) \<or> \<not> is_absolute (dmc_workspace_snapshot c)
              \<or> \<not> is_absolute (dmc_cache_directory c) \<or> \<not> is_absolute (dmc_scratch_directory c)
           then Inl DenoPathsMustBeAbsolute
           else if dmc_runtime_version c = [] \<or> \<not> is_sha256 (dmc_executable_sha256 c)
           then Inl InvalidDenoManifest else Inr ()) (\<lambda>_.
     and_then (case brc_deno_genui config of
         None \<Rightarrow> Inr ()
       | Some c \<Rightarrow>
           if \<not> is_absolute (dgc_executable c) \<or> \<not> is_absolute (dgc_compiler_script c)
              \<or> \<not> is_absolute (dgc_compiler_wasm c) \<or> \<not> is_absolute (dgc_cache_directory c)
              \<or> \<not> is_absolute (dgc_scratch_directory c)
           then Inl DenoPathsMustBeAbsolute
           else if dgc_runtime_version c = [] \<or> dgc_compiler_version c = []
              \<or> \<not> is_sha256 (dgc_executable_sha256 c) \<or> \<not> is_sha256 (dgc_compiler_script_sha256 c)
              \<or> \<not> is_sha256 (dgc_compiler_wasm_sha256 c)
           then Inl InvalidDenoManifest else Inr ()) (\<lambda>_.
       Inr \<lparr>bx_deno_lsp_config = brc_deno_lsp config, bx_deno_lsp = None,
            bx_deno_genui_config = brc_deno_genui config, bx_deno_genui = None,
            bx_tick = 0, bx_sent = [], bx_compiled = []\<rparr>))"

section \<open>Executions\<close>

record tool_execution =
  te_result :: mcp_tool_result
  te_outcome :: operation_outcome

definition definitive :: "mcp_tool_result \<Rightarrow> tool_execution" where
  "definitive result = \<lparr>te_result = result,
     te_outcome = (if mres_is_error result then operation_outcome.Failed else operation_outcome.Succeeded)\<rparr>"

definition failed_tool :: "string \<Rightarrow> tool_execution" where
  "failed_tool message = \<lparr>te_result = tool_failure message, te_outcome = operation_outcome.Failed\<rparr>"

definition from_driver_result :: "string + mcp_tool_result \<Rightarrow> driver_state \<Rightarrow> string \<Rightarrow> tool_execution" where
  "from_driver_result result state label = (case result of
       Inr result \<Rightarrow> definitive result
     | Inl e \<Rightarrow> \<lparr>te_result = tool_failure (label @ '' failed: '' @ e),
         te_outcome = (if state = DriverUnknownExecution then operation_outcome.UnknownExecution
           else operation_outcome.Failed)\<rparr>)"

section \<open>The language server\<close>

definition MAX_LSP_DOCUMENT_BYTES :: u64 where
  "MAX_LSP_DOCUMENT_BYTES = 1024 * 1024"

definition MAX_LSP_RESULT_BYTES :: nat where
  "MAX_LSP_RESULT_BYTES = 512 * 1024"

text \<open>\<^verbatim>\<open>Path::extension\<close>: what follows the last dot of the name, unless the dot starts it.\<close>

definition path_extension :: "string \<Rightarrow> string option" where
  "path_extension p = and_maybe (file_name p) (\<lambda>name.
     case dropWhile (\<lambda>c. c \<noteq> CHR ''.'') (rev name) of
       [] \<Rightarrow> None
     | _ # stem \<Rightarrow> if stem = [] then None else Some (rev (takeWhile (\<lambda>c. c \<noteq> CHR ''.'') (rev name))))"

definition language_id :: "string \<Rightarrow> string" where
  "language_id path = (case path_extension path of
       None \<Rightarrow> ''plaintext''
     | Some e \<Rightarrow>
         if e \<in> {''ts'', ''mts'', ''cts''} then ''typescript''
         else if e = ''tsx'' then ''typescriptreact''
         else if e \<in> {''js'', ''mjs'', ''cjs''} then ''javascript''
         else if e = ''jsx'' then ''javascriptreact''
         else if e \<in> {''json'', ''jsonc''} then ''json''
         else ''plaintext'')"

definition uri_char :: "char \<Rightarrow> bool" where
  "uri_char c \<longleftrightarrow> is_ascii_alphanumeric c \<or> c \<in> set ''/-._~:''"

definition upper_hex_digit :: "nat \<Rightarrow> char" where
  "upper_hex_digit n = (if n < 10 then char_of (48 + n) else char_of (55 + n))"

definition path_to_file_uri :: "string \<Rightarrow> string" where
  "path_to_file_uri path =
     (let v = map (\<lambda>c. if c = CHR 0x5C then CHR ''/'' else c) path in
      ''file://'' @ (if is_absolute v then [] else ''/'')
      @ concat (map (\<lambda>c. if uri_char c then [c]
          else [CHR ''%'', upper_hex_digit (of_char c div 16), upper_hex_digit (of_char c mod 16)]) v))"

definition send_lsp :: "deno_lsp_executor \<Rightarrow> string \<Rightarrow> json \<Rightarrow> (nat \<Rightarrow> nat \<Rightarrow> string + 'a) \<Rightarrow> 'a executor_step" where
  "send_lsp lsp m params answer = then_step
     (update_step (\<lambda>s. s\<lparr>bx_sent := bx_sent s @ [(dle_client lsp, m, params)]\<rparr>))
     (try_host (\<lambda>n. answer n (dle_client lsp)))"

definition launch_lsp :: "deno_host \<Rightarrow> deno_mcp_executor_config \<Rightarrow> deno_lsp_executor executor_step" where
  "launch_lsp H config =
     bind_step (try_host (\<lambda>n. dh_canonicalize H n (dmc_workspace_snapshot config))) (\<lambda>snapshot.
     bind_step (try_host (\<lambda>n. dh_launch_lsp H n config snapshot)) (\<lambda>client.
       return_step \<lparr>dle_client = client, dle_workspace_snapshot = snapshot, dle_opened_documents = []\<rparr>))"

definition is_normal :: "component \<Rightarrow> bool" where
  "is_normal c \<longleftrightarrow> (case c of Normal _ \<Rightarrow> True | _ \<Rightarrow> False)"

definition locate_document :: "deno_host \<Rightarrow> deno_lsp_executor \<Rightarrow> string \<Rightarrow> string executor_step" where
  "locate_document H lsp relative =
     then_step (guard_step (\<not> (relative = [] \<or> is_absolute relative \<or> \<not> list_all is_normal (components relative)))
       ''documentPath must stay within the workspace snapshot'')
     (bind_step (ask_host (\<lambda>n. dh_canonicalize H n (path_push (dle_workspace_snapshot lsp) relative))) (\<lambda>r.
      bind_step (case r of
          Inl _ \<Rightarrow> fail_step ''document does not exist in the workspace snapshot''
        | Inr document \<Rightarrow> return_step document) (\<lambda>document.
      bind_step (ask_host (\<lambda>n. dh_is_file H n document)) (\<lambda>is_file.
      then_step (guard_step (path_starts_with document (dle_workspace_snapshot lsp) \<and> is_file)
        ''documentPath escapes the workspace snapshot'')
      (bind_step (try_host (\<lambda>n. dh_length H n document)) (\<lambda>len.
       then_step (guard_step (len \<le> MAX_LSP_DOCUMENT_BYTES)
         (''document exceeds the '' @ decimal (unat MAX_LSP_DOCUMENT_BYTES) @ ''-byte LSP bound''))
         (return_step document)))))))"

definition open_document :: "deno_host \<Rightarrow> deno_lsp_executor \<Rightarrow> string \<Rightarrow> unit executor_step" where
  "open_document H lsp document =
     (if list_ex (\<lambda>(opened, _). path_eq opened document) (dle_opened_documents lsp) then return_step ()
      else
        bind_step (ask_host (\<lambda>n. dh_read H n document)) (\<lambda>r.
        bind_step (case r of
            Inl _ \<Rightarrow> fail_step ''document is not bounded UTF-8 source''
          | Inr source \<Rightarrow> return_step source) (\<lambda>source.
        then_step (send_lsp lsp ''textDocument/didOpen'' (JObject [(''textDocument'', JObject
          [(''uri'', JString (path_to_file_uri document)), (''languageId'', JString (language_id document)),
           (''version'', json_count 1), (''text'', JString source)])]) (dh_notify H))
        (update_step (\<lambda>s. s\<lparr>bx_deno_lsp := Some (lsp
           \<lparr>dle_opened_documents := dle_opened_documents lsp @ [(document, 1)]\<rparr>)\<rparr>)))))"

definition lsp_params :: "string \<Rightarrow> json \<Rightarrow> json \<Rightarrow> json" where
  "lsp_params m text_document arguments =
     (let position = (case json_get ''position'' arguments of
          None \<Rightarrow> JObject [(''line'', json_count 0), (''character'', json_count 0)]
        | Some v \<Rightarrow> v) in
      if m = ''textDocument/documentSymbol'' then JObject [(''textDocument'', text_document)]
      else if m = ''textDocument/formatting'' then JObject [(''textDocument'', text_document),
        (''options'', JObject [(''tabSize'', json_count 2), (''insertSpaces'', JBool True)])]
      else if m = ''textDocument/references'' then JObject [(''textDocument'', text_document),
        (''position'', position), (''context'', JObject [(''includeDeclaration'', JBool
          (case json_get ''includeDeclaration'' arguments of Some (JBool b) \<Rightarrow> b | _ \<Rightarrow> True))])]
      else JObject [(''textDocument'', text_document), (''position'', position)])"

definition ask_lsp ::
    "deno_host \<Rightarrow> deno_lsp_executor \<Rightarrow> string \<Rightarrow> string \<Rightarrow> json \<Rightarrow> string \<Rightarrow> mcp_tool_result executor_step" where
  "ask_lsp H lsp m relative arguments document =
     then_step (open_document H lsp document)
     (bind_step (send_lsp lsp m (lsp_params m (JObject [(''uri'', JString (path_to_file_uri document))]) arguments)
        (dh_request H)) (\<lambda>response.
      let structured = JObject [(''method'', JString m), (''documentPath'', JString relative),
        (''result'', (case json_get ''result'' response of None \<Rightarrow> JNull | Some v \<Rightarrow> v))] in
      bind_step (lift_step (dh_pretty H structured)) (\<lambda>text.
      then_step (guard_step (length text \<le> MAX_LSP_RESULT_BYTES)
        (''LSP result exceeds the '' @ decimal MAX_LSP_RESULT_BYTES @ ''-byte result bound''))
        (return_step (tool_success text (Some structured))))))"

definition query_lsp :: "deno_host \<Rightarrow> deno_lsp_executor \<Rightarrow> json \<Rightarrow> mcp_tool_result executor_step" where
  "query_lsp H lsp arguments =
     bind_step (lift_step (ok_or (and_maybe (json_get ''method'' arguments) as_str) ''method is missing'')) (\<lambda>m.
     bind_step (lift_step (ok_or (and_maybe (json_get ''documentPath'' arguments) as_str)
       ''documentPath is missing'')) (\<lambda>relative.
     bind_step (locate_document H lsp relative) (ask_lsp H lsp m relative arguments)))"

section \<open>The compiler of generated interfaces\<close>

definition launch_genui :: "deno_host \<Rightarrow> deno_gen_ui_mcp_executor_config \<Rightarrow> deno_gen_ui_executor executor_step" where
  "launch_genui H config = bind_step (try_host (\<lambda>n. dh_launch_genui H n config)) (\<lambda>compiler.
     return_step \<lparr>dge_compiler = compiler, dge_next_source_revision = 1\<rparr>)"

fun text_contains :: "string \<Rightarrow> string \<Rightarrow> bool" where
  "text_contains w [] = (w = [])"
| "text_contains w (c # s) = (starts_with w (c # s) \<or> text_contains w s)"

definition normalize_genui_entry :: "string option \<Rightarrow> string + string" where
  "normalize_genui_entry entry =
     (let e = (case entry of None \<Rightarrow> ''/App.tsx'' | Some e \<Rightarrow> if e = [] then ''/App.tsx'' else e);
          e = (if starts_with ''/'' e then e else ''/'' @ e) in
      if CHR 0x5C \<in> set e \<or> text_contains ''..'' e
         \<or> \<not> list_ex (\<lambda>extension. ends_with extension e) [''.tsx'', ''.ts'', ''.jsx'', ''.js'']
      then Inl ''entry must be a bounded virtual TS/JS module path''
      else Inr e)"

definition compile_genui :: "deno_host \<Rightarrow> deno_gen_ui_executor \<Rightarrow> json \<Rightarrow> mcp_tool_result executor_step" where
  "compile_genui H g arguments =
     bind_step (lift_step (ok_or (and_maybe (json_get ''source'' arguments) as_str) ''source is missing'')) (\<lambda>source.
     bind_step (lift_step (normalize_genui_entry (and_maybe (json_get ''entry'' arguments) as_str))) (\<lambda>entrypoint.
     let revision = dge_next_source_revision g in
     bind_step (lift_step (ok_or (if revision = - 1 then None else Some (revision + 1)) ''GenUI source revision exhausted'')) (\<lambda>next_revision.
     then_step (update_step (\<lambda>s. s\<lparr>bx_deno_genui := Some (g\<lparr>dge_next_source_revision := next_revision\<rparr>),
         bx_compiled := bx_compiled s @ [(dge_compiler g, revision)]\<rparr>))
     (bind_step (try_host (\<lambda>n. dh_compile H n (dge_compiler g) \<lparr>gcr_source_revision = revision,
         gcr_entrypoint = entrypoint, gcr_files = [(entrypoint, source)]\<rparr>)) (\<lambda>candidate.
      bind_step (lift_step (dh_artifact_json H candidate)) (\<lambda>entries.
        return_step (tool_success
          (''Compiled GenUI revision '' @ decimal (unat (cpa_source_revision candidate)) @ '' with ''
           @ cpa_compiler_name candidate @ '' '' @ cpa_compiler_version candidate
           @ '' (artifact '' @ cpa_content_digest candidate @ '').'')
          (Some (JObject (AList.update ''source_files'' (JObject [(entrypoint, JString source)]) entries))))))))))"

section \<open>Running a tool\<close>

text \<open>
  A process that is in a terminal state after its answer, or whose state cannot be read, is
  dropped. A step without an error: what failed is in the execution.
\<close>

definition end_of_process ::
    "deno_host \<Rightarrow> nat \<Rightarrow> (brokered_mcp_executor \<Rightarrow> brokered_mcp_executor) \<Rightarrow> string \<Rightarrow> string + mcp_tool_result
      \<Rightarrow> (brokered_mcp_executor, 'e, tool_execution) step" where
  "end_of_process H handle forget label result =
     bind_step (ask_host (\<lambda>n. case dh_state H n handle of None \<Rightarrow> DriverFailed | Some state \<Rightarrow> state)) (\<lambda>state.
     then_step (when_step (is_terminal_driver state) (update_step forget))
       (return_step (from_driver_result result state label)))"

definition run_lsp :: "deno_host \<Rightarrow> deno_lsp_executor \<Rightarrow> json \<Rightarrow> (brokered_mcp_executor, 'e, tool_execution) step" where
  "run_lsp H lsp arguments = bind_step (attempt_step (query_lsp H lsp arguments))
     (end_of_process H (dle_client lsp) (\<lambda>s. s\<lparr>bx_deno_lsp := None\<rparr>) ''Deno LSP query'')"

definition start_lsp ::
    "deno_host \<Rightarrow> deno_mcp_executor_config \<Rightarrow> json \<Rightarrow> (brokered_mcp_executor, 'e, tool_execution) step" where
  "start_lsp H config arguments = bind_step (attempt_step (launch_lsp H config)) (\<lambda>launched. case launched of
       Inl e \<Rightarrow> return_step (failed_tool (''Deno LSP could not start: '' @ e))
     | Inr lsp \<Rightarrow> then_step (update_step (\<lambda>s. s\<lparr>bx_deno_lsp := Some lsp\<rparr>)) (run_lsp H lsp arguments))"

definition execute_lsp :: "deno_host \<Rightarrow> json \<Rightarrow> (brokered_mcp_executor, 'e, tool_execution) step" where
  "execute_lsp H arguments = bind_step (read_step bx_deno_lsp) (\<lambda>lsp. case lsp of
       Some lsp \<Rightarrow> run_lsp H lsp arguments
     | None \<Rightarrow> bind_step (read_step bx_deno_lsp_config) (\<lambda>config. case config of
         None \<Rightarrow> return_step (failed_tool ''Deno LSP executor is not configured'')
       | Some config \<Rightarrow> start_lsp H config arguments))"

definition run_genui :: "deno_host \<Rightarrow> deno_gen_ui_executor \<Rightarrow> json \<Rightarrow> (brokered_mcp_executor, 'e, tool_execution) step" where
  "run_genui H g arguments = bind_step (attempt_step (compile_genui H g arguments))
     (end_of_process H (dge_compiler g) (\<lambda>s. s\<lparr>bx_deno_genui := None\<rparr>) ''GenUI compile'')"

definition start_genui ::
    "deno_host \<Rightarrow> deno_gen_ui_mcp_executor_config \<Rightarrow> json \<Rightarrow> (brokered_mcp_executor, 'e, tool_execution) step" where
  "start_genui H config arguments = bind_step (attempt_step (launch_genui H config)) (\<lambda>launched. case launched of
       Inl e \<Rightarrow> return_step (failed_tool (''GenUI compiler could not start: '' @ e))
     | Inr g \<Rightarrow> then_step (update_step (\<lambda>s. s\<lparr>bx_deno_genui := Some g\<rparr>)) (run_genui H g arguments))"

definition execute_genui :: "deno_host \<Rightarrow> json \<Rightarrow> (brokered_mcp_executor, 'e, tool_execution) step" where
  "execute_genui H arguments = bind_step (read_step bx_deno_genui) (\<lambda>g. case g of
       Some g \<Rightarrow> run_genui H g arguments
     | None \<Rightarrow> bind_step (read_step bx_deno_genui_config) (\<lambda>config. case config of
         None \<Rightarrow> return_step (failed_tool ''GenUI compiler executor is not configured'')
       | Some config \<Rightarrow> start_genui H config arguments))"

definition run_tool :: "deno_host \<Rightarrow> string \<Rightarrow> json \<Rightarrow> (brokered_mcp_executor, 'e, tool_execution) step" where
  "run_tool H tool_name arguments =
     (if tool_name = ''hyper_term.diff.review'' then return_step (definitive (diff_review arguments))
      else if tool_name = ''hyper_term.lsp.query'' then execute_lsp H arguments
      else if tool_name = ''hyper_term.genui.compile'' then execute_genui H arguments
      else return_step (failed_tool ''tool is not a brokered Rust executor''))"

definition execute_tool ::
    "deno_host \<Rightarrow> string \<Rightarrow> json \<Rightarrow> (brokered_mcp_executor, 'e, brokered_mcp_tool_execution) step" where
  "execute_tool H tool_name arguments = bind_step (run_tool H tool_name arguments) (\<lambda>execution. return_step
     \<lparr>bme_text = mres_text (te_result execution),
      bme_structured_content = mres_structured_content (te_result execution),
      bme_is_error = mres_is_error (te_result execution),
      bme_outcome = te_outcome execution\<rparr>)"

end
