(* ===== verification/Brokered_Safety.thy ===== *)
theory Brokered_Safety
  imports Brokered_Executor
begin

text \<open>
  What the executor of brokered tools asks of a language server: documents of the workspace
  snapshot only, whatever path an agent asks for.
\<close>

definition only_ticks :: "brokered_mcp_executor \<Rightarrow> brokered_mcp_executor \<Rightarrow> bool" where
  "only_ticks s t \<longleftrightarrow> (\<exists>n. t = s\<lparr>bx_tick := n\<rparr>)"

interpretation ticks: step_preorder only_ticks
proof unfold_locales
  show "only_ticks s s" for s by (cases s) (auto simp: only_ticks_def)
qed (auto simp: only_ticks_def)

lemma ticks_ask: "obeys only_ticks (ask_host f)"
  by (auto simp: obeys_def ask_host_def only_ticks_def)

lemma ticks_try: "obeys only_ticks (try_host f)"
  unfolding try_host_def by (intro ticks.obeys_parts ticks_ask)

lemma ticks_locate: "obeys only_ticks (locate_document H lsp relative)"
  unfolding locate_document_def
  by (intro ticks.obeys_parts ticks_ask ticks_try) (auto intro!: ticks.obeys_pure split: sum.split)

lemma ticks_launch: "obeys only_ticks (launch_lsp H config)" "obeys only_ticks (launch_genui H config')"
  unfolding launch_lsp_def launch_genui_def by (intro ticks.obeys_parts ticks_try)+

definition snapshot_of :: "deno_host \<Rightarrow> deno_mcp_executor_config \<Rightarrow> string \<Rightarrow> bool" where
  "snapshot_of H config snapshot \<longleftrightarrow> (\<exists>n. dh_canonicalize H n (dmc_workspace_snapshot config) = Inr snapshot)"

text \<open>A path that the host resolved to a regular file below the resolved snapshot.\<close>

definition snapshot_document :: "deno_host \<Rightarrow> deno_mcp_executor_config \<Rightarrow> string \<Rightarrow> bool" where
  "snapshot_document H config document \<longleftrightarrow>
     (\<exists>snapshot path n m. snapshot_of H config snapshot \<and> dh_canonicalize H n path = Inr document
        \<and> path_starts_with document snapshot \<and> dh_is_file H m document)"

definition names_document :: "deno_host \<Rightarrow> deno_mcp_executor_config \<Rightarrow> json \<Rightarrow> bool" where
  "names_document H config params \<longleftrightarrow>
     (\<exists>document. snapshot_document H config document
        \<and> and_maybe (json_get ''textDocument'' params) (json_get ''uri'') = Some (JString (path_to_file_uri document)))"

definition lsp_contained :: "deno_host \<Rightarrow> deno_mcp_executor_config \<Rightarrow> brokered_mcp_executor \<Rightarrow> bool" where
  "lsp_contained H config s \<longleftrightarrow> bx_deno_lsp_config s = Some config
     \<and> (\<forall>lsp. bx_deno_lsp s = Some lsp \<longrightarrow> snapshot_of H config (dle_workspace_snapshot lsp))
     \<and> (\<forall>(client, m, params) \<in> set (bx_sent s). names_document H config params)"

lemma contained_ticks: "lsp_contained H config s \<Longrightarrow> only_ticks s t \<Longrightarrow> lsp_contained H config t"
  by (auto simp: lsp_contained_def only_ticks_def)

abbreviation keeps_contained :: "deno_host \<Rightarrow> deno_mcp_executor_config \<Rightarrow> (brokered_mcp_executor, 'e, 'a) step \<Rightarrow> bool" where
  "keeps_contained H config m \<equiv>
     triple (lsp_contained H config) m (\<lambda>_. lsp_contained H config) (\<lambda>_. lsp_contained H config)"

lemma contained_obeys: "obeys only_ticks m \<Longrightarrow> keeps_contained H config m"
  by (rule triple_obeys [where R = only_ticks]) (auto intro: contained_ticks)

lemma contained_update:
  "(\<And>s. lsp_contained H config s \<Longrightarrow> lsp_contained H config (u s)) \<Longrightarrow> keeps_contained H config (update_step u)"
  by (simp add: triple_def step_runs)

lemma contained_pure:
  "keeps_contained H config (return_step a)" "keeps_contained H config (fail_step e)"
  "keeps_contained H config (lift_step r)" "keeps_contained H config (read_step f)"
  "keeps_contained H config (guard_step b e)" "keeps_contained H config (ask_host g)"
  "keeps_contained H config (try_host h)"
  by (intro contained_obeys ticks.obeys_pure ticks_ask ticks_try)+

lemma contained_bind:
  "keeps_contained H config m \<Longrightarrow> (\<And>a. keeps_contained H config (k a)) \<Longrightarrow> keeps_contained H config (bind_step m k)"
  by (rule triple_bind)

lemma contained_then:
  "keeps_contained H config m \<Longrightarrow> keeps_contained H config k \<Longrightarrow> keeps_contained H config (then_step m k)"
  by (rule triple_then)

lemma contained_attempt: "keeps_contained H config m \<Longrightarrow> keeps_contained H config (attempt_step m)"
  by (rule triple_attempt)

lemma contained_when: "keeps_contained H config m \<Longrightarrow> keeps_contained H config (when_step b m)"
  by (rule triple_when)

lemma contained_send:
  assumes "names_document H config params"
  shows "keeps_contained H config (send_lsp lsp m params answer)"
  unfolding send_lsp_def
  by (intro contained_then contained_pure contained_update) (use assms in \<open>auto simp: lsp_contained_def\<close>)

lemmas contained_parts = contained_bind contained_then contained_attempt contained_when contained_pure

lemma contained_locate:
  assumes "snapshot_of H config (dle_workspace_snapshot lsp)"
  shows "triple (lsp_contained H config) (locate_document H lsp relative)
    (\<lambda>document s. lsp_contained H config s \<and> snapshot_document H config document) (\<lambda>_. lsp_contained H config)"
proof (rule tripleI)
  fix s document t
  assume s: "lsp_contained H config s" and run: "locate_document H lsp relative s = (Inr document, t)"
  have "lsp_contained H config t" by (rule contained_ticks [OF s obeysD [OF ticks_locate run]])
  moreover have "snapshot_document H config document"
    using run assms
    by (auto simp: locate_document_def succeeds ask_host_def snapshot_document_def split: sum.splits)
  ultimately show "lsp_contained H config t \<and> snapshot_document H config document" by simp
next
  fix s e t
  assume "lsp_contained H config s" "locate_document H lsp relative s = (Inl e, t)"
  then show "lsp_contained H config t" using contained_ticks obeysD [OF ticks_locate] by metis
qed

lemma params_name:
  assumes "snapshot_document H config document"
  shows "names_document H config (lsp_params m (JObject [(''uri'', JString (path_to_file_uri document))]) arguments)"
  using assms by (auto simp: names_document_def lsp_params_def and_maybe_def Let_def)

lemma opening_names:
  assumes "snapshot_document H config document"
  shows "names_document H config (JObject [(''textDocument'', JObject
      ((''uri'', JString (path_to_file_uri document)) # entries))])"
  using assms by (auto simp: names_document_def and_maybe_def)

lemma contained_open:
  assumes "snapshot_of H config (dle_workspace_snapshot lsp)" and "snapshot_document H config document"
  shows "keeps_contained H config (open_document H lsp document)"
proof -
  have opened: "keeps_contained H config (update_step (\<lambda>s. s\<lparr>bx_deno_lsp := Some (lsp
      \<lparr>dle_opened_documents := dle_opened_documents lsp @ [(document, 1)]\<rparr>)\<rparr>))"
    by (rule contained_update) (use assms(1) in \<open>simp add: lsp_contained_def\<close>)
  show ?thesis
    unfolding open_document_def
    by (auto simp del: One_nat_def intro!: contained_parts contained_send opening_names assms(2) opened
        split: sum.split)
qed

lemma contained_ask:
  assumes "snapshot_of H config (dle_workspace_snapshot lsp)" and "snapshot_document H config document"
  shows "keeps_contained H config (ask_lsp H lsp m relative arguments document)"
  unfolding ask_lsp_def Let_def by (intro contained_parts contained_open contained_send params_name assms)

lemma contained_query:
  assumes "snapshot_of H config (dle_workspace_snapshot lsp)"
  shows "keeps_contained H config (query_lsp H lsp arguments)"
  unfolding query_lsp_def
proof (intro contained_bind [OF contained_pure(3)] triple_bind [OF _ contained_locate [OF assms]])
  fix m relative document
  show "triple (\<lambda>s. lsp_contained H config s \<and> snapshot_document H config document)
      (ask_lsp H lsp m relative arguments document) (\<lambda>_. lsp_contained H config) (\<lambda>_. lsp_contained H config)"
    using contained_ask [OF assms] by (auto simp: triple_def)
qed

text \<open>The other operations of an executor keep the documents in the snapshot as well.\<close>

lemma contained_launch:
  "triple (\<lambda>s. lsp_contained H config s) (launch_lsp H config)
    (\<lambda>lsp s. lsp_contained H config s \<and> snapshot_of H config (dle_workspace_snapshot lsp))
    (\<lambda>_. lsp_contained H config)"
proof (rule tripleI)
  fix s lsp t
  assume s: "lsp_contained H config s" and run: "launch_lsp H config s = (Inr lsp, t)"
  have "lsp_contained H config t" by (rule contained_ticks [OF s obeysD [OF ticks_launch(1) run]])
  moreover have "snapshot_of H config (dle_workspace_snapshot lsp)"
    using run by (auto simp: launch_lsp_def try_host_def ask_host_def succeeds snapshot_of_def)
  ultimately show "lsp_contained H config t \<and> snapshot_of H config (dle_workspace_snapshot lsp)" by simp
next
  fix s e t
  assume "lsp_contained H config s" "launch_lsp H config s = (Inl e, t)"
  then show "lsp_contained H config t" using contained_ticks obeysD [OF ticks_launch(1)] by metis
qed

lemma contained_end:
  assumes "\<And>s. lsp_contained H config s \<Longrightarrow> lsp_contained H config (forget s)"
  shows "keeps_contained H config (end_of_process H handle forget label result)"
  unfolding end_of_process_def by (intro contained_parts contained_update assms)

lemma contained_run:
  assumes "snapshot_of H config (dle_workspace_snapshot lsp)"
  shows "keeps_contained H config (run_lsp H lsp arguments)"
  unfolding run_lsp_def
  by (intro contained_bind contained_attempt contained_query contained_end assms) (simp add: lsp_contained_def)

lemma contained_genui: "keeps_contained H config (execute_genui H arguments)"
proof -
  have compile: "keeps_contained H config (compile_genui H g arguments)" for g
    unfolding compile_genui_def Let_def
    by (intro contained_parts contained_update) (auto simp: lsp_contained_def)
  have run: "keeps_contained H config (run_genui H g arguments)" for g
    unfolding run_genui_def
    by (intro contained_bind contained_attempt compile contained_end) (simp add: lsp_contained_def)
  have store: "keeps_contained H config (update_step (\<lambda>s. s\<lparr>bx_deno_genui := Some g\<rparr>))" for g
    by (rule contained_update) (simp add: lsp_contained_def)
  show ?thesis
    unfolding execute_genui_def start_genui_def
    by (auto intro!: contained_parts run store contained_obeys [OF ticks_launch(2)] split: option.split sum.split)
qed

lemma triple_read_bind:
  assumes "\<And>a. triple (\<lambda>s. P s \<and> f s = a) (k a) Q E"
  shows "triple P (bind_step (read_step f) k) Q E"
  using assms unfolding triple_def by (auto simp: step_simps)

lemma contained_start: "keeps_contained H config (start_lsp H config arguments)"
  unfolding start_lsp_def
proof (rule triple_bind)
  let ?good = "\<lambda>launched s. lsp_contained H config s \<and>
    (\<forall>lsp. launched = Inr lsp \<longrightarrow> snapshot_of H config (dle_workspace_snapshot lsp))"
  show "triple (lsp_contained H config) (attempt_step (launch_lsp H config)) ?good (\<lambda>_. lsp_contained H config)"
    by (intro triple_attempt triple_post [OF contained_launch]) auto
  fix launched :: "string + deno_lsp_executor"
  have run: "triple (\<lambda>s. lsp_contained H config s \<and> snapshot_of H config (dle_workspace_snapshot lsp))
      (then_step (update_step (\<lambda>s. s\<lparr>bx_deno_lsp := Some lsp\<rparr>)) (run_lsp H lsp arguments))
      (\<lambda>_. lsp_contained H config) (\<lambda>_. lsp_contained H config)" for lsp
  proof (cases "snapshot_of H config (dle_workspace_snapshot lsp)")
    case True
    then have "keeps_contained H config (update_step (\<lambda>s. s\<lparr>bx_deno_lsp := Some lsp\<rparr>))"
      by (intro contained_update) (simp add: lsp_contained_def)
    then have "keeps_contained H config
        (then_step (update_step (\<lambda>s. s\<lparr>bx_deno_lsp := Some lsp\<rparr>)) (run_lsp H lsp arguments))"
      using contained_run [OF True] by (rule contained_then)
    then show ?thesis by (rule triple_pre) simp
  qed (simp add: triple_def)
  show "triple (?good launched)
      (case launched of
         Inl e \<Rightarrow> return_step (failed_tool (''Deno LSP could not start: '' @ e))
       | Inr lsp \<Rightarrow> then_step (update_step (\<lambda>s. s\<lparr>bx_deno_lsp := Some lsp\<rparr>)) (run_lsp H lsp arguments))
      (\<lambda>_. lsp_contained H config) (\<lambda>_. lsp_contained H config)"
    by (cases launched) (auto intro: triple_pre [OF run] triple_pre [OF contained_pure(1)])
qed

lemma contained_lsp: "keeps_contained H config (execute_lsp H arguments)"
  unfolding execute_lsp_def
proof (intro triple_read_bind)
  fix server
  have unstarted: "triple (\<lambda>s. lsp_contained H config s \<and> bx_deno_lsp s = server)
      (bind_step (read_step bx_deno_lsp_config) (\<lambda>c. case c of
         None \<Rightarrow> return_step (failed_tool ''Deno LSP executor is not configured'')
       | Some c \<Rightarrow> start_lsp H c arguments))
      (\<lambda>_. lsp_contained H config) (\<lambda>_. lsp_contained H config)"
  proof (rule triple_read_bind)
    fix c
    show "triple (\<lambda>s. (lsp_contained H config s \<and> bx_deno_lsp s = server) \<and> bx_deno_lsp_config s = c)
        (case c of None \<Rightarrow> return_step (failed_tool ''Deno LSP executor is not configured'')
          | Some c \<Rightarrow> start_lsp H c arguments)
        (\<lambda>_. lsp_contained H config) (\<lambda>_. lsp_contained H config)"
    proof (cases "c = Some config")
      case True
      then show ?thesis by (auto intro: triple_pre [OF contained_start])
    qed (auto simp: triple_def lsp_contained_def)
  qed
  show "triple (\<lambda>s. lsp_contained H config s \<and> bx_deno_lsp s = server)
      (case server of Some lsp \<Rightarrow> run_lsp H lsp arguments
       | None \<Rightarrow> bind_step (read_step bx_deno_lsp_config) (\<lambda>c. case c of
           None \<Rightarrow> return_step (failed_tool ''Deno LSP executor is not configured'')
         | Some c \<Rightarrow> start_lsp H c arguments))
      (\<lambda>_. lsp_contained H config) (\<lambda>_. lsp_contained H config)"
  proof (cases server)
    case None
    then show ?thesis using unstarted by simp
  next
    case (Some lsp)
    show ?thesis
    proof (cases "snapshot_of H config (dle_workspace_snapshot lsp)")
      case True
      then show ?thesis using Some by (auto intro: triple_pre [OF contained_run])
    qed (use Some in \<open>auto simp: triple_def lsp_contained_def\<close>)
  qed
qed

lemma contained_tool: "keeps_contained H config (execute_tool H tool_name arguments)"
  unfolding execute_tool_def run_tool_def by (auto intro!: contained_parts contained_lsp contained_genui)

fun run_tools :: "deno_host \<Rightarrow> (string \<times> json) list \<Rightarrow> brokered_mcp_executor \<Rightarrow> brokered_mcp_executor" where
  "run_tools H [] s = s"
| "run_tools H ((tool_name, arguments) # calls) s =
     run_tools H calls (snd (execute_tool H tool_name arguments s :: (string + brokered_mcp_tool_execution) \<times> _))"

lemma contained_tools: "lsp_contained H config s \<Longrightarrow> lsp_contained H config (run_tools H calls s)"
proof (induction H calls s rule: run_tools.induct)
  case (2 H tool_name arguments calls s)
  let ?run = "execute_tool H tool_name arguments :: (brokered_mcp_executor, string, brokered_mcp_tool_execution) step"
  have "keeps_contained H config ?run" by (rule contained_tool)
  then have "lsp_contained H config (snd (?run s))"
    using 2(2) by (cases "?run s"; cases "fst (?run s)") (auto dest: triple_Inr triple_Inl)
  then show ?case using 2(1) by simp
qed simp

text \<open>
  C23. Whatever tool calls an agent makes, every call the executor makes of its language server,
  whether it opens a document or requests something about one, names a document that the host
  resolved to a regular file below the resolved workspace snapshot. It is a claim about these
  calls: the handshake of the server's client and its replies to the server are not among them.
\<close>

theorem lsp_stays_in_the_snapshot:
  assumes "new_executor runtime = Inr s" and "brc_deno_lsp runtime = Some config"
    and "(client, m, params) \<in> set (bx_sent (run_tools H calls s))"
  shows "\<exists>document. snapshot_document H config document
    \<and> and_maybe (json_get ''textDocument'' params) (json_get ''uri'') = Some (JString (path_to_file_uri document))"
proof -
  have "lsp_contained H config s"
    using assms(1,2) by (auto simp: new_executor_def and_then_def lsp_contained_def split: if_splits option.splits sum.splits)
  then have "lsp_contained H config (run_tools H calls s)" by (rule contained_tools)
  then show ?thesis using assms(3) by (auto simp: lsp_contained_def names_document_def)
qed

definition sample_lsp :: deno_mcp_executor_config where
  "sample_lsp = \<lparr>dmc_executable = ''/d'', dmc_executable_sha256 = replicate 64 CHR ''0'', dmc_runtime_version = ''2'',
     dmc_workspace_snapshot = ''/w'', dmc_cache_directory = ''/c'', dmc_scratch_directory = ''/s''\<rparr>"

definition sample_host :: deno_host where
  "sample_host = \<lparr>dh_canonicalize = \<lambda>_ p. Inr p, dh_is_file = \<lambda>_ _. True, dh_length = \<lambda>_ _. Inr 1,
     dh_read = \<lambda>_ _. Inr [], dh_launch_lsp = \<lambda>_ _ _. Inr 0, dh_notify = \<lambda>_ _. Inr (),
     dh_request = \<lambda>_ _. Inr JNull, dh_launch_genui = \<lambda>_ _. Inl [], dh_compile = \<lambda>_ _ _. Inl [],
     dh_state = \<lambda>_ _. Some DriverReady, dh_artifact_json = \<lambda>_. Inl [], dh_pretty = \<lambda>_. Inr []\<rparr>"

definition sample_calls :: "(string \<times> json) list" where
  "sample_calls = [(''hyper_term.lsp.query'', JObject
     [(''method'', JString ''textDocument/hover''), (''documentPath'', JString ''a'')])]"

definition sample_executor :: brokered_mcp_executor where
  "sample_executor = \<lparr>bx_deno_lsp_config = Some sample_lsp, bx_deno_lsp = None, bx_deno_genui_config = None,
     bx_deno_genui = None, bx_tick = 0, bx_sent = [], bx_compiled = []\<rparr>"

lemma sample_new: "new_executor \<lparr>brc_deno_lsp = Some sample_lsp, brc_deno_genui = None\<rparr> = Inr sample_executor"
  by (simp add: new_executor_def and_then_def sample_lsp_def sample_executor_def is_absolute_def is_sha256_def
      list_all_iff is_lower_hex_def is_ascii_digit_def less_eq_char_def)

lemma sample_sent: "map fst (bx_sent (run_tools sample_host sample_calls sample_executor)) = [0, 0]"
  by (simp add: sample_calls_def sample_executor_def sample_host_def execute_tool_def run_tool_def execute_lsp_def
      start_lsp_def launch_lsp_def try_host_def ask_host_def run_lsp_def query_lsp_def attempt_step_def
      bind_step_def then_step_def step_runs guard_step_def ok_or_def and_maybe_def locate_document_def is_absolute_def
      components_def segment_component_def is_normal_def path_push_def sample_lsp_def path_starts_with_def
      MAX_LSP_DOCUMENT_BYTES_def ask_lsp_def open_document_def send_lsp_def MAX_LSP_RESULT_BYTES_def Let_def
      end_of_process_def is_terminal_driver_def when_step_def List.map_filter_def tool_success_def)

theorem lsp_stays_in_the_snapshot_witness:
  "\<exists>client m params document. (client, m, params) \<in> set (bx_sent (run_tools sample_host sample_calls sample_executor))
     \<and> snapshot_document sample_host sample_lsp document
     \<and> and_maybe (json_get ''textDocument'' params) (json_get ''uri'') = Some (JString (path_to_file_uri document))"
proof -
  obtain client m params where sent: "(client, m, params) \<in> set (bx_sent (run_tools sample_host sample_calls sample_executor))"
    using sample_sent by (cases "bx_sent (run_tools sample_host sample_calls sample_executor)") auto
  show ?thesis using lsp_stays_in_the_snapshot [OF sample_new _ sent] sent by auto
qed

end
