(* ===== verification/Brokered_Mcp.thy ===== *)
theory Brokered_Mcp
  imports Brokered_Safety Daemon_Safety
begin

text \<open>
  The authority over brokered tool calls, \<^verbatim>\<open>hyper-term-daemon/src/brokered_mcp_operation.rs\<close>: an
  authorized call is begun, run by the executor of its task, and completed in the journal; its
  execution is kept, so that a caller who asks again gets the same answer.

  The executors are shared behind locks: the table of runtimes maps a task to a handle, and a caller
  who has a handle keeps it. \<open>look_brokered\<close> is what \<open>execute_brokered_mcp_tool\<close> does before it
  waits for the lock of the executor and \<open>execute_locked\<close> what it does under it. The log of calls is
  what the executors were asked to run.
\<close>

section \<open>State\<close>

record cached_execution =
  cbe_task_id :: task_id
  cbe_operation_revision :: u64
  cbe_tool_name :: string
  cbe_proposal_digest :: string
  cbe_arguments_digest :: string
  cbe_execution :: brokered_mcp_tool_execution
  cbe_genui_artifact_processed :: bool

record brokered_mcp_binding =
  bmb_tool_name :: string
  bmb_proposal_digest :: string
  bmb_arguments_digest :: string

record broker_state =
  bk_daemon :: daemon_state
  bk_runtimes :: "task_id \<rightharpoonup> nat"
  bk_executors :: "brokered_mcp_executor list"
  bk_executions :: "operation_id \<rightharpoonup> cached_execution"
  bk_calls :: "(task_id \<times> operation_id \<times> string \<times> json) list"

text \<open>
  serde's encodings of the protocol's types and the texts of errors and identifiers are parameters.
\<close>

record broker_env =
  be_daemon :: daemon_env
  be_host :: deno_host
  be_error_text :: "daemon_error \<Rightarrow> string"
  be_gateway_text :: "mcp_gateway_error \<Rightarrow> string"
  be_execution_json :: "brokered_mcp_tool_execution \<Rightarrow> json_error + json"
  be_candidate :: "json \<Rightarrow> gen_ui_artifact_candidate option"
  be_compiler_json :: "gen_ui_compiler_identity \<Rightarrow> json"

abbreviation be_json :: "broker_env \<Rightarrow> daemon_codec" where
  "be_json X \<equiv> de_json (be_daemon X)"

type_synonym 'a broker_step = "(broker_state, daemon_error, 'a) step"

definition in_daemon :: "'a daemon_step \<Rightarrow> 'a broker_step" where
  "in_daemon m s = (case m (bk_daemon s) of (r, d) \<Rightarrow> (r, s\<lparr>bk_daemon := d\<rparr>))"

section \<open>The binding of a call\<close>

primrec arguments_digest_text :: "mcp_arguments_digest \<Rightarrow> string" where
  "arguments_digest_text (McpArgumentsDigest s) = s"

definition canonical_mcp_bytes :: "daemon_codec \<Rightarrow> json \<Rightarrow> daemon_error + bytes" where
  "canonical_mcp_bytes D v = map_err (\<lambda>e. BrokeredMcpRuntime (daemon_json_text D e))
     (value_to_vec (dc_mcp D) (canonical_mcp_json_value v))"

definition new_binding :: "daemon_codec \<Rightarrow> string \<Rightarrow> string \<Rightarrow> json \<Rightarrow> daemon_error + brokered_mcp_binding" where
  "new_binding D tool_name proposal_digest arguments =
     and_then (bounded_nonempty tool_name 256 ''brokered MCP tool name'') (\<lambda>tool_name.
     if \<not> is_sha256 proposal_digest then Inl InvalidBrokeredMcpDigest
     else and_then (canonical_mcp_bytes D arguments) (\<lambda>arguments_bytes.
     if length arguments_bytes > 1024 * 1024 then Inl (BrokeredMcpArgumentsTooLarge (length arguments_bytes))
     else and_then (canonical_mcp_bytes D (call_payload tool_name arguments)) (\<lambda>proposed.
     if daemon_sha256 D proposed \<noteq> proposal_digest then Inl BrokeredMcpBindingMismatch
     else Inr \<lparr>bmb_tool_name = tool_name, bmb_proposal_digest = proposal_digest,
               bmb_arguments_digest = daemon_sha256 D arguments_bytes\<rparr>)))"

definition validate_action :: "brokered_mcp_binding \<Rightarrow> operation_action \<Rightarrow> daemon_error + unit" where
  "validate_action b action = (case action of
       operation_action.BrokeredMcpToolCall call \<Rightarrow>
         if bmc_tool_name call = bmb_tool_name b \<and> bmc_proposal_digest call = bmb_proposal_digest b
            \<and> arguments_digest_text (bmc_arguments_digest call) = bmb_arguments_digest b
         then Inr () else Inl BrokeredMcpBindingMismatch
     | _ \<Rightarrow> Inl BrokeredMcpBindingMismatch)"

section \<open>Executions that are kept\<close>

definition cached_matches :: "task_id \<Rightarrow> u64 \<Rightarrow> brokered_mcp_binding \<Rightarrow> cached_execution \<Rightarrow> bool" where
  "cached_matches tid revision b c \<longleftrightarrow> cbe_task_id c = tid \<and> cbe_operation_revision c = revision
     \<and> cbe_tool_name c = bmb_tool_name b \<and> cbe_proposal_digest c = bmb_proposal_digest b
     \<and> cbe_arguments_digest c = bmb_arguments_digest b"

definition cached_brokered_mcp_execution ::
    "task_id \<Rightarrow> operation_id \<Rightarrow> u64 \<Rightarrow> brokered_mcp_binding \<Rightarrow> cached_execution option broker_step" where
  "cached_brokered_mcp_execution tid oid revision b =
     bind_step (read_step (\<lambda>s. bk_executions s oid)) (\<lambda>cached. case cached of
       None \<Rightarrow> return_step None
     | Some c \<Rightarrow> if cached_matches tid revision b c then return_step (Some c)
                 else fail_step BrokeredMcpReplayMismatch)"

definition update_cached_brokered_mcp_execution ::
    "operation_id \<Rightarrow> brokered_mcp_tool_execution \<Rightarrow> bool \<Rightarrow> unit broker_step" where
  "update_cached_brokered_mcp_execution oid execution processed =
     bind_step (read_step (\<lambda>s. bk_executions s oid)) (\<lambda>cached. case cached of
       None \<Rightarrow> fail_step BrokeredMcpReplayMismatch
     | Some c \<Rightarrow> update_step (\<lambda>s. s\<lparr>bk_executions := (bk_executions s)(oid \<mapsto>
         c\<lparr>cbe_execution := execution, cbe_genui_artifact_processed := processed\<rparr>)\<rparr>))"

section \<open>Runtimes\<close>

definition register_brokered_mcp_runtime :: "broker_env \<Rightarrow> task_id \<Rightarrow> brokered_mcp_runtime_config \<Rightarrow> unit broker_step" where
  "register_brokered_mcp_runtime X tid config =
     then_step (in_daemon (require_task tid))
     (bind_step (lift_step (map_err (\<lambda>e. BrokeredMcpRuntime (be_gateway_text X e)) (new_executor config)))
       (\<lambda>executor.
     bind_step (read_step (\<lambda>s. bk_runtimes s tid)) (\<lambda>present.
     then_step (guard_step (present = None) (BrokeredMcpRuntimeAlreadyRegistered tid))
       (update_step (\<lambda>s. s\<lparr>bk_runtimes := (bk_runtimes s)(tid \<mapsto> length (bk_executors s)),
          bk_executors := bk_executors s @ [executor]\<rparr>)))))"

definition unregister_brokered_mcp_runtime :: "task_id \<Rightarrow> unit broker_step" where
  "unregister_brokered_mcp_runtime tid = update_step (\<lambda>s. s\<lparr>bk_runtimes := (bk_runtimes s)(tid := None),
     bk_executions := (\<lambda>oid. case bk_executions s oid of None \<Rightarrow> None
       | Some c \<Rightarrow> if cbe_task_id c \<noteq> tid then Some c else None)\<rparr>)"

section \<open>Running a call\<close>

text \<open>Up to the lock of the executor: the execution that is kept, or the handle to wait for.\<close>

definition look_brokered ::
    "task_id \<Rightarrow> operation_id \<Rightarrow> u64 \<Rightarrow> brokered_mcp_binding \<Rightarrow> (brokered_mcp_tool_execution + nat) broker_step" where
  "look_brokered tid oid revision b =
     bind_step (in_daemon (find_operation oid)) (\<lambda>r.
     then_step (lift_step (validate_operation_scope r tid revision))
     (then_step (guard_step (op_state r = Dispatching) (OperationNotDispatching (op_state r)))
     (then_step (lift_step (validate_action b (op_action r)))
     (bind_step (cached_brokered_mcp_execution tid oid revision b) (\<lambda>cached. case cached of
         Some c \<Rightarrow> return_step (Inl (cbe_execution c))
       | None \<Rightarrow> bind_step (read_step (\<lambda>s. bk_runtimes s tid)) (\<lambda>handle.
           lift_step (ok_or (map_option Inr handle) (BrokeredMcpRuntimeMissing tid))))))))"

text \<open>What the executor of a handle is asked to run, whatever becomes of it.\<close>

definition call_executor ::
    "broker_env \<Rightarrow> task_id \<Rightarrow> operation_id \<Rightarrow> nat \<Rightarrow> string \<Rightarrow> json \<Rightarrow> brokered_mcp_tool_execution broker_step" where
  "call_executor X tid oid handle tool_name arguments s =
     (case execute_tool (be_host X) tool_name arguments (bk_executors s ! handle) of (r, executor) \<Rightarrow>
       (r, s\<lparr>bk_executors := (bk_executors s)[handle := executor],
            bk_calls := bk_calls s @ [(tid, oid, tool_name, arguments)]\<rparr>))"

definition execute_locked ::
    "broker_env \<Rightarrow> nat \<Rightarrow> task_id \<Rightarrow> operation_id \<Rightarrow> u64 \<Rightarrow> brokered_mcp_binding \<Rightarrow> json
      \<Rightarrow> brokered_mcp_tool_execution broker_step" where
  "execute_locked X handle tid oid revision b arguments =
     bind_step (cached_brokered_mcp_execution tid oid revision b) (\<lambda>cached. case cached of
       Some c \<Rightarrow> return_step (cbe_execution c)
     | None \<Rightarrow> bind_step (call_executor X tid oid handle (bmb_tool_name b) arguments) (\<lambda>execution.
         then_step (update_step (\<lambda>s. s\<lparr>bk_executions := (bk_executions s)(oid \<mapsto>
            \<lparr>cbe_task_id = tid, cbe_operation_revision = revision, cbe_tool_name = bmb_tool_name b,
             cbe_proposal_digest = bmb_proposal_digest b, cbe_arguments_digest = bmb_arguments_digest b,
             cbe_execution = execution, cbe_genui_artifact_processed = False\<rparr>)\<rparr>))
          (return_step execution)))"

definition execute_brokered_mcp_tool ::
    "broker_env \<Rightarrow> task_id \<Rightarrow> operation_id \<Rightarrow> u64 \<Rightarrow> string \<Rightarrow> string \<Rightarrow> json
      \<Rightarrow> brokered_mcp_tool_execution broker_step" where
  "execute_brokered_mcp_tool X tid oid revision tool_name proposal_digest arguments =
     bind_step (lift_step (new_binding (be_json X) tool_name proposal_digest arguments)) (\<lambda>b.
     bind_step (look_brokered tid oid revision b) (\<lambda>seen. case seen of
       Inl execution \<Rightarrow> return_step execution
     | Inr handle \<Rightarrow> execute_locked X handle tid oid revision b arguments))"

section \<open>The artifact of a compilation\<close>

definition failed_execution :: "string \<Rightarrow> brokered_mcp_tool_execution" where
  "failed_execution message = \<lparr>bme_text = message, bme_structured_content = None, bme_is_error = True,
     bme_outcome = operation_outcome.Failed\<rparr>"

definition artifact_text :: "broker_env \<Rightarrow> artifact_id \<Rightarrow> string" where
  "artifact_text X a = (case a of ArtifactId u \<Rightarrow> uuid_text (de_uuids (be_daemon X)) u)"

definition accepted_execution ::
    "broker_env \<Rightarrow> u16 \<Rightarrow> accepted_gen_ui_artifact \<Rightarrow> brokered_mcp_tool_execution \<Rightarrow> brokered_mcp_tool_execution" where
  "accepted_execution X schema_version accepted execution = execution
     \<lparr>bme_structured_content := Some (JObject
        [(''schema_version'', json_count (unat schema_version)),
         (''artifact_id'', JString (artifact_text X (aga_artifact_id accepted))),
         (''source_revision'', JNumber (PosInt (aga_source_revision accepted))),
         (''entrypoint'', JString (aga_entrypoint accepted)),
         (''content_digest'', JString (aga_content_digest accepted)),
         (''compiler'', be_compiler_json X (aga_compiler accepted)),
         (''accepted_by'', JString ''rust_host'')]),
      bme_text := ''Accepted GenUI revision '' @ decimal (unat (aga_source_revision accepted)) @ '' as artifact ''
        @ artifact_text X (aga_artifact_id accepted) @ '' ('' @ aga_content_digest accepted @ '').''\<rparr>"

definition accept_brokered_genui_result ::
    "broker_env \<Rightarrow> task_id \<Rightarrow> operation_id \<Rightarrow> u64 \<Rightarrow> brokered_mcp_tool_execution
      \<Rightarrow> brokered_mcp_tool_execution broker_step" where
  "accept_brokered_genui_result X tid oid revision execution =
     (case and_maybe (bme_structured_content execution) (be_candidate X) of
        None \<Rightarrow> return_step (failed_execution ''GenUI compiler returned an invalid artifact candidate'')
      | Some candidate \<Rightarrow>
          bind_step (attempt_step (in_daemon (accept_genui_artifact (be_daemon X) tid oid revision candidate)))
            (\<lambda>r. return_step (case r of
               Inl e \<Rightarrow> failed_execution (''Rust authority rejected the GenUI artifact: '' @ be_error_text X e)
             | Inr accepted \<Rightarrow> accepted_execution X (gac_schema_version candidate) accepted execution)))"

section \<open>The life of an authorized call\<close>

definition digest_execution :: "broker_env \<Rightarrow> brokered_mcp_tool_execution \<Rightarrow> daemon_error + string" where
  "digest_execution X execution =
     and_then (map_err (\<lambda>e. BrokeredMcpRuntime (daemon_json_text (be_json X) e)) (be_execution_json X execution))
       (\<lambda>v. and_then (canonical_mcp_bytes (be_json X) v) (\<lambda>bs. Inr (daemon_sha256 (be_json X) bs)))"

definition execution_completion :: "string \<Rightarrow> string \<Rightarrow> operation_outcome \<Rightarrow> operation_completion" where
  "execution_completion tool_name result_digest outcome =
     \<lparr>oc_executor = ''hyper-term-daemon'', oc_succeeded = outcome_succeeded outcome, oc_outcome = Some outcome,
      oc_summary = (case outcome of
          operation_outcome.Succeeded \<Rightarrow> tool_name @ '' completed''
        | operation_outcome.Failed \<Rightarrow> tool_name @ '' failed''
        | operation_outcome.UnknownExecution \<Rightarrow> tool_name @ '' outcome is unknown''),
      oc_result_digest = Some result_digest\<rparr>"

text \<open>The revision at which the operation dispatches, or the execution of one that has ended.\<close>

definition dispatching_revision ::
    "broker_env \<Rightarrow> task_id \<Rightarrow> operation_id \<Rightarrow> u64 \<Rightarrow> brokered_mcp_binding \<Rightarrow> operation_record
      \<Rightarrow> (brokered_mcp_tool_execution + u64) broker_step" where
  "dispatching_revision X tid oid expected b r =
     (let retry_dispatching = (if unat expected + 1 < 2 ^ 64 then Some (expected + 1) else None);
          retry_terminal = (if unat expected + 2 < 2 ^ 64 then Some (expected + 2) else None) in
      if op_state r = Authorized
      then then_step (lift_step (validate_operation_scope r tid expected))
        (bind_step (in_daemon (begin_operation (be_daemon X) tid oid expected)) (\<lambda>begun.
          return_step (Inr (op_revision begun))))
      else if op_state r = Dispatching \<and> retry_dispatching = Some (op_revision r)
      then return_step (Inr (op_revision r))
      else if op_state r \<in> {operation_state.Succeeded, operation_state.Failed, operation_state.UnknownExecution}
        \<and> retry_terminal = Some (op_revision r)
      then bind_step (cached_brokered_mcp_execution tid oid (the retry_dispatching) b) (\<lambda>cached.
        lift_step (ok_or (map_option (Inl \<circ> cbe_execution) cached) BrokeredMcpReplayMismatch))
      else if op_revision r \<noteq> expected then fail_step (StaleOperationRevision (op_revision r) expected)
      else fail_step (OperationNotAuthorized (op_state r)))"

definition settle_execution ::
    "broker_env \<Rightarrow> task_id \<Rightarrow> operation_id \<Rightarrow> u64 \<Rightarrow> brokered_mcp_binding \<Rightarrow> brokered_mcp_tool_execution
      \<Rightarrow> brokered_mcp_tool_execution broker_step" where
  "settle_execution X tid oid revision b execution =
     bind_step (cached_brokered_mcp_execution tid oid revision b) (\<lambda>cached.
     if bmb_tool_name b = ''hyper_term.genui.compile'' \<and> bme_outcome execution = operation_outcome.Succeeded
        \<and> \<not> (case cached of None \<Rightarrow> False | Some c \<Rightarrow> cbe_genui_artifact_processed c)
     then bind_step (accept_brokered_genui_result X tid oid revision execution) (\<lambda>execution.
       then_step (update_cached_brokered_mcp_execution oid execution True) (return_step execution))
     else return_step execution)"

definition complete_execution ::
    "broker_env \<Rightarrow> task_id \<Rightarrow> operation_id \<Rightarrow> u64 \<Rightarrow> brokered_mcp_binding \<Rightarrow> brokered_mcp_tool_execution
      \<Rightarrow> brokered_mcp_tool_execution broker_step" where
  "complete_execution X tid oid revision b execution =
     bind_step (lift_step (digest_execution X execution)) (\<lambda>result_digest.
     then_step (in_daemon (complete_operation (be_daemon X) tid oid revision
         (execution_completion (bmb_tool_name b) result_digest (bme_outcome execution))))
       (return_step execution))"

definition run_authorized_brokered_mcp_tool ::
    "broker_env \<Rightarrow> task_id \<Rightarrow> operation_id \<Rightarrow> u64 \<Rightarrow> string \<Rightarrow> string \<Rightarrow> json
      \<Rightarrow> brokered_mcp_tool_execution broker_step" where
  "run_authorized_brokered_mcp_tool X tid oid expected tool_name proposal_digest arguments =
     bind_step (lift_step (new_binding (be_json X) tool_name proposal_digest arguments)) (\<lambda>b.
     bind_step (in_daemon (find_operation oid)) (\<lambda>r.
     then_step (guard_step (op_task_id r = tid) (OperationTaskMismatch (op_task_id r) tid))
     (then_step (lift_step (validate_action b (op_action r)))
     (bind_step (dispatching_revision X tid oid expected b r) (\<lambda>started. case started of
       Inl execution \<Rightarrow> return_step execution
     | Inr revision \<Rightarrow>
         bind_step (execute_brokered_mcp_tool X tid oid revision (bmb_tool_name b) (bmb_proposal_digest b) arguments)
           (\<lambda>execution.
         bind_step (settle_execution X tid oid revision b execution) (complete_execution X tid oid revision b)))))))"

section \<open>Revocation\<close>

definition is_brokered :: "operation_action \<Rightarrow> bool" where
  "is_brokered action = (case action of operation_action.BrokeredMcpToolCall _ \<Rightarrow> True | _ \<Rightarrow> False)"

definition revocable :: "task_id \<Rightarrow> operation_record \<Rightarrow> bool" where
  "revocable tid r \<longleftrightarrow> op_task_id r = tid \<and> is_brokered (op_action r) \<and> op_state r \<in> {WaitingHuman, Authorized}"

definition cancel_brokered_mcp_operation ::
    "daemon_env \<Rightarrow> task_id \<Rightarrow> operation_id \<Rightarrow> string \<Rightarrow> bool daemon_step" where
  "cancel_brokered_mcp_operation E tid oid reason =
     bind_step (find_operation oid) (\<lambda>r.
     if \<not> revocable tid r then return_step False
     else then_step (when_step (op_state r = WaitingHuman) (record_event E (operation_event tid oid
         (domain_event.PermissionDecided (op_revision r) permission_decision.Cancelled actor.System))))
       (then_step (transition E tid oid (op_revision r) operation_state.Cancelled actor.System (Some reason))
         (return_step True)))"

primrec count_revoked :: "daemon_env \<Rightarrow> task_id \<Rightarrow> string \<Rightarrow> operation_id list \<Rightarrow> nat daemon_step" where
  "count_revoked E tid reason [] = return_step 0"
| "count_revoked E tid reason (oid # oids) =
     bind_step (attempt_step (cancel_brokered_mcp_operation E tid oid reason)) (\<lambda>r.
     bind_step (count_revoked E tid reason oids) (\<lambda>n. return_step (if r = Inr True then n + 1 else n)))"

definition revoke_pending_brokered_mcp_operations :: "daemon_env \<Rightarrow> task_id \<Rightarrow> string \<Rightarrow> nat daemon_step" where
  "revoke_pending_brokered_mcp_operations E tid reason =
     bind_step (ask (de_record_order E)) (\<lambda>order.
     bind_step (read_step (\<lambda>s. map op_operation_id (filter (revocable tid)
       (operation_records order (au_operations (dm_authority s)))))) (count_revoked E tid reason))"

end
