(* ===== verification/Brokered_Mcp_Safety.thy ===== *)
theory Brokered_Mcp_Safety
  imports Brokered_Mcp Daemon_Run
begin

text \<open>
  Brokered calls run once. Any number of callers look, wait for the lock of the executor and run
  under it, in any order, between the other moves of the daemon; the executor of a task is asked to
  run an operation at most once, with the arguments that the operation was proposed with, and who asks again
  after the end gets the first answer.
\<close>

section \<open>Callers that interleave\<close>

record brokered_caller =
  bcl_handle :: nat
  bcl_task_id :: task_id
  bcl_operation_id :: operation_id
  bcl_revision :: u64
  bcl_binding :: brokered_mcp_binding
  bcl_arguments :: json

text \<open>The state and the callers that wait for a lock, while the runtime of the task \<open>t0\<close> stays.\<close>

inductive broker_move ::
    "broker_env \<Rightarrow> task_id \<Rightarrow> broker_state \<times> brokered_caller list \<Rightarrow> broker_state \<times> brokered_caller list \<Rightarrow> bool"
  for X t0 where
  look: "\<lbrakk>new_binding (be_json X) tool_name proposal_digest arguments = Inr b;
      look_brokered tid oid revision b s = (Inr (Inr handle), t)\<rbrakk> \<Longrightarrow>
    broker_move X t0 (s, w) (t, w @ [\<lparr>bcl_handle = handle, bcl_task_id = tid, bcl_operation_id = oid,
      bcl_revision = revision, bcl_binding = b, bcl_arguments = arguments\<rparr>])"
| locked: "\<lbrakk>c \<in> set w; execute_locked X (bcl_handle c) (bcl_task_id c) (bcl_operation_id c) (bcl_revision c)
      (bcl_binding c) (bcl_arguments c) s = (r, t)\<rbrakk> \<Longrightarrow> broker_move X t0 (s, w) (t, remove1 c w)"
| update: "update_cached_brokered_mcp_execution oid execution processed s = (r', t) \<Longrightarrow> broker_move X t0 (s, w) (t, w)"
| register: "register_brokered_mcp_runtime X tid config s = (r', t) \<Longrightarrow> broker_move X t0 (s, w) (t, w)"
| unregister: "\<lbrakk>tid \<noteq> t0; unregister_brokered_mcp_runtime tid s = (r', t)\<rbrakk> \<Longrightarrow> broker_move X t0 (s, w) (t, w)"
| daemon: "daemon_move (be_daemon X) (bk_daemon s) d \<Longrightarrow> broker_move X t0 (s, w) (s\<lparr>bk_daemon := d\<rparr>, w)"

section \<open>An executor always answers\<close>

lemma attempt_total: "\<exists>r t. attempt_step m s = (Inr r, t)"
  by (auto simp: attempt_step_def split: prod.split)

lemma end_total: "\<exists>r t. end_of_process H handle forget label result s = (Inr r, t)"
  by (auto simp: end_of_process_def bind_step_def ask_host_def then_step_def when_step_def step_runs)

lemma bind_total:
  assumes "\<exists>a t. m s = (Inr a, t)" and "\<And>a t. \<exists>b u. k a t = (Inr b, u)"
  shows "\<exists>b u. bind_step m k s = (Inr b, u)"
  using assms by (auto simp: bind_step_def)

lemma run_tool_total: "\<exists>r t. run_tool H tool_name arguments s = (Inr r, t)"
proof -
  have lsp: "\<exists>r t. run_lsp H lsp arguments s = (Inr r, t)" for lsp s
    unfolding run_lsp_def by (intro bind_total attempt_total end_total)
  have genui: "\<exists>r t. run_genui H g arguments s = (Inr r, t)" for g s
    unfolding run_genui_def by (intro bind_total attempt_total end_total)
  have start: "\<exists>r t. start_lsp H config arguments s = (Inr r, t)" for config s
    unfolding start_lsp_def
    by (rule bind_total [OF attempt_total]) (auto simp: step_runs then_step_def bind_step_simps lsp split: sum.split)
  have start': "\<exists>r t. start_genui H config arguments s = (Inr r, t)" for config s
    unfolding start_genui_def
    by (rule bind_total [OF attempt_total]) (auto simp: step_runs then_step_def bind_step_simps genui split: sum.split)
  show ?thesis
    by (auto simp: run_tool_def execute_lsp_def execute_genui_def bind_step_simps step_runs lsp genui start start'
        split: option.split)
qed

lemma execute_total: "\<exists>r t. execute_tool H tool_name arguments s = (Inr r, t)"
  unfolding execute_tool_def by (rule bind_total [OF run_tool_total]) (simp add: step_runs)

section \<open>At most one call\<close>

definition calls_of :: "broker_state \<Rightarrow> task_id \<Rightarrow> operation_id \<Rightarrow> nat" where
  "calls_of s tid oid = length (filter (\<lambda>(t, o', _). t = tid \<and> o' = oid) (bk_calls s))"

definition called_once :: "task_id \<Rightarrow> operation_id \<Rightarrow> broker_state \<Rightarrow> bool" where
  "called_once t0 oid s \<longleftrightarrow> calls_of s t0 oid = 0
     \<or> (calls_of s t0 oid = 1 \<and> (\<exists>c. bk_executions s oid = Some c \<and> cbe_task_id c = t0))"

definition same_calls :: "broker_state \<Rightarrow> broker_state \<Rightarrow> bool" where
  "same_calls s t \<longleftrightarrow> bk_calls t = bk_calls s
     \<and> (\<forall>oid c. bk_executions s oid = Some c \<longrightarrow> (\<exists>c'. bk_executions t oid = Some c' \<and> cbe_task_id c' = cbe_task_id c))"

interpretation same_calls: step_preorder same_calls
  by unfold_locales (force simp: same_calls_def)+

lemma same_calls_once: "called_once t0 oid s \<Longrightarrow> same_calls s t \<Longrightarrow> called_once t0 oid t"
  by (force simp: called_once_def calls_of_def same_calls_def)

lemma same_calls_daemon: "obeys same_calls (in_daemon m)"
  by (auto simp: obeys_def in_daemon_def same_calls_def split: prod.split)

lemma same_calls_cached: "obeys same_calls (cached_brokered_mcp_execution tid oid revision b)"
  unfolding cached_brokered_mcp_execution_def
  by (auto intro!: same_calls.obeys_parts split: option.split)

lemma same_calls_look: "obeys same_calls (look_brokered tid oid revision b)"
  unfolding look_brokered_def
  by (auto intro!: same_calls.obeys_parts same_calls_daemon same_calls_cached split: option.split)

lemma same_calls_update: "obeys same_calls (update_cached_brokered_mcp_execution oid execution processed)"
  by (auto simp: obeys_def update_cached_brokered_mcp_execution_def bind_step_simps step_runs same_calls_def
      split: option.split)

lemma same_calls_register: "obeys same_calls (register_brokered_mcp_runtime X tid config)"
  unfolding register_brokered_mcp_runtime_def
  by (intro same_calls.obeys_parts same_calls_daemon same_calls.obeys_update) (simp add: same_calls_def)

lemma cached_run:
  "cached_brokered_mcp_execution tid oid revision b s = (case bk_executions s oid of
       None \<Rightarrow> (Inr None, s)
     | Some c \<Rightarrow> (if cached_matches tid revision b c then Inr (Some c) else Inl BrokeredMcpReplayMismatch, s))"
  by (simp add: cached_brokered_mcp_execution_def bind_step_simps step_runs split: option.split)

text \<open>Under the lock: the kept execution is the answer, or there is none and now there is one.\<close>

lemma locked_cases:
  assumes "execute_locked X handle tid oid revision b arguments s = (r, t)"
  obtains (kept) c where "bk_executions s oid = Some c" "t = s" "r = (if cached_matches tid revision b c
      then Inr (cbe_execution c) else Inl BrokeredMcpReplayMismatch)"
  | (called) c where "bk_executions s oid = None" "bk_executions t = (bk_executions s)(oid \<mapsto> c)"
      "bk_calls t = bk_calls s @ [(tid, oid, bmb_tool_name b, arguments)]" "cached_matches tid revision b c"
      "r = Inr (cbe_execution c)" "bk_daemon t = bk_daemon s" "\<not> cbe_genui_artifact_processed c"
proof (cases "bk_executions s oid")
  case (Some c)
  have "execute_locked X handle tid oid revision b arguments s = (if cached_matches tid revision b c
      then Inr (cbe_execution c) else Inl BrokeredMcpReplayMismatch, s)"
  proof (cases "cached_matches tid revision b c")
    case True
    then have looked: "cached_brokered_mcp_execution tid oid revision b s = (Inr (Some c), s)"
      by (simp add: cached_run Some)
    show ?thesis using True unfolding execute_locked_def bind_step_run(2) [of "cached_brokered_mcp_execution tid oid revision b" s, OF looked] by (simp add: step_runs)
  next
    case False
    then have looked: "cached_brokered_mcp_execution tid oid revision b s = (Inl BrokeredMcpReplayMismatch, s)"
      by (simp add: cached_run Some)
    show ?thesis using False unfolding execute_locked_def bind_step_run(1) [of "cached_brokered_mcp_execution tid oid revision b" s, OF looked] by simp
  qed
  from trans [OF assms [symmetric] this] show ?thesis
    by (elim Pair_inject) (rule kept [OF Some])
next
  case None
  obtain execution executor where ran: "execute_tool (be_host X) (bmb_tool_name b) arguments (bk_executors s ! handle)
      = (Inr execution :: daemon_error + _, executor)"
    using execute_total by blast
  have called': "call_executor X tid oid handle (bmb_tool_name b) arguments s = (Inr execution,
      s\<lparr>bk_executors := (bk_executors s)[handle := executor],
        bk_calls := bk_calls s @ [(tid, oid, bmb_tool_name b, arguments)]\<rparr>)"
    by (simp add: call_executor_def ran)
  let ?c = "\<lparr>cbe_task_id = tid, cbe_operation_revision = revision, cbe_tool_name = bmb_tool_name b,
      cbe_proposal_digest = bmb_proposal_digest b, cbe_arguments_digest = bmb_arguments_digest b,
      cbe_execution = execution, cbe_genui_artifact_processed = False\<rparr>"
  have looked: "cached_brokered_mcp_execution tid oid revision b s = (Inr None, s)"
    by (simp add: cached_run None)
  have "execute_locked X handle tid oid revision b arguments s = (Inr execution,
      s\<lparr>bk_executors := (bk_executors s)[handle := executor],
        bk_executions := (bk_executions s)(oid \<mapsto> ?c),
        bk_calls := bk_calls s @ [(tid, oid, bmb_tool_name b, arguments)]\<rparr>)"
    unfolding execute_locked_def bind_step_run(2) [of "cached_brokered_mcp_execution tid oid revision b" s, OF looked]
    by (simp add: bind_step_run(2) [of "call_executor X tid oid handle (bmb_tool_name b) arguments" s, OF called'] then_step_def bind_step_simps step_runs)
  then show ?thesis using assms None by (intro called [of ?c]) (auto simp: cached_matches_def)
qed

lemma called_once_locked:
  assumes "execute_locked X handle tid oid' revision b arguments s = (r, t)" and "called_once t0 oid s"
  shows "called_once t0 oid t"
  using assms(1)
proof (cases rule: locked_cases)
  case kept
  then show ?thesis using assms(2) by simp
next
  case (called c)
  then show ?thesis
    using assms(2) by (auto simp: called_once_def calls_of_def cached_matches_def)
qed

lemma called_once_move:
  assumes "broker_move X t0 p q" and "called_once t0 oid (fst p)"
  shows "called_once t0 oid (fst q)"
  using assms
proof (cases rule: broker_move.cases)
  case (unregister tid s r t w)
  then show ?thesis
    using assms(2)
    by (auto simp: unregister_brokered_mcp_runtime_def step_runs called_once_def calls_of_def)
next
  case (daemon s d w)
  then show ?thesis using assms(2) by (auto simp: called_once_def calls_of_def)
qed (use assms(2) called_once_locked in \<open>auto intro: same_calls_once obeysD [OF same_calls_look]
    obeysD [OF same_calls_update] obeysD [OF same_calls_register]\<close>)

lemma called_once_run:
  "(broker_move X t0)\<^sup>*\<^sup>* p q \<Longrightarrow> called_once t0 oid (fst p) \<Longrightarrow> called_once t0 oid (fst q)"
  by (induction rule: rtranclp_induct) (auto intro: called_once_move)

section \<open>What is called was proposed\<close>

definition call_proposed :: "broker_env \<Rightarrow> daemon_state \<Rightarrow> task_id \<times> operation_id \<times> string \<times> json \<Rightarrow> bool" where
  "call_proposed X d = (\<lambda>(tid, oid, tool_name, arguments). \<exists>r call bs.
     operations_of d oid = Some r \<and> op_task_id r = tid \<and> 4 \<le> state_rank (op_state r)
     \<and> op_action r = operation_action.BrokeredMcpToolCall call \<and> bmc_tool_name call = tool_name
     \<and> canonical_mcp_bytes (be_json X) arguments = Inr bs
     \<and> arguments_digest_text (bmc_arguments_digest call) = daemon_sha256 (be_json X) bs)"

definition caller_call :: "brokered_caller \<Rightarrow> task_id \<times> operation_id \<times> string \<times> json" where
  "caller_call c = (bcl_task_id c, bcl_operation_id c, bmb_tool_name (bcl_binding c), bcl_arguments c)"

definition all_proposed :: "broker_env \<Rightarrow> broker_state \<times> brokered_caller list \<Rightarrow> bool" where
  "all_proposed X = (\<lambda>(s, w). list_all (call_proposed X (bk_daemon s)) (bk_calls s)
     \<and> list_all (\<lambda>c. call_proposed X (bk_daemon s) (caller_call c)) w)"

lemma call_proposed_later:
  assumes "call_proposed X d call" and "operations_later (operations_of d) (operations_of d')"
  shows "call_proposed X d' call"
proof -
  obtain tid oid tool_name arguments where call: "call = (tid, oid, tool_name, arguments)" by (cases call)
  obtain r c bs where r: "operations_of d oid = Some r" "op_task_id r = tid" "4 \<le> state_rank (op_state r)"
    "op_action r = operation_action.BrokeredMcpToolCall c" "bmc_tool_name c = tool_name"
    "canonical_mcp_bytes (be_json X) arguments = Inr bs"
    "arguments_digest_text (bmc_arguments_digest c) = daemon_sha256 (be_json X) bs"
    using assms(1) by (auto simp: call call_proposed_def)
  obtain r' where "operations_of d' oid = Some r'" "same_identity r r'" "state_rank (op_state r) \<le> state_rank (op_state r')"
    using assms(2) r(1) unfolding operations_later_def by blast
  with r show ?thesis unfolding call call_proposed_def same_identity_def by (auto intro: order_trans)
qed

lemma all_proposed_later:
  assumes "all_proposed X (s, w)" and "operations_later (operations_of (bk_daemon s)) (operations_of (bk_daemon t))"
    and "bk_calls t = bk_calls s"
  shows "all_proposed X (t, w)"
  using assms by (auto simp: all_proposed_def list_all_iff intro: call_proposed_later)

text \<open>The methods that only read the daemon.\<close>

definition reads :: "broker_state \<Rightarrow> broker_state \<Rightarrow> bool" where
  "reads s t \<longleftrightarrow> bk_daemon t = bk_daemon s \<and> bk_calls t = bk_calls s"

interpretation reads: step_preorder reads
  by unfold_locales (auto simp: reads_def)

lemma reads_find: "obeys reads (in_daemon (find_operation oid))" "obeys reads (in_daemon (require_task tid))"
  by (auto simp: obeys_def in_daemon_def reads_def find_operation_def require_task_def bind_step_simps step_runs
      guard_step_def split: prod.split)

lemma reads_cached: "obeys reads (cached_brokered_mcp_execution tid oid revision b)"
  unfolding cached_brokered_mcp_execution_def by (auto intro!: reads.obeys_parts split: option.split)

lemma reads_look: "obeys reads (look_brokered tid oid revision b)"
  unfolding look_brokered_def by (auto intro!: reads.obeys_parts reads_find reads_cached split: option.split)

lemma reads_update: "obeys reads (update_cached_brokered_mcp_execution oid execution processed)"
  by (auto simp: obeys_def update_cached_brokered_mcp_execution_def bind_step_simps step_runs reads_def
      split: option.split)

lemma reads_register: "obeys reads (register_brokered_mcp_runtime X tid config)"
  unfolding register_brokered_mcp_runtime_def
  by (intro reads.obeys_parts reads_find reads.obeys_update) (simp add: reads_def)

lemma find_in_daemon:
  "in_daemon (find_operation oid) s = (Inr r, t) \<longleftrightarrow> operations_of (bk_daemon s) oid = Some r \<and> t = s"
proof -
  have "in_daemon (find_operation oid) s = (case operations_of (bk_daemon s) oid of
      None \<Rightarrow> (Inl (OperationNotFound oid), s) | Some r \<Rightarrow> (Inr r, s))"
    by (simp add: in_daemon_def find_operation_def bind_step_simps step_runs ok_or_def split: option.split)
  then show ?thesis by (auto split: option.splits)
qed

lemma look_Inr:
  assumes "look_brokered tid oid revision b s = (Inr (Inr handle), t)"
  obtains r where "operations_of (bk_daemon s) oid = Some r" "op_task_id r = tid" "op_revision r = revision"
    "op_state r = Dispatching" "validate_action b (op_action r) = Inr ()" "bk_runtimes s tid = Some handle"
    "bk_executions s oid = None" "t = s"
proof -
  obtain r cached u where r: "operations_of (bk_daemon s) oid = Some r" "validate_operation_scope r tid revision = Inr ()"
    "op_state r = Dispatching" "validate_action b (op_action r) = Inr ()"
    and looked: "cached_brokered_mcp_execution tid oid revision b s = (Inr cached, u)"
    and rest: "(case cached of Some c \<Rightarrow> return_step (Inl (cbe_execution c))
       | None \<Rightarrow> bind_step (read_step (\<lambda>s. bk_runtimes s tid)) (\<lambda>handle.
           lift_step (ok_or (map_option Inr handle) (BrokeredMcpRuntimeMissing tid)))) u = (Inr (Inr handle), t)"
    using assms unfolding look_brokered_def succeeds find_in_daemon by auto
  have "cached = None"
    using rest by (cases cached) (auto simp: step_runs)
  then have "bk_executions s oid = None" "u = s"
    using looked unfolding cached_run by (auto split: option.splits if_splits)
  moreover have "bk_runtimes u tid = Some handle \<and> t = u"
    using rest \<open>cached = None\<close> by (auto simp: succeeds result_simps)
  moreover have "op_task_id r = tid" "op_revision r = revision"
    using r(2) by (auto simp: validate_operation_scope_def split: if_splits)
  ultimately show ?thesis using r that by simp
qed

lemma look_proposed:
  assumes "new_binding (be_json X) tool_name proposal_digest arguments = Inr b"
    and "look_brokered tid oid revision b s = (Inr (Inr handle), t)"
  shows "call_proposed X (bk_daemon t) (tid, oid, bmb_tool_name b, arguments)"
proof -
  obtain r where r: "operations_of (bk_daemon t) oid = Some r" "op_task_id r = tid" "op_state r = Dispatching"
    "validate_action b (op_action r) = Inr ()"
    using assms(2) by (auto elim: look_Inr)
  moreover have "\<exists>bs. canonical_mcp_bytes (be_json X) arguments = Inr bs \<and> bmb_arguments_digest b = daemon_sha256 (be_json X) bs"
    using assms(1) by (auto simp: new_binding_def result_simps split: if_splits)
  ultimately show ?thesis
    by (auto simp: call_proposed_def validate_action_def split: operation_action.splits if_splits)
qed

lemma all_proposed_move:
  assumes "broker_move X t0 p q" and "all_proposed X p"
  shows "all_proposed X q"
  using assms
proof (cases rule: broker_move.cases)
  case (look tool_name proposal_digest arguments b tid oid revision s handle t w)
  have "reads s t" by (rule obeysD [OF reads_look look(4)])
  then have "all_proposed X (t, w)"
    using assms(2) look(1) by (auto simp: reads_def all_proposed_def)
  then show ?thesis
    using look_proposed [OF look(3,4)] look(2) by (simp add: all_proposed_def caller_call_def)
next
  case (locked c w s r t)
  have caller: "call_proposed X (bk_daemon s) (caller_call c)" and rest: "all_proposed X (s, remove1 c w)"
    using assms(2) locked(1,3) by (auto simp: all_proposed_def list_all_iff dest: in_set_remove1 set_mp [OF set_remove1_subset])
  from locked(4) show ?thesis
  proof (cases rule: locked_cases)
    case kept
    then show ?thesis using rest locked(2) by simp
  next
    case called
    then show ?thesis using rest caller locked(2) by (simp add: all_proposed_def caller_call_def)
  qed
next
  case (update oid execution processed s r t w)
  then show ?thesis
    using assms(2) obeysD [OF reads_update update(3)] by (auto simp: reads_def all_proposed_def)
next
  case (register tid config s r t w)
  then show ?thesis
    using assms(2) obeysD [OF reads_register register(3)] by (auto simp: reads_def all_proposed_def)
next
  case (unregister tid s r t w)
  then show ?thesis
    using assms(2) by (auto simp: unregister_brokered_mcp_runtime_def step_runs all_proposed_def)
next
  case (daemon s d w)
  have "operations_later (operations_of (bk_daemon s)) (operations_of d)"
    using grows.keep_moves [OF daemon(3)] by (simp add: grows_def)
  then show ?thesis using all_proposed_later [of X s w "s\<lparr>bk_daemon := d\<rparr>"] assms(2) daemon by simp
qed

lemma all_proposed_run: "(broker_move X t0)\<^sup>*\<^sup>* p q \<Longrightarrow> all_proposed X p \<Longrightarrow> all_proposed X q"
  by (induction rule: rtranclp_induct) (auto intro: all_proposed_move)

section \<open>Asking again\<close>

lemma in_daemon_Inr:
  "in_daemon m s = (Inr a, t) \<longleftrightarrow> (\<exists>d. m (bk_daemon s) = (Inr a, d) \<and> t = s\<lparr>bk_daemon := d\<rparr>)"
  by (auto simp: in_daemon_def split: prod.splits)

lemma cached_Inr:
  "cached_brokered_mcp_execution tid oid revision b s = (Inr cached, t) \<longleftrightarrow> t = s \<and> cached = bk_executions s oid
     \<and> (\<forall>c. cached = Some c \<longrightarrow> cached_matches tid revision b c)"
  by (auto simp: cached_run split: option.splits)

lemma executed:
  assumes "execute_brokered_mcp_tool X tid oid revision tool_name proposal_digest arguments s = (Inr x, t)"
  obtains c b where "bk_daemon t = bk_daemon s" "bk_executions t oid = Some c" "cbe_execution c = x"
    "cbe_task_id c = tid" "cbe_operation_revision c = revision"
proof -
  obtain b seen u where looked: "look_brokered tid oid revision b s = (Inr seen, u)"
    and rest: "(case seen of Inl execution \<Rightarrow> return_step execution
       | Inr handle \<Rightarrow> execute_locked X handle tid oid revision b arguments) u = (Inr x, t)"
    using assms unfolding execute_brokered_mcp_tool_def succeeds by auto
  show ?thesis
  proof (cases seen)
    case (Inl execution)
    obtain cached where "cached_brokered_mcp_execution tid oid revision b s = (Inr cached, s)"
      "(case cached of Some c \<Rightarrow> return_step (Inl (cbe_execution c))
       | None \<Rightarrow> bind_step (read_step (\<lambda>s. bk_runtimes s tid)) (\<lambda>handle.
           lift_step (ok_or (map_option Inr handle) (BrokeredMcpRuntimeMissing tid)))) s = (Inr (Inl execution), u)"
      using looked unfolding look_brokered_def succeeds find_in_daemon cached_Inr Inl by auto
    then have "u = s \<and> (\<exists>c. bk_executions s oid = Some c \<and> cached_matches tid revision b c \<and> cbe_execution c = execution)"
      by (cases "bk_executions s oid") (auto simp: cached_Inr succeeds result_simps)
    then show ?thesis using rest Inl that by (auto simp: step_runs cached_matches_def)
  next
    case (Inr handle)
    have "u = s" using looked Inr by (auto elim: look_Inr)
    then have "execute_locked X handle tid oid revision b arguments s = (Inr x, t)" using rest Inr by simp
    then show ?thesis
    proof (cases rule: locked_cases)
      case (kept c)
      then show ?thesis using that [of c] by (auto simp: cached_matches_def split: if_splits)
    next
      case (called c)
      then show ?thesis using that [of c] by (auto simp: cached_matches_def)
    qed
  qed
qed

lemma accepted_parts:
  assumes "accept_brokered_genui_result X tid oid revision execution s = (Inr x, t)"
  shows "bk_executions t = bk_executions s \<and> grows (bk_daemon s) (bk_daemon t)"
proof -
  have parts: "obeys (\<lambda>s t. bk_executions t = bk_executions s \<and> grows (bk_daemon s) (bk_daemon t))
      (attempt_step (in_daemon (accept_genui_artifact (be_daemon X) tid oid revision candidate))
        :: (broker_state, daemon_error, _) step)" for candidate
    using grows.keep_methods unfolding accept_genui_artifact_def
    by (auto simp: obeys_def attempt_step_def in_daemon_def split: prod.splits) (metis snd_conv)
  show ?thesis
  proof (cases "and_maybe (bme_structured_content execution) (be_candidate X)")
    case None
    then show ?thesis using assms grows_refl by (simp add: accept_brokered_genui_result_def step_runs)
  next
    case (Some candidate)
    then obtain r where "(attempt_step (in_daemon (accept_genui_artifact (be_daemon X) tid oid revision candidate))
        :: (broker_state, daemon_error, _) step) s = (Inr r, t)"
      using assms by (auto simp: accept_brokered_genui_result_def succeeds)
    from obeysD [OF parts this] show ?thesis .
  qed
qed

lemma settled_parts:
  assumes "settle_execution X tid oid revision b x0 s = (Inr x, t)"
    and "bk_executions s oid = Some c" and "cbe_execution c = x0"
  shows "grows (bk_daemon s) (bk_daemon t) \<and> (\<exists>c'. bk_executions t oid = Some c' \<and> cbe_execution c' = x
    \<and> cached_matches tid revision b c')"
proof -
  have matches: "cached_matches tid revision b c"
    using assms(1,2) unfolding settle_execution_def succeeds cached_Inr by auto
  let ?accepts = "bmb_tool_name b = ''hyper_term.genui.compile'' \<and> bme_outcome x0 = operation_outcome.Succeeded
      \<and> \<not> cbe_genui_artifact_processed c"
  show ?thesis
  proof (cases ?accepts)
    case False
    then have "x = x0 \<and> t = s"
      using assms(1,2) unfolding settle_execution_def succeeds cached_Inr by (auto simp: step_runs split: if_splits)
    then show ?thesis using assms(2,3) matches grows_refl by auto
  next
    case True
    obtain u where accepted: "accept_brokered_genui_result X tid oid revision x0 s = (Inr x, u)"
      and updated: "update_cached_brokered_mcp_execution oid x True u = (Inr (), t)"
      using assms(1,2) True unfolding settle_execution_def succeeds cached_Inr by (auto simp: succeeds)
    note parts = accepted_parts [OF accepted]
    have "t = u\<lparr>bk_executions := (bk_executions u)(oid \<mapsto> c\<lparr>cbe_execution := x, cbe_genui_artifact_processed := True\<rparr>)\<rparr>"
      using updated parts assms(2)
      by (simp add: update_cached_brokered_mcp_execution_def bind_step_simps step_runs)
    then show ?thesis using parts matches by (auto simp: cached_matches_def)
  qed
qed

lemma completed_parts:
  assumes "complete_operation E tid oid revision completion d = (Inr q, e)"
    and "completion_outcome completion = outcome"
  shows "\<exists>r. operations_of e oid = Some r \<and> op_revision r = revision + 1 \<and> op_state r = outcome_state outcome
    \<and> op_task_id r = tid"
proof -
  obtain d' summary where moved: "transition E tid oid revision (outcome_state outcome) actor.System (Some summary) d'
      = (Inr q, e)"
    using assms unfolding complete_operation_def Let_def succeeds by auto
  obtain r where r: "operations_of d' oid = Some r" "op_task_id r = tid" "op_revision r = revision"
    using moved unfolding transition_def succeeds find_operation_Inr
    by (auto simp: validate_operation_scope_def split: if_splits)
  show ?thesis using transition_settles [OF moved r(1)] r by (simp add: settled_def)
qed

text \<open>What has begun is dispatching at the next revision.\<close>

lemma begun_revision:
  assumes "begin_operation E tid oid revision d = (Inr q, e)"
  shows "op_revision q = revision + 1"
proof -
  obtain d' where moved: "transition E tid oid revision Dispatching actor.System
      (Some ''brokered executor accepted the authorized operation'') d' = (Inr q, e)"
    using assms unfolding begin_operation_def succeeds by auto
  obtain r where r: "operations_of d' oid = Some r" "op_revision r = revision"
    using moved unfolding transition_def succeeds find_operation_Inr
    by (auto simp: validate_operation_scope_def split: if_splits)
  show ?thesis using transition_settles [OF moved r(1)] transition_state [OF moved] r(2) by (auto simp: settled_def)
qed

lemma started_parts:
  assumes "dispatching_revision X tid oid expected b r s = (Inr outset, t)"
    and "unat expected + 2 < 2 ^ 64"
  obtains (ended) c where "outset = Inl (cbe_execution c)" "t = s" "bk_executions s oid = Some c"
  | (running) "outset = Inr (expected + 1)" "grows (bk_daemon s) (bk_daemon t)"
proof -
  consider (authorized) "op_state r = Authorized"
    | (dispatching) "op_state r = Dispatching" "op_revision r = expected + 1"
    | (over) "op_state r \<in> {operation_state.Succeeded, operation_state.Failed, operation_state.UnknownExecution}"
        "op_revision r = expected + 2"
    using assms by (auto simp: dispatching_revision_def Let_def step_runs split: if_splits)
  then show ?thesis
  proof cases
    case authorized
    obtain q d where q: "begin_operation (be_daemon X) tid oid expected (bk_daemon s) = (Inr q, d)"
      "t = s\<lparr>bk_daemon := d\<rparr>" "outset = Inr (op_revision q)"
      using assms(1) authorized unfolding dispatching_revision_def Let_def
      by (auto simp: succeeds in_daemon_Inr)
    have "grows (bk_daemon s) d" by (rule grows.keep_moves [OF daemon_move.begin_brokered [OF q(1)]])
    then show ?thesis using running q begun_revision [OF q(1)] by simp
  next
    case dispatching
    then show ?thesis using assms running grows_refl by (simp add: dispatching_revision_def Let_def step_runs)
  next
    case over
    then obtain c where "bk_executions s oid = Some c" "outset = Inl (cbe_execution c)" "t = s"
      using assms by (auto simp: dispatching_revision_def Let_def succeeds cached_Inr result_simps)
    then show ?thesis using ended by blast
  qed
qed

lemma run_ended:
  assumes "new_binding (be_json X) tool_name proposal_digest arguments = Inr b"
    and "operations_of (bk_daemon s) oid = Some r" and "op_task_id r = tid"
    and "validate_action b (op_action r) = Inr ()" and "op_revision r = expected + 2"
    and "op_state r \<in> {operation_state.Succeeded, operation_state.Failed, operation_state.UnknownExecution}"
    and "unat expected + 2 < 2 ^ 64" and "bk_executions s oid = Some c" and "cached_matches tid (expected + 1) b c"
  shows "run_authorized_brokered_mcp_tool X tid oid expected tool_name proposal_digest arguments s
    = (Inr (cbe_execution c), s)"
proof -
  have "dispatching_revision X tid oid expected b r s = (Inr (Inl (cbe_execution c)), s)"
    using assms by (auto simp: dispatching_revision_def Let_def succeeds cached_Inr result_simps)
  then show ?thesis
    using assms(1-4) unfolding run_authorized_brokered_mcp_tool_def succeeds find_in_daemon
    by (auto simp: step_Inr)
qed

text \<open>A run that dispatched the operation leaves it ended, with its execution kept.\<close>

lemma run_keeps:
  assumes "run_authorized_brokered_mcp_tool X tid oid expected tool_name proposal_digest arguments s = (Inr x, t)"
    and "new_binding (be_json X) tool_name proposal_digest arguments = Inr b" and "unat expected + 2 < 2 ^ 64"
  shows "\<exists>r c. operations_of (bk_daemon t) oid = Some r \<and> op_task_id r = tid \<and> validate_action b (op_action r) = Inr ()
    \<and> bk_executions t oid = Some c \<and> cbe_execution c = x \<and> (t = s \<or> op_revision r = expected + 2
      \<and> op_state r \<in> {operation_state.Succeeded, operation_state.Failed, operation_state.UnknownExecution}
      \<and> cached_matches tid (expected + 1) b c)"
proof -
  obtain r outset u where r: "operations_of (bk_daemon s) oid = Some r" "op_task_id r = tid"
    "validate_action b (op_action r) = Inr ()"
    and outset: "dispatching_revision X tid oid expected b r s = (Inr outset, u)"
    and rest: "(case outset of Inl execution \<Rightarrow> return_step execution
     | Inr revision \<Rightarrow>
         bind_step (execute_brokered_mcp_tool X tid oid revision (bmb_tool_name b) (bmb_proposal_digest b) arguments)
           (\<lambda>execution.
         bind_step (settle_execution X tid oid revision b execution) (complete_execution X tid oid revision b))) u
      = (Inr x, t)"
    using assms(1,2) unfolding run_authorized_brokered_mcp_tool_def succeeds find_in_daemon by auto
  from outset assms(3) show ?thesis
  proof (cases rule: started_parts)
    case (ended c)
    then have "t = s \<and> x = cbe_execution c" using rest by (simp add: step_runs)
    then show ?thesis using r ended by auto
  next
    case running
    let ?n = "expected + 1"
    obtain x0 v w where ran: "execute_brokered_mcp_tool X tid oid ?n (bmb_tool_name b) (bmb_proposal_digest b)
        arguments u = (Inr x0, v)"
      and settled: "settle_execution X tid oid ?n b x0 v = (Inr x, w)"
      and completed: "complete_execution X tid oid ?n b x w = (Inr x, t)"
      using rest running(1) by (auto simp: succeeds complete_execution_def)
    obtain c where c: "bk_daemon v = bk_daemon u" "bk_executions v oid = Some c" "cbe_execution c = x0"
      by (rule executed [OF ran])
    obtain c' where c': "grows (bk_daemon v) (bk_daemon w)" "bk_executions w oid = Some c'" "cbe_execution c' = x"
      "cached_matches tid ?n b c'"
      using settled_parts [OF settled c(2,3)] by blast
    obtain result_digest q d where over: "complete_operation (be_daemon X) tid oid ?n
        (execution_completion (bmb_tool_name b) result_digest (bme_outcome x)) (bk_daemon w) = (Inr q, d)"
      "t = w\<lparr>bk_daemon := d\<rparr>"
      using completed by (auto simp: complete_execution_def succeeds in_daemon_Inr)
    obtain r' where r': "operations_of d oid = Some r'" "op_revision r' = ?n + 1"
      "op_state r' = outcome_state (bme_outcome x)" "op_task_id r' = tid"
      using completed_parts [OF over(1)] by (auto simp: completion_outcome_def execution_completion_def)
    have "grows (bk_daemon w) d" by (rule grows.keep_moves [OF daemon_move.complete_brokered [OF over(1)]])
    then have "grows (bk_daemon s) d" using running(2) c(1) c'(1) by (metis grows_trans)
    then have "same_identity r r'"
      using r(1) r'(1) unfolding grows_def operations_later_def by (metis option.inject)
    then have "op_action r' = op_action r" by (simp add: same_identity_def)
    moreover have "op_state r' \<in> {operation_state.Succeeded, operation_state.Failed, operation_state.UnknownExecution}"
      using r'(3) by (cases "bme_outcome x") (simp_all add: outcome_state_def)
    ultimately show ?thesis using r r' c' over(2) by auto
  qed
qed

lemma run_binding:
  assumes "run_authorized_brokered_mcp_tool X tid oid expected tool_name proposal_digest arguments s = (Inr x, t)"
  obtains b where "new_binding (be_json X) tool_name proposal_digest arguments = Inr b"
  using assms unfolding run_authorized_brokered_mcp_tool_def succeeds by auto

text \<open>
  C11. Asking again for a brokered call that has been run gives the answer of the run, whatever it was, and
  changes nothing: no executor is called, nothing is recorded. (The bound keeps the revisions of
  the operation from wrapping.)
\<close>

theorem brokered_retry:
  assumes "run_authorized_brokered_mcp_tool X tid oid expected tool_name proposal_digest arguments s = (Inr x, t)"
    and "unat expected + 2 < 2 ^ 64"
  shows "run_authorized_brokered_mcp_tool X tid oid expected tool_name proposal_digest arguments t = (Inr x, t)"
proof -
  obtain b where b: "new_binding (be_json X) tool_name proposal_digest arguments = Inr b"
    by (rule run_binding [OF assms(1)])
  show ?thesis
    using run_keeps [OF assms(1) b assms(2)] assms run_ended [OF b] by blast
qed

text \<open>
  C2. While the runtime of a task stays registered, its executor is asked to run an operation at most
  once, however many callers look, wait and run, and in whatever order they do it among the other
  moves of the daemon.
\<close>

theorem brokered_calls_run_once:
  assumes "(broker_move X t0)\<^sup>*\<^sup>* (s, []) (t, w)" and "calls_of s t0 oid = 0"
  shows "calls_of t t0 oid \<le> 1"
  using called_once_run [OF assms(1), of oid] assms(2) by (auto simp: called_once_def)

text \<open>
  C22. An executor is asked to run a call only for an operation of that task that has been dispatched,
  with the tool that was proposed and with arguments whose digest is the digest in the proposal.
\<close>

theorem brokered_calls_are_proposed:
  assumes "(broker_move X t0)\<^sup>*\<^sup>* (s, []) (t, w)" and "bk_calls s = []"
    and "(tid, oid, tool_name, arguments) \<in> set (bk_calls t)"
  shows "\<exists>r call bs. operations_of (bk_daemon t) oid = Some r \<and> op_task_id r = tid \<and> 4 \<le> state_rank (op_state r)
     \<and> op_action r = operation_action.BrokeredMcpToolCall call \<and> bmc_tool_name call = tool_name
     \<and> canonical_mcp_bytes (be_json X) arguments = Inr bs
     \<and> arguments_digest_text (bmc_arguments_digest call) = daemon_sha256 (be_json X) bs"
proof -
  have "all_proposed X (t, w)"
    by (rule all_proposed_run [OF assms(1)]) (simp add: all_proposed_def assms(2))
  then have "call_proposed X (bk_daemon t) (tid, oid, tool_name, arguments)"
    using assms(3) by (simp add: all_proposed_def list_all_iff)
  then show ?thesis by (simp add: call_proposed_def)
qed

end
