(* ===== verification/Brokered_Mcp_Run.thy ===== *)
theory Brokered_Mcp_Run
  imports Brokered_Mcp_Safety
begin

text \<open>
  A brokered call that runs: the diff tool, asked for by two callers who both look before either
  has the lock, and by one who asks again after the end.
\<close>

section \<open>The call\<close>

definition run_digest :: string where
  "run_digest = hex_lower (replicate 32 0)"

definition run_tool_name :: string where
  "run_tool_name = ''hyper_term.diff.review''"

definition run_call :: brokered_mcp_tool_call where
  "run_call = \<lparr>bmc_schema_version = BROKERED_MCP_TOOL_CALL_SCHEMA_VERSION, bmc_server_id = ''hyper-term'',
     bmc_tool_name = run_tool_name, bmc_canonical_arguments_preview = ''n'', bmc_arguments_bytes = 4,
     bmc_arguments_truncated = False, bmc_arguments_digest = McpArgumentsDigest run_digest,
     bmc_proposal_digest = run_digest\<rparr>"

definition run_call_operation :: "operation_state \<Rightarrow> u64 \<Rightarrow> operation_record" where
  "run_call_operation st revision = (run_operation st revision (Some AllowOnce))
     \<lparr>op_kind := operation_kind.McpTool, op_action := operation_action.BrokeredMcpToolCall run_call\<rparr>"

definition run_broker :: broker_env where
  "run_broker = \<lparr>be_daemon = run_world, be_host = sample_host, be_error_text = (\<lambda>_. []), be_gateway_text = (\<lambda>_. []),
     be_execution_json = (\<lambda>_. Inr JNull), be_candidate = (\<lambda>_. None), be_compiler_json = (\<lambda>_. JNull)\<rparr>"

definition run_broker_state :: "daemon_state \<Rightarrow> broker_state" where
  "run_broker_state d = \<lparr>bk_daemon = d, bk_runtimes = [TaskId 1 \<mapsto> 0], bk_executors = [sample_executor],
     bk_executions = Map.empty, bk_calls = []\<rparr>"

definition run_binding_of :: brokered_mcp_binding where
  "run_binding_of = \<lparr>bmb_tool_name = run_tool_name, bmb_proposal_digest = run_digest, bmb_arguments_digest = run_digest\<rparr>"

definition run_result :: brokered_mcp_tool_execution where
  "run_result = \<lparr>bme_text = ''No changes.'', bme_structured_content = mres_structured_content (diff_review JNull),
     bme_is_error = False, bme_outcome = operation_outcome.Succeeded\<rparr>"

lemma run_sha256: "is_sha256 run_digest"
  unfolding run_digest_def by (rule is_sha256_hex_lower) simp

lemma run_codec_parts:
  "canonical_mcp_bytes run_json v = Inr []" "daemon_sha256 run_json bs = run_digest"
  by (simp_all add: canonical_mcp_bytes_def daemon_sha256_def run_json_def run_digest_def result_simps)

lemma run_name: "trim run_tool_name = run_tool_name" "run_tool_name \<noteq> []" "length run_tool_name \<le> 256"
proof -
  show "trim run_tool_name = run_tool_name"
    unfolding run_tool_name_def by (rule trim_graphic) (simp_all add: graphic_def less_char_def less_eq_char_def)
qed (simp_all add: run_tool_name_def)

lemma run_binds: "new_binding run_json run_tool_name run_digest JNull = Inr run_binding_of"
  using run_name run_sha256
  by (simp add: new_binding_def bounded_nonempty_def run_codec_parts run_binding_of_def result_simps Let_def)

lemma run_broker_json: "be_json run_broker = run_json"
  by (simp add: run_broker_def run_world_def)

lemma run_validates: "validate_action run_binding_of (op_action (run_call_operation st revision)) = Inr ()"
  by (simp add: validate_action_def run_binding_of_def run_call_operation_def run_call_def)

lemma run_call_fields:
  "op_task_id (run_call_operation st revision) = TaskId 1" "op_revision (run_call_operation st revision) = revision"
  "op_state (run_call_operation st revision) = st"
  "\<not> is_shell (op_action (run_call_operation st revision))"
  by (simp_all add: run_call_operation_def run_operation_def is_shell_def)

lemma run_executes:
  "execute_tool H run_tool_name JNull s = (Inr run_result, s)"
  by (simp add: execute_tool_def run_tool_def run_tool_name_def definitive_def diff_review_def json_text_def
      and_maybe_def tool_success_def run_result_def bind_step_simps step_runs)

section \<open>Looking and running\<close>

definition run_kept :: cached_execution where
  "run_kept = \<lparr>cbe_task_id = TaskId 1, cbe_operation_revision = 5, cbe_tool_name = run_tool_name,
     cbe_proposal_digest = run_digest, cbe_arguments_digest = run_digest, cbe_execution = run_result,
     cbe_genui_artifact_processed = False\<rparr>"

definition run_called :: "daemon_state \<Rightarrow> broker_state" where
  "run_called d = (run_broker_state d)\<lparr>bk_executions := [OperationId 1 \<mapsto> run_kept],
     bk_calls := [(TaskId 1, OperationId 1, run_tool_name, JNull)]\<rparr>"

lemma run_kept_matches: "cached_matches (TaskId 1) 5 run_binding_of run_kept"
  by (simp add: cached_matches_def run_binding_of_def run_kept_def)

lemma run_looks:
  assumes "operations_of d = [OperationId 1 \<mapsto> run_call_operation Dispatching 5]"
  shows "look_brokered (TaskId 1) (OperationId 1) 5 run_binding_of (run_broker_state d) = (Inr (Inr 0), run_broker_state d)"
proof -
  have found: "in_daemon (find_operation (OperationId 1)) (run_broker_state d)
      = (Inr (run_call_operation Dispatching 5), run_broker_state d)"
    unfolding find_in_daemon by (simp add: run_broker_state_def assms)
  have looked: "cached_brokered_mcp_execution (TaskId 1) (OperationId 1) 5 run_binding_of (run_broker_state d)
      = (Inr None, run_broker_state d)"
    by (simp add: cached_Inr) (simp add: run_broker_state_def)
  show ?thesis
    unfolding look_brokered_def succeeds
    by (intro exI conjI) (rule found, simp_all add: run_validates run_call_fields validate_operation_scope_def,
      rule looked, simp add: succeeds result_simps, simp add: run_broker_state_def)
qed

lemma run_locks:
  "execute_locked run_broker 0 (TaskId 1) (OperationId 1) 5 run_binding_of JNull (run_broker_state d)
    = (Inr run_result, run_called d)"
proof -
  have looked: "cached_brokered_mcp_execution (TaskId 1) (OperationId 1) 5 run_binding_of (run_broker_state d)
      = (Inr None, run_broker_state d)"
    by (simp add: cached_Inr) (simp add: run_broker_state_def)
  have called: "call_executor run_broker (TaskId 1) (OperationId 1) 0 run_tool_name JNull (run_broker_state d)
      = (Inr run_result, (run_broker_state d)\<lparr>bk_calls := [(TaskId 1, OperationId 1, run_tool_name, JNull)]\<rparr>)"
    by (simp add: call_executor_def run_executes run_broker_state_def)
  show ?thesis
    unfolding execute_locked_def succeeds
    by (intro exI conjI) (rule looked, simp add: run_binding_of_def then_step_def bind_step_def called step_runs,
      simp add: run_called_def run_kept_def run_broker_state_def)
qed

lemma run_locks_again:
  "execute_locked run_broker 0 (TaskId 1) (OperationId 1) 5 run_binding_of JNull (run_called d)
    = (Inr run_result, run_called d)"
proof -
  have "cached_brokered_mcp_execution (TaskId 1) (OperationId 1) 5 run_binding_of (run_called d)
      = (Inr (Some run_kept), run_called d)"
    using run_kept_matches by (simp add: cached_Inr) (simp add: run_called_def)
  then show ?thesis
    unfolding execute_locked_def succeeds by (intro exI conjI) (assumption, simp add: step_runs run_kept_def)
qed

text \<open>Two callers that both look first: one call.\<close>

definition run_dispatching :: daemon_state where
  "run_dispatching = run_opened\<lparr>dm_authority := (dm_authority run_opened)
     \<lparr>au_operations := [OperationId 1 \<mapsto> run_call_operation Dispatching 5]\<rparr>\<rparr>"

lemma run_race:
  "\<exists>w. (broker_move run_broker (TaskId 1))\<^sup>*\<^sup>* (run_broker_state run_dispatching, []) (run_called run_dispatching, w)"
proof -
  let ?s = "run_broker_state run_dispatching"
  let ?c = "\<lparr>bcl_handle = 0, bcl_task_id = TaskId 1, bcl_operation_id = OperationId 1, bcl_revision = 5,
      bcl_binding = run_binding_of, bcl_arguments = JNull\<rparr>"
  have look: "broker_move run_broker (TaskId 1) (?s, w) (?s, w @ [?c])" for w
    by (rule broker_move.look [OF run_binds [folded run_broker_json] run_looks]) (simp add: run_dispatching_def)
  have first: "broker_move run_broker (TaskId 1) (?s, [?c, ?c]) (run_called run_dispatching, [?c])"
    using broker_move.locked [where c = ?c and w = "[?c, ?c]" and s = ?s and X = run_broker] run_locks by simp
  have second: "broker_move run_broker (TaskId 1) (run_called run_dispatching, [?c]) (run_called run_dispatching, [])"
    using broker_move.locked [where c = ?c and w = "[?c]" and s = "run_called run_dispatching" and X = run_broker]
      run_locks_again by simp
  show ?thesis
    using look [of "[]"] look [of "[?c]"] first second
    by (intro exI [of _ "[]"]) (auto intro: converse_rtranclp_into_rtranclp)
qed

theorem brokered_calls_run_once_witness:
  "calls_of (run_called run_dispatching) (TaskId 1) (OperationId 1) = 1
    \<and> calls_of (run_called run_dispatching) (TaskId 1) (OperationId 1) \<le> 1"
proof -
  obtain w where race: "(broker_move run_broker (TaskId 1))\<^sup>*\<^sup>* (run_broker_state run_dispatching, []) (run_called run_dispatching, w)"
    using run_race by blast
  have "calls_of (run_broker_state run_dispatching) (TaskId 1) (OperationId 1) = 0"
    by (simp add: calls_of_def run_broker_state_def)
  from brokered_calls_run_once [OF race this] show ?thesis
    by (simp add: calls_of_def run_called_def)
qed

theorem brokered_calls_are_proposed_witness:
  "\<exists>r call bs. operations_of run_dispatching (OperationId 1) = Some r \<and> op_task_id r = TaskId 1 \<and> 4 \<le> state_rank (op_state r)
     \<and> op_action r = operation_action.BrokeredMcpToolCall call \<and> bmc_tool_name call = run_tool_name
     \<and> canonical_mcp_bytes run_json JNull = Inr bs
     \<and> arguments_digest_text (bmc_arguments_digest call) = daemon_sha256 run_json bs"
proof -
  obtain w where race: "(broker_move run_broker (TaskId 1))\<^sup>*\<^sup>* (run_broker_state run_dispatching, []) (run_called run_dispatching, w)"
    using run_race by blast
  have "bk_calls (run_broker_state run_dispatching) = []" by (simp add: run_broker_state_def)
  moreover have "(TaskId 1, OperationId 1, run_tool_name, JNull) \<in> set (bk_calls (run_called run_dispatching))"
    by (simp add: run_called_def)
  moreover have "bk_daemon (run_called run_dispatching) = run_dispatching"
    by (simp add: run_called_def run_broker_state_def)
  ultimately show ?thesis using brokered_calls_are_proposed [OF race] by (simp only: run_broker_json)
qed

section \<open>From the authorization to the end\<close>

lemma run_receipt_block: "stable_block_id run_uuids ''receipt'' x = run_block 99"
  by (simp add: stable_block_id_def run_uuids_def run_block_def)

text \<open>A task whose one operation dispatches, with its block.\<close>

definition run_projector :: block_projector where
  "run_projector = (new_projector (TaskId 1))\<lparr>bj_blocks := [(run_block 101, new_block (run_block 101) (TaskId 1)
     block_kind.Operation 0 (block_payload.Operation (OperationId 1) operation_kind.McpTool ''d'' ReadOnly [] Dispatching))]\<rparr>"

definition run_started :: daemon_state where
  "run_started = run_dispatching\<lparr>dm_authority := (dm_authority run_dispatching)
     \<lparr>au_projectors := [TaskId 1 \<mapsto> run_projector]\<rparr>\<rparr>"

lemma run_started_parts:
  "operations_of run_started = [OperationId 1 \<mapsto> run_call_operation Dispatching 5]"
  "projectors_of run_started = [TaskId 1 \<mapsto> run_projector]" "last_of run_started = 0"
  by (simp_all add: run_started_def run_dispatching_def run_opened_def new_daemon_def last_sequence_def)

abbreviation run_receipt :: domain_event where
  "run_receipt \<equiv> domain_event.OperationReceipt 5 ''hyper-term-daemon'' True (Some operation_outcome.Succeeded)
     ''hyper_term.diff.review completed'' (Some run_digest)"

lemma run_receipts:
  "\<exists>t. record_event run_world (operation_event (TaskId 1) (OperationId 1) run_receipt) run_started = (Inr (), t)
    \<and> run_at 1 (Some (run_call_operation Dispatching 5)) False t"
proof -
  have project: "\<exists>p' patch. project_event run_uuids run_projector e = Inr (p', patch) \<and> run_blocks 1 True False p'"
    if "ev_task_id e = TaskId 1" "ev_operation_id e = Some (OperationId 1)" "ev_sequence e = 1" "ev_payload e = run_receipt"
    for e
    using that
    by (simp add: run_project_defs project_operation_receipt_def run_receipt_block run_blocks_def run_block_def
        run_projector_def new_projector_def new_block_def)
  have applied: "\<exists>m P patch. apply_event run_uuids (operations_of run_started) (projectors_of run_started) e
        = Inr (m, P, patch) \<and> m = operations_of run_started \<and> (\<exists>p. P = [TaskId 1 \<mapsto> p] \<and> run_blocks 1 True False p)"
    if "ev_sequence e = 1" "ev_task_id e = TaskId 1" "ev_operation_id e = Some (OperationId 1)" "ev_payload e = run_receipt"
    for e
    using project [OF that(2,3,1,4)] that by (auto simp: apply_event_def apply_operation_defs run_started_parts)
  have "accepts run_world run_started (operation_event (TaskId 1) (OperationId 1) run_receipt)
     (\<lambda>m P. m = operations_of run_started \<and> (\<exists>p. P = [TaskId 1 \<mapsto> p] \<and> run_blocks 1 True False p))"
    using applied
    by (simp add: accepts_def run_uuids_of operation_event_def task_event_def check_task_def run_started_parts)
  from record_succeeds [OF run_world_ok this] show ?thesis
    by (auto simp: run_at_def run_started_parts)
qed

lemma run_completes:
  "\<exists>t. complete_operation run_world (TaskId 1) (OperationId 1) 5
      (execution_completion run_tool_name run_digest operation_outcome.Succeeded) run_started
    = (Inr (run_call_operation operation_state.Succeeded 6), t)"
proof -
  obtain t1 where t1: "record_event run_world (operation_event (TaskId 1) (OperationId 1) run_receipt) run_started = (Inr (), t1)"
    "run_at 1 (Some (run_call_operation Dispatching 5)) False t1"
    using run_receipts by blast
  have update: "(run_call_operation Dispatching 5)\<lparr>op_revision := 6, op_state := operation_state.Succeeded\<rparr>
      = run_call_operation operation_state.Succeeded 6"
    by (simp add: run_call_operation_def run_operation_def)
  obtain t2 where t2: "transition run_world (TaskId 1) (OperationId 1) 5 operation_state.Succeeded actor.System
      (Some ''hyper_term.diff.review completed'') t1 = (Inr (run_call_operation operation_state.Succeeded 6), t2)"
    using run_transitions [OF t1(2), of operation_state.Succeeded 5 actor.System "Some ''hyper_term.diff.review completed''"]
    by (auto simp: run_call_fields update)
  have texts: "bounded_nonempty ''hyper-term-daemon'' 256 ''executor'' = Inr ''hyper-term-daemon''"
    "bounded_nonempty ''hyper_term.diff.review completed'' (16 * 1024) ''operation receipt summary''
      = Inr ''hyper_term.diff.review completed''"
  proof -
    have "trim ''hyper-term-daemon'' = ''hyper-term-daemon''"
      "trim ''hyper_term.diff.review completed'' = ''hyper_term.diff.review completed''"
      by (rule trim_graphic; simp add: graphic_def less_char_def less_eq_char_def)+
    then show "bounded_nonempty ''hyper-term-daemon'' 256 ''executor'' = Inr ''hyper-term-daemon''"
      "bounded_nonempty ''hyper_term.diff.review completed'' (16 * 1024) ''operation receipt summary''
      = Inr ''hyper_term.diff.review completed''"
      by (simp_all add: bounded_nonempty_def)
  qed
  have found: "find_operation (OperationId 1) run_started = (Inr (run_call_operation Dispatching 5), run_started)"
    by (simp add: find_operation_def bind_step_simps step_runs run_started_parts ok_or_def)
  have "complete_operation run_world (TaskId 1) (OperationId 1) 5
      (execution_completion run_tool_name run_digest operation_outcome.Succeeded) run_started
    = (Inr (run_call_operation operation_state.Succeeded 6), t2)"
    using t1(1) t2 run_sha256
    by (simp add: complete_operation_def bind_step_def then_step_def found run_call_fields step_runs texts(1) texts(2) [simplified]
        validate_operation_scope_def guard_step_def execution_completion_def completion_outcome_def Let_def
        outcome_succeeded_def outcome_state_def run_tool_name_def)
  then show ?thesis by blast
qed

text \<open>A caller who finds the operation dispatching runs it to its end.\<close>

lemma run_authorized_ends:
  "\<exists>t. run_authorized_brokered_mcp_tool run_broker (TaskId 1) (OperationId 1) 4 run_tool_name run_digest JNull
    (run_broker_state run_started) = (Inr run_result, t)
    \<and> bk_calls t = [(TaskId 1, OperationId 1, run_tool_name, JNull)]"
proof -
  let ?s = "run_broker_state run_started"
  have daemon: "bk_daemon ?s = run_started" "bk_daemon (run_called run_started) = run_started"
    by (simp_all add: run_broker_state_def run_called_def)
  have found: "in_daemon (find_operation (OperationId 1)) ?s = (Inr (run_call_operation Dispatching 5), ?s)"
    unfolding find_in_daemon by (simp add: daemon run_started_parts)
  have outset: "dispatching_revision run_broker (TaskId 1) (OperationId 1) 4 run_binding_of
      (run_call_operation Dispatching 5) ?s = (Inr (Inr 5), ?s)"
    by (simp add: dispatching_revision_def Let_def run_call_fields step_runs)
  have name: "bmb_tool_name run_binding_of = run_tool_name" "bmb_proposal_digest run_binding_of = run_digest"
    by (simp_all add: run_binding_of_def)
  have executed: "execute_brokered_mcp_tool run_broker (TaskId 1) (OperationId 1) 5 run_tool_name run_digest JNull ?s
      = (Inr run_result, run_called run_started)"
    unfolding execute_brokered_mcp_tool_def run_broker_json run_binds
    using run_looks [OF run_started_parts(1)] run_locks
    by (simp add: bind_step_simps bind_step_def)
  have cached: "cached_brokered_mcp_execution (TaskId 1) (OperationId 1) 5 run_binding_of (run_called run_started)
      = (Inr (Some run_kept), run_called run_started)"
    using run_kept_matches by (simp add: cached_Inr) (simp add: run_called_def)
  have settled: "settle_execution run_broker (TaskId 1) (OperationId 1) 5 run_binding_of run_result (run_called run_started)
      = (Inr run_result, run_called run_started)"
    by (simp add: settle_execution_def bind_step_def cached name run_tool_name_def step_runs)
  obtain d where d: "complete_operation run_world (TaskId 1) (OperationId 1) 5
      (execution_completion run_tool_name run_digest operation_outcome.Succeeded) run_started
    = (Inr (run_call_operation operation_state.Succeeded 6), d)"
    using run_completes by blast
  have digest: "digest_execution run_broker run_result = Inr run_digest"
    by (simp add: digest_execution_def run_broker_json run_codec_parts result_simps) (simp add: run_broker_def result_simps)
  have outcome: "bme_outcome run_result = operation_outcome.Succeeded" by (simp add: run_result_def)
  have world: "be_daemon run_broker = run_world" by (simp add: run_broker_def)
  have completed: "complete_execution run_broker (TaskId 1) (OperationId 1) 5 run_binding_of run_result (run_called run_started)
      = (Inr run_result, (run_called run_started)\<lparr>bk_daemon := d\<rparr>)"
    by (simp add: complete_execution_def digest bind_step_simps then_step_def bind_step_def in_daemon_def daemon name
        outcome world d step_runs)
  have "run_authorized_brokered_mcp_tool run_broker (TaskId 1) (OperationId 1) 4 run_tool_name run_digest JNull ?s
      = (Inr run_result, (run_called run_started)\<lparr>bk_daemon := d\<rparr>)"
    unfolding run_authorized_brokered_mcp_tool_def run_broker_json run_binds
    by (simp add: bind_step_def then_step_def found run_call_fields run_validates step_runs guard_step_def outset
        name executed settled completed)
  then show ?thesis by (simp add: run_called_def)
qed

theorem brokered_retry_witness:
  "\<exists>t. bk_calls t = [(TaskId 1, OperationId 1, run_tool_name, JNull)]
    \<and> run_authorized_brokered_mcp_tool run_broker (TaskId 1) (OperationId 1) 4 run_tool_name run_digest JNull t
      = (Inr run_result, t)"
  using run_authorized_ends brokered_retry by fastforce

end
