(* ===== verification/Driver_Process.thy ===== *)
theory Driver_Process
  imports Brokered_Executor
begin

text \<open>
  The supervisor of a driver process, \<open>DriverProcess\<close> of \<^verbatim>\<open>hyper-term-drivers/src/process.rs\<close>:
  its state machine, the frames it writes, the queue of what the process answers, the thread that
  reads the answers, and how the process is stopped.

  The reader thread runs beside the callers, so both are written as sequences of atomic accesses
  to what they share. \<open>pe_reader\<close>, a parameter, says what the thread gets to do before each
  access of a caller: it is any list of inputs, and each makes the thread take one step. What the
  pipe answers to a write and what becomes of the process when it is terminated are parameters
  too. A lock is poisoned only by a panic inside it, and no modelled step panics.
\<close>

section \<open>Events and errors\<close>

datatype driver_event =
    DriverMessage (* sequence *) u64 (* payload *) json
  | ProtocolError (* message *) string
  | DriverExited (* code *) "int option" driver_state

text \<open>The errors of \<^verbatim>\<open>DriverError\<close> that a running process can give; those of the codec are one case.\<close>

datatype process_error =
    CodecError driver_error
  | PendingOutputBudgetExceeded (* pending *) nat (* maximum *) nat
  | InputClosed
  | DriverTimeout
  | EffectTimedOut driver_state
  | EventStreamClosed
  | IllegalState (* expected *) string (* actual *) driver_state
  | ProcessGroupDidNotExit nat
  | ProcessIo io_error

definition DRIVER_EVENT_CAPACITY :: nat where
  "DRIVER_EVENT_CAPACITY = 256"

definition driver_state_text :: "driver_state \<Rightarrow> string" where
  "driver_state_text s = (case s of
       DriverStarting \<Rightarrow> ''starting'' | DriverReady \<Rightarrow> ''ready'' | DriverBusy \<Rightarrow> ''busy''
     | DriverWaiting \<Rightarrow> ''waiting'' | DriverClosing \<Rightarrow> ''closing'' | DriverClosed \<Rightarrow> ''closed''
     | DriverFailed \<Rightarrow> ''failed'' | DriverUnknownExecution \<Rightarrow> ''unknown execution'')"

section \<open>The bounded inbox\<close>

text \<open>The largest \<^verbatim>\<open>usize\<close>.\<close>

definition usize_max :: nat where
  "usize_max = 2 ^ 64 - 1"

record driver_inbox =
  dbi_events :: "(driver_event \<times> nat) list"
  dbi_output_bytes :: nat
  dbi_max_events :: nat
  dbi_max_output_bytes :: nat

definition new_inbox :: "nat \<Rightarrow> nat \<Rightarrow> driver_inbox" where
  "new_inbox max_events max_output_bytes = \<lparr>dbi_events = [], dbi_output_bytes = 0,
     dbi_max_events = max_events, dbi_max_output_bytes = max_output_bytes\<rparr>"

definition driver_event_output_bytes :: "value_codec \<Rightarrow> driver_event \<Rightarrow> nat" where
  "driver_event_output_bytes C event = (case event of
       DriverMessage _ payload \<Rightarrow> (case vc_to_vec C payload of Inr bs \<Rightarrow> length bs | Inl _ \<Rightarrow> usize_max)
     | ProtocolError message \<Rightarrow> length message
     | DriverExited _ _ \<Rightarrow> 0)"

definition inbox_push :: "value_codec \<Rightarrow> driver_event \<Rightarrow> driver_inbox \<Rightarrow> driver_event + driver_inbox" where
  "inbox_push C event inbox =
     (let charged = driver_event_output_bytes C event;
          next_output_bytes = dbi_output_bytes inbox + charged in
      if next_output_bytes > usize_max then Inl event
      else if length (dbi_events inbox) = dbi_max_events inbox
              \<or> next_output_bytes > dbi_max_output_bytes inbox then Inl event
      else Inr (inbox\<lparr>dbi_events := dbi_events inbox @ [(event, charged)],
                      dbi_output_bytes := next_output_bytes\<rparr>))"

definition inbox_pop :: "driver_inbox \<Rightarrow> (driver_event \<times> driver_inbox) option" where
  "inbox_pop inbox = (case dbi_events inbox of
       [] \<Rightarrow> None
     | (event, charged) # events \<Rightarrow>
         Some (event, inbox\<lparr>dbi_events := events, dbi_output_bytes := dbi_output_bytes inbox - charged\<rparr>))"

section \<open>The process and its reader thread\<close>

text \<open>An exit status: the code and whether it is a success.\<close>

type_synonym exit_status = "int option \<times> bool"

text \<open>
  Where the reader thread is: before a read; before it queues a frame or an error; after the end
  of the output (\<open>True\<close> after a failure); with the state it saw; with the state it chose; before it
  reports the exit; at its end.
\<close>

datatype reader_phase =
    Reading
  | Queueing json nat
  | Failing string
  | Ending bool
  | SawState bool "exit_status option" driver_state
  | ChoseState "exit_status option" driver_state
  | StoredState "exit_status option" driver_state
  | ReportingExit "exit_status option" driver_state
  | ReaderDone

text \<open>
  What the reader thread meets at a step: a frame with its size, the end of the output, an error of
  the codec, or, where it waits for the process, the exit status it got; \<open>ReaderRuns\<close> where it
  needs nothing.
\<close>

datatype reader_input =
    FrameRead json nat | OutputEnded | OutputFailed string | ExitObserved "exit_status option" | ReaderRuns

record driver_process =
  dp_framing :: driver_framing
  dp_max_frame_bytes :: nat
  dp_max_pending_output_bytes :: nat
  dp_input_open :: bool
  dp_state :: driver_state
  dp_pending_output_bytes :: nat
  dp_effect_in_flight :: bool
  dp_exit_reported :: bool
  dp_events :: "(driver_event \<times> nat) list"
  dp_reader :: reader_phase
  dp_reader_sequence :: u64
  dp_sent :: "json list"
  dp_tick :: nat

text \<open>A process just started: the pipes are open and the reader thread waits for output.\<close>

definition started_process :: "driver_framing \<Rightarrow> nat \<Rightarrow> nat \<Rightarrow> driver_process" where
  "started_process kind max_frame_bytes max_pending_output_bytes =
     \<lparr>dp_framing = kind, dp_max_frame_bytes = max_frame_bytes,
      dp_max_pending_output_bytes = max_pending_output_bytes, dp_input_open = True,
      dp_state = DriverStarting, dp_pending_output_bytes = 0, dp_effect_in_flight = False,
      dp_exit_reported = False, dp_events = [], dp_reader = Reading, dp_reader_sequence = 0,
      dp_sent = [], dp_tick = 0\<rparr>"

definition reserve_pending_output :: "nat \<Rightarrow> driver_process \<Rightarrow> process_error + driver_process" where
  "reserve_pending_output payload_bytes p =
     (let pending = dp_pending_output_bytes p + payload_bytes in
      if pending \<le> usize_max \<and> pending \<le> dp_max_pending_output_bytes p
      then Inr (p\<lparr>dp_pending_output_bytes := pending\<rparr>)
      else Inl (PendingOutputBudgetExceeded (min pending usize_max) (dp_max_pending_output_bytes p)))"

text \<open>A send on the bounded channel waits while the channel is full.\<close>

definition queue_event :: "driver_event \<Rightarrow> nat \<Rightarrow> reader_phase \<Rightarrow> driver_process \<Rightarrow> driver_process" where
  "queue_event event charged later p =
     (if length (dp_events p) \<ge> DRIVER_EVENT_CAPACITY then p
      else p\<lparr>dp_events := dp_events p @ [(event, charged)], dp_reader := later\<rparr>)"

definition final_state_of :: "driver_state \<Rightarrow> bool \<Rightarrow> bool \<Rightarrow> exit_status option \<Rightarrow> driver_state" where
  "final_state_of previous uncertain protocol_failed status =
     (if is_terminal_driver previous then previous
      else if uncertain then DriverUnknownExecution
      else if protocol_failed then DriverFailed
      else if previous = DriverClosing \<or> (\<exists>code. status = Some (code, True)) then DriverClosed
      else DriverFailed)"

text \<open>One step of the reader thread. An input that does not fit where it is changes nothing.\<close>

definition reader_step :: "(process_error \<Rightarrow> string) \<Rightarrow> driver_process \<Rightarrow> reader_input \<Rightarrow> driver_process" where
  "reader_step error_text p input = (case (dp_reader p, input) of
       (Reading, FrameRead payload payload_bytes) \<Rightarrow>
         (case reserve_pending_output payload_bytes p of
            Inl e \<Rightarrow> p\<lparr>dp_reader := Failing (error_text e)\<rparr>
          | Inr p \<Rightarrow> p\<lparr>dp_reader_sequence := dp_reader_sequence p + 1, dp_reader := Queueing payload payload_bytes\<rparr>)
     | (Reading, OutputEnded) \<Rightarrow> p\<lparr>dp_reader := Ending False\<rparr>
     | (Reading, OutputFailed message) \<Rightarrow> p\<lparr>dp_reader := Failing message\<rparr>
     | (Queueing payload payload_bytes, ReaderRuns) \<Rightarrow>
         queue_event (DriverMessage (dp_reader_sequence p) payload) payload_bytes Reading p
     | (Failing message, ReaderRuns) \<Rightarrow> queue_event (ProtocolError message) 0 (Ending True) p
     | (Ending protocol_failed, ExitObserved status) \<Rightarrow>
         p\<lparr>dp_reader := SawState protocol_failed status (dp_state p)\<rparr>
     | (SawState protocol_failed status previous, ReaderRuns) \<Rightarrow>
         p\<lparr>dp_effect_in_flight := False,
           dp_reader := ChoseState status
             (final_state_of previous (dp_effect_in_flight p) protocol_failed status)\<rparr>
     | (ChoseState status final_state, ReaderRuns) \<Rightarrow>
         p\<lparr>dp_state := final_state, dp_reader := StoredState status final_state\<rparr>
     | (StoredState status final_state, ReaderRuns) \<Rightarrow>
         p\<lparr>dp_exit_reported := True,
           dp_reader := if dp_exit_reported p then ReaderDone else ReportingExit status final_state\<rparr>
     | (ReportingExit status final_state, ReaderRuns) \<Rightarrow>
         queue_event (DriverExited (case status of None \<Rightarrow> None | Some (code, _) \<Rightarrow> code) final_state) 0 ReaderDone p
     | _ \<Rightarrow> p)"

section \<open>The callers\<close>

record process_env =
  pe_values :: value_codec
  pe_error_text :: "process_error \<Rightarrow> string"
  pe_reader :: "nat \<Rightarrow> reader_input list"
  pe_write :: "nat \<Rightarrow> io_error option"
  pe_terminate :: "nat \<Rightarrow> process_error + exit_status option"

type_synonym 'a process_step = "(driver_process, process_error, 'a) step"

text \<open>What the reader thread does before the next access of a caller.\<close>

definition reader_turn :: "process_env \<Rightarrow> driver_process \<Rightarrow> driver_process" where
  "reader_turn E p = foldl (reader_step (pe_error_text E)) (p\<lparr>dp_tick := dp_tick p + 1\<rparr>) (pe_reader E (dp_tick p))"

definition access :: "process_env \<Rightarrow> 'a process_step \<Rightarrow> 'a process_step" where
  "access E m = then_step (update_step (reader_turn E)) m"

definition process_state :: "process_env \<Rightarrow> driver_state process_step" where
  "process_state E = access E (read_step dp_state)"

definition driver_transition :: "process_env \<Rightarrow> driver_state \<Rightarrow> driver_state \<Rightarrow> unit process_step" where
  "driver_transition E expected target = access E (bind_step (read_step dp_state) (\<lambda>actual.
     then_step (guard_step (actual = expected) (IllegalState (driver_state_text expected) actual))
       (update_step (\<lambda>p. p\<lparr>dp_state := target\<rparr>))))"

definition set_effect :: "process_env \<Rightarrow> bool \<Rightarrow> unit process_step" where
  "set_effect E flag = access E (update_step (\<lambda>p. p\<lparr>dp_effect_in_flight := flag\<rparr>))"

definition mark_ready :: "process_env \<Rightarrow> unit process_step" where
  "mark_ready E = driver_transition E DriverStarting DriverReady"

definition begin_effect :: "process_env \<Rightarrow> unit process_step" where
  "begin_effect E = then_step (driver_transition E DriverReady DriverBusy) (set_effect E True)"

definition finish_effect :: "process_env \<Rightarrow> unit process_step" where
  "finish_effect E = then_step (driver_transition E DriverBusy DriverReady) (set_effect E False)"

definition mark_waiting :: "process_env \<Rightarrow> unit process_step" where
  "mark_waiting E = driver_transition E DriverBusy DriverWaiting"

definition resolve_waiting :: "process_env \<Rightarrow> unit process_step" where
  "resolve_waiting E = then_step (driver_transition E DriverWaiting DriverReady) (set_effect E False)"

text \<open>
  A frame goes to the pipe only when the codec can write it; \<open>dp_sent\<close> keeps it then, although
  the pipe may take a part of it only.
\<close>

definition send_json :: "process_env \<Rightarrow> json \<Rightarrow> unit process_step" where
  "send_json E payload =
     bind_step (process_state E) (\<lambda>state.
     then_step (guard_step (\<not> (is_terminal_driver state \<or> state = DriverClosing)) (IllegalState ''a live driver'' state))
     (access E (bind_step (read_step (\<lambda>p. p)) (\<lambda>p.
      then_step (guard_step (dp_input_open p) InputClosed)
      (bind_step (lift_step (map_err CodecError
        (encode_frame (pe_values E) (dp_framing p) payload (dp_max_frame_bytes p)))) (\<lambda>_.
       then_step (update_step (\<lambda>p. p\<lparr>dp_sent := dp_sent p @ [payload]\<rparr>))
         (case pe_write E (dp_tick p) of
            None \<Rightarrow> return_step ()
          | Some e \<Rightarrow> fail_step (CodecError (DriverIo e)))))))))"

definition stop_process :: "process_env \<Rightarrow> driver_state process_step" where
  "stop_process E =
     bind_step (process_state E) (\<lambda>current.
     if is_terminal_driver current then return_step current
     else
       then_step (access E (update_step (\<lambda>p. p\<lparr>dp_state := DriverClosing\<rparr>)))
      (then_step (access E (update_step (\<lambda>p. p\<lparr>dp_input_open := False\<rparr>)))
      (bind_step (access E (read_step dp_effect_in_flight)) (\<lambda>uncertain.
       bind_step (read_step dp_tick) (\<lambda>n.
       bind_step (lift_step (pe_terminate E n)) (\<lambda>status.
       let final_state = (if uncertain then DriverUnknownExecution
             else if status \<noteq> None then DriverClosed else DriverFailed) in
       then_step (access E (update_step (\<lambda>p. p\<lparr>dp_state := final_state\<rparr>)))
         (return_step final_state)))))))"

text \<open>
  A receiver takes what is queued by the time its wait is over. With an empty queue the wait
  ended because the reader thread has gone or because the time is up.
\<close>

definition recv_timeout :: "process_env \<Rightarrow> driver_event process_step" where
  "recv_timeout E = access E (bind_step (read_step (\<lambda>p. p)) (\<lambda>p. case dp_events p of
       (event, charged) # events \<Rightarrow>
         then_step (update_step (\<lambda>p. p\<lparr>dp_events := events\<rparr>))
         (then_step (access E (update_step (\<lambda>p.
           p\<lparr>dp_pending_output_bytes := dp_pending_output_bytes p - charged\<rparr>)))
           (return_step event))
     | [] \<Rightarrow>
         if dp_reader p = ReaderDone then fail_step EventStreamClosed
         else bind_step (access E (read_step dp_effect_in_flight)) (\<lambda>in_flight.
           if in_flight then bind_step (stop_process E) (\<lambda>state. fail_step (EffectTimedOut state))
           else fail_step DriverTimeout)))"

section \<open>Effects that may have run\<close>

text \<open>
  An effect whose end nobody has seen leaves a mark: the flag is up and the reader thread has not
  looked at it yet, or the thread has taken it down and its verdict is that the execution is
  unknown.
\<close>

definition unknown_verdict :: "driver_process \<Rightarrow> bool" where
  "unknown_verdict p \<longleftrightarrow> (case dp_reader p of
       ChoseState _ s \<Rightarrow> s = DriverUnknownExecution \<and> \<not> dp_exit_reported p
     | StoredState _ s \<Rightarrow> s = DriverUnknownExecution \<and> \<not> dp_exit_reported p
     | ReportingExit _ s \<Rightarrow> s = DriverUnknownExecution
     | ReaderDone \<Rightarrow> \<exists>code. DriverExited code DriverUnknownExecution \<in> fst ` set (dp_events p)
     | _ \<Rightarrow> False)"

definition before_exit :: "reader_phase \<Rightarrow> bool" where
  "before_exit phase \<longleftrightarrow> (case phase of
       Reading \<Rightarrow> True | Queueing _ _ \<Rightarrow> True | Failing _ \<Rightarrow> True | Ending _ \<Rightarrow> True | _ \<Rightarrow> False)"

definition effect_marked :: "driver_process \<Rightarrow> bool" where
  "effect_marked p \<longleftrightarrow> dp_effect_in_flight p \<and> \<not> dp_exit_reported p \<and> \<not> is_terminal_driver (dp_state p)
     \<and> (before_exit (dp_reader p)
        \<or> (\<exists>failed status previous. dp_reader p = SawState failed status previous \<and> \<not> is_terminal_driver previous))"



text \<open>A mark without an exit that the thread has observed: the thread has not reached the flag.\<close>

definition effect_running :: "driver_process \<Rightarrow> bool" where
  "effect_running p \<longleftrightarrow> effect_marked p \<and> before_exit (dp_reader p)"


lemma verdict_update [simp]:
  "unknown_verdict (p\<lparr>dp_state := s\<rparr>) = unknown_verdict p"
  "unknown_verdict (p\<lparr>dp_input_open := b\<rparr>) = unknown_verdict p"
  "unknown_verdict (p\<lparr>dp_tick := n\<rparr>) = unknown_verdict p"
  by (cases "dp_reader p"; simp add: unknown_verdict_def)+

lemma marked_update [simp]:
  "effect_marked (p\<lparr>dp_input_open := b\<rparr>) = effect_marked p"
  "effect_marked (p\<lparr>dp_tick := n\<rparr>) = effect_marked p"
  "effect_running (p\<lparr>dp_input_open := b\<rparr>) = effect_running p"
  "effect_running (p\<lparr>dp_tick := n\<rparr>) = effect_running p"
  by (simp_all add: effect_marked_def effect_running_def)









section \<open>Properties\<close>


definition busy_process :: driver_process where
  "busy_process = (started_process ContentLength 100 100)\<lparr>dp_state := DriverBusy, dp_effect_in_flight := True\<rparr>"


lemma busy_marked: "effect_marked busy_process"
  by (simp add: effect_marked_def busy_process_def started_process_def is_terminal_driver_def before_exit_def)



end
