(* ===== verification/Deno_Lsp.thy ===== *)
theory Deno_Lsp
  imports Driver_Process
begin

text \<open>
  The client of the Deno language server, \<open>DenoLspClient\<close> of \<^verbatim>\<open>hyper-term-drivers/src/deno_lsp.rs\<close>,
  after its process was started: the handshake, requests and notifications, the replies to what
  the server asks, the inbox of what comes while a response is awaited, and the shutdown. The
  process is the one of \<open>Driver_Process\<close>.

  The gate of the requests is held for a whole call, so calls are run one after the other. The
  number of events that are received before a deadline passes is an argument of the loops. The
  objects of a \<^verbatim>\<open>json!\<close> literal have their entries in the order of the source.
\<close>

section \<open>State\<close>

definition MAX_BUFFERED_LSP_EVENTS :: nat where
  "MAX_BUFFERED_LSP_EVENTS = 512"

definition MAX_BUFFERED_LSP_OUTPUT_BYTES :: nat where
  "MAX_BUFFERED_LSP_OUTPUT_BYTES = 8 * 1024 * 1024"

datatype deno_lsp_error =
    LspDriver process_error
  | LspInvalidConfig string
  | LspNotReady
  | LspTimeout (* request_id *) u64
  | LspNotificationTimeout string
  | LspRemote (* request_id *) u64 json
  | LspProtocol string
  | LspExited driver_state
  | LspInboxOverflow

record deno_lsp_client =
  dlc_process :: driver_process
  dlc_next_request_id :: u64
  dlc_inbox :: driver_inbox
  dlc_workspace_uri :: string
  dlc_config_file :: "string option"

record lsp_env =
  le_process :: process_env
  le_process_id :: u32
  le_version :: string

type_synonym 'a lsp_step = "(deno_lsp_client, deno_lsp_error, 'a) step"

text \<open>The client that a launch ends with, for the canonical workspace.\<close>

definition launched_client :: "string \<Rightarrow> string option \<Rightarrow> nat \<Rightarrow> nat \<Rightarrow> deno_lsp_client" where
  "launched_client workspace config_file max_frame_bytes max_pending_output_bytes =
     \<lparr>dlc_process = started_process ContentLength max_frame_bytes max_pending_output_bytes,
      dlc_next_request_id = 1,
      dlc_inbox = new_inbox MAX_BUFFERED_LSP_EVENTS MAX_BUFFERED_LSP_OUTPUT_BYTES,
      dlc_workspace_uri = path_to_file_uri workspace, dlc_config_file = config_file\<rparr>"

definition in_process :: "'a process_step \<Rightarrow> 'a lsp_step" where
  "in_process m c = (case m (dlc_process c) of (r, p) \<Rightarrow> (map_err LspDriver r, c\<lparr>dlc_process := p\<rparr>))"

text \<open>A result that is thrown away.\<close>

definition ignore_process :: "'a process_step \<Rightarrow> unit lsp_step" where
  "ignore_process m = bind_step (attempt_step (in_process m)) (\<lambda>_. return_step ())"

definition next_request_id :: "u64 lsp_step" where
  "next_request_id = bind_step (read_step dlc_next_request_id) (\<lambda>i.
     then_step (update_step (\<lambda>c. c\<lparr>dlc_next_request_id := i + 1\<rparr>)) (return_step i))"

section \<open>Messages\<close>

definition lsp_settings :: "string option \<Rightarrow> json" where
  "lsp_settings config_file = JObject
     ([(''enable'', JBool True), (''lint'', JBool True), (''unstable'', JBool False)]
      @ (case config_file of None \<Rightarrow> [] | Some path \<Rightarrow> [(''config'', JString path)]))"

definition lsp_folder :: "string \<Rightarrow> json" where
  "lsp_folder uri = JObject [(''uri'', JString uri), (''name'', JString ''workspace-snapshot'')]"

definition initialize_message :: "lsp_env \<Rightarrow> u64 \<Rightarrow> string \<Rightarrow> string option \<Rightarrow> json" where
  "initialize_message E i uri config_file = JObject
     [(''jsonrpc'', JString ''2.0''), (''id'', JNumber (PosInt i)), (''method'', JString ''initialize''),
      (''params'', JObject
        [(''processId'', JNumber (PosInt (ucast (le_process_id E)))),
         (''clientInfo'', JObject [(''name'', JString ''hyper-term''), (''version'', JString (le_version E))]),
         (''locale'', JString ''en''), (''rootUri'', JString uri),
         (''workspaceFolders'', JArray [lsp_folder uri]), (''capabilities'', JObject []),
         (''initializationOptions'', lsp_settings config_file)])]"

definition initialized_message :: json where
  "initialized_message = JObject
     [(''jsonrpc'', JString ''2.0''), (''method'', JString ''initialized''), (''params'', JObject [])]"

definition exit_message :: json where
  "exit_message = JObject [(''jsonrpc'', JString ''2.0''), (''method'', JString ''exit''), (''params'', JNull)]"

definition request_message :: "u64 \<Rightarrow> string \<Rightarrow> json option \<Rightarrow> json" where
  "request_message i m params = JObject
     ([(''jsonrpc'', JString ''2.0''), (''id'', JNumber (PosInt i)), (''method'', JString m)]
      @ (case params of None \<Rightarrow> [] | Some v \<Rightarrow> [(''params'', v)]))"

definition notify_message :: "string \<Rightarrow> json \<Rightarrow> json" where
  "notify_message m params = JObject
     [(''jsonrpc'', JString ''2.0''), (''method'', JString m), (''params'', params)]"

definition reply_message :: "json \<Rightarrow> json \<Rightarrow> json" where
  "reply_message i result = JObject [(''jsonrpc'', JString ''2.0''), (''id'', i), (''result'', result)]"

definition lsp_id :: "json \<Rightarrow> bool" where
  "lsp_id v \<longleftrightarrow> (case v of JString _ \<Rightarrow> True | JNumber (PosInt _) \<Rightarrow> True | JNumber (NegInt _) \<Rightarrow> True | _ \<Rightarrow> False)"

text \<open>What the server asks is answered from the workspace and the configuration alone.\<close>

definition server_request_response :: "json \<Rightarrow> string \<Rightarrow> string option \<Rightarrow> json option" where
  "server_request_response payload uri config_file =
     and_maybe (json_get ''id'' payload) (\<lambda>i.
     if \<not> lsp_id i then None
     else and_maybe (and_maybe (json_get ''method'' payload) as_str) (\<lambda>m.
       and_maybe
        (if m = ''workspace/configuration'' then
           let count = (case and_maybe (json_get ''params'' payload) (json_get ''items'') of
                Some (JArray items) \<Rightarrow> length items | _ \<Rightarrow> 1) in
           Some (JArray (replicate count (lsp_settings config_file)))
         else if m = ''workspace/workspaceFolders'' then Some (JArray [lsp_folder uri])
         else if m \<in> {''window/workDoneProgress/create'', ''client/registerCapability''} then Some JNull
         else None)
        (\<lambda>result. Some (reply_message i result))))"

section \<open>Waiting\<close>

text \<open>A server's request is answered on the way; the flag says whether the message was one.\<close>

definition answer_server :: "lsp_env \<Rightarrow> json \<Rightarrow> bool lsp_step" where
  "answer_server E payload = bind_step (read_step (\<lambda>c.
     server_request_response payload (dlc_workspace_uri c) (dlc_config_file c))) (\<lambda>reply. case reply of
       None \<Rightarrow> return_step False
     | Some reply \<Rightarrow> then_step (in_process (send_json (le_process E) reply)) (return_step True))"

definition keep_event :: "lsp_env \<Rightarrow> driver_event \<Rightarrow> unit lsp_step" where
  "keep_event E event = bind_step (read_step dlc_inbox) (\<lambda>inbox.
     case inbox_push (pe_values (le_process E)) event inbox of
       Inl _ \<Rightarrow> fail_step LspInboxOverflow
     | Inr inbox \<Rightarrow> update_step (\<lambda>c. c\<lparr>dlc_inbox := inbox\<rparr>))"

text \<open>The received event, with the time-outs of the process as the time-out \<open>late\<close> of the caller.\<close>

definition receive_event :: "lsp_env \<Rightarrow> deno_lsp_error \<Rightarrow> driver_event lsp_step" where
  "receive_event E late = bind_step (attempt_step (in_process (recv_timeout (le_process E)))) (\<lambda>r. case r of
       Inr event \<Rightarrow> return_step event
     | Inl (LspDriver DriverTimeout) \<Rightarrow> fail_step late
     | Inl (LspDriver (EffectTimedOut _)) \<Rightarrow> fail_step late
     | Inl e \<Rightarrow> fail_step e)"

text \<open>
  The response that a message is, if it is one: what the loop returns. Another event is kept in
  the inbox.
\<close>

definition response_of :: "u64 \<Rightarrow> json \<Rightarrow> (deno_lsp_error + json) option" where
  "response_of i payload =
     (if json_get ''id'' payload = Some (JNumber (PosInt i))
      then Some (case json_get ''error'' payload of
          Some e \<Rightarrow> Inl (LspRemote i e)
        | None \<Rightarrow> Inr payload)
      else None)"

text \<open>The loop of \<open>wait_for_response\<close>; the first argument counts the events before the deadline.\<close>

fun wait_for_response :: "nat \<Rightarrow> lsp_env \<Rightarrow> u64 \<Rightarrow> json lsp_step" where
  "wait_for_response 0 E i = fail_step (LspTimeout i)"
| "wait_for_response (Suc n) E i = bind_step (receive_event E (LspTimeout i)) (\<lambda>event. case event of
       ProtocolError message \<Rightarrow> fail_step (LspProtocol message)
     | DriverExited _ state \<Rightarrow> fail_step (LspExited state)
     | DriverMessage _ payload \<Rightarrow> bind_step (answer_server E payload) (\<lambda>answered.
         if answered then wait_for_response n E i
         else case response_of i payload of
             Some r \<Rightarrow> lift_step r
           | None \<Rightarrow> then_step (keep_event E event) (wait_for_response n E i)))"

definition pop_event :: "driver_event option lsp_step" where
  "pop_event = bind_step (read_step dlc_inbox) (\<lambda>inbox. case inbox_pop inbox of
       None \<Rightarrow> return_step None
     | Some (event, inbox) \<Rightarrow> then_step (update_step (\<lambda>c. c\<lparr>dlc_inbox := inbox\<rparr>)) (return_step (Some event)))"

fun wait_for_notification :: "nat \<Rightarrow> lsp_env \<Rightarrow> string \<Rightarrow> json lsp_step" where
  "wait_for_notification 0 E m = fail_step (LspNotificationTimeout m)"
| "wait_for_notification (Suc n) E m = bind_step (bind_step pop_event (\<lambda>kept. case kept of
         Some event \<Rightarrow> return_step event
       | None \<Rightarrow> receive_event E (LspNotificationTimeout m))) (\<lambda>event. case event of
       ProtocolError message \<Rightarrow> fail_step (LspProtocol message)
     | DriverExited _ state \<Rightarrow> fail_step (LspExited state)
     | DriverMessage _ payload \<Rightarrow> bind_step (answer_server E payload) (\<lambda>answered.
         if answered then wait_for_notification n E m
         else if and_maybe (json_get ''method'' payload) as_str = Some m then return_step payload
         else wait_for_notification n E m))"

section \<open>Calls\<close>

definition stop_client :: "lsp_env \<Rightarrow> unit lsp_step" where
  "stop_client E = ignore_process (stop_process (le_process E))"

definition require_ready :: "lsp_env \<Rightarrow> unit lsp_step" where
  "require_ready E = bind_step (in_process (process_state (le_process E))) (\<lambda>state.
     guard_step (state = DriverReady) LspNotReady)"

definition initialize_client :: "lsp_env \<Rightarrow> nat \<Rightarrow> json lsp_step" where
  "initialize_client E n =
     bind_step next_request_id (\<lambda>i.
     bind_step (read_step (\<lambda>c. initialize_message E i (dlc_workspace_uri c) (dlc_config_file c))) (\<lambda>message.
     then_step (on_error_step (in_process (send_json (le_process E) message)) (\<lambda>_. stop_client E))
     (bind_step (on_error_step (wait_for_response n E i) (\<lambda>_. stop_client E)) (\<lambda>response.
      then_step (in_process (mark_ready (le_process E)))
      (then_step (in_process (send_json (le_process E) initialized_message))
        (return_step response))))))"

definition request_inner :: "lsp_env \<Rightarrow> nat \<Rightarrow> string \<Rightarrow> json option \<Rightarrow> json lsp_step" where
  "request_inner E n m params =
     then_step (guard_step (m \<noteq> [] \<and> length m \<le> 256)
       (LspInvalidConfig ''LSP request method is empty or oversized''))
     (then_step (require_ready E)
     (bind_step next_request_id (\<lambda>i.
      then_step (in_process (begin_effect (le_process E)))
      (then_step (on_error_step (in_process (send_json (le_process E) (request_message i m params))) (\<lambda>_. stop_client E))
      (bind_step (attempt_step (wait_for_response n E i)) (\<lambda>r. case r of
           Inr response \<Rightarrow> then_step (in_process (finish_effect (le_process E))) (return_step response)
         | Inl (LspRemote j e) \<Rightarrow>
             then_step (in_process (finish_effect (le_process E))) (fail_step (LspRemote j e))
         | Inl e \<Rightarrow> then_step (stop_client E) (fail_step e)))))))"

definition lsp_request :: "lsp_env \<Rightarrow> nat \<Rightarrow> string \<Rightarrow> json \<Rightarrow> json lsp_step" where
  "lsp_request E n m params = request_inner E n m (Some params)"

definition lsp_notify :: "lsp_env \<Rightarrow> string \<Rightarrow> json \<Rightarrow> unit lsp_step" where
  "lsp_notify E m params =
     then_step (require_ready E) (in_process (send_json (le_process E) (notify_message m params)))"

definition lsp_respond :: "lsp_env \<Rightarrow> json \<Rightarrow> json \<Rightarrow> unit lsp_step" where
  "lsp_respond E i result =
     then_step (require_ready E)
     (then_step (guard_step (lsp_id i) (LspInvalidConfig ''LSP response ID must be a string or integer''))
       (in_process (send_json (le_process E) (reply_message i result))))"

definition lsp_recv_timeout :: "lsp_env \<Rightarrow> driver_event lsp_step" where
  "lsp_recv_timeout E = bind_step pop_event (\<lambda>kept. case kept of
       Some event \<Rightarrow> return_step event
     | None \<Rightarrow> in_process (recv_timeout (le_process E)))"

definition await_notification :: "lsp_env \<Rightarrow> nat \<Rightarrow> string \<Rightarrow> json lsp_step" where
  "await_notification E n m =
     then_step (guard_step (m \<noteq> [] \<and> length m \<le> 256)
       (LspInvalidConfig ''LSP notification method is empty or oversized''))
     (then_step (require_ready E) (wait_for_notification n E m))"

definition shutdown_client :: "lsp_env \<Rightarrow> nat \<Rightarrow> driver_state lsp_step" where
  "shutdown_client E n =
     bind_step (in_process (process_state (le_process E))) (\<lambda>state.
     then_step (when_step (state = DriverReady)
       (then_step (request_inner E n ''shutdown'' None)
         (in_process (send_json (le_process E) exit_message))))
     (in_process (stop_process (le_process E))))"

end
