(* ===== verification/Deno_Lsp_Safety.thy ===== *)
theory Deno_Lsp_Safety
  imports Deno_Lsp Brokered_Safety
begin

text \<open>
  What a language server is sent: the client's own messages, which are about the workspace it was
  launched for, and what its caller asks. With the calls of the executor of brokered tools this
  is the workspace snapshot and documents of it.
\<close>

section \<open>The messages of a client\<close>






section \<open>Calls\<close>






section \<open>What is written\<close>













section \<open>What a client writes\<close>






















section \<open>With the executor\<close>



section \<open>A session\<close>



section \<open>Properties\<close>



end
