(* ===== verification/Workspace_Diff.thy ===== *)
theory Workspace_Diff
  imports Wire Driver_Codec
begin

text \<open>
  The review of a change to a workspace file, \<^verbatim>\<open>hyper-term-daemon/src/workspace_diff.rs\<close>: the hunks
  a person sees, the digest of the whole review, and the text that results when some of the hunks
  are selected. SHA-256 is a parameter, and so is what each run of the crate \<^verbatim>\<open>similar\<close> answers;
  what the code relies on of such an answer is the predicate \<open>similar_ok\<close>.
\<close>

section \<open>The diff library\<close>

datatype diff_tag = EqualTag | DeleteTag | InsertTag | ReplaceTag
datatype change_tag = EqualChange | DeleteChange | InsertChange

text \<open>An operation, by what the code asks of it: its tag, its two ranges and its changes.\<close>

record diff_op =
  df_tag :: diff_tag
  df_old_range :: "nat \<times> nat"
  df_new_range :: "nat \<times> nat"
  df_changes :: "(change_tag \<times> string) list"

text \<open>
  What one run of the library answers. The code gives it 100 ms: a run that passes the deadline
  answers with a coarser diff of the same texts, so two runs on the same texts may answer
  differently, and every call of the code has the answer of its own run as an argument.
\<close>

record text_diff =
  td_ops :: "diff_op list"
  td_grouped_ops :: "diff_op list list"

record diff_crate =
  df_sha256 :: "bytes \<Rightarrow> bytes"

section \<open>Reviews\<close>

definition MAX_WORKSPACE_HUNKS_PER_FILE :: nat where
  "MAX_WORKSPACE_HUNKS_PER_FILE = 256"

record workspace_diff_hunk =
  wdh_id :: string
  wdh_base_start :: nat
  wdh_base_lines :: nat
  wdh_proposed_start :: nat
  wdh_proposed_lines :: nat
  wdh_patch :: string

record workspace_diff_review =
  wdr_base_digest :: string
  wdr_artifact_digest :: string
  wdr_review_digest :: string
  wdr_hunks :: "workspace_diff_hunk list"

datatype workspace_diff_error = InvalidSelection | NoChanges

record workspace_diff_analysis =
  wda_ops :: "diff_op list"
  wda_groups :: "diff_op list list"
  wda_hunks :: "workspace_diff_hunk list"

definition changes_text :: "diff_op \<Rightarrow> bool" where
  "changes_text op \<longleftrightarrow> df_tag op \<noteq> EqualTag"

definition op_key :: "diff_op \<Rightarrow> nat \<times> nat \<times> nat \<times> nat" where
  "op_key op = (fst (df_old_range op), snd (df_old_range op), fst (df_new_range op), snd (df_new_range op))"

definition display_start :: "nat \<Rightarrow> nat \<Rightarrow> nat" where
  "display_start index lines = (if lines = 0 then index else index + 1)"

definition sha256_text :: "diff_crate \<Rightarrow> bytes \<Rightarrow> string" where
  "sha256_text D bs = hex_lower (df_sha256 D bs)"

definition change_mark :: "change_tag \<Rightarrow> char" where
  "change_mark tag = (case tag of EqualChange \<Rightarrow> CHR '' '' | DeleteChange \<Rightarrow> CHR ''-'' | InsertChange \<Rightarrow> CHR ''+'')"

definition change_line :: "change_tag \<times> string \<Rightarrow> string" where
  "change_line change = (case change of (tag, v) \<Rightarrow>
     change_mark tag # v @ (if v \<noteq> [] \<and> last v = CHR 0x0A then [] else [CHR 0x0A]))"

definition range_length :: "nat \<times> nat \<Rightarrow> nat" where
  "range_length r = snd r - fst r"

definition patch_text :: "nat \<times> nat \<Rightarrow> nat \<times> nat \<Rightarrow> diff_op list \<Rightarrow> string" where
  "patch_text base proposed ops =
     ''@@ -'' @ decimal (display_start (fst base) (range_length base)) @ '','' @ decimal (range_length base)
     @ '' +'' @ decimal (display_start (fst proposed) (range_length proposed)) @ '','' @ decimal (range_length proposed)
     @ '' @@'' @ [CHR 0x0A]
     @ concat (map change_line (concat (map df_changes ops)))"

definition hunk_identity :: "string \<Rightarrow> nat \<times> nat \<Rightarrow> nat \<times> nat \<Rightarrow> string \<Rightarrow> bytes" where
  "hunk_identity target_path base proposed patch =
     bytes_of_string ''hyper-term.workspace.hunk.v1'' @ [0]
     @ be_bytes 8 (length target_path) @ bytes_of_string target_path
     @ be_bytes 8 (fst base) @ be_bytes 8 (range_length base)
     @ be_bytes 8 (fst proposed) @ be_bytes 8 (range_length proposed)
     @ be_bytes 8 (length patch) @ bytes_of_string patch"

text \<open>The source expects a change in every group, and panics otherwise: \<open>None\<close>.\<close>

definition build_hunk :: "diff_crate \<Rightarrow> string \<Rightarrow> diff_op list \<Rightarrow> workspace_diff_hunk option" where
  "build_hunk D target_path ops = (case filter changes_text ops of
       [] \<Rightarrow> None
     | changed \<Rightarrow>
         let base = (fst (df_old_range (hd changed)), snd (df_old_range (last changed)));
             proposed = (fst (df_new_range (hd changed)), snd (df_new_range (last changed)));
             patch = patch_text base proposed ops in
         Some \<lparr>wdh_id = sha256_text D (hunk_identity target_path base proposed patch),
           wdh_base_start = display_start (fst base) (range_length base), wdh_base_lines = range_length base,
           wdh_proposed_start = display_start (fst proposed) (range_length proposed),
           wdh_proposed_lines = range_length proposed, wdh_patch = patch\<rparr>)"

primrec build_hunks :: "diff_crate \<Rightarrow> string \<Rightarrow> diff_op list list \<Rightarrow> workspace_diff_hunk list option" where
  "build_hunks D target_path [] = Some []"
| "build_hunks D target_path (ops # groups) = (case (build_hunk D target_path ops, build_hunks D target_path groups) of
       (Some hunk, Some hunks) \<Rightarrow> Some (hunk # hunks)
     | _ \<Rightarrow> None)"

definition hunk_groups :: "text_diff \<Rightarrow> diff_op list list" where
  "hunk_groups T =
     (let groups = td_grouped_ops T in
      if length groups > MAX_WORKSPACE_HUNKS_PER_FILE then [td_ops T] else groups)"

definition analyze :: "diff_crate \<Rightarrow> text_diff \<Rightarrow> string \<Rightarrow> workspace_diff_analysis option" where
  "analyze D T target_path =
     (let groups = hunk_groups T in
      map_option (\<lambda>hunks. \<lparr>wda_ops = td_ops T, wda_groups = groups, wda_hunks = hunks\<rparr>)
        (build_hunks D target_path groups))"

definition review_digest :: "diff_crate \<Rightarrow> string \<Rightarrow> string \<Rightarrow> string \<Rightarrow> workspace_diff_hunk list \<Rightarrow> string" where
  "review_digest D target_path before artifact_after hunks = sha256_text D
     (bytes_of_string ''hyper-term.workspace.diff-review.v1'' @ [0]
      @ be_bytes 8 (length target_path) @ bytes_of_string target_path
      @ bytes_of_string (sha256_text D (bytes_of_string before))
      @ bytes_of_string (sha256_text D (bytes_of_string artifact_after))
      @ concat (map (\<lambda>hunk. bytes_of_string (wdh_id hunk)) hunks))"

definition review_workspace_diff :: "diff_crate \<Rightarrow> text_diff \<Rightarrow> string \<Rightarrow> string \<Rightarrow> string \<Rightarrow> workspace_diff_review option" where
  "review_workspace_diff D T target_path before artifact_after =
     map_option (\<lambda>analysis. \<lparr>wdr_base_digest = sha256_text D (bytes_of_string before),
       wdr_artifact_digest = sha256_text D (bytes_of_string artifact_after),
       wdr_review_digest = review_digest D target_path before artifact_after (wda_hunks analysis),
       wdr_hunks = wda_hunks analysis\<rparr>) (analyze D T target_path)"

section \<open>Selecting hunks\<close>

text \<open>The hunk of every operation that changes something; a later entry of a key replaces an earlier one.\<close>

definition op_hunks :: "workspace_diff_analysis \<Rightarrow> nat \<times> nat \<times> nat \<times> nat \<rightharpoonup> string" where
  "op_hunks analysis = map_of (rev (concat (map (\<lambda>(hunk, ops). map (\<lambda>op. (op_key op, wdh_id hunk))
     (filter changes_text ops)) (zip (wda_hunks analysis) (wda_groups analysis)))))"

definition kept_change :: "bool \<Rightarrow> change_tag \<Rightarrow> bool" where
  "kept_change apply tag \<longleftrightarrow> (if apply then tag \<noteq> DeleteChange else tag \<noteq> InsertChange)"

definition op_text :: "bool \<Rightarrow> diff_op \<Rightarrow> string" where
  "op_text apply op = concat (map snd (filter (\<lambda>(tag, _). kept_change apply tag) (df_changes op)))"

definition selected_text ::
    "(nat \<times> nat \<times> nat \<times> nat \<rightharpoonup> string) \<Rightarrow> string list \<Rightarrow> diff_op \<Rightarrow> workspace_diff_error + string" where
  "selected_text hunk_of selected op =
     (if \<not> changes_text op then Inr (concat (map snd (df_changes op)))
      else and_then (ok_or (hunk_of (op_key op)) InvalidSelection) (\<lambda>hunk_id.
        Inr (op_text (hunk_id \<in> set selected) op)))"

definition select_workspace_hunks ::
    "diff_crate \<Rightarrow> text_diff \<Rightarrow> string \<Rightarrow> string \<Rightarrow> string \<Rightarrow> string \<Rightarrow> string list
      \<Rightarrow> (workspace_diff_error + string) option" where
  "select_workspace_hunks D T target_path before artifact_after expected_review_digest selected =
     (if selected = [] then Some (Inl NoChanges)
      else map_option (\<lambda>analysis.
        if review_digest D target_path before artifact_after (wda_hunks analysis) \<noteq> expected_review_digest
        then Inl InvalidSelection
        else if \<not> distinct selected \<or> \<not> set selected \<subseteq> wdh_id ` set (wda_hunks analysis)
        then Inl InvalidSelection
        else and_then (try_map (selected_text (op_hunks analysis) selected) (wda_ops analysis)) (\<lambda>texts.
          if concat texts = before then Inl NoChanges else Inr (concat texts)))
      (analyze D T target_path))"

section \<open>What the library promises\<close>

text \<open>
  The operations of a diff cover both texts in order: without the insertions they spell the old
  text and without the deletions the new one; an operation that is tagged as equal has changes
  that are. The groups hold the operations that change something, each once and in order, and
  every group has one. No two of these operations have the same ranges.
\<close>

definition old_text :: "diff_op \<Rightarrow> string" where
  "old_text op = concat (map snd (filter (\<lambda>(tag, _). tag \<in> {EqualChange, DeleteChange}) (df_changes op)))"

definition new_text :: "diff_op \<Rightarrow> string" where
  "new_text op = concat (map snd (filter (\<lambda>(tag, _). tag \<in> {EqualChange, InsertChange}) (df_changes op)))"

lemma op_text_sides: "op_text False op = old_text op" "op_text True op = new_text op"
proof -
  have "kept_change False tag \<longleftrightarrow> tag \<in> {EqualChange, DeleteChange}"
    "kept_change True tag \<longleftrightarrow> tag \<in> {EqualChange, InsertChange}" for tag
    by (cases tag; simp add: kept_change_def)+
  then show "op_text False op = old_text op" "op_text True op = new_text op"
    by (simp_all add: op_text_def old_text_def new_text_def)
qed

lemma op_text_if: "op_text apply op = (if apply then new_text op else old_text op)"
  by (simp add: op_text_sides)

definition similar_ok :: "text_diff \<Rightarrow> string \<Rightarrow> string \<Rightarrow> bool" where
  "similar_ok T before after \<longleftrightarrow>
     concat (map (old_text) (td_ops T)) = before
     \<and> concat (map (new_text) (td_ops T)) = after
     \<and> (\<forall>op \<in> set (td_ops T). \<not> changes_text op \<longrightarrow> fst ` set (df_changes op) \<subseteq> {EqualChange})
     \<and> filter changes_text (concat (td_grouped_ops T)) = filter changes_text (td_ops T)
     \<and> (\<forall>ops \<in> set (td_grouped_ops T). filter changes_text ops \<noteq> [])
     \<and> distinct (map op_key (filter changes_text (td_ops T)))"

lemma similar_okD:
  assumes "similar_ok T before after"
  shows "concat (map (old_text) (td_ops T)) = before"
    "concat (map (new_text) (td_ops T)) = after"
    "op \<in> set (td_ops T) \<Longrightarrow> \<not> changes_text op \<Longrightarrow> fst ` set (df_changes op) \<subseteq> {EqualChange}"
    "distinct (map op_key (filter changes_text (td_ops T)))"
  using assms by (simp_all add: similar_ok_def)

lemma hunk_groups_ok:
  assumes "similar_ok T before after"
  shows "filter changes_text (concat (hunk_groups T)) = filter changes_text (td_ops T)"
    and "ops \<in> set (hunk_groups T) \<Longrightarrow> filter changes_text ops \<noteq> []"
proof -
  have groups: "filter changes_text (concat (td_grouped_ops T)) = filter changes_text (td_ops T)"
    "\<And>ops. ops \<in> set (td_grouped_ops T) \<Longrightarrow> filter changes_text ops \<noteq> []"
    using assms by (simp_all add: similar_ok_def)
  show "filter changes_text (concat (hunk_groups T)) = filter changes_text (td_ops T)"
    using groups(1) by (simp add: hunk_groups_def Let_def)
  have "filter changes_text (td_ops T) \<noteq> []" if "td_grouped_ops T \<noteq> []"
    using that groups by (cases "td_grouped_ops T") (auto simp: groups(1) [symmetric])
  then show "filter changes_text ops \<noteq> []" if "ops \<in> set (hunk_groups T)"
    using that groups(2) by (cases "td_grouped_ops T = []") (auto simp: hunk_groups_def Let_def split: if_splits)
qed

section \<open>Selections\<close>

lemma build_hunks_total:
  assumes "\<And>ops. ops \<in> set groups \<Longrightarrow> filter changes_text ops \<noteq> []"
  shows "\<exists>hunks. build_hunks D target_path groups = Some hunks \<and> length hunks = length groups"
  using assms
proof (induction groups)
  case (Cons ops groups)
  then obtain hunks where "build_hunks D target_path groups = Some hunks" "length hunks = length groups" by auto
  moreover obtain hunk where "build_hunk D target_path ops = Some hunk"
    using Cons.prems [of ops] by (cases "filter changes_text ops") (auto simp: build_hunk_def Let_def)
  ultimately show ?case by simp
qed simp

lemma map_of_rev_distinct: "distinct (map fst xs) \<Longrightarrow> (k, v) \<in> set xs \<Longrightarrow> map_of (rev xs) k = Some v"
  by (simp add: rev_map [symmetric])

lemma labels_of_groups:
  assumes "length hunks = length groups" and "\<And>hunk op ops. (hunk, ops) \<in> set (zip hunks groups) \<Longrightarrow> op \<in> set ops \<Longrightarrow>
      changes_text op \<Longrightarrow> f op = Some (wdh_id hunk)"
  shows "map f (concat (map (filter changes_text) groups))
    = concat (map (\<lambda>(hunk, ops). replicate (length (filter changes_text ops)) (Some (wdh_id hunk))) (zip hunks groups))"
  using assms
proof (induction hunks groups rule: list_induct2)
  case (Cons hunk hunks ops groups)
  have "map f (filter changes_text ops) = replicate (length (filter changes_text ops)) (Some (wdh_id hunk))"
    using Cons.prems [of hunk ops] by (intro replicate_eqI) auto
  moreover have "map f (concat (map (filter changes_text) groups))
    = concat (map (\<lambda>(hunk, ops). replicate (length (filter changes_text ops)) (Some (wdh_id hunk))) (zip hunks groups))"
    using Cons.prems by (intro Cons.IH) auto
  ultimately show ?case by simp
qed simp

definition segment_of :: "workspace_diff_analysis \<Rightarrow> diff_op \<Rightarrow> string \<times> string \<times> string option" where
  "segment_of analysis op = (old_text op, new_text op,
     if changes_text op then op_hunks analysis (op_key op) else None)"

lemma op_hunks_group:
  assumes "distinct (map op_key (filter changes_text (concat (wda_groups analysis))))"
    and "(hunk, ops) \<in> set (zip (wda_hunks analysis) (wda_groups analysis))" and "op \<in> set ops" and "changes_text op"
    and "length (wda_hunks analysis) = length (wda_groups analysis)"
  shows "op_hunks analysis (op_key op) = Some (wdh_id hunk)"
proof -
  let ?entries = "\<lambda>hunks groups. concat (map (\<lambda>(hunk, ops). map (\<lambda>op. (op_key op, wdh_id hunk))
     (filter changes_text ops)) (zip hunks groups))"
  have "map fst (?entries hunks groups) = map op_key (filter changes_text (concat groups))"
    if "length hunks = length groups" for hunks groups
    using that by (induction hunks groups rule: list_induct2) simp_all
  from this [OF assms(5)] have "map fst (?entries (wda_hunks analysis) (wda_groups analysis))
      = map op_key (filter changes_text (concat (wda_groups analysis)))" .
  then have "distinct (map fst (?entries (wda_hunks analysis) (wda_groups analysis)))" using assms(1) by simp
  moreover have "(op_key op, wdh_id hunk) \<in> set (?entries (wda_hunks analysis) (wda_groups analysis))"
    using assms(2-4) by (force simp: set_zip)
  ultimately show ?thesis unfolding op_hunks_def by (rule map_of_rev_distinct)
qed

lemma equal_text:
  assumes "fst ` set (df_changes op) \<subseteq> {EqualChange}"
  shows "op_text apply op = concat (map snd (df_changes op))"
proof -
  have "filter (\<lambda>(tag, _). kept_change apply tag) (df_changes op) = df_changes op"
    using assms by (auto simp: filter_id_conv kept_change_def)
  then show ?thesis by (simp add: op_text_def)
qed


text \<open>The analysis of two texts exists, and names the hunk of every operation that changes something.\<close>

lemma analyze_ok:
  assumes "similar_ok T before artifact_after"
  obtains analysis where "analyze D T target_path = Some analysis"
    "wda_ops analysis = td_ops T" "wda_groups analysis = hunk_groups T"
    "length (wda_hunks analysis) = length (wda_groups analysis)"
proof -
  obtain hunks where "build_hunks D target_path (hunk_groups T) = Some hunks"
      "length hunks = length (hunk_groups T)"
    using build_hunks_total hunk_groups_ok(2) [OF assms] by meson
  then show ?thesis
    by (intro that [of "\<lparr>wda_ops = td_ops T, wda_groups = hunk_groups T,
      wda_hunks = hunks\<rparr>"]) (simp_all add: analyze_def Let_def)
qed

definition analysis_of :: "text_diff \<Rightarrow> string \<Rightarrow> string \<Rightarrow> workspace_diff_analysis \<Rightarrow> bool" where
  "analysis_of T before artifact_after analysis \<longleftrightarrow> similar_ok T before artifact_after
     \<and> wda_ops analysis = td_ops T \<and> wda_groups analysis = hunk_groups T
     \<and> length (wda_hunks analysis) = length (wda_groups analysis)"

lemma changing_op_has_hunk:
  assumes "analysis_of T before artifact_after analysis" and "(hunk, ops) \<in> set (zip (wda_hunks analysis) (wda_groups analysis))"
    and "op \<in> set ops" and "changes_text op"
  shows "op_hunks analysis (op_key op) = Some (wdh_id hunk)"
  using assms similar_okD(4) [of T before artifact_after] hunk_groups_ok(1) [of T before artifact_after]
  by (intro op_hunks_group) (auto simp: analysis_of_def)

lemma labels_of_analysis:
  assumes "analysis_of T before artifact_after analysis"
  shows "map (\<lambda>op. op_hunks analysis (op_key op)) (filter changes_text (wda_ops analysis))
    = concat (map (\<lambda>(hunk, ops). replicate (length (filter changes_text ops)) (Some (wdh_id hunk)))
        (zip (wda_hunks analysis) (hunk_groups T)))"
proof -
  have "filter changes_text (wda_ops analysis) = concat (map (filter changes_text) (wda_groups analysis))"
    using assms hunk_groups_ok(1) [of T before artifact_after]
    by (simp add: analysis_of_def filter_concat)
  then show ?thesis
    using labels_of_groups [of "wda_hunks analysis" "wda_groups analysis" "\<lambda>op. op_hunks analysis (op_key op)"]
      changing_op_has_hunk [OF assms] assms
    by (simp add: analysis_of_def)
qed

lemma replicate_concat_set: "x \<in> set (concat (map (\<lambda>(h, ops). replicate (n ops) (f h)) zs)) \<Longrightarrow> \<exists>h ops. (h, ops) \<in> set zs \<and> x = f h"
  by auto

lemma op_label:
  assumes "analysis_of T before artifact_after analysis" and "op \<in> set (wda_ops analysis)" and "changes_text op"
  shows "\<exists>hunk. hunk \<in> set (wda_hunks analysis) \<and> op_hunks analysis (op_key op) = Some (wdh_id hunk)"
proof -
  have "op_hunks analysis (op_key op) \<in> set (map (\<lambda>op. op_hunks analysis (op_key op)) (filter changes_text (wda_ops analysis)))"
    using assms(2,3) by simp
  then show ?thesis
    unfolding labels_of_analysis [OF assms(1)] by (auto dest!: replicate_concat_set set_zip_leftD)
qed

lemma equal_op_text:
  assumes "analysis_of T before artifact_after analysis" and "op \<in> set (wda_ops analysis)" and "\<not> changes_text op"
  shows "op_text apply op = concat (map snd (df_changes op))"
  using assms similar_okD(3) [of T before artifact_after] by (intro equal_text) (auto simp: analysis_of_def)

lemma equal_sides:
  assumes "analysis_of T before artifact_after analysis" and "op \<in> set (wda_ops analysis)" and "\<not> changes_text op"
  shows "old_text op = concat (map snd (df_changes op))" "new_text op = concat (map snd (df_changes op))"
  using equal_op_text [OF assms] by (simp_all flip: op_text_sides)

lemma selected_text_segment:
  assumes "analysis_of T before artifact_after analysis" and "op \<in> set (wda_ops analysis)"
  shows "selected_text (op_hunks analysis) selected op = Inr (case segment_of analysis op of
    (base, proposed, label) \<Rightarrow> if label \<in> Some ` set selected then proposed else base)"
proof (cases "changes_text op")
  case True
  then show ?thesis using op_label [OF assms True] by (auto simp: selected_text_def segment_of_def image_iff op_text_if)
next
  case False
  then show ?thesis using equal_sides [OF assms False] by (simp add: selected_text_def segment_of_def image_iff)
qed

lemma try_map_pointwise: "(\<And>x. x \<in> set xs \<Longrightarrow> f x = Inr (g x)) \<Longrightarrow> try_map f xs = Inr (map g xs)"
  by (induction xs) simp_all

definition merge_segments :: "string list \<Rightarrow> (string \<times> string \<times> string option) list \<Rightarrow> string" where
  "merge_segments selected segments = concat (map (\<lambda>(base, proposed, label).
     if label \<in> Some ` set selected then proposed else base) segments)"

lemma select_analysis:
  assumes "analysis_of T before artifact_after analysis" and "analyze D T target_path = Some analysis"
  shows "select_workspace_hunks D T target_path before artifact_after expected selected
    = Some (if selected = [] then Inl NoChanges
        else if review_digest D target_path before artifact_after (wda_hunks analysis) \<noteq> expected then Inl InvalidSelection
        else if \<not> distinct selected \<or> \<not> set selected \<subseteq> wdh_id ` set (wda_hunks analysis) then Inl InvalidSelection
        else let merged = merge_segments selected (map (segment_of analysis) (wda_ops analysis))
          in if merged = before then Inl NoChanges else Inr merged)"
proof -
  have "try_map (selected_text (op_hunks analysis) selected) (wda_ops analysis)
    = Inr (map (\<lambda>op. case segment_of analysis op of
        (base, proposed, label) \<Rightarrow> if label \<in> Some ` set selected then proposed else base) (wda_ops analysis))"
    using selected_text_segment [OF assms(1)] by (rule try_map_pointwise)
  then show ?thesis
    using assms(2) by (simp add: select_workspace_hunks_def merge_segments_def Let_def comp_def)
qed

lemma segments_spell_the_texts:
  assumes "analysis_of T before artifact_after analysis"
  shows "concat (map fst (map (segment_of analysis) (wda_ops analysis))) = before"
    "concat (map (fst \<circ> snd) (map (segment_of analysis) (wda_ops analysis))) = artifact_after"
  using assms similar_okD(1,2) [of T before artifact_after]
  by (simp_all add: analysis_of_def segment_of_def comp_def)

lemma unlabelled_segment:
  assumes "analysis_of T before artifact_after analysis" and "op \<in> set (wda_ops analysis)"
    and "segment_of analysis op = (base, proposed, None)"
  shows "base = proposed"
proof -
  have "\<not> changes_text op" using assms(3) op_label [OF assms(1,2)] by (auto simp: segment_of_def)
  then have "old_text op = new_text op" using equal_sides [OF assms(1,2)] by simp
  then show ?thesis using assms(3) by (auto simp: segment_of_def)
qed

lemma segment_labels:
  assumes "analysis_of T before artifact_after analysis"
  shows "filter (\<lambda>label. label \<noteq> None) (map (snd \<circ> snd) (map (segment_of analysis) (wda_ops analysis)))
    = map (\<lambda>op. op_hunks analysis (op_key op)) (filter changes_text (wda_ops analysis))"
proof -
  have "filter (\<lambda>label. label \<noteq> None) (map (snd \<circ> snd) (map (segment_of analysis) xs))
    = map (\<lambda>op. op_hunks analysis (op_key op)) (filter changes_text xs)" if "set xs \<subseteq> set (wda_ops analysis)" for xs
    using that
  proof (induction xs)
    case (Cons op xs)
    then show ?case using op_label [OF assms, of op] by (auto simp: segment_of_def)
  qed simp
  then show ?thesis by simp
qed

text \<open>The segments of an analysis, one for every operation of its diff.\<close>

definition segments_of :: "workspace_diff_analysis \<Rightarrow> (string \<times> string \<times> string option) list" where
  "segments_of analysis = map (segment_of analysis) (wda_ops analysis)"

lemma review_of_analysis:
  assumes "similar_ok T before artifact_after"
  obtains analysis where "analysis_of T before artifact_after analysis" "analyze D T target_path = Some analysis"
    "review_workspace_diff D T target_path before artifact_after =
       Some \<lparr>wdr_base_digest = sha256_text D (bytes_of_string before),
         wdr_artifact_digest = sha256_text D (bytes_of_string artifact_after),
         wdr_review_digest = review_digest D target_path before artifact_after (wda_hunks analysis),
         wdr_hunks = wda_hunks analysis\<rparr>"
proof -
  obtain analysis where "analyze D T target_path = Some analysis"
    "wda_ops analysis = td_ops T" "wda_groups analysis = hunk_groups T"
    "length (wda_hunks analysis) = length (wda_groups analysis)"
    using analyze_ok [OF assms] by blast
  with assms show ?thesis by (intro that [of analysis]) (auto simp: review_workspace_diff_def analysis_of_def)
qed

text \<open>A review of two different texts has a hunk.\<close>

lemma hunks_of_changes:
  assumes "analysis_of T before artifact_after analysis" and "before \<noteq> artifact_after"
  shows "wda_hunks analysis \<noteq> []"
proof
  assume none: "wda_hunks analysis = []"
  have "\<not> changes_text op" if "op \<in> set (wda_ops analysis)" for op
    using op_label [OF assms(1) that] none by auto
  then have "fst (segment_of analysis op) = (fst \<circ> snd) (segment_of analysis op)" if "op \<in> set (wda_ops analysis)" for op
    using equal_sides [OF assms(1) that] that by (simp add: segment_of_def)
  then have "map fst (map (segment_of analysis) (wda_ops analysis)) = map (fst \<circ> snd) (map (segment_of analysis) (wda_ops analysis))"
    by simp
  with segments_spell_the_texts [OF assms(1)] assms(2) show False by metis
qed

lemma every_hunk_selected:
  assumes "analysis_of T before artifact_after analysis" and "set selected = wdh_id ` set (wda_hunks analysis)"
  shows "merge_segments selected (segments_of analysis) = artifact_after"
proof -
  have "(case segment_of analysis op of (base, proposed, label) \<Rightarrow>
      if label \<in> Some ` set selected then proposed else base) = fst (snd (segment_of analysis op))"
    if op: "op \<in> set (wda_ops analysis)" for op
  proof (cases "changes_text op")
    case True
    then show ?thesis using op_label [OF assms(1) op] assms(2) by (auto simp: segment_of_def image_iff)
  next
    case False
    then show ?thesis using equal_sides [OF assms(1) op] by (simp add: segment_of_def)
  qed
  then have "merge_segments selected (segments_of analysis) = concat (map (fst \<circ> snd) (segments_of analysis))"
    unfolding merge_segments_def segments_of_def by (intro arg_cong [of _ _ concat]) simp
  then show ?thesis using segments_spell_the_texts(2) [OF assms(1)] by (simp add: segments_of_def)
qed

section \<open>A diff with two hunks\<close>

definition replaced :: "nat \<Rightarrow> string \<Rightarrow> string \<Rightarrow> diff_op" where
  "replaced line base proposed = \<lparr>df_tag = ReplaceTag, df_old_range = (line, line + 1), df_new_range = (line, line + 1),
     df_changes = [(DeleteChange, base), (InsertChange, proposed)]\<rparr>"

definition two_hunks :: text_diff where
  "two_hunks = (let changed = [replaced 0 ''a'' ''A'', replaced 9 ''b'' ''B''];
       kept = \<lparr>df_tag = EqualTag, df_old_range = (1, 9), df_new_range = (1, 9), df_changes = [(EqualChange, ''x'')]\<rparr> in
     \<lparr>td_ops = [hd changed, kept, last changed], td_grouped_ops = map (\<lambda>op. [op]) changed\<rparr>)"

text \<open>What a run that passed the deadline may answer on the same texts: one hunk for all.\<close>

definition one_hunk :: text_diff where
  "one_hunk = \<lparr>td_ops = [replaced 0 ''axb'' ''AxB''], td_grouped_ops = [[replaced 0 ''axb'' ''AxB'']]\<rparr>"

text \<open>A digest for the sample: the last byte but one, which is the last character of a patch.\<close>

definition sample_diff_crate :: diff_crate where
  "sample_diff_crate = \<lparr>df_sha256 = \<lambda>bs. [last (butlast bs)]\<rparr>"

lemma sample_diffs_ok: "similar_ok two_hunks ''axb'' ''AxB''" "similar_ok one_hunk ''axb'' ''AxB''"
  by (simp_all add: similar_ok_def two_hunks_def one_hunk_def replaced_def old_text_def new_text_def
      changes_text_def op_key_def)

definition sample_analysis :: workspace_diff_analysis where
  "sample_analysis = the (analyze sample_diff_crate two_hunks ''p'')"

lemma sample_analyzed: "analyze sample_diff_crate two_hunks ''p'' = Some sample_analysis"
  using analyze_ok [OF sample_diffs_ok(1), of sample_diff_crate "''p''"] by (force simp: sample_analysis_def)

lemma replaced_id:
  "build_hunk sample_diff_crate target_path [replaced line [c] [d]] = Some hunk \<Longrightarrow> d \<noteq> CHR 0x0A \<Longrightarrow> wdh_id hunk = hex_lower [of_nat (of_char d)]"
  by (auto simp: build_hunk_def replaced_def changes_text_def Let_def sha256_text_def sample_diff_crate_def
      hunk_identity_def patch_text_def change_line_def change_mark_def bytes_of_string_def butlast_append)

lemma sample_hunks:
  "map wdh_id (wda_hunks sample_analysis) = [hex_lower [65], hex_lower [66]]"
  "wda_ops sample_analysis = td_ops two_hunks" "wda_groups sample_analysis = td_grouped_ops two_hunks"
proof -
  obtain h1 h2 where h: "build_hunk sample_diff_crate ''p'' [replaced 0 ''a'' ''A''] = Some h1"
    "build_hunk sample_diff_crate ''p'' [replaced 9 ''b'' ''B''] = Some h2"
    by (simp add: build_hunk_def replaced_def changes_text_def Let_def)
  then have eq: "sample_analysis = \<lparr>wda_ops = td_ops two_hunks, wda_groups = td_grouped_ops two_hunks, wda_hunks = [h1, h2]\<rparr>"
    by (simp add: sample_analysis_def analyze_def hunk_groups_def two_hunks_def MAX_WORKSPACE_HUNKS_PER_FILE_def)
  show "map wdh_id (wda_hunks sample_analysis) = [hex_lower [65], hex_lower [66]]"
    "wda_ops sample_analysis = td_ops two_hunks" "wda_groups sample_analysis = td_grouped_ops two_hunks"
    unfolding eq using replaced_id [OF h(1)] replaced_id [OF h(2)] by simp_all
qed

lemma sample_first_hunk:
  "merge_segments [wdh_id (hd (wda_hunks sample_analysis))] (segments_of sample_analysis) = ''Axb''"
  "wdh_id (hd (wda_hunks sample_analysis)) \<in> wdh_id ` set (wda_hunks sample_analysis)"
proof -
  obtain h1 h2 where h: "wda_hunks sample_analysis = [h1, h2]" "wdh_id h1 = hex_lower [65]" "wdh_id h2 = hex_lower [66]"
    using sample_hunks(1) by (auto simp: map_eq_Cons_conv)
  have "hex_lower [65] \<noteq> hex_lower [66]" by (simp add: hex_lower_def hex_byte_def hex_digit_def)
  with h show "merge_segments [wdh_id (hd (wda_hunks sample_analysis))] (segments_of sample_analysis) = ''Axb''"
    "wdh_id (hd (wda_hunks sample_analysis)) \<in> wdh_id ` set (wda_hunks sample_analysis)"
    by (simp_all add: merge_segments_def segments_of_def segment_of_def sample_hunks(2,3) two_hunks_def replaced_def
        op_hunks_def changes_text_def op_key_def old_text_def new_text_def)
qed

section \<open>Properties\<close>

text \<open>
  C13. A selection of hunks is merged exactly, from the diff that the call itself runs. It splits
  the two texts into the same sequence of segments; the segments that differ are labelled with
  the hunks that a review with this diff shows, in their order. Whatever digest and selection
  the caller gives: an empty selection changes nothing; one with the digest of another review
  (also when the deadline made the reviewer's run differ from this one) is refused, and so is
  one with a repeated or unknown hunk; any other yields the proposed text at the segments of the
  selected hunks and the reviewed text everywhere else, unless that changes nothing. No call
  panics.
\<close>

theorem selection_merges_hunks:
  assumes "similar_ok T before artifact_after"
  shows "\<exists>analysis review. analyze D T target_path = Some analysis
    \<and> review_workspace_diff D T target_path before artifact_after = Some review
    \<and> concat (map fst (segments_of analysis)) = before \<and> concat (map (fst \<circ> snd) (segments_of analysis)) = artifact_after
    \<and> (\<forall>base proposed. (base, proposed, None) \<in> set (segments_of analysis) \<longrightarrow> base = proposed)
    \<and> filter (\<lambda>label. label \<noteq> None) (map (snd \<circ> snd) (segments_of analysis))
      = concat (map (\<lambda>(hunk, ops). replicate (length (filter changes_text ops)) (Some (wdh_id hunk)))
          (zip (wdr_hunks review) (hunk_groups T)))
    \<and> (\<forall>expected selected. select_workspace_hunks D T target_path before artifact_after expected selected =
        Some (if selected = [] then Inl NoChanges
          else if wdr_review_digest review \<noteq> expected then Inl InvalidSelection
          else if \<not> distinct selected \<or> \<not> set selected \<subseteq> wdh_id ` set (wdr_hunks review) then Inl InvalidSelection
          else let merged = merge_segments selected (segments_of analysis)
            in if merged = before then Inl NoChanges else Inr merged))"
proof -
  obtain analysis where analysis: "analysis_of T before artifact_after analysis" "analyze D T target_path = Some analysis"
    and review: "review_workspace_diff D T target_path before artifact_after =
       Some \<lparr>wdr_base_digest = sha256_text D (bytes_of_string before),
         wdr_artifact_digest = sha256_text D (bytes_of_string artifact_after),
         wdr_review_digest = review_digest D target_path before artifact_after (wda_hunks analysis),
         wdr_hunks = wda_hunks analysis\<rparr>"
    using review_of_analysis [OF assms] by blast
  have unlabelled: "(base, proposed, None) \<in> set (map (segment_of analysis) (wda_ops analysis)) \<longrightarrow> base = proposed"
    for base proposed
    using unlabelled_segment [OF analysis(1)] by auto
  show ?thesis
    unfolding segments_of_def
  proof (intro exI conjI allI)
    show "analyze D T target_path = Some analysis" by (rule analysis(2))
    show "(base, proposed, None) \<in> set (map (segment_of analysis) (wda_ops analysis)) \<longrightarrow> base = proposed" for base proposed
      by (rule unlabelled)
  qed (rule review, simp_all only: workspace_diff_review.simps segments_spell_the_texts [OF analysis(1)]
      segment_labels [OF analysis(1)] labels_of_analysis [OF analysis(1)] select_analysis [OF analysis])
qed

theorem selection_merges_hunks_witness:
  "\<exists>review. review_workspace_diff sample_diff_crate two_hunks ''p'' ''axb'' ''AxB'' = Some review
    \<and> select_workspace_hunks sample_diff_crate two_hunks ''p'' ''axb'' ''AxB'' (wdr_review_digest review)
        [wdh_id (hd (wdr_hunks review))] = Some (Inr ''Axb'')"
proof -
  have hunks: "wdr_hunks review = wda_hunks sample_analysis"
    if "review_workspace_diff sample_diff_crate two_hunks ''p'' ''axb'' ''AxB'' = Some review" for review
    using that by (auto simp: review_workspace_diff_def sample_analyzed)
  obtain review where review: "review_workspace_diff sample_diff_crate two_hunks ''p'' ''axb'' ''AxB'' = Some review"
    and select: "select_workspace_hunks sample_diff_crate two_hunks ''p'' ''axb'' ''AxB'' expected selected =
        Some (if selected = [] then Inl NoChanges
          else if wdr_review_digest review \<noteq> expected then Inl InvalidSelection
          else if \<not> distinct selected \<or> \<not> set selected \<subseteq> wdh_id ` set (wdr_hunks review) then Inl InvalidSelection
          else let merged = merge_segments selected (segments_of sample_analysis)
            in if merged = ''axb'' then Inl NoChanges else Inr merged)" for expected selected
    using selection_merges_hunks [OF sample_diffs_ok(1), of sample_diff_crate "''p''"] unfolding sample_analyzed
    by blast
  show ?thesis
    using review select [of "wdr_review_digest review" "[wdh_id (hd (wdr_hunks review))]"] sample_first_hunk
    by (simp add: Let_def hunks [OF review])
qed

text \<open>
  Selecting every hunk of a review applies the artifact byte for byte when the diff that the
  selection runs finds the hunks of the review; when the deadline of the diff made one of the
  two runs differ and the digest with it, the selection is refused and gives no text.
\<close>

lemma selecting_every_hunk_applies_the_artifact:
  assumes "similar_ok T before artifact_after" and "similar_ok T' before artifact_after"
    and "review_workspace_diff D T target_path before artifact_after = Some review"
    and "distinct selected" and "set selected = wdh_id ` set (wdr_hunks review)" and "before \<noteq> artifact_after"
  shows "\<exists>again. review_workspace_diff D T' target_path before artifact_after = Some again
    \<and> (map wdh_id (wdr_hunks again) = map wdh_id (wdr_hunks review) \<longrightarrow>
        select_workspace_hunks D T' target_path before artifact_after (wdr_review_digest review) selected
          = Some (Inr artifact_after))
    \<and> (wdr_review_digest again \<noteq> wdr_review_digest review \<longrightarrow>
        select_workspace_hunks D T' target_path before artifact_after (wdr_review_digest review) selected
          = Some (Inl InvalidSelection))"
proof -
  obtain first where first: "analysis_of T before artifact_after first"
    and given: "review_workspace_diff D T target_path before artifact_after =
       Some \<lparr>wdr_base_digest = sha256_text D (bytes_of_string before),
         wdr_artifact_digest = sha256_text D (bytes_of_string artifact_after),
         wdr_review_digest = review_digest D target_path before artifact_after (wda_hunks first),
         wdr_hunks = wda_hunks first\<rparr>"
    using review_of_analysis [OF assms(1)] by blast
  have review: "wdr_hunks review = wda_hunks first"
      "wdr_review_digest review = review_digest D target_path before artifact_after (wda_hunks first)"
    using assms(3) unfolding given by auto
  obtain analysis where analysis: "analysis_of T' before artifact_after analysis" "analyze D T' target_path = Some analysis"
    and again: "review_workspace_diff D T' target_path before artifact_after =
       Some \<lparr>wdr_base_digest = sha256_text D (bytes_of_string before),
         wdr_artifact_digest = sha256_text D (bytes_of_string artifact_after),
         wdr_review_digest = review_digest D target_path before artifact_after (wda_hunks analysis),
         wdr_hunks = wda_hunks analysis\<rparr>"
    using review_of_analysis [OF assms(2)] by blast
  have some: "selected \<noteq> []" using assms(5) hunks_of_changes [OF first assms(6)] review(1) by auto
  note select = select_analysis [OF analysis, of "wdr_review_digest review" selected]
  have "select_workspace_hunks D T' target_path before artifact_after (wdr_review_digest review) selected
      = Some (Inr artifact_after)" if ids: "map wdh_id (wda_hunks analysis) = map wdh_id (wdr_hunks review)"
  proof -
    have set: "set selected = wdh_id ` set (wda_hunks analysis)"
      using assms(5) arg_cong [OF ids, of set] by simp
    have "map (\<lambda>hunk. bytes_of_string (wdh_id hunk)) hunks = map bytes_of_string (map wdh_id hunks)" for hunks
      by simp
    then have "review_digest D target_path before artifact_after (wda_hunks analysis) = wdr_review_digest review"
      unfolding review(2) review_digest_def using ids review(1) by metis
    with select some assms(4,6) set every_hunk_selected [OF analysis(1) set, unfolded segments_of_def] show ?thesis by (simp add: Let_def)
  qed
  with select some show ?thesis unfolding again by simp
qed

end
