(* ===== verification/Workspace_Files.thy ===== *)
theory Workspace_Files
  imports Step Exec_Context Driver_Codec Seatbelt
begin

text \<open>
  The files of a workspace as \<^verbatim>\<open>hyper-term-daemon/src/workspace_apply/workspace_io.rs\<close>
  reaches them: target paths, parent directories, snapshots and the handful of system calls a
  change is made of.

  The disk maps the names in open directories to inodes, and inodes to nodes; a second name for
  an inode is a hard link. Every system call is one step on the disk, and a schedule of faults
  says what happens to the calls to come: a call works, fails with an error and no effect (a
  write may have written a part), or works after another program changed the disk. A process that
  dies after \<open>n\<close> calls leaves the disk that the run leaves in which all later calls fail.

  The tree of directories above the targets is fixed, and what the host answers about it is a
  parameter, like the choice of a free inode.
\<close>

section \<open>Errors\<close>

datatype io_error = NotFound | AlreadyExists | IsADirectory | OtherIoError string

datatype workspace_apply_error =
    InvalidPath
  | ParentUnavailable
  | ParentChanged
  | UnsupportedTarget
  | TooLarge
  | StaleBase
  | UnknownExecution string
  | RecoveryRequired string
  | NoChanges
  | Io io_error

definition MAX_WORKSPACE_FILE_BYTES :: nat where "MAX_WORKSPACE_FILE_BYTES = 1024 * 1024"
definition MAX_TARGET_PATH_BYTES :: nat where "MAX_TARGET_PATH_BYTES = 4096"

section \<open>The disk\<close>

text \<open>A directory or a file is a device and an inode; an entry lies on the device of its directory.\<close>

type_synonym file_id = "u64 \<times> u64"

datatype disk_node = RegularFile bytes (* mode *) u32 | DirectoryNode | SymbolicLink

text \<open>The directory of the transaction journal: not there, a dangling link, no directory, or its entries.\<close>

datatype journal_root = NoJournal | DanglingJournal | NotAJournal | JournalDirectory "(string, disk_node) btree"

record workspace_disk =
  wd_entries :: "file_id \<times> string \<Rightarrow> u64 option"
  wd_nodes :: "file_id \<Rightarrow> disk_node option"
  wd_journal :: journal_root

datatype fault =
    Works
  | Fails (* bytes a write has written *) nat (* message *) string
  | Edited "workspace_disk \<Rightarrow> workspace_disk"

record apply_world =
  aw_disk :: workspace_disk
  aw_faults :: "fault list"
  aw_drawn :: nat (* how many random identifiers have been drawn *)

type_synonym 'a disk_step = "(apply_world, workspace_apply_error, 'a) step"

record path_metadata =
  pm_is_symlink :: bool
  pm_is_dir :: bool
  pm_id :: file_id

record apply_host =
  wh_workspace :: string
  wh_symlink_metadata :: "string \<Rightarrow> path_metadata option"
  wh_canonicalize :: "string \<Rightarrow> string option"
  wh_metadata :: "string \<Rightarrow> path_metadata option"
  wh_open_directory :: "string \<Rightarrow> file_id option"
  wh_fresh_inode :: "workspace_disk \<Rightarrow> u64 \<Rightarrow> u64"
  wh_stage_mode :: u32
  wh_macos :: bool
  wh_new_uuid :: "nat \<Rightarrow> uuid"
  wh_io_text :: "io_error \<Rightarrow> string"
  wh_sha256 :: "bytes \<Rightarrow> bytes"
  wh_base64_encode :: "bytes \<Rightarrow> string"
  wh_base64_decode :: "string \<Rightarrow> bytes option"
  wh_uuid_text :: "uuid \<Rightarrow> string"
  wh_uuid_parse :: "string \<Rightarrow> uuid option"

text \<open>One system call: its effect on the disk, unless the schedule makes it fail.\<close>

definition with_disk :: "apply_world \<Rightarrow> fault list \<Rightarrow> ('e + 'a) \<times> workspace_disk \<Rightarrow> ('e + 'a) \<times> apply_world" where
  "with_disk w faults result = (fst result, w\<lparr>aw_disk := snd result, aw_faults := faults\<rparr>)"

definition faulty_call ::
    "(nat \<Rightarrow> workspace_disk \<Rightarrow> workspace_disk) \<Rightarrow> (io_error \<Rightarrow> 'e)
      \<Rightarrow> (workspace_disk \<Rightarrow> ('e + 'a) \<times> workspace_disk) \<Rightarrow> (apply_world, 'e, 'a) step" where
  "faulty_call partly on_error effect w = (case aw_faults w of
       [] \<Rightarrow> with_disk w [] (effect (aw_disk w))
     | Works # fs \<Rightarrow> with_disk w fs (effect (aw_disk w))
     | Fails n message # fs \<Rightarrow> with_disk w fs (Inl (on_error (OtherIoError message)), partly n (aw_disk w))
     | Edited edit # fs \<Rightarrow> with_disk w fs (effect (edit (aw_disk w))))"

definition system_call ::
    "(io_error \<Rightarrow> 'e) \<Rightarrow> (workspace_disk \<Rightarrow> ('e + 'a) \<times> workspace_disk) \<Rightarrow> (apply_world, 'e, 'a) step" where
  "system_call = faulty_call (\<lambda>_ d. d)"

text \<open>\<^verbatim>\<open>sync_all\<close>: what it makes durable is on the disk of the model already.\<close>

definition sync_all :: "unit disk_step" where
  "sync_all = system_call Io (\<lambda>d. (Inr (), d))"

text \<open>\<^verbatim>\<open>Uuid::new_v4\<close>\<close>

definition new_uuid :: "apply_host \<Rightarrow> uuid disk_step" where
  "new_uuid H w = (Inr (wh_new_uuid H (aw_drawn w)), w\<lparr>aw_drawn := aw_drawn w + 1\<rparr>)"

section \<open>Digests and contents\<close>

definition sha256_bytes :: "apply_host \<Rightarrow> bytes \<Rightarrow> string" where
  "sha256_bytes H bs = hex_lower (wh_sha256 H bs)"

definition encode_workspace_content :: "apply_host \<Rightarrow> bytes \<Rightarrow> string \<times> string option" where
  "encode_workspace_content H bs = (case from_utf8 bs of
       Some content \<Rightarrow> (content, None)
     | None \<Rightarrow> ([], Some (wh_base64_encode H bs)))"

definition decoded_base64_len :: "apply_host \<Rightarrow> string \<Rightarrow> workspace_apply_error + nat" where
  "decoded_base64_len H encoded = (case wh_base64_decode H encoded of
       None \<Rightarrow> Inl InvalidPath
     | Some bs \<Rightarrow> Inr (length bs))"

record workspace_file_snapshot =
  wfs_content :: string
  wfs_binary_bytes :: "u64 option"
  wfs_digest :: string
  wfs_device :: u64
  wfs_inode :: u64
  wfs_mode :: u32

definition same_file_state :: "workspace_file_snapshot option \<Rightarrow> workspace_file_snapshot option \<Rightarrow> bool" where
  "same_file_state current expected \<longleftrightarrow> (case (current, expected) of
       (None, None) \<Rightarrow> True
     | (Some c, Some e) \<Rightarrow> wfs_digest c = wfs_digest e \<and> wfs_device c = wfs_device e
         \<and> wfs_inode c = wfs_inode e \<and> wfs_mode c = wfs_mode e
     | _ \<Rightarrow> False)"

section \<open>Paths\<close>

definition validate_target_path :: "string \<Rightarrow> workspace_apply_error + string" where
  "validate_target_path v =
     (if v = [] \<or> length v > MAX_TARGET_PATH_BYTES \<or> nul \<in> set v \<or> is_absolute v then Inl InvalidPath
      else if list_ex (\<lambda>c. case c of Normal name \<Rightarrow> name \<in> {''.git'', ''.hg'', ''.svn'', ''.jj''} | _ \<Rightarrow> True)
        (components v) then Inl InvalidPath
      else if components v = [] \<or> file_name v = None then Inl InvalidPath
      else Inr v)"

record open_parent =
  op_directory :: file_id
  op_file_name :: string

text \<open>The loop over the components above the target: each one is a directory and no link.\<close>

primrec walk_parent :: "apply_host \<Rightarrow> string \<Rightarrow> component list \<Rightarrow> workspace_apply_error + string" where
  "walk_parent H parent_path [] = Inr parent_path"
| "walk_parent H parent_path (c # cs) = (case c of
       Normal name \<Rightarrow>
         (let path = path_push parent_path name in
          and_then (ok_or (wh_symlink_metadata H path) ParentUnavailable) (\<lambda>metadata.
            if pm_is_symlink metadata \<or> \<not> pm_is_dir metadata then Inl ParentUnavailable
            else walk_parent H path cs))
     | _ \<Rightarrow> Inl InvalidPath)"

definition resolve_parent :: "apply_host \<Rightarrow> string \<Rightarrow> workspace_apply_error + open_parent" where
  "resolve_parent H relative =
     and_then (walk_parent H (wh_workspace H) (components (case path_parent relative of Some p \<Rightarrow> p | None \<Rightarrow> [])))
       (\<lambda>parent_path. and_then (ok_or (wh_canonicalize H parent_path) ParentUnavailable) (\<lambda>canonical_parent.
          if \<not> path_starts_with canonical_parent (wh_workspace H) then Inl InvalidPath
          else and_then (ok_or (wh_metadata H canonical_parent) ParentUnavailable) (\<lambda>expected.
            if \<not> pm_is_dir expected then Inl ParentUnavailable
            else and_then (ok_or (wh_open_directory H canonical_parent) ParentUnavailable) (\<lambda>opened.
              if pm_id expected \<noteq> opened then Inl ParentChanged
              else and_then (ok_or (file_name relative) InvalidPath) (\<lambda>name.
                if nul \<in> set name then Inl InvalidPath
                else Inr \<lparr>op_directory = opened, op_file_name = name\<rparr>)))))"

definition open_parent_of :: "apply_host \<Rightarrow> string \<Rightarrow> open_parent disk_step" where
  "open_parent_of H relative = system_call (\<lambda>_. ParentUnavailable) (\<lambda>d. (resolve_parent H relative, d))"

section \<open>System calls\<close>

text \<open>\<^verbatim>\<open>openat\<close> for reading, without following a link, and the check that it is a file.\<close>

definition open_file :: "file_id \<Rightarrow> string \<Rightarrow> workspace_disk \<Rightarrow> workspace_apply_error + u64 option" where
  "open_file dir name d = (case wd_entries d (dir, name) of
       None \<Rightarrow> Inr None
     | Some inode \<Rightarrow> (case wd_nodes d (fst dir, inode) of
           Some (RegularFile _ _) \<Rightarrow> Inr (Some inode)
         | _ \<Rightarrow> Inl UnsupportedTarget))"

definition file_snapshot :: "apply_host \<Rightarrow> file_id \<Rightarrow> disk_node option \<Rightarrow> workspace_apply_error + workspace_file_snapshot" where
  "file_snapshot H handle node = (case node of
       Some (RegularFile bs mode) \<Rightarrow>
         (if length bs > MAX_WORKSPACE_FILE_BYTES then Inl TooLarge
          else Inr \<lparr>wfs_content = (case from_utf8 bs of Some content \<Rightarrow> content | None \<Rightarrow> []),
            wfs_binary_bytes = (case from_utf8 bs of Some _ \<Rightarrow> None | None \<Rightarrow> Some (of_nat (length bs))),
            wfs_digest = sha256_bytes H bs, wfs_device = fst handle, wfs_inode = snd handle, wfs_mode = mode\<rparr>)
     | _ \<Rightarrow> Inl UnsupportedTarget)"

definition read_target_at :: "apply_host \<Rightarrow> file_id \<Rightarrow> string \<Rightarrow> workspace_file_snapshot option disk_step" where
  "read_target_at H dir name =
     bind_step (system_call (\<lambda>_. UnsupportedTarget) (\<lambda>d. (open_file dir name d, d))) (\<lambda>opened. case opened of
         None \<Rightarrow> return_step None
       | Some inode \<Rightarrow>
           bind_step (system_call Io (\<lambda>d. (file_snapshot H (fst dir, inode) (wd_nodes d (fst dir, inode)), d)))
             (\<lambda>snapshot. return_step (Some snapshot)))"

definition put_node :: "file_id \<Rightarrow> disk_node \<Rightarrow> workspace_disk \<Rightarrow> workspace_disk" where
  "put_node handle node d = d\<lparr>wd_nodes := (wd_nodes d)(handle := Some node)\<rparr>"

definition put_entry :: "file_id \<times> string \<Rightarrow> u64 option \<Rightarrow> workspace_disk \<Rightarrow> workspace_disk" where
  "put_entry l entry d = d\<lparr>wd_entries := (wd_entries d)(l := entry)\<rparr>"

definition create_stage :: "apply_host \<Rightarrow> file_id \<Rightarrow> string \<Rightarrow> file_id disk_step" where
  "create_stage H dir name = system_call Io (\<lambda>d.
     if wd_entries d (dir, name) \<noteq> None then (Inl (Io AlreadyExists), d)
     else let inode = wh_fresh_inode H d (fst dir) in
       (Inr (fst dir, inode),
        put_entry (dir, name) (Some inode) (put_node (fst dir, inode) (RegularFile [] (wh_stage_mode H)) d)))"

definition append_bytes :: "file_id \<Rightarrow> bytes \<Rightarrow> workspace_disk \<Rightarrow> workspace_disk" where
  "append_bytes handle bs d = (case wd_nodes d handle of
       Some (RegularFile old mode) \<Rightarrow> put_node handle (RegularFile (old @ bs) mode) d
     | _ \<Rightarrow> d)"

definition write_all_bytes :: "file_id \<Rightarrow> bytes \<Rightarrow> unit disk_step" where
  "write_all_bytes handle bs = faulty_call (\<lambda>n. append_bytes handle (take n bs)) Io (\<lambda>d. (Inr (), append_bytes handle bs d))"

definition PERMISSION_BITS :: u32 where "PERMISSION_BITS = 0xFFF"

text \<open>\<^verbatim>\<open>fchmod\<close>: the permission bits change, the kind of file does not.\<close>

definition set_permissions :: "file_id \<Rightarrow> u32 \<Rightarrow> unit disk_step" where
  "set_permissions handle mode = system_call Io (\<lambda>d. (Inr (), case wd_nodes d handle of
       Some (RegularFile bs old) \<Rightarrow>
         put_node handle (RegularFile bs (or (and old (not PERMISSION_BITS)) (and mode PERMISSION_BITS))) d
     | _ \<Rightarrow> d))"

definition link_names :: "file_id \<Rightarrow> string \<Rightarrow> string \<Rightarrow> workspace_disk \<Rightarrow> (io_error + unit) \<times> workspace_disk" where
  "link_names dir source_name target_name d = (case wd_entries d (dir, source_name) of
       None \<Rightarrow> (Inl NotFound, d)
     | Some inode \<Rightarrow>
         (if wd_entries d (dir, target_name) \<noteq> None then (Inl AlreadyExists, d)
          else (Inr (), put_entry (dir, target_name) (Some inode) d)))"

text \<open>\<^verbatim>\<open>renameat\<close>: onto another name of the same file it does nothing.\<close>

definition rename_names :: "file_id \<Rightarrow> string \<Rightarrow> string \<Rightarrow> workspace_disk \<Rightarrow> (io_error + unit) \<times> workspace_disk" where
  "rename_names dir source_name target_name d = (case wd_entries d (dir, source_name) of
       None \<Rightarrow> (Inl NotFound, d)
     | Some inode \<Rightarrow>
         (if wd_entries d (dir, target_name) = Some inode then (Inr (), d)
          else if (case wd_entries d (dir, target_name) of
              None \<Rightarrow> False | Some old \<Rightarrow> wd_nodes d (fst dir, old) = Some DirectoryNode)
          then (Inl IsADirectory, d)
          else (Inr (), put_entry (dir, source_name) None (put_entry (dir, target_name) (Some inode) d))))"

text \<open>The rename that does not replace a file.\<close>

definition rename_new :: "file_id \<Rightarrow> string \<Rightarrow> string \<Rightarrow> workspace_disk \<Rightarrow> (io_error + unit) \<times> workspace_disk" where
  "rename_new dir source_name target_name d = (case wd_entries d (dir, source_name) of
       None \<Rightarrow> (Inl NotFound, d)
     | Some inode \<Rightarrow>
         (if wd_entries d (dir, target_name) \<noteq> None then (Inl AlreadyExists, d)
          else (Inr (), put_entry (dir, source_name) None (put_entry (dir, target_name) (Some inode) d))))"

definition unlink_name :: "file_id \<Rightarrow> string \<Rightarrow> workspace_disk \<Rightarrow> (io_error + unit) \<times> workspace_disk" where
  "unlink_name dir name d = (case wd_entries d (dir, name) of
       None \<Rightarrow> (Inl NotFound, d)
     | Some inode \<Rightarrow>
         (if wd_nodes d (fst dir, inode) = Some DirectoryNode then (Inl IsADirectory, d)
          else (Inr (), put_entry (dir, name) None d)))"

definition name_call :: "(workspace_disk \<Rightarrow> (io_error + unit) \<times> workspace_disk) \<Rightarrow> (apply_world, io_error, unit) step" where
  "name_call effect = system_call id effect"

text \<open>A call whose error is turned into the error of the operation.\<close>

definition map_error_step :: "('e \<Rightarrow> 'f) \<Rightarrow> ('s, 'e, 'a) step \<Rightarrow> ('s, 'f, 'a) step" where
  "map_error_step f m s = (case m s of (r, t) \<Rightarrow> (map_err f r, t))"

definition link_target_at :: "file_id \<Rightarrow> string \<Rightarrow> string \<Rightarrow> unit disk_step" where
  "link_target_at dir target_name backup_name = map_error_step Io (name_call (link_names dir target_name backup_name))"

definition replace_target_at :: "file_id \<Rightarrow> string \<Rightarrow> string \<Rightarrow> unit disk_step" where
  "replace_target_at dir source_name target_name = map_error_step Io (name_call (rename_names dir source_name target_name))"

definition unlink_at :: "file_id \<Rightarrow> string \<Rightarrow> unit disk_step" where
  "unlink_at dir name = bind_step (attempt_step (name_call (unlink_name dir name))) (\<lambda>_. return_step ())"

definition unlink_at_checked :: "file_id \<Rightarrow> string \<Rightarrow> unit disk_step" where
  "unlink_at_checked dir name = map_error_step Io (name_call (unlink_name dir name))"

definition unlink_at_if_exists :: "file_id \<Rightarrow> string \<Rightarrow> unit disk_step" where
  "unlink_at_if_exists dir name = bind_step (attempt_step (name_call (unlink_name dir name))) (\<lambda>r. case r of
       Inr _ \<Rightarrow> return_step ()
     | Inl error \<Rightarrow> (if error = NotFound then return_step () else fail_step (Io error)))"

text \<open>On macOS a rename that excludes an existing target; elsewhere a link, then the unlink of the stage.\<close>

definition install_transaction_stage :: "apply_host \<Rightarrow> file_id \<Rightarrow> string \<Rightarrow> string \<Rightarrow> bool \<Rightarrow> unit disk_step" where
  "install_transaction_stage H dir stage_name target_name replacing =
     map_error_step (\<lambda>error. if error = AlreadyExists then StaleBase else Io error)
       (if replacing then name_call (rename_names dir stage_name target_name)
        else if wh_macos H then name_call (rename_new dir stage_name target_name)
        else then_step (name_call (link_names dir stage_name target_name))
          (bind_step (attempt_step (name_call (unlink_name dir stage_name))) (\<lambda>_. return_step ())))"

end
