(* ===== verification/Workspace_Apply.thy ===== *)
theory Workspace_Apply
  imports Workspace_Files Wire Decimal
begin

text \<open>
  Applying reviewed changes to a workspace, \<^verbatim>\<open>hyper-term-daemon/src/workspace_apply.rs\<close>: plans
  of writes and deletions bound to the exact files they were reviewed against, the selection of a
  part of a reviewed set, and the durable transaction that installs a set: its manifest in the
  journal is written before every phase, so that an interrupted transaction is finished or undone
  by \<open>recover_workspace_transactions\<close>.

  The JSON text of a manifest is a parameter, as are SHA-256, Base64 and the text of a UUID. The
  functions that only the tests use are not modelled.
\<close>

section \<open>Plans\<close>

definition MAX_WORKSPACE_APPLY_FILES :: nat where "MAX_WORKSPACE_APPLY_FILES = 32"
definition MAX_WORKSPACE_APPLY_BYTES :: nat where "MAX_WORKSPACE_APPLY_BYTES = 4 * 1024 * 1024"
definition WORKSPACE_TRANSACTION_SCHEMA_VERSION :: u32 where "WORKSPACE_TRANSACTION_SCHEMA_VERSION = 1"
definition MAX_WORKSPACE_TRANSACTION_MANIFEST_BYTES :: nat where "MAX_WORKSPACE_TRANSACTION_MANIFEST_BYTES = 256 * 1024"

record workspace_apply_plan =
  wap_target_path :: string
  wap_proposed_content :: string
  wap_proposed_binary_base64 :: "string option"
  wap_proposed_digest :: string
  wap_delete :: bool
  wap_base :: "workspace_file_snapshot option"
  wap_parent_device :: u64
  wap_parent_inode :: u64

definition snapshot_bytes_len :: "workspace_file_snapshot \<Rightarrow> u64" where
  "snapshot_bytes_len s = (case wfs_binary_bytes s of Some n \<Rightarrow> n | None \<Rightarrow> of_nat (length (wfs_content s)))"

definition snapshot_is_binary :: "workspace_file_snapshot \<Rightarrow> bool" where
  "snapshot_is_binary s \<longleftrightarrow> wfs_binary_bytes s \<noteq> None"

definition base_content :: "workspace_apply_plan \<Rightarrow> string" where
  "base_content plan = (case wap_base plan of Some s \<Rightarrow> wfs_content s | None \<Rightarrow> [])"

definition base_digest :: "workspace_apply_plan \<Rightarrow> string option" where
  "base_digest plan = map_option wfs_digest (wap_base plan)"

definition proposed_bytes :: "apply_host \<Rightarrow> workspace_apply_plan \<Rightarrow> workspace_apply_error + bytes" where
  "proposed_bytes H plan = (case wap_proposed_binary_base64 plan of
       Some encoded \<Rightarrow> ok_or (wh_base64_decode H encoded) InvalidPath
     | None \<Rightarrow> Inr (bytes_of_string (wap_proposed_content plan)))"

definition base_bytes_len :: "workspace_apply_plan \<Rightarrow> u64" where
  "base_bytes_len plan = (case wap_base plan of Some s \<Rightarrow> snapshot_bytes_len s | None \<Rightarrow> 0)"

definition proposed_bytes_len :: "apply_host \<Rightarrow> workspace_apply_plan \<Rightarrow> u64" where
  "proposed_bytes_len H plan = (case Option.bind (wap_proposed_binary_base64 plan)
         (\<lambda>encoded. case decoded_base64_len H encoded of Inr n \<Rightarrow> Some n | Inl _ \<Rightarrow> None) of
       Some n \<Rightarrow> of_nat n
     | None \<Rightarrow> of_nat (length (wap_proposed_content plan)))"

definition plan_is_binary :: "workspace_apply_plan \<Rightarrow> bool" where
  "plan_is_binary plan \<longleftrightarrow> wap_proposed_binary_base64 plan \<noteq> None
     \<or> (case wap_base plan of Some s \<Rightarrow> snapshot_is_binary s | None \<Rightarrow> False)"

datatype workspace_apply_request =
    WriteRequest (* target_path *) string (* proposed_content *) string
  | WriteBytesRequest (* target_path *) string (* proposed_bytes *) bytes
  | DeleteRequest (* target_path *) string

record workspace_apply_set_plan =
  was_plans :: "workspace_apply_plan list"
  was_result_digest :: string

definition workspace_deletion_digest :: "apply_host \<Rightarrow> string" where
  "workspace_deletion_digest H = sha256_bytes H (bytes_of_string ''hyper-term.workspace.delete.v1'' @ [0])"

definition workspace_set_digest :: "apply_host \<Rightarrow> workspace_apply_plan list \<Rightarrow> string" where
  "workspace_set_digest H plans =
     (if list_all (\<lambda>plan. \<not> wap_delete plan) plans then
        (case plans of
           [plan] \<Rightarrow> wap_proposed_digest plan
         | _ \<Rightarrow> sha256_bytes H (bytes_of_string ''hyper-term.workspace.apply-set.v1'' @ [0]
             @ concat (map (\<lambda>plan. be_bytes 8 (length (wap_target_path plan)) @ bytes_of_string (wap_target_path plan)
                 @ bytes_of_string (wap_proposed_digest plan)) plans)))
      else sha256_bytes H (bytes_of_string ''hyper-term.workspace.apply-set.v2'' @ [0]
             @ concat (map (\<lambda>plan. be_bytes 8 (length (wap_target_path plan)) @ bytes_of_string (wap_target_path plan)
                 @ [if wap_delete plan then 1 else 0] @ bytes_of_string (wap_proposed_digest plan)) plans)))"

text \<open>\<^verbatim>\<open>usize::checked_add\<close>\<close>

definition checked_usize_add :: "nat \<Rightarrow> nat \<Rightarrow> nat option" where
  "checked_usize_add a b = (if a + b < 2 ^ 64 then Some (a + b) else None)"

primrec checked_usize_sum :: "nat \<Rightarrow> nat list \<Rightarrow> nat option" where
  "checked_usize_sum acc [] = Some acc"
| "checked_usize_sum acc (n # ns) = Option.bind (checked_usize_add acc n) (\<lambda>t. checked_usize_sum t ns)"

section \<open>Preparing\<close>

definition prepare_workspace_bytes :: "apply_host \<Rightarrow> string \<Rightarrow> bytes \<Rightarrow> workspace_apply_plan disk_step" where
  "prepare_workspace_bytes H target_path bs =
     then_step (guard_step (length bs \<le> MAX_WORKSPACE_FILE_BYTES) TooLarge)
     (bind_step (lift_step (validate_target_path target_path)) (\<lambda>relative.
      bind_step (open_parent_of H relative) (\<lambda>parent.
      bind_step (read_target_at H (op_directory parent) (op_file_name parent)) (\<lambda>base.
      then_step (guard_step (\<not> (case base of Some s \<Rightarrow> wfs_digest s = sha256_bytes H bs | None \<Rightarrow> False)) NoChanges)
      (case encode_workspace_content H bs of (content, binary) \<Rightarrow>
        return_step \<lparr>wap_target_path = target_path, wap_proposed_content = content,
          wap_proposed_binary_base64 = binary, wap_proposed_digest = sha256_bytes H bs, wap_delete = False,
          wap_base = base, wap_parent_device = fst (op_directory parent),
          wap_parent_inode = snd (op_directory parent)\<rparr>)))))"

definition prepare_workspace_file :: "apply_host \<Rightarrow> string \<Rightarrow> string \<Rightarrow> workspace_apply_plan disk_step" where
  "prepare_workspace_file H target_path content = prepare_workspace_bytes H target_path (bytes_of_string content)"

definition prepare_workspace_deletion :: "apply_host \<Rightarrow> string \<Rightarrow> workspace_apply_plan disk_step" where
  "prepare_workspace_deletion H target_path =
     bind_step (lift_step (validate_target_path target_path)) (\<lambda>relative.
     bind_step (open_parent_of H relative) (\<lambda>parent.
     bind_step (read_target_at H (op_directory parent) (op_file_name parent)) (\<lambda>found.
     bind_step (lift_step (ok_or found NoChanges)) (\<lambda>base.
       return_step \<lparr>wap_target_path = target_path, wap_proposed_content = [], wap_proposed_binary_base64 = None,
         wap_proposed_digest = workspace_deletion_digest H, wap_delete = True, wap_base = Some base,
         wap_parent_device = fst (op_directory parent), wap_parent_inode = snd (op_directory parent)\<rparr>))))"

definition request_target :: "workspace_apply_request \<Rightarrow> string" where
  "request_target request = (case request of
       WriteRequest target_path _ \<Rightarrow> target_path
     | WriteBytesRequest target_path _ \<Rightarrow> target_path
     | DeleteRequest target_path \<Rightarrow> target_path)"

definition request_bytes :: "workspace_apply_request \<Rightarrow> nat" where
  "request_bytes request = (case request of
       WriteRequest _ content \<Rightarrow> length content
     | WriteBytesRequest _ bs \<Rightarrow> length bs
     | DeleteRequest _ \<Rightarrow> 0)"

definition prepare_request :: "apply_host \<Rightarrow> workspace_apply_request \<Rightarrow> workspace_apply_plan disk_step" where
  "prepare_request H request = (case request of
       WriteRequest target_path content \<Rightarrow> prepare_workspace_file H target_path content
     | WriteBytesRequest target_path bs \<Rightarrow> prepare_workspace_bytes H target_path bs
     | DeleteRequest target_path \<Rightarrow> prepare_workspace_deletion H target_path)"

text \<open>The loop over the requests: targets differ, and a request that changes nothing has no plan.\<close>

primrec prepare_each ::
    "apply_host \<Rightarrow> string set \<Rightarrow> workspace_apply_request list \<Rightarrow> workspace_apply_plan list disk_step" where
  "prepare_each H targets [] = return_step []"
| "prepare_each H targets (request # requests) =
     then_step (guard_step (request_target request \<notin> targets) InvalidPath)
     (bind_step (attempt_step (prepare_request H request)) (\<lambda>prepared. case prepared of
         Inr plan \<Rightarrow> bind_step (prepare_each H (insert (request_target request) targets) requests)
           (\<lambda>plans. return_step (plan # plans))
       | Inl error \<Rightarrow> (if error = NoChanges then prepare_each H (insert (request_target request) targets) requests
           else fail_step error)))"

definition prepare_workspace_apply_requests ::
    "apply_host \<Rightarrow> workspace_apply_request list \<Rightarrow> workspace_apply_set_plan disk_step" where
  "prepare_workspace_apply_requests H requests =
     then_step (guard_step (requests \<noteq> [] \<and> length requests \<le> MAX_WORKSPACE_APPLY_FILES) InvalidPath)
     (bind_step (lift_step (ok_or (checked_usize_sum 0 (map request_bytes requests)) TooLarge)) (\<lambda>total_bytes.
      then_step (guard_step (total_bytes \<le> MAX_WORKSPACE_APPLY_BYTES) TooLarge)
      (bind_step (prepare_each H {} requests) (\<lambda>plans.
       then_step (guard_step (plans \<noteq> []) NoChanges)
       (then_step (guard_step (case checked_usize_sum 0 (map (\<lambda>plan. unat (base_bytes_len plan)) plans) of
            None \<Rightarrow> False | Some bytes \<Rightarrow> bytes \<le> MAX_WORKSPACE_APPLY_BYTES) TooLarge)
        (return_step \<lparr>was_plans = plans, was_result_digest = workspace_set_digest H plans\<rparr>))))))"

definition prepare_workspace_apply_set :: "apply_host \<Rightarrow> (string \<times> string) list \<Rightarrow> workspace_apply_set_plan disk_step" where
  "prepare_workspace_apply_set H requests =
     prepare_workspace_apply_requests H (map (\<lambda>(target_path, content). WriteRequest target_path content) requests)"

section \<open>Validating and selecting\<close>

definition proposal_valid :: "apply_host \<Rightarrow> workspace_apply_plan \<Rightarrow> bytes \<Rightarrow> bool" where
  "proposal_valid H plan proposed \<longleftrightarrow> (if wap_delete plan
     then wap_base plan \<noteq> None \<and> wap_proposed_content plan = [] \<and> wap_proposed_binary_base64 plan = None
       \<and> wap_proposed_digest plan = workspace_deletion_digest H
     else length proposed \<le> MAX_WORKSPACE_FILE_BYTES \<and> sha256_bytes H proposed = wap_proposed_digest plan
       \<and> (wap_proposed_binary_base64 plan \<noteq> None \<longrightarrow> proposed \<noteq> [] \<and> wap_proposed_content plan = []
         \<and> from_utf8 proposed = None \<and> wap_proposed_binary_base64 plan = Some (wh_base64_encode H proposed)))"

definition base_valid :: "apply_host \<Rightarrow> workspace_apply_plan \<Rightarrow> workspace_file_snapshot \<Rightarrow> bool" where
  "base_valid H plan base \<longleftrightarrow> unat (snapshot_bytes_len base) \<le> MAX_WORKSPACE_FILE_BYTES \<and> is_sha256 (wfs_digest base)
     \<and> (wfs_binary_bytes base \<noteq> None \<longrightarrow> wfs_binary_bytes base \<noteq> Some 0 \<and> wfs_content base = [])
     \<and> (wfs_binary_bytes base = None \<longrightarrow> sha256_bytes H (bytes_of_string (wfs_content base)) = wfs_digest base)
     \<and> (wap_delete plan \<or> wfs_digest base \<noteq> wap_proposed_digest plan)"

text \<open>One turn of the loop: the targets seen and the sums of the proposed and the reviewed bytes.\<close>

definition validate_plan ::
    "apply_host \<Rightarrow> string set \<times> nat \<times> nat \<Rightarrow> workspace_apply_plan \<Rightarrow> workspace_apply_error + string set \<times> nat \<times> nat" where
  "validate_plan H state plan = (case state of (targets, proposed_total, base_total) \<Rightarrow>
     and_then (validate_target_path (wap_target_path plan)) (\<lambda>_.
     and_then (proposed_bytes H plan) (\<lambda>proposed.
       if wap_target_path plan \<in> targets \<or> \<not> proposal_valid H plan proposed
         \<or> (case wap_base plan of Some base \<Rightarrow> \<not> base_valid H plan base | None \<Rightarrow> False)
       then Inl InvalidPath
       else and_then (ok_or (checked_usize_add proposed_total (length proposed)) TooLarge) (\<lambda>p.
         and_then (ok_or (checked_usize_add base_total (unat (base_bytes_len plan))) TooLarge) (\<lambda>b.
           Inr (insert (wap_target_path plan) targets, p, b))))))"

definition validate_workspace_apply_set :: "apply_host \<Rightarrow> workspace_apply_set_plan \<Rightarrow> workspace_apply_error + unit" where
  "validate_workspace_apply_set H set_plan =
     (if was_plans set_plan = [] \<or> length (was_plans set_plan) > MAX_WORKSPACE_APPLY_FILES then Inl InvalidPath
      else and_then (try_fold (validate_plan H) ({}, 0, 0) (was_plans set_plan)) (\<lambda>(_, proposed_total, base_total).
        if proposed_total > MAX_WORKSPACE_APPLY_BYTES \<or> base_total > MAX_WORKSPACE_APPLY_BYTES
          \<or> workspace_set_digest H (was_plans set_plan) \<noteq> was_result_digest set_plan
        then Inl TooLarge else Inr ()))"

definition select_plan ::
    "apply_host \<Rightarrow> (string, string) btree \<Rightarrow> nat \<times> workspace_apply_plan list \<Rightarrow> workspace_apply_plan
      \<Rightarrow> workspace_apply_error + nat \<times> workspace_apply_plan list" where
  "select_plan H selections state reviewed_plan = (case state of (total_bytes, plans) \<Rightarrow>
     (case bt_get selections (wap_target_path reviewed_plan) of
        None \<Rightarrow> Inr (total_bytes, plans)
      | Some content \<Rightarrow>
          (if wap_delete reviewed_plan \<or> plan_is_binary reviewed_plan then Inl InvalidPath
           else and_then (ok_or (checked_usize_add total_bytes (length content)) TooLarge) (\<lambda>total.
             if length content > MAX_WORKSPACE_FILE_BYTES \<or> total > MAX_WORKSPACE_APPLY_BYTES then Inl TooLarge
             else if content = base_content reviewed_plan then Inl NoChanges
             else Inr (total, plans @ [reviewed_plan\<lparr>wap_proposed_digest := sha256_bytes H (bytes_of_string content),
               wap_proposed_content := content, wap_proposed_binary_base64 := None\<rparr>])))))"

definition select_workspace_apply_set ::
    "apply_host \<Rightarrow> workspace_apply_set_plan \<Rightarrow> (string, string) btree \<Rightarrow> workspace_apply_error + workspace_apply_set_plan" where
  "select_workspace_apply_set H reviewed selections =
     (if selections = [] \<or> length selections > length (was_plans reviewed) then Inl NoChanges
      else if list_ex (\<lambda>(target, _). target \<notin> wap_target_path ` set (was_plans reviewed)) selections then Inl InvalidPath
      else and_then (try_fold (select_plan H selections) (0, []) (was_plans reviewed)) (\<lambda>(_, plans).
        if plans = [] then Inl NoChanges
        else Inr \<lparr>was_plans = plans, was_result_digest = workspace_set_digest H plans\<rparr>))"

end
