(* ===== verification/Workspace_Transaction.thy ===== *)
theory Workspace_Transaction
  imports Workspace_Apply
begin

text \<open>
  The durable transaction of \<^verbatim>\<open>hyper-term-daemon/src/workspace_apply.rs\<close>. A set is staged
  beside its targets, with a hard link to every file that it replaces or deletes; the manifest of
  the transaction names the phase it has reached. Installation renames the stages over the
  targets one after the other. When a step fails, or the process died and a later one recovers,
  the manifest says how every target can be told to be the reviewed or the proposed file.
\<close>

section \<open>Manifests\<close>

datatype workspace_transaction_phase = Preparing | Prepared | RollingBack | Committed | RolledBack
datatype workspace_transaction_outcome = OutcomeCommitted | OutcomeRolledBack

record workspace_transaction_context =
  wtc_task_id :: task_id
  wtc_operation_id :: operation_id
  wtc_operation_revision :: u64

record workspace_transaction_receipt =
  wtr_transaction_id :: uuid
  wtr_task_id :: task_id
  wtr_operation_id :: operation_id
  wtr_operation_revision :: u64
  wtr_result_digest :: string
  wtr_outcome :: workspace_transaction_outcome
  wtr_failure_summary :: "string option"

datatype durable_workspace_apply_result =
    CommittedResult workspace_transaction_receipt
  | RolledBackResult workspace_transaction_receipt

record workspace_recovery_report =
  wrr_receipts :: "workspace_transaction_receipt list"
  wrr_blocked :: "string list"

record workspace_recovery_identity =
  wri_digest :: string
  wri_device :: u64
  wri_inode :: u64
  wri_mode :: u32

definition identity_of_snapshot :: "workspace_file_snapshot \<Rightarrow> workspace_recovery_identity" where
  "identity_of_snapshot s = \<lparr>wri_digest = wfs_digest s, wri_device = wfs_device s, wri_inode = wfs_inode s,
     wri_mode = wfs_mode s\<rparr>"

definition identity_matches :: "workspace_recovery_identity \<Rightarrow> workspace_file_snapshot \<Rightarrow> bool" where
  "identity_matches i s \<longleftrightarrow> wri_digest i = wfs_digest s \<and> wri_device i = wfs_device s \<and> wri_inode i = wfs_inode s
     \<and> wri_mode i = wfs_mode s"

record workspace_transaction_member =
  wtx_target_path :: string
  wtx_parent_device :: u64
  wtx_parent_inode :: u64
  wtx_stage_name :: string
  wtx_backup_name :: "string option"
  wtx_base :: "workspace_recovery_identity option"
  wtx_proposed_digest :: string
  wtx_proposed_mode :: u32
  wtx_delete :: bool
  wtx_staged :: "workspace_recovery_identity option"
  wtx_backup :: "workspace_recovery_identity option"

record workspace_transaction_manifest =
  wtm_schema_version :: u32
  wtm_transaction_id :: uuid
  wtm_task_id :: task_id
  wtm_operation_id :: operation_id
  wtm_operation_revision :: u64
  wtm_result_digest :: string
  wtm_phase :: workspace_transaction_phase
  wtm_failure_summary :: "string option"
  wtm_members :: "workspace_transaction_member list"

text \<open>The JSON text of a manifest, as the serialisation crate writes and reads it.\<close>

record manifest_json =
  mj_to_vec :: "workspace_transaction_manifest \<Rightarrow> string + bytes"
  mj_from_slice :: "bytes \<Rightarrow> string + workspace_transaction_manifest"

definition apply_error_text :: "apply_host \<Rightarrow> workspace_apply_error \<Rightarrow> string" where
  "apply_error_text H error = (case error of
       InvalidPath \<Rightarrow> ''workspace target path is invalid''
     | ParentUnavailable \<Rightarrow> ''workspace target parent is unavailable''
     | ParentChanged \<Rightarrow> ''workspace target parent changed after review''
     | UnsupportedTarget \<Rightarrow> ''workspace target is not a bounded regular UTF-8 file''
     | TooLarge \<Rightarrow> ''workspace target exceeds the bounded file size''
     | StaleBase \<Rightarrow> ''workspace target changed after review''
     | workspace_apply_error.UnknownExecution reason \<Rightarrow> ''workspace apply may have executed but could not be verified: '' @ reason
     | RecoveryRequired reason \<Rightarrow> ''workspace transaction recovery is required: '' @ reason
     | NoChanges \<Rightarrow> ''workspace target already matches the artifact''
     | Io error \<Rightarrow> ''workspace apply I/O failed: '' @ wh_io_text H error)"

definition workspace_stage_name :: "apply_host \<Rightarrow> uuid \<Rightarrow> nat \<Rightarrow> string" where
  "workspace_stage_name H transaction_id index =
     ''.hyper-term-apply-'' @ wh_uuid_text H transaction_id @ ''-'' @ decimal index @ ''.tmp''"

definition workspace_backup_name :: "apply_host \<Rightarrow> uuid \<Rightarrow> nat \<Rightarrow> string" where
  "workspace_backup_name H transaction_id index =
     ''.hyper-term-apply-'' @ wh_uuid_text H transaction_id @ ''-'' @ decimal index @ ''.base''"

definition DEFAULT_MODE :: u32 where "DEFAULT_MODE = 0x1A4"

definition proposed_mode :: "workspace_apply_plan \<Rightarrow> u32" where
  "proposed_mode plan = (case wap_base plan of Some base \<Rightarrow> and (wfs_mode base) PERMISSION_BITS | None \<Rightarrow> DEFAULT_MODE)"

definition new_member :: "apply_host \<Rightarrow> uuid \<Rightarrow> nat \<Rightarrow> workspace_apply_plan \<Rightarrow> workspace_transaction_member" where
  "new_member H transaction_id index plan = \<lparr>wtx_target_path = wap_target_path plan,
     wtx_parent_device = wap_parent_device plan, wtx_parent_inode = wap_parent_inode plan,
     wtx_stage_name = workspace_stage_name H transaction_id index,
     wtx_backup_name = map_option (\<lambda>_. workspace_backup_name H transaction_id index) (wap_base plan),
     wtx_base = map_option identity_of_snapshot (wap_base plan),
     wtx_proposed_digest = wap_proposed_digest plan, wtx_proposed_mode = proposed_mode plan,
     wtx_delete = wap_delete plan, wtx_staged = None, wtx_backup = None\<rparr>"

definition new_manifest ::
    "apply_host \<Rightarrow> uuid \<Rightarrow> workspace_transaction_context \<Rightarrow> workspace_apply_set_plan \<Rightarrow> workspace_transaction_manifest" where
  "new_manifest H transaction_id context set_plan = \<lparr>wtm_schema_version = WORKSPACE_TRANSACTION_SCHEMA_VERSION,
     wtm_transaction_id = transaction_id, wtm_task_id = wtc_task_id context,
     wtm_operation_id = wtc_operation_id context, wtm_operation_revision = wtc_operation_revision context,
     wtm_result_digest = was_result_digest set_plan, wtm_phase = Preparing, wtm_failure_summary = None,
     wtm_members = map (\<lambda>(index, plan). new_member H transaction_id index plan)
       (enumerate 0 (was_plans set_plan))\<rparr>"

text \<open>Receipts are made of manifests in a terminal phase only; the source does not reach the other arm.\<close>

definition manifest_receipt :: "workspace_transaction_manifest \<Rightarrow> workspace_transaction_receipt" where
  "manifest_receipt m = \<lparr>wtr_transaction_id = wtm_transaction_id m, wtr_task_id = wtm_task_id m,
     wtr_operation_id = wtm_operation_id m, wtr_operation_revision = wtm_operation_revision m,
     wtr_result_digest = wtm_result_digest m,
     wtr_outcome = (if wtm_phase m = Committed then OutcomeCommitted else OutcomeRolledBack),
     wtr_failure_summary = wtm_failure_summary m\<rparr>"

definition manifest_header_valid :: "workspace_transaction_manifest \<Rightarrow> bool" where
  "manifest_header_valid m \<longleftrightarrow> wtm_schema_version m = WORKSPACE_TRANSACTION_SCHEMA_VERSION
     \<and> wtm_operation_revision m \<noteq> 0 \<and> is_sha256 (wtm_result_digest m) \<and> wtm_members m \<noteq> []
     \<and> length (wtm_members m) \<le> MAX_WORKSPACE_APPLY_FILES
     \<and> (case wtm_failure_summary m of Some summary \<Rightarrow> length summary \<le> 16 * 1024 | None \<Rightarrow> True)"

definition requires_staged_identity :: "workspace_transaction_manifest \<Rightarrow> bool" where
  "requires_staged_identity m \<longleftrightarrow> wtm_phase m \<in> {Prepared, RollingBack, Committed}
     \<or> wtm_phase m = RolledBack
       \<and> \<not> list_all (\<lambda>member. wtx_staged member = None \<and> wtx_backup member = None) (wtm_members m)"

definition identity_digest_valid :: "workspace_recovery_identity option \<Rightarrow> bool" where
  "identity_digest_valid i \<longleftrightarrow> (case i of Some identity \<Rightarrow> is_sha256 (wri_digest identity) | None \<Rightarrow> True)"

definition member_valid :: "apply_host \<Rightarrow> uuid \<Rightarrow> bool \<Rightarrow> nat \<Rightarrow> workspace_transaction_member \<Rightarrow> bool" where
  "member_valid H transaction_id required index member \<longleftrightarrow>
     wtx_stage_name member = workspace_stage_name H transaction_id index
     \<and> wtx_backup_name member = map_option (\<lambda>_. workspace_backup_name H transaction_id index) (wtx_base member)
     \<and> is_sha256 (wtx_proposed_digest member) \<and> wtx_proposed_mode member \<le> PERMISSION_BITS
     \<and> \<not> (wtx_delete member \<and> wtx_base member = None)
     \<and> \<not> (required \<and> wtx_delete member \<and> wtx_staged member \<noteq> None)
     \<and> \<not> (required \<and> \<not> wtx_delete member \<and> wtx_staged member = None)
     \<and> \<not> (wtx_staged member \<noteq> None \<and> (wtx_base member \<noteq> None) \<noteq> (wtx_backup member \<noteq> None))
     \<and> \<not> (required \<and> (wtx_base member \<noteq> None) \<noteq> (wtx_backup member \<noteq> None))
     \<and> identity_digest_valid (wtx_base member) \<and> identity_digest_valid (wtx_staged member)
     \<and> identity_digest_valid (wtx_backup member)"

definition staged_valid :: "workspace_transaction_member \<Rightarrow> bool" where
  "staged_valid member \<longleftrightarrow> (case wtx_staged member of
       Some staged \<Rightarrow> wri_digest staged = wtx_proposed_digest member
         \<and> and (wri_mode staged) PERMISSION_BITS = wtx_proposed_mode member
     | None \<Rightarrow> True)"

definition backup_valid :: "workspace_transaction_member \<Rightarrow> bool" where
  "backup_valid member \<longleftrightarrow> (case (wtx_base member, wtx_backup member) of
       (Some base, Some backup) \<Rightarrow> base = backup | _ \<Rightarrow> True)"

primrec validate_members ::
    "apply_host \<Rightarrow> uuid \<Rightarrow> bool \<Rightarrow> nat \<Rightarrow> string set \<Rightarrow> workspace_transaction_member list \<Rightarrow> workspace_apply_error + unit" where
  "validate_members H transaction_id required index targets [] = Inr ()"
| "validate_members H transaction_id required index targets (member # members) =
     and_then (validate_target_path (wtx_target_path member)) (\<lambda>_.
       if wtx_target_path member \<in> targets \<or> \<not> member_valid H transaction_id required index member
       then Inl (RecoveryRequired ''transaction manifest member is invalid'')
       else if \<not> staged_valid member
       then Inl (RecoveryRequired ''transaction staged identity does not match the proposal'')
       else if \<not> backup_valid member
       then Inl (RecoveryRequired ''transaction backup identity does not match the reviewed base'')
       else validate_members H transaction_id required (index + 1) (insert (wtx_target_path member) targets) members)"

definition validate_workspace_transaction_manifest ::
    "apply_host \<Rightarrow> workspace_transaction_manifest \<Rightarrow> workspace_apply_error + unit" where
  "validate_workspace_transaction_manifest H m =
     (if \<not> manifest_header_valid m then Inl (RecoveryRequired ''transaction manifest header is invalid'')
      else validate_members H (wtm_transaction_id m) (requires_staged_identity m) 0 {} (wtm_members m))"

section \<open>The journal\<close>

definition on_journal ::
    "((string, disk_node) btree \<Rightarrow> (io_error + 'a) \<times> (string, disk_node) btree) \<Rightarrow> workspace_disk
      \<Rightarrow> (io_error + 'a) \<times> workspace_disk" where
  "on_journal f d = (case wd_journal d of
       JournalDirectory t \<Rightarrow> (case f t of (r, t') \<Rightarrow> (r, d\<lparr>wd_journal := JournalDirectory t'\<rparr>))
     | _ \<Rightarrow> (Inl NotFound, d))"

definition bt_remove :: "string \<Rightarrow> (string, disk_node) btree \<Rightarrow> (string, disk_node) btree" where
  "bt_remove k t = filter (\<lambda>(k', _). k' \<noteq> k) t"

definition journal_call ::
    "((string, disk_node) btree \<Rightarrow> (io_error + 'a) \<times> (string, disk_node) btree) \<Rightarrow> (apply_world, io_error, 'a) step" where
  "journal_call f = system_call id (on_journal f)"

text \<open>Missing, the directory is made; its mode and its durability are not observed again.\<close>

definition workspace_transaction_root :: "unit disk_step" where
  "workspace_transaction_root =
     then_step (system_call Io (\<lambda>d. case wd_journal d of
         NoJournal \<Rightarrow> (Inr (), d\<lparr>wd_journal := JournalDirectory []\<rparr>)
       | DanglingJournal \<Rightarrow> (Inl (Io AlreadyExists), d)
       | NotAJournal \<Rightarrow> (Inl (RecoveryRequired ''transaction journal root is not a private directory''), d)
       | JournalDirectory _ \<Rightarrow> (Inr (), d)))
     (then_step sync_all sync_all)"

definition manifest_file_name :: "apply_host \<Rightarrow> uuid \<Rightarrow> string" where
  "manifest_file_name H transaction_id = wh_uuid_text H transaction_id @ ''.json''"

definition journal_create :: "string \<Rightarrow> (string, disk_node) btree \<Rightarrow> (io_error + unit) \<times> (string, disk_node) btree" where
  "journal_create name t = (if bt_get t name \<noteq> None then (Inl AlreadyExists, t)
     else (Inr (), bt_insert name (RegularFile [] 0x8180) t))"

definition journal_append :: "string \<Rightarrow> bytes \<Rightarrow> workspace_disk \<Rightarrow> workspace_disk" where
  "journal_append name bs d = (case wd_journal d of
       JournalDirectory t \<Rightarrow> (case bt_get t name of
           Some (RegularFile old mode) \<Rightarrow> d\<lparr>wd_journal := JournalDirectory (bt_insert name (RegularFile (old @ bs) mode) t)\<rparr>
         | _ \<Rightarrow> d)
     | _ \<Rightarrow> d)"

definition journal_write :: "string \<Rightarrow> bytes \<Rightarrow> unit disk_step" where
  "journal_write name bs = faulty_call (\<lambda>n. journal_append name (take n bs)) Io (\<lambda>d. (Inr (), journal_append name bs d))"

definition journal_rename ::
    "string \<Rightarrow> string \<Rightarrow> (string, disk_node) btree \<Rightarrow> (io_error + unit) \<times> (string, disk_node) btree" where
  "journal_rename source_name target_name t = (case bt_get t source_name of
       None \<Rightarrow> (Inl NotFound, t)
     | Some node \<Rightarrow>
         (if bt_get t target_name = Some DirectoryNode then (Inl IsADirectory, t)
          else (Inr (), bt_insert target_name node (bt_remove source_name t))))"

definition journal_remove :: "string \<Rightarrow> (string, disk_node) btree \<Rightarrow> (io_error + unit) \<times> (string, disk_node) btree" where
  "journal_remove name t = (case bt_get t name of
       None \<Rightarrow> (Inl NotFound, t)
     | Some node \<Rightarrow> (if node = DirectoryNode then (Inl IsADirectory, t) else (Inr (), bt_remove name t)))"

definition write_workspace_transaction_manifest ::
    "apply_host \<Rightarrow> manifest_json \<Rightarrow> workspace_transaction_manifest \<Rightarrow> unit disk_step" where
  "write_workspace_transaction_manifest H J m =
     then_step (lift_step (validate_workspace_transaction_manifest H m))
     (bind_step (lift_step (map_err (\<lambda>error. RecoveryRequired
        (''transaction manifest could not be serialized: '' @ error)) (mj_to_vec J m))) (\<lambda>bs.
      then_step (guard_step (length bs \<le> MAX_WORKSPACE_TRANSACTION_MANIFEST_BYTES) TooLarge)
      (bind_step (new_uuid H) (\<lambda>unique.
       let temporary = ''.'' @ wh_uuid_text H (wtm_transaction_id m) @ ''.'' @ wh_uuid_text H unique @ ''.tmp'';
           target = manifest_file_name H (wtm_transaction_id m) in
       on_error_step
         (then_step (map_error_step Io (journal_call (journal_create temporary)))
          (then_step (journal_write temporary bs)
           (then_step sync_all
            (then_step (map_error_step Io (journal_call (journal_rename temporary target)))
             sync_all))))
         (\<lambda>_. bind_step (attempt_step (journal_call (journal_remove temporary))) (\<lambda>_. return_step ()))))))"

definition read_workspace_transaction_manifest ::
    "apply_host \<Rightarrow> manifest_json \<Rightarrow> string \<Rightarrow> workspace_transaction_manifest disk_step" where
  "read_workspace_transaction_manifest H J name =
     bind_step (map_error_step Io (journal_call (\<lambda>t. (case bt_get t name of
         None \<Rightarrow> Inl NotFound
       | Some SymbolicLink \<Rightarrow> Inl (OtherIoError ''too many levels of symbolic links'')
       | Some node \<Rightarrow> Inr node, t)))) (\<lambda>node. case node of
         RegularFile bs _ \<Rightarrow>
           (if length bs > MAX_WORKSPACE_TRANSACTION_MANIFEST_BYTES
            then fail_step (RecoveryRequired ''transaction manifest is not a bounded regular file'')
            else bind_step (lift_step (map_err (\<lambda>error. RecoveryRequired
                (''transaction manifest is invalid JSON: '' @ error)) (mj_from_slice J bs))) (\<lambda>m.
              then_step (lift_step (validate_workspace_transaction_manifest H m)) (return_step m)))
       | _ \<Rightarrow> fail_step (RecoveryRequired ''transaction manifest is not a bounded regular file''))"

definition acknowledge_workspace_transaction :: "apply_host \<Rightarrow> uuid \<Rightarrow> unit disk_step" where
  "acknowledge_workspace_transaction H transaction_id =
     then_step workspace_transaction_root
     (bind_step (attempt_step (journal_call (journal_remove (manifest_file_name H transaction_id)))) (\<lambda>r. case r of
         Inr _ \<Rightarrow> sync_all
       | Inl error \<Rightarrow> (if error = NotFound then return_step () else fail_step (Io error))))"

section \<open>Staging\<close>

record staged_workspace_plan =
  swp_plan :: workspace_apply_plan
  swp_parent :: open_parent
  swp_stage_name :: string
  swp_installed :: bool

definition parent_is :: "open_parent \<Rightarrow> u64 \<Rightarrow> u64 \<Rightarrow> bool" where
  "parent_is parent device inode \<longleftrightarrow> op_directory parent = (device, inode)"

definition required_snapshot :: "apply_host \<Rightarrow> file_id \<Rightarrow> string \<Rightarrow> string \<Rightarrow> workspace_file_snapshot disk_step" where
  "required_snapshot H dir name reason =
     bind_step (read_target_at H dir name) (\<lambda>found. lift_step (ok_or found (RecoveryRequired reason)))"

text \<open>The stage: a new file with the proposed bytes and mode, read back and identified.\<close>

definition stage_proposal ::
    "apply_host \<Rightarrow> file_id \<Rightarrow> workspace_apply_plan \<Rightarrow> workspace_transaction_member \<Rightarrow> workspace_transaction_member disk_step" where
  "stage_proposal H dir plan member = (if wap_delete plan then return_step member else
     bind_step (create_stage H dir (wtx_stage_name member)) (\<lambda>stage.
     bind_step (lift_step (proposed_bytes H plan)) (\<lambda>bs.
     then_step (write_all_bytes stage bs)
     (then_step (set_permissions stage (wtx_proposed_mode member))
     (then_step sync_all
     (bind_step (required_snapshot H dir (wtx_stage_name member) ''staged transaction member disappeared'') (\<lambda>staged.
      then_step (guard_step (wfs_digest staged = wtx_proposed_digest member
          \<and> and (wfs_mode staged) PERMISSION_BITS = wtx_proposed_mode member)
        (RecoveryRequired ''staged transaction member could not be verified''))
      (return_step (member\<lparr>wtx_staged := Some (identity_of_snapshot staged)\<rparr>)))))))))"

text \<open>The backup: a second name of the reviewed file.\<close>

definition stage_backup ::
    "apply_host \<Rightarrow> file_id \<Rightarrow> string \<Rightarrow> workspace_transaction_member \<Rightarrow> workspace_transaction_member disk_step" where
  "stage_backup H dir name member = (case wtx_backup_name member of
       None \<Rightarrow> return_step member
     | Some backup_name \<Rightarrow>
         then_step (link_target_at dir name backup_name)
         (bind_step (required_snapshot H dir backup_name ''transaction backup disappeared while staging'') (\<lambda>backup.
          bind_step (lift_step (ok_or (wtx_base member) (RecoveryRequired ''transaction backup has no reviewed base''))) (\<lambda>expected.
          then_step (guard_step (identity_matches expected backup)
            (RecoveryRequired ''transaction backup identity changed while staging''))
          (return_step (member\<lparr>wtx_backup := Some (identity_of_snapshot backup)\<rparr>))))))"

definition unstage :: "file_id \<Rightarrow> workspace_apply_plan \<Rightarrow> workspace_transaction_member \<Rightarrow> unit disk_step" where
  "unstage dir plan member =
     then_step (when_step (\<not> wap_delete plan) (unlink_at dir (wtx_stage_name member)))
     (then_step (case wtx_backup_name member of Some name \<Rightarrow> unlink_at dir name | None \<Rightarrow> return_step ())
     (bind_step (attempt_step sync_all) (\<lambda>_. return_step ())))"

text \<open>
  The source changes the member in place and clears its two identities when it fails; a failed
  staging leaves the member of the caller, whose identities are clear.
\<close>

definition stage_durable_workspace_plan ::
    "apply_host \<Rightarrow> workspace_apply_plan \<Rightarrow> workspace_transaction_member
      \<Rightarrow> (staged_workspace_plan \<times> workspace_transaction_member) disk_step" where
  "stage_durable_workspace_plan H plan member =
     bind_step (lift_step (validate_target_path (wap_target_path plan))) (\<lambda>relative.
     bind_step (open_parent_of H relative) (\<lambda>parent.
     then_step (guard_step (parent_is parent (wap_parent_device plan) (wap_parent_inode plan)
         \<and> parent_is parent (wtx_parent_device member) (wtx_parent_inode member)) ParentChanged)
     (bind_step (read_target_at H (op_directory parent) (op_file_name parent)) (\<lambda>current.
      then_step (guard_step (same_file_state current (wap_base plan)) StaleBase)
      (then_step (guard_step (nul \<notin> set (wtx_stage_name member)
          \<and> (case wtx_backup_name member of Some name \<Rightarrow> nul \<notin> set name | None \<Rightarrow> True)) InvalidPath)
      (bind_step (on_error_step
          (bind_step (stage_proposal H (op_directory parent) plan member) (\<lambda>member.
           bind_step (stage_backup H (op_directory parent) (op_file_name parent) member) (\<lambda>member.
           bind_step (read_target_at H (op_directory parent) (op_file_name parent)) (\<lambda>latest.
           then_step (guard_step (same_file_state latest (wap_base plan)) StaleBase)
           (then_step sync_all (return_step member))))))
          (\<lambda>_. unstage (op_directory parent) plan member)) (\<lambda>member.
       return_step (\<lparr>swp_plan = plan, swp_parent = parent, swp_stage_name = wtx_stage_name member,
         swp_installed = False\<rparr>, member))))))))"

section \<open>Cleaning up\<close>

definition unlink_manifest_file_if_matches ::
    "apply_host \<Rightarrow> file_id \<Rightarrow> string \<Rightarrow> workspace_recovery_identity option \<Rightarrow> (string \<times> u32) option \<Rightarrow> unit disk_step" where
  "unlink_manifest_file_if_matches H dir name expected preparing_stage =
     bind_step (read_target_at H dir name) (\<lambda>found. case found of
         None \<Rightarrow> return_step ()
       | Some current \<Rightarrow>
           then_step (guard_step ((case expected of Some identity \<Rightarrow> identity_matches identity current | None \<Rightarrow> False)
               \<or> (case preparing_stage of
                   Some (digest, mode) \<Rightarrow> wfs_digest current = digest \<and> and (wfs_mode current) PERMISSION_BITS = mode
                 | None \<Rightarrow> False))
             (RecoveryRequired ''transaction cleanup entry changed identity''))
           (unlink_at_if_exists dir name))"

text \<open>The directory of a member, which must be the reviewed one.\<close>

definition member_parent :: "apply_host \<Rightarrow> workspace_transaction_member \<Rightarrow> open_parent disk_step" where
  "member_parent H member =
     bind_step (lift_step (validate_target_path (wtx_target_path member))) (\<lambda>relative.
     bind_step (open_parent_of H relative) (\<lambda>parent.
     then_step (guard_step (parent_is parent (wtx_parent_device member) (wtx_parent_inode member)) ParentChanged)
     (return_step parent)))"

definition cleanup_member :: "apply_host \<Rightarrow> workspace_transaction_member \<Rightarrow> unit disk_step" where
  "cleanup_member H member =
     bind_step (member_parent H member) (\<lambda>parent.
     then_step (guard_step (nul \<notin> set (wtx_stage_name member)) InvalidPath)
     (then_step (when_step (\<not> wtx_delete member)
        (unlink_manifest_file_if_matches H (op_directory parent) (wtx_stage_name member) (wtx_staged member)
          (Some (wtx_proposed_digest member, wtx_proposed_mode member))))
     (then_step (case wtx_backup_name member of
          None \<Rightarrow> return_step ()
        | Some backup_name \<Rightarrow>
            then_step (guard_step (nul \<notin> set backup_name) InvalidPath)
            (unlink_manifest_file_if_matches H (op_directory parent) backup_name
              (case wtx_backup member of Some identity \<Rightarrow> Some identity | None \<Rightarrow> wtx_base member) None))
      sync_all)))"

definition cleanup_manifest_files :: "apply_host \<Rightarrow> workspace_transaction_manifest \<Rightarrow> unit disk_step" where
  "cleanup_manifest_files H m = each_step (cleanup_member H) (wtm_members m)"

section \<open>Rolling back\<close>

datatype manifest_target_state = BaseTarget | ProposedTarget | UnknownTarget

definition classify_snapshot ::
    "workspace_transaction_member \<Rightarrow> workspace_file_snapshot option \<Rightarrow> manifest_target_state" where
  "classify_snapshot member current =
     (if (case (current, wtx_base member) of
           (None, None) \<Rightarrow> True | (Some c, Some base) \<Rightarrow> identity_matches base c | _ \<Rightarrow> False) then BaseTarget
      else if wtx_delete member \<and> current = None then ProposedTarget
      else if (case (current, wtx_staged member) of
           (Some c, Some staged) \<Rightarrow> identity_matches staged c | _ \<Rightarrow> False) then ProposedTarget
      else UnknownTarget)"

definition classify_manifest_target :: "apply_host \<Rightarrow> workspace_transaction_member \<Rightarrow> manifest_target_state disk_step" where
  "classify_manifest_target H member =
     bind_step (member_parent H member) (\<lambda>parent.
     bind_step (read_target_at H (op_directory parent) (op_file_name parent)) (\<lambda>current.
       return_step (classify_snapshot member current)))"

primrec all_targets_match ::
    "apply_host \<Rightarrow> workspace_transaction_member list \<Rightarrow> manifest_target_state \<Rightarrow> bool disk_step" where
  "all_targets_match H [] expected = return_step True"
| "all_targets_match H (member # members) expected =
     bind_step (classify_manifest_target H member) (\<lambda>state.
       if state \<noteq> expected then return_step False else all_targets_match H members expected)"

definition all_manifest_targets_match ::
    "apply_host \<Rightarrow> workspace_transaction_manifest \<Rightarrow> manifest_target_state \<Rightarrow> bool disk_step" where
  "all_manifest_targets_match H m expected = all_targets_match H (wtm_members m) expected"

definition restore_backup ::
    "apply_host \<Rightarrow> open_parent \<Rightarrow> string \<Rightarrow> workspace_recovery_identity \<Rightarrow> string \<Rightarrow> unit disk_step" where
  "restore_backup H parent target_path base backup_name =
     then_step (guard_step (nul \<notin> set backup_name) InvalidPath)
     (bind_step (required_snapshot H (op_directory parent) backup_name (''backup for '' @ target_path @ '' is missing'')) (\<lambda>backup.
      then_step (guard_step (identity_matches base backup)
        (RecoveryRequired (''backup for '' @ target_path @ '' changed identity'')))
      (then_step (replace_target_at (op_directory parent) backup_name (op_file_name parent))
      (bind_step (required_snapshot H (op_directory parent) (op_file_name parent)
          (''restored target '' @ target_path @ '' disappeared'')) (\<lambda>restored.
       guard_step (identity_matches base restored)
         (RecoveryRequired (''restored target '' @ target_path @ '' has the wrong identity'')))))))"

definition remove_created :: "apply_host \<Rightarrow> open_parent \<Rightarrow> string \<Rightarrow> unit disk_step" where
  "remove_created H parent target_path =
     then_step (unlink_at_if_exists (op_directory parent) (op_file_name parent))
     (bind_step (read_target_at H (op_directory parent) (op_file_name parent)) (\<lambda>found.
       guard_step (found = None) (RecoveryRequired (''created target '' @ target_path @ '' could not be removed''))))"

definition rollback_member :: "apply_host \<Rightarrow> workspace_transaction_member \<Rightarrow> unit disk_step" where
  "rollback_member H member =
     bind_step (classify_manifest_target H member) (\<lambda>state. case state of
         BaseTarget \<Rightarrow> return_step ()
       | UnknownTarget \<Rightarrow> fail_step (RecoveryRequired
           (''target '' @ wtx_target_path member @ '' matches neither reviewed base nor staged proposal''))
       | ProposedTarget \<Rightarrow>
           bind_step (member_parent H member) (\<lambda>parent.
           then_step (case (wtx_base member, wtx_backup_name member) of
               (Some base, Some backup_name) \<Rightarrow> restore_backup H parent (wtx_target_path member) base backup_name
             | (None, None) \<Rightarrow> remove_created H parent (wtx_target_path member)
             | _ \<Rightarrow> fail_step (RecoveryRequired ''transaction backup shape is invalid''))
           sync_all))"

definition rollback_workspace_manifest :: "apply_host \<Rightarrow> workspace_transaction_manifest \<Rightarrow> unit disk_step" where
  "rollback_workspace_manifest H m = each_step (rollback_member H) (rev (wtm_members m))"

section \<open>Applying a set\<close>

definition install_transaction_plan :: "apply_host \<Rightarrow> staged_workspace_plan \<Rightarrow> unit disk_step" where
  "install_transaction_plan H staged =
     (let dir = op_directory (swp_parent staged); name = op_file_name (swp_parent staged); plan = swp_plan staged in
      bind_step (read_target_at H dir name) (\<lambda>latest.
      then_step (guard_step (same_file_state latest (wap_base plan)) StaleBase)
      (then_step (if wap_delete plan then unlink_at_checked dir name
         else install_transaction_stage H dir (swp_stage_name staged) name (wap_base plan \<noteq> None))
      (then_step sync_all
      (bind_step (read_target_at H dir name) (\<lambda>installed.
       if wap_delete plan then guard_step (installed = None) StaleBase
       else bind_step (lift_step (ok_or installed StaleBase)) (\<lambda>s.
         guard_step (wfs_digest s = wap_proposed_digest plan
           \<and> and (wfs_mode s) PERMISSION_BITS = proposed_mode plan) StaleBase)))))))"

definition member_at :: "nat \<Rightarrow> workspace_transaction_manifest \<Rightarrow> workspace_transaction_member" where
  "member_at index m = wtm_members m ! index"

definition put_member :: "nat \<Rightarrow> workspace_transaction_member \<Rightarrow> workspace_transaction_manifest \<Rightarrow> workspace_transaction_manifest" where
  "put_member index member m = m\<lparr>wtm_members := (wtm_members m)[index := member]\<rparr>"

definition abandon_preparation ::
    "apply_host \<Rightarrow> manifest_json \<Rightarrow> workspace_transaction_manifest \<Rightarrow> workspace_apply_error \<Rightarrow> durable_workspace_apply_result disk_step" where
  "abandon_preparation H J m error =
     then_step (cleanup_manifest_files H m)
     (let m' = m\<lparr>wtm_members := map (\<lambda>member. member\<lparr>wtx_staged := None, wtx_backup := None\<rparr>) (wtm_members m),
          wtm_phase := RolledBack, wtm_failure_summary := Some (apply_error_text H error)\<rparr> in
      then_step (write_workspace_transaction_manifest H J m') (return_step (RolledBackResult (manifest_receipt m'))))"

text \<open>The loop that stages the plans: a result already, or all of them staged.\<close>

primrec stage_each ::
    "apply_host \<Rightarrow> manifest_json \<Rightarrow> nat \<Rightarrow> workspace_transaction_manifest \<Rightarrow> workspace_apply_plan list
      \<Rightarrow> (durable_workspace_apply_result + staged_workspace_plan list \<times> workspace_transaction_manifest) disk_step" where
  "stage_each H J index m [] = return_step (Inr ([], m))"
| "stage_each H J index m (plan # plans) =
     bind_step (attempt_step (stage_durable_workspace_plan H plan (member_at index m))) (\<lambda>r. case r of
         Inl error \<Rightarrow> bind_step (abandon_preparation H J m error) (\<lambda>result. return_step (Inl result))
       | Inr (candidate, member) \<Rightarrow>
           bind_step (stage_each H J (index + 1) (put_member index member m) plans) (\<lambda>rest. case rest of
               Inl result \<Rightarrow> return_step (Inl result)
             | Inr (staged, m') \<Rightarrow> return_step (Inr (candidate # staged, m'))))"

definition check_prepared_stage :: "apply_host \<Rightarrow> staged_workspace_plan \<Rightarrow> workspace_transaction_member \<Rightarrow> unit disk_step" where
  "check_prepared_stage H staged member = when_step (\<not> wap_delete (swp_plan staged))
     (bind_step (required_snapshot H (op_directory (swp_parent staged)) (swp_stage_name staged) ''prepared stage disappeared'') (\<lambda>s.
      guard_step (case wtx_staged member of Some identity \<Rightarrow> identity_matches identity s | None \<Rightarrow> False)
        (RecoveryRequired ''prepared stage identity changed'')))"

definition abandon_installation ::
    "apply_host \<Rightarrow> manifest_json \<Rightarrow> workspace_transaction_manifest \<Rightarrow> workspace_apply_error \<Rightarrow> durable_workspace_apply_result disk_step" where
  "abandon_installation H J m error =
     (let rolling = m\<lparr>wtm_phase := RollingBack, wtm_failure_summary := Some (apply_error_text H error)\<rparr>;
          back = rolling\<lparr>wtm_phase := RolledBack\<rparr> in
      then_step (map_error_step (\<lambda>failed. workspace_apply_error.UnknownExecution
          (apply_error_text H error @ ''; could not persist rollback intent: '' @ apply_error_text H failed))
        (write_workspace_transaction_manifest H J rolling))
      (then_step (map_error_step (\<lambda>failed. workspace_apply_error.UnknownExecution
          (apply_error_text H error @ ''; rollback could not be verified: '' @ apply_error_text H failed))
        (rollback_workspace_manifest H rolling))
      (then_step (write_workspace_transaction_manifest H J back)
      (then_step (cleanup_manifest_files H back) (return_step (RolledBackResult (manifest_receipt back)))))))"

text \<open>The loop that installs the stages: a result already, or all of them installed.\<close>

primrec install_each ::
    "apply_host \<Rightarrow> manifest_json \<Rightarrow> workspace_transaction_manifest \<Rightarrow> nat \<Rightarrow> staged_workspace_plan list
      \<Rightarrow> durable_workspace_apply_result option disk_step" where
  "install_each H J m index [] = return_step None"
| "install_each H J m index (staged # rest) =
     then_step (check_prepared_stage H staged (member_at index m))
     (bind_step (attempt_step (install_transaction_plan H staged)) (\<lambda>r. case r of
         Inl error \<Rightarrow> bind_step (abandon_installation H J m error) (\<lambda>result. return_step (Some result))
       | Inr _ \<Rightarrow> install_each H J m (index + 1) rest))"

definition commit_transaction ::
    "apply_host \<Rightarrow> manifest_json \<Rightarrow> workspace_transaction_manifest \<Rightarrow> durable_workspace_apply_result disk_step" where
  "commit_transaction H J m =
     (let done' = m\<lparr>wtm_phase := Committed\<rparr> in
      then_step (map_error_step (\<lambda>error. workspace_apply_error.UnknownExecution
          (''workspace targets were installed but commit could not be persisted: '' @ apply_error_text H error))
        (write_workspace_transaction_manifest H J done'))
      (then_step (map_error_step (\<lambda>error. workspace_apply_error.UnknownExecution
          (''workspace transaction committed but cleanup failed: '' @ apply_error_text H error))
        (cleanup_manifest_files H done'))
      (return_step (CommittedResult (manifest_receipt done')))))"

definition apply_workspace_set_plan_durable ::
    "apply_host \<Rightarrow> manifest_json \<Rightarrow> workspace_transaction_context \<Rightarrow> workspace_apply_set_plan
      \<Rightarrow> durable_workspace_apply_result disk_step" where
  "apply_workspace_set_plan_durable H J context set_plan =
     then_step (lift_step (validate_workspace_apply_set H set_plan))
     (then_step workspace_transaction_root
     (bind_step (new_uuid H) (\<lambda>transaction_id.
      let m = new_manifest H transaction_id context set_plan in
      then_step (write_workspace_transaction_manifest H J m)
      (bind_step (stage_each H J 0 m (was_plans set_plan)) (\<lambda>r. case r of
          Inl result \<Rightarrow> return_step result
        | Inr (staged, m') \<Rightarrow>
            (let prepared = m'\<lparr>wtm_phase := Prepared\<rparr> in
             then_step (write_workspace_transaction_manifest H J prepared)
             (bind_step (install_each H J prepared 0 staged) (\<lambda>stopped. case stopped of
                 Some result \<Rightarrow> return_step result
               | None \<Rightarrow> commit_transaction H J prepared))))))))"

section \<open>Recovering\<close>

definition with_summary :: "string \<Rightarrow> workspace_transaction_manifest \<Rightarrow> workspace_transaction_manifest" where
  "with_summary summary m = m\<lparr>wtm_failure_summary :=
     (case wtm_failure_summary m of Some s \<Rightarrow> Some s | None \<Rightarrow> Some summary)\<rparr>"

definition recover_workspace_transaction ::
    "apply_host \<Rightarrow> manifest_json \<Rightarrow> workspace_transaction_manifest \<Rightarrow> workspace_transaction_receipt disk_step" where
  "recover_workspace_transaction H J m = (case wtm_phase m of
       Preparing \<Rightarrow>
         (let back = with_summary ''recovered an interrupted transaction before installation began'' (m\<lparr>wtm_phase := RolledBack\<rparr>) in
          then_step (cleanup_manifest_files H m)
          (then_step (write_workspace_transaction_manifest H J back) (return_step (manifest_receipt back))))
     | Prepared \<Rightarrow>
         bind_step (all_manifest_targets_match H m ProposedTarget) (\<lambda>complete.
           if complete then
             (let committed = m\<lparr>wtm_phase := Committed\<rparr> in
              then_step (write_workspace_transaction_manifest H J committed)
              (then_step (cleanup_manifest_files H committed) (return_step (manifest_receipt committed))))
           else
             (let rolling = with_summary ''recovered an interrupted partial workspace transaction'' (m\<lparr>wtm_phase := RollingBack\<rparr>);
                  back = rolling\<lparr>wtm_phase := RolledBack\<rparr> in
              then_step (write_workspace_transaction_manifest H J rolling)
              (then_step (rollback_workspace_manifest H rolling)
              (then_step (write_workspace_transaction_manifest H J back)
              (then_step (cleanup_manifest_files H back) (return_step (manifest_receipt back)))))))
     | RollingBack \<Rightarrow>
         (let back = with_summary ''continued rollback after an interrupted workspace transaction'' (m\<lparr>wtm_phase := RolledBack\<rparr>) in
          then_step (rollback_workspace_manifest H m)
          (then_step (write_workspace_transaction_manifest H J back)
          (then_step (cleanup_manifest_files H back) (return_step (manifest_receipt back)))))
     | Committed \<Rightarrow>
         bind_step (all_manifest_targets_match H m ProposedTarget) (\<lambda>complete.
           then_step (guard_step complete (RecoveryRequired ''committed targets no longer match the durable transaction''))
           (then_step (cleanup_manifest_files H m) (return_step (manifest_receipt m))))
     | RolledBack \<Rightarrow> then_step (cleanup_manifest_files H m) (return_step (manifest_receipt m)))"

text \<open>The entries of the journal in the order of their names, and what becomes of each.\<close>

definition blocked :: "string \<Rightarrow> workspace_recovery_report \<Rightarrow> workspace_recovery_report" where
  "blocked reason report = report\<lparr>wrr_blocked := wrr_blocked report @ [reason]\<rparr>"

definition recover_manifest ::
    "apply_host \<Rightarrow> manifest_json \<Rightarrow> string \<Rightarrow> uuid \<Rightarrow> workspace_recovery_report \<Rightarrow> workspace_recovery_report disk_step" where
  "recover_manifest H J name transaction_id report =
     bind_step (attempt_step (read_workspace_transaction_manifest H J name)) (\<lambda>r. case r of
         Inl error \<Rightarrow> return_step (blocked
           (''workspace transaction manifest '' @ name @ '' is unreadable: '' @ apply_error_text H error) report)
       | Inr m \<Rightarrow>
           (if wtm_transaction_id m \<noteq> transaction_id
            then return_step (blocked (''workspace transaction manifest id does not match '' @ name) report)
            else bind_step (attempt_step (recover_workspace_transaction H J m)) (\<lambda>recovered. case recovered of
                Inr receipt \<Rightarrow> return_step (report\<lparr>wrr_receipts := wrr_receipts report @ [receipt]\<rparr>)
              | Inl error \<Rightarrow> return_step (blocked (''workspace transaction '' @ wh_uuid_text H (wtm_transaction_id m)
                  @ '' requires manual recovery: '' @ apply_error_text H error) report))))"

definition recover_entry ::
    "apply_host \<Rightarrow> manifest_json \<Rightarrow> string \<Rightarrow> workspace_recovery_report \<Rightarrow> workspace_recovery_report disk_step" where
  "recover_entry H J name report =
     (if \<not> valid_utf8 (bytes_of_string name)
      then return_step (blocked ''workspace transaction journal contains a non-UTF-8 entry'' report)
      else if starts_with ''.'' name \<and> ends_with ''.tmp'' name then
        bind_step (attempt_step (journal_call (journal_remove name))) (\<lambda>r. case r of
            Inl error \<Rightarrow> return_step (if error \<noteq> NotFound then blocked
                (''workspace transaction temporary manifest '' @ name @ '' could not be removed'') report else report)
          | Inr _ \<Rightarrow> return_step report)
      else (case strip_suffix ''.json'' name of
          None \<Rightarrow> return_step (blocked (''workspace transaction journal contains unexpected entry '' @ name) report)
        | Some id_text \<Rightarrow> (case wh_uuid_parse H id_text of
              None \<Rightarrow> return_step (blocked (''workspace transaction manifest name is invalid: '' @ name) report)
            | Some transaction_id \<Rightarrow> recover_manifest H J name transaction_id report)))"

primrec recover_entries ::
    "apply_host \<Rightarrow> manifest_json \<Rightarrow> string list \<Rightarrow> workspace_recovery_report \<Rightarrow> workspace_recovery_report disk_step" where
  "recover_entries H J [] report = return_step report"
| "recover_entries H J (name # names) report = bind_step (recover_entry H J name report) (recover_entries H J names)"

definition recover_workspace_transactions ::
    "apply_host \<Rightarrow> manifest_json \<Rightarrow> workspace_recovery_report disk_step" where
  "recover_workspace_transactions H J =
     then_step workspace_transaction_root
     (bind_step (map_error_step Io (journal_call (\<lambda>t. (Inr (map fst t), t)))) (\<lambda>names.
      bind_step (recover_entries H J names \<lparr>wrr_receipts = [], wrr_blocked = []\<rparr>) (\<lambda>report.
      then_step sync_all (return_step report))))"

end
