(* ===== verification/Workspace_Apply_Safety.thy ===== *)
theory Workspace_Apply_Safety
  imports Workspace_Transaction
begin

text \<open>
  What a durable transaction promises. Its manifest in the journal and the disk always agree: the
  phase of the manifest says which targets are as they were and which are replaced, whatever
  fails, whenever the process dies, and however often the recovery is interrupted. So a receipt
  tells the truth: after \<open>Committed\<close> every target is the proposal, after
  \<open>RolledBack\<close> every target is what it was.

  Other programs may write elsewhere meanwhile; they leave the names of the transaction alone.
\<close>

section \<open>The names of a transaction\<close>

definition dir_of :: "workspace_transaction_member \<Rightarrow> file_id" where
  "dir_of m = (wtx_parent_device m, wtx_parent_inode m)"

definition target_of :: "workspace_transaction_member \<Rightarrow> file_id \<times> string" where
  "target_of m = (dir_of m, case file_name (wtx_target_path m) of Some name \<Rightarrow> name | None \<Rightarrow> [])"

definition stage_of :: "workspace_transaction_member \<Rightarrow> file_id \<times> string" where
  "stage_of m = (dir_of m, wtx_stage_name m)"

definition backup_of :: "workspace_transaction_member \<Rightarrow> (file_id \<times> string) option" where
  "backup_of m = map_option (\<lambda>name. (dir_of m, name)) (wtx_backup_name m)"

definition locations :: "workspace_transaction_member \<Rightarrow> (file_id \<times> string) list" where
  "locations m = target_of m # stage_of m # (case backup_of m of Some l \<Rightarrow> [l] | None \<Rightarrow> [])"

text \<open>No two names of the transaction are the same entry of a directory.\<close>

definition apart :: "workspace_transaction_member list \<Rightarrow> bool" where
  "apart ms \<longleftrightarrow> distinct (concat (map locations ms))"

text \<open>The part of a member that never changes.\<close>

definition erase :: "workspace_transaction_member \<Rightarrow> workspace_transaction_member" where
  "erase m = m\<lparr>wtx_staged := None, wtx_backup := None\<rparr>"

lemma erase_simps [simp]:
  "dir_of (erase m) = dir_of m" "target_of (erase m) = target_of m" "stage_of (erase m) = stage_of m"
  "backup_of (erase m) = backup_of m" "locations (erase m) = locations m"
  "wtx_base (erase m) = wtx_base m" "wtx_delete (erase m) = wtx_delete m"
  by (simp_all add: erase_def dir_of_def target_of_def stage_of_def backup_of_def locations_def)

lemma update_simps [simp]:
  "dir_of (m\<lparr>wtx_staged := x\<rparr>) = dir_of m" "target_of (m\<lparr>wtx_staged := x\<rparr>) = target_of m"
  "stage_of (m\<lparr>wtx_staged := x\<rparr>) = stage_of m" "backup_of (m\<lparr>wtx_staged := x\<rparr>) = backup_of m"
  "locations (m\<lparr>wtx_staged := x\<rparr>) = locations m" "erase (m\<lparr>wtx_staged := x\<rparr>) = erase m"
  "dir_of (m\<lparr>wtx_backup := y\<rparr>) = dir_of m" "target_of (m\<lparr>wtx_backup := y\<rparr>) = target_of m"
  "stage_of (m\<lparr>wtx_backup := y\<rparr>) = stage_of m" "backup_of (m\<lparr>wtx_backup := y\<rparr>) = backup_of m"
  "locations (m\<lparr>wtx_backup := y\<rparr>) = locations m" "erase (m\<lparr>wtx_backup := y\<rparr>) = erase m"
  by (simp_all add: erase_def dir_of_def target_of_def stage_of_def backup_of_def locations_def)

lemma apart_erase: "apart (map erase ms) = apart ms"
  by (simp add: apart_def comp_def)

lemma apart_disjoint:
  "apart ms \<Longrightarrow> m \<in> set ms \<Longrightarrow> m' \<in> set ms \<Longrightarrow> m \<noteq> m' \<Longrightarrow> set (locations m) \<inter> set (locations m') = {}"
proof (induction ms)
  case (Cons n ms)
  have "set (locations n) \<inter> set (locations k) = {}" if "k \<in> set ms" for k
    using Cons.prems(1) that by (fastforce simp: apart_def)
  then show ?case using Cons by (auto simp: apart_def)
qed simp

lemma apart_distinct: "apart ms \<Longrightarrow> m \<in> set ms \<Longrightarrow> distinct (locations m)"
  by (induction ms) (auto simp: apart_def)

lemma location_simps [simp]:
  "target_of m \<in> set (locations m)" "stage_of m \<in> set (locations m)"
  "backup_of m = Some l \<Longrightarrow> l \<in> set (locations m)"
  by (simp_all add: locations_def)

lemma own_locations_differ:
  assumes "distinct (locations m)"
  shows "target_of m \<noteq> stage_of m" "stage_of m \<noteq> target_of m"
    "backup_of m = Some l \<Longrightarrow> l \<noteq> target_of m" "backup_of m = Some l \<Longrightarrow> l \<noteq> stage_of m"
    "backup_of m \<noteq> Some (target_of m)" "backup_of m \<noteq> Some (stage_of m)"
  using assms by (auto simp: locations_def simp del: split_paired_All split: option.splits)

section \<open>What the disk says of a member\<close>

text \<open>Two disks that look the same from a set of names.\<close>

definition looks_same :: "(file_id \<times> string) set \<Rightarrow> workspace_disk \<Rightarrow> workspace_disk \<Rightarrow> bool" where
  "looks_same A d d' \<longleftrightarrow> (\<forall>l \<in> A. wd_entries d' l = wd_entries d l
     \<and> (\<forall>i. wd_entries d l = Some i \<longrightarrow> wd_nodes d' (fst (fst l), i) = wd_nodes d (fst (fst l), i)))"

lemma looks_same_refl [simp]: "looks_same A d d"
  by (simp add: looks_same_def)

lemma looks_same_trans: "looks_same A d e \<Longrightarrow> looks_same A e f \<Longrightarrow> looks_same A d f"
  by (simp add: looks_same_def)

lemma looks_same_mono: "looks_same A d e \<Longrightarrow> B \<subseteq> A \<Longrightarrow> looks_same B d e"
  by (auto simp: looks_same_def)

lemma looks_sameD: "looks_same A d e \<Longrightarrow> l \<in> A \<Longrightarrow> wd_entries e l = wd_entries d l"
  "looks_same A d e \<Longrightarrow> l \<in> A \<Longrightarrow> wd_entries d l = Some i \<Longrightarrow> wd_nodes e (fst (fst l), i) = wd_nodes d (fst (fst l), i)"
  by (auto simp: looks_same_def)

text \<open>The file with this identity is at this name.\<close>

definition file_is :: "apply_host \<Rightarrow> workspace_disk \<Rightarrow> file_id \<times> string \<Rightarrow> workspace_recovery_identity \<Rightarrow> bool" where
  "file_is H d l identity \<longleftrightarrow> (\<exists>i bs mode. wd_entries d l = Some i
     \<and> wd_nodes d (fst (fst l), i) = Some (RegularFile bs mode)
     \<and> identity = \<lparr>wri_digest = sha256_bytes H bs, wri_device = fst (fst l), wri_inode = i, wri_mode = mode\<rparr>)"

text \<open>The target is what it was on the disk \<open>D\<close> at the start.\<close>

definition untouched :: "workspace_disk \<Rightarrow> workspace_transaction_member \<Rightarrow> workspace_disk \<Rightarrow> bool" where
  "untouched D m d \<longleftrightarrow> looks_same {target_of m} D d"

text \<open>The target is the proposal.\<close>

definition installed :: "apply_host \<Rightarrow> workspace_transaction_member \<Rightarrow> workspace_disk \<Rightarrow> bool" where
  "installed H m d \<longleftrightarrow> (if wtx_delete m then wd_entries d (target_of m) = None
     else (\<exists>s. wtx_staged m = Some s \<and> file_is H d (target_of m) s))"

text \<open>The file that was the target can be put back.\<close>

definition recoverable :: "workspace_disk \<Rightarrow> workspace_transaction_member \<Rightarrow> workspace_disk \<Rightarrow> bool" where
  "recoverable D m d \<longleftrightarrow> (wtx_base m \<noteq> None \<longrightarrow> (\<exists>l. backup_of m = Some l
     \<and> wd_entries d l = wd_entries D (target_of m)
     \<and> (\<forall>i. wd_entries D (target_of m) = Some i \<longrightarrow>
          wd_nodes d (fst (dir_of m), i) = wd_nodes D (fst (dir_of m), i))))"

definition base_agrees :: "apply_host \<Rightarrow> workspace_disk \<Rightarrow> workspace_transaction_member \<Rightarrow> bool" where
  "base_agrees H D m \<longleftrightarrow> (case wtx_base m of
       None \<Rightarrow> wd_entries D (target_of m) = None
     | Some base \<Rightarrow> file_is H D (target_of m) base)"

definition identities_agree :: "workspace_transaction_member \<Rightarrow> bool" where
  "identities_agree m \<longleftrightarrow> (wtx_delete m \<longrightarrow> wtx_base m \<noteq> None)
     \<and> (\<not> wtx_delete m \<longrightarrow> wtx_staged m \<noteq> None)
     \<and> (\<forall>s. wtx_staged m = Some s \<longrightarrow> wri_digest s = wtx_proposed_digest m
          \<and> and (wri_mode s) PERMISSION_BITS = wtx_proposed_mode m
          \<and> (\<forall>b. wtx_base m = Some b \<longrightarrow> wri_inode s \<noteq> wri_inode b))"

definition decidable :: "apply_host \<Rightarrow> workspace_disk \<Rightarrow> workspace_transaction_member \<Rightarrow> bool" where
  "decidable H D m \<longleftrightarrow> base_agrees H D m \<and> identities_agree m"

definition half_way :: "apply_host \<Rightarrow> workspace_disk \<Rightarrow> workspace_transaction_member \<Rightarrow> workspace_disk \<Rightarrow> bool" where
  "half_way H D m d \<longleftrightarrow> untouched D m d \<or> installed H m d \<and> recoverable D m d"

lemma target_device [simp]: "fst (fst (target_of m)) = fst (dir_of m)" "fst (fst (stage_of m)) = fst (dir_of m)"
  "backup_of m = Some l \<Longrightarrow> fst (fst l) = fst (dir_of m)"
  by (auto simp: target_of_def stage_of_def backup_of_def)

lemma file_is_same: "file_is H d l s \<Longrightarrow> looks_same A d e \<Longrightarrow> l \<in> A \<Longrightarrow> file_is H e l s"
  by (auto simp: file_is_def looks_sameD)

lemma member_same:
  assumes "looks_same (set (locations m)) d e"
  shows "untouched D m d \<Longrightarrow> untouched D m e" "installed H m d \<Longrightarrow> installed H m e"
    "recoverable D m d \<Longrightarrow> recoverable D m e" "half_way H D m d \<Longrightarrow> half_way H D m e"
proof -
  show untouched: "untouched D m d \<Longrightarrow> untouched D m e"
    using looks_same_mono [OF assms, of "{target_of m}"] by (auto simp: untouched_def intro: looks_same_trans)
  show installed: "installed H m d \<Longrightarrow> installed H m e"
    using assms file_is_same [OF _ assms location_simps(1)] by (auto simp: installed_def looks_sameD split: if_splits)
  show recoverable: "recoverable D m d \<Longrightarrow> recoverable D m e"
    using looks_sameD [OF assms location_simps(3)] by (auto simp: recoverable_def)
  show "half_way H D m d \<Longrightarrow> half_way H D m e"
    using untouched installed recoverable by (auto simp: half_way_def)
qed

section \<open>Reasoning about system calls\<close>

text \<open>Other programs leave the names \<open>A\<close> and the journal alone.\<close>

definition calm :: "(file_id \<times> string) set \<Rightarrow> fault list \<Rightarrow> bool" where
  "calm A faults \<longleftrightarrow> (\<forall>edit. Edited edit \<in> set faults \<longrightarrow>
     (\<forall>d. looks_same A d (edit d) \<and> wd_journal (edit d) = wd_journal d))"

definition holds :: "(file_id \<times> string) set \<Rightarrow> (workspace_disk \<Rightarrow> bool) \<Rightarrow> apply_world \<Rightarrow> bool" where
  "holds A P w \<longleftrightarrow> calm A (aw_faults w) \<and> P (aw_disk w)"

text \<open>Before and after, for a predicate of the disk; what is left by an error does not depend on it.\<close>

definition disk_triple ::
    "(file_id \<times> string) set \<Rightarrow> (workspace_disk \<Rightarrow> bool) \<Rightarrow> (apply_world, 'e, 'a) step
      \<Rightarrow> ('a \<Rightarrow> workspace_disk \<Rightarrow> bool) \<Rightarrow> (workspace_disk \<Rightarrow> bool) \<Rightarrow> bool" where
  "disk_triple A P m Q E \<longleftrightarrow> triple (holds A P) m (\<lambda>a. holds A (Q a)) (\<lambda>_. holds A E)"

named_theorems disk_rules \<open>rules for programs over the disk\<close>

lemma dt_conseq:
  assumes "disk_triple A P' m Q' E'" and "\<And>d. P d \<Longrightarrow> P' d" and "\<And>a d. Q' a d \<Longrightarrow> Q a d" and "\<And>d. E' d \<Longrightarrow> E d"
  shows "disk_triple A P m Q E"
  unfolding disk_triple_def
  by (rule triple_post [OF triple_pre [OF assms(1) [unfolded disk_triple_def]]]) (auto simp: holds_def assms(2-4))

lemma dt_pre: "disk_triple A P' m Q E \<Longrightarrow> (\<And>d. P d \<Longrightarrow> P' d) \<Longrightarrow> disk_triple A P m Q E"
  by (erule dt_conseq) auto

lemma dt_return: "(\<And>d. P d \<Longrightarrow> Q a d) \<Longrightarrow> disk_triple A P (return_step a) Q E"
  by (simp add: disk_triple_def triple_def holds_def step_runs)

lemma dt_fail: "(\<And>d. P d \<Longrightarrow> E d) \<Longrightarrow> disk_triple A P (fail_step e) Q E"
  by (simp add: disk_triple_def triple_def holds_def step_runs)

lemma dt_lift: "(\<And>a d. r = Inr a \<Longrightarrow> P d \<Longrightarrow> Q a d) \<Longrightarrow> (\<And>d. P d \<Longrightarrow> E d) \<Longrightarrow> disk_triple A P (lift_step r) Q E"
  by (auto simp: disk_triple_def triple_def holds_def step_runs split: sum.split)

lemma dt_guard: "(\<And>d. b \<Longrightarrow> P d \<Longrightarrow> Q () d) \<Longrightarrow> (\<And>d. P d \<Longrightarrow> E d) \<Longrightarrow> disk_triple A P (guard_step b e) Q E"
  by (auto simp: disk_triple_def triple_def holds_def guard_step_def step_runs)

lemma dt_bind: "disk_triple A P m R E \<Longrightarrow> (\<And>a. disk_triple A (R a) (k a) Q E) \<Longrightarrow> disk_triple A P (bind_step m k) Q E"
  unfolding disk_triple_def by (rule triple_bind)

lemma dt_then: "disk_triple A P m (\<lambda>_. R) E \<Longrightarrow> disk_triple A R k Q E \<Longrightarrow> disk_triple A P (then_step m k) Q E"
  unfolding disk_triple_def by (rule triple_then)

lemma dt_attempt:
  assumes "disk_triple A P m (\<lambda>a. Q (Inr a)) E'" and "\<And>e d. E' d \<Longrightarrow> Q (Inl e) d"
  shows "disk_triple A P (attempt_step m) Q E"
  unfolding disk_triple_def
  by (rule triple_attempt, rule triple_post [OF assms(1) [unfolded disk_triple_def]]) (auto simp: holds_def assms(2))

lemma dt_when: "(b \<Longrightarrow> disk_triple A P m (\<lambda>_. Q) E) \<Longrightarrow> (\<And>d. \<not> b \<Longrightarrow> P d \<Longrightarrow> Q d) \<Longrightarrow> disk_triple A P (when_step b m) (\<lambda>_. Q) E"
  by (auto simp: when_step_def intro: dt_return)

lemma dt_map_error: "disk_triple A P m Q E \<Longrightarrow> disk_triple A P (map_error_step f m) Q E"
  unfolding disk_triple_def
  by (rule tripleI)
    (auto simp: map_error_step_def map_err_def split: prod.splits sum.splits dest: triple_Inr triple_Inl)

lemma dt_on_error:
  assumes "disk_triple A P m Q E'" and "\<And>e. disk_triple A E' (h e) (\<lambda>_. E) E"
  shows "disk_triple A P (on_error_step m h) Q E"
  unfolding on_error_step_def
proof (rule dt_bind)
  show "disk_triple A P (attempt_step m) (\<lambda>r. case r of Inl _ \<Rightarrow> E' | Inr a \<Rightarrow> Q a) E"
    using assms(1) by (rule dt_attempt [where E' = E', OF dt_conseq]) auto
  show "disk_triple A (case r of Inl _ \<Rightarrow> E' | Inr a \<Rightarrow> Q a)
      (case r of Inl e \<Rightarrow> then_step (h e) (fail_step e) | Inr a \<Rightarrow> return_step a) Q E" for r
    by (cases r) (auto intro: dt_then [OF assms(2)] dt_fail dt_return)
qed

lemma dt_fact: "(c \<Longrightarrow> disk_triple A P m Q E) \<Longrightarrow> disk_triple A (\<lambda>d. c \<and> P d) m Q E"
  by (auto simp: disk_triple_def triple_def holds_def split: prod.splits)

lemma dt_known: "(\<And>d. P d \<Longrightarrow> c) \<Longrightarrow> (c \<Longrightarrow> disk_triple A P m Q E) \<Longrightarrow> disk_triple A P m Q E"
  by (auto simp: disk_triple_def triple_def holds_def split: prod.splits)

lemma dt_new_uuid: "disk_triple A P (new_uuid H) (\<lambda>_. P) E"
  by (simp add: disk_triple_def triple_def holds_def new_uuid_def)

text \<open>A predicate that other programs do not disturb.\<close>

definition steady :: "(file_id \<times> string) set \<Rightarrow> (workspace_disk \<Rightarrow> bool) \<Rightarrow> bool" where
  "steady A P \<longleftrightarrow> (\<forall>d e. looks_same A d e \<longrightarrow> wd_journal e = wd_journal d \<longrightarrow> P d \<longrightarrow> P e)"

lemma steadyI: "(\<And>d e. looks_same A d e \<Longrightarrow> wd_journal e = wd_journal d \<Longrightarrow> P d \<Longrightarrow> P e) \<Longrightarrow> steady A P"
  by (simp add: steady_def)

lemma steadyD: "steady A P \<Longrightarrow> looks_same A d e \<Longrightarrow> wd_journal e = wd_journal d \<Longrightarrow> P d \<Longrightarrow> P e"
  by (auto simp: steady_def)

lemma steady_parts [disk_rules]:
  "steady A P \<Longrightarrow> steady A Q \<Longrightarrow> steady A (\<lambda>d. P d \<and> Q d)" "steady A (\<lambda>d. c)"
  by (auto simp: steady_def)

lemma call_triple:
  assumes steady: "steady A P"
    and runs: "\<And>d. P d \<Longrightarrow> case effect d of (Inl e, d') \<Rightarrow> E e d' | (Inr a, d') \<Rightarrow> Q a d'"
    and fails: "\<And>n message d. P d \<Longrightarrow> E (on_error (OtherIoError message)) (partly n d)"
  shows "triple (holds A P) (faulty_call partly on_error effect) (\<lambda>a. holds A (Q a)) (\<lambda>e. holds A (E e))"
proof -
  have with_disk: "case with_disk w fs (effect d) of (Inl e, t) \<Rightarrow> holds A (E e) t | (Inr a, t) \<Rightarrow> holds A (Q a) t"
    if "P d" "calm A fs" for w fs d
    using runs [OF that(1)] that(2) by (auto simp: with_disk_def holds_def split: prod.splits sum.splits)
  show ?thesis
    unfolding triple_def
  proof (intro allI impI)
    fix w
    assume "holds A P w"
    then have w: "calm A (aw_faults w)" "P (aw_disk w)" by (simp_all add: holds_def)
    show "case faulty_call partly on_error effect w of (Inl e, t) \<Rightarrow> holds A (E e) t | (Inr a, t) \<Rightarrow> holds A (Q a) t"
    proof (cases "aw_faults w")
      case Nil
      then show ?thesis using with_disk [OF w(2)] by (simp add: faulty_call_def calm_def)
    next
      case (Cons f fs)
      with w(1) have fs: "calm A fs" by (auto simp: calm_def)
      show ?thesis
      proof (cases f)
        case Works
        then show ?thesis using Cons with_disk [OF w(2) fs] by (simp add: faulty_call_def)
      next
        case (Fails n message)
        then show ?thesis using Cons fails [OF w(2)] fs by (simp add: faulty_call_def with_disk_def holds_def)
      next
        case (Edited edit)
        then have "P (edit (aw_disk w))"
          using w Cons by (intro steadyD [OF steady _ _ w(2)]) (auto simp: calm_def)
        then show ?thesis using Cons Edited with_disk fs by (simp add: faulty_call_def)
      qed
    qed
  qed
qed

lemma dt_call:
  assumes "steady A P" and "\<And>d. P d \<Longrightarrow> case effect d of (Inl _, d') \<Rightarrow> E d' | (Inr a, d') \<Rightarrow> Q a d'"
    and "\<And>n d. P d \<Longrightarrow> E (partly n d)"
  shows "disk_triple A P (faulty_call partly on_error effect) Q E"
  unfolding disk_triple_def using assms by (rule call_triple)

lemma dt_attempt_name_call:
  assumes "steady A P" and "\<And>d. P d \<Longrightarrow> case effect d of (r, d') \<Rightarrow> Q r d'"
    and "\<And>message d. P d \<Longrightarrow> Q (Inl (OtherIoError message)) d"
  shows "disk_triple A P (attempt_step (name_call effect)) Q E"
  unfolding disk_triple_def name_call_def system_call_def
proof (rule triple_attempt, rule call_triple [where Q = "\<lambda>a. Q (Inr a)" and E = "\<lambda>e. Q (Inl e)", OF assms(1)])
  show "case effect d of (Inl e, d') \<Rightarrow> Q (Inl e) d' | (Inr a, d') \<Rightarrow> Q (Inr a) d'" if "P d" for d
    using assms(2) [OF that] by (auto split: prod.splits sum.splits)
  show "Q (Inl (id (OtherIoError message))) d" if "P d" for message d
    using assms(3) [OF that] by simp
qed

lemma dt_system_call:
  assumes "steady A P" and "\<And>d. P d \<Longrightarrow> case effect d of (Inl _, d') \<Rightarrow> E d' | (Inr a, d') \<Rightarrow> Q a d'"
    and "\<And>d. P d \<Longrightarrow> E d"
  shows "disk_triple A P (system_call on_error effect) Q E"
  unfolding system_call_def using assms by (rule dt_call)

lemma dt_sync_all: "steady A P \<Longrightarrow> (\<And>d. P d \<Longrightarrow> E d) \<Longrightarrow> disk_triple A P sync_all (\<lambda>_. P) E"
  unfolding sync_all_def by (rule dt_system_call) auto

text \<open>What reading a name shows.\<close>

definition saw :: "apply_host \<Rightarrow> file_id \<times> string \<Rightarrow> workspace_file_snapshot option \<Rightarrow> workspace_disk \<Rightarrow> bool" where
  "saw H l found d \<longleftrightarrow> (case found of
       None \<Rightarrow> wd_entries d l = None
     | Some s \<Rightarrow> file_is H d l (identity_of_snapshot s))"

lemma steady_saw [disk_rules]: "l \<in> A \<Longrightarrow> steady A (saw H l found)"
  by (auto simp: saw_def looks_sameD intro!: steadyI intro: file_is_same split: option.splits)

lemma file_snapshot_identity:
  "file_snapshot H (fst (fst l), i) (wd_nodes d (fst (fst l), i)) = Inr s \<Longrightarrow> wd_entries d l = Some i \<Longrightarrow>
     file_is H d l (identity_of_snapshot s)"
  by (auto simp: file_snapshot_def file_is_def identity_of_snapshot_def split: option.splits disk_node.splits if_splits)

lemma dt_read:
  assumes "steady A P" and "(dir, name) \<in> A" and "\<And>d. P d \<Longrightarrow> E d"
  shows "disk_triple A P (read_target_at H dir name) (\<lambda>found d. P d \<and> saw H (dir, name) found d) E"
  unfolding read_target_at_def
proof (rule dt_bind)
  let ?opened = "\<lambda>opened d. P d \<and> wd_entries d (dir, name) = opened"
  have steady: "steady A (?opened opened)" for opened
    using assms(1,2) by (auto simp: steady_def looks_sameD)
  show "disk_triple A P (system_call (\<lambda>_. UnsupportedTarget) (\<lambda>d. (open_file dir name d, d))) ?opened E"
    using assms(1) by (rule dt_system_call) (auto simp: open_file_def assms(3) split: option.splits disk_node.splits)
  show "disk_triple A (?opened opened) (case opened of None \<Rightarrow> return_step None
      | Some inode \<Rightarrow> bind_step (system_call Io
          (\<lambda>d. (file_snapshot H (fst dir, inode) (wd_nodes d (fst dir, inode)), d))) (\<lambda>s. return_step (Some s)))
      (\<lambda>found d. P d \<and> saw H (dir, name) found d) E" for opened
  proof (cases opened)
    case None
    then show ?thesis by (auto simp: saw_def intro: dt_return)
  next
    case (Some inode)
    have "disk_triple A (?opened opened) (system_call Io
          (\<lambda>d. (file_snapshot H (fst dir, inode) (wd_nodes d (fst dir, inode)), d)))
        (\<lambda>s d. P d \<and> saw H (dir, name) (Some s) d) E"
      using steady by (rule dt_system_call)
        (auto simp: Some saw_def assms(3) split: sum.splits intro!: file_snapshot_identity)
    then show ?thesis by (simp add: Some) (auto elim!: dt_bind intro!: dt_return)
  qed
qed

section \<open>One member at a time\<close>

text \<open>
  A predicate that the steps on a member \<open>m\<close> do not disturb, because they change the entries
  of its own names only.
\<close>

definition framed :: "(file_id \<times> string) set \<Rightarrow> workspace_transaction_member \<Rightarrow> (workspace_disk \<Rightarrow> bool) \<Rightarrow> bool" where
  "framed A m G \<longleftrightarrow> set (locations m) \<subseteq> A \<and> (\<forall>d e. looks_same (A - set (locations m)) d e \<longrightarrow>
     wd_journal e = wd_journal d \<longrightarrow> G d \<longrightarrow> G e)"

lemma framed_steady: "framed A m G \<Longrightarrow> steady A G"
  unfolding framed_def by (intro steadyI) (meson looks_same_mono Diff_subset)

lemma framedD: "framed A m G \<Longrightarrow> looks_same (A - set (locations m)) d e \<Longrightarrow> wd_journal e = wd_journal d \<Longrightarrow> G d \<Longrightarrow> G e"
  by (auto simp: framed_def)

lemma framed_in: "framed A m G \<Longrightarrow> l \<in> set (locations m) \<Longrightarrow> l \<in> A"
  by (auto simp: framed_def)

text \<open>A predicate of the target alone, and one of all names of the member.\<close>

definition at_target :: "workspace_transaction_member \<Rightarrow> (workspace_disk \<Rightarrow> bool) \<Rightarrow> bool" where
  "at_target m P \<longleftrightarrow> (\<forall>d e. looks_same {target_of m} d e \<longrightarrow> P d \<longrightarrow> P e)"

definition at_names :: "workspace_transaction_member \<Rightarrow> (workspace_disk \<Rightarrow> bool) \<Rightarrow> bool" where
  "at_names m P \<longleftrightarrow> (\<forall>d e. looks_same (set (locations m)) d e \<longrightarrow> P d \<longrightarrow> P e)"

lemma at_target_names: "at_target m P \<Longrightarrow> at_names m P"
  unfolding at_target_def at_names_def using looks_same_mono [of "set (locations m)" _ _ "{target_of m}"] by fastforce

lemma at_names_steady: "at_names m P \<Longrightarrow> framed A m G \<Longrightarrow> steady A P"
  by (auto simp: at_names_def framed_def intro!: steadyI dest: looks_same_mono)

lemma at_target_conditions [disk_rules]: "at_target m (untouched D m)" "at_target m (installed H m)"
  by (auto simp: at_target_def untouched_def installed_def looks_sameD split: if_splits
      intro: looks_same_trans file_is_same)

lemma at_names_conditions [disk_rules]:
  "at_names m (untouched D m)" "at_names m (installed H m)" "at_names m (recoverable D m)" "at_names m (half_way H D m)"
  by (auto simp: at_names_def intro: member_same)

lemma at_names_parts [disk_rules]: "at_names m P \<Longrightarrow> at_names m Q \<Longrightarrow> at_names m (\<lambda>d. P d \<and> Q d)" "at_names m (\<lambda>d. c)"
  by (auto simp: at_names_def)

lemma looks_same_put_entry: "l \<notin> A \<Longrightarrow> looks_same A d (put_entry l x d)"
  by (auto simp: looks_same_def put_entry_def)

lemma put_simps [simp]:
  "wd_entries (put_entry l x d) = (wd_entries d)(l := x)" "wd_nodes (put_entry l x d) = wd_nodes d"
  "wd_journal (put_entry l x d) = wd_journal d"
  "wd_entries (put_node h n d) = wd_entries d" "wd_nodes (put_node h n d) = (wd_nodes d)(h := Some n)"
  "wd_journal (put_node h n d) = wd_journal d"
  by (simp_all add: put_entry_def put_node_def)

lemma framed_put_entry: "framed A m G \<Longrightarrow> l \<in> set (locations m) \<Longrightarrow> G d \<Longrightarrow> G (put_entry l x d)"
  by (erule framedD [of A m]) (auto intro: looks_same_put_entry)

lemma at_target_put_entry: "at_target m P \<Longrightarrow> l \<noteq> target_of m \<Longrightarrow> P d \<Longrightarrow> P (put_entry l x d)"
  unfolding at_target_def using looks_same_put_entry [of l "{target_of m}" d x] by blast

lemma dt_name_call:
  assumes "steady A P" and "\<And>d. P d \<Longrightarrow> case effect d of (Inl _, d') \<Rightarrow> E d' | (Inr a, d') \<Rightarrow> Q a d'"
    and "\<And>d. P d \<Longrightarrow> E d"
  shows "disk_triple A P (name_call effect) Q E"
  unfolding name_call_def using assms by (rule dt_system_call)

text \<open>The parent of a member: its reviewed directory, and the name of the target in it.\<close>

definition parent_at :: "workspace_transaction_member \<Rightarrow> open_parent \<Rightarrow> bool" where
  "parent_at m parent \<longleftrightarrow> op_directory parent = dir_of m \<and> (dir_of m, op_file_name parent) = target_of m"

lemma resolve_parent_name: "resolve_parent H relative = Inr parent \<Longrightarrow> file_name relative = Some (op_file_name parent)"
  by (auto simp: resolve_parent_def result_simps split: if_splits)

lemma validate_target_path_id: "validate_target_path v = Inr p \<Longrightarrow> p = v"
  by (auto simp: validate_target_path_def split: if_splits)

lemma dt_open_parent:
  assumes "steady A P" and "\<And>d. P d \<Longrightarrow> E d"
  shows "disk_triple A P (open_parent_of H relative) (\<lambda>parent d. file_name relative = Some (op_file_name parent) \<and> P d) E"
  unfolding open_parent_of_def using assms(1)
  by (rule dt_system_call) (auto simp: assms(2) resolve_parent_name split: sum.split)

lemma dt_member_parent:
  assumes "steady A P" and "\<And>d. P d \<Longrightarrow> E d"
  shows "disk_triple A P (member_parent H m) (\<lambda>parent d. parent_at m parent \<and> P d) E"
  unfolding member_parent_def
proof (rule dt_bind)
  show "disk_triple A P (lift_step (validate_target_path (wtx_target_path m)))
      (\<lambda>relative d. relative = wtx_target_path m \<and> P d) E"
    by (rule dt_lift) (auto simp: assms(2) dest: validate_target_path_id)
  show "disk_triple A (\<lambda>d. relative = wtx_target_path m \<and> P d) (bind_step (open_parent_of H relative) (\<lambda>parent.
       then_step (guard_step (parent_is parent (wtx_parent_device m) (wtx_parent_inode m)) ParentChanged)
        (return_step parent))) (\<lambda>parent d. parent_at m parent \<and> P d) E" for relative
  proof (rule dt_fact, rule dt_bind [OF dt_open_parent [OF assms]])
    fix parent
    assume relative: "relative = wtx_target_path m"
    show "disk_triple A (\<lambda>d. file_name relative = Some (op_file_name parent) \<and> P d)
        (then_step (guard_step (parent_is parent (wtx_parent_device m) (wtx_parent_inode m)) ParentChanged)
          (return_step parent)) (\<lambda>parent d. parent_at m parent \<and> P d) E"
      by (rule dt_then [OF dt_guard [of _ _ "\<lambda>_ d. parent_at m parent \<and> P d"]], simp_all add: assms(2))
        (auto simp: relative parent_at_def parent_is_def target_of_def dir_of_def intro: dt_return)
  qed
qed

lemma dt_classify:
  assumes "steady A P" and "target_of m \<in> A" and "\<And>d. P d \<Longrightarrow> E d"
  shows "disk_triple A P (classify_manifest_target H m)
    (\<lambda>state d. P d \<and> (\<exists>found. saw H (target_of m) found d \<and> state = classify_snapshot m found)) E"
  unfolding classify_manifest_target_def
proof (rule dt_bind [OF dt_member_parent [OF assms(1)]], erule assms(3), rule dt_fact)
  fix parent
  assume "parent_at m parent"
  then have target: "(op_directory parent, op_file_name parent) = target_of m" by (simp add: parent_at_def)
  show "disk_triple A P (bind_step (read_target_at H (op_directory parent) (op_file_name parent))
      (\<lambda>current. return_step (classify_snapshot m current)))
    (\<lambda>state d. P d \<and> (\<exists>found. saw H (target_of m) found d \<and> state = classify_snapshot m found)) E"
    using assms(2) by (intro dt_bind [OF dt_read [OF assms(1)]] dt_return) (auto simp: target assms(3))
qed

section \<open>Telling the targets apart\<close>

lemma file_is_unique: "file_is H d l a \<Longrightarrow> file_is H d l b \<Longrightarrow> a = b"
  by (auto simp: file_is_def)

lemma file_is_entry: "file_is H d l a \<Longrightarrow> wd_entries d l = Some (wri_inode a)"
  by (auto simp: file_is_def)

lemma identity_matches_iff: "identity_matches i s \<longleftrightarrow> i = identity_of_snapshot s"
  by (auto simp: identity_matches_def identity_of_snapshot_def workspace_recovery_identity.equality)

lemma untouched_file_is: "untouched D m d \<Longrightarrow> file_is H d (target_of m) s \<longleftrightarrow> file_is H D (target_of m) s"
  by (auto simp: untouched_def looks_same_def file_is_def)

lemma untouched_is_base:
  assumes "decidable H D m" and "untouched D m d" and "saw H (target_of m) found d"
  shows "classify_snapshot m found = BaseTarget"
proof (cases "wtx_base m")
  case None
  then have "wd_entries d (target_of m) = None"
    using assms by (simp add: decidable_def base_agrees_def untouched_def looks_same_def)
  then have "found = None" using assms(3) by (cases found) (auto simp: saw_def dest: file_is_entry)
  with None show ?thesis by (simp add: classify_snapshot_def)
next
  case (Some b)
  then have b: "file_is H d (target_of m) b"
    using assms(1) untouched_file_is [OF assms(2)] by (simp add: decidable_def base_agrees_def)
  then obtain s where "found = Some s" "file_is H d (target_of m) (identity_of_snapshot s)"
    using assms(3) by (cases found) (auto simp: saw_def dest: file_is_entry)
  then show ?thesis
    using Some file_is_unique [OF b] by (simp add: classify_snapshot_def identity_matches_iff)
qed

lemma installed_is_not_base:
  assumes "decidable H D m" and "installed H m d" and "saw H (target_of m) found d"
  shows "classify_snapshot m found \<noteq> BaseTarget"
proof (cases "wtx_delete m")
  case True
  then have "found = None" "wtx_base m \<noteq> None"
    using assms by (auto simp: decidable_def identities_agree_def installed_def saw_def dest: file_is_entry split: option.splits)
  with True show ?thesis by (auto simp: classify_snapshot_def)
next
  case False
  then obtain staged where staged: "wtx_staged m = Some staged" "file_is H d (target_of m) staged"
    using assms(2) by (auto simp: installed_def)
  then obtain s where "found = Some s" "file_is H d (target_of m) (identity_of_snapshot s)"
    using assms(3) by (cases found) (auto simp: saw_def dest: file_is_entry)
  then have s: "found = Some s" "identity_of_snapshot s = staged"
    using file_is_unique [OF staged(2)] by auto
  have "wtx_base m \<noteq> Some staged"
    using assms(1) staged(1) by (auto simp: decidable_def identities_agree_def)
  with False s show ?thesis
    by (auto simp: classify_snapshot_def identity_matches_iff split: option.splits)
qed

lemma classified:
  assumes "decidable H D m" and "half_way H D m d" and "saw H (target_of m) found d"
  shows "classify_snapshot m found = BaseTarget \<Longrightarrow> untouched D m d"
    "classify_snapshot m found \<noteq> BaseTarget \<Longrightarrow> installed H m d \<and> recoverable D m d"
  using assms untouched_is_base installed_is_not_base by (auto simp: half_way_def)

section \<open>Rolling back and cleaning up one member\<close>

lemma dt_required:
  assumes "steady A P" and "(dir, name) \<in> A" and "\<And>d. P d \<Longrightarrow> E d"
  shows "disk_triple A P (required_snapshot H dir name reason)
    (\<lambda>s d. P d \<and> file_is H d (dir, name) (identity_of_snapshot s)) E"
  unfolding required_snapshot_def
  by (rule dt_bind [OF dt_read [OF assms]]) (auto simp: saw_def assms(3) result_simps intro!: dt_lift)

lemma dt_guard_keep: "(\<And>d. P d \<Longrightarrow> E d) \<Longrightarrow> disk_triple A P (guard_step b e) (\<lambda>_ d. b \<and> P d) E"
  by (rule dt_guard) auto

lemma rename_restores:
  assumes "untouched_source = wd_entries D (target_of m)"
    and "wd_entries d (dir_of m, source_name) = untouched_source"
    and "\<forall>i. wd_entries D (target_of m) = Some i \<longrightarrow> wd_nodes d (fst (dir_of m), i) = wd_nodes D (fst (dir_of m), i)"
    and "(dir_of m, source_name) \<noteq> target_of m"
    and "rename_names (dir_of m) source_name target_name d = (Inr u, d')" and "target_of m = (dir_of m, target_name)"
  shows "untouched D m d'"
  using assms by (auto simp: rename_names_def untouched_def looks_same_def split: option.splits if_splits)

lemma rename_framed:
  assumes "framed A m G" and "(dir, source_name) \<in> set (locations m)" and "(dir, target_name) \<in> set (locations m)" and "G d"
  shows "rename_names dir source_name target_name d = (r, d') \<Longrightarrow> G d'"
    and "rename_new dir source_name target_name d = (r, d') \<Longrightarrow> G d'"
    and "link_names dir source_name target_name d = (r, d') \<Longrightarrow> G d'"
    and "unlink_name dir source_name d = (r, d') \<Longrightarrow> G d'"
proof -
  have source: "G (put_entry (dir, source_name) None e)" if "G e" for e
    using framed_put_entry [OF assms(1,2) that] .
  have target: "G (put_entry (dir, target_name) x e)" if "G e" for e x
    using framed_put_entry [OF assms(1,3) that] .
  show "rename_names dir source_name target_name d = (r, d') \<Longrightarrow> G d'"
    using assms(4) source target by (auto simp: rename_names_def split: option.splits if_splits)
  show "rename_new dir source_name target_name d = (r, d') \<Longrightarrow> G d'"
    using assms(4) source target by (auto simp: rename_new_def split: option.splits if_splits)
  show "link_names dir source_name target_name d = (r, d') \<Longrightarrow> G d'"
    using assms(4) target by (auto simp: link_names_def split: option.splits if_splits)
  show "unlink_name dir source_name d = (r, d') \<Longrightarrow> G d'"
    using assms(4) source by (auto simp: unlink_name_def split: option.splits if_splits)
qed

lemma names_fail:
  "rename_names dir a b d = (Inl e, d') \<Longrightarrow> d' = d" "rename_new dir a b d = (Inl e, d') \<Longrightarrow> d' = d"
  "link_names dir a b d = (Inl e, d') \<Longrightarrow> d' = d" "unlink_name dir a d = (Inl e, d') \<Longrightarrow> d' = d"
  by (auto simp: rename_names_def rename_new_def link_names_def unlink_name_def split: option.splits if_splits)

lemma dt_restore_backup:
  assumes G: "framed A m G" and names: "distinct (locations m)" and decidable: "decidable H D m"
    and base: "wtx_base m = Some base" "wtx_backup_name m = Some backup_name" and parent: "parent_at m parent"
  shows "disk_triple A (\<lambda>d. G d \<and> installed H m d \<and> recoverable D m d)
    (restore_backup H parent target_path base backup_name) (\<lambda>_ d. G d \<and> untouched D m d) (\<lambda>d. G d \<and> half_way H D m d)"
proof -
  have backup: "backup_of m = Some (dir_of m, backup_name)" and dir: "op_directory parent = dir_of m"
    and target: "target_of m = (dir_of m, op_file_name parent)"
    using base(2) parent by (simp_all add: backup_of_def parent_at_def)
  have differ: "(dir_of m, backup_name) \<noteq> target_of m"
    using own_locations_differ(3) [OF names backup] .
  note steady = framed_steady [OF G] at_names_steady [OF _ G]
  have before: "steady A (\<lambda>d. G d \<and> installed H m d \<and> recoverable D m d)"
    by (intro disk_rules steady)
  have after: "steady A (\<lambda>d. G d \<and> untouched D m d)" by (intro disk_rules steady)
  have in_A: "(dir_of m, backup_name) \<in> A" "(dir_of m, op_file_name parent) \<in> A"
    using framed_in [OF G] location_simps(3) [OF backup] location_simps(1) [of m] by (auto simp: target)
  have rename: "disk_triple A (\<lambda>d. G d \<and> installed H m d \<and> recoverable D m d)
      (replace_target_at (dir_of m) backup_name (op_file_name parent))
      (\<lambda>_ d. G d \<and> untouched D m d) (\<lambda>d. G d \<and> half_way H D m d)"
    unfolding replace_target_at_def
  proof (rule dt_map_error, rule dt_name_call [OF before])
    fix d
    assume d: "G d \<and> installed H m d \<and> recoverable D m d"
    obtain r d' where r: "rename_names (dir_of m) backup_name (op_file_name parent) d = (r, d')" by fastforce
    have "G d'"
      using rename_framed(1) [OF G _ _ _ r] d location_simps(3) [OF backup] location_simps(1) [of m]
      by (simp add: target)
    moreover have "untouched D m d'" if "r = Inr ()"
      using d r that base(1) backup differ target
      by (intro rename_restores [of "wd_entries D (target_of m)" D m d backup_name "op_file_name parent" "()" d'])
        (auto simp: recoverable_def)
    moreover have "d' = d" if "r = Inl e" for e using names_fail(1) r that by blast
    ultimately show "case rename_names (dir_of m) backup_name (op_file_name parent) d of
        (Inl _, d') \<Rightarrow> G d' \<and> half_way H D m d' | (Inr _, d') \<Rightarrow> G d' \<and> untouched D m d'"
      using d by (auto simp: r half_way_def split: sum.split)
  qed (simp add: half_way_def)
  show ?thesis
    unfolding restore_backup_def dir
    apply (rule dt_then [OF dt_guard_keep], simp add: half_way_def)
    apply (rule dt_fact)
    apply (rule dt_bind [OF dt_required [OF before in_A(1)]], simp add: half_way_def)
    apply (rule dt_then [OF dt_guard_keep], simp add: half_way_def)
    apply (rule dt_then [OF dt_pre [OF rename]], simp)
    apply (rule dt_bind [OF dt_required [OF after in_A(2)]], simp add: half_way_def)
    apply (rule dt_guard, auto simp: half_way_def)
    done
qed

lemma dt_remove_created:
  assumes G: "framed A m G" and decidable: "decidable H D m" and base: "wtx_base m = None" and parent: "parent_at m parent"
  shows "disk_triple A (\<lambda>d. G d \<and> installed H m d \<and> recoverable D m d)
    (remove_created H parent target_path) (\<lambda>_ d. G d \<and> untouched D m d) (\<lambda>d. G d \<and> half_way H D m d)"
proof -
  have dir: "op_directory parent = dir_of m" and target: "target_of m = (dir_of m, op_file_name parent)"
    using parent by (simp_all add: parent_at_def)
  note steady = framed_steady [OF G] at_names_steady [OF _ G]
  have before: "steady A (\<lambda>d. G d \<and> installed H m d \<and> recoverable D m d)" by (intro disk_rules steady)
  have after: "steady A (\<lambda>d. G d \<and> untouched D m d)" by (intro disk_rules steady)
  have in_A: "(dir_of m, op_file_name parent) \<in> A"
    using framed_in [OF G] location_simps(1) [of m] by (auto simp: target)
  have gone: "untouched D m d" if "wd_entries d (target_of m) = None" for d
    using that decidable base by (simp add: untouched_def looks_same_def decidable_def base_agrees_def)
  let ?removed = "\<lambda>r d. G d \<and> (if r = Inr () \<or> r = Inl NotFound then untouched D m d else half_way H D m d)"
  have "disk_triple A (\<lambda>d. G d \<and> installed H m d \<and> recoverable D m d)
      (attempt_step (name_call (unlink_name (dir_of m) (op_file_name parent)))) ?removed (\<lambda>d. G d \<and> half_way H D m d)"
  proof (rule dt_attempt_name_call [OF before])
    fix d
    assume d: "G d \<and> installed H m d \<and> recoverable D m d"
    obtain r d' where r: "unlink_name (dir_of m) (op_file_name parent) d = (r, d')" by fastforce
    have "G d'"
      using rename_framed(4) [OF G _ _ _ r] d location_simps(1) [of m] by (simp add: target)
    then show "case unlink_name (dir_of m) (op_file_name parent) d of (r, d') \<Rightarrow> ?removed r d'"
      using d r by (auto simp: half_way_def unlink_name_def intro!: gone split: option.splits if_splits) (simp_all add: target)
  qed (simp add: half_way_def)
  then have unlink: "disk_triple A (\<lambda>d. G d \<and> installed H m d \<and> recoverable D m d)
      (unlink_at_if_exists (dir_of m) (op_file_name parent)) (\<lambda>_ d. G d \<and> untouched D m d) (\<lambda>d. G d \<and> half_way H D m d)"
    unfolding unlink_at_if_exists_def
    by (rule dt_bind) (auto simp: half_way_def split: sum.split intro!: dt_return dt_fail)
  show ?thesis
    unfolding remove_created_def dir
    apply (rule dt_then [OF unlink])
    apply (rule dt_bind [OF dt_read [OF after in_A]], simp add: half_way_def)
    apply (rule dt_guard, auto simp: half_way_def)
    done
qed

lemma dt_rollback_member:
  assumes G: "framed A m G" and names: "distinct (locations m)" and decidable: "decidable H D m"
  shows "disk_triple A (\<lambda>d. G d \<and> half_way H D m d) (rollback_member H m)
    (\<lambda>_ d. G d \<and> untouched D m d) (\<lambda>d. G d \<and> half_way H D m d)"
proof -
  let ?between = "\<lambda>d. G d \<and> installed H m d \<and> recoverable D m d"
  note steady = framed_steady [OF G] at_names_steady [OF _ G]
  have start: "steady A (\<lambda>d. G d \<and> half_way H D m d)" and between: "steady A ?between"
    and after: "steady A (\<lambda>d. G d \<and> untouched D m d)" by (intro disk_rules steady)+
  have restore: "disk_triple A ?between (case (wtx_base m, wtx_backup_name m) of
        (Some base, Some backup_name) \<Rightarrow> restore_backup H parent (wtx_target_path m) base backup_name
      | (None, None) \<Rightarrow> remove_created H parent (wtx_target_path m)
      | _ \<Rightarrow> fail_step (RecoveryRequired ''transaction backup shape is invalid''))
      (\<lambda>_ d. G d \<and> untouched D m d) (\<lambda>d. G d \<and> half_way H D m d)" if "parent_at m parent" for parent
    using dt_restore_backup [OF G names decidable _ _ that] dt_remove_created [OF G decidable _ that]
    by (auto split: option.split intro!: dt_fail simp: half_way_def)
  have replaced: "disk_triple A ?between (bind_step (member_parent H m) (\<lambda>parent.
        then_step (case (wtx_base m, wtx_backup_name m) of
          (Some base, Some backup_name) \<Rightarrow> restore_backup H parent (wtx_target_path m) base backup_name
        | (None, None) \<Rightarrow> remove_created H parent (wtx_target_path m)
        | _ \<Rightarrow> fail_step (RecoveryRequired ''transaction backup shape is invalid''))
        sync_all)) (\<lambda>_ d. G d \<and> untouched D m d) (\<lambda>d. G d \<and> half_way H D m d)"
    by (rule dt_bind [OF dt_member_parent [OF between]], simp add: half_way_def, rule dt_fact,
        rule dt_then [OF restore], assumption, rule dt_sync_all [OF after]) (simp add: half_way_def)
  have target: "target_of m \<in> A" using framed_in [OF G] by simp
  show ?thesis
    unfolding rollback_member_def
  proof (rule dt_bind [OF dt_classify [OF start target]])
    fix state
    let ?classified = "\<lambda>d. (G d \<and> half_way H D m d)
        \<and> (\<exists>found. saw H (target_of m) found d \<and> state = classify_snapshot m found)"
    show "disk_triple A ?classified (case state of BaseTarget \<Rightarrow> return_step ()
         | ProposedTarget \<Rightarrow> bind_step (member_parent H m) (\<lambda>parent.
            then_step (case (wtx_base m, wtx_backup_name m) of
              (Some base, Some backup_name) \<Rightarrow> restore_backup H parent (wtx_target_path m) base backup_name
            | (None, None) \<Rightarrow> remove_created H parent (wtx_target_path m)
            | _ \<Rightarrow> fail_step (RecoveryRequired ''transaction backup shape is invalid'')) sync_all)
         | UnknownTarget \<Rightarrow> fail_step (RecoveryRequired
            (''target '' @ wtx_target_path m @ '' matches neither reviewed base nor staged proposal'')))
       (\<lambda>_ d. G d \<and> untouched D m d) (\<lambda>d. G d \<and> half_way H D m d)"
    proof (cases state)
      case BaseTarget
      then show ?thesis using classified(1) [OF decidable] by (auto intro!: dt_return)
    next
      case ProposedTarget
      show ?thesis
        unfolding ProposedTarget manifest_target_state.case
        by (rule dt_pre [OF replaced]) (auto dest: classified(2) [OF decidable])
    next
      case UnknownTarget
      then show ?thesis by (auto intro!: dt_fail)
    qed
  qed simp
qed

text \<open>Removing the stage or the backup leaves what is known of the target.\<close>

lemma dt_unlink_attempt:
  assumes G: "framed A m G" and P: "at_target m P" and l: "(dir, name) \<in> set (locations m)" "(dir, name) \<noteq> target_of m"
  shows "disk_triple A (\<lambda>d. G d \<and> P d) (attempt_step (name_call (unlink_name dir name))) (\<lambda>_ d. G d \<and> P d) E"
proof -
  note steady = framed_steady [OF G] at_names_steady [OF _ G]
  have "steady A (\<lambda>d. G d \<and> P d)" by (intro disk_rules steady at_target_names P)
  moreover have "G d' \<and> P d'" if "unlink_name dir name d = (r, d')" "G d \<and> P d" for d r d'
    using that rename_framed(4) [OF G l(1) l(1), of d r d'] at_target_put_entry [OF P l(2), of d]
    by (auto simp: unlink_name_def split: option.splits if_splits)
  ultimately show ?thesis by (intro dt_attempt_name_call) (auto split: prod.split)
qed

lemma dt_unlink_best_effort:
  assumes "framed A m G" and "at_target m P" and "(dir, name) \<in> set (locations m)" and "(dir, name) \<noteq> target_of m"
  shows "disk_triple A (\<lambda>d. G d \<and> P d) (unlink_at dir name) (\<lambda>_ d. G d \<and> P d) E"
  unfolding unlink_at_def by (rule dt_bind [OF dt_unlink_attempt [OF assms]]) (auto intro: dt_return)

lemma dt_unlink_if_exists:
  assumes "framed A m G" and "at_target m P" and "(dir, name) \<in> set (locations m)" and "(dir, name) \<noteq> target_of m"
  shows "disk_triple A (\<lambda>d. G d \<and> P d) (unlink_at_if_exists dir name) (\<lambda>_ d. G d \<and> P d) (\<lambda>d. G d \<and> P d)"
  unfolding unlink_at_if_exists_def
  by (rule dt_bind [OF dt_unlink_attempt [OF assms]]) (auto intro: dt_return dt_fail split: sum.split)

lemma dt_unlink_if_matches:
  assumes G: "framed A m G" and P: "at_target m P" and l: "(dir, name) \<in> set (locations m)" "(dir, name) \<noteq> target_of m"
  shows "disk_triple A (\<lambda>d. G d \<and> P d) (unlink_manifest_file_if_matches H dir name expected preparing)
    (\<lambda>_ d. G d \<and> P d) (\<lambda>d. G d \<and> P d)"
proof -
  note steady = framed_steady [OF G] at_names_steady [OF _ G]
  have steady': "steady A (\<lambda>d. G d \<and> P d)" by (intro disk_rules steady at_target_names P)
  have remove: "disk_triple A (\<lambda>d. (G d \<and> P d) \<and> saw H (dir, name) found d) (case found of
        None \<Rightarrow> return_step ()
      | Some current \<Rightarrow> then_step (guard_step (b current) e) (unlink_at_if_exists dir name))
      (\<lambda>_ d. G d \<and> P d) (\<lambda>d. G d \<and> P d)" for found b e
    by (cases found)
      (auto intro!: dt_return dt_then [OF dt_guard [where Q = "\<lambda>_ d. G d \<and> P d"]] dt_unlink_if_exists [OF G P l])
  show ?thesis
    unfolding unlink_manifest_file_if_matches_def
    by (rule dt_bind [OF dt_read [OF steady' framed_in [OF G l(1)]]], simp, rule remove)
qed

lemma dt_cleanup_member:
  assumes G: "framed A m G" and names: "distinct (locations m)" and P: "at_target m P"
  shows "disk_triple A (\<lambda>d. G d \<and> P d) (cleanup_member H m) (\<lambda>_ d. G d \<and> P d) (\<lambda>d. G d \<and> P d)"
proof -
  note steady = framed_steady [OF G] at_names_steady [OF _ G]
  have steady': "steady A (\<lambda>d. G d \<and> P d)" by (intro disk_rules steady at_target_names P)
  have stage: "disk_triple A (\<lambda>d. G d \<and> P d) (unlink_manifest_file_if_matches H (dir_of m) (wtx_stage_name m) x y)
      (\<lambda>_ d. G d \<and> P d) (\<lambda>d. G d \<and> P d)" for x y
    using own_locations_differ(2) [OF names] location_simps(2) [of m]
    by (intro dt_unlink_if_matches [OF G P]) (auto simp: stage_of_def)
  have backup: "disk_triple A (\<lambda>d. G d \<and> P d) (unlink_manifest_file_if_matches H (dir_of m) name x y)
      (\<lambda>_ d. G d \<and> P d) (\<lambda>d. G d \<and> P d)" if "wtx_backup_name m = Some name" for name x y
    using own_locations_differ(3) [OF names, of "(dir_of m, name)"] location_simps(3) [of m "(dir_of m, name)"] that
    by (intro dt_unlink_if_matches [OF G P]) (auto simp: backup_of_def)
  have backups: "disk_triple A (\<lambda>d. G d \<and> P d) (case wtx_backup_name m of None \<Rightarrow> return_step ()
      | Some name \<Rightarrow> then_step (guard_step (nul \<notin> set name) InvalidPath)
          (unlink_manifest_file_if_matches H (dir_of m) name x y))
      (\<lambda>_ d. G d \<and> P d) (\<lambda>d. G d \<and> P d)" for x y
    by (cases "wtx_backup_name m")
      (auto intro!: dt_return dt_then [OF dt_guard [where Q = "\<lambda>_ d. G d \<and> P d"]] backup)
  show ?thesis
    unfolding cleanup_member_def
  proof (rule dt_bind [OF dt_member_parent [OF steady']], simp, rule dt_fact)
    fix parent
    assume "parent_at m parent"
    then have dir: "op_directory parent = dir_of m" by (simp add: parent_at_def)
    let ?P = "\<lambda>d. G d \<and> P d"
    show "disk_triple A ?P (then_step (guard_step (nul \<notin> set (wtx_stage_name m)) InvalidPath)
       (then_step (when_step (\<not> wtx_delete m) (unlink_manifest_file_if_matches H (op_directory parent)
          (wtx_stage_name m) (wtx_staged m) (Some (wtx_proposed_digest m, wtx_proposed_mode m))))
       (then_step (case wtx_backup_name m of None \<Rightarrow> return_step ()
          | Some backup_name \<Rightarrow> then_step (guard_step (nul \<notin> set backup_name) InvalidPath)
             (unlink_manifest_file_if_matches H (op_directory parent) backup_name
               (case wtx_backup m of Some identity \<Rightarrow> Some identity | None \<Rightarrow> wtx_base m) None))
       sync_all))) (\<lambda>_. ?P) ?P"
      unfolding dir
      by (rule dt_then [OF dt_guard [where Q = "\<lambda>_. ?P"]], simp, simp, rule dt_then [OF dt_when [OF stage]], simp,
          rule dt_then [OF backups], rule dt_sync_all [OF steady']) simp
  qed
qed

section \<open>Staging one plan\<close>

text \<open>An inode that the host gives to a new file is not behind one of the names already.\<close>

definition fresh_inodes :: "(file_id \<times> string) set \<Rightarrow> apply_host \<Rightarrow> bool" where
  "fresh_inodes A H \<longleftrightarrow> (\<forall>d. \<forall>l \<in> A. wd_entries d l \<noteq> Some (wh_fresh_inode H d (fst (fst l))))"

definition member_of_plan :: "workspace_apply_plan \<Rightarrow> workspace_transaction_member \<Rightarrow> bool" where
  "member_of_plan plan m \<longleftrightarrow> wtx_target_path m = wap_target_path plan
     \<and> wtx_parent_device m = wap_parent_device plan \<and> wtx_parent_inode m = wap_parent_inode plan
     \<and> wtx_base m = map_option identity_of_snapshot (wap_base plan) \<and> wtx_delete m = wap_delete plan
     \<and> wtx_proposed_digest m = wap_proposed_digest plan \<and> wtx_proposed_mode m = proposed_mode plan
     \<and> (wtx_backup_name m = None \<longleftrightarrow> wtx_base m = None) \<and> (wtx_delete m \<longrightarrow> wtx_base m \<noteq> None)"

text \<open>The inode \<open>h\<close> has one name, the stage.\<close>

definition only_stage :: "(file_id \<times> string) set \<Rightarrow> workspace_transaction_member \<Rightarrow> file_id \<Rightarrow> workspace_disk \<Rightarrow> bool" where
  "only_stage A m h d \<longleftrightarrow> fst h = fst (dir_of m) \<and> wd_entries d (stage_of m) = Some (snd h)
     \<and> (\<forall>l \<in> A. l \<noteq> stage_of m \<longrightarrow> wd_entries d l = Some (snd h) \<longrightarrow> fst (fst l) \<noteq> fst h)"

lemma steady_only_stage: "stage_of m \<in> A \<Longrightarrow> steady A (only_stage A m h)"
proof (rule steadyI)
  fix d e
  assume A: "stage_of m \<in> A" and same: "looks_same A d e" and P: "only_stage A m h d"
  have "wd_entries e l = wd_entries d l" if "l \<in> A" for l using looks_sameD(1) [OF same that] .
  then show "only_stage A m h e" using A P unfolding only_stage_def by metis
qed

lemma only_stage_put_node:
  assumes "only_stage A m h d"
  shows "looks_same (A - {stage_of m}) d (put_node h n d)" "only_stage A m h (put_node h n d)"
  using assms by (auto simp: only_stage_def looks_same_def)

lemma looks_same_framed: "framed A m G \<Longrightarrow> stage_of m \<in> set (locations m) \<Longrightarrow> looks_same (A - {stage_of m}) d e
    \<Longrightarrow> wd_journal e = wd_journal d \<Longrightarrow> G d \<Longrightarrow> G e"
  by (erule framedD) (auto elim: looks_same_mono)

lemma looks_same_untouched:
  "looks_same (A - {stage_of m}) d e \<Longrightarrow> target_of m \<in> A \<Longrightarrow> target_of m \<noteq> stage_of m \<Longrightarrow> untouched D m d \<Longrightarrow> untouched D m e"
  by (auto simp: untouched_def elim!: looks_same_trans intro: looks_same_mono)

lemma stage_node_step:
  assumes "framed A m G" and "distinct (locations m)" and "G d \<and> untouched D m d \<and> only_stage A m h d"
  shows "G (put_node h n d) \<and> untouched D m (put_node h n d) \<and> only_stage A m h (put_node h n d)"
proof -
  have stage: "only_stage A m h d" using assms(3) by simp
  note same = only_stage_put_node(1) [OF stage, of n]
  have "untouched D m (put_node h n d)"
    using looks_same_untouched [OF same framed_in [OF assms(1)] own_locations_differ(1) [OF assms(2)]] assms(3) by simp
  moreover have "G (put_node h n d)" using looks_same_framed [OF assms(1) _ same] assms(3) by simp
  ultimately show ?thesis using only_stage_put_node(2) [OF stage] by simp
qed

lemma dt_create_stage:
  assumes G: "framed A m G" and names: "distinct (locations m)" and fresh: "fresh_inodes A H"
  shows "disk_triple A (\<lambda>d. G d \<and> untouched D m d) (create_stage H (dir_of m) (wtx_stage_name m))
    (\<lambda>h d. G d \<and> untouched D m d \<and> only_stage A m h d) (\<lambda>d. G d \<and> untouched D m d)"
proof -
  note steady = framed_steady [OF G] at_names_steady [OF _ G]
  have start: "steady A (\<lambda>d. G d \<and> untouched D m d)" by (intro disk_rules steady)
  show ?thesis
    unfolding create_stage_def
  proof (rule dt_system_call [OF start])
    fix d
    assume d: "G d \<and> untouched D m d"
    let ?inode = "wh_fresh_inode H d (fst (dir_of m))"
    let ?h = "(fst (dir_of m), ?inode)"
    let ?e = "put_entry (stage_of m) (Some ?inode) (put_node ?h (RegularFile [] (wh_stage_mode H)) d)"
    have unused: "wd_entries d l \<noteq> Some ?inode" if "l \<in> A" "fst (fst l) = fst (dir_of m)" for l
      using fresh that unfolding fresh_inodes_def by metis
    have same: "looks_same (A - {stage_of m}) d ?e" using unused by (auto simp: looks_same_def)
    have "G ?e \<and> untouched D m ?e"
      using d looks_same_framed [OF G _ same] looks_same_untouched [OF same framed_in [OF G] own_locations_differ(1) [OF names]]
      by simp
    moreover have "only_stage A m ?h ?e" using unused by (auto simp: only_stage_def)
    ultimately show "case if wd_entries d (dir_of m, wtx_stage_name m) \<noteq> None then (Inl (Io AlreadyExists), d)
        else let inode = wh_fresh_inode H d (fst (dir_of m)) in (Inr (fst (dir_of m), inode),
          put_entry (dir_of m, wtx_stage_name m) (Some inode)
            (put_node (fst (dir_of m), inode) (RegularFile [] (wh_stage_mode H)) d)) of
        (Inl _, d') \<Rightarrow> G d' \<and> untouched D m d' | (Inr h, d') \<Rightarrow> G d' \<and> untouched D m d' \<and> only_stage A m h d'"
      using d by (auto simp: Let_def stage_of_def [symmetric])
  qed simp
qed

lemma dt_stage_node:
  assumes G: "framed A m G" and names: "distinct (locations m)"
  shows "disk_triple A (\<lambda>d. G d \<and> untouched D m d \<and> only_stage A m h d) (write_all_bytes h bs)
      (\<lambda>_ d. G d \<and> untouched D m d \<and> only_stage A m h d) (\<lambda>d. G d \<and> untouched D m d)"
    and "disk_triple A (\<lambda>d. G d \<and> untouched D m d \<and> only_stage A m h d) (set_permissions h mode)
      (\<lambda>_ d. G d \<and> untouched D m d \<and> only_stage A m h d) (\<lambda>d. G d \<and> untouched D m d)"
proof -
  let ?P = "\<lambda>d. G d \<and> untouched D m d \<and> only_stage A m h d"
  note steady = framed_steady [OF G] at_names_steady [OF _ G] steady_only_stage [OF framed_in [OF G]]
  have P: "steady A ?P" by (intro disk_rules steady) simp
  have append: "?P (append_bytes h cs d)" if "?P d" for cs d
    using that stage_node_step [OF G names, of d D h] by (auto simp: append_bytes_def split: option.split disk_node.split)
  show "disk_triple A ?P (write_all_bytes h bs) (\<lambda>_. ?P) (\<lambda>d. G d \<and> untouched D m d)"
    unfolding write_all_bytes_def by (rule dt_call [OF P]) (use append in auto)
  show "disk_triple A ?P (set_permissions h mode) (\<lambda>_. ?P) (\<lambda>d. G d \<and> untouched D m d)"
    unfolding set_permissions_def
    by (rule dt_system_call [OF P])
      (use stage_node_step [OF G names, of _ D h] in \<open>auto split: option.split disk_node.split\<close>)
qed

text \<open>What is known of a staged member, and of one with a backup.\<close>

definition staged_agrees :: "workspace_transaction_member \<Rightarrow> bool" where
  "staged_agrees m \<longleftrightarrow> (\<not> wtx_delete m \<longrightarrow> wtx_staged m \<noteq> None)
     \<and> (\<forall>s. wtx_staged m = Some s \<longrightarrow> wri_digest s = wtx_proposed_digest m
          \<and> and (wri_mode s) PERMISSION_BITS = wtx_proposed_mode m
          \<and> (\<forall>b. wtx_base m = Some b \<longrightarrow> wri_inode s \<noteq> wri_inode b))"

lemma staged_inode_new:
  assumes "base_agrees H D m" and "untouched D m d" and "only_stage A m h d" and "target_of m \<in> A"
    and "target_of m \<noteq> stage_of m" and "file_is H d (stage_of m) s" and "wtx_base m = Some b"
  shows "wri_inode s \<noteq> wri_inode b"
proof -
  have "wd_entries d (target_of m) = Some (wri_inode b)"
    using assms untouched_file_is [OF assms(2)] by (auto simp: base_agrees_def dest: file_is_entry)
  moreover have "snd h = wri_inode s" using assms(3,6) by (auto simp: only_stage_def dest: file_is_entry)
  ultimately show ?thesis using assms(3-5) by (auto simp: only_stage_def)
qed

lemma dt_stage_proposal:
  assumes G: "framed A m G" and names: "distinct (locations m)" and fresh: "fresh_inodes A H"
    and plan: "member_of_plan plan m" and clean: "wtx_staged m = None" and base: "base_agrees H D m"
  shows "disk_triple A (\<lambda>d. G d \<and> untouched D m d) (stage_proposal H (dir_of m) plan m)
    (\<lambda>m' d. (erase m' = erase m \<and> staged_agrees m') \<and> G d \<and> untouched D m d) (\<lambda>d. G d \<and> untouched D m d)"
proof (cases "wap_delete plan")
  case True
  then show ?thesis
    using plan clean by (auto simp: stage_proposal_def staged_agrees_def member_of_plan_def intro!: dt_return)
next
  case False
  then have keep: "\<not> wtx_delete m" using plan by (simp add: member_of_plan_def)
  let ?P = "\<lambda>h d. G d \<and> untouched D m d \<and> only_stage A m h d"
  let ?E = "\<lambda>d. G d \<and> untouched D m d"
  note steady = framed_steady [OF G] at_names_steady [OF _ G] steady_only_stage [OF framed_in [OF G]]
  have P: "steady A (?P h)" for h by (intro disk_rules steady) simp
  have target: "target_of m \<in> A" "target_of m \<noteq> stage_of m" "(dir_of m, wtx_stage_name m) \<in> A"
    using framed_in [OF G] own_locations_differ [OF names] location_simps(1,2) [of m]
    by (auto simp: stage_of_def)
  have checked: "disk_triple A (\<lambda>d. ?P h d \<and> file_is H d (dir_of m, wtx_stage_name m) (identity_of_snapshot s))
      (then_step (guard_step (wfs_digest s = wtx_proposed_digest m
          \<and> and (wfs_mode s) PERMISSION_BITS = wtx_proposed_mode m)
        (RecoveryRequired ''staged transaction member could not be verified''))
      (return_step (m\<lparr>wtx_staged := Some (identity_of_snapshot s)\<rparr>)))
      (\<lambda>m' d. (erase m' = erase m \<and> staged_agrees m') \<and> ?E d) ?E" for h s
    by (rule dt_then [OF dt_guard_keep], simp, rule dt_return)
      (auto simp: staged_agrees_def identity_of_snapshot_def [of s] stage_of_def [symmetric]
        dest: staged_inode_new [OF base _ _ target(1,2)])
  show ?thesis
    unfolding stage_proposal_def if_not_P [OF False]
    by (rule dt_bind [OF dt_create_stage [OF G names fresh]], rule dt_bind [OF dt_lift [where Q = "\<lambda>_. ?P _"]], assumption, simp,
        rule dt_then [OF dt_stage_node(1) [OF G names]], rule dt_then [OF dt_stage_node(2) [OF G names]],
        rule dt_then [OF dt_sync_all [OF P]], simp, rule dt_bind [OF dt_required [OF P target(3)]], simp, rule checked)
qed

lemma erase_eqD:
  assumes "erase m' = erase m"
  shows "dir_of m' = dir_of m" "target_of m' = target_of m" "stage_of m' = stage_of m" "backup_of m' = backup_of m"
    "locations m' = locations m" "wtx_base m' = wtx_base m" "wtx_delete m' = wtx_delete m"
  using erase_simps assms by metis+

lemma recoverable_erase: "erase m' = erase m \<Longrightarrow> recoverable D m' d \<longleftrightarrow> recoverable D m d"
  using erase_eqD [of m' m] by (simp add: recoverable_def)

lemma untouched_erase: "erase m' = erase m \<Longrightarrow> untouched D m' d \<longleftrightarrow> untouched D m d"
  using erase_eqD [of m' m] by (simp add: untouched_def)

lemma erase_eq_fields:
  assumes "erase m' = erase m"
  shows "wtx_backup_name m' = wtx_backup_name m" "wtx_stage_name m' = wtx_stage_name m"
    "wtx_proposed_digest m' = wtx_proposed_digest m" "wtx_proposed_mode m' = wtx_proposed_mode m"
  using assms by (auto simp: erase_def dest: arg_cong [of _ _ wtx_backup_name] arg_cong [of _ _ wtx_stage_name]
      arg_cong [of _ _ wtx_proposed_digest] arg_cong [of _ _ wtx_proposed_mode])

lemma link_makes_recoverable:
  assumes "untouched D m d" and "backup_of m = Some (dir_of m, name)" and "target_of m = (dir_of m, target)"
    and "(dir_of m, name) \<noteq> target_of m"
    and "link_names (dir_of m) target name d = (Inr u, d')"
  shows "untouched D m d' \<and> recoverable D m d'"
  using assms by (auto simp: link_names_def untouched_def recoverable_def looks_same_def split: option.splits if_splits)

lemma dt_stage_backup:
  assumes G: "framed A m G" and names: "distinct (locations m)" and target: "target_of m = (dir_of m, name)"
    and shape: "wtx_backup_name m = None \<longleftrightarrow> wtx_base m = None"
  shows "disk_triple A (\<lambda>d. G d \<and> untouched D m d) (stage_backup H (dir_of m) name m)
    (\<lambda>m' d. (\<exists>backup. m' = m\<lparr>wtx_backup := backup\<rparr>) \<and> G d \<and> untouched D m d \<and> recoverable D m d)
    (\<lambda>d. G d \<and> untouched D m d)"
proof (cases "wtx_backup_name m")
  case None
  have "\<exists>backup. m = m\<lparr>wtx_backup := backup\<rparr>" by (rule exI [of _ "wtx_backup m"]) simp
  then show ?thesis using None shape by (auto simp: stage_backup_def recoverable_def intro!: dt_return)
next
  case (Some backup_name)
  then have backup: "backup_of m = Some (dir_of m, backup_name)" by (simp add: backup_of_def)
  let ?Q = "\<lambda>d. G d \<and> untouched D m d \<and> recoverable D m d"
  let ?E = "\<lambda>d. G d \<and> untouched D m d"
  note steady = framed_steady [OF G] at_names_steady [OF _ G]
  have start: "steady A ?E" and after: "steady A ?Q" by (intro disk_rules steady)+
  have link: "disk_triple A ?E (link_target_at (dir_of m) name backup_name) (\<lambda>_. ?Q) ?E"
    unfolding link_target_at_def
  proof (rule dt_map_error, rule dt_name_call [OF start])
    fix d
    assume d: "?E d"
    obtain r d' where r: "link_names (dir_of m) name backup_name d = (r, d')" by fastforce
    have "G d'"
      using rename_framed(3) [OF G _ _ _ r] d location_simps(3) [OF backup] location_simps(1) [of m] by (simp add: target)
    moreover have "untouched D m d' \<and> recoverable D m d'" if "r = Inr ()"
      using link_makes_recoverable [OF _ backup target own_locations_differ(3) [OF names backup]] d r that by blast
    moreover have "d' = d" if "r = Inl e" for e using names_fail(3) r that by blast
    ultimately show "case link_names (dir_of m) name backup_name d of (Inl _, d') \<Rightarrow> ?E d' | (Inr _, d') \<Rightarrow> ?Q d'"
      using d by (auto simp: r split: sum.split)
  qed simp
  have in_A: "(dir_of m, backup_name) \<in> A" using framed_in [OF G location_simps(3) [OF backup]] .
  have keep: "disk_triple A ?Q (bind_step (lift_step (ok_or (wtx_base m) e)) (\<lambda>expected.
        then_step (guard_step (identity_matches expected s) e') (return_step (m\<lparr>wtx_backup := Some (identity_of_snapshot s)\<rparr>))))
      (\<lambda>m' d. (\<exists>backup. m' = m\<lparr>wtx_backup := backup\<rparr>) \<and> ?Q d) ?E" for e e' s
    by (rule dt_bind [OF dt_lift [where Q = "\<lambda>_. ?Q"]], simp, simp,
        rule dt_then [OF dt_guard [where Q = "\<lambda>_. ?Q"]], simp, simp, rule dt_return) auto
  show ?thesis
    unfolding stage_backup_def Some option.case
    by (rule dt_then [OF link], rule dt_bind [OF dt_required [OF after in_A]], simp, rule dt_pre [OF keep]) simp
qed

lemma reviewed_base_agrees:
  assumes "member_of_plan plan m" and "untouched D m d" and "saw H (target_of m) current d"
    and "same_file_state current (wap_base plan)"
  shows "base_agrees H D m"
proof (cases current)
  case None
  then show ?thesis
    using assms by (auto simp: same_file_state_def base_agrees_def member_of_plan_def saw_def untouched_def looks_same_def
        split: option.splits)
next
  case (Some c)
  then obtain b where "wap_base plan = Some b" "identity_of_snapshot c = identity_of_snapshot b"
    using assms(4) by (auto simp: same_file_state_def identity_of_snapshot_def split: option.splits)
  then show ?thesis
    using assms(1,3) Some untouched_file_is [OF assms(2)] by (simp add: base_agrees_def member_of_plan_def saw_def)
qed

definition staged_of :: "workspace_apply_plan \<Rightarrow> workspace_transaction_member \<Rightarrow> staged_workspace_plan \<Rightarrow> bool" where
  "staged_of plan m staged \<longleftrightarrow> swp_plan staged = plan \<and> parent_at m (swp_parent staged)
     \<and> swp_stage_name staged = wtx_stage_name m"

lemma decidableI:
  "base_agrees H D m \<Longrightarrow> staged_agrees m' \<Longrightarrow> erase m' = erase m \<Longrightarrow> (wtx_delete m \<longrightarrow> wtx_base m \<noteq> None) \<Longrightarrow>
     decidable H D (m'\<lparr>wtx_backup := backup\<rparr>)"
  using erase_eqD [of m' m] by (auto simp: decidable_def base_agrees_def identities_agree_def staged_agrees_def split: option.split)

lemma dt_unstage:
  assumes G: "framed A m G" and names: "distinct (locations m)"
  shows "disk_triple A (\<lambda>d. G d \<and> untouched D m d) (unstage (dir_of m) plan m) (\<lambda>_ d. G d \<and> untouched D m d)
    (\<lambda>d. G d \<and> untouched D m d)"
proof -
  let ?P = "\<lambda>d. G d \<and> untouched D m d"
  note steady = framed_steady [OF G] at_names_steady [OF _ G]
  have P: "steady A ?P" by (intro disk_rules steady)
  have stage: "disk_triple A ?P (unlink_at (dir_of m) (wtx_stage_name m)) (\<lambda>_. ?P) ?P"
    using own_locations_differ(2) [OF names] location_simps(2) [of m]
    by (intro dt_unlink_best_effort [OF G at_target_conditions(1)]) (auto simp: stage_of_def)
  have backup: "disk_triple A ?P (unlink_at (dir_of m) name) (\<lambda>_. ?P) ?P" if "wtx_backup_name m = Some name" for name
    using own_locations_differ(3) [OF names, of "(dir_of m, name)"] location_simps(3) [of m "(dir_of m, name)"] that
    by (intro dt_unlink_best_effort [OF G at_target_conditions(1)]) (auto simp: backup_of_def)
  have backups: "disk_triple A ?P (case wtx_backup_name m of Some name \<Rightarrow> unlink_at (dir_of m) name | None \<Rightarrow> return_step ())
      (\<lambda>_. ?P) ?P"
    by (auto split: option.split intro: backup dt_return)
  have sync: "disk_triple A ?P (bind_step (attempt_step sync_all) (\<lambda>_. return_step ())) (\<lambda>_. ?P) ?P"
    by (rule dt_bind [OF dt_attempt [where Q = "\<lambda>_. ?P", OF dt_sync_all [OF P]]]) (auto intro: dt_return)
  show ?thesis
    unfolding unstage_def
    by (rule dt_then [OF dt_when [OF stage]], simp, rule dt_then [OF backups], rule sync)
qed

lemma dt_stage_plan:
  assumes G: "framed A m G" and names: "distinct (locations m)" and fresh: "fresh_inodes A H"
    and plan: "member_of_plan plan m" and clean: "wtx_staged m = None"
  shows "disk_triple A (\<lambda>d. G d \<and> untouched D m d) (stage_durable_workspace_plan H plan m)
    (\<lambda>(staged, m') d. (erase m' = erase m \<and> decidable H D m' \<and> staged_of plan m staged)
        \<and> G d \<and> untouched D m d \<and> recoverable D m d)
    (\<lambda>d. G d \<and> untouched D m d)"
proof -
  let ?P = "\<lambda>d. G d \<and> untouched D m d"
  let ?Q = "\<lambda>m' d. (erase m' = erase m \<and> decidable H D m') \<and> G d \<and> untouched D m d \<and> recoverable D m d"
  note steady = framed_steady [OF G] at_names_steady [OF _ G]
  have P: "steady A ?P" and Q: "steady A (?Q m')" for m' by (intro disk_rules steady)+
  have shape: "wtx_backup_name m = None \<longleftrightarrow> wtx_base m = None" "wtx_delete m \<longrightarrow> wtx_base m \<noteq> None"
    using plan unfolding member_of_plan_def by blast+
  have inner: "disk_triple A ?P (bind_step (stage_proposal H (dir_of m) plan m) (\<lambda>m'.
        bind_step (stage_backup H (dir_of m) name m') (\<lambda>m'.
        bind_step (read_target_at H (dir_of m) name) (\<lambda>latest.
        then_step (guard_step (same_file_state latest (wap_base plan)) StaleBase)
        (then_step sync_all (return_step m')))))) ?Q ?P"
    if target: "target_of m = (dir_of m, name)" and base: "base_agrees H D m" for name
  proof (rule dt_bind [OF dt_stage_proposal [OF G names fresh plan clean base]], rule dt_fact)
    fix m'
    assume m': "erase m' = erase m \<and> staged_agrees m'"
    then have same: "erase m' = erase m" "staged_agrees m'" by simp_all
    note eq = erase_eqD [OF same(1)] erase_eq_fields [OF same(1)]
    have G': "framed A m' G" using G by (simp add: framed_def eq)
    have "distinct (locations m')" "target_of m' = (dir_of m', name)" "wtx_backup_name m' = None \<longleftrightarrow> wtx_base m' = None"
      using names target shape by (simp_all add: eq)
    note dt_stage_backup [OF G' this, of D H, unfolded eq untouched_erase [OF same(1)] recoverable_erase [OF same(1)]]
    then have backed: "disk_triple A ?P (stage_backup H (dir_of m) name m') ?Q ?P"
      by (rule dt_conseq) (auto simp: same(1) intro: decidableI [OF base same(2,1) shape(2)])
    have in_A: "(dir_of m, name) \<in> A" using framed_in [OF G location_simps(1)] by (simp add: target)
    have finish: "disk_triple A (?Q m') (bind_step (read_target_at H (dir_of m) name) (\<lambda>latest.
        then_step (guard_step (same_file_state latest (wap_base plan)) StaleBase)
        (then_step sync_all (return_step m')))) ?Q ?P" for m'
      by (rule dt_bind [OF dt_read [OF Q in_A]], simp, rule dt_then [OF dt_guard [where Q = "\<lambda>_. ?Q m'"]], simp, simp,
          rule dt_then [OF dt_sync_all [OF Q]], simp, rule dt_return)
    show "disk_triple A ?P (bind_step (stage_backup H (dir_of m) name m') (\<lambda>m'.
        bind_step (read_target_at H (dir_of m) name) (\<lambda>latest.
        then_step (guard_step (same_file_state latest (wap_base plan)) StaleBase)
        (then_step sync_all (return_step m'))))) ?Q ?P"
      by (rule dt_bind [OF backed finish])
  qed
  have reviewed: "disk_triple A ?P
      (bind_step (read_target_at H (dir_of m) (op_file_name parent)) (\<lambda>current.
       then_step (guard_step (same_file_state current (wap_base plan)) StaleBase)
       (then_step (guard_step b e)
       (bind_step (on_error_step
          (bind_step (stage_proposal H (dir_of m) plan m) (\<lambda>m'.
           bind_step (stage_backup H (dir_of m) (op_file_name parent) m') (\<lambda>m'.
           bind_step (read_target_at H (dir_of m) (op_file_name parent)) (\<lambda>latest.
           then_step (guard_step (same_file_state latest (wap_base plan)) StaleBase)
           (then_step sync_all (return_step m'))))))
          (\<lambda>_. unstage (dir_of m) plan m)) (\<lambda>m'. return_step (f m'))))))
      (\<lambda>r d. \<exists>m'. r = f m' \<and> ?Q m' d) ?P"
    if parent: "parent_at m parent" for parent b e f
  proof -
    have target: "target_of m = (dir_of m, op_file_name parent)" using parent by (simp add: parent_at_def)
    have in_A: "(dir_of m, op_file_name parent) \<in> A" using framed_in [OF G location_simps(1)] by (simp add: target)
    have staged: "disk_triple A (\<lambda>d. ?P d \<and> saw H (dir_of m, op_file_name parent) current d)
        (then_step (guard_step b e) (bind_step (on_error_step
          (bind_step (stage_proposal H (dir_of m) plan m) (\<lambda>m'.
           bind_step (stage_backup H (dir_of m) (op_file_name parent) m') (\<lambda>m'.
           bind_step (read_target_at H (dir_of m) (op_file_name parent)) (\<lambda>latest.
           then_step (guard_step (same_file_state latest (wap_base plan)) StaleBase)
           (then_step sync_all (return_step m'))))))
          (\<lambda>_. unstage (dir_of m) plan m)) (\<lambda>m'. return_step (f m'))))
        (\<lambda>r d. \<exists>m'. r = f m' \<and> ?Q m' d) ?P" if "same_file_state current (wap_base plan)" for current
      by (rule dt_known [of _ "base_agrees H D m"], use reviewed_base_agrees [OF plan _ _ that, of D _ H] target in force,
          rule dt_then [OF dt_guard [where Q = "\<lambda>_. ?P"]], simp, simp,
          rule dt_bind [OF dt_on_error [OF inner [OF target] dt_unstage [OF G names]]], assumption, rule dt_return, blast)
    show ?thesis
      by (rule dt_bind [OF dt_read [OF P in_A]], simp, rule dt_then [OF dt_guard_keep], simp, rule dt_fact, rule staged)
  qed
  have validated: "disk_triple A ?P (lift_step (validate_target_path (wap_target_path plan)))
      (\<lambda>relative d. relative = wtx_target_path m \<and> ?P d) ?P"
    by (rule dt_lift) (use plan in \<open>auto simp: member_of_plan_def dest: validate_target_path_id\<close>)
  show ?thesis
    unfolding stage_durable_workspace_plan_def
  proof (rule dt_bind [OF validated], rule dt_fact, rule dt_bind [OF dt_open_parent [OF P]], simp, rule dt_fact, rule dt_then [OF dt_guard_keep], simp, rule dt_fact)
    fix relative parent
    assume "relative = wtx_target_path m" "file_name relative = Some (op_file_name parent)"
      "parent_is parent (wap_parent_device plan) (wap_parent_inode plan)
        \<and> parent_is parent (wtx_parent_device m) (wtx_parent_inode m)"
    then have parent: "parent_at m parent" and dir: "op_directory parent = dir_of m"
      by (auto simp: parent_at_def parent_is_def target_of_def dir_of_def)
    show "disk_triple A ?P (bind_step (read_target_at H (op_directory parent) (op_file_name parent)) (\<lambda>current.
      then_step (guard_step (same_file_state current (wap_base plan)) StaleBase)
      (then_step (guard_step (nul \<notin> set (wtx_stage_name m)
          \<and> (case wtx_backup_name m of Some name \<Rightarrow> nul \<notin> set name | None \<Rightarrow> True)) InvalidPath)
      (bind_step (on_error_step
          (bind_step (stage_proposal H (op_directory parent) plan m) (\<lambda>member.
           bind_step (stage_backup H (op_directory parent) (op_file_name parent) member) (\<lambda>member.
           bind_step (read_target_at H (op_directory parent) (op_file_name parent)) (\<lambda>latest.
           then_step (guard_step (same_file_state latest (wap_base plan)) StaleBase)
           (then_step sync_all (return_step member))))))
          (\<lambda>_. unstage (op_directory parent) plan m)) (\<lambda>member.
       return_step (\<lparr>swp_plan = plan, swp_parent = parent, swp_stage_name = wtx_stage_name member,
         swp_installed = False\<rparr>, member))))))
      (\<lambda>(staged, m') d. (erase m' = erase m \<and> decidable H D m' \<and> staged_of plan m staged)
        \<and> G d \<and> untouched D m d \<and> recoverable D m d) ?P"
      unfolding dir
    proof (rule dt_conseq [OF reviewed [OF parent, of _ _ "\<lambda>member. (\<lparr>swp_plan = plan, swp_parent = parent,
        swp_stage_name = wtx_stage_name member, swp_installed = False\<rparr>, member)"]], assumption)
      fix r d
      assume "\<exists>m'. r = (\<lparr>swp_plan = plan, swp_parent = parent, swp_stage_name = wtx_stage_name m', swp_installed = False\<rparr>, m')
        \<and> ?Q m' d"
      then obtain m' where "r = (\<lparr>swp_plan = plan, swp_parent = parent, swp_stage_name = wtx_stage_name m', swp_installed = False\<rparr>, m')"
        and Q: "?Q m' d" by blast
      then show "(\<lambda>(staged, m') d. (erase m' = erase m \<and> decidable H D m' \<and> staged_of plan m staged)
        \<and> G d \<and> untouched D m d \<and> recoverable D m d) r d"
        using erase_eq_fields(2) [of m' m] parent by (simp add: staged_of_def)
    qed
  qed
qed

section \<open>Installing one plan\<close>

text \<open>The stage is the file that the manifest names.\<close>

definition stage_ready :: "apply_host \<Rightarrow> workspace_transaction_member \<Rightarrow> workspace_disk \<Rightarrow> bool" where
  "stage_ready H m d \<longleftrightarrow> (\<not> wtx_delete m \<longrightarrow> (\<exists>s. wtx_staged m = Some s \<and> file_is H d (stage_of m) s))"

lemma at_names_stage_ready [disk_rules]: "at_names m (stage_ready H m)"
  unfolding at_names_def stage_ready_def by (meson file_is_same location_simps(2))

lemma dt_check_prepared_stage:
  assumes P: "steady A P" and "stage_of m \<in> A" and staged: "staged_of plan m staged" and "wap_delete plan = wtx_delete m"
    and E: "\<And>d. P d \<Longrightarrow> E d"
  shows "disk_triple A P (check_prepared_stage H staged m) (\<lambda>_ d. P d \<and> stage_ready H m d) E"
proof -
  have names: "op_directory (swp_parent staged) = dir_of m" "swp_stage_name staged = wtx_stage_name m" "swp_plan staged = plan"
    using staged by (auto simp: staged_of_def parent_at_def)
  have in_A: "(dir_of m, wtx_stage_name m) \<in> A" using assms(2) by (simp add: stage_of_def)
  have "disk_triple A P (bind_step (required_snapshot H (dir_of m) (wtx_stage_name m) ''prepared stage disappeared'') (\<lambda>s.
      guard_step (case wtx_staged m of Some identity \<Rightarrow> identity_matches identity s | None \<Rightarrow> False) e))
      (\<lambda>_ d. P d \<and> stage_ready H m d) E" for e
    by (rule dt_bind [OF dt_required [OF P in_A E]], simp, rule dt_guard)
      (auto simp: stage_ready_def stage_of_def identity_matches_iff E split: option.splits)
  then show ?thesis
    unfolding check_prepared_stage_def names using assms(4)
    by (intro dt_when [where Q = "\<lambda>d. P d \<and> stage_ready H m d"]) (auto simp: stage_ready_def)
qed

lemma at_names_ready: "at_names m (\<lambda>d. untouched D m d \<and> recoverable D m d \<and> stage_ready H m d)"
  by (intro disk_rules)

text \<open>A change of the entries of the stage and the target keeps what the backup needs.\<close>

lemma recoverable_put_entry: "recoverable D m d \<Longrightarrow> backup_of m \<noteq> Some l \<Longrightarrow> recoverable D m (put_entry l x d)"
  by (auto simp: recoverable_def simp del: split_paired_Ex split_paired_All)

lemma stage_becomes_target:
  assumes names: "distinct (locations m)" and ready: "recoverable D m d" "stage_ready H m d" and keep: "\<not> wtx_delete m"
    and target: "target_of m = (dir_of m, name)"
  shows "rename_names (dir_of m) (wtx_stage_name m) name d = (Inr u, d') \<Longrightarrow> installed H m d' \<and> recoverable D m d'"
    and "rename_new (dir_of m) (wtx_stage_name m) name d = (Inr u, d') \<Longrightarrow> installed H m d' \<and> recoverable D m d'"
    and "link_names (dir_of m) (wtx_stage_name m) name d = (Inr u, d') \<Longrightarrow> installed H m d' \<and> recoverable D m d'"
proof -
  obtain s i where s: "wtx_staged m = Some s" "file_is H d (stage_of m) s" "wd_entries d (stage_of m) = Some i"
    using ready(2) keep file_is_entry by (auto simp: stage_ready_def)
  have stage: "stage_of m = (dir_of m, wtx_stage_name m)" by (simp add: stage_of_def)
  have differ: "target_of m \<noteq> stage_of m" "backup_of m \<noteq> Some (target_of m)" "backup_of m \<noteq> Some (stage_of m)"
    using own_locations_differ(1,5,6) [OF names] .
  have there: "installed H m e" if "wd_entries e (target_of m) = Some i" "wd_nodes e = wd_nodes d" for e
    using that s keep by (auto simp: installed_def file_is_def)
  show "rename_names (dir_of m) (wtx_stage_name m) name d = (Inr u, d') \<Longrightarrow> installed H m d' \<and> recoverable D m d'"
    using s(3) differ ready(1)
    by (auto simp: rename_names_def target [symmetric] stage [symmetric] intro!: there recoverable_put_entry split: if_splits)
  show "rename_new (dir_of m) (wtx_stage_name m) name d = (Inr u, d') \<Longrightarrow> installed H m d' \<and> recoverable D m d'"
    using s(3) differ ready(1)
    by (auto simp: rename_new_def target [symmetric] stage [symmetric] intro!: there recoverable_put_entry split: if_splits)
  show "link_names (dir_of m) (wtx_stage_name m) name d = (Inr u, d') \<Longrightarrow> installed H m d' \<and> recoverable D m d'"
    using s(3) differ ready(1)
    by (auto simp: link_names_def target [symmetric] stage [symmetric] intro!: there recoverable_put_entry split: if_splits)
qed

lemma dt_install_call:
  assumes G: "framed A m G" and P: "at_names m P" and E: "\<And>d. P d \<Longrightarrow> half_way H D m d"
    and frame: "\<And>d r d'. G d \<Longrightarrow> effect d = (r, d') \<Longrightarrow> G d'"
    and fails: "\<And>d e d'. effect d = (Inl e, d') \<Longrightarrow> d' = d"
    and works: "\<And>d u d'. P d \<Longrightarrow> effect d = (Inr u, d') \<Longrightarrow> installed H m d' \<and> recoverable D m d'"
  shows "disk_triple A (\<lambda>d. G d \<and> P d) (name_call effect) (\<lambda>_ d. G d \<and> installed H m d \<and> recoverable D m d)
    (\<lambda>d. G d \<and> half_way H D m d)"
proof (rule dt_name_call)
  show "steady A (\<lambda>d. G d \<and> P d)" by (intro disk_rules framed_steady [OF G] at_names_steady [OF P G])
  fix d
  assume d: "G d \<and> P d"
  obtain r d' where r: "effect d = (r, d')" by fastforce
  show "case effect d of (Inl _, d') \<Rightarrow> G d' \<and> half_way H D m d' | (Inr _, d') \<Rightarrow> G d' \<and> installed H m d' \<and> recoverable D m d'"
    using d r frame [OF _ r] fails [of d _ d'] works [of d _ d'] E [of d] by (cases r) auto
qed (use E in simp)

lemma dt_install_stage:
  assumes G: "framed A m G" and names: "distinct (locations m)" and keep: "\<not> wtx_delete m"
    and target: "target_of m = (dir_of m, name)"
  shows "disk_triple A (\<lambda>d. G d \<and> untouched D m d \<and> recoverable D m d \<and> stage_ready H m d)
    (install_transaction_stage H (dir_of m) (wtx_stage_name m) name replacing)
    (\<lambda>_ d. G d \<and> installed H m d \<and> recoverable D m d) (\<lambda>d. G d \<and> half_way H D m d)"
proof -
  let ?P = "\<lambda>d. untouched D m d \<and> recoverable D m d \<and> stage_ready H m d"
  have in_m: "(dir_of m, wtx_stage_name m) \<in> set (locations m)" "(dir_of m, name) \<in> set (locations m)"
    using location_simps(1,2) [of m] by (simp_all add: target stage_of_def)
  note call = dt_install_call [where P = ?P, OF G at_names_ready]
  have rename: "disk_triple A (\<lambda>d. G d \<and> ?P d) (name_call (rename_names (dir_of m) (wtx_stage_name m) name))
      (\<lambda>_ d. G d \<and> installed H m d \<and> recoverable D m d) (\<lambda>d. G d \<and> half_way H D m d)"
    by (rule call) (auto simp: half_way_def dest: rename_framed(1) [OF G in_m] names_fail(1)
        stage_becomes_target(1) [OF names _ _ keep target])
  have exclusive: "disk_triple A (\<lambda>d. G d \<and> ?P d) (name_call (rename_new (dir_of m) (wtx_stage_name m) name))
      (\<lambda>_ d. G d \<and> installed H m d \<and> recoverable D m d) (\<lambda>d. G d \<and> half_way H D m d)"
    by (rule call) (auto simp: half_way_def dest: rename_framed(2) [OF G in_m] names_fail(2)
        stage_becomes_target(2) [OF names _ _ keep target])
  have link: "disk_triple A (\<lambda>d. G d \<and> ?P d) (name_call (link_names (dir_of m) (wtx_stage_name m) name))
      (\<lambda>_ d. G d \<and> installed H m d \<and> recoverable D m d) (\<lambda>d. G d \<and> half_way H D m d)"
    by (rule call) (auto simp: half_way_def dest: rename_framed(3) [OF G in_m] names_fail(3)
        stage_becomes_target(3) [OF names _ _ keep target])
  have R: "at_names m (\<lambda>d. installed H m d \<and> recoverable D m d)" by (intro disk_rules)
  have unlink: "disk_triple A (\<lambda>d. G d \<and> installed H m d \<and> recoverable D m d)
      (attempt_step (name_call (unlink_name (dir_of m) (wtx_stage_name m))))
      (\<lambda>_ d. G d \<and> installed H m d \<and> recoverable D m d) E" for E
  proof (rule dt_attempt_name_call)
    show "steady A (\<lambda>d. G d \<and> installed H m d \<and> recoverable D m d)"
      by (intro disk_rules framed_steady [OF G] at_names_steady [OF R G])
    fix d
    assume d: "G d \<and> installed H m d \<and> recoverable D m d"
    obtain r d' where r: "unlink_name (dir_of m) (wtx_stage_name m) d = (r, d')" by fastforce
    have stage: "(dir_of m, wtx_stage_name m) = stage_of m" by (simp add: stage_of_def)
    have "G d'" using rename_framed(4) [OF G in_m(1,1) _ r] d by simp
    moreover have "installed H m d' \<and> recoverable D m d'"
      using d r own_locations_differ(1,2,5,6) [OF names] at_target_put_entry [OF at_target_conditions(2), of "stage_of m" m]
      by (auto simp: unlink_name_def stage intro!: recoverable_put_entry split: option.splits if_splits)
    ultimately show "case unlink_name (dir_of m) (wtx_stage_name m) d of (r, d') \<Rightarrow> G d' \<and> installed H m d' \<and> recoverable D m d'"
      by (simp add: r)
  qed simp
  show ?thesis
    unfolding install_transaction_stage_def
    by (rule dt_map_error) (auto intro: rename exclusive dt_then [OF link] dt_bind [OF unlink] dt_return)
qed

lemma dt_install_plan:
  assumes G: "framed A m G" and names: "distinct (locations m)" and plan: "member_of_plan plan m0" "erase m = erase m0"
    and staged: "staged_of plan m staged"
  shows "disk_triple A (\<lambda>d. G d \<and> untouched D m d \<and> recoverable D m d \<and> stage_ready H m d)
    (install_transaction_plan H staged) (\<lambda>_ d. G d \<and> installed H m d \<and> recoverable D m d) (\<lambda>d. G d \<and> half_way H D m d)"
proof -
  let ?P = "\<lambda>d. untouched D m d \<and> recoverable D m d \<and> stage_ready H m d"
  let ?Q = "\<lambda>d. G d \<and> installed H m d \<and> recoverable D m d"
  let ?E = "\<lambda>d. G d \<and> half_way H D m d"
  define name where "name = op_file_name (swp_parent staged)"
  have target: "target_of m = (dir_of m, name)" and dir: "op_directory (swp_parent staged) = dir_of m"
    and fields: "swp_plan staged = plan" "swp_stage_name staged = wtx_stage_name m"
    using staged by (simp_all add: staged_of_def parent_at_def name_def)
  have delete: "wap_delete plan = wtx_delete m"
    using plan(1) erase_eqD(7) [OF plan(2)] by (simp add: member_of_plan_def)
  have P: "steady A (\<lambda>d. G d \<and> ?P d)" and Q: "steady A ?Q"
    by (intro disk_rules framed_steady [OF G] at_names_steady [OF _ G])+
  have in_A: "(dir_of m, name) \<in> A" using framed_in [OF G location_simps(1)] by (simp add: target)
  have R: "at_names m (\<lambda>d. installed H m d \<and> recoverable D m d)" by (intro disk_rules)
  have target_in: "(dir_of m, name) \<in> set (locations m)" using location_simps(1) [of m] by (simp add: target)
  have remove: "disk_triple A (\<lambda>d. G d \<and> ?P d) (unlink_at_checked (dir_of m) name) (\<lambda>_. ?Q) ?E" if "wtx_delete m"
    unfolding unlink_at_checked_def
  proof (rule dt_map_error, rule dt_install_call [OF G at_names_ready])
    fix d u d'
    assume d: "?P d" "unlink_name (dir_of m) name d = (Inr u, d')"
    then show "installed H m d' \<and> recoverable D m d'"
      using that own_locations_differ(5) [OF names]
      by (auto simp: unlink_name_def target [symmetric] installed_def intro!: recoverable_put_entry split: option.splits if_splits)
  qed (auto simp: half_way_def dest: rename_framed(4) [OF G target_in target_in] names_fail(4))
  have change: "disk_triple A (\<lambda>d. G d \<and> ?P d) (if wap_delete plan then unlink_at_checked (dir_of m) name
      else install_transaction_stage H (dir_of m) (wtx_stage_name m) name (wap_base plan \<noteq> None)) (\<lambda>_. ?Q) ?E"
    using remove dt_install_stage [OF G names _ target] delete by auto
  have check: "disk_triple A ?Q (if wap_delete plan then guard_step (found = None) StaleBase
      else bind_step (lift_step (ok_or found StaleBase)) (\<lambda>s. guard_step (b s) StaleBase)) (\<lambda>_. ?Q) ?E" for found b
    by (auto simp: half_way_def intro!: dt_guard dt_bind [OF dt_lift [where Q = "\<lambda>_. ?Q"]])
  show ?thesis
    unfolding install_transaction_plan_def Let_def dir fields name_def [symmetric]
    by (rule dt_bind [OF dt_read [OF P in_A]], simp add: half_way_def,
        rule dt_then [OF dt_guard [where Q = "\<lambda>_ d. G d \<and> ?P d"]], simp, simp add: half_way_def, rule dt_then [OF change],
        rule dt_then [OF dt_sync_all [OF Q]], simp add: half_way_def, rule dt_bind [OF dt_read [OF Q in_A]], simp add: half_way_def,
        rule dt_pre [OF check]) simp
qed

end
