(* ===== verification/Workspace_Recovery.thy ===== *)
theory Workspace_Recovery
  imports Workspace_Apply_Safety
begin

text \<open>
  Whole transactions: the manifest in the journal agrees with the disk at every moment of an
  application and of a recovery, and receipts tell the truth.
\<close>

section \<open>All members\<close>

definition separate :: "workspace_transaction_member list \<Rightarrow> bool" where
  "separate ms \<longleftrightarrow> distinct ms \<and> (\<forall>m \<in> set ms. distinct (locations m))
     \<and> (\<forall>m \<in> set ms. \<forall>m' \<in> set ms. m \<noteq> m' \<longrightarrow> set (locations m) \<inter> set (locations m') = {})"

lemma apart_separate: "apart ms \<Longrightarrow> separate ms"
proof -
  assume "apart ms"
  moreover from this have "distinct ms"
  proof (induction ms)
    case (Cons m ms)
    then show ?case by (auto simp: apart_def locations_def)
  qed simp
  ultimately show ?thesis by (auto simp: separate_def dest: apart_distinct apart_disjoint)
qed

lemma separate_rev: "separate ms \<Longrightarrow> separate (rev ms)"
  by (simp add: separate_def)

lemma separate_append: "separate (xs @ m # ys) \<Longrightarrow> m' \<in> set xs \<union> set ys \<Longrightarrow>
    m' \<noteq> m \<and> set (locations m) \<inter> set (locations m') = {}"
  by (auto simp: separate_def)

lemma framed_parts [disk_rules]:
  "framed A m P \<Longrightarrow> framed A m Q \<Longrightarrow> framed A m (\<lambda>d. P d \<and> Q d)"
  "set (locations m) \<subseteq> A \<Longrightarrow> (\<And>x. x \<in> S \<Longrightarrow> framed A m (R x)) \<Longrightarrow> framed A m (\<lambda>d. \<forall>x \<in> S. R x d)"
  by (auto simp: framed_def)

lemma framed_other:
  assumes "at_names m' P" and "set (locations m) \<inter> set (locations m') = {}" and "set (locations m) \<subseteq> A"
    and "set (locations m') \<subseteq> A"
  shows "framed A m P"
proof -
  have "set (locations m') \<subseteq> A - set (locations m)" using assms(2,4) by blast
  then show ?thesis using assms(1,3) by (auto simp: framed_def at_names_def intro: looks_same_mono)
qed

text \<open>A predicate of the journal alone, and one of the files alone.\<close>

definition journal_only :: "(workspace_disk \<Rightarrow> bool) \<Rightarrow> bool" where
  "journal_only P \<longleftrightarrow> (\<forall>d e. wd_journal e = wd_journal d \<longrightarrow> P d \<longrightarrow> P e)"

definition files_only :: "(workspace_disk \<Rightarrow> bool) \<Rightarrow> bool" where
  "files_only P \<longleftrightarrow> (\<forall>d e. wd_entries e = wd_entries d \<longrightarrow> wd_nodes e = wd_nodes d \<longrightarrow> P d \<longrightarrow> P e)"

lemma journal_only_framed: "journal_only P \<Longrightarrow> set (locations m) \<subseteq> A \<Longrightarrow> framed A m P"
  by (auto simp: journal_only_def framed_def)

lemma journal_only_steady: "journal_only P \<Longrightarrow> steady A P"
  by (auto simp: journal_only_def steady_def)

lemma at_names_files_only: "at_names m P \<Longrightarrow> files_only P"
proof -
  have "looks_same B d e" if "wd_entries e = wd_entries d" "wd_nodes e = wd_nodes d" for B d e
    using that by (simp add: looks_same_def)
  then show "at_names m P \<Longrightarrow> files_only P" unfolding at_names_def files_only_def by metis
qed

lemma files_only_parts [disk_rules]:
  "files_only P \<Longrightarrow> files_only Q \<Longrightarrow> files_only (\<lambda>d. P d \<and> Q d)"
  "(\<And>x. x \<in> S \<Longrightarrow> files_only (R x)) \<Longrightarrow> files_only (\<lambda>d. \<forall>x \<in> S. R x d)"
  by (auto simp: files_only_def)

lemma steady_all: "(\<And>x. x \<in> S \<Longrightarrow> steady A (R x)) \<Longrightarrow> steady A (\<lambda>d. \<forall>x \<in> S. R x d)"
  by (auto simp: steady_def)

lemma steady_member: "at_names m P \<Longrightarrow> set (locations m) \<subseteq> A \<Longrightarrow> steady A P"
  by (auto simp: at_names_def steady_def dest: looks_same_mono)

text \<open>
  A loop over the members: every turn takes its member from \<open>c\<close> to \<open>c'\<close>, and leaves it
  in \<open>e\<close> when it fails.
\<close>

lemma dt_each_member:
  assumes "separate ms" and "\<And>m. m \<in> set ms \<Longrightarrow> set (locations m) \<subseteq> A"
    and "\<And>m. m \<in> set ms \<Longrightarrow> framed A m K"
    and "\<And>m. m \<in> set ms \<Longrightarrow> at_names m (c m)" and "\<And>m. m \<in> set ms \<Longrightarrow> at_names m (c' m)"
    and turn: "\<And>m G. m \<in> set ms \<Longrightarrow> framed A m G \<Longrightarrow>
      disk_triple A (\<lambda>d. G d \<and> c m d) (f m) (\<lambda>_ d. G d \<and> c' m d) (\<lambda>d. G d \<and> e m d)"
    and "\<And>m d. m \<in> set ms \<Longrightarrow> c m d \<Longrightarrow> e m d" and "\<And>m d. m \<in> set ms \<Longrightarrow> c' m d \<Longrightarrow> e m d"
  shows "disk_triple A (\<lambda>d. K d \<and> (\<forall>m \<in> set ms. c m d)) (each_step f ms)
    (\<lambda>_ d. K d \<and> (\<forall>m \<in> set ms. c' m d)) (\<lambda>d. K d \<and> (\<forall>m \<in> set ms. e m d))"
  using assms
proof (induction ms arbitrary: K)
  case Nil
  then show ?case by (auto intro: dt_return)
next
  case (Cons m ms)
  have other: "set (locations m) \<inter> set (locations m') = {}" if "m' \<in> set ms" for m'
    using Cons.prems(1) that by (auto simp: separate_def)
  have sep: "separate ms" using Cons.prems(1) by (auto simp: separate_def)
  have here: "framed A m (\<lambda>d. K d \<and> (\<forall>m' \<in> set ms. c m' d))"
    using Cons.prems(2,3) framed_other [OF Cons.prems(4) other] by (intro disk_rules) auto
  have first: "disk_triple A (\<lambda>d. K d \<and> (\<forall>m' \<in> set (m # ms). c m' d)) (f m)
      (\<lambda>_ d. (K d \<and> c' m d) \<and> (\<forall>m' \<in> set ms. c m' d)) (\<lambda>d. K d \<and> (\<forall>m' \<in> set (m # ms). e m' d))"
    using Cons.prems(7) by (intro dt_conseq [OF Cons.prems(6) [OF _ here]]) auto
  have "disk_triple A (\<lambda>d. (K d \<and> c' m d) \<and> (\<forall>m' \<in> set ms. c m' d)) (each_step f ms)
      (\<lambda>_ d. (K d \<and> c' m d) \<and> (\<forall>m' \<in> set ms. c' m' d)) (\<lambda>d. (K d \<and> c' m d) \<and> (\<forall>m' \<in> set ms. e m' d))"
  proof (rule Cons.IH [OF sep])
    show "framed A m' (\<lambda>d. K d \<and> c' m d)" if "m' \<in> set ms" for m'
    proof (rule framed_parts(1))
      show "framed A m' (c' m)"
        using that other [OF that] by (intro framed_other [OF Cons.prems(5) [of m]] Cons.prems(2)) auto
    qed (use Cons.prems(3) that in auto)
  qed (use Cons.prems in auto)
  then have "disk_triple A (\<lambda>d. (K d \<and> c' m d) \<and> (\<forall>m' \<in> set ms. c m' d)) (each_step f ms)
      (\<lambda>_ d. K d \<and> (\<forall>m' \<in> set (m # ms). c' m' d)) (\<lambda>d. K d \<and> (\<forall>m' \<in> set (m # ms). e m' d))"
    by (rule dt_conseq) (use Cons.prems(8) in auto)
  then show ?case unfolding each_step.simps by (rule dt_then [OF first])
qed

section \<open>The journal\<close>

record transaction =
  tx_host :: apply_host
  tx_json :: manifest_json
  tx_start :: workspace_disk
  tx_id :: uuid
  tx_members :: "workspace_transaction_member list"

definition footprint :: "transaction \<Rightarrow> (file_id \<times> string) set" where
  "footprint X = (\<Union>m \<in> set (tx_members X). set (locations m))"

definition manifest_name :: "transaction \<Rightarrow> string" where
  "manifest_name X = manifest_file_name (tx_host X) (tx_id X)"

definition temporary_name :: "string \<Rightarrow> bool" where
  "temporary_name name \<longleftrightarrow> starts_with ''.'' name \<and> ends_with ''.tmp'' name"

definition manifest_node :: "transaction \<Rightarrow> workspace_disk \<Rightarrow> disk_node option" where
  "manifest_node X d = (case wd_journal d of JournalDirectory t \<Rightarrow> bt_get t (manifest_name X) | _ \<Rightarrow> None)"

text \<open>The journal holds the manifest and temporary files, and nothing else.\<close>

definition tidy_names :: "transaction \<Rightarrow> string set \<Rightarrow> bool" where
  "tidy_names X names \<longleftrightarrow> (\<forall>name \<in> names. name = manifest_name X \<or> temporary_name name)"

definition tidy :: "transaction \<Rightarrow> workspace_disk \<Rightarrow> bool" where
  "tidy X d \<longleftrightarrow> (case wd_journal d of
       JournalDirectory t \<Rightarrow> tidy_names X (fst ` set t)
     | _ \<Rightarrow> True)"

definition logged :: "transaction \<Rightarrow> workspace_transaction_manifest \<Rightarrow> workspace_disk \<Rightarrow> bool" where
  "logged X m d \<longleftrightarrow> tidy X d \<and> (\<exists>bs mode. manifest_node X d = Some (RegularFile bs mode)
     \<and> mj_from_slice (tx_json X) bs = Inr m)"

definition unlogged :: "transaction \<Rightarrow> workspace_disk \<Rightarrow> bool" where
  "unlogged X d \<longleftrightarrow> tidy X d \<and> manifest_node X d = None"

lemma tidy_names_simps [simp]:
  "tidy_names X (insert k N) \<longleftrightarrow> (k = manifest_name X \<or> temporary_name k) \<and> tidy_names X N"
  "tidy_names X N \<Longrightarrow> tidy_names X (N - M)"
  by (auto simp: tidy_names_def)

lemma journal_only_logged: "journal_only (logged X m)" "journal_only (unlogged X)"
  by (auto simp: journal_only_def logged_def unlogged_def tidy_def manifest_node_def)

text \<open>What the crate for JSON promises: what it wrote it reads.\<close>

definition json_roundtrip :: "manifest_json \<Rightarrow> bool" where
  "json_roundtrip J \<longleftrightarrow> (\<forall>m bs. mj_to_vec J m = Inr bs \<longrightarrow> mj_from_slice J bs = Inr m)"

lemma ends_with_last: "ends_with p s \<Longrightarrow> p \<noteq> [] \<Longrightarrow> last s = last p"
proof -
  assume ends: "ends_with p s" and p: "p \<noteq> []"
  have "hd (take (length p) (rev s)) = hd (rev s)" using p by (simp add: hd_take)
  then have "hd (rev s) = hd (rev p)" using ends by (simp add: ends_with_def starts_with_def)
  moreover have "s \<noteq> []" using ends p by (auto simp: ends_with_def starts_with_def)
  ultimately show "last s = last p" using p by (simp add: hd_rev)
qed

text \<open>The parts of writing a manifest: what the journal holds under a temporary name.\<close>

definition temporary :: "transaction \<Rightarrow> disk_node option \<Rightarrow> string \<Rightarrow> (disk_node option \<Rightarrow> bool) \<Rightarrow> workspace_disk \<Rightarrow> bool" where
  "temporary X node name content d \<longleftrightarrow> tidy X d \<and> manifest_node X d = node
     \<and> (\<exists>t. wd_journal d = JournalDirectory t \<and> content (bt_get t name))"

lemma manifest_name_last: "last (manifest_name X) = CHR ''n''"
  by (simp add: manifest_name_def manifest_file_name_def)

lemma temporary_not_manifest: "temporary_name name \<Longrightarrow> name \<noteq> manifest_name X"
  using ends_with_last [of "''.tmp''" name] manifest_name_last [of X] by (auto simp: temporary_name_def)

lemma bt_get_remove: "bt_get (bt_remove k t) n = (if n = k then None else bt_get t n)"
  by (induction t) (auto simp: bt_remove_def)

lemma bt_remove_names: "fst ` set (bt_remove k t) = fst ` set t - {k}"
  by (auto simp: bt_remove_def)

lemma names_insert: "fst ` set (bt_insert k v t) = insert k (fst ` set t)"
  using keys_bt_insert [of k v t] by simp

definition same_files :: "workspace_disk \<Rightarrow> workspace_disk \<Rightarrow> bool" where
  "same_files d e \<longleftrightarrow> wd_entries e = wd_entries d \<and> wd_nodes e = wd_nodes d"

lemma files_onlyD: "files_only P \<Longrightarrow> same_files d e \<Longrightarrow> P d \<Longrightarrow> P e"
  by (auto simp: files_only_def same_files_def)

lemma on_journal_files: "on_journal f d = (r, d') \<Longrightarrow> same_files d d'"
  by (auto simp: on_journal_def same_files_def split: journal_root.splits prod.splits)

lemma journal_append_files: "same_files d (journal_append name bs d)"
  by (auto simp: journal_append_def same_files_def split: journal_root.split option.split disk_node.split)

lemma steady_temporary: "steady A (temporary X node name content)" "steady A (tidy X)"
  "steady A (\<lambda>d. manifest_node X d = node)"
  by (auto simp: steady_def temporary_def tidy_def manifest_node_def)

lemma journal_create_temporary:
  assumes "temporary_name name" and "on_journal (journal_create name) d = (r, d')"
    and "tidy X d" and "manifest_node X d = node"
  shows "tidy X d' \<and> manifest_node X d' = node" and "r = Inr u \<Longrightarrow> temporary X node name (\<lambda>c. c = Some (RegularFile [] 0x8180)) d'"
  using assms temporary_not_manifest [OF assms(1), of X]
  by (auto simp: on_journal_def journal_create_def temporary_def tidy_def manifest_node_def names_insert map_of_bt_insert
      split: journal_root.splits prod.splits if_splits)

lemma journal_append_temporary:
  assumes "temporary_name name" and "temporary X node name (\<lambda>c. c = Some (RegularFile [] mode)) d"
  shows "temporary X node name (\<lambda>c. c = Some (RegularFile bs mode)) (journal_append name bs d)"
  using assms temporary_not_manifest [OF assms(1), of X]
  by (auto simp: journal_append_def temporary_def tidy_def manifest_node_def names_insert map_of_bt_insert)

lemma journal_remove_temporary:
  assumes "temporary_name name" and "on_journal (journal_remove name) d = (r, d')"
    and "tidy X d" and "manifest_node X d = node"
  shows "tidy X d' \<and> manifest_node X d' = node"
  using assms temporary_not_manifest [OF assms(1), of X]
  by (auto simp: on_journal_def journal_remove_def tidy_def manifest_node_def bt_remove_names bt_get_remove
      split: journal_root.splits prod.splits if_splits option.splits)

lemma journal_rename_temporary:
  assumes "temporary_name name" and "on_journal (journal_rename name (manifest_name X)) d = (r, d')"
    and "temporary X node name (\<lambda>c. c = Some new) d"
  shows "tidy X d'" and "r = Inl e \<Longrightarrow> manifest_node X d' = node" and "r = Inr u \<Longrightarrow> manifest_node X d' = Some new"
  using assms temporary_not_manifest [OF assms(1), of X]
  by (auto simp: on_journal_def journal_rename_def temporary_def tidy_def manifest_node_def names_insert bt_remove_names
      map_of_bt_insert bt_get_remove split: journal_root.splits prod.splits if_splits option.splits)

lemma temporary_name_of: "temporary_name (''.'' @ a @ ''.'' @ b @ ''.tmp'')"
  by (simp add: temporary_name_def starts_with_def ends_with_def)

lemma dt_journal_call:
  assumes "steady A P" and "\<And>d r d'. P d \<Longrightarrow> on_journal f d = (r, d') \<Longrightarrow> (case r of Inl _ \<Rightarrow> E d' | Inr a \<Rightarrow> Q a d')"
    and "\<And>d. P d \<Longrightarrow> E d"
  shows "disk_triple A P (journal_call f) Q E"
  unfolding journal_call_def
  by (rule dt_system_call [OF assms(1)]) (use assms(2,3) in \<open>fastforce split: prod.split sum.splits\<close>)+

lemma journal_keeps_files: "files_only C \<Longrightarrow> on_journal f d = (r, d') \<Longrightarrow> C d \<Longrightarrow> C d'"
  by (rule files_onlyD [OF _ on_journal_files])

lemma dt_journal_create:
  assumes C: "files_only C" "steady A C" and name: "temporary_name name"
  shows "disk_triple A (\<lambda>d. C d \<and> tidy X d \<and> manifest_node X d = node) (journal_call (journal_create name))
    (\<lambda>_ d. C d \<and> temporary X node name (\<lambda>c. c = Some (RegularFile [] 0x8180)) d)
    (\<lambda>d. C d \<and> tidy X d \<and> manifest_node X d = node)"
proof (rule dt_journal_call)
  show "steady A (\<lambda>d. C d \<and> tidy X d \<and> manifest_node X d = node)" by (intro disk_rules C steady_temporary)
  fix d r d'
  assume d: "C d \<and> tidy X d \<and> manifest_node X d = node" and r: "on_journal (journal_create name) d = (r, d')"
  then show "case r of Inl _ \<Rightarrow> C d' \<and> tidy X d' \<and> manifest_node X d' = node
      | Inr _ \<Rightarrow> C d' \<and> temporary X node name (\<lambda>c. c = Some (RegularFile [] 0x8180)) d'"
    using journal_create_temporary [OF name r] journal_keeps_files [OF C(1) r] by (cases r) auto
qed

lemma dt_journal_write:
  assumes C: "files_only C" "steady A C" and name: "temporary_name name"
  shows "disk_triple A (\<lambda>d. C d \<and> temporary X node name (\<lambda>c. c = Some (RegularFile [] mode)) d) (journal_write name bs)
    (\<lambda>_ d. C d \<and> temporary X node name (\<lambda>c. c = Some (RegularFile bs mode)) d)
    (\<lambda>d. C d \<and> tidy X d \<and> manifest_node X d = node)"
  unfolding journal_write_def
proof (rule dt_call)
  show "steady A (\<lambda>d. C d \<and> temporary X node name (\<lambda>c. c = Some (RegularFile [] mode)) d)"
    by (intro disk_rules C steady_temporary)
  fix d
  assume d: "C d \<and> temporary X node name (\<lambda>c. c = Some (RegularFile [] mode)) d"
  have "C (journal_append name cs d)" for cs using files_onlyD [OF C(1) journal_append_files] d by simp
  moreover have written: "temporary X node name (\<lambda>c. c = Some (RegularFile cs mode)) (journal_append name cs d)" for cs
    using d by (intro journal_append_temporary [OF name]) simp
  ultimately show "case (Inr (), journal_append name bs d) of (Inl _, d') \<Rightarrow> C d' \<and> tidy X d' \<and> manifest_node X d' = node
      | (Inr _, d') \<Rightarrow> C d' \<and> temporary X node name (\<lambda>c. c = Some (RegularFile bs mode)) d'"
    and "C (journal_append name (take n bs) d) \<and> tidy X (journal_append name (take n bs) d)
      \<and> manifest_node X (journal_append name (take n bs) d) = node" for n
    using written [of "take n bs"] by (simp_all add: temporary_def [of _ _ _ _ "journal_append name (take n bs) d"])
qed

lemma dt_journal_rename:
  assumes C: "files_only C" "steady A C" and name: "temporary_name name"
  shows "disk_triple A (\<lambda>d. C d \<and> temporary X node name (\<lambda>c. c = Some new) d)
    (journal_call (journal_rename name (manifest_name X)))
    (\<lambda>_ d. C d \<and> tidy X d \<and> manifest_node X d = Some new) (\<lambda>d. C d \<and> tidy X d \<and> manifest_node X d = node)"
proof (rule dt_journal_call)
  show "steady A (\<lambda>d. C d \<and> temporary X node name (\<lambda>c. c = Some new) d)" by (intro disk_rules C steady_temporary)
  fix d r d'
  assume d: "C d \<and> temporary X node name (\<lambda>c. c = Some new) d"
    and r: "on_journal (journal_rename name (manifest_name X)) d = (r, d')"
  then show "case r of Inl _ \<Rightarrow> C d' \<and> tidy X d' \<and> manifest_node X d' = node
      | Inr _ \<Rightarrow> C d' \<and> tidy X d' \<and> manifest_node X d' = Some new"
    using journal_rename_temporary [OF name r, of node new] journal_keeps_files [OF C(1) r] by (cases r) auto
qed (auto simp: temporary_def)

lemma dt_journal_remove:
  assumes C: "files_only C" "steady A C" and name: "temporary_name name"
  shows "disk_triple A (\<lambda>d. C d \<and> tidy X d \<and> B (manifest_node X d)) (attempt_step (journal_call (journal_remove name)))
    (\<lambda>_ d. C d \<and> tidy X d \<and> B (manifest_node X d)) E"
proof (rule dt_attempt [where Q = "\<lambda>_ d. C d \<and> tidy X d \<and> B (manifest_node X d)"], rule dt_journal_call)
  show "steady A (\<lambda>d. C d \<and> tidy X d \<and> B (manifest_node X d))"
    by (intro disk_rules C steady_temporary) (auto simp: steady_def manifest_node_def)
  fix d r d'
  assume d: "C d \<and> tidy X d \<and> B (manifest_node X d)" and r: "on_journal (journal_remove name) d = (r, d')"
  then show "case r of Inl _ \<Rightarrow> C d' \<and> tidy X d' \<and> B (manifest_node X d') | Inr _ \<Rightarrow> C d' \<and> tidy X d' \<and> B (manifest_node X d')"
    using journal_remove_temporary [OF name r] journal_keeps_files [OF C(1) r] by (cases r) auto
qed

text \<open>Writing a manifest replaces the one there, or leaves it.\<close>

definition reads_as :: "transaction \<Rightarrow> workspace_transaction_manifest \<Rightarrow> disk_node option \<Rightarrow> bool" where
  "reads_as X m node \<longleftrightarrow> (\<exists>bs mode. node = Some (RegularFile bs mode) \<and> mj_from_slice (tx_json X) bs = Inr m)"

lemma logged_reads: "logged X m d \<longleftrightarrow> tidy X d \<and> reads_as X m (manifest_node X d)"
  by (simp add: logged_def reads_as_def)

lemma dt_write_manifest:
  assumes json: "json_roundtrip (tx_json X)" and id: "wtm_transaction_id m = tx_id X"
    and C: "files_only C" "steady A C"
  shows "disk_triple A (\<lambda>d. C d \<and> tidy X d \<and> manifest_node X d = node)
    (write_workspace_transaction_manifest (tx_host X) (tx_json X) m)
    (\<lambda>_ d. C d \<and> logged X m d) (\<lambda>d. C d \<and> tidy X d \<and> (manifest_node X d = node \<or> reads_as X m (manifest_node X d)))"
proof -
  let ?P = "\<lambda>d. C d \<and> tidy X d \<and> manifest_node X d = node"
  let ?E = "\<lambda>d. C d \<and> tidy X d \<and> (manifest_node X d = node \<or> reads_as X m (manifest_node X d))"
  have written: "disk_triple A ?P (on_error_step
         (then_step (map_error_step Io (journal_call (journal_create name)))
          (then_step (journal_write name bs)
           (then_step sync_all
            (then_step (map_error_step Io (journal_call (journal_rename name (manifest_name X)))) sync_all))))
         (\<lambda>_. bind_step (attempt_step (journal_call (journal_remove name))) (\<lambda>_. return_step ())))
       (\<lambda>_ d. C d \<and> logged X m d) ?E"
    if name: "temporary_name name" and bs: "mj_to_vec (tx_json X) m = Inr bs" for name bs
  proof -
    let ?T = "\<lambda>c d. C d \<and> temporary X node name (\<lambda>x. x = Some (RegularFile c 0x8180)) d"
    let ?Q = "\<lambda>d. C d \<and> tidy X d \<and> manifest_node X d = Some (RegularFile bs 0x8180)"
    have T: "steady A (?T c)" and Q: "steady A ?Q" for c by (intro disk_rules C steady_temporary)+
    have new: "reads_as X m (Some (RegularFile bs mode))" for mode
      using json bs by (simp add: reads_as_def json_roundtrip_def)
    have main: "disk_triple A ?P (then_step (map_error_step Io (journal_call (journal_create name)))
          (then_step (journal_write name bs) (then_step sync_all
           (then_step (map_error_step Io (journal_call (journal_rename name (manifest_name X)))) sync_all)))) (\<lambda>_. ?Q) ?E"
      by (rule dt_then [OF dt_map_error [OF dt_conseq [OF dt_journal_create [OF C name, of X node]]]], assumption, assumption, simp,
          rule dt_then [OF dt_conseq [OF dt_journal_write [OF C name, of X node _ bs]]], assumption, assumption, simp,
          rule dt_then [OF dt_sync_all [OF T]], simp add: temporary_def,
          rule dt_then [OF dt_map_error [OF dt_conseq [OF dt_journal_rename [OF C name, of X node]]]], assumption, assumption, simp,
          rule dt_sync_all [OF Q], simp add: new)
    have remove: "disk_triple A ?E (bind_step (attempt_step (journal_call (journal_remove name))) (\<lambda>_. return_step ()))
        (\<lambda>_. ?E) ?E"
      by (rule dt_bind [OF dt_journal_remove [OF C name]]) (rule dt_return)
    show ?thesis
      by (rule dt_on_error [OF dt_conseq [OF main] remove]) (auto simp: logged_reads new)
  qed
  show ?thesis
    unfolding write_workspace_transaction_manifest_def Let_def id manifest_name_def [symmetric]
    by (rule dt_then [OF dt_lift [where Q = "\<lambda>_. ?P"]], simp, simp,
        rule dt_bind [OF dt_lift [where Q = "\<lambda>bs d. mj_to_vec (tx_json X) m = Inr bs \<and> ?P d"]], simp add: map_err_Inr_iff, simp,
        rule dt_fact, rule dt_then [OF dt_guard [where Q = "\<lambda>_. ?P"]], simp, simp, rule dt_bind [OF dt_new_uuid],
        rule written [OF temporary_name_of])
qed

section \<open>The phase and the disk\<close>

definition manifest_of :: "transaction \<Rightarrow> workspace_transaction_manifest \<Rightarrow> bool" where
  "manifest_of X m \<longleftrightarrow> wtm_transaction_id m = tx_id X \<and> map erase (wtm_members m) = tx_members X"

definition each :: "workspace_transaction_manifest \<Rightarrow> (workspace_transaction_member \<Rightarrow> workspace_disk \<Rightarrow> bool) \<Rightarrow> workspace_disk \<Rightarrow> bool" where
  "each m c d \<longleftrightarrow> (\<forall>member \<in> set (wtm_members m). c member d)"

definition all_decidable :: "transaction \<Rightarrow> workspace_transaction_manifest \<Rightarrow> bool" where
  "all_decidable X m \<longleftrightarrow> (\<forall>member \<in> set (wtm_members m). decidable (tx_host X) (tx_start X) member)"

definition phase_holds :: "transaction \<Rightarrow> workspace_transaction_manifest \<Rightarrow> workspace_disk \<Rightarrow> bool" where
  "phase_holds X m d \<longleftrightarrow> manifest_of X m \<and> (case wtm_phase m of
       Preparing \<Rightarrow> each m (untouched (tx_start X)) d
     | Prepared \<Rightarrow> all_decidable X m \<and> each m (half_way (tx_host X) (tx_start X)) d
     | RollingBack \<Rightarrow> all_decidable X m \<and> each m (half_way (tx_host X) (tx_start X)) d
     | Committed \<Rightarrow> all_decidable X m \<and> each m (installed (tx_host X)) d
     | RolledBack \<Rightarrow> each m (untouched (tx_start X)) d)"

text \<open>The journal and the disk agree.\<close>

definition agrees :: "transaction \<Rightarrow> workspace_disk \<Rightarrow> bool" where
  "agrees X d \<longleftrightarrow> tidy X d \<and> (manifest_node X d = None \<and> (\<forall>m \<in> set (tx_members X). untouched (tx_start X) m d)
     \<or> (\<exists>m. reads_as X m (manifest_node X d) \<and> phase_holds X m d))"

definition proposal_at :: "apply_host \<Rightarrow> workspace_transaction_member \<Rightarrow> workspace_disk \<Rightarrow> bool" where
  "proposal_at H m d \<longleftrightarrow> (if wtx_delete m then wd_entries d (target_of m) = None
     else (\<exists>s. file_is H d (target_of m) s \<and> wri_digest s = wtx_proposed_digest m
       \<and> and (wri_mode s) PERMISSION_BITS = wtx_proposed_mode m))"

definition outcome_true :: "transaction \<Rightarrow> workspace_transaction_outcome \<Rightarrow> workspace_disk \<Rightarrow> bool" where
  "outcome_true X outcome d \<longleftrightarrow> (case outcome of
       OutcomeCommitted \<Rightarrow> \<forall>m \<in> set (tx_members X). proposal_at (tx_host X) m d
     | OutcomeRolledBack \<Rightarrow> \<forall>m \<in> set (tx_members X). untouched (tx_start X) m d)"

definition transaction_ok :: "transaction \<Rightarrow> bool" where
  "transaction_ok X \<longleftrightarrow> apart (tx_members X) \<and> json_roundtrip (tx_json X) \<and> fresh_inodes (footprint X) (tx_host X)"

lemma members_erase:
  assumes "manifest_of X m"
  shows "member \<in> set (wtm_members m) \<Longrightarrow> erase member \<in> set (tx_members X)"
    and "n \<in> set (tx_members X) \<Longrightarrow> \<exists>member \<in> set (wtm_members m). n = erase member"
proof -
  have members: "set (tx_members X) = erase ` set (wtm_members m)"
    using assms unfolding manifest_of_def by (metis list.set_map)
  then show "member \<in> set (wtm_members m) \<Longrightarrow> erase member \<in> set (tx_members X)"
    "n \<in> set (tx_members X) \<Longrightarrow> \<exists>member \<in> set (wtm_members m). n = erase member" by auto
qed

lemma members_separate: "transaction_ok X \<Longrightarrow> manifest_of X m \<Longrightarrow> separate (wtm_members m)"
  using apart_erase [of "wtm_members m"] by (auto simp: transaction_ok_def manifest_of_def intro: apart_separate)

lemma members_in_footprint: "manifest_of X m \<Longrightarrow> member \<in> set (wtm_members m) \<Longrightarrow> set (locations member) \<subseteq> footprint X"
  unfolding footprint_def using members_erase(1) [of X m member] by (metis UN_upper erase_simps(5))

lemma untouched_of_erase [simp]: "untouched D (erase m) = untouched D m"
  by (simp add: untouched_def fun_eq_iff)

lemma each_untouched: "manifest_of X m \<Longrightarrow> each m (untouched D) d \<longleftrightarrow> (\<forall>n \<in> set (tx_members X). untouched D n d)"
  unfolding each_def using members_erase [of X m] by (metis untouched_of_erase)

lemma proposal_of_erase [simp]: "proposal_at H (erase m) d = proposal_at H m d"
  by (simp add: proposal_at_def) (simp add: erase_def)

lemma installed_proposal: "decidable H D m \<Longrightarrow> installed H m d \<Longrightarrow> proposal_at H m d"
  by (auto simp: decidable_def identities_agree_def installed_def proposal_at_def split: if_splits)

lemma each_installed:
  assumes "manifest_of X m" and "all_decidable X m" and "each m (installed (tx_host X)) d"
  shows "n \<in> set (tx_members X) \<Longrightarrow> proposal_at (tx_host X) n d"
  using members_erase(2) [OF assms(1)] assms(2,3) installed_proposal by (fastforce simp: each_def all_decidable_def)

lemma agreesI: "logged X m d \<Longrightarrow> phase_holds X m d \<Longrightarrow> agrees X d"
  by (auto simp: agrees_def logged_reads)

lemma each_conj: "each m (\<lambda>x d. P x d \<and> Q x d) d \<longleftrightarrow> each m P d \<and> each m Q d"
  by (auto simp: each_def)

lemma each_mono: "each m P d \<Longrightarrow> (\<And>x. x \<in> set (wtm_members m) \<Longrightarrow> P x d \<Longrightarrow> Q x d) \<Longrightarrow> each m Q d"
  by (simp add: each_def)

lemma each_steady:
  "manifest_of X m \<Longrightarrow> (\<And>x. x \<in> set (wtm_members m) \<Longrightarrow> at_names x (c x)) \<Longrightarrow> steady (footprint X) (each m c)"
  unfolding each_def using members_in_footprint [of X m] by (intro steady_all steady_member)

lemma each_files_only: "(\<And>x. x \<in> set (wtm_members m) \<Longrightarrow> at_names x (c x)) \<Longrightarrow> files_only (each m c)"
  unfolding each_def by (intro disk_rules at_names_files_only) auto

lemma logged_framed: "manifest_of X m \<Longrightarrow> x \<in> set (wtm_members m) \<Longrightarrow> framed (footprint X) x (logged X m')"
  by (intro journal_only_framed journal_only_logged members_in_footprint)

lemma untouched_half_way: "untouched D m d \<Longrightarrow> half_way H D m d"
  by (simp add: half_way_def)

section \<open>Steps over all members\<close>

lemma dt_cleanup:
  assumes X: "transaction_ok X" "manifest_of X m" and c: "\<And>x. at_target x (c x)"
  shows "disk_triple (footprint X) (\<lambda>d. logged X m' d \<and> each m c d) (cleanup_manifest_files H m)
    (\<lambda>_ d. logged X m' d \<and> each m c d) (\<lambda>d. logged X m' d \<and> each m c d)"
  unfolding cleanup_manifest_files_def each_def
proof (rule dt_each_member)
  show "separate (wtm_members m)" using members_separate [OF X] .
  fix x
  assume x: "x \<in> set (wtm_members m)"
  show "set (locations x) \<subseteq> footprint X" using members_in_footprint [OF X(2) x] .
  show "framed (footprint X) x (logged X m')" using logged_framed [OF X(2) x] .
  show "at_names x (c x)" using at_target_names [OF c] .
  show "disk_triple (footprint X) (\<lambda>d. G d \<and> c x d) (cleanup_member H x) (\<lambda>_ d. G d \<and> c x d) (\<lambda>d. G d \<and> c x d)"
    if "framed (footprint X) x G" for G
    using members_separate [OF X] x by (intro dt_cleanup_member [OF that _ c]) (auto simp: separate_def)
qed (auto intro: at_target_names c)

lemma dt_rollback:
  assumes X: "transaction_ok X" "manifest_of X m" and decidable: "all_decidable X m"
  shows "disk_triple (footprint X) (\<lambda>d. logged X m' d \<and> each m (half_way (tx_host X) (tx_start X)) d)
    (rollback_workspace_manifest (tx_host X) m) (\<lambda>_ d. logged X m' d \<and> each m (untouched (tx_start X)) d)
    (\<lambda>d. logged X m' d \<and> each m (half_way (tx_host X) (tx_start X)) d)"
proof -
  have "disk_triple (footprint X)
      (\<lambda>d. logged X m' d \<and> (\<forall>x \<in> set (rev (wtm_members m)). half_way (tx_host X) (tx_start X) x d))
      (each_step (rollback_member (tx_host X)) (rev (wtm_members m)))
      (\<lambda>_ d. logged X m' d \<and> (\<forall>x \<in> set (rev (wtm_members m)). untouched (tx_start X) x d))
      (\<lambda>d. logged X m' d \<and> (\<forall>x \<in> set (rev (wtm_members m)). half_way (tx_host X) (tx_start X) x d))"
  proof (rule dt_each_member)
    show "separate (rev (wtm_members m))" using separate_rev [OF members_separate [OF X]] .
    fix x
    assume "x \<in> set (rev (wtm_members m))"
    then have x: "x \<in> set (wtm_members m)" by simp
    show "set (locations x) \<subseteq> footprint X" using members_in_footprint [OF X(2) x] .
    show "framed (footprint X) x (logged X m')" using logged_framed [OF X(2) x] .
    show "disk_triple (footprint X) (\<lambda>d. G d \<and> half_way (tx_host X) (tx_start X) x d) (rollback_member (tx_host X) x)
        (\<lambda>_ d. G d \<and> untouched (tx_start X) x d) (\<lambda>d. G d \<and> half_way (tx_host X) (tx_start X) x d)"
      if "framed (footprint X) x G" for G
      using members_separate [OF X] x decidable
      by (intro dt_rollback_member [OF that]) (auto simp: separate_def all_decidable_def)
  qed (auto intro: at_names_conditions untouched_half_way)
  then show ?thesis by (simp add: rollback_workspace_manifest_def each_def)
qed

lemma dt_all_targets_match:
  assumes "\<And>x. x \<in> set xs \<Longrightarrow> set (locations x) \<subseteq> A" and "\<And>x. x \<in> set xs \<Longrightarrow> decidable H D x"
    and "steady A P" and "\<And>x d. x \<in> set xs \<Longrightarrow> P d \<Longrightarrow> half_way H D x d" and E: "\<And>d. P d \<Longrightarrow> E d"
  shows "disk_triple A P (all_targets_match H xs ProposedTarget)
    (\<lambda>complete d. P d \<and> (complete \<longrightarrow> (\<forall>x \<in> set xs. installed H x d))) E"
  using assms
proof (induction xs arbitrary: P)
  case Nil
  then show ?case by (auto intro: dt_return)
next
  case (Cons x xs)
  have x: "target_of x \<in> A" "set (locations x) \<subseteq> A" using Cons.prems(1) [of x] location_simps(1) [of x] by auto
  let ?P = "\<lambda>d. P d \<and> installed H x d"
  have "steady A ?P" by (rule steady_parts(1) [OF Cons.prems(3) steady_member [OF at_names_conditions(2) x(2)]])
  then have "disk_triple A ?P (all_targets_match H xs ProposedTarget)
      (\<lambda>complete d. ?P d \<and> (complete \<longrightarrow> (\<forall>x \<in> set xs. installed H x d))) E"
    using Cons.prems by (intro Cons.IH) auto
  then have rest: "disk_triple A ?P (all_targets_match H xs ProposedTarget)
      (\<lambda>complete d. P d \<and> (complete \<longrightarrow> (\<forall>x \<in> set (x # xs). installed H x d))) E"
    by (rule dt_conseq) auto
  have "disk_triple A (\<lambda>d. P d \<and> (\<exists>found. saw H (target_of x) found d \<and> state = classify_snapshot x found))
      (if state \<noteq> ProposedTarget then return_step False else all_targets_match H xs ProposedTarget)
      (\<lambda>complete d. P d \<and> (complete \<longrightarrow> (\<forall>x \<in> set (x # xs). installed H x d))) E" for state
  proof (cases "state = ProposedTarget")
    case True
    have "installed H x d" if "P d" "saw H (target_of x) found d" "ProposedTarget = classify_snapshot x found" for d found
      using classified(2) [OF Cons.prems(2) _ that(2)] Cons.prems(4) [of x d] that by auto
    then show ?thesis unfolding True by (simp only: simp_thms if_False) (rule dt_pre [OF rest], blast)
  qed (auto intro: dt_return)
  note rest = this
  show ?case
    unfolding all_targets_match.simps
    by (rule dt_bind [OF dt_classify [OF Cons.prems(3) x(1)] rest], erule Cons.prems(5))
qed

section \<open>Moving to another phase\<close>

lemma dt_ex:
  assumes "\<And>x. disk_triple A (P x) m Q E"
  shows "disk_triple A (\<lambda>d. \<exists>x. P x d) m Q E"
  unfolding disk_triple_def triple_def
proof (intro allI impI)
  fix s
  assume "holds A (\<lambda>d. \<exists>x. P x d) s"
  then obtain x where "holds A (P x) s" by (auto simp: holds_def)
  then show "case m s of (Inl e, t) \<Rightarrow> holds A E t | (Inr a, t) \<Rightarrow> holds A (Q a) t"
    using assms [of x] by (auto simp: disk_triple_def triple_def)
qed

lemma dt_log_from:
  assumes X: "transaction_ok X" and id: "wtm_transaction_id m = tx_id X"
    and C: "files_only C" "steady (footprint X) C"
    and old: "\<And>d. C d \<Longrightarrow> tidy X d \<Longrightarrow> B (manifest_node X d) \<Longrightarrow> agrees X d"
    and new: "\<And>d. C d \<Longrightarrow> phase_holds X m d"
  shows "disk_triple (footprint X) (\<lambda>d. C d \<and> tidy X d \<and> B (manifest_node X d))
    (write_workspace_transaction_manifest (tx_host X) (tx_json X) m) (\<lambda>_ d. logged X m d \<and> C d) (agrees X)"
proof -
  have json: "json_roundtrip (tx_json X)" using X by (simp add: transaction_ok_def)
  have "disk_triple (footprint X) (\<lambda>d. B node \<and> C d \<and> tidy X d \<and> manifest_node X d = node)
      (write_workspace_transaction_manifest (tx_host X) (tx_json X) m) (\<lambda>_ d. logged X m d \<and> C d) (agrees X)" for node
    by (rule dt_fact, rule dt_conseq [OF dt_write_manifest [OF json id C, of node]])
      (auto intro: old agreesI new simp: logged_reads)
  then have "disk_triple (footprint X) (\<lambda>d. \<exists>node. B node \<and> C d \<and> tidy X d \<and> manifest_node X d = node)
      (write_workspace_transaction_manifest (tx_host X) (tx_json X) m) (\<lambda>_ d. logged X m d \<and> C d) (agrees X)"
    by (rule dt_ex)
  then show ?thesis by (rule dt_pre) auto
qed

lemma dt_log:
  assumes "transaction_ok X" and "manifest_of X m" and "files_only C" and "steady (footprint X) C"
    and "\<And>d. C d \<Longrightarrow> phase_holds X m' d" and "\<And>d. C d \<Longrightarrow> phase_holds X m d"
  shows "disk_triple (footprint X) (\<lambda>d. logged X m' d \<and> C d)
    (write_workspace_transaction_manifest (tx_host X) (tx_json X) m) (\<lambda>_ d. logged X m d \<and> C d) (agrees X)"
proof -
  have id: "wtm_transaction_id m = tx_id X" using assms(2) by (simp add: manifest_of_def)
  show ?thesis
    by (rule dt_pre [OF dt_log_from [OF assms(1) id assms(3,4), where B = "reads_as X m'"]])
      (auto simp: logged_reads agrees_def assms(5,6))
qed

text \<open>Manifests that differ in the phase, the summary or the identities.\<close>

lemma manifest_of_update [simp]:
  "manifest_of X (m\<lparr>wtm_phase := p\<rparr>) \<longleftrightarrow> manifest_of X m"
  "manifest_of X (m\<lparr>wtm_failure_summary := f\<rparr>) \<longleftrightarrow> manifest_of X m"
  "manifest_of X (with_summary s m) \<longleftrightarrow> manifest_of X m"
  by (simp_all add: manifest_of_def with_summary_def)

lemma each_update [simp]:
  "each (m\<lparr>wtm_phase := p\<rparr>) = each m" "each (m\<lparr>wtm_failure_summary := f\<rparr>) = each m" "each (with_summary s m) = each m"
  "all_decidable X (m\<lparr>wtm_phase := p\<rparr>) = all_decidable X m"
  "all_decidable X (m\<lparr>wtm_failure_summary := f\<rparr>) = all_decidable X m"
  "all_decidable X (with_summary s m) = all_decidable X m"
  "wtm_phase (with_summary s m) = wtm_phase m"
  by (simp_all add: fun_eq_iff each_def all_decidable_def with_summary_def)

lemma each_untouched_half_way: "each m (untouched D) d \<Longrightarrow> each m (half_way H D) d"
  by (auto simp: each_def untouched_half_way)

lemmas member_steady = each_steady [OF _ at_names_conditions(1)] each_steady [OF _ at_names_conditions(2)]
  each_steady [OF _ at_names_conditions(4)]

lemmas member_files = each_files_only [OF at_names_conditions(1)] each_files_only [OF at_names_conditions(2)]
  each_files_only [OF at_names_conditions(4)]

section \<open>Recovering one transaction\<close>

text \<open>The transaction has come to its end: the manifest says so, and the targets agree.\<close>

definition settled :: "transaction \<Rightarrow> workspace_transaction_outcome \<Rightarrow> workspace_disk \<Rightarrow> bool" where
  "settled X outcome d \<longleftrightarrow> (\<exists>m. logged X m d \<and> phase_holds X m d
     \<and> wtm_phase m = (case outcome of OutcomeCommitted \<Rightarrow> Committed | OutcomeRolledBack \<Rightarrow> RolledBack))"

lemma settled_agrees: "settled X outcome d \<Longrightarrow> agrees X d"
  by (auto simp: settled_def intro: agreesI)

lemma settled_outcome: "settled X outcome d \<Longrightarrow> outcome_true X outcome d"
  by (auto simp: settled_def outcome_true_def phase_holds_def each_untouched intro: each_installed
      split: workspace_transaction_outcome.splits)

lemma settledI:
  "logged X m d \<Longrightarrow> manifest_of X m \<Longrightarrow> wtm_phase m = RolledBack \<Longrightarrow> each m (untouched (tx_start X)) d \<Longrightarrow>
    settled X OutcomeRolledBack d"
  "logged X m d \<Longrightarrow> manifest_of X m \<Longrightarrow> wtm_phase m = Committed \<Longrightarrow> all_decidable X m \<Longrightarrow> each m (installed (tx_host X)) d \<Longrightarrow>
    settled X OutcomeCommitted d"
  by (auto simp: settled_def phase_holds_def)

lemma dt_finish_rolled_back:
  assumes X: "transaction_ok X" "manifest_of X m" and phase: "wtm_phase m = RolledBack"
  shows "disk_triple (footprint X) (\<lambda>d. logged X m d \<and> each m (untouched (tx_start X)) d)
    (then_step (cleanup_manifest_files (tx_host X) m) (return_step (r :: 'r)))
    (\<lambda>r' d. r' = r \<and> settled X OutcomeRolledBack d) (settled X OutcomeRolledBack)"
  by (rule dt_then [OF dt_conseq [OF dt_cleanup [OF X, where c = "untouched (tx_start X)" and m' = m, OF at_target_conditions(1)]]],
      assumption, assumption, simp add: settledI(1) [OF _ X(2) phase], rule dt_return)
    (simp add: settledI(1) [OF _ X(2) phase])

lemma dt_finish_committed:
  assumes X: "transaction_ok X" "manifest_of X m" and phase: "wtm_phase m = Committed" and decidable: "all_decidable X m"
  shows "disk_triple (footprint X) (\<lambda>d. logged X m d \<and> each m (installed (tx_host X)) d)
    (then_step (cleanup_manifest_files (tx_host X) m) (return_step (r :: 'r)))
    (\<lambda>r' d. r' = r \<and> settled X OutcomeCommitted d) (settled X OutcomeCommitted)"
  by (rule dt_then [OF dt_conseq [OF dt_cleanup [OF X, where c = "installed (tx_host X)" and m' = m, OF at_target_conditions(2)]]],
      assumption, assumption, simp add: settledI(2) [OF _ X(2) phase decidable], rule dt_return)
    (simp add: settledI(2) [OF _ X(2) phase decidable])

text \<open>From a manifest that is rolling back to the end.\<close>

lemma dt_roll_back:
  assumes X: "transaction_ok X" "manifest_of X m" "manifest_of X undone" and decidable: "all_decidable X m"
    and phases: "wtm_phase m = RollingBack" "wtm_phase undone = RolledBack" and members: "wtm_members undone = wtm_members m"
  shows "disk_triple (footprint X) (\<lambda>d. logged X m d \<and> each m (half_way (tx_host X) (tx_start X)) d)
    (then_step (rollback_workspace_manifest (tx_host X) m)
      (then_step (write_workspace_transaction_manifest (tx_host X) (tx_json X) undone)
        (then_step (cleanup_manifest_files (tx_host X) undone) (return_step (r :: 'r)))))
    (\<lambda>r' d. r' = r \<and> settled X OutcomeRolledBack d) (agrees X)"
proof -
  have agree: "agrees X d" if "logged X m d" "each m (half_way (tx_host X) (tx_start X)) d" for d
    using that X(2) phases decidable by (auto intro!: agreesI [of X m] simp: phase_holds_def)
  have same: "each m = each undone" by (simp add: each_def members fun_eq_iff)
  have log: "disk_triple (footprint X) (\<lambda>d. logged X m d \<and> each m (untouched (tx_start X)) d)
      (write_workspace_transaction_manifest (tx_host X) (tx_json X) undone)
      (\<lambda>_ d. logged X undone d \<and> each m (untouched (tx_start X)) d) (agrees X)"
    using X phases decidable
    by (intro dt_log member_files member_steady) (auto simp: phase_holds_def same intro: each_untouched_half_way)
  show ?thesis
    by (rule dt_then [OF dt_conseq [OF dt_rollback [OF X(1,2) decidable, of m]]], assumption, assumption, simp add: agree,
        rule dt_then [OF log]) (unfold same, rule dt_conseq [OF dt_finish_rolled_back [OF X(1,3) phases(2)]], auto intro: settled_agrees)
qed

lemma receipt_outcome [simp]:
  "wtr_outcome (manifest_receipt m) = (if wtm_phase m = Committed then OutcomeCommitted else OutcomeRolledBack)"
  by (simp add: manifest_receipt_def)

lemma members_with_summary [simp]: "wtm_members (with_summary s m) = wtm_members m"
  by (simp add: with_summary_def)

definition truthful :: "transaction \<Rightarrow> workspace_transaction_receipt \<Rightarrow> workspace_disk \<Rightarrow> bool" where
  "truthful X receipt d \<longleftrightarrow> settled X (wtr_outcome receipt) d"

lemma dt_recover_preparing:
  assumes X: "transaction_ok X" "manifest_of X m" and phase: "wtm_phase m = Preparing"
  shows "disk_triple (footprint X) (\<lambda>d. logged X m d \<and> each m (untouched (tx_start X)) d)
    (recover_workspace_transaction (tx_host X) (tx_json X) m) (truthful X) (agrees X)"
proof -
  let ?C = "each m (untouched (tx_start X))"
  define undone where "undone = with_summary ''recovered an interrupted transaction before installation began''
    (m\<lparr>wtm_phase := RolledBack\<rparr>)"
  have undone: "manifest_of X undone" "each undone = each m" "wtm_phase undone = RolledBack"
    using X(2) by (simp_all add: undone_def)
  have agree: "agrees X d" if "logged X n d" "?C d" "n = m \<or> n = undone" for n d
    using that X(2) phase undone by (auto intro!: agreesI [of X n] simp: phase_holds_def)
  have log: "disk_triple (footprint X) (\<lambda>d. logged X m d \<and> ?C d)
      (write_workspace_transaction_manifest (tx_host X) (tx_json X) undone) (\<lambda>_ d. logged X undone d \<and> ?C d) (agrees X)"
    using X undone phase by (intro dt_log member_files member_steady) (auto simp: phase_holds_def)
  show ?thesis
    unfolding recover_workspace_transaction_def phase workspace_transaction_phase.case Let_def undone_def [symmetric]
    by (rule dt_then [OF dt_conseq [OF dt_cleanup [OF X, where c = "untouched (tx_start X)" and m' = m, OF at_target_conditions(1)]]],
        assumption, assumption, fastforce intro: agree, rule dt_then [OF log], rule dt_return)
      (auto simp: truthful_def undone(2,3) intro!: settledI(1) [OF _ undone(1,3)])
qed

lemma dt_recover_committed:
  assumes X: "transaction_ok X" "manifest_of X m" and phase: "wtm_phase m = Committed" and decidable: "all_decidable X m"
  shows "disk_triple (footprint X) (\<lambda>d. logged X m d \<and> each m (installed (tx_host X)) d)
    (recover_workspace_transaction (tx_host X) (tx_json X) m)
    (\<lambda>receipt d. wtr_outcome receipt = OutcomeCommitted \<and> settled X OutcomeCommitted d) (settled X OutcomeCommitted)"
proof -
  let ?P = "\<lambda>d. logged X m d \<and> each m (installed (tx_host X)) d"
  have P: "steady (footprint X) ?P"
    by (intro disk_rules journal_only_steady journal_only_logged member_steady X(2))
  have settle: "settled X OutcomeCommitted d" if "?P d" for d
    using that by (auto intro: settledI(2) [OF _ X(2) phase decidable])
  have keep: "disk_triple (footprint X) ?P (all_targets_match (tx_host X) xs ProposedTarget) (\<lambda>_. ?P) (settled X OutcomeCommitted)"
    if "set xs \<subseteq> set (wtm_members m)" for xs
    using that
  proof (induction xs)
    case (Cons x xs)
    have x: "target_of x \<in> footprint X" using Cons.prems members_in_footprint [OF X(2), of x] location_simps(1) [of x] by auto
    have "disk_triple (footprint X) ?P (classify_manifest_target (tx_host X) x) (\<lambda>_. ?P) (settled X OutcomeCommitted)"
      by (rule dt_conseq [OF dt_classify [OF P x, of "settled X OutcomeCommitted"]]) (auto intro: settle)
    moreover have "disk_triple (footprint X) ?P (if state \<noteq> ProposedTarget then return_step False
        else all_targets_match (tx_host X) xs ProposedTarget) (\<lambda>_. ?P) (settled X OutcomeCommitted)" for state
      using Cons by (cases "state = ProposedTarget") (auto intro: dt_return)
    ultimately show ?case unfolding all_targets_match.simps by (rule dt_bind)
  qed (auto intro: dt_return)
  show ?thesis
    unfolding recover_workspace_transaction_def phase workspace_transaction_phase.case all_manifest_targets_match_def
    by (rule dt_bind [OF keep [OF subset_refl]], rule dt_then [OF dt_guard [where Q = "\<lambda>_. ?P"]], assumption, erule settle,
        rule dt_conseq [OF dt_finish_committed [OF X phase decidable]])
      (auto simp: phase)
qed

lemma dt_recover_rolling_back:
  assumes X: "transaction_ok X" "manifest_of X m" and phase: "wtm_phase m = RollingBack" and decidable: "all_decidable X m"
  shows "disk_triple (footprint X) (\<lambda>d. logged X m d \<and> each m (half_way (tx_host X) (tx_start X)) d)
    (recover_workspace_transaction (tx_host X) (tx_json X) m) (truthful X) (agrees X)"
  unfolding recover_workspace_transaction_def phase workspace_transaction_phase.case Let_def
  by (rule dt_conseq [OF dt_roll_back [OF X _ decidable phase]]) (auto simp: truthful_def X(2))

lemma dt_recover_prepared:
  assumes X: "transaction_ok X" "manifest_of X m" and phase: "wtm_phase m = Prepared" and decidable: "all_decidable X m"
  shows "disk_triple (footprint X) (\<lambda>d. logged X m d \<and> each m (half_way (tx_host X) (tx_start X)) d)
    (recover_workspace_transaction (tx_host X) (tx_json X) m) (truthful X) (agrees X)"
proof -
  let ?half = "each m (half_way (tx_host X) (tx_start X))"
  let ?whole = "each m (installed (tx_host X))"
  let ?P = "\<lambda>d. logged X m d \<and> ?half d"
  have P: "steady (footprint X) ?P"
    by (intro disk_rules journal_only_steady journal_only_logged member_steady X(2))
  have agree: "agrees X d" if "?P d" for d
    using that X(2) phase decidable by (auto intro!: agreesI [of X m] simp: phase_holds_def)
  have match: "disk_triple (footprint X) ?P (all_manifest_targets_match (tx_host X) m ProposedTarget)
      (\<lambda>complete d. ?P d \<and> (complete \<longrightarrow> ?whole d)) (agrees X)"
    unfolding all_manifest_targets_match_def each_def [of m "installed (tx_host X)"]
    using members_in_footprint [OF X(2)] decidable
    by (intro dt_all_targets_match [OF _ _ P, where D = "tx_start X"]) (auto simp: all_decidable_def each_def intro: agree [unfolded each_def])
  define committed where "committed = m\<lparr>wtm_phase := Committed\<rparr>"
  define rolling where "rolling = with_summary ''recovered an interrupted partial workspace transaction'' (m\<lparr>wtm_phase := RollingBack\<rparr>)"
  have same: "each committed = each m" "each rolling = each m" by (simp_all add: committed_def rolling_def)
  have commit: "disk_triple (footprint X) (\<lambda>d. logged X m d \<and> ?half d \<and> ?whole d)
      (write_workspace_transaction_manifest (tx_host X) (tx_json X) committed)
      (\<lambda>_ d. logged X committed d \<and> ?half d \<and> ?whole d) (agrees X)"
    using X phase decidable
    by (intro dt_log disk_rules member_files member_steady) (auto simp: phase_holds_def committed_def)
  have roll: "disk_triple (footprint X) ?P (write_workspace_transaction_manifest (tx_host X) (tx_json X) rolling)
      (\<lambda>_ d. logged X rolling d \<and> ?half d) (agrees X)"
    using X phase decidable
    by (intro dt_log member_files member_steady) (auto simp: phase_holds_def rolling_def)
  have forward: "disk_triple (footprint X) (\<lambda>d. logged X m d \<and> ?half d \<and> ?whole d)
      (then_step (write_workspace_transaction_manifest (tx_host X) (tx_json X) committed)
        (then_step (cleanup_manifest_files (tx_host X) committed) (return_step (manifest_receipt committed)))) (truthful X) (agrees X)"
    using X decidable
    by (intro dt_then [OF commit dt_conseq [OF dt_finish_committed [of X committed]]])
      (auto simp: truthful_def committed_def intro: settled_agrees)
  have backward: "disk_triple (footprint X) ?P
      (then_step (write_workspace_transaction_manifest (tx_host X) (tx_json X) rolling)
        (then_step (rollback_workspace_manifest (tx_host X) rolling)
          (then_step (write_workspace_transaction_manifest (tx_host X) (tx_json X) (rolling\<lparr>wtm_phase := RolledBack\<rparr>))
            (then_step (cleanup_manifest_files (tx_host X) (rolling\<lparr>wtm_phase := RolledBack\<rparr>))
              (return_step (manifest_receipt (rolling\<lparr>wtm_phase := RolledBack\<rparr>))))))) (truthful X) (agrees X)"
    using X decidable
    by (intro dt_then [OF roll dt_conseq [OF dt_roll_back [of X rolling]]])
      (auto simp: truthful_def rolling_def)
  show ?thesis
    unfolding recover_workspace_transaction_def phase workspace_transaction_phase.case Let_def
      committed_def [symmetric] rolling_def [symmetric]
    by (rule dt_bind [OF match]) (auto intro: dt_pre [OF forward] dt_pre [OF backward] split: if_split)
qed

lemma dt_recover:
  assumes X: "transaction_ok X"
  shows "disk_triple (footprint X) (\<lambda>d. logged X m d \<and> phase_holds X m d)
    (recover_workspace_transaction (tx_host X) (tx_json X) m) (truthful X) (agrees X)"
proof (rule dt_known [where c = "manifest_of X m \<and> (wtm_phase m \<in> {Prepared, RollingBack, Committed} \<longrightarrow> all_decidable X m)"])
  assume m: "manifest_of X m \<and> (wtm_phase m \<in> {Prepared, RollingBack, Committed} \<longrightarrow> all_decidable X m)"
  show ?thesis
  proof (cases "wtm_phase m")
    case Preparing
    then show ?thesis using m by (intro dt_pre [OF dt_recover_preparing [OF X]]) (auto simp: phase_holds_def)
  next
    case Prepared
    then show ?thesis using m by (intro dt_pre [OF dt_recover_prepared [OF X]]) (auto simp: phase_holds_def)
  next
    case RollingBack
    then show ?thesis using m by (intro dt_pre [OF dt_recover_rolling_back [OF X]]) (auto simp: phase_holds_def)
  next
    case Committed
    then show ?thesis
      using m by (intro dt_conseq [OF dt_recover_committed [OF X]]) (auto simp: phase_holds_def truthful_def intro: settled_agrees)
  next
    case RolledBack
    then have "recover_workspace_transaction (tx_host X) (tx_json X) m
      = then_step (cleanup_manifest_files (tx_host X) m) (return_step (manifest_receipt m))"
      by (simp add: recover_workspace_transaction_def)
    then show ?thesis
      using m RolledBack
      by (auto intro!: dt_conseq [OF dt_finish_rolled_back [OF X]] simp: phase_holds_def truthful_def intro: settled_agrees)
  qed
qed (auto simp: phase_holds_def)

text \<open>What has come to its end stays there, and is reported the same again.\<close>

lemma dt_recover_settled:
  assumes X: "transaction_ok X"
    and final: "wtm_phase m = (case outcome of OutcomeCommitted \<Rightarrow> Committed | OutcomeRolledBack \<Rightarrow> RolledBack)"
  shows "disk_triple (footprint X) (\<lambda>d. logged X m d \<and> phase_holds X m d)
    (recover_workspace_transaction (tx_host X) (tx_json X) m)
    (\<lambda>receipt d. wtr_outcome receipt = outcome \<and> settled X outcome d) (settled X outcome)"
proof (rule dt_known [where c = "manifest_of X m \<and> (wtm_phase m = Committed \<longrightarrow> all_decidable X m)"])
  assume m: "manifest_of X m \<and> (wtm_phase m = Committed \<longrightarrow> all_decidable X m)"
  show ?thesis
  proof (cases outcome)
    case OutcomeCommitted
    then show ?thesis using m final by (auto intro!: dt_pre [OF dt_recover_committed [OF X]] simp: phase_holds_def)
  next
    case OutcomeRolledBack
    then have "recover_workspace_transaction (tx_host X) (tx_json X) m
      = then_step (cleanup_manifest_files (tx_host X) m) (return_step (manifest_receipt m))"
      using final by (simp add: recover_workspace_transaction_def)
    then show ?thesis
      using m OutcomeRolledBack final
      by (auto intro!: dt_conseq [OF dt_finish_rolled_back [OF X]] simp: phase_holds_def)
  qed
qed (auto simp: phase_holds_def)

end
