(* ===== verification/Workspace_Atomicity.thy ===== *)
theory Workspace_Atomicity
  imports Workspace_Recovery
begin

text \<open>
  Applying a set of plans as one transaction, and recovering it however often the recovery is
  interrupted: the manifest in the journal and the disk agree, and every result and every receipt
  tells what became of the targets.
\<close>

section \<open>Applying\<close>

definition result_true :: "transaction \<Rightarrow> durable_workspace_apply_result \<Rightarrow> workspace_disk \<Rightarrow> bool" where
  "result_true X result d \<longleftrightarrow> (case result of
       CommittedResult receipt \<Rightarrow> wtr_outcome receipt = OutcomeCommitted \<and> truthful X receipt d
     | RolledBackResult receipt \<Rightarrow> wtr_outcome receipt = OutcomeRolledBack \<and> truthful X receipt d)"

lemma cleared_members: "erase \<circ> (\<lambda>x. x\<lparr>wtx_staged := None, wtx_backup := None\<rparr>) = erase"
  by (simp add: fun_eq_iff erase_def)

lemma dt_abandon_preparation:
  assumes X: "transaction_ok X" "manifest_of X m" "manifest_of X m0" and phase: "wtm_phase m0 = Preparing"
  shows "disk_triple (footprint X) (\<lambda>d. logged X m0 d \<and> each m (untouched (tx_start X)) d)
    (abandon_preparation (tx_host X) (tx_json X) m error) (result_true X) (agrees X)"
proof -
  let ?C = "each m (untouched (tx_start X))"
  define undone where "undone = m\<lparr>wtm_members := map (\<lambda>x. x\<lparr>wtx_staged := None, wtx_backup := None\<rparr>) (wtm_members m),
    wtm_phase := RolledBack, wtm_failure_summary := Some (apply_error_text (tx_host X) error)\<rparr>"
  have undone: "manifest_of X undone" "wtm_phase undone = RolledBack"
    using X(2) by (simp_all add: undone_def manifest_of_def cleared_members)
  have same: "?C d \<longleftrightarrow> (\<forall>n \<in> set (tx_members X). untouched (tx_start X) n d)" for d
    using each_untouched [OF X(2)] .
  have agree: "agrees X d" if "logged X n d" "?C d" "n = m0 \<or> n = undone" for n d
    using that X undone phase by (auto intro!: agreesI [of X n] simp: phase_holds_def each_untouched)
  have log: "disk_triple (footprint X) (\<lambda>d. logged X m0 d \<and> ?C d)
      (write_workspace_transaction_manifest (tx_host X) (tx_json X) undone) (\<lambda>_ d. logged X undone d \<and> ?C d) (agrees X)"
    using X undone phase by (intro dt_log member_files member_steady) (auto simp: phase_holds_def each_untouched)
  show ?thesis
    unfolding abandon_preparation_def Let_def undone_def [symmetric]
    by (rule dt_then [OF dt_conseq [OF dt_cleanup [OF X(1,2), where c = "untouched (tx_start X)" and m' = m0,
            OF at_target_conditions(1)]]], assumption, assumption, fastforce intro: agree, rule dt_then [OF log], rule dt_return)
      (auto simp: result_true_def truthful_def undone(2) intro!: settledI(1) [OF _ undone] simp: same each_untouched [OF undone(1)])
qed

text \<open>A staged plan that belongs to a member of the manifest.\<close>

definition installs :: "staged_workspace_plan \<Rightarrow> workspace_transaction_member \<Rightarrow> bool" where
  "installs staged m \<longleftrightarrow> (\<exists>plan m0. staged_of plan m staged \<and> member_of_plan plan m0 \<and> erase m = erase m0)"

lemma staged_of_erase: "staged_of plan m staged \<Longrightarrow> erase m' = erase m \<Longrightarrow> staged_of plan m' staged"
  using erase_eqD [of m' m] erase_eq_fields [of m' m] by (simp add: staged_of_def parent_at_def)

lemma framed_rest:
  assumes X: "transaction_ok X" "manifest_of X m" and members: "wtm_members m = pre @ x # rest" and K: "journal_only K"
    and c: "\<And>y. at_names y (c y)" "\<And>y. at_names y (c' y)"
  shows "framed (footprint X) x (\<lambda>d. K d \<and> (\<forall>y \<in> set pre. c y d) \<and> (\<forall>y \<in> set rest. c' y d))"
proof -
  have in_X: "set (locations y) \<subseteq> footprint X" if "y \<in> set pre \<or> y = x \<or> y \<in> set rest" for y
    using that members members_in_footprint [OF X(2), of y] by auto
  have other: "set (locations x) \<inter> set (locations y) = {}" if "y \<in> set pre \<union> set rest" for y
    using separate_append [OF members_separate [OF X, unfolded members] that] by simp
  have "framed (footprint X) x (c y)" if "y \<in> set pre" for y using framed_other [OF c(1) other] in_X that by simp
  moreover have "framed (footprint X) x (c' y)" if "y \<in> set rest" for y using framed_other [OF c(2) other] in_X that by simp
  ultimately show ?thesis
    using in_X by (intro framed_parts(1) [OF journal_only_framed [OF K]] framed_parts(1) [OF framed_parts(2) framed_parts(2)]) simp_all
qed

lemma members_distinct_at: "separate (pre @ x # rest) \<Longrightarrow> distinct (locations x)"
  by (simp add: separate_def)

definition staged_all ::
    "transaction \<Rightarrow> workspace_transaction_manifest \<Rightarrow> staged_workspace_plan list \<Rightarrow> workspace_transaction_member list \<Rightarrow> bool" where
  "staged_all X m staged pre \<longleftrightarrow> manifest_of X m \<and> wtm_phase m = Preparing \<and> all_decidable X m
     \<and> (\<exists>rest. wtm_members m = pre @ rest \<and> list_all2 installs staged rest)"

lemma staged_all_Cons: "staged_all X m staged (pre @ [x]) \<Longrightarrow> installs s x \<Longrightarrow> staged_all X m (s # staged) pre"
  by (auto simp: staged_all_def)

text \<open>The target is as it was, and the file there has its second name.\<close>

definition ready :: "workspace_disk \<Rightarrow> workspace_transaction_member \<Rightarrow> workspace_disk \<Rightarrow> bool" where
  "ready D x d \<longleftrightarrow> untouched D x d \<and> recoverable D x d"

lemma ready_erase: "erase x' = erase x \<Longrightarrow> ready D x' d \<longleftrightarrow> ready D x d"
  unfolding ready_def using untouched_erase [of x' x] recoverable_erase [of x' x] by blast

lemma at_names_ready_member: "at_names x (ready D x)"
proof -
  have "ready D x = (\<lambda>d. untouched D x d \<and> recoverable D x d)" by (rule ext) (simp add: ready_def)
  then show ?thesis using at_names_parts(1) [OF at_names_conditions(1,3)] by simp
qed

definition staging ::
    "transaction \<Rightarrow> workspace_transaction_manifest \<Rightarrow> workspace_transaction_member list
      \<Rightarrow> durable_workspace_apply_result + staged_workspace_plan list \<times> workspace_transaction_manifest \<Rightarrow> workspace_disk \<Rightarrow> bool" where
  "staging X m0 pre r d \<longleftrightarrow> (case r of Inl result \<Rightarrow> result_true X result d
     | Inr (staged, m') \<Rightarrow> staged_all X m' staged pre \<and> logged X m0 d \<and> each m' (ready (tx_start X)) d)"

lemma staging_simps [simp]:
  "staging X m0 pre (Inl result) d \<longleftrightarrow> result_true X result d"
  "staging X m0 pre (Inr (staged, m')) d \<longleftrightarrow> staged_all X m' staged pre \<and> logged X m0 d \<and> each m' (ready (tx_start X)) d"
  by (simp_all add: staging_def)

definition staging_from ::
    "transaction \<Rightarrow> workspace_transaction_manifest \<Rightarrow> workspace_transaction_member list
      \<Rightarrow> workspace_transaction_member list \<Rightarrow> workspace_disk \<Rightarrow> bool" where
  "staging_from X m0 pre rest d \<longleftrightarrow> logged X m0 d \<and> (\<forall>y \<in> set pre. ready (tx_start X) y d)
     \<and> (\<forall>y \<in> set rest. untouched (tx_start X) y d)"

text \<open>One plan: it is staged, and its member names the stage; or it is not, and nothing was touched.\<close>

definition staged_one ::
    "transaction \<Rightarrow> workspace_transaction_manifest \<Rightarrow> workspace_transaction_member list \<Rightarrow> workspace_transaction_member
      \<Rightarrow> workspace_transaction_member list \<Rightarrow> workspace_apply_error + staged_workspace_plan \<times> workspace_transaction_member
      \<Rightarrow> workspace_disk \<Rightarrow> bool" where
  "staged_one X m0 pre x rest r d \<longleftrightarrow> (case r of Inl _ \<Rightarrow> staging_from X m0 pre (x # rest) d
     | Inr (candidate, x') \<Rightarrow> erase x' = erase x \<and> decidable (tx_host X) (tx_start X) x' \<and> installs candidate x'
         \<and> staging_from X m0 (pre @ [x']) rest d)"

lemma dt_stage_one:
  assumes X: "transaction_ok X" "manifest_of X m" and members: "wtm_members m = pre @ x # rest"
    and plan: "member_of_plan plan x" and clean: "wtx_staged x = None"
  shows "disk_triple (footprint X) (staging_from X m0 pre (x # rest))
    (attempt_step (stage_durable_workspace_plan (tx_host X) plan x)) (staged_one X m0 pre x rest) (agrees X)"
proof -
  let ?D = "tx_start X"
  let ?G = "\<lambda>d. logged X m0 d \<and> (\<forall>y \<in> set pre. ready ?D y d) \<and> (\<forall>y \<in> set rest. untouched ?D y d)"
  have sep: "separate (pre @ x # rest)" using members_separate [OF X] members by simp
  have G: "framed (footprint X) x ?G"
    by (rule framed_rest [OF X members journal_only_logged(1) at_names_ready_member at_names_conditions(1)])
  have fresh: "fresh_inodes (footprint X) (tx_host X)" using X(1) by (simp add: transaction_ok_def)
  have installs: "installs candidate x'" if "erase x' = erase x" "staged_of plan x candidate" for x' candidate
    using staged_of_erase [OF that(2,1)] plan that(1) by (auto simp: installs_def)
  show ?thesis
  proof (rule dt_attempt [where E' = "\<lambda>d. ?G d \<and> untouched ?D x d"], rule dt_conseq [OF dt_stage_plan [OF G members_distinct_at [OF sep] fresh plan clean]])
    show "?G d \<and> untouched ?D x d" if "staging_from X m0 pre (x # rest) d" for d
      using that by (simp add: staging_from_def)
    show "staged_one X m0 pre x rest (Inr r) d"
      if "(\<lambda>(staged, x') d. (erase x' = erase x \<and> decidable (tx_host X) ?D x' \<and> staged_of plan x staged)
        \<and> ?G d \<and> untouched ?D x d \<and> recoverable ?D x d) r d" for r d
    proof (cases r)
      case (Pair candidate x')
      have x': "erase x' = erase x" "staged_of plan x candidate" using that by (simp_all add: Pair)
      show ?thesis
        using that ready_erase [OF x'(1), of ?D d] installs [OF x']
        by (simp add: Pair staged_one_def staging_from_def ready_def)
    qed
    show "staged_one X m0 pre x rest (Inl e) d" if "?G d \<and> untouched ?D x d" for e d
      using that by (simp add: staged_one_def staging_from_def)
  qed
qed

lemma dt_stage_each:
  assumes X: "transaction_ok X" "manifest_of X m0" "wtm_phase m0 = Preparing"
    and "manifest_of X m" and "wtm_phase m = Preparing" and "wtm_members m = pre @ rest"
    and "list_all2 member_of_plan plans rest" and "\<forall>x \<in> set rest. wtx_staged x = None"
    and "\<forall>x \<in> set pre. decidable (tx_host X) (tx_start X) x"
  shows "disk_triple (footprint X) (staging_from X m0 pre rest)
    (stage_each (tx_host X) (tx_json X) (length pre) m plans) (staging X m0 pre) (agrees X)"
  using assms(4-)
proof (induction plans arbitrary: pre rest m)
  case Nil
  then show ?case
    by (auto intro!: dt_return simp: staging_from_def staged_all_def all_decidable_def each_def)
next
  case (Cons plan plans)
  let ?D = "tx_start X" and ?H = "tx_host X" and ?J = "tx_json X"
  from Cons.prems(4) obtain x rest' where rest: "rest = x # rest'" "member_of_plan plan x" "list_all2 member_of_plan plans rest'"
    by (cases rest) auto
  have members: "wtm_members m = pre @ x # rest'" using Cons.prems(3) rest by simp
  have at: "member_at (length pre) m = x" by (simp add: member_at_def members)
  have clean: "wtx_staged x = None" using Cons.prems(5) rest by simp
  show ?case
    unfolding stage_each.simps at rest(1)
  proof (rule dt_bind [OF dt_stage_one [OF X(1) Cons.prems(1) members rest(2) clean]])
    fix r
    show "disk_triple (footprint X) (staged_one X m0 pre x rest' r) (case r of
         Inl error \<Rightarrow> bind_step (abandon_preparation ?H ?J m error) (\<lambda>result. return_step (Inl result))
       | Inr (candidate, member) \<Rightarrow>
           bind_step (stage_each ?H ?J (length pre + 1) (put_member (length pre) member m) plans) (\<lambda>rest. case rest of
               Inl result \<Rightarrow> return_step (Inl result)
             | Inr (staged, m') \<Rightarrow> return_step (Inr (candidate # staged, m')))) (staging X m0 pre) (agrees X)"
    proof (cases r)
      case (Inl error)
      have "logged X m0 d \<and> each m (untouched ?D) d" if "staged_one X m0 pre x rest' (Inl error) d" for d
        using that members by (auto simp: staged_one_def staging_from_def each_def ready_def)
      then show ?thesis
        unfolding Inl sum.case
        by (intro dt_bind [OF dt_pre [OF dt_abandon_preparation [OF X(1) Cons.prems(1) X(2,3)]]] dt_return) simp_all
    next
      case (Inr p)
      obtain candidate x' where p: "p = (candidate, x')" by (cases p)
      show ?thesis
        unfolding Inr p sum.case prod.case
      proof (rule dt_known [where c = "erase x' = erase x \<and> decidable ?H ?D x' \<and> installs candidate x'"])
        assume x': "erase x' = erase x \<and> decidable ?H ?D x' \<and> installs candidate x'"
        let ?m = "put_member (length pre) x' m"
        have members': "wtm_members ?m = (pre @ [x']) @ rest'" by (simp add: put_member_def members)
        have "map erase (wtm_members ?m) = map erase (wtm_members m)" using x' by (simp add: members members')
        then have m: "manifest_of X ?m" "wtm_phase ?m = Preparing"
          using Cons.prems(1,2) by (simp_all add: manifest_of_def put_member_def)
        have later: "disk_triple (footprint X) (staging_from X m0 (pre @ [x']) rest')
            (stage_each ?H ?J (length pre + 1) ?m plans) (staging X m0 (pre @ [x'])) (agrees X)"
          using Cons.IH [OF m members' rest(3)] x' Cons.prems(5,6) rest by simp
        show "disk_triple (footprint X) (staged_one X m0 pre x rest' (Inr (candidate, x')))
          (bind_step (stage_each ?H ?J (length pre + 1) ?m plans) (\<lambda>rest. case rest of
               Inl result \<Rightarrow> return_step (Inl result)
             | Inr (staged, m') \<Rightarrow> return_step (Inr (candidate # staged, m')))) (staging X m0 pre) (agrees X)"
        proof (rule dt_bind [OF dt_pre [OF later]])
          show "staging_from X m0 (pre @ [x']) rest' d" if "staged_one X m0 pre x rest' (Inr (candidate, x')) d" for d
            using that by (simp add: staged_one_def)
          show "disk_triple (footprint X) (staging X m0 (pre @ [x']) r) (case r of
              Inl result \<Rightarrow> return_step (Inl result)
            | Inr (staged, m') \<Rightarrow> return_step (Inr (candidate # staged, m'))) (staging X m0 pre) (agrees X)" for r
          proof (cases r)
            case (Inr q)
            then show ?thesis using x' by (cases q) (auto intro!: dt_return intro: staged_all_Cons)
          qed (auto intro: dt_return)
        qed
      qed (simp add: staged_one_def)
    qed
  qed
qed

section \<open>Installing and committing\<close>

lemma dt_abandon_installation:
  assumes X: "transaction_ok X" "manifest_of X m" and phase: "wtm_phase m = Prepared" and decidable: "all_decidable X m"
  shows "disk_triple (footprint X) (\<lambda>d. logged X m d \<and> each m (half_way (tx_host X) (tx_start X)) d)
    (abandon_installation (tx_host X) (tx_json X) m error) (result_true X) (agrees X)"
proof -
  let ?half = "each m (half_way (tx_host X) (tx_start X))"
  define rolling where "rolling = m\<lparr>wtm_phase := RollingBack, wtm_failure_summary := Some (apply_error_text (tx_host X) error)\<rparr>"
  define undone where "undone = rolling\<lparr>wtm_phase := RolledBack\<rparr>"
  have rolling: "manifest_of X rolling" "each rolling = each m" "wtm_phase rolling = RollingBack" "all_decidable X rolling"
    using X(2) decidable by (simp_all add: rolling_def)
  have undone: "manifest_of X undone" "wtm_phase undone = RolledBack" "wtm_members undone = wtm_members rolling"
    using rolling(1) by (simp_all add: undone_def)
  have log: "disk_triple (footprint X) (\<lambda>d. logged X m d \<and> ?half d)
      (write_workspace_transaction_manifest (tx_host X) (tx_json X) rolling)
      (\<lambda>_ d. logged X rolling d \<and> ?half d) (agrees X)"
    using X phase decidable rolling by (intro dt_log member_files member_steady) (simp_all add: phase_holds_def)
  have roll: "disk_triple (footprint X) (\<lambda>d. logged X rolling d \<and> ?half d)
      (rollback_workspace_manifest (tx_host X) rolling) (\<lambda>_ d. logged X rolling d \<and> each rolling (untouched (tx_start X)) d) (agrees X)"
    using rolling by (intro dt_conseq [OF dt_rollback [OF X(1) rolling(1,4), of rolling]])
      (auto intro!: agreesI [of X rolling] simp: phase_holds_def)
  have log': "disk_triple (footprint X) (\<lambda>d. logged X rolling d \<and> each rolling (untouched (tx_start X)) d)
      (write_workspace_transaction_manifest (tx_host X) (tx_json X) undone)
      (\<lambda>_ d. logged X undone d \<and> each undone (untouched (tx_start X)) d) (agrees X)"
  proof -
    have same: "each undone = each rolling" by (simp add: undone_def)
    show ?thesis
      unfolding same using X(1) undone rolling(1,3,4)
      by (intro dt_log member_files member_steady) (auto simp: phase_holds_def same intro: each_untouched_half_way)
  qed
  show ?thesis
    unfolding abandon_installation_def Let_def rolling_def [symmetric] undone_def [symmetric]
    by (rule dt_then [OF dt_map_error [OF log]], rule dt_then [OF dt_map_error [OF roll]], rule dt_then [OF log'],
        rule dt_conseq [OF dt_finish_rolled_back [OF X(1) undone(1,2)]])
      (auto simp: result_true_def truthful_def undone(2) intro: settled_agrees)
qed

definition installing ::
    "transaction \<Rightarrow> workspace_transaction_manifest \<Rightarrow> workspace_transaction_member list
      \<Rightarrow> workspace_transaction_member list \<Rightarrow> workspace_disk \<Rightarrow> bool" where
  "installing X m pre rest d \<longleftrightarrow> logged X m d
     \<and> (\<forall>y \<in> set pre. installed (tx_host X) y d \<and> recoverable (tx_start X) y d) \<and> (\<forall>y \<in> set rest. ready (tx_start X) y d)"

lemma installing_half_way:
  "installing X m pre rest d \<Longrightarrow> wtm_members m = pre @ rest \<Longrightarrow> logged X m d \<and> each m (half_way (tx_host X) (tx_start X)) d"
  by (auto simp: installing_def each_def half_way_def ready_def)

lemma dt_install_one:
  assumes X: "transaction_ok X" "manifest_of X m" and members: "wtm_members m = pre @ x # rest"
    and phase: "wtm_phase m = Prepared" and decidable: "all_decidable X m" and staged: "installs s x"
  shows "disk_triple (footprint X) (installing X m pre (x # rest)) (check_prepared_stage (tx_host X) s x)
      (\<lambda>_ d. installing X m pre (x # rest) d \<and> stage_ready (tx_host X) x d) (agrees X)"
    and "disk_triple (footprint X) (\<lambda>d. installing X m pre (x # rest) d \<and> stage_ready (tx_host X) x d)
      (attempt_step (install_transaction_plan (tx_host X) s)) (\<lambda>r d. case r of
           Inl _ \<Rightarrow> logged X m d \<and> each m (half_way (tx_host X) (tx_start X)) d
         | Inr _ \<Rightarrow> installing X m (pre @ [x]) rest d) (agrees X)"
proof -
  let ?D = "tx_start X" and ?H = "tx_host X"
  obtain plan x0 where s: "staged_of plan x s" "member_of_plan plan x0" "erase x = erase x0"
    using staged by (auto simp: installs_def)
  have delete: "wap_delete plan = wtx_delete x"
    using s(2) erase_eqD(7) [OF s(3)] by (simp add: member_of_plan_def)
  let ?G = "\<lambda>d. logged X m d \<and> (\<forall>y \<in> set pre. installed ?H y d \<and> recoverable ?D y d) \<and> (\<forall>y \<in> set rest. ready ?D y d)"
  have sep: "separate (pre @ x # rest)" using members_separate [OF X] members by simp
  have G: "framed (footprint X) x ?G"
    by (rule framed_rest [OF X members journal_only_logged(1) at_names_parts(1) [OF at_names_conditions(2,3)] at_names_ready_member])
  have here: "set (locations x) \<subseteq> footprint X" using members_in_footprint [OF X(2), of x] members by simp
  have agree: "agrees X d" if "logged X m d" "each m (half_way ?H ?D) d" for d
    using that X(2) phase decidable by (auto intro!: agreesI [of X m] simp: phase_holds_def)
  have parts: "installing X m pre (x # rest) = (\<lambda>d. ?G d \<and> untouched ?D x d \<and> recoverable ?D x d)"
    by (auto simp: fun_eq_iff installing_def ready_def)
  have P: "steady (footprint X) (installing X m pre (x # rest))"
    unfolding parts by (intro steady_parts(1) framed_steady [OF G] at_names_steady [OF _ G] at_names_conditions)
  show "disk_triple (footprint X) (installing X m pre (x # rest)) (check_prepared_stage ?H s x)
      (\<lambda>_ d. installing X m pre (x # rest) d \<and> stage_ready ?H x d) (agrees X)"
    using installing_half_way [of X m pre "x # rest"] members here
    by (intro dt_check_prepared_stage [OF P _ s(1) delete] agree) auto
  show "disk_triple (footprint X) (\<lambda>d. installing X m pre (x # rest) d \<and> stage_ready ?H x d)
      (attempt_step (install_transaction_plan ?H s)) (\<lambda>r d. case r of
           Inl _ \<Rightarrow> logged X m d \<and> each m (half_way ?H ?D) d | Inr _ \<Rightarrow> installing X m (pre @ [x]) rest d) (agrees X)"
  proof (rule dt_attempt [where E' = "\<lambda>d. ?G d \<and> half_way ?H ?D x d"],
      rule dt_conseq [OF dt_install_plan [OF G members_distinct_at [OF sep] s(2,3,1)]])
    show "?G d \<and> untouched ?D x d \<and> recoverable ?D x d \<and> stage_ready ?H x d"
      if "installing X m pre (x # rest) d \<and> stage_ready ?H x d" for d
      using that by (simp add: parts)
    show "case Inr u of Inl _ \<Rightarrow> logged X m d \<and> each m (half_way ?H ?D) d | Inr _ \<Rightarrow> installing X m (pre @ [x]) rest d"
      if "?G d \<and> installed ?H x d \<and> recoverable ?D x d" for u d
      using that by (simp add: installing_def)
    show "?G d \<and> half_way ?H ?D x d" if "?G d \<and> half_way ?H ?D x d" for d
      using that .
    show "case Inl e of Inl _ \<Rightarrow> logged X m d \<and> each m (half_way ?H ?D) d | Inr _ \<Rightarrow> installing X m (pre @ [x]) rest d"
      if "?G d \<and> half_way ?H ?D x d" for e d
      using that by (auto simp: each_def members half_way_def ready_def)
  qed
qed

definition stopping :: "transaction \<Rightarrow> workspace_transaction_manifest \<Rightarrow> durable_workspace_apply_result option \<Rightarrow> workspace_disk \<Rightarrow> bool" where
  "stopping X m stopped d \<longleftrightarrow> (case stopped of Some result \<Rightarrow> result_true X result d
     | None \<Rightarrow> logged X m d \<and> each m (installed (tx_host X)) d \<and> each m (half_way (tx_host X) (tx_start X)) d)"

lemma dt_install_each:
  assumes X: "transaction_ok X" "manifest_of X m" and phase: "wtm_phase m = Prepared" and decidable: "all_decidable X m"
    and "wtm_members m = pre @ rest" and "list_all2 installs staged rest"
  shows "disk_triple (footprint X) (installing X m pre rest) (install_each (tx_host X) (tx_json X) m (length pre) staged)
    (stopping X m) (agrees X)"
  using assms(5,6)
proof (induction staged arbitrary: pre rest)
  case Nil
  then show ?case by (auto intro!: dt_return simp: stopping_def installing_def each_def half_way_def)
next
  case (Cons s staged)
  from Cons.prems(2) obtain x rest' where rest: "rest = x # rest'" "installs s x" "list_all2 installs staged rest'"
    by (cases rest) auto
  have members: "wtm_members m = pre @ x # rest'" using Cons.prems(1) rest by simp
  have at: "member_at (length pre) m = x" by (simp add: member_at_def members)
  note one = dt_install_one [OF X members phase decidable rest(2)]
  show ?case
    unfolding install_each.simps at rest(1)
  proof (rule dt_then [OF one(1) dt_bind [OF one(2)]])
    fix r :: "workspace_apply_error + unit"
    have abandon: "disk_triple (footprint X) (\<lambda>d. logged X m d \<and> each m (half_way (tx_host X) (tx_start X)) d)
        (bind_step (abandon_installation (tx_host X) (tx_json X) m error) (\<lambda>result. return_step (Some result)))
        (stopping X m) (agrees X)" for error
      by (rule dt_bind [OF dt_abandon_installation [OF X phase decidable]]) (simp add: dt_return stopping_def)
    have onward: "disk_triple (footprint X) (installing X m (pre @ [x]) rest')
        (install_each (tx_host X) (tx_json X) m (length pre + 1) staged)
        (stopping X m) (agrees X)"
      using Cons.IH [of "pre @ [x]" rest'] members rest(3) by simp
    show "disk_triple (footprint X) (\<lambda>d. case r of
           Inl _ \<Rightarrow> logged X m d \<and> each m (half_way (tx_host X) (tx_start X)) d
         | Inr _ \<Rightarrow> installing X m (pre @ [x]) rest' d)
      (case r of Inl error \<Rightarrow> bind_step (abandon_installation (tx_host X) (tx_json X) m error) (\<lambda>result. return_step (Some result))
       | Inr _ \<Rightarrow> install_each (tx_host X) (tx_json X) m (length pre + 1) staged)
      (stopping X m) (agrees X)"
      by (cases r) (simp_all only: sum.case abandon onward)
  qed
qed

lemma dt_commit:
  assumes X: "transaction_ok X" "manifest_of X m" and phase: "wtm_phase m = Prepared" and decidable: "all_decidable X m"
  shows "disk_triple (footprint X) (\<lambda>d. logged X m d \<and> each m (installed (tx_host X)) d \<and> each m (half_way (tx_host X) (tx_start X)) d)
    (commit_transaction (tx_host X) (tx_json X) m) (result_true X) (agrees X)"
proof -
  let ?whole = "\<lambda>d. each m (installed (tx_host X)) d \<and> each m (half_way (tx_host X) (tx_start X)) d"
  define committed where "committed = m\<lparr>wtm_phase := Committed\<rparr>"
  have committed: "manifest_of X committed" "each committed = each m" "wtm_phase committed = Committed" "all_decidable X committed"
    using X(2) decidable by (simp_all add: committed_def)
  have log: "disk_triple (footprint X) (\<lambda>d. logged X m d \<and> ?whole d)
      (write_workspace_transaction_manifest (tx_host X) (tx_json X) committed) (\<lambda>_ d. logged X committed d \<and> ?whole d) (agrees X)"
    using X phase decidable committed
    by (intro dt_log disk_rules member_files member_steady) (auto simp: phase_holds_def)
  show ?thesis
    unfolding commit_transaction_def Let_def committed_def [symmetric]
  proof (rule dt_then [OF dt_map_error [OF log]])
    have agree: "agrees X d" if "logged X committed d" "each committed (installed (tx_host X)) d" for d
      using that committed by (auto intro!: agreesI [of X committed] simp: phase_holds_def)
    show "disk_triple (footprint X) (\<lambda>d. logged X committed d \<and> ?whole d)
      (then_step (map_error_step f (cleanup_manifest_files (tx_host X) committed))
        (return_step (CommittedResult (manifest_receipt committed)))) (result_true X) (agrees X)" for f
      by (rule dt_then [OF dt_map_error [OF dt_conseq [OF dt_cleanup [OF X(1) committed(1),
              where c = "installed (tx_host X)" and m' = committed, OF at_target_conditions(2)]]]],
          simp add: committed(2), assumption, simp add: agree, rule dt_return)
        (auto simp: result_true_def truthful_def committed(3) intro: settledI(2) [OF _ committed(1,3,4)])
  qed
qed

section \<open>The whole application\<close>

text \<open>
  The transaction that applying a set begins: its identifier is the next one that is drawn, its
  members are those of the first manifest, and it starts from the disk as it is.
\<close>

definition transaction_of ::
    "apply_host \<Rightarrow> manifest_json \<Rightarrow> workspace_apply_set_plan \<Rightarrow> apply_world \<Rightarrow> transaction" where
  "transaction_of H J set_plan w = \<lparr>tx_host = H, tx_json = J, tx_start = aw_disk w, tx_id = wh_new_uuid H (aw_drawn w),
     tx_members = map (\<lambda>(index, plan). new_member H (wh_new_uuid H (aw_drawn w)) index plan)
       (enumerate 0 (was_plans set_plan))\<rparr>"

lemma validate_plan_delete: "validate_plan H t plan = Inr t' \<Longrightarrow> wap_delete plan \<Longrightarrow> wap_base plan \<noteq> None"
  by (auto simp: validate_plan_def proposal_valid_def result_simps split: prod.splits if_splits)

lemma try_fold_each: "try_fold f s xs = Inr t \<Longrightarrow> x \<in> set xs \<Longrightarrow> \<exists>u v. f u x = Inr v"
  by (induction xs arbitrary: s) (auto simp: result_simps)

lemma validated_deletes:
  assumes "validate_workspace_apply_set H set_plan = Inr u" and "plan \<in> set (was_plans set_plan)" and "wap_delete plan"
  shows "wap_base plan \<noteq> None"
proof -
  obtain t where "try_fold (validate_plan H) ({}, 0, 0) (was_plans set_plan) = Inr t"
    using assms(1) by (cases "try_fold (validate_plan H) ({}, 0, 0) (was_plans set_plan)")
      (auto simp: validate_workspace_apply_set_def split: if_splits)
  from try_fold_each [OF this assms(2)] obtain v v' where "validate_plan H v plan = Inr v'" by blast
  then show ?thesis using validate_plan_delete assms(3) by blast
qed

lemma members_of_plans:
  "(\<And>plan. plan \<in> set plans \<Longrightarrow> wap_delete plan \<Longrightarrow> wap_base plan \<noteq> None) \<Longrightarrow>
    list_all2 member_of_plan plans (map (\<lambda>(index, plan). new_member H i index plan) (enumerate n plans))"
  by (induction plans arbitrary: n) (auto simp: member_of_plan_def new_member_def)

lemma new_member_clean: "erase (new_member H i index plan) = new_member H i index plan" "wtx_staged (new_member H i index plan) = None"
  by (simp_all add: erase_def new_member_def)

lemma new_members:
  "map erase (map (\<lambda>(index, plan). new_member H i index plan) (enumerate n plans))
    = map (\<lambda>(index, plan). new_member H i index plan) (enumerate n plans)"
  "\<forall>x \<in> set (map (\<lambda>(index, plan). new_member H i index plan) (enumerate n plans)). wtx_staged x = None"
  by (simp_all add: case_prod_beta new_member_clean)

lemma dt_root:
  "disk_triple A (\<lambda>d. C d \<and> unlogged X d) workspace_transaction_root (\<lambda>_ d. C d \<and> unlogged X d) (\<lambda>d. C d \<and> unlogged X d)"
  if C: "files_only C" "steady A C"
proof -
  have P: "steady A (\<lambda>d. C d \<and> unlogged X d)"
    by (intro disk_rules C journal_only_steady journal_only_logged)
  have made: "C (d\<lparr>wd_journal := j\<rparr>)" if "C d" for d j
    using that by (rule files_onlyD [OF C(1), rotated]) (simp add: same_files_def)
  show ?thesis
    unfolding workspace_transaction_root_def
  proof (rule dt_then [OF dt_system_call [OF P] dt_then [OF dt_sync_all [OF P] dt_sync_all [OF P]]])
    fix d
    assume d: "C d \<and> unlogged X d"
    then show "case case wd_journal d of
          NoJournal \<Rightarrow> (Inr (), d\<lparr>wd_journal := JournalDirectory []\<rparr>)
        | DanglingJournal \<Rightarrow> (Inl (Io AlreadyExists), d)
        | NotAJournal \<Rightarrow> (Inl (RecoveryRequired ''transaction journal root is not a private directory''), d)
        | JournalDirectory _ \<Rightarrow> (Inr (), d) of
        (Inl _, d') \<Rightarrow> C d' \<and> unlogged X d' | (Inr _, d') \<Rightarrow> C d' \<and> unlogged X d'"
      using made [of d "JournalDirectory []"]
      by (auto simp: unlogged_def tidy_def tidy_names_def manifest_node_def split: journal_root.splits)
  qed simp_all
qed

text \<open>From the staged set to the end.\<close>

lemma dt_install_all:
  assumes X: "transaction_ok X" and m: "manifest_of X m" "wtm_phase m = Preparing" and staged: "staged_all X m' staged []"
  shows "disk_triple (footprint X) (\<lambda>d. logged X m d \<and> each m' (ready (tx_start X)) d)
    (let prepared = m'\<lparr>wtm_phase := Prepared\<rparr> in
     then_step (write_workspace_transaction_manifest (tx_host X) (tx_json X) prepared)
     (bind_step (install_each (tx_host X) (tx_json X) prepared 0 staged) (\<lambda>stopped. case stopped of
         Some result \<Rightarrow> return_step result
       | None \<Rightarrow> commit_transaction (tx_host X) (tx_json X) prepared))) (result_true X) (agrees X)"
proof -
  define prepared where "prepared = m'\<lparr>wtm_phase := Prepared\<rparr>"
  have m': "manifest_of X m'" "all_decidable X m'" "list_all2 installs staged (wtm_members m')"
    using staged by (auto simp: staged_all_def)
  have prepared: "manifest_of X prepared" "wtm_phase prepared = Prepared" "all_decidable X prepared" "each prepared = each m'"
    "list_all2 installs staged (wtm_members prepared)"
    using m' by (simp_all add: prepared_def)
  have untouched: "each m (untouched (tx_start X)) d" if "each m' (ready (tx_start X)) d" for d
    using that by (simp add: each_untouched [OF m(1)] each_untouched [OF m'(1), symmetric]) (simp add: each_def ready_def)
  have half_way: "each m' (half_way (tx_host X) (tx_start X)) d" if "each m' (ready (tx_start X)) d" for d
    using that by (auto simp: each_def ready_def half_way_def)
  have log: "disk_triple (footprint X) (\<lambda>d. logged X m d \<and> each m' (ready (tx_start X)) d)
      (write_workspace_transaction_manifest (tx_host X) (tx_json X) prepared)
      (\<lambda>_ d. logged X prepared d \<and> each m' (ready (tx_start X)) d) (agrees X)"
    using X m prepared m'(1) untouched half_way
    by (intro dt_log each_files_only each_steady at_names_ready_member) (simp_all add: phase_holds_def)
  have install: "disk_triple (footprint X) (\<lambda>d. logged X prepared d \<and> each m' (ready (tx_start X)) d)
      (install_each (tx_host X) (tx_json X) prepared 0 staged) (stopping X prepared) (agrees X)"
    using dt_install_each [OF X prepared(1-3) _ prepared(5), of "[]"]
    by (auto elim!: dt_pre simp: installing_def each_def prepared_def)
  show ?thesis
    unfolding Let_def prepared_def [symmetric]
  proof (rule dt_then [OF log dt_bind [OF install]])
    show "disk_triple (footprint X) (stopping X prepared stopped) (case stopped of
        Some result \<Rightarrow> return_step result | None \<Rightarrow> commit_transaction (tx_host X) (tx_json X) prepared)
      (result_true X) (agrees X)" for stopped
      by (cases stopped) (auto intro!: dt_return dt_pre [OF dt_commit [OF X prepared(1-3)]] simp: stopping_def)
  qed
qed

text \<open>From the first manifest on.\<close>

lemma dt_apply_manifest:
  assumes X: "transaction_ok X" and m: "manifest_of X m" "wtm_phase m = Preparing"
    and plans: "list_all2 member_of_plan plans (wtm_members m)" "\<forall>x \<in> set (wtm_members m). wtx_staged x = None"
  shows "disk_triple (footprint X) (\<lambda>d. each m (untouched (tx_start X)) d \<and> unlogged X d)
    (then_step (write_workspace_transaction_manifest (tx_host X) (tx_json X) m)
      (bind_step (stage_each (tx_host X) (tx_json X) 0 m plans) (\<lambda>r. case r of
          Inl result \<Rightarrow> return_step result
        | Inr (staged, m') \<Rightarrow>
            (let prepared = m'\<lparr>wtm_phase := Prepared\<rparr> in
             then_step (write_workspace_transaction_manifest (tx_host X) (tx_json X) prepared)
             (bind_step (install_each (tx_host X) (tx_json X) prepared 0 staged) (\<lambda>stopped. case stopped of
                 Some result \<Rightarrow> return_step result
               | None \<Rightarrow> commit_transaction (tx_host X) (tx_json X) prepared))))))
    (result_true X) (agrees X)"
proof (rule dt_then [OF _ dt_bind])
  let ?C = "each m (untouched (tx_start X))"
  have id: "wtm_transaction_id m = tx_id X" using m(1) by (simp add: manifest_of_def)
  have start: "staging_from X m [] (wtm_members m) d" if "logged X m d" "?C d" for d
    using that by (simp add: staging_from_def each_def)
  show "disk_triple (footprint X) (\<lambda>d. ?C d \<and> unlogged X d)
      (write_workspace_transaction_manifest (tx_host X) (tx_json X) m) (\<lambda>_. staging_from X m [] (wtm_members m)) (agrees X)"
    using m
    by (intro dt_conseq [OF dt_log_from [OF X id, where B = "\<lambda>n. n = None" and C = ?C]] member_files member_steady)
      (auto simp: unlogged_def agrees_def phase_holds_def start each_untouched)
  show "disk_triple (footprint X) (staging_from X m [] (wtm_members m)) (stage_each (tx_host X) (tx_json X) 0 m plans)
      (staging X m []) (agrees X)"
    using dt_stage_each [OF X m m, of "[]"] plans by simp
  show "disk_triple (footprint X) (staging X m [] r) (case r of
          Inl result \<Rightarrow> return_step result
        | Inr (staged, m') \<Rightarrow>
            (let prepared = m'\<lparr>wtm_phase := Prepared\<rparr> in
             then_step (write_workspace_transaction_manifest (tx_host X) (tx_json X) prepared)
             (bind_step (install_each (tx_host X) (tx_json X) prepared 0 staged) (\<lambda>stopped. case stopped of
                 Some result \<Rightarrow> return_step result
               | None \<Rightarrow> commit_transaction (tx_host X) (tx_json X) prepared)))) (result_true X) (agrees X)" for r
  proof (cases r)
    case (Inr p)
    obtain staged m' where p: "p = (staged, m')" by (cases p)
    show ?thesis
      unfolding Inr p sum.case prod.case
      by (rule dt_known [where c = "staged_all X m' staged []"], simp, rule dt_pre [OF dt_install_all [OF X m]]) auto
  qed (auto intro: dt_return)
qed

text \<open>Identifiers are drawn in the order of the calls, and by nothing else.\<close>

interpretation drawn: step_preorder "\<lambda>s t :: apply_world. aw_drawn t = aw_drawn s"
  by unfold_locales auto

lemma call_draws_nothing: "obeys (\<lambda>s t. aw_drawn t = aw_drawn s) (faulty_call partly on_error effect)"
  by (auto simp: obeys_def faulty_call_def with_disk_def split: list.split fault.split)

lemma root_draws_nothing: "obeys (\<lambda>s t. aw_drawn t = aw_drawn s) workspace_transaction_root"
  unfolding workspace_transaction_root_def sync_all_def system_call_def
  by (intro drawn.obeys_parts call_draws_nothing)

lemma transaction_of_simps [simp]:
  "tx_host (transaction_of H J set_plan w) = H" "tx_json (transaction_of H J set_plan w) = J"
  "tx_start (transaction_of H J set_plan w) = aw_disk w" "tx_id (transaction_of H J set_plan w) = wh_new_uuid H (aw_drawn w)"
  by (simp_all add: transaction_of_def)

lemma manifest_of_new:
  "i = wh_new_uuid H (aw_drawn w) \<Longrightarrow> manifest_of (transaction_of H J set_plan w) (new_manifest H i context set_plan)"
  unfolding manifest_of_def transaction_of_def new_manifest_def
  by (simp only: workspace_transaction_manifest.simps transaction.simps new_members simp_thms)

lemma apply_durable:
  fixes H J set_plan w
  defines "X \<equiv> transaction_of H J set_plan w"
  assumes X: "transaction_ok X" and start: "unlogged X (aw_disk w)" and calm: "calm (footprint X) (aw_faults w)"
  shows "apply_workspace_set_plan_durable H J task set_plan w = (Inl e, w') \<Longrightarrow> agrees X (aw_disk w')"
    and "apply_workspace_set_plan_durable H J task set_plan w = (Inr result, w') \<Longrightarrow> result_true X result (aw_disk w')"
proof -
  define m where "m = new_manifest H (wh_new_uuid H (aw_drawn w)) task set_plan"
  let ?C = "each m (untouched (tx_start X))"
  let ?run = "apply_workspace_set_plan_durable H J task set_plan w"
  have m: "manifest_of X m" "wtm_phase m = Preparing" using manifest_of_new [OF refl]
    by (simp_all add: m_def X_def) (simp add: new_manifest_def)
  have rest: "case ?run of (Inl e, t) \<Rightarrow> agrees X (aw_disk t) | (Inr result, t) \<Rightarrow> result_true X result (aw_disk t)"
  proof (cases "validate_workspace_apply_set H set_plan")
    case (Inl e)
    have "agrees X (aw_disk w)" using start by (auto simp: agrees_def unlogged_def X_def untouched_def)
    then show ?thesis by (simp add: apply_workspace_set_plan_durable_def then_step_def step_simps Inl)
  next
    case (Inr u)
    have members: "list_all2 member_of_plan (was_plans set_plan) (wtm_members m)" "\<forall>x \<in> set (wtm_members m). wtx_staged x = None"
      using members_of_plans [of "was_plans set_plan"] validated_deletes [OF Inr] new_members(2)
      by (simp_all add: m_def new_manifest_def)
    have C: "files_only ?C" "steady (footprint X) ?C" using m(1) by (intro member_files member_steady)+
    have w: "holds (footprint X) (\<lambda>d. ?C d \<and> unlogged X d) w"
      using start calm by (simp add: holds_def) (simp add: each_def untouched_def X_def)
    obtain r w1 where root: "workspace_transaction_root w = (r, w1)" by fastforce
    have w1: "holds (footprint X) (\<lambda>d. ?C d \<and> unlogged X d) w1"
      using dt_root [OF C, of X] w root by (cases r) (auto simp: disk_triple_def dest: triple_Inr triple_Inl)
    show ?thesis
    proof (cases r)
      case (Inl e)
      have "agrees X (aw_disk w1)"
        using w1 by (auto simp: holds_def agrees_def unlogged_def each_untouched [OF m(1)])
      then show ?thesis
        using root by (simp add: apply_workspace_set_plan_durable_def then_step_def step_simps \<open>validate_workspace_apply_set H set_plan = Inr u\<close> Inl)
    next
      case (Inr v)
      have id: "wh_new_uuid H (aw_drawn w1) = wh_new_uuid H (aw_drawn w)" using obeysD [OF root_draws_nothing root] by simp
      let ?w2 = "w1\<lparr>aw_drawn := aw_drawn w1 + 1\<rparr>"
      have w2: "holds (footprint X) (\<lambda>d. ?C d \<and> unlogged X d) ?w2" using w1 by (simp add: holds_def)
      note main = dt_apply_manifest [OF X m members, unfolded disk_triple_def triple_def, rule_format, OF w2]
      have "?run = then_step (write_workspace_transaction_manifest H J m)
        (bind_step (stage_each H J 0 m (was_plans set_plan)) (\<lambda>r. case r of
          Inl result \<Rightarrow> return_step result
        | Inr (staged, m') \<Rightarrow>
            (let prepared = m'\<lparr>wtm_phase := Prepared\<rparr> in
             then_step (write_workspace_transaction_manifest H J prepared)
             (bind_step (install_each H J prepared 0 staged) (\<lambda>stopped. case stopped of
                 Some result \<Rightarrow> return_step result
               | None \<Rightarrow> commit_transaction H J prepared))))) ?w2"
        using root Inr \<open>validate_workspace_apply_set H set_plan = Inr u\<close>
        by (simp add: apply_workspace_set_plan_durable_def then_step_def [of "lift_step _"] then_step_def [of workspace_transaction_root]
            bind_step_def [of "lift_step _"] bind_step_def [of workspace_transaction_root] bind_step_def [of "new_uuid H"]
            new_uuid_def step_runs id m_def Let_def [of "new_manifest _ _ _ _"])
      then show ?thesis using main by (simp add: X_def holds_def split: prod.splits sum.splits)
    qed
  qed
  show "?run = (Inl e, w') \<Longrightarrow> agrees X (aw_disk w')" "?run = (Inr result, w') \<Longrightarrow> result_true X result (aw_disk w')"
    using rest by simp_all
qed

section \<open>Recovering the journal\<close>

text \<open>What depends on the names and the manifest of the transaction only.\<close>

definition about :: "transaction \<Rightarrow> (workspace_disk \<Rightarrow> bool) \<Rightarrow> bool" where
  "about X P \<longleftrightarrow> (\<forall>d. P d \<longrightarrow> tidy X d)
     \<and> (\<forall>d e. looks_same (footprint X) d e \<longrightarrow> tidy X e \<longrightarrow> manifest_node X e = manifest_node X d \<longrightarrow> P d \<longrightarrow> P e)"

lemma aboutD: "about X P \<Longrightarrow> P d \<Longrightarrow> tidy X d"
  "about X P \<Longrightarrow> P d \<Longrightarrow> looks_same (footprint X) d e \<Longrightarrow> tidy X e \<Longrightarrow> manifest_node X e = manifest_node X d \<Longrightarrow> P e"
  by (auto simp: about_def)

lemma about_steady: "about X P \<Longrightarrow> steady (footprint X) P"
  using aboutD by (intro steadyI) (fastforce simp: tidy_def manifest_node_def)

lemma about_same_files: "about X P \<Longrightarrow> P d \<Longrightarrow> same_files d e \<Longrightarrow> tidy X e \<Longrightarrow> manifest_node X e = manifest_node X d \<Longrightarrow> P e"
  using aboutD(2) [of X P d e] by (simp add: same_files_def looks_same_def)

lemma each_same:
  assumes "manifest_of X m" and "\<And>x. at_names x (c x)" and "looks_same (footprint X) d e" and "each m c d"
  shows "each m c e"
  unfolding each_def
proof
  fix x
  assume x: "x \<in> set (wtm_members m)"
  have "looks_same (set (locations x)) d e" using looks_same_mono [OF assms(3) members_in_footprint [OF assms(1) x]] .
  then show "c x e" using assms(2) [of x] assms(4) x unfolding at_names_def each_def by blast
qed

lemma phase_holds_same:
  assumes "looks_same (footprint X) d e" and "phase_holds X m d"
  shows "phase_holds X m e"
proof -
  have m: "manifest_of X m" using assms(2) by (simp add: phase_holds_def)
  note same = each_same [OF m _ assms(1)]
  show ?thesis
    using assms(2) same [OF at_names_conditions(1)] same [OF at_names_conditions(2)] same [OF at_names_conditions(4)]
    by (auto simp: phase_holds_def split: workspace_transaction_phase.splits)
qed

lemma about_settled: "about X (settled X outcome)"
  unfolding about_def settled_def logged_reads by (metis phase_holds_same)

lemma about_agrees: "about X (agrees X)"
proof -
  have "untouched D n e" if "looks_same (footprint X) d e" "n \<in> set (tx_members X)" "untouched D n d" for D n d e
    using looks_same_mono [OF that(1), of "set (locations n)"] that(2,3) member_same(1) unfolding footprint_def by blast
  then have "agrees X e" if "looks_same (footprint X) d e" "tidy X e" "manifest_node X e = manifest_node X d" "agrees X d" for d e
    using that(4) phase_holds_same [OF that(1)] that(1) unfolding agrees_def that(3) by (auto simp: that(2))
  moreover have "tidy X d" if "agrees X d" for d using that by (simp add: agrees_def)
  ultimately show ?thesis unfolding about_def by blast
qed

text \<open>The files of the journal that are not the manifest.\<close>

lemma dt_remove_temporary:
  assumes P: "about X P" and name: "temporary_name name"
  shows "disk_triple (footprint X) P (attempt_step (journal_call (journal_remove name))) (\<lambda>_. P) E"
proof (rule dt_attempt, rule dt_journal_call [OF about_steady [OF P]])
  fix d r d'
  assume d: "P d" and r: "on_journal (journal_remove name) d = (r, d')"
  have "P d'"
    using journal_remove_temporary [OF name r aboutD(1) [OF P d] refl] about_same_files [OF P d on_journal_files [OF r]] by simp
  then show "case r of Inl _ \<Rightarrow> P d' | Inr _ \<Rightarrow> P d'" by (cases r) auto
qed auto

lemma dt_about_root:
  assumes P: "about X P"
  shows "disk_triple (footprint X) P workspace_transaction_root (\<lambda>_. P) P"
  unfolding workspace_transaction_root_def
proof (rule dt_then [OF dt_system_call [OF about_steady [OF P]]
      dt_then [OF dt_sync_all [OF about_steady [OF P]] dt_sync_all [OF about_steady [OF P]]]])
  fix d
  assume d: "P d"
  then show "case case wd_journal d of
        NoJournal \<Rightarrow> (Inr (), d\<lparr>wd_journal := JournalDirectory []\<rparr>)
      | DanglingJournal \<Rightarrow> (Inl (Io AlreadyExists), d)
      | NotAJournal \<Rightarrow> (Inl (RecoveryRequired ''transaction journal root is not a private directory''), d)
      | JournalDirectory _ \<Rightarrow> (Inr (), d) of
      (Inl _, d') \<Rightarrow> P d' | (Inr _, d') \<Rightarrow> P d'"
    using about_same_files [OF P d, of "d\<lparr>wd_journal := JournalDirectory []\<rparr>"]
    by (auto simp: same_files_def tidy_def tidy_names_def manifest_node_def split: journal_root.splits)
qed simp_all

text \<open>The manifest that is read is the one that the journal holds.\<close>

lemma dt_read_manifest:
  assumes P: "about X P"
  shows "disk_triple (footprint X) P (read_workspace_transaction_manifest (tx_host X) (tx_json X) (manifest_name X))
    (\<lambda>m d. P d \<and> logged X m d) P"
proof -
  let ?read = "\<lambda>t. (case bt_get t (manifest_name X) of
         None \<Rightarrow> Inl NotFound
       | Some SymbolicLink \<Rightarrow> Inl (OtherIoError ''too many levels of symbolic links'')
       | Some node \<Rightarrow> Inr node, t)"
  have call: "disk_triple (footprint X) P (map_error_step Io (journal_call ?read))
      (\<lambda>node d. P d \<and> manifest_node X d = Some node) P"
  proof (rule dt_map_error, rule dt_journal_call [OF about_steady [OF P]])
    fix d r d'
    assume d: "P d" and r: "on_journal ?read d = (r, d')"
    have "d' = d" using r by (auto simp: on_journal_def split: journal_root.splits)
    moreover have "manifest_node X d = Some node" if "r = Inr node" for node
      using r that by (auto simp: on_journal_def manifest_node_def split: journal_root.splits option.splits disk_node.splits)
    ultimately show "case r of Inl _ \<Rightarrow> P d' | Inr node \<Rightarrow> P d' \<and> manifest_node X d' = Some node"
      using d by (cases r) auto
  qed auto
  show ?thesis
    unfolding read_workspace_transaction_manifest_def
  proof (rule dt_bind [OF call])
    fix node
    show "disk_triple (footprint X) (\<lambda>d. P d \<and> manifest_node X d = Some node) (case node of
         RegularFile bs _ \<Rightarrow>
           (if length bs > MAX_WORKSPACE_TRANSACTION_MANIFEST_BYTES
            then fail_step (RecoveryRequired ''transaction manifest is not a bounded regular file'')
            else bind_step (lift_step (map_err (\<lambda>error. RecoveryRequired
                (''transaction manifest is invalid JSON: '' @ error)) (mj_from_slice (tx_json X) bs))) (\<lambda>m.
              then_step (lift_step (validate_workspace_transaction_manifest (tx_host X) m)) (return_step m)))
       | _ \<Rightarrow> fail_step (RecoveryRequired ''transaction manifest is not a bounded regular file''))
      (\<lambda>m d. P d \<and> logged X m d) P"
    proof (cases node)
      case (RegularFile bs mode)
      let ?P = "\<lambda>d. P d \<and> manifest_node X d = Some node"
      have "disk_triple (footprint X) ?P (lift_step (map_err f (mj_from_slice (tx_json X) bs))) (\<lambda>m d. P d \<and> logged X m d) P" for f
        by (rule dt_lift) (auto simp: map_err_Inr_iff logged_reads reads_as_def RegularFile dest: aboutD(1) [OF P])
      moreover have "disk_triple (footprint X) (\<lambda>d. P d \<and> logged X m d)
          (then_step (lift_step (validate_workspace_transaction_manifest (tx_host X) m)) (return_step m)) (\<lambda>m d. P d \<and> logged X m d) P" for m
        by (rule dt_then [OF dt_lift [where Q = "\<lambda>_ d. P d \<and> logged X m d"] dt_return]) auto
      ultimately show ?thesis unfolding RegularFile by (auto intro!: dt_fail dt_bind)
    qed (auto intro: dt_fail)
  qed
qed

lemma logged_unique: "logged X m d \<Longrightarrow> logged X n d \<Longrightarrow> m = n"
  by (auto simp: logged_def)

lemma agrees_phase: "agrees X d \<Longrightarrow> logged X m d \<Longrightarrow> phase_holds X m d"
  by (auto simp: agrees_def logged_reads reads_as_def)

lemma settled_phase: "settled X outcome d \<Longrightarrow> logged X m d \<Longrightarrow> phase_holds X m d
    \<and> wtm_phase m = (case outcome of OutcomeCommitted \<Rightarrow> Committed | OutcomeRolledBack \<Rightarrow> RolledBack)"
  using logged_unique unfolding settled_def by metis

text \<open>
  A report on the way: nothing was reported yet, or the transaction has come to the end that
  every receipt names.
\<close>

definition reported :: "transaction \<Rightarrow> workspace_transaction_outcome \<Rightarrow> workspace_recovery_report \<Rightarrow> bool" where
  "reported X outcome report \<longleftrightarrow> list_all (\<lambda>receipt. wtr_outcome receipt = outcome) (wrr_receipts report)"

definition reporting :: "transaction \<Rightarrow> workspace_recovery_report \<Rightarrow> workspace_disk \<Rightarrow> bool" where
  "reporting X report d \<longleftrightarrow> wrr_receipts report = [] \<and> agrees X d
     \<or> (\<exists>outcome. settled X outcome d \<and> reported X outcome report)"

lemma reported_blocked [simp]: "reported X outcome (blocked reason report) = reported X outcome report"
  "wrr_receipts (blocked reason report) = wrr_receipts report"
  by (simp_all add: reported_def blocked_def)

lemma reported_receipt [simp]:
  "reported X outcome (report\<lparr>wrr_receipts := wrr_receipts report @ [receipt]\<rparr>)
    \<longleftrightarrow> reported X outcome report \<and> wtr_outcome receipt = outcome"
  by (auto simp: reported_def)

text \<open>
  The two ways a manifest is met: the transaction may be anywhere, and nothing was reported; or
  it is settled, and stays so.
\<close>

lemma dt_recover_manifest_of:
  assumes P: "about X P" and Q: "\<And>reason d. P d \<Longrightarrow> Q (blocked reason report) d"
    and recover: "\<And>m. disk_triple (footprint X) (\<lambda>d. P d \<and> logged X m d)
      (recover_workspace_transaction (tx_host X) (tx_json X) m)
      (\<lambda>receipt d. Q (report\<lparr>wrr_receipts := wrr_receipts report @ [receipt]\<rparr>) d) P"
  shows "disk_triple (footprint X) P (recover_manifest (tx_host X) (tx_json X) (manifest_name X) i report) Q E"
  unfolding recover_manifest_def
proof (rule dt_bind)
  show "disk_triple (footprint X) P (attempt_step (read_workspace_transaction_manifest (tx_host X) (tx_json X) (manifest_name X)))
      (\<lambda>r d. case r of Inl _ \<Rightarrow> P d | Inr m \<Rightarrow> P d \<and> logged X m d) E"
    by (rule dt_attempt [where E' = P], rule dt_conseq [OF dt_read_manifest [OF P]]) auto
  fix r
  have again: "disk_triple (footprint X) (\<lambda>d. P d \<and> logged X m d)
      (bind_step (attempt_step (recover_workspace_transaction (tx_host X) (tx_json X) m)) (\<lambda>recovered. case recovered of
          Inr receipt \<Rightarrow> return_step (report\<lparr>wrr_receipts := wrr_receipts report @ [receipt]\<rparr>)
        | Inl error \<Rightarrow> return_step (blocked (reason error) report))) Q E" for m reason
  proof (rule dt_bind)
    show "disk_triple (footprint X) (\<lambda>d. P d \<and> logged X m d)
        (attempt_step (recover_workspace_transaction (tx_host X) (tx_json X) m)) (\<lambda>r d. case r of
          Inl _ \<Rightarrow> P d | Inr receipt \<Rightarrow> Q (report\<lparr>wrr_receipts := wrr_receipts report @ [receipt]\<rparr>) d) E"
      by (rule dt_attempt [where E' = P], rule dt_conseq [OF recover]) auto
    fix r
    show "disk_triple (footprint X)
        (\<lambda>d. case r of Inl _ \<Rightarrow> P d | Inr receipt \<Rightarrow> Q (report\<lparr>wrr_receipts := wrr_receipts report @ [receipt]\<rparr>) d)
        (case r of Inr receipt \<Rightarrow> return_step (report\<lparr>wrr_receipts := wrr_receipts report @ [receipt]\<rparr>)
          | Inl error \<Rightarrow> return_step (blocked (reason error) report)) Q E"
      by (cases r) (auto intro: dt_return Q)
  qed
  show "disk_triple (footprint X) (\<lambda>d. case r of Inl _ \<Rightarrow> P d | Inr m \<Rightarrow> P d \<and> logged X m d) (case r of
         Inl error \<Rightarrow> return_step (blocked
           (''workspace transaction manifest '' @ manifest_name X @ '' is unreadable: '' @ apply_error_text (tx_host X) error) report)
       | Inr m \<Rightarrow>
           (if wtm_transaction_id m \<noteq> i
            then return_step (blocked (''workspace transaction manifest id does not match '' @ manifest_name X) report)
            else bind_step (attempt_step (recover_workspace_transaction (tx_host X) (tx_json X) m)) (\<lambda>recovered. case recovered of
                Inr receipt \<Rightarrow> return_step (report\<lparr>wrr_receipts := wrr_receipts report @ [receipt]\<rparr>)
              | Inl error \<Rightarrow> return_step (blocked (''workspace transaction '' @ wh_uuid_text (tx_host X) (wtm_transaction_id m)
                  @ '' requires manual recovery: '' @ apply_error_text (tx_host X) error) report)))) Q E"
    by (cases r) (auto intro: dt_return Q again)
qed

lemma dt_recover_manifest_open:
  assumes X: "transaction_ok X" and "wrr_receipts report = []"
  shows "disk_triple (footprint X) (agrees X)
    (recover_manifest (tx_host X) (tx_json X) (manifest_name X) i report) (reporting X) E"
proof (rule dt_recover_manifest_of [OF about_agrees])
  show "disk_triple (footprint X) (\<lambda>d. agrees X d \<and> logged X m d) (recover_workspace_transaction (tx_host X) (tx_json X) m)
      (\<lambda>receipt. reporting X (report\<lparr>wrr_receipts := wrr_receipts report @ [receipt]\<rparr>)) (agrees X)" for m
    by (rule dt_conseq [OF dt_recover [OF X]]) (auto simp: agrees_phase truthful_def reporting_def reported_def assms(2))
qed (simp add: reporting_def assms(2))

lemma dt_recover_manifest_settled:
  assumes X: "transaction_ok X" and report: "reported X outcome report"
  shows "disk_triple (footprint X) (settled X outcome)
    (recover_manifest (tx_host X) (tx_json X) (manifest_name X) i report)
    (\<lambda>report d. settled X outcome d \<and> reported X outcome report) E"
proof (rule dt_recover_manifest_of [OF about_settled])
  show "disk_triple (footprint X) (\<lambda>d. settled X outcome d \<and> logged X m d) (recover_workspace_transaction (tx_host X) (tx_json X) m)
      (\<lambda>receipt d. settled X outcome d \<and> reported X outcome (report\<lparr>wrr_receipts := wrr_receipts report @ [receipt]\<rparr>))
      (settled X outcome)" for m
  proof (rule dt_known)
    show "wtm_phase m = (case outcome of OutcomeCommitted \<Rightarrow> Committed | OutcomeRolledBack \<Rightarrow> RolledBack)"
      if "settled X outcome d \<and> logged X m d" for d
      using that settled_phase by blast
    show "disk_triple (footprint X) (\<lambda>d. settled X outcome d \<and> logged X m d) (recover_workspace_transaction (tx_host X) (tx_json X) m)
        (\<lambda>receipt d. settled X outcome d \<and> reported X outcome (report\<lparr>wrr_receipts := wrr_receipts report @ [receipt]\<rparr>))
        (settled X outcome)"
      if "wtm_phase m = (case outcome of OutcomeCommitted \<Rightarrow> Committed | OutcomeRolledBack \<Rightarrow> RolledBack)"
      by (rule dt_conseq [OF dt_recover_settled [OF X that]]) (auto simp: report dest: settled_phase)
  qed
qed (simp add: report)

lemma dt_recover_entry_of:
  assumes P: "about X P" and Q: "\<And>d. P d \<Longrightarrow> Q report d" "\<And>reason d. P d \<Longrightarrow> Q (blocked reason report) d"
    and name: "name = manifest_name X \<or> temporary_name name"
    and recover: "\<And>i. disk_triple (footprint X) P (recover_manifest (tx_host X) (tx_json X) (manifest_name X) i report) Q E"
  shows "disk_triple (footprint X) P (recover_entry (tx_host X) (tx_json X) name report) Q E"
proof (cases "temporary_name name")
  case True
  have "disk_triple (footprint X) P (bind_step (attempt_step (journal_call (journal_remove name))) (\<lambda>r. case r of
            Inl error \<Rightarrow> return_step (if error \<noteq> NotFound then blocked (reason error) report else report)
          | Inr _ \<Rightarrow> return_step report)) Q E" for reason
  proof (rule dt_bind [OF dt_remove_temporary [OF P True]])
    show "disk_triple (footprint X) P (case r of
            Inl error \<Rightarrow> return_step (if error \<noteq> NotFound then blocked (reason error) report else report)
          | Inr _ \<Rightarrow> return_step report) Q E" for r :: "io_error + unit"
      by (cases r) (auto intro: dt_return Q)
  qed
  then show ?thesis
    using True unfolding recover_entry_def temporary_name_def by (auto intro: dt_return Q)
next
  case False
  then have "name = manifest_name X" using name by simp
  then show ?thesis
    using False recover unfolding recover_entry_def temporary_name_def by (auto intro!: dt_return Q split: option.split)
qed

lemma dt_or:
  assumes "disk_triple A P m Q E" and "disk_triple A P' m Q E"
  shows "disk_triple A (\<lambda>d. P d \<or> P' d) m Q E"
  unfolding disk_triple_def
proof (rule tripleI)
  fix s
  assume "holds A (\<lambda>d. P d \<or> P' d) s"
  then consider "holds A P s" | "holds A P' s" by (auto simp: holds_def)
  then show "holds A (Q a) t" if "m s = (Inr a, t)" for a t
    using that assms by cases (auto simp: disk_triple_def dest: triple_Inr)
  show "holds A E t" if "m s = (Inl e, t)" for e t
    using that assms \<open>holds A (\<lambda>d. P d \<or> P' d) s\<close> by (auto simp: disk_triple_def holds_def dest: triple_Inl)
qed

lemma dt_recover_entry:
  assumes X: "transaction_ok X" and name: "name = manifest_name X \<or> temporary_name name"
  shows "disk_triple (footprint X) (reporting X report) (recover_entry (tx_host X) (tx_json X) name report) (reporting X) E"
    and "reported X outcome report \<Longrightarrow> disk_triple (footprint X) (settled X outcome)
      (recover_entry (tx_host X) (tx_json X) name report) (\<lambda>report d. settled X outcome d \<and> reported X outcome report) E"
proof -
  have settled: "disk_triple (footprint X) (settled X outcome)
      (recover_entry (tx_host X) (tx_json X) name report) (\<lambda>report d. settled X outcome d \<and> reported X outcome report) E"
    if "reported X outcome report" for outcome
    using that by (intro dt_recover_entry_of [OF about_settled _ _ name dt_recover_manifest_settled [OF X that]]) auto
  then show "reported X outcome report \<Longrightarrow> disk_triple (footprint X) (settled X outcome)
      (recover_entry (tx_host X) (tx_json X) name report) (\<lambda>report d. settled X outcome d \<and> reported X outcome report) E" .
  have open_case: "disk_triple (footprint X) (\<lambda>d. wrr_receipts report = [] \<and> agrees X d)
      (recover_entry (tx_host X) (tx_json X) name report) (reporting X) E"
    by (rule dt_fact, rule dt_recover_entry_of [OF about_agrees _ _ name dt_recover_manifest_open [OF X]])
      (auto simp: reporting_def)
  have "disk_triple (footprint X) (\<lambda>d. reported X outcome report \<and> settled X outcome d)
      (recover_entry (tx_host X) (tx_json X) name report) (reporting X) E" for outcome
    by (rule dt_fact, rule dt_conseq [OF settled]) (auto simp: reporting_def)
  then have "disk_triple (footprint X) (\<lambda>d. \<exists>outcome. reported X outcome report \<and> settled X outcome d)
      (recover_entry (tx_host X) (tx_json X) name report) (reporting X) E" by (rule dt_ex)
  then show "disk_triple (footprint X) (reporting X report) (recover_entry (tx_host X) (tx_json X) name report) (reporting X) E"
    by (rule dt_pre [OF dt_or [OF open_case]]) (auto simp: reporting_def)
qed

lemma dt_recover_entries:
  assumes X: "transaction_ok X" and names: "\<forall>name \<in> set names. name = manifest_name X \<or> temporary_name name"
  shows "disk_triple (footprint X) (reporting X report) (recover_entries (tx_host X) (tx_json X) names report) (reporting X) E"
    and "reported X outcome report \<Longrightarrow> disk_triple (footprint X) (settled X outcome)
      (recover_entries (tx_host X) (tx_json X) names report) (\<lambda>report d. settled X outcome d \<and> reported X outcome report) E"
proof -
  show "disk_triple (footprint X) (reporting X report) (recover_entries (tx_host X) (tx_json X) names report) (reporting X) E"
    using names by (induction names arbitrary: report) (auto intro: dt_return dt_bind dt_recover_entry(1) [OF X])
  show "reported X outcome report \<Longrightarrow> disk_triple (footprint X) (settled X outcome)
      (recover_entries (tx_host X) (tx_json X) names report) (\<lambda>report d. settled X outcome d \<and> reported X outcome report) E"
    using names
  proof (induction names arbitrary: report)
    case (Cons name names)
    have "disk_triple (footprint X) (\<lambda>d. settled X outcome d \<and> reported X outcome report)
        (recover_entries (tx_host X) (tx_json X) names report) (\<lambda>report d. settled X outcome d \<and> reported X outcome report) E" for report
      by (rule dt_known [where c = "reported X outcome report"], simp, rule dt_pre [OF Cons.IH]) (use Cons.prems in auto)
    then show ?case
      using Cons.prems by (auto intro: dt_bind dt_recover_entry(2) [OF X])
  qed (auto intro: dt_return)
qed

text \<open>The whole recovery: it fails, or it reports.\<close>

lemma dt_recover_all:
  assumes X: "transaction_ok X" and P: "about X P"
    and entries: "\<And>names. \<forall>name \<in> set names. name = manifest_name X \<or> temporary_name name \<Longrightarrow>
      disk_triple (footprint X) P (recover_entries (tx_host X) (tx_json X) names \<lparr>wrr_receipts = [], wrr_blocked = []\<rparr>) Q P"
    and Q: "\<And>report. steady (footprint X) (Q report)" "\<And>report d. Q report d \<Longrightarrow> P d"
  shows "disk_triple (footprint X) P (recover_workspace_transactions (tx_host X) (tx_json X)) Q P"
  unfolding recover_workspace_transactions_def
proof (rule dt_then [OF dt_about_root [OF P]], rule dt_bind)
  let ?names = "\<lambda>t :: (string, disk_node) btree. (Inr (map fst t) :: io_error + string list, t)"
  show "disk_triple (footprint X) P (map_error_step Io (journal_call ?names))
      (\<lambda>names d. (\<forall>name \<in> set names. name = manifest_name X \<or> temporary_name name) \<and> P d) P"
  proof (rule dt_map_error, rule dt_journal_call [OF about_steady [OF P]])
    fix d r d'
    assume d: "P d" and r: "on_journal ?names d = (r, d')"
    have "d' = d" using r by (auto simp: on_journal_def split: journal_root.splits)
    moreover have "\<forall>name \<in> set names. name = manifest_name X \<or> temporary_name name" if "r = Inr names" for names
      using r that aboutD(1) [OF P d] by (auto simp: on_journal_def tidy_def tidy_names_def split: journal_root.splits)
    ultimately show "case r of Inl _ \<Rightarrow> P d'
        | Inr names \<Rightarrow> (\<forall>name \<in> set names. name = manifest_name X \<or> temporary_name name) \<and> P d'"
      using d by (cases r) auto
  qed auto
  show "disk_triple (footprint X) (\<lambda>d. (\<forall>name \<in> set names. name = manifest_name X \<or> temporary_name name) \<and> P d)
      (bind_step (recover_entries (tx_host X) (tx_json X) names \<lparr>wrr_receipts = [], wrr_blocked = []\<rparr>)
        (\<lambda>report. then_step sync_all (return_step report))) Q P" for names
    by (rule dt_fact, rule dt_bind [OF entries], assumption, rule dt_then [OF dt_sync_all [OF Q(1)]], erule Q(2), rule dt_return)
qed

lemma about_reporting: "about X (reporting X report)"
proof -
  note agrees = about_agrees [of X, unfolded about_def]
  note settled = about_settled [of X, unfolded about_def]
  show ?thesis using agrees settled unfolding about_def reporting_def by (meson settled_agrees)
qed

lemma dt_recover_transactions:
  assumes X: "transaction_ok X"
  shows "disk_triple (footprint X) (agrees X) (recover_workspace_transactions (tx_host X) (tx_json X)) (reporting X) (agrees X)"
    and "disk_triple (footprint X) (settled X outcome) (recover_workspace_transactions (tx_host X) (tx_json X))
      (\<lambda>report d. settled X outcome d \<and> reported X outcome report) (settled X outcome)"
proof -
  let ?start = "\<lparr>wrr_receipts = [], wrr_blocked = []\<rparr>"
  show "disk_triple (footprint X) (agrees X) (recover_workspace_transactions (tx_host X) (tx_json X)) (reporting X) (agrees X)"
  proof (rule dt_recover_all [OF X about_agrees])
    show "disk_triple (footprint X) (agrees X) (recover_entries (tx_host X) (tx_json X) names ?start) (reporting X) (agrees X)"
      if "\<forall>name \<in> set names. name = manifest_name X \<or> temporary_name name" for names
      by (rule dt_pre [OF dt_recover_entries(1) [OF X that]]) (simp add: reporting_def)
  qed (auto simp: about_steady about_reporting reporting_def intro: settled_agrees)
  show "disk_triple (footprint X) (settled X outcome) (recover_workspace_transactions (tx_host X) (tx_json X))
      (\<lambda>report d. settled X outcome d \<and> reported X outcome report) (settled X outcome)"
    by (intro dt_recover_all [OF X about_settled] dt_recover_entries(2) [OF X] steady_parts about_steady about_settled)
      (auto simp: reported_def)
qed

text \<open>Any number of recoveries, each with faults of its own, finished or not.\<close>

inductive recoveries :: "transaction \<Rightarrow> workspace_disk \<Rightarrow> workspace_disk \<Rightarrow> bool" for X d where
  no_recovery: "recoveries X d d"
| one_more: "recoveries X d (aw_disk w) \<Longrightarrow> calm (footprint X) (aw_faults w) \<Longrightarrow>
    recover_workspace_transactions (tx_host X) (tx_json X) w = (r, w') \<Longrightarrow> recoveries X d (aw_disk w')"

lemma recoveries_keep:
  assumes "recoveries X d e" and "P d"
    and "disk_triple (footprint X) P (recover_workspace_transactions (tx_host X) (tx_json X)) (\<lambda>_. P) P"
  shows "P e"
  using assms
proof (induction rule: recoveries.induct)
  case (one_more w r w')
  then have "holds (footprint X) P w" by (simp add: holds_def)
  then have "holds (footprint X) P w'"
    using one_more.prems(2) one_more.hyps(3) by (cases r) (auto simp: disk_triple_def dest: triple_Inr triple_Inl)
  then show ?case by (simp add: holds_def)
qed simp

lemma reporting_agrees: "reporting X report d \<Longrightarrow> agrees X d"
  by (auto simp: reporting_def intro: settled_agrees)

lemma recoveries_agree: "transaction_ok X \<Longrightarrow> recoveries X d e \<Longrightarrow> agrees X d \<Longrightarrow> agrees X e"
  by (erule recoveries_keep, assumption, rule dt_conseq [OF dt_recover_transactions(1)]) (auto intro: reporting_agrees)

lemma recoveries_settled: "transaction_ok X \<Longrightarrow> recoveries X d e \<Longrightarrow> settled X outcome d \<Longrightarrow> settled X outcome e"
  by (erule recoveries_keep, assumption, rule dt_conseq [OF dt_recover_transactions(2)]) auto

lemma recovery_run:
  assumes "transaction_ok X" and "calm (footprint X) (aw_faults w)"
    and "recover_workspace_transactions (tx_host X) (tx_json X) w = (Inr report, w')"
  shows "agrees X (aw_disk w) \<Longrightarrow> reporting X report (aw_disk w')"
    and "settled X outcome (aw_disk w) \<Longrightarrow> settled X outcome (aw_disk w') \<and> reported X outcome report"
  using assms(2) triple_Inr [OF dt_recover_transactions(1) [OF assms(1), unfolded disk_triple_def] _ assms(3)]
    triple_Inr [OF dt_recover_transactions(2) [OF assms(1), unfolded disk_triple_def] _ assms(3)]
  by (simp_all add: holds_def)

definition result_outcome :: "durable_workspace_apply_result \<Rightarrow> workspace_transaction_outcome" where
  "result_outcome result = (case result of CommittedResult _ \<Rightarrow> OutcomeCommitted | RolledBackResult _ \<Rightarrow> OutcomeRolledBack)"

lemma result_true_settled: "result_true X result d \<Longrightarrow> settled X (result_outcome result) d"
  by (auto simp: result_true_def truthful_def result_outcome_def split: durable_workspace_apply_result.splits)

end
