(* ===== verification/Workspace_Applied.thy ===== *)
theory Workspace_Applied
  imports Workspace_Atomicity "HOL-Library.Code_Target_Nat"
begin

text \<open>
  The promises of a durable transaction, and an example of one: a file is replaced, without a
  fault and with a process that dies while it commits.
\<close>

section \<open>The promises\<close>

text \<open>
  C4. Whatever fails, an application that says \<open>Committed\<close> has left the proposal at every
  target, one that says \<open>RolledBack\<close> has left every target as it was, and one that fails has
  left a journal that agrees with the disk.
\<close>

theorem durable_apply_tells_the_truth:
  assumes "transaction_ok (transaction_of H J set_plan w)" and "unlogged (transaction_of H J set_plan w) (aw_disk w)"
    and "calm (footprint (transaction_of H J set_plan w)) (aw_faults w)"
  shows "case apply_workspace_set_plan_durable H J task set_plan w of
      (Inr result, w') \<Rightarrow> outcome_true (transaction_of H J set_plan w) (result_outcome result) (aw_disk w')
    | (Inl _, w') \<Rightarrow> agrees (transaction_of H J set_plan w) (aw_disk w')"
  using apply_durable [OF assms, of task] settled_outcome [OF result_true_settled]
  by (auto split: prod.splits sum.splits)

text \<open>
  C3. After an application that failed or whose process died at any moment, and after any
  number of recoveries that failed or died in turn, a recovery that reports an outcome tells the
  truth: every target is the proposal, or every target is what it was before the application.
\<close>

theorem recovery_is_all_or_nothing:
  assumes "transaction_ok (transaction_of H J set_plan w)" and "unlogged (transaction_of H J set_plan w) (aw_disk w)"
    and "calm (footprint (transaction_of H J set_plan w)) (aw_faults w)"
    and "apply_workspace_set_plan_durable H J task set_plan w = (r, w1)"
    and "recoveries (transaction_of H J set_plan w) (aw_disk w1) (aw_disk w2)"
    and "calm (footprint (transaction_of H J set_plan w)) (aw_faults w2)"
    and "recover_workspace_transactions H J w2 = (Inr report, w3)"
  shows "list_all (\<lambda>receipt. outcome_true (transaction_of H J set_plan w) (wtr_outcome receipt) (aw_disk w3)) (wrr_receipts report)"
proof -
  let ?X = "transaction_of H J set_plan w"
  have "agrees ?X (aw_disk w1)"
    using apply_durable [OF assms(1-3), of task] assms(4) settled_agrees [OF result_true_settled] by (cases r) auto
  then have "agrees ?X (aw_disk w2)" using recoveries_agree [OF assms(1,5)] by blast
  then have "reporting ?X report (aw_disk w3)" using recovery_run(1) [OF assms(1,6)] assms(7) by simp
  then show ?thesis by (auto simp: reporting_def reported_def list_all_iff intro: settled_outcome)
qed

text \<open>
  C5. A result is final: after an application that gave one, no recovery, interrupted or not,
  reports another outcome, and the targets stay as that outcome says.
\<close>

theorem durable_result_is_final:
  assumes "transaction_ok (transaction_of H J set_plan w)" and "unlogged (transaction_of H J set_plan w) (aw_disk w)"
    and "calm (footprint (transaction_of H J set_plan w)) (aw_faults w)"
    and "apply_workspace_set_plan_durable H J task set_plan w = (Inr result, w1)"
    and "recoveries (transaction_of H J set_plan w) (aw_disk w1) (aw_disk w2)"
    and "calm (footprint (transaction_of H J set_plan w)) (aw_faults w2)"
    and "recover_workspace_transactions H J w2 = (Inr report, w3)"
  shows "list_all (\<lambda>receipt. wtr_outcome receipt = result_outcome result) (wrr_receipts report)
    \<and> outcome_true (transaction_of H J set_plan w) (result_outcome result) (aw_disk w3)"
proof -
  let ?X = "transaction_of H J set_plan w"
  have "settled ?X (result_outcome result) (aw_disk w1)"
    using apply_durable(2) [OF assms(1-4)] by (rule result_true_settled)
  then have "settled ?X (result_outcome result) (aw_disk w2)" using recoveries_settled [OF assms(1,5)] by blast
  then show ?thesis
    using recovery_run(2) [OF assms(1,6)] assms(7) by (auto simp: reported_def intro: settled_outcome)
qed

section \<open>An example\<close>

text \<open>The digests of the example are two constants, with their text in hexadecimal.\<close>

definition sample_ones :: bytes where "sample_ones = [0x11, 0x11, 0x11, 0x11, 0x11, 0x11, 0x11, 0x11, 0x11, 0x11, 0x11, 0x11, 0x11, 0x11, 0x11, 0x11, 0x11, 0x11, 0x11, 0x11, 0x11, 0x11, 0x11, 0x11, 0x11, 0x11, 0x11, 0x11, 0x11, 0x11, 0x11, 0x11]"
definition sample_twos :: bytes where "sample_twos = [0x22, 0x22, 0x22, 0x22, 0x22, 0x22, 0x22, 0x22, 0x22, 0x22, 0x22, 0x22, 0x22, 0x22, 0x22, 0x22, 0x22, 0x22, 0x22, 0x22, 0x22, 0x22, 0x22, 0x22, 0x22, 0x22, 0x22, 0x22, 0x22, 0x22, 0x22, 0x22]"
definition sample_text_ones :: string where "sample_text_ones = ''1111111111111111111111111111111111111111111111111111111111111111''"
definition sample_text_twos :: string where "sample_text_twos = ''2222222222222222222222222222222222222222222222222222222222222222''"
definition sample_names :: "(file_id \<times> string) list" where
  "sample_names = [((1, 2), ''a''), ((1, 2), ''.hyper-term-apply-u-0.tmp''), ((1, 2), ''.hyper-term-apply-u-0.base'')]"

definition sample_host :: apply_host where
  "sample_host = \<lparr>wh_workspace = ''/w'', wh_symlink_metadata = (\<lambda>_. None), wh_canonicalize = Some,
     wh_metadata = (\<lambda>_. Some \<lparr>pm_is_symlink = False, pm_is_dir = True, pm_id = (1, 2)\<rparr>), wh_open_directory = (\<lambda>_. Some (1, 2)),
     wh_fresh_inode = (\<lambda>d device. hd (filter (\<lambda>i. list_all (\<lambda>l. wd_entries d l \<noteq> Some i) sample_names) [5, 6, 7, 8])),
     wh_stage_mode = 0x8180, wh_macos = False, wh_new_uuid = (\<lambda>n. of_nat n), wh_io_text = (\<lambda>_. ''failed''),
     wh_sha256 = (\<lambda>bs. if bs = [120] then sample_ones else sample_twos), wh_base64_encode = (\<lambda>_. []), wh_base64_decode = (\<lambda>_. None),
     wh_uuid_text = (\<lambda>_. ''u''), wh_uuid_parse = (\<lambda>_. Some 0)\<rparr>"

definition sample_plan :: workspace_apply_plan where
  "sample_plan = \<lparr>wap_target_path = ''a'', wap_proposed_content = ''yy'', wap_proposed_binary_base64 = None,
     wap_proposed_digest = sample_text_twos, wap_delete = False,
     wap_base = Some \<lparr>wfs_content = ''x'', wfs_binary_bytes = None, wfs_digest = sample_text_ones,
       wfs_device = 1, wfs_inode = 3, wfs_mode = 0x81A4\<rparr>, wap_parent_device = 1, wap_parent_inode = 2\<rparr>"

definition sample_set :: workspace_apply_set_plan where
  "sample_set = \<lparr>was_plans = [sample_plan], was_result_digest = sample_text_twos\<rparr>"

definition sample_task :: workspace_transaction_context where
  "sample_task = \<lparr>wtc_task_id = TaskId 1, wtc_operation_id = OperationId 2, wtc_operation_revision = 3\<rparr>"

definition sample_world :: "fault list \<Rightarrow> apply_world" where
  "sample_world faults = \<lparr>aw_disk = \<lparr>wd_entries = (\<lambda>_. None)(((1, 2), ''a'') := Some 3),
     wd_nodes = (\<lambda>_. None)((1, 3) := Some (RegularFile [120] 0x81A4)), wd_journal = NoJournal\<rparr>,
     aw_faults = faults, aw_drawn = 0\<rparr>"

definition sample_manifest :: workspace_transaction_manifest where
  "sample_manifest = new_manifest sample_host 0 sample_task sample_set"

definition sample_prepared :: workspace_transaction_manifest where
  "sample_prepared = sample_manifest\<lparr>wtm_phase := Prepared, wtm_members := map (\<lambda>x. x\<lparr>
     wtx_staged := Some \<lparr>wri_digest = sample_text_twos, wri_device = 1, wri_inode = 5, wri_mode = 0x81A4\<rparr>,
     wtx_backup := wtx_base x\<rparr>) (wtm_members sample_manifest)\<rparr>"

definition sample_json :: manifest_json where
  "sample_json = \<lparr>
     mj_to_vec = (\<lambda>m. case wtm_phase m of
         Preparing \<Rightarrow> if m = sample_manifest then Inr [0] else Inl ''unknown''
       | Prepared \<Rightarrow> if m = sample_prepared then Inr [1] else Inl ''unknown''
       | Committed \<Rightarrow> if m = sample_prepared\<lparr>wtm_phase := Committed\<rparr> then Inr [2] else Inl ''unknown''
       | _ \<Rightarrow> Inl ''unknown''),
     mj_from_slice = (\<lambda>bs. if bs = [0] then Inr sample_manifest else if bs = [1] then Inr sample_prepared
       else if bs = [2] then Inr (sample_prepared\<lparr>wtm_phase := Committed\<rparr>) else Inl ''unknown'')\<rparr>"

lemma sample_hex: "hex_lower (sample_ones) = sample_text_ones" "hex_lower (sample_twos) = sample_text_twos"
  by code_simp+

lemma hex_lower_sample [code]: "hex_lower bs = (if bs = sample_ones then sample_text_ones
   else if bs = sample_twos then sample_text_twos else concat (map hex_byte bs))"
  by (simp add: sample_hex) (simp add: hex_lower_def)

lemma sample_committed:
  "case apply_workspace_set_plan_durable sample_host sample_json sample_task sample_set (sample_world []) of
      (Inr (CommittedResult receipt), w1) \<Rightarrow>
        (case recover_workspace_transactions sample_host sample_json (w1\<lparr>aw_faults := []\<rparr>) of
           (Inr report, w3) \<Rightarrow> map wtr_outcome (wrr_receipts report) = [OutcomeCommitted]
         | _ \<Rightarrow> False)
    | _ \<Rightarrow> False"
  by code_simp

definition sample_crash :: "fault list" where
  "sample_crash = replicate 38 Works @ replicate 15 (Fails 0 [])"

lemma sample_crashed:
  "case apply_workspace_set_plan_durable sample_host sample_json sample_task sample_set (sample_world sample_crash) of
      (Inl error, w1) \<Rightarrow>
        (case recover_workspace_transactions sample_host sample_json (w1\<lparr>aw_faults := []\<rparr>) of
           (Inr report, w3) \<Rightarrow> map wtr_outcome (wrr_receipts report) = [OutcomeCommitted]
         | _ \<Rightarrow> False)
    | _ \<Rightarrow> False"
  by code_simp

lemma sample_transaction:
  "transaction_of sample_host sample_json sample_set (sample_world faults) = transaction_of sample_host sample_json sample_set (sample_world [])"
  by (simp add: transaction_of_def sample_world_def)

lemma sample_locations:
  "map locations (tx_members (transaction_of sample_host sample_json sample_set (sample_world []))) = [sample_names]"
  by code_simp

lemma sample_free: "\<exists>i \<in> {5, 6, 7, 8 :: u64}. a \<noteq> Some i \<and> b \<noteq> Some i \<and> c \<noteq> Some i"
  by (cases a; cases b; cases c) auto

lemma sample_fresh: "fresh_inodes (set sample_names) sample_host"
  unfolding fresh_inodes_def
proof (intro allI ballI)
  fix d :: workspace_disk and l
  assume l: "l \<in> set sample_names"
  let ?free = "filter (\<lambda>i. list_all (\<lambda>l. wd_entries d l \<noteq> Some i) sample_names) [5, 6, 7, 8]"
  have "?free \<noteq> []"
    using sample_free [of "wd_entries d (sample_names ! 0)" "wd_entries d (sample_names ! 1)" "wd_entries d (sample_names ! 2)"]
    unfolding sample_names_def filter_empty_conv by auto
  then have "hd ?free \<in> set ?free" by (rule hd_in_set)
  then have "list_all (\<lambda>l. wd_entries d l \<noteq> Some (hd ?free)) sample_names" unfolding set_filter by blast
  then show "wd_entries d l \<noteq> Some (wh_fresh_inode sample_host d (fst (fst l)))"
    using l by (simp add: sample_host_def list_all_iff)
qed

lemma sample_ok: "transaction_ok (transaction_of sample_host sample_json sample_set (sample_world faults))"
proof -
  let ?X = "transaction_of sample_host sample_json sample_set (sample_world [])"
  have "apart (tx_members ?X)"
    unfolding apart_def sample_locations by (simp add: sample_names_def)
  moreover have "footprint ?X = set sample_names"
    using arg_cong [OF sample_locations, of "\<lambda>xs. \<Union> (set ` set xs)"] by (simp add: footprint_def)
  moreover have "json_roundtrip sample_json"
    by (auto simp: json_roundtrip_def sample_json_def split: workspace_transaction_phase.splits if_splits)
  ultimately show ?thesis
    unfolding sample_transaction [of faults] transaction_ok_def using sample_fresh by simp
qed

lemma sample_unlogged:
  "unlogged (transaction_of sample_host sample_json sample_set (sample_world faults)) (aw_disk (sample_world faults'))"
  by (simp add: unlogged_def tidy_def manifest_node_def sample_world_def)

lemma sample_calm: "calm A []" "calm A sample_crash"
  by (auto simp: calm_def sample_crash_def)

theorem durable_apply_tells_the_truth_witness:
  "case apply_workspace_set_plan_durable sample_host sample_json sample_task sample_set (sample_world []) of
      (Inr (CommittedResult receipt), w') \<Rightarrow>
        outcome_true (transaction_of sample_host sample_json sample_set (sample_world [])) OutcomeCommitted (aw_disk w')
    | _ \<Rightarrow> False"
  using durable_apply_tells_the_truth [OF sample_ok sample_unlogged, of "[]" sample_task] sample_committed
  by (auto simp: sample_calm sample_world_def result_outcome_def split: prod.splits sum.splits durable_workspace_apply_result.splits)

theorem recovery_is_all_or_nothing_witness:
  "case apply_workspace_set_plan_durable sample_host sample_json sample_task sample_set (sample_world sample_crash) of
      (Inl error, w1) \<Rightarrow>
        (case recover_workspace_transactions sample_host sample_json (w1\<lparr>aw_faults := []\<rparr>) of
           (Inr report, w3) \<Rightarrow> map wtr_outcome (wrr_receipts report) = [OutcomeCommitted]
             \<and> outcome_true (transaction_of sample_host sample_json sample_set (sample_world sample_crash)) OutcomeCommitted (aw_disk w3)
         | _ \<Rightarrow> False)
    | _ \<Rightarrow> False"
proof -
  let ?X = "transaction_of sample_host sample_json sample_set (sample_world sample_crash)"
  obtain r w1 where run: "apply_workspace_set_plan_durable sample_host sample_json sample_task sample_set (sample_world sample_crash) = (r, w1)"
    by fastforce
  obtain r' w3 where recovery: "recover_workspace_transactions sample_host sample_json (w1\<lparr>aw_faults := []\<rparr>) = (r', w3)"
    by fastforce
  obtain error report where results: "r = Inl error" "r' = Inr report" "map wtr_outcome (wrr_receipts report) = [OutcomeCommitted]"
    using sample_crashed by (auto simp: run recovery split: sum.splits)
  have "list_all (\<lambda>receipt. outcome_true ?X (wtr_outcome receipt) (aw_disk w3)) (wrr_receipts report)"
  proof (rule recovery_is_all_or_nothing [OF sample_ok sample_unlogged _ run])
    show "calm (footprint ?X) (aw_faults (sample_world sample_crash))" by (simp add: sample_world_def sample_calm)
    show "recoveries ?X (aw_disk w1) (aw_disk (w1\<lparr>aw_faults := []\<rparr>))" by (simp add: no_recovery)
    show "calm (footprint ?X) (aw_faults (w1\<lparr>aw_faults := []\<rparr>))" by (simp add: sample_calm)
    show "recover_workspace_transactions sample_host sample_json (w1\<lparr>aw_faults := []\<rparr>) = (Inr report, w3)"
      using recovery results(2) by simp
  qed
  then show ?thesis using results by (auto simp: run recovery)
qed

theorem durable_result_is_final_witness:
  "case apply_workspace_set_plan_durable sample_host sample_json sample_task sample_set (sample_world []) of
      (Inr (CommittedResult receipt), w1) \<Rightarrow>
        (case recover_workspace_transactions sample_host sample_json (w1\<lparr>aw_faults := []\<rparr>) of
           (Inr report, w3) \<Rightarrow> map wtr_outcome (wrr_receipts report) = [OutcomeCommitted]
             \<and> outcome_true (transaction_of sample_host sample_json sample_set (sample_world [])) OutcomeCommitted (aw_disk w3)
         | _ \<Rightarrow> False)
    | _ \<Rightarrow> False"
proof -
  let ?X = "transaction_of sample_host sample_json sample_set (sample_world [])"
  obtain r w1 where run: "apply_workspace_set_plan_durable sample_host sample_json sample_task sample_set (sample_world []) = (r, w1)"
    by fastforce
  obtain r' w3 where recovery: "recover_workspace_transactions sample_host sample_json (w1\<lparr>aw_faults := []\<rparr>) = (r', w3)"
    by fastforce
  obtain receipt report where results: "r = Inr (CommittedResult receipt)" "r' = Inr report"
      "map wtr_outcome (wrr_receipts report) = [OutcomeCommitted]"
    using sample_committed by (auto simp: run recovery split: sum.splits durable_workspace_apply_result.splits)
  have "outcome_true ?X (result_outcome (CommittedResult receipt)) (aw_disk w3)"
  proof (rule durable_result_is_final [OF sample_ok sample_unlogged, THEN conjunct2])
    show "calm (footprint ?X) (aw_faults (sample_world []))" by (simp add: sample_world_def sample_calm)
    show "apply_workspace_set_plan_durable sample_host sample_json sample_task sample_set (sample_world [])
        = (Inr (CommittedResult receipt), w1)"
      using run results(1) by simp
    show "recoveries ?X (aw_disk w1) (aw_disk (w1\<lparr>aw_faults := []\<rparr>))" by (simp add: no_recovery)
    show "calm (footprint ?X) (aw_faults (w1\<lparr>aw_faults := []\<rparr>))" by (simp add: sample_calm)
    show "recover_workspace_transactions sample_host sample_json (w1\<lparr>aw_faults := []\<rparr>) = (Inr report, w3)"
      using recovery results(2) by simp
  qed
  then show ?thesis using results by (auto simp: run recovery result_outcome_def)
qed

end
