(* ===== verification/Spec2Isabelle.thy ===== *)
theory Spec2Isabelle
  imports Projector_Refinement Terminal_Web Exec_Context_Safety Daemon_Properties Seatbelt_Safety
    Mcp_Gateway_Safety Brokered_Mcp_Run Deno_Lsp_Safety Workspace_Diff Workspace_Applied
begin

text \<open>
  Hyper Term is a terminal whose agents act only through a daemon. An agent proposes an
  operation, a person decides it, and only then the daemon compiles a sandbox for it, issues a
  capability lease that can be used once, starts the process and follows it to its end. All of
  this is written to an append-only journal; the state of the daemon, and the blocks that a client
  sees, are folds over the journal. The development models the Rust crates under
  \<^verbatim>\<open>src/crates\<close>, from the vocabulary of the protocol to the methods of the daemon, and proves
  what they promise each other.

  The parts, and the theories that model them.

  \<^item> Library. \<open>Prelude\<close> has the error monad (\<open>and_then\<close>, \<open>try_fold\<close>), saturating arithmetic on
    words, runs of fallible steps with their invariants, and sorted association lists (\<open>bt_\<close>) for
    \<^verbatim>\<open>BTreeMap\<close>. \<open>Std_Model\<close> models what the code uses of Rust's strings, paths and characters.
    \<open>Decimal\<close> is the decimal text of unsigned integers. \<open>Step\<close> has operations on a state that may fail, the relations that all parts of an operation
    obey (\<open>obeys\<close>, the locale \<open>step_preorder\<close>) and triples.

  \<^item> Protocol (\<^verbatim>\<open>hyper-term-protocol\<close>). \<open>Ids\<close> is \<^verbatim>\<open>ids.rs\<close>; \<open>Protocol_Sandbox\<close>,
    \<open>Protocol_Context\<close>, \<open>Protocol_Mcp\<close>, \<open>Domain\<close> and \<open>Block\<close> are the types and the small functions of
    \<^verbatim>\<open>sandbox.rs\<close>, \<^verbatim>\<open>execution_context.rs\<close>, \<^verbatim>\<open>mcp.rs\<close>, \<^verbatim>\<open>domain.rs\<close>, \<^verbatim>\<open>approval.rs\<close> and \<^verbatim>\<open>block.rs\<close>.
    \<open>Wire\<close> is the framing of \<^verbatim>\<open>wire.rs\<close>; \<open>Terminal_Web\<close> is the binary codec of \<^verbatim>\<open>terminal_web.rs\<close>
    with the two forwarders that use the codecs, in \<^verbatim>\<open>unix_server.rs\<close> and \<^verbatim>\<open>web_gateway.rs\<close>;
    \<open>Canonical_Json\<close> is \<^verbatim>\<open>canonical_mcp_json_value\<close>.

  \<^item> Core (\<^verbatim>\<open>hyper-term-core\<close>). \<open>Operation_Reducer\<close> (\<^verbatim>\<open>operation.rs\<close>), \<open>Projector\<close> and
    \<open>Projector_Refinement\<close> (\<^verbatim>\<open>projector.rs\<close>), \<open>Journal\<close> (\<^verbatim>\<open>journal.rs\<close>), \<open>Sandbox\<close> and
    \<open>Lease_Ledger\<close> (\<^verbatim>\<open>sandbox.rs\<close>), \<open>Terminal\<close> and \<open>Terminal_Replay\<close> (\<^verbatim>\<open>terminal.rs\<close>),
    \<open>Exec_Context\<close> and \<open>Exec_Context_Safety\<close> (\<^verbatim>\<open>execution_context.rs\<close>).

  \<^item> Backends (\<^verbatim>\<open>hyper-term-sandbox\<close>). \<open>Seatbelt\<close> and \<open>Seatbelt_Safety\<close> model the macOS launcher
    of \<^verbatim>\<open>macos.rs\<close>: the paths it resolves, the policy it writes, the command it runs. \<open>Launchers\<close>
    models \<open>compile\<close> of \<^verbatim>\<open>lima.rs\<close>.

  \<^item> Agents (\<^verbatim>\<open>hyper-term-drivers\<close> and the daemon's gateway). \<open>Mcp_Server\<close> and \<open>Mcp_Safety\<close> model the
    MCP session of \<^verbatim>\<open>mcp.rs\<close>, \<open>Driver_Codec\<close> the framing of \<^verbatim>\<open>codec.rs\<close>. \<open>Mcp_Gateway\<close> and
    \<open>Mcp_Gateway_Safety\<close> model the process between the session and the daemon (\<^verbatim>\<open>mcp_gateway.rs\<close>),
    \<open>Diff_Review\<close>, \<open>Brokered_Executor\<close> and \<open>Brokered_Safety\<close> the executor of brokered tools in the
    same file. \<open>Driver_Process\<close> is the supervisor of a driver process with its reader thread
    (\<^verbatim>\<open>process.rs\<close>), \<open>Deno_Lsp\<close> the client of the language server (\<^verbatim>\<open>deno_lsp.rs\<close>) on top of it, and
    \<open>Deno_Lsp_Safety\<close> what the client writes to the server, alone and when the executor calls it.

  \<^item> Daemon (\<^verbatim>\<open>hyper-term-daemon\<close>). \<open>Daemon_Types\<close> has the errors and the state, \<open>Daemon_Validation\<close>
    the checks and the approval details, \<open>Authority\<close> what \<open>record\<close> does under its lock and the replay
    of the journal, \<open>Daemon_Core\<close> the records, queries and subscribers, \<open>Daemon_Operations\<close> the life
    of an operation (\<^verbatim>\<open>lib.rs\<close>, \<^verbatim>\<open>approval_detail.rs\<close>), and \<open>Daemon_Terminal\<close> its execution, the user's
    shell, the input leases, the monitor thread and opening (\<^verbatim>\<open>daemon_terminal.rs\<close>).
    \<open>Daemon_Frame\<close> is the step relation \<open>daemon_move\<close> and the locales that prove a relation method
    by method; \<open>Daemon_Safety\<close> is the invariant of the daemon; \<open>Daemon_Run\<close> is a world and a whole
    run in it; \<open>Daemon_Properties\<close> has the properties. \<open>Brokered_Mcp\<close> is the authority over brokered
    tool calls (\<^verbatim>\<open>brokered_mcp_operation.rs\<close>) on top of the daemon and the executor,
    \<open>Brokered_Mcp_Safety\<close> its properties and \<open>Brokered_Mcp_Run\<close> a call that runs.

  \<^item> Workspaces (\<^verbatim>\<open>hyper-term-daemon\<close>). \<open>Workspace_Diff\<close> is the review of a change by hunks
    (\<^verbatim>\<open>workspace_diff.rs\<close>). \<open>Workspace_Files\<close> models the files of a workspace and the system calls of
    \<^verbatim>\<open>workspace_apply/workspace_io.rs\<close>, \<open>Workspace_Apply\<close> the reviewed plans and
    \<open>Workspace_Transaction\<close> the durable transaction that applies a set of them, both of
    \<^verbatim>\<open>workspace_apply.rs\<close>. \<open>Workspace_Apply_Safety\<close> has the rules for programs over the disk and the
    steps on one member, \<open>Workspace_Recovery\<close> the manifest in the journal and the recovery of a
    transaction, \<open>Workspace_Atomicity\<close> the application and the recovery of the journal, and
    \<open>Workspace_Applied\<close> the promises with an example.

  How the state corresponds. A Rust struct is a record with the same fields, an enum a datatype
  with the same constructors; fixed-width integers are words (\<open>u64 = 64 word\<close>), so that overflow is
  what the machine does, and \<^verbatim>\<open>usize\<close> lengths are natural numbers. Strings are lists of characters.
  A \<^verbatim>\<open>Result\<close> is a sum with the error on the left. \<^verbatim>\<open>DaemonInner\<close> is the record \<open>daemon_state\<close>: each
  mutex-guarded field is a field of it, and four fields observe what the code does to the outside
  (processes started, responses sent, directories removed). What the world answers (the clock,
  fresh identifiers, the disk, the PTY library, full channels) is the record \<open>daemon_env\<close>, whose
  answers are indexed by a tick that every question advances; so a theorem for every \<open>daemon_env\<close>
  is one for every behaviour of the world. The disk under a workspace is the record
  \<open>workspace_disk\<close>: names in directories lead to inodes, inodes to files, so that a hard link is a
  second name. Every system call consumes one entry of a schedule of faults: it works, it fails
  (a write after a part), or another program edits the disk before it. The process that dies is the
  schedule in which all later calls fail.

  Concurrency. A method of the daemon is one step of \<open>daemon_move\<close>: the model interleaves methods of
  clients and the steps of monitor threads in any order, but not the critical sections inside one
  method. What the code does between two locks of one method is not interleaved. One exception
  is a brokered call, where the lock matters: \<open>broker_move\<close> interleaves what callers do before they
  have the lock of an executor, and under it. The gateway's two threads are the order of its events.
  The reader thread of a driver process takes any steps before every access that a caller makes to
  what they share.

  What the lemmas show. For the reducer: the state machine, authorization before execution,
  stability of what was reviewed. For the projector: patches refine snapshots. For the journal:
  what was acknowledged survives, and what a failed write leaves. For sandboxes and contexts:
  canonical forms are fixed points and safe, environments are closed, leases are used at most
  once. For terminals: replay joins live output without a gap; the frames that carry it are read
  back, or are too large. For the daemon: a restart rebuilds the authority and settles what was
  interrupted; every process was allowed by the user and runs the reviewed command under its
  profile, at most once; a terminal's keyboard is held by one client. For the Seatbelt launcher: in the
  text of the policy the deepest rule over a path has the last clause (how \<^verbatim>\<open>sandbox-exec\<close> reads the
  text is not modelled), and the process is the one that was digested.
  For agents: a tool call is authorized before it is answered; the gateway runs what it proposed; an
  executor is asked once, for what was proposed, and asking again changes nothing; the
  executor calls a language server only about regular files of the snapshot, and what the client
  writes to the server is that, its handshake and shutdown and replies about the snapshot; the diff
  tool is exact. For driver processes: an effect that may have run is reported as unknown, by the
  stop or by the exit event. For workspaces: a selection of hunks is a merge of
  the two texts, by the diff that the call runs, and is refused when that diff is not the reviewed
  one (the diff has a deadline, so what it answers is an argument of each call); a transaction replaces all targets or none, whatever call fails and however often
  its recovery is interrupted, and what it reports is what happened. The last two rest on
  hypotheses, \<open>transaction_ok\<close>: the names of the targets, stages and backups are different entries
  (the code compares target paths as texts, so two spellings of one file are not refused), the
  JSON of a manifest is read as it was written, and a new file gets an inode that is not in use;
  on the journal holding no other transaction (\<open>unlogged\<close>); and on other programs leaving these
  names alone (\<open>calm\<close>). Four properties state what the code does although
  it means to do something else: a journal that a failed sync spoils, a snapshot that no transport
  carries, a gateway that stops, a stop that overwrites the verdict of the reader thread.

  Interfaces. The locales state what a client relies on and are interpreted on the model:
  runs of steps (\<open>Prelude\<close>), the journal as a log (\<open>Journal\<close>, \<open>Authority.event_sourced\<close>), preorders
  that operations obey (\<open>Step.step_preorder\<close>, \<open>Daemon_Frame.daemon_frame\<close>, \<open>daemon_total\<close>), each of them
  interpreted on several relations of the daemon, the gateway, the executor, the broker and the
  client of the language server.

  Termination and bounds. Every definition is total. Loops that read until the end of their input
  recurse on the input; there is no fuel. \<open>monitor_terminal\<close> takes the events its channel delivers
  as a list, which ends where the channel does; the loops of \<open>Deno_Lsp\<close> that wait until a deadline
  take the number of events that come before it, and give the time-out of the code when it is used
  up. Sums of \<^verbatim>\<open>usize\<close> that the code does not check wrap in \<open>Driver_Codec\<close>. The bounds of the code (frame, argument, replay
  and environment limits) are definitions with the code's names and values.

  Not modelled, and why. The texts of errors, except where the code compares or stores them.
  serde's encoders and decoders, SHA-256, Base64, the crate \<^verbatim>\<open>similar\<close>, UUID generation, the PTY
  library, git, the VM, Deno and the operating system are parameters. What \<^verbatim>\<open>fsync\<close> makes durable: a
  call is on the disk of the model when it returns, so the loss of unsynchronised writes in a
  power failure is not modelled. The desktop shell (\<^verbatim>\<open>desktop.rs\<close>, \<^verbatim>\<open>desktop_bundle.rs\<close>,
  \<^verbatim>\<open>desktop_crash.rs\<close>), the HTTP and socket servers beside their forwarders, the agent processes
  (\<^verbatim>\<open>acp.rs\<close>, \<^verbatim>\<open>codex.rs\<close>, \<^verbatim>\<open>mcp_client.rs\<close>), the spawning of driver processes and the sandbox of
  the Deno ones, what the PTY library adds to the environment of a process, and the artifact stores are input and output around the core and are listed as such in the manifest.
\<close>

end
